(* ===== verification/Prelude.thy ===== *)
theory Prelude
  imports Main "HOL-Library.Word" "HOL-Library.Monad_Syntax"
begin

text \<open>
  Shared vocabulary of the development: the machine types the C++ sources use, results
  that carry an error message (\<open>bool f(..., std::string \& error)\<close> becomes a value of
  \<open>'a res\<close>), decimal rendering (\<open>std::to_string\<close>), bytes and characters, and generic
  facts on lists, options and words that every component uses.  The target is a 64-bit
  platform: \<open>size_t\<close> is 64 bits wide and \<open>int\<close> 32 bits wide.
\<close>

unbundle bit_operations_syntax

type_synonym u8 = "8 word"
type_synonym u16 = "16 word"
type_synonym u32 = "32 word"
type_synonym u64 = "64 word"

text \<open>\<open>std::numeric_limits<size_t>::max()\<close>.\<close>

definition size_max :: nat where "size_max = 18446744073709551615"

text \<open>The conversion of a signed integer to \<open>size_t\<close> wraps around.\<close>

definition size_cast :: "int \<Rightarrow> nat" where
  "size_cast i = nat (i mod 2 ^ 64)"

text \<open>A conversion to a signed type keeps the low bits.\<close>

definition to_int32 :: "int \<Rightarrow> int" where "to_int32 i = signed_take_bit 31 i"
definition to_int64 :: "int \<Rightarrow> int" where "to_int64 i = signed_take_bit 63 i"

text \<open>A fallible operation: \<open>Inl\<close> the text written to \<open>error\<close>, or \<open>Inr\<close> the results.\<close>

type_synonym 'a res = "string + 'a"

named_theorems res_simps \<open>inversion of results\<close>
named_theorems wire_simps \<open>evaluation of the wire readers on encoded bytes\<close>

definition bind_res :: "'a res \<Rightarrow> ('a \<Rightarrow> 'b res) \<Rightarrow> 'b res" where
  "bind_res m k = (case m of Inl e \<Rightarrow> Inl e | Inr x \<Rightarrow> k x)"

definition need_some :: "string \<Rightarrow> 'a option \<Rightarrow> 'a res" where
  "need_some msg v = (case v of None \<Rightarrow> Inl msg | Some x \<Rightarrow> Inr x)"

definition is_ok :: "'a res \<Rightarrow> bool" where
  "is_ok r = (case r of Inl _ \<Rightarrow> False | Inr _ \<Rightarrow> True)"

lemma bind_res_simps [simp]:
  "bind_res (Inl e) k = Inl e"
  "bind_res (Inr x) k = k x"
  by (simp_all add: bind_res_def)

lemma bind_res_Inr [res_simps]:
  "bind_res m k = Inr y \<longleftrightarrow> (\<exists>x. m = Inr x \<and> k x = Inr y)"
  by (cases m) auto

lemma need_some_simps [simp]:
  "need_some msg None = Inl msg"
  "need_some msg (Some x) = Inr x"
  by (simp_all add: need_some_def)

lemma need_some_Inr [res_simps]: "need_some msg v = Inr x \<longleftrightarrow> v = Some x"
  by (cases v) auto

lemma is_ok_simps [simp]: "is_ok (Inr x)" "\<not> is_ok (Inl e)"
  by (simp_all add: is_ok_def)

lemma if_Inl_Inr [res_simps]:
  "(if b then Inl e else m) = Inr x \<longleftrightarrow> \<not> b \<and> m = Inr x"
  by simp

text \<open>A loop that stops at the first error.\<close>

fun each_res :: "('a \<Rightarrow> 'b res) \<Rightarrow> 'a list \<Rightarrow> 'b list res" where
  "each_res f [] = Inr []"
| "each_res f (x # xs) = bind_res (f x) (\<lambda>y. bind_res (each_res f xs) (\<lambda>ys. Inr (y # ys)))"

lemma each_res_Inr: "each_res f xs = Inr ys \<longleftrightarrow> list_all2 (\<lambda>x y. f x = Inr y) xs ys"
  by (induction xs arbitrary: ys) (auto simp: res_simps list_all2_Cons1)

lemma each_res_map: "(\<And>x. x \<in> set xs \<Longrightarrow> f x = Inr (g x)) \<Longrightarrow> each_res f xs = Inr (map g xs)"
  by (induction xs) simp_all

text \<open>An operation that may also not return, or whose behaviour C++ leaves undefined: \<open>None\<close>.\<close>

type_synonym 'a run = "'a res option"

definition bind_run :: "'a run \<Rightarrow> ('a \<Rightarrow> 'b run) \<Rightarrow> 'b run" where
  "bind_run m k = (case m of None \<Rightarrow> None | Some (Inl e) \<Rightarrow> Some (Inl e) | Some (Inr x) \<Rightarrow> k x)"

definition fail_with :: "('e \<Rightarrow> string) \<Rightarrow> ('e + 'a) option \<Rightarrow> 'a run" where
  "fail_with msg m = (case m of None \<Rightarrow> None | Some (Inl e) \<Rightarrow> Some (Inl (msg e)) | Some (Inr x) \<Rightarrow> Some (Inr x))"

lemma bind_run_simps [simp]:
  "bind_run None k = None"
  "bind_run (Some (Inl e)) k = Some (Inl e)"
  "bind_run (Some (Inr x)) k = k x"
  by (simp_all add: bind_run_def)

lemma bind_run_Inr [res_simps]:
  "bind_run m k = Some (Inr y) \<longleftrightarrow> (\<exists>x. m = Some (Inr x) \<and> k x = Some (Inr y))"
  by (auto simp: bind_run_def split: option.splits sum.splits)

lemma bind_run_None: "bind_run m k = None \<longleftrightarrow> m = None \<or> (\<exists>x. m = Some (Inr x) \<and> k x = None)"
  by (auto simp: bind_run_def split: option.splits sum.splits)

lemma fail_with_simps [simp]:
  "fail_with msg None = None"
  "fail_with msg (Some (Inl e)) = Some (Inl (msg e))"
  "fail_with msg (Some (Inr x)) = Some (Inr x)"
  "fail_with msg m = None \<longleftrightarrow> m = None"
  by (auto simp: fail_with_def split: option.splits sum.splits)

lemma fail_with_Inr [res_simps]: "fail_with msg m = Some (Inr x) \<longleftrightarrow> m = Some (Inr x)"
  by (auto simp: fail_with_def split: option.splits sum.splits)

lemma if_Some_Inl_Inr [res_simps]:
  "(if b then Some (Inl e) else m) = Some (Inr x) \<longleftrightarrow> \<not> b \<and> m = Some (Inr x)"
  by simp

fun each_run :: "('a \<Rightarrow> 'b run) \<Rightarrow> 'a list \<Rightarrow> 'b list run" where
  "each_run f [] = Some (Inr [])"
| "each_run f (x # xs) = bind_run (f x) (\<lambda>y. bind_run (each_run f xs) (\<lambda>ys. Some (Inr (y # ys))))"

lemma each_run_Inr: "each_run f xs = Some (Inr ys) \<longleftrightarrow> list_all2 (\<lambda>x y. f x = Some (Inr y)) xs ys"
  by (induction xs arbitrary: ys) (auto simp: res_simps list_all2_Cons1)

lemma each_run_None: "each_run f xs = None \<Longrightarrow> \<exists>x\<in>set xs. f x = None"
  by (induction xs) (auto simp: bind_run_None)

subsection \<open>Decimal rendering\<close>

definition digit_char :: "nat \<Rightarrow> char" where
  "digit_char d = char_of (48 + d)"

fun nat_to_string :: "nat \<Rightarrow> string" where
  "nat_to_string n = (if n < 10 then [digit_char n]
                      else nat_to_string (n div 10) @ [digit_char (n mod 10)])"

declare nat_to_string.simps [simp del]

definition int_to_string :: "int \<Rightarrow> string" where
  "int_to_string i = (if i < 0 then CHR ''-'' # nat_to_string (nat (- i)) else nat_to_string (nat i))"

lemma digit_char_eval:
  "digit_char 0 = CHR ''0''" "digit_char (Suc 0) = CHR ''1''" "digit_char 2 = CHR ''2''" "digit_char 3 = CHR ''3''"
  "digit_char 4 = CHR ''4''" "digit_char 5 = CHR ''5''" "digit_char 6 = CHR ''6''" "digit_char 7 = CHR ''7''"
  "digit_char 8 = CHR ''8''" "digit_char 9 = CHR ''9''"
  by code_simp+

lemma nat_to_string_small: "n < 10 \<Longrightarrow> nat_to_string n = [digit_char n]"
  by (subst nat_to_string.simps) simp

lemma nat_to_string_nonempty: "nat_to_string n \<noteq> []"
  by (subst nat_to_string.simps) simp

lemma of_char_digit [simp]: "d < 10 \<Longrightarrow> (of_char (digit_char d) :: nat) = 48 + d"
  by (simp add: digit_char_def)

subsection \<open>Bytes and characters\<close>

text \<open>A \<open>std::string\<close> is a list of bytes; \<open>byte_of\<close> and \<open>char_of_byte\<close> are the casts
  between \<open>char\<close> and \<open>uint8_t\<close>.\<close>

definition byte_of :: "char \<Rightarrow> u8" where
  "byte_of c = of_char c"

definition char_of_byte :: "u8 \<Rightarrow> char" where
  "char_of_byte b = char_of (unat b)"

lemma unat_byte_of: "unat (byte_of c) = of_char c"
proof -
  have "byte_of c = of_nat (of_char c)"
    by (simp only: byte_of_def of_nat_of_char)
  moreover have "(of_char c :: nat) < 256" by simp
  ultimately show ?thesis by (simp add: unat_of_nat)
qed

lemma u8_bound: "unat (b :: u8) < 256"
  using unsigned_less [of b, where ?'a = nat] by simp

lemma u16_bound: "unat (b :: u16) < 65536"
  using unsigned_less [of b, where ?'a = nat] by simp

lemma u32_bound: "unat (b :: u32) < 4294967296"
  using unsigned_less [of b, where ?'a = nat] by simp

lemma u64_bound: "unat (b :: u64) < 18446744073709551616"
  using unsigned_less [of b, where ?'a = nat] by simp

lemma char_of_byte_of [simp]: "char_of_byte (byte_of c) = c"
  by (simp add: char_of_byte_def unat_byte_of)

lemma byte_of_char_of [simp]: "byte_of (char_of_byte b) = b"
proof -
  have "unat (byte_of (char_of_byte b)) = unat b"
    using u8_bound [of b] by (simp add: unat_byte_of char_of_byte_def)
  then show ?thesis by (simp add: word_unat_eq_iff)
qed

lemma char_byte_comp [simp]:
  "char_of_byte \<circ> byte_of = id"
  "byte_of \<circ> char_of_byte = id"
  by (simp_all add: fun_eq_iff)

lemma map_char_byte:
  "map char_of_byte (map byte_of s) = s"
  "map byte_of (map char_of_byte bs) = bs"
  by simp_all

subsection \<open>Decimal digits\<close>

fun dec_value :: "nat \<Rightarrow> string \<Rightarrow> nat" where
  "dec_value acc [] = acc"
| "dec_value acc (c # cs) = dec_value (10 * acc + (of_char c - 48)) cs"

lemma dec_value_append: "dec_value acc (xs @ ys) = dec_value (dec_value acc xs) ys"
  by (induction xs arbitrary: acc) auto

lemma dec_value_nat_to_string: "dec_value 0 (nat_to_string n) = n"
proof (induction n rule: nat_to_string.induct)
  case (1 n)
  show ?case
  proof (cases "n < 10")
    case True
    then show ?thesis by (subst nat_to_string.simps) simp
  next
    case False
    with 1 have "dec_value 0 (nat_to_string (n div 10)) = n div 10" by simp
    with False show ?thesis by (subst nat_to_string.simps) (simp add: dec_value_append)
  qed
qed

subsection \<open>Lists\<close>

lemma two_items: "[0..<2] = [0, Suc 0]" "[Suc 0..<2] = [Suc 0]" "replicate 2 x = [x, x]"
  by (simp_all add: numeral_2_eq_2)

text \<open>A loop that appends to an output buffer.\<close>

lemma foldl_appending:
  assumes "\<And>out x. f out x = out @ g x"
  shows "foldl f out xs = out @ concat (map g xs)"
  by (induction xs arbitrary: out) (simp_all add: assms)

lemma length_concat_const:
  assumes "\<And>x. x \<in> set xs \<Longrightarrow> length (f x) = k"
  shows "length (concat (map f xs)) = k * length xs"
  using assms by (induction xs) auto

lemma list_all2_upt: "list_all2 P [a..<b] xs \<longleftrightarrow> length xs = b - a \<and> (\<forall>i<length xs. P (a + i) (xs ! i))"
  by (auto simp: list_all2_conv_all_nth)

lemma list_all2_enumerate:
  "list_all2 P (List.enumerate k ms) xs \<longleftrightarrow>
     length xs = length ms \<and> (\<forall>i<length xs. P (k + i, ms ! i) (xs ! i))"
  by (auto simp: list_all2_conv_all_nth nth_enumerate_eq)

text \<open>An array read at a computed index: \<open>None\<close> outside the array.\<close>

definition read_at :: "'a list \<Rightarrow> int \<Rightarrow> 'a option" where
  "read_at xs i = (if 0 \<le> i \<and> i < int (length xs) then Some (xs ! nat i) else None)"

lemma read_at_nth: "0 \<le> i \<Longrightarrow> i < int (length xs) \<Longrightarrow> read_at xs i = Some (xs ! nat i)"
  by (simp add: read_at_def)

lemma those_Some: "those xs = Some ys \<longleftrightarrow> xs = map Some ys"
proof (induction xs arbitrary: ys)
  case (Cons x xs)
  then show ?case by (cases ys; cases x) auto
qed auto

lemma those_length: "those xs = Some ys \<Longrightarrow> length ys = length xs"
  by (simp add: those_Some)

lemma those_exists: "(\<And>x. x \<in> set xs \<Longrightarrow> x \<noteq> None) \<Longrightarrow> \<exists>ys. those xs = Some ys"
proof (induction xs)
  case (Cons x xs)
  from Cons.prems [of x] obtain y where "x = Some y" by auto
  moreover obtain ys where "those xs = Some ys" using Cons by auto
  ultimately show ?case by simp
qed simp

text \<open>A list cut into rows of the same length.\<close>

lemma concat_rows: "concat (map (\<lambda>i. take d (drop (i * d) xs)) [0..<n]) = take (n * d) xs"
proof (induction n)
  case (Suc n)
  then show ?case using take_add [of "n * d" d xs] by (simp add: add.commute)
qed simp

end
