(* ===== verification/Ieee.thy ===== *)
theory Ieee
  imports Prelude
begin

text \<open>
  The C++ floating-point types as bit patterns: \<open>float\<close> is \<open>f32\<close> (binary32) and
  \<open>double\<close> is \<open>f64\<close> (binary64), with IEEE 754 round-to-nearest-even arithmetic, no
  extended precision and no contraction.  The sources' \<open>std::memcpy\<close> between a float and an
  integer is then the identity.  The operations are computed exactly on dyadic numbers
  and rounded once.  A NaN result is the default quiet NaN; the sources only test for NaN,
  they never look at its payload.  \<open>std::cos\<close> and the random generators have no
  prescribed result and stay parameters of the definitions that call them.
\<close>

type_synonym f32 = "32 word"
type_synonym f64 = "64 word"

subsection \<open>Formats, on natural numbers\<close>

text \<open>Precision (hidden bit included), exponent of the smallest subnormal, total width.\<close>

record fmt =
  fm_prec :: nat
  fm_emin :: int
  fm_width :: nat

definition b32 :: fmt where
  "b32 = \<lparr>fm_prec = 24, fm_emin = - 149, fm_width = 32\<rparr>"

definition b64 :: fmt where
  "b64 = \<lparr>fm_prec = 53, fm_emin = - 1074, fm_width = 64\<rparr>"

definition fp_signbit :: "fmt \<Rightarrow> nat" where
  "fp_signbit F = 2 ^ (fm_width F - 1)"

text \<open>The pattern of infinity: all exponent bits set.\<close>

definition fp_inf :: "fmt \<Rightarrow> nat" where
  "fp_inf F = fp_signbit F - 2 ^ (fm_prec F - 1)"

definition fp_qnan :: "fmt \<Rightarrow> nat" where
  "fp_qnan F = fp_inf F + 2 ^ (fm_prec F - 2)"

definition fp_neg :: "fmt \<Rightarrow> nat \<Rightarrow> bool" where
  "fp_neg F n \<longleftrightarrow> fp_signbit F \<le> n"

definition fp_mag :: "fmt \<Rightarrow> nat \<Rightarrow> nat" where
  "fp_mag F n = n mod fp_signbit F"

definition fp_nan :: "fmt \<Rightarrow> nat \<Rightarrow> bool" where
  "fp_nan F n \<longleftrightarrow> fp_inf F < fp_mag F n"

definition fp_finite :: "fmt \<Rightarrow> nat \<Rightarrow> bool" where
  "fp_finite F n \<longleftrightarrow> fp_mag F n < fp_inf F"

definition fp_sign :: "fmt \<Rightarrow> bool \<Rightarrow> nat \<Rightarrow> nat" where
  "fp_sign F neg m = (if neg then fp_signbit F + m else m)"

text \<open>The order key: comparisons of two patterns that are not NaN compare these integers.\<close>

definition fp_key :: "fmt \<Rightarrow> nat \<Rightarrow> int" where
  "fp_key F n = (if fp_neg F n then - int (fp_mag F n) else int (fp_mag F n))"

text \<open>A finite pattern is \<open>m * 2 ^ e\<close>.\<close>

definition fp_hidden :: "fmt \<Rightarrow> nat" where
  "fp_hidden F = 2 ^ (fm_prec F - 1)"

definition fp_field :: "fmt \<Rightarrow> nat \<Rightarrow> nat" where
  "fp_field F n = fp_mag F n div fp_hidden F"

definition fp_mant :: "fmt \<Rightarrow> nat \<Rightarrow> nat" where
  "fp_mant F n = (if fp_field F n = 0 then fp_mag F n mod fp_hidden F
                  else fp_mag F n mod fp_hidden F + fp_hidden F)"

definition fp_exp :: "fmt \<Rightarrow> nat \<Rightarrow> int" where
  "fp_exp F n = (if fp_field F n = 0 then fm_emin F else fm_emin F + int (fp_field F n) - 1)"

subsection \<open>Rounding\<close>

definition round_quot :: "nat \<Rightarrow> nat \<Rightarrow> nat \<Rightarrow> nat" where
  "round_quot q r d = (if 2 * r < d \<or> (2 * r = d \<and> even q) then q else Suc q)"

definition round_div_even :: "nat \<Rightarrow> nat \<Rightarrow> nat" where
  "round_div_even n d = round_quot (n div d) (n mod d) d"

fun nat_len :: "nat \<Rightarrow> nat" where
  "nat_len n = (if n = 0 then 0 else Suc (nat_len (n div 2)))"

declare nat_len.simps [simp del]

definition nat_bits :: "nat \<Rightarrow> int" where
  "nat_bits n = int (nat_len n)"

text \<open>\<open>n / d * 2 ^ k\<close> scaled to a fraction with exponent 0 in the denominator.\<close>

definition shift_up :: "nat \<Rightarrow> int \<Rightarrow> nat" where
  "shift_up n k = n * 2 ^ nat k"

text \<open>The exponent of the leading bit of \<open>n / d\<close>: the difference \<open>g\<close> of the bit lengths, or one less.\<close>

definition fp_top :: "nat \<Rightarrow> nat \<Rightarrow> int \<Rightarrow> int" where
  "fp_top n d g = (if shift_up n (- g) < shift_up d g then g - 1 else g)"

text \<open>The exponent of the last kept bit, when the leading bit has exponent \<open>t\<close>.\<close>

definition fp_last :: "fmt \<Rightarrow> int \<Rightarrow> int" where
  "fp_last F t = max (t - int (fm_prec F) + 1) (fm_emin F)"

text \<open>
  The magnitude pattern of \<open>m * 2 ^ e\<close>; a mantissa that was rounded up to the next power
  of two carries into the exponent field by itself, and too large a value is infinity.
\<close>

definition fp_pack :: "fmt \<Rightarrow> int \<Rightarrow> nat \<Rightarrow> nat" where
  "fp_pack F e m = min (nat (e - fm_emin F) * fp_hidden F + m) (fp_inf F)"

definition fp_round_at :: "fmt \<Rightarrow> nat \<Rightarrow> nat \<Rightarrow> int \<Rightarrow> int \<Rightarrow> nat" where
  "fp_round_at F n d k e = fp_pack F e (round_div_even (shift_up n (k - e)) (shift_up d (e - k)))"

text \<open>The magnitude pattern of \<open>n / d * 2 ^ k\<close>, rounded to nearest, ties to even.\<close>

definition fp_round :: "fmt \<Rightarrow> nat \<Rightarrow> nat \<Rightarrow> int \<Rightarrow> nat" where
  "fp_round F n d k =
     (if n = 0 then 0
      else fp_round_at F n d k (fp_last F (fp_top n d (nat_bits n - nat_bits d) + k)))"

text \<open>A signed integer times \<open>2 ^ e\<close>; \<open>z\<close> is the sign of a zero.\<close>

definition fp_of_scaled :: "fmt \<Rightarrow> bool \<Rightarrow> int \<Rightarrow> int \<Rightarrow> nat" where
  "fp_of_scaled F z v e =
     (if v = 0 then fp_sign F z 0 else fp_sign F (v < 0) (fp_round F (nat \<bar>v\<bar>) 1 e))"

definition fp_scaled :: "fmt \<Rightarrow> nat \<Rightarrow> int \<Rightarrow> int" where
  "fp_scaled F x e = (if fp_neg F x then - int (shift_up (fp_mant F x) (fp_exp F x - e))
                      else int (shift_up (fp_mant F x) (fp_exp F x - e)))"

definition fp_of_int :: "fmt \<Rightarrow> int \<Rightarrow> nat" where
  "fp_of_int F i = fp_of_scaled F False i 0"

text \<open>The exact sum of two finite patterns, on the smaller of their exponents \<open>e\<close>.\<close>

definition fp_add_at :: "fmt \<Rightarrow> nat \<Rightarrow> nat \<Rightarrow> int \<Rightarrow> nat" where
  "fp_add_at F x y e =
     fp_of_scaled F (fp_neg F x \<and> fp_neg F y) (fp_scaled F x e + fp_scaled F y e) e"

definition fp_add :: "fmt \<Rightarrow> nat \<Rightarrow> nat \<Rightarrow> nat" where
  "fp_add F x y =
     (if fp_nan F x \<or> fp_nan F y then fp_qnan F
      else if \<not> fp_finite F x then
        (if \<not> fp_finite F y \<and> fp_neg F x \<noteq> fp_neg F y then fp_qnan F else x)
      else if \<not> fp_finite F y then y
      else if fp_mag F x = 0 then
        (if fp_mag F y = 0 then fp_sign F (fp_neg F x \<and> fp_neg F y) 0 else y)
      else if fp_mag F y = 0 then x
      else fp_add_at F x y (min (fp_exp F x) (fp_exp F y)))"

definition fp_negate :: "fmt \<Rightarrow> nat \<Rightarrow> nat" where
  "fp_negate F x = fp_sign F (\<not> fp_neg F x) (fp_mag F x)"

definition fp_sub :: "fmt \<Rightarrow> nat \<Rightarrow> nat \<Rightarrow> nat" where
  "fp_sub F x y = fp_add F x (fp_negate F y)"

definition fp_mul :: "fmt \<Rightarrow> nat \<Rightarrow> nat \<Rightarrow> nat" where
  "fp_mul F x y =
     (if fp_nan F x \<or> fp_nan F y then fp_qnan F
      else if \<not> fp_finite F x \<or> \<not> fp_finite F y then
        (if fp_mag F x = 0 \<or> fp_mag F y = 0 then fp_qnan F else fp_sign F (fp_neg F x \<noteq> fp_neg F y) (fp_inf F))
      else fp_sign F (fp_neg F x \<noteq> fp_neg F y) (fp_round F (fp_mant F x * fp_mant F y) 1 (fp_exp F x + fp_exp F y)))"

definition fp_div :: "fmt \<Rightarrow> nat \<Rightarrow> nat \<Rightarrow> nat" where
  "fp_div F x y =
     (if fp_nan F x \<or> fp_nan F y then fp_qnan F
      else if \<not> fp_finite F x then
        (if \<not> fp_finite F y then fp_qnan F else fp_sign F (fp_neg F x \<noteq> fp_neg F y) (fp_inf F))
      else if \<not> fp_finite F y then fp_sign F (fp_neg F x \<noteq> fp_neg F y) 0
      else if fp_mag F y = 0 then
        (if fp_mag F x = 0 then fp_qnan F else fp_sign F (fp_neg F x \<noteq> fp_neg F y) (fp_inf F))
      else fp_sign F (fp_neg F x \<noteq> fp_neg F y) (fp_round F (fp_mant F x) (fp_mant F y) (fp_exp F x - fp_exp F y)))"

text \<open>Integer square root, by bits.\<close>

fun isqrt_bits :: "nat \<Rightarrow> nat \<Rightarrow> nat \<Rightarrow> nat" where
  "isqrt_bits 0 n r = r"
| "isqrt_bits (Suc b) n r =
     isqrt_bits b n (if (r + 2 ^ b) * (r + 2 ^ b) \<le> n then r + 2 ^ b else r)"

definition isqrt :: "nat \<Rightarrow> nat" where
  "isqrt n = isqrt_bits (nat_len n) n 0"

text \<open>
  \<open>std::sqrt\<close> is correctly rounded: with an even exponent and enough extra bits the
  integer root decides the rounding, an inexact root being marked by a sticky bit below
  the last place.
\<close>

definition fp_sqrt_root :: "fmt \<Rightarrow> nat \<Rightarrow> nat \<Rightarrow> int \<Rightarrow> nat" where
  "fp_sqrt_root F s r k =
     fp_round F (if r * r = s then 2 * r else 2 * r + 1) 1 (k div 2 - int (fm_prec F + 2) - 1)"

definition fp_sqrt_scaled :: "fmt \<Rightarrow> nat \<Rightarrow> int \<Rightarrow> nat" where
  "fp_sqrt_scaled F s k = fp_sqrt_root F s (isqrt s) k"

definition fp_sqrt :: "fmt \<Rightarrow> nat \<Rightarrow> nat" where
  "fp_sqrt F x =
     (if fp_nan F x then fp_qnan F
      else if fp_mag F x = 0 then x
      else if fp_neg F x then fp_qnan F
      else if \<not> fp_finite F x then x
      else if fp_exp F x mod 2 = 1
        then fp_sqrt_scaled F (2 * fp_mant F x * 4 ^ (fm_prec F + 2)) (fp_exp F x - 1)
        else fp_sqrt_scaled F (fp_mant F x * 4 ^ (fm_prec F + 2)) (fp_exp F x))"

text \<open>The integer part, towards zero and towards minus and plus infinity.\<close>

definition fp_trunc_abs :: "fmt \<Rightarrow> nat \<Rightarrow> nat" where
  "fp_trunc_abs F x = shift_up (fp_mant F x) (fp_exp F x) div 2 ^ nat (- fp_exp F x)"

definition fp_exact_int :: "fmt \<Rightarrow> nat \<Rightarrow> bool" where
  "fp_exact_int F x \<longleftrightarrow> shift_up (fp_mant F x) (fp_exp F x) mod 2 ^ nat (- fp_exp F x) = 0"

definition fp_trunc :: "fmt \<Rightarrow> nat \<Rightarrow> int" where
  "fp_trunc F x = (if fp_neg F x then - int (fp_trunc_abs F x) else int (fp_trunc_abs F x))"

definition fp_floor :: "fmt \<Rightarrow> nat \<Rightarrow> int" where
  "fp_floor F x = (if fp_neg F x \<and> \<not> fp_exact_int F x then fp_trunc F x - 1 else fp_trunc F x)"

definition fp_ceil :: "fmt \<Rightarrow> nat \<Rightarrow> int" where
  "fp_ceil F x = (if \<not> fp_neg F x \<and> \<not> fp_exact_int F x then fp_trunc F x + 1 else fp_trunc F x)"

text \<open>A conversion between the formats: exact when the target is wider.\<close>

definition fp_convert :: "fmt \<Rightarrow> fmt \<Rightarrow> nat \<Rightarrow> nat" where
  "fp_convert F G x =
     (if fp_nan F x then fp_qnan G
      else if \<not> fp_finite F x then fp_sign G (fp_neg F x) (fp_inf G)
      else fp_sign G (fp_neg F x) (fp_round G (fp_mant F x) 1 (fp_exp F x)))"

subsection \<open>\<open>float\<close> and \<open>double\<close>\<close>

definition f32_finite :: "f32 \<Rightarrow> bool" where
  "f32_finite x = fp_finite b32 (unat x)"

definition f32_nan :: "f32 \<Rightarrow> bool" where
  "f32_nan x = fp_nan b32 (unat x)"

definition f32_key :: "f32 \<Rightarrow> int" where
  "f32_key x = fp_key b32 (unat x)"

definition f32_lt :: "f32 \<Rightarrow> f32 \<Rightarrow> bool" where
  "f32_lt x y \<longleftrightarrow> \<not> f32_nan x \<and> \<not> f32_nan y \<and> f32_key x < f32_key y"

definition f32_le :: "f32 \<Rightarrow> f32 \<Rightarrow> bool" where
  "f32_le x y \<longleftrightarrow> \<not> f32_nan x \<and> \<not> f32_nan y \<and> f32_key x \<le> f32_key y"

definition f32_eq :: "f32 \<Rightarrow> f32 \<Rightarrow> bool" where
  "f32_eq x y \<longleftrightarrow> \<not> f32_nan x \<and> \<not> f32_nan y \<and> f32_key x = f32_key y"

definition f32_add :: "f32 \<Rightarrow> f32 \<Rightarrow> f32" where
  "f32_add x y = of_nat (fp_add b32 (unat x) (unat y))"

definition f32_sub :: "f32 \<Rightarrow> f32 \<Rightarrow> f32" where
  "f32_sub x y = of_nat (fp_sub b32 (unat x) (unat y))"

definition f32_mul :: "f32 \<Rightarrow> f32 \<Rightarrow> f32" where
  "f32_mul x y = of_nat (fp_mul b32 (unat x) (unat y))"

definition f32_div :: "f32 \<Rightarrow> f32 \<Rightarrow> f32" where
  "f32_div x y = of_nat (fp_div b32 (unat x) (unat y))"

definition f64_finite :: "f64 \<Rightarrow> bool" where
  "f64_finite x = fp_finite b64 (unat x)"

definition f64_nan :: "f64 \<Rightarrow> bool" where
  "f64_nan x = fp_nan b64 (unat x)"

definition f64_key :: "f64 \<Rightarrow> int" where
  "f64_key x = fp_key b64 (unat x)"

definition f64_lt :: "f64 \<Rightarrow> f64 \<Rightarrow> bool" where
  "f64_lt x y \<longleftrightarrow> \<not> f64_nan x \<and> \<not> f64_nan y \<and> f64_key x < f64_key y"

definition f64_le :: "f64 \<Rightarrow> f64 \<Rightarrow> bool" where
  "f64_le x y \<longleftrightarrow> \<not> f64_nan x \<and> \<not> f64_nan y \<and> f64_key x \<le> f64_key y"

definition f64_eq :: "f64 \<Rightarrow> f64 \<Rightarrow> bool" where
  "f64_eq x y \<longleftrightarrow> \<not> f64_nan x \<and> \<not> f64_nan y \<and> f64_key x = f64_key y"

definition f64_add :: "f64 \<Rightarrow> f64 \<Rightarrow> f64" where
  "f64_add x y = of_nat (fp_add b64 (unat x) (unat y))"

definition f64_sub :: "f64 \<Rightarrow> f64 \<Rightarrow> f64" where
  "f64_sub x y = of_nat (fp_sub b64 (unat x) (unat y))"

definition f64_mul :: "f64 \<Rightarrow> f64 \<Rightarrow> f64" where
  "f64_mul x y = of_nat (fp_mul b64 (unat x) (unat y))"

definition f64_div :: "f64 \<Rightarrow> f64 \<Rightarrow> f64" where
  "f64_div x y = of_nat (fp_div b64 (unat x) (unat y))"

definition f64_sqrt :: "f64 \<Rightarrow> f64" where
  "f64_sqrt x = of_nat (fp_sqrt b64 (unat x))"

definition f64_abs :: "f64 \<Rightarrow> f64" where
  "f64_abs x = of_nat (fp_mag b64 (unat x))"

definition f32_sqrt :: "f32 \<Rightarrow> f32" where
  "f32_sqrt a = of_nat (fp_sqrt b32 (unat a))"

definition f32_of_int :: "int \<Rightarrow> f32" where
  "f32_of_int i = of_nat (fp_of_int b32 i)"

definition f32_negate :: "f32 \<Rightarrow> f32" where
  "f32_negate a = of_nat (fp_negate b32 (unat a))"

definition f64_of_int :: "int \<Rightarrow> f64" where
  "f64_of_int i = of_nat (fp_of_int b64 i)"

definition f64_of_f32 :: "f32 \<Rightarrow> f64" where
  "f64_of_f32 x = of_nat (fp_convert b32 b64 (unat x))"

definition f32_of_f64 :: "f64 \<Rightarrow> f32" where
  "f32_of_f64 x = of_nat (fp_convert b64 b32 (unat x))"

text \<open>\<open>std::max\<close> and \<open>std::min\<close>, which return the first argument when the order does not decide.\<close>

definition f64_max :: "f64 \<Rightarrow> f64 \<Rightarrow> f64" where
  "f64_max a b = (if f64_lt a b then b else a)"

definition f64_min :: "f64 \<Rightarrow> f64 \<Rightarrow> f64" where
  "f64_min a b = (if f64_lt b a then b else a)"

text \<open>\<open>static_cast\<close> of a double to a signed integer of \<open>w\<close> bits: undefined (\<open>None\<close>) when
  the truncated value does not fit.\<close>

definition fits_sint :: "nat \<Rightarrow> int \<Rightarrow> bool" where
  "fits_sint w t \<longleftrightarrow> - (2 ^ (w - 1)) \<le> t \<and> t < 2 ^ (w - 1)"

definition to_sint :: "nat \<Rightarrow> f64 \<Rightarrow> int \<Rightarrow> int option" where
  "to_sint w x t = (if f64_finite x \<and> fits_sint w t then Some t else None)"

definition f64_to_sint :: "nat \<Rightarrow> f64 \<Rightarrow> int option" where
  "f64_to_sint w x = to_sint w x (fp_trunc b64 (unat x))"

text \<open>\<open>std::floor\<close> and \<open>std::ceil\<close> followed by the same conversion.\<close>

definition f64_floor_sint :: "nat \<Rightarrow> f64 \<Rightarrow> int option" where
  "f64_floor_sint w x = to_sint w x (fp_floor b64 (unat x))"

definition f64_ceil_sint :: "nat \<Rightarrow> f64 \<Rightarrow> int option" where
  "f64_ceil_sint w x = to_sint w x (fp_ceil b64 (unat x))"

text \<open>Constants of the sources: 0, 1/2, 1, -1, 2, as \<open>float\<close> and \<open>double\<close>.\<close>

definition f32_zero :: f32 where "f32_zero = 0"
definition f32_half :: f32 where "f32_half = 0x3F000000"
definition f32_one :: f32 where "f32_one = 0x3F800000"
definition f32_minus_one :: f32 where "f32_minus_one = 0xBF800000"
definition f32_minus_inf :: f32 where "f32_minus_inf = 0xFF800000"
definition f64_zero :: f64 where "f64_zero = 0"
definition f64_half :: f64 where "f64_half = 0x3FE0000000000000"
definition f64_minus_half :: f64 where "f64_minus_half = 0xBFE0000000000000"
definition f64_one :: f64 where "f64_one = 0x3FF0000000000000"

lemmas fmt_simps =
  b32_def b64_def fp_signbit_def fp_inf_def fp_qnan_def fp_neg_def fp_mag_def fp_nan_def
  fp_finite_def fp_sign_def fp_key_def

text \<open>What evaluates a closed floating-point term by \<open>simp\<close>.\<close>

lemma nat_len_numeral [simp]:
  "nat_len 0 = 0" "nat_len (Suc 0) = 1" "nat_len 1 = 1"
  "nat_len (numeral k) = Suc (nat_len (numeral k div 2))"
  by (simp_all add: nat_len.simps)

lemmas ieee_eval =
  fmt_simps fp_hidden_def fp_field_def fp_mant_def fp_exp_def round_quot_def round_div_even_def
  nat_bits_def shift_up_def fp_top_def fp_last_def fp_pack_def fp_round_at_def fp_round_def
  fp_of_scaled_def fp_scaled_def fp_of_int_def fp_add_at_def fp_add_def fp_negate_def fp_sub_def fp_mul_def fp_div_def isqrt_def fp_sqrt_root_def
  fp_sqrt_scaled_def fp_sqrt_def
  fp_trunc_abs_def fp_exact_int_def fp_trunc_def fp_floor_def fp_ceil_def fp_convert_def
  f32_finite_def f32_nan_def f32_key_def f32_lt_def f32_le_def f32_eq_def f32_add_def f32_sub_def
  f32_mul_def f32_div_def f64_finite_def f64_nan_def f64_key_def f64_lt_def f64_le_def f64_eq_def
  f64_add_def f64_sub_def f64_mul_def f64_div_def f64_sqrt_def f64_abs_def f64_of_int_def
  f64_of_f32_def f32_of_f64_def fits_sint_def to_sint_def f64_to_sint_def f64_floor_sint_def f64_ceil_sint_def
  f32_zero_def f32_half_def f32_one_def f32_minus_one_def f32_minus_inf_def
  f64_zero_def f64_half_def f64_minus_half_def f64_one_def f64_max_def f64_min_def

end
