(* ===== verification/Protocol.thy ===== *)
theory Protocol
  imports Prelude Ieee
begin

text \<open>
  The wire protocol of \<^verbatim>\<open>robot_server/protocol.h\<close> and \<^verbatim>\<open>protocol.cpp\<close>: the 32-byte message
  header, the predict request and the predict response, with their encoders, the bounded
  reader and the decoders.  A vector of bytes is a list; an encoder that appends to \<open>out\<close>
  takes and returns the list.  On failure the value is the error text; the half-written
  output parameter, which every caller drops, is not part of the result.
\<close>

subsection \<open>Constants and message types\<close>

definition k_magic :: u32 where "k_magic = 0x414c5653"
definition k_version :: u16 where "k_version = 4"
definition k_header_size :: u16 where "k_header_size = 32"
definition k_default_max_payload :: u64 where "k_default_max_payload = 256 * 1024 * 1024"

definition op_health :: u16 where "op_health = 1"
definition op_reset :: u16 where "op_reset = 2"
definition op_predict :: u16 where "op_predict = 3"
definition op_shutdown :: u16 where "op_shutdown = 4"

definition status_ok :: u32 where "status_ok = 0"
definition status_bad_request :: u32 where "status_bad_request = 1"
definition status_bad_magic :: u32 where "status_bad_magic = 2"
definition status_bad_version :: u32 where "status_bad_version = 3"
definition status_payload_too_big :: u32 where "status_payload_too_big = 4"
definition status_internal_error :: u32 where "status_internal_error = 5"

definition image_raw_rgb_u8 :: u32 where "image_raw_rgb_u8 = 1"

lemmas protocol_constants =
  k_magic_def k_version_def k_header_size_def k_default_max_payload_def op_health_def op_reset_def
  op_predict_def op_shutdown_def status_ok_def status_bad_request_def status_bad_magic_def
  status_bad_version_def status_payload_too_big_def status_internal_error_def image_raw_rgb_u8_def

record image_payload =
  img_format :: u32
  img_width :: u32
  img_height :: u32
  img_channels :: u32
  img_stride :: u32
  img_name :: string
  img_data :: "u8 list"

record header =
  hd_magic :: u32
  hd_version :: u16
  hd_size :: u16
  hd_op :: u16
  hd_flags :: u16
  hd_request_id :: u32
  hd_status :: u32
  hd_payload_len :: u64
  hd_reserved :: u32

text \<open>The default member initialisers of \<open>struct header\<close>.\<close>

definition default_header :: header where
  "default_header = \<lparr>hd_magic = k_magic, hd_version = k_version, hd_size = k_header_size, hd_op = 0,
     hd_flags = 0, hd_request_id = 0, hd_status = status_ok, hd_payload_len = 0, hd_reserved = 0\<rparr>"

record metric =
  met_name :: string
  met_value :: f64

record predict_request =
  rq_images :: "image_payload list"
  rq_state :: "f32 list"
  rq_noise :: "f32 list"
  rq_task :: string

record predict_response =
  rs_chunk_size :: u32
  rs_action_dim :: u32
  rs_actions :: "f32 list"
  rs_metrics :: "metric list"

definition empty_response :: predict_response where
  "empty_response = \<lparr>rs_chunk_size = 0, rs_action_dim = 0, rs_actions = [], rs_metrics = []\<rparr>"

subsection \<open>Little-endian writers\<close>

definition put_u16 :: "u8 list \<Rightarrow> u16 \<Rightarrow> u8 list" where
  "put_u16 out v = out @ [ucast (v AND 0xff), ucast (drop_bit 8 v AND 0xff)]"

definition put_u32 :: "u8 list \<Rightarrow> u32 \<Rightarrow> u8 list" where
  "put_u32 out v = foldl (\<lambda>out i. out @ [ucast (drop_bit (8 * i) v AND 0xff)]) out [0..<4]"

definition put_u64 :: "u8 list \<Rightarrow> u64 \<Rightarrow> u8 list" where
  "put_u64 out v = foldl (\<lambda>out i. out @ [ucast (drop_bit (8 * i) v AND 0xff)]) out [0..<8]"

definition put_f32 :: "u8 list \<Rightarrow> f32 \<Rightarrow> u8 list" where
  "put_f32 out v = put_u32 out v"

definition put_f64 :: "u8 list \<Rightarrow> f64 \<Rightarrow> u8 list" where
  "put_f64 out v = put_u64 out v"

definition put_string :: "u8 list \<Rightarrow> string \<Rightarrow> u8 list" where
  "put_string out s = out @ map byte_of s"

subsection \<open>The bounded reader\<close>

record reader =
  rd_data :: "u8 list"
  rd_pos :: nat

definition make_reader :: "u8 list \<Rightarrow> reader" where
  "make_reader data = \<lparr>rd_data = data, rd_pos = 0\<rparr>"

definition rd_remaining :: "reader \<Rightarrow> nat" where
  "rd_remaining r = length (rd_data r) - rd_pos r"

definition rd_need :: "reader \<Rightarrow> nat \<Rightarrow> bool" where
  "rd_need r n \<longleftrightarrow> n \<le> length (rd_data r) - rd_pos r"

definition rd_skip :: "nat \<Rightarrow> reader \<Rightarrow> reader" where
  "rd_skip n r = r\<lparr>rd_pos := rd_pos r + n\<rparr>"

definition rd_u16 :: "reader \<Rightarrow> (u16 \<times> reader) option" where
  "rd_u16 r = (if \<not> rd_need r 2 then None
     else Some (ucast (rd_data r ! rd_pos r) OR push_bit 8 (ucast (rd_data r ! (rd_pos r + 1))), rd_skip 2 r))"

definition rd_u32 :: "reader \<Rightarrow> (u32 \<times> reader) option" where
  "rd_u32 r = (if \<not> rd_need r 4 then None
     else Some (foldl (\<lambda>v i. v OR push_bit (8 * i) (ucast (rd_data r ! (rd_pos r + i)))) 0 [0..<4], rd_skip 4 r))"

definition rd_u64 :: "reader \<Rightarrow> (u64 \<times> reader) option" where
  "rd_u64 r = (if \<not> rd_need r 8 then None
     else Some (foldl (\<lambda>v i. v OR push_bit (8 * i) (ucast (rd_data r ! (rd_pos r + i)))) 0 [0..<8], rd_skip 8 r))"

definition rd_f32 :: "reader \<Rightarrow> (f32 \<times> reader) option" where
  "rd_f32 r = rd_u32 r"

definition rd_f64 :: "reader \<Rightarrow> (f64 \<times> reader) option" where
  "rd_f64 r = rd_u64 r"

definition rd_bytes :: "nat \<Rightarrow> reader \<Rightarrow> (u8 list \<times> reader) option" where
  "rd_bytes n r = (if \<not> rd_need r n then None
     else Some (take n (drop (rd_pos r) (rd_data r)), rd_skip n r))"

definition rd_string :: "nat \<Rightarrow> reader \<Rightarrow> (string \<times> reader) option" where
  "rd_string n r = (if \<not> rd_need r n then None
     else Some (map char_of_byte (take n (drop (rd_pos r) (rd_data r))), rd_skip n r))"

subsection \<open>What the primitive readers and writers compute\<close>

text \<open>The bytes a reader has left, and the reader's own invariant.\<close>

definition rd_rest :: "reader \<Rightarrow> u8 list" where
  "rd_rest r = drop (rd_pos r) (rd_data r)"

definition rd_ok :: "reader \<Rightarrow> bool" where
  "rd_ok r \<longleftrightarrow> rd_pos r \<le> length (rd_data r)"

definition le16 :: "u16 \<Rightarrow> u8 list" where "le16 v = put_u16 [] v"
definition le32 :: "u32 \<Rightarrow> u8 list" where "le32 v = put_u32 [] v"
definition le64 :: "u64 \<Rightarrow> u8 list" where "le64 v = put_u64 [] v"

lemma put_bytes:
  "put_u16 out v = out @ le16 v"
  "put_u32 out w = out @ le32 w"
  "put_u64 out x = out @ le64 x"
  "put_f32 out w = out @ le32 w"
  "put_f64 out x = out @ le64 x"
  "put_string out s = out @ map byte_of s"
  by (simp_all add: put_u16_def put_u32_def put_u64_def put_f32_def put_f64_def put_string_def
      le16_def le32_def le64_def upt_rec)

lemma length_le [simp]: "length (le16 v) = 2" "length (le32 w) = 4" "length (le64 x) = 8"
  by (simp_all add: put_u16_def put_u32_def put_u64_def le16_def le32_def le64_def upt_rec)

lemma le16_bytes: "le16 v = [ucast (v AND 0xff), ucast (drop_bit 8 v AND 0xff)]"
  by (simp add: le16_def put_u16_def)

lemma le32_bytes: "le32 v = map (\<lambda>i. ucast (drop_bit (8 * i) v AND 0xff)) [0..<4]"
  by (simp add: le32_def put_u32_def upt_rec)

lemma le64_bytes: "le64 v = map (\<lambda>i. ucast (drop_bit (8 * i) v AND 0xff)) [0..<8]"
  by (simp add: le64_def put_u64_def upt_rec)

lemma mask_ff: "(0xff :: 'a::len word) = mask 8"
  by (simp add: mask_eq_exp_minus_1)

lemma byte_bit_high: "8 \<le> n \<Longrightarrow> \<not> bit (b :: u8) n"
  using bit_imp_le_length [where 'a = 8 and w = b and n = n] by auto

lemma byte_bits:
  "bit (ucast (ucast (drop_bit m (v :: 'a word) AND 0xff) :: u8) :: 'a::len word) n \<longleftrightarrow> n < 8 \<and> bit v (m + n)"
  using bit_imp_le_length [of v "m + n"] by (auto simp: mask_ff bit_simps)

lemma join_bits:
  "bit (foldl (\<lambda>a i. a OR push_bit (8 * i) (ucast (ucast (drop_bit (8 * i) (v :: 'a word) AND 0xff) :: u8)))
      (0 :: 'a::len word) [0..<k]) n \<longleftrightarrow> n < 8 * k \<and> bit v n"
proof (induction k)
  case 0
  then show ?case by simp
next
  case (Suc k)
  have "bit v n \<Longrightarrow> n < LENGTH('a)" using bit_imp_le_length [of v n] by simp
  then show ?case
    by (auto simp: Suc.IH bit_or_iff bit_push_bit_iff byte_bits)
qed

lemma join_whole:
  assumes "8 * k = LENGTH('a)"
  shows "foldl (\<lambda>a i. a OR push_bit (8 * i) (ucast (ucast (drop_bit (8 * i) (v :: 'a word) AND 0xff) :: u8)))
      (0 :: 'a::len word) [0..<k] = v"
  by (rule bit_word_eqI) (simp add: join_bits assms)

lemma u16_join:
  "ucast (ucast (v AND 0xff) :: u8) OR push_bit 8 (ucast (ucast (drop_bit 8 v AND 0xff) :: u8)) = (v :: u16)"
  using join_whole [of 2 v] by (simp add: upt_rec)

lemma u32_join:
  "foldl (\<lambda>a i. a OR push_bit (8 * i) (ucast (le32 v ! i))) 0 [0..<4] = (v :: u32)"
  using join_whole [of 4 v] by (simp add: le32_bytes upt_rec)

lemma u64_join:
  "foldl (\<lambda>a i. a OR push_bit (8 * i) (ucast (le64 v ! i))) 0 [0..<8] = (v :: u64)"
  using join_whole [of 8 v] by (simp add: le64_bytes upt_rec)

lemma u16_split:
  "le16 (ucast (b0 :: u8) OR push_bit 8 (ucast (b1 :: u8))) = [b0, b1]"
  by (auto simp: le16_bytes mask_ff bit_simps byte_bit_high intro!: bit_word_eqI)

lemma u32_split:
  "le32 (foldl (\<lambda>a i. a OR push_bit (8 * i) (ucast ([b0, b1, b2, b3] ! i))) 0 [0..<4]) = [b0, b1, b2, b3]"
  by (auto simp: le32_bytes upt_rec mask_ff bit_simps byte_bit_high intro!: bit_word_eqI)

lemma u64_split:
  "le64 (foldl (\<lambda>a i. a OR push_bit (8 * i) (ucast ([b0, b1, b2, b3, b4, b5, b6, b7] ! i))) 0 [0..<8])
     = [b0, b1, b2, b3, b4, b5, b6, b7]"
  by (auto simp: le64_bytes upt_rec mask_ff bit_simps byte_bit_high intro!: bit_word_eqI)

lemma rd_need_rest: "rd_need r n \<longleftrightarrow> n \<le> length (rd_rest r)"
  by (simp add: rd_need_def rd_rest_def)

lemma rd_remaining_rest: "rd_remaining r = length (rd_rest r)"
  by (simp add: rd_remaining_def rd_rest_def)

lemma rd_rest_skip [simp]: "rd_rest (rd_skip n r) = drop n (rd_rest r)"
  by (simp add: rd_rest_def rd_skip_def add.commute)

lemma rd_ok_skip: "rd_ok r \<Longrightarrow> n \<le> length (rd_rest r) \<Longrightarrow> rd_ok (rd_skip n r)"
  by (auto simp: rd_ok_def rd_skip_def rd_rest_def)

lemma rd_skip_skip [simp]: "rd_skip m (rd_skip n r) = rd_skip (n + m) r"
  by (simp add: rd_skip_def)

lemma rd_skip_0 [simp]: "rd_skip 0 r = r"
  by (simp add: rd_skip_def)

lemma rd_rest_make [simp]: "rd_rest (make_reader data) = data" and rd_ok_make: "rd_ok (make_reader data)"
  by (simp_all add: rd_rest_def rd_ok_def make_reader_def)

lemma rd_nth: "i < length (rd_rest r) \<Longrightarrow> rd_data r ! (rd_pos r + i) = rd_rest r ! i"
  by (simp add: rd_rest_def)

lemma rd_u16_rest: "rd_u16 r = (case rd_rest r of
     b0 # b1 # _ \<Rightarrow> Some (ucast b0 OR push_bit 8 (ucast b1), rd_skip 2 r) | _ \<Rightarrow> None)"
  using rd_nth [of 0 r] rd_nth [of 1 r]
  by (auto simp: rd_u16_def rd_need_rest split: list.splits)

lemma rd_u32_rest: "rd_u32 r = (if length (rd_rest r) < 4 then None
     else Some (foldl (\<lambda>v i. v OR push_bit (8 * i) (ucast (rd_rest r ! i))) 0 [0..<4], rd_skip 4 r))"
  by (auto simp: rd_u32_def rd_need_rest rd_nth intro!: foldl_cong)

lemma rd_u64_rest: "rd_u64 r = (if length (rd_rest r) < 8 then None
     else Some (foldl (\<lambda>v i. v OR push_bit (8 * i) (ucast (rd_rest r ! i))) 0 [0..<8], rd_skip 8 r))"
  by (auto simp: rd_u64_def rd_need_rest rd_nth intro!: foldl_cong)

text \<open>
  \<open>rd_at r xs\<close>: the bytes \<open>xs\<close> stand in front of the reader.  Each primitive reads exactly the
  bytes that the matching writer produces.
\<close>

definition rd_at :: "reader \<Rightarrow> u8 list \<Rightarrow> bool" where
  "rd_at r xs \<longleftrightarrow> take (length xs) (rd_rest r) = xs"

lemma rd_at_Nil [simp]: "rd_at r []"
  by (simp add: rd_at_def)

lemma rd_at_append: "rd_at r (xs @ ys) \<longleftrightarrow> rd_at r xs \<and> rd_at (rd_skip (length xs) r) ys"
proof -
  have "take (length xs) l @ take (length ys) (drop (length xs) l) = xs @ ys \<longleftrightarrow>
    take (length xs) l = xs \<and> take (length ys) (drop (length xs) l) = ys" for l :: "u8 list"
    by (cases "length xs \<le> length l") (auto simp: append_eq_append_conv)
  then show ?thesis by (simp add: rd_at_def take_add)
qed

lemma rd_at_length: "rd_at r xs \<Longrightarrow> length xs \<le> length (rd_rest r)"
  unfolding rd_at_def by (metis length_take min.cobounded1 min.commute)

lemma rd_at_whole: "rd_at r xs \<and> length xs = length (rd_rest r) \<longleftrightarrow> rd_rest r = xs"
  by (auto simp: rd_at_def)

lemma rd_u16_iff [wire_simps]: "rd_u16 r = Some (v, r') \<longleftrightarrow> rd_at r (le16 v) \<and> r' = rd_skip 2 r"
proof
  assume "rd_u16 r = Some (v, r')"
  then show "rd_at r (le16 v) \<and> r' = rd_skip 2 r"
    by (auto simp: rd_u16_rest u16_split rd_at_def split: list.splits)
next
  assume "rd_at r (le16 v) \<and> r' = rd_skip 2 r"
  then show "rd_u16 r = Some (v, r')"
    using u16_join [of v] by (auto simp: rd_u16_rest rd_at_def le16_bytes split: list.splits)
qed

lemma take_list4: "4 \<le> length xs \<Longrightarrow> \<exists>a b c d ys. xs = a # b # c # d # ys"
  by (metis Suc_le_length_iff numeral_eq_Suc pred_numeral_simps(2,3) BitM.simps(1,2))

lemma rd_u32_iff [wire_simps]: "rd_u32 r = Some (v, r') \<longleftrightarrow> rd_at r (le32 v) \<and> r' = rd_skip 4 r"
proof
  assume rd: "rd_u32 r = Some (v, r')"
  then have len: "4 \<le> length (rd_rest r)" and r': "r' = rd_skip 4 r"
    and v: "v = foldl (\<lambda>v i. v OR push_bit (8 * i) (ucast (rd_rest r ! i))) 0 [0..<4]"
    by (auto simp: rd_u32_rest split: if_splits)
  obtain b0 b1 b2 b3 ys where bs: "rd_rest r = b0 # b1 # b2 # b3 # ys"
    using take_list4 [OF len] by blast
  have "le32 v = [b0, b1, b2, b3]"
    unfolding v bs using u32_split [of b0 b1 b2 b3] by (simp add: upt_rec)
  with bs r' show "rd_at r (le32 v) \<and> r' = rd_skip 4 r" by (simp add: rd_at_def)
next
  assume at: "rd_at r (le32 v) \<and> r' = rd_skip 4 r"
  then have "le32 v ! i = rd_rest r ! i" if "i < 4" for i
    using that unfolding rd_at_def by (metis length_le(2) nth_take)
  with at rd_at_length [of r "le32 v"] u32_join [of v] show "rd_u32 r = Some (v, r')"
    by (simp add: rd_u32_rest upt_rec)
qed

lemma rd_u64_iff [wire_simps]: "rd_u64 r = Some (v, r') \<longleftrightarrow> rd_at r (le64 v) \<and> r' = rd_skip 8 r"
proof
  assume rd: "rd_u64 r = Some (v, r')"
  then have len: "8 \<le> length (rd_rest r)" and r': "r' = rd_skip 8 r"
    and v: "v = foldl (\<lambda>v i. v OR push_bit (8 * i) (ucast (rd_rest r ! i))) 0 [0..<8]"
    by (auto simp: rd_u64_rest split: if_splits)
  obtain b0 b1 b2 b3 xs where bs: "rd_rest r = b0 # b1 # b2 # b3 # xs"
    using take_list4 [of "rd_rest r"] len by auto
  with len obtain b4 b5 b6 b7 ys where xs: "xs = b4 # b5 # b6 # b7 # ys"
    using take_list4 [of xs] by auto
  have "le64 v = [b0, b1, b2, b3, b4, b5, b6, b7]"
    unfolding v bs xs using u64_split [of b0 b1 b2 b3 b4 b5 b6 b7] by (simp add: upt_rec)
  with bs xs r' show "rd_at r (le64 v) \<and> r' = rd_skip 8 r" by (simp add: rd_at_def)
next
  assume at: "rd_at r (le64 v) \<and> r' = rd_skip 8 r"
  then have "le64 v ! i = rd_rest r ! i" if "i < 8" for i
    using that unfolding rd_at_def by (metis length_le(3) nth_take)
  with at rd_at_length [of r "le64 v"] u64_join [of v] show "rd_u64 r = Some (v, r')"
    by (simp add: rd_u64_rest upt_rec)
qed

lemma rd_f32_iff [wire_simps]: "rd_f32 r = Some (v, r') \<longleftrightarrow> rd_at r (le32 v) \<and> r' = rd_skip 4 r"
  by (simp add: rd_f32_def rd_u32_iff)

lemma rd_f64_iff [wire_simps]: "rd_f64 r = Some (v, r') \<longleftrightarrow> rd_at r (le64 v) \<and> r' = rd_skip 8 r"
  by (simp add: rd_f64_def rd_u64_iff)

lemma rd_bytes_iff [wire_simps]:
  "rd_bytes n r = Some (ys, r') \<longleftrightarrow> length ys = n \<and> rd_at r ys \<and> r' = rd_skip n r"
  by (auto simp: rd_bytes_def rd_need_rest rd_at_def simp flip: rd_rest_def)

lemma rd_string_iff [wire_simps]:
  "rd_string n r = Some (s, r') \<longleftrightarrow> length s = n \<and> rd_at r (map byte_of s) \<and> r' = rd_skip n r"
proof -
  have "rd_string n r = map_option (map_prod (map char_of_byte) id) (rd_bytes n r)"
    by (simp add: rd_string_def rd_bytes_def)
  moreover have "ys = map byte_of s \<longleftrightarrow> s = map char_of_byte ys" for ys
    by auto
  ultimately show ?thesis
    by (auto simp: rd_bytes_iff intro!: exI [of _ "map byte_of s"])
qed

subsection \<open>Loops over encoded items\<close>

text \<open>A loop that reads one item per entry of \<open>ms\<close> (an index, or what an earlier loop read).\<close>

fun rd_each :: "('m \<Rightarrow> reader \<Rightarrow> ('a \<times> reader) res) \<Rightarrow> 'm list \<Rightarrow> reader \<Rightarrow> ('a list \<times> reader) res" where
  "rd_each dec [] r = Inr ([], r)"
| "rd_each dec (m # ms) r =
     bind_res (dec m r) (\<lambda>(x, r1). bind_res (rd_each dec ms r1) (\<lambda>(xs, r2). Inr (x # xs, r2)))"

text \<open>
  The contract between an item's encoder and its decoder: \<open>ok m x\<close> says that \<open>x\<close> is a value
  the decoder accepts at entry \<open>m\<close>.  The decoder reads back what the encoder wrote, and
  accepts nothing else.
\<close>

locale wire_item =
  fixes enc :: "'a \<Rightarrow> u8 list"
    and dec :: "'m \<Rightarrow> reader \<Rightarrow> ('a \<times> reader) res"
    and ok :: "'m \<Rightarrow> 'a \<Rightarrow> bool"
  assumes dec_iff: "dec m r = Inr (x, r') \<longleftrightarrow> ok m x \<and> rd_at r (enc x) \<and> r' = rd_skip (length (enc x)) r"
begin

lemma rd_each_iff:
  "rd_each dec ms r = Inr (xs, r') \<longleftrightarrow>
     list_all2 ok ms xs \<and> rd_at r (concat (map enc xs)) \<and> r' = rd_skip (length (concat (map enc xs))) r"
proof (induction ms arbitrary: r xs)
  case Nil
  then show ?case by auto
next
  case (Cons m ms)
  have "rd_each dec (m # ms) r = Inr (xs, r') \<longleftrightarrow>
    (\<exists>x ys r1. xs = x # ys \<and> dec m r = Inr (x, r1) \<and> rd_each dec ms r1 = Inr (ys, r'))"
    by (auto simp: res_simps)
  then show ?case
    by (auto simp: dec_iff Cons.IH list_all2_Cons1 rd_at_append)
qed

end

text \<open>Arrays of floats.\<close>

definition rd_f32_item :: "string \<Rightarrow> nat \<Rightarrow> reader \<Rightarrow> (f32 \<times> reader) res" where
  "rd_f32_item msg i r = need_some msg (rd_f32 r)"

definition rd_f32s :: "string \<Rightarrow> u32 \<Rightarrow> reader \<Rightarrow> (f32 list \<times> reader) res" where
  "rd_f32s msg n = rd_each (rd_f32_item msg) [0..<unat n]"

interpretation f32_item: wire_item le32 "rd_f32_item msg" "\<lambda>_ _. True"
  by unfold_locales (simp add: rd_f32_item_def res_simps wire_simps)

lemma rd_f32s_iff [wire_simps]:
  "rd_f32s msg n r = Inr (xs, r') \<longleftrightarrow> length xs = unat n \<and> rd_at r (concat (map le32 xs))
     \<and> r' = rd_skip (length (concat (map le32 xs))) r"
  by (auto simp: rd_f32s_def f32_item.rd_each_iff list_all2_conv_all_nth)

subsection \<open>Validation\<close>

definition checked_u32_count :: "nat \<Rightarrow> string \<Rightarrow> unit res" where
  "checked_u32_count n label = (if n > 4294967295 then Inl (label @ '' too large'') else Inr ())"

definition validate_f32_array :: "f32 list \<Rightarrow> string \<Rightarrow> unit res" where
  "validate_f32_array values label =
     (if list_all f32_finite values then Inr () else Inl (label @ '' contains a non-finite value''))"

text \<open>\<open>stride\<close> and \<open>width * channels\<close> are 32-bit products in the source: they wrap around.\<close>

definition validate_image_payload :: "image_payload \<Rightarrow> string \<Rightarrow> unit res" where
  "validate_image_payload img label =
     (if img_format img \<noteq> image_raw_rgb_u8 then Inl (label @ '' unsupported image format'')
      else if img_width img = 0 \<or> img_height img = 0 \<or> img_channels img \<noteq> 3 \<or> img_data img = []
        then Inl (label @ '' invalid raw RGB image'')
      else
        let stride = (if img_stride img = 0 then img_width img * img_channels img else img_stride img)
        in if stride < img_width img * img_channels img
             then Inl (label @ '' stride_bytes is smaller than width * channels'')
           else if length (img_data img) < unat stride * unat (img_height img)
             then Inl (label @ '' data is smaller than stride_bytes * height'')
           else if length (img_name img) > 4294967295 then Inl (label @ '' name too large'')
           else Inr ())"

definition image_label :: "nat \<Rightarrow> string" where
  "image_label i = ''image['' @ nat_to_string i @ '']''"

fun validate_images :: "nat \<Rightarrow> image_payload list \<Rightarrow> unit res" where
  "validate_images i [] = Inr ()"
| "validate_images i (img # images) =
     bind_res (validate_image_payload img (image_label i)) (\<lambda>_. validate_images (Suc i) images)"

subsection \<open>Header\<close>

definition encode_header :: "header \<Rightarrow> u8 list" where
  "encode_header h =
     put_u32 (put_u64 (put_u32 (put_u32 (put_u16 (put_u16 (put_u16 (put_u16 (put_u32 []
       (hd_magic h)) (hd_version h)) (hd_size h)) (hd_op h)) (hd_flags h)) (hd_request_id h))
       (hd_status h)) (hd_payload_len h)) (hd_reserved h)"

definition rd_header :: "reader \<Rightarrow> (header \<times> reader) option" where
  "rd_header r = do {
     (magic, r) \<leftarrow> rd_u32 r; (version, r) \<leftarrow> rd_u16 r; (size, r) \<leftarrow> rd_u16 r; (op, r) \<leftarrow> rd_u16 r;
     (flags, r) \<leftarrow> rd_u16 r; (request_id, r) \<leftarrow> rd_u32 r; (status, r) \<leftarrow> rd_u32 r;
     (payload_len, r) \<leftarrow> rd_u64 r; (reserved, r) \<leftarrow> rd_u32 r;
     Some (\<lparr>hd_magic = magic, hd_version = version, hd_size = size, hd_op = op, hd_flags = flags,
       hd_request_id = request_id, hd_status = status, hd_payload_len = payload_len,
       hd_reserved = reserved\<rparr>, r) }"

text \<open>\<open>None\<close> is the null pointer.\<close>

definition decode_header :: "u8 list option \<Rightarrow> header res" where
  "decode_header data =
     (case data of None \<Rightarrow> Inl ''short header''
      | Some bytes \<Rightarrow>
          if length bytes < unat k_header_size then Inl ''short header''
          else bind_res (need_some ''short header'' (rd_header (make_reader bytes))) (\<lambda>(h, r). Inr h))"

definition validate_header :: "header \<Rightarrow> u64 \<Rightarrow> unit res" where
  "validate_header h max_payload =
     (if hd_magic h \<noteq> k_magic then Inl ''bad magic''
      else if hd_version h \<noteq> k_version then Inl ''bad version''
      else if hd_size h \<noteq> k_header_size then Inl ''bad header size''
      else if hd_payload_len h > max_payload then Inl ''payload too large''
      else Inr ())"

definition encode_text_payload :: "string \<Rightarrow> u8 list" where
  "encode_text_payload text = map byte_of text"

definition decode_text_payload :: "u8 list \<Rightarrow> string" where
  "decode_text_payload payload = map char_of_byte payload"

subsection \<open>Predict request\<close>

definition put_image_meta :: "u8 list \<Rightarrow> image_payload \<Rightarrow> u8 list" where
  "put_image_meta out img =
     put_u64 (put_u32 (put_u32 (put_u32 (put_u32 (put_u32 (put_u32 out
       (img_format img)) (of_nat (length (img_name img)))) (img_width img)) (img_height img))
       (img_channels img)) (img_stride img)) (of_nat (length (img_data img)))"

definition put_image_body :: "u8 list \<Rightarrow> image_payload \<Rightarrow> u8 list" where
  "put_image_body out img = put_string out (img_name img) @ img_data img"

definition put_request_counts :: "predict_request \<Rightarrow> u8 list" where
  "put_request_counts req =
     put_u32 (put_u32 (put_u32 (put_u32 [] (of_nat (length (rq_images req))))
       (of_nat (length (rq_state req)))) (of_nat (length (rq_noise req)))) (of_nat (length (rq_task req)))"

definition encode_predict_request :: "predict_request \<Rightarrow> u8 list res" where
  "encode_predict_request req =
     (if rq_images req = [] then Inl ''predict request requires at least one image''
      else
        bind_res (checked_u32_count (length (rq_images req)) ''images'') (\<lambda>_.
        bind_res (checked_u32_count (length (rq_state req)) ''state'') (\<lambda>_.
        bind_res (checked_u32_count (length (rq_noise req)) ''initial noise'') (\<lambda>_.
        bind_res (checked_u32_count (length (rq_task req)) ''task'') (\<lambda>_.
        bind_res (validate_f32_array (rq_state req) ''state'') (\<lambda>_.
        bind_res (validate_f32_array (rq_noise req) ''initial noise'') (\<lambda>_.
        bind_res (validate_images 0 (rq_images req)) (\<lambda>_.
          let out = put_request_counts req;
              out = foldl put_image_meta out (rq_images req);
              out = foldl put_f32 out (rq_state req);
              out = foldl put_f32 out (rq_noise req);
              out = put_string out (rq_task req)
          in Inr (foldl put_image_body out (rq_images req))))))))))"

definition rd_request_counts :: "reader \<Rightarrow> ((u32 \<times> u32 \<times> u32 \<times> u32) \<times> reader) option" where
  "rd_request_counts r = do {
     (image_count, r) \<leftarrow> rd_u32 r; (state_dim, r) \<leftarrow> rd_u32 r; (noise_dim, r) \<leftarrow> rd_u32 r;
     (task_len, r) \<leftarrow> rd_u32 r;
     Some ((image_count, state_dim, noise_dim, task_len), r) }"

text \<open>One image's metadata: the image with its name and data still empty, and their lengths.\<close>

type_synonym image_meta = "image_payload \<times> u32 \<times> u64"

definition rd_image_fields :: "reader \<Rightarrow> (image_meta \<times> reader) option" where
  "rd_image_fields r = do {
     (fmt, r) \<leftarrow> rd_u32 r; (name_len, r) \<leftarrow> rd_u32 r; (width, r) \<leftarrow> rd_u32 r; (height, r) \<leftarrow> rd_u32 r;
     (channels, r) \<leftarrow> rd_u32 r; (stride, r) \<leftarrow> rd_u32 r; (image_len, r) \<leftarrow> rd_u64 r;
     Some ((\<lparr>img_format = fmt, img_width = width, img_height = height, img_channels = channels,
       img_stride = stride, img_name = [], img_data = []\<rparr>, name_len, image_len), r) }"

definition rd_image_meta :: "nat \<Rightarrow> reader \<Rightarrow> (image_meta \<times> reader) res" where
  "rd_image_meta i r =
     bind_res (need_some ''short image metadata'' (rd_image_fields r)) (\<lambda>((img, name_len, image_len), r).
       if img_format img \<noteq> image_raw_rgb_u8 then Inl ''unsupported image format''
       else if img_width img = 0 \<or> img_height img = 0 \<or> img_channels img \<noteq> 3
         then Inl ''invalid raw RGB dimensions''
       else Inr ((img, name_len, image_len), r))"

definition rd_image_body :: "nat \<times> image_meta \<Rightarrow> reader \<Rightarrow> (image_payload \<times> reader) res" where
  "rd_image_body m r = (case m of (i, img, name_len, image_len) \<Rightarrow>
     bind_res (need_some ''short image name'' (rd_string (unat name_len) r)) (\<lambda>(name, r).
       if unat image_len > rd_remaining r then Inl ''image length exceeds payload''
       else bind_res (need_some ''short image bytes'' (rd_bytes (unat image_len) r)) (\<lambda>(data, r).
         let img = img\<lparr>img_name := name, img_data := data\<rparr>
         in bind_res (validate_image_payload img (image_label i)) (\<lambda>_. Inr (img, r)))))"

definition decode_predict_request :: "u8 list \<Rightarrow> predict_request res" where
  "decode_predict_request payload =
     bind_res (need_some ''short predict request'' (rd_request_counts (make_reader payload)))
       (\<lambda>((image_count, state_dim, noise_dim, task_len), r).
     if image_count = 0 then Inl ''predict request requires at least one image''
     else if unat image_count > rd_remaining r div 32
       then Inl ''image count exceeds predict request metadata''
     else bind_res (rd_each rd_image_meta [0..<unat image_count] r) (\<lambda>(metas, r).
       let scalar_bytes = (unat state_dim + unat noise_dim) * 4
       in if scalar_bytes > rd_remaining r \<or> unat task_len > rd_remaining r - scalar_bytes
            then Inl ''predict request fields exceed payload''
          else
            bind_res (rd_f32s ''short state array'' state_dim r) (\<lambda>(state, r).
            bind_res (validate_f32_array state ''state'') (\<lambda>_.
            bind_res (rd_f32s ''short initial noise array'' noise_dim r) (\<lambda>(noise, r).
            bind_res (validate_f32_array noise ''initial noise'') (\<lambda>_.
            bind_res (need_some ''short task string'' (rd_string (unat task_len) r)) (\<lambda>(task, r).
            bind_res (rd_each rd_image_body (List.enumerate 0 metas) r) (\<lambda>(images, r).
              if rd_remaining r \<noteq> 0 then Inl ''trailing bytes in predict request''
              else Inr \<lparr>rq_images = images, rq_state = state, rq_noise = noise, rq_task = task\<rparr>))))))))"

subsection \<open>Predict response\<close>

fun check_metrics :: "metric list \<Rightarrow> unit res" where
  "check_metrics [] = Inr ()"
| "check_metrics (m # ms) =
     (if met_name m = [] then Inl ''metric name is empty''
      else bind_res (checked_u32_count (length (met_name m)) ''metric name'') (\<lambda>_. check_metrics ms))"

definition put_metric :: "u8 list \<Rightarrow> metric \<Rightarrow> u8 list" where
  "put_metric out m =
     put_string (put_f64 (put_u32 out (of_nat (length (met_name m)))) (met_value m)) (met_name m)"

text \<open>\<open>chunk_size * action_dim\<close> is a 64-bit product of two 32-bit values: it cannot wrap.\<close>

definition encode_predict_response :: "predict_response \<Rightarrow> u8 list res" where
  "encode_predict_response resp =
     (if unat (rs_chunk_size resp) * unat (rs_action_dim resp) \<noteq> length (rs_actions resp)
        then Inl ''action shape does not match action count''
      else
        bind_res (checked_u32_count (length (rs_actions resp)) ''actions'') (\<lambda>_.
        bind_res (checked_u32_count (length (rs_metrics resp)) ''metrics'') (\<lambda>_.
        bind_res (check_metrics (rs_metrics resp)) (\<lambda>_.
          let out = put_u32 (put_u32 (put_u32 (put_u32 [] (rs_chunk_size resp)) (rs_action_dim resp))
                      (of_nat (length (rs_actions resp)))) (of_nat (length (rs_metrics resp)));
              out = foldl put_metric out (rs_metrics resp)
          in Inr (foldl put_f32 out (rs_actions resp))))))"

definition rd_metric :: "nat \<Rightarrow> reader \<Rightarrow> (metric \<times> reader) res" where
  "rd_metric i r =
     bind_res (need_some ''short metric'' (do {
         (name_len, r) \<leftarrow> rd_u32 r; (value, r) \<leftarrow> rd_f64 r; Some ((name_len, value), r) }))
       (\<lambda>((name_len, value), r).
     bind_res (need_some ''short metric name'' (rd_string (unat name_len) r)) (\<lambda>(name, r).
       if name = [] then Inl ''metric name is empty''
       else Inr (\<lparr>met_name = name, met_value = value\<rparr>, r)))"

definition decode_predict_response :: "u8 list \<Rightarrow> predict_response res" where
  "decode_predict_response payload =
     bind_res (need_some ''short predict response'' (rd_request_counts (make_reader payload)))
       (\<lambda>((chunk_size, action_dim, action_count, metric_count), r).
     if unat chunk_size * unat action_dim \<noteq> unat action_count
       then Inl ''action shape does not match action count''
     else
       bind_res (rd_each rd_metric [0..<unat metric_count] r) (\<lambda>(metrics, r).
       bind_res (rd_f32s ''short action array'' action_count r) (\<lambda>(actions, r).
         if rd_remaining r \<noteq> 0 then Inl ''trailing bytes in predict response''
         else Inr \<lparr>rs_chunk_size = chunk_size, rs_action_dim = action_dim, rs_actions = actions,
                   rs_metrics = metrics\<rparr>)))"

subsection \<open>Headers round trip\<close>

lemma rd_header_iff:
  "rd_header r = Some (h, r') \<longleftrightarrow> rd_at r (encode_header h) \<and> r' = rd_skip 32 r"
  by (cases h)
    (auto simp: rd_header_def encode_header_def put_bytes rd_at_append wire_simps Option.bind_eq_Some_conv)

lemma length_encode_header [simp]: "length (encode_header h) = 32"
  by (simp add: encode_header_def put_bytes)

text \<open>A header is followed by its payload: the decoder looks at the first 32 bytes only.\<close>

lemma decode_header_encoded: "decode_header (Some (encode_header h @ rest)) = Inr h"
proof -
  have "rd_header (make_reader (encode_header h @ rest)) = Some (h, rd_skip 32 (make_reader (encode_header h @ rest)))"
    by (simp add: rd_header_iff rd_at_def)
  then show ?thesis
    by (simp add: decode_header_def k_header_size_def)
qed

lemma decode_header_sound:
  assumes "decode_header (Some bytes) = Inr h"
  shows "take 32 bytes = encode_header h"
  using assms by (auto simp: decode_header_def rd_header_iff rd_at_def res_simps split: if_splits)

subsection \<open>Requests round trip\<close>

text \<open>The bytes of a request and the requests that can be sent, written without the reader.\<close>

definition image_meta_wire :: "image_payload \<Rightarrow> u8 list" where
  "image_meta_wire img = put_image_meta [] img"

definition image_body_wire :: "image_payload \<Rightarrow> u8 list" where
  "image_body_wire img = put_image_body [] img"

definition metric_wire :: "metric \<Rightarrow> u8 list" where
  "metric_wire m = put_metric [] m"

definition request_wire :: "predict_request \<Rightarrow> u8 list" where
  "request_wire req =
     put_request_counts req @ concat (map image_meta_wire (rq_images req))
       @ concat (map le32 (rq_state req)) @ concat (map le32 (rq_noise req))
       @ map byte_of (rq_task req) @ concat (map image_body_wire (rq_images req))"

definition image_ok :: "image_payload \<Rightarrow> bool" where
  "image_ok img = is_ok (validate_image_payload img [])"

definition request_ok :: "predict_request \<Rightarrow> bool" where
  "request_ok req \<longleftrightarrow>
     rq_images req \<noteq> [] \<and> length (rq_images req) < 2 ^ 32 \<and> length (rq_state req) < 2 ^ 32
       \<and> length (rq_noise req) < 2 ^ 32 \<and> length (rq_task req) < 2 ^ 32
       \<and> list_all f32_finite (rq_state req) \<and> list_all f32_finite (rq_noise req)
       \<and> list_all image_ok (rq_images req)"

text \<open>What every C++ vector satisfies.\<close>

definition representable :: "predict_request \<Rightarrow> bool" where
  "representable req \<longleftrightarrow> list_all (\<lambda>img. length (img_data img) < 2 ^ 64) (rq_images req)"

lemma validate_image_ok [res_simps]: "validate_image_payload img label = Inr () \<longleftrightarrow> image_ok img"
  by (simp add: image_ok_def validate_image_payload_def Let_def is_ok_def)

lemma validate_images_ok [res_simps]: "validate_images i images = Inr () \<longleftrightarrow> list_all image_ok images"
  by (induction images arbitrary: i) (auto simp: res_simps)

lemma unit_res_iff: "bind_res (m :: unit res) k = Inr y \<longleftrightarrow> m = Inr () \<and> k () = Inr y"
  by (auto simp: res_simps)

lemma checked_count_ok [res_simps]: "checked_u32_count n label = Inr () \<longleftrightarrow> n < 2 ^ 32"
  by (auto simp: checked_u32_count_def)

lemma validate_f32_ok [res_simps]: "validate_f32_array xs label = Inr () \<longleftrightarrow> list_all f32_finite xs"
  by (simp add: validate_f32_array_def)

lemma put_item_bytes:
  "put_image_meta out img = out @ image_meta_wire img"
  "put_image_body out img = out @ image_body_wire img"
  "put_metric out m = out @ metric_wire m"
  by (simp_all add: image_meta_wire_def image_body_wire_def metric_wire_def
      put_image_meta_def put_image_body_def put_metric_def put_bytes)

lemma foldl_puts:
  "foldl put_image_meta out imgs = out @ concat (map image_meta_wire imgs)"
  "foldl put_image_body out imgs = out @ concat (map image_body_wire imgs)"
  "foldl put_metric out ms = out @ concat (map metric_wire ms)"
  "foldl put_f32 out xs = out @ concat (map le32 xs)"
  by (simp_all add: foldl_appending put_item_bytes put_bytes)

lemma encode_request_iff:
  "encode_predict_request req = Inr out \<longleftrightarrow> request_ok req \<and> out = request_wire req"
  by (auto simp: encode_predict_request_def request_ok_def request_wire_def res_simps unit_res_iff
      Let_def foldl_puts put_string_def)

text \<open>The metadata and body items as instances of the contract.\<close>

definition meta_wire :: "image_meta \<Rightarrow> u8 list" where
  "meta_wire m = (case m of (img, name_len, image_len) \<Rightarrow>
     le32 (img_format img) @ le32 name_len @ le32 (img_width img) @ le32 (img_height img)
       @ le32 (img_channels img) @ le32 (img_stride img) @ le64 image_len)"

definition meta_ok :: "image_meta \<Rightarrow> bool" where
  "meta_ok m \<longleftrightarrow> (case m of (img, _) \<Rightarrow>
     img_format img = image_raw_rgb_u8 \<and> img_width img \<noteq> 0 \<and> img_height img \<noteq> 0
       \<and> img_channels img = 3 \<and> img_name img = [] \<and> img_data img = [])"

definition body_ok :: "nat \<times> image_meta \<Rightarrow> image_payload \<Rightarrow> bool" where
  "body_ok m x \<longleftrightarrow> (case m of (_, img, name_len, image_len) \<Rightarrow>
     x = img\<lparr>img_name := img_name x, img_data := img_data x\<rparr> \<and> length (img_name x) = unat name_len
       \<and> length (img_data x) = unat image_len \<and> image_ok x)"

text \<open>The metadata that the encoder writes for an image.\<close>

definition meta_of :: "image_payload \<Rightarrow> image_meta" where
  "meta_of x = (x\<lparr>img_name := [], img_data := []\<rparr>, of_nat (length (img_name x)), of_nat (length (img_data x)))"

lemma rd_image_fields_iff:
  "rd_image_fields r = Some (m, r') \<longleftrightarrow>
     img_name (fst m) = [] \<and> img_data (fst m) = [] \<and> rd_at r (meta_wire m) \<and> r' = rd_skip 32 r"
proof (cases m)
  case (fields img name_len image_len)
  then show ?thesis
    by (cases img) (auto simp: rd_image_fields_def meta_wire_def rd_at_append wire_simps
        Option.bind_eq_Some_conv)
qed

lemma length_meta_wire [simp]: "length (meta_wire m) = 32"
  by (simp add: meta_wire_def split: prod.splits)

interpretation meta_item: wire_item meta_wire rd_image_meta "\<lambda>_. meta_ok"
proof
  fix i r m r'
  show "rd_image_meta i r = Inr (m, r') \<longleftrightarrow>
    meta_ok m \<and> rd_at r (meta_wire m) \<and> r' = rd_skip (length (meta_wire m)) r"
    by (cases m) (auto simp: rd_image_meta_def res_simps rd_image_fields_iff meta_ok_def)
qed

lemma image_payload_update_iff:
  "(x = img\<lparr>img_name := img_name x, img_data := img_data x\<rparr>) =
     (\<exists>name data. x = img\<lparr>img_name := name, img_data := data\<rparr>)"
  by (metis image_payload.select_convs(6,7) image_payload.surjective image_payload.update_convs(6,7))

lemma image_body_wire_bytes: "image_body_wire x = map byte_of (img_name x) @ img_data x"
  by (simp add: image_body_wire_def put_image_body_def put_bytes)

interpretation body_item: wire_item image_body_wire rd_image_body body_ok
proof
  fix m :: "nat \<times> image_meta" and r x r'
  obtain i img name_len image_len where m: "m = (i, img, name_len, image_len)"
    by (cases m)
  show "rd_image_body m r = Inr (x, r') \<longleftrightarrow>
    body_ok m x \<and> rd_at r (image_body_wire x) \<and> r' = rd_skip (length (image_body_wire x)) r"
  proof
    assume "rd_image_body m r = Inr (x, r')"
    then show "body_ok m x \<and> rd_at r (image_body_wire x) \<and> r' = rd_skip (length (image_body_wire x)) r"
      by (auto simp: m rd_image_body_def res_simps unit_res_iff wire_simps body_ok_def Let_def
          image_body_wire_bytes rd_at_append)
  next
    assume body: "body_ok m x \<and> rd_at r (image_body_wire x) \<and> r' = rd_skip (length (image_body_wire x)) r"
    then obtain name data where x: "x = img\<lparr>img_name := name, img_data := data\<rparr>"
      by (auto simp: m body_ok_def image_payload_update_iff)
    from body show "rd_image_body m r = Inr (x, r')"
      using rd_at_length [of "rd_skip (length name) r" data]
      by (auto simp: m x rd_image_body_def res_simps unit_res_iff wire_simps body_ok_def Let_def
          image_body_wire_bytes rd_at_append rd_remaining_rest intro!: exI [of _ name] exI [of _ data])
  qed
qed

text \<open>What the two image loops read together.\<close>

lemma meta_wire_of: "meta_wire (meta_of x) = image_meta_wire x"
  by (simp add: meta_wire_def meta_of_def image_meta_wire_def put_image_meta_def put_bytes)

lemma image_ok_iff:
  "image_ok img \<longleftrightarrow>
     img_format img = image_raw_rgb_u8 \<and> img_width img \<noteq> 0 \<and> img_height img \<noteq> 0 \<and> img_channels img = 3
       \<and> img_data img \<noteq> [] \<and> (img_stride img \<noteq> 0 \<longrightarrow> img_width img * 3 \<le> img_stride img)
       \<and> unat (if img_stride img = 0 then img_width img * 3 else img_stride img) * unat (img_height img)
           \<le> length (img_data img)
       \<and> length (img_name img) < 2 ^ 32"
  by (auto simp: image_ok_def validate_image_payload_def is_ok_def Let_def not_less)

lemma body_meta_iff:
  "body_ok (i, m) x \<and> meta_ok m \<longleftrightarrow>
     image_ok x \<and> length (img_data x) < 2 ^ 64 \<and> m = meta_of x"
proof (cases m)
  case (fields img name_len image_len)
  show ?thesis
  proof
    assume asm: "body_ok (i, m) x \<and> meta_ok m"
    then have img: "img = x\<lparr>img_name := [], img_data := []\<rparr>"
      by (cases img, cases x) (auto simp: fields body_ok_def meta_ok_def)
    from asm have "name_len = of_nat (length (img_name x))" "image_len = of_nat (length (img_data x))"
      and "length (img_data x) < 2 ^ 64"
      using u64_bound [of image_len] by (auto simp: fields body_ok_def)
    with asm img show "image_ok x \<and> length (img_data x) < 2 ^ 64 \<and> m = meta_of x"
      by (simp add: fields meta_of_def body_ok_def)
  next
    assume "image_ok x \<and> length (img_data x) < 2 ^ 64 \<and> m = meta_of x"
    then show "body_ok (i, m) x \<and> meta_ok m"
      by (auto simp: meta_of_def body_ok_def meta_ok_def image_ok_iff unat_of_nat)
  qed
qed

lemma image_loops_iff:
  "list_all2 (\<lambda>_. meta_ok) [0..<n] metas \<and> list_all2 body_ok (List.enumerate 0 metas) images \<longleftrightarrow>
     length images = n \<and> metas = map meta_of images
       \<and> list_all (\<lambda>x. image_ok x \<and> length (img_data x) < 2 ^ 64) images"
proof -
  have "list_all2 (\<lambda>_. meta_ok) [0..<n] metas \<and> list_all2 body_ok (List.enumerate 0 metas) images \<longleftrightarrow>
      length images = n \<and> length metas = n
        \<and> (\<forall>i<n. body_ok (i, metas ! i) (images ! i) \<and> meta_ok (metas ! i))"
    by (auto simp: list_all2_upt list_all2_enumerate)
  then show ?thesis
    unfolding body_meta_iff by (auto simp: list_all_length nth_equalityI)
qed

lemma rd_request_counts_iff:
  "rd_request_counts r = Some ((a, b, c, d), r') \<longleftrightarrow>
     rd_at r (le32 a @ le32 b @ le32 c @ le32 d) \<and> r' = rd_skip 16 r"
  by (auto simp: rd_request_counts_def rd_at_append wire_simps Option.bind_eq_Some_conv)

lemma length_meta_wires [simp]: "length (concat (map meta_wire ms)) = 32 * length ms"
  by (simp add: length_concat_const)

lemma length_le32s [simp]: "length (concat (map le32 xs)) = 4 * length xs"
  by (simp add: length_concat_const)

lemma u32_of_length: "unat (of_nat n :: u32) = n \<longleftrightarrow> n < 2 ^ 32"
  using u32_bound [of "of_nat n"] by (auto simp: unat_of_nat)

lemma of_nat_eq_u32: "n = unat (w :: u32) \<longleftrightarrow> w = of_nat n \<and> n < 2 ^ 32"
  using u32_bound [of w] by (auto simp: unat_of_nat)

text \<open>The decoder, as a relation between bytes and requests: first what its steps read.\<close>

definition request_parts :: "u32 \<Rightarrow> u32 \<Rightarrow> u32 \<Rightarrow> u32 \<Rightarrow> image_meta list \<Rightarrow> predict_request \<Rightarrow> u8 list" where
  "request_parts ic sd nd tn metas req =
     (le32 ic @ le32 sd @ le32 nd @ le32 tn) @ concat (map meta_wire metas)
       @ concat (map le32 (rq_state req)) @ concat (map le32 (rq_noise req))
       @ map byte_of (rq_task req) @ concat (map image_body_wire (rq_images req))"

lemma rd_whole:
  "rd_at (make_reader p) xs \<Longrightarrow> rd_remaining (rd_skip n (make_reader p)) = 0 \<Longrightarrow> n = length xs \<Longrightarrow> p = xs"
  using rd_at_whole [of "make_reader p" xs] rd_at_length [of "make_reader p" xs]
  by (auto simp: rd_remaining_rest)

lemma rd_at_drop: "rd_at (rd_skip n (make_reader p)) xs \<longleftrightarrow> take (length xs) (drop n p) = xs"
  by (simp add: rd_at_def)

lemma decode_request_reads:
  assumes "decode_predict_request payload = Inr req"
  obtains ic sd nd tn metas where
    "ic \<noteq> 0" "list_all2 (\<lambda>_. meta_ok) [0..<unat ic] metas"
    "list_all2 body_ok (List.enumerate 0 metas) (rq_images req)"
    "length (rq_state req) = unat sd" "length (rq_noise req) = unat nd" "length (rq_task req) = unat tn"
    "list_all f32_finite (rq_state req)" "list_all f32_finite (rq_noise req)"
    "payload = request_parts ic sd nd tn metas req"
proof -
  let ?r = "make_reader payload"
  from assms obtain ic sd nd tn metas n where
    "ic \<noteq> 0" "list_all2 (\<lambda>_. meta_ok) [0..<unat ic] metas"
    "list_all2 body_ok (List.enumerate 0 metas) (rq_images req)"
    "length (rq_state req) = unat sd" "length (rq_noise req) = unat nd" "length (rq_task req) = unat tn"
    "list_all f32_finite (rq_state req)" "list_all f32_finite (rq_noise req)"
    and at: "rd_at ?r (request_parts ic sd nd tn metas req)"
    and rest: "rd_remaining (rd_skip n ?r) = 0"
    and n: "n = length (request_parts ic sd nd tn metas req)"
    by (auto simp: decode_predict_request_def res_simps unit_res_iff Let_def rd_request_counts_iff
        meta_item.rd_each_iff body_item.rd_each_iff wire_simps rd_at_append request_parts_def add.assoc
        split: prod.splits if_splits)
  moreover from at rest n have "payload = request_parts ic sd nd tn metas req"
    by (rule rd_whole)
  ultimately show ?thesis by (intro that)
qed

lemma decode_request_parts:
  assumes "ic \<noteq> 0" "list_all2 (\<lambda>_. meta_ok) [0..<unat ic] metas"
    "list_all2 body_ok (List.enumerate 0 metas) (rq_images req)"
    "length (rq_state req) = unat sd" "length (rq_noise req) = unat nd" "length (rq_task req) = unat tn"
    "list_all f32_finite (rq_state req)" "list_all f32_finite (rq_noise req)"
    and payload: "payload = request_parts ic sd nd tn metas req"
  shows "decode_predict_request payload = Inr req"
proof -
  have len: "length metas = unat ic"
    using assms(2) by (simp add: list_all2_upt)
  have at: "rd_at (make_reader payload) (request_parts ic sd nd tn metas req)"
    by (simp add: rd_at_def payload)
  note pieces = at [unfolded request_parts_def rd_at_append, simplified]
  let ?r = "make_reader payload"
  let ?b = "concat (map image_body_wire (rq_images req))"
  define m where "m = 16 + 32 * unat ic"
  define n where "n = m + 4 * unat sd"
  define t where "t = n + 4 * unat nd"
  define b where "b = t + unat tn"
  note at_defs = m_def n_def t_def b_def
  have length: "length payload = b + length ?b"
    using assms(4-6) len by (simp add: payload request_parts_def at_defs)
  have counts: "rd_request_counts ?r = Some ((ic, sd, nd, tn), rd_skip 16 ?r)"
    using pieces by (simp add: rd_request_counts_iff rd_at_append)
  have metas: "rd_each rd_image_meta [0..<unat ic] (rd_skip 16 ?r) = Inr (metas, rd_skip m ?r)"
    using assms(2) pieces len by (simp add: meta_item.rd_each_iff at_defs)
  have state: "rd_f32s msg sd (rd_skip m ?r) = Inr (rq_state req, rd_skip n ?r)" for msg
    using assms(4) pieces len by (simp add: wire_simps at_defs)
  have noise: "rd_f32s msg nd (rd_skip n ?r) = Inr (rq_noise req, rd_skip t ?r)" for msg
    using assms(4,5) pieces len by (simp add: wire_simps at_defs add.assoc)
  have task: "rd_string (unat tn) (rd_skip t ?r) = Some (rq_task req, rd_skip b ?r)"
    using assms(4-6) pieces len by (simp add: wire_simps at_defs add.assoc)
  have images: "rd_each rd_image_body (List.enumerate 0 metas) (rd_skip b ?r)
      = Inr (rq_images req, rd_skip (b + length ?b) ?r)"
    using assms(3-6) pieces len by (simp add: body_item.rd_each_iff at_defs add.assoc)
  show ?thesis
    using assms(1,7,8) length
    by (simp add: decode_predict_request_def counts metas state noise task images validate_f32_array_def
        rd_remaining_rest Let_def) (simp add: at_defs)
qed

text \<open>The numbers of items in the header are those of the request.\<close>

lemma request_parts_wire:
  "request_parts (of_nat (length (rq_images req))) (of_nat (length (rq_state req)))
     (of_nat (length (rq_noise req))) (of_nat (length (rq_task req))) (map meta_of (rq_images req)) req
   = request_wire req"
  by (simp add: request_parts_def request_wire_def put_request_counts_def put_bytes meta_wire_of o_def)

lemma decode_request_iff:
  "decode_predict_request payload = Inr req \<longleftrightarrow>
     request_ok req \<and> representable req \<and> payload = request_wire req"
  (is "?dec \<longleftrightarrow> ?spec")
proof
  assume ?dec
  then obtain ic sd nd tn metas where "ic \<noteq> 0" and
    loops: "list_all2 (\<lambda>_. meta_ok) [0..<unat ic] metas"
      "list_all2 body_ok (List.enumerate 0 metas) (rq_images req)" and
    counts: "length (rq_state req) = unat sd" "length (rq_noise req) = unat nd" "length (rq_task req) = unat tn"
    and finite: "list_all f32_finite (rq_state req)" "list_all f32_finite (rq_noise req)"
    and payload: "payload = request_parts ic sd nd tn metas req"
    by (rule decode_request_reads)
  from loops have images: "length (rq_images req) = unat ic" "metas = map meta_of (rq_images req)"
      "list_all image_ok (rq_images req)" "representable req"
    using image_loops_iff [of "unat ic" metas "rq_images req"]
    by (auto simp: representable_def list_all_iff)
  have "ic = of_nat (length (rq_images req))" "sd = of_nat (length (rq_state req))"
      "nd = of_nat (length (rq_noise req))" "tn = of_nat (length (rq_task req))"
    by (simp_all add: images counts)
  then have "payload = request_wire req"
    by (simp add: payload images(2) flip: request_parts_wire)
  moreover have "request_ok req"
    using \<open>ic \<noteq> 0\<close> counts images finite u32_bound [of ic] u32_bound [of sd] u32_bound [of nd] u32_bound [of tn]
      unsigned_eq_0_iff [of ic]
    by (auto simp: request_ok_def)
  ultimately show ?spec using images by simp
next
  assume spec: ?spec
  let ?ic = "of_nat (length (rq_images req)) :: u32"
  have lens: "unat ?ic = length (rq_images req)" "unat (of_nat (length (rq_state req)) :: u32) = length (rq_state req)"
      "unat (of_nat (length (rq_noise req)) :: u32) = length (rq_noise req)"
      "unat (of_nat (length (rq_task req)) :: u32) = length (rq_task req)"
    using spec unfolding u32_of_length request_ok_def by simp_all
  have "?ic \<noteq> 0"
    using spec lens(1) by (auto simp: request_ok_def)
  moreover have "list_all2 (\<lambda>_. meta_ok) [0..<unat ?ic] (map meta_of (rq_images req))
      \<and> list_all2 body_ok (List.enumerate 0 (map meta_of (rq_images req))) (rq_images req)"
    unfolding image_loops_iff using spec lens(1)
    by (auto simp: request_ok_def representable_def list_all_iff)
  moreover have payload: "payload = request_parts ?ic (of_nat (length (rq_state req)))
      (of_nat (length (rq_noise req))) (of_nat (length (rq_task req))) (map meta_of (rq_images req)) req"
    using spec by (simp add: request_parts_wire)
  ultimately show ?dec
    using spec lens by (intro decode_request_parts [OF _ _ _ _ _ _ _ _ payload]) (auto simp: request_ok_def)
qed

subsection \<open>Responses round trip\<close>

definition response_wire :: "predict_response \<Rightarrow> u8 list" where
  "response_wire resp =
     (le32 (rs_chunk_size resp) @ le32 (rs_action_dim resp) @ le32 (of_nat (length (rs_actions resp)))
       @ le32 (of_nat (length (rs_metrics resp)))) @ concat (map metric_wire (rs_metrics resp))
       @ concat (map le32 (rs_actions resp))"

definition metric_ok :: "metric \<Rightarrow> bool" where
  "metric_ok m \<longleftrightarrow> met_name m \<noteq> [] \<and> length (met_name m) < 2 ^ 32"

definition response_ok :: "predict_response \<Rightarrow> bool" where
  "response_ok resp \<longleftrightarrow>
     unat (rs_chunk_size resp) * unat (rs_action_dim resp) = length (rs_actions resp)
       \<and> length (rs_actions resp) < 2 ^ 32 \<and> length (rs_metrics resp) < 2 ^ 32
       \<and> list_all metric_ok (rs_metrics resp)"

lemma check_metrics_ok [res_simps]: "check_metrics ms = Inr () \<longleftrightarrow> list_all metric_ok ms"
  by (induction ms) (auto simp: res_simps metric_ok_def)

lemma encode_response_iff:
  "encode_predict_response resp = Inr out \<longleftrightarrow> response_ok resp \<and> out = response_wire resp"
  by (auto simp: encode_predict_response_def response_ok_def response_wire_def res_simps unit_res_iff
      Let_def foldl_puts put_bytes)

lemma metric_wire_bytes:
  "metric_wire m = le32 (of_nat (length (met_name m))) @ le64 (met_value m) @ map byte_of (met_name m)"
  by (simp add: metric_wire_def put_metric_def put_bytes)

interpretation metric_item: wire_item metric_wire rd_metric "\<lambda>_. metric_ok"
proof
  fix i r m r'
  obtain name v where m: "m = \<lparr>met_name = name, met_value = v\<rparr>"
    by (cases m)
  show "rd_metric i r = Inr (m, r') \<longleftrightarrow>
    metric_ok m \<and> rd_at r (metric_wire m) \<and> r' = rd_skip (length (metric_wire m)) r"
    by (auto simp: m rd_metric_def res_simps wire_simps Option.bind_eq_Some_conv metric_wire_bytes
        rd_at_append metric_ok_def unat_of_nat of_nat_eq_u32)
qed

lemma decode_response_iff:
  "decode_predict_response payload = Inr resp \<longleftrightarrow> response_ok resp \<and> payload = response_wire resp"
  (is "?dec \<longleftrightarrow> ?spec")
proof
  assume ?dec
  then have "response_ok resp \<and> rd_at (make_reader payload) (response_wire resp)
      \<and> rd_remaining (rd_skip (length (response_wire resp)) (make_reader payload)) = 0"
    using u32_bound
    by (auto simp: decode_predict_response_def res_simps rd_request_counts_iff metric_item.rd_each_iff
        wire_simps rd_at_append response_wire_def response_ok_def add.assoc list_all2_upt list_all_length
        split: prod.splits if_splits)
  then show ?spec
    using rd_whole [of payload "response_wire resp"] by blast
next
  assume spec: ?spec
  let ?r = "make_reader payload"
  let ?an = "of_nat (length (rs_actions resp)) :: u32" and ?mn = "of_nat (length (rs_metrics resp)) :: u32"
  define m where "m = 16 + length (concat (map metric_wire (rs_metrics resp)))"
  define a where "a = m + 4 * length (rs_actions resp)"
  have lens: "unat ?an = length (rs_actions resp)" "unat ?mn = length (rs_metrics resp)"
    using spec unfolding u32_of_length response_ok_def by simp_all
  have at: "rd_at ?r (response_wire resp)"
    using spec by (simp add: rd_at_def)
  note pieces = at [unfolded response_wire_def rd_at_append, simplified]
  have "length payload = a"
    using spec by (simp add: response_wire_def m_def a_def)
  moreover have "rd_request_counts ?r = Some ((rs_chunk_size resp, rs_action_dim resp, ?an, ?mn), rd_skip 16 ?r)"
    using pieces by (simp add: rd_request_counts_iff rd_at_append)
  moreover have "rd_each rd_metric [0..<length (rs_metrics resp)] (rd_skip 16 ?r) = Inr (rs_metrics resp, rd_skip m ?r)"
    using pieces spec lens
    by (simp add: metric_item.rd_each_iff m_def list_all2_upt response_ok_def list_all_length)
  moreover have "rd_f32s msg ?an (rd_skip m ?r) = Inr (rs_actions resp, rd_skip a ?r)" for msg
    using pieces lens by (simp add: wire_simps m_def a_def)
  ultimately show ?dec
    using spec lens by (cases resp)
      (simp add: decode_predict_response_def response_ok_def rd_remaining_rest)
qed

subsection \<open>Properties\<close>

text \<open>C11. The request decoder accepts exactly the payloads the request encoder produces, and
  gives back the request that was encoded: no other byte string is accepted, nothing is
  lost or reordered, whatever the number of images, states, noise values and the lengths
  of names and tasks.\<close>

theorem request_codec_exact:
  "decode_predict_request payload = Inr req \<longleftrightarrow>
     encode_predict_request req = Inr payload \<and> representable req"
  by (auto simp: decode_request_iff encode_request_iff)

text \<open>C12. The response decoder accepts exactly the payloads the response encoder produces,
  and gives back the response that was encoded.\<close>

theorem response_codec_exact:
  "decode_predict_response payload = Inr resp \<longleftrightarrow> encode_predict_response resp = Inr payload"
  by (simp add: decode_response_iff encode_response_iff)

text \<open>A message header round trips through its 32 bytes, whatever bytes follow it.\<close>

theorem header_roundtrip: "decode_header (Some (encode_header h @ rest)) = Inr h"
  by (rule decode_header_encoded)


text \<open>A request with one image of one pixel row.\<close>

definition sample_request :: "u32 \<Rightarrow> u8 list \<Rightarrow> predict_request" where
  "sample_request width data =
     \<lparr>rq_images = [\<lparr>img_format = image_raw_rgb_u8, img_width = width, img_height = 1, img_channels = 3,
        img_stride = 0, img_name = ''image'', img_data = data\<rparr>],
      rq_state = [f32_one], rq_noise = [], rq_task = ''go''\<rparr>"

lemma sample_request_decodes:
  "decode_predict_request (request_wire (sample_request 1 [1, 2, 3])) = Inr (sample_request 1 [1, 2, 3])"
  "decode_predict_request (request_wire (sample_request 0x55555556 [1, 2]))
     = Inr (sample_request 0x55555556 [1, 2])"
  unfolding decode_request_iff
  by (simp_all add: request_ok_def representable_def sample_request_def image_ok_iff f32_finite_def
      f32_one_def fmt_simps)


text \<open>C19. Without that bound the property fails: the product \<open>width * 3\<close> wraps around in 32 bits,
  and the decoder accepts an image more than a billion pixels wide with two bytes of data.\<close>

theorem accepted_image_stride_wraps:
  "\<exists>payload req img. decode_predict_request payload = Inr req \<and> img \<in> set (rq_images req)
     \<and> length (img_data img) = 2 \<and> 2 ^ 30 < unat (img_width img)"
proof -
  let ?req = "sample_request 0x55555556 [1, 2]"
  have "hd (rq_images ?req) \<in> set (rq_images ?req)" "length (img_data (hd (rq_images ?req))) = 2"
    "2 ^ 30 < unat (img_width (hd (rq_images ?req)))"
    by (simp_all add: sample_request_def)
  with sample_request_decodes(2) show ?thesis by blast
qed

end
