(* ===== verification/Sockets.thy ===== *)
theory Sockets
  imports Prelude
begin

text \<open>
  The socket layer of \<^verbatim>\<open>robot_server/socket.h\<close> and \<^verbatim>\<open>socket.cpp\<close> (the POSIX branch).  The operating
  system is not part of the program: what its calls return is a script, an argument of every
  operation, so that a property holds for every behaviour of the system the script can
  describe.  A record \<open>os\<close> holds the open descriptors and the results of the next
  descriptor calls; a record \<open>conn\<close> is the byte stream of one connected socket: the segments
  that arrive, how much of each \<open>send\<close> the kernel takes, and what has been sent.  Signals are
  not modelled.
\<close>

subsection \<open>Descriptors\<close>

text \<open>How a system call ends, and the calls the program makes.  \<open>Sys_fail\<close> carries the text
  of \<open>strerror (errno)\<close>.\<close>

datatype sys_result = Sys_ok nat | Sys_fail string

datatype sys_call =
    Call_socket
  | Call_setsockopt int
  | Call_bind int u32 u16
  | Call_listen int int
  | Call_accept int
  | Call_connect int u32 u16
  | Call_close int

text \<open>\<open>os_peer\<close>: what \<open>inet_ntop\<close> renders for the address of the next accepted peer (\<open>None\<close> when
  it fails), and the port in host order.\<close>

record os =
  os_fds :: "int list"
  os_errno :: string
  os_script :: "sys_result list"
  os_peer :: "string option \<times> u16"
  os_trace :: "sys_call list"

definition sys_call :: "sys_call \<Rightarrow> os \<Rightarrow> int \<times> os" where
  "sys_call c st = (case os_script st of
       [] \<Rightarrow> (-1, st\<lparr>os_trace := os_trace st @ [c]\<rparr>)
     | Sys_ok n # rest \<Rightarrow> (int n, st\<lparr>os_trace := os_trace st @ [c], os_script := rest\<rparr>)
     | Sys_fail e # rest \<Rightarrow> (-1, st\<lparr>os_trace := os_trace st @ [c], os_script := rest, os_errno := e\<rparr>))"

text \<open>A call that opens a descriptor.\<close>

definition sys_open :: "sys_call \<Rightarrow> os \<Rightarrow> int \<times> os" where
  "sys_open c st = (case sys_call c st of (fd, st) \<Rightarrow>
     (fd, if fd = -1 then st else st\<lparr>os_fds := fd # os_fds st\<rparr>))"

definition invalid_socket :: int where
  "invalid_socket = -1"

definition close :: "int \<Rightarrow> os \<Rightarrow> os" where
  "close fd st = (if fd = invalid_socket then st
     else st\<lparr>os_fds := remove1 fd (os_fds st), os_trace := os_trace st @ [Call_close fd]\<rparr>)"

definition socket_error_string :: "string \<Rightarrow> string \<Rightarrow> string" where
  "socket_error_string prefix errno_text = prefix @ '': '' @ errno_text"

text \<open>\<open>pton\<close> stands for \<open>inet_pton (AF_INET, ...)\<close>: the address a text denotes.  The value is the
  descriptor, or \<open>Inl\<close> the error where the function returns \<open>invalid_socket\<close>.\<close>

definition tcp_listen :: "(string \<Rightarrow> u32 option) \<Rightarrow> string \<Rightarrow> u16 \<Rightarrow> int \<Rightarrow> os \<Rightarrow> int res \<times> os" where
  "tcp_listen pton host port backlog st =
     (case sys_open Call_socket st of (fd, st) \<Rightarrow>
        if fd = invalid_socket then (Inl (socket_error_string ''socket failed'' (os_errno st)), st)
        else case sys_call (Call_setsockopt fd) st of (_, st) \<Rightarrow>
          (case pton host of
             None \<Rightarrow> (Inl (''invalid IPv4 host: '' @ host), close fd st)
           | Some addr \<Rightarrow>
               (case sys_call (Call_bind fd addr port) st of (rc, st) \<Rightarrow>
                  if rc \<noteq> 0 then (Inl (socket_error_string ''bind failed'' (os_errno st)), close fd st)
                  else case sys_call (Call_listen fd backlog) st of (rc, st) \<Rightarrow>
                    if rc \<noteq> 0 then (Inl (socket_error_string ''listen failed'' (os_errno st)), close fd st)
                    else (Inr fd, st))))"

text \<open>The results of \<open>accept\<close> are the descriptor and the text for the peer.\<close>

definition tcp_accept :: "int \<Rightarrow> os \<Rightarrow> (int \<times> string) res \<times> os" where
  "tcp_accept server st =
     (case sys_open (Call_accept server) st of (fd, st) \<Rightarrow>
        if fd = invalid_socket then (Inl (socket_error_string ''accept failed'' (os_errno st)), st)
        else (Inr (fd, case os_peer st of
                         (Some ip, port) \<Rightarrow> ip @ '':'' @ nat_to_string (unat port)
                       | (None, _) \<Rightarrow> ''<unknown>''), st))"

definition tcp_connect :: "(string \<Rightarrow> u32 option) \<Rightarrow> string \<Rightarrow> u16 \<Rightarrow> os \<Rightarrow> int res \<times> os" where
  "tcp_connect pton host port st =
     (case sys_open Call_socket st of (fd, st) \<Rightarrow>
        if fd = invalid_socket then (Inl (socket_error_string ''socket failed'' (os_errno st)), st)
        else case pton host of
             None \<Rightarrow> (Inl (''invalid IPv4 host: '' @ host), close fd st)
           | Some addr \<Rightarrow>
               (case sys_call (Call_connect fd addr port) st of (rc, st) \<Rightarrow>
                  if rc \<noteq> 0 then (Inl (socket_error_string ''connect failed'' (os_errno st)), close fd st)
                  else (Inr fd, st)))"

text \<open>\<open>startup\<close> and \<open>cleanup\<close> do nothing outside Windows.\<close>

definition startup :: "unit res" where
  "startup = Inr ()"

lemmas os_simps = sys_open_def sys_call_def close_def invalid_socket_def

subsection \<open>One connected socket\<close>

datatype rx_event = Chunk "u8 list" | Rx_fail string
datatype tx_event = Accept nat | Tx_fail string

record conn =
  cn_rx :: "rx_event list"
  cn_tx :: "u8 list"
  cn_tx_script :: "tx_event list"
  cn_errno :: string

text \<open>\<open>recv\<close> gives at most \<open>n\<close> bytes of the segment in front, none when the peer has closed the
  stream, and \<open>None\<close> (the value -1) on an error.\<close>

definition sys_recv :: "nat \<Rightarrow> conn \<Rightarrow> u8 list option \<times> conn" where
  "sys_recv n c = (case cn_rx c of
       [] \<Rightarrow> (Some [], c)
     | Rx_fail e # evs \<Rightarrow> (None, c\<lparr>cn_rx := evs, cn_errno := e\<rparr>)
     | Chunk bs # evs \<Rightarrow>
         (Some (take n bs), c\<lparr>cn_rx := if length bs \<le> n then evs else Chunk (drop n bs) # evs\<rparr>))"

text \<open>\<open>send\<close> takes a part of the bytes, all of them when the script has ended.\<close>

definition sys_send :: "u8 list \<Rightarrow> conn \<Rightarrow> int \<times> conn" where
  "sys_send bs c = (case cn_tx_script c of
       [] \<Rightarrow> (int (length bs), c\<lparr>cn_tx := cn_tx c @ bs\<rparr>)
     | Accept k # evs \<Rightarrow>
         (int (min k (length bs)), c\<lparr>cn_tx := cn_tx c @ take k bs, cn_tx_script := evs\<rparr>)
     | Tx_fail e # evs \<Rightarrow> (-1, c\<lparr>cn_tx_script := evs, cn_errno := e\<rparr>))"

text \<open>\<open>bs\<close> is what remains to be sent, \<open>p + sent\<close> of the source.\<close>

function send_all :: "u8 list \<Rightarrow> conn \<Rightarrow> unit res \<times> conn" where
  "send_all bs c =
     (if bs = [] then (Inr (), c)
      else case sys_send bs c of (n, c) \<Rightarrow>
        if n \<le> 0 then (Inl (socket_error_string ''send failed'' (cn_errno c)), c)
        else send_all (drop (nat n) bs) c)"
  by pat_completeness auto
termination by (relation "measure (\<lambda>(bs, c). length bs)") auto

text \<open>\<open>got\<close> is the part of the buffer that has been filled, of \<open>received\<close> bytes.\<close>

function recv_loop :: "nat \<Rightarrow> u8 list \<Rightarrow> conn \<Rightarrow> u8 list res \<times> conn" where
  "recv_loop len got c =
     (if \<not> length got < len then (Inr got, c)
      else case sys_recv (len - length got) c of
        (None, c) \<Rightarrow> (Inl (socket_error_string ''recv failed'' (cn_errno c)), c)
      | (Some bs, c) \<Rightarrow>
          if bs = [] then (Inl ''peer closed connection'', c) else recv_loop len (got @ bs) c)"
  by pat_completeness auto
termination
  by (relation "measure (\<lambda>(len, got, c). len - length got)") (auto simp: diff_less_mono2)

definition recv_exact :: "nat \<Rightarrow> conn \<Rightarrow> u8 list res \<times> conn" where
  "recv_exact len c = recv_loop len [] c"

declare send_all.simps [simp del] recv_loop.simps [simp del]

subsection \<open>What the stream holds\<close>

text \<open>The bytes that arrive before the stream ends, and how it ends.\<close>

fun rx_bytes :: "rx_event list \<Rightarrow> u8 list" where
  "rx_bytes [] = []"
| "rx_bytes (Rx_fail e # evs) = []"
| "rx_bytes (Chunk bs # evs) = (if bs = [] then [] else bs @ rx_bytes evs)"

fun rx_end :: "rx_event list \<Rightarrow> string" where
  "rx_end [] = ''peer closed connection''"
| "rx_end (Rx_fail e # evs) = socket_error_string ''recv failed'' e"
| "rx_end (Chunk bs # evs) = (if bs = [] then ''peer closed connection'' else rx_end evs)"

definition incoming :: "conn \<Rightarrow> u8 list" where
  "incoming c = rx_bytes (cn_rx c)"

text \<open>The part of the connection a receive leaves alone.\<close>

definition same_tx :: "conn \<Rightarrow> conn \<Rightarrow> bool" where
  "same_tx c c' \<longleftrightarrow> cn_tx c' = cn_tx c \<and> cn_tx_script c' = cn_tx_script c"

lemma recv_loop_enough:
  assumes "length got \<le> len" and "len - length got \<le> length (incoming c)"
  shows "\<exists>c'. recv_loop len got c = (Inr (got @ take (len - length got) (incoming c)), c')
    \<and> incoming c' = drop (len - length got) (incoming c) \<and> rx_end (cn_rx c') = rx_end (cn_rx c)
    \<and> same_tx c c'"
  using assms
proof (induction len got c rule: recv_loop.induct)
  case (1 len got c)
  show ?case
  proof (cases "length got < len")
    case False
    with 1 show ?thesis by (subst recv_loop.simps) (simp add: same_tx_def)
  next
    case True
    let ?n = "len - length got"
    obtain bs evs where rx: "cn_rx c = Chunk bs # evs" "bs \<noteq> []"
      using True 1(3) by (cases "cn_rx c" rule: rx_bytes.cases) (auto simp: incoming_def split: if_splits)
    define c1 where "c1 = c\<lparr>cn_rx := if length bs \<le> ?n then evs else Chunk (drop ?n bs) # evs\<rparr>"
    have recv: "sys_recv ?n c = (Some (take ?n bs), c1)" and ne: "take ?n bs \<noteq> []"
      using rx True by (simp_all add: sys_recv_def c1_def)
    have split: "incoming c = take ?n bs @ incoming c1" "rx_end (cn_rx c1) = rx_end (cn_rx c)" "same_tx c c1"
      using rx by (auto simp: incoming_def c1_def same_tx_def)
    have "recv_loop len got c = recv_loop len (got @ take ?n bs) c1"
      using True ne recv by (subst recv_loop.simps) simp
    moreover have "\<exists>c'. recv_loop len (got @ take ?n bs) c1
      = (Inr ((got @ take ?n bs) @ take (len - length (got @ take ?n bs)) (incoming c1)), c')
      \<and> incoming c' = drop (len - length (got @ take ?n bs)) (incoming c1)
      \<and> rx_end (cn_rx c') = rx_end (cn_rx c1) \<and> same_tx c1 c'"
      using True 1(2,3) split(1) by (intro 1(1) [OF _ recv [symmetric] refl ne]) auto
    moreover have "same_tx c1 c' \<Longrightarrow> same_tx c c'" for c'
      using split(3) by (simp add: same_tx_def)
    ultimately show ?thesis
      using split by (auto simp: min_def split: if_splits)
  qed
qed

lemma recv_loop_short:
  assumes "length got \<le> len" and "length (incoming c) < len - length got"
  shows "\<exists>c'. recv_loop len got c = (Inl (rx_end (cn_rx c)), c') \<and> same_tx c c'"
  using assms
proof (induction len got c rule: recv_loop.induct)
  case (1 len got c)
  then have lt: "length got < len" by simp
  let ?n = "len - length got"
  show ?case
  proof (cases "\<exists>bs evs. cn_rx c = Chunk bs # evs \<and> bs \<noteq> []")
    case False
    then show ?thesis
      using lt by (cases "cn_rx c" rule: rx_bytes.cases; subst recv_loop.simps)
        (auto simp: sys_recv_def same_tx_def)
  next
    case True
    then obtain bs evs where rx: "cn_rx c = Chunk bs # evs" "bs \<noteq> []" by blast
    with 1(3) have short: "length bs \<le> ?n" by (simp add: incoming_def)
    define c1 where "c1 = c\<lparr>cn_rx := evs\<rparr>"
    have recv: "sys_recv ?n c = (Some bs, c1)"
      using rx short by (simp add: sys_recv_def c1_def)
    have "recv_loop len got c = recv_loop len (got @ bs) c1"
      using lt rx recv by (subst recv_loop.simps) simp
    moreover have "\<exists>c'. recv_loop len (got @ bs) c1 = (Inl (rx_end (cn_rx c1)), c') \<and> same_tx c1 c'"
      using 1(2,3) short rx lt by (intro 1(1) [OF _ recv [symmetric] refl]) (auto simp: incoming_def c1_def)
    moreover have "rx_end (cn_rx c1) = rx_end (cn_rx c)" "same_tx c c1"
      using rx by (simp_all add: c1_def same_tx_def)
    ultimately show ?thesis by (auto simp: same_tx_def)
  qed
qed

lemma recv_exact_enough:
  "n \<le> length (incoming c) \<Longrightarrow>
     \<exists>c'. recv_exact n c = (Inr (take n (incoming c)), c') \<and> incoming c' = drop n (incoming c)
       \<and> rx_end (cn_rx c') = rx_end (cn_rx c) \<and> same_tx c c'"
  using recv_loop_enough [of "[]" n c] by (simp add: recv_exact_def)

lemma recv_exact_short:
  "length (incoming c) < n \<Longrightarrow> \<exists>c'. recv_exact n c = (Inl (rx_end (cn_rx c)), c') \<and> same_tx c c'"
  using recv_loop_short [of "[]" n c] by (simp add: recv_exact_def)

lemma recv_exact_Inr:
  assumes "recv_exact n c = (Inr bs, c')"
  shows "length bs = n" "incoming c = bs @ incoming c'" "rx_end (cn_rx c') = rx_end (cn_rx c)" "same_tx c c'"
proof -
  have "n \<le> length (incoming c)"
    using recv_exact_short [of c n] assms by (cases "n \<le> length (incoming c)") auto
  with recv_exact_enough [of n c] assms
  show "length bs = n" "incoming c = bs @ incoming c'" "rx_end (cn_rx c') = rx_end (cn_rx c)" "same_tx c c'"
    by auto
qed

lemma recv_exact_Inl:
  assumes "recv_exact n c = (Inl e, c')"
  shows "length (incoming c) < n" "e = rx_end (cn_rx c)" "same_tx c c'"
proof -
  have short: "length (incoming c) < n"
    using recv_exact_enough [of n c] assms by (cases "n \<le> length (incoming c)") auto
  then show "length (incoming c) < n" .
  from recv_exact_short [OF short] assms show "e = rx_end (cn_rx c)" "same_tx c c'" by auto
qed

lemma send_all_spec:
  "send_all bs c = (r, c') \<Longrightarrow>
     cn_rx c' = cn_rx c \<and>
     (case r of Inr _ \<Rightarrow> cn_tx c' = cn_tx c @ bs
      | Inl e \<Rightarrow> \<exists>k<length bs. cn_tx c' = cn_tx c @ take k bs)"
proof (induction bs c arbitrary: r c' rule: send_all.induct)
  case (1 bs c)
  obtain n c1 where send: "sys_send bs c = (n, c1)" by force
  then have c1: "cn_rx c1 = cn_rx c" "n \<le> int (length bs)"
    and tx: "n \<noteq> -1 \<Longrightarrow> 0 \<le> n \<and> cn_tx c1 = cn_tx c @ take (nat n) bs" "n = -1 \<Longrightarrow> cn_tx c1 = cn_tx c"
    by (auto simp: sys_send_def min_def split: list.splits tx_event.splits)
  consider "bs = []" | "bs \<noteq> []" "n \<le> 0" | "bs \<noteq> []" "0 < n" by linarith
  then show ?case
  proof cases
    case 1
    with "1.prems" show ?thesis by (auto simp: send_all.simps)
  next
    case 2
    with "1.prems" send have "r = Inl (socket_error_string ''send failed'' (cn_errno c1))" "c' = c1"
      by (auto simp: send_all.simps [of bs])
    moreover have "cn_tx c1 = cn_tx c"
      using tx 2 by (cases "n = -1") auto
    ultimately show ?thesis using 2 c1 by auto
  next
    case 3
    with "1.prems" send have loop: "send_all (drop (nat n) bs) c1 = (r, c')"
      by (simp add: send_all.simps [of bs])
    with 3 "1.IH" send have IH: "cn_rx c' = cn_rx c1" "case r of Inr _ \<Rightarrow> cn_tx c' = cn_tx c1 @ drop (nat n) bs
        | Inl e \<Rightarrow> \<exists>k<length (drop (nat n) bs). cn_tx c' = cn_tx c1 @ take k (drop (nat n) bs)"
      by fastforce+
    show ?thesis
    proof (cases r)
      case (Inl e)
      with IH(2) obtain k where "k < length bs - nat n" "cn_tx c' = cn_tx c1 @ take k (drop (nat n) bs)"
        by auto
      then show ?thesis
        using Inl IH(1) c1 tx 3 by (auto simp: take_add intro!: exI [of _ "nat n + k"])
    next
      case (Inr u)
      then show ?thesis using IH c1 tx 3 by simp
    qed
  qed
qed

text \<open>A kernel that always takes at least one byte.\<close>

fun takes_some :: "tx_event \<Rightarrow> bool" where
  "takes_some (Accept k) = (0 < k)"
| "takes_some (Tx_fail e) = False"

definition tx_reliable :: "conn \<Rightarrow> bool" where
  "tx_reliable c \<longleftrightarrow> list_all takes_some (cn_tx_script c)"

lemma send_all_reliable:
  "tx_reliable c \<Longrightarrow> \<exists>c'. send_all bs c = (Inr (), c') \<and> tx_reliable c'"
proof (induction bs c rule: send_all.induct)
  case (1 bs c)
  obtain n c1 where send: "sys_send bs c = (n, c1)" by force
  then have c1: "bs \<noteq> [] \<Longrightarrow> 0 < n" "tx_reliable c1"
    using "1.prems" by (auto simp: sys_send_def tx_reliable_def split: list.splits tx_event.splits)
  show ?case
    using 1 send c1 by (cases "bs = []") (auto simp: send_all.simps [of bs] send_all.simps [of "[]"])
qed

subsection \<open>The interface of a byte stream\<close>

text \<open>
  What the message layers of the server and of the client rely on: a successful receive takes
  exactly the next bytes of the stream and sends nothing, and a successful send appends all
  its bytes and receives nothing.
\<close>

locale byte_stream =
  fixes recv :: "nat \<Rightarrow> 's \<Rightarrow> u8 list res \<times> 's"
    and send :: "u8 list \<Rightarrow> 's \<Rightarrow> unit res \<times> 's"
    and inp :: "'s \<Rightarrow> u8 list"
    and outp :: "'s \<Rightarrow> u8 list"
  assumes recv_some: "n \<le> length (inp s) \<Longrightarrow>
      \<exists>s'. recv n s = (Inr (take n (inp s)), s') \<and> inp s' = drop n (inp s) \<and> outp s' = outp s"
    and recv_none: "length (inp s) < n \<Longrightarrow> \<exists>e s'. recv n s = (Inl e, s') \<and> outp s' = outp s"
    and send_some: "send bs s = (Inr u, s') \<Longrightarrow> inp s' = inp s \<and> outp s' = outp s @ bs"
begin

lemma recv_Inr:
  assumes "recv n s = (Inr bs, s')"
  shows "length bs = n \<and> inp s = bs @ inp s' \<and> outp s' = outp s"
proof (cases "n \<le> length (inp s)")
  case True
  with recv_some [of n s] assms show ?thesis by auto
next
  case False
  with recv_none [of s n] assms show ?thesis by auto
qed

lemma recv_Inl: "recv n s = (Inl e, s') \<Longrightarrow> length (inp s) < n \<and> outp s' = outp s"
  using recv_some [of n s] recv_none [of s n] by (cases "n \<le> length (inp s)") auto

text \<open>A frame, a header of known length and a body, is read by two receives.\<close>

lemma recv_frame:
  assumes "inp s = hdr @ body @ rest"
  shows "\<exists>s1 s2. recv (length hdr) s = (Inr hdr, s1) \<and> recv (length body) s1 = (Inr body, s2)
    \<and> inp s1 = body @ rest \<and> inp s2 = rest \<and> outp s1 = outp s \<and> outp s2 = outp s"
proof -
  from assms recv_some [of "length hdr" s] obtain s1 where
    s1: "recv (length hdr) s = (Inr hdr, s1)" "inp s1 = body @ rest" "outp s1 = outp s" by auto
  moreover from s1 recv_some [of "length body" s1] obtain s2 where
    "recv (length body) s1 = (Inr body, s2)" "inp s2 = rest" "outp s2 = outp s1" by auto
  ultimately show ?thesis by auto
qed

end

interpretation tcp: byte_stream recv_exact send_all incoming cn_tx
proof
  fix n :: nat and c :: conn
  show "n \<le> length (incoming c) \<Longrightarrow> \<exists>c'. recv_exact n c = (Inr (take n (incoming c)), c')
      \<and> incoming c' = drop n (incoming c) \<and> cn_tx c' = cn_tx c"
    using recv_exact_enough [of n c] by (auto simp: same_tx_def)
  show "length (incoming c) < n \<Longrightarrow> \<exists>e c'. recv_exact n c = (Inl e, c') \<and> cn_tx c' = cn_tx c"
    using recv_exact_short [of c n] by (auto simp: same_tx_def)
next
  fix bs c u c'
  show "send_all bs c = (Inr u, c') \<Longrightarrow> incoming c' = incoming c \<and> cn_tx c' = cn_tx c @ bs"
    using send_all_spec [of bs c "Inr u" c'] by (simp add: incoming_def)
qed

lemma tcp_listen_fds:
  "tcp_listen pton host port backlog st = (r, st') \<Longrightarrow>
     os_fds st' = (case r of Inr fd \<Rightarrow> fd # os_fds st | Inl _ \<Rightarrow> os_fds st) \<and> r \<noteq> Inr invalid_socket"
  by (auto simp: tcp_listen_def os_simps split: prod.splits list.splits sys_result.splits
      option.splits if_splits)

subsection \<open>Properties\<close>

text \<open>C20. Receiving does not depend on how the network cut the stream into segments: the call
  returns the next \<open>n\<close> bytes when so many arrive before the stream ends, else the error says
  how the stream ended.\<close>

theorem recv_exact_segmentation:
  "fst (recv_exact n c) =
     (if n \<le> length (incoming c) then Inr (take n (incoming c)) else Inl (rx_end (cn_rx c)))"
  using recv_exact_enough [of n c] recv_exact_short [of c n] by auto

text \<open>C21. Sending writes all the bytes in order, or fails after a proper prefix of them; it never
  skips or repeats a byte.\<close>

theorem send_all_writes_prefix:
  "case send_all bs c of
     (Inr _, c') \<Rightarrow> cn_tx c' = cn_tx c @ bs
   | (Inl _, c') \<Rightarrow> (\<exists>k. k < length bs \<and> cn_tx c' = cn_tx c @ take k bs)"
  by (cases "send_all bs c") (use send_all_spec [of bs c] in \<open>auto split: sum.splits\<close>)

text \<open>C22. Opening the listening socket: on success the descriptor is bound to the given address and
  port before it listens; on each failure the descriptor is closed again.\<close>

theorem tcp_listen_opens_or_releases:
  "case tcp_listen pton host port backlog st of
     (Inr fd, st') \<Rightarrow> fd \<noteq> invalid_socket \<and> os_fds st' = fd # os_fds st \<and>
       (\<exists>addr. pton host = Some addr \<and> os_trace st' = os_trace st @
         [Call_socket, Call_setsockopt fd, Call_bind fd addr port, Call_listen fd backlog])
   | (Inl _, st') \<Rightarrow> os_fds st' = os_fds st"
  by (auto simp: tcp_listen_def os_simps split: prod.splits list.splits sys_result.splits
      option.splits if_splits)

lemma tcp_connect_opens_or_releases:
  "case tcp_connect pton host port st of
     (Inr fd, st') \<Rightarrow> fd \<noteq> invalid_socket \<and> os_fds st' = fd # os_fds st \<and> (\<exists>addr. pton host = Some addr
       \<and> os_trace st' = os_trace st @ [Call_socket, Call_connect fd addr port])
   | (Inl _, st') \<Rightarrow> os_fds st' = os_fds st"
  by (auto simp: tcp_connect_def os_simps split: prod.splits list.splits sys_result.splits
      option.splits if_splits)

lemma tcp_accept_opens:
  "case tcp_accept server st of
     (Inr (fd, peer), st') \<Rightarrow> fd \<noteq> invalid_socket \<and> os_fds st' = fd # os_fds st
   | (Inl _, st') \<Rightarrow> os_fds st' = os_fds st"
  by (auto simp: tcp_accept_def os_simps split: prod.splits list.splits sys_result.splits
      option.splits if_splits)

end
