(* ===== verification/ModelApi.thy ===== *)
theory ModelApi
  imports Prelude Ieee
begin

text \<open>
  The model interface of \<^verbatim>\<open>src/models/model.h\<close>: model types, observations, results and arguments, the
  virtual class \<open>Model\<close> as a record of operations on a model state, the factory of
  \<^verbatim>\<open>model_factory.cpp\<close>, the names of \<^verbatim>\<open>model_type.cpp\<close> and the integer parser of \<^verbatim>\<open>argument_parse.h\<close>.
  A C++ \<open>int\<close> is an \<open>int\<close>; conversions from and to unsigned types are written out.  A pointer
  to bytes is an option, \<open>None\<close> the null pointer, and otherwise the bytes of the buffer.
\<close>

subsection \<open>Model types\<close>

datatype model_type = Smolvla | Pi0 | Starvla

definition MODEL_TYPES :: "(model_type \<times> string) list" where
  "MODEL_TYPES = [(Smolvla, ''smolvla''), (Pi0, ''pi0''), (Starvla, ''starvla'')]"

definition find_entry :: "model_type \<Rightarrow> (model_type \<times> string) option" where
  "find_entry t = List.find (\<lambda>entry. fst entry = t) MODEL_TYPES"

definition model_type_name :: "model_type \<Rightarrow> string" where
  "model_type_name t = (case find_entry t of Some entry \<Rightarrow> snd entry | None \<Rightarrow> ''unknown'')"

definition parse_model_type :: "string \<Rightarrow> model_type option" where
  "parse_model_type v = map_option fst (List.find (\<lambda>entry. v = snd entry) MODEL_TYPES)"

definition is_starvla_model_type :: "model_type \<Rightarrow> bool" where
  "is_starvla_model_type t \<longleftrightarrow> t = Starvla"

lemma model_type_names [simp]:
  "model_type_name Smolvla = ''smolvla''" "model_type_name Pi0 = ''pi0''" "model_type_name Starvla = ''starvla''"
  by (simp_all add: model_type_name_def find_entry_def MODEL_TYPES_def)

lemma parse_model_type_iff: "parse_model_type v = Some t \<longleftrightarrow> v = model_type_name t"
  by (cases t) (auto simp: parse_model_type_def MODEL_TYPES_def)

subsection \<open>Integers on the command line\<close>

definition is_digit :: "char \<Rightarrow> bool" where
  "is_digit c \<longleftrightarrow> 48 \<le> (of_char c :: nat) \<and> (of_char c :: nat) \<le> 57"

text \<open>The range of a signed integer of \<open>w\<close> bits.\<close>

definition signed_range :: "nat \<Rightarrow> int \<Rightarrow> bool" where
  "signed_range w i \<longleftrightarrow> - (2 ^ (w - 1)) \<le> i \<and> i < 2 ^ (w - 1)"

text \<open>\<open>std::from_chars\<close> in base 10 for a signed type: an optional minus, then digits; the value and
  the characters after the last digit, \<open>None\<close> when there is no digit or the value is out of
  range.\<close>

definition from_chars :: "nat \<Rightarrow> string \<Rightarrow> (int \<times> string) option" where
  "from_chars w s =
     (case (if s \<noteq> [] \<and> hd s = CHR ''-'' then (-1, tl s) else (1, s)) of (sign, ds) \<Rightarrow>
        if takeWhile is_digit ds = [] \<or> \<not> signed_range w (sign * int (dec_value 0 (takeWhile is_digit ds)))
        then None
        else Some (sign * int (dec_value 0 (takeWhile is_digit ds)), dropWhile is_digit ds))"

definition parse_integer_argument :: "nat \<Rightarrow> string option \<Rightarrow> int option" where
  "parse_integer_argument w v =
     (case v of None \<Rightarrow> None
      | Some s \<Rightarrow>
          if s = [] then None
          else case from_chars w s of None \<Rightarrow> None
            | Some (parsed, rest) \<Rightarrow> if rest \<noteq> [] then None else Some parsed)"

lemma is_digit_digit_char [simp]: "d < 10 \<Longrightarrow> is_digit (digit_char d)"
  by (simp add: is_digit_def)

lemma nat_to_string_digits: "c \<in> set (nat_to_string n) \<Longrightarrow> is_digit c"
proof (induction n rule: nat_to_string.induct)
  case (1 n)
  show ?case
  proof (cases "n < 10")
    case True
    with "1.prems" show ?thesis by (subst (asm) nat_to_string.simps) simp
  next
    case False
    have "set (nat_to_string n) = set (nat_to_string (n div 10)) \<union> {digit_char (n mod 10)}"
      using False by (subst nat_to_string.simps) simp
    with 1 False show ?thesis by auto
  qed
qed

lemma nat_to_string_runs [simp]:
  "takeWhile is_digit (nat_to_string n) = nat_to_string n" "dropWhile is_digit (nat_to_string n) = []"
  using nat_to_string_digits [of _ n] by (simp_all add: takeWhile_eq_all_conv dropWhile_eq_Nil_conv)

lemma nat_to_string_head: "hd (nat_to_string n) \<noteq> CHR ''-''"
proof -
  have "is_digit (hd (nat_to_string n))"
    by (rule nat_to_string_digits [OF hd_in_set [OF nat_to_string_nonempty]])
  then show ?thesis by (auto simp: is_digit_def)
qed

text \<open>The accepted texts: digits with an optional minus, of a value in range.\<close>

lemma from_chars_whole:
  "from_chars w s = Some (i, []) \<longleftrightarrow>
     (\<exists>ds. ds \<noteq> [] \<and> list_all is_digit ds \<and> signed_range w i \<and>
       (s = ds \<and> i = int (dec_value 0 ds) \<or> s = CHR ''-'' # ds \<and> i = - int (dec_value 0 ds)))"
proof -
  have runs: "takeWhile is_digit ds \<noteq> [] \<and> dropWhile is_digit ds = [] \<longleftrightarrow> ds \<noteq> [] \<and> list_all is_digit ds" for ds
    by (cases ds) (auto simp: dropWhile_eq_Nil_conv list_all_iff)
  have all: "list_all is_digit ds \<Longrightarrow> takeWhile is_digit ds = ds" for ds
    by (simp add: takeWhile_eq_all_conv list_all_iff)
  have minus: "\<not> is_digit CHR ''-''" by (simp add: is_digit_def)
  show ?thesis
  proof (cases "s \<noteq> [] \<and> hd s = CHR ''-''")
    case True
    then obtain ds where s: "s = CHR ''-'' # ds" by (cases s) auto
    have "from_chars w s = Some (i, []) \<longleftrightarrow> (takeWhile is_digit ds \<noteq> [] \<and> dropWhile is_digit ds = [])
        \<and> signed_range w i \<and> i = - int (dec_value 0 (takeWhile is_digit ds))"
      by (auto simp: from_chars_def s)
    also have "\<dots> \<longleftrightarrow> ds \<noteq> [] \<and> list_all is_digit ds \<and> signed_range w i \<and> i = - int (dec_value 0 ds)"
      unfolding runs by (auto simp: all simp del: takeWhile_eq_all_conv)
    finally show ?thesis using minus by (auto simp: s)
  next
    case False
    then have "from_chars w s = Some (i, []) \<longleftrightarrow> (takeWhile is_digit s \<noteq> [] \<and> dropWhile is_digit s = [])
        \<and> signed_range w i \<and> i = int (dec_value 0 (takeWhile is_digit s))"
      by (auto simp: from_chars_def)
    also have "\<dots> \<longleftrightarrow> s \<noteq> [] \<and> list_all is_digit s \<and> signed_range w i \<and> i = int (dec_value 0 s)"
      unfolding runs by (auto simp: all simp del: takeWhile_eq_all_conv)
    finally show ?thesis using False by auto
  qed
qed

lemma parse_integer_parts:
  "parse_integer_argument w (Some s) = Some i \<longleftrightarrow>
     (\<exists>ds. ds \<noteq> [] \<and> list_all is_digit ds \<and> signed_range w i \<and>
       (s = ds \<and> i = int (dec_value 0 ds) \<or> s = CHR ''-'' # ds \<and> i = - int (dec_value 0 ds)))"
proof -
  have "parse_integer_argument w (Some s) = Some i \<longleftrightarrow> s \<noteq> [] \<and> from_chars w s = Some (i, [])"
    by (auto simp: parse_integer_argument_def split: option.splits prod.splits if_splits)
  then show ?thesis unfolding from_chars_whole by auto
qed

lemma parse_integer_int_to_string:
  "parse_integer_argument w (Some (int_to_string i)) = (if signed_range w i then Some i else None)"
  using nat_to_string_head [of "nat i"] nat_to_string_nonempty
  by (auto simp: parse_integer_argument_def from_chars_def int_to_string_def dec_value_nat_to_string)

subsection \<open>Observations, results and arguments\<close>

record model_image =
  mi_name :: string
  mi_data :: "u8 list option"
  mi_width :: int
  mi_height :: int
  mi_channels :: int
  mi_stride :: int

record observation =
  ob_images :: "model_image list"
  ob_state :: "f32 list"
  ob_noise :: "f32 list"
  ob_task :: string

record model_metric =
  mm_name :: string
  mm_value :: f64

record model_result =
  mr_actions :: "f32 list"
  mr_chunk_size :: int
  mr_action_dim :: int
  mr_metrics :: "model_metric list"

record model_args =
  ma_type :: model_type
  ma_threads :: int
  ma_verbosity :: int
  ma_llm_path :: string
  ma_mmproj_path :: string
  ma_state_proj_path :: string
  ma_action_expert_path :: string
  ma_n_batch :: int
  ma_n_ctx :: int
  ma_noise_mode :: int
  ma_noise_seed :: int
  ma_vit_path :: string
  ma_tokenizer_path :: string
  ma_state_path :: string
  ma_action_decoder_path :: string
  ma_policy_path :: string

definition default_model_args :: model_args where
  "default_model_args = \<lparr>ma_type = Smolvla, ma_threads = 0, ma_verbosity = 0, ma_llm_path = [],
     ma_mmproj_path = [], ma_state_proj_path = [], ma_action_expert_path = [], ma_n_batch = 512,
     ma_n_ctx = 2048, ma_noise_mode = 0, ma_noise_seed = -1, ma_vit_path = [], ma_tokenizer_path = [],
     ma_state_path = [], ma_action_decoder_path = [], ma_policy_path = []\<rparr>"

subsection \<open>Models\<close>

text \<open>The virtual functions of \<open>Model\<close>, on a model whose state is of type \<open>'m\<close>.\<close>

record 'm model_ops =
  mod_type :: "'m \<Rightarrow> string"
  mod_predict :: "observation \<Rightarrow> 'm \<Rightarrow> model_result res \<times> 'm"
  mod_reset :: "'m \<Rightarrow> 'm"

text \<open>The three loaders are arguments; that of StarVLA is \<open>None\<close> in a build without it.\<close>

definition make_model ::
  "(model_args \<Rightarrow> 'm res) \<Rightarrow> (model_args \<Rightarrow> 'm res) \<Rightarrow> (model_args \<Rightarrow> 'm res) option \<Rightarrow> model_args \<Rightarrow> 'm res"
where
  "make_model make_smolvla make_pi0 make_starvla args =
     (if ma_type args = Smolvla then make_smolvla args
      else if ma_type args = Pi0 then make_pi0 args
      else if ma_type args = Starvla then
        (case make_starvla of
           Some load \<Rightarrow> load args
         | None \<Rightarrow> Inl ''StarVLA support was not built; configure with -DROBOT_CPP_BUILD_STARVLA=ON'')
      else Inl (''unsupported model type: '' @ model_type_name (ma_type args)))"

text \<open>What the callers of \<open>predict\<close> expect of a model: the actions fill a chunk of the announced
  size, and metrics have names.\<close>

definition result_shaped :: "model_result \<Rightarrow> bool" where
  "result_shaped r \<longleftrightarrow> 0 \<le> mr_chunk_size r \<and> 0 \<le> mr_action_dim r \<and>
     int (length (mr_actions r)) = mr_chunk_size r * mr_action_dim r \<and>
     list_all (\<lambda>m. mm_name m \<noteq> []) (mr_metrics r)"

subsection \<open>Properties\<close>

text \<open>The name of a model type parses back to that type, and no other text parses to it.\<close>

theorem model_type_names_exact: "parse_model_type v = Some t \<longleftrightarrow> v = model_type_name t"
  by (rule parse_model_type_iff)

text \<open>An integer printed in decimal is parsed back when it fits the destination type, and is
  rejected when it does not: nothing wraps around.\<close>

theorem parse_integer_roundtrip:
  "parse_integer_argument w (Some (int_to_string i)) = (if signed_range w i then Some i else None)"
  by (rule parse_integer_int_to_string)

end
