(* ===== verification/Session.thy ===== *)
theory Session
  imports Protocol Sockets ModelApi
begin

text \<open>
  One connection of the model server: the adapter of \<^verbatim>\<open>robot_server/model_adapter.cpp\<close> between
  protocol messages and the model, and the conversation of \<^verbatim>\<open>robot_server/session.cpp\<close>.  The record
  \<open>session\<close> holds what \<open>handle_client\<close> works on: the connection, the model of the adapter
  (\<open>None\<close> for the null pointer), the mutex, the shutdown flag, the readings the steady clock
  gives (nanoseconds, an argument), and the lines written to \<open>stderr\<close>.  \<open>lock\<close> on a mutex that is
  held would block for ever: it is an outcome of its own.
\<close>

subsection \<open>The adapter\<close>

definition adapt_image :: "image_payload \<Rightarrow> model_image" where
  "adapt_image src =
     \<lparr>mi_name = (if img_name src = [] then ''image'' else img_name src),
      mi_data = (if img_data src = [] then None else Some (img_data src)),
      mi_width = sint (img_width src), mi_height = sint (img_height src),
      mi_channels = sint (img_channels src), mi_stride = sint (img_stride src)\<rparr>"

definition adapt_request :: "predict_request \<Rightarrow> observation" where
  "adapt_request req =
     \<lparr>ob_images = map adapt_image (rq_images req), ob_state = rq_state req, ob_noise = rq_noise req,
      ob_task = rq_task req\<rparr>"

definition adapt_metric :: "model_metric \<Rightarrow> metric" where
  "adapt_metric src = \<lparr>met_name = mm_name src, met_value = mm_value src\<rparr>"

definition adapt_result :: "model_result \<Rightarrow> predict_response \<Rightarrow> predict_response" where
  "adapt_result result resp =
     resp\<lparr>rs_chunk_size := word_of_int (mr_chunk_size result),
          rs_action_dim := word_of_int (mr_action_dim result),
          rs_actions := mr_actions result,
          rs_metrics := rs_metrics resp @ map adapt_metric (mr_metrics result)\<rparr>"

definition adapter_predict ::
  "'m model_ops \<Rightarrow> predict_request \<Rightarrow> predict_response \<Rightarrow> 'm option \<Rightarrow> predict_response res \<times> 'm option"
where
  "adapter_predict ops req resp model =
     (case model of
        None \<Rightarrow> (Inl ''model adapter is not initialized'', None)
      | Some m \<Rightarrow>
          (case mod_predict ops (adapt_request req) m of
             (Inl e, m) \<Rightarrow> (Inl e, Some m)
           | (Inr result, m) \<Rightarrow> (Inr (adapt_result result resp), Some m)))"

definition adapter_reset :: "'m model_ops \<Rightarrow> 'm option \<Rightarrow> 'm option" where
  "adapter_reset ops model = map_option (mod_reset ops) model"

definition adapter_name :: "'m model_ops \<Rightarrow> 'm option \<Rightarrow> string" where
  "adapter_name ops model = (case model of Some m \<Rightarrow> mod_type ops m | None \<Rightarrow> ''invalid'')"

subsection \<open>State of a conversation\<close>

record 'm session =
  se_conn :: conn
  se_model :: "'m option"
  se_clock :: "int list"
  se_locked :: bool
  se_shutdown :: bool
  se_log :: "string list"

definition clock_now :: "'m session \<Rightarrow> int \<times> 'm session" where
  "clock_now s = (case se_clock s of [] \<Rightarrow> (0, s) | t # ts \<Rightarrow> (t, s\<lparr>se_clock := ts\<rparr>))"

definition mutex_lock :: "'m session \<Rightarrow> 'm session option" where
  "mutex_lock s = (if se_locked s then None else Some (s\<lparr>se_locked := True\<rparr>))"

definition mutex_unlock :: "'m session \<Rightarrow> 'm session" where
  "mutex_unlock s = s\<lparr>se_locked := False\<rparr>"

definition log_line :: "string \<Rightarrow> 'm session \<Rightarrow> 'm session" where
  "log_line msg s = s\<lparr>se_log := se_log s @ [msg]\<rparr>"

text \<open>A duration in nanoseconds, converted to \<open>double\<close> and divided by the million nanoseconds of a
  millisecond.\<close>

definition elapsed_ms :: "int \<Rightarrow> int \<Rightarrow> f64" where
  "elapsed_ms a b = f64_div (f64_of_int (b - a)) (f64_of_int 1000000)"

definition add_metric :: "predict_response \<Rightarrow> string \<Rightarrow> f64 \<Rightarrow> predict_response" where
  "add_metric resp name v = resp\<lparr>rs_metrics := rs_metrics resp @ [\<lparr>met_name = name, met_value = v\<rparr>]\<rparr>"

subsection \<open>Messages on the socket\<close>

definition message_header :: "u16 \<Rightarrow> u32 \<Rightarrow> u32 \<Rightarrow> u8 list \<Rightarrow> header" where
  "message_header op request_id status payload =
     default_header\<lparr>hd_op := op, hd_request_id := request_id, hd_status := status,
       hd_payload_len := of_nat (length payload)\<rparr>"

definition send_message :: "u16 \<Rightarrow> u32 \<Rightarrow> u32 \<Rightarrow> u8 list \<Rightarrow> 'm session \<Rightarrow> unit res \<times> 'm session" where
  "send_message op request_id status payload s =
     (case send_all (encode_header (message_header op request_id status payload)) (se_conn s) of
        (Inl e, c) \<Rightarrow> (Inl e, s\<lparr>se_conn := c\<rparr>)
      | (Inr _, c) \<Rightarrow>
          if payload = [] then (Inr (), s\<lparr>se_conn := c\<rparr>)
          else (case send_all payload c of (r, c) \<Rightarrow> (r, s\<lparr>se_conn := c\<rparr>)))"

definition send_text :: "u16 \<Rightarrow> u32 \<Rightarrow> u32 \<Rightarrow> string \<Rightarrow> 'm session \<Rightarrow> bool \<times> 'm session" where
  "send_text op request_id status text s =
     (case send_message op request_id status (encode_text_payload text) s of
        (Inl e, s) \<Rightarrow> (False, log_line (''[model-server] failed to send response: '' @ e) s)
      | (Inr _, s) \<Rightarrow> (True, s))"

definition read_message :: "'m session \<Rightarrow> (header \<times> u8 list \<times> f64) res \<times> 'm session" where
  "read_message s =
     (case clock_now s of (t0, s) \<Rightarrow>
      case recv_exact (unat k_header_size) (se_conn s) of
        (Inl e, c) \<Rightarrow> (Inl e, s\<lparr>se_conn := c\<rparr>)
      | (Inr hdr, c) \<Rightarrow>
          (case decode_header (Some hdr) of
             Inl e \<Rightarrow> (Inl e, s\<lparr>se_conn := c\<rparr>)
           | Inr h \<Rightarrow>
               (case validate_header h k_default_max_payload of
                  Inl e \<Rightarrow> (Inl e, s\<lparr>se_conn := c\<rparr>)
                | Inr _ \<Rightarrow>
                    (case (if hd_payload_len h = 0 then (Inr [], c)
                           else recv_exact (unat (hd_payload_len h)) c) of
                       (Inl e, c) \<Rightarrow> (Inl e, s\<lparr>se_conn := c\<rparr>)
                     | (Inr payload, c) \<Rightarrow>
                         (case clock_now (s\<lparr>se_conn := c\<rparr>) of (t1, s) \<Rightarrow>
                            (Inr (h, payload, elapsed_ms t0 t1), s))))))"

subsection \<open>One request\<close>

datatype outcome = Next | Return bool | Blocked

definition handle_health :: "'m model_ops \<Rightarrow> header \<Rightarrow> 'm session \<Rightarrow> outcome \<times> 'm session" where
  "handle_health ops h s =
     (Next, snd (send_text (hd_op h) (hd_request_id h) status_ok
                   (''ok policy='' @ adapter_name ops (se_model s)) s))"

definition handle_reset :: "'m model_ops \<Rightarrow> header \<Rightarrow> 'm session \<Rightarrow> outcome \<times> 'm session" where
  "handle_reset ops h s =
     (case mutex_lock s of
        None \<Rightarrow> (Blocked, s)
      | Some s \<Rightarrow>
          (Next, mutex_unlock (snd (send_text (hd_op h) (hd_request_id h) status_ok ''ok''
                   (s\<lparr>se_model := adapter_reset ops (se_model s)\<rparr>)))))"

definition handle_shutdown :: "header \<Rightarrow> 'm session \<Rightarrow> outcome \<times> 'm session" where
  "handle_shutdown h s =
     (Return True, (snd (send_text (hd_op h) (hd_request_id h) status_ok ''ok'' s))\<lparr>se_shutdown := True\<rparr>)"

text \<open>The policy has run; \<open>queue_ms\<close> and \<open>predict_ms\<close> are the two measured times.\<close>

definition finish_predict ::
  "header \<Rightarrow> predict_response res \<Rightarrow> f64 \<Rightarrow> f64 \<Rightarrow> 'm session \<Rightarrow> outcome \<times> 'm session"
where
  "finish_predict h r queue_ms predict_ms s =
     (case r of
        Inl e \<Rightarrow> (Next, snd (send_text (hd_op h) (hd_request_id h) status_internal_error e s))
      | Inr resp \<Rightarrow>
          (case encode_predict_response
                  (add_metric (add_metric resp ''server_queue_ms'' queue_ms) ''server_predict_ms'' predict_ms) of
             Inl e \<Rightarrow> (Next, snd (send_text (hd_op h) (hd_request_id h) status_internal_error e s))
           | Inr out \<Rightarrow>
               (case send_message (hd_op h) (hd_request_id h) status_ok out s of
                  (Inl e, s) \<Rightarrow> (Return False, log_line (''[model-server] send failed: '' @ e) s)
                | (Inr _, s) \<Rightarrow> (Next, s))))"

definition handle_predict ::
  "'m model_ops \<Rightarrow> header \<Rightarrow> u8 list \<Rightarrow> f64 \<Rightarrow> 'm session \<Rightarrow> outcome \<times> 'm session"
where
  "handle_predict ops h payload recv_ms s =
     (case decode_predict_request payload of
        Inl e \<Rightarrow> (Next, snd (send_text (hd_op h) (hd_request_id h) status_bad_request e s))
      | Inr req \<Rightarrow>
          (case clock_now s of (t_queue0, s) \<Rightarrow>
           case mutex_lock s of
             None \<Rightarrow> (Blocked, s)
           | Some s \<Rightarrow>
               (case clock_now s of (t_queue1, s) \<Rightarrow>
                case clock_now s of (t_predict0, s) \<Rightarrow>
                case adapter_predict ops req (add_metric empty_response ''server_recv_ms'' recv_ms)
                       (se_model s) of (r, m) \<Rightarrow>
                case clock_now (s\<lparr>se_model := m\<rparr>) of (t_predict1, s) \<Rightarrow>
                  finish_predict h r (elapsed_ms t_queue0 t_queue1) (elapsed_ms t_predict0 t_predict1)
                    (mutex_unlock s))))"

definition handle_message ::
  "'m model_ops \<Rightarrow> header \<Rightarrow> u8 list \<Rightarrow> f64 \<Rightarrow> 'm session \<Rightarrow> outcome \<times> 'm session"
where
  "handle_message ops h payload recv_ms s =
     (if hd_op h = op_health then handle_health ops h s
      else if hd_op h = op_reset then handle_reset ops h s
      else if hd_op h = op_shutdown then handle_shutdown h s
      else if hd_op h = op_predict then handle_predict ops h payload recv_ms s
      else (Next, snd (send_text (hd_op h) (hd_request_id h) status_bad_request ''unknown op'' s)))"

lemmas handler_defs = handle_health_def handle_reset_def handle_shutdown_def handle_predict_def
  finish_predict_def mutex_lock_def mutex_unlock_def log_line_def


subsection \<open>What the message operations do to the stream\<close>

text \<open>A message on the wire, and the messages that pass the checks of \<open>read_message\<close>.\<close>

definition frame :: "header \<Rightarrow> u8 list \<Rightarrow> u8 list" where
  "frame h payload = encode_header h @ payload"

definition valid_frame :: "header \<Rightarrow> u8 list \<Rightarrow> bool" where
  "valid_frame h payload \<longleftrightarrow>
     validate_header h k_default_max_payload = Inr () \<and> unat (hd_payload_len h) = length payload"

lemma clock_now_fields [simp]:
  "clock_now s = (t, s') \<Longrightarrow> se_conn s' = se_conn s \<and> se_model s' = se_model s \<and> se_locked s' = se_locked s
     \<and> se_shutdown s' = se_shutdown s \<and> se_log s' = se_log s"
  by (auto simp: clock_now_def split: list.splits)

lemma unit_res_cases: "(r :: unit res) = Inr () \<or> (\<exists>e. r = Inl e)"
  by (cases r) auto

lemma decode_header_32: "length bs = 32 \<Longrightarrow> decode_header (Some bs) = Inr h \<Longrightarrow> bs = encode_header h"
  using decode_header_sound [of bs h] by simp

lemma decode_header_exact [simp]: "decode_header (Some (encode_header h)) = Inr h"
  using decode_header_encoded [of h "[]"] by simp

text \<open>The receive of the payload, skipped by the source when the payload is empty.\<close>

lemma recv_payload:
  "(if n = 0 then (Inr [], c) else recv_exact (unat (n :: u64)) c) = recv_exact (unat n) c"
  by (auto simp: recv_exact_def recv_loop.simps)

lemma read_message_Inr:
  assumes "read_message s = (Inr (h, payload, ms), s')"
  shows "incoming (se_conn s) = frame h payload @ incoming (se_conn s')" "valid_frame h payload"
    "same_tx (se_conn s) (se_conn s')" "se_model s' = se_model s" "se_locked s' = se_locked s"
    "se_shutdown s' = se_shutdown s" "se_log s' = se_log s"
proof -
  obtain t0 s0 where clock0: "clock_now s = (t0, s0)" by force
  obtain hdr c1 where hdr: "recv_exact 32 (se_conn s) = (Inr hdr, c1)" and dec: "decode_header (Some hdr) = Inr h"
    and valid: "validate_header h k_default_max_payload = Inr ()"
    and rest: "(case recv_exact (unat (hd_payload_len h)) c1 of
          (Inl e, c) \<Rightarrow> (Inl e, s0\<lparr>se_conn := c\<rparr>)
        | (Inr payload, c) \<Rightarrow> (case clock_now (s0\<lparr>se_conn := c\<rparr>) of (t1, s) \<Rightarrow>
            (Inr (h, payload, elapsed_ms t0 t1), s))) = (Inr (h, payload, ms), s')"
    using assms clock0
    by (auto simp: read_message_def recv_payload k_header_size_def split: prod.splits sum.splits)
  from rest obtain c2 t1 where body: "recv_exact (unat (hd_payload_len h)) c1 = (Inr payload, c2)"
    and clock1: "clock_now (s0\<lparr>se_conn := c2\<rparr>) = (t1, s')"
    by (auto split: prod.splits sum.splits)
  note r1 = recv_exact_Inr [OF hdr] and r2 = recv_exact_Inr [OF body]
  show "incoming (se_conn s) = frame h payload @ incoming (se_conn s')"
    using r1 r2 clock1 decode_header_32 [OF _ dec] by (simp add: frame_def)
  show "valid_frame h payload"
    using valid r2 by (simp add: valid_frame_def)
  show "same_tx (se_conn s) (se_conn s')"
    using r1 r2 clock1 by (simp add: same_tx_def)
  show "se_model s' = se_model s" "se_locked s' = se_locked s" "se_shutdown s' = se_shutdown s"
    "se_log s' = se_log s"
    using clock0 clock1 by simp_all
qed

text \<open>A complete valid message in front of the stream is read.\<close>

lemma read_message_frame:
  assumes "incoming (se_conn s) = frame h payload @ rest" and "valid_frame h payload"
  shows "\<exists>ms s'. read_message s = (Inr (h, payload, ms), s') \<and> incoming (se_conn s') = rest"
proof -
  obtain t0 s0 where clock0: "clock_now s = (t0, s0)" by force
  have "incoming (se_conn s) = encode_header h @ payload @ rest"
    using assms(1) by (simp add: frame_def)
  from tcp.recv_frame [OF this] obtain c1 c2 where
    "recv_exact 32 (se_conn s) = (Inr (encode_header h), c1)"
    "recv_exact (length payload) c1 = (Inr payload, c2)" and rest: "incoming c2 = rest"
    by auto
  moreover obtain t1 s1 where clock1: "clock_now (s0\<lparr>se_conn := c2\<rparr>) = (t1, s1)" by force
  ultimately show ?thesis
    using assms(2) clock0
    by (simp add: read_message_def recv_payload k_header_size_def valid_frame_def)
qed

lemma read_message_Inl:
  assumes "read_message s = (Inl e, s')"
  shows "same_tx (se_conn s) (se_conn s')" "se_model s' = se_model s" "se_locked s' = se_locked s"
    "se_shutdown s' = se_shutdown s" "\<nexists>h payload rest. incoming (se_conn s) = frame h payload @ rest \<and> valid_frame h payload"
proof -
  obtain t0 s0 where clock0: "clock_now s = (t0, s0)" by force
  obtain c where c: "s' = s0\<lparr>se_conn := c\<rparr>" and "same_tx (se_conn s) c"
    using assms clock0
    by (auto simp: read_message_def recv_payload same_tx_def
        dest!: recv_exact_Inr(4) recv_exact_Inl(3) split: prod.splits sum.splits)
  with clock0 show "same_tx (se_conn s) (se_conn s')" "se_model s' = se_model s" "se_locked s' = se_locked s"
    "se_shutdown s' = se_shutdown s"
    by simp_all
  show "\<nexists>h payload rest. incoming (se_conn s) = frame h payload @ rest \<and> valid_frame h payload"
    using read_message_frame [of s] assms by fastforce
qed

text \<open>Sending never touches what is still to be read, and on success writes one message.\<close>

lemma send_message_effect:
  assumes "send_message op rid st payload s = (r, s')"
  shows "\<exists>c. s' = s\<lparr>se_conn := c\<rparr> \<and> cn_rx c = cn_rx (se_conn s)
    \<and> (r = Inr () \<longrightarrow> cn_tx c = cn_tx (se_conn s) @ frame (message_header op rid st payload) payload)"
proof -
  obtain r1 c1 where h: "send_all (encode_header (message_header op rid st payload)) (se_conn s) = (r1, c1)" by force
  obtain r2 c2 where b: "send_all payload c1 = (r2, c2)" by force
  show ?thesis
    using assms h b send_all_spec [OF h] send_all_spec [OF b]
    by (auto simp: send_message_def frame_def split: sum.splits if_splits)
qed

lemma send_message_reliable:
  assumes "tx_reliable (se_conn s)"
  shows "\<exists>c. send_message op rid st payload s = (Inr (), s\<lparr>se_conn := c\<rparr>) \<and> tx_reliable c \<and> cn_rx c = cn_rx (se_conn s)
    \<and> cn_tx c = cn_tx (se_conn s) @ frame (message_header op rid st payload) payload"
proof -
  obtain c1 where h: "send_all (encode_header (message_header op rid st payload)) (se_conn s) = (Inr (), c1)"
      "tx_reliable c1"
    using send_all_reliable [OF assms] by blast
  obtain c2 where b: "send_all payload c1 = (Inr (), c2)" "tx_reliable c2"
    using send_all_reliable [OF h(2)] by blast
  show ?thesis
    using h b send_all_spec [OF h(1)] send_all_spec [OF b(1)]
    by (auto simp: send_message_def frame_def)
qed

lemma send_text_rx:
  "send_text op rid st msg s = (b, s') \<Longrightarrow> cn_rx (se_conn s') = cn_rx (se_conn s) \<and> se_model s' = se_model s
     \<and> se_locked s' = se_locked s \<and> se_shutdown s' = se_shutdown s"
  using send_message_effect [of op rid st "encode_text_payload msg" s]
  by (auto simp: send_text_def log_line_def split: prod.splits sum.splits)

lemma send_text_reliable:
  assumes "tx_reliable (se_conn s)"
  shows "\<exists>c. send_text op rid st msg s = (True, s\<lparr>se_conn := c\<rparr>) \<and> tx_reliable c \<and> cn_rx c = cn_rx (se_conn s)
    \<and> cn_tx c = cn_tx (se_conn s) @ frame (message_header op rid st (encode_text_payload msg)) (encode_text_payload msg)"
  using send_message_reliable [OF assms, of op rid st "encode_text_payload msg"] by (auto simp: send_text_def)

lemma snd_send_text_rx [simp]:
  "cn_rx (se_conn (snd (send_text op rid st msg s))) = cn_rx (se_conn s)"
  "se_model (snd (send_text op rid st msg s)) = se_model s"
  "se_locked (snd (send_text op rid st msg s)) = se_locked s"
  "se_shutdown (snd (send_text op rid st msg s)) = se_shutdown s"
  by (cases "send_text op rid st msg s", simp add: send_text_rx)+

lemma finish_predict_rx:
  assumes "finish_predict h r q p s = (out, s')"
  shows "cn_rx (se_conn s') = cn_rx (se_conn s) \<and> se_locked s' = se_locked s \<and> se_model s' = se_model s
     \<and> se_shutdown s' = se_shutdown s"
proof -
  have "finish_predict h r q p s = (case r of
        Inl e \<Rightarrow> (Next, snd (send_text (hd_op h) (hd_request_id h) status_internal_error e s))
      | Inr resp \<Rightarrow>
          (case encode_predict_response
                  (add_metric (add_metric resp ''server_queue_ms'' q) ''server_predict_ms'' p) of
             Inl e \<Rightarrow> (Next, snd (send_text (hd_op h) (hd_request_id h) status_internal_error e s))
           | Inr out \<Rightarrow>
               (case send_message (hd_op h) (hd_request_id h) status_ok out s of
                  (Inl e, s) \<Rightarrow> (Return False, log_line (''[model-server] send failed: '' @ e) s)
                | (Inr _, s) \<Rightarrow> (Next, s))))"
    by (simp add: finish_predict_def)
  with assms show ?thesis
    by (auto simp: log_line_def dest!: send_message_effect split: sum.splits prod.splits)
qed

text \<open>A reading of the clock changes nothing else, so that a predict request amounts to one call of
  the policy and its reply.\<close>

lemma clock_now_ex: "\<exists>t ts. clock_now s = (t, s\<lparr>se_clock := ts\<rparr>)"
proof (cases "se_clock s")
  case Nil
  then have "clock_now s = (0, s\<lparr>se_clock := se_clock s\<rparr>)" by (simp add: clock_now_def)
  then show ?thesis by blast
qed (auto simp: clock_now_def)

lemma handle_predict_runs:
  assumes "decode_predict_request payload = Inr req" and "\<not> se_locked s"
    and ad: "adapter_predict ops req (add_metric empty_response ''server_recv_ms'' ms) (se_model s) = (r, m)"
  shows "\<exists>ts q p. handle_predict ops h payload ms s = finish_predict h r q p (s\<lparr>se_model := m, se_clock := ts\<rparr>)"
proof -
  obtain t0 ts0 where c0: "clock_now s = (t0, s\<lparr>se_clock := ts0\<rparr>)"
    using clock_now_ex by blast
  obtain t1 ts1 where c1: "clock_now (s\<lparr>se_clock := ts0, se_locked := True\<rparr>)
      = (t1, s\<lparr>se_locked := True, se_clock := ts1\<rparr>)"
    using clock_now_ex [of "s\<lparr>se_clock := ts0, se_locked := True\<rparr>"] by auto
  obtain t2 ts2 where c2: "clock_now (s\<lparr>se_locked := True, se_clock := ts1\<rparr>)
      = (t2, s\<lparr>se_locked := True, se_clock := ts2\<rparr>)"
    using clock_now_ex [of "s\<lparr>se_locked := True, se_clock := ts1\<rparr>"] by auto
  obtain t3 ts3 where c3: "clock_now (s\<lparr>se_locked := True, se_clock := ts2, se_model := m\<rparr>)
      = (t3, s\<lparr>se_locked := True, se_model := m, se_clock := ts3\<rparr>)"
    using clock_now_ex [of "s\<lparr>se_locked := True, se_clock := ts2, se_model := m\<rparr>"] by auto
  have unlocked: "s\<lparr>se_model := m, se_clock := ts3, se_locked := False\<rparr> = s\<lparr>se_model := m, se_clock := ts3\<rparr>"
    using assms(2) by simp
  have "handle_predict ops h payload ms s
      = finish_predict h r (elapsed_ms t0 t1) (elapsed_ms t2 t3) (s\<lparr>se_model := m, se_clock := ts3\<rparr>)"
    using assms(2) by (simp add: handle_predict_def assms(1) c0 c1 c2 c3 ad mutex_lock_def mutex_unlock_def unlocked)
  then show ?thesis by blast
qed

lemma handle_predict_blocked:
  assumes "decode_predict_request payload = Inr req" and "se_locked s"
  shows "\<exists>ts. handle_predict ops h payload ms s = (Blocked, s\<lparr>se_clock := ts\<rparr>)"
  using clock_now_ex [of s] assms by (auto simp: handle_predict_def mutex_lock_def)

lemma handle_predict_rx:
  assumes "handle_predict ops h payload ms s = (out, s')"
  shows "cn_rx (se_conn s') = cn_rx (se_conn s) \<and> se_shutdown s' = se_shutdown s"
proof (cases "decode_predict_request payload")
  case (Inl e)
  with assms show ?thesis by (auto simp: handle_predict_def)
next
  case (Inr req)
  obtain r m where ad: "adapter_predict ops req (add_metric empty_response ''server_recv_ms'' ms) (se_model s) = (r, m)"
    by force
  show ?thesis
  proof (cases "se_locked s")
    case True
    with handle_predict_blocked [OF Inr True, of ops h ms] assms show ?thesis by auto
  next
    case False
    then obtain ts q p where "finish_predict h r q p (s\<lparr>se_model := m, se_clock := ts\<rparr>) = (out, s')"
      using handle_predict_runs [OF Inr False ad, of h] assms by auto
    from finish_predict_rx [OF this] show ?thesis by simp
  qed
qed

lemma handle_message_rx:
  assumes "handle_message ops h payload ms s = (out, s')"
  shows "cn_rx (se_conn s') = cn_rx (se_conn s)"
  using assms handle_predict_rx [of ops h payload ms s out s']
  by (auto simp: handle_message_def handle_health_def handle_reset_def handle_shutdown_def
      mutex_lock_def mutex_unlock_def split: if_splits)

text \<open>Only the shutdown request raises the flag, and it always ends the conversation.\<close>

lemma handle_message_flag:
  assumes "handle_message ops h payload ms s = (Next, s')"
  shows "hd_op h \<noteq> op_shutdown \<and> se_shutdown s' = se_shutdown s"
  using assms handle_predict_rx [of ops h payload ms s Next s']
  by (auto simp: handle_message_def handle_health_def handle_reset_def handle_shutdown_def op_health_def op_reset_def
      op_shutdown_def op_predict_def mutex_lock_def mutex_unlock_def split: if_splits)

lemma message_progress:
  assumes "read_message s = (Inr (h, payload, ms), s1)" and "handle_message ops h payload ms s1 = (out, s2)"
  shows "length (incoming (se_conn s2)) < length (incoming (se_conn s))"
  using read_message_Inr(1) [OF assms(1)] handle_message_rx [OF assms(2)]
  by (simp add: frame_def incoming_def)

subsection \<open>The conversation\<close>

function handle_client :: "'m model_ops \<Rightarrow> 'm session \<Rightarrow> outcome \<times> 'm session" where
  "handle_client ops s =
     (if se_shutdown s then (Return True, s)
      else case read_message s of
        (Inl e, s) \<Rightarrow>
          (Return False,
           if e \<noteq> ''peer closed connection'' then log_line (''[model-server] read failed: '' @ e) s else s)
      | (Inr (h, payload, recv_ms), s) \<Rightarrow>
          (case handle_message ops h payload recv_ms s of
             (Next, s) \<Rightarrow> handle_client ops s
           | (Return b, s) \<Rightarrow> (Return b, s)
           | (Blocked, s) \<Rightarrow> (Blocked, s)))"
  by pat_completeness auto

termination
  by (relation "measure (\<lambda>(ops, s). length (incoming (se_conn s)))") (auto dest: message_progress [OF sym sym])

declare handle_client.simps [simp del]


subsection \<open>Replies\<close>

definition reply_statuses :: "u32 set" where
  "reply_statuses = {status_ok, status_bad_request, status_internal_error}"

text \<open>One request has been answered: one message is added to the output, of the same operation
  and request id, nothing has been received and the mutex is free.\<close>

definition replied :: "'m session \<Rightarrow> header \<Rightarrow> 'm session \<Rightarrow> bool" where
  "replied s h s' \<longleftrightarrow>
     tx_reliable (se_conn s') \<and> cn_rx (se_conn s') = cn_rx (se_conn s) \<and> \<not> se_locked s' \<and>
     (\<exists>st body. st \<in> reply_statuses \<and> cn_tx (se_conn s') =
        cn_tx (se_conn s) @ frame (message_header (hd_op h) (hd_request_id h) st body) body)"

lemma reply_statuses_intros [intro]:
  "status_ok \<in> reply_statuses" "status_bad_request \<in> reply_statuses" "status_internal_error \<in> reply_statuses"
  by (simp_all add: reply_statuses_def)

lemma repliedI:
  "tx_reliable (se_conn s') \<Longrightarrow> cn_rx (se_conn s') = cn_rx (se_conn s) \<Longrightarrow> \<not> se_locked s' \<Longrightarrow> st \<in> reply_statuses \<Longrightarrow>
   cn_tx (se_conn s') = cn_tx (se_conn s) @ frame (message_header (hd_op h) (hd_request_id h) st body) body \<Longrightarrow>
   replied s h s'"
  unfolding replied_def by blast

lemma send_text_replied:
  assumes "tx_reliable (se_conn s)" "\<not> se_locked s" "st \<in> reply_statuses"
  shows "replied s h (snd (send_text (hd_op h) (hd_request_id h) st msg s))"
  using send_text_reliable [OF assms(1), of "hd_op h" "hd_request_id h" st msg] assms
  by (auto intro!: repliedI)

lemma finish_predict_replied:
  assumes "tx_reliable (se_conn s)" "\<not> se_locked s" "finish_predict h r q p s = (out, s')"
  shows "replied s h s' \<and> out = Next"
proof (cases r)
  case (Inl e)
  with assms show ?thesis
    using send_text_replied [OF assms(1,2)] by (auto simp: finish_predict_def)
next
  case (Inr resp)
  let ?resp = "add_metric (add_metric resp ''server_queue_ms'' q) ''server_predict_ms'' p"
  show ?thesis
  proof (cases "encode_predict_response ?resp")
    case (Inl e)
    with assms Inr show ?thesis
      using send_text_replied [OF assms(1,2)] by (auto simp: finish_predict_def)
  next
    case (Inr body)
    obtain c where "send_message (hd_op h) (hd_request_id h) status_ok body s = (Inr (), s\<lparr>se_conn := c\<rparr>)"
        "tx_reliable c" "cn_rx c = cn_rx (se_conn s)"
        "cn_tx c = cn_tx (se_conn s) @ frame (message_header (hd_op h) (hd_request_id h) status_ok body) body"
      using send_message_reliable [OF assms(1)] by blast
    with assms \<open>r = Inr resp\<close> Inr show ?thesis
      by (auto simp: finish_predict_def intro!: repliedI [where st = status_ok])
  qed
qed

lemma handle_predict_replied:
  assumes rel: "tx_reliable (se_conn s)" and free: "\<not> se_locked s"
    and run: "handle_predict ops h payload ms s = (out, s')"
  shows "replied s h s' \<and> out = Next"
proof (cases "decode_predict_request payload")
  case (Inl e)
  with run send_text_replied [OF rel free] show ?thesis by (auto simp: handle_predict_def)
next
  case (Inr req)
  obtain r m where ad: "adapter_predict ops req (add_metric empty_response ''server_recv_ms'' ms) (se_model s) = (r, m)"
    by force
  obtain ts q p where fin: "finish_predict h r q p (s\<lparr>se_model := m, se_clock := ts\<rparr>) = (out, s')"
    using handle_predict_runs [OF Inr free ad, of h] run by auto
  have "replied (s\<lparr>se_model := m, se_clock := ts\<rparr>) h s' \<and> out = Next"
    by (rule finish_predict_replied [OF _ _ fin]) (use rel free in simp_all)
  then show ?thesis by (simp add: replied_def)
qed

lemma handle_reset_replied:
  assumes "tx_reliable (se_conn s)" and "\<not> se_locked s" and "handle_reset ops h s = (out, s')"
  shows "replied s h s' \<and> out = Next"
  using send_text_reliable [of "s\<lparr>se_locked := True, se_model := adapter_reset ops (se_model s)\<rparr>" "hd_op h"
      "hd_request_id h" status_ok "''ok''"] assms
  by (auto simp: handle_reset_def mutex_lock_def mutex_unlock_def intro!: repliedI [where st = status_ok])

lemma handle_message_replied:
  assumes "tx_reliable (se_conn s)" and "\<not> se_locked s"
    and run: "handle_message ops h payload ms s = (out, s')"
  shows "replied s h s' \<and> (out = Next \<or> out = Return True \<and> hd_op h = op_shutdown \<and> se_shutdown s')"
proof -
  note texts = send_text_replied [OF assms(1,2)]
  let ?goal = "replied s h s' \<and> (out = Next \<or> out = Return True \<and> hd_op h = op_shutdown \<and> se_shutdown s')"
  have shut: "replied s h (x\<lparr>se_shutdown := True\<rparr>) = replied s h x" for x
    by (simp add: replied_def)
  have predict: "handle_predict ops h payload ms s = (out, s') \<Longrightarrow> ?goal"
    and reset: "handle_reset ops h s = (out, s') \<Longrightarrow> ?goal"
    using handle_predict_replied [OF assms(1,2)] handle_reset_replied [OF assms(1,2)] by blast+
  have health: "handle_health ops h s = (out, s') \<Longrightarrow> ?goal"
    using texts by (auto simp: handle_health_def)
  have shutdown: "handle_shutdown h s = (out, s') \<Longrightarrow> hd_op h = op_shutdown \<Longrightarrow> ?goal"
    using texts [OF reply_statuses_intros(1), of h "''ok''"] by (auto simp: handle_shutdown_def shut)
  have unknown: "(Next, snd (send_text (hd_op h) (hd_request_id h) status_bad_request ''unknown op'' s)) = (out, s') \<Longrightarrow> ?goal"
    using texts [OF reply_statuses_intros(2), of h "''unknown op''"] by blast
  have "handle_health ops h s = (out, s') \<or> handle_reset ops h s = (out, s') \<or>
      hd_op h = op_shutdown \<and> handle_shutdown h s = (out, s') \<or> handle_predict ops h payload ms s = (out, s') \<or>
      (Next, snd (send_text (hd_op h) (hd_request_id h) status_bad_request ''unknown op'' s)) = (out, s')"
    using run unfolding handle_message_def by (metis (full_types))
  then show ?thesis
    by (elim disjE conjE) (fact predict reset health unknown | (rule shutdown, assumption, assumption))+
qed

text \<open>A whole conversation over a reliable connection: a list of requests, each answered.\<close>

definition answers :: "header \<times> u8 list \<Rightarrow> header \<times> u8 list \<Rightarrow> bool" where
  "answers req rep \<longleftrightarrow> (\<exists>st. st \<in> reply_statuses \<and>
     fst rep = message_header (hd_op (fst req)) (hd_request_id (fst req)) st (snd rep))"

definition frames :: "(header \<times> u8 list) list \<Rightarrow> u8 list" where
  "frames ms = concat (map (\<lambda>(h, payload). frame h payload) ms)"

definition no_shutdown :: "(header \<times> u8 list) list \<Rightarrow> bool" where
  "no_shutdown ms \<longleftrightarrow> (\<forall>m \<in> set ms. hd_op (fst m) \<noteq> op_shutdown)"

text \<open>How a conversation may end: by the shutdown request, which is the last one answered, or at once when the server was
  already stopping, or with no complete valid message left.\<close>

definition conversation_end ::
  "'m session \<Rightarrow> outcome \<Rightarrow> 'm session \<Rightarrow> (header \<times> u8 list) list \<Rightarrow> u8 list \<Rightarrow> bool"
where
  "conversation_end s out s' reqs rest \<longleftrightarrow>
     (if se_shutdown s then out = Return True \<and> reqs = [] \<and> s' = s
      else if se_shutdown s' then out = Return True \<and> reqs \<noteq> [] \<and> hd_op (fst (last reqs)) = op_shutdown \<and> no_shutdown (butlast reqs)
      else out = Return False \<and> no_shutdown reqs \<and>
        (\<nexists>h payload more. rest = frame h payload @ more \<and> valid_frame h payload))"

definition conversation :: "'m session \<Rightarrow> outcome \<Rightarrow> 'm session \<Rightarrow> bool" where
  "conversation s out s' \<longleftrightarrow> (\<exists>reqs reps rest.
     incoming (se_conn s) = frames reqs @ rest \<and> list_all (\<lambda>(h, payload). valid_frame h payload) reqs \<and>
     cn_tx (se_conn s') = cn_tx (se_conn s) @ frames reps \<and> list_all2 answers reqs reps \<and>
     \<not> se_locked s' \<and> conversation_end s out s' reqs rest)"

lemma frames_simps [simp]:
  "frames [] = []" "frames ((h, payload) # ms) = frame h payload @ frames ms"
  by (simp_all add: frames_def)

text \<open>One more request in front of a conversation.\<close>

lemma conversation_end_step:
  assumes "conversation_end s2 out s' reqs rest" "\<not> se_shutdown s" "\<not> se_shutdown s2" "hd_op h \<noteq> op_shutdown"
  shows "conversation_end s out s' ((h, payload) # reqs) rest"
  using assms by (auto simp: conversation_end_def no_shutdown_def split: if_splits)

lemma conversation_step:
  assumes "incoming (se_conn s) = frame h payload @ incoming (se_conn s1)" "valid_frame h payload"
    and "cn_tx (se_conn s1) = cn_tx (se_conn s)" "replied s1 h s2" and conv: "conversation s2 out s'"
    and flag: "\<not> se_shutdown s" "\<not> se_shutdown s2" "hd_op h \<noteq> op_shutdown"
  shows "conversation s out s'"
proof -
  obtain st body where tx: "st \<in> reply_statuses" "cn_tx (se_conn s2) =
      cn_tx (se_conn s) @ frame (message_header (hd_op h) (hd_request_id h) st body) body"
    and rx: "incoming (se_conn s2) = incoming (se_conn s1)"
    using assms(3,4) by (auto simp: replied_def incoming_def)
  from conv obtain reqs reps rest where c: "incoming (se_conn s2) = frames reqs @ rest"
      "list_all (\<lambda>(h, payload). valid_frame h payload) reqs"
      "cn_tx (se_conn s') = cn_tx (se_conn s2) @ frames reps" "list_all2 answers reqs reps" "\<not> se_locked s'"
      "conversation_end s2 out s' reqs rest"
    unfolding conversation_def by blast
  have "answers (h, payload) (message_header (hd_op h) (hd_request_id h) st body, body)"
    using tx(1) by (auto simp: answers_def)
  with c tx rx assms(1,2) conversation_end_step [OF c(6) flag] show ?thesis
    unfolding conversation_def
    by (intro exI [of _ "(h, payload) # reqs"]
        exI [of _ "(message_header (hd_op h) (hd_request_id h) st body, body) # reps"] exI [of _ rest]) auto
qed

text \<open>The shutdown request is answered and ends the conversation.\<close>

lemma conversation_shutdown:
  assumes "incoming (se_conn s) = frame h payload @ incoming (se_conn s1)" "valid_frame h payload"
    and "cn_tx (se_conn s1) = cn_tx (se_conn s)" "replied s1 h s2"
    and "\<not> se_shutdown s" "se_shutdown s2" "hd_op h = op_shutdown"
  shows "conversation s (Return True) s2"
proof -
  obtain st body where tx: "st \<in> reply_statuses" "cn_tx (se_conn s2) =
      cn_tx (se_conn s) @ frame (message_header (hd_op h) (hd_request_id h) st body) body"
    using assms(3,4) by (auto simp: replied_def)
  then have "answers (h, payload) (message_header (hd_op h) (hd_request_id h) st body, body)"
    by (auto simp: answers_def)
  with tx assms show ?thesis
    unfolding conversation_def
    by (intro exI [of _ "[(h, payload)]"] exI [of _ "[(message_header (hd_op h) (hd_request_id h) st body, body)]"]
        exI [of _ "incoming (se_conn s1)"]) (simp add: conversation_end_def no_shutdown_def replied_def)
qed

lemma conversation_none:
  assumes "cn_tx (se_conn s') = cn_tx (se_conn s)" "\<not> se_locked s'" "conversation_end s out s' [] (incoming (se_conn s))"
  shows "conversation s out s'"
  using assms unfolding conversation_def
  by (intro exI [of _ "[]"] exI [of _ "[]"] exI [of _ "incoming (se_conn s)"]) auto

lemma handle_client_conversation:
  "tx_reliable (se_conn s) \<Longrightarrow> \<not> se_locked s \<Longrightarrow> handle_client ops s = (out, s') \<Longrightarrow> conversation s out s'"
proof (induction ops s arbitrary: out s' rule: handle_client.induct)
  case (1 ops s)
  show ?case
  proof (cases "se_shutdown s")
    case True
    with 1(3,4) show ?thesis by (intro conversation_none) (auto simp: handle_client.simps conversation_end_def)
  next
    case False
    obtain r s1 where Pair: "read_message s = (r, s1)" by force
    show ?thesis
    proof (cases r)
      case (Inl e)
      with Pair have rd: "read_message s = (Inl e, s1)" by simp
      note end1 = read_message_Inl [OF rd]
      have "out = Return False" "se_conn s' = se_conn s1" "se_locked s' = se_locked s1" "se_shutdown s' = se_shutdown s1"
        using 1(4) False rd by (auto simp: handle_client.simps [of ops s] log_line_def split: if_splits)
      with end1 1(3) False show ?thesis
        by (intro conversation_none) (auto simp: same_tx_def conversation_end_def no_shutdown_def)
    next
      case (Inr x)
      then obtain h payload ms where rd: "read_message s = (Inr (h, payload, ms), s1)"
        using Pair by (cases x) auto
      note msg = read_message_Inr [OF rd]
      obtain o2 s2 where hm: "handle_message ops h payload ms s1 = (o2, s2)" by force
      have rel: "tx_reliable (se_conn s1)" "\<not> se_locked s1" "cn_tx (se_conn s1) = cn_tx (se_conn s)"
        using 1(2,3) msg by (simp_all add: same_tx_def tx_reliable_def)
      note rep = handle_message_replied [OF rel(1,2) hm]
      from rep consider "o2 = Next" | "o2 = Return True" "hd_op h = op_shutdown" "se_shutdown s2" by blast
      then show ?thesis
      proof cases
        case 1
        then have "handle_client ops s2 = (out, s')"
          using "1.prems"(3) False rd hm by (simp add: handle_client.simps [of ops s])
        with "1.IH" [OF False rd [symmetric] refl refl refl hm [symmetric] 1] rep
        have "conversation s2 out s'" by (auto simp: replied_def)
        moreover have "hd_op h \<noteq> op_shutdown" "\<not> se_shutdown s2"
          using handle_message_flag [of ops h payload ms s1 s2] hm 1 False msg(6) by simp_all
        ultimately show ?thesis using conversation_step [OF msg(1,2) rel(3)] rep False by blast
      next
        case 2
        then have "out = Return True" "s' = s2"
          using "1.prems"(3) False rd hm by (simp_all add: handle_client.simps [of ops s])
        with 2 rep False show ?thesis using conversation_shutdown [OF msg(1,2) rel(3)] by blast
      qed
    qed
  qed
qed


subsection \<open>A served prediction\<close>

text \<open>The sizes a result must have for the 32-bit fields of the protocol.\<close>

definition result_fits :: "model_result \<Rightarrow> bool" where
  "result_fits r \<longleftrightarrow> mr_chunk_size r < 2 ^ 31 \<and> mr_action_dim r < 2 ^ 31 \<and> length (mr_actions r) < 2 ^ 32 \<and>
     length (mr_metrics r) + 3 < 2 ^ 32 \<and> list_all (\<lambda>m. length (mm_name m) < 2 ^ 32) (mr_metrics r)"

text \<open>The response that carries a result, with the server's three timings.\<close>

definition served_response :: "model_result \<Rightarrow> f64 \<Rightarrow> f64 \<Rightarrow> f64 \<Rightarrow> predict_response" where
  "served_response result recv_ms queue_ms predict_ms =
     \<lparr>rs_chunk_size = word_of_int (mr_chunk_size result), rs_action_dim = word_of_int (mr_action_dim result),
      rs_actions = mr_actions result,
      rs_metrics = \<lparr>met_name = ''server_recv_ms'', met_value = recv_ms\<rparr> # map adapt_metric (mr_metrics result)
        @ [\<lparr>met_name = ''server_queue_ms'', met_value = queue_ms\<rparr>,
           \<lparr>met_name = ''server_predict_ms'', met_value = predict_ms\<rparr>]\<rparr>"

lemma served_response_built:
  "add_metric (add_metric (adapt_result result (add_metric empty_response ''server_recv_ms'' a))
     ''server_queue_ms'' b) ''server_predict_ms'' c = served_response result a b c"
  by (simp add: add_metric_def adapt_result_def served_response_def empty_response_def)

lemma unat_word_of_int_u32: "0 \<le> i \<Longrightarrow> i < 2 ^ 32 \<Longrightarrow> unat (word_of_int i :: u32) = nat i"
  by (simp add: unat_eq_nat_uint uint_word_of_int)

lemma served_response_ok:
  assumes "result_shaped result" "result_fits result"
  shows "response_ok (served_response result a b c)"
proof -
  have "int (nat (mr_chunk_size result) * nat (mr_action_dim result)) = int (length (mr_actions result))"
    using assms(1) by (simp add: result_shaped_def)
  then have "nat (mr_chunk_size result) * nat (mr_action_dim result) = length (mr_actions result)"
    by (simp only: of_nat_eq_iff)
  then show ?thesis
    using assms
    by (auto simp: response_ok_def served_response_def result_shaped_def result_fits_def
        unat_word_of_int_u32 metric_ok_def adapt_metric_def list_all_iff)
qed

lemma handle_predict_served:
  assumes "tx_reliable (se_conn s)" "\<not> se_locked s"
    and dec: "decode_predict_request payload = Inr req"
    and model: "se_model s = Some m" "mod_predict ops (adapt_request req) m = (Inr result, m')"
    and "result_shaped result" "result_fits result"
  shows "\<exists>queue_ms predict_ms s'. handle_predict ops h payload ms s = (Next, s') \<and> se_model s' = Some m' \<and>
    cn_tx (se_conn s') = cn_tx (se_conn s) @
      (let body = response_wire (served_response result ms queue_ms predict_ms)
       in frame (message_header (hd_op h) (hd_request_id h) status_ok body) body)"
proof -
  let ?r = "adapt_result result (add_metric empty_response ''server_recv_ms'' ms)"
  have ad: "adapter_predict ops req (add_metric empty_response ''server_recv_ms'' ms) (se_model s) = (Inr ?r, Some m')"
    by (simp add: adapter_predict_def model)
  obtain ts q p where run: "handle_predict ops h payload ms s
      = finish_predict h (Inr ?r) q p (s\<lparr>se_model := Some m', se_clock := ts\<rparr>)"
    using handle_predict_runs [OF dec assms(2) ad] by blast
  let ?s = "s\<lparr>se_model := Some m', se_clock := ts\<rparr>" and ?body = "response_wire (served_response result ms q p)"
  have enc: "encode_predict_response (served_response result ms q p) = Inr ?body"
    using served_response_ok [OF assms(6,7)] by (simp add: encode_response_iff)
  obtain c where "send_message (hd_op h) (hd_request_id h) status_ok ?body ?s = (Inr (), ?s\<lparr>se_conn := c\<rparr>)"
    and "cn_tx c = cn_tx (se_conn s) @ frame (message_header (hd_op h) (hd_request_id h) status_ok ?body) ?body"
    using send_message_reliable [of ?s "hd_op h" "hd_request_id h" status_ok ?body] assms(1) by auto
  then show ?thesis
    by (intro exI [of _ q] exI [of _ p] exI [of _ "?s\<lparr>se_conn := c\<rparr>"])
      (simp add: run finish_predict_def served_response_built enc Let_def)
qed

subsection \<open>Properties\<close>

text \<open>C3. Over a connection that takes all the server writes, the conversation is a list of
  complete valid requests, each answered exactly once, in order, by one message with its
  operation and request id.  It returns true when the server was already stopping (nothing is
  read or answered then), or when the last request answered is the shutdown request, the only
  one in the list; else it returns false, no shutdown request was among those answered, and no
  complete valid message is left in front of the stream.  The mutex is never locked twice and is
  free at the end.  Only the statuses ok, bad request and internal error are sent.\<close>

theorem session_answers_in_order:
  assumes "tx_reliable (se_conn s)" and "\<not> se_locked s" and "handle_client ops s = (out, s')"
  shows "\<exists>reqs reps rest.
    incoming (se_conn s) = frames reqs @ rest \<and> list_all (\<lambda>(h, payload). valid_frame h payload) reqs \<and>
    cn_tx (se_conn s') = cn_tx (se_conn s) @ frames reps \<and> list_all2 answers reqs reps \<and>
    \<not> se_locked s' \<and>
    (if se_shutdown s then out = Return True \<and> reqs = [] \<and> s' = s
     else if se_shutdown s' then out = Return True \<and> reqs \<noteq> [] \<and> hd_op (fst (last reqs)) = op_shutdown \<and> no_shutdown (butlast reqs)
     else out = Return False \<and> no_shutdown reqs \<and>
       (\<nexists>h payload more. rest = frame h payload @ more \<and> valid_frame h payload))"
  using handle_client_conversation [OF assms] by (simp add: conversation_def conversation_end_def)

text \<open>A model that answers every observation with one action of one dimension.\<close>

definition sample_model :: "nat model_ops" where
  "sample_model = \<lparr>mod_type = \<lambda>_. ''sample'',
     mod_predict = \<lambda>obs n. (Inr \<lparr>mr_actions = [f32_one], mr_chunk_size = 1, mr_action_dim = 1, mr_metrics = []\<rparr>, Suc n),
     mod_reset = \<lambda>_. 0\<rparr>"

definition sample_session :: "rx_event list \<Rightarrow> nat session" where
  "sample_session evs = \<lparr>se_conn = \<lparr>cn_rx = evs, cn_tx = [], cn_tx_script = [], cn_errno = []\<rparr>, se_model = Some 0,
     se_clock = [], se_locked = False, se_shutdown = False, se_log = []\<rparr>"

theorem session_answers_in_order_witness:
  "\<exists>out s'. handle_client sample_model (sample_session [Chunk (frame (message_header op_health 7 0 []) [])]) = (out, s') \<and>
     (\<exists>reqs reps rest.
        frame (message_header op_health 7 0 []) [] = frames reqs @ rest \<and>
        cn_tx (se_conn s') = frames reps \<and> list_all2 answers reqs reps)"
proof -
  let ?s = "sample_session [Chunk (frame (message_header op_health 7 0 []) [])]"
  have "frame (message_header op_health 7 0 []) [] \<noteq> []"
    by (simp add: frame_def flip: length_greater_0_conv)
  then have inc: "incoming (se_conn ?s) = frame (message_header op_health 7 0 []) []" "cn_tx (se_conn ?s) = []"
    by (simp_all add: sample_session_def incoming_def)
  obtain out s' where run: "handle_client sample_model ?s = (out, s')" by force
  moreover have "tx_reliable (se_conn ?s)" "\<not> se_locked ?s"
    by (simp_all add: sample_session_def tx_reliable_def)
  ultimately show ?thesis
    using session_answers_in_order [of ?s sample_model out s'] unfolding inc by auto
qed

text \<open>C23. A valid predict request that the model answers with a well-shaped result of a size the
  protocol can carry is answered with status ok and a payload that decodes to that result:
  the same actions, the chunk size and the action dimension, and the model's metrics between
  the server's own timings.\<close>

theorem predict_reply_decodes:
  assumes "tx_reliable (se_conn s)" "\<not> se_locked s" "hd_op h = op_predict"
    and "decode_predict_request payload = Inr req"
    and "se_model s = Some m" "mod_predict ops (adapt_request req) m = (Inr result, m')"
    and "result_shaped result" "result_fits result"
  shows "\<exists>body queue_ms predict_ms s'. handle_message ops h payload recv_ms s = (Next, s') \<and> se_model s' = Some m' \<and>
    cn_tx (se_conn s') = cn_tx (se_conn s) @ frame (message_header op_predict (hd_request_id h) status_ok body) body \<and>
    decode_predict_response body = Inr (served_response result recv_ms queue_ms predict_ms)"
proof -
  have "handle_message ops h payload recv_ms s = handle_predict ops h payload recv_ms s"
    using assms(3) by (simp add: handle_message_def op_health_def op_reset_def op_shutdown_def op_predict_def)
  moreover obtain q p s' where "handle_predict ops h payload recv_ms s = (Next, s')" "se_model s' = Some m'"
    "cn_tx (se_conn s') = cn_tx (se_conn s) @ (let body = response_wire (served_response result recv_ms q p)
       in frame (message_header (hd_op h) (hd_request_id h) status_ok body) body)"
    using handle_predict_served [OF assms(1,2,4-8), of h recv_ms] by blast
  moreover have "decode_predict_response (response_wire (served_response result recv_ms q p))
      = Inr (served_response result recv_ms q p)"
    using served_response_ok [OF assms(7,8)] by (simp add: decode_response_iff)
  ultimately show ?thesis using assms(3) by (auto simp: Let_def)
qed

theorem predict_reply_decodes_witness:
  "\<exists>body queue_ms predict_ms s'.
     handle_message sample_model (message_header op_predict 7 0 []) (request_wire (sample_request 1 [1, 2, 3])) 0
       (sample_session []) = (Next, s') \<and>
     decode_predict_response body = Inr (served_response
       \<lparr>mr_actions = [f32_one], mr_chunk_size = 1, mr_action_dim = 1, mr_metrics = []\<rparr> 0 queue_ms predict_ms)"
proof -
  let ?r = "\<lparr>mr_actions = [f32_one], mr_chunk_size = 1, mr_action_dim = 1, mr_metrics = []\<rparr>"
  have "tx_reliable (se_conn (sample_session []))" "\<not> se_locked (sample_session [])"
    "hd_op (message_header op_predict 7 0 []) = op_predict" "se_model (sample_session []) = Some 0"
    "mod_predict sample_model (adapt_request (sample_request 1 [1, 2, 3])) 0 = (Inr ?r, 1)"
    "result_shaped ?r" "result_fits ?r"
    by (simp_all add: sample_session_def tx_reliable_def message_header_def sample_model_def result_shaped_def
        result_fits_def)
  from predict_reply_decodes [OF this(1-3) sample_request_decodes(1) this(4-7), of 0]
  show ?thesis by blast
qed

text \<open>C24. A message whose header fails the checks is not answered: the connection ends without a
  byte being sent, and the error goes to the log only.\<close>

theorem bad_header_unanswered:
  assumes "\<not> se_shutdown s" and "incoming (se_conn s) = encode_header h @ rest"
    and "validate_header h k_default_max_payload = Inl e"
  shows "\<exists>s'. handle_client ops s = (Return False, s') \<and> cn_tx (se_conn s') = cn_tx (se_conn s) \<and>
    se_log s' = se_log s @ [''[model-server] read failed: '' @ e]"
proof -
  obtain t0 s0 where clock: "clock_now s = (t0, s0)" by force
  obtain c where "recv_exact 32 (se_conn s) = (Inr (encode_header h), c)" "cn_tx c = cn_tx (se_conn s)"
    using tcp.recv_frame [of "se_conn s" "encode_header h" "[]" rest] assms(2) by auto
  moreover have "e \<noteq> ''peer closed connection''"
    using assms(3) by (auto simp: validate_header_def split: if_splits)
  ultimately show ?thesis
    using clock assms(1,3)
    by (simp add: handle_client.simps [of ops s] read_message_def k_header_size_def log_line_def)
qed

theorem bad_header_unanswered_witness:
  "\<exists>s'. handle_client sample_model (sample_session [Chunk (encode_header (default_header\<lparr>hd_magic := 0\<rparr>))]) = (Return False, s')
     \<and> cn_tx (se_conn s') = [] \<and> se_log s' = [''[model-server] read failed: bad magic'']"
proof -
  let ?h = "default_header\<lparr>hd_magic := 0\<rparr>"
  let ?s = "sample_session [Chunk (encode_header ?h)]"
  have "encode_header ?h \<noteq> []"
    by (simp flip: length_greater_0_conv)
  then have "incoming (se_conn ?s) = encode_header ?h @ []"
    by (simp add: sample_session_def incoming_def)
  moreover have "validate_header ?h k_default_max_payload = Inl ''bad magic''"
    by (simp add: validate_header_def k_magic_def)
  ultimately show ?thesis
    using bad_header_unanswered [of ?s ?h "[]" "''bad magic''" sample_model] by (simp add: sample_session_def)
qed

end
