(* ===== verification/Client.thy ===== *)
theory Client
  imports Session
begin

text \<open>
  The C++ client of \<^verbatim>\<open>robot_client/cpp/model_client.h\<close> and \<^verbatim>\<open>model_client.cpp\<close>: building a request from an
  observation, one call over a fresh connection, and the four operations.  An image buffer is
  an option of bytes; a copy that reads past the end of the buffer is undefined behaviour and
  is the value \<open>None\<close> of \<open>make_predict_request\<close>.  \<open>net\<close> is what a call works on besides the client:
  the descriptors and the byte stream that the next connection will have.
\<close>

subsection \<open>Data\<close>

record client_image =
  ci_rgb :: "u8 list option"
  ci_width :: u32
  ci_height :: u32
  ci_stride :: u32
  ci_name :: string

record client_observation =
  co_images :: "client_image list"
  co_state :: "f32 list"
  co_noise :: "f32 list"
  co_prompt :: string

record client_response =
  cr_chunk_size :: u32
  cr_action_dim :: u32
  cr_actions :: "f32 list"
  cr_metrics :: "metric list"

record client =
  cl_host :: string
  cl_port :: u16
  cl_next_id :: u32

record net =
  nt_os :: os
  nt_conn :: conn

definition new_client :: "string \<Rightarrow> u16 \<Rightarrow> client" where
  "new_client host port = \<lparr>cl_host = host, cl_port = port, cl_next_id = 1\<rparr>"

subsection \<open>Requests\<close>

definition image_error :: "nat \<Rightarrow> string \<Rightarrow> string" where
  "image_error i msg = ''observation.images['' @ nat_to_string i @ '']'' @ msg"

definition effective_stride :: "client_image \<Rightarrow> u32" where
  "effective_stride src = (if ci_stride src = 0 then ci_width src * 3 else ci_stride src)"

text \<open>One image of the request; \<open>width * 3\<close> is a 32-bit product, \<open>stride * height\<close> a 64-bit one.\<close>

definition client_image_payload :: "nat \<Rightarrow> client_image \<Rightarrow> u8 list \<Rightarrow> image_payload" where
  "client_image_payload i src data =
     \<lparr>img_format = image_raw_rgb_u8, img_width = ci_width src, img_height = ci_height src, img_channels = 3,
      img_stride = effective_stride src,
      img_name = (if ci_name src = [] then ''image'' @ nat_to_string i else ci_name src),
      img_data = take (unat (effective_stride src) * unat (ci_height src)) data\<rparr>"

definition make_request_image :: "nat \<Rightarrow> client_image \<Rightarrow> image_payload res option" where
  "make_request_image i src =
     (case ci_rgb src of
        None \<Rightarrow> Some (Inl (image_error i '' must be non-empty RAW_RGB_U8''))
      | Some rgb \<Rightarrow>
          if ci_width src = 0 \<or> ci_height src = 0
            then Some (Inl (image_error i '' must be non-empty RAW_RGB_U8''))
          else if effective_stride src < ci_width src * 3
            then Some (Inl (image_error i ''.stride_bytes is smaller than width * 3''))
          else if length rgb < unat (effective_stride src) * unat (ci_height src) then None
          else Some (Inr (client_image_payload i src rgb)))"

fun make_request_images :: "nat \<Rightarrow> client_image list \<Rightarrow> image_payload list res option" where
  "make_request_images i [] = Some (Inr [])"
| "make_request_images i (src # rest) =
     (case make_request_image i src of
        None \<Rightarrow> None
      | Some (Inl e) \<Rightarrow> Some (Inl e)
      | Some (Inr img) \<Rightarrow>
          map_option (\<lambda>r. bind_res r (\<lambda>imgs. Inr (img # imgs))) (make_request_images (Suc i) rest))"

definition make_predict_request :: "client_observation \<Rightarrow> predict_request res option" where
  "make_predict_request obs =
     (if co_images obs = [] then Some (Inl ''observation.images must contain at least one image'')
      else map_option (\<lambda>r. bind_res r (\<lambda>imgs.
             Inr \<lparr>rq_images = imgs, rq_state = co_state obs, rq_noise = co_noise obs, rq_task = co_prompt obs\<rparr>))
           (make_request_images 0 (co_images obs)))"

subsection \<open>Responses\<close>

text \<open>The pointer to row \<open>index\<close> of the actions, as the floats from there on; \<open>None\<close> is the null
  pointer.\<close>

definition action_row :: "client_response \<Rightarrow> u32 \<Rightarrow> f32 list option" where
  "action_row resp index =
     (if cr_action_dim resp = 0 \<or> index \<ge> cr_chunk_size resp then None
      else if unat index * unat (cr_action_dim resp) + unat (cr_action_dim resp) > length (cr_actions resp) then None
      else Some (drop (unat index * unat (cr_action_dim resp)) (cr_actions resp)))"

definition metric_value :: "client_response \<Rightarrow> string \<Rightarrow> f64 \<Rightarrow> f64" where
  "metric_value resp name fallback =
     (case List.find (\<lambda>m. met_name m = name) (cr_metrics resp) of Some m \<Rightarrow> met_value m | None \<Rightarrow> fallback)"

subsection \<open>Messages\<close>

definition client_send_message :: "u16 \<Rightarrow> u32 \<Rightarrow> u8 list \<Rightarrow> conn \<Rightarrow> unit res \<times> conn" where
  "client_send_message op request_id payload c =
     (case send_all (encode_header (default_header\<lparr>hd_op := op, hd_request_id := request_id,
                       hd_payload_len := of_nat (length payload)\<rparr>)) c of
        (Inl e, c) \<Rightarrow> (Inl e, c)
      | (Inr _, c) \<Rightarrow> if payload \<noteq> [] then send_all payload c else (Inr (), c))"

definition recv_message :: "conn \<Rightarrow> (header \<times> u8 list) res \<times> conn" where
  "recv_message c =
     (case recv_exact (unat k_header_size) c of
        (Inl e, c) \<Rightarrow> (Inl e, c)
      | (Inr hdr, c) \<Rightarrow>
          (case bind_res (decode_header (Some hdr)) (\<lambda>h. bind_res (validate_header h k_default_max_payload) (\<lambda>_. Inr h)) of
             Inl e \<Rightarrow> (Inl e, c)
           | Inr h \<Rightarrow>
               (case (if hd_payload_len h = 0 then (Inr [], c) else recv_exact (unat (hd_payload_len h)) c) of
                  (Inl e, c) \<Rightarrow> (Inl e, c)
                | (Inr payload, c) \<Rightarrow> (Inr (h, payload), c))))"

text \<open>What \<open>call\<close> makes of the response.\<close>

definition check_response :: "u32 \<Rightarrow> header \<times> u8 list \<Rightarrow> u8 list res" where
  "check_response request_id m =
     (case m of (h, payload) \<Rightarrow>
        if hd_request_id h \<noteq> request_id then Inl ''response request_id mismatch''
        else if hd_status h \<noteq> status_ok then
          Inl (if decode_text_payload payload = [] then ''server returned error'' else decode_text_payload payload)
        else Inr payload)"

definition exchange :: "u16 \<Rightarrow> u32 \<Rightarrow> u8 list \<Rightarrow> conn \<Rightarrow> (header \<times> u8 list) res \<times> conn" where
  "exchange op request_id payload c =
     (case client_send_message op request_id payload c of
        (Inl e, c) \<Rightarrow> (Inl e, c)
      | (Inr _, c) \<Rightarrow> recv_message c)"

definition call ::
  "(string \<Rightarrow> u32 option) \<Rightarrow> u16 \<Rightarrow> u8 list \<Rightarrow> client \<Rightarrow> net \<Rightarrow> u8 list res \<times> client \<times> net"
where
  "call pton op payload cl nt =
     (case startup of
        Inl e \<Rightarrow> (Inl e, cl, nt)
      | Inr _ \<Rightarrow>
          (case tcp_connect pton (cl_host cl) (cl_port cl) (nt_os nt) of
             (Inl e, st) \<Rightarrow> (Inl e, cl, nt\<lparr>nt_os := st\<rparr>)
           | (Inr fd, st) \<Rightarrow>
               (case exchange op (cl_next_id cl) payload (nt_conn nt) of (r, c) \<Rightarrow>
                  (bind_res r (check_response (cl_next_id cl)), cl\<lparr>cl_next_id := cl_next_id cl + 1\<rparr>,
                   nt\<lparr>nt_os := close fd st, nt_conn := c\<rparr>))))"

definition text_call ::
  "u16 \<Rightarrow> (string \<Rightarrow> u32 option) \<Rightarrow> client \<Rightarrow> net \<Rightarrow> string res \<times> client \<times> net"
where
  "text_call op pton cl nt =
     (case call pton op [] cl nt of (r, cl, nt) \<Rightarrow> (bind_res r (\<lambda>payload. Inr (decode_text_payload payload)), cl, nt))"

definition client_health where "client_health = text_call op_health"
definition client_reset where "client_reset = text_call op_reset"
definition client_shutdown where "client_shutdown = text_call op_shutdown"

definition client_response_of :: "predict_response \<Rightarrow> client_response" where
  "client_response_of resp = \<lparr>cr_chunk_size = rs_chunk_size resp, cr_action_dim = rs_action_dim resp,
     cr_actions = rs_actions resp, cr_metrics = rs_metrics resp\<rparr>"

text \<open>\<open>None\<close>: building the request has read past the end of an image.\<close>

definition client_predict ::
  "(string \<Rightarrow> u32 option) \<Rightarrow> client_observation \<Rightarrow> client \<Rightarrow> net \<Rightarrow> (client_response res \<times> client \<times> net) option"
where
  "client_predict pton obs cl nt =
     map_option (\<lambda>req.
       case bind_res req encode_predict_request of
         Inl e \<Rightarrow> (Inl e, cl, nt)
       | Inr payload \<Rightarrow>
           (case call pton op_predict payload cl nt of (r, cl, nt) \<Rightarrow>
              (bind_res r (\<lambda>body. bind_res (decode_predict_response body) (\<lambda>resp. Inr (client_response_of resp))), cl, nt)))
     (make_predict_request obs)"

subsection \<open>The requests are valid\<close>

lemma three_inverse: "(3 :: u32) * 0xaaaaaaab = 1"
  by simp

lemma width3_zero: "(w :: u32) * 3 = 0 \<Longrightarrow> w = 0"
proof -
  assume "w * 3 = 0"
  then have "w * (3 * 0xaaaaaaab) = 0" by (metis mult.assoc mult_zero_left)
  then show "w = 0" by (simp only: three_inverse mult_1_right)
qed

lemma make_request_image_ok:
  assumes "make_request_image i src = Some (Inr img)" and "length (img_name img) < 2 ^ 32"
  shows "image_ok img \<and> length (img_data img) < 2 ^ 64"
proof -
  obtain rgb where rgb: "ci_rgb src = Some rgb" "ci_width src \<noteq> 0" "ci_height src \<noteq> 0"
    "\<not> effective_stride src < ci_width src * 3" and len: "\<not> length rgb < unat (effective_stride src) * unat (ci_height src)"
    and img: "img = client_image_payload i src rgb"
    using assms(1) by (auto simp: make_request_image_def split: option.splits if_splits)
  have stride: "effective_stride src \<noteq> 0"
    using width3_zero rgb(2) by (auto simp: effective_stride_def)
  define n where "n = unat (effective_stride src) * unat (ci_height src)"
  have "0 < n"
    using stride rgb(3) by (simp add: n_def unat_gt_0)
  have "n < 2 ^ 32 * 2 ^ 32"
    unfolding n_def using u32_bound [of "effective_stride src"] u32_bound [of "ci_height src"]
    by (intro mult_strict_mono) auto
  have data: "img_data img = take n rgb" "length (take n rgb) = n"
    using len by (auto simp: img client_image_payload_def n_def)
  with \<open>0 < n\<close> have "img_data img \<noteq> []" by auto
  with data stride rgb assms(2) \<open>n < _\<close> show ?thesis
    by (auto simp: image_ok_iff img client_image_payload_def n_def not_less)
qed

lemma make_request_images_ok:
  "make_request_images i srcs = Some (Inr imgs) \<Longrightarrow> list_all (\<lambda>img. length (img_name img) < 2 ^ 32) imgs \<Longrightarrow>
     list_all (\<lambda>img. image_ok img \<and> length (img_data img) < 2 ^ 64) imgs \<and> length imgs = length srcs"
proof (induction srcs arbitrary: i imgs)
  case Nil
  then show ?case by simp
next
  case (Cons src srcs)
  then obtain img rest where "make_request_image i src = Some (Inr img)"
    "make_request_images (Suc i) srcs = Some (Inr rest)" "imgs = img # rest"
    by (auto simp: res_simps split: option.splits sum.splits)
  with Cons make_request_image_ok [of i src img] show ?case by auto
qed

lemma make_predict_request_ok:
  assumes "make_predict_request obs = Some (Inr req)" and "list_all (\<lambda>img. length (img_name img) < 2 ^ 32) (rq_images req)"
  shows "rq_images req \<noteq> []" "list_all image_ok (rq_images req)" "representable req"
    "length (rq_images req) = length (co_images obs)" "rq_state req = co_state obs" "rq_noise req = co_noise obs"
    "rq_task req = co_prompt obs"
proof -
  obtain imgs where ne: "co_images obs \<noteq> []" and imgs: "make_request_images 0 (co_images obs) = Some (Inr imgs)"
    and req: "req = \<lparr>rq_images = imgs, rq_state = co_state obs, rq_noise = co_noise obs, rq_task = co_prompt obs\<rparr>"
    using assms(1) by (auto simp: make_predict_request_def res_simps split: if_splits)
  with make_request_images_ok [OF imgs] assms(2)
  show "rq_images req \<noteq> []" "list_all image_ok (rq_images req)" "representable req"
    "length (rq_images req) = length (co_images obs)" "rq_state req = co_state obs" "rq_noise req = co_noise obs"
    "rq_task req = co_prompt obs"
    by (auto simp: representable_def list_all_iff)
qed

text \<open>What it is for image \<open>i\<close> of a request to carry a picture of the observation.\<close>

definition carries_image :: "nat \<Rightarrow> client_image \<Rightarrow> image_payload \<Rightarrow> bool" where
  "carries_image i src img \<longleftrightarrow>
     img_format img = image_raw_rgb_u8 \<and> img_channels img = 3 \<and> img_width img = ci_width src \<and> img_height img = ci_height src \<and>
     img_stride img = (if ci_stride src = 0 then 3 * ci_width src else ci_stride src) \<and>
     img_name img = (if ci_name src = [] then ''image'' @ nat_to_string i else ci_name src) \<and>
     length (img_data img) = unat (img_stride img) * unat (img_height img) \<and>
     (\<exists>rgb unread. ci_rgb src = Some rgb \<and> rgb = img_data img @ unread)"

lemma take_and_rest: "\<exists>unread. xs = take n xs @ unread"
  by (metis append_take_drop_id)

lemma make_request_image_carries: "make_request_image i src = Some (Inr img) \<Longrightarrow> carries_image i src img"
  by (auto simp: make_request_image_def carries_image_def client_image_payload_def effective_stride_def mult.commute
      intro: take_and_rest split: option.splits if_splits)

lemma make_request_images_carry:
  "make_request_images i srcs = Some (Inr imgs) \<Longrightarrow> k < length srcs \<Longrightarrow> carries_image (i + k) (srcs ! k) (imgs ! k)"
proof (induction srcs arbitrary: i imgs k)
  case (Cons src srcs)
  then obtain img rest where "make_request_image i src = Some (Inr img)"
    "make_request_images (Suc i) srcs = Some (Inr rest)" "imgs = img # rest"
    by (auto simp: res_simps split: option.splits sum.splits)
  with Cons.IH [of "Suc i" rest "k - 1"] Cons.prems(2) make_request_image_carries [of i src img] show ?case by (cases k) auto
qed simp

lemma make_predict_request_carries:
  "make_predict_request obs = Some (Inr req) \<Longrightarrow> k < length (co_images obs) \<Longrightarrow>
     carries_image k (co_images obs ! k) (rq_images req ! k)"
  using make_request_images_carry [of 0 "co_images obs" _ k]
  by (auto simp: make_predict_request_def res_simps split: if_splits)

subsection \<open>One exchange\<close>

lemma client_send_reliable:
  assumes "tx_reliable c"
  shows "\<exists>c'. client_send_message op rid payload c = (Inr (), c') \<and> tx_reliable c' \<and> cn_rx c' = cn_rx c
    \<and> cn_tx c' = cn_tx c @ frame (message_header op rid status_ok payload) payload"
proof -
  let ?h = "message_header op rid status_ok payload"
  have header: "default_header\<lparr>hd_op := op, hd_request_id := rid, hd_payload_len := of_nat (length payload)\<rparr> = ?h"
    by (simp add: message_header_def default_header_def)
  obtain c1 where h: "send_all (encode_header ?h) c = (Inr (), c1)" "tx_reliable c1"
    using send_all_reliable [OF assms] by blast
  obtain c2 where b: "send_all payload c1 = (Inr (), c2)" "tx_reliable c2"
    using send_all_reliable [OF h(2)] by blast
  show ?thesis
    using h b send_all_spec [OF h(1)] send_all_spec [OF b(1)]
    by (auto simp: client_send_message_def frame_def header)
qed

lemma recv_message_frame:
  assumes "incoming c = frame h payload @ rest" and "valid_frame h payload"
  shows "\<exists>c'. recv_message c = (Inr (h, payload), c') \<and> incoming c' = rest \<and> cn_tx c' = cn_tx c"
proof -
  have "incoming c = encode_header h @ payload @ rest"
    using assms(1) by (simp add: frame_def)
  from tcp.recv_frame [OF this] obtain c1 c2 where
    "recv_exact 32 c = (Inr (encode_header h), c1)" "recv_exact (length payload) c1 = (Inr payload, c2)"
    "incoming c2 = rest" "cn_tx c2 = cn_tx c"
    by auto
  then show ?thesis
    using assms(2) by (simp add: recv_message_def recv_payload k_header_size_def valid_frame_def)
qed

lemma recv_message_Inr:
  assumes "recv_message c = (Inr (h, payload), c')"
  shows "incoming c = frame h payload @ incoming c'" "valid_frame h payload"
proof -
  obtain hdr c1 where hdr: "recv_exact 32 c = (Inr hdr, c1)" and dec: "decode_header (Some hdr) = Inr h"
    and valid: "validate_header h k_default_max_payload = Inr ()"
    and body: "recv_exact (unat (hd_payload_len h)) c1 = (Inr payload, c')"
    using assms
    by (auto simp: recv_message_def recv_payload k_header_size_def res_simps split: prod.splits sum.splits)
  note r1 = recv_exact_Inr [OF hdr] and r2 = recv_exact_Inr [OF body]
  show "incoming c = frame h payload @ incoming c'"
    using r1 r2 decode_header_32 [OF _ dec] by (simp add: frame_def)
  show "valid_frame h payload"
    using valid r2 by (simp add: valid_frame_def)
qed

lemma valid_message_iff:
  "length payload \<le> 268435456 \<Longrightarrow> valid_frame (message_header op rid st payload) payload"
  by (simp add: valid_frame_def validate_header_def message_header_def default_header_def protocol_constants
      word_less_nat_alt unat_of_nat)

text \<open>The reply to a request, read by the client.\<close>

lemma exchange_reply:
  assumes "tx_reliable c" "incoming c = frame (message_header op rid st body) body @ rest" "length body \<le> 268435456"
  shows "\<exists>c'. exchange op rid payload c = (Inr (message_header op rid st body, body), c') \<and>
    cn_tx c' = cn_tx c @ frame (message_header op rid status_ok payload) payload"
proof -
  obtain c1 where c1: "client_send_message op rid payload c = (Inr (), c1)" "cn_rx c1 = cn_rx c"
      "cn_tx c1 = cn_tx c @ frame (message_header op rid status_ok payload) payload"
    using client_send_reliable [OF assms(1)] by blast
  then have "incoming c1 = frame (message_header op rid st body) body @ rest"
    using assms(2) by (simp add: incoming_def)
  from recv_message_frame [OF this valid_message_iff [OF assms(3)]] c1
  show ?thesis by (auto simp: exchange_def)
qed

lemma check_response_ok:
  "check_response rid (message_header op rid status_ok body, body) = Inr body"
  by (simp add: check_response_def message_header_def)

lemma call_descriptors:
  "call pton op payload cl nt = (r, cl', nt') \<Longrightarrow> os_fds (nt_os nt') = os_fds (nt_os nt)"
  using tcp_connect_opens_or_releases [where pton = pton and host = "cl_host cl" and port = "cl_port cl" and st = "nt_os nt"]
  by (auto simp: call_def startup_def close_def split: sum.splits prod.splits if_splits)


subsection \<open>A conversation of one prediction\<close>

lemma handle_client_idle:
  assumes "incoming (se_conn s) = []" and "\<not> se_shutdown s" and "handle_client ops s = (out, s')"
  shows "out = Return False" "cn_tx (se_conn s') = cn_tx (se_conn s)" "se_model s' = se_model s"
proof -
  obtain r s1 where rd: "read_message s = (r, s1)" by force
  have "\<nexists>x. r = Inr x"
  proof clarify
    fix x assume "r = Inr x"
    with rd obtain h payload ms where "read_message s = (Inr (h, payload, ms), s1)" by (cases x) auto
    from read_message_Inr(1) [OF this] assms(1) show False
      by (simp add: frame_def flip: length_0_conv)
  qed
  then obtain e where "read_message s = (Inl e, s1)"
    using rd by (cases r) auto
  with read_message_Inl [OF this] assms(2,3)
  show "out = Return False" "cn_tx (se_conn s') = cn_tx (se_conn s)" "se_model s' = se_model s"
    by (auto simp: handle_client.simps [of ops s] log_line_def same_tx_def split: if_splits)
qed

lemma handle_client_one_prediction:
  assumes "tx_reliable (se_conn s)" "\<not> se_locked s" "\<not> se_shutdown s"
    and inc: "incoming (se_conn s) = frame h payload" and "valid_frame h payload" and op: "hd_op h = op_predict"
    and dec: "decode_predict_request payload = Inr req"
    and model: "se_model s = Some m" "mod_predict ops (adapt_request req) m = (Inr result, m')"
    and shape: "result_shaped result" "result_fits result"
    and run: "handle_client ops s = (out, s')"
  shows "\<exists>a b c. se_model s' = Some m' \<and> cn_tx (se_conn s') = cn_tx (se_conn s) @
    (let body = response_wire (served_response result a b c)
     in frame (message_header op_predict (hd_request_id h) status_ok body) body)"
proof -
  obtain ms s1 where rd: "read_message s = (Inr (h, payload, ms), s1)" and inc1: "incoming (se_conn s1) = []"
    using read_message_frame [of s h payload "[]"] inc assms(5) by auto
  note s1 = read_message_Inr [OF rd]
  have rel: "tx_reliable (se_conn s1)" "\<not> se_locked s1" "se_model s1 = Some m"
    using s1 assms(1,2) model(1) by (simp_all add: same_tx_def tx_reliable_def)
  obtain q p s2 where hp: "handle_predict ops h payload ms s1 = (Next, s2)" "se_model s2 = Some m'"
    "cn_tx (se_conn s2) = cn_tx (se_conn s1) @ (let body = response_wire (served_response result ms q p)
       in frame (message_header (hd_op h) (hd_request_id h) status_ok body) body)"
    using handle_predict_served [OF rel(1,2) dec rel(3) model(2) shape, of h ms] by blast
  have hm: "handle_message ops h payload ms s1 = (Next, s2)"
    using op hp(1) by (simp add: handle_message_def op_health_def op_reset_def op_shutdown_def op_predict_def)
  have "se_shutdown s2 = se_shutdown s1"
  proof -
    obtain r m1 where ad: "adapter_predict ops req (add_metric empty_response ''server_recv_ms'' ms) (se_model s1) = (r, m1)"
      by force
    from handle_predict_runs [OF dec rel(2) ad, of h] hp(1) obtain ts a b where
      "finish_predict h r a b (s1\<lparr>se_model := m1, se_clock := ts\<rparr>) = (Next, s2)" by auto
    from finish_predict_rx [OF this] show ?thesis by simp
  qed
  then have idle: "incoming (se_conn s2) = []" "\<not> se_shutdown s2"
    using inc1 handle_message_rx [OF hm] s1(6) assms(3) by (simp_all add: incoming_def)
  have "handle_client ops s2 = (out, s')"
    using run assms(3) rd hm by (simp add: handle_client.simps [of ops s])
  from handle_client_idle [OF idle this] hp s1(3) op show ?thesis
    by (intro exI [of _ ms] exI [of _ q] exI [of _ p]) (simp add: same_tx_def)
qed

subsection \<open>Properties\<close>

text \<open>C26. Every request the client builds passes the protocol's own image checks and carries the
  observation: one image per picture, in order, with its name (or the name made of its index), width,
  height and row stride (three bytes a pixel when none is given), and as data the first
  stride * height bytes of the picture's buffer; and the observation's state, noise and prompt unchanged.\<close>

theorem client_requests_valid:
  assumes "make_predict_request obs = Some (Inr req)" and "\<forall>img \<in> set (rq_images req). length (img_name img) < 2 ^ 32"
  shows "list_all image_ok (rq_images req) \<and> representable req \<and> length (rq_images req) = length (co_images obs) \<and>
    (\<forall>k<length (co_images obs). carries_image k (co_images obs ! k) (rq_images req ! k)) \<and>
    rq_state req = co_state obs \<and> rq_noise req = co_noise obs \<and> rq_task req = co_prompt obs"
  using make_predict_request_ok [OF assms(1)] make_predict_request_carries [OF assms(1)] assms(2) by (simp add: list_all_iff)

definition sample_observation :: client_observation where
  "sample_observation = \<lparr>co_images = [\<lparr>ci_rgb = Some [1, 2, 3], ci_width = 1, ci_height = 1, ci_stride = 0, ci_name = ''cam''\<rparr>],
     co_state = [f32_one], co_noise = [], co_prompt = ''go''\<rparr>"

definition sample_client_request :: predict_request where
  "sample_client_request = \<lparr>rq_images = [\<lparr>img_format = image_raw_rgb_u8, img_width = 1, img_height = 1,
       img_channels = 3, img_stride = 3, img_name = ''cam'', img_data = [1, 2, 3]\<rparr>],
     rq_state = [f32_one], rq_noise = [], rq_task = ''go''\<rparr>"

lemma sample_client_request_made:
  "make_predict_request sample_observation = Some (Inr sample_client_request)"
  by (simp add: make_predict_request_def sample_observation_def make_request_image_def effective_stride_def
      client_image_payload_def sample_client_request_def)

theorem client_requests_valid_witness:
  "\<exists>req. make_predict_request sample_observation = Some (Inr req) \<and> list_all image_ok (rq_images req) \<and>
     carries_image 0 (co_images sample_observation ! 0) (rq_images req ! 0) \<and> img_data (rq_images req ! 0) = [1, 2, 3]"
  using client_requests_valid [OF sample_client_request_made] sample_client_request_made
  by (auto simp: sample_client_request_def sample_observation_def)

text \<open>The rows of a received response: when the actions have a dimension, every row below the
  chunk size exists, and the rows are the actions, cut into pieces of that dimension.\<close>

theorem action_rows_partition:
  assumes "decode_predict_response payload = Inr resp" and "rs_action_dim resp \<noteq> 0"
  shows "(\<forall>i. action_row (client_response_of resp) i \<noteq> None \<longleftrightarrow> i < rs_chunk_size resp) \<and>
    concat (map (\<lambda>i. take (unat (rs_action_dim resp)) (the (action_row (client_response_of resp) (of_nat i))))
      [0..<unat (rs_chunk_size resp)]) = rs_actions resp"
proof -
  let ?d = "unat (rs_action_dim resp)" and ?n = "unat (rs_chunk_size resp)"
  have len: "?n * ?d = length (rs_actions resp)"
    using assms(1) by (simp add: decode_response_iff response_ok_def)
  have fits: "i * ?d + ?d \<le> length (rs_actions resp)" if "i < ?n" for i
    using that len mult_le_mono1 [of "Suc i" ?n ?d] by simp
  have row: "action_row (client_response_of resp) i = Some (drop (unat i * ?d) (rs_actions resp))" if "i < rs_chunk_size resp" for i
    using that fits [of "unat i"] assms(2) by (simp add: action_row_def client_response_of_def word_less_nat_alt not_le)
  have "unat (of_nat i :: u32) = i" if "i < ?n" for i
    using that u32_bound [of "rs_chunk_size resp"] by (simp add: unat_of_nat)
  then have "map (\<lambda>i. take ?d (the (action_row (client_response_of resp) (of_nat i)))) [0..<?n]
      = map (\<lambda>i. take ?d (drop (i * ?d) (rs_actions resp))) [0..<?n]"
    by (intro map_cong refl) (simp add: row word_less_nat_alt)
  then have "concat (map (\<lambda>i. take ?d (the (action_row (client_response_of resp) (of_nat i)))) [0..<?n]) = rs_actions resp"
    by (simp only: concat_rows len take_all)
  moreover have "action_row (client_response_of resp) i = None" if "\<not> i < rs_chunk_size resp" for i
    using that by (simp add: action_row_def client_response_of_def not_less)
  ultimately show ?thesis using row by fastforce
qed

theorem action_rows_partition_witness:
  "\<exists>payload resp. decode_predict_response payload = Inr resp \<and> rs_action_dim resp = 2 \<and>
     action_row (client_response_of resp) 1 \<noteq> None"
proof -
  let ?resp = "\<lparr>rs_chunk_size = 2, rs_action_dim = 2, rs_actions = [0, 1, 2, 3], rs_metrics = []\<rparr> :: predict_response"
  have "decode_predict_response (response_wire ?resp) = Inr ?resp"
    by (simp add: decode_response_iff response_ok_def)
  with action_rows_partition [OF this] show ?thesis by fastforce
qed

text \<open>C25. A call never leaks a descriptor, and never accepts a response to another request: what it
  returns is the payload of a complete valid message in the stream that has its own request
  id and status ok.\<close>

theorem call_is_safe:
  "case call pton op payload cl nt of (r, cl', nt') \<Rightarrow>
     os_fds (nt_os nt') = os_fds (nt_os nt) \<and>
     (case r of Inl _ \<Rightarrow> True
      | Inr body \<Rightarrow> \<exists>h sent rest. incoming sent = frame h body @ rest \<and> cn_rx sent = cn_rx (nt_conn nt) \<and>
          valid_frame h body \<and> hd_request_id h = cl_next_id cl \<and> hd_status h = status_ok \<and>
          cl_next_id cl' = cl_next_id cl + 1)"
proof -
  obtain r cl' nt' where run: "call pton op payload cl nt = (r, cl', nt')" by (cases "call pton op payload cl nt")
  have "\<exists>h sent rest. incoming sent = frame h body @ rest \<and> cn_rx sent = cn_rx (nt_conn nt) \<and>
      valid_frame h body \<and> hd_request_id h = cl_next_id cl \<and> hd_status h = status_ok \<and>
      cl_next_id cl' = cl_next_id cl + 1" if r: "r = Inr body" for body
  proof -
    obtain x c where ex: "exchange op (cl_next_id cl) payload (nt_conn nt) = (Inr x, c)"
      and ch: "check_response (cl_next_id cl) x = Inr body" and cl': "cl_next_id cl' = cl_next_id cl + 1"
      using run r by (auto simp: call_def startup_def res_simps split: sum.splits prod.splits)
    obtain h p where x: "x = (h, p)" by (cases x)
    with ch have h: "p = body" "hd_request_id h = cl_next_id cl" "hd_status h = status_ok"
      by (auto simp: check_response_def split: if_splits)
    obtain c1 where send: "client_send_message op (cl_next_id cl) payload (nt_conn nt) = (Inr (), c1)"
      and recv: "recv_message c1 = (Inr (h, p), c)"
      using ex x by (auto simp: exchange_def split: sum.splits prod.splits)
    have "cn_rx c1 = cn_rx (nt_conn nt)"
      using send by (auto simp: client_send_message_def dest!: send_all_spec split: sum.splits prod.splits if_splits)
    with recv_message_Inr [OF recv] h cl' show ?thesis by auto
  qed
  with call_descriptors [OF run] run show ?thesis by (auto split: sum.split)
qed

end
