(* ===== verification/ServerMain.thy ===== *)
theory ServerMain
  imports Session "HOL-Library.While_Combinator"
begin

text \<open>
  The program \<^verbatim>\<open>robot_server/model-server.cpp\<close>: its command line, and \<open>main\<close>, which loads the model,
  opens the listening socket and serves one client after the other until a client asks for
  shutdown.  The accept loop need not end, so it is a \<open>while_option\<close>: \<open>None\<close> is a server that
  runs for ever.  The usage text and the log callback are not modelled.
\<close>

subsection \<open>The command line\<close>

definition NOISE_MODE_GAUSSIAN :: int where "NOISE_MODE_GAUSSIAN = 0"
definition NOISE_MODE_DEBUG_SIN :: int where "NOISE_MODE_DEBUG_SIN = 1"

record server_args =
  sa_model_type :: model_type
  sa_llm_path :: string
  sa_mmproj_path :: string
  sa_vit_path :: string
  sa_tokenizer_path :: string
  sa_state_path :: string
  sa_action_decoder_path :: string
  sa_state_proj_path :: string
  sa_action_expert_path :: string
  sa_policy_path :: string
  sa_task :: string
  sa_host :: string
  sa_port :: int
  sa_threads :: int
  sa_n_batch :: int
  sa_n_ctx :: int
  sa_noise_mode :: int
  sa_noise_seed :: int
  sa_verbosity :: int

definition default_server_args :: server_args where
  "default_server_args = \<lparr>sa_model_type = Smolvla, sa_llm_path = [], sa_mmproj_path = [], sa_vit_path = [],
     sa_tokenizer_path = [], sa_state_path = [], sa_action_decoder_path = [], sa_state_proj_path = [],
     sa_action_expert_path = [], sa_policy_path = [], sa_task = ''grab the block.'', sa_host = ''127.0.0.1'',
     sa_port = 5555, sa_threads = 0, sa_n_batch = 512, sa_n_ctx = 2048, sa_noise_mode = NOISE_MODE_GAUSSIAN,
     sa_noise_seed = -1, sa_verbosity = 0\<rparr>"

definition parse_noise_mode :: "string \<Rightarrow> int option" where
  "parse_noise_mode v =
     (if v = ''gaussian'' then Some NOISE_MODE_GAUSSIAN
      else if v = ''debug-sin'' \<or> v = ''debug_sin'' \<or> v = ''sin'' then Some NOISE_MODE_DEBUG_SIN
      else None)"

datatype 'a parsed = Parse_help | Parse_error string | Parse_ok 'a

definition bad_value :: "string \<Rightarrow> string \<Rightarrow> string" where
  "bad_value what v = ''Error: '' @ what @ '' '' @ [CHR 0x27] @ v @ [CHR 0x27]"

text \<open>An \<open>int\<close> option, of 32 bits, and the seed, of 64 bits.\<close>

definition int_option :: "nat \<Rightarrow> string \<Rightarrow> string \<Rightarrow> (int \<Rightarrow> 'a) \<Rightarrow> 'a res" where
  "int_option w arg v upd =
     (case parse_integer_argument w (Some v) of
        None \<Rightarrow> Inl (bad_value (''invalid '' @ arg @ '' value'') v)
      | Some i \<Rightarrow> Inr (upd i))"

text \<open>The options that take a value, in the order of the source.\<close>

definition set_option :: "string \<Rightarrow> string \<Rightarrow> server_args \<Rightarrow> server_args res" where
  "set_option arg v a =
     (if arg = ''--llm'' then Inr (a\<lparr>sa_llm_path := v\<rparr>)
      else if arg = ''--model-type'' then
        (case parse_model_type v of None \<Rightarrow> Inl (bad_value ''unsupported model type'' v)
         | Some t \<Rightarrow> Inr (a\<lparr>sa_model_type := t\<rparr>))
      else if arg = ''--policy'' then Inr (a\<lparr>sa_policy_path := v\<rparr>)
      else if arg = ''--mmproj'' then Inr (a\<lparr>sa_mmproj_path := v\<rparr>)
      else if arg = ''--vit'' then Inr (a\<lparr>sa_vit_path := v\<rparr>)
      else if arg = ''--tokenizer'' then Inr (a\<lparr>sa_tokenizer_path := v\<rparr>)
      else if arg = ''--state-gguf'' then Inr (a\<lparr>sa_state_path := v\<rparr>)
      else if arg = ''--action-decoder'' then Inr (a\<lparr>sa_action_decoder_path := v\<rparr>)
      else if arg = ''--state-proj'' then Inr (a\<lparr>sa_state_proj_path := v\<rparr>)
      else if arg = ''--action-expert'' then Inr (a\<lparr>sa_action_expert_path := v\<rparr>)
      else if arg = ''--task'' then Inr (a\<lparr>sa_task := v\<rparr>)
      else if arg = ''--host'' then Inr (a\<lparr>sa_host := v\<rparr>)
      else if arg = ''--port'' then int_option 32 arg v (\<lambda>i. a\<lparr>sa_port := i\<rparr>)
      else if arg = ''--threads'' then int_option 32 arg v (\<lambda>i. a\<lparr>sa_threads := i\<rparr>)
      else if arg = ''--n-batch'' then int_option 32 arg v (\<lambda>i. a\<lparr>sa_n_batch := i\<rparr>)
      else if arg = ''--n-ctx'' then int_option 32 arg v (\<lambda>i. a\<lparr>sa_n_ctx := i\<rparr>)
      else if arg = ''--noise-mode'' then
        (case parse_noise_mode v of None \<Rightarrow> Inl (bad_value ''invalid noise mode'' v)
         | Some m \<Rightarrow> Inr (a\<lparr>sa_noise_mode := m\<rparr>))
      else if arg = ''--noise-seed'' then int_option 64 arg v (\<lambda>i. a\<lparr>sa_noise_seed := i\<rparr>)
      else if arg = ''--verbosity'' then int_option 32 arg v (\<lambda>i. a\<lparr>sa_verbosity := i\<rparr>)
      else Inl (bad_value ''unknown argument'' arg))"

text \<open>The loop over \<open>argv\<close>; an option without its value is an unknown argument.\<close>

fun parse_options :: "server_args \<Rightarrow> string list \<Rightarrow> server_args parsed" where
  "parse_options a [] = Parse_ok a"
| "parse_options a (arg # rest) =
     (if arg = ''-h'' \<or> arg = ''--help'' then Parse_help
      else case rest of
        [] \<Rightarrow> Parse_error (bad_value ''unknown argument'' arg)
      | v # rest \<Rightarrow>
          (case set_option arg v a of Inl e \<Rightarrow> Parse_error e | Inr a \<Rightarrow> parse_options a rest))"

definition check_args :: "server_args \<Rightarrow> unit res" where
  "check_args a =
     (if sa_port a \<le> 0 \<or> sa_port a > 65535 then Inl ''Error: --port must be in 1..65535''
      else if sa_host a \<noteq> ''127.0.0.1'' then Inl ''Error: model-server only listens on 127.0.0.1 in this phase''
      else if sa_threads a < 0 \<or> sa_n_batch a \<le> 0 \<or> sa_n_ctx a \<le> 0 \<or> sa_verbosity a < 0
        then Inl ''Error: --threads/--verbosity must be non-negative and --n-batch/--n-ctx must be positive''
      else if is_starvla_model_type (sa_model_type a) \<and> sa_noise_mode a \<noteq> NOISE_MODE_GAUSSIAN
        then Inl ''Error: StarVLA does not support --noise-mode debug-sin; use Gaussian noise''
      else if sa_model_type a = Smolvla then
        (if sa_llm_path a = [] \<or> sa_mmproj_path a = [] \<or> sa_state_proj_path a = [] \<or> sa_action_expert_path a = []
         then Inl ''Error: smolvla requires --llm --mmproj --state-proj --action-expert'' else Inr ())
      else if sa_model_type a = Pi0 then
        (if sa_vit_path a = [] \<or> sa_mmproj_path a = [] \<or> sa_llm_path a = [] \<or> sa_tokenizer_path a = [] \<or>
            sa_state_path a = [] \<or> sa_action_decoder_path a = []
         then Inl ''Error: pi0 requires --vit --mmproj --llm --tokenizer --state-gguf --action-decoder'' else Inr ())
      else if is_starvla_model_type (sa_model_type a) then
        (if sa_llm_path a = [] \<or> sa_mmproj_path a = [] \<or> sa_policy_path a = []
         then Inl (''Error: '' @ model_type_name (sa_model_type a) @ '' requires --llm --mmproj --policy'') else Inr ())
      else Inl (bad_value ''unsupported model type'' (model_type_name (sa_model_type a))))"

text \<open>\<open>argv\<close> without the program name.\<close>

definition parse_args :: "string list \<Rightarrow> server_args parsed" where
  "parse_args argv =
     (case parse_options default_server_args argv of
        Parse_ok a \<Rightarrow> (case check_args a of Inl e \<Rightarrow> Parse_error e | Inr _ \<Rightarrow> Parse_ok a)
      | other \<Rightarrow> other)"

definition make_model_args :: "server_args \<Rightarrow> model_args" where
  "make_model_args a = default_model_args\<lparr>ma_type := sa_model_type a, ma_threads := sa_threads a,
     ma_verbosity := sa_verbosity a, ma_llm_path := sa_llm_path a, ma_mmproj_path := sa_mmproj_path a,
     ma_vit_path := sa_vit_path a, ma_tokenizer_path := sa_tokenizer_path a, ma_state_path := sa_state_path a,
     ma_action_decoder_path := sa_action_decoder_path a, ma_state_proj_path := sa_state_proj_path a,
     ma_action_expert_path := sa_action_expert_path a, ma_policy_path := sa_policy_path a,
     ma_n_batch := sa_n_batch a, ma_n_ctx := sa_n_ctx a, ma_noise_mode := sa_noise_mode a,
     ma_noise_seed := sa_noise_seed a\<rparr>"

subsection \<open>The accept loop\<close>

text \<open>\<open>sv_conns\<close>: the byte streams of the connections that will be accepted, in order.\<close>

record 'm server =
  sv_os :: os
  sv_conns :: "conn list"
  sv_model :: "'m option"
  sv_clock :: "int list"
  sv_locked :: bool
  sv_shutdown :: bool
  sv_log :: "string list"

definition next_conn :: "'m server \<Rightarrow> conn" where
  "next_conn sv = (case sv_conns sv of [] \<Rightarrow> \<lparr>cn_rx = [], cn_tx = [], cn_tx_script = [], cn_errno = []\<rparr> | c # _ \<Rightarrow> c)"

definition session_of :: "'m server \<Rightarrow> 'm session" where
  "session_of sv = \<lparr>se_conn = next_conn sv, se_model = sv_model sv, se_clock = sv_clock sv,
     se_locked = sv_locked sv, se_shutdown = sv_shutdown sv, se_log = sv_log sv\<rparr>"

definition after_session :: "'m session \<Rightarrow> 'm server \<Rightarrow> 'm server" where
  "after_session s sv = sv\<lparr>sv_conns := tl (sv_conns sv), sv_model := se_model s, sv_clock := se_clock s,
     sv_locked := se_locked s, sv_shutdown := se_shutdown s, sv_log := se_log s\<rparr>"

text \<open>One turn of the loop.  A session that blocks for ever leaves the state as it is, so that the
  loop does not end.\<close>

definition serve_step :: "'m model_ops \<Rightarrow> int \<Rightarrow> int \<Rightarrow> 'm server \<Rightarrow> 'm server" where
  "serve_step ops server verbosity sv =
     (case tcp_accept server (sv_os sv) of
        (Inl e, st) \<Rightarrow> sv\<lparr>sv_os := st, sv_log := sv_log sv @ [''[model-server] accept failed: '' @ e]\<rparr>
      | (Inr (fd, peer), st) \<Rightarrow>
          (case handle_client ops (session_of (if verbosity \<ge> 1
                  then sv\<lparr>sv_log := sv_log sv @ [''[model-server] client connected: '' @ peer]\<rparr> else sv)) of
             (Blocked, _) \<Rightarrow> sv
           | (_, s) \<Rightarrow> after_session s (sv\<lparr>sv_os := close fd st\<rparr>)))"

definition serve :: "'m model_ops \<Rightarrow> int \<Rightarrow> int \<Rightarrow> 'm server \<Rightarrow> 'm server option" where
  "serve ops server verbosity sv = while_option (\<lambda>sv. \<not> sv_shutdown sv) (serve_step ops server verbosity) sv"

definition start_server :: "os \<Rightarrow> conn list \<Rightarrow> int list \<Rightarrow> 'm option \<Rightarrow> string list \<Rightarrow> 'm server" where
  "start_server st conns clk m log = \<lparr>sv_os = st, sv_conns = conns, sv_model = m, sv_clock = clk,
     sv_locked = False, sv_shutdown = False, sv_log = log\<rparr>"

text \<open>\<open>main\<close>: the exit code, the descriptors and the lines written to \<open>stderr\<close>.  \<open>load\<close> is
  \<open>robotcpp::make_model\<close>.\<close>

definition server_main ::
  "(string \<Rightarrow> u32 option) \<Rightarrow> (model_args \<Rightarrow> 'm res) \<Rightarrow> 'm model_ops \<Rightarrow> string list \<Rightarrow> os \<Rightarrow> conn list \<Rightarrow> int list
     \<Rightarrow> (int \<times> os \<times> string list) option"
where
  "server_main pton load ops argv st conns clk =
     (case parse_args argv of
        Parse_help \<Rightarrow> Some (0, st, [])
      | Parse_error e \<Rightarrow> Some (1, st, [e])
      | Parse_ok a \<Rightarrow>
          (case startup of
             Inl e \<Rightarrow> Some (1, st, [''Error: '' @ e])
           | Inr _ \<Rightarrow>
               (case load (make_model_args a) of
                  Inl e \<Rightarrow> Some (1, st, [''Error: '' @ e])
                | Inr m \<Rightarrow>
                    (case tcp_listen pton (sa_host a) (word_of_int (sa_port a)) 16 st of
                       (Inl e, st) \<Rightarrow> Some (1, st, [''Error: '' @ e])
                     | (Inr server, st) \<Rightarrow>
                         map_option (\<lambda>sv. (0, close server (sv_os sv), sv_log sv))
                           (serve ops server (sa_verbosity a)
                             (start_server st conns clk (Some m)
                               [''[model-server] listening on '' @ sa_host a @ '':'' @ int_to_string (sa_port a)
                                  @ '' model='' @ adapter_name ops (Some m)]))))))"

subsection \<open>Command lines\<close>

text \<open>The arguments the server accepts, and a command line for them.\<close>

definition args_valid :: "server_args \<Rightarrow> bool" where
  "args_valid a \<longleftrightarrow>
     1 \<le> sa_port a \<and> sa_port a \<le> 65535 \<and> sa_host a = ''127.0.0.1'' \<and>
     0 \<le> sa_threads a \<and> sa_threads a < 2 ^ 31 \<and> 0 \<le> sa_verbosity a \<and> sa_verbosity a < 2 ^ 31 \<and>
     1 \<le> sa_n_batch a \<and> sa_n_batch a < 2 ^ 31 \<and> 1 \<le> sa_n_ctx a \<and> sa_n_ctx a < 2 ^ 31 \<and>
     signed_range 64 (sa_noise_seed a) \<and>
     (sa_noise_mode a = NOISE_MODE_GAUSSIAN \<or> sa_noise_mode a = NOISE_MODE_DEBUG_SIN \<and> sa_model_type a \<noteq> Starvla) \<and>
     (case sa_model_type a of
        Smolvla \<Rightarrow> [] \<notin> {sa_llm_path a, sa_mmproj_path a, sa_state_proj_path a, sa_action_expert_path a}
      | Pi0 \<Rightarrow> [] \<notin> {sa_vit_path a, sa_mmproj_path a, sa_llm_path a, sa_tokenizer_path a, sa_state_path a,
          sa_action_decoder_path a}
      | Starvla \<Rightarrow> [] \<notin> {sa_llm_path a, sa_mmproj_path a, sa_policy_path a})"

definition render_args :: "server_args \<Rightarrow> string list" where
  "render_args a =
     [''--model-type'', model_type_name (sa_model_type a), ''--llm'', sa_llm_path a, ''--mmproj'', sa_mmproj_path a,
      ''--vit'', sa_vit_path a, ''--tokenizer'', sa_tokenizer_path a, ''--state-gguf'', sa_state_path a,
      ''--action-decoder'', sa_action_decoder_path a, ''--state-proj'', sa_state_proj_path a,
      ''--action-expert'', sa_action_expert_path a, ''--policy'', sa_policy_path a, ''--task'', sa_task a,
      ''--host'', sa_host a, ''--port'', int_to_string (sa_port a), ''--threads'', int_to_string (sa_threads a),
      ''--n-batch'', int_to_string (sa_n_batch a), ''--n-ctx'', int_to_string (sa_n_ctx a),
      ''--noise-mode'', (if sa_noise_mode a = NOISE_MODE_GAUSSIAN then ''gaussian'' else ''debug-sin''),
      ''--noise-seed'', int_to_string (sa_noise_seed a), ''--verbosity'', int_to_string (sa_verbosity a)]"


text \<open>What parsing guarantees of the integers, before the final checks.\<close>

definition args_typed :: "server_args \<Rightarrow> bool" where
  "args_typed a \<longleftrightarrow> signed_range 32 (sa_port a) \<and> signed_range 32 (sa_threads a) \<and> signed_range 32 (sa_n_batch a) \<and>
     signed_range 32 (sa_n_ctx a) \<and> signed_range 32 (sa_verbosity a) \<and> signed_range 64 (sa_noise_seed a) \<and>
     sa_noise_mode a \<in> {NOISE_MODE_GAUSSIAN, NOISE_MODE_DEBUG_SIN}"

lemma parse_integer_range: "parse_integer_argument w v = Some i \<Longrightarrow> signed_range w i"
  by (cases v) (auto simp: parse_integer_parts parse_integer_argument_def [of _ None])

lemma int_option_Inr: "int_option w arg v upd = Inr y \<longleftrightarrow> (\<exists>i. parse_integer_argument w (Some v) = Some i \<and> y = upd i)"
  by (auto simp: int_option_def split: option.splits)

lemma parse_noise_mode_values: "parse_noise_mode v = Some m \<Longrightarrow> m \<in> {NOISE_MODE_GAUSSIAN, NOISE_MODE_DEBUG_SIN}"
  by (auto simp: parse_noise_mode_def split: if_splits)

lemma set_option_typed: "args_typed a \<Longrightarrow> set_option arg v a = Inr a' \<Longrightarrow> args_typed a'"
  unfolding set_option_def
  by (auto simp: args_typed_def int_option_Inr dest: parse_integer_range parse_noise_mode_values
      split: if_split_asm option.split_asm)

lemma parse_options_typed: "args_typed a \<Longrightarrow> parse_options a argv = Parse_ok a' \<Longrightarrow> args_typed a'"
  by (induction a argv rule: parse_options.induct)
    (auto split: list.splits sum.splits if_splits dest: set_option_typed)

lemma default_typed: "args_typed default_server_args"
  by (simp add: args_typed_def default_server_args_def signed_range_def)

lemma check_args_iff:
  "args_typed a \<Longrightarrow> check_args a = Inr () \<longleftrightarrow> args_valid a"
  by (cases "sa_model_type a")
    (auto simp: check_args_def args_valid_def args_typed_def signed_range_def is_starvla_model_type_def
      NOISE_MODE_GAUSSIAN_def NOISE_MODE_DEBUG_SIN_def)

lemma parse_args_valid:
  assumes "parse_args argv = Parse_ok a"
  shows "args_valid a"
proof -
  have "parse_options default_server_args argv = Parse_ok a" "check_args a = Inr ()"
    using assms by (auto simp: parse_args_def split: parsed.splits sum.splits)
  with parse_options_typed [OF default_typed] check_args_iff show ?thesis by blast
qed

lemma set_option_named [simp]:
  "set_option ''--llm'' v a = Inr (a\<lparr>sa_llm_path := v\<rparr>)"
  "set_option ''--policy'' v a = Inr (a\<lparr>sa_policy_path := v\<rparr>)"
  "set_option ''--mmproj'' v a = Inr (a\<lparr>sa_mmproj_path := v\<rparr>)"
  "set_option ''--vit'' v a = Inr (a\<lparr>sa_vit_path := v\<rparr>)"
  "set_option ''--tokenizer'' v a = Inr (a\<lparr>sa_tokenizer_path := v\<rparr>)"
  "set_option ''--state-gguf'' v a = Inr (a\<lparr>sa_state_path := v\<rparr>)"
  "set_option ''--action-decoder'' v a = Inr (a\<lparr>sa_action_decoder_path := v\<rparr>)"
  "set_option ''--state-proj'' v a = Inr (a\<lparr>sa_state_proj_path := v\<rparr>)"
  "set_option ''--action-expert'' v a = Inr (a\<lparr>sa_action_expert_path := v\<rparr>)"
  "set_option ''--task'' v a = Inr (a\<lparr>sa_task := v\<rparr>)"
  "set_option ''--host'' v a = Inr (a\<lparr>sa_host := v\<rparr>)"
  by (simp_all add: set_option_def)

lemma set_option_ints [simp]:
  "signed_range 32 i \<Longrightarrow> set_option ''--port'' (int_to_string i) a = Inr (a\<lparr>sa_port := i\<rparr>)"
  "signed_range 32 i \<Longrightarrow> set_option ''--threads'' (int_to_string i) a = Inr (a\<lparr>sa_threads := i\<rparr>)"
  "signed_range 32 i \<Longrightarrow> set_option ''--n-batch'' (int_to_string i) a = Inr (a\<lparr>sa_n_batch := i\<rparr>)"
  "signed_range 32 i \<Longrightarrow> set_option ''--n-ctx'' (int_to_string i) a = Inr (a\<lparr>sa_n_ctx := i\<rparr>)"
  "signed_range 64 i \<Longrightarrow> set_option ''--noise-seed'' (int_to_string i) a = Inr (a\<lparr>sa_noise_seed := i\<rparr>)"
  "signed_range 32 i \<Longrightarrow> set_option ''--verbosity'' (int_to_string i) a = Inr (a\<lparr>sa_verbosity := i\<rparr>)"
  by (simp_all add: set_option_def int_option_def parse_integer_int_to_string)

lemma set_option_modes [simp]:
  "set_option ''--model-type'' (model_type_name t) a = Inr (a\<lparr>sa_model_type := t\<rparr>)"
  "set_option ''--noise-mode'' (if m = NOISE_MODE_GAUSSIAN then ''gaussian'' else ''debug-sin'') a
     = Inr (a\<lparr>sa_noise_mode := if m = NOISE_MODE_GAUSSIAN then NOISE_MODE_GAUSSIAN else NOISE_MODE_DEBUG_SIN\<rparr>)"
  using parse_model_type_iff [of "model_type_name t" t]
  by (simp_all add: set_option_def parse_noise_mode_def)

lemma parse_render_args:
  assumes "args_valid a"
  shows "parse_options default_server_args (render_args a) = Parse_ok a"
proof -
  have ints: "signed_range 32 (sa_port a)" "signed_range 32 (sa_threads a)" "signed_range 32 (sa_n_batch a)"
    "signed_range 32 (sa_n_ctx a)" "signed_range 32 (sa_verbosity a)" "signed_range 64 (sa_noise_seed a)"
    and mode: "(if sa_noise_mode a = NOISE_MODE_GAUSSIAN then NOISE_MODE_GAUSSIAN else NOISE_MODE_DEBUG_SIN) = sa_noise_mode a"
    using assms by (auto simp: args_valid_def signed_range_def)
  show ?thesis
    by (simp only: render_args_def) (simp add: ints mode default_server_args_def del: if_split)
qed


subsection \<open>The mutex and the descriptors\<close>

lemma finish_predict_unblocked: "finish_predict h r q p s = (out, s') \<Longrightarrow> out \<noteq> Blocked"
  by (auto simp: finish_predict_def split: sum.splits prod.splits)

lemma handle_message_unblocked:
  assumes "\<not> se_locked s" and run: "handle_message ops h payload ms s = (out, s')"
  shows "out \<noteq> Blocked \<and> \<not> se_locked s'"
proof -
  have "out \<noteq> Blocked \<and> \<not> se_locked s'" if run: "handle_predict ops h payload ms s = (out, s')"
  proof (cases "decode_predict_request payload")
    case (Inl e)
    with run assms(1) show ?thesis by (auto simp: handle_predict_def)
  next
    case (Inr req)
    obtain r m where ad: "adapter_predict ops req (add_metric empty_response ''server_recv_ms'' ms) (se_model s) = (r, m)"
      by force
    obtain ts q p where fin: "finish_predict h r q p (s\<lparr>se_model := m, se_clock := ts\<rparr>) = (out, s')"
      using handle_predict_runs [OF Inr assms(1) ad, of h] run by metis
    from finish_predict_rx [OF fin] finish_predict_unblocked [OF fin] assms(1) show ?thesis by simp
  qed
  moreover have "out \<noteq> Blocked \<and> \<not> se_locked s'" if "handle_reset ops h s = (out, s')"
    using that assms(1) by (auto simp: handle_reset_def mutex_lock_def mutex_unlock_def)
  ultimately show ?thesis
    using run assms(1)
    by (auto simp: handle_message_def handle_health_def handle_shutdown_def split: if_split_asm)
qed

lemma handle_client_unblocked:
  "\<not> se_locked s \<Longrightarrow> handle_client ops s = (out, s') \<Longrightarrow> out \<noteq> Blocked \<and> \<not> se_locked s'"
proof (induction ops s arbitrary: out s' rule: handle_client.induct)
  case (1 ops s)
  show ?case
  proof (cases "se_shutdown s")
    case True
    with 1 show ?thesis by (auto simp: handle_client.simps [of ops s])
  next
    case False
    obtain r s1 where rd: "read_message s = (r, s1)" by force
    show ?thesis
    proof (cases r)
      case (Inl e)
      with 1 False rd read_message_Inl(3) [of s e s1] show ?thesis
        by (auto simp: handle_client.simps [of ops s] log_line_def split: if_splits)
    next
      case (Inr x)
      obtain h payload ms where x: "x = (h, payload, ms)" by (cases x)
      obtain o2 s2 where hm: "handle_message ops h payload ms s1 = (o2, s2)" by force
      have free: "\<not> se_locked s1"
        using "1.prems"(1) rd Inr x read_message_Inr(5) [of s h payload ms s1] by simp
      from handle_message_unblocked [OF this hm] have o2: "o2 \<noteq> Blocked" "\<not> se_locked s2" by simp_all
      show ?thesis
      proof (cases o2)
        case Next
        have "handle_client ops s2 = (out, s')"
          using "1.prems"(2) False rd Inr x hm Next by (simp add: handle_client.simps [of ops s])
        from "1.IH" [OF False rd [symmetric] Inr x [symmetric] refl hm [symmetric] Next o2(2) this]
        show ?thesis .
      next
        case (Return b)
        with "1.prems"(2) False rd Inr x hm o2 show ?thesis by (simp add: handle_client.simps [of ops s])
      qed (use o2 in simp)
    qed
  qed
qed

text \<open>Between two clients the mutex is free and no client descriptor is open.\<close>

definition serving :: "int list \<Rightarrow> 'm server \<Rightarrow> bool" where
  "serving fds sv \<longleftrightarrow> \<not> sv_locked sv \<and> os_fds (sv_os sv) = fds"

lemma serve_step_serving: "serving fds sv \<Longrightarrow> serving fds (serve_step ops server verbosity sv)"
proof -
  assume inv: "serving fds sv"
  define lg where "lg peer = (if verbosity \<ge> 1
      then sv\<lparr>sv_log := sv_log sv @ [''[model-server] client connected: '' @ peer]\<rparr> else sv)" for peer
  obtain r st where acc: "tcp_accept server (sv_os sv) = (r, st)" by force
  note fds = tcp_accept_opens [where server = server and st = "sv_os sv", unfolded acc, simplified]
  show ?thesis
  proof (cases r)
    case (Inl e)
    with inv acc fds show ?thesis by (simp add: serve_step_def serving_def)
  next
    case (Inr x)
    obtain fd peer where x: "x = (fd, peer)" by (cases x)
    obtain out s where run: "handle_client ops (session_of (lg peer)) = (out, s)" by force
    have "\<not> se_locked (session_of (lg peer))"
      using inv by (simp add: session_of_def serving_def lg_def)
    from handle_client_unblocked [OF this run] have "out \<noteq> Blocked" "\<not> se_locked s" by simp_all
    moreover have "os_fds (close fd st) = os_fds (sv_os sv)"
      using fds Inr x by (simp add: close_def)
    ultimately show ?thesis
      using inv acc Inr x run [unfolded lg_def]
      by (cases out) (simp_all add: serve_step_def serving_def after_session_def)
  qed
qed

lemma serve_serving:
  assumes "serving fds sv" and "serve ops server verbosity sv = Some sv'"
  shows "serving fds sv' \<and> sv_shutdown sv'"
  using while_option_rule [where P = "serving fds", OF serve_step_serving assms(2) [unfolded serve_def] assms(1)]
    while_option_stop [OF assms(2) [unfolded serve_def]] by blast

lemma serve_returns:
  assumes "serve_step ops server verbosity sv = sv'" "sv_shutdown sv'"
  shows "serve ops server verbosity sv = Some (if sv_shutdown sv then sv else sv')"
  using assms by (simp add: serve_def while_option_unfold [of _ _ sv] while_option_unfold [of _ _ sv'])

lemma handle_client_shutdown:
  assumes "\<not> se_shutdown s" "incoming (se_conn s) = frame h payload @ rest" "valid_frame h payload" "hd_op h = op_shutdown"
  shows "\<exists>s'. handle_client ops s = (Return True, s') \<and> se_shutdown s'"
proof -
  obtain ms s1 where "read_message s = (Inr (h, payload, ms), s1)"
    using read_message_frame [OF assms(2,3)] by blast
  with assms(1,4) show ?thesis
    by (simp add: handle_client.simps [of ops s] handle_message_def handle_shutdown_def
        op_health_def op_reset_def op_shutdown_def)
qed

subsection \<open>Properties\<close>

text \<open>The server starts only with valid arguments: the port and the host it may listen on, the
  ranges of the numbers, the noise modes the model supports and the files it needs.\<close>

theorem accepted_args_valid: "case parse_args argv of Parse_ok a \<Rightarrow> args_valid a | _ \<Rightarrow> True"
  by (auto split: parsed.split dest: parse_args_valid)

text \<open>C29. Every valid configuration has a command line, which the parser reads back exactly: each
  option sets its own field and nothing else.\<close>

theorem parse_args_roundtrip:
  assumes "args_valid a"
  shows "parse_args (render_args a) = Parse_ok a"
proof -
  note parsed = parse_render_args [OF assms]
  from parse_options_typed [OF default_typed parsed] check_args_iff assms have "check_args a = Inr ()" by blast
  then show ?thesis by (simp add: parse_args_def parsed)
qed

theorem parse_args_roundtrip_witness:
  "parse_args (render_args (default_server_args\<lparr>sa_llm_path := ''l'', sa_mmproj_path := ''m'', sa_state_proj_path := ''s'',
      sa_action_expert_path := ''a''\<rparr>))
   = Parse_ok (default_server_args\<lparr>sa_llm_path := ''l'', sa_mmproj_path := ''m'', sa_state_proj_path := ''s'',
      sa_action_expert_path := ''a''\<rparr>)"
  by (rule parse_args_roundtrip) (simp add: args_valid_def default_server_args_def signed_range_def)

text \<open>C27. Whenever the server process exits, whatever clients and the system did, every descriptor
  it opened has been closed; and its exit code is 0 or 1.\<close>

theorem server_exit_releases:
  "case server_main pton load ops argv st conns clk of
     None \<Rightarrow> True
   | Some (code, st', log) \<Rightarrow> os_fds st' = os_fds st \<and> code \<in> {0, 1}"
proof (cases "\<exists>a m server st1. parse_args argv = Parse_ok a \<and> load (make_model_args a) = Inr m \<and>
    tcp_listen pton (sa_host a) (word_of_int (sa_port a)) 16 st = (Inr server, st1)")
  case True
  then obtain a m server st1 where pa: "parse_args argv = Parse_ok a" "load (make_model_args a) = Inr m"
    and tcp: "tcp_listen pton (sa_host a) (word_of_int (sa_port a)) 16 st = (Inr server, st1)" by blast
  have fds: "server \<noteq> invalid_socket" "os_fds st1 = server # os_fds st"
    using tcp_listen_fds [of pton "sa_host a" "word_of_int (sa_port a)" 16 st] tcp by auto
  have start: "serving (os_fds st1) (start_server st1 conns clk (Some m) log)" for log
    by (simp add: serving_def start_server_def)
  have closed: "os_fds (close server st2) = os_fds st" if "os_fds st2 = os_fds st1" for st2
    using that fds by (simp add: close_def)
  show ?thesis
    using serve_serving [OF start] closed
    by (auto simp: server_main_def pa tcp startup_def serving_def split: option.split)
next
  case False
  then show ?thesis
    using tcp_listen_fds [of pton _ _ 16 st]
    by (auto simp: server_main_def startup_def split: parsed.split sum.split prod.split)
qed

text \<open>C28. A server that accepts a client whose next message is a shutdown request stops: the accept
  loop, which otherwise need not end, returns.\<close>

theorem shutdown_ends_server:
  assumes "tcp_accept server (sv_os sv) = (Inr (fd, peer), st)" and "\<not> sv_shutdown sv"
    and "incoming (next_conn sv) = frame h payload @ rest" "valid_frame h payload" "hd_op h = op_shutdown"
  shows "\<exists>sv'. serve ops server verbosity sv = Some sv' \<and> sv_shutdown sv'"
proof -
  define sv1 where "sv1 = (if verbosity \<ge> 1
      then sv\<lparr>sv_log := sv_log sv @ [''[model-server] client connected: '' @ peer]\<rparr> else sv)"
  have "\<not> se_shutdown (session_of sv1)" "incoming (se_conn (session_of sv1)) = frame h payload @ rest"
    using assms(2,3) by (simp_all add: session_of_def sv1_def next_conn_def)
  then obtain s where s: "handle_client ops (session_of sv1) = (Return True, s)" "se_shutdown s"
    using handle_client_shutdown [OF _ _ assms(4,5)] by blast
  have "sv_shutdown (serve_step ops server verbosity sv)"
    using s assms(1) unfolding sv1_def by (simp add: serve_step_def after_session_def)
  with serve_returns [OF refl this] assms(2) show ?thesis by auto
qed

definition sample_server_state :: "nat server" where
  "sample_server_state = start_server
     \<lparr>os_fds = [3], os_errno = [], os_script = [Sys_ok 4], os_peer = (None, 0), os_trace = []\<rparr>
     [\<lparr>cn_rx = [Chunk (frame (message_header op_shutdown 1 0 []) [])], cn_tx = [], cn_tx_script = [], cn_errno = []\<rparr>]
     [] (Some 0) []"

theorem shutdown_ends_server_witness:
  "\<exists>sv'. serve sample_model 3 0 sample_server_state = Some sv' \<and> sv_shutdown sv'"
proof -
  let ?h = "message_header op_shutdown 1 0 []"
  have "tcp_accept 3 (sv_os sample_server_state) = (Inr (4, ''<unknown>''), snd (tcp_accept 3 (sv_os sample_server_state)))"
    by (simp add: tcp_accept_def os_simps sample_server_state_def start_server_def)
  moreover have "frame ?h [] \<noteq> []"
    by (simp add: frame_def flip: length_greater_0_conv)
  then have "incoming (next_conn sample_server_state) = frame ?h [] @ []"
    by (simp add: next_conn_def sample_server_state_def start_server_def incoming_def)
  moreover have "valid_frame ?h []"
    by (simp add: valid_frame_def validate_header_def message_header_def default_header_def protocol_constants)
  moreover have "\<not> sv_shutdown sample_server_state" "hd_op ?h = op_shutdown"
    by (simp_all add: sample_server_state_def start_server_def message_header_def)
  ultimately show ?thesis
    using shutdown_ends_server [of 3 sample_server_state 4 "''<unknown>''" _ ?h "[]" "[]"] by blast
qed

end
