(* ===== verification/ModelCli.thy ===== *)
theory ModelCli
  imports ServerMain
begin

text \<open>
  The program \<^verbatim>\<open>src/model-cli.cpp\<close>: its command line, the checks, the observation built from the
  image files and the state, one prediction, and which steps of the action chunk are printed.
  The image decoder (\<open>stbi_load\<close>), the text-to-float conversion (\<open>std::stof\<close>), the float formatter
  and the model are arguments.  Reading an action past the end of the result is undefined
  behaviour: the value \<open>None\<close>.  Usage text, timing lines and log callback are not modelled.
\<close>

subsection \<open>The command line\<close>

record cli_state =
  cs_args :: model_args
  cs_image_paths :: "string list"
  cs_image_names :: "string list"
  cs_state_csv :: string
  cs_task :: string

definition initial_cli :: cli_state where
  "initial_cli = \<lparr>cs_args = default_model_args, cs_image_paths = [], cs_image_names = [], cs_state_csv = [],
     cs_task = ''grab the block.''\<rparr>"

definition upd_args :: "(model_args \<Rightarrow> model_args) \<Rightarrow> cli_state \<Rightarrow> cli_state" where
  "upd_args f c = c\<lparr>cs_args := f (cs_args c)\<rparr>"

definition cli_option :: "string \<Rightarrow> string \<Rightarrow> cli_state \<Rightarrow> cli_state res" where
  "cli_option arg v c =
     (if arg = ''--model-type'' then
        (case parse_model_type v of None \<Rightarrow> Inl (bad_value ''unsupported model type'' v)
         | Some t \<Rightarrow> Inr (upd_args (ma_type_update (\<lambda>_. t)) c))
      else if arg = ''--policy'' then Inr (upd_args (ma_policy_path_update (\<lambda>_. v)) c)
      else if arg = ''--llm'' then Inr (upd_args (ma_llm_path_update (\<lambda>_. v)) c)
      else if arg = ''--mmproj'' then Inr (upd_args (ma_mmproj_path_update (\<lambda>_. v)) c)
      else if arg = ''--vit'' then Inr (upd_args (ma_vit_path_update (\<lambda>_. v)) c)
      else if arg = ''--tokenizer'' then Inr (upd_args (ma_tokenizer_path_update (\<lambda>_. v)) c)
      else if arg = ''--state-gguf'' then Inr (upd_args (ma_state_path_update (\<lambda>_. v)) c)
      else if arg = ''--action-decoder'' then Inr (upd_args (ma_action_decoder_path_update (\<lambda>_. v)) c)
      else if arg = ''--state-proj'' then Inr (upd_args (ma_state_proj_path_update (\<lambda>_. v)) c)
      else if arg = ''--action-expert'' then Inr (upd_args (ma_action_expert_path_update (\<lambda>_. v)) c)
      else if arg = ''--image'' then Inr (c\<lparr>cs_image_paths := cs_image_paths c @ [v]\<rparr>)
      else if arg = ''--image-name'' then Inr (c\<lparr>cs_image_names := cs_image_names c @ [v]\<rparr>)
      else if arg = ''--state'' then Inr (c\<lparr>cs_state_csv := v\<rparr>)
      else if arg = ''--task'' then Inr (c\<lparr>cs_task := v\<rparr>)
      else if arg = ''--threads'' then int_option 32 arg v (\<lambda>i. upd_args (ma_threads_update (\<lambda>_. i)) c)
      else if arg = ''--n-batch'' then int_option 32 arg v (\<lambda>i. upd_args (ma_n_batch_update (\<lambda>_. i)) c)
      else if arg = ''--n-ctx'' then int_option 32 arg v (\<lambda>i. upd_args (ma_n_ctx_update (\<lambda>_. i)) c)
      else if arg = ''--noise-mode'' then
        (case parse_noise_mode v of None \<Rightarrow> Inl (bad_value ''invalid noise mode'' v)
         | Some m \<Rightarrow> Inr (upd_args (ma_noise_mode_update (\<lambda>_. m)) c))
      else if arg = ''--noise-seed'' then int_option 64 arg v (\<lambda>i. upd_args (ma_noise_seed_update (\<lambda>_. i)) c)
      else Inl (bad_value ''unknown argument'' arg))"

fun cli_options :: "cli_state \<Rightarrow> string list \<Rightarrow> cli_state parsed" where
  "cli_options c [] = Parse_ok c"
| "cli_options c (arg # rest) =
     (if arg = ''-h'' \<or> arg = ''--help'' then Parse_help
      else if arg = ''-v'' \<or> arg = ''--verbose''
        then cli_options (upd_args (ma_verbosity_update (\<lambda>n. n + 1)) c) rest
      else case rest of
        [] \<Rightarrow> Parse_error (bad_value ''unknown argument'' arg)
      | v # rest \<Rightarrow> (case cli_option arg v c of Inl e \<Rightarrow> Parse_error e | Inr c \<Rightarrow> cli_options c rest))"

definition check_cli_args :: "model_args \<Rightarrow> unit res" where
  "check_cli_args a =
     (if ma_threads a < 0 \<or> ma_n_batch a \<le> 0 \<or> ma_n_ctx a \<le> 0
        then Inl ''Error: --threads must be non-negative and --n-batch/--n-ctx must be positive''
      else if is_starvla_model_type (ma_type a) \<and> (ma_llm_path a = [] \<or> ma_mmproj_path a = [] \<or> ma_policy_path a = [])
        then Inl (''Error: '' @ model_type_name (ma_type a) @ '' requires --llm --mmproj --policy'')
      else if is_starvla_model_type (ma_type a) \<and> ma_noise_mode a \<noteq> NOISE_MODE_GAUSSIAN
        then Inl ''Error: StarVLA does not support --noise-mode debug-sin; use Gaussian noise''
      else Inr ())"

text \<open>The image names that will be used.\<close>

definition check_images :: "bool \<Rightarrow> string \<Rightarrow> string list \<Rightarrow> string list \<Rightarrow> string list res" where
  "check_images starvla type_name paths names =
     (if paths = [] then Inl ''Error: --image is required''
      else if starvla \<and> length paths \<noteq> 1 then Inl (''Error: '' @ type_name @ '' requires exactly one --image'')
      else
        bind_res (if names = [] then
                    (if length paths \<noteq> 1 then Inl ''Error: multiple --image inputs require one --image-name per image''
                     else Inr [if starvla then ''image_0'' else ''image''])
                  else Inr names) (\<lambda>names.
          if length names \<noteq> length paths then
            Inl (''Error: --image count ('' @ nat_to_string (length paths) @ '') must match --image-name count ('' @
                 nat_to_string (length names) @ '')'')
          else if starvla \<and> names ! 0 \<noteq> ''image_0''
            then Inl (''Error: '' @ type_name @ '' image must be named '' @ [CHR 0x27] @ ''image_0'' @ [CHR 0x27])
          else Inr names))"

subsection \<open>State and images\<close>

text \<open>\<open>std::getline\<close> with a comma: the pieces between commas; a comma at the end opens no piece.\<close>

fun split_items :: "string \<Rightarrow> string \<Rightarrow> string list" where
  "split_items acc [] = (if acc = [] then [] else [acc])"
| "split_items acc (c # cs) = (if c = CHR '','' then acc # split_items [] cs else split_items (acc @ [c]) cs)"

text \<open>\<open>stof\<close> is \<open>None\<close> where \<open>std::stof\<close> throws.\<close>

fun parse_items :: "(string \<Rightarrow> f32 option) \<Rightarrow> string list \<Rightarrow> f32 list res" where
  "parse_items stof [] = Inr []"
| "parse_items stof (item # items) =
     (case stof item of
        None \<Rightarrow> Inl (bad_value ''invalid state value'' item)
      | Some x \<Rightarrow> bind_res (parse_items stof items) (\<lambda>xs. Inr (x # xs)))"

definition parse_state :: "(string \<Rightarrow> f32 option) \<Rightarrow> string \<Rightarrow> f32 list res" where
  "parse_state stof csv = (if csv = [] then Inr [] else parse_items stof (split_items [] csv))"

record loaded_image =
  li_data :: "u8 list"
  li_width :: int
  li_height :: int
  li_channels :: int
  li_stride :: int

text \<open>\<open>stbi path\<close>: the pixels, width and height of an image decoded to three channels.\<close>

definition load_rgb_image :: "(string \<Rightarrow> (u8 list \<times> int \<times> int) option) \<Rightarrow> string \<Rightarrow> loaded_image res" where
  "load_rgb_image stbi path =
     (case stbi path of
        None \<Rightarrow> Inl (bad_value ''failed to load image'' path)
      | Some (pixels, w, h) \<Rightarrow>
          Inr \<lparr>li_data = take (nat (w * 3) * nat h) pixels, li_width = w, li_height = h, li_channels = 3,
               li_stride = w * 3\<rparr>)"

fun load_images :: "(string \<Rightarrow> (u8 list \<times> int \<times> int) option) \<Rightarrow> string list \<Rightarrow> loaded_image list res" where
  "load_images stbi [] = Inr []"
| "load_images stbi (path # paths) =
     bind_res (load_rgb_image stbi path) (\<lambda>img. bind_res (load_images stbi paths) (\<lambda>imgs. Inr (img # imgs)))"

definition cli_image :: "string \<Rightarrow> loaded_image \<Rightarrow> model_image" where
  "cli_image name img = \<lparr>mi_name = name, mi_data = Some (li_data img), mi_width = li_width img,
     mi_height = li_height img, mi_channels = li_channels img, mi_stride = li_stride img\<rparr>"

definition cli_observation :: "string list \<Rightarrow> loaded_image list \<Rightarrow> f32 list \<Rightarrow> string \<Rightarrow> observation" where
  "cli_observation names images state task = \<lparr>ob_images = map2 cli_image names images, ob_state = state,
     ob_noise = [], ob_task = task\<rparr>"

subsection \<open>Printing the actions\<close>

datatype print_item = Title int int | Step int "f32 list" | Dots

text \<open>The values of one step, read one after the other.\<close>

fun read_row :: "f32 list \<Rightarrow> nat list \<Rightarrow> f32 list option" where
  "read_row xs [] = Some []"
| "read_row xs (i # idx) =
     (if i < length xs then map_option ((#) (xs ! i)) (read_row xs idx) else None)"

definition print_step :: "model_result \<Rightarrow> int \<Rightarrow> print_item option" where
  "print_step r t = map_option (Step t)
     (read_row (mr_actions r) (map (\<lambda>d. nat t * nat (mr_action_dim r) + d) [0..<nat (mr_action_dim r)]))"

fun print_steps :: "model_result \<Rightarrow> int list \<Rightarrow> print_item list option" where
  "print_steps r [] = Some []"
| "print_steps r (t # ts) =
     (case print_step r t of None \<Rightarrow> None | Some x \<Rightarrow> map_option ((#) x) (print_steps r ts))"

definition print_count :: "model_result \<Rightarrow> int" where
  "print_count r = min 5 (mr_chunk_size r)"

definition last_steps :: "model_result \<Rightarrow> int list" where
  "last_steps r = (if mr_chunk_size r > print_count r
     then [max (print_count r) (mr_chunk_size r - print_count r)..mr_chunk_size r - 1] else [])"

definition print_actions :: "model_result \<Rightarrow> print_item list option" where
  "print_actions r =
     (case print_steps r [0..print_count r - 1] of
        None \<Rightarrow> None
      | Some first \<Rightarrow>
          map_option (\<lambda>last. Title (mr_chunk_size r) (mr_action_dim r) # first
              @ (if mr_chunk_size r > 2 * print_count r then [Dots] else []) @ last)
            (print_steps r (last_steps r)))"

subsection \<open>The program\<close>

text \<open>The exit code with the text of the error line, or the lines printed; \<open>None\<close> is an action read
  out of bounds.\<close>

definition finish_cli :: "model_result res \<Rightarrow> (int \<times> string + print_item list) option" where
  "finish_cli r =
     (case r of
        Inl e \<Rightarrow> Some (Inl (1, ''Error: prediction failed: '' @ e))
      | Inr result \<Rightarrow>
          if mr_actions result = [] then Some (Inl (1, ''Error: no action prediction result''))
          else map_option Inr (print_actions result))"

definition cli_inputs ::
  "(string \<Rightarrow> f32 option) \<Rightarrow> (string \<Rightarrow> (u8 list \<times> int \<times> int) option) \<Rightarrow> cli_state \<Rightarrow> observation res"
where
  "cli_inputs stof stbi c =
     bind_res (check_cli_args (cs_args c)) (\<lambda>_.
     bind_res (check_images (is_starvla_model_type (ma_type (cs_args c))) (model_type_name (ma_type (cs_args c)))
                 (cs_image_paths c) (cs_image_names c)) (\<lambda>names.
     bind_res (parse_state stof (cs_state_csv c)) (\<lambda>state.
     bind_res (load_images stbi (cs_image_paths c)) (\<lambda>images.
       Inr (cli_observation names images state (cs_task c))))))"

definition cli_main ::
  "(string \<Rightarrow> f32 option) \<Rightarrow> (string \<Rightarrow> (u8 list \<times> int \<times> int) option) \<Rightarrow> (model_args \<Rightarrow> 'm res) \<Rightarrow> 'm model_ops
     \<Rightarrow> string list \<Rightarrow> (int \<times> string + print_item list) option"
where
  "cli_main stof stbi load ops argv =
     (case cli_options initial_cli argv of
        Parse_help \<Rightarrow> Some (Inl (0, []))
      | Parse_error e \<Rightarrow> Some (Inl (1, e))
      | Parse_ok c \<Rightarrow>
          (case cli_inputs stof stbi c of
             Inl e \<Rightarrow> Some (Inl (1, e))
           | Inr obs \<Rightarrow>
               (case load (cs_args c) of
                  Inl e \<Rightarrow> Some (Inl (1, ''Error: failed to initialize model: '' @ e))
                | Inr m \<Rightarrow> finish_cli (fst (mod_predict ops obs m)))))"


subsection \<open>Rows in bounds\<close>

lemma read_row_upt:
  "a + n \<le> length xs \<Longrightarrow> read_row xs (map (\<lambda>d. a + d) [0..<n]) = Some (take n (drop a xs))"
proof (induction n arbitrary: a)
  case 0
  then show ?case by simp
next
  case (Suc n)
  have "map (\<lambda>d. a + d) [0..<Suc n] = a # map (\<lambda>d. Suc a + d) [0..<n]"
    by (simp add: upt_conv_Cons map_Suc_upt [symmetric] del: upt_Suc)
  moreover have "take (Suc n) (drop a xs) = xs ! a # take n (drop (Suc a) xs)"
    using Suc.prems by (simp add: Cons_nth_drop_Suc [symmetric])
  moreover have "read_row xs (map (\<lambda>d. Suc a + d) [0..<n]) = Some (take n (drop (Suc a) xs))"
    using Suc.prems by (intro Suc.IH) simp
  ultimately show ?case
    using Suc.prems by (simp only: read_row.simps) simp
qed

definition row_of :: "model_result \<Rightarrow> nat \<Rightarrow> print_item" where
  "row_of r t = Step (int t)
     (take (nat (mr_action_dim r)) (drop (t * nat (mr_action_dim r)) (mr_actions r)))"

lemma print_step_row:
  assumes "result_shaped r" and "t < nat (mr_chunk_size r)"
  shows "print_step r (int t) = Some (row_of r t)"
proof -
  let ?d = "nat (mr_action_dim r)"
  have "int (nat (mr_chunk_size r) * ?d) = int (length (mr_actions r))"
    using assms(1) by (simp add: result_shaped_def)
  then have len: "nat (mr_chunk_size r) * ?d = length (mr_actions r)"
    by (simp only: of_nat_eq_iff)
  have "t * ?d + ?d \<le> length (mr_actions r)"
    using mult_le_mono1 [of "Suc t" "nat (mr_chunk_size r)" ?d] assms(2) len by simp
  from read_row_upt [OF this] show ?thesis by (simp add: print_step_def row_of_def)
qed

lemma print_steps_rows:
  "result_shaped r \<Longrightarrow> \<forall>t \<in> set ts. t < nat (mr_chunk_size r) \<Longrightarrow>
     print_steps r (map int ts) = Some (map (row_of r) ts)"
  by (induction ts) (simp_all add: print_step_row)

lemma upto_map_int: "[int a..int b - 1] = map int [a..<b]"
proof (induction b)
  case 0
  then show ?case by simp
next
  case (Suc b)
  show ?case
  proof (cases "a \<le> b")
    case True
    then have "[int a..int (Suc b) - 1] = [int a..int b - 1] @ [int b]"
      by (simp add: upto_rec2)
    with True Suc show ?thesis by simp
  qed simp
qed

lemma split_items_join: "split_items acc (concat (map (\<lambda>x. x @ '','') xs)) = (case xs of [] \<Rightarrow> if acc = [] then [] else [acc]
   | x # ys \<Rightarrow> (acc @ x) # ys)" if "list_all (\<lambda>x. CHR '','' \<notin> set x) xs"
proof -
  have skip: "CHR '','' \<notin> set x \<Longrightarrow> split_items acc (x @ cs) = split_items (acc @ x) cs" for x acc cs
    by (induction x arbitrary: acc) auto
  show ?thesis
    using that by (induction xs arbitrary: acc) (auto simp: skip split: list.splits)
qed

lemma load_images_length: "load_images stbi paths = Inr imgs \<Longrightarrow> length imgs = length paths"
  by (induction paths arbitrary: imgs) (auto simp: res_simps)

lemma check_images_Inr:
  "check_images starvla type_name paths names = Inr used \<Longrightarrow>
     paths \<noteq> [] \<and> length used = length paths \<and> (starvla \<longrightarrow> used = [''image_0''])"
  by (auto simp: check_images_def res_simps length_Suc_conv split: if_splits)

lemma map_cli_names: "length names = length imgs \<Longrightarrow> map mi_name (map2 cli_image names imgs) = names"
  by (induction names imgs rule: list_induct2) (simp_all add: cli_image_def)

subsection \<open>Properties\<close>

text \<open>Printing a well-shaped result reads no action out of bounds and prints the first five
  steps, dots when the chunk has more than ten, and the last five steps not yet printed; each
  line holds the actions of its own step.\<close>

theorem printed_steps_in_bounds:
  assumes "result_shaped r"
  shows "print_actions r = Some (Title (mr_chunk_size r) (mr_action_dim r) # map (row_of r) [0..<min 5 (nat (mr_chunk_size r))]
    @ (if 10 < mr_chunk_size r then [Dots] else [])
    @ map (row_of r) [max 5 (nat (mr_chunk_size r) - 5)..<nat (mr_chunk_size r)])"
proof -
  let ?n = "nat (mr_chunk_size r)"
  have n: "0 \<le> mr_chunk_size r" using assms by (simp add: result_shaped_def)
  then have count: "print_count r = int (min 5 ?n)"
    by (auto simp: print_count_def min_def nat_le_iff)
  have first: "[0..print_count r - 1] = map int [0..<min 5 ?n]"
    using upto_map_int [of 0 "min 5 ?n"] by (simp add: count)
  have last: "last_steps r = map int [max 5 (?n - 5)..<?n]"
  proof (cases "5 < ?n")
    case True
    then have "max (print_count r) (mr_chunk_size r - print_count r) = int (max 5 (?n - 5))"
      using n by (simp add: count max_def) arith
    with True n upto_map_int [of "max 5 (?n - 5)" ?n] show ?thesis by (simp add: last_steps_def count)
  next
    case False
    with n show ?thesis by (simp add: last_steps_def count)
  qed
  have dots: "2 * print_count r < mr_chunk_size r \<longleftrightarrow> 10 < mr_chunk_size r"
    using n by (auto simp: count)
  show ?thesis
    using assms by (simp add: print_actions_def first last print_steps_rows dots)
qed

theorem printed_steps_in_bounds_witness:
  "print_actions \<lparr>mr_actions = [f32_one, f32_zero], mr_chunk_size = 2, mr_action_dim = 1, mr_metrics = []\<rparr>
     = Some [Title 2 1, Step 0 [f32_one], Step 1 [f32_zero]]"
  by (subst printed_steps_in_bounds) (simp_all add: result_shaped_def row_of_def upt_rec)

text \<open>When the command line is accepted, the observation has one image per path, in order, with
  the names that were given; a StarVLA model gets exactly one image, named \<open>image_0\<close>.\<close>

theorem cli_observation_ready:
  assumes "cli_inputs stof stbi c = Inr obs"
  shows "ob_images obs \<noteq> [] \<and> length (ob_images obs) = length (cs_image_paths c) \<and>
    (cs_image_names c \<noteq> [] \<longrightarrow> map mi_name (ob_images obs) = cs_image_names c) \<and>
    (ma_type (cs_args c) = Starvla \<longrightarrow> map mi_name (ob_images obs) = [''image_0'']) \<and> ob_task obs = cs_task c"
proof -
  obtain names state imgs where names: "check_images (is_starvla_model_type (ma_type (cs_args c)))
      (model_type_name (ma_type (cs_args c))) (cs_image_paths c) (cs_image_names c) = Inr names"
    and imgs: "load_images stbi (cs_image_paths c) = Inr imgs" and obs: "obs = cli_observation names imgs state (cs_task c)"
    using assms by (auto simp: cli_inputs_def res_simps)
  note n = check_images_Inr [OF names] and l = load_images_length [OF imgs]
  have "map mi_name (ob_images obs) = names" "length (ob_images obs) = length (cs_image_paths c)"
    using n l map_cli_names [of names imgs] by (simp_all add: obs cli_observation_def del: map_map)
  moreover have "cs_image_names c \<noteq> [] \<longrightarrow> names = cs_image_names c"
    using names by (auto simp: check_images_def split: if_splits)
  ultimately show ?thesis
    using n by (auto simp: obs cli_observation_def is_starvla_model_type_def)
qed

theorem cli_observation_ready_witness:
  "\<exists>obs. cli_inputs (\<lambda>_. Some f32_one) (\<lambda>_. Some ([1, 2, 3], 1, 1))
      (initial_cli\<lparr>cs_image_paths := [''a.png''], cs_state_csv := ''1,1''\<rparr>) = Inr obs \<and> length (ob_images obs) = 1"
proof -
  let ?c = "initial_cli\<lparr>cs_image_paths := [''a.png''], cs_state_csv := ''1,1''\<rparr>"
  have "\<exists>obs. cli_inputs (\<lambda>_. Some f32_one) (\<lambda>_. Some ([1, 2, 3], 1, 1)) ?c = Inr obs"
    by (simp add: cli_inputs_def initial_cli_def default_model_args_def check_cli_args_def check_images_def
        is_starvla_model_type_def parse_state_def load_rgb_image_def)
  then obtain obs where "cli_inputs (\<lambda>_. Some f32_one) (\<lambda>_. Some ([1, 2, 3], 1, 1)) ?c = Inr obs" ..
  from cli_observation_ready [OF this] this show ?thesis by simp
qed

end
