(* ===== verification/Utf8.thy ===== *)
theory Utf8
  imports Prelude
begin

text \<open>
  The two UTF-8 decoders of \<^verbatim>\<open>src/models/starvla/fast_codec.cpp\<close>: the strict one, which reads the pieces of
  the vocabulary, and the one that replaces what it cannot decode by U+FFFD, which reads the
  bytes of a token sequence; and the proof that they agree on all the text the strict one
  accepts.  Code points are the \<open>uint32_t\<close> values of the source, with its shifts and masks.
\<close>

subsection \<open>UTF-8\<close>

text \<open>The value bits of a first byte and the length of its sequence.\<close>

definition utf8_lead :: "u8 \<Rightarrow> (u32 \<times> nat) option" where
  "utf8_lead first =
     (if first \<le> 0x7f then Some (ucast first, 1)
      else if 0xc2 \<le> first \<and> first \<le> 0xdf then Some (ucast (first AND 0x1f), 2)
      else if 0xe0 \<le> first \<and> first \<le> 0xef then Some (ucast (first AND 0x0f), 3)
      else if 0xf0 \<le> first \<and> first \<le> 0xf4 then Some (ucast (first AND 0x07), 4)
      else None)"

definition is_continuation :: "u8 \<Rightarrow> bool" where
  "is_continuation b \<longleftrightarrow> b AND 0xc0 = 0x80"

definition utf8_shift :: "u32 \<Rightarrow> u8 \<Rightarrow> u32" where
  "utf8_shift v b = push_bit 6 v OR ucast (b AND 0x3f)"

fun utf8_continue :: "u32 \<Rightarrow> u8 list \<Rightarrow> u32 option" where
  "utf8_continue v [] = Some v"
| "utf8_continue v (b # bs) = (if is_continuation b then utf8_continue (utf8_shift v b) bs else None)"

definition non_scalar :: "nat \<Rightarrow> u32 \<Rightarrow> bool" where
  "non_scalar len v \<longleftrightarrow>
     (len = 2 \<and> v < 0x80 \<or> len = 3 \<and> v < 0x800 \<or> len = 4 \<and> v < 0x10000) \<or> v > 0x10ffff \<or> (v \<ge> 0xd800 \<and> v \<le> 0xdfff)"

function decode_utf8_strict :: "u8 list \<Rightarrow> u32 list res" where
  "decode_utf8_strict [] = Inr []"
| "decode_utf8_strict (first # rest) =
     (case utf8_lead first of
        None \<Rightarrow> Inl ''StarVLA FAST tokenizer vocabulary contains invalid UTF-8''
      | Some (v0, len) \<Rightarrow>
          if Suc (length rest) < len then Inl ''StarVLA FAST tokenizer vocabulary contains truncated UTF-8''
          else case utf8_continue v0 (take (len - 1) rest) of
            None \<Rightarrow> Inl ''StarVLA FAST tokenizer vocabulary contains invalid UTF-8 continuation''
          | Some v \<Rightarrow>
              if non_scalar len v then Inl ''StarVLA FAST tokenizer vocabulary contains a non-scalar UTF-8 value''
              else bind_res (decode_utf8_strict (drop (len - 1) rest)) (\<lambda>cps. Inr (v # cps)))"
  by pat_completeness auto
termination by (relation "measure length") (auto simp: less_Suc_eq_le)

text \<open>The bytes of a sequence after the second: the value when they are all there, else \<open>None\<close>,
  with the bytes from which decoding goes on.\<close>

fun lossy_tail :: "nat \<Rightarrow> u32 \<Rightarrow> u8 list \<Rightarrow> u32 option \<times> u8 list" where
  "lossy_tail 0 v bs = (Some v, bs)"
| "lossy_tail (Suc k) v [] = (None, [])"
| "lossy_tail (Suc k) v (b # bs) = (if is_continuation b then lossy_tail k (utf8_shift v b) bs else (None, b # bs))"

definition second_in_range :: "u8 \<Rightarrow> u8 \<Rightarrow> bool" where
  "second_in_range first second \<longleftrightarrow>
     \<not> (first = 0xe0 \<and> second < 0xa0) \<and> \<not> (first = 0xed \<and> second > 0x9f) \<and>
     \<not> (first = 0xf0 \<and> second < 0x90) \<and> \<not> (first = 0xf4 \<and> second > 0x8f)"

lemma lossy_tail_length: "length (snd (lossy_tail k v bs)) \<le> length bs"
  by (induction k v bs rule: lossy_tail.induct) auto

lemma lossy_tail_shorter: "(r, bs') = lossy_tail k v bs \<Longrightarrow> length bs' < Suc (Suc (length bs))"
  using lossy_tail_length [of k v bs] by (cases "lossy_tail k v bs") auto

function decode_utf8_lossy :: "u8 list \<Rightarrow> u32 list" where
  "decode_utf8_lossy [] = []"
| "decode_utf8_lossy (first # rest) =
     (if first \<le> 0x7f then ucast first # decode_utf8_lossy rest
      else case utf8_lead first of
        None \<Rightarrow> 0xfffd # decode_utf8_lossy rest
      | Some (v0, len) \<Rightarrow>
          (case rest of
             [] \<Rightarrow> [0xfffd]
           | second # tail \<Rightarrow>
               if \<not> is_continuation second \<or> \<not> second_in_range first second then 0xfffd # decode_utf8_lossy rest
               else case lossy_tail (len - 2) (utf8_shift v0 second) tail of
                 (None, bs) \<Rightarrow> 0xfffd # decode_utf8_lossy bs
               | (Some v, bs) \<Rightarrow> v # decode_utf8_lossy bs))"
  by pat_completeness auto
termination by (relation "measure length") (auto dest: lossy_tail_shorter)

declare decode_utf8_strict.simps(2) [simp del] decode_utf8_lossy.simps(2) [simp del]

subsection \<open>The two decoders agree on valid text\<close>

text \<open>A sequence of two or three continuation bytes, in the two decoders.\<close>

lemma lossy_tail_continue:
  "utf8_continue v (take k bs) = Some w \<Longrightarrow> k \<le> length bs \<Longrightarrow> lossy_tail k v bs = (Some w, drop k bs)"
  by (induction k v bs rule: lossy_tail.induct) (auto split: if_splits)

lemma unat_and_mask: "unat ((b :: 'a::len word) AND mask n) = unat b mod 2 ^ n"
  by (simp add: take_bit_eq_mask [symmetric] unsigned_take_bit_eq take_bit_nat_def)

lemma low_six: "(0x3f :: u8) = mask 6"
  by (simp add: mask_eq_exp_minus_1)

lemma unat_low_six: "unat (ucast ((b :: u8) AND 0x3f) :: u32) = unat b mod 64"
proof -
  have "unat (b AND 0x3f) = unat b mod 64"
    unfolding low_six using unat_and_mask [of b 6] by simp
  moreover have "unat (ucast x :: u32) = unat (x :: u8)" for x
    using u8_bound [of x] by (simp add: unsigned_ucast_eq take_bit_nat_eq_self)
  ultimately show ?thesis by simp
qed

lemma utf8_shift_unat:
  assumes "unat v < 2 ^ 26"
  shows "unat (utf8_shift v b) = unat v * 64 + unat b mod 64"
proof -
  have "push_bit 6 v AND (ucast (b AND 0x3f) :: u32) = 0"
    unfolding low_six by (rule bit_word_eqI) (auto simp: bit_simps)
  then have "utf8_shift v b = push_bit 6 v + ucast (b AND 0x3f)"
    unfolding utf8_shift_def by (rule disjunctive_add_eq_or [symmetric])
  then show ?thesis
    using assms unat_low_six [of b] by (simp add: push_bit_eq_mult unat_word_ariths)
qed


text \<open>A fact of every byte, checked byte by byte.\<close>

lemma all_bytes:
  assumes "\<forall>n\<in>set [0..<256]. P (of_nat n)"
  shows "P (b :: u8)"
proof -
  have "of_nat (unat b) = b" by simp
  with assms u8_bound [of b] show ?thesis by (metis atLeast0LessThan atLeastLessThan_upt lessThan_iff)
qed

lemma continuation_range: "is_continuation b \<longleftrightarrow> 128 \<le> unat b \<and> unat b < 192"
  by (rule all_bytes) code_simp


lemma unat_ucast_u8 [simp]: "unat (ucast (x :: u8) :: u32) = unat x"
  using u8_bound [of x] by (simp add: unsigned_ucast_eq take_bit_nat_eq_self)

lemma lead_masks: "(0x1f :: u8) = mask 5" "(0x0f :: u8) = mask 4" "(0x07 :: u8) = mask 3"
  by (simp_all add: mask_eq_exp_minus_1)

lemma mod_window: "k * m \<le> n \<Longrightarrow> n < k * m + m \<Longrightarrow> n mod m = n - k * (m :: nat)"
proof -
  assume "k * m \<le> n" "n < k * m + m"
  then obtain r where "n = k * m + r" "r < m" by (metis add_less_cancel_left le_Suc_ex)
  then show ?thesis by simp
qed

text \<open>The four kinds of first bytes, with the value bits they carry.\<close>

lemma utf8_lead_cases:
  assumes "utf8_lead b = Some (v0, len)"
  obtains "len = 1" "unat b < 128" "v0 = ucast b"
  | "len = 2" "194 \<le> unat b" "unat b \<le> 223" "unat v0 = unat b - 192"
  | "len = 3" "224 \<le> unat b" "unat b \<le> 239" "unat v0 = unat b - 224"
  | "len = 4" "240 \<le> unat b" "unat b \<le> 244" "unat v0 = unat b - 240"
proof -
  have masks: "unat (ucast (b AND 0x1f) :: u32) = unat b mod 32" "unat (ucast (b AND 0x0f) :: u32) = unat b mod 16"
    "unat (ucast (b AND 0x07) :: u32) = unat b mod 8"
    by (simp_all add: lead_masks unat_and_mask)
  have windows: "192 \<le> n \<Longrightarrow> n < 224 \<Longrightarrow> n mod 32 = n - 192" "224 \<le> n \<Longrightarrow> n < 240 \<Longrightarrow> n mod 16 = n - 224"
    "240 \<le> n \<Longrightarrow> n < 248 \<Longrightarrow> n mod 8 = n - 240" for n :: nat
    using mod_window [of 6 32 n] mod_window [of 14 16 n] mod_window [of 30 8 n] by simp_all
  consider "b \<le> 0x7f" "v0 = ucast b" "len = 1"
    | "0xc2 \<le> b" "b \<le> 0xdf" "v0 = ucast (b AND 0x1f)" "len = 2"
    | "0xe0 \<le> b" "b \<le> 0xef" "v0 = ucast (b AND 0x0f)" "len = 3"
    | "0xf0 \<le> b" "b \<le> 0xf4" "v0 = ucast (b AND 0x07)" "len = 4"
    using assms by (auto simp: utf8_lead_def split: if_splits)
  then show thesis
  proof cases
    case 1
    then show thesis by (intro that(1)) (auto simp: word_le_nat_alt)
  next
    case 2
    then have "194 \<le> unat b" "unat b \<le> 223" by (auto simp: word_le_nat_alt)
    with 2 windows(1) [of "unat b"] masks(1) show thesis by (intro that(2)) simp_all
  next
    case 3
    then have "224 \<le> unat b" "unat b \<le> 239" by (auto simp: word_le_nat_alt)
    with 3 windows(2) [of "unat b"] masks(2) show thesis by (intro that(3)) simp_all
  next
    case 4
    then have "240 \<le> unat b" "unat b \<le> 244" by (auto simp: word_le_nat_alt)
    with 4 windows(3) [of "unat b"] masks(3) show thesis by (intro that(4)) simp_all
  qed
qed

lemma utf8_lead_one:
  assumes "utf8_lead b = Some (v0, len)"
  shows "len = 1 \<longleftrightarrow> b \<le> 0x7f" "len = 1 \<Longrightarrow> v0 = ucast b" "1 \<le> len"
  using assms by (auto simp: utf8_lead_def split: if_splits)

text \<open>What the strict decoder accepts after a first byte, the range check of the lossy decoder
  accepts too.\<close>

lemma scalar_second_in_range:
  assumes lead: "utf8_lead first = Some (v0, len)" "len \<noteq> 1"
    and conts: "utf8_continue v0 (second # ws) = Some v" "length ws = len - 2" and scalar: "\<not> non_scalar len v"
  shows "second_in_range first second"
proof -
  have sec: "128 \<le> unat second" "unat second < 192" and ws: "utf8_continue (utf8_shift v0 second) ws = Some v"
    using conts(1) by (auto simp: continuation_range split: if_splits)
  define s where "s = unat second - 128"
  have s: "unat second = s + 128" "s < 64" "unat second mod 64 = s"
    using sec mod_window [of 2 64 "unat second"] by (simp_all add: s_def)
  from lead show ?thesis
  proof (cases rule: utf8_lead_cases)
    case 3
    then obtain t where "ws = [t]" using conts(2) by (cases ws) auto
    with ws have v: "v = utf8_shift (utf8_shift v0 second) t" by (simp split: if_splits)
    have v1: "unat (utf8_shift v0 second) = unat v0 * 64 + s"
      using 3 s by (subst utf8_shift_unat) auto
    have "unat v = (unat v0 * 64 + s) * 64 + unat t mod 64"
      unfolding v using v1 3 s(2) by (subst utf8_shift_unat) auto
    moreover have "\<not> unat v < 0x800" "\<not> (0xd800 \<le> unat v \<and> unat v \<le> 0xdfff)"
      using scalar 3 by (auto simp: non_scalar_def word_less_nat_alt word_le_nat_alt)
    moreover have "unat t mod 64 < 64" by simp
    ultimately have "\<not> (unat first = 224 \<and> s < 32)" "\<not> (unat first = 237 \<and> 31 < s)"
      using 3 s(2) by auto
    with 3 s show ?thesis
      by (auto simp: second_in_range_def word_less_nat_alt word_unat_eq_iff)
  next
    case 4
    then obtain t u where "ws = [t, u]" using conts(2) by (cases ws; cases "tl ws") auto
    with ws have v: "v = utf8_shift (utf8_shift (utf8_shift v0 second) t) u" by (simp split: if_splits)
    have v1: "unat (utf8_shift v0 second) = unat v0 * 64 + s"
      using 4 s by (subst utf8_shift_unat) auto
    have v2: "unat (utf8_shift (utf8_shift v0 second) t) = (unat v0 * 64 + s) * 64 + unat t mod 64"
      using v1 4 s(2) by (subst utf8_shift_unat) auto
    have bounds: "unat t mod 64 < 64" "unat u mod 64 < 64" by simp_all
    have "unat v = ((unat v0 * 64 + s) * 64 + unat t mod 64) * 64 + unat u mod 64"
      unfolding v using v2 bounds 4 s(2) by (subst utf8_shift_unat) auto
    moreover have "\<not> unat v < 0x10000" "\<not> 0x10ffff < unat v"
      using scalar 4 by (auto simp: non_scalar_def word_less_nat_alt word_le_nat_alt)
    ultimately have "\<not> (unat first = 240 \<and> s < 16)" "\<not> (unat first = 244 \<and> 15 < s)"
      using 4 s(2) bounds by auto
    with 4 s show ?thesis
      by (auto simp: second_in_range_def word_less_nat_alt word_unat_eq_iff)
  qed (use lead in \<open>auto simp: second_in_range_def\<close>)
qed

lemma strict_implies_lossy: "decode_utf8_strict bs = Inr cps \<Longrightarrow> decode_utf8_lossy bs = cps"
proof (induction bs arbitrary: cps rule: decode_utf8_strict.induct)
  case 1
  then show ?case by simp
next
  case (2 first rest)
  obtain v0 len v ws where lead: "utf8_lead first = Some (v0, len)" and len: "\<not> Suc (length rest) < len"
    and cont: "utf8_continue v0 (take (len - 1) rest) = Some v" and scalar: "\<not> non_scalar len v"
    and ws: "decode_utf8_strict (drop (len - 1) rest) = Inr ws" and cps: "cps = v # ws"
    using "2.prems" by (auto simp: decode_utf8_strict.simps(2) res_simps split: option.splits if_splits)
  have rec: "decode_utf8_lossy (drop (len - 1) rest) = ws"
    using "2.IH" [OF lead refl len cont scalar ws] .
  show ?case
  proof (cases "len = 1")
    case True
    with utf8_lead_one [OF lead] have "first \<le> 0x7f" "v0 = ucast first" by simp_all
    with True cont rec cps show ?thesis by (simp add: decode_utf8_lossy.simps(2))
  next
    case False
    with utf8_lead_one [OF lead] have ge: "2 \<le> len" "\<not> first \<le> 0x7f" by linarith+
    then obtain second tail where rest: "rest = second # tail"
      using len by (cases rest) auto
    obtain k where k: "len = Suc (Suc k)"
      using ge(1) by (metis Suc_le_D numeral_2_eq_2 Suc_le_mono)
    have "is_continuation second" and tail: "utf8_continue (utf8_shift v0 second) (take k tail) = Some v"
      using cont by (auto simp: rest k split: if_splits)
    moreover have "second_in_range first second"
      using scalar_second_in_range [OF lead False _ _ scalar, of second "take k tail"] cont len
      by (simp add: rest k)
    ultimately show ?thesis
      using lossy_tail_continue [OF tail] len lead ge(2) rec cps
      by (simp add: decode_utf8_lossy.simps(2) rest k)
  qed
qed


subsection \<open>Properties\<close>

text \<open>The replacing decoder gives the same code points as the strict decoder on every byte string
  that the strict decoder accepts: neither loses, adds or changes a character of valid text.\<close>

theorem lossy_agrees_with_strict:
  assumes "decode_utf8_strict bs = Inr cps"
  shows "decode_utf8_lossy bs = cps"
  using assms by (rule strict_implies_lossy)

text \<open>A text of one character of each length: \<open>A\<close>, \<open>U+00E9\<close>, \<open>U+20AC\<close>, \<open>U+1F600\<close>.\<close>

theorem lossy_agrees_with_strict_witness:
  "decode_utf8_lossy [0x41, 0xc3, 0xa9, 0xe2, 0x82, 0xac, 0xf0, 0x9f, 0x98, 0x80] = [0x41, 0xe9, 0x20ac, 0x1f600]"
proof (rule lossy_agrees_with_strict)
  show "decode_utf8_strict [0x41, 0xc3, 0xa9, 0xe2, 0x82, 0xac, 0xf0, 0x9f, 0x98, 0x80] = Inr [0x41, 0xe9, 0x20ac, 0x1f600]"
    by (simp add: decode_utf8_strict.simps(2) utf8_lead_def utf8_shift_def is_continuation_def non_scalar_def)
qed

end
