(* ===== verification/FastCodec.thy ===== *)
theory FastCodec
  imports Utf8 Ieee "HOL-Library.Product_Lexorder"
begin

text \<open>
  The FAST action codec of \<^verbatim>\<open>src/models/starvla/fast_codec.cpp\<close> (its UTF-8 decoders are in \<open>Utf8\<close>): the
  ByteLevel alphabet, the checks and constructors of the codec, the maps between FAST tokens and the
  language model's tokens, and the decoder from tokens to actions (an inverse DCT in double
  precision, with \<open>std::cos\<close> as an argument).  Token ids are \<open>int32_t\<close> values, written \<open>int\<close>;
  \<open>size_t\<close> values are \<open>nat\<close>.
\<close>

subsection \<open>Limits and data\<close>

definition kMaximumVocabSize :: nat where "kMaximumVocabSize = 65536"
definition kMaximumTimeHorizon :: nat where "kMaximumTimeHorizon = 1024"
definition kMaximumActionDim :: nat where "kMaximumActionDim = 1024"
definition kMaximumBatchSize :: nat where "kMaximumBatchSize = 1024"
definition kMaximumTokenSequence :: nat where "kMaximumTokenSequence = 4096"
definition kMaximumGeneratedSequence :: nat where "kMaximumGeneratedSequence = 2048"
definition kMaximumDecodedBytes :: nat where "kMaximumDecodedBytes = 1024 * 1024"
definition kMaximumOutputScalars :: nat where "kMaximumOutputScalars = 16 * 1024 * 1024"
definition kMaximumIdctMultiplyAdds :: nat where "kMaximumIdctMultiplyAdds = 64 * 1024 * 1024"
definition kPi :: f64 where "kPi = 0x400921FB54442D18"

lemmas fast_limits = kMaximumVocabSize_def kMaximumTimeHorizon_def kMaximumActionDim_def kMaximumBatchSize_def
  kMaximumTokenSequence_def kMaximumGeneratedSequence_def kMaximumDecodedBytes_def kMaximumOutputScalars_def
  kMaximumIdctMultiplyAdds_def

definition int32_max :: nat where "int32_max = 2147483647"

record fast_config =
  fc_scale :: f64
  fc_min_token :: int
  fc_vocab_size :: nat
  fc_time_horizon :: nat
  fc_action_dim :: nat

record fast_decode_result =
  fr_batch_size :: nat
  fr_time_horizon :: nat
  fr_action_dim :: nat
  fr_actions :: "f64 list"

record fast_codec =
  fx_config :: fast_config
  fx_token_bytes :: "u8 list list"
  fx_fast_to_vlm :: "int list"
  fx_vlm_to_fast :: "(int \<times> int) list"

subsection \<open>The ByteLevel alphabet\<close>

definition direct_bytes :: "nat list" where
  "direct_bytes = [0x21..<0x7f] @ [0xa1..<0xad] @ [0xae..<0x100]"

definition extra_bytes :: "nat list" where
  "extra_bytes = filter (\<lambda>v. v \<notin> set direct_bytes) [0..<0x100]"

definition byte_level_inverse_alphabet :: "(u32 \<times> u8) list" where
  "byte_level_inverse_alphabet =
     map (\<lambda>v. (of_nat v, of_nat v)) direct_bytes @
     map (\<lambda>(extra, v). (256 + of_nat extra, of_nat v)) (List.enumerate 0 extra_bytes)"

fun piece_bytes :: "nat \<Rightarrow> u32 list \<Rightarrow> u8 list res" where
  "piece_bytes token_id [] = Inr []"
| "piece_bytes token_id (cp # cps) =
     (case map_of byte_level_inverse_alphabet cp of
        None \<Rightarrow> Inl (''StarVLA FAST tokenizer piece contains a code point outside the ByteLevel alphabet at ID ''
                 @ nat_to_string token_id)
      | Some b \<Rightarrow> bind_res (piece_bytes token_id cps) (\<lambda>bs. Inr (b # bs)))"

fun compile_token_bytes :: "nat \<Rightarrow> string list \<Rightarrow> u8 list list res" where
  "compile_token_bytes token_id [] = Inr []"
| "compile_token_bytes token_id (piece # pieces) =
     (if piece = [] then Inl (''StarVLA FAST tokenizer has an empty vocabulary piece at ID '' @ nat_to_string token_id)
      else case decode_utf8_strict (map byte_of piece) of
        Inl e \<Rightarrow> Inl (e @ '' at token ID '' @ nat_to_string token_id)
      | Inr cps \<Rightarrow>
          bind_res (piece_bytes token_id cps) (\<lambda>bytes.
          bind_res (compile_token_bytes (Suc token_id) pieces) (\<lambda>rest. Inr (bytes # rest))))"

subsection \<open>Checks and constructors\<close>

text \<open>The number of actions per sample and in total.  Both callers have checked that no dimension
  is zero, so that no division is by zero.\<close>

definition checked_action_count :: "fast_config \<Rightarrow> nat \<Rightarrow> (nat \<times> nat) res" where
  "checked_action_count cfg batch_size =
     (if fc_vocab_size cfg > kMaximumVocabSize \<or> fc_time_horizon cfg > kMaximumTimeHorizon
         \<or> fc_action_dim cfg > kMaximumActionDim
        then Inl ''StarVLA FAST codec dimensions exceed the runtime safety limits''
      else if batch_size = 0 \<or> batch_size > kMaximumBatchSize
        then Inl ''StarVLA FAST batch size exceeds the runtime safety limit''
      else if fc_time_horizon cfg > size_max div fc_action_dim cfg
        then Inl ''StarVLA FAST action shape overflows size_t''
      else if batch_size > size_max div (fc_time_horizon cfg * fc_action_dim cfg)
        then Inl ''StarVLA FAST batch shape overflows size_t''
      else if batch_size * (fc_time_horizon cfg * fc_action_dim cfg) > kMaximumOutputScalars
        then Inl ''StarVLA FAST output tensor exceeds the runtime scalar limit''
      else if fc_time_horizon cfg > kMaximumIdctMultiplyAdds div fc_time_horizon cfg \<or>
              fc_action_dim cfg > kMaximumIdctMultiplyAdds div (fc_time_horizon cfg * fc_time_horizon cfg) \<or>
              batch_size > kMaximumIdctMultiplyAdds div (fc_time_horizon cfg * fc_time_horizon cfg * fc_action_dim cfg)
        then Inl ''StarVLA FAST inverse DCT exceeds the runtime work limit''
      else Inr (fc_time_horizon cfg * fc_action_dim cfg, batch_size * (fc_time_horizon cfg * fc_action_dim cfg)))"

definition vlm_to_fast_pairs :: "int list \<Rightarrow> (int \<times> int) list" where
  "vlm_to_fast_pairs ids = sort (map (\<lambda>(fast_id, vlm_id). (vlm_id, int fast_id)) (List.enumerate 0 ids))"

definition new_fast_codec :: "fast_config \<Rightarrow> u8 list list \<Rightarrow> int list \<Rightarrow> fast_codec" where
  "new_fast_codec cfg token_bytes ids = \<lparr>fx_config = cfg, fx_token_bytes = token_bytes, fx_fast_to_vlm = ids,
     fx_vlm_to_fast = vlm_to_fast_pairs ids\<rparr>"

text \<open>The loop that inserts the ids into a set.\<close>

fun ids_unique :: "int list \<Rightarrow> int list \<Rightarrow> bool" where
  "ids_unique seen [] = True"
| "ids_unique seen (v # vs) = (if v < 0 \<or> v \<in> set seen then False else ids_unique (v # seen) vs)"

definition bad_dimensions :: "fast_config \<Rightarrow> bool" where
  "bad_dimensions cfg \<longleftrightarrow> \<not> f64_finite (fc_scale cfg) \<or> f64_eq (fc_scale cfg) f64_zero \<or> fc_vocab_size cfg = 0
     \<or> fc_time_horizon cfg = 0 \<or> fc_action_dim cfg = 0"

definition create :: "fast_config \<Rightarrow> string list \<Rightarrow> int list \<Rightarrow> fast_codec res" where
  "create cfg vocab ids =
     (if bad_dimensions cfg then Inl ''StarVLA FAST codec dimensions and scale must be non-zero and finite''
      else if fc_vocab_size cfg > int32_max then Inl ''StarVLA FAST vocabulary exceeds the int32 token-ID range''
      else if length vocab \<noteq> fc_vocab_size cfg \<or> length ids \<noteq> fc_vocab_size cfg
        then Inl ''StarVLA FAST codec vocabulary or action-token map has the wrong size''
      else bind_res (checked_action_count cfg 1) (\<lambda>_.
        if \<not> ids_unique [] ids then Inl ''StarVLA FAST action-token VLM IDs must be unique and non-negative''
        else bind_res (compile_token_bytes 0 vocab) (\<lambda>token_bytes. Inr (new_fast_codec cfg token_bytes ids))))"

fun compiled_pieces :: "int list \<Rightarrow> u8 list \<Rightarrow> u8 list list res" where
  "compiled_pieces (b # e # offsets) bytes =
     (if b < 0 \<or> e \<le> b \<or> nat e > length bytes
        then Inl ''StarVLA FAST compiled codec offsets are not strictly increasing''
      else bind_res (compiled_pieces (e # offsets) bytes) (\<lambda>pieces.
        Inr (take (nat e - nat b) (drop (nat b) bytes) # pieces)))"
| "compiled_pieces offsets bytes = Inr []"

definition create_compiled :: "fast_config \<Rightarrow> int list \<Rightarrow> u8 list \<Rightarrow> int list \<Rightarrow> fast_codec res" where
  "create_compiled cfg offsets bytes ids =
     (if bad_dimensions cfg \<or> fc_vocab_size cfg > int32_max
        then Inl ''StarVLA FAST compiled codec dimensions and scale are invalid''
      else if fc_vocab_size cfg = size_max \<or> length offsets \<noteq> fc_vocab_size cfg + 1 \<or> length ids \<noteq> fc_vocab_size cfg \<or>
              offsets = [] \<or> hd offsets \<noteq> 0 \<or> last offsets < 0 \<or> nat (last offsets) \<noteq> length bytes
        then Inl ''StarVLA FAST compiled codec tensor shapes are incompatible''
      else bind_res (checked_action_count cfg 1) (\<lambda>_.
        if \<not> ids_unique [] ids then Inl ''StarVLA FAST compiled action-token IDs must be unique and non-negative''
        else bind_res (compiled_pieces offsets bytes) (\<lambda>pieces. Inr (new_fast_codec cfg pieces ids))))"

subsection \<open>Token maps\<close>

fun map_fast_ids :: "fast_codec \<Rightarrow> int list \<Rightarrow> int list res" where
  "map_fast_ids c [] = Inr []"
| "map_fast_ids c (fast_id # fast_ids) =
     (if fast_id < 0 \<or> nat fast_id \<ge> length (fx_fast_to_vlm c)
        then Inl ''StarVLA FAST token ID is outside the codec vocabulary''
      else bind_res (map_fast_ids c fast_ids) (\<lambda>vs. Inr (fx_fast_to_vlm c ! nat fast_id # vs)))"

definition map_fast_to_vlm :: "fast_codec \<Rightarrow> int list \<Rightarrow> int list res" where
  "map_fast_to_vlm c fast_ids =
     (if length fast_ids > kMaximumTokenSequence then Inl ''StarVLA FAST token sequence exceeds the runtime length limit''
      else map_fast_ids c fast_ids)"

text \<open>\<open>std::lower_bound\<close> on the sorted pairs, as the pairs from the iterator it returns on; and the
  test of the iterator.\<close>

definition lower_bound :: "(int \<times> int) list \<Rightarrow> int \<Rightarrow> (int \<times> int) list" where
  "lower_bound entries v = dropWhile (\<lambda>entry. fst entry < v) entries"

definition find_vlm :: "(int \<times> int) list \<Rightarrow> int \<Rightarrow> int option" where
  "find_vlm entries v =
     (case lower_bound entries v of [] \<Rightarrow> None | found # _ \<Rightarrow> if fst found \<noteq> v then None else Some (snd found))"

fun map_vlm_ids :: "fast_codec \<Rightarrow> int list \<Rightarrow> int list res" where
  "map_vlm_ids c [] = Inr []"
| "map_vlm_ids c (v # vs) =
     (case find_vlm (fx_vlm_to_fast c) v of
        None \<Rightarrow> Inl ''Qwen token ID is not present in the StarVLA FAST action-token map''
      | Some fast_id \<Rightarrow> bind_res (map_vlm_ids c vs) (\<lambda>fs. Inr (fast_id # fs)))"

definition map_vlm_to_fast :: "fast_codec \<Rightarrow> int list \<Rightarrow> int list res" where
  "map_vlm_to_fast c vlm_ids =
     (if length vlm_ids > kMaximumTokenSequence
        then Inl ''StarVLA FAST action-token sequence exceeds the runtime length limit''
      else map_vlm_ids c vlm_ids)"

fun extract_ids :: "fast_codec \<Rightarrow> int list \<Rightarrow> int list" where
  "extract_ids c [] = []"
| "extract_ids c (v # vs) =
     (case find_vlm (fx_vlm_to_fast c) v of None \<Rightarrow> extract_ids c vs | Some fast_id \<Rightarrow> fast_id # extract_ids c vs)"

definition extract_fast_tokens :: "fast_codec \<Rightarrow> int list \<Rightarrow> int list res" where
  "extract_fast_tokens c generated_ids =
     (if length generated_ids > kMaximumGeneratedSequence
        then Inl ''Qwen generated sequence exceeds the StarVLA FAST runtime length limit''
      else Inr (extract_ids c generated_ids))"

subsection \<open>Decoding\<close>

fun check_byte_count :: "fast_codec \<Rightarrow> nat \<Rightarrow> int list \<Rightarrow> unit res" where
  "check_byte_count c byte_count [] = Inr ()"
| "check_byte_count c byte_count (fast_id # fast_ids) =
     (if fast_id < 0 \<or> nat fast_id \<ge> length (fx_token_bytes c)
        then Inl ''StarVLA FAST token ID is outside the ByteLevel BPE vocabulary''
      else if byte_count > size_max - length (fx_token_bytes c ! nat fast_id)
        then Inl ''StarVLA FAST ByteLevel output size overflows size_t''
      else if byte_count + length (fx_token_bytes c ! nat fast_id) > kMaximumDecodedBytes
        then Inl ''StarVLA FAST ByteLevel decode exceeds the runtime byte limit''
      else check_byte_count c (byte_count + length (fx_token_bytes c ! nat fast_id)) fast_ids)"

definition byte_level_decode :: "fast_codec \<Rightarrow> int list \<Rightarrow> u32 list res" where
  "byte_level_decode c fast_ids =
     (if length fast_ids > kMaximumTokenSequence then Inl ''StarVLA FAST token sequence exceeds the runtime length limit''
      else bind_res (check_byte_count c 0 fast_ids) (\<lambda>_.
        Inr (decode_utf8_lossy (concat (map (\<lambda>i. fx_token_bytes c ! nat i) fast_ids)))))"

definition coefficient :: "fast_config \<Rightarrow> u32 list \<Rightarrow> nat \<Rightarrow> f64" where
  "coefficient cfg cps i =
     f64_div (f64_add (f64_of_int (uint (cps ! i))) (f64_of_int (fc_min_token cfg))) (fc_scale cfg)"

definition dc_scale :: "fast_config \<Rightarrow> f64" where
  "dc_scale cfg = f64_div f64_one (f64_sqrt (f64_of_int (int (fc_time_horizon cfg))))"

definition ac_scale :: "fast_config \<Rightarrow> f64" where
  "ac_scale cfg = f64_sqrt (f64_div (f64_of_int 2) (f64_of_int (int (fc_time_horizon cfg))))"

definition dct_angle :: "fast_config \<Rightarrow> nat \<Rightarrow> nat \<Rightarrow> f64" where
  "dct_angle cfg time frequency =
     f64_div (f64_mul (f64_mul kPi (f64_of_int (int frequency))) (f64_of_int (int (2 * time + 1))))
       (f64_mul (f64_of_int 2) (f64_of_int (int (fc_time_horizon cfg))))"

text \<open>One action value: the sum over the frequencies, in the order of the source.\<close>

definition idct_value :: "(f64 \<Rightarrow> f64) \<Rightarrow> fast_config \<Rightarrow> u32 list \<Rightarrow> nat \<Rightarrow> nat \<Rightarrow> f64" where
  "idct_value cosine cfg cps action time =
     foldl (\<lambda>value frequency. f64_add value
         (f64_mul (f64_mul (ac_scale cfg) (coefficient cfg cps (frequency * fc_action_dim cfg + action)))
            (cosine (dct_angle cfg time frequency))))
       (f64_mul (dc_scale cfg) (coefficient cfg cps action)) [1..<fc_time_horizon cfg]"

text \<open>The two loops that store the values of one sample, starting at \<open>base\<close>.\<close>

definition fill_action :: "(f64 \<Rightarrow> f64) \<Rightarrow> fast_config \<Rightarrow> u32 list \<Rightarrow> nat \<Rightarrow> f64 list \<Rightarrow> nat \<Rightarrow> f64 list" where
  "fill_action cosine cfg cps base actions action =
     foldl (\<lambda>actions time. actions[base + time * fc_action_dim cfg + action := idct_value cosine cfg cps action time])
       actions [0..<fc_time_horizon cfg]"

definition fill_sample :: "(f64 \<Rightarrow> f64) \<Rightarrow> fast_config \<Rightarrow> u32 list \<Rightarrow> nat \<Rightarrow> f64 list \<Rightarrow> f64 list" where
  "fill_sample cosine cfg cps base actions =
     foldl (fill_action cosine cfg cps base) actions [0..<fc_action_dim cfg]"

definition sequence_error :: "nat \<Rightarrow> string \<Rightarrow> string" where
  "sequence_error batch msg = ''StarVLA FAST sequence '' @ nat_to_string batch @ '': '' @ msg"

fun decode_batches :: "(f64 \<Rightarrow> f64) \<Rightarrow> fast_codec \<Rightarrow> nat \<Rightarrow> nat \<Rightarrow> int list list \<Rightarrow> f64 list \<Rightarrow> f64 list res" where
  "decode_batches cosine c per_sample batch [] actions = Inr actions"
| "decode_batches cosine c per_sample batch (fast_ids # rest) actions =
     (case byte_level_decode c fast_ids of
        Inl e \<Rightarrow> Inl (sequence_error batch e)
      | Inr cps \<Rightarrow>
          if length cps \<noteq> per_sample then Inl (sequence_error batch ''decoded DCT coefficient shape mismatch'')
          else decode_batches cosine c per_sample (Suc batch) rest
                 (fill_sample cosine (fx_config c) cps (batch * per_sample) actions))"

definition decode_fast_tokens :: "(f64 \<Rightarrow> f64) \<Rightarrow> fast_codec \<Rightarrow> int list list \<Rightarrow> fast_decode_result res" where
  "decode_fast_tokens cosine c batches =
     (if batches = [] then Inl ''StarVLA FAST decode batch must contain at least one sequence''
      else if length batches > kMaximumBatchSize then Inl ''StarVLA FAST decode batch exceeds the runtime size limit''
      else if list_ex (\<lambda>fast_ids. length fast_ids > kMaximumTokenSequence) batches
        then Inl ''StarVLA FAST token sequence exceeds the runtime length limit''
      else bind_res (checked_action_count (fx_config c) (length batches)) (\<lambda>(per_sample, total).
           bind_res (decode_batches cosine c per_sample 0 batches (replicate total f64_zero)) (\<lambda>actions.
             Inr \<lparr>fr_batch_size = length batches, fr_time_horizon = fc_time_horizon (fx_config c),
                  fr_action_dim = fc_action_dim (fx_config c), fr_actions = actions\<rparr>)))"

definition decode_vlm_action_tokens :: "(f64 \<Rightarrow> f64) \<Rightarrow> fast_codec \<Rightarrow> int list list \<Rightarrow> fast_decode_result res" where
  "decode_vlm_action_tokens cosine c batches =
     (if batches = [] \<or> length batches > kMaximumBatchSize
        then Inl ''StarVLA FAST action-token batch is empty or exceeds the runtime size limit''
      else bind_res (each_res (map_vlm_to_fast c) batches) (decode_fast_tokens cosine c))"

definition decode_generated_tokens :: "(f64 \<Rightarrow> f64) \<Rightarrow> fast_codec \<Rightarrow> int list list \<Rightarrow> fast_decode_result res" where
  "decode_generated_tokens cosine c batches =
     (if batches = [] \<or> length batches > kMaximumBatchSize
        then Inl ''StarVLA FAST generated-token batch is empty or exceeds the runtime size limit''
      else bind_res (each_res (extract_fast_tokens c) batches) (decode_fast_tokens cosine c))"


subsection \<open>The token maps invert each other\<close>

text \<open>
  The index from language-model ids to FAST ids: what its users need of the way it is built.
  The pairs are sorted, and they are the entries of the list of ids.
\<close>

locale id_index =
  fixes build :: "int list \<Rightarrow> (int \<times> int) list"
  assumes sorted: "sorted (build ids)"
    and entries: "(v, f) \<in> set (build ids) \<longleftrightarrow> 0 \<le> f \<and> nat f < length ids \<and> ids ! nat f = v"
begin

lemma find_Some:
  assumes "distinct ids"
  shows "find_vlm (build ids) v = Some f \<longleftrightarrow> 0 \<le> f \<and> nat f < length ids \<and> ids ! nat f = v"
proof -
  let ?xs = "build ids"
  have split: "?xs = takeWhile (\<lambda>e. fst e < v) ?xs @ lower_bound ?xs v"
    by (simp add: lower_bound_def)
  have unique: "(v, f) \<in> set ?xs \<Longrightarrow> (v, g) \<in> set ?xs \<Longrightarrow> f = g" for f g
    using assms by (auto simp: entries nth_eq_iff_index_eq)
  show ?thesis
  proof
    assume "find_vlm ?xs v = Some f"
    then obtain found rest where lb: "lower_bound ?xs v = found # rest" "fst found = v" "snd found = f"
      by (auto simp: find_vlm_def split: list.splits if_splits)
    then have "(v, f) \<in> set ?xs"
      using split by (metis in_set_conv_decomp prod.collapse)
    then show "0 \<le> f \<and> nat f < length ids \<and> ids ! nat f = v" by (simp add: entries)
  next
    assume "0 \<le> f \<and> nat f < length ids \<and> ids ! nat f = v"
    then have mem: "(v, f) \<in> set ?xs" by (simp add: entries)
    moreover have "(v, f) \<notin> set (takeWhile (\<lambda>e. fst e < v) ?xs)"
      by (auto dest: set_takeWhileD)
    ultimately have "(v, f) \<in> set (lower_bound ?xs v)"
      using split by (metis Un_iff set_append)
    then obtain found rest where lb: "lower_bound ?xs v = found # rest" and in_lb: "(v, f) \<in> set (found # rest)"
      by (cases "lower_bound ?xs v") auto
    have "\<not> fst found < v"
      using lb hd_dropWhile [of "\<lambda>e. fst e < v" ?xs] by (auto simp: lower_bound_def)
    moreover have "sorted (found # rest)"
      using sorted [of ids] split lb by (metis sorted_append)
    with in_lb have "found \<le> (v, f)" by auto
    ultimately have "fst found = v" by (auto simp: less_eq_prod_def)
    moreover have "found \<in> set ?xs" using split lb by (metis in_set_conv_decomp)
    ultimately have "found = (v, f)"
      using unique [of f "snd found"] mem by (cases found) auto
    with lb show "find_vlm ?xs v = Some f" by (simp add: find_vlm_def)
  qed
qed

lemma find_None: "distinct ids \<Longrightarrow> find_vlm (build ids) v = None \<longleftrightarrow> v \<notin> set ids"
proof -
  assume d: "distinct ids"
  have "v \<in> set ids \<longleftrightarrow> (\<exists>f. 0 \<le> f \<and> nat f < length ids \<and> ids ! nat f = v)"
    by (auto simp: in_set_conv_nth) (metis int_nat_eq nat_int of_nat_0_le_iff)
  then show "find_vlm (build ids) v = None \<longleftrightarrow> v \<notin> set ids"
    using find_Some [OF d, of v] by (cases "find_vlm (build ids) v") auto
qed

end

interpretation vlm_index: id_index vlm_to_fast_pairs
proof
  fix ids :: "int list" and v f :: int
  show "sorted (vlm_to_fast_pairs ids)"
    by (simp add: vlm_to_fast_pairs_def)
  show "(v, f) \<in> set (vlm_to_fast_pairs ids) \<longleftrightarrow> 0 \<le> f \<and> nat f < length ids \<and> ids ! nat f = v"
    by (simp add: vlm_to_fast_pairs_def in_set_enumerate_eq image_iff Bex_def)
      (metis int_nat_eq nat_int of_nat_0_le_iff)
qed

text \<open>The invariant the constructors establish.\<close>

definition codec_ok :: "fast_codec \<Rightarrow> bool" where
  "codec_ok c \<longleftrightarrow>
     distinct (fx_fast_to_vlm c) \<and> list_all (\<lambda>v. 0 \<le> v) (fx_fast_to_vlm c) \<and>
     fx_vlm_to_fast c = vlm_to_fast_pairs (fx_fast_to_vlm c) \<and>
     length (fx_fast_to_vlm c) = fc_vocab_size (fx_config c) \<and>
     length (fx_token_bytes c) = fc_vocab_size (fx_config c) \<and>
     0 < fc_vocab_size (fx_config c) \<and> fc_vocab_size (fx_config c) \<le> kMaximumVocabSize \<and>
     0 < fc_time_horizon (fx_config c) \<and> fc_time_horizon (fx_config c) \<le> kMaximumTimeHorizon \<and>
     0 < fc_action_dim (fx_config c) \<and> fc_action_dim (fx_config c) \<le> kMaximumActionDim"

lemma ids_unique_iff: "ids_unique seen ids \<longleftrightarrow> distinct ids \<and> list_all (\<lambda>v. 0 \<le> v) ids \<and> set ids \<inter> set seen = {}"
  by (induction seen ids rule: ids_unique.induct) (auto simp: list_all_iff)

lemma checked_action_count_Inr:
  "checked_action_count cfg batch = Inr (per, tot) \<Longrightarrow>
     fc_vocab_size cfg \<le> kMaximumVocabSize \<and> fc_time_horizon cfg \<le> kMaximumTimeHorizon \<and>
     fc_action_dim cfg \<le> kMaximumActionDim \<and> per = fc_time_horizon cfg * fc_action_dim cfg \<and>
     tot = batch * per \<and> tot \<le> kMaximumOutputScalars"
  by (auto simp: checked_action_count_def split: if_splits)

lemma compile_token_bytes_length: "compile_token_bytes i vocab = Inr pieces \<Longrightarrow> length pieces = length vocab"
  by (induction i vocab arbitrary: pieces rule: compile_token_bytes.induct)
    (auto simp: res_simps split: if_splits sum.splits)

lemma compiled_pieces_length:
  "compiled_pieces offsets bytes = Inr pieces \<Longrightarrow> length pieces = length offsets - 1"
  by (induction offsets bytes arbitrary: pieces rule: compiled_pieces.induct) (auto simp: res_simps split: if_splits)

lemma new_codec_ok:
  assumes "\<not> bad_dimensions cfg" "checked_action_count cfg 1 = Inr x" "ids_unique [] ids"
    "length ids = fc_vocab_size cfg" "length pieces = fc_vocab_size cfg"
  shows "codec_ok (new_fast_codec cfg pieces ids)"
  using assms checked_action_count_Inr [of cfg 1 "fst x" "snd x"]
  by (auto simp: codec_ok_def new_fast_codec_def bad_dimensions_def ids_unique_iff)

lemma create_ok: "create cfg vocab ids = Inr c \<Longrightarrow> codec_ok c"
  by (auto simp: create_def res_simps intro!: new_codec_ok dest: compile_token_bytes_length split: if_splits)

lemma create_compiled_ok: "create_compiled cfg offsets bytes ids = Inr c \<Longrightarrow> codec_ok c"
  by (auto simp: create_compiled_def res_simps intro!: new_codec_ok dest: compiled_pieces_length split: if_splits)

text \<open>The pairs of related ids, and both directions of the map.\<close>

definition related :: "fast_codec \<Rightarrow> int \<Rightarrow> int \<Rightarrow> bool" where
  "related c f v \<longleftrightarrow> 0 \<le> f \<and> nat f < length (fx_fast_to_vlm c) \<and> fx_fast_to_vlm c ! nat f = v"

lemma map_fast_ids_iff: "map_fast_ids c fs = Inr vs \<longleftrightarrow> list_all2 (related c) fs vs"
  by (induction fs arbitrary: vs) (auto simp: res_simps related_def list_all2_Cons1)

lemma find_vlm_related: "codec_ok c \<Longrightarrow> find_vlm (fx_vlm_to_fast c) v = Some f \<longleftrightarrow> related c f v"
  using vlm_index.find_Some [of "fx_fast_to_vlm c" v f] by (simp add: codec_ok_def related_def)

lemma map_vlm_ids_iff: "codec_ok c \<Longrightarrow> map_vlm_ids c vs = Inr fs \<longleftrightarrow> list_all2 (related c) fs vs"
proof (induction vs arbitrary: fs)
  case (Cons v vs)
  then show ?case
    by (auto simp: res_simps list_all2_Cons2 find_vlm_related [symmetric] split: option.splits)
qed auto

lemma extract_ids_filter:
  assumes "codec_ok c"
  shows "map_vlm_ids c (filter (\<lambda>v. v \<in> set (fx_fast_to_vlm c)) vs) = Inr (extract_ids c vs)"
proof (induction vs)
  case (Cons v vs)
  have "find_vlm (fx_vlm_to_fast c) v = None \<longleftrightarrow> v \<notin> set (fx_fast_to_vlm c)"
    using assms vlm_index.find_None by (simp add: codec_ok_def)
  with Cons show ?case by (auto split: option.split)
qed simp

subsection \<open>Pieces of the byte buffer\<close>

lemma compiled_pieces_concat:
  "compiled_pieces offsets bytes = Inr pieces \<Longrightarrow> offsets \<noteq> [] \<Longrightarrow> 0 \<le> hd offsets \<Longrightarrow>
     concat pieces = take (nat (last offsets) - nat (hd offsets)) (drop (nat (hd offsets)) bytes) \<and>
     hd offsets \<le> last offsets \<and> list_all (\<lambda>piece. piece \<noteq> []) pieces"
proof (induction offsets bytes arbitrary: pieces rule: compiled_pieces.induct)
  case (1 b e offsets bytes)
  obtain rest where be: "0 \<le> b" "b < e" "nat e \<le> length bytes"
    and rest: "compiled_pieces (e # offsets) bytes = Inr rest"
    and pieces: "pieces = take (nat e - nat b) (drop (nat b) bytes) # rest"
    using "1.prems" by (auto simp: res_simps split: if_splits)
  have IH: "concat rest = take (nat (last (e # offsets)) - nat e) (drop (nat e) bytes)" "e \<le> last (e # offsets)"
      "list_all (\<lambda>piece. piece \<noteq> []) rest"
    using "1.IH" [OF _ rest] be by auto
  define l where "l = last (e # offsets)"
  have "nat l - nat b = (nat e - nat b) + (nat l - nat e)" "nat e - nat b + nat b = nat e"
    using be IH(2) by (simp_all add: l_def)
  then have "take (nat l - nat b) (drop (nat b) bytes)
      = take (nat e - nat b) (drop (nat b) bytes) @ take (nat l - nat e) (drop (nat e) bytes)"
    by (simp only: take_add drop_drop)
  with IH be pieces show ?case by (auto simp: l_def)
qed auto

subsection \<open>Filling the actions\<close>

lemma foldl_store:
  assumes "inj_on g {..<n}"
  shows "length (foldl (\<lambda>xs t. xs[g t := h t]) xs [0..<n]) = length xs"
    and "t < n \<Longrightarrow> g t < length xs \<Longrightarrow> foldl (\<lambda>xs t. xs[g t := h t]) xs [0..<n] ! g t = h t"
    and "i \<notin> g ` {..<n} \<Longrightarrow> foldl (\<lambda>xs t. xs[g t := h t]) xs [0..<n] ! i = xs ! i"
proof -
  have "length (foldl (\<lambda>xs t. xs[g t := h t]) xs [0..<m]) = length xs" for m
    by (induction m) simp_all
  then show "length (foldl (\<lambda>xs t. xs[g t := h t]) xs [0..<n]) = length xs" .
  note len = \<open>\<And>m. length (foldl _ xs [0..<m]) = length xs\<close>
  show "t < n \<Longrightarrow> g t < length xs \<Longrightarrow> foldl (\<lambda>xs t. xs[g t := h t]) xs [0..<n] ! g t = h t"
    using assms
  proof (induction n)
    case (Suc n)
    then show ?case
      by (cases "t = n") (auto simp: len nth_list_update inj_on_def lessThan_Suc)
  qed simp
  show "i \<notin> g ` {..<n} \<Longrightarrow> foldl (\<lambda>xs t. xs[g t := h t]) xs [0..<n] ! i = xs ! i"
    by (induction n) (auto simp: nth_list_update lessThan_Suc)
qed


text \<open>Index arithmetic of a row-major array.\<close>

lemma row_major_inj: "a < d \<Longrightarrow> b < d \<Longrightarrow> t * d + a = u * d + b \<Longrightarrow> t = u \<and> a = (b :: nat)"
  by (metis div_mult_self1_is_m mod_mult_self3 mod_less div_mult_self3 div_less add.right_neutral
      add_cancel_right_left mult.commute not_less_zero gr0I)

lemma row_major_less: "t < n \<Longrightarrow> a < d \<Longrightarrow> t * d + a < n * (d :: nat)"
  using mult_le_mono1 [of "Suc t" n d] by simp

lemma fill_action_spec:
  assumes "a < fc_action_dim cfg" "base + fc_time_horizon cfg * fc_action_dim cfg \<le> length xs"
  shows "length (fill_action cosine cfg cps base xs a) = length xs"
    and "t < fc_time_horizon cfg \<Longrightarrow>
      fill_action cosine cfg cps base xs a ! (base + t * fc_action_dim cfg + a) = idct_value cosine cfg cps a t"
    and "\<forall>t < fc_time_horizon cfg. i \<noteq> base + t * fc_action_dim cfg + a \<Longrightarrow>
      fill_action cosine cfg cps base xs a ! i = xs ! i"
proof -
  let ?g = "\<lambda>t. base + t * fc_action_dim cfg + a"
  have inj: "inj_on ?g {..<fc_time_horizon cfg}"
    using assms(1) by (auto intro!: inj_onI)
  note store = foldl_store [OF inj, where h = "idct_value cosine cfg cps a" and xs = xs]
  show "length (fill_action cosine cfg cps base xs a) = length xs"
    unfolding fill_action_def by (rule store(1))
  show "t < fc_time_horizon cfg \<Longrightarrow> fill_action cosine cfg cps base xs a ! ?g t = idct_value cosine cfg cps a t"
    unfolding fill_action_def
    using store(2) [of t] row_major_less [OF _ assms(1), of t "fc_time_horizon cfg"] assms(2) by fastforce
  show "\<forall>t < fc_time_horizon cfg. i \<noteq> ?g t \<Longrightarrow> fill_action cosine cfg cps base xs a ! i = xs ! i"
    unfolding fill_action_def by (rule store(3)) auto
qed

lemma fill_actions_spec:
  assumes "base + fc_time_horizon cfg * fc_action_dim cfg \<le> length xs" "m \<le> fc_action_dim cfg"
  shows "length (foldl (fill_action cosine cfg cps base) xs [0..<m]) = length xs \<and>
    (\<forall>a t. a < m \<longrightarrow> t < fc_time_horizon cfg \<longrightarrow>
       foldl (fill_action cosine cfg cps base) xs [0..<m] ! (base + t * fc_action_dim cfg + a) = idct_value cosine cfg cps a t) \<and>
    (\<forall>i. i < base \<or> base + fc_time_horizon cfg * fc_action_dim cfg \<le> i \<longrightarrow>
       foldl (fill_action cosine cfg cps base) xs [0..<m] ! i = xs ! i)"
  using assms(2)
proof (induction m)
  case 0
  then show ?case by simp
next
  case (Suc m)
  let ?ys = "foldl (fill_action cosine cfg cps base) xs [0..<m]"
  let ?zs = "fill_action cosine cfg cps base ?ys m"
  have m: "m < fc_action_dim cfg" using Suc.prems by simp
  have IH: "length ?ys = length xs"
    "\<And>a t. a < m \<Longrightarrow> t < fc_time_horizon cfg \<Longrightarrow> ?ys ! (base + t * fc_action_dim cfg + a) = idct_value cosine cfg cps a t"
    "\<And>i. i < base \<or> base + fc_time_horizon cfg * fc_action_dim cfg \<le> i \<Longrightarrow> ?ys ! i = xs ! i"
    using Suc by auto
  note one = fill_action_spec [OF m, where base = base and xs = ?ys and cosine = cosine and cps = cps, unfolded IH(1), OF assms(1)]
  have "?zs ! (base + t * fc_action_dim cfg + a) = idct_value cosine cfg cps a t"
    if "a < Suc m" "t < fc_time_horizon cfg" for a t
  proof (cases "a = m")
    case False
    then have "a < m" using that by simp
    moreover have "\<forall>u < fc_time_horizon cfg. base + t * fc_action_dim cfg + a \<noteq> base + u * fc_action_dim cfg + m"
      using row_major_inj [of a "fc_action_dim cfg" m t] m \<open>a < m\<close> by auto
    ultimately show ?thesis using one(3) IH(2) that by simp
  qed (use one(2) that in simp)
  moreover have "?zs ! i = xs ! i" if i: "i < base \<or> base + fc_time_horizon cfg * fc_action_dim cfg \<le> i" for i
  proof -
    have "\<forall>u < fc_time_horizon cfg. i \<noteq> base + u * fc_action_dim cfg + m"
      using i row_major_less [OF _ m] by fastforce
    with one(3) IH(3) [OF i] show ?thesis by simp
  qed
  ultimately show ?case using one(1) by simp
qed

lemma fill_sample_spec:
  assumes "base + fc_time_horizon cfg * fc_action_dim cfg \<le> length xs"
  shows "length (fill_sample cosine cfg cps base xs) = length xs"
    and "a < fc_action_dim cfg \<Longrightarrow> t < fc_time_horizon cfg \<Longrightarrow>
      fill_sample cosine cfg cps base xs ! (base + t * fc_action_dim cfg + a) = idct_value cosine cfg cps a t"
    and "i < base \<or> base + fc_time_horizon cfg * fc_action_dim cfg \<le> i \<Longrightarrow> fill_sample cosine cfg cps base xs ! i = xs ! i"
  using fill_actions_spec [OF assms order_refl, where cosine = cosine and cps = cps] by (auto simp: fill_sample_def)

text \<open>The action at a position of the output: the inverse DCT of the sample's coefficients.\<close>

definition sample_value :: "(f64 \<Rightarrow> f64) \<Rightarrow> fast_codec \<Rightarrow> int list \<Rightarrow> nat \<Rightarrow> nat \<Rightarrow> f64 \<Rightarrow> bool" where
  "sample_value cosine c fast_ids t a x \<longleftrightarrow> (\<exists>cps. byte_level_decode c fast_ids = Inr cps \<and>
     length cps = fc_time_horizon (fx_config c) * fc_action_dim (fx_config c) \<and>
     x = idct_value cosine (fx_config c) cps a t)"

lemma decode_batches_spec:
  fixes c :: fast_codec
  defines "n \<equiv> fc_time_horizon (fx_config c) * fc_action_dim (fx_config c)"
  assumes "decode_batches cosine c n k batches xs = Inr ys" and "(k + length batches) * n \<le> length xs"
  shows "length ys = length xs \<and> (\<forall>i < k * n. ys ! i = xs ! i) \<and>
    (\<forall>b t a. b < length batches \<longrightarrow> t < fc_time_horizon (fx_config c) \<longrightarrow> a < fc_action_dim (fx_config c) \<longrightarrow>
       sample_value cosine c (batches ! b) t a (ys ! ((k + b) * n + t * fc_action_dim (fx_config c) + a)))"
  using assms(2,3)
proof (induction batches arbitrary: k xs)
  case Nil
  then show ?case by simp
next
  case (Cons fast_ids rest)
  let ?cfg = "fx_config c"
  obtain cps where cps: "byte_level_decode c fast_ids = Inr cps" "length cps = n"
    and rest: "decode_batches cosine c n (Suc k) rest (fill_sample cosine ?cfg cps (k * n) xs) = Inr ys"
    using Cons.prems(1) by (auto split: sum.splits if_splits)
  let ?zs = "fill_sample cosine ?cfg cps (k * n) xs"
  have room: "k * n + fc_time_horizon ?cfg * fc_action_dim ?cfg \<le> length xs"
    using Cons.prems(2) by (simp add: n_def algebra_simps)
  note fill = fill_sample_spec [OF room, where cosine = cosine and cps = cps]
  have IH: "length ys = length ?zs" "\<And>i. i < Suc k * n \<Longrightarrow> ys ! i = ?zs ! i"
    "\<And>b t a. b < length rest \<Longrightarrow> t < fc_time_horizon ?cfg \<Longrightarrow> a < fc_action_dim ?cfg \<Longrightarrow>
       sample_value cosine c (rest ! b) t a (ys ! ((Suc k + b) * n + t * fc_action_dim ?cfg + a))"
    using Cons.IH [OF rest] Cons.prems(2) fill(1) by auto
  have first: "sample_value cosine c fast_ids t a (ys ! (k * n + t * fc_action_dim ?cfg + a))"
    if "t < fc_time_horizon ?cfg" "a < fc_action_dim ?cfg" for t a
  proof -
    have "t * fc_action_dim ?cfg + a < n"
      unfolding n_def using that by (rule row_major_less)
    then have "ys ! (k * n + t * fc_action_dim ?cfg + a) = idct_value cosine ?cfg cps a t"
      using IH(2) fill(2) that by simp
    with cps show ?thesis by (auto simp: sample_value_def n_def)
  qed
  have "sample_value cosine c ((fast_ids # rest) ! b) t a (ys ! ((k + b) * n + t * fc_action_dim ?cfg + a))"
    if "b < length (fast_ids # rest)" "t < fc_time_horizon ?cfg" "a < fc_action_dim ?cfg" for b t a
    using that first IH(3) [of "b - 1" t a] by (cases b) auto
  moreover have "ys ! i = xs ! i" if "i < k * n" for i
    using that IH(2) [of i] fill(3) [of i] by simp
  ultimately show ?case using IH(1) fill(1) by simp
qed

subsection \<open>The alphabet\<close>

lemma map_enumerate_parts:
  "map (\<lambda>(i, x). f i) (List.enumerate k xs) = map f [k..<k + length xs]"
  "map (\<lambda>(i, x). g x) (List.enumerate k xs) = map g xs"
  by (induction xs arbitrary: k) (simp_all add: upt_conv_Cons del: upt_Suc)

lemma alphabet_parts:
  "map fst byte_level_inverse_alphabet = map of_nat (direct_bytes @ map ((+) 256) [0..<length extra_bytes])"
  "map snd byte_level_inverse_alphabet = map of_nat (direct_bytes @ extra_bytes)"
proof -
  have "map fst (map (\<lambda>(extra, v). (256 + of_nat extra, of_nat v)) (List.enumerate 0 extra_bytes))
      = map (\<lambda>n. 256 + of_nat n) [0..<length extra_bytes]"
    using map_enumerate_parts(1) [of "\<lambda>n. 256 + of_nat n" 0 extra_bytes] by (simp add: o_def split_def)
  then show "map fst byte_level_inverse_alphabet = map of_nat (direct_bytes @ map ((+) 256) [0..<length extra_bytes])"
    by (simp add: byte_level_inverse_alphabet_def o_def)
  have "map snd (map (\<lambda>(extra, v). (256 + of_nat extra, of_nat v)) (List.enumerate 0 extra_bytes)) = map of_nat extra_bytes"
    using map_enumerate_parts(2) [of of_nat 0 extra_bytes] by (simp add: o_def split_def)
  then show "map snd byte_level_inverse_alphabet = map of_nat (direct_bytes @ extra_bytes)"
    by (simp add: byte_level_inverse_alphabet_def o_def)
qed

lemma direct_bytes_facts: "distinct direct_bytes" "set direct_bytes \<subseteq> {..<256}"
  by (auto simp: direct_bytes_def)

lemma all_bytes_listed: "distinct (direct_bytes @ extra_bytes)" "set (direct_bytes @ extra_bytes) = {..<256}"
  using direct_bytes_facts by (auto simp: extra_bytes_def)

lemma alphabet_keys: "distinct (map fst byte_level_inverse_alphabet)"
proof -
  let ?ks = "direct_bytes @ map ((+) 256) [0..<length extra_bytes]"
  have "length extra_bytes \<le> 256"
    using length_filter_le [of "\<lambda>v. v \<notin> set direct_bytes" "[0..<0x100]"] by (simp add: extra_bytes_def)
  then have "set ?ks \<subseteq> {..<2 ^ 32}"
    using direct_bytes_facts(2) by auto
  then have "inj_on (of_nat :: nat \<Rightarrow> u32) (set ?ks)"
    by (intro inj_onI) (auto simp: unat_of_nat subset_iff dest!: arg_cong [of _ _ unat])
  moreover have "distinct ?ks"
    using direct_bytes_facts by (auto simp: distinct_map intro: inj_onI)
  ultimately show ?thesis
    unfolding alphabet_parts by (simp only: distinct_map)
qed

lemma alphabet_values: "distinct (map snd byte_level_inverse_alphabet)"
proof -
  have "inj_on (of_nat :: nat \<Rightarrow> u8) (set (direct_bytes @ extra_bytes))"
    unfolding all_bytes_listed(2) by (auto intro!: inj_onI dest!: arg_cong [of _ _ unat] simp: unat_of_nat)
  then show ?thesis
    unfolding alphabet_parts using all_bytes_listed(1) by (simp only: distinct_map)
qed

lemma alphabet_covers: "b \<in> set (map snd byte_level_inverse_alphabet)"
proof -
  have "of_nat (unat b) = b" "unat b \<in> set (direct_bytes @ extra_bytes)"
    unfolding all_bytes_listed(2) using u8_bound [of b] by simp_all
  then show ?thesis
    unfolding alphabet_parts set_map by (metis imageI)
qed

lemma decode_fast_tokens_spec:
  assumes "decode_fast_tokens cosine c batches = Inr r"
  shows "fr_batch_size r = length batches \<and> fr_time_horizon r = fc_time_horizon (fx_config c) \<and>
    fr_action_dim r = fc_action_dim (fx_config c) \<and> length (fr_actions r) = length batches * (fr_time_horizon r * fr_action_dim r) \<and>
    (\<forall>b t a. b < length batches \<longrightarrow> t < fr_time_horizon r \<longrightarrow> a < fr_action_dim r \<longrightarrow>
       sample_value cosine c (batches ! b) t a
         (fr_actions r ! (b * (fr_time_horizon r * fr_action_dim r) + t * fr_action_dim r + a)))"
proof -
  obtain per tot where counts: "checked_action_count (fx_config c) (length batches) = Inr (per, tot)"
    and run: "decode_batches cosine c per 0 batches (replicate tot f64_zero) = Inr (fr_actions r)"
    and r: "fr_batch_size r = length batches" "fr_time_horizon r = fc_time_horizon (fx_config c)"
      "fr_action_dim r = fc_action_dim (fx_config c)"
    using assms by (auto simp: decode_fast_tokens_def res_simps split: if_splits)
  note n = checked_action_count_Inr [OF counts]
  then have per: "per = fc_time_horizon (fx_config c) * fc_action_dim (fx_config c)" "tot = length batches * per"
    by simp_all
  from decode_batches_spec [OF run [unfolded per(1)]] per r show ?thesis by simp
qed

subsection \<open>Properties\<close>

text \<open>The ByteLevel alphabet is a bijection: every byte is written by exactly one code point.\<close>

theorem alphabet_bijective: "\<exists>!cp. map_of byte_level_inverse_alphabet cp = Some b"
proof -
  obtain cp where cp: "(cp, b) \<in> set byte_level_inverse_alphabet"
    using alphabet_covers [of b] by auto
  then have "map_of byte_level_inverse_alphabet cp = Some b"
    using alphabet_keys by simp
  moreover have "cq = cp" if "map_of byte_level_inverse_alphabet cq = Some b" for cq
    using map_of_SomeD [OF that] cp alphabet_values
    by (metis distinct_map inj_on_contraD prod.inject snd_conv)
  ultimately show ?thesis by blast
qed

text \<open>C30. The codec's two token maps are inverse to each other: FAST ids map to language-model ids
  exactly when these map back to them, and each map fails on everything else.\<close>

theorem token_maps_inverse:
  assumes "create_compiled cfg offsets bytes ids = Inr c"
  shows "map_fast_to_vlm c fast_ids = Inr vlm_ids \<longleftrightarrow> map_vlm_to_fast c vlm_ids = Inr fast_ids"
  using map_fast_ids_iff [of c fast_ids vlm_ids] map_vlm_ids_iff [OF create_compiled_ok [OF assms], of vlm_ids fast_ids]
  by (auto simp: map_fast_to_vlm_def map_vlm_to_fast_def dest: list_all2_lengthD)

definition sample_config :: fast_config where
  "sample_config = \<lparr>fc_scale = f64_one, fc_min_token = 0, fc_vocab_size = 2, fc_time_horizon = 1, fc_action_dim = 1\<rparr>"

definition sample_codec :: fast_codec where
  "sample_codec = new_fast_codec sample_config [[0x41], [0x42, 0x43]] [151, 150]"

lemma sample_codec_created:
  "create_compiled sample_config [0, 1, 3] [0x41, 0x42, 0x43] [151, 150] = Inr sample_codec"
  by (simp add: create_compiled_def sample_config_def bad_dimensions_def checked_action_count_def fast_limits
      size_max_def int32_max_def sample_codec_def f64_finite_def f64_eq_def f64_key_def f64_nan_def f64_one_def
      f64_zero_def fmt_simps)

theorem token_maps_inverse_witness:
  "map_vlm_to_fast sample_codec [150, 151] = Inr [1, 0]"
  unfolding token_maps_inverse [OF sample_codec_created, symmetric]
  by (simp add: map_fast_to_vlm_def kMaximumTokenSequence_def sample_codec_def new_fast_codec_def)

text \<open>Extracting the action tokens of a generated sequence is mapping back its action tokens in
  order: every other token, wherever it stands, is skipped and never ends the scan.\<close>

theorem extraction_skips_text:
  assumes "create_compiled cfg offsets bytes ids = Inr c" and "length generated \<le> kMaximumGeneratedSequence"
  shows "extract_fast_tokens c generated =
    map_vlm_to_fast c (filter (\<lambda>v. v \<in> set (fx_fast_to_vlm c)) generated)"
proof -
  have "length (filter (\<lambda>v. v \<in> set (fx_fast_to_vlm c)) generated) \<le> length generated" by simp
  then have "length (filter (\<lambda>v. v \<in> set (fx_fast_to_vlm c)) generated) \<le> kMaximumTokenSequence"
    using assms(2) by (simp only: fast_limits)
  then show ?thesis
    using assms(2) extract_ids_filter [OF create_compiled_ok [OF assms(1)], of generated]
    by (simp add: extract_fast_tokens_def map_vlm_to_fast_def)
qed

theorem extraction_skips_text_witness:
  "extract_fast_tokens sample_codec [7, 150, 8, 151, 9] = Inr [1, 0]"
  by (subst extraction_skips_text [OF sample_codec_created])
    (simp_all add: fast_limits map_vlm_to_fast_def sample_codec_def new_fast_codec_def vlm_to_fast_pairs_def
      find_vlm_def lower_bound_def less_eq_prod_def)

text \<open>A compiled codec's pieces are the byte buffer cut at the offsets: they are not empty, there
  is one per token, and put together they are the whole buffer.\<close>

theorem compiled_pieces_partition:
  assumes "create_compiled cfg offsets bytes ids = Inr c"
  shows "concat (fx_token_bytes c) = bytes \<and> [] \<notin> set (fx_token_bytes c) \<and>
    length (fx_token_bytes c) = fc_vocab_size cfg"
proof -
  obtain pieces where pieces: "compiled_pieces offsets bytes = Inr pieces" and c: "c = new_fast_codec cfg pieces ids"
    and off: "offsets \<noteq> []" "hd offsets = 0" "nat (last offsets) = length bytes" "length offsets = fc_vocab_size cfg + 1"
    using assms by (auto simp: create_compiled_def res_simps split: if_splits)
  show ?thesis
    using compiled_pieces_concat [OF pieces off(1)] compiled_pieces_length [OF pieces] off
    by (auto simp: c new_fast_codec_def list_all_iff)
qed

theorem compiled_pieces_partition_witness: "concat (fx_token_bytes sample_codec) = [0x41, 0x42, 0x43]"
  using compiled_pieces_partition [OF sample_codec_created] by simp

text \<open>C15. What decoding returns has one value for each sample, time step and action dimension, in
  row-major order; each is the inverse DCT of its own sample's coefficients at its time and
  dimension; no value is left at its initial zero, written twice or written out of bounds.\<close>

theorem decoded_actions_complete:
  assumes "decode_fast_tokens cosine c batches = Inr r"
  shows "fr_batch_size r = length batches \<and> length (fr_actions r) = length batches * (fr_time_horizon r * fr_action_dim r) \<and>
    (\<forall>b t a. b < length batches \<longrightarrow> t < fr_time_horizon r \<longrightarrow> a < fr_action_dim r \<longrightarrow>
       sample_value cosine c (batches ! b) t a
         (fr_actions r ! (b * (fr_time_horizon r * fr_action_dim r) + t * fr_action_dim r + a)))"
  using decode_fast_tokens_spec [OF assms] by (elim conjE) (intro conjI)

theorem decoded_actions_complete_witness:
  "\<exists>r. decode_fast_tokens (\<lambda>x. x) sample_codec [[0]] = Inr r \<and> length (fr_actions r) = 1"
proof -
  have "\<exists>r. decode_fast_tokens (\<lambda>x. x) sample_codec [[0]] = Inr r \<and> fr_time_horizon r = 1 \<and> fr_action_dim r = 1"
    by (simp add: decode_fast_tokens_def fast_limits checked_action_count_def sample_codec_def new_fast_codec_def
        sample_config_def size_max_def byte_level_decode_def decode_utf8_lossy.simps)
  then obtain r where "decode_fast_tokens (\<lambda>x. x) sample_codec [[0]] = Inr r" "fr_time_horizon r = 1" "fr_action_dim r = 1"
    by blast
  with decoded_actions_complete [OF this(1)] show ?thesis by auto
qed

end
