(* ===== verification/Normalization.thy ===== *)
theory Normalization
  imports Prelude Ieee
begin

text \<open>
  The action normalisation of \<^verbatim>\<open>src/models/starvla/normalization.h\<close> and \<^verbatim>\<open>normalization.cpp\<close>: validation of
  a policy's normalisation metadata, the choice of a profile, and the map from the model's
  normalised actions to robot actions, in single precision.
\<close>

subsection \<open>Configuration\<close>

record norm_profile =
  np_key :: string
  np_q01 :: "f32 list"
  np_q99 :: "f32 list"
  np_mask :: "u8 list"

record norm_config =
  nc_default_key :: string
  nc_clip :: bool
  nc_threshold :: f32
  nc_comparison :: string
  nc_continuous :: "int list"
  nc_binary :: "int list"
  nc_profiles :: "norm_profile list"

text \<open>Keys separated by commas.\<close>

fun profile_keys :: "norm_profile list \<Rightarrow> string" where
  "profile_keys [] = []"
| "profile_keys [p] = np_key p"
| "profile_keys (p # q # ps) = np_key p @ '', '' @ profile_keys (q # ps)"

text \<open>Marking the kind of each column: 0 unset, 1 continuous, 2 binary.\<close>

fun mark_dimensions :: "string \<Rightarrow> nat \<Rightarrow> int \<Rightarrow> int list \<Rightarrow> nat list \<Rightarrow> nat list res" where
  "mark_dimensions msg kind action_dim [] kinds = Inr kinds"
| "mark_dimensions msg kind action_dim (d # ds) kinds =
     (if d < 0 \<or> d \<ge> action_dim \<or> kinds ! nat d \<noteq> 0 then Inl msg
      else mark_dimensions msg kind action_dim ds (kinds[nat d := kind]))"

fun check_profile_dims :: "nat list \<Rightarrow> norm_profile \<Rightarrow> nat list \<Rightarrow> unit res" where
  "check_profile_dims kinds p [] = Inr ()"
| "check_profile_dims kinds p (i # is) =
     (if \<not> f32_finite (np_q01 p ! i) \<or> \<not> f32_finite (np_q99 p ! i)
        then Inl (''StarVLA normalization quantiles must be finite: '' @ np_key p)
      else if kinds ! i = 1 \<and> f32_lt (np_q99 p ! i) (np_q01 p ! i)
        then Inl (''StarVLA normalization q99 must not be below q01: '' @ np_key p)
      else if kinds ! i = 1 \<and> np_mask p ! i = 0
        then Inl (''StarVLA continuous action dimension is disabled by the normalization mask: '' @ np_key p)
      else if kinds ! i = 2 \<and> np_mask p ! i \<noteq> 0
        then Inl (''StarVLA binary action dimension must not use q01/q99 scaling: '' @ np_key p)
      else check_profile_dims kinds p is)"

text \<open>The result is the list of keys seen.\<close>

fun check_profiles :: "nat list \<Rightarrow> nat \<Rightarrow> string list \<Rightarrow> norm_profile list \<Rightarrow> string list res" where
  "check_profiles kinds dim seen [] = Inr seen"
| "check_profiles kinds dim seen (p # ps) =
     (if np_key p = [] \<or> np_key p \<in> set seen
        then Inl ''StarVLA normalization profile keys must be non-empty and unique''
      else if length (np_q01 p) \<noteq> dim \<or> length (np_q99 p) \<noteq> dim \<or> length (np_mask p) \<noteq> dim
        then Inl (''StarVLA normalization profile shape does not match action dimension: '' @ np_key p)
      else bind_res (check_profile_dims kinds p [0..<dim]) (\<lambda>_. check_profiles kinds dim (seen @ [np_key p]) ps))"

definition validate_normalization_config :: "norm_config \<Rightarrow> int \<Rightarrow> unit res" where
  "validate_normalization_config cfg action_dim =
     (if action_dim \<le> 0 then Inl ''StarVLA normalization requires a positive action dimension''
      else if \<not> f32_finite (nc_threshold cfg) \<or> \<not> f32_eq (nc_threshold cfg) f32_half
        then Inl ''StarVLA normalization binary threshold must use the canonical value 0.5''
      else if nc_comparison cfg \<noteq> ''gt'' \<and> nc_comparison cfg \<noteq> ''ge''
        then Inl (''StarVLA normalization binary comparison must be '' @ [CHR 0x27] @ ''gt'' @ [CHR 0x27] @ '' or ''
                    @ [CHR 0x27] @ ''ge'' @ [CHR 0x27])
      else if nc_profiles cfg = [] then Inl ''StarVLA policy has no normalization profiles''
      else if nc_default_key cfg = [] then Inl ''StarVLA policy has no default normalization profile''
      else
        bind_res (mark_dimensions ''StarVLA continuous action dimensions are invalid or duplicated'' 1 action_dim
                    (nc_continuous cfg) (replicate (nat action_dim) 0)) (\<lambda>kinds.
        bind_res (mark_dimensions ''StarVLA binary action dimensions are invalid or duplicated'' 2 action_dim
                    (nc_binary cfg) kinds) (\<lambda>kinds.
          if 0 \<in> set kinds
            then Inl ''StarVLA continuous and binary action dimensions must cover every action column''
          else bind_res (check_profiles kinds (nat action_dim) [] (nc_profiles cfg)) (\<lambda>seen.
            if nc_default_key cfg \<notin> set seen
              then Inl (''StarVLA default normalization profile is not present: '' @ nc_default_key cfg)
            else Inr ()))))"

text \<open>The recursive call of the source for an empty key runs once: the default key is not empty
  in a valid configuration, and an empty default key would recur for ever.\<close>

definition find_profile :: "norm_config \<Rightarrow> string \<Rightarrow> norm_profile res" where
  "find_profile cfg key =
     (case List.find (\<lambda>p. np_key p = key) (nc_profiles cfg) of
        Some p \<Rightarrow> Inr p
      | None \<Rightarrow> Inl (''unknown StarVLA normalization profile '' @ [CHR 0x27] @ key @ [CHR 0x27]
                  @ ''; expected one of: '' @ profile_keys (nc_profiles cfg)))"

partial_function (option) resolve_normalization_profile :: "norm_config \<Rightarrow> string \<Rightarrow> norm_profile res option" where
  "resolve_normalization_profile cfg key =
     (if key = [] then resolve_normalization_profile cfg (nc_default_key cfg) else Some (find_profile cfg key))"

subsection \<open>Denormalisation\<close>

definition f32_clamp :: "f32 \<Rightarrow> f32 \<Rightarrow> f32 \<Rightarrow> f32" where
  "f32_clamp v lo hi = (if f32_lt v lo then lo else if f32_lt hi v then hi else v)"

definition denormalize_value :: "norm_config \<Rightarrow> norm_profile \<Rightarrow> nat \<Rightarrow> f32 \<Rightarrow> f32" where
  "denormalize_value cfg p d v =
     (if int d \<in> set (nc_binary cfg)
        then (if (if nc_comparison cfg = ''ge'' then f32_le (nc_threshold cfg) v else f32_lt (nc_threshold cfg) v)
              then f32_one else f32_zero)
      else f32_add (f32_mul (f32_mul (f32_add v f32_one) f32_half) (f32_sub (np_q99 p ! d) (np_q01 p ! d))) (np_q01 p ! d))"

definition denormalize_one :: "norm_config \<Rightarrow> norm_profile \<Rightarrow> f32 list \<Rightarrow> nat \<Rightarrow> nat \<times> nat \<Rightarrow> f32 res" where
  "denormalize_one cfg p normalized action_dim pos =
     (case pos of (step, d) \<Rightarrow>
        if \<not> f32_finite (normalized ! (step * action_dim + d)) then Inl ''StarVLA normalized actions must be finite''
        else Inr (denormalize_value cfg p d
               (if nc_clip cfg then f32_clamp (normalized ! (step * action_dim + d)) f32_minus_one f32_one
                else normalized ! (step * action_dim + d))))"

text \<open>\<open>None\<close>: resolving the profile does not return.\<close>

definition denormalize_actions :: "norm_config \<Rightarrow> string \<Rightarrow> f32 list \<Rightarrow> int \<Rightarrow> int \<Rightarrow> f32 list res option" where
  "denormalize_actions cfg key normalized horizon action_dim =
     (case validate_normalization_config cfg action_dim of
        Inl e \<Rightarrow> Some (Inl e)
      | Inr _ \<Rightarrow>
          if horizon \<le> 0 \<or> length normalized \<noteq> nat horizon * nat action_dim
            then Some (Inl ''StarVLA normalized action tensor has an incompatible shape'')
          else map_option (\<lambda>r. bind_res r (\<lambda>p.
                 each_res (denormalize_one cfg p normalized (nat action_dim))
                   (List.product [0..<nat horizon] [0..<nat action_dim])))
               (resolve_normalization_profile cfg key))"

subsection \<open>Valid configurations\<close>

lemma mark_dimensions_Inr:
  assumes "mark_dimensions msg kind dim ds kinds = Inr kinds'" "length kinds = nat dim" "kind \<noteq> 0"
  shows "length kinds' = nat dim \<and> distinct ds \<and> (\<forall>d \<in> set ds. 0 \<le> d \<and> d < dim \<and> kinds ! nat d = 0) \<and>
    (\<forall>i < nat dim. kinds' ! i = (if int i \<in> set ds then kind else kinds ! i))"
  using assms
proof (induction ds arbitrary: kinds)
  case Nil
  then show ?case by simp
next
  case (Cons d ds)
  have d: "0 \<le> d" "d < dim" "kinds ! nat d = 0" and rest: "mark_dimensions msg kind dim ds (kinds[nat d := kind]) = Inr kinds'"
    using Cons.prems(1) by (auto split: if_splits)
  have IH: "length kinds' = nat dim" "distinct ds" "\<And>e. e \<in> set ds \<Longrightarrow> 0 \<le> e \<and> e < dim \<and> kinds[nat d := kind] ! nat e = 0"
    "\<And>i. i < nat dim \<Longrightarrow> kinds' ! i = (if int i \<in> set ds then kind else kinds[nat d := kind] ! i)"
    using Cons.IH [OF rest] Cons.prems(2,3) by auto
  have at: "kinds[nat d := kind] ! i = (if i = nat d then kind else kinds ! i)" if "i < nat dim" for i
    using that d Cons.prems(2) by (simp add: nth_list_update)
  have other: "nat e \<noteq> nat d \<and> kinds ! nat e = 0" if "e \<in> set ds" for e
    using IH(3) [OF that] at [of "nat e"] Cons.prems(3) by (auto split: if_splits)
  then have "d \<notin> set ds" by blast
  moreover have "int i = d \<longleftrightarrow> i = nat d" if "i < nat dim" for i
    using d by auto
  ultimately show ?case
    using IH d at other by auto
qed

lemma check_profiles_keys: "check_profiles kinds dim seen ps = Inr seen' \<Longrightarrow> seen' = seen @ map np_key ps"
  by (induction ps arbitrary: seen) (fastforce simp: res_simps split: if_splits)+

lemma check_profiles_shape:
  "check_profiles kinds dim seen ps = Inr seen' \<Longrightarrow> p \<in> set ps \<Longrightarrow>
     np_key p \<noteq> [] \<and> length (np_q01 p) = dim \<and> length (np_q99 p) = dim"
  by (induction ps arbitrary: seen) (auto simp: res_simps split: if_splits)

lemma validate_Inr:
  assumes "validate_normalization_config cfg dim = Inr ()"
  shows "0 < dim" "distinct (nc_continuous cfg)" "distinct (nc_binary cfg)"
    "set (nc_continuous cfg) \<inter> set (nc_binary cfg) = {}"
    "set (nc_continuous cfg) \<union> set (nc_binary cfg) = {0..<dim}"
    "\<exists>p \<in> set (nc_profiles cfg). np_key p = nc_default_key cfg" "nc_default_key cfg \<noteq> []"
    "\<And>p. p \<in> set (nc_profiles cfg) \<Longrightarrow> length (np_q01 p) = nat dim \<and> length (np_q99 p) = nat dim"
proof -
  obtain k1 k2 seen where dim: "0 < dim" and key: "nc_default_key cfg \<noteq> []"
    and m1: "mark_dimensions ''StarVLA continuous action dimensions are invalid or duplicated'' 1 dim
        (nc_continuous cfg) (replicate (nat dim) 0) = Inr k1"
    and m2: "mark_dimensions ''StarVLA binary action dimensions are invalid or duplicated'' 2 dim (nc_binary cfg) k1 = Inr k2"
    and full: "0 \<notin> set k2" and profiles: "check_profiles k2 (nat dim) [] (nc_profiles cfg) = Inr seen"
    and default: "nc_default_key cfg \<in> set seen"
    using assms by (auto simp: validate_normalization_config_def res_simps split: if_splits)
  note c = mark_dimensions_Inr [OF m1, simplified]
  note b = mark_dimensions_Inr [OF m2 conjunct1 [OF c], simplified]
  show "0 < dim" "nc_default_key cfg \<noteq> []" by fact+
  show "distinct (nc_continuous cfg)" "distinct (nc_binary cfg)" using c b by simp_all
  show "set (nc_continuous cfg) \<inter> set (nc_binary cfg) = {}"
  proof (rule ccontr)
    assume "\<not> ?thesis"
    then obtain d where d: "d \<in> set (nc_continuous cfg)" "d \<in> set (nc_binary cfg)" by blast
    with b have "0 \<le> d" "d < dim" "k1 ! nat d = 0" by auto
    moreover have "k1 ! nat d = 1"
      using c d(1) \<open>0 \<le> d\<close> \<open>d < dim\<close> by auto
    ultimately show False by simp
  qed
  show "set (nc_continuous cfg) \<union> set (nc_binary cfg) = {0..<dim}"
  proof
    show "set (nc_continuous cfg) \<union> set (nc_binary cfg) \<subseteq> {0..<dim}"
      using c b by auto
    show "{0..<dim} \<subseteq> set (nc_continuous cfg) \<union> set (nc_binary cfg)"
    proof
      fix d assume d: "d \<in> {0..<dim}"
      then have "k2 ! nat d \<in> set k2" by (intro nth_mem) (use b in simp)
      with full have "k2 ! nat d \<noteq> 0" by metis
      with d b c show "d \<in> set (nc_continuous cfg) \<union> set (nc_binary cfg)" by (auto split: if_splits)
    qed
  qed
  show "\<exists>p \<in> set (nc_profiles cfg). np_key p = nc_default_key cfg"
    using check_profiles_keys [OF profiles] default by auto
  show "\<And>p. p \<in> set (nc_profiles cfg) \<Longrightarrow> length (np_q01 p) = nat dim \<and> length (np_q99 p) = nat dim"
    using check_profiles_shape [OF profiles] by simp
qed

lemma resolve_key: "key \<noteq> [] \<Longrightarrow> resolve_normalization_profile cfg key = Some (find_profile cfg key)"
  by (subst resolve_normalization_profile.simps) simp

lemma resolve_default:
  "nc_default_key cfg \<noteq> [] \<Longrightarrow> resolve_normalization_profile cfg [] = Some (find_profile cfg (nc_default_key cfg))"
  by (subst resolve_normalization_profile.simps) (simp add: resolve_key)

lemma find_profile_known:
  "\<exists>p \<in> set (nc_profiles cfg). np_key p = key \<Longrightarrow> \<exists>p \<in> set (nc_profiles cfg). find_profile cfg key = Inr p \<and> np_key p = key"
  by (auto simp: find_profile_def find_None_iff dest: find_Some_iff [THEN iffD1] split: option.splits)


subsection \<open>Properties\<close>

text \<open>C32. In a valid configuration every action column is either continuous or binary and none is
  both, no dimension is listed twice, and the empty profile key resolves to a profile of the
  right shape: the recursive call of the source returns.\<close>

theorem valid_config_partitions_columns:
  assumes "validate_normalization_config cfg dim = Inr ()"
  shows "distinct (nc_continuous cfg @ nc_binary cfg) \<and> set (nc_continuous cfg @ nc_binary cfg) = {0..<dim} \<and>
    (\<exists>p. resolve_normalization_profile cfg [] = Some (Inr p) \<and> np_key p = nc_default_key cfg \<and>
       length (np_q01 p) = nat dim \<and> length (np_q99 p) = nat dim)"
proof -
  note v = validate_Inr [OF assms]
  obtain p where p: "p \<in> set (nc_profiles cfg)" "find_profile cfg (nc_default_key cfg) = Inr p" "np_key p = nc_default_key cfg"
    using find_profile_known [OF v(6)] by blast
  have "\<exists>p. resolve_normalization_profile cfg [] = Some (Inr p) \<and> np_key p = nc_default_key cfg \<and>
       length (np_q01 p) = nat dim \<and> length (np_q99 p) = nat dim"
    using p v(8) resolve_default [OF v(7)] by auto
  with v(2-5) show ?thesis by simp
qed

definition sample_norm :: norm_config where
  "sample_norm = \<lparr>nc_default_key = ''k'', nc_clip = True, nc_threshold = f32_half, nc_comparison = ''gt'',
     nc_continuous = [0], nc_binary = [1],
     nc_profiles = [\<lparr>np_key = ''k'', np_q01 = [f32_zero, f32_zero], np_q99 = [f32_one, f32_one], np_mask = [1, 0]\<rparr>]\<rparr>"

lemma sample_norm_valid: "validate_normalization_config sample_norm 2 = Inr ()"
  by (simp add: validate_normalization_config_def sample_norm_def f32_finite_def f32_eq_def f32_lt_def f32_nan_def
      f32_key_def f32_half_def f32_one_def f32_zero_def fmt_simps two_items)

theorem valid_config_partitions_columns_witness:
  "\<exists>p. resolve_normalization_profile sample_norm [] = Some (Inr p) \<and> np_key p = ''k''"
  using valid_config_partitions_columns [OF sample_norm_valid] by (auto simp: sample_norm_def)

text \<open>What the entry \<open>x\<close> of column \<open>d\<close> becomes.\<close>

definition denormalized_entry :: "norm_config \<Rightarrow> norm_profile \<Rightarrow> nat \<Rightarrow> f32 \<Rightarrow> f32" where
  "denormalized_entry cfg p d x =
     (let v = (if nc_clip cfg then f32_clamp x f32_minus_one f32_one else x) in
      if int d \<in> set (nc_binary cfg)
      then (if (if nc_comparison cfg = ''ge'' then f32_le (nc_threshold cfg) v else f32_lt (nc_threshold cfg) v)
            then f32_one else f32_zero)
      else f32_add (f32_mul (f32_mul (f32_add v f32_one) f32_half) (f32_sub (np_q99 p ! d) (np_q01 p ! d))) (np_q01 p ! d))"

lemma denormalize_entries:
  assumes "validate_normalization_config cfg dim = Inr ()" "0 < horizon" "length xs = nat horizon * nat dim"
    and "list_all f32_finite xs" "resolve_normalization_profile cfg key = Some (Inr p)"
  shows "\<exists>ys. denormalize_actions cfg key xs horizon dim = Some (Inr ys) \<and> length ys = length xs \<and>
    (\<forall>t d. t < nat horizon \<longrightarrow> d < nat dim \<longrightarrow>
       ys ! (t * nat dim + d) = denormalized_entry cfg p d (xs ! (t * nat dim + d)))"
proof -
  let ?D = "nat dim" and ?H = "nat horizon"
  define v where "v i = (if nc_clip cfg then f32_clamp (xs ! i) f32_minus_one f32_one else xs ! i)" for i
  define f where "f = (\<lambda>(t, d). denormalize_value cfg p d (v (t * ?D + d)))"
  let ?ps = "List.product [0..<?H] [0..<?D]"
  have one: "denormalize_one cfg p xs ?D pos = Inr (f pos)" if in_ps: "pos \<in> set ?ps" for pos
  proof -
    obtain t d where td: "pos = (t, d)" by force
    with in_ps have pos: "pos = (t, d)" "t < ?H" "d < ?D" by simp_all
    then have "t * ?D + d < length xs"
      using mult_le_mono1 [of "Suc t" ?H ?D] assms(3) by simp
    with assms(4) have "f32_finite (xs ! (t * ?D + d))" by (simp add: list_all_length)
    then show ?thesis by (simp add: denormalize_one_def pos f_def v_def)
  qed
  have "each_res (denormalize_one cfg p xs ?D) ?ps = Inr (map f ?ps)"
    using one by (rule each_res_map)
  then have run: "denormalize_actions cfg key xs horizon dim = Some (Inr (map f ?ps))"
    using assms by (simp add: denormalize_actions_def)
  have at: "map f ?ps ! (t * ?D + d) = f (t, d)" if "t < ?H" "d < ?D" for t d
  proof -
    have "t * ?D + d < ?H * ?D"
      using mult_le_mono1 [of "Suc t" ?H ?D] that by simp
    then show ?thesis using that by (simp add: product_nth)
  qed
  show ?thesis
    by (intro exI [of _ "map f ?ps"] conjI run)
      (use assms(3) at in \<open>auto simp: f_def denormalize_value_def v_def Let_def denormalized_entry_def simp del: map_map\<close>)
qed

text \<open>C33. With a valid configuration, finite actions of the right shape and a known profile,
  denormalisation succeeds, keeps the shape, and computes each action from its own entry: a
  binary column becomes exactly 0 or 1 by the threshold, a continuous one is scaled between
  the profile's quantiles of its own column.\<close>

theorem denormalize_pointwise:
  assumes "validate_normalization_config cfg dim = Inr ()" "0 < horizon" "length xs = nat horizon * nat dim"
    and "list_all f32_finite xs" "key \<noteq> []" "find_profile cfg key = Inr p"
  shows "\<exists>ys. denormalize_actions cfg key xs horizon dim = Some (Inr ys) \<and> length ys = length xs \<and>
    (\<forall>t d. t < nat horizon \<longrightarrow> d < nat dim \<longrightarrow>
       (let x = xs ! (t * nat dim + d); v = (if nc_clip cfg then f32_clamp x f32_minus_one f32_one else x)
        in ys ! (t * nat dim + d) =
          (if int d \<in> set (nc_binary cfg)
           then (if (if nc_comparison cfg = ''ge'' then f32_le (nc_threshold cfg) v else f32_lt (nc_threshold cfg) v)
                 then f32_one else f32_zero)
           else f32_add (f32_mul (f32_mul (f32_add v f32_one) f32_half)
                  (f32_sub (np_q99 p ! d) (np_q01 p ! d))) (np_q01 p ! d))))"
  using denormalize_entries [OF assms(1-4), of key p] assms(6) resolve_key [OF assms(5)] by (auto simp: denormalized_entry_def Let_def)

theorem denormalize_pointwise_witness:
  "\<exists>ys. denormalize_actions sample_norm ''k'' [f32_one, f32_one] 1 2 = Some (Inr ys) \<and> ys ! 1 = f32_one"
proof -
  have "find_profile sample_norm ''k'' = Inr (hd (nc_profiles sample_norm))"
    by (simp add: find_profile_def sample_norm_def)
  moreover have "list_all f32_finite [f32_one, f32_one]" "length [f32_one, f32_one] = nat 1 * nat 2"
    by (simp_all add: f32_finite_def f32_one_def fmt_simps)
  ultimately obtain ys where ys: "denormalize_actions sample_norm ''k'' [f32_one, f32_one] 1 2 = Some (Inr ys)"
    and at: "\<And>t d. t < nat 1 \<Longrightarrow> d < nat 2 \<Longrightarrow> ys ! (t * nat 2 + d) = (let x = [f32_one, f32_one] ! (t * nat 2 + d);
        v = (if nc_clip sample_norm then f32_clamp x f32_minus_one f32_one else x)
      in if int d \<in> set (nc_binary sample_norm)
         then (if (if nc_comparison sample_norm = ''ge'' then f32_le (nc_threshold sample_norm) v
                   else f32_lt (nc_threshold sample_norm) v) then f32_one else f32_zero)
         else f32_add (f32_mul (f32_mul (f32_add v f32_one) f32_half)
           (f32_sub (np_q99 (hd (nc_profiles sample_norm)) ! d) (np_q01 (hd (nc_profiles sample_norm)) ! d)))
           (np_q01 (hd (nc_profiles sample_norm)) ! d))"
    using denormalize_pointwise [OF sample_norm_valid, of 1 "[f32_one, f32_one]" "''k''"] by (auto simp: Let_def)
  have "ys ! 1 = f32_one"
    using at [of 0 1] by (simp add: sample_norm_def f32_clamp_def f32_lt_def f32_nan_def f32_key_def f32_half_def
        f32_one_def f32_minus_one_def fmt_simps Let_def)
  with ys show ?thesis by blast
qed

end
