(* ===== verification/Prompts.thy ===== *)
theory Prompts
  imports Prelude Ieee
begin

text \<open>
  Prompt building of \<^verbatim>\<open>src/models/starvla/oft_prompt.cpp\<close> and \<^verbatim>\<open>groot_prompt.cpp\<close>.  The loop that
  replaces the placeholder is a partial function, since it does not return for an empty needle;
  \<open>None\<close> stands for a call that does not return.  The theorems show that it always returns here.
\<close>

subsection \<open>Texts\<close>

definition kInstructionPlaceholder :: string where
  "kInstructionPlaceholder = ''{instruction}''"

definition kMtmdMediaMarker :: string where
  "kMtmdMediaMarker = ''<__media__>''"

definition repeat :: "string \<Rightarrow> int \<Rightarrow> string" where
  "repeat v count = concat (replicate (nat count) v)"

text \<open>\<open>std::string::find\<close>: the first position at which the needle matches.\<close>

fun find_sub :: "string \<Rightarrow> string \<Rightarrow> nat option" where
  "find_sub needle [] = (if needle = [] then Some 0 else None)"
| "find_sub needle (c # cs) =
     (if take (length needle) (c # cs) = needle then Some 0 else map_option Suc (find_sub needle cs))"

definition find_at :: "string \<Rightarrow> string \<Rightarrow> nat \<Rightarrow> nat option" where
  "find_at v needle offset =
     (if offset \<le> length v then map_option (\<lambda>p. offset + p) (find_sub needle (drop offset v)) else None)"

definition has_sub :: "string \<Rightarrow> string \<Rightarrow> bool" where
  "has_sub v needle \<longleftrightarrow> find_at v needle 0 \<noteq> None"

partial_function (option) replace_loop :: "string \<Rightarrow> string \<Rightarrow> nat \<Rightarrow> string \<Rightarrow> string option" where
  "replace_loop needle replacement offset v =
     (case find_at v needle offset of None \<Rightarrow> Some v
      | Some p \<Rightarrow> replace_loop needle replacement (p + length replacement)
                    (take p v @ replacement @ drop (p + length needle) v))"

definition replace_all :: "string \<Rightarrow> string \<Rightarrow> string \<Rightarrow> string option" where
  "replace_all v needle replacement = replace_loop needle replacement 0 v"

lemma find_sub_None: "find_sub needle s = None \<longleftrightarrow> \<not> (\<exists>u w. s = u @ needle @ w)"
proof (induction s)
  case (Cons c cs)
  have "take (length needle) (c # cs) = needle \<longleftrightarrow> (\<exists>w. c # cs = needle @ w)"
    by (metis append_eq_conv_conj)
  moreover have "(\<exists>u w. c # cs = u @ needle @ w) \<longleftrightarrow> (\<exists>w. c # cs = needle @ w) \<or> (\<exists>u w. cs = u @ needle @ w)"
    by (metis append_Cons append_Nil neq_Nil_conv list.inject)
  ultimately show ?case using Cons by auto
qed auto

lemma find_sub_Some:
  "find_sub needle s = Some p \<Longrightarrow>
     s = take p s @ needle @ drop (p + length needle) s \<and> p + length needle \<le> length s \<and>
     (needle \<noteq> [] \<longrightarrow> find_sub needle (take p s) = None)"
proof (induction s arbitrary: p)
  case (Cons c cs)
  show ?case
  proof (cases "take (length needle) (c # cs) = needle")
    case True
    with Cons.prems have p: "p = 0" by (simp split: if_splits)
    have "needle @ drop (length needle) (c # cs) = c # cs"
      using True append_take_drop_id [of "length needle" "c # cs"] by simp
    moreover have "length needle \<le> length (c # cs)"
      using True by (metis length_take min.cobounded1)
    ultimately show ?thesis by (simp add: p)
  next
    case False
    with Cons.prems obtain q where q: "p = Suc q" "find_sub needle cs = Some q" by (auto split: if_splits)
    note IH = Cons.IH [OF q(2)]
    have "find_sub needle (c # take q cs) = None" if "needle \<noteq> []"
    proof -
      have "take (length needle) (c # take q cs) \<noteq> needle"
      proof
        assume eq: "take (length needle) (c # take q cs) = needle"
        then have "length needle \<le> length (c # take q cs)" by (metis length_take min.cobounded1)
        then have "length needle \<le> Suc q" by simp
        then have "take (length needle) (c # cs) = take (length needle) (take (Suc q) (c # cs))"
          by (cases needle) (simp_all add: min_absorb1)
        then have "take (length needle) (c # cs) = needle" using eq by simp
        with False show False ..
      qed
      with IH that show ?thesis by simp
    qed
    with IH q show ?thesis by simp
  qed
qed (auto split: if_splits)

subsection \<open>The replacement loop\<close>

text \<open>Pieces of a text put together again around a separator.\<close>

fun join :: "string \<Rightarrow> string list \<Rightarrow> string" where
  "join sep [] = []"
| "join sep [p] = p"
| "join sep (p # ps) = p @ sep @ join sep ps"

lemma join_Cons: "ps \<noteq> [] \<Longrightarrow> join sep (p # ps) = p @ sep @ join sep ps"
  by (cases ps) simp_all

text \<open>The text is cut at the placeholders, from the left; the loop puts the replacement there, and
  does not look into what it has put.\<close>

definition cut_at :: "string \<Rightarrow> string \<Rightarrow> string list \<Rightarrow> bool" where
  "cut_at needle v ps \<longleftrightarrow> ps \<noteq> [] \<and> v = join needle ps \<and> list_all (\<lambda>p. find_sub needle p = None) ps"

lemma replace_loop_cut:
  assumes "needle \<noteq> []"
  shows "\<exists>ps. cut_at needle v ps \<and>
    replace_loop needle replacement (length pre) (pre @ v) = Some (pre @ join replacement ps)"
proof (induction "length v" arbitrary: v pre rule: less_induct)
  case less
  show ?case
  proof (cases "find_sub needle v")
    case None
    then have "replace_loop needle replacement (length pre) (pre @ v) = Some (pre @ v)"
      by (subst replace_loop.simps) (simp add: find_at_def)
    moreover have "cut_at needle v [v]" using None by (simp add: cut_at_def)
    ultimately show ?thesis by (metis join.simps(2))
  next
    case (Some p)
    define u where "u = take p v"
    define w where "w = drop (p + length needle) v"
    note found = find_sub_Some [OF Some]
    then have v: "v = u @ needle @ w" and u: "length u = p" "find_sub needle u = None"
      using assms by (simp_all add: u_def w_def)
    have "length w < length v" using assms by (simp add: v)
    from less [OF this, of "pre @ u @ replacement"] obtain ps where
      ps: "cut_at needle w ps"
        "replace_loop needle replacement (length pre + p + length replacement) (pre @ u @ replacement @ w) =
           Some (pre @ u @ replacement @ join replacement ps)"
      by (auto simp: u add.assoc)
    have "replace_loop needle replacement (length pre) (pre @ v) =
        replace_loop needle replacement (length pre + p + length replacement) (pre @ u @ replacement @ w)"
      by (subst replace_loop.simps) (simp add: find_at_def Some u_def w_def)
    moreover have "cut_at needle v (u # ps)" using ps(1) v u by (simp add: cut_at_def join_Cons)
    moreover have "join replacement (u # ps) = u @ replacement @ join replacement ps"
      using ps(1) by (simp add: cut_at_def join_Cons)
    ultimately show ?thesis using ps(2) by metis
  qed
qed

lemma replace_all_cut:
  "needle \<noteq> [] \<Longrightarrow> \<exists>ps. cut_at needle v ps \<and> replace_all v needle replacement = Some (join replacement ps)"
  using replace_loop_cut [of needle v replacement "[]"] by (simp add: replace_all_def)

lemma replace_all_returns: "needle \<noteq> [] \<Longrightarrow> \<exists>r. replace_all v needle replacement = Some r"
  using replace_all_cut by blast

lemma cut_at_has_sub: "cut_at needle v ps \<Longrightarrow> has_sub v needle \<longleftrightarrow> 2 \<le> length ps"
proof -
  assume cut: "cut_at needle v ps"
  show ?thesis
  proof (cases ps)
    case Nil
    with cut show ?thesis by (simp add: cut_at_def)
  next
    case (Cons p qs)
    show ?thesis
    proof (cases qs)
      case Nil
      with Cons cut show ?thesis by (simp add: cut_at_def has_sub_def find_at_def)
    next
      case (Cons q rs)
      with cut \<open>ps = p # qs\<close> have "v = p @ needle @ join needle qs" by (simp add: cut_at_def)
      then have "find_sub needle v \<noteq> None" using find_sub_None by blast
      with Cons \<open>ps = p # qs\<close> show ?thesis by (simp add: has_sub_def find_at_def)
    qed
  qed
qed

subsection \<open>Prompts around a template\<close>

definition contains_nul :: "string \<Rightarrow> bool" where
  "contains_nul v \<longleftrightarrow> has_sub v [CHR 0x00]"

definition build_instruction :: "string \<Rightarrow> string \<Rightarrow> string \<Rightarrow> string run" where
  "build_instruction framework cot_template task =
     (if task = [] then Some (Inl (''StarVLA '' @ framework @ '' task must not be empty''))
      else if contains_nul task \<or> contains_nul cot_template then
        Some (Inl (''StarVLA '' @ framework @ '' prompt contains an embedded NUL byte''))
      else if has_sub task kMtmdMediaMarker \<or> has_sub cot_template kMtmdMediaMarker then
        Some (Inl (''StarVLA '' @ framework @ '' prompt contains the reserved mtmd media marker''))
      else if \<not> has_sub cot_template kInstructionPlaceholder then
        Some (Inl (''StarVLA '' @ framework @ '' CoT template is missing {instruction}''))
      else map_option Inr (replace_all cot_template kInstructionPlaceholder task))"

definition build_groot_instruction :: "string \<Rightarrow> string \<Rightarrow> string run" where
  "build_groot_instruction cot_template task = build_instruction ''GR00T'' cot_template task"

definition build_pi_v3_instruction :: "string \<Rightarrow> string \<Rightarrow> string run" where
  "build_pi_v3_instruction cot_template task = build_instruction ''PI_v3'' cot_template task"

definition build_fast_instruction :: "string \<Rightarrow> string \<Rightarrow> string run" where
  "build_fast_instruction cot_template task = build_instruction ''FAST'' cot_template task"

lemma placeholder_nonempty [simp]: "kInstructionPlaceholder \<noteq> []"
  by (simp add: kInstructionPlaceholder_def)

lemma build_instruction_returns: "build_instruction framework t task \<noteq> None"
  using replace_all_returns [of kInstructionPlaceholder t task] by (auto simp: build_instruction_def)

lemma build_instruction_cut:
  assumes "build_instruction framework t task = Some (Inr instruction)"
  shows "\<exists>ps. cut_at kInstructionPlaceholder t ps \<and> 2 \<le> length ps \<and> instruction = join task ps"
  using assms replace_all_cut [of kInstructionPlaceholder t task] cut_at_has_sub
  by (auto simp: build_instruction_def split: if_splits)

lemmas instruction_returns =
  build_instruction_returns [of "''GR00T''", folded build_groot_instruction_def]
  build_instruction_returns [of "''PI_v3''", folded build_pi_v3_instruction_def]
  build_instruction_returns [of "''FAST''", folded build_fast_instruction_def]

subsection \<open>OFT prompts\<close>

record oft_prompt_config =
  op_horizon :: int
  op_action_token :: string
  op_action_suffix :: string
  op_cot_enabled :: bool
  op_cot_template :: string
  op_state_bins :: int
  op_state_bin_min :: f32
  op_state_bin_max :: f32
  op_state_clip :: bool

fun digitize_loop :: "f64 \<Rightarrow> f64 \<Rightarrow> f64 \<Rightarrow> nat list \<Rightarrow> int \<Rightarrow> int" where
  "digitize_loop minimum step v [] bin = bin"
| "digitize_loop minimum step v (edge # edges) bin =
     (if f64_le (f64_add minimum (f64_mul step (f64_of_int (int edge)))) v
      then digitize_loop minimum step v edges (int edge) else bin)"

definition bin_step :: "oft_prompt_config \<Rightarrow> f64" where
  "bin_step c = f64_div (f64_sub (f64_of_f32 (op_state_bin_max c)) (f64_of_f32 (op_state_bin_min c)))
                  (f64_of_int (op_state_bins c))"

definition clipped :: "oft_prompt_config \<Rightarrow> f64 \<Rightarrow> f64" where
  "clipped c v = (if op_state_clip c
     then f64_max (f64_of_f32 (op_state_bin_min c)) (f64_min (f64_of_f32 (op_state_bin_max c)) v) else v)"

definition state_bin :: "oft_prompt_config \<Rightarrow> f32 \<Rightarrow> int" where
  "state_bin c x = digitize_loop (f64_of_f32 (op_state_bin_min c)) (bin_step c)
     (clipped c (f64_of_f32 x)) [0..<nat (op_state_bins c)] (- 1)"

definition digitize_one :: "oft_prompt_config \<Rightarrow> f32 \<Rightarrow> string res" where
  "digitize_one c x =
     (if \<not> f64_finite (f64_of_f32 x) then Inl ''StarVLA OFT state contains a non-finite value''
      else Inr (int_to_string (state_bin c x)))"

definition discretize_state :: "oft_prompt_config \<Rightarrow> f32 list \<Rightarrow> string res" where
  "discretize_state c state =
     (if state = [] then Inr []
      else bind_res (each_res (digitize_one c) state) (\<lambda>bins. Inr (join '' '' bins)))"

definition expected_suffix :: "oft_prompt_config \<Rightarrow> string" where
  "expected_suffix c = '' Please predict the next '' @ int_to_string (op_horizon c) @
     '' robot actions: <action>'' @ repeat (op_action_token c) (op_horizon c) @ ''<action>.''"

definition validate_oft_prompt_config :: "oft_prompt_config \<Rightarrow> unit res" where
  "validate_oft_prompt_config c =
     (if op_horizon c \<le> 0 \<or> op_action_token c = [] then
        Inl ''StarVLA OFT prompt has an invalid horizon or action token''
      else if op_action_suffix c \<noteq> expected_suffix c then
        Inl ''StarVLA OFT action suffix does not match its horizon/token contract''
      else if op_cot_enabled c \<and> \<not> has_sub (op_cot_template c) kInstructionPlaceholder then
        Inl ''StarVLA OFT CoT template is missing {instruction}''
      else if op_state_bins c \<le> 0 \<or> \<not> f32_finite (op_state_bin_min c) \<or> \<not> f32_finite (op_state_bin_max c) \<or>
              f32_le (op_state_bin_max c) (op_state_bin_min c) then
        Inl ''StarVLA OFT state prompt metadata is incompatible''
      else Inr ())"

definition state_part :: "oft_prompt_config \<Rightarrow> f32 list \<Rightarrow> string res" where
  "state_part c state =
     (if state = [] then Inr []
      else bind_res (discretize_state c state) (\<lambda>state_text. Inr ('' [STATE] '' @ state_text @ '' [ACTION]'')))"

definition build_oft_instruction :: "oft_prompt_config \<Rightarrow> string \<Rightarrow> f32 list \<Rightarrow> string run" where
  "build_oft_instruction c task state =
     bind_run (Some (validate_oft_prompt_config c)) (\<lambda>_.
       if has_sub task kMtmdMediaMarker then
         Some (Inl ''StarVLA OFT task contains the reserved mtmd media marker'')
       else bind_run (Some (state_part c state)) (\<lambda>state_text.
         if op_cot_enabled c then
           map_option Inr (replace_all (op_cot_template c) kInstructionPlaceholder
             (task @ state_text @ op_action_suffix c))
         else Some (Inr (task @ state_text @ op_action_suffix c))))"

definition build_qwen_media_content :: "nat \<Rightarrow> string \<Rightarrow> string option \<Rightarrow> string" where
  "build_qwen_media_content image_count instruction media_marker =
     concat (replicate image_count (case media_marker of None \<Rightarrow> [] | Some marker \<Rightarrow> marker)) @ instruction"

definition token_positions :: "int list \<Rightarrow> int \<Rightarrow> nat list" where
  "token_positions token_ids token = filter (\<lambda>i. token_ids ! i = token) [0..<length token_ids]"

definition find_last_token_positions :: "int list \<Rightarrow> int \<Rightarrow> nat \<Rightarrow> nat list res" where
  "find_last_token_positions token_ids token n =
     (if n = 0 then Inl ''StarVLA OFT action-token count must be positive''
      else if length (token_positions token_ids token) < n then
        Inl ''StarVLA OFT prompt contains fewer action tokens than its horizon''
      else Inr (drop (length (token_positions token_ids token) - n) (token_positions token_ids token)))"

text \<open>The bin is one less than the number of leading edges that the value reaches.\<close>

lemma digitize_loop_count:
  "digitize_loop minimum step v [k..<k + n] (int k - 1) =
     int k - 1 + int (length (takeWhile
       (\<lambda>edge. f64_le (f64_add minimum (f64_mul step (f64_of_int (int edge)))) v) [k..<k + n]))"
proof (induction n arbitrary: k)
  case (Suc n)
  have "[k..<k + Suc n] = k # [Suc k..<Suc k + n]" by (simp add: upt_conv_Cons)
  then show ?case using Suc [of "Suc k"] by simp
qed simp

lemma state_bin_count:
  "state_bin c x = int (length (takeWhile
     (\<lambda>edge. f64_le (f64_add (f64_of_f32 (op_state_bin_min c)) (f64_mul (bin_step c) (f64_of_int (int edge))))
       (clipped c (f64_of_f32 x))) [0..<nat (op_state_bins c)])) - 1"
  using digitize_loop_count [where k = 0 and n = "nat (op_state_bins c)"] by (simp add: state_bin_def)

lemma state_bin_bounds: "0 \<le> op_state_bins c \<Longrightarrow> - 1 \<le> state_bin c x \<and> state_bin c x < op_state_bins c"
proof -
  assume nonneg: "0 \<le> op_state_bins c"
  obtain n where "state_bin c x = int n - 1" "n \<le> nat (op_state_bins c)"
    using length_takeWhile_le [of _ "[0..<nat (op_state_bins c)]"] by (fastforce simp: state_bin_count)
  then show ?thesis using nonneg by linarith
qed

lemma discretize_state_Inr:
  assumes "state \<noteq> []"
  shows "discretize_state c state = Inr t \<longleftrightarrow>
    list_all (\<lambda>x. f64_finite (f64_of_f32 x)) state \<and> t = join '' '' (map (\<lambda>x. int_to_string (state_bin c x)) state)"
proof -
  have "each_res (digitize_one c) state = Inr bins \<longleftrightarrow>
      list_all (\<lambda>x. f64_finite (f64_of_f32 x)) state \<and> bins = map (\<lambda>x. int_to_string (state_bin c x)) state" for bins
    unfolding each_res_Inr by (induction state arbitrary: bins) (auto simp: list_all2_Cons1 digitize_one_def)
  with assms show ?thesis by (auto simp: discretize_state_def res_simps)
qed

lemma build_oft_instruction_returns: "build_oft_instruction c task state \<noteq> None"
proof -
  have "replace_all v kInstructionPlaceholder r \<noteq> None" for v r
    using replace_all_returns [of kInstructionPlaceholder] by fastforce
  then show ?thesis by (auto simp: build_oft_instruction_def bind_run_def split: sum.splits)
qed

lemma token_positions_props:
  "sorted_wrt (<) (token_positions ids t)"
  "p \<in> set (token_positions ids t) \<longleftrightarrow> p < length ids \<and> ids ! p = t"
  by (auto simp: token_positions_def sorted_wrt_filter)

subsection \<open>Properties\<close>

text \<open>The prompt builders return for every template and task: the replacement loop ends, also when
  the task itself contains placeholders.\<close>

theorem prompts_return:
  "build_groot_instruction cot_template task \<noteq> None \<and> build_pi_v3_instruction cot_template task \<noteq> None \<and>
   build_fast_instruction cot_template task \<noteq> None \<and> build_oft_instruction config task state \<noteq> None"
  using instruction_returns build_oft_instruction_returns by simp

text \<open>C34. An accepted prompt is the template cut at its placeholders, at least one, with the task put in
  between; the text of the task is not searched for placeholders again.\<close>

theorem prompt_fills_template:
  assumes "build_instruction framework cot_template task = Some (Inr instruction)"
  shows "\<exists>ps. cot_template = join kInstructionPlaceholder ps \<and> instruction = join task ps \<and> 2 \<le> length ps \<and>
    list_all (\<lambda>p. \<not> has_sub p kInstructionPlaceholder) ps"
  using build_instruction_cut [OF assms] by (auto simp: cut_at_def has_sub_def find_at_def list_all_iff)

theorem prompt_fills_template_witness:
  "\<exists>ps. ''do: {instruction}.'' = join kInstructionPlaceholder ps \<and> ''do: a{instruction}.'' = join ''a{instruction}'' ps \<and>
     2 \<le> length ps \<and> list_all (\<lambda>p. \<not> has_sub p kInstructionPlaceholder) ps"
proof -
  have "build_instruction ''FAST'' ''do: {instruction}.'' ''a{instruction}'' = Some (Inr ''do: a{instruction}.'')"
    by (simp add: build_instruction_def contains_nul_def has_sub_def find_at_def kInstructionPlaceholder_def
        kMtmdMediaMarker_def replace_all_def replace_loop.simps)
  then show ?thesis by (rule prompt_fills_template)
qed

text \<open>C36. The state text lists one bin per component, in order: one less than the number of leading bin
  edges that the clipped value reaches, always between -1 and the last bin.  A component that is not
  finite is refused.\<close>

theorem state_text_bins:
  assumes "validate_oft_prompt_config c = Inr ()" "state \<noteq> []"
  shows "discretize_state c state =
      (if list_all (\<lambda>x. f64_finite (f64_of_f32 x)) state
       then Inr (join '' '' (map (\<lambda>x. int_to_string (int (length (takeWhile
         (\<lambda>edge. f64_le (f64_add (f64_of_f32 (op_state_bin_min c)) (f64_mul (bin_step c) (f64_of_int (int edge))))
           (clipped c (f64_of_f32 x))) [0..<nat (op_state_bins c)])) - 1)) state))
       else Inl ''StarVLA OFT state contains a non-finite value'')
    \<and> - 1 \<le> state_bin c x \<and> state_bin c x < op_state_bins c"
proof -
  have "0 \<le> op_state_bins c" using assms(1) by (simp add: validate_oft_prompt_config_def split: if_splits)
  then have "- 1 \<le> state_bin c x \<and> state_bin c x < op_state_bins c" by (rule state_bin_bounds)
  moreover have "each_res (digitize_one c) xs = Inl e \<Longrightarrow> e = ''StarVLA OFT state contains a non-finite value''" for xs e
    by (induction xs) (auto simp: digitize_one_def bind_res_def split: sum.splits if_splits)
  then have "discretize_state c state = Inl e \<Longrightarrow> e = ''StarVLA OFT state contains a non-finite value''" for e
    using assms(2) by (auto simp: discretize_state_def bind_res_def split: sum.splits)
  ultimately show ?thesis
    using discretize_state_Inr [OF assms(2), of c, unfolded state_bin_count]
    by (cases "discretize_state c state") (auto simp: state_bin_count)
qed

definition unit_bins :: oft_prompt_config where
  "unit_bins = \<lparr>op_horizon = 1, op_action_token = ''#'', op_action_suffix = '' Please predict the next 1 robot actions: <action>#<action>.'',
     op_cot_enabled = False, op_cot_template = [], op_state_bins = 2, op_state_bin_min = f32_zero,
     op_state_bin_max = f32_one, op_state_clip = True\<rparr>"

theorem state_text_bins_witness:
  "discretize_state unit_bins [f32_zero, f32_half, f32_minus_one] = Inr ''0 1 0''"
proof -
  have valid: "validate_oft_prompt_config unit_bins = Inr ()"
    by (simp add: validate_oft_prompt_config_def unit_bins_def expected_suffix_def repeat_def int_to_string_def
        nat_to_string_small digit_char_eval ieee_eval)
  have finite_parts: "f64_finite (f64_of_f32 f32_zero)" "f64_finite (f64_of_f32 f32_half)"
      "f64_finite (f64_of_f32 f32_minus_one)"
    by (simp_all add: ieee_eval)
  have bins: "state_bin unit_bins f32_zero = 0" "state_bin unit_bins f32_half = 1" "state_bin unit_bins f32_minus_one = 0"
    by (simp_all add: state_bin_def unit_bins_def bin_step_def clipped_def f64_max_def f64_min_def two_items ieee_eval)
  have "discretize_state unit_bins [f32_zero, f32_half, f32_minus_one] =
      Inr (join '' '' (map (\<lambda>x. int_to_string (state_bin unit_bins x)) [f32_zero, f32_half, f32_minus_one]))"
    using state_text_bins [OF valid, where state = "[f32_zero, f32_half, f32_minus_one]"]
    unfolding state_bin_count [symmetric] by (simp add: finite_parts)
  then show ?thesis by (simp add: bins int_to_string_def nat_to_string_small digit_char_eval)
qed

text \<open>The action-token positions of a prompt are the last occurrences of the token, as many as asked for, in order.\<close>

theorem last_positions_exact:
  assumes "find_last_token_positions ids t n = Inr ps"
  shows "length ps = n \<and> 0 < n \<and> sorted_wrt (<) ps \<and> (\<exists>qs. \<forall>p. (p \<in> set (qs @ ps) \<longleftrightarrow> p < length ids \<and> ids ! p = t) \<and>
    (p \<in> set qs \<longrightarrow> p < hd ps))"
proof -
  define all where "all = token_positions ids t"
  define k where "k = length all - n"
  have n: "0 < n" "n \<le> length all" and ps: "ps = drop k all"
    using assms by (auto simp: find_last_token_positions_def all_def k_def split: if_splits)
  have sorted: "sorted_wrt (<) (take k all @ ps)"
    using token_positions_props(1) by (simp add: ps all_def)
  have "ps \<noteq> []" "length ps = n" using n by (simp_all add: ps k_def)
  moreover from this have "\<forall>p\<in>set (take k all). p < hd ps"
    using sorted by (auto simp: sorted_wrt_append)
  moreover have "set (take k all @ ps) = set all" by (simp add: ps del: set_append)
  then have "p \<in> set (take k all @ ps) \<longleftrightarrow> p < length ids \<and> ids ! p = t" for p
    using token_positions_props(2) unfolding all_def by blast
  ultimately show ?thesis using sorted n(1) unfolding sorted_wrt_append by blast
qed

theorem last_positions_exact_witness:
  "\<exists>qs. \<forall>p. (p \<in> set (qs @ [2, 3]) \<longleftrightarrow> p < length [7, 5, 7, 7, 1::int] \<and> [7, 5, 7, 7, 1] ! p = (7::int)) \<and>
     (p \<in> set qs \<longrightarrow> p < hd [2::nat, 3])"
proof -
  have "find_last_token_positions [7, 5, 7, 7, 1] 7 2 = Inr [2, 3]"
    by (simp add: find_last_token_positions_def token_positions_def upt_rec)
  from last_positions_exact [OF this] show ?thesis by blast
qed

end
