(* ===== verification/ImagePreprocess.thy ===== *)
theory ImagePreprocess
  imports Prelude Ieee
begin

text \<open>
  Image resizing of \<^verbatim>\<open>src/models/starvla/oft_image_preprocess.cpp\<close>: the bicubic filter tables in double
  precision, the two fixed-point passes, and the smart resize of Qwen-VL.  \<open>None\<close> is undefined behaviour:
  a read outside an array, a signed overflow, or a conversion of a double out of range.  The
  theorems show when it cannot occur.  A failed allocation is not modelled.
\<close>

definition INT_MAX :: int where
  "INT_MAX = 2147483647"

definition INT64_MAX :: int where
  "INT64_MAX = 9223372036854775807"

record rgb_image =
  im_width :: int
  im_height :: int
  im_pixels :: "u8 list"

record filter_table =
  ft_kernel_size :: int
  ft_precision :: int
  ft_first :: "int list"
  ft_count :: "int list"
  ft_weights :: "int list"

subsection \<open>Filter tables\<close>

definition keys_cubic :: "f64 \<Rightarrow> f64" where
  "keys_cubic v =
     (if f64_lt (f64_abs v) f64_one then
        f64_add (f64_mul (f64_mul (f64_sub (f64_mul (f64_add f64_minus_half (f64_of_int 2)) (f64_abs v))
          (f64_add f64_minus_half (f64_of_int 3))) (f64_abs v)) (f64_abs v)) f64_one
      else if f64_lt (f64_abs v) (f64_of_int 2) then
        f64_mul (f64_sub (f64_mul (f64_add (f64_mul (f64_sub (f64_abs v) (f64_of_int 5)) (f64_abs v)) (f64_of_int 8))
          (f64_abs v)) (f64_of_int 4)) f64_minus_half
      else f64_zero)"

definition validate_resize :: "u8 list option \<Rightarrow> int \<Rightarrow> int \<Rightarrow> int \<Rightarrow> int \<Rightarrow> int \<Rightarrow> unit run" where
  "validate_resize source source_width source_height source_stride target_width target_height =
     (if source = None \<or> source_width \<le> 0 \<or> source_height \<le> 0 \<or> target_width \<le> 0 \<or> target_height \<le> 0 then
        Some (Inl ''StarVLA image resize received an invalid image or dimension'')
      else if INT_MAX < source_width * 3 then None
      else if source_stride \<noteq> 0 \<and> source_stride < source_width * 3 then
        Some (Inl ''StarVLA image stride is smaller than a packed RGB row'')
      else if 18446744073709551615 < target_width * target_height * 3 mod 18446744073709551616 then
        Some (Inl ''StarVLA resized image is too large'')
      else Some (Inr ()))"

definition row_stride :: "int \<Rightarrow> int \<Rightarrow> int" where
  "row_stride width stride = (if stride > 0 then stride else width * 3)"

definition source_row :: "u8 list \<Rightarrow> int \<Rightarrow> int \<Rightarrow> nat \<Rightarrow> u8 list option" where
  "source_row source width stride row =
     (if int row * row_stride width stride + width * 3 \<le> int (length source)
      then Some (take (nat (width * 3)) (drop (nat (int row * row_stride width stride)) source)) else None)"

definition pack_source :: "u8 list \<Rightarrow> int \<Rightarrow> int \<Rightarrow> int \<Rightarrow> rgb_image option" where
  "pack_source source width height stride =
     map_option (\<lambda>rows. \<lparr>im_width = width, im_height = height, im_pixels = concat rows\<rparr>)
       (those (map (source_row source width stride) [0..<nat height]))"

text \<open>The input columns (or rows) that one output column depends on: the first and their number.\<close>

definition filter_window :: "f64 \<Rightarrow> f64 \<Rightarrow> int \<Rightarrow> int \<Rightarrow> (int \<times> int) option" where
  "filter_window center support input_size kernel_size =
     Option.bind (f64_to_sint 32 (f64_add (f64_sub center support) f64_half)) (\<lambda>low.
     Option.bind (f64_to_sint 32 (f64_add (f64_add center support) f64_half)) (\<lambda>high.
       Some (max low 0, max 0 (min (min high input_size - max low 0) kernel_size))))"

definition filter_center :: "f64 \<Rightarrow> nat \<Rightarrow> f64" where
  "filter_center scale output = f64_mul (f64_add (f64_of_int (int output)) f64_half) scale"

definition tap_weights :: "f64 \<Rightarrow> f64 \<Rightarrow> int \<Rightarrow> int \<Rightarrow> f64 list" where
  "tap_weights center filter_scale first count =
     map (\<lambda>index. keys_cubic (f64_div (f64_add (f64_sub (f64_of_int (int index + first)) center) f64_half) filter_scale))
       [0..<nat count]"

definition weight_sum :: "f64 list \<Rightarrow> f64" where
  "weight_sum ws = foldl f64_add f64_zero ws"

definition normalized_weights :: "f64 list \<Rightarrow> f64 list" where
  "normalized_weights ws = (if f64_eq (weight_sum ws) f64_zero then ws else map (\<lambda>w. f64_div w (weight_sum ws)) ws)"

definition largest_weight :: "f64 \<Rightarrow> f64 list \<Rightarrow> f64" where
  "largest_weight m ws = (if f64_eq (weight_sum ws) f64_zero then m else foldl f64_max m (normalized_weights ws))"

fun precision_loop :: "f64 \<Rightarrow> nat \<Rightarrow> nat \<Rightarrow> nat option" where
  "precision_loop maximum_weight p 0 = Some p"
| "precision_loop maximum_weight p (Suc n) =
     Option.bind (f64_to_sint 32 (f64_add f64_half (f64_mul maximum_weight (f64_of_int (2 ^ (p + 1)))))) (\<lambda>next_weight.
       if next_weight \<ge> 32768 then Some p else precision_loop maximum_weight (p + 1) n)"

definition fixed_weight :: "f64 \<Rightarrow> f64 \<Rightarrow> int option" where
  "fixed_weight multiplier w =
     f64_to_sint 32 (if f64_lt (f64_mul w multiplier) f64_zero then f64_sub (f64_mul w multiplier) f64_half
                     else f64_add (f64_mul w multiplier) f64_half)"

definition filter_scale :: "int \<Rightarrow> int \<Rightarrow> f64" where
  "filter_scale input_size output_size = f64_max (f64_div (f64_of_int input_size) (f64_of_int output_size)) f64_one"

definition filter_support :: "int \<Rightarrow> int \<Rightarrow> f64" where
  "filter_support input_size output_size = f64_mul (f64_of_int 2) (filter_scale input_size output_size)"

definition filter_kernel :: "int \<Rightarrow> int \<Rightarrow> int option" where
  "filter_kernel input_size output_size =
     Option.bind (f64_ceil_sint 32 (filter_support input_size output_size)) (\<lambda>half.
       if fits_sint 32 (half * 2 + 1) then Some (half * 2 + 1) else None)"

definition filter_windows :: "int \<Rightarrow> int \<Rightarrow> int \<Rightarrow> (int \<times> int) list option" where
  "filter_windows input_size output_size kernel_size =
     those (map (\<lambda>output. filter_window
        (filter_center (f64_div (f64_of_int input_size) (f64_of_int output_size)) output)
        (filter_support input_size output_size) input_size kernel_size) [0..<nat output_size])"

definition raw_weights :: "int \<Rightarrow> int \<Rightarrow> (int \<times> int) list \<Rightarrow> f64 list list" where
  "raw_weights input_size output_size windows =
     map (\<lambda>(output, first, count). tap_weights
        (filter_center (f64_div (f64_of_int input_size) (f64_of_int output_size)) output)
        (filter_scale input_size output_size) first count) (List.enumerate 0 windows)"

definition pad_weights :: "int \<Rightarrow> f64 list \<Rightarrow> f64 list" where
  "pad_weights kernel_size ws = ws @ replicate (nat kernel_size - length ws) f64_zero"

definition table_precision :: "bool \<Rightarrow> f64 list list \<Rightarrow> nat option" where
  "table_precision pillow_precision raw =
     (if pillow_precision then Some 22 else precision_loop (foldl largest_weight f64_zero raw) 0 22)"

definition make_filter_table :: "int \<Rightarrow> int \<Rightarrow> bool \<Rightarrow> filter_table option" where
  "make_filter_table input_size output_size pillow_precision =
     Option.bind (filter_kernel input_size output_size) (\<lambda>kernel_size.
     Option.bind (filter_windows input_size output_size kernel_size) (\<lambda>windows.
     Option.bind (table_precision pillow_precision (raw_weights input_size output_size windows)) (\<lambda>precision.
     Option.bind (those (map (fixed_weight (f64_of_int (2 ^ precision)))
        (concat (map (\<lambda>ws. pad_weights kernel_size (normalized_weights ws))
          (raw_weights input_size output_size windows))))) (\<lambda>weights.
       Some \<lparr>ft_kernel_size = kernel_size, ft_precision = int precision, ft_first = map fst windows,
         ft_count = map snd windows, ft_weights = weights\<rparr>))))"

subsection \<open>The two passes\<close>

definition fixed_point_pixel :: "int \<Rightarrow> int \<Rightarrow> u8" where
  "fixed_point_pixel accumulator precision = word_of_int (max 0 (min 255 (accumulator div 2 ^ nat precision)))"

definition tap :: "rgb_image \<Rightarrow> filter_table \<Rightarrow> int \<Rightarrow> int \<Rightarrow> int option" where
  "tap source table source_index weight_index =
     Option.bind (read_at (im_pixels source) source_index) (\<lambda>pixel.
     Option.bind (read_at (ft_weights table) weight_index) (\<lambda>weight. Some (uint pixel * weight)))"

fun accumulate :: "int option list \<Rightarrow> int \<Rightarrow> int option" where
  "accumulate [] accumulator = Some accumulator"
| "accumulate (t # ts) accumulator =
     Option.bind t (\<lambda>v. if fits_sint 64 (accumulator + v) then accumulate ts (accumulator + v) else None)"

definition table_rounding :: "filter_table \<Rightarrow> int option" where
  "table_rounding table = (if ft_precision table < 1 then None else Some (2 ^ nat (ft_precision table - 1)))"

definition filtered_pixel :: "filter_table \<Rightarrow> int \<Rightarrow> (int \<Rightarrow> int option list) \<Rightarrow> u8 option" where
  "filtered_pixel table output taps =
     Option.bind (read_at (ft_count table) output) (\<lambda>count.
     Option.bind (table_rounding table) (\<lambda>rounding.
     Option.bind (accumulate (taps count) rounding) (\<lambda>accumulator.
       Some (fixed_point_pixel accumulator (ft_precision table)))))"

definition horizontal_pixel :: "rgb_image \<Rightarrow> filter_table \<Rightarrow> nat \<Rightarrow> nat \<Rightarrow> nat \<Rightarrow> u8 option" where
  "horizontal_pixel source table row column channel =
     Option.bind (read_at (ft_first table) (int column)) (\<lambda>first.
       filtered_pixel table (int column) (\<lambda>count.
         map (\<lambda>index. tap source table
             ((int row * im_width source + first + int index) * 3 + int channel)
             (int column * ft_kernel_size table + int index)) [0..<nat count]))"

definition vertical_pixel :: "rgb_image \<Rightarrow> filter_table \<Rightarrow> nat \<Rightarrow> nat \<Rightarrow> nat \<Rightarrow> u8 option" where
  "vertical_pixel source table row column channel =
     Option.bind (read_at (ft_first table) (int row)) (\<lambda>first.
       filtered_pixel table (int row) (\<lambda>count.
         map (\<lambda>index. tap source table
             (((first + int index) * im_width source + int column) * 3 + int channel)
             (int row * ft_kernel_size table + int index)) [0..<nat count]))"

text \<open>The pixels of an image, by rows, columns and channels.\<close>

definition fill_image :: "int \<Rightarrow> int \<Rightarrow> (nat \<Rightarrow> nat \<Rightarrow> nat \<Rightarrow> u8 option) \<Rightarrow> rgb_image option" where
  "fill_image width height pixel =
     map_option (\<lambda>pixels. \<lparr>im_width = width, im_height = height, im_pixels = pixels\<rparr>)
       (those (concat (map (\<lambda>row. concat (map (\<lambda>column. map (pixel row column) [0..<3])
          [0..<nat width])) [0..<nat height])))"

definition resize_horizontal :: "rgb_image \<Rightarrow> int \<Rightarrow> filter_table \<Rightarrow> rgb_image option" where
  "resize_horizontal source target_width table =
     fill_image target_width (im_height source) (horizontal_pixel source table)"

definition resize_vertical :: "rgb_image \<Rightarrow> int \<Rightarrow> filter_table \<Rightarrow> rgb_image option" where
  "resize_vertical source target_height table =
     fill_image (im_width source) target_height (vertical_pixel source table)"

definition resize_pass ::
  "bool \<Rightarrow> (rgb_image \<Rightarrow> int \<Rightarrow> filter_table \<Rightarrow> rgb_image option) \<Rightarrow> int \<Rightarrow> int \<Rightarrow> rgb_image \<Rightarrow> rgb_image option"
where
  "resize_pass pillow_precision pass from_size to_size current =
     (if from_size \<noteq> to_size
      then Option.bind (make_filter_table from_size to_size pillow_precision) (pass current to_size)
      else Some current)"

definition resize_rgb ::
  "u8 list option \<Rightarrow> int \<Rightarrow> int \<Rightarrow> int \<Rightarrow> int \<Rightarrow> int \<Rightarrow> bool \<Rightarrow> u8 list run"
where
  "resize_rgb source source_width source_height source_stride target_width target_height pillow_precision =
     bind_run (validate_resize source source_width source_height source_stride target_width target_height) (\<lambda>_.
       Option.bind source (\<lambda>bytes.
       Option.bind (pack_source bytes source_width source_height source_stride) (\<lambda>packed.
       Option.bind (resize_pass pillow_precision resize_horizontal source_width target_width packed) (\<lambda>current.
       Option.bind (resize_pass pillow_precision resize_vertical source_height target_height current) (\<lambda>target.
         Some (Inr (im_pixels target)))))))"

definition resize_pillow_bicubic_rgb ::
  "u8 list option \<Rightarrow> int \<Rightarrow> int \<Rightarrow> int \<Rightarrow> int \<Rightarrow> int \<Rightarrow> u8 list run"
where
  "resize_pillow_bicubic_rgb source source_width source_height source_stride target_width target_height =
     resize_rgb source source_width source_height source_stride target_width target_height True"

definition resize_torchvision_bicubic_aa_rgb ::
  "u8 list option \<Rightarrow> int \<Rightarrow> int \<Rightarrow> int \<Rightarrow> int \<Rightarrow> int \<Rightarrow> u8 list run"
where
  "resize_torchvision_bicubic_aa_rgb source source_width source_height source_stride target_width target_height =
     resize_rgb source source_width source_height source_stride target_width target_height False"

subsection \<open>Smart resize\<close>

text \<open>A 64-bit product: \<open>None\<close> on overflow.\<close>

definition mul64 :: "int \<Rightarrow> int \<Rightarrow> int option" where
  "mul64 a b = (if fits_sint 64 (a * b) then Some (a * b) else None)"

definition round_div_ties_to_even :: "int \<Rightarrow> int \<Rightarrow> int" where
  "round_div_ties_to_even v divisor =
     (if v mod divisor * 2 < divisor \<or> (v mod divisor * 2 = divisor \<and> even (v div divisor))
      then v div divisor else v div divisor + 1)"

definition shrunk_side :: "int \<Rightarrow> int \<Rightarrow> f64 \<Rightarrow> int option" where
  "shrunk_side source_side factor beta =
     Option.bind (f64_floor_sint 64 (f64_div (f64_div (f64_of_int source_side) beta) (f64_of_int factor))) (\<lambda>q.
     Option.bind (mul64 q factor) (\<lambda>side. Some (max factor side)))"

definition grown_side :: "int \<Rightarrow> int \<Rightarrow> f64 \<Rightarrow> int option" where
  "grown_side source_side factor beta =
     Option.bind (f64_ceil_sint 64 (f64_div (f64_mul (f64_of_int source_side) beta) (f64_of_int factor))) (\<lambda>q.
       mul64 q factor)"

definition both_sides :: "int option \<Rightarrow> int option \<Rightarrow> (int \<times> int) option" where
  "both_sides height width = Option.bind height (\<lambda>h. Option.bind width (\<lambda>w. Some (w, h)))"

definition smart_sides :: "int \<Rightarrow> int \<Rightarrow> int \<Rightarrow> int \<Rightarrow> int \<Rightarrow> (int \<times> int) option" where
  "smart_sides source_width source_height factor min_pixels max_pixels =
     Option.bind (mul64 (round_div_ties_to_even source_height factor) factor) (\<lambda>resized_height.
     Option.bind (mul64 (round_div_ties_to_even source_width factor) factor) (\<lambda>resized_width.
     Option.bind (mul64 source_height source_width) (\<lambda>source_pixels.
     Option.bind (mul64 resized_height resized_width) (\<lambda>rounded_pixels.
       if rounded_pixels > max_pixels then
         both_sides
           (shrunk_side source_height factor (f64_sqrt (f64_div (f64_of_int source_pixels) (f64_of_int max_pixels))))
           (shrunk_side source_width factor (f64_sqrt (f64_div (f64_of_int source_pixels) (f64_of_int max_pixels))))
       else if rounded_pixels < min_pixels then
         both_sides
           (grown_side source_height factor (f64_sqrt (f64_div (f64_of_int min_pixels) (f64_of_int source_pixels))))
           (grown_side source_width factor (f64_sqrt (f64_div (f64_of_int min_pixels) (f64_of_int source_pixels))))
       else Some (resized_width, resized_height)))))"

definition qwen3vl_smart_resize_dimensions :: "int \<Rightarrow> int \<Rightarrow> int \<Rightarrow> int \<Rightarrow> int \<Rightarrow> (int \<times> int) run" where
  "qwen3vl_smart_resize_dimensions source_width source_height factor min_pixels max_pixels =
     (if source_width \<le> 0 \<or> source_height \<le> 0 \<or> factor \<le> 0 \<or> min_pixels \<le> 0 \<or> max_pixels < min_pixels then
        Some (Inl ''Qwen3-VL smart resize received an invalid dimension or pixel bound'')
      else if f64_lt (f64_of_int 200) (f64_div (f64_of_int (max source_width source_height))
                (f64_of_int (min source_width source_height))) then
        Some (Inl ''Qwen3-VL smart resize requires an absolute aspect ratio of at most 200'')
      else Option.bind (smart_sides source_width source_height factor min_pixels max_pixels) (\<lambda>(width, height).
        if width \<le> 0 \<or> height \<le> 0 \<or> width > INT_MAX \<or> height > INT_MAX \<or> width > INT64_MAX div height then
          Some (Inl ''Qwen3-VL smart resize produced an unsupported output dimension'')
        else Some (Inr (width, height))))"

definition preprocess_qwen3vl_rgb ::
  "u8 list option \<Rightarrow> int \<Rightarrow> int \<Rightarrow> int \<Rightarrow> int \<Rightarrow> int \<Rightarrow> int \<Rightarrow> int \<Rightarrow> int \<Rightarrow> (u8 list \<times> int \<times> int \<times> int) run"
where
  "preprocess_qwen3vl_rgb source source_width source_height channels source_stride patch_size spatial_merge_size
       min_pixels max_pixels =
     (if channels \<noteq> 3 then Some (Inl ''Qwen3-VL input image must be RGB'')
      else if patch_size \<le> 0 \<or> spatial_merge_size \<le> 0 \<or> patch_size > INT_MAX div spatial_merge_size then
        Some (Inl ''Qwen3-VL patch or spatial merge size is invalid'')
      else bind_run (qwen3vl_smart_resize_dimensions source_width source_height (patch_size * spatial_merge_size)
             min_pixels max_pixels) (\<lambda>(target_width, target_height).
        bind_run (resize_torchvision_bicubic_aa_rgb source source_width source_height source_stride
             target_width target_height) (\<lambda>target.
          let tokens = target_width div (patch_size * spatial_merge_size) *
                (target_height div (patch_size * spatial_merge_size))
          in if tokens \<le> 0 \<or> tokens > INT_MAX then
               Some (Inl ''Qwen3-VL smart resize produced an unsupported image token count'')
             else Some (Inr (target, target_width, target_height, tokens)))))"

definition preprocess_oft_rgb ::
  "u8 list option \<Rightarrow> int \<Rightarrow> int \<Rightarrow> int \<Rightarrow> int \<Rightarrow> int \<Rightarrow> int \<Rightarrow> int \<Rightarrow> int \<Rightarrow> u8 list run"
where
  "preprocess_oft_rgb source source_width source_height channels source_stride training_width training_height
       processor_width processor_height =
     (if channels \<noteq> 3 then Some (Inl ''StarVLA OFT input image must be RGB'')
      else bind_run (resize_pillow_bicubic_rgb source source_width source_height source_stride
             training_width training_height) (\<lambda>training_image.
        if INT_MAX < training_width * 3 then None
        else resize_torchvision_bicubic_aa_rgb (Some training_image) training_width training_height
               (training_width * 3) processor_width processor_height))"

subsection \<open>Tables and reads\<close>

definition table_ok :: "int \<Rightarrow> int \<Rightarrow> filter_table \<Rightarrow> bool" where
  "table_ok input_size output_size t \<longleftrightarrow>
     length (ft_first t) = nat output_size \<and> length (ft_count t) = nat output_size \<and>
     length (ft_weights t) = nat output_size * nat (ft_kernel_size t) \<and>
     list_all (\<lambda>(first, count). 0 \<le> first \<and> 0 \<le> count \<and> count \<le> max 0 (ft_kernel_size t) \<and>
       (0 < count \<longrightarrow> first + count \<le> input_size)) (zip (ft_first t) (ft_count t)) \<and>
     list_all (fits_sint 32) (ft_weights t)"

text \<open>A table that the passes can use: its fixed-point scale is positive, and the sums of a kernel fit 64
  bits.\<close>

definition table_usable :: "filter_table \<Rightarrow> bool" where
  "table_usable t \<longleftrightarrow> 1 \<le> ft_precision t \<and> ft_precision t \<le> 22 \<and> ft_kernel_size t \<le> 8388608"

lemma filter_window_bounds:
  assumes "filter_window center support input_size kernel_size = Some (first, count)"
  shows "0 \<le> first \<and> 0 \<le> count \<and> count \<le> max 0 kernel_size \<and> (0 < count \<longrightarrow> first + count \<le> input_size)"
proof -
  obtain low high where "first = max low 0" "count = max 0 (min (min high input_size - max low 0) kernel_size)"
    using assms by (auto simp: filter_window_def Option.bind_eq_Some_conv)
  then show ?thesis by (auto simp: max_def min_def)
qed

lemma length_pad_weights: "length ws \<le> nat k \<Longrightarrow> length (pad_weights k ws) = nat k"
  by (simp add: pad_weights_def)

lemma length_normalized [simp]: "length (normalized_weights ws) = length ws"
  by (simp add: normalized_weights_def)

lemma fixed_weight_fits: "fixed_weight m w = Some v \<Longrightarrow> fits_sint 32 v"
  by (auto simp: fixed_weight_def f64_to_sint_def to_sint_def split: if_splits)

lemma make_filter_table_ok:
  assumes "make_filter_table input_size output_size pillow = Some t"
  shows "table_ok input_size output_size t"
proof -
  obtain k windows p ws where k: "filter_windows input_size output_size k = Some windows"
    and ws: "those (map (fixed_weight (f64_of_int (2 ^ p))) (concat (map (\<lambda>ws. pad_weights k (normalized_weights ws))
          (raw_weights input_size output_size windows)))) = Some ws"
    and t: "t = \<lparr>ft_kernel_size = k, ft_precision = int p, ft_first = map fst windows,
         ft_count = map snd windows, ft_weights = ws\<rparr>"
    using assms by (auto simp: make_filter_table_def Option.bind_eq_Some_conv)
  have len: "length windows = nat output_size"
    using those_length [OF k [unfolded filter_windows_def]] by simp
  have window: "0 \<le> fst w \<and> 0 \<le> snd w \<and> snd w \<le> max 0 k \<and> (0 < snd w \<longrightarrow> fst w + snd w \<le> input_size)"
    if "w \<in> set windows" for w
  proof -
    have "Some w \<in> set (map Some windows)" using that by simp
    then have "Some w \<in> set (map (\<lambda>output. filter_window
        (filter_center (f64_div (f64_of_int input_size) (f64_of_int output_size)) output)
        (filter_support input_size output_size) input_size k) [0..<nat output_size])"
      using k unfolding filter_windows_def those_Some by simp
    then obtain c s where "filter_window c s input_size k = Some w" by auto
    then show ?thesis using filter_window_bounds [of c s input_size k "fst w" "snd w"] by simp
  qed
  have "length (concat (map (\<lambda>ws. pad_weights k (normalized_weights ws))
      (raw_weights input_size output_size windows))) = nat k * length (raw_weights input_size output_size windows)"
  proof (rule length_concat_const)
    fix ws assume "ws \<in> set (raw_weights input_size output_size windows)"
    then obtain w where "w \<in> set windows" "length ws = nat (snd w)"
      by (auto simp: raw_weights_def tap_weights_def in_set_enumerate_eq)
        (metis nth_mem snd_conv)
    then show "length (pad_weights k (normalized_weights ws)) = nat k"
      using window [of w] by (intro length_pad_weights) auto
  qed
  then have "length ws = nat output_size * nat k"
    using those_length [OF ws] len by (simp add: raw_weights_def mult.commute)
  moreover have "fits_sint 32 v" if "v \<in> set ws" for v
  proof -
    have "Some v \<in> set (map Some ws)" using that by simp
    then have "Some v \<in> fixed_weight (f64_of_int (2 ^ p)) ` set (concat (map (\<lambda>ws. pad_weights k (normalized_weights ws))
          (raw_weights input_size output_size windows)))"
      using ws unfolding those_Some set_map [symmetric] by (simp only:)
    then show ?thesis using fixed_weight_fits by (metis imageE)
  qed
  ultimately show ?thesis
    using window len by (auto simp: table_ok_def t list_all_iff zip_map_fst_snd)
qed

subsection \<open>The passes are defined\<close>

lemma accumulate_defined:
  assumes "\<forall>t\<in>set ts. \<exists>v. t = Some v \<and> \<bar>v\<bar> \<le> b" "0 \<le> b" "\<bar>a\<bar> + int (length ts) * b < 2 ^ 63"
  shows "accumulate ts a \<noteq> None"
  using assms
proof (induction ts arbitrary: a)
  case (Cons t ts)
  then obtain v where v: "t = Some v" "\<bar>v\<bar> \<le> b" by auto
  have "\<bar>a + v\<bar> + int (length ts) * b \<le> \<bar>a\<bar> + int (length (t # ts)) * b"
    using v(2) by (simp add: distrib_right abs_triangle_ineq [THEN order_trans])
  then have sum: "\<bar>a + v\<bar> + int (length ts) * b < 2 ^ 63" using Cons.prems(3) by linarith
  moreover have "0 \<le> int (length ts) * b" using Cons.prems(2) by simp
  ultimately have "\<bar>a + v\<bar> < 2 ^ 63" by linarith
  then have "fits_sint 64 (a + v)" by (auto simp: fits_sint_def abs_less_iff)
  then show ?case using Cons v sum by simp
qed simp

lemma fill_image_defined:
  assumes "\<And>row column channel. row < nat height \<Longrightarrow> column < nat width \<Longrightarrow> channel < 3 \<Longrightarrow>
    pixel row column channel \<noteq> None"
  shows "\<exists>pixels. fill_image width height pixel = Some \<lparr>im_width = width, im_height = height, im_pixels = pixels\<rparr> \<and>
    length pixels = nat width * nat height * 3"
proof -
  let ?cells = "concat (map (\<lambda>row. concat (map (\<lambda>column. map (pixel row column) [0..<3]) [0..<nat width])) [0..<nat height])"
  have "\<exists>pixels. those ?cells = Some pixels"
    using assms by (intro those_exists) auto
  then obtain pixels where pixels: "those ?cells = Some pixels" by blast
  have "length ?cells = (3 * nat width) * length [0..<nat height]"
    by (intro length_concat_const) (simp add: length_concat_const)
  with pixels show ?thesis using those_length [OF pixels] by (simp add: fill_image_def)
qed

text \<open>An image holds three bytes for each of its pixels.\<close>

definition rgb_image_ok :: "rgb_image \<Rightarrow> bool" where
  "rgb_image_ok img \<longleftrightarrow> 0 \<le> im_width img \<and> 0 \<le> im_height img \<and>
     length (im_pixels img) = nat (im_width img) * nat (im_height img) * 3"

lemma pixel_index:
  assumes "rgb_image_ok img" "0 \<le> r" "r < im_height img" "0 \<le> c" "c < im_width img" "ch < 3"
  shows "read_at (im_pixels img) ((r * im_width img + c) * 3 + int ch) \<noteq> None"
proof -
  have "(r + 1) * im_width img \<le> im_height img * im_width img"
    using assms by (intro mult_right_mono) auto
  then have "r * im_width img + c + 1 \<le> im_height img * im_width img"
    using assms by (simp add: algebra_simps)
  moreover have "0 \<le> r * im_width img" using assms by simp
  ultimately have "0 \<le> (r * im_width img + c) * 3 + int ch"
    "(r * im_width img + c) * 3 + int ch < im_width img * im_height img * 3"
    using assms by (simp_all add: algebra_simps)
  moreover have "int (length (im_pixels img)) = im_width img * im_height img * 3"
    using assms(1) by (simp add: rgb_image_ok_def)
  ultimately show ?thesis by (simp add: read_at_def)
qed

lemma weight_index:
  assumes "table_ok n m t" "j < nat m" "int i < ft_kernel_size t"
  shows "\<exists>w. read_at (ft_weights t) (int j * ft_kernel_size t + int i) = Some w \<and> fits_sint 32 w"
proof -
  let ?k = "ft_kernel_size t"
  have "int (length (ft_weights t)) = int (nat m) * ?k"
    using assms by (simp add: table_ok_def)
  moreover have "(int j + 1) * ?k \<le> int (nat m) * ?k"
    using assms by (intro mult_right_mono) auto
  then have "int j * ?k + int i < int (nat m) * ?k" using assms(3) by (simp add: distrib_right)
  moreover have "0 \<le> int j * ?k" using assms(3) by simp
  ultimately have "0 \<le> int j * ?k + int i" "int j * ?k + int i < int (length (ft_weights t))" by linarith+
  then have "read_at (ft_weights t) (int j * ?k + int i) = Some (ft_weights t ! nat (int j * ?k + int i))"
    "ft_weights t ! nat (int j * ?k + int i) \<in> set (ft_weights t)"
    by (rule read_at_nth, intro nth_mem) linarith
  then show ?thesis using assms(1) by (auto simp: table_ok_def list_all_iff)
qed

lemma filtered_pixel_defined:
  assumes ok: "table_ok n m t" "table_usable t" and j: "j < nat m"
    and taps: "\<And>count i. read_at (ft_count t) (int j) = Some count \<Longrightarrow> int i < count \<Longrightarrow>
      \<exists>p. read_at (im_pixels img) (index i) = Some p"
  shows "filtered_pixel t (int j) (\<lambda>count. map (\<lambda>i. tap img t (index i) (int j * ft_kernel_size t + int i))
    [0..<nat count]) \<noteq> None"
proof -
  have len: "length (ft_count t) = nat m" "length (ft_first t) = nat m" using ok(1) by (simp_all add: table_ok_def)
  define count where "count = ft_count t ! j"
  have count: "read_at (ft_count t) (int j) = Some count"
    unfolding count_def using j len(1) by (subst read_at_nth) auto
  have "(ft_first t ! j, count) \<in> set (zip (ft_first t) (ft_count t))"
    using j by (auto simp: set_zip len count_def)
  then have bound: "0 \<le> count" "count \<le> max 0 (ft_kernel_size t)"
    using ok(1) by (auto simp: table_ok_def list_all_iff)
  let ?taps = "map (\<lambda>i. tap img t (index i) (int j * ft_kernel_size t + int i)) [0..<nat count]"
  have "\<exists>v. tap img t (index i) (int j * ft_kernel_size t + int i) = Some v \<and> \<bar>v\<bar> \<le> 255 * 2147483648"
    if i: "int i < count" for i
  proof -
    obtain p where p: "read_at (im_pixels img) (index i) = Some p" using taps [OF count i] by blast
    have "int i < ft_kernel_size t" using i bound by linarith
    from weight_index [OF ok(1) j this] obtain w where
      w: "read_at (ft_weights t) (int j * ft_kernel_size t + int i) = Some w" "fits_sint 32 w" by blast
    have "uint p < 256" using unsigned_less [of p, where ?'a = int] by simp
    then have "\<bar>uint p * w\<bar> \<le> 255 * 2147483648"
      unfolding abs_mult using w(2) by (intro mult_mono) (auto simp: fits_sint_def)
    with p w(1) show ?thesis by (simp add: tap_def)
  qed
  then have small: "\<forall>x\<in>set ?taps. \<exists>v. x = Some v \<and> \<bar>v\<bar> \<le> 255 * 2147483648" by auto
  have "(2::int) ^ nat (ft_precision t - 1) \<le> 2 ^ 21"
    using ok(2) by (intro power_increasing) (auto simp: table_usable_def)
  then have "\<bar>(2::int) ^ nat (ft_precision t - 1)\<bar> \<le> 2097152" by simp
  moreover have "int (length ?taps) \<le> 8388608" using bound ok(2) by (auto simp: table_usable_def max_def split: if_splits)
  then have "int (length ?taps) * (255 * 2147483648) \<le> 8388608 * (255 * 2147483648)"
    by (intro mult_right_mono) simp_all
  ultimately have "\<bar>(2::int) ^ nat (ft_precision t - 1)\<bar> + int (length ?taps) * (255 * 2147483648) < 9223372036854775808"
    by linarith
  moreover have "(2::int) ^ 63 = 9223372036854775808" by simp
  ultimately have "\<bar>(2::int) ^ nat (ft_precision t - 1)\<bar> + int (length ?taps) * (255 * 2147483648) < 2 ^ 63"
    by (simp only:)
  with small have "accumulate ?taps (2 ^ nat (ft_precision t - 1)) \<noteq> None"
    by (intro accumulate_defined [where b = "255 * 2147483648"]) simp_all
  then show ?thesis
    using ok(2) by (auto simp: filtered_pixel_def count table_rounding_def table_usable_def Option.bind_eq_None_conv)
qed

lemma table_window:
  assumes "table_ok n m t" "j < nat m"
  shows "\<exists>first. read_at (ft_first t) (int j) = Some first \<and> 0 \<le> first \<and>
    (\<forall>count i. read_at (ft_count t) (int j) = Some count \<longrightarrow> int i < count \<longrightarrow> first + int i < n)"
proof -
  have len: "length (ft_first t) = nat m" "length (ft_count t) = nat m" using assms(1) by (simp_all add: table_ok_def)
  then have "(ft_first t ! j, ft_count t ! j) \<in> set (zip (ft_first t) (ft_count t))"
    using assms(2) by (auto simp: set_zip)
  then have "0 \<le> ft_first t ! j" "0 < ft_count t ! j \<Longrightarrow> ft_first t ! j + ft_count t ! j \<le> n"
    using assms(1) by (auto simp: table_ok_def list_all_iff)
  moreover have "read_at (ft_first t) (int j) = Some (ft_first t ! j)" "read_at (ft_count t) (int j) = Some (ft_count t ! j)"
    using assms(2) len by (subst read_at_nth; auto)+
  ultimately show ?thesis by (intro exI [of _ "ft_first t ! j"]) auto
qed

lemma resize_horizontal_defined:
  assumes img: "rgb_image_ok img" and t: "table_ok (im_width img) m t" "table_usable t" and m: "0 \<le> m"
  shows "\<exists>r. resize_horizontal img m t = Some r \<and> rgb_image_ok r \<and> im_width r = m \<and> im_height r = im_height img"
proof -
  have cells: "horizontal_pixel img t row column channel \<noteq> None"
    if rc: "row < nat (im_height img)" "column < nat m" "channel < 3" for row column channel
  proof -
    obtain first where first: "read_at (ft_first t) (int column) = Some first" "0 \<le> first"
      "\<And>count i. read_at (ft_count t) (int column) = Some count \<Longrightarrow> int i < count \<Longrightarrow> first + int i < im_width img"
      using table_window [OF t(1) rc(2)] by blast
    have "\<exists>p. read_at (im_pixels img) ((int row * im_width img + first + int i) * 3 + int channel) = Some p"
      if "read_at (ft_count t) (int column) = Some count" "int i < count" for count i
      using pixel_index [OF img, of "int row" "first + int i" channel] first(2) first(3) [OF that]
        rc by (auto simp: add.assoc)
    from filtered_pixel_defined [OF t rc(2), of img, OF this]
    show ?thesis by (simp add: horizontal_pixel_def first(1))
  qed
  have "\<exists>pixels. fill_image m (im_height img) (horizontal_pixel img t) =
      Some \<lparr>im_width = m, im_height = im_height img, im_pixels = pixels\<rparr> \<and> length pixels = nat m * nat (im_height img) * 3"
    by (rule fill_image_defined) (rule cells)
  then obtain pixels where
    "resize_horizontal img m t = Some \<lparr>im_width = m, im_height = im_height img, im_pixels = pixels\<rparr>"
    "length pixels = nat m * nat (im_height img) * 3"
    by (auto simp: resize_horizontal_def)
  then show ?thesis using img m by (auto simp: rgb_image_ok_def)
qed

lemma resize_vertical_defined:
  assumes img: "rgb_image_ok img" and t: "table_ok (im_height img) m t" "table_usable t" and m: "0 \<le> m"
  shows "\<exists>r. resize_vertical img m t = Some r \<and> rgb_image_ok r \<and> im_width r = im_width img \<and> im_height r = m"
proof -
  have cells: "vertical_pixel img t row column channel \<noteq> None"
    if rc: "row < nat m" "column < nat (im_width img)" "channel < 3" for row column channel
  proof -
    obtain first where first: "read_at (ft_first t) (int row) = Some first" "0 \<le> first"
      "\<And>count i. read_at (ft_count t) (int row) = Some count \<Longrightarrow> int i < count \<Longrightarrow> first + int i < im_height img"
      using table_window [OF t(1) rc(1)] by blast
    have "\<exists>p. read_at (im_pixels img) (((first + int i) * im_width img + int column) * 3 + int channel) = Some p"
      if "read_at (ft_count t) (int row) = Some count" "int i < count" for count i
      using pixel_index [OF img, of "first + int i" "int column" channel] first(2) first(3) [OF that]
        rc by auto
    from filtered_pixel_defined [OF t rc(1), of img, OF this]
    show ?thesis by (simp add: vertical_pixel_def first(1))
  qed
  have "\<exists>pixels. fill_image (im_width img) m (vertical_pixel img t) =
      Some \<lparr>im_width = im_width img, im_height = m, im_pixels = pixels\<rparr> \<and> length pixels = nat (im_width img) * nat m * 3"
    by (rule fill_image_defined) (rule cells)
  then obtain pixels where
    "resize_vertical img m t = Some \<lparr>im_width = im_width img, im_height = m, im_pixels = pixels\<rparr>"
    "length pixels = nat (im_width img) * nat m * 3"
    by (auto simp: resize_vertical_def)
  then show ?thesis using img m by (auto simp: rgb_image_ok_def)
qed

text \<open>A buffer that holds every row of an image: the last row need not be padded to the stride.\<close>

definition rows_in_buffer :: "u8 list \<Rightarrow> int \<Rightarrow> int \<Rightarrow> int \<Rightarrow> bool" where
  "rows_in_buffer source width height stride \<longleftrightarrow>
     (height - 1) * row_stride width stride + width * 3 \<le> int (length source)"

lemma pack_source_defined:
  assumes "rows_in_buffer source width height stride" "0 < width" "0 < height" "stride = 0 \<or> width * 3 \<le> stride"
  shows "\<exists>img. pack_source source width height stride = Some img \<and> rgb_image_ok img \<and>
    im_width img = width \<and> im_height img = height"
proof -
  let ?st = "row_stride width stride"
  have st: "0 < ?st" using assms(2,4) by (auto simp: row_stride_def)
  have row: "source_row source width stride i = Some (take (nat (width * 3)) (drop (nat (int i * ?st)) source))"
    "length (take (nat (width * 3)) (drop (nat (int i * ?st)) source)) = nat (width * 3)"
    if "i < nat height" for i
  proof -
    have "int i * ?st \<le> (height - 1) * ?st" using that st by (intro mult_right_mono) auto
    then have *: "int i * ?st + width * 3 \<le> int (length source)"
      using assms(1) unfolding rows_in_buffer_def by linarith
    then show "source_row source width stride i = Some (take (nat (width * 3)) (drop (nat (int i * ?st)) source))"
      by (simp add: source_row_def)
    have "0 \<le> int i * ?st" using st by simp
    with * show "length (take (nat (width * 3)) (drop (nat (int i * ?st)) source)) = nat (width * 3)"
      using assms(2) by (simp add: min_def) linarith
  qed
  have "map (source_row source width stride) [0..<nat height] =
      map Some (map (\<lambda>i. take (nat (width * 3)) (drop (nat (int i * ?st)) source)) [0..<nat height])"
    using row(1) by simp
  then have "those (map (source_row source width stride) [0..<nat height]) =
      Some (map (\<lambda>i. take (nat (width * 3)) (drop (nat (int i * ?st)) source)) [0..<nat height])"
    unfolding those_Some .
  moreover have "length (concat (map (\<lambda>i. take (nat (width * 3)) (drop (nat (int i * ?st)) source)) [0..<nat height])) =
      nat (width * 3) * length [0..<nat height]"
    using row(2) by (intro length_concat_const) simp
  ultimately show ?thesis using assms(2,3)
    by (auto simp: pack_source_def rgb_image_ok_def nat_mult_distrib)
qed

subsection \<open>Results of resizing\<close>

lemma fill_image_shape:
  assumes "fill_image width height pixel = Some r"
  shows "im_width r = width \<and> im_height r = height \<and> length (im_pixels r) = nat width * nat height * 3"
proof -
  let ?cells = "concat (map (\<lambda>row. concat (map (\<lambda>column. map (pixel row column) [0..<3]) [0..<nat width])) [0..<nat height])"
  obtain pixels where pixels: "those ?cells = Some pixels"
    and r: "r = \<lparr>im_width = width, im_height = height, im_pixels = pixels\<rparr>"
    using assms by (auto simp: fill_image_def)
  have "length ?cells = (3 * nat width) * length [0..<nat height]"
    by (intro length_concat_const) (simp add: length_concat_const)
  with those_length [OF pixels] r show ?thesis by simp
qed

lemma pack_source_shape:
  assumes "pack_source source width height stride = Some r" "0 < width"
  shows "im_width r = width \<and> im_height r = height \<and> length (im_pixels r) = nat width * nat height * 3"
proof -
  obtain rows where rows: "those (map (source_row source width stride) [0..<nat height]) = Some rows"
    and r: "r = \<lparr>im_width = width, im_height = height, im_pixels = concat rows\<rparr>"
    using assms by (auto simp: pack_source_def)
  have "length ws = nat (width * 3)" if "ws \<in> set rows" for ws
  proof -
    have "Some ws \<in> set (map (source_row source width stride) [0..<nat height])"
      using rows that unfolding those_Some by simp
    then obtain i where "source_row source width stride i = Some ws" by auto
    moreover have "0 \<le> int i * row_stride width stride" using assms(2) by (simp add: row_stride_def)
    ultimately show ?thesis by (auto simp: source_row_def min_def split: if_splits)
  qed
  then have "length (concat (map id rows)) = nat (width * 3) * length rows"
    by (intro length_concat_const) simp
  moreover have "nat (width * 3) = nat width * 3" using assms(2) by (simp add: nat_mult_distrib)
  ultimately show ?thesis using those_length [OF rows] r by simp
qed

lemma resize_rgb_shape:
  assumes "resize_rgb source w h stride tw th pillow = Some (Inr pixels)"
  shows "0 < tw \<and> 0 < th \<and> length pixels = nat tw * nat th * 3"
proof -
  obtain bytes packed current target where
    valid: "validate_resize source w h stride tw th = Some (Inr ())"
    and packed: "pack_source bytes w h stride = Some packed"
    and current: "resize_pass pillow resize_horizontal w tw packed = Some current"
    and target: "resize_pass pillow resize_vertical h th current = Some target" "pixels = im_pixels target"
    using assms by (auto simp: resize_rgb_def res_simps Option.bind_eq_Some_conv)
  have pos: "0 < w" "0 < h" "0 < tw" "0 < th" using valid by (auto simp: validate_resize_def split: if_splits)
  note p = pack_source_shape [OF packed pos(1)]
  have c: "im_width current = tw \<and> im_height current = h \<and> length (im_pixels current) = nat tw * nat h * 3"
    using current p fill_image_shape
    by (fastforce simp: resize_pass_def resize_horizontal_def Option.bind_eq_Some_conv split: if_splits)
  have "length (im_pixels target) = nat tw * nat th * 3"
    using target(1) c fill_image_shape
    by (fastforce simp: resize_pass_def resize_vertical_def Option.bind_eq_Some_conv split: if_splits)
  with pos target(2) show ?thesis by simp
qed

lemma resize_pass_defined:
  assumes "from_size \<noteq> to_size \<Longrightarrow> \<exists>t. make_filter_table from_size to_size pillow = Some t \<and> table_usable t"
    and "\<And>t. table_ok from_size to_size t \<Longrightarrow> table_usable t \<Longrightarrow> \<exists>r. pass current to_size t = Some r \<and> Q r"
    and "from_size = to_size \<Longrightarrow> Q current"
  shows "\<exists>r. resize_pass pillow pass from_size to_size current = Some r \<and> Q r"
proof (cases "from_size = to_size")
  case False
  with assms(1) obtain t where t: "make_filter_table from_size to_size pillow = Some t" "table_usable t" by blast
  from assms(2) [OF make_filter_table_ok [OF t(1)] t(2)] t False show ?thesis by (auto simp: resize_pass_def)
qed (use assms(3) in \<open>simp add: resize_pass_def\<close>)

lemma resize_rgb_defined:
  assumes dims: "0 < w" "0 < h" "0 < tw" "0 < th" "w * 3 \<le> INT_MAX"
    and source: "rows_in_buffer source w h stride" "stride = 0 \<or> w * 3 \<le> stride"
    and tables: "w \<noteq> tw \<Longrightarrow> \<exists>t. make_filter_table w tw pillow = Some t \<and> table_usable t"
      "h \<noteq> th \<Longrightarrow> \<exists>t. make_filter_table h th pillow = Some t \<and> table_usable t"
  shows "\<exists>pixels. resize_rgb (Some source) w h stride tw th pillow = Some (Inr pixels)"
proof -
  have "\<not> 18446744073709551615 < tw * th * 3 mod 18446744073709551616"
    by (simp add: not_less)
  then have valid: "validate_resize (Some source) w h stride tw th = Some (Inr ())"
    using dims source(2) by (auto simp: validate_resize_def)
  obtain packed where packed: "pack_source source w h stride = Some packed" "rgb_image_ok packed"
    "im_width packed = w" "im_height packed = h"
    using pack_source_defined [OF source(1) dims(1,2) source(2)] by blast
  have "\<exists>r. resize_pass pillow resize_horizontal w tw packed = Some r \<and> (rgb_image_ok r \<and> im_width r = tw \<and> im_height r = h)"
    using tables(1) resize_horizontal_defined [OF packed(2)] packed dims
    by (intro resize_pass_defined) auto
  then obtain current where current: "resize_pass pillow resize_horizontal w tw packed = Some current"
    "rgb_image_ok current" "im_width current = tw" "im_height current = h" by blast
  have "\<exists>r. resize_pass pillow resize_vertical h th current = Some r \<and> rgb_image_ok r"
    using tables(2) resize_vertical_defined [OF current(2), of th] current dims
    by (intro resize_pass_defined) auto
  then show ?thesis by (auto simp: resize_rgb_def valid packed current)
qed

subsection \<open>Results of the smart resize\<close>

lemma round_div_bounds:
  assumes "0 < d" "0 \<le> v"
  shows "2 * \<bar>round_div_ties_to_even v d * d - v\<bar> \<le> d"
proof -
  define q where "q = v div d * d"
  have "v = q + v mod d" "0 \<le> v mod d" "v mod d < d" using assms by (simp_all add: q_def)
  moreover have "(v div d + 1) * d = q + d" by (simp add: q_def distrib_right)
  ultimately show ?thesis unfolding round_div_ties_to_even_def by (auto simp: q_def [symmetric])
qed

lemma smart_sides_dvd:
  assumes "smart_sides sw sh factor lo hi = Some (w, h)"
  shows "factor dvd w \<and> factor dvd h"
proof -
  have mult: "mul64 q factor = Some side \<Longrightarrow> factor dvd side" for q side
    by (auto simp: mul64_def split: if_splits)
  have "shrunk_side s factor b = Some side \<Longrightarrow> factor dvd side" for s b side
    using mult by (auto simp: shrunk_side_def Option.bind_eq_Some_conv max_def split: if_splits)
  moreover have "grown_side s factor b = Some side \<Longrightarrow> factor dvd side" for s b side
    using mult by (auto simp: grown_side_def Option.bind_eq_Some_conv)
  ultimately show ?thesis using assms mult
    by (auto simp: smart_sides_def both_sides_def Option.bind_eq_Some_conv split: if_splits)
qed

lemma smart_resize_Inr:
  assumes "qwen3vl_smart_resize_dimensions sw sh factor lo hi = Some (Inr (w, h))"
  shows "0 < factor \<and> 0 < w \<and> 0 < h \<and> w \<le> INT_MAX \<and> h \<le> INT_MAX \<and> factor dvd w \<and> factor dvd h"
  using assms smart_sides_dvd
  by (auto simp: qwen3vl_smart_resize_dimensions_def Option.bind_eq_Some_conv split: if_splits prod.splits)

lemma smart_resize_nearest:
  assumes "qwen3vl_smart_resize_dimensions sw sh factor lo hi = Some (Inr (w, h))"
    and "lo \<le> round_div_ties_to_even sh factor * factor * (round_div_ties_to_even sw factor * factor)"
    and "round_div_ties_to_even sh factor * factor * (round_div_ties_to_even sw factor * factor) \<le> hi"
  shows "w = round_div_ties_to_even sw factor * factor \<and> h = round_div_ties_to_even sh factor * factor"
  using assms
  by (auto simp: qwen3vl_smart_resize_dimensions_def smart_sides_def mul64_def Option.bind_eq_Some_conv
      split: if_splits prod.splits)

lemma preprocess_qwen_Inr:
  assumes "preprocess_qwen3vl_rgb source sw sh channels stride patch merge lo hi = Some (Inr (target, w, h, tokens))"
  shows "0 < patch * merge \<and> 0 < w \<and> 0 < h \<and> w \<le> INT_MAX \<and> h \<le> INT_MAX \<and> length target = nat w * nat h * 3 \<and>
    w = patch * merge * (w div (patch * merge)) \<and> h = patch * merge * (h div (patch * merge)) \<and>
    tokens = w div (patch * merge) * (h div (patch * merge)) \<and> 0 < tokens \<and> tokens \<le> INT_MAX"
proof -
  have smart: "qwen3vl_smart_resize_dimensions sw sh (patch * merge) lo hi = Some (Inr (w, h))"
    and resized: "resize_rgb source sw sh stride w h False = Some (Inr target)"
    and tokens: "tokens = w div (patch * merge) * (h div (patch * merge))" "0 < tokens" "tokens \<le> INT_MAX"
    using assms
    by (auto simp: preprocess_qwen3vl_rgb_def resize_torchvision_bicubic_aa_rgb_def res_simps Let_def
        split: if_splits prod.splits)
  show ?thesis using smart_resize_Inr [OF smart] resize_rgb_shape [OF resized] tokens by auto
qed

subsection \<open>A small table\<close>

text \<open>Two columns averaged into one.\<close>

lemma halving_steps:
  "filter_scale 2 1 = 0x4000000000000000"
  "f64_div (f64_of_int 2) (f64_of_int 1) = 0x4000000000000000"
  "filter_kernel 2 1 = Some 9"
  "filter_center 0x4000000000000000 0 = f64_one"
  "filter_window f64_one (filter_support 2 1) 2 9 = Some (0, 2)"
  by (simp_all add: filter_scale_def filter_kernel_def filter_support_def filter_center_def filter_window_def ieee_eval)

lemma halving_taps:
  "keys_cubic (f64_div (f64_add (f64_sub (f64_of_int 0) f64_one) f64_half) 0x4000000000000000) = 0x3FEBC00000000000"
  "keys_cubic (f64_div (f64_add (f64_sub (f64_of_int 1) f64_one) f64_half) 0x4000000000000000) = 0x3FEBC00000000000"
  by (simp_all add: keys_cubic_def ieee_eval)

lemma halving_fixed:
  "weight_sum [0x3FEBC00000000000, 0x3FEBC00000000000] = 0x3FFBC00000000000"
  "f64_eq 0x3FFBC00000000000 f64_zero = False"
  "f64_div 0x3FEBC00000000000 0x3FFBC00000000000 = f64_half"
  "fixed_weight (f64_of_int 4194304) f64_half = Some 2097152"
  "fixed_weight (f64_of_int 4194304) f64_zero = Some 0"
  by (simp_all add: weight_sum_def fixed_weight_def ieee_eval)

lemma halving_table:
  "make_filter_table 2 1 True = Some \<lparr>ft_kernel_size = 9, ft_precision = 22, ft_first = [0], ft_count = [2],
     ft_weights = [2097152, 2097152, 0, 0, 0, 0, 0, 0, 0]\<rparr>"
proof -
  have windows: "filter_windows 2 1 9 = Some [(0, 2)]"
    by (simp add: filter_windows_def halving_steps)
  have raw: "raw_weights 2 1 [(0, 2)] = [[0x3FEBC00000000000, 0x3FEBC00000000000]]"
    by (simp add: raw_weights_def tap_weights_def halving_steps two_items halving_taps)
  have "normalized_weights [0x3FEBC00000000000, 0x3FEBC00000000000] = [f64_half, f64_half]"
    by (simp add: normalized_weights_def halving_fixed)
  moreover have "replicate 7 f64_zero = [f64_zero, f64_zero, f64_zero, f64_zero, f64_zero, f64_zero, f64_zero]"
    by (simp add: numeral_eq_Suc)
  ultimately show ?thesis
    by (simp add: make_filter_table_def halving_steps windows raw table_precision_def pad_weights_def halving_fixed)
qed

subsection \<open>Properties\<close>

text \<open>A resize of an image whose rows lie in its buffer is defined whenever the two filter tables
  are: no read outside the source, the intermediate image or a table, no overflow of the 64-bit sums, for
  every target size and stride.  It fills exactly the target image.\<close>

theorem resize_never_reads_outside:
  assumes "0 < w" "0 < h" "0 < tw" "0 < th" "w * 3 \<le> INT_MAX"
    and "rows_in_buffer source w h stride" "stride = 0 \<or> w * 3 \<le> stride"
    and "w \<noteq> tw \<Longrightarrow> \<exists>t. make_filter_table w tw pillow = Some t \<and> table_usable t"
    and "h \<noteq> th \<Longrightarrow> \<exists>t. make_filter_table h th pillow = Some t \<and> table_usable t"
  shows "\<exists>pixels. resize_rgb (Some source) w h stride tw th pillow = Some (Inr pixels) \<and>
    length pixels = nat tw * nat th * 3"
  using resize_rgb_defined [OF assms] resize_rgb_shape by blast

theorem resize_never_reads_outside_witness:
  "\<exists>pixels. resize_rgb (Some [10, 20, 30, 30, 40, 50]) 2 1 0 1 1 True = Some (Inr pixels) \<and> length pixels = 3"
  using resize_never_reads_outside [of 2 1 1 1 "[10, 20, 30, 30, 40, 50]" 0 True]
  by (simp add: INT_MAX_def rows_in_buffer_def row_stride_def halving_table table_usable_def)

text \<open>The smart resize returns positive multiples of the patch factor that fit a C++ int; when the
  nearest multiples of the source size already lie between the pixel bounds it returns these, at most half
  a factor away from the source.\<close>

theorem smart_resize_grid:
  assumes "qwen3vl_smart_resize_dimensions sw sh factor lo hi = Some (Inr (w, h))"
  shows "0 < w \<and> w \<le> INT_MAX \<and> factor dvd w \<and> 0 < h \<and> h \<le> INT_MAX \<and> factor dvd h \<and>
    (let rw = round_div_ties_to_even sw factor * factor; rh = round_div_ties_to_even sh factor * factor in
     lo \<le> rh * rw \<and> rh * rw \<le> hi \<longrightarrow>
     w = rw \<and> h = rh \<and> 2 * \<bar>w - sw\<bar> \<le> factor \<and> 2 * \<bar>h - sh\<bar> \<le> factor)"
proof -
  have "0 \<le> sw" "0 \<le> sh" using assms by (auto simp: qwen3vl_smart_resize_dimensions_def split: if_splits)
  then show ?thesis
    using smart_resize_Inr [OF assms] smart_resize_nearest [OF assms] round_div_bounds [of factor]
    by (simp add: Let_def)
qed

lemma unit_resize: "qwen3vl_smart_resize_dimensions 2 1 1 1 4 = Some (Inr (2, 1))"
  by (simp add: qwen3vl_smart_resize_dimensions_def smart_sides_def mul64_def round_div_ties_to_even_def
      INT_MAX_def INT64_MAX_def ieee_eval)

theorem smart_resize_grid_witness: "0 < (2::int) \<and> (1::int) dvd 2"
  using smart_resize_grid [OF unit_resize] by simp

text \<open>C37. A preprocessed image has three bytes per pixel, is a whole number of patch groups wide and high,
  and announces exactly one token per group.\<close>

theorem preprocessed_image_exact:
  assumes "preprocess_qwen3vl_rgb source sw sh channels stride patch merge lo hi = Some (Inr (target, w, h, tokens))"
  shows "length target = nat w * nat h * 3 \<and> patch * merge dvd w \<and> patch * merge dvd h \<and>
    tokens * ((patch * merge) * (patch * merge)) = w * h \<and> 0 < tokens \<and> tokens \<le> INT_MAX"
proof -
  define f where "f = patch * merge"
  define a where "a = w div f"
  define b where "b = h div f"
  note exact = preprocess_qwen_Inr [OF assms, folded f_def, folded a_def b_def]
  then have "tokens * (f * f) = (f * a) * (f * b)" by (simp only: mult_ac)
  moreover have "f dvd w" "f dvd h" using exact by (metis dvd_triv_left)+
  ultimately show ?thesis using exact unfolding f_def by metis
qed

text \<open>Four by two pixels in groups of two by two.\<close>

lemma even_resize: "qwen3vl_smart_resize_dimensions 4 2 2 1 8 = Some (Inr (4, 2))"
  by (simp add: qwen3vl_smart_resize_dimensions_def smart_sides_def mul64_def round_div_ties_to_even_def
      INT_MAX_def INT64_MAX_def ieee_eval)

lemma even_image: "preprocess_qwen3vl_rgb (Some (map of_nat [0..<24])) 4 2 3 0 2 1 1 8 = Some (Inr (map of_nat [0..<24], 4, 2, 2))"
proof -
  have "resize_rgb (Some (map of_nat [0..<24])) 4 2 0 4 2 False = Some (Inr (map of_nat [0..<24]))"
    by (simp add: resize_rgb_def validate_resize_def INT_MAX_def pack_source_def source_row_def row_stride_def
        resize_pass_def take_map drop_map upt_rec numeral_2_eq_2)
  then show ?thesis
    by (simp add: preprocess_qwen3vl_rgb_def even_resize resize_torchvision_bicubic_aa_rgb_def INT_MAX_def del: upt_rec_numeral)
qed

theorem preprocessed_image_exact_witness:
  "\<exists>target w h tokens. preprocess_qwen3vl_rgb (Some (map of_nat [0..<24])) 4 2 3 0 2 1 1 8 = Some (Inr (target, w, h, tokens)) \<and>
     length target = nat w * nat h * 3 \<and> 2 dvd w \<and> 2 dvd h \<and> tokens * 4 = w * h \<and> 0 < tokens"
proof -
  from preprocessed_image_exact [OF even_image] have
    "length (map of_nat [0..<24] :: u8 list) = nat 4 * nat 2 * 3 \<and> (2::int) dvd 4 \<and> (2::int) dvd 2 \<and> (2::int) * 4 = 4 * 2 \<and> (0::int) < 2"
    by simp
  with even_image show ?thesis by blast
qed

end
