(* ===== verification/PolicyGguf.thy ===== *)
theory PolicyGguf
  imports Prelude Ieee Normalization
begin

text \<open>
  Metadata of the StarVLA policy files: the checked readers of \<^verbatim>\<open>src/models/starvla/policy_gguf.h\<close>.  The
  gguf library is not part of the repository: an open file is the record \<open>gguf\<close> of its accessors, an
  argument of every reader.  An exception is its message.  Fields that several policies share
  are records of their own, read in the order of the sources.
\<close>

subsection \<open>An open file\<close>

datatype gguf_type =
    GGUF_TYPE_STRING | GGUF_TYPE_INT32 | GGUF_TYPE_UINT32 | GGUF_TYPE_FLOAT32 | GGUF_TYPE_BOOL | GGUF_TYPE_ARRAY | GGUF_TYPE_OTHER nat

record gguf =
  gguf_find_key :: "string \<Rightarrow> int"
  gguf_get_kv_type :: "int \<Rightarrow> gguf_type"
  gguf_get_val_str :: "int \<Rightarrow> string"
  gguf_get_val_i32 :: "int \<Rightarrow> int"
  gguf_get_val_u32 :: "int \<Rightarrow> u32"
  gguf_get_val_f32 :: "int \<Rightarrow> f32"
  gguf_get_val_bool :: "int \<Rightarrow> bool"
  gguf_get_arr_type :: "int \<Rightarrow> gguf_type"
  gguf_get_arr_n :: "int \<Rightarrow> nat"
  gguf_get_arr_str :: "int \<Rightarrow> nat \<Rightarrow> string"
  gguf_arr_data_i32 :: "int \<Rightarrow> (nat \<Rightarrow> int) option"
  gguf_arr_data_f32 :: "int \<Rightarrow> (nat \<Rightarrow> f32) option"
  gguf_arr_data_u8 :: "int \<Rightarrow> (nat \<Rightarrow> u8) option"

definition require_key :: "gguf \<Rightarrow> string \<Rightarrow> gguf_type \<Rightarrow> int res" where
  "require_key g key type =
     (if gguf_find_key g key < 0 then Inl (''missing required StarVLA GGUF metadata: '' @ key)
      else if gguf_get_kv_type g (gguf_find_key g key) \<noteq> type then
        Inl (''invalid StarVLA GGUF metadata type: '' @ key)
      else Inr (gguf_find_key g key))"

definition require_string :: "gguf \<Rightarrow> string \<Rightarrow> string res" where
  "require_string g key = bind_res (require_key g key GGUF_TYPE_STRING) (\<lambda>index. Inr (gguf_get_val_str g index))"

definition require_i32 :: "gguf \<Rightarrow> string \<Rightarrow> int res" where
  "require_i32 g key = bind_res (require_key g key GGUF_TYPE_INT32) (\<lambda>index. Inr (gguf_get_val_i32 g index))"

definition require_f32 :: "gguf \<Rightarrow> string \<Rightarrow> f32 res" where
  "require_f32 g key = bind_res (require_key g key GGUF_TYPE_FLOAT32) (\<lambda>index. Inr (gguf_get_val_f32 g index))"

definition require_bool :: "gguf \<Rightarrow> string \<Rightarrow> bool res" where
  "require_bool g key = bind_res (require_key g key GGUF_TYPE_BOOL) (\<lambda>index. Inr (gguf_get_val_bool g index))"

definition require_array :: "gguf \<Rightarrow> string \<Rightarrow> gguf_type \<Rightarrow> int res" where
  "require_array g key element_type =
     bind_res (require_key g key GGUF_TYPE_ARRAY) (\<lambda>index.
       if gguf_get_arr_type g index \<noteq> element_type then
         Inl (''invalid StarVLA GGUF array element type: '' @ key)
       else Inr index)"

definition require_string_array :: "gguf \<Rightarrow> string \<Rightarrow> string list res" where
  "require_string_array g key =
     bind_res (require_array g key GGUF_TYPE_STRING) (\<lambda>index.
       Inr (map (gguf_get_arr_str g index) [0..<gguf_get_arr_n g index]))"

definition require_numeric_array ::
  "(gguf \<Rightarrow> int \<Rightarrow> (nat \<Rightarrow> 'a) option) \<Rightarrow> gguf \<Rightarrow> string \<Rightarrow> gguf_type \<Rightarrow> 'a list res"
where
  "require_numeric_array arr_data g key type =
     bind_res (require_array g key type) (\<lambda>index.
       if gguf_get_arr_n g index = 0 then Inr []
       else case arr_data g index of
         None \<Rightarrow> Inl (''missing StarVLA GGUF array data: '' @ key)
       | Some data \<Rightarrow> Inr (map data [0..<gguf_get_arr_n g index]))"

definition require_i32_array :: "gguf \<Rightarrow> string \<Rightarrow> int list res" where
  "require_i32_array g key = require_numeric_array gguf_arr_data_i32 g key GGUF_TYPE_INT32"

definition require_f32_array :: "gguf \<Rightarrow> string \<Rightarrow> f32 list res" where
  "require_f32_array g key = require_numeric_array gguf_arr_data_f32 g key GGUF_TYPE_FLOAT32"

definition require_bool_array :: "gguf \<Rightarrow> string \<Rightarrow> u8 list res" where
  "require_bool_array g key =
     bind_res (require_numeric_array gguf_arr_data_u8 g key GGUF_TYPE_BOOL) (\<lambda>raw.
       Inr (map (\<lambda>b. if b \<noteq> 0 then 1 else 0) raw))"

subsection \<open>Normalisation metadata\<close>

definition profile_key :: "nat \<Rightarrow> string \<Rightarrow> string" where
  "profile_key index suffix = ''starvla.normalization.profile.'' @ nat_to_string index @ ''.'' @ suffix"

definition read_profile :: "gguf \<Rightarrow> string list \<Rightarrow> nat \<Rightarrow> norm_profile res" where
  "read_profile g keys index =
     bind_res (require_string g (profile_key index ''key'')) (\<lambda>key.
     bind_res (require_f32_array g (profile_key index ''action_q01'')) (\<lambda>q01.
     bind_res (require_f32_array g (profile_key index ''action_q99'')) (\<lambda>q99.
     bind_res (require_bool_array g (profile_key index ''action_mask'')) (\<lambda>mask.
       if key \<noteq> keys ! index then Inl ''StarVLA normalization profile order is inconsistent''
       else Inr \<lparr>np_key = key, np_q01 = q01, np_q99 = q99, np_mask = mask\<rparr>))))"

definition require_normalization :: "gguf \<Rightarrow> int \<Rightarrow> norm_config res" where
  "require_normalization g action_dim =
     bind_res (require_bool g ''starvla.normalization.clip_actions'') (\<lambda>clip.
     bind_res (require_f32 g ''starvla.normalization.binary_threshold'') (\<lambda>threshold.
     bind_res (require_string g ''starvla.normalization.binary_comparison'') (\<lambda>comparison.
     bind_res (require_i32_array g ''starvla.action.continuous_dimensions'') (\<lambda>continuous.
     bind_res (require_i32_array g ''starvla.action.binary_dimensions'') (\<lambda>binary.
     bind_res (require_i32 g ''starvla.normalization.profile_count'') (\<lambda>profile_count.
     bind_res (require_string_array g ''starvla.normalization.profile_keys'') (\<lambda>keys.
       if profile_count \<le> 0 \<or> length keys \<noteq> nat profile_count then
         Inl ''StarVLA normalization profile count is inconsistent''
       else bind_res (each_res (read_profile g keys) [0..<nat profile_count]) (\<lambda>profiles.
         let config = \<lparr>nc_default_key = hd keys, nc_clip = clip, nc_threshold = threshold, nc_comparison = comparison,
               nc_continuous = continuous, nc_binary = binary, nc_profiles = profiles\<rparr>
         in bind_res (validate_normalization_config config action_dim) (\<lambda>_. Inr config)))))))))"

lemma require_normalization_valid:
  "require_normalization g action_dim = Inr config \<Longrightarrow> validate_normalization_config config action_dim = Inr ()"
  by (auto simp: require_normalization_def res_simps Let_def)

subsection \<open>Parts shared by the policies\<close>

record bundle_config =
  bc_backbone_arch :: string
  bc_bundle_uuid :: string
  bc_text_filename :: string
  bc_mmproj_filename :: string

record image_config =
  ic_image_count :: int
  ic_image_names :: "string list"
  ic_min_pixels :: int
  ic_max_pixels :: int
  ic_patch_size :: int
  ic_spatial_merge_size :: int
  ic_min_token_count :: int
  ic_max_token_count :: int

definition read_image_config :: "gguf \<Rightarrow> image_config res" where
  "read_image_config g =
     bind_res (require_i32 g ''starvla.image.count'') (\<lambda>n.
     bind_res (require_string_array g ''starvla.image.names'') (\<lambda>names.
     bind_res (require_i32 g ''starvla.image.processor_min_pixels'') (\<lambda>min_pixels.
     bind_res (require_i32 g ''starvla.image.processor_max_pixels'') (\<lambda>max_pixels.
     bind_res (require_i32 g ''starvla.image.patch_size'') (\<lambda>patch_size.
     bind_res (require_i32 g ''starvla.image.spatial_merge_size'') (\<lambda>spatial_merge_size.
     bind_res (require_i32 g ''starvla.image.min_token_count'') (\<lambda>min_tokens.
     bind_res (require_i32 g ''starvla.image.max_token_count'') (\<lambda>max_tokens.
       Inr \<lparr>ic_image_count = n, ic_image_names = names, ic_min_pixels = min_pixels, ic_max_pixels = max_pixels,
         ic_patch_size = patch_size, ic_spatial_merge_size = spatial_merge_size, ic_min_token_count = min_tokens,
         ic_max_token_count = max_tokens\<rparr>))))))))"

definition image_config_valid :: "image_config \<Rightarrow> bool" where
  "image_config_valid c \<longleftrightarrow> ic_image_count c > 0 \<and> length (ic_image_names c) = nat (ic_image_count c) \<and>
     ic_min_pixels c > 0 \<and> ic_max_pixels c \<ge> ic_min_pixels c \<and> ic_patch_size c > 0 \<and>
     ic_spatial_merge_size c > 0 \<and> ic_min_token_count c > 0 \<and> ic_max_token_count c \<ge> ic_min_token_count c"

definition f32_positive :: "f32 \<Rightarrow> bool" where
  "f32_positive x \<longleftrightarrow> f32_finite x \<and> f32_lt f32_zero x"

text \<open>The checks that open every policy: architecture, schema, framework.\<close>

definition check_schema :: "gguf \<Rightarrow> string \<Rightarrow> string \<Rightarrow> unit res" where
  "check_schema g framework msg =
     bind_res (require_i32 g ''starvla.schema_version'') (\<lambda>version.
       if version \<noteq> 1 then Inl msg
       else bind_res (require_string g ''starvla.framework'') (\<lambda>f.
         if f \<noteq> framework then Inl msg else Inr ()))"

text \<open>The bundle of the FAST and PI policies, checked at once.\<close>

definition read_qwen25_bundle :: "gguf \<Rightarrow> string \<Rightarrow> string \<Rightarrow> string \<Rightarrow> bundle_config res" where
  "read_qwen25_bundle g framework schema_msg bundle_msg =
     bind_res (require_string g ''general.architecture'') (\<lambda>architecture.
       if architecture \<noteq> ''starvla-policy'' then Inl schema_msg
       else bind_res (check_schema g framework schema_msg) (\<lambda>_.
         bind_res (require_string g ''starvla.backbone.arch'') (\<lambda>arch.
         bind_res (require_string g ''starvla.bundle.uuid'') (\<lambda>uuid.
         bind_res (require_string g ''starvla.component.text.filename'') (\<lambda>text_filename.
         bind_res (require_string g ''starvla.component.mmproj.filename'') (\<lambda>mmproj_filename.
           if arch \<noteq> ''qwen2_5_vl'' \<or> uuid = [] \<or> text_filename = [] \<or> mmproj_filename = [] then Inl bundle_msg
           else Inr \<lparr>bc_backbone_arch = arch, bc_bundle_uuid = uuid, bc_text_filename = text_filename,
                  bc_mmproj_filename = mmproj_filename\<rparr>))))))"

text \<open>Conditions joined by \<open>&&\<close>, each evaluated only when the earlier ones hold; \<open>None\<close> is one whose
  evaluation overflows.\<close>

fun all_checks :: "bool option list \<Rightarrow> bool option" where
  "all_checks [] = Some True"
| "all_checks (None # cs) = None"
| "all_checks (Some b # cs) = (if b then all_checks cs else Some False)"

definition int_check :: "int \<Rightarrow> (int \<Rightarrow> bool) \<Rightarrow> bool option" where
  "int_check v P = (if fits_sint 32 v then Some (P v) else None)"

definition require_checks :: "bool option list \<Rightarrow> string \<Rightarrow> unit run" where
  "require_checks cs msg =
     Option.bind (all_checks cs) (\<lambda>valid. Some (if valid then Inr () else Inl msg))"

lemma all_checks_True: "all_checks cs = Some True \<longleftrightarrow> list_all (\<lambda>c. c = Some True) cs"
  by (induction cs rule: all_checks.induct) auto

lemma require_checks_Inr: "require_checks cs msg = Some (Inr ()) \<longleftrightarrow> list_all (\<lambda>c. c = Some True) cs"
proof -
  have "require_checks cs msg = Some (Inr ()) \<longleftrightarrow> all_checks cs = Some True"
    by (auto simp: require_checks_def Option.bind_eq_Some_conv split: if_splits)
  then show ?thesis by (simp add: all_checks_True)
qed

lemma int_check_True: "int_check v P = Some True \<longleftrightarrow> fits_sint 32 v \<and> P v"
  by (simp add: int_check_def)

subsection \<open>Tensors\<close>

text \<open>What ggml says of a tensor: its type, its dimensions and the size of its data.\<close>

datatype ggml_type = GGML_TYPE_F32 | GGML_TYPE_F16 | GGML_TYPE_BF16 | GGML_TYPE_I32 | GGML_TYPE_I8 | GGML_TYPE_OTHER nat

record tensor_entry =
  te_type :: ggml_type
  te_n_dims :: nat
  te_ne :: "nat \<Rightarrow> int"
  te_nelements :: int
  te_nbytes :: nat

definition has_shape :: "tensor_entry \<Rightarrow> int list \<Rightarrow> bool" where
  "has_shape t expected \<longleftrightarrow> te_n_dims t = length expected \<and>
     list_all (\<lambda>(dimension, v). te_ne t dimension = v) (List.enumerate 0 expected)"

text \<open>An open file: the metadata, the tensor names in order, the tensors by name, the offsets of their data,
  and the bytes of the file if it can be read.\<close>

record policy_file =
  pf_gguf :: gguf
  pf_tensor_names :: "string list"
  pf_tensor :: "string \<Rightarrow> tensor_entry option"
  pf_data_offset :: nat
  pf_tensor_offset :: "string \<Rightarrow> nat option"
  pf_content :: "u8 list option"

subsection \<open>A file given by its entries\<close>

text \<open>The accessors of a file with the given entries; the index of a key is its position.\<close>

datatype gguf_value =
    GStr string | GI32 int | GF32 f32 | GBool bool | GStrs "string list" | GI32s "int list" | GF32s "f32 list"
  | GBools "u8 list"

fun position_of :: "string \<Rightarrow> (string \<times> gguf_value) list \<Rightarrow> int \<Rightarrow> int" where
  "position_of key [] i = - 1"
| "position_of key (e # es) i = (if fst e = key then i else position_of key es (i + 1))"

fun value_type :: "gguf_value \<Rightarrow> gguf_type" where
  "value_type (GStr _) = GGUF_TYPE_STRING"
| "value_type (GI32 _) = GGUF_TYPE_INT32"
| "value_type (GF32 _) = GGUF_TYPE_FLOAT32"
| "value_type (GBool _) = GGUF_TYPE_BOOL"
| "value_type _ = GGUF_TYPE_ARRAY"

fun element_type :: "gguf_value \<Rightarrow> gguf_type" where
  "element_type (GStrs _) = GGUF_TYPE_STRING"
| "element_type (GI32s _) = GGUF_TYPE_INT32"
| "element_type (GF32s _) = GGUF_TYPE_FLOAT32"
| "element_type (GBools _) = GGUF_TYPE_BOOL"
| "element_type _ = GGUF_TYPE_OTHER 0"

fun element_count :: "gguf_value \<Rightarrow> nat" where
  "element_count (GStrs xs) = length xs"
| "element_count (GI32s xs) = length xs"
| "element_count (GF32s xs) = length xs"
| "element_count (GBools xs) = length xs"
| "element_count _ = 0"

definition gguf_of :: "(string \<times> gguf_value) list \<Rightarrow> gguf" where
  "gguf_of es =
     (let at = (\<lambda>i. snd (es ! nat i)) in
      \<lparr>gguf_find_key = (\<lambda>key. position_of key es 0), gguf_get_kv_type = (\<lambda>i. value_type (at i)),
       gguf_get_val_str = (\<lambda>i. case at i of GStr s \<Rightarrow> s | _ \<Rightarrow> []),
       gguf_get_val_i32 = (\<lambda>i. case at i of GI32 v \<Rightarrow> v | _ \<Rightarrow> 0),
       gguf_get_val_u32 = (\<lambda>_. 0),
       gguf_get_val_f32 = (\<lambda>i. case at i of GF32 v \<Rightarrow> v | _ \<Rightarrow> 0),
       gguf_get_val_bool = (\<lambda>i. case at i of GBool v \<Rightarrow> v | _ \<Rightarrow> False),
       gguf_get_arr_type = (\<lambda>i. element_type (at i)), gguf_get_arr_n = (\<lambda>i. element_count (at i)),
       gguf_get_arr_str = (\<lambda>i k. case at i of GStrs xs \<Rightarrow> xs ! k | _ \<Rightarrow> []),
       gguf_arr_data_i32 = (\<lambda>i. case at i of GI32s xs \<Rightarrow> Some ((!) xs) | _ \<Rightarrow> None),
       gguf_arr_data_f32 = (\<lambda>i. case at i of GF32s xs \<Rightarrow> Some ((!) xs) | _ \<Rightarrow> None),
       gguf_arr_data_u8 = (\<lambda>i. case at i of GBools xs \<Rightarrow> Some ((!) xs) | _ \<Rightarrow> None)\<rparr>)"

lemma position_of_found:
  "map_of es key = Some v \<Longrightarrow> 0 \<le> i \<Longrightarrow>
     i \<le> position_of key es i \<and> snd (es ! nat (position_of key es i - i)) = v"
proof (induction es arbitrary: i)
  case (Cons e es)
  show ?case
  proof (cases "fst e = key")
    case False
    with Cons have IH: "i + 1 \<le> position_of key es (i + 1)" "snd (es ! nat (position_of key es (i + 1) - (i + 1))) = v"
      using Cons.IH [of "i + 1"] by auto
    then have "nat (position_of key es (i + 1) - i) = Suc (nat (position_of key es (i + 1) - (i + 1)))" by linarith
    with IH False show ?thesis by simp
  qed (use Cons in auto)
qed simp

lemma position_of_missing: "map_of es key = None \<Longrightarrow> position_of key es i = - 1"
  by (induction es arbitrary: i) (auto split: if_splits)

lemma require_key_of:
  "require_key (gguf_of es) key t =
     (case map_of es key of None \<Rightarrow> Inl (''missing required StarVLA GGUF metadata: '' @ key)
      | Some v \<Rightarrow> if value_type v \<noteq> t then Inl (''invalid StarVLA GGUF metadata type: '' @ key)
          else Inr (position_of key es 0))"
  using position_of_found [of es key _ 0] position_of_missing [of es key 0]
  by (auto simp: require_key_def gguf_of_def Let_def split: option.split)

text \<open>Every reader returns what its key stores.\<close>

lemma gguf_of_simps:
  "gguf_get_val_str (gguf_of es) i = (case snd (es ! nat i) of GStr s \<Rightarrow> s | _ \<Rightarrow> [])"
  "gguf_get_val_i32 (gguf_of es) i = (case snd (es ! nat i) of GI32 v \<Rightarrow> v | _ \<Rightarrow> 0)"
  "gguf_get_val_f32 (gguf_of es) i = (case snd (es ! nat i) of GF32 v \<Rightarrow> v | _ \<Rightarrow> 0)"
  "gguf_get_val_bool (gguf_of es) i = (case snd (es ! nat i) of GBool v \<Rightarrow> v | _ \<Rightarrow> False)"
  "gguf_get_arr_type (gguf_of es) i = element_type (snd (es ! nat i))"
  "gguf_get_arr_n (gguf_of es) i = element_count (snd (es ! nat i))"
  "gguf_get_arr_str (gguf_of es) i = (\<lambda>k. case snd (es ! nat i) of GStrs xs \<Rightarrow> xs ! k | _ \<Rightarrow> [])"
  "gguf_arr_data_i32 (gguf_of es) i = (case snd (es ! nat i) of GI32s xs \<Rightarrow> Some ((!) xs) | _ \<Rightarrow> None)"
  "gguf_arr_data_f32 (gguf_of es) i = (case snd (es ! nat i) of GF32s xs \<Rightarrow> Some ((!) xs) | _ \<Rightarrow> None)"
  "gguf_arr_data_u8 (gguf_of es) i = (case snd (es ! nat i) of GBools xs \<Rightarrow> Some ((!) xs) | _ \<Rightarrow> None)"
  by (simp_all add: gguf_of_def)

lemma value_at: "map_of es key = Some v \<Longrightarrow> snd (es ! nat (position_of key es 0)) = v"
  using position_of_found [of es key v 0] by simp

lemma require_scalar_of:
  "map_of es key = Some (GStr s) \<Longrightarrow> require_string (gguf_of es) key = Inr s"
  "map_of es key = Some (GI32 i) \<Longrightarrow> require_i32 (gguf_of es) key = Inr i"
  "map_of es key = Some (GF32 x) \<Longrightarrow> require_f32 (gguf_of es) key = Inr x"
  "map_of es key = Some (GBool b) \<Longrightarrow> require_bool (gguf_of es) key = Inr b"
  by (simp_all add: require_string_def require_i32_def require_f32_def require_bool_def require_key_of gguf_of_simps
      value_at)

lemma require_array_of:
  "map_of es key = Some (GStrs ss) \<Longrightarrow> require_string_array (gguf_of es) key = Inr ss"
  "map_of es key = Some (GI32s is) \<Longrightarrow> require_i32_array (gguf_of es) key = Inr is"
  "map_of es key = Some (GF32s xs) \<Longrightarrow> require_f32_array (gguf_of es) key = Inr xs"
  "map_of es key = Some (GBools bs) \<Longrightarrow> require_bool_array (gguf_of es) key = Inr (map (\<lambda>b. if b \<noteq> 0 then 1 else 0) bs)"
  by (simp_all add: require_string_array_def require_i32_array_def require_f32_array_def require_bool_array_def
      require_numeric_array_def require_array_def require_key_of gguf_of_simps value_at map_nth)

lemmas require_of = require_scalar_of require_array_of

end
