(* ===== verification/FastPolicy.thy ===== *)
theory FastPolicy
  imports PolicyGguf FastCodec
begin

text \<open>
  The FAST policy of \<^verbatim>\<open>src/models/starvla/fast_policy.cpp\<close>: its metadata, the three tensors of the embedded
  codec, decoding of a generated sequence and denormalisation.  The tensor directory of ggml and the
  file system are arguments.  \<open>None\<close> is undefined behaviour: a signed overflow in the checks on the
  dimensions, or a \<open>memcpy\<close> past the end of its target.
\<close>

subsection \<open>Metadata\<close>

record fast_policy_config =
  fp_bundle :: bundle_config
  fp_qwen_hidden_dim :: int
  fp_qwen_input_embedding_dim :: int
  fp_qwen_vocab_size :: int
  fp_qwen_layer_count :: int
  fp_cot_template :: string
  fp_action_dim :: int
  fp_horizon :: int
  fp_image :: image_config
  fp_max_length :: nat
  fp_eos_token_ids :: "int list"
  fp_top_k :: int
  fp_repetition_penalty :: f32
  fp_normalization :: norm_config

text \<open>What the codec part of the metadata holds; sizes converted from a signed integer wrap around.\<close>

record fast_runtime =
  fm_codec :: fast_config
  fm_token_bytes_count :: int

definition size_to_int :: "nat \<Rightarrow> int" where
  "size_to_int n = sint (of_nat n :: 32 word)"

definition parse_fast_bundle :: "gguf \<Rightarrow> bundle_config res" where
  "parse_fast_bundle g = read_qwen25_bundle g ''fast'' ''GGUF is not a supported StarVLA FAST policy''
     ''StarVLA FAST bundle metadata is incomplete''"

text \<open>The codec settings, with the announced numbers of action tokens and offsets.\<close>

definition read_fast_runtime :: "gguf \<Rightarrow> (fast_runtime \<times> int \<times> int) res" where
  "read_fast_runtime g =
     bind_res (require_f32 g ''starvla.fast.codec.scale'') (\<lambda>scale.
     bind_res (require_i32 g ''starvla.fast.codec.min_token'') (\<lambda>min_token.
     bind_res (require_i32 g ''starvla.fast.codec.vocab_size'') (\<lambda>vocab_size.
     bind_res (require_i32 g ''starvla.fast.codec.time_horizon'') (\<lambda>time_horizon.
     bind_res (require_i32 g ''starvla.fast.codec.action_dimension'') (\<lambda>action_dim.
     bind_res (require_i32 g ''starvla.fast.action_token.count'') (\<lambda>action_token_count.
     bind_res (require_i32 g ''starvla.fast.codec.token_offsets_count'') (\<lambda>offsets_count.
     bind_res (require_i32 g ''starvla.fast.codec.token_bytes_count'') (\<lambda>token_bytes_count.
       Inr (\<lparr>fm_codec = \<lparr>fc_scale = f64_of_f32 scale, fc_min_token = min_token, fc_vocab_size = size_cast vocab_size,
              fc_time_horizon = size_cast time_horizon, fc_action_dim = size_cast action_dim\<rparr>,
              fm_token_bytes_count = token_bytes_count\<rparr>, action_token_count, offsets_count)))))))))"

definition fast_dimensions_valid :: "fast_policy_config \<Rightarrow> int \<Rightarrow> bool" where
  "fast_dimensions_valid c max_length \<longleftrightarrow>
     fp_qwen_hidden_dim c > 0 \<and> fp_qwen_input_embedding_dim c > 0 \<and> fp_qwen_vocab_size c > 0 \<and>
     fp_qwen_layer_count c > 0 \<and> fp_cot_template c \<noteq> [] \<and> fp_action_dim c > 0 \<and> fp_horizon c > 0 \<and>
     image_config_valid (fp_image c) \<and> max_length > 0 \<and> fp_eos_token_ids c \<noteq> [] \<and> fp_top_k c > 0 \<and>
     f32_positive (fp_repetition_penalty c)"

definition fast_codec_valid :: "fast_policy_config \<Rightarrow> fast_runtime \<Rightarrow> int \<Rightarrow> int \<Rightarrow> bool" where
  "fast_codec_valid c r action_token_count offsets_count \<longleftrightarrow>
     offsets_count = action_token_count + 1 \<and> fm_token_bytes_count r > 0 \<and>
     fc_time_horizon (fm_codec r) = nat (fp_horizon c) \<and> fc_action_dim (fm_codec r) = nat (fp_action_dim c)"

text \<open>Everything but the normalisation, in the order of the source.\<close>

definition read_fast_config :: "gguf \<Rightarrow> (fast_policy_config \<times> int) res" where
  "read_fast_config g =
     bind_res (parse_fast_bundle g) (\<lambda>bundle.
     bind_res (require_i32 g ''starvla.qwen.hidden_size'') (\<lambda>hidden_dim.
     bind_res (require_i32 g ''starvla.qwen.input_embedding_size'') (\<lambda>input_embedding_dim.
     bind_res (require_i32 g ''starvla.qwen.vocab_size'') (\<lambda>vocab_size.
     bind_res (require_i32 g ''starvla.qwen.layer_count'') (\<lambda>layer_count.
     bind_res (require_string g ''starvla.prompt.cot_template'') (\<lambda>cot_template.
     bind_res (require_i32 g ''starvla.action.dimension'') (\<lambda>action_dim.
     bind_res (require_i32 g ''starvla.action.horizon'') (\<lambda>horizon.
     bind_res (read_image_config g) (\<lambda>img.
     bind_res (require_i32 g ''starvla.fast.generation.max_length'') (\<lambda>max_length.
     bind_res (require_i32_array g ''starvla.fast.generation.eos_token_ids'') (\<lambda>eos.
     bind_res (require_i32 g ''starvla.fast.generation.top_k'') (\<lambda>top_k.
     bind_res (require_f32 g ''starvla.fast.generation.repetition_penalty'') (\<lambda>repetition_penalty.
       Inr (\<lparr>fp_bundle = bundle, fp_qwen_hidden_dim = hidden_dim, fp_qwen_input_embedding_dim = input_embedding_dim,
          fp_qwen_vocab_size = vocab_size, fp_qwen_layer_count = layer_count, fp_cot_template = cot_template,
          fp_action_dim = action_dim, fp_horizon = horizon, fp_image = img, fp_max_length = size_cast max_length,
          fp_eos_token_ids = eos, fp_top_k = top_k, fp_repetition_penalty = repetition_penalty,
          fp_normalization = \<lparr>nc_default_key = [], nc_clip = False, nc_threshold = f32_zero, nc_comparison = [],
            nc_continuous = [], nc_binary = [], nc_profiles = []\<rparr>\<rparr>, max_length))))))))))))))"

definition parse_fast_metadata :: "gguf \<Rightarrow> (fast_policy_config \<times> fast_runtime) run" where
  "parse_fast_metadata g =
     bind_run (Some (read_fast_config g)) (\<lambda>(config, max_length).
     bind_run (Some (read_fast_runtime g)) (\<lambda>(r, action_token_count, offsets_count).
       if \<not> fast_dimensions_valid config max_length \<or> fc_vocab_size (fm_codec r) = 0 \<or>
          action_token_count \<noteq> size_to_int (fc_vocab_size (fm_codec r)) then
         Some (Inl ''StarVLA FAST metadata has incompatible dimensions'')
       else if \<not> fits_sint 32 (action_token_count + 1) then None
       else if \<not> fast_codec_valid config r action_token_count offsets_count then
         Some (Inl ''StarVLA FAST metadata has incompatible dimensions'')
       else bind_run (Some (require_normalization g (fp_action_dim config))) (\<lambda>normalization.
         Some (Inr (config\<lparr>fp_normalization := normalization\<rparr>, r)))))"

subsection \<open>Tensors of the codec\<close>

definition data_offset :: "policy_file \<Rightarrow> nat \<Rightarrow> nat" where
  "data_offset f tensor_offset = (pf_data_offset f + tensor_offset) mod 2 ^ 64"

definition read_tensor_data :: "policy_file \<Rightarrow> string \<Rightarrow> nat \<Rightarrow> nat \<Rightarrow> u8 list res" where
  "read_tensor_data f name offset nbytes =
     (case pf_content f of None \<Rightarrow> Inl ''failed to open FAST policy GGUF tensor data''
      | Some content \<Rightarrow>
          if offset \<ge> 2 ^ 63 then Inl (''failed to seek FAST runtime tensor: '' @ name)
          else if offset + nbytes > length content then Inl (''failed to read FAST runtime tensor: '' @ name)
          else Inr (take nbytes (drop offset content)))"

definition read_tensor :: "policy_file \<Rightarrow> string \<Rightarrow> ggml_type \<Rightarrow> int \<Rightarrow> u8 list res" where
  "read_tensor f name expected_type expected_elements =
     (case (pf_tensor f name, pf_tensor_offset f name) of
        (Some t, Some offset) \<Rightarrow>
          if te_type t \<noteq> expected_type \<or> te_n_dims t \<noteq> 1 \<or> te_ne t 0 \<noteq> expected_elements \<or>
             te_nelements t \<noteq> expected_elements
          then Inl (''FAST runtime tensor shape/type mismatch: '' @ name)
          else read_tensor_data f name (data_offset f offset) (te_nbytes t)
      | _ \<Rightarrow> Inl (''FAST runtime tensor shape/type mismatch: '' @ name))"

text \<open>Little-endian integers, and the copy of a buffer into a vector of \<open>n\<close> zeroed integers.\<close>

fun le_i32s :: "u8 list \<Rightarrow> int list" where
  "le_i32s (a # b # c # d # rest) =
     sint (of_nat (unat a + 256 * (unat b + 256 * (unat c + 256 * unat d))) :: 32 word) # le_i32s rest"
| "le_i32s _ = []"

definition copy_i32s :: "nat \<Rightarrow> u8 list \<Rightarrow> int list option" where
  "copy_i32s n bytes =
     (if length bytes > 4 * n then None else Some (le_i32s (bytes @ replicate (4 * n - length bytes) 0)))"

subsection \<open>The policy\<close>

record fast_policy =
  po_config :: fast_policy_config
  po_codec :: fast_codec

definition kActionMapTensor :: string where "kActionMapTensor = ''starvla.policy.fast.action_token_map''"
definition kOffsetsTensor :: string where "kOffsetsTensor = ''starvla.policy.fast.codec.token_offsets''"
definition kTokenBytesTensor :: string where "kTokenBytesTensor = ''starvla.policy.fast.codec.token_bytes''"

definition size_to_i64 :: "nat \<Rightarrow> int" where
  "size_to_i64 n = sint (of_nat n :: 64 word)"

definition load_codec :: "policy_file \<Rightarrow> fast_runtime \<Rightarrow> fast_codec run" where
  "load_codec f r =
     bind_run (Some (read_tensor f kActionMapTensor GGML_TYPE_I32 (size_to_i64 (fc_vocab_size (fm_codec r))))) (\<lambda>action_map.
     bind_run (Some (read_tensor f kOffsetsTensor GGML_TYPE_I32 (size_to_i64 (fc_vocab_size (fm_codec r) + 1)))) (\<lambda>offsets.
     bind_run (Some (read_tensor f kTokenBytesTensor GGML_TYPE_I8 (fm_token_bytes_count r))) (\<lambda>token_bytes.
       Option.bind (copy_i32s (fc_vocab_size (fm_codec r)) action_map) (\<lambda>action_ids.
       Option.bind (copy_i32s (fc_vocab_size (fm_codec r) + 1) offsets) (\<lambda>token_offsets.
         fail_with (\<lambda>e. ''failed to construct embedded FAST codec: '' @ e)
           (Some (create_compiled (fm_codec r) token_offsets token_bytes action_ids)))))))"

text \<open>The file system maps a path to a file, when the gguf library can open it.\<close>

definition load_fast_policy :: "(string \<Rightarrow> policy_file option) \<Rightarrow> string \<Rightarrow> fast_policy run" where
  "load_fast_policy open_file path =
     (if path = [] then Some (Inl ''StarVLA FAST policy path is required'')
      else case open_file path of
        None \<Rightarrow> Some (Inl ''failed to read StarVLA FAST policy GGUF'')
      | Some f \<Rightarrow>
          bind_run (parse_fast_metadata (pf_gguf f)) (\<lambda>(config, r).
          bind_run (load_codec f r) (\<lambda>codec.
            Some (Inr \<lparr>po_config = config, po_codec = codec\<rparr>))))"

definition narrow_action :: "f64 \<Rightarrow> f32 res" where
  "narrow_action v =
     (if \<not> f32_finite (f32_of_f64 v) then Inl ''embedded FAST codec returned a non-finite action''
      else Inr (f32_of_f64 v))"

definition decode_generated :: "(f64 \<Rightarrow> f64) \<Rightarrow> fast_policy \<Rightarrow> int list \<Rightarrow> f32 list res" where
  "decode_generated cosine p full_sequence =
     bind_res (decode_generated_tokens cosine (po_codec p) [full_sequence]) (\<lambda>decoded.
       if fr_batch_size decoded \<noteq> 1 \<or> fr_time_horizon decoded \<noteq> size_cast (fp_horizon (po_config p)) \<or>
          fr_action_dim decoded \<noteq> size_cast (fp_action_dim (po_config p)) \<or>
          length (fr_actions decoded) \<noteq> size_cast (fp_horizon (po_config p) * fp_action_dim (po_config p)) then
         Inl ''embedded FAST codec returned an incompatible action tensor''
       else each_res narrow_action (fr_actions decoded))"

definition unnormalize_fast :: "fast_policy \<Rightarrow> f32 list \<Rightarrow> string \<Rightarrow> f32 list run" where
  "unnormalize_fast p normalized_actions profile =
     denormalize_actions (fp_normalization (po_config p)) profile normalized_actions
       (fp_horizon (po_config p)) (fp_action_dim (po_config p))"

subsection \<open>Loaded policies\<close>

lemma parse_fast_Inr:
  assumes "parse_fast_metadata g = Some (Inr (config, r))"
  shows "0 < fp_action_dim config \<and> 0 < fp_horizon config \<and> image_config_valid (fp_image config) \<and>
    fc_time_horizon (fm_codec r) = nat (fp_horizon config) \<and> fc_action_dim (fm_codec r) = nat (fp_action_dim config) \<and>
    validate_normalization_config (fp_normalization config) (fp_action_dim config) = Inr ()"
  using assms require_normalization_valid
  by (fastforce simp: parse_fast_metadata_def res_simps fast_dimensions_valid_def fast_codec_valid_def
      split: if_splits prod.splits)

lemma load_codec_ok:
  assumes "load_codec f r = Some (Inr codec)"
  shows "codec_ok codec \<and> fx_config codec = fm_codec r"
proof -
  obtain offsets bytes ids where "create_compiled (fm_codec r) offsets bytes ids = Inr codec"
    using assms by (auto simp: load_codec_def res_simps Option.bind_eq_Some_conv)
  then show ?thesis
    using create_compiled_ok by (auto simp: create_compiled_def new_fast_codec_def res_simps split: if_splits)
qed

definition fast_policy_ok :: "fast_policy \<Rightarrow> bool" where
  "fast_policy_ok p \<longleftrightarrow> codec_ok (po_codec p) \<and> 0 < fp_action_dim (po_config p) \<and> 0 < fp_horizon (po_config p) \<and>
     image_config_valid (fp_image (po_config p)) \<and>
     fc_time_horizon (fx_config (po_codec p)) = nat (fp_horizon (po_config p)) \<and>
     fc_action_dim (fx_config (po_codec p)) = nat (fp_action_dim (po_config p)) \<and>
     validate_normalization_config (fp_normalization (po_config p)) (fp_action_dim (po_config p)) = Inr ()"

lemma load_fast_policy_ok: "load_fast_policy open_file path = Some (Inr p) \<Longrightarrow> fast_policy_ok p"
  using parse_fast_Inr load_codec_ok
  by (fastforce simp: load_fast_policy_def fast_policy_ok_def res_simps split: if_splits option.splits prod.splits)

lemma each_narrow:
  "each_res narrow_action vs =
     (if list_all (\<lambda>v. f32_finite (f32_of_f64 v)) vs then Inr (map f32_of_f64 vs)
      else Inl ''embedded FAST codec returned a non-finite action'')"
  by (induction vs) (auto simp: narrow_action_def)

lemma decode_generated_exact:
  assumes "fast_policy_ok p"
  shows "decode_generated cosine p seq =
    bind_res (decode_generated_tokens cosine (po_codec p) [seq]) (\<lambda>d. each_res narrow_action (fr_actions d))"
proof (cases "decode_generated_tokens cosine (po_codec p) [seq]")
  case (Inr d)
  then obtain fast_ids where "decode_fast_tokens cosine (po_codec p) [fast_ids] = Inr d"
    by (auto simp: decode_generated_tokens_def res_simps split: if_splits)
  from decode_fast_tokens_spec [OF this]
  have d: "fr_batch_size d = 1" "fr_time_horizon d = nat (fp_horizon (po_config p))"
    "fr_action_dim d = nat (fp_action_dim (po_config p))"
    "length (fr_actions d) = nat (fp_horizon (po_config p)) * nat (fp_action_dim (po_config p))"
    using assms by (simp_all add: fast_policy_ok_def)
  let ?h = "fp_horizon (po_config p)" and ?a = "fp_action_dim (po_config p)"
  have bounds: "0 < ?h" "?h \<le> 1024" "0 < ?a" "?a \<le> 1024"
    using assms by (auto simp: fast_policy_ok_def codec_ok_def kMaximumTimeHorizon_def kMaximumActionDim_def)
  have "0 < ?h * ?a" using bounds by simp
  moreover have "?h * ?a \<le> 1024 * 1024" using bounds by (intro mult_mono) simp_all
  ultimately have "size_cast ?h = nat ?h" "size_cast ?a = nat ?a" "size_cast (?h * ?a) = nat ?h * nat ?a"
    using bounds by (simp_all add: size_cast_def nat_mult_distrib)
  with d show ?thesis by (simp add: decode_generated_def Inr)
qed (simp add: decode_generated_def)

lemma decode_generated_shape:
  assumes "fast_policy_ok p" "decode_generated cosine p seq = Inr ys"
  shows "length ys = nat (fp_horizon (po_config p)) * nat (fp_action_dim (po_config p)) \<and> list_all f32_finite ys"
proof -
  obtain d where d: "decode_generated_tokens cosine (po_codec p) [seq] = Inr d" "each_res narrow_action (fr_actions d) = Inr ys"
    using assms by (auto simp: decode_generated_exact res_simps)
  then obtain fast_ids where "decode_fast_tokens cosine (po_codec p) [fast_ids] = Inr d"
    by (auto simp: decode_generated_tokens_def res_simps split: if_splits)
  from decode_fast_tokens_spec [OF this] d(2) assms(1) show ?thesis
    by (auto simp: each_narrow fast_policy_ok_def list_all_iff split: if_splits)
qed

subsection \<open>A small policy file\<close>

text \<open>One step of one action, two action tokens.\<close>

definition small_normalization :: "(string \<times> gguf_value) list" where
  "small_normalization =
    [(''starvla.normalization.clip_actions'', GBool True), (''starvla.normalization.binary_threshold'', GF32 f32_half),
     (''starvla.normalization.binary_comparison'', GStr ''ge''),
     (''starvla.action.continuous_dimensions'', GI32s [0]), (''starvla.action.binary_dimensions'', GI32s []),
     (''starvla.normalization.profile_count'', GI32 1), (''starvla.normalization.profile_keys'', GStrs [''k'']),
     (''starvla.normalization.profile.0.key'', GStr ''k''),
     (''starvla.normalization.profile.0.action_q01'', GF32s [f32_zero]),
     (''starvla.normalization.profile.0.action_q99'', GF32s [f32_one]),
     (''starvla.normalization.profile.0.action_mask'', GBools [1])]"

definition small_image :: "(string \<times> gguf_value) list" where
  "small_image =
    [(''starvla.image.count'', GI32 1), (''starvla.image.names'', GStrs [''cam'']),
     (''starvla.image.processor_min_pixels'', GI32 1), (''starvla.image.processor_max_pixels'', GI32 4),
     (''starvla.image.patch_size'', GI32 1), (''starvla.image.spatial_merge_size'', GI32 1),
     (''starvla.image.min_token_count'', GI32 1), (''starvla.image.max_token_count'', GI32 4)]"

definition small_fast :: "(string \<times> gguf_value) list" where
  "small_fast =
    [(''general.architecture'', GStr ''starvla-policy''), (''starvla.schema_version'', GI32 1),
     (''starvla.framework'', GStr ''fast''), (''starvla.backbone.arch'', GStr ''qwen2_5_vl''),
     (''starvla.bundle.uuid'', GStr ''u''), (''starvla.component.text.filename'', GStr ''t.gguf''),
     (''starvla.component.mmproj.filename'', GStr ''m.gguf''), (''starvla.qwen.hidden_size'', GI32 1),
     (''starvla.qwen.input_embedding_size'', GI32 1), (''starvla.qwen.vocab_size'', GI32 200),
     (''starvla.qwen.layer_count'', GI32 1), (''starvla.prompt.cot_template'', GStr ''{instruction}''),
     (''starvla.action.dimension'', GI32 1), (''starvla.action.horizon'', GI32 1),
     (''starvla.fast.generation.max_length'', GI32 8), (''starvla.fast.generation.eos_token_ids'', GI32s [0]),
     (''starvla.fast.generation.top_k'', GI32 1), (''starvla.fast.generation.repetition_penalty'', GF32 f32_one),
     (''starvla.fast.codec.scale'', GF32 f32_one), (''starvla.fast.codec.min_token'', GI32 0),
     (''starvla.fast.codec.vocab_size'', GI32 2), (''starvla.fast.codec.time_horizon'', GI32 1),
     (''starvla.fast.codec.action_dimension'', GI32 1), (''starvla.fast.action_token.count'', GI32 2),
     (''starvla.fast.codec.token_offsets_count'', GI32 3), (''starvla.fast.codec.token_bytes_count'', GI32 3)]
    @ small_image @ small_normalization"

text \<open>The tensors one after the other, from offset 0.\<close>

definition vector_entry :: "ggml_type \<Rightarrow> int \<Rightarrow> nat \<Rightarrow> tensor_entry" where
  "vector_entry t n nbytes = \<lparr>te_type = t, te_n_dims = 1, te_ne = (\<lambda>d. if d = 0 then n else 1), te_nelements = n,
     te_nbytes = nbytes\<rparr>"

definition small_file :: policy_file where
  "small_file = \<lparr>pf_gguf = gguf_of small_fast, pf_tensor_names = [kActionMapTensor, kOffsetsTensor, kTokenBytesTensor],
     pf_tensor = [kActionMapTensor \<mapsto> vector_entry GGML_TYPE_I32 2 8, kOffsetsTensor \<mapsto> vector_entry GGML_TYPE_I32 3 12,
       kTokenBytesTensor \<mapsto> vector_entry GGML_TYPE_I8 3 3],
     pf_data_offset = 0,
     pf_tensor_offset = [kActionMapTensor \<mapsto> 0, kOffsetsTensor \<mapsto> 8, kTokenBytesTensor \<mapsto> 20],
     pf_content = Some [151, 0, 0, 0, 150, 0, 0, 0, 0, 0, 0, 0, 1, 0, 0, 0, 3, 0, 0, 0, 0x41, 0x42, 0x43]\<rparr>"

lemma small_lookups:
  "map_of small_fast ''general.architecture'' = Some (GStr ''starvla-policy'')"
  "map_of small_fast ''starvla.schema_version'' = Some (GI32 1)"
  "map_of small_fast ''starvla.framework'' = Some (GStr ''fast'')"
  "map_of small_fast ''starvla.backbone.arch'' = Some (GStr ''qwen2_5_vl'')"
  "map_of small_fast ''starvla.bundle.uuid'' = Some (GStr ''u'')"
  "map_of small_fast ''starvla.component.text.filename'' = Some (GStr ''t.gguf'')"
  "map_of small_fast ''starvla.component.mmproj.filename'' = Some (GStr ''m.gguf'')"
  "map_of small_fast ''starvla.qwen.hidden_size'' = Some (GI32 1)"
  "map_of small_fast ''starvla.qwen.input_embedding_size'' = Some (GI32 1)"
  "map_of small_fast ''starvla.qwen.vocab_size'' = Some (GI32 200)"
  "map_of small_fast ''starvla.qwen.layer_count'' = Some (GI32 1)"
  "map_of small_fast ''starvla.prompt.cot_template'' = Some (GStr ''{instruction}'')"
  "map_of small_fast ''starvla.action.dimension'' = Some (GI32 1)"
  "map_of small_fast ''starvla.action.horizon'' = Some (GI32 1)"
  "map_of small_fast ''starvla.fast.generation.max_length'' = Some (GI32 8)"
  "map_of small_fast ''starvla.fast.generation.eos_token_ids'' = Some (GI32s [0])"
  "map_of small_fast ''starvla.fast.generation.top_k'' = Some (GI32 1)"
  "map_of small_fast ''starvla.fast.generation.repetition_penalty'' = Some (GF32 f32_one)"
  "map_of small_fast ''starvla.fast.codec.scale'' = Some (GF32 f32_one)"
  "map_of small_fast ''starvla.fast.codec.min_token'' = Some (GI32 0)"
  "map_of small_fast ''starvla.fast.codec.vocab_size'' = Some (GI32 2)"
  "map_of small_fast ''starvla.fast.codec.time_horizon'' = Some (GI32 1)"
  "map_of small_fast ''starvla.fast.codec.action_dimension'' = Some (GI32 1)"
  "map_of small_fast ''starvla.fast.action_token.count'' = Some (GI32 2)"
  "map_of small_fast ''starvla.fast.codec.token_offsets_count'' = Some (GI32 3)"
  "map_of small_fast ''starvla.fast.codec.token_bytes_count'' = Some (GI32 3)"
  "map_of small_fast ''starvla.image.count'' = Some (GI32 1)"
  "map_of small_fast ''starvla.image.names'' = Some (GStrs [''cam''])"
  "map_of small_fast ''starvla.image.processor_min_pixels'' = Some (GI32 1)"
  "map_of small_fast ''starvla.image.processor_max_pixels'' = Some (GI32 4)"
  "map_of small_fast ''starvla.image.patch_size'' = Some (GI32 1)"
  "map_of small_fast ''starvla.image.spatial_merge_size'' = Some (GI32 1)"
  "map_of small_fast ''starvla.image.min_token_count'' = Some (GI32 1)"
  "map_of small_fast ''starvla.image.max_token_count'' = Some (GI32 4)"
  "map_of small_fast ''starvla.normalization.clip_actions'' = Some (GBool True)"
  "map_of small_fast ''starvla.normalization.binary_threshold'' = Some (GF32 f32_half)"
  "map_of small_fast ''starvla.normalization.binary_comparison'' = Some (GStr ''ge'')"
  "map_of small_fast ''starvla.action.continuous_dimensions'' = Some (GI32s [0])"
  "map_of small_fast ''starvla.action.binary_dimensions'' = Some (GI32s [])"
  "map_of small_fast ''starvla.normalization.profile_count'' = Some (GI32 1)"
  "map_of small_fast ''starvla.normalization.profile_keys'' = Some (GStrs [''k''])"
  "map_of small_fast ''starvla.normalization.profile.0.key'' = Some (GStr ''k'')"
  "map_of small_fast ''starvla.normalization.profile.0.action_q01'' = Some (GF32s [f32_zero])"
  "map_of small_fast ''starvla.normalization.profile.0.action_q99'' = Some (GF32s [f32_one])"
  "map_of small_fast ''starvla.normalization.profile.0.action_mask'' = Some (GBools [1])"
  by code_simp+

lemma small_image_read: "read_image_config (gguf_of small_fast) =
   Inr \<lparr>ic_image_count = 1, ic_image_names = [''cam''], ic_min_pixels = 1, ic_max_pixels = 4, ic_patch_size = 1,
     ic_spatial_merge_size = 1, ic_min_token_count = 1, ic_max_token_count = 4\<rparr>"
  by (simp add: read_image_config_def require_of small_lookups)

definition small_norm :: norm_config where
  "small_norm = \<lparr>nc_default_key = ''k'', nc_clip = True, nc_threshold = f32_half, nc_comparison = ''ge'',
     nc_continuous = [0], nc_binary = [],
     nc_profiles = [\<lparr>np_key = ''k'', np_q01 = [f32_zero], np_q99 = [f32_one], np_mask = [1]\<rparr>]\<rparr>"

lemma small_norm_valid: "validate_normalization_config small_norm 1 = Inr ()"
  by (simp add: validate_normalization_config_def small_norm_def f32_finite_def f32_eq_def f32_lt_def f32_nan_def
      f32_key_def f32_half_def f32_one_def f32_zero_def fmt_simps)

lemma small_norm_read: "require_normalization (gguf_of small_fast) 1 = Inr small_norm"
proof -
  have "read_profile (gguf_of small_fast) [''k''] 0 = Inr (hd (nc_profiles small_norm))"
    by (simp add: read_profile_def profile_key_def nat_to_string_small digit_char_eval require_of small_lookups small_norm_def)
  moreover have "small_norm = \<lparr>nc_default_key = ''k'', nc_clip = True, nc_threshold = f32_half, nc_comparison = ''ge'',
     nc_continuous = [0], nc_binary = [], nc_profiles = [hd (nc_profiles small_norm)]\<rparr>"
    by (simp add: small_norm_def)
  ultimately show ?thesis
    using small_norm_valid
    by (simp add: require_normalization_def require_of small_lookups Let_def)
qed

definition small_bundle :: bundle_config where
  "small_bundle = \<lparr>bc_backbone_arch = ''qwen2_5_vl'', bc_bundle_uuid = ''u'', bc_text_filename = ''t.gguf'',
     bc_mmproj_filename = ''m.gguf''\<rparr>"

lemma small_bundle_read: "parse_fast_bundle (gguf_of small_fast) = Inr small_bundle"
  by (simp add: parse_fast_bundle_def read_qwen25_bundle_def check_schema_def require_of small_lookups small_bundle_def)

lemma small_fast_read: "\<exists>c. read_fast_config (gguf_of small_fast) = Inr (c, 8) \<and> fast_dimensions_valid c 8 \<and>
    fp_horizon c = 1 \<and> fp_action_dim c = 1"
proof -
  have "f32_positive f32_one"
    by (simp add: f32_positive_def f32_finite_def f32_lt_def f32_nan_def f32_key_def f32_one_def f32_zero_def fmt_simps)
  then show ?thesis
    by (simp add: read_fast_config_def small_bundle_read small_image_read require_of small_lookups fast_dimensions_valid_def
        image_config_valid_def)
qed

definition small_runtime :: fast_runtime where
  "small_runtime = \<lparr>fm_codec = sample_config, fm_token_bytes_count = 3\<rparr>"

lemma small_runtime_read: "read_fast_runtime (gguf_of small_fast) = Inr (small_runtime, 2, 3)"
proof -
  have "f64_of_f32 f32_one = f64_one" by (simp add: ieee_eval)
  then show ?thesis
    by (simp add: read_fast_runtime_def require_of small_lookups small_runtime_def sample_config_def size_cast_def)
qed

lemma small_tensors_read:
  "read_tensor small_file kActionMapTensor GGML_TYPE_I32 2 = Inr [151, 0, 0, 0, 150, 0, 0, 0]"
  "read_tensor small_file kOffsetsTensor GGML_TYPE_I32 3 = Inr [0, 0, 0, 0, 1, 0, 0, 0, 3, 0, 0, 0]"
  "read_tensor small_file kTokenBytesTensor GGML_TYPE_I8 3 = Inr [0x41, 0x42, 0x43]"
  by (simp_all add: read_tensor_def small_file_def read_tensor_data_def vector_entry_def data_offset_def kActionMapTensor_def kOffsetsTensor_def
      kTokenBytesTensor_def)

lemma small_codec_read: "load_codec small_file small_runtime = Some (Inr sample_codec)"
  using sample_codec_created
  by (simp add: load_codec_def small_runtime_def sample_config_def size_to_i64_def small_tensors_read copy_i32s_def
      signed_take_bit_numeral_bit0)

lemma small_fast_loaded: "\<exists>p. load_fast_policy (\<lambda>_. Some small_file) ''p'' = Some (Inr p) \<and>
    po_codec p = sample_codec \<and> fp_normalization (po_config p) = small_norm \<and>
    fp_horizon (po_config p) = 1 \<and> fp_action_dim (po_config p) = 1"
proof -
  obtain c where c: "read_fast_config (gguf_of small_fast) = Inr (c, 8)" "fast_dimensions_valid c 8"
      "fp_horizon c = 1" "fp_action_dim c = 1"
    using small_fast_read by blast
  then have "parse_fast_metadata (gguf_of small_fast) = Some (Inr (c\<lparr>fp_normalization := small_norm\<rparr>, small_runtime))"
    by (simp add: parse_fast_metadata_def small_runtime_read small_norm_read fast_codec_valid_def small_runtime_def
        sample_config_def size_to_int_def fits_sint_def)
  moreover have "pf_gguf small_file = gguf_of small_fast" by (simp add: small_file_def)
  ultimately show ?thesis using c by (simp add: load_fast_policy_def small_codec_read)
qed

subsection \<open>Properties\<close>

text \<open>C13. A loaded FAST policy decodes a generated sequence to exactly the horizon times the action
  dimension finite values, the codec's doubles rounded to single precision in order.  The shape check after
  the codec never fails: only the codec's own errors and a value outside single precision are reported.  With a
  profile that resolves, what was decoded is then denormalised entry by entry, each with the settings of its own column,
  and this cannot fail.\<close>

theorem fast_policy_decodes:
  assumes "load_fast_policy open_file path = Some (Inr p)"
  shows "decode_generated cosine p sequence =
      (case decode_generated_tokens cosine (po_codec p) [sequence] of
         Inl e \<Rightarrow> Inl e
       | Inr d \<Rightarrow>
           if list_all (\<lambda>v. f32_finite (f32_of_f64 v)) (fr_actions d) then Inr (map f32_of_f64 (fr_actions d))
           else Inl ''embedded FAST codec returned a non-finite action'')
    \<and> (\<forall>ys. decode_generated cosine p sequence = Inr ys \<longrightarrow>
         length ys = nat (fp_horizon (po_config p)) * nat (fp_action_dim (po_config p)) \<and> list_all f32_finite ys \<and>
         (\<forall>key profile. resolve_normalization_profile (fp_normalization (po_config p)) key = Some (Inr profile) \<longrightarrow>
            (\<exists>zs. unnormalize_fast p ys key = Some (Inr zs) \<and> length zs = length ys \<and>
               (\<forall>t d. t < nat (fp_horizon (po_config p)) \<longrightarrow> d < nat (fp_action_dim (po_config p)) \<longrightarrow>
                  zs ! (t * nat (fp_action_dim (po_config p)) + d) =
                    denormalized_entry (fp_normalization (po_config p)) profile d
                      (ys ! (t * nat (fp_action_dim (po_config p)) + d))))))"
proof -
  have ok: "fast_policy_ok p" using assms by (rule load_fast_policy_ok)
  have valid: "validate_normalization_config (fp_normalization (po_config p)) (fp_action_dim (po_config p)) = Inr ()"
    "0 < fp_horizon (po_config p)" using ok by (simp_all add: fast_policy_ok_def)
  have "decode_generated cosine p sequence =
      (case decode_generated_tokens cosine (po_codec p) [sequence] of
         Inl e \<Rightarrow> Inl e
       | Inr d \<Rightarrow>
           if list_all (\<lambda>v. f32_finite (f32_of_f64 v)) (fr_actions d) then Inr (map f32_of_f64 (fr_actions d))
           else Inl ''embedded FAST codec returned a non-finite action'')"
    unfolding decode_generated_exact [OF ok] by (auto simp: each_narrow split: sum.split)
  moreover have "length ys = nat (fp_horizon (po_config p)) * nat (fp_action_dim (po_config p)) \<and> list_all f32_finite ys"
    if "decode_generated cosine p sequence = Inr ys" for ys
    using decode_generated_shape [OF ok that] .
  ultimately show ?thesis
    unfolding unnormalize_fast_def using denormalize_entries [OF valid] by blast
qed

text \<open>The sequence 7, 151: text, then the action token of the byte 65.\<close>

lemma small_scale: "dc_scale sample_config = f64_one"
  by (simp add: dc_scale_def sample_config_def ieee_eval)

lemma small_coefficient: "coefficient sample_config [0x41] 0 = 0x4050400000000000"
  by (simp add: coefficient_def sample_config_def ieee_eval)

lemma small_value: "f64_mul (dc_scale sample_config) (coefficient sample_config [0x41] 0) = 0x4050400000000000"
  unfolding small_scale small_coefficient by (simp add: ieee_eval)

lemma small_decoded: "\<exists>d. decode_generated_tokens (\<lambda>x. x) sample_codec [[7, 151]] = Inr d \<and>
    list_all (\<lambda>v. f32_finite (f32_of_f64 v)) (fr_actions d)"
proof -
  have maps: "fx_vlm_to_fast sample_codec = [(150, 1), (151, 0)]" "fx_token_bytes sample_codec = [[0x41], [0x42, 0x43]]"
    by (simp_all add: sample_codec_def new_fast_codec_def vlm_to_fast_pairs_def)
  have "extract_fast_tokens sample_codec [7, 151] = Inr [0]"
    by (simp add: extract_fast_tokens_def maps find_vlm_def lower_bound_def fast_limits)
  moreover have "decode_fast_tokens (\<lambda>x. x) sample_codec [[0]] = Inr \<lparr>fr_batch_size = 1, fr_time_horizon = 1, fr_action_dim = 1,
      fr_actions = [idct_value (\<lambda>x. x) sample_config [0x41] 0 0]\<rparr>"
    by (simp add: decode_fast_tokens_def fast_limits checked_action_count_def sample_codec_def new_fast_codec_def fill_sample_def
        fill_action_def sample_config_def size_max_def byte_level_decode_def decode_utf8_lossy.simps)
  moreover have "idct_value (\<lambda>x. x) sample_config [0x41] 0 0 = f64_mul (dc_scale sample_config) (coefficient sample_config [0x41] 0)"
    by (simp add: idct_value_def sample_config_def)
  moreover have "f32_finite (f32_of_f64 (f64_mul (dc_scale sample_config) (coefficient sample_config [0x41] 0)))"
    unfolding small_value by (simp add: ieee_eval f32_finite_def fmt_simps)
  ultimately show ?thesis by (simp add: decode_generated_tokens_def fast_limits)
qed

theorem fast_policy_decodes_witness:
  "\<exists>p ys zs. load_fast_policy (\<lambda>_. Some small_file) ''p'' = Some (Inr p) \<and>
    decode_generated (\<lambda>x. x) p [7, 151] = Inr ys \<and> length ys = 1 \<and>
    unnormalize_fast p ys ''k'' = Some (Inr zs) \<and> zs ! 0 = denormalized_entry small_norm (hd (nc_profiles small_norm)) 0 (ys ! 0)"
proof -
  obtain p where p: "load_fast_policy (\<lambda>_. Some small_file) ''p'' = Some (Inr p)" "po_codec p = sample_codec"
    "fp_normalization (po_config p) = small_norm" "fp_horizon (po_config p) = 1" "fp_action_dim (po_config p) = 1"
    using small_fast_loaded by blast
  obtain d where d: "decode_generated_tokens (\<lambda>x. x) sample_codec [[7, 151]] = Inr d"
    "list_all (\<lambda>v. f32_finite (f32_of_f64 v)) (fr_actions d)" using small_decoded by blast
  have profile: "resolve_normalization_profile small_norm ''k'' = Some (Inr (hd (nc_profiles small_norm)))"
    by (simp add: resolve_key find_profile_def small_norm_def)
  note exact = fast_policy_decodes [OF p(1), of "\<lambda>x. x" "[7, 151]", unfolded p(2-5) d(1)]
  obtain ys where ys: "decode_generated (\<lambda>x. x) p [7, 151] = Inr ys" using exact d(2) by (auto simp: p)
  from exact ys profile obtain zs where "unnormalize_fast p ys ''k'' = Some (Inr zs)"
    "zs ! 0 = denormalized_entry small_norm (hd (nc_profiles small_norm)) 0 (ys ! 0)" "length ys = 1"
    by fastforce
  with p(1) ys show ?thesis by blast
qed

end
