(* ===== verification/PolicyConfigs.thy ===== *)
theory PolicyConfigs
  imports PolicyGguf Prompts ImagePreprocess
begin

text \<open>
  Metadata of the OFT, GR00T, PI and PI-v3 policies: the \<open>parse_metadata\<close> of \<^verbatim>\<open>oft_policy.cpp\<close>,
  \<^verbatim>\<open>groot_policy.cpp\<close>, \<^verbatim>\<open>pi_policy.cpp\<close> and \<^verbatim>\<open>pi_v3_policy.cpp\<close>.  \<open>None\<close> is a signed overflow, which
  metadata with extreme dimensions can cause before they are checked.
\<close>

text \<open>The bundle of the OFT and GR00T policies, checked field by field.\<close>

definition read_bundle ::
  "gguf \<Rightarrow> (string \<Rightarrow> string) \<Rightarrow> string \<Rightarrow> string \<Rightarrow> string \<Rightarrow> string \<Rightarrow> string \<Rightarrow> bundle_config res"
where
  "read_bundle g architecture_msg framework schema_msg backbone_msg uuid_msg files_msg =
     bind_res (require_string g ''general.architecture'') (\<lambda>architecture.
       if architecture \<noteq> ''starvla-policy'' then Inl (architecture_msg architecture)
       else bind_res (check_schema g framework schema_msg) (\<lambda>_.
         bind_res (require_string g ''starvla.backbone.arch'') (\<lambda>arch.
           if arch \<noteq> ''qwen3_vl'' \<and> arch \<noteq> ''qwen2_5_vl'' then Inl backbone_msg
           else bind_res (require_string g ''starvla.bundle.uuid'') (\<lambda>uuid.
             if uuid = [] then Inl uuid_msg
             else bind_res (require_string g ''starvla.component.text.filename'') (\<lambda>text_filename.
               bind_res (require_string g ''starvla.component.mmproj.filename'') (\<lambda>mmproj_filename.
                 if text_filename = [] \<or> mmproj_filename = [] then Inl files_msg
                 else Inr \<lparr>bc_backbone_arch = arch, bc_bundle_uuid = uuid, bc_text_filename = text_filename,
                        bc_mmproj_filename = mmproj_filename\<rparr>))))))"

subsection \<open>OFT\<close>

record oft_policy_config =
  oc_bundle :: bundle_config
  oc_input_dim :: int
  oc_input_embedding_dim :: int
  oc_vocab_size :: int
  oc_hidden_dim :: int
  oc_block_count :: int
  oc_action_dim :: int
  oc_horizon :: int
  oc_layer_norm_epsilon :: f32
  oc_prompt :: oft_prompt_config
  oc_action_token_id :: int
  oc_image :: image_config
  oc_normalization :: norm_config

definition read_oft_prompt :: "gguf \<Rightarrow> int \<Rightarrow> (oft_prompt_config \<times> int) res" where
  "read_oft_prompt g horizon =
     bind_res (require_string g ''starvla.prompt.action_token'') (\<lambda>action_token.
     bind_res (require_string g ''starvla.prompt.action_suffix'') (\<lambda>action_suffix.
     bind_res (require_bool g ''starvla.prompt.cot_enabled'') (\<lambda>cot_enabled.
     bind_res (require_string g ''starvla.prompt.cot_template'') (\<lambda>cot_template.
     bind_res (require_i32 g ''starvla.prompt.state_bins'') (\<lambda>state_bins.
     bind_res (require_f32 g ''starvla.prompt.state_bin_min'') (\<lambda>state_bin_min.
     bind_res (require_f32 g ''starvla.prompt.state_bin_max'') (\<lambda>state_bin_max.
     bind_res (require_bool g ''starvla.prompt.state_clip'') (\<lambda>state_clip.
     bind_res (require_i32 g ''starvla.prompt.action_token_id'') (\<lambda>action_token_id.
       let prompt = \<lparr>op_horizon = horizon, op_action_token = action_token, op_action_suffix = action_suffix,
             op_cot_enabled = cot_enabled, op_cot_template = cot_template, op_state_bins = state_bins,
             op_state_bin_min = state_bin_min, op_state_bin_max = state_bin_max, op_state_clip = state_clip\<rparr>
       in case validate_oft_prompt_config prompt of
            Inl e \<Rightarrow> Inl (if e = [] then ''StarVLA OFT token/template metadata is incompatible'' else e)
          | Inr _ \<Rightarrow> if action_token_id < 0 then Inl ''StarVLA OFT token/template metadata is incompatible''
              else Inr (prompt, action_token_id))))))))))"

definition oft_dimensions_valid :: "int list \<Rightarrow> f32 \<Rightarrow> bool" where
  "oft_dimensions_valid dims epsilon \<longleftrightarrow> list_all (\<lambda>d. d > 0) dims \<and> f32_positive epsilon"

definition parse_oft_metadata :: "gguf \<Rightarrow> oft_policy_config res" where
  "parse_oft_metadata g =
     bind_res (read_bundle g (\<lambda>a. ''StarVLA policy GGUF has incompatible general.architecture: '' @ a) ''oft''
         ''StarVLA policy GGUF is not a supported Qwen OFT schema''
         ''StarVLA OFT policy has an unsupported Qwen backbone'' ''StarVLA policy bundle UUID is missing''
         ''StarVLA policy component filenames must be non-empty'') (\<lambda>bundle.
     bind_res (require_i32 g ''starvla.qwen.hidden_size'') (\<lambda>input_dim.
     bind_res (require_i32 g ''starvla.qwen.input_embedding_size'') (\<lambda>input_embedding_dim.
     bind_res (require_i32 g ''starvla.qwen.vocab_size'') (\<lambda>vocab_size.
     bind_res (require_i32 g ''starvla.oft.hidden_size'') (\<lambda>hidden_dim.
     bind_res (require_i32 g ''starvla.oft.block_count'') (\<lambda>block_count.
     bind_res (require_i32 g ''starvla.action.dimension'') (\<lambda>action_dim.
     bind_res (require_i32 g ''starvla.action.horizon'') (\<lambda>horizon.
     bind_res (require_f32 g ''starvla.oft.layer_norm_epsilon'') (\<lambda>epsilon.
       if \<not> oft_dimensions_valid [input_dim, input_embedding_dim, vocab_size, hidden_dim, block_count, action_dim, horizon]
              epsilon then Inl ''StarVLA OFT policy metadata has incompatible dimensions''
       else bind_res (read_oft_prompt g horizon) (\<lambda>(prompt, action_token_id).
         bind_res (read_image_config g) (\<lambda>img.
           if \<not> image_config_valid img then Inl ''StarVLA OFT image metadata is incompatible''
           else bind_res (require_normalization g action_dim) (\<lambda>normalization.
             Inr \<lparr>oc_bundle = bundle, oc_input_dim = input_dim, oc_input_embedding_dim = input_embedding_dim,
               oc_vocab_size = vocab_size, oc_hidden_dim = hidden_dim, oc_block_count = block_count,
               oc_action_dim = action_dim, oc_horizon = horizon, oc_layer_norm_epsilon = epsilon, oc_prompt = prompt,
               oc_action_token_id = action_token_id, oc_image = img, oc_normalization = normalization\<rparr>))))))))))))"

subsection \<open>GR00T\<close>

record groot_policy_config =
  gc_bundle :: bundle_config
  gc_qwen_hidden_dim :: int
  gc_qwen_input_embedding_dim :: int
  gc_qwen_vocab_size :: int
  gc_cot_template :: string
  gc_image :: image_config
  gc_dit_width :: int
  gc_block_count :: int
  gc_attention_head_count :: int
  gc_attention_head_dim :: int
  gc_cross_attention_dim :: int
  gc_feed_forward_dim :: int
  gc_output_dim :: int
  gc_mlp_hidden_dim :: int
  gc_action_dim :: int
  gc_horizon :: int
  gc_future_token_count :: int
  gc_action_position_count :: int
  gc_no_state_sequence_length :: int
  gc_timestep_projection_dim :: int
  gc_ada_norm_epsilon :: f32
  gc_output_norm_epsilon :: f32
  gc_euler_dt :: f32
  gc_timestep_ids :: "int list"
  gc_normalization :: norm_config

definition no_normalization :: norm_config where
  "no_normalization = \<lparr>nc_default_key = [], nc_clip = False, nc_threshold = f32_zero, nc_comparison = [],
     nc_continuous = [], nc_binary = [], nc_profiles = []\<rparr>"

text \<open>The fields before the normalisation, in the order of the source.\<close>

definition read_groot_config :: "gguf \<Rightarrow> groot_policy_config res" where
  "read_groot_config g =
     bind_res (read_bundle g (\<lambda>_. ''StarVLA GR00T policy has incompatible general.architecture'') ''groot''
         ''StarVLA policy GGUF is not a supported Qwen GR00T schema''
         ''StarVLA GR00T policy has an unsupported Qwen backbone'' ''StarVLA GR00T bundle UUID is missing''
         ''StarVLA GR00T component filenames must be non-empty'') (\<lambda>bundle.
     bind_res (require_i32 g ''starvla.qwen.hidden_size'') (\<lambda>hidden_dim.
     bind_res (require_i32 g ''starvla.qwen.input_embedding_size'') (\<lambda>input_embedding_dim.
     bind_res (require_i32 g ''starvla.qwen.vocab_size'') (\<lambda>vocab_size.
     bind_res (require_string g ''starvla.prompt.cot_template'') (\<lambda>cot_template.
       if cot_template = [] then Inl ''StarVLA GR00T prompt template is missing''
       else bind_res (read_image_config g) (\<lambda>img.
     bind_res (each_res (\<lambda>name. require_i32 g (''starvla.groot.'' @ name))
        [''dit_width'', ''block_count'', ''attention_head_count'', ''attention_head_dim'', ''cross_attention_dim'',
         ''feed_forward_dim'', ''output_dimension'', ''mlp_hidden_dimension'', ''future_token_count'',
         ''action_position_count'', ''no_state_sequence_length'', ''timestep_projection_dim'']) (\<lambda>d.
     bind_res (require_f32 g ''starvla.groot.ada_norm_epsilon'') (\<lambda>ada_norm_epsilon.
     bind_res (require_f32 g ''starvla.groot.output_norm_epsilon'') (\<lambda>output_norm_epsilon.
     bind_res (require_f32 g ''starvla.groot.euler_dt'') (\<lambda>euler_dt.
     bind_res (require_i32_array g ''starvla.groot.timestep_ids'') (\<lambda>timestep_ids.
     bind_res (require_i32 g ''starvla.action.dimension'') (\<lambda>action_dim.
     bind_res (require_i32 g ''starvla.action.horizon'') (\<lambda>horizon.
       Inr \<lparr>gc_bundle = bundle, gc_qwen_hidden_dim = hidden_dim, gc_qwen_input_embedding_dim = input_embedding_dim,
         gc_qwen_vocab_size = vocab_size, gc_cot_template = cot_template, gc_image = img, gc_dit_width = d ! 0,
         gc_block_count = d ! 1, gc_attention_head_count = d ! 2, gc_attention_head_dim = d ! 3,
         gc_cross_attention_dim = d ! 4, gc_feed_forward_dim = d ! 5, gc_output_dim = d ! 6, gc_mlp_hidden_dim = d ! 7,
         gc_action_dim = action_dim, gc_horizon = horizon, gc_future_token_count = d ! 8,
         gc_action_position_count = d ! 9, gc_no_state_sequence_length = d ! 10, gc_timestep_projection_dim = d ! 11,
         gc_ada_norm_epsilon = ada_norm_epsilon, gc_output_norm_epsilon = output_norm_epsilon, gc_euler_dt = euler_dt,
         gc_timestep_ids = timestep_ids, gc_normalization = no_normalization\<rparr>)))))))))))))"

text \<open>A remainder by 2 of a C++ \<open>int\<close> is zero exactly for even values.\<close>

definition groot_checks :: "groot_policy_config \<Rightarrow> bool option list" where
  "groot_checks c =
     [Some (gc_qwen_hidden_dim c > 0 \<and> gc_qwen_vocab_size c > 0 \<and> gc_dit_width c > 0),
      Some (gc_qwen_input_embedding_dim c =
        (if bc_backbone_arch (gc_bundle c) = ''qwen2_5_vl'' then gc_qwen_hidden_dim c else 4 * gc_qwen_hidden_dim c)),
      Some (even (gc_dit_width c) \<and> gc_block_count c > 0 \<and> even (gc_block_count c) \<and> gc_attention_head_count c > 0 \<and>
        gc_attention_head_dim c > 0),
      int_check (gc_attention_head_count c * gc_attention_head_dim c) (\<lambda>v. v = gc_dit_width c),
      Some (gc_cross_attention_dim c = gc_qwen_hidden_dim c \<and> gc_feed_forward_dim c > 0 \<and> gc_output_dim c > 0 \<and>
        gc_mlp_hidden_dim c > 0 \<and> gc_action_dim c > 0 \<and> gc_horizon c > 0 \<and> gc_future_token_count c > 0 \<and>
        gc_action_position_count c \<ge> gc_horizon c),
      int_check (gc_future_token_count c + gc_horizon c) (\<lambda>v. gc_no_state_sequence_length c = v),
      Some (gc_timestep_projection_dim c \<ge> 4 \<and> even (gc_timestep_projection_dim c) \<and>
        f32_positive (gc_ada_norm_epsilon c) \<and> f32_positive (gc_output_norm_epsilon c) \<and> f32_positive (gc_euler_dt c) \<and>
        length (gc_timestep_ids c) = 4 \<and> image_config_valid (gc_image c))]"

definition parse_groot_metadata :: "gguf \<Rightarrow> groot_policy_config run" where
  "parse_groot_metadata g =
     bind_run (Some (read_groot_config g)) (\<lambda>config.
     bind_run (require_checks (groot_checks config) ''StarVLA GR00T policy metadata has incompatible dimensions'') (\<lambda>_.
     bind_run (Some (require_normalization g (gc_action_dim config))) (\<lambda>normalization.
       Some (Inr (config\<lparr>gc_normalization := normalization\<rparr>)))))"

subsection \<open>PI\<close>

record pi_policy_config =
  pc_bundle :: bundle_config
  pc_qwen_hidden_dim :: int
  pc_qwen_input_embedding_dim :: int
  pc_qwen_layer_count :: int
  pc_qwen_vocab_size :: int
  pc_cot_template :: string
  pc_hidden_tuple_indices :: "int list"
  pc_image :: image_config
  pc_pre_resize_width :: int
  pc_pre_resize_height :: int
  pc_dit_width :: int
  pc_block_count :: int
  pc_attention_head_count :: int
  pc_attention_head_dim :: int
  pc_cross_attention_dim :: int
  pc_feed_forward_dim :: int
  pc_mlp_hidden_dim :: int
  pc_state_dim :: int
  pc_action_dim :: int
  pc_horizon :: int
  pc_state_token_count :: int
  pc_future_token_count :: int
  pc_action_position_count :: int
  pc_timestep_projection_dim :: int
  pc_num_inference_timesteps :: int
  pc_ada_norm_epsilon :: f32
  pc_euler_dt :: f32
  pc_timestep_ids :: "int list"
  pc_normalization :: norm_config

text \<open>A negative count makes \<open>std::vector::reserve\<close> throw.\<close>

definition expected_hidden_tuple_indices :: "int \<Rightarrow> int \<Rightarrow> int list run" where
  "expected_hidden_tuple_indices qwen_layer_count block_count =
     (if block_count < 0 then Some (Inl ''vector::reserve'')
      else if \<not> fits_sint 32 (qwen_layer_count + 1) \<or> \<not> fits_sint 32 (qwen_layer_count + 1 - block_count) then None
      else Some (Inr [qwen_layer_count + 1 - block_count..qwen_layer_count]))"

definition read_pi_image :: "gguf \<Rightarrow> (image_config \<times> int \<times> int) res" where
  "read_pi_image g =
     bind_res (require_i32 g ''starvla.image.count'') (\<lambda>n.
     bind_res (require_string_array g ''starvla.image.names'') (\<lambda>names.
     bind_res (each_res (\<lambda>name. require_i32 g (''starvla.image.'' @ name))
        [''framework_inference_pre_resize_width'', ''framework_inference_pre_resize_height'', ''processor_min_pixels'',
         ''processor_max_pixels'', ''patch_size'', ''spatial_merge_size'', ''min_token_count'', ''max_token_count''])
        (\<lambda>d. Inr (\<lparr>ic_image_count = n, ic_image_names = names, ic_min_pixels = d ! 2, ic_max_pixels = d ! 3,
           ic_patch_size = d ! 4, ic_spatial_merge_size = d ! 5, ic_min_token_count = d ! 6, ic_max_token_count = d ! 7\<rparr>,
           d ! 0, d ! 1))))"

definition read_pi_config :: "gguf \<Rightarrow> pi_policy_config res" where
  "read_pi_config g =
     bind_res (read_qwen25_bundle g ''pi'' ''GGUF is not a supported StarVLA PI policy''
         ''StarVLA PI bundle metadata is incomplete'') (\<lambda>bundle.
     bind_res (require_i32 g ''starvla.qwen.hidden_size'') (\<lambda>hidden_dim.
     bind_res (require_i32 g ''starvla.qwen.input_embedding_size'') (\<lambda>input_embedding_dim.
     bind_res (require_i32 g ''starvla.qwen.layer_count'') (\<lambda>layer_count.
     bind_res (require_i32 g ''starvla.qwen.vocab_size'') (\<lambda>vocab_size.
     bind_res (require_string g ''starvla.prompt.cot_template'') (\<lambda>cot_template.
     bind_res (require_i32_array g ''starvla.conditioning.hidden_tuple_indices'') (\<lambda>indices.
     bind_res (read_pi_image g) (\<lambda>(img, pre_resize_width, pre_resize_height).
     bind_res (each_res (require_i32 g)
        [''starvla.pi.dit_width'', ''starvla.pi.block_count'', ''starvla.pi.attention_head_count'',
         ''starvla.pi.attention_head_dim'', ''starvla.pi.cross_attention_dim'', ''starvla.pi.feed_forward_dim'',
         ''starvla.pi.mlp_hidden_dimension'', ''starvla.state.dimension'', ''starvla.action.dimension'',
         ''starvla.action.horizon'', ''starvla.pi.state_token_count'', ''starvla.pi.future_token_count'',
         ''starvla.pi.action_position_count'', ''starvla.pi.timestep_projection_dim'',
         ''starvla.pi.num_inference_timesteps'']) (\<lambda>d.
     bind_res (require_f32 g ''starvla.pi.ada_norm_epsilon'') (\<lambda>ada_norm_epsilon.
     bind_res (require_f32 g ''starvla.pi.euler_dt'') (\<lambda>euler_dt.
     bind_res (require_i32_array g ''starvla.pi.timestep_ids'') (\<lambda>timestep_ids.
       Inr \<lparr>pc_bundle = bundle, pc_qwen_hidden_dim = hidden_dim, pc_qwen_input_embedding_dim = input_embedding_dim,
         pc_qwen_layer_count = layer_count, pc_qwen_vocab_size = vocab_size, pc_cot_template = cot_template,
         pc_hidden_tuple_indices = indices, pc_image = img, pc_pre_resize_width = pre_resize_width,
         pc_pre_resize_height = pre_resize_height, pc_dit_width = d ! 0, pc_block_count = d ! 1,
         pc_attention_head_count = d ! 2, pc_attention_head_dim = d ! 3, pc_cross_attention_dim = d ! 4,
         pc_feed_forward_dim = d ! 5, pc_mlp_hidden_dim = d ! 6, pc_state_dim = d ! 7, pc_action_dim = d ! 8,
         pc_horizon = d ! 9, pc_state_token_count = d ! 10, pc_future_token_count = d ! 11,
         pc_action_position_count = d ! 12, pc_timestep_projection_dim = d ! 13, pc_num_inference_timesteps = d ! 14,
         pc_ada_norm_epsilon = ada_norm_epsilon, pc_euler_dt = euler_dt, pc_timestep_ids = timestep_ids,
         pc_normalization = no_normalization\<rparr>))))))))))))"

definition pi_checks :: "pi_policy_config \<Rightarrow> int list \<Rightarrow> bool option list" where
  "pi_checks c expected_indices =
     [Some (pc_qwen_hidden_dim c > 0 \<and> pc_qwen_input_embedding_dim c = pc_qwen_hidden_dim c \<and>
        pc_qwen_layer_count c \<ge> pc_block_count c \<and> pc_qwen_vocab_size c > 0 \<and> pc_dit_width c > 0 \<and>
        even (pc_dit_width c) \<and> pc_block_count c > 0 \<and> pc_attention_head_count c > 0 \<and> pc_attention_head_dim c > 0),
      int_check (pc_attention_head_count c * pc_attention_head_dim c) (\<lambda>v. v = pc_dit_width c),
      Some (pc_cross_attention_dim c = pc_qwen_hidden_dim c \<and> pc_feed_forward_dim c > 0 \<and> pc_mlp_hidden_dim c > 0 \<and>
        pc_state_dim c > 0 \<and> pc_action_dim c > 0 \<and> pc_horizon c > 0 \<and> pc_state_token_count c = 1 \<and>
        pc_future_token_count c > 0 \<and> pc_action_position_count c \<ge> pc_horizon c \<and> pc_timestep_projection_dim c \<ge> 4 \<and>
        even (pc_timestep_projection_dim c) \<and> pc_num_inference_timesteps c > 0 \<and>
        length (pc_timestep_ids c) = nat (pc_num_inference_timesteps c) \<and> f32_positive (pc_ada_norm_epsilon c) \<and>
        f32_positive (pc_euler_dt c) \<and> pc_hidden_tuple_indices c = expected_indices \<and> image_config_valid (pc_image c) \<and>
        pc_pre_resize_width c > 0 \<and> pc_pre_resize_height c > 0 \<and> pc_cot_template c \<noteq> [])]"

definition parse_pi_metadata :: "gguf \<Rightarrow> pi_policy_config run" where
  "parse_pi_metadata g =
     bind_run (Some (read_pi_config g)) (\<lambda>config.
     bind_run (expected_hidden_tuple_indices (pc_qwen_layer_count config) (pc_block_count config)) (\<lambda>expected_indices.
     bind_run (require_checks (pi_checks config expected_indices)
        ''StarVLA PI dimensions, hidden taps, or sampler schedule are incompatible'') (\<lambda>_.
     bind_run (Some (require_normalization g (pc_action_dim config))) (\<lambda>normalization.
       if \<not> nc_clip normalization \<or> nc_comparison normalization \<noteq> ''ge'' then
         Some (Inl (''StarVLA PI normalization must clip actions and use binary comparison '' @
           [CHR 0x27] @ ''ge'' @ [CHR 0x27]))
       else Some (Inr (config\<lparr>pc_normalization := normalization\<rparr>))))))"

subsection \<open>PI-v3\<close>

record pi_v3_policy_config =
  vc_bundle :: bundle_config
  vc_qwen_hidden_dim :: int
  vc_qwen_input_embedding_dim :: int
  vc_qwen_layer_count :: int
  vc_qwen_vocab_size :: int
  vc_cot_template :: string
  vc_image :: image_config
  vc_dit_width :: int
  vc_block_count :: int
  vc_projector_count :: int
  vc_attention_head_count :: int
  vc_attention_head_dim :: int
  vc_feed_forward_dim :: int
  vc_mlp_hidden_dim :: int
  vc_action_dim :: int
  vc_horizon :: int
  vc_future_token_count :: int
  vc_action_position_count :: int
  vc_no_state_sequence_length :: int
  vc_timestep_projection_dim :: int
  vc_num_timestep_buckets :: int
  vc_num_inference_timesteps :: int
  vc_ada_norm_epsilon :: f32
  vc_projector_norm_epsilon :: f32
  vc_euler_dt :: f32
  vc_hidden_tuple_indices :: "int list"
  vc_timestep_ids :: "int list"
  vc_normalization :: norm_config

definition kReleasedLayerCount :: int where "kReleasedLayerCount = 36"

definition integer_range :: "int \<Rightarrow> int \<Rightarrow> int list" where
  "integer_range first count = map (\<lambda>index. first + int index) [0..<nat count]"

definition read_pi_v3_bundle :: "gguf \<Rightarrow> bundle_config res" where
  "read_pi_v3_bundle g =
     bind_res (require_string g ''general.architecture'') (\<lambda>architecture.
       if architecture \<noteq> ''starvla-policy'' then Inl ''GGUF is not a supported StarVLA PI-v3 policy''
       else bind_res (check_schema g ''pi_v3'' ''GGUF is not a supported StarVLA PI-v3 policy'') (\<lambda>_.
         bind_res (require_string g ''starvla.backbone.arch'') (\<lambda>arch.
           if arch \<noteq> ''qwen3_vl'' then Inl ''StarVLA PI-v3 requires a Qwen3-VL backbone''
           else bind_res (require_string g ''starvla.bundle.uuid'') (\<lambda>uuid.
             bind_res (require_string g ''starvla.component.text.filename'') (\<lambda>text_filename.
             bind_res (require_string g ''starvla.component.mmproj.filename'') (\<lambda>mmproj_filename.
               if uuid = [] \<or> text_filename = [] \<or> mmproj_filename = [] then
                 Inl ''StarVLA PI-v3 bundle metadata is incomplete''
               else Inr \<lparr>bc_backbone_arch = arch, bc_bundle_uuid = uuid, bc_text_filename = text_filename,
                      bc_mmproj_filename = mmproj_filename\<rparr>))))))"

definition read_pi_v3_config :: "gguf \<Rightarrow> pi_v3_policy_config res" where
  "read_pi_v3_config g =
     bind_res (read_pi_v3_bundle g) (\<lambda>bundle.
     bind_res (require_i32 g ''starvla.qwen.hidden_size'') (\<lambda>hidden_dim.
     bind_res (require_i32 g ''starvla.qwen.input_embedding_size'') (\<lambda>input_embedding_dim.
     bind_res (require_i32 g ''starvla.qwen.layer_count'') (\<lambda>layer_count.
     bind_res (require_i32 g ''starvla.qwen.vocab_size'') (\<lambda>vocab_size.
     bind_res (require_string g ''starvla.prompt.cot_template'') (\<lambda>cot_template.
     bind_res (read_image_config g) (\<lambda>img.
     bind_res (each_res (\<lambda>name. require_i32 g (''starvla.pi_v3.'' @ name))
        [''dit_width'', ''block_count'', ''projector_count'', ''attention_head_count'', ''attention_head_dim'',
         ''feed_forward_dim'', ''mlp_hidden_dimension'', ''future_token_count'', ''action_position_count'',
         ''no_state_sequence_length'', ''timestep_projection_dim'', ''num_timestep_buckets'',
         ''num_inference_timesteps'']) (\<lambda>d.
     bind_res (require_f32 g ''starvla.pi_v3.ada_norm_epsilon'') (\<lambda>ada_norm_epsilon.
     bind_res (require_f32 g ''starvla.pi_v3.projector_norm_epsilon'') (\<lambda>projector_norm_epsilon.
     bind_res (require_f32 g ''starvla.pi_v3.euler_dt'') (\<lambda>euler_dt.
     bind_res (require_i32 g ''starvla.action.dimension'') (\<lambda>action_dim.
     bind_res (require_i32 g ''starvla.action.horizon'') (\<lambda>horizon.
       Inr \<lparr>vc_bundle = bundle, vc_qwen_hidden_dim = hidden_dim, vc_qwen_input_embedding_dim = input_embedding_dim,
         vc_qwen_layer_count = layer_count, vc_qwen_vocab_size = vocab_size, vc_cot_template = cot_template,
         vc_image = img, vc_dit_width = d ! 0, vc_block_count = d ! 1, vc_projector_count = d ! 2,
         vc_attention_head_count = d ! 3, vc_attention_head_dim = d ! 4, vc_feed_forward_dim = d ! 5,
         vc_mlp_hidden_dim = d ! 6, vc_action_dim = action_dim, vc_horizon = horizon, vc_future_token_count = d ! 7,
         vc_action_position_count = d ! 8, vc_no_state_sequence_length = d ! 9, vc_timestep_projection_dim = d ! 10,
         vc_num_timestep_buckets = d ! 11, vc_num_inference_timesteps = d ! 12, vc_ada_norm_epsilon = ada_norm_epsilon,
         vc_projector_norm_epsilon = projector_norm_epsilon, vc_euler_dt = euler_dt, vc_hidden_tuple_indices = [],
         vc_timestep_ids = [], vc_normalization = no_normalization\<rparr>)))))))))))))"

definition pi_v3_checks :: "pi_v3_policy_config \<Rightarrow> bool option list" where
  "pi_v3_checks c =
     [Some (vc_qwen_hidden_dim c > 0 \<and> vc_qwen_input_embedding_dim c > 0 \<and>
        vc_qwen_layer_count c = kReleasedLayerCount \<and> vc_qwen_vocab_size c > 0 \<and> vc_cot_template c \<noteq> [] \<and>
        image_config_valid (vc_image c) \<and> vc_dit_width c > 0 \<and> vc_block_count c = kReleasedLayerCount \<and>
        vc_projector_count c = vc_block_count c \<and> vc_attention_head_count c > 0 \<and> vc_attention_head_dim c > 0),
      int_check (vc_attention_head_count c * vc_attention_head_dim c) (\<lambda>v. v = vc_dit_width c),
      Some (vc_feed_forward_dim c > 0 \<and> vc_mlp_hidden_dim c > 0 \<and> vc_action_dim c > 0 \<and> vc_horizon c > 0 \<and>
        vc_future_token_count c > 0 \<and> vc_action_position_count c \<ge> vc_horizon c),
      int_check (vc_future_token_count c + vc_horizon c) (\<lambda>v. vc_no_state_sequence_length c = v),
      Some (vc_timestep_projection_dim c \<ge> 4 \<and> even (vc_timestep_projection_dim c) \<and> vc_num_timestep_buckets c > 0 \<and>
        vc_num_inference_timesteps c = 4 \<and> f32_lt f32_zero (vc_ada_norm_epsilon c) \<and>
        f32_lt f32_zero (vc_projector_norm_epsilon c) \<and> f32_lt f32_zero (vc_euler_dt c))]"

text \<open>The products \<open>step * buckets\<close> are computed before the division.\<close>

definition pi_v3_timestep_ids :: "pi_v3_policy_config \<Rightarrow> int list option" where
  "pi_v3_timestep_ids c =
     those (map (\<lambda>step. if fits_sint 32 (int step * vc_num_timestep_buckets c)
        then Some (int step * vc_num_timestep_buckets c div vc_num_inference_timesteps c) else None)
       [0..<nat (vc_num_inference_timesteps c)])"

definition parse_pi_v3_metadata :: "gguf \<Rightarrow> pi_v3_policy_config run" where
  "parse_pi_v3_metadata g =
     bind_run (Some (read_pi_v3_config g)) (\<lambda>config.
     bind_run (require_checks (pi_v3_checks config) ''StarVLA PI-v3 metadata has incompatible dimensions'') (\<lambda>_.
     Option.bind (pi_v3_timestep_ids config) (\<lambda>timestep_ids.
     bind_run (Some (require_normalization g (vc_action_dim config))) (\<lambda>normalization.
       Some (Inr (config\<lparr>vc_hidden_tuple_indices := integer_range 1 (vc_qwen_layer_count config),
         vc_timestep_ids := timestep_ids, vc_normalization := normalization\<rparr>))))))"

end
