(* ===== verification/GgufLoader.thy ===== *)
theory GgufLoader
  imports PolicyGguf
begin

text \<open>
  The loader of \<^verbatim>\<open>src/models/gguf_loader.cpp\<close>: metadata, tensor data and bindings of a gguf file.  The two
  virtual functions are arguments, an exception they throw is their error.  What ggml and the file
  system answer is the record \<open>policy_file\<close> and the two flags of \<open>platform\<close>.  The four pointers of a load are
  a record of options (null is \<open>None\<close>), freed and cleared one by one, and a log has every acquisition and every
  release, so that the theorem on the cleanup speaks of every path.
\<close>

text \<open>Whether ggml creates the data context, and allocates the model buffer.\<close>

record platform =
  pl_context :: bool
  pl_buffer :: bool

subsection \<open>Handles\<close>

datatype resource = Gguf_context | Meta_context | Data_context | Model_buffer

datatype 'r event = Acquired 'r | Freed 'r

text \<open>What is held after a log; \<open>None\<close> when the log releases what is not held, or acquires what is held.\<close>

fun held :: "'r set \<Rightarrow> 'r event list \<Rightarrow> 'r set option" where
  "held hs [] = Some hs"
| "held hs (Acquired r # log) = (if r \<in> hs then None else held (insert r hs) log)"
| "held hs (Freed r # log) = (if r \<in> hs then held (hs - {r}) log else None)"

lemma held_append: "held hs (log @ log') = Option.bind (held hs log) (\<lambda>hs'. held hs' log')"
  by (induction hs log rule: held.induct) auto

definition free_handle :: "'r option \<Rightarrow> 'r event list \<Rightarrow> 'r event list" where
  "free_handle p log = (case p of None \<Rightarrow> log | Some r \<Rightarrow> log @ [Freed r])"

lemma free_handle_simps [simp]: "free_handle None log = log" "free_handle (Some r) log = log @ [Freed r]"
  by (simp_all add: free_handle_def)

text \<open>The local variables of \<open>load\<close>.\<close>

record load_locals =
  lv_gguf :: "resource option"
  lv_meta :: "resource option"
  lv_ctx_data :: "resource option"
  lv_model_buffer :: "resource option"
  lv_log :: "resource event list"

definition no_locals :: load_locals where
  "no_locals = \<lparr>lv_gguf = None, lv_meta = None, lv_ctx_data = None, lv_model_buffer = None, lv_log = []\<rparr>"

lemma no_locals_log [simp]: "lv_log no_locals = []"
  by (simp add: no_locals_def)

text \<open>\<open>gguf_init_from_file\<close> gives the metadata and, through its parameter, the context of their tensors.\<close>

definition gguf_opened :: "load_locals \<Rightarrow> load_locals" where
  "gguf_opened l = l\<lparr>lv_meta := Some Meta_context, lv_gguf := Some Gguf_context,
     lv_log := lv_log l @ [Acquired Meta_context, Acquired Gguf_context]\<rparr>"

text \<open>The lambda \<open>cleanup\<close>: each pointer that is not null is freed, then cleared.\<close>

definition free_meta :: "load_locals \<Rightarrow> load_locals" where
  "free_meta l = l\<lparr>lv_log := free_handle (lv_meta l) (lv_log l), lv_meta := None\<rparr>"

definition cleanup :: "load_locals \<Rightarrow> load_locals" where
  "cleanup l =
     (let l = l\<lparr>lv_log := free_handle (lv_model_buffer l) (lv_log l), lv_model_buffer := None\<rparr>;
          l = l\<lparr>lv_log := free_handle (lv_ctx_data l) (lv_log l), lv_ctx_data := None\<rparr>;
          l = free_meta l
      in l\<lparr>lv_log := free_handle (lv_gguf l) (lv_log l), lv_gguf := None\<rparr>)"

type_synonym 'a loading = "'a run \<times> load_locals"

definition load_fail :: "string \<Rightarrow> load_locals \<Rightarrow> 'a loading" where
  "load_fail e l = (Some (Inl e), cleanup l)"

definition read_one :: "policy_file \<Rightarrow> u8 list \<Rightarrow> string \<Rightarrow> u8 list run" where
  "read_one f content name =
     (case (pf_tensor f name, pf_tensor_offset f name) of
        (Some t, Some tensor_offset) \<Rightarrow>
          let offset = (pf_data_offset f + tensor_offset) mod 2 ^ 64 in
          if offset \<ge> 2 ^ 63 then Some (Inl (''failed to seek tensor: '' @ name))
          else if offset + te_nbytes t > length content then Some (Inl (''failed to read tensor: '' @ name))
          else Some (Inr (take (te_nbytes t) (drop offset content)))
      | _ \<Rightarrow> None)"

text \<open>The three pointers of \<open>gguf_load_result\<close>.\<close>

record handles =
  hd_gguf :: "resource option"
  hd_ctx_data :: "resource option"
  hd_model_buffer :: "resource option"

definition no_handles :: handles where
  "no_handles = \<lparr>hd_gguf = None, hd_ctx_data = None, hd_model_buffer = None\<rparr>"

definition handle_set :: "handles \<Rightarrow> resource set" where
  "handle_set h = set_option (hd_gguf h) \<union> set_option (hd_ctx_data h) \<union> set_option (hd_model_buffer h)"

text \<open>What a load leaves: \<open>out\<close>, the values of the two virtual functions, and the tensor data; no data
  context and no bindings for a file without tensors.\<close>

record ('c, 'w) gguf_load_result =
  gl_handles :: handles
  gl_config :: 'c
  gl_weights :: "('w \<times> (string \<times> u8 list) list) option"

definition missing_tensor :: "policy_file \<Rightarrow> string option" where
  "missing_tensor f = List.find (\<lambda>name. pf_tensor f name = None) (pf_tensor_names f)"

text \<open>After the metadata: the data context, the buffer, the data, the bindings.\<close>

definition load_tensors ::
  "platform \<Rightarrow> ((string \<Rightarrow> tensor_entry option) \<Rightarrow> 'w run) \<Rightarrow> policy_file \<Rightarrow> string \<Rightarrow> load_locals \<Rightarrow>
     ('w \<times> (string \<times> u8 list) list) loading"
where
  "load_tensors platform bind_weights f path l =
     (case missing_tensor f of
        Some name \<Rightarrow> load_fail (''missing tensor metadata: '' @ name) l
      | None \<Rightarrow>
          if \<not> pl_context platform then load_fail ''failed to create GGUF tensor data context'' l
          else let l = l\<lparr>lv_ctx_data := Some Data_context, lv_log := lv_log l @ [Acquired Data_context]\<rparr> in
            if \<not> pl_buffer platform then load_fail ''failed to allocate GGUF model backend buffer'' l
            else let l = l\<lparr>lv_model_buffer := Some Model_buffer, lv_log := lv_log l @ [Acquired Model_buffer]\<rparr> in
              case pf_content f of
                None \<Rightarrow> load_fail (''failed to open GGUF for tensor loading: '' @ path) l
              | Some content \<Rightarrow>
                  (case each_run (read_one f content) (pf_tensor_names f) of
                     None \<Rightarrow> (None, l)
                   | Some (Inl e) \<Rightarrow> load_fail e l
                   | Some (Inr data) \<Rightarrow>
                       let l = free_meta l in
                       (case bind_weights (pf_tensor f) of
                          None \<Rightarrow> (None, l)
                        | Some (Inl e) \<Rightarrow> load_fail e l
                        | Some (Inr w) \<Rightarrow> (Some (Inr (w, zip (pf_tensor_names f) data)), l))))"

definition gguf_load ::
  "platform \<Rightarrow> (gguf \<Rightarrow> 'c run) \<Rightarrow> ('c \<Rightarrow> (string \<Rightarrow> tensor_entry option) \<Rightarrow> 'w run) \<Rightarrow>
     (string \<Rightarrow> policy_file option) \<Rightarrow> string option \<Rightarrow> bool \<Rightarrow> ('c, 'w) gguf_load_result loading"
where
  "gguf_load platform parse_metadata bind_tensors open_file path has_buft =
     (case path of
        None \<Rightarrow> (Some (Inl ''invalid GGUF loader arguments''), no_locals)
      | Some p \<Rightarrow>
          if \<not> has_buft then (Some (Inl ''invalid GGUF loader arguments''), no_locals)
          else case open_file p of
            None \<Rightarrow> (Some (Inl (''failed to load GGUF: '' @ p)), no_locals)
          | Some f \<Rightarrow>
              let l = gguf_opened no_locals in
              (case parse_metadata (pf_gguf f) of
                 None \<Rightarrow> (None, l)
               | Some (Inl e) \<Rightarrow> load_fail e l
               | Some (Inr config) \<Rightarrow>
                   if pf_tensor_names f = [] then
                     (let out = no_handles\<lparr>hd_gguf := lv_gguf l\<rparr>; l = l\<lparr>lv_gguf := None\<rparr>
                      in (Some (Inr \<lparr>gl_handles = out, gl_config = config, gl_weights = None\<rparr>), cleanup l))
                   else (case load_tensors platform (bind_tensors config) f p l of
                      (None, l) \<Rightarrow> (None, l)
                    | (Some (Inl e), l) \<Rightarrow> (Some (Inl e), l)
                    | (Some (Inr w), l) \<Rightarrow>
                        let out = \<lparr>hd_gguf = lv_gguf l, hd_ctx_data = lv_ctx_data l, hd_model_buffer = lv_model_buffer l\<rparr>;
                            l = l\<lparr>lv_gguf := None, lv_ctx_data := None, lv_model_buffer := None\<rparr>
                        in (Some (Inr \<lparr>gl_handles = out, gl_config = config, gl_weights = Some w\<rparr>), cleanup l))))"

subsection \<open>Bindings\<close>

definition require_tensor :: "(string \<Rightarrow> tensor_entry option) \<Rightarrow> string \<Rightarrow> tensor_entry res" where
  "require_tensor tensors name = need_some (''tensor not found: '' @ name) (tensors name)"

type_synonym shape_check = "string \<times> int list"

definition shapes_ok :: "(string \<Rightarrow> tensor_entry option) \<Rightarrow> shape_check list \<Rightarrow> bool" where
  "shapes_ok tensors checks =
     list_all (\<lambda>(name, shape). case tensors name of None \<Rightarrow> False | Some t \<Rightarrow> has_shape t shape) checks"

fun check_shapes :: "(string \<Rightarrow> tensor_entry option) \<Rightarrow> (shape_check list \<times> string) list \<Rightarrow> unit res" where
  "check_shapes tensors [] = Inr ()"
| "check_shapes tensors ((checks, msg) # groups) =
     (if \<not> shapes_ok tensors checks then Inl msg else check_shapes tensors groups)"

text \<open>All tensors are looked up first, then their shapes are compared, group by group.\<close>

definition bind_all ::
  "string list \<Rightarrow> (shape_check list \<times> string) list \<Rightarrow> (string \<Rightarrow> tensor_entry option) \<Rightarrow> tensor_entry list res"
where
  "bind_all names groups tensors =
     bind_res (each_res (require_tensor tensors) names) (\<lambda>bound.
     bind_res (check_shapes tensors groups) (\<lambda>_. Inr bound))"

lemma check_shapes_Inr: "check_shapes tensors groups = Inr () \<longleftrightarrow> list_all (\<lambda>(checks, _). shapes_ok tensors checks) groups"
  by (induction tensors groups rule: check_shapes.induct) auto

lemma bind_all_Inr:
  "bind_all names groups tensors = Inr bound \<longleftrightarrow>
     map tensors names = map Some bound \<and> list_all (\<lambda>(checks, _). shapes_ok tensors checks) groups"
proof -
  have "each_res (require_tensor tensors) names = Inr bound \<longleftrightarrow> map tensors names = map Some bound" for bound
    unfolding each_res_Inr require_tensor_def need_some_Inr
    by (induction names arbitrary: bound) (auto simp: list_all2_Cons1)
  then show ?thesis by (auto simp: bind_all_def res_simps check_shapes_Inr)
qed

subsection \<open>Optional metadata\<close>

text \<open>The readers with a fallback do not look at the type of a value; \<open>get\<close> is the accessor of the library.\<close>

definition value_or :: "(int \<Rightarrow> 'a) \<Rightarrow> gguf \<Rightarrow> string \<Rightarrow> 'a \<Rightarrow> 'a" where
  "value_or get g key fallback = (if gguf_find_key g key \<ge> 0 then get (gguf_find_key g key) else fallback)"

definition u32_or :: "(int \<Rightarrow> u32) \<Rightarrow> gguf \<Rightarrow> string \<Rightarrow> u32 \<Rightarrow> u32" where
  "u32_or get g key fallback = value_or get g key fallback"

definition f32_or :: "gguf \<Rightarrow> string \<Rightarrow> f32 \<Rightarrow> f32" where
  "f32_or g key fallback = value_or (gguf_get_val_f32 g) g key fallback"

definition require_u32 :: "(int \<Rightarrow> u32) \<Rightarrow> gguf \<Rightarrow> string \<Rightarrow> u32 res" where
  "require_u32 get g key =
     (if gguf_find_key g key < 0 then Inl (''missing required GGUF metadata key: '' @ key)
      else Inr (get (gguf_find_key g key)))"

definition arr_n :: "gguf \<Rightarrow> string \<Rightarrow> int" where
  "arr_n g key = (if gguf_find_key g key \<ge> 0 then int (gguf_get_arr_n g (gguf_find_key g key)) else - 1)"

definition f32_arr3_or :: "gguf \<Rightarrow> string \<Rightarrow> f32 \<times> f32 \<times> f32 \<Rightarrow> f32 \<times> f32 \<times> f32" where
  "f32_arr3_or g key fallback =
     (case (if gguf_find_key g key \<ge> 0 then gguf_arr_data_f32 g (gguf_find_key g key) else None) of
        None \<Rightarrow> fallback
      | Some data \<Rightarrow> if arr_n g key < 3 then fallback else (data 0, data 1, data 2))"

subsection \<open>Properties\<close>

lemmas load_effects = load_fail_def cleanup_def free_meta_def gguf_opened_def no_locals_def no_handles_def Let_def

lemma read_all_cases:
  obtains "x = None" | e where "x = Some (Inl e)" | v where "x = Some (Inr v)"
  by (metis option.exhaust sum.exhaust)

lemma load_tensors_held:
  assumes "load_tensors platform bind_weights f path (gguf_opened no_locals) = (r, l)" "r \<noteq> None"
  shows "(case r of
      Some (Inr w) \<Rightarrow> lv_gguf l = Some Gguf_context \<and> lv_meta l = None \<and> lv_ctx_data l = Some Data_context \<and>
        lv_model_buffer l = Some Model_buffer \<and> held {} (lv_log l) = Some {Gguf_context, Data_context, Model_buffer}
    | _ \<Rightarrow> held {} (lv_log l) = Some {})"
  using assms
  by (auto simp: load_tensors_def load_effects insert_Diff_if split: option.splits sum.splits if_splits)

lemma gguf_load_live:
  "case gguf_load platform parse bind_weights open_file path has_buft of
     (None, l) \<Rightarrow> True
   | (Some (Inl e), l) \<Rightarrow> held {} (lv_log l) = Some {}
   | (Some (Inr r), l) \<Rightarrow> held {} (lv_log l) = Some (handle_set (gl_handles r)) \<and>
       gl_handles r = \<lparr>hd_gguf = Some Gguf_context,
         hd_ctx_data = (if gl_weights r = None then None else Some Data_context),
         hd_model_buffer = (if gl_weights r = None then None else Some Model_buffer)\<rparr>"
proof (cases path)
  case (Some p)
  show ?thesis
  proof (cases "open_file p")
    case None
    then show ?thesis by (simp add: gguf_load_def Some no_locals_def)
  next
    case (Some f)
    note opened = \<open>path = Some p\<close> Some
    show ?thesis
    proof (cases "parse (pf_gguf f)" rule: read_all_cases)
      case (3 config)
      show ?thesis
      proof (cases "pf_tensor_names f = []")
        case True
        then show ?thesis
          by (auto simp: gguf_load_def opened 3 load_effects handle_set_def insert_Diff_if)
      next
        case False
        obtain r l where run: "load_tensors platform (bind_weights config) f p (gguf_opened no_locals) = (r, l)" by fastforce
        note load = gguf_load_def opened 3 run False
        from load_tensors_held [OF run] show ?thesis
          by (cases r rule: read_all_cases)
            (auto simp: load cleanup_def free_meta_def Let_def handle_set_def insert_Diff_if)
      qed
    qed (auto simp: gguf_load_def opened load_effects)
  qed
qed (simp add: gguf_load_def no_locals_def)

text \<open>C17. Loading leaks nothing and frees nothing it hands out, pointer by pointer: on every path each handle that ggml
  gave is released at most once and never before it was given; after an error all are released; after a load exactly the
  handles in the result are still held: the metadata, the data context and the model buffer, or the metadata alone for a
  file without tensors.\<close>

theorem load_releases_resources:
  "case gguf_load platform parse bind_weights open_file path has_buft of
     (None, l) \<Rightarrow> True
   | (Some (Inl e), l) \<Rightarrow> held {} (lv_log l) = Some {}
   | (Some (Inr r), l) \<Rightarrow> held {} (lv_log l) = Some (handle_set (gl_handles r)) \<and>
       gl_handles r = \<lparr>hd_gguf = Some Gguf_context,
         hd_ctx_data = (if gl_weights r = None then None else Some Data_context),
         hd_model_buffer = (if gl_weights r = None then None else Some Model_buffer)\<rparr>"
  by (rule gguf_load_live)

end
