(* ===== verification/PolicyTensors.thy ===== *)
theory PolicyTensors
  imports GgufLoader PolicyConfigs
begin

text \<open>
  The \<open>bind_tensors\<close> of the OFT, GR00T, PI and PI-v3 policies: the tensors a policy file must hold and the
  shapes they must have, in the order the sources ask for them.  The weight structures are the
  tensors under these names.
\<close>

definition with_prefix :: "string \<Rightarrow> string list \<Rightarrow> string list" where
  "with_prefix prefix names = map (\<lambda>name. prefix @ name) names"

definition shapes_with_prefix :: "string \<Rightarrow> shape_check list \<Rightarrow> shape_check list" where
  "shapes_with_prefix prefix checks = map (\<lambda>(name, shape). (prefix @ name, shape)) checks"

text \<open>The prefix of the \<open>i\<close>-th block.\<close>

definition block_prefix :: "string \<Rightarrow> nat \<Rightarrow> string" where
  "block_prefix prefix i = prefix @ nat_to_string i @ ''.''"

subsection \<open>OFT\<close>

definition oft_prefix :: string where "oft_prefix = ''starvla.policy.oft.''"

definition oft_tensor_names :: "oft_policy_config \<Rightarrow> string list" where
  "oft_tensor_names c =
     with_prefix oft_prefix [''input_norm.weight'', ''input_norm.bias'', ''input_proj.weight'', ''input_proj.bias''] @
     concat (map (\<lambda>block. with_prefix (block_prefix (oft_prefix @ ''block.'') block)
        [''norm.weight'', ''norm.bias'', ''linear.weight'', ''linear.bias'']) [0..<nat (oc_block_count c)]) @
     with_prefix oft_prefix [''output_norm.weight'', ''output_norm.bias'', ''output_proj.weight'', ''output_proj.bias'']"

definition oft_projection_shapes :: "oft_policy_config \<Rightarrow> shape_check list" where
  "oft_projection_shapes c = shapes_with_prefix oft_prefix
     [(''input_norm.weight'', [oc_input_dim c]), (''input_norm.bias'', [oc_input_dim c]),
      (''input_proj.weight'', [oc_input_dim c, oc_hidden_dim c]), (''input_proj.bias'', [oc_hidden_dim c]),
      (''output_norm.weight'', [oc_hidden_dim c]), (''output_norm.bias'', [oc_hidden_dim c]),
      (''output_proj.weight'', [oc_hidden_dim c, oc_action_dim c]), (''output_proj.bias'', [oc_action_dim c])]"

definition oft_block_shapes :: "oft_policy_config \<Rightarrow> nat \<Rightarrow> shape_check list" where
  "oft_block_shapes c block = shapes_with_prefix (block_prefix (oft_prefix @ ''block.'') block)
     [(''norm.weight'', [oc_hidden_dim c]), (''norm.bias'', [oc_hidden_dim c]),
      (''linear.weight'', [oc_hidden_dim c, oc_hidden_dim c]), (''linear.bias'', [oc_hidden_dim c])]"

definition bind_oft_tensors :: "oft_policy_config \<Rightarrow> (string \<Rightarrow> tensor_entry option) \<Rightarrow> tensor_entry list run" where
  "bind_oft_tensors c tensors = Some (bind_all (oft_tensor_names c)
     ((oft_projection_shapes c, ''StarVLA OFT projection tensor has an incompatible ggml shape'') #
      map (\<lambda>block. (oft_block_shapes c block, ''StarVLA OFT residual block tensor has an incompatible ggml shape''))
        [0..<nat (oc_block_count c)]) tensors)"

subsection \<open>Transformer blocks\<close>

text \<open>The three diffusion policies share the names of their blocks.\<close>

definition dit_block_names :: "string list" where
  "dit_block_names =
     [''ada_norm.weight'', ''ada_norm.bias'', ''attention.query.weight'', ''attention.query.bias'', ''attention.key.weight'',
      ''attention.key.bias'', ''attention.value.weight'', ''attention.value.bias'', ''attention.output.weight'',
      ''attention.output.bias'', ''feed_forward.input.weight'', ''feed_forward.input.bias'', ''feed_forward.output.weight'',
      ''feed_forward.output.bias'']"

definition dit_block_shapes :: "int \<Rightarrow> int \<Rightarrow> int \<Rightarrow> shape_check list" where
  "dit_block_shapes width kv_input_dim feed_forward_dim =
     [(''ada_norm.weight'', [width, 2 * width]), (''ada_norm.bias'', [2 * width]),
      (''attention.query.weight'', [width, width]), (''attention.query.bias'', [width]),
      (''attention.key.weight'', [kv_input_dim, width]), (''attention.key.bias'', [width]),
      (''attention.value.weight'', [kv_input_dim, width]), (''attention.value.bias'', [width]),
      (''attention.output.weight'', [width, width]), (''attention.output.bias'', [width]),
      (''feed_forward.input.weight'', [width, feed_forward_dim]), (''feed_forward.input.bias'', [feed_forward_dim]),
      (''feed_forward.output.weight'', [feed_forward_dim, width]), (''feed_forward.output.bias'', [width])]"

subsection \<open>GR00T\<close>

definition groot_prefix :: string where "groot_prefix = ''starvla.policy.groot.''"

definition groot_tensor_names :: "groot_policy_config \<Rightarrow> string list" where
  "groot_tensor_names c =
     with_prefix groot_prefix [''timestep.input.weight'', ''timestep.input.bias'', ''timestep.output.weight'',
       ''timestep.output.bias''] @
     concat (map (\<lambda>block. with_prefix (block_prefix (groot_prefix @ ''block.'') block) dit_block_names)
       [0..<nat (gc_block_count c)]) @
     with_prefix groot_prefix [''output.modulation.weight'', ''output.modulation.bias'', ''output.projection.weight'',
       ''output.projection.bias'', ''action.input.weight'', ''action.input.bias'', ''action.time_mix.weight'',
       ''action.time_mix.bias'', ''action.output.weight'', ''action.output.bias'', ''velocity.input.weight'',
       ''velocity.input.bias'', ''velocity.output.weight'', ''velocity.output.bias'', ''future_tokens.weight'',
       ''action_position.weight'']"

definition groot_shapes :: "groot_policy_config \<Rightarrow> shape_check list" where
  "groot_shapes c = (let width = gc_dit_width c in shapes_with_prefix groot_prefix
     [(''timestep.input.weight'', [gc_timestep_projection_dim c, width]), (''timestep.input.bias'', [width]),
      (''timestep.output.weight'', [width, width]), (''timestep.output.bias'', [width]),
      (''output.modulation.weight'', [width, 2 * width]), (''output.modulation.bias'', [2 * width]),
      (''output.projection.weight'', [width, gc_output_dim c]), (''output.projection.bias'', [gc_output_dim c]),
      (''action.input.weight'', [gc_action_dim c, width]), (''action.input.bias'', [width]),
      (''action.time_mix.weight'', [2 * width, width]), (''action.time_mix.bias'', [width]),
      (''action.output.weight'', [width, width]), (''action.output.bias'', [width]),
      (''velocity.input.weight'', [gc_output_dim c, gc_mlp_hidden_dim c]), (''velocity.input.bias'', [gc_mlp_hidden_dim c]),
      (''velocity.output.weight'', [gc_mlp_hidden_dim c, gc_action_dim c]), (''velocity.output.bias'', [gc_action_dim c]),
      (''future_tokens.weight'', [width, gc_future_token_count c]),
      (''action_position.weight'', [width, gc_action_position_count c])])"

definition groot_block_shapes :: "groot_policy_config \<Rightarrow> nat \<Rightarrow> shape_check list" where
  "groot_block_shapes c block = shapes_with_prefix (block_prefix (groot_prefix @ ''block.'') block)
     (dit_block_shapes (gc_dit_width c) (if even block then gc_cross_attention_dim c else gc_dit_width c)
       (gc_feed_forward_dim c))"

text \<open>\<open>2 * width\<close> is an \<open>int\<close> product here, first evaluated when the four shapes before it are right.\<close>

definition bind_groot_tensors :: "groot_policy_config \<Rightarrow> (string \<Rightarrow> tensor_entry option) \<Rightarrow> tensor_entry list run" where
  "bind_groot_tensors c tensors =
     bind_run (Some (each_res (require_tensor tensors) (groot_tensor_names c))) (\<lambda>_.
       if shapes_ok tensors (take 4 (groot_shapes c)) \<and> \<not> fits_sint 32 (2 * gc_dit_width c) then None
       else Some (bind_all (groot_tensor_names c)
         ((groot_shapes c, ''StarVLA GR00T non-block tensor has an incompatible ggml shape'') #
          map (\<lambda>block. (groot_block_shapes c block,
              ''StarVLA GR00T transformer block tensor has an incompatible ggml shape''))
            [0..<nat (gc_block_count c)]) tensors))"

subsection \<open>PI\<close>

definition pi_prefix :: string where "pi_prefix = ''starvla.policy.pi.''"

definition pi_tensor_names :: "pi_policy_config \<Rightarrow> string list" where
  "pi_tensor_names c =
     with_prefix pi_prefix [''timestep.input.weight'', ''timestep.input.bias'', ''timestep.output.weight'',
       ''timestep.output.bias''] @
     concat (map (\<lambda>block. with_prefix (block_prefix (pi_prefix @ ''block.'') block) dit_block_names)
       [0..<nat (pc_block_count c)]) @
     with_prefix pi_prefix [''state.input.weight'', ''state.input.bias'', ''state.output.weight'', ''state.output.bias'',
       ''action.input.weight'', ''action.input.bias'', ''action.time_mix.weight'', ''action.time_mix.bias'',
       ''action.output.weight'', ''action.output.bias'', ''velocity.input.weight'', ''velocity.input.bias'',
       ''velocity.output.weight'', ''velocity.output.bias'', ''future_tokens.weight'', ''action_position.weight'']"

definition pi_shapes :: "pi_policy_config \<Rightarrow> shape_check list" where
  "pi_shapes c = (let width = pc_dit_width c in shapes_with_prefix pi_prefix
     [(''timestep.input.weight'', [pc_timestep_projection_dim c, width]), (''timestep.input.bias'', [width]),
      (''timestep.output.weight'', [width, width]), (''timestep.output.bias'', [width]),
      (''state.input.weight'', [pc_state_dim c, pc_mlp_hidden_dim c]), (''state.input.bias'', [pc_mlp_hidden_dim c]),
      (''state.output.weight'', [pc_mlp_hidden_dim c, width]), (''state.output.bias'', [width]),
      (''action.input.weight'', [pc_action_dim c, width]), (''action.input.bias'', [width]),
      (''action.time_mix.weight'', [2 * width, width]), (''action.time_mix.bias'', [width]),
      (''action.output.weight'', [width, width]), (''action.output.bias'', [width]),
      (''velocity.input.weight'', [width, pc_mlp_hidden_dim c]), (''velocity.input.bias'', [pc_mlp_hidden_dim c]),
      (''velocity.output.weight'', [pc_mlp_hidden_dim c, pc_action_dim c]), (''velocity.output.bias'', [pc_action_dim c]),
      (''future_tokens.weight'', [width, pc_future_token_count c]),
      (''action_position.weight'', [width, pc_action_position_count c])])"

definition pi_block_shapes :: "pi_policy_config \<Rightarrow> nat \<Rightarrow> shape_check list" where
  "pi_block_shapes c block = shapes_with_prefix (block_prefix (pi_prefix @ ''block.'') block)
     (dit_block_shapes (pc_dit_width c) (pc_cross_attention_dim c) (pc_feed_forward_dim c))"

definition bind_pi_tensors :: "pi_policy_config \<Rightarrow> (string \<Rightarrow> tensor_entry option) \<Rightarrow> tensor_entry list run" where
  "bind_pi_tensors c tensors = Some (bind_all (pi_tensor_names c)
     ((pi_shapes c, ''StarVLA PI non-transformer tensor has an incompatible ggml shape'') #
      map (\<lambda>block. (pi_block_shapes c block, ''StarVLA PI transformer tensor has an incompatible ggml shape''))
        [0..<nat (pc_block_count c)]) tensors)"

subsection \<open>PI-v3\<close>

definition pi_v3_prefix :: string where "pi_v3_prefix = ''starvla.policy.pi_v3.''"

definition projector_names :: "string list" where
  "projector_names = [''norm.weight'', ''norm.bias'', ''projection.weight'', ''projection.bias'']"

definition pi_v3_tensor_names :: "pi_v3_policy_config \<Rightarrow> string list" where
  "pi_v3_tensor_names c =
     with_prefix pi_v3_prefix [''timestep.input.weight'', ''timestep.input.bias'', ''timestep.output.weight'',
       ''timestep.output.bias''] @
     concat (map (\<lambda>block. with_prefix (block_prefix (pi_v3_prefix @ ''block.'') block) dit_block_names)
       [0..<nat (vc_block_count c)]) @
     concat (map (\<lambda>projector. with_prefix (block_prefix (pi_v3_prefix @ ''projector.'') projector) projector_names)
       [0..<nat (vc_projector_count c)]) @
     with_prefix pi_v3_prefix [''action.input.weight'', ''action.input.bias'', ''action.time_mix.weight'',
       ''action.time_mix.bias'', ''action.output.weight'', ''action.output.bias'', ''velocity.input.weight'',
       ''velocity.input.bias'', ''velocity.output.weight'', ''velocity.output.bias'', ''future_tokens.weight'',
       ''action_position.weight'']"

definition pi_v3_shapes :: "pi_v3_policy_config \<Rightarrow> shape_check list" where
  "pi_v3_shapes c = (let width = vc_dit_width c in shapes_with_prefix pi_v3_prefix
     [(''timestep.input.weight'', [vc_timestep_projection_dim c, width]), (''timestep.input.bias'', [width]),
      (''timestep.output.weight'', [width, width]), (''timestep.output.bias'', [width]),
      (''action.input.weight'', [vc_action_dim c, width]), (''action.input.bias'', [width]),
      (''action.time_mix.weight'', [2 * width, width]), (''action.time_mix.bias'', [width]),
      (''action.output.weight'', [width, width]), (''action.output.bias'', [width]),
      (''velocity.input.weight'', [width, vc_mlp_hidden_dim c]), (''velocity.input.bias'', [vc_mlp_hidden_dim c]),
      (''velocity.output.weight'', [vc_mlp_hidden_dim c, vc_action_dim c]), (''velocity.output.bias'', [vc_action_dim c]),
      (''future_tokens.weight'', [width, vc_future_token_count c]),
      (''action_position.weight'', [width, vc_action_position_count c])])"

definition pi_v3_block_shapes :: "pi_v3_policy_config \<Rightarrow> nat \<Rightarrow> shape_check list" where
  "pi_v3_block_shapes c block = shapes_with_prefix (block_prefix (pi_v3_prefix @ ''block.'') block)
     (dit_block_shapes (vc_dit_width c) (vc_dit_width c) (vc_feed_forward_dim c))"

definition projector_shapes :: "pi_v3_policy_config \<Rightarrow> nat \<Rightarrow> shape_check list" where
  "projector_shapes c projector = shapes_with_prefix (block_prefix (pi_v3_prefix @ ''projector.'') projector)
     [(''norm.weight'', [vc_qwen_hidden_dim c]), (''norm.bias'', [vc_qwen_hidden_dim c]),
      (''projection.weight'', [vc_qwen_hidden_dim c, vc_dit_width c]), (''projection.bias'', [vc_dit_width c])]"

definition bind_pi_v3_tensors :: "pi_v3_policy_config \<Rightarrow> (string \<Rightarrow> tensor_entry option) \<Rightarrow> tensor_entry list run" where
  "bind_pi_v3_tensors c tensors =
     bind_run (Some (each_res (require_tensor tensors) (pi_v3_tensor_names c))) (\<lambda>_.
       if shapes_ok tensors (take 6 (pi_v3_shapes c)) \<and> \<not> fits_sint 32 (2 * vc_dit_width c) then None
       else Some (bind_all (pi_v3_tensor_names c)
         ((pi_v3_shapes c, ''StarVLA PI_v3 non-block tensor has an incompatible ggml shape'') #
          map (\<lambda>block. (pi_v3_block_shapes c block,
              ''StarVLA PI_v3 transformer block tensor has an incompatible ggml shape'')) [0..<nat (vc_block_count c)] @
          map (\<lambda>projector. (projector_shapes c projector,
              ''StarVLA PI_v3 projector tensor has an incompatible ggml shape'')) [0..<nat (vc_projector_count c)]) tensors))"

end
