(* ===== verification/GgmlGraph.thy ===== *)
theory GgmlGraph
  imports PolicyTensors
begin

text \<open>
  Building a computation graph with ggml.  The library is not part of the repository: its functions are the
  record \<open>ggml\<close>, an argument of everything below, and what the sources rely on is the predicate
  \<open>ggml_laws\<close>: the shapes ggml's header documents for each operation.  \<open>None\<close> is a failed assertion inside the
  library.  A graph context holds a fixed number of tensors; building counts them, and running out is
  \<open>None\<close> as well.  Sizes are taken to fit the address space.
\<close>

subsection \<open>The library\<close>

record 't ggml =
  gg_entry :: "'t \<Rightarrow> tensor_entry"
  gg_nb :: "'t \<Rightarrow> nat \<Rightarrow> nat"
  gg_is_contiguous :: "'t \<Rightarrow> bool"
  gg_is_transposed :: "'t \<Rightarrow> bool"
  gg_new_tensor :: "ggml_type \<Rightarrow> int list \<Rightarrow> 't option"
  gg_cast :: "'t \<Rightarrow> ggml_type \<Rightarrow> 't option"
  gg_norm :: "'t \<Rightarrow> f32 \<Rightarrow> 't option"
  gg_mul :: "'t \<Rightarrow> 't \<Rightarrow> 't option"
  gg_add :: "'t \<Rightarrow> 't \<Rightarrow> 't option"
  gg_mul_mat :: "'t \<Rightarrow> 't \<Rightarrow> 't option"
  gg_relu :: "'t \<Rightarrow> 't option"
  gg_silu :: "'t \<Rightarrow> 't option"
  gg_gelu :: "'t \<Rightarrow> 't option"
  gg_scale :: "'t \<Rightarrow> f32 \<Rightarrow> 't option"
  gg_view_1d :: "'t \<Rightarrow> int \<Rightarrow> nat \<Rightarrow> 't option"
  gg_view_2d :: "'t \<Rightarrow> int \<Rightarrow> int \<Rightarrow> nat \<Rightarrow> nat \<Rightarrow> 't option"
  gg_reshape :: "'t \<Rightarrow> int list \<Rightarrow> 't option"
  gg_permute :: "'t \<Rightarrow> nat \<Rightarrow> nat \<Rightarrow> nat \<Rightarrow> nat \<Rightarrow> 't option"
  gg_cont :: "'t \<Rightarrow> 't option"
  gg_cont_2d :: "'t \<Rightarrow> int \<Rightarrow> int \<Rightarrow> 't option"
  gg_soft_max_ext :: "'t \<Rightarrow> 't option \<Rightarrow> f32 \<Rightarrow> f32 \<Rightarrow> 't option"
  gg_repeat :: "'t \<Rightarrow> 't \<Rightarrow> 't option"
  gg_concat :: "'t \<Rightarrow> 't \<Rightarrow> nat \<Rightarrow> 't option"

text \<open>What is known of a tensor: its four dimensions, whether its rows are in order (not transposed), its type.\<close>

definition tensor_type :: "'t ggml \<Rightarrow> 't \<Rightarrow> ggml_type" where
  "tensor_type G t = te_type (gg_entry G t)"

definition ne :: "'t ggml \<Rightarrow> 't \<Rightarrow> nat \<Rightarrow> int" where
  "ne G t i = te_ne (gg_entry G t) i"

definition dims :: "'t ggml \<Rightarrow> int list \<Rightarrow> 't \<Rightarrow> bool" where
  "dims G ds t \<longleftrightarrow> map (ne G t) [0..<4] = ds \<and> list_all (\<lambda>d. d > 0) ds"

definition stored :: "'t ggml \<Rightarrow> int list \<Rightarrow> 't \<Rightarrow> bool" where
  "stored G ds t \<longleftrightarrow> dims G ds t \<and> gg_is_contiguous G t \<and> \<not> gg_is_transposed G t"

definition f32t :: "'t ggml \<Rightarrow> int list \<Rightarrow> 't \<Rightarrow> bool" where
  "f32t G ds t \<longleftrightarrow> stored G ds t \<and> tensor_type G t = GGML_TYPE_F32"

definition rows :: "'t ggml \<Rightarrow> int list \<Rightarrow> 't \<Rightarrow> bool" where
  "rows G ds t \<longleftrightarrow> dims G ds t \<and> \<not> gg_is_transposed G t \<and> tensor_type G t = GGML_TYPE_F32"

definition strided :: "'t ggml \<Rightarrow> int list \<Rightarrow> 't \<Rightarrow> bool" where
  "strided G ds t \<longleftrightarrow> dims G ds t \<and> tensor_type G t = GGML_TYPE_F32"

text \<open>\<open>r\<close> is a tensor with \<open>P\<close>.\<close>

definition gives :: "('t \<Rightarrow> bool) \<Rightarrow> 't option \<Rightarrow> bool" where
  "gives P r \<longleftrightarrow> (case r of None \<Rightarrow> False | Some t \<Rightarrow> P t)"

text \<open>\<open>ggml_can_repeat\<close>: \<open>b\<close> is repeated along every dimension of \<open>a\<close>.\<close>

definition can_repeat :: "int list \<Rightarrow> int list \<Rightarrow> bool" where
  "can_repeat ds b = list_all2 (\<lambda>x y. y mod x = 0) b ds"

subsection \<open>What the sources rely on\<close>

definition law_new :: "'t ggml \<Rightarrow> bool" where
  "law_new G \<longleftrightarrow> (\<forall>a b c. 0 < a \<and> 0 < b \<and> 0 < c \<longrightarrow>
     gives (f32t G [a, 1, 1, 1]) (gg_new_tensor G GGML_TYPE_F32 [a]) \<and>
     gives (f32t G [a, b, 1, 1]) (gg_new_tensor G GGML_TYPE_F32 [a, b]) \<and>
     gives (f32t G [a, b, c, 1]) (gg_new_tensor G GGML_TYPE_F32 [a, b, c]))"

definition law_strides :: "'t ggml \<Rightarrow> bool" where
  "law_strides G \<longleftrightarrow>
     (\<forall>t ds. stored G ds t \<longrightarrow> gg_nb G t 2 = nat (ne G t 1) * gg_nb G t 1 \<and> 0 < gg_nb G t 1)"

definition law_cast :: "'t ggml \<Rightarrow> bool" where
  "law_cast G \<longleftrightarrow> (\<forall>t ds ty. stored G ds t \<longrightarrow>
     gives (\<lambda>r. stored G ds r \<and> tensor_type G r = ty) (gg_cast G t ty))"

definition law_elementwise :: "'t ggml \<Rightarrow> bool" where
  "law_elementwise G \<longleftrightarrow>
     (\<forall>a b da db. strided G da a \<and> dims G db b \<and> tensor_type G b = GGML_TYPE_F32 \<and> can_repeat da db \<longrightarrow>
        gives (f32t G da) (gg_add G a b) \<and> gives (f32t G da) (gg_mul G a b)) \<and>
     (\<forall>a da x. f32t G da a \<longrightarrow> gives (f32t G da) (gg_norm G a x) \<and> gives (f32t G da) (gg_scale G a x) \<and>
        gives (f32t G da) (gg_relu G a) \<and> gives (f32t G da) (gg_silu G a) \<and> gives (f32t G da) (gg_gelu G a))"

definition law_mul_mat :: "'t ggml \<Rightarrow> bool" where
  "law_mul_mat G \<longleftrightarrow> (\<forall>a b k m n h. dims G [k, m, h, 1] a \<and> \<not> gg_is_transposed G a \<and> dims G [k, n, h, 1] b \<longrightarrow>
     gives (f32t G [m, n, h, 1]) (gg_mul_mat G a b))"

definition law_views :: "'t ggml \<Rightarrow> bool" where
  "law_views G \<longleftrightarrow>
     (\<forall>t a b c n k. f32t G [a, b, c, 1] t \<and> 0 < n \<and> int k + n \<le> a * b * c \<longrightarrow>
        gives (f32t G [n, 1, 1, 1]) (gg_view_1d G t n (k * 4))) \<and>
     (\<forall>t a b c n r. stored G [a, b, c, 1] t \<and> 0 < n \<and> int r + n \<le> b * c \<longrightarrow>
        gives (\<lambda>v. stored G [a, n, 1, 1] v \<and> tensor_type G v = tensor_type G t)
          (gg_view_2d G t a n (gg_nb G t 1) (r * gg_nb G t 1)))"

definition law_layout :: "'t ggml \<Rightarrow> bool" where
  "law_layout G \<longleftrightarrow>
     (\<forall>t a b x y z. f32t G [a, b, 1, 1] t \<and> 0 < x \<and> 0 < y \<and> 0 < z \<and> x * y * z = a * b \<longrightarrow>
        gives (f32t G [x, y, z, 1]) (gg_reshape G t [x, y, z]) \<and>
        (z = 1 \<longrightarrow> gives (f32t G [x, y, 1, 1]) (gg_reshape G t [x, y]))) \<and>
     (\<forall>t a b c. f32t G [a, b, c, 1] t \<longrightarrow> gives (rows G [a, c, b, 1]) (gg_permute G t 0 2 1 3) \<and>
        gives (strided G [c, a, b, 1]) (gg_permute G t 1 2 0 3)) \<and>
     (\<forall>t ds. strided G ds t \<longrightarrow> gives (f32t G ds) (gg_cont G t)) \<and>
     (\<forall>t a b c x y. strided G [a, b, c, 1] t \<and> 0 < x \<and> 0 < y \<and> x * y = a * b * c \<longrightarrow>
        gives (f32t G [x, y, 1, 1]) (gg_cont_2d G t x y))"

definition law_soft_max :: "'t ggml \<Rightarrow> bool" where
  "law_soft_max G \<longleftrightarrow>
     (\<forall>t ds s. f32t G ds t \<longrightarrow> gives (f32t G ds) (gg_soft_max_ext G t None s 0)) \<and>
     (\<forall>t m a b h q s. f32t G [a, b, h, 1] t \<and> f32t G [a, q, 1, 1] m \<and> b \<le> q \<longrightarrow>
        gives (f32t G [a, b, h, 1]) (gg_soft_max_ext G t (Some m) s 0))"

definition law_join :: "'t ggml \<Rightarrow> bool" where
  "law_join G \<longleftrightarrow>
     (\<forall>t u da db. f32t G da t \<and> f32t G db u \<and> can_repeat db da \<longrightarrow> gives (f32t G db) (gg_repeat G t u)) \<and>
     (\<forall>t u a b n. f32t G [a, n, 1, 1] t \<and> f32t G [b, n, 1, 1] u \<longrightarrow>
        gives (f32t G [a + b, n, 1, 1]) (gg_concat G t u 0)) \<and>
     (\<forall>t u a m n. f32t G [a, m, 1, 1] t \<and> f32t G [a, n, 1, 1] u \<longrightarrow>
        gives (f32t G [a, m + n, 1, 1]) (gg_concat G t u 1))"

definition ggml_laws :: "'t ggml \<Rightarrow> bool" where
  "ggml_laws G \<longleftrightarrow> law_new G \<and> law_strides G \<and> law_cast G \<and> law_elementwise G \<and> law_mul_mat G \<and> law_views G \<and>
     law_layout G \<and> law_soft_max G \<and> law_join G"

subsection \<open>Building\<close>

text \<open>The library, the weights by name, the number of tensors the context holds, whether the library creates the
  context and the graph, and whether the scheduler can allocate a graph with the given output.\<close>

record 't builder =
  gb_ops :: "'t ggml"
  gb_weights :: "string \<Rightarrow> 't option"
  gb_capacity :: nat
  gb_init :: bool
  gb_new_graph :: bool
  gb_alloc :: "'t \<Rightarrow> bool"

text \<open>A graph context sized for so many tensors: \<open>mem_size\<close> is the size of their headers and of a graph with as many
  nodes.  \<open>GGML_DEFAULT_GRAPH_SIZE\<close> is 2048.\<close>

definition graph_context :: "'t builder \<Rightarrow> nat \<Rightarrow> 't builder" where
  "graph_context B tensor_count = B\<lparr>gb_capacity := tensor_count\<rparr>"

lemma graph_context_simps [simp]:
  "gb_ops (graph_context B n) = gb_ops B" "gb_weights (graph_context B n) = gb_weights B"
  "gb_capacity (graph_context B n) = n" "gb_init (graph_context B n) = gb_init B"
  "gb_new_graph (graph_context B n) = gb_new_graph B" "gb_alloc (graph_context B n) = gb_alloc B"
  by (simp_all add: graph_context_def)

definition ggml_default_graph_size :: nat where
  "ggml_default_graph_size = 2048"

type_synonym 'a build = "nat \<Rightarrow> ('a \<times> nat) run"

definition return_build :: "'a \<Rightarrow> 'a build" where
  "return_build x n = Some (Inr (x, n))"

definition bind_build :: "'a build \<Rightarrow> ('a \<Rightarrow> 'b build) \<Rightarrow> 'b build" where
  "bind_build m k n = bind_run (m n) (\<lambda>(x, n). k x n)"

definition fail_build :: "string \<Rightarrow> 'a build" where
  "fail_build e n = Some (Inl e)"

definition node :: "'t builder \<Rightarrow> 't option \<Rightarrow> 't build" where
  "node B t n = (if gb_capacity B \<le> n then None else map_option (\<lambda>t. Inr (t, n + 1)) t)"

definition weight :: "'t builder \<Rightarrow> string \<Rightarrow> 't build" where
  "weight B name n = map_option (\<lambda>t. Inr (t, n)) (gb_weights B name)"

text \<open>A loop over indices that carries a tensor.\<close>

fun loop_build :: "(nat \<Rightarrow> 'a \<Rightarrow> 'a build) \<Rightarrow> nat list \<Rightarrow> 'a \<Rightarrow> 'a build" where
  "loop_build f [] x = return_build x"
| "loop_build f (i # is) x = bind_build (f i x) (loop_build f is)"

fun each_build :: "(nat \<Rightarrow> 'a build) \<Rightarrow> nat list \<Rightarrow> 'a list build" where
  "each_build f [] = return_build []"
| "each_build f (i # is) = bind_build (f i) (\<lambda>x. bind_build (each_build f is) (\<lambda>xs. return_build (x # xs)))"

text \<open>\<open>m\<close> needs at most \<open>k\<close> tensors, does not abort and its result has \<open>P\<close>.\<close>

definition yields :: "'t builder \<Rightarrow> nat \<Rightarrow> ('a \<Rightarrow> bool) \<Rightarrow> 'a build \<Rightarrow> bool" where
  "yields B k P m \<longleftrightarrow>
     (\<forall>n. n + k \<le> gb_capacity B \<longrightarrow> (\<exists>x n'. m n = Some (Inr (x, n')) \<and> n' \<le> n + k \<and> P x))"

named_theorems build_intros \<open>what the building steps yield\<close>

lemma yields_return [build_intros]: "P x \<Longrightarrow> yields B 0 P (return_build x)"
  by (simp add: yields_def return_build_def)

lemma yieldsD:
  assumes "yields B k P m" "n + k \<le> gb_capacity B"
  obtains x n' where "m n = Some (Inr (x, n'))" "n' \<le> n + k" "P x"
  using assms unfolding yields_def by blast

lemma yields_bind:
  assumes "yields B k P m" "\<And>x. P x \<Longrightarrow> yields B l Q (f x)"
  shows "yields B (k + l) Q (bind_build m f)"
  unfolding yields_def
proof (intro allI impI)
  fix n assume n: "n + (k + l) \<le> gb_capacity B"
  then have "n + k \<le> gb_capacity B" by simp
  from assms(1) this obtain x n' where x: "m n = Some (Inr (x, n'))" "n' \<le> n + k" "P x"
    by (rule yieldsD)
  from x(2) n have "n' + l \<le> gb_capacity B" by simp
  from assms(2) [OF x(3)] this obtain y n'' where "f x n' = Some (Inr (y, n''))" "n'' \<le> n' + l" "Q y"
    by (rule yieldsD)
  with x show "\<exists>y n''. bind_build m f n = Some (Inr (y, n'')) \<and> n'' \<le> n + (k + l) \<and> Q y"
    by (auto simp: bind_build_def)
qed

lemma yields_mono:
  assumes "yields B k P m" "k \<le> l"
  shows "yields B l P m"
  unfolding yields_def
proof (intro allI impI)
  fix n assume "n + l \<le> gb_capacity B"
  with assms(2) have "n + k \<le> gb_capacity B" by simp
  from assms(1) this obtain x n' where "m n = Some (Inr (x, n'))" "n' \<le> n + k" "P x"
    by (rule yieldsD)
  with assms(2) show "\<exists>x n'. m n = Some (Inr (x, n')) \<and> n' \<le> n + l \<and> P x" by auto
qed

lemma yields_conseq: "yields B k P m \<Longrightarrow> (\<And>x. P x \<Longrightarrow> Q x) \<Longrightarrow> yields B k Q m"
  unfolding yields_def by blast

lemma yields_node: "gives P t \<Longrightarrow> yields B 1 P (node B t)"
  by (auto simp: yields_def node_def gives_def split: option.splits)

lemma yields_weight: "gb_weights B name = Some t \<Longrightarrow> P t \<Longrightarrow> yields B 0 P (weight B name)"
  by (simp add: yields_def weight_def)

lemma yields_loop:
  assumes "\<And>i x. i \<in> set is \<Longrightarrow> P x \<Longrightarrow> yields B k P (f i x)" and "P x"
  shows "yields B (length is * k) P (loop_build f is x)"
  using assms
proof (induction "is" arbitrary: x)
  case Nil
  then show ?case by (simp add: yields_return)
next
  case (Cons i "is")
  have "yields B (k + length is * k) P (bind_build (f i x) (loop_build f is))"
    by (rule yields_bind [where P = P]) (use Cons in auto)
  then show ?case by simp
qed

lemma yields_each:
  assumes "\<And>i. i \<in> set is \<Longrightarrow> yields B k (P i) (f i)"
  shows "yields B (length is * k) (\<lambda>xs. list_all2 P is xs) (each_build f is)"
  using assms
proof (induction "is")
  case Nil
  then show ?case by (simp add: yields_return)
next
  case (Cons i "is")
  have "yields B (k + (length is * k + 0)) (\<lambda>xs. list_all2 P (i # is) xs)
     (bind_build (f i) (\<lambda>x. bind_build (each_build f is) (\<lambda>xs. return_build (x # xs))))"
    by (intro yields_bind [where P = "P i"] yields_bind [where P = "list_all2 P is"] yields_return)
      (use Cons in auto)
  then show ?case by simp
qed

end
