(* ===== verification/DitGraph.thy ===== *)
theory DitGraph
  imports GgmlGraph
begin

text \<open>
  The graph pieces the policies share: the lambdas \<open>f32\<close>, \<open>linear\<close>, \<open>ada_norm\<close> and \<open>attention\<close> of the
  \<open>build_graph\<close> functions, the transformer block, the time embedding, the action features and the Euler step.
  A weight matrix and its bias are the tensors under one stem.
\<close>

text \<open>A weight in single precision.\<close>

definition f32_of :: "'t builder \<Rightarrow> 't \<Rightarrow> 't build" where
  "f32_of B t = (if tensor_type (gb_ops B) t = GGML_TYPE_F32 then return_build t
     else node B (gg_cast (gb_ops B) t GGML_TYPE_F32))"

definition linear :: "'t builder \<Rightarrow> 't \<Rightarrow> 't \<Rightarrow> 't \<Rightarrow> 't build" where
  "linear B v w b =
     bind_build (node B (gg_mul_mat (gb_ops B) w v)) (\<lambda>projected.
     bind_build (f32_of B b) (\<lambda>b. node B (gg_add (gb_ops B) projected b)))"

definition linear_at :: "'t builder \<Rightarrow> string \<Rightarrow> 't \<Rightarrow> 't build" where
  "linear_at B stem v =
     bind_build (weight B (stem @ ''.weight'')) (\<lambda>w.
     bind_build (weight B (stem @ ''.bias'')) (\<lambda>b. linear B v w b))"

record dit =
  dt_width :: int
  dt_heads :: int
  dt_head_dim :: int
  dt_epsilon :: f32

definition ada_norm :: "'t builder \<Rightarrow> dit \<Rightarrow> string \<Rightarrow> 't \<Rightarrow> 't \<Rightarrow> 't \<Rightarrow> 't build" where
  "ada_norm B D block scalar_one v temb =
     (let G = gb_ops B in
      bind_build (node B (gg_silu G temb)) (\<lambda>activated.
      bind_build (linear_at B (block @ ''ada_norm'') activated) (\<lambda>modulation.
      bind_build (node B (gg_view_1d G modulation (dt_width D) 0)) (\<lambda>scale.
      bind_build (node B (gg_view_1d G modulation (dt_width D) (nat (dt_width D) * 4))) (\<lambda>shift.
      bind_build (node B (gg_norm G v (dt_epsilon D))) (\<lambda>normalized.
      bind_build (node B (gg_add G scale scalar_one)) (\<lambda>one_plus_scale.
      bind_build (node B (gg_mul G normalized one_plus_scale)) (\<lambda>scaled.
        node B (gg_add G scaled shift)))))))))"

definition attention_scale :: "dit \<Rightarrow> f32" where
  "attention_scale D = f32_div f32_one (f32_sqrt (f32_of_int (dt_head_dim D)))"

text \<open>One of query, key and value: the projection cut into heads.\<close>

definition project_heads :: "'t builder \<Rightarrow> dit \<Rightarrow> string \<Rightarrow> 't \<Rightarrow> 't build" where
  "project_heads B D stem source =
     bind_build (linear_at B stem source) (\<lambda>projected.
       node B (gg_reshape (gb_ops B) projected [dt_head_dim D, dt_heads D, ne (gb_ops B) source 1]))"

definition attend :: "'t builder \<Rightarrow> dit \<Rightarrow> 't option \<Rightarrow> 't \<Rightarrow> 't \<Rightarrow> 't \<Rightarrow> int \<Rightarrow> 't build" where
  "attend B D kq_mask query key v query_count =
     (let G = gb_ops B in
      bind_build (node B (gg_permute G query 0 2 1 3)) (\<lambda>query.
      bind_build (node B (gg_permute G key 0 2 1 3)) (\<lambda>key.
      bind_build (node B (gg_permute G v 1 2 0 3)) (\<lambda>v.
      bind_build (node B (gg_cont G v)) (\<lambda>v.
      bind_build (node B (gg_mul_mat G key query)) (\<lambda>scores.
      bind_build (node B (gg_soft_max_ext G scores kq_mask (attention_scale D) 0)) (\<lambda>scores.
      bind_build (node B (gg_mul_mat G v scores)) (\<lambda>attended.
      bind_build (node B (gg_permute G attended 0 2 1 3)) (\<lambda>attended.
        node B (gg_cont_2d G attended (dt_width D) query_count))))))))))"

definition attention :: "'t builder \<Rightarrow> dit \<Rightarrow> string \<Rightarrow> 't option \<Rightarrow> 't \<Rightarrow> 't \<Rightarrow> 't build" where
  "attention B D block kq_mask query_source key_value_source =
     bind_build (project_heads B D (block @ ''attention.query'') query_source) (\<lambda>query.
     bind_build (project_heads B D (block @ ''attention.key'') key_value_source) (\<lambda>key.
     bind_build (project_heads B D (block @ ''attention.value'') key_value_source) (\<lambda>v.
     bind_build (attend B D kq_mask query key v (ne (gb_ops B) query_source 1)) (\<lambda>attended.
       linear_at B (block @ ''attention.output'') attended))))"

definition feed_forward :: "'t builder \<Rightarrow> dit \<Rightarrow> string \<Rightarrow> 't \<Rightarrow> 't build" where
  "feed_forward B D block hidden =
     (let G = gb_ops B in
      bind_build (node B (gg_norm G hidden (dt_epsilon D))) (\<lambda>ff.
      bind_build (linear_at B (block @ ''feed_forward.input'') ff) (\<lambda>ff.
      bind_build (node B (gg_gelu G ff)) (\<lambda>ff.
      bind_build (linear_at B (block @ ''feed_forward.output'') ff) (\<lambda>ff.
        node B (gg_add G hidden ff))))))"

text \<open>A transformer block attends to \<open>source\<close>, or to its own normalised input without one.\<close>

definition dit_block :: "'t builder \<Rightarrow> dit \<Rightarrow> string \<Rightarrow> 't \<Rightarrow> 't \<Rightarrow> ('t \<times> 't option) option \<Rightarrow> 't \<Rightarrow> 't build" where
  "dit_block B D block scalar_one temb source hidden =
     bind_build (ada_norm B D block scalar_one hidden temb) (\<lambda>normalized.
     bind_build (case source of None \<Rightarrow> attention B D block None normalized normalized
                 | Some (key_value, kq_mask) \<Rightarrow> attention B D block kq_mask normalized key_value) (\<lambda>attended.
     bind_build (node B (gg_add (gb_ops B) hidden attended)) (\<lambda>hidden. feed_forward B D block hidden)))"

definition time_embedding :: "'t builder \<Rightarrow> string \<Rightarrow> 't \<Rightarrow> int \<Rightarrow> nat \<Rightarrow> 't build" where
  "time_embedding B prefix table projection_dim step =
     (let G = gb_ops B in
      bind_build (node B (gg_view_1d G table projection_dim (step * nat projection_dim * 4))) (\<lambda>projection.
      bind_build (linear_at B (prefix @ ''timestep.input'') projection) (\<lambda>temb.
      bind_build (node B (gg_silu G temb)) (\<lambda>temb. linear_at B (prefix @ ''timestep.output'') temb))))"

definition action_features :: "'t builder \<Rightarrow> string \<Rightarrow> 't \<Rightarrow> int \<Rightarrow> 't \<Rightarrow> nat \<Rightarrow> 't \<Rightarrow> 't build" where
  "action_features B prefix action_time width position step actions =
     (let G = gb_ops B in
      bind_build (linear_at B (prefix @ ''action.input'') actions) (\<lambda>features.
      bind_build (node B (gg_view_1d G action_time width (step * nat width * 4))) (\<lambda>time.
      bind_build (node B (gg_repeat G time features)) (\<lambda>time.
      bind_build (node B (gg_concat G features time 0)) (\<lambda>features.
      bind_build (linear_at B (prefix @ ''action.time_mix'') features) (\<lambda>features.
      bind_build (node B (gg_silu G features)) (\<lambda>features.
      bind_build (linear_at B (prefix @ ''action.output'') features) (\<lambda>features.
        node B (gg_add G features position)))))))))"

text \<open>The velocity of the action tokens, which follow \<open>skipped\<close> others, and the Euler step.\<close>

definition euler_step :: "'t builder \<Rightarrow> string \<Rightarrow> int \<Rightarrow> int \<Rightarrow> nat \<Rightarrow> f32 \<Rightarrow> 't \<Rightarrow> 't \<Rightarrow> 't build" where
  "euler_step B prefix action_dim horizon skipped dt actions hidden =
     (let G = gb_ops B in
      bind_build (linear_at B (prefix @ ''velocity.input'') hidden) (\<lambda>hidden.
      bind_build (node B (gg_relu G hidden)) (\<lambda>hidden.
      bind_build (linear_at B (prefix @ ''velocity.output'') hidden) (\<lambda>hidden.
      bind_build (node B (gg_view_2d G hidden action_dim horizon (gg_nb G hidden 1) (skipped * gg_nb G hidden 1))) (\<lambda>velocity.
      bind_build (node B (gg_scale G velocity dt)) (\<lambda>scaled. node B (gg_add G actions scaled)))))))"

text \<open>The first rows of the position table.\<close>

definition position_rows :: "'t builder \<Rightarrow> string \<Rightarrow> int \<Rightarrow> int \<Rightarrow> 't build" where
  "position_rows B prefix width horizon =
     bind_build (weight B (prefix @ ''action_position.weight'')) (\<lambda>table.
     bind_build (node B (gg_view_2d (gb_ops B) table width horizon (gg_nb (gb_ops B) table 1) 0)) (\<lambda>view.
       f32_of B view))"

text \<open>An input of the graph; all are checked together before they are used.\<close>

definition new_input :: "'t builder \<Rightarrow> string \<Rightarrow> int list \<Rightarrow> 't build" where
  "new_input B msg ds n =
     (if gb_capacity B \<le> n then None
      else case gg_new_tensor (gb_ops B) GGML_TYPE_F32 ds of None \<Rightarrow> Some (Inl msg) | Some t \<Rightarrow> Some (Inr (t, n + 1)))"

subsection \<open>Shapes\<close>

lemma givesD: "gives P r \<Longrightarrow> \<exists>t. r = Some t \<and> P t"
  by (cases r) (auto simp: gives_def)

lemma f32t_imp:
  "f32t G ds t \<Longrightarrow> strided G ds t"
  "f32t G ds t \<Longrightarrow> rows G ds t"
  "f32t G ds t \<Longrightarrow> stored G ds t"
  "f32t G ds t \<Longrightarrow> dims G ds t"
  "rows G ds t \<Longrightarrow> strided G ds t"
  "f32t G ds t \<Longrightarrow> tensor_type G t = GGML_TYPE_F32"
  "rows G ds t \<Longrightarrow> dims G ds t"
  by (auto simp: f32t_def strided_def rows_def stored_def)

lemma dims_ne: "dims G [a, b, c, d] t \<Longrightarrow> ne G t 0 = a \<and> ne G t 1 = b \<and> ne G t 2 = c \<and> ne G t 3 = d"
  by (auto simp: dims_def upt_rec numeral_2_eq_2 numeral_3_eq_3)

lemma dims_pos: "dims G ds t \<Longrightarrow> list_all (\<lambda>d. d > 0) ds"
  by (simp add: dims_def)

definition has_weight :: "'t builder \<Rightarrow> string \<Rightarrow> int list \<Rightarrow> bool" where
  "has_weight B name ds \<longleftrightarrow> (\<exists>w. gb_weights B name = Some w \<and> stored (gb_ops B) ds w)"

definition has_linear :: "'t builder \<Rightarrow> string \<Rightarrow> int \<Rightarrow> int \<Rightarrow> bool" where
  "has_linear B stem k m \<longleftrightarrow>
     has_weight B (stem @ ''.weight'') [k, m, 1, 1] \<and> has_weight B (stem @ ''.bias'') [m, 1, 1, 1]"

lemma yields_has_weight: "has_weight B name ds \<Longrightarrow> yields B 0 (stored (gb_ops B) ds) (weight B name)"
  by (auto simp: has_weight_def intro: yields_weight)

lemma yields_new_input:
  assumes "ggml_laws (gb_ops B)" "0 < a" "0 < b" "0 < c"
  shows "yields B 1 (f32t (gb_ops B) [a, 1, 1, 1]) (new_input B msg [a])"
    and "yields B 1 (f32t (gb_ops B) [a, b, 1, 1]) (new_input B msg [a, b])"
    and "yields B 1 (f32t (gb_ops B) [a, b, c, 1]) (new_input B msg [a, b, c])"
proof -
  have "gives P (gg_new_tensor (gb_ops B) GGML_TYPE_F32 ds) \<Longrightarrow> yields B 1 P (new_input B msg ds)" for P ds
    by (auto simp: yields_def new_input_def gives_def split: option.splits)
  then show "yields B 1 (f32t (gb_ops B) [a, 1, 1, 1]) (new_input B msg [a])"
    and "yields B 1 (f32t (gb_ops B) [a, b, 1, 1]) (new_input B msg [a, b])"
    and "yields B 1 (f32t (gb_ops B) [a, b, c, 1]) (new_input B msg [a, b, c])"
    using assms by (auto simp: ggml_laws_def law_new_def)
qed

lemma node_elementwise:
  assumes "ggml_laws (gb_ops B)" "f32t (gb_ops B) da a" "f32t (gb_ops B) db b" "can_repeat da db"
  shows "yields B 1 (f32t (gb_ops B) da) (node B (gg_add (gb_ops B) a b))"
    and "yields B 1 (f32t (gb_ops B) da) (node B (gg_mul (gb_ops B) a b))"
proof -
  have "law_elementwise (gb_ops B)" using assms(1) by (simp add: ggml_laws_def)
  moreover have "strided (gb_ops B) da a \<and> dims (gb_ops B) db b \<and> tensor_type (gb_ops B) b = GGML_TYPE_F32 \<and> can_repeat da db"
    using assms by (simp add: f32t_def strided_def stored_def)
  ultimately have "gives (f32t (gb_ops B) da) (gg_add (gb_ops B) a b) \<and> gives (f32t (gb_ops B) da) (gg_mul (gb_ops B) a b)"
    unfolding law_elementwise_def by blast
  then show "yields B 1 (f32t (gb_ops B) da) (node B (gg_add (gb_ops B) a b))"
    and "yields B 1 (f32t (gb_ops B) da) (node B (gg_mul (gb_ops B) a b))"
    by (auto intro: yields_node simp del: One_nat_def)
qed

lemma node_unary:
  assumes "ggml_laws (gb_ops B)" "f32t (gb_ops B) da a"
  shows "yields B 1 (f32t (gb_ops B) da) (node B (gg_norm (gb_ops B) a x))"
    and "yields B 1 (f32t (gb_ops B) da) (node B (gg_scale (gb_ops B) a x))"
    and "yields B 1 (f32t (gb_ops B) da) (node B (gg_relu (gb_ops B) a))"
    and "yields B 1 (f32t (gb_ops B) da) (node B (gg_silu (gb_ops B) a))"
    and "yields B 1 (f32t (gb_ops B) da) (node B (gg_gelu (gb_ops B) a))"
  using assms by (auto intro!: yields_node simp: ggml_laws_def law_elementwise_def simp del: One_nat_def)

lemma node_cast:
  assumes "ggml_laws (gb_ops B)" "stored (gb_ops B) ds a"
  shows "yields B 1 (\<lambda>r. stored (gb_ops B) ds r \<and> tensor_type (gb_ops B) r = ty) (node B (gg_cast (gb_ops B) a ty))"
  by (rule yields_node) (use assms in \<open>auto simp: ggml_laws_def law_cast_def\<close>)

lemma node_mul_mat:
  assumes "ggml_laws (gb_ops B)" "stored (gb_ops B) [k, m, h, 1] a \<or> rows (gb_ops B) [k, m, h, 1] a"
    "dims (gb_ops B) [k, n, h, 1] b"
  shows "yields B 1 (f32t (gb_ops B) [m, n, h, 1]) (node B (gg_mul_mat (gb_ops B) a b))"
proof (rule yields_node)
  have "law_mul_mat (gb_ops B)" using assms(1) by (simp add: ggml_laws_def)
  moreover have "dims (gb_ops B) [k, m, h, 1] a \<and> \<not> gg_is_transposed (gb_ops B) a"
    using assms(2) by (auto simp: stored_def rows_def)
  ultimately show "gives (f32t (gb_ops B) [m, n, h, 1]) (gg_mul_mat (gb_ops B) a b)"
    using assms(3) unfolding law_mul_mat_def by blast
qed

lemma node_view_1d:
  assumes "ggml_laws (gb_ops B)" "f32t (gb_ops B) [a, b, c, 1] t" "0 < n" "int k + n \<le> a * b * c"
  shows "yields B 1 (f32t (gb_ops B) [n, 1, 1, 1]) (node B (gg_view_1d (gb_ops B) t n (k * 4)))"
proof (rule yields_node)
  have "law_views (gb_ops B)" using assms(1) by (simp add: ggml_laws_def)
  then show "gives (f32t (gb_ops B) [n, 1, 1, 1]) (gg_view_1d (gb_ops B) t n (k * 4))"
    using assms(2-) unfolding law_views_def by blast
qed

lemma node_view_2d:
  assumes "ggml_laws (gb_ops B)" "stored (gb_ops B) [a, b, c, 1] t" "0 < n" "int r + n \<le> b * c"
  shows "yields B 1 (\<lambda>v. stored (gb_ops B) [a, n, 1, 1] v \<and> tensor_type (gb_ops B) v = tensor_type (gb_ops B) t)
    (node B (gg_view_2d (gb_ops B) t a n (gg_nb (gb_ops B) t 1) (r * gg_nb (gb_ops B) t 1)))"
proof (rule yields_node)
  have "law_views (gb_ops B)" using assms(1) by (simp add: ggml_laws_def)
  then show "gives (\<lambda>v. stored (gb_ops B) [a, n, 1, 1] v \<and> tensor_type (gb_ops B) v = tensor_type (gb_ops B) t)
    (gg_view_2d (gb_ops B) t a n (gg_nb (gb_ops B) t 1) (r * gg_nb (gb_ops B) t 1))"
    using assms(2-) unfolding law_views_def by blast
qed

lemma node_layout:
  assumes "ggml_laws (gb_ops B)"
  shows "f32t (gb_ops B) [a, b, 1, 1] t \<Longrightarrow> 0 < x \<Longrightarrow> 0 < y \<Longrightarrow> 0 < z \<Longrightarrow> x * y * z = a * b \<Longrightarrow>
      yields B 1 (f32t (gb_ops B) [x, y, z, 1]) (node B (gg_reshape (gb_ops B) t [x, y, z]))"
    and "f32t (gb_ops B) [a, b, 1, 1] t \<Longrightarrow> 0 < x \<Longrightarrow> 0 < y \<Longrightarrow> x * y = a * b \<Longrightarrow>
      yields B 1 (f32t (gb_ops B) [x, y, 1, 1]) (node B (gg_reshape (gb_ops B) t [x, y]))"
    and "f32t (gb_ops B) [a, b, c, 1] t \<Longrightarrow>
      yields B 1 (rows (gb_ops B) [a, c, b, 1]) (node B (gg_permute (gb_ops B) t 0 2 1 3))"
    and "f32t (gb_ops B) [a, b, c, 1] t \<Longrightarrow>
      yields B 1 (strided (gb_ops B) [c, a, b, 1]) (node B (gg_permute (gb_ops B) t 1 2 0 3))"
    and "strided (gb_ops B) ds t \<Longrightarrow> yields B 1 (f32t (gb_ops B) ds) (node B (gg_cont (gb_ops B) t))"
    and "strided (gb_ops B) [a, b, c, 1] t \<Longrightarrow> 0 < x \<Longrightarrow> 0 < y \<Longrightarrow> x * y = a * b * c \<Longrightarrow>
      yields B 1 (f32t (gb_ops B) [x, y, 1, 1]) (node B (gg_cont_2d (gb_ops B) t x y))"
proof -
  have L: "law_layout (gb_ops B)" using assms by (simp add: ggml_laws_def)
  show "yields B 1 (f32t (gb_ops B) [x, y, z, 1]) (node B (gg_reshape (gb_ops B) t [x, y, z]))"
    if "f32t (gb_ops B) [a, b, 1, 1] t" "0 < x" "0 < y" "0 < z" "x * y * z = a * b"
    by (rule yields_node) (use L that in \<open>unfold law_layout_def, blast\<close>)
  show "yields B 1 (f32t (gb_ops B) [x, y, 1, 1]) (node B (gg_reshape (gb_ops B) t [x, y]))"
    if "f32t (gb_ops B) [a, b, 1, 1] t" "0 < x" "0 < y" "x * y = a * b"
  proof (rule yields_node)
    have "0 < (1::int) \<and> x * y * 1 = a * b" using that by simp
    then show "gives (f32t (gb_ops B) [x, y, 1, 1]) (gg_reshape (gb_ops B) t [x, y])"
      using L that unfolding law_layout_def by blast
  qed
  show "yields B 1 (rows (gb_ops B) [a, c, b, 1]) (node B (gg_permute (gb_ops B) t 0 2 1 3))"
    and "yields B 1 (strided (gb_ops B) [c, a, b, 1]) (node B (gg_permute (gb_ops B) t 1 2 0 3))"
    if "f32t (gb_ops B) [a, b, c, 1] t"
    by (rule yields_node; use L that in \<open>unfold law_layout_def, blast\<close>)+
  show "yields B 1 (f32t (gb_ops B) ds) (node B (gg_cont (gb_ops B) t))" if "strided (gb_ops B) ds t"
    by (rule yields_node) (use L that in \<open>unfold law_layout_def, blast\<close>)
  show "yields B 1 (f32t (gb_ops B) [x, y, 1, 1]) (node B (gg_cont_2d (gb_ops B) t x y))"
    if "strided (gb_ops B) [a, b, c, 1] t" "0 < x" "0 < y" "x * y = a * b * c"
    by (rule yields_node) (use L that in \<open>unfold law_layout_def, blast\<close>)
qed

lemma yields_f32_of:
  assumes "ggml_laws (gb_ops B)" "stored (gb_ops B) ds t"
  shows "yields B 1 (f32t (gb_ops B) ds) (f32_of B t)"
proof (cases "tensor_type (gb_ops B) t = GGML_TYPE_F32")
  case True
  then have "yields B 0 (f32t (gb_ops B) ds) (f32_of B t)"
    using assms by (simp add: f32_of_def f32t_def yields_return)
  then show ?thesis by (rule yields_mono) simp
next
  case False
  have "yields B 1 (f32t (gb_ops B) ds) (node B (gg_cast (gb_ops B) t GGML_TYPE_F32))"
    by (rule yields_conseq, rule node_cast [OF assms]) (simp add: f32t_def)
  then show ?thesis using False by (simp add: f32_of_def)
qed

lemma yields_linear:
  assumes G: "ggml_laws (gb_ops B)" and w: "has_linear B stem k m" and v: "f32t (gb_ops B) [k, n, 1, 1] v"
  shows "yields B 3 (f32t (gb_ops B) [m, n, 1, 1]) (linear_at B stem v)"
  unfolding linear_at_def linear_def
  apply (rule yields_mono)
   apply (rule yields_bind, rule yields_has_weight, rule conjunct1 [OF w [unfolded has_linear_def]])
   apply (rule yields_bind, rule yields_has_weight, rule conjunct2 [OF w [unfolded has_linear_def]])
   apply (rule yields_bind, rule node_mul_mat [OF G], erule disjI1, rule f32t_imp(4) [OF v])
   apply (rule yields_bind, erule yields_f32_of [OF G])
   apply (rule node_elementwise(1) [OF G], assumption, assumption, simp add: can_repeat_def)
  apply simp
  done

lemma node_soft_max:
  assumes "ggml_laws (gb_ops B)" "f32t (gb_ops B) [a, b, h, 1] t"
    "\<And>m. kq_mask = Some m \<Longrightarrow> \<exists>q. f32t (gb_ops B) [a, q, 1, 1] m \<and> b \<le> q"
  shows "yields B 1 (f32t (gb_ops B) [a, b, h, 1]) (node B (gg_soft_max_ext (gb_ops B) t kq_mask s 0))"
proof (rule yields_node)
  have "law_soft_max (gb_ops B)" using assms(1) by (simp add: ggml_laws_def)
  then show "gives (f32t (gb_ops B) [a, b, h, 1]) (gg_soft_max_ext (gb_ops B) t kq_mask s 0)"
    using assms(2,3) unfolding law_soft_max_def by (cases kq_mask) blast+
qed

lemma node_join:
  assumes "ggml_laws (gb_ops B)"
  shows "f32t (gb_ops B) da t \<Longrightarrow> f32t (gb_ops B) db u \<Longrightarrow> can_repeat db da \<Longrightarrow>
      yields B 1 (f32t (gb_ops B) db) (node B (gg_repeat (gb_ops B) t u))"
    and "f32t (gb_ops B) [a, n, 1, 1] t \<Longrightarrow> f32t (gb_ops B) [b, n, 1, 1] u \<Longrightarrow>
      yields B 1 (f32t (gb_ops B) [a + b, n, 1, 1]) (node B (gg_concat (gb_ops B) t u 0))"
    and "f32t (gb_ops B) [a, m, 1, 1] t \<Longrightarrow> f32t (gb_ops B) [a, n, 1, 1] u \<Longrightarrow>
      yields B 1 (f32t (gb_ops B) [a, m + n, 1, 1]) (node B (gg_concat (gb_ops B) t u 1))"
proof -
  have L: "law_join (gb_ops B)" using assms by (simp add: ggml_laws_def)
  show "yields B 1 (f32t (gb_ops B) db) (node B (gg_repeat (gb_ops B) t u))"
    if "f32t (gb_ops B) da t" "f32t (gb_ops B) db u" "can_repeat db da"
    by (rule yields_node) (use L that in \<open>unfold law_join_def, blast\<close>)
  show "yields B 1 (f32t (gb_ops B) [a + b, n, 1, 1]) (node B (gg_concat (gb_ops B) t u 0))"
    if "f32t (gb_ops B) [a, n, 1, 1] t" "f32t (gb_ops B) [b, n, 1, 1] u"
    by (rule yields_node) (use L that in \<open>unfold law_join_def, blast\<close>)
  show "yields B 1 (f32t (gb_ops B) [a, m + n, 1, 1]) (node B (gg_concat (gb_ops B) t u 1))"
    if "f32t (gb_ops B) [a, m, 1, 1] t" "f32t (gb_ops B) [a, n, 1, 1] u"
    by (rule yields_node) (use L that in \<open>unfold law_join_def, blast\<close>)
qed

lemma can_repeat_rows [simp]: "can_repeat [a, n, 1, 1] [a, 1, 1, 1]" "can_repeat [a, b, c, d] [1, 1, 1, 1]"
  "can_repeat [a, b, c, d] [a, b, c, d]"
  by (simp_all add: can_repeat_def)

definition dit_ok :: "dit \<Rightarrow> bool" where
  "dit_ok D \<longleftrightarrow> 0 < dt_width D \<and> 0 < dt_heads D \<and> 0 < dt_head_dim D \<and> dt_heads D * dt_head_dim D = dt_width D"

text \<open>The weights of a block with the given inner dimensions.\<close>

definition has_block :: "'t builder \<Rightarrow> int \<Rightarrow> string \<Rightarrow> int \<Rightarrow> int \<Rightarrow> bool" where
  "has_block B width block kv_dim ff_dim \<longleftrightarrow>
     has_linear B (block @ ''ada_norm'') width (2 * width) \<and> has_linear B (block @ ''attention.query'') width width \<and>
     has_linear B (block @ ''attention.key'') kv_dim width \<and> has_linear B (block @ ''attention.value'') kv_dim width \<and>
     has_linear B (block @ ''attention.output'') width width \<and>
     has_linear B (block @ ''feed_forward.input'') width ff_dim \<and>
     has_linear B (block @ ''feed_forward.output'') ff_dim width"

lemma yields_ada_norm:
  assumes G: "ggml_laws (gb_ops B)" and D: "dit_ok D" and w: "has_block B (dt_width D) block kv_dim ff_dim"
    and one: "f32t (gb_ops B) [1, 1, 1, 1] scalar_one" and v: "f32t (gb_ops B) [dt_width D, n, 1, 1] v"
    and temb: "f32t (gb_ops B) [dt_width D, 1, 1, 1] temb"
  shows "yields B 10 (f32t (gb_ops B) [dt_width D, n, 1, 1]) (ada_norm B D block scalar_one v temb)"
proof -
  have width: "0 < dt_width D" using D by (simp add: dit_ok_def)
  have ln: "has_linear B (block @ ''ada_norm'') (dt_width D) (2 * dt_width D)" using w by (simp add: has_block_def)
  show ?thesis
    unfolding ada_norm_def Let_def
    apply (rule yields_mono)
     apply (rule yields_bind, rule node_unary(4) [OF G temb])
     apply (rule yields_bind, erule yields_linear [OF G ln])
     apply (rule yields_bind, rule node_view_1d [OF G, where k = 0, unfolded mult_0], assumption, rule width)
      apply (use width in simp)
     apply (rule yields_bind, rule node_view_1d [OF G], assumption, rule width)
      apply (use width in simp)
     apply (rule yields_bind, rule node_unary(1) [OF G v])
     apply (rule yields_bind, rule node_elementwise(1) [OF G _ one], assumption, simp)
     apply (rule yields_bind, rule node_elementwise(2) [OF G], assumption, assumption, simp)
     apply (rule node_elementwise(1) [OF G], assumption, assumption, simp)
    apply simp
    done
qed

lemma yields_project_heads:
  assumes G: "ggml_laws (gb_ops B)" and D: "dit_ok D" and w: "has_linear B stem k (dt_width D)"
    and v: "f32t (gb_ops B) [k, n, 1, 1] source"
  shows "yields B 4 (f32t (gb_ops B) [dt_head_dim D, dt_heads D, n, 1]) (project_heads B D stem source)"
proof -
  have n: "0 < n" "ne (gb_ops B) source 1 = n"
    using dims_pos [OF f32t_imp(4) [OF v]] dims_ne [OF f32t_imp(4) [OF v]] by auto
  show ?thesis
    unfolding project_heads_def n(2)
    apply (rule yields_mono)
     apply (rule yields_bind, rule yields_linear [OF G w v])
     apply (rule node_layout(1) [OF G], assumption)
        apply (use D n in \<open>auto simp: dit_ok_def mult.commute\<close>)
    done
qed

lemma yields_attend:
  assumes G: "ggml_laws (gb_ops B)" and D: "dit_ok D"
    and query: "f32t (gb_ops B) [dt_head_dim D, dt_heads D, q, 1] query"
    and key: "f32t (gb_ops B) [dt_head_dim D, dt_heads D, n, 1] key"
    and v: "f32t (gb_ops B) [dt_head_dim D, dt_heads D, n, 1] v"
    and msk: "\<And>m. kq_mask = Some m \<Longrightarrow> \<exists>r. f32t (gb_ops B) [n, r, 1, 1] m \<and> q \<le> r"
  shows "yields B 9 (f32t (gb_ops B) [dt_width D, q, 1, 1]) (attend B D kq_mask query key v q)"
proof -
  have q: "0 < q" using dims_pos [OF f32t_imp(4) [OF query]] by simp
  have width: "0 < dt_width D" "dt_width D * q = dt_head_dim D * dt_heads D * q"
    using D by (auto simp: dit_ok_def mult.commute)
  show ?thesis
    unfolding attend_def Let_def
    apply (rule yields_mono)
     apply (rule yields_bind, rule node_layout(3) [OF G query])
     apply (rule yields_bind, rule node_layout(3) [OF G key])
     apply (rule yields_bind, rule node_layout(4) [OF G v])
     apply (rule yields_bind, erule node_layout(5) [OF G])
     apply (rule yields_bind, rule node_mul_mat [OF G], erule disjI2, erule f32t_imp(7))
     apply (rule yields_bind, rule node_soft_max [OF G], assumption, erule msk)
     apply (rule yields_bind, rule node_mul_mat [OF G], rule disjI1, erule f32t_imp(3), erule f32t_imp(4))
     apply (rule yields_bind, erule node_layout(3) [OF G])
     apply (rule node_layout(6) [OF G], erule f32t_imp(5), rule width(1), rule q, rule width(2))
    apply simp
    done
qed

lemma yields_attention:
  assumes G: "ggml_laws (gb_ops B)" and D: "dit_ok D" and w: "has_block B (dt_width D) block kv_dim ff_dim"
    and query: "f32t (gb_ops B) [dt_width D, q, 1, 1] query_source"
    and kv: "f32t (gb_ops B) [kv_dim, n, 1, 1] key_value_source"
    and msk: "\<And>m. kq_mask = Some m \<Longrightarrow> \<exists>r. f32t (gb_ops B) [n, r, 1, 1] m \<and> q \<le> r"
  shows "yields B 24 (f32t (gb_ops B) [dt_width D, q, 1, 1])
    (attention B D block kq_mask query_source key_value_source)"
proof -
  have q: "ne (gb_ops B) query_source 1 = q" using dims_ne [OF f32t_imp(4) [OF query]] by simp
  have ws: "has_linear B (block @ ''attention.query'') (dt_width D) (dt_width D)"
    "has_linear B (block @ ''attention.key'') kv_dim (dt_width D)"
    "has_linear B (block @ ''attention.value'') kv_dim (dt_width D)"
    "has_linear B (block @ ''attention.output'') (dt_width D) (dt_width D)"
    using w by (simp_all add: has_block_def)
  show ?thesis
    unfolding attention_def q
    apply (rule yields_mono)
     apply (rule yields_bind, rule yields_project_heads [OF G D ws(1) query])
     apply (rule yields_bind, rule yields_project_heads [OF G D ws(2) kv])
     apply (rule yields_bind, rule yields_project_heads [OF G D ws(3) kv])
     apply (rule yields_bind, rule yields_attend [OF G D], assumption, assumption, assumption, erule msk)
     apply (erule yields_linear [OF G ws(4)])
    apply simp
    done
qed

lemma yields_feed_forward:
  assumes G: "ggml_laws (gb_ops B)" and w: "has_block B (dt_width D) block kv_dim ff_dim"
    and hidden: "f32t (gb_ops B) [dt_width D, n, 1, 1] hidden"
  shows "yields B 9 (f32t (gb_ops B) [dt_width D, n, 1, 1]) (feed_forward B D block hidden)"
proof -
  have ws: "has_linear B (block @ ''feed_forward.input'') (dt_width D) ff_dim"
    "has_linear B (block @ ''feed_forward.output'') ff_dim (dt_width D)"
    using w by (simp_all add: has_block_def)
  show ?thesis
    unfolding feed_forward_def Let_def
    apply (rule yields_mono)
     apply (rule yields_bind, rule node_unary(1) [OF G hidden])
     apply (rule yields_bind, erule yields_linear [OF G ws(1)])
     apply (rule yields_bind, erule node_unary(5) [OF G])
     apply (rule yields_bind, erule yields_linear [OF G ws(2)])
     apply (rule node_elementwise(1) [OF G hidden], assumption, simp)
    apply simp
    done
qed

text \<open>The source of a block: one with keys of width \<open>kv_dim\<close> and a mask with enough rows, or the block's input.\<close>

definition source_ok :: "'t builder \<Rightarrow> dit \<Rightarrow> int \<Rightarrow> int \<Rightarrow> ('t \<times> 't option) option \<Rightarrow> bool" where
  "source_ok B D kv_dim n source \<longleftrightarrow>
     (case source of None \<Rightarrow> kv_dim = dt_width D
      | Some (kv, m) \<Rightarrow> (\<exists>c. f32t (gb_ops B) [kv_dim, c, 1, 1] kv \<and>
          (\<forall>t. m = Some t \<longrightarrow> (\<exists>r. f32t (gb_ops B) [c, r, 1, 1] t \<and> n \<le> r))))"

lemma yields_dit_block:
  assumes G: "ggml_laws (gb_ops B)" and D: "dit_ok D" and w: "has_block B (dt_width D) block kv_dim ff_dim"
    and one: "f32t (gb_ops B) [1, 1, 1, 1] scalar_one" and temb: "f32t (gb_ops B) [dt_width D, 1, 1, 1] temb"
    and source: "source_ok B D kv_dim n source"
    and hidden: "f32t (gb_ops B) [dt_width D, n, 1, 1] hidden"
  shows "yields B 44 (f32t (gb_ops B) [dt_width D, n, 1, 1]) (dit_block B D block scalar_one temb source hidden)"
proof -
  have attended: "yields B 24 (f32t (gb_ops B) [dt_width D, n, 1, 1])
      (case source of None \<Rightarrow> attention B D block None normalized normalized
       | Some (key_value, kq_mask) \<Rightarrow> attention B D block kq_mask normalized key_value)"
    if normalized: "f32t (gb_ops B) [dt_width D, n, 1, 1] normalized" for normalized
  proof (cases source)
    case None
    with source w have "has_block B (dt_width D) block (dt_width D) ff_dim" by (simp add: source_ok_def)
    from yields_attention [OF G D this normalized normalized, of None] None show ?thesis by simp
  next
    case (Some s)
    obtain kv m where s: "s = (kv, m)" by (cases s)
    with source Some obtain c where "f32t (gb_ops B) [kv_dim, c, 1, 1] kv"
      "\<And>t. m = Some t \<Longrightarrow> \<exists>r. f32t (gb_ops B) [c, r, 1, 1] t \<and> n \<le> r"
      by (auto simp: source_ok_def)
    from yields_attention [OF G D w normalized this] Some s show ?thesis by simp
  qed
  show ?thesis
    unfolding dit_block_def
    apply (rule yields_mono)
     apply (rule yields_bind, rule yields_ada_norm [OF G D w one hidden temb])
     apply (rule yields_bind, erule attended)
     apply (rule yields_bind, rule node_elementwise(1) [OF G hidden], assumption, simp)
     apply (erule yields_feed_forward [OF G w])
    apply simp
    done
qed

lemma table_row:
  assumes "int step < steps" "0 < (d::int)"
  shows "int (step * nat d) + d \<le> d * steps * 1"
proof -
  have "(int step + 1) * d \<le> steps * d" using assms by (intro mult_right_mono) auto
  then show ?thesis using assms by (simp add: algebra_simps)
qed

lemma yields_time_embedding:
  assumes G: "ggml_laws (gb_ops B)"
    and w: "has_linear B (prefix @ ''timestep.input'') d width" "has_linear B (prefix @ ''timestep.output'') width width"
    and table: "f32t (gb_ops B) [d, steps, 1, 1] table" and step: "int step < steps"
  shows "yields B 8 (f32t (gb_ops B) [width, 1, 1, 1]) (time_embedding B prefix table d step)"
proof -
  have d: "0 < d" using dims_pos [OF f32t_imp(4) [OF table]] by simp
  note fits = table_row [OF step d]
  show ?thesis
    unfolding time_embedding_def Let_def
    apply (rule yields_mono)
     apply (rule yields_bind, rule node_view_1d [OF G table d fits])
     apply (rule yields_bind, erule yields_linear [OF G w(1)])
     apply (rule yields_bind, erule node_unary(4) [OF G])
     apply (erule yields_linear [OF G w(2)])
    apply simp
    done
qed

lemma yields_action_features:
  assumes G: "ggml_laws (gb_ops B)"
    and w: "has_linear B (prefix @ ''action.input'') action_dim width"
      "has_linear B (prefix @ ''action.time_mix'') (2 * width) width"
      "has_linear B (prefix @ ''action.output'') width width"
    and table: "f32t (gb_ops B) [width, steps, 1, 1] action_time" and step: "int step < steps"
    and position: "f32t (gb_ops B) [width, horizon, 1, 1] position"
    and actions: "f32t (gb_ops B) [action_dim, horizon, 1, 1] actions"
  shows "yields B 14 (f32t (gb_ops B) [width, horizon, 1, 1])
    (action_features B prefix action_time width position step actions)"
proof -
  have width: "0 < width" using dims_pos [OF f32t_imp(4) [OF table]] by simp
  note fits = table_row [OF step width]
  have mix: "has_linear B (prefix @ ''action.time_mix'') (width + width) width" using w(2) by (simp only: mult_2)
  show ?thesis
    unfolding action_features_def Let_def
    apply (rule yields_mono)
     apply (rule yields_bind, rule yields_linear [OF G w(1) actions])
     apply (rule yields_bind, rule node_view_1d [OF G table width fits])
     apply (rule yields_bind, rule node_join(1) [OF G], assumption, assumption, rule can_repeat_rows(1))
     apply (rule yields_bind, rule node_join(2) [OF G], assumption, assumption)
     apply (rule yields_bind, erule yields_linear [OF G mix])
     apply (rule yields_bind, erule node_unary(4) [OF G])
     apply (rule yields_bind, erule yields_linear [OF G w(3)])
     apply (rule node_elementwise(1) [OF G _ position], assumption, simp)
    apply simp
    done
qed

lemma yields_euler_step:
  assumes G: "ggml_laws (gb_ops B)"
    and w: "has_linear B (prefix @ ''velocity.input'') k mlp" "has_linear B (prefix @ ''velocity.output'') mlp action_dim"
    and hidden: "f32t (gb_ops B) [k, n, 1, 1] hidden" and rows: "int skipped + horizon \<le> n"
    and actions: "f32t (gb_ops B) [action_dim, horizon, 1, 1] actions"
  shows "yields B 10 (f32t (gb_ops B) [action_dim, horizon, 1, 1])
    (euler_step B prefix action_dim horizon skipped dt actions hidden)"
proof -
  have horizon: "0 < horizon" using dims_pos [OF f32t_imp(4) [OF actions]] by simp
  have fits: "int skipped + horizon \<le> n * 1" using rows by simp
  show ?thesis
    unfolding euler_step_def Let_def
    apply (rule yields_mono)
     apply (rule yields_bind, rule yields_linear [OF G w(1) hidden])
     apply (rule yields_bind, erule node_unary(3) [OF G])
     apply (rule yields_bind, erule yields_linear [OF G w(2)])
     apply (rule yields_bind, rule yields_conseq [where Q = "f32t (gb_ops B) [action_dim, horizon, 1, 1]"],
        rule node_view_2d [OF G _ horizon fits], erule f32t_imp(3), simp add: f32t_def)
     apply (rule yields_bind, erule node_unary(2) [OF G])
     apply (rule node_elementwise(1) [OF G actions], assumption, simp)
    apply simp
    done
qed

lemma yields_position_rows:
  assumes G: "ggml_laws (gb_ops B)" and w: "has_weight B (prefix @ ''action_position.weight'') [width, positions, 1, 1]"
    and horizon: "0 < horizon" "horizon \<le> positions"
  shows "yields B 2 (f32t (gb_ops B) [width, horizon, 1, 1]) (position_rows B prefix width horizon)"
proof -
  have fits: "int 0 + horizon \<le> positions * 1" using horizon by simp
  show ?thesis
    unfolding position_rows_def
    apply (rule yields_mono)
     apply (rule yields_bind, rule yields_has_weight [OF w])
     apply (rule yields_bind, rule node_view_2d [OF G _ horizon(1) fits, unfolded mult_0], assumption)
     apply (rule yields_f32_of [OF G], erule conjunct1)
    apply simp
    done
qed

end
