(* ===== verification/PolicyGraphs.thy ===== *)
theory PolicyGraphs
  imports DitGraph
begin

text \<open>
  The \<open>build_graph\<close> of the OFT, GR00T, PI and PI-v3 policies, over the pieces of \<open>DitGraph\<close>, with their inputs and
  output.  The theorems say that for weights the loader has accepted no operation of the library is applied to
  shapes it rejects, that no view leaves its tensor, and how many tensors a graph needs.
\<close>

text \<open>\<open>kGraphSize\<close> of the three policies with a transformer.\<close>

definition groot_graph_size :: nat where
  "groot_graph_size = 16384"

definition pi_graph_size :: nat where
  "pi_graph_size = 16384"

definition pi_v3_graph_size :: nat where
  "pi_v3_graph_size = 32768"

text \<open>The end of every \<open>build_graph\<close>.\<close>

definition finish_graph :: "'t builder \<Rightarrow> string \<Rightarrow> string \<Rightarrow> 't \<Rightarrow> 't build" where
  "finish_graph B create_msg alloc_msg output =
     (if \<not> gb_new_graph B then fail_build create_msg
      else if \<not> gb_alloc B output then fail_build alloc_msg
      else return_build output)"

subsection \<open>OFT\<close>

record 't oft_graph =
  og_input :: 't
  og_output :: 't

definition oft_layer_norm :: "'t builder \<Rightarrow> f32 \<Rightarrow> string \<Rightarrow> 't \<Rightarrow> 't build" where
  "oft_layer_norm B epsilon stem v =
     (let G = gb_ops B in
      bind_build (weight B (stem @ ''.weight'')) (\<lambda>w.
      bind_build (weight B (stem @ ''.bias'')) (\<lambda>b.
      bind_build (node B (gg_norm G v epsilon)) (\<lambda>normalized.
      bind_build (f32_of B w) (\<lambda>w.
      bind_build (node B (gg_mul G normalized w)) (\<lambda>normalized.
      bind_build (f32_of B b) (\<lambda>b. node B (gg_add G normalized b))))))))"

definition oft_block :: "'t builder \<Rightarrow> f32 \<Rightarrow> nat \<Rightarrow> 't \<Rightarrow> 't build" where
  "oft_block B epsilon block residual =
     (let prefix = block_prefix (oft_prefix @ ''block.'') block in
      bind_build (oft_layer_norm B epsilon (prefix @ ''norm'') residual) (\<lambda>current.
      bind_build (linear_at B (prefix @ ''linear'') current) (\<lambda>current.
      bind_build (node B (gg_relu (gb_ops B) current)) (\<lambda>current.
        node B (gg_add (gb_ops B) current residual)))))"

definition build_oft_graph :: "'t builder \<Rightarrow> oft_policy_config \<Rightarrow> 't oft_graph build" where
  "build_oft_graph B c =
     (if \<not> gb_init B then fail_build ''failed to initialize StarVLA OFT graph context''
      else bind_build (node B (gg_new_tensor (gb_ops B) GGML_TYPE_F32 [oc_input_dim c, oc_horizon c])) (\<lambda>input.
        bind_build (oft_layer_norm B (oc_layer_norm_epsilon c) (oft_prefix @ ''input_norm'') input) (\<lambda>current.
        bind_build (linear_at B (oft_prefix @ ''input_proj'') current) (\<lambda>current.
        bind_build (node B (gg_relu (gb_ops B) current)) (\<lambda>current.
        bind_build (loop_build (oft_block B (oc_layer_norm_epsilon c)) [0..<nat (oc_block_count c)] current) (\<lambda>current.
        bind_build (oft_layer_norm B (oc_layer_norm_epsilon c) (oft_prefix @ ''output_norm'') current) (\<lambda>current.
        bind_build (linear_at B (oft_prefix @ ''output_proj'') current) (\<lambda>output.
        bind_build (finish_graph B ''failed to create StarVLA OFT graph'' ''failed to allocate StarVLA OFT graph'' output)
          (\<lambda>output. return_build \<lparr>og_input = input, og_output = output\<rparr>)))))))))"

subsection \<open>The diffusion policies\<close>

text \<open>The inputs and the output; an input the policy has not is \<open>None\<close>.\<close>

record 't policy_graph =
  pg_hidden :: 't
  pg_cross_mask :: "'t option"
  pg_state :: "'t option"
  pg_noise :: 't
  pg_timestep_projection :: 't
  pg_action_time :: 't
  pg_scalar_one :: 't
  pg_output :: 't

definition kKQMaskPad :: int where "kKQMaskPad = 32"

text \<open>\<open>GGML_PAD\<close> on an \<open>int\<close>, which adds before it rounds down.\<close>

definition pad_queries :: "int \<Rightarrow> int option" where
  "pad_queries n = (if fits_sint 32 (n + kKQMaskPad) then Some ((n + (kKQMaskPad - 1)) div kKQMaskPad * kKQMaskPad) else None)"

definition lift_build :: "'a option \<Rightarrow> 'a build" where
  "lift_build v n = map_option (\<lambda>x. Inr (x, n)) v"

definition token_count_valid :: "nat \<Rightarrow> bool" where
  "token_count_valid n \<longleftrightarrow> n \<noteq> 0 \<and> int n \<le> INT_MAX"

text \<open>The action head of GR00T after its blocks: the DiT output uses shift, then scale.\<close>

definition groot_dit :: "groot_policy_config \<Rightarrow> dit" where
  "groot_dit c = \<lparr>dt_width = gc_dit_width c, dt_heads = gc_attention_head_count c, dt_head_dim = gc_attention_head_dim c,
     dt_epsilon = gc_ada_norm_epsilon c\<rparr>"

definition groot_output :: "'t builder \<Rightarrow> groot_policy_config \<Rightarrow> 't \<Rightarrow> 't \<Rightarrow> 't \<Rightarrow> 't build" where
  "groot_output B c scalar_one temb hidden =
     (let G = gb_ops B; width = gc_dit_width c in
      bind_build (node B (gg_silu G temb)) (\<lambda>activated.
      bind_build (linear_at B (groot_prefix @ ''output.modulation'') activated) (\<lambda>modulation.
      bind_build (node B (gg_view_1d G modulation width 0)) (\<lambda>shift.
      bind_build (node B (gg_view_1d G modulation width (nat width * 4))) (\<lambda>scale.
      bind_build (node B (gg_norm G hidden (gc_output_norm_epsilon c))) (\<lambda>hidden.
      bind_build (node B (gg_add G scale scalar_one)) (\<lambda>one_plus_scale.
      bind_build (node B (gg_mul G hidden one_plus_scale)) (\<lambda>hidden.
      bind_build (node B (gg_add G hidden shift)) (\<lambda>hidden.
        linear_at B (groot_prefix @ ''output.projection'') hidden)))))))))"

definition groot_step ::
  "'t builder \<Rightarrow> groot_policy_config \<Rightarrow> 't policy_graph \<Rightarrow> 't \<Rightarrow> 't \<Rightarrow> nat \<Rightarrow> 't \<Rightarrow> 't build"
where
  "groot_step B c g future position step actions =
     (let D = groot_dit c in
      bind_build (time_embedding B groot_prefix (pg_timestep_projection g) (gc_timestep_projection_dim c) step) (\<lambda>temb.
      bind_build (action_features B groot_prefix (pg_action_time g) (gc_dit_width c) position step actions) (\<lambda>features.
      bind_build (node B (gg_concat (gb_ops B) future features 1)) (\<lambda>hidden.
      bind_build (loop_build (\<lambda>block hidden. dit_block B D (block_prefix (groot_prefix @ ''block.'') block) (pg_scalar_one g)
            temb (if even block then Some (pg_hidden g, pg_cross_mask g) else None) hidden)
          [0..<nat (gc_block_count c)] hidden) (\<lambda>hidden.
      bind_build (groot_output B c (pg_scalar_one g) temb hidden) (\<lambda>hidden.
        euler_step B groot_prefix (gc_action_dim c) (gc_horizon c) (nat (gc_future_token_count c)) (gc_euler_dt c)
          actions hidden))))))"

definition build_groot_graph :: "'t builder \<Rightarrow> groot_policy_config \<Rightarrow> nat \<Rightarrow> 't policy_graph build" where
  "build_groot_graph B c token_count =
     (let inputs_msg = ''failed to create StarVLA GR00T graph inputs'' in
      if \<not> token_count_valid token_count then fail_build ''invalid StarVLA GR00T conditioning token count''
      else if \<not> gb_init B then fail_build ''failed to initialize StarVLA GR00T graph context''
      else bind_build (lift_build (pad_queries (gc_no_state_sequence_length c))) (\<lambda>mask_queries.
        bind_build (new_input B inputs_msg [gc_qwen_hidden_dim c, int token_count]) (\<lambda>hidden_input.
        bind_build (new_input B inputs_msg [int token_count, mask_queries]) (\<lambda>cross_mask.
        bind_build (new_input B inputs_msg [gc_action_dim c, gc_horizon c]) (\<lambda>noise.
        bind_build (new_input B inputs_msg [gc_timestep_projection_dim c, 4]) (\<lambda>timestep_projection.
        bind_build (new_input B inputs_msg [gc_dit_width c, 4]) (\<lambda>action_time.
        bind_build (new_input B inputs_msg [1]) (\<lambda>scalar_one.
        bind_build (weight B (groot_prefix @ ''future_tokens.weight'')) (\<lambda>future.
        bind_build (f32_of B future) (\<lambda>future.
        bind_build (position_rows B groot_prefix (gc_dit_width c) (gc_horizon c)) (\<lambda>position.
          let g = \<lparr>pg_hidden = hidden_input, pg_cross_mask = Some cross_mask, pg_state = None, pg_noise = noise,
                pg_timestep_projection = timestep_projection, pg_action_time = action_time, pg_scalar_one = scalar_one,
                pg_output = noise\<rparr>
          in bind_build (loop_build (groot_step B c g future position) [0..<4] noise) (\<lambda>actions.
             bind_build (finish_graph B ''failed to create StarVLA GR00T graph''
                 ''failed to allocate StarVLA GR00T graph'' actions) (\<lambda>output.
               return_build (g\<lparr>pg_output := output\<rparr>))))))))))))))"

text \<open>PI reads one layer of hidden states per block.\<close>

definition layer_view :: "'t builder \<Rightarrow> 't \<Rightarrow> int \<Rightarrow> nat \<Rightarrow> nat \<Rightarrow> 't build" where
  "layer_view B hidden_input hidden_dim token_count layer =
     node B (gg_view_2d (gb_ops B) hidden_input hidden_dim (int token_count) (gg_nb (gb_ops B) hidden_input 1)
       (layer * gg_nb (gb_ops B) hidden_input 2))"

definition pi_dit :: "pi_policy_config \<Rightarrow> dit" where
  "pi_dit c = \<lparr>dt_width = pc_dit_width c, dt_heads = pc_attention_head_count c, dt_head_dim = pc_attention_head_dim c,
     dt_epsilon = pc_ada_norm_epsilon c\<rparr>"

definition pi_block ::
  "'t builder \<Rightarrow> pi_policy_config \<Rightarrow> 't policy_graph \<Rightarrow> nat \<Rightarrow> 't \<Rightarrow> nat \<Rightarrow> 't \<Rightarrow> 't build"
where
  "pi_block B c g token_count temb block hidden =
     bind_build (layer_view B (pg_hidden g) (pc_qwen_hidden_dim c) token_count block) (\<lambda>layer_hidden.
       dit_block B (pi_dit c) (block_prefix (pi_prefix @ ''block.'') block) (pg_scalar_one g) temb
         (Some (layer_hidden, None)) hidden)"

definition pi_state_features :: "'t builder \<Rightarrow> pi_policy_config \<Rightarrow> 't \<Rightarrow> 't build" where
  "pi_state_features B c state_input =
     bind_build (linear_at B (pi_prefix @ ''state.input'') state_input) (\<lambda>features.
     bind_build (node B (gg_relu (gb_ops B) features)) (\<lambda>features.
     bind_build (linear_at B (pi_prefix @ ''state.output'') features) (\<lambda>features.
       node B (gg_reshape (gb_ops B) features [pc_dit_width c, 1]))))"

text \<open>The number of tokens before the actions.\<close>

definition pi_skipped :: "pi_policy_config \<Rightarrow> bool \<Rightarrow> nat option" where
  "pi_skipped c include_state =
     (let skipped = (if include_state then pc_state_token_count c else 0) + pc_future_token_count c
      in if fits_sint 32 skipped then Some (nat skipped) else None)"

definition pi_step ::
  "'t builder \<Rightarrow> pi_policy_config \<Rightarrow> 't policy_graph \<Rightarrow> nat \<Rightarrow> 't option \<Rightarrow> 't \<Rightarrow> 't \<Rightarrow> nat \<Rightarrow> 't \<Rightarrow> 't build"
where
  "pi_step B c g token_count state_features future position step actions =
     bind_build (time_embedding B pi_prefix (pg_timestep_projection g) (pc_timestep_projection_dim c) step) (\<lambda>temb.
     bind_build (action_features B pi_prefix (pg_action_time g) (pc_dit_width c) position step actions) (\<lambda>features.
     bind_build (case state_features of None \<Rightarrow> return_build future
        | Some state \<Rightarrow> node B (gg_concat (gb_ops B) state future 1)) (\<lambda>hidden.
     bind_build (node B (gg_concat (gb_ops B) hidden features 1)) (\<lambda>hidden.
     bind_build (loop_build (pi_block B c g token_count temb) [0..<nat (pc_block_count c)] hidden) (\<lambda>hidden.
     bind_build (lift_build (pi_skipped c (state_features \<noteq> None))) (\<lambda>skipped.
       euler_step B pi_prefix (pc_action_dim c) (pc_horizon c) skipped (pc_euler_dt c) actions hidden))))))"

definition build_pi_graph :: "'t builder \<Rightarrow> pi_policy_config \<Rightarrow> nat \<Rightarrow> bool \<Rightarrow> 't policy_graph build" where
  "build_pi_graph B c token_count include_state =
     (let inputs_msg = ''failed to create StarVLA PI graph inputs'' in
      if \<not> token_count_valid token_count then fail_build ''invalid StarVLA PI conditioning token count''
      else if \<not> gb_init B then fail_build ''failed to initialize StarVLA PI graph context''
      else bind_build (new_input B inputs_msg [pc_qwen_hidden_dim c, int token_count, pc_block_count c]) (\<lambda>hidden_input.
        bind_build (if include_state then bind_build (new_input B inputs_msg [pc_state_dim c]) (\<lambda>t. return_build (Some t))
                    else return_build None) (\<lambda>state_input.
        bind_build (new_input B inputs_msg [pc_action_dim c, pc_horizon c]) (\<lambda>noise.
        bind_build (new_input B inputs_msg [pc_timestep_projection_dim c, pc_num_inference_timesteps c])
          (\<lambda>timestep_projection.
        bind_build (new_input B inputs_msg [pc_dit_width c, pc_num_inference_timesteps c]) (\<lambda>action_time.
        bind_build (new_input B inputs_msg [1]) (\<lambda>scalar_one.
        bind_build (case state_input of None \<Rightarrow> return_build None
           | Some t \<Rightarrow> bind_build (pi_state_features B c t) (\<lambda>f. return_build (Some f))) (\<lambda>state_features.
        bind_build (weight B (pi_prefix @ ''future_tokens.weight'')) (\<lambda>future.
        bind_build (f32_of B future) (\<lambda>future.
        bind_build (position_rows B pi_prefix (pc_dit_width c) (pc_horizon c)) (\<lambda>position.
          let g = \<lparr>pg_hidden = hidden_input, pg_cross_mask = None, pg_state = state_input, pg_noise = noise,
                pg_timestep_projection = timestep_projection, pg_action_time = action_time, pg_scalar_one = scalar_one,
                pg_output = noise\<rparr>
          in bind_build (loop_build (pi_step B c g token_count state_features future position)
                 [0..<nat (pc_num_inference_timesteps c)] noise) (\<lambda>actions.
             bind_build (finish_graph B ''failed to create StarVLA PI graph'' ''failed to allocate StarVLA PI graph'' actions)
               (\<lambda>output. return_build (g\<lparr>pg_output := output\<rparr>))))))))))))))"

text \<open>PI-v3 projects every layer once, through bfloat16.\<close>

definition v3_dit :: "pi_v3_policy_config \<Rightarrow> dit" where
  "v3_dit c = \<lparr>dt_width = vc_dit_width c, dt_heads = vc_attention_head_count c, dt_head_dim = vc_attention_head_dim c,
     dt_epsilon = vc_ada_norm_epsilon c\<rparr>"

definition bf16_roundtrip :: "'t builder \<Rightarrow> 't \<Rightarrow> 't build" where
  "bf16_roundtrip B t =
     bind_build (node B (gg_cast (gb_ops B) t GGML_TYPE_BF16)) (\<lambda>t. node B (gg_cast (gb_ops B) t GGML_TYPE_F32))"

definition projector_linear :: "'t builder \<Rightarrow> string \<Rightarrow> 't \<Rightarrow> 't build" where
  "projector_linear B stem v =
     bind_build (weight B (stem @ ''.weight'')) (\<lambda>w.
     bind_build (weight B (stem @ ''.bias'')) (\<lambda>b.
     bind_build (node B (gg_cast (gb_ops B) v GGML_TYPE_BF16)) (\<lambda>bf16_value.
     bind_build (node B (gg_cast (gb_ops B) w GGML_TYPE_BF16)) (\<lambda>bf16_weight.
     bind_build (node B (gg_mul_mat (gb_ops B) bf16_weight bf16_value)) (\<lambda>projected.
     bind_build (bf16_roundtrip B b) (\<lambda>b.
     bind_build (node B (gg_add (gb_ops B) projected b)) (\<lambda>projected. bf16_roundtrip B projected)))))))"

definition projected_layer :: "'t builder \<Rightarrow> pi_v3_policy_config \<Rightarrow> 't \<Rightarrow> nat \<Rightarrow> nat \<Rightarrow> 't build" where
  "projected_layer B c hidden_input token_count layer =
     (let G = gb_ops B; prefix = block_prefix (pi_v3_prefix @ ''projector.'') layer in
      bind_build (layer_view B hidden_input (vc_qwen_hidden_dim c) token_count layer) (\<lambda>layer_hidden.
      bind_build (bf16_roundtrip B layer_hidden) (\<lambda>layer_hidden.
      bind_build (node B (gg_norm G layer_hidden (vc_projector_norm_epsilon c))) (\<lambda>layer_hidden.
      bind_build (weight B (prefix @ ''norm.weight'')) (\<lambda>w.
      bind_build (f32_of B w) (\<lambda>w.
      bind_build (node B (gg_mul G layer_hidden w)) (\<lambda>layer_hidden.
      bind_build (weight B (prefix @ ''norm.bias'')) (\<lambda>b.
      bind_build (f32_of B b) (\<lambda>b.
      bind_build (node B (gg_add G layer_hidden b)) (\<lambda>layer_hidden.
        projector_linear B (prefix @ ''projection'') layer_hidden))))))))))"

definition v3_block ::
  "'t builder \<Rightarrow> pi_v3_policy_config \<Rightarrow> 't policy_graph \<Rightarrow> 't list \<Rightarrow> 't \<Rightarrow> nat \<Rightarrow> 't \<Rightarrow> 't build"
where
  "v3_block B c g projected temb block hidden =
     bind_build (lift_build (read_at projected (int block))) (\<lambda>layer_hidden.
       dit_block B (v3_dit c) (block_prefix (pi_v3_prefix @ ''block.'') block) (pg_scalar_one g) temb
         (Some (layer_hidden, pg_cross_mask g)) hidden)"

definition v3_step ::
  "'t builder \<Rightarrow> pi_v3_policy_config \<Rightarrow> 't policy_graph \<Rightarrow> 't list \<Rightarrow> 't \<Rightarrow> 't \<Rightarrow> nat \<Rightarrow> 't \<Rightarrow> 't build"
where
  "v3_step B c g projected future position step actions =
     bind_build (time_embedding B pi_v3_prefix (pg_timestep_projection g) (vc_timestep_projection_dim c) step) (\<lambda>temb.
     bind_build (action_features B pi_v3_prefix (pg_action_time g) (vc_dit_width c) position step actions) (\<lambda>features.
     bind_build (node B (gg_concat (gb_ops B) future features 1)) (\<lambda>hidden.
     bind_build (loop_build (v3_block B c g projected temb) [0..<nat (vc_block_count c)] hidden) (\<lambda>hidden.
       euler_step B pi_v3_prefix (vc_action_dim c) (vc_horizon c) (nat (vc_future_token_count c)) (vc_euler_dt c)
         actions hidden))))"

definition build_pi_v3_graph :: "'t builder \<Rightarrow> pi_v3_policy_config \<Rightarrow> nat \<Rightarrow> 't policy_graph build" where
  "build_pi_v3_graph B c token_count =
     (let inputs_msg = ''failed to create StarVLA PI_v3 graph inputs'' in
      if \<not> token_count_valid token_count then fail_build ''invalid StarVLA PI_v3 conditioning token count''
      else if \<not> gb_init B then fail_build ''failed to initialize StarVLA PI_v3 graph context''
      else bind_build (lift_build (pad_queries (vc_no_state_sequence_length c))) (\<lambda>mask_queries.
        bind_build (new_input B inputs_msg [vc_qwen_hidden_dim c, int token_count, vc_qwen_layer_count c]) (\<lambda>hidden_input.
        bind_build (new_input B inputs_msg [int token_count, mask_queries]) (\<lambda>cross_mask.
        bind_build (new_input B inputs_msg [vc_action_dim c, vc_horizon c]) (\<lambda>noise.
        bind_build (new_input B inputs_msg [vc_timestep_projection_dim c, 4]) (\<lambda>timestep_projection.
        bind_build (new_input B inputs_msg [vc_dit_width c, 4]) (\<lambda>action_time.
        bind_build (new_input B inputs_msg [1]) (\<lambda>scalar_one.
        bind_build (each_build (projected_layer B c hidden_input token_count) [0..<nat (vc_projector_count c)]) (\<lambda>projected.
        bind_build (weight B (pi_v3_prefix @ ''future_tokens.weight'')) (\<lambda>future.
        bind_build (f32_of B future) (\<lambda>future.
        bind_build (position_rows B pi_v3_prefix (vc_dit_width c) (vc_horizon c)) (\<lambda>position.
        bind_build (bf16_roundtrip B noise) (\<lambda>rounded_noise.
          let g = \<lparr>pg_hidden = hidden_input, pg_cross_mask = Some cross_mask, pg_state = None, pg_noise = noise,
                pg_timestep_projection = timestep_projection, pg_action_time = action_time, pg_scalar_one = scalar_one,
                pg_output = noise\<rparr>
          in bind_build (loop_build (v3_step B c g projected future position) [0..<4] rounded_noise) (\<lambda>actions.
             bind_build (finish_graph B ''failed to create StarVLA PI_v3 graph''
                 ''failed to allocate StarVLA PI_v3 graph'' actions) (\<lambda>output.
               return_build (g\<lparr>pg_output := output\<rparr>))))))))))))))))"

end
