(* ===== verification/GraphShapes.thy ===== *)
theory GraphShapes
  imports PolicyGraphs
begin

text \<open>
  The shapes of the policy graphs: when the metadata is valid and the loader has accepted the tensors, building a
  graph never violates a condition of the library, and its inputs and output have the shapes \<open>evaluate\<close> counts
  on.  The number of tensors of a graph is a multiple of its blocks and steps.
\<close>

subsection \<open>Weights the loader has accepted\<close>

text \<open>Tensors of a file are contiguous, and have one element in the dimensions beyond their number.\<close>

definition weights_stored :: "'t builder \<Rightarrow> bool" where
  "weights_stored B \<longleftrightarrow> (\<forall>name w. gb_weights B name = Some w \<longrightarrow>
     gg_is_contiguous (gb_ops B) w \<and> \<not> gg_is_transposed (gb_ops B) w \<and>
     (\<forall>i<4. te_n_dims (gg_entry (gb_ops B) w) \<le> i \<longrightarrow> ne (gb_ops B) w i = 1))"

definition entries :: "'t builder \<Rightarrow> string \<Rightarrow> tensor_entry option" where
  "entries B name = map_option (gg_entry (gb_ops B)) (gb_weights B name)"

lemma four_items: "[0..<4] = [0, Suc 0, 2, 3]"
  by (simp add: upt_rec numeral_2_eq_2 numeral_3_eq_3)

lemma loaded_weight:
  assumes "shapes_ok (entries B) checks" "(name, shape) \<in> set checks" "weights_stored B"
  shows "shape = [a] \<Longrightarrow> 0 < a \<Longrightarrow> has_weight B name [a, 1, 1, 1]"
    and "shape = [a, b] \<Longrightarrow> 0 < a \<Longrightarrow> 0 < b \<Longrightarrow> has_weight B name [a, b, 1, 1]"
proof -
  obtain w where w: "gb_weights B name = Some w" "has_shape (gg_entry (gb_ops B) w) shape"
    using assms(1,2) by (fastforce simp: shapes_ok_def list_all_iff entries_def split: option.splits)
  from assms(3) w(1) have s: "gg_is_contiguous (gb_ops B) w" "\<not> gg_is_transposed (gb_ops B) w"
    "te_n_dims (gg_entry (gb_ops B) w) \<le> i \<Longrightarrow> i < 4 \<Longrightarrow> ne (gb_ops B) w i = 1" for i
    by (auto simp: weights_stored_def)
  show "has_weight B name [a, 1, 1, 1]" if "shape = [a]" "0 < a"
    using w s(1,2) s(3) [of 1] s(3) [of 2] s(3) [of 3] that
    by (auto simp: has_weight_def stored_def dims_def four_items has_shape_def ne_def)
  show "has_weight B name [a, b, 1, 1]" if "shape = [a, b]" "0 < a" "0 < b"
    using w s(1,2) s(3) [of 2] s(3) [of 3] that
    by (auto simp: has_weight_def stored_def dims_def four_items has_shape_def ne_def)
qed

text \<open>A matrix and its bias among checked tensors with a common prefix.\<close>

lemma prefixed: "(name, shape) \<in> set checks \<Longrightarrow> (prefix @ name, shape) \<in> set (shapes_with_prefix prefix checks)"
  by (force simp: shapes_with_prefix_def)

lemma loaded_linear:
  assumes "shapes_ok (entries B) (shapes_with_prefix prefix checks)" "weights_stored B"
    and "(stem @ ''.weight'', [k, m]) \<in> set checks" "(stem @ ''.bias'', [m]) \<in> set checks" "0 < k" "0 < m"
  shows "has_linear B (prefix @ stem) k m"
  using loaded_weight(2) [OF assms(1) prefixed [OF assms(3)] assms(2), of k m]
    loaded_weight(1) [OF assms(1) prefixed [OF assms(4)] assms(2), of m] assms(5,6)
  by (simp add: has_linear_def)

lemma loaded_block:
  assumes "shapes_ok (entries B) (shapes_with_prefix block (dit_block_shapes width kv_dim ff_dim))" "weights_stored B"
    and "0 < width" "0 < kv_dim" "0 < ff_dim"
  shows "has_block B width block kv_dim ff_dim"
proof -
  note L = loaded_linear [OF assms(1,2)]
  have "has_linear B (block @ ''ada_norm'') width (2 * width)"
    by (rule L) (use assms in \<open>simp_all add: dit_block_shapes_def\<close>)
  moreover have "has_linear B (block @ ''attention.query'') width width"
    by (rule L) (use assms in \<open>simp_all add: dit_block_shapes_def\<close>)
  moreover have "has_linear B (block @ ''attention.key'') kv_dim width"
    by (rule L) (use assms in \<open>simp_all add: dit_block_shapes_def\<close>)
  moreover have "has_linear B (block @ ''attention.value'') kv_dim width"
    by (rule L) (use assms in \<open>simp_all add: dit_block_shapes_def\<close>)
  moreover have "has_linear B (block @ ''attention.output'') width width"
    by (rule L) (use assms in \<open>simp_all add: dit_block_shapes_def\<close>)
  moreover have "has_linear B (block @ ''feed_forward.input'') width ff_dim"
    by (rule L) (use assms in \<open>simp_all add: dit_block_shapes_def\<close>)
  moreover have "has_linear B (block @ ''feed_forward.output'') ff_dim width"
    by (rule L) (use assms in \<open>simp_all add: dit_block_shapes_def\<close>)
  ultimately show ?thesis by (simp add: has_block_def)
qed

subsection \<open>Steps that cannot abort\<close>

text \<open>A build that may fail with an error, but not abort, and otherwise gives \<open>P\<close>.\<close>

definition safe :: "'t builder \<Rightarrow> nat \<Rightarrow> ('a \<Rightarrow> bool) \<Rightarrow> 'a build \<Rightarrow> bool" where
  "safe B k P m \<longleftrightarrow>
     (\<forall>n. n + k \<le> gb_capacity B \<longrightarrow>
        (\<exists>r. m n = Some r \<and> (\<forall>x n'. r = Inr (x, n') \<longrightarrow> n' \<le> n + k \<and> P x)))"

lemma yields_safe: "yields B k P m \<Longrightarrow> safe B k P m"
  unfolding yields_def safe_def by fastforce

lemma safe_fail: "safe B k P (fail_build e)"
  by (simp add: safe_def fail_build_def)

lemma safe_return: "P x \<Longrightarrow> safe B 0 P (return_build x)"
  by (simp add: safe_def return_build_def)

lemma safe_mono:
  assumes "safe B k P m" "k \<le> l"
  shows "safe B l P m"
  unfolding safe_def
proof (intro allI impI)
  fix n assume "n + l \<le> gb_capacity B"
  with assms(2) have "n + k \<le> gb_capacity B" by simp
  with assms(1) obtain r where "m n = Some r" "\<forall>x n'. r = Inr (x, n') \<longrightarrow> n' \<le> n + k \<and> P x"
    unfolding safe_def by blast
  with assms(2) show "\<exists>r. m n = Some r \<and> (\<forall>x n'. r = Inr (x, n') \<longrightarrow> n' \<le> n + l \<and> P x)"
    by (intro exI [of _ r]) auto
qed

lemma safe_bind:
  assumes "safe B k P m" "\<And>x. P x \<Longrightarrow> safe B l Q (f x)"
  shows "safe B (k + l) Q (bind_build m f)"
  unfolding safe_def
proof (intro allI impI)
  fix n assume n: "n + (k + l) \<le> gb_capacity B"
  then have "n + k \<le> gb_capacity B" by simp
  with assms(1) obtain r where r: "m n = Some r" "\<forall>x n'. r = Inr (x, n') \<longrightarrow> n' \<le> n + k \<and> P x"
    unfolding safe_def by blast
  show "\<exists>r. bind_build m f n = Some r \<and> (\<forall>y n'. r = Inr (y, n') \<longrightarrow> n' \<le> n + (k + l) \<and> Q y)"
  proof (cases r)
    case (Inl e)
    with r show ?thesis by (simp add: bind_build_def)
  next
    case (Inr xn)
    obtain x n' where xn: "xn = (x, n')" by (cases xn)
    with Inr r(2) have x: "n' \<le> n + k" "P x" by auto
    from x(1) n have "n' + l \<le> gb_capacity B" by simp
    with assms(2) [OF x(2)] obtain s where s: "f x n' = Some s" "\<forall>y n''. s = Inr (y, n'') \<longrightarrow> n'' \<le> n' + l \<and> Q y"
      unfolding safe_def by blast
    from s(2) x(1) have "\<forall>y n''. s = Inr (y, n'') \<longrightarrow> n'' \<le> n + (k + l) \<and> Q y" by fastforce
    with s(1) r(1) Inr xn show ?thesis by (simp add: bind_build_def)
  qed
qed

lemma safe_finish: "P output \<Longrightarrow> safe B 0 P (finish_graph B create_msg alloc_msg output)"
  by (simp add: finish_graph_def safe_fail safe_return)

lemma yields_lift: "v = Some x \<Longrightarrow> P x \<Longrightarrow> yields B 0 P (lift_build v)"
  by (simp add: yields_def lift_build_def)

text \<open>A layer of a three-dimensional input.\<close>

lemma yields_layer_view:
  assumes G: "ggml_laws (gb_ops B)" and t: "f32t (gb_ops B) [d, int n, layers, 1] t" and layer: "int layer < layers"
  shows "yields B 1 (f32t (gb_ops B) [d, int n, 1, 1]) (layer_view B t d n layer)"
proof -
  have n: "0 < n" "ne (gb_ops B) t 1 = int n"
    using dims_pos [OF f32t_imp(4) [OF t]] dims_ne [OF f32t_imp(4) [OF t]] by auto
  have "law_strides (gb_ops B)" using G by (simp add: ggml_laws_def)
  then have "gg_nb (gb_ops B) t 2 = nat (ne (gb_ops B) t 1) * gg_nb (gb_ops B) t 1"
    using f32t_imp(3) [OF t] unfolding law_strides_def by blast
  then have nb: "layer * gg_nb (gb_ops B) t 2 = (layer * n) * gg_nb (gb_ops B) t 1"
    unfolding n(2) by simp
  have "int layer * int n + int n \<le> layers * int n"
    using mult_right_mono [of "int layer + 1" layers "int n"] layer by (simp add: algebra_simps)
  then have fits: "int (layer * n) + int n \<le> int n * layers" by (simp add: mult.commute)
  have pos: "0 < int n" using n by simp
  show ?thesis
    unfolding layer_view_def nb
    by (rule yields_conseq, rule node_view_2d [OF G f32t_imp(3) [OF t] pos fits]) (use f32t_imp(6) [OF t] in \<open>simp add: f32t_def\<close>)
qed

subsection \<open>OFT\<close>

definition oft_valid :: "oft_policy_config \<Rightarrow> bool" where
  "oft_valid c \<longleftrightarrow> 0 < oc_input_dim c \<and> 0 < oc_hidden_dim c \<and> 0 < oc_action_dim c \<and> 0 < oc_horizon c"

lemma parse_oft_valid: "parse_oft_metadata g = Inr c \<Longrightarrow> oft_valid c"
  by (auto simp: parse_oft_metadata_def res_simps oft_dimensions_valid_def oft_valid_def split: prod.splits)

text \<open>A layer norm reads a weight and a bias of its width.\<close>

definition has_norm :: "'t builder \<Rightarrow> string \<Rightarrow> int \<Rightarrow> bool" where
  "has_norm B stem k \<longleftrightarrow> has_weight B (stem @ ''.weight'') [k, 1, 1, 1] \<and> has_weight B (stem @ ''.bias'') [k, 1, 1, 1]"

lemma loaded_norm:
  assumes "shapes_ok (entries B) (shapes_with_prefix prefix checks)" "weights_stored B"
    and "(stem @ ''.weight'', [k]) \<in> set checks" "(stem @ ''.bias'', [k]) \<in> set checks" "0 < k"
  shows "has_norm B (prefix @ stem) k"
  using loaded_weight(1) [OF assms(1) prefixed [OF assms(3)] assms(2), of k]
    loaded_weight(1) [OF assms(1) prefixed [OF assms(4)] assms(2), of k] assms(5)
  by (simp add: has_norm_def)

lemma yields_oft_layer_norm:
  assumes G: "ggml_laws (gb_ops B)" and w: "has_norm B stem k" and v: "f32t (gb_ops B) [k, n, 1, 1] v"
  shows "yields B 5 (f32t (gb_ops B) [k, n, 1, 1]) (oft_layer_norm B epsilon stem v)"
  unfolding oft_layer_norm_def Let_def
  apply (rule yields_mono)
   apply (rule yields_bind, rule yields_has_weight, rule conjunct1 [OF w [unfolded has_norm_def]])
   apply (rule yields_bind, rule yields_has_weight, rule conjunct2 [OF w [unfolded has_norm_def]])
   apply (rule yields_bind, rule node_unary(1) [OF G v])
   apply (rule yields_bind, erule yields_f32_of [OF G])
   apply (rule yields_bind, rule node_elementwise(2) [OF G], assumption, assumption, simp)
   apply (rule yields_bind, erule yields_f32_of [OF G])
   apply (rule node_elementwise(1) [OF G], assumption, assumption, simp)
  apply simp
  done

definition oft_weights :: "'t builder \<Rightarrow> oft_policy_config \<Rightarrow> bool" where
  "oft_weights B c \<longleftrightarrow>
     has_norm B (oft_prefix @ ''input_norm'') (oc_input_dim c) \<and>
     has_linear B (oft_prefix @ ''input_proj'') (oc_input_dim c) (oc_hidden_dim c) \<and>
     (\<forall>i < nat (oc_block_count c).
        has_norm B (block_prefix (oft_prefix @ ''block.'') i @ ''norm'') (oc_hidden_dim c) \<and>
        has_linear B (block_prefix (oft_prefix @ ''block.'') i @ ''linear'') (oc_hidden_dim c) (oc_hidden_dim c)) \<and>
     has_norm B (oft_prefix @ ''output_norm'') (oc_hidden_dim c) \<and>
     has_linear B (oft_prefix @ ''output_proj'') (oc_hidden_dim c) (oc_action_dim c)"

lemma bound_oft_weights:
  assumes "bind_oft_tensors c (entries B) = Some (Inr bound)" "oft_valid c" "weights_stored B"
  shows "oft_weights B c"
proof -
  have checks: "shapes_ok (entries B) (oft_projection_shapes c)"
    "i < nat (oc_block_count c) \<Longrightarrow> shapes_ok (entries B) (oft_block_shapes c i)" for i
    using assms(1) by (auto simp: bind_oft_tensors_def bind_all_Inr list_all_iff)
  have pos: "0 < oc_input_dim c" "0 < oc_hidden_dim c" "0 < oc_action_dim c"
    using assms(2) by (auto simp: oft_valid_def)
  note P = checks(1) [unfolded oft_projection_shapes_def]
  have "has_norm B (oft_prefix @ ''input_norm'') (oc_input_dim c)"
    "has_norm B (oft_prefix @ ''output_norm'') (oc_hidden_dim c)"
    by (rule loaded_norm [OF P assms(3)]; use pos in simp)+
  moreover have "has_linear B (oft_prefix @ ''input_proj'') (oc_input_dim c) (oc_hidden_dim c)"
    "has_linear B (oft_prefix @ ''output_proj'') (oc_hidden_dim c) (oc_action_dim c)"
    by (rule loaded_linear [OF P assms(3)]; use pos in simp)+
  moreover have "has_norm B (block_prefix (oft_prefix @ ''block.'') i @ ''norm'') (oc_hidden_dim c)"
    "has_linear B (block_prefix (oft_prefix @ ''block.'') i @ ''linear'') (oc_hidden_dim c) (oc_hidden_dim c)"
    if i: "i < nat (oc_block_count c)" for i
    by (rule loaded_norm [OF checks(2) [OF i, unfolded oft_block_shapes_def] assms(3)]
          loaded_linear [OF checks(2) [OF i, unfolded oft_block_shapes_def] assms(3)]; use pos in simp)+
  ultimately show ?thesis by (simp add: oft_weights_def)
qed

definition oft_tensor_count :: "oft_policy_config \<Rightarrow> nat" where
  "oft_tensor_count c = 18 + 10 * nat (oc_block_count c)"

lemma oft_graph_safe:
  assumes G: "ggml_laws (gb_ops B)" and c: "oft_valid c" and w: "oft_weights B c"
  shows "safe B (oft_tensor_count c)
    (\<lambda>g. f32t (gb_ops B) [oc_input_dim c, oc_horizon c, 1, 1] (og_input g) \<and>
         f32t (gb_ops B) [oc_action_dim c, oc_horizon c, 1, 1] (og_output g)) (build_oft_graph B c)"
proof -
  let ?h = "f32t (gb_ops B) [oc_hidden_dim c, oc_horizon c, 1, 1]"
  have input: "yields B 1 (f32t (gb_ops B) [oc_input_dim c, oc_horizon c, 1, 1])
      (node B (gg_new_tensor (gb_ops B) GGML_TYPE_F32 [oc_input_dim c, oc_horizon c]))"
    using G c by (intro yields_node) (auto simp: ggml_laws_def law_new_def oft_valid_def)
  have block: "yields B 10 ?h (oft_block B (oc_layer_norm_epsilon c) i x)"
    if i: "i \<in> set [0..<nat (oc_block_count c)]" and x: "?h x" for i x
  proof -
    have bw: "has_norm B (block_prefix (oft_prefix @ ''block.'') i @ ''norm'') (oc_hidden_dim c)"
      "has_linear B (block_prefix (oft_prefix @ ''block.'') i @ ''linear'') (oc_hidden_dim c) (oc_hidden_dim c)"
      using w i by (auto simp: oft_weights_def)
    show ?thesis
      unfolding oft_block_def Let_def
      apply (rule yields_mono)
       apply (rule yields_bind, rule yields_oft_layer_norm [OF G bw(1) x])
       apply (rule yields_bind, erule yields_linear [OF G bw(2)])
       apply (rule yields_bind, erule node_unary(3) [OF G])
       apply (rule node_elementwise(1) [OF G _ x], assumption, simp)
      apply simp
      done
  qed
  have ws: "has_norm B (oft_prefix @ ''input_norm'') (oc_input_dim c)"
    "has_linear B (oft_prefix @ ''input_proj'') (oc_input_dim c) (oc_hidden_dim c)"
    "has_norm B (oft_prefix @ ''output_norm'') (oc_hidden_dim c)"
    "has_linear B (oft_prefix @ ''output_proj'') (oc_hidden_dim c) (oc_action_dim c)"
    using w by (auto simp: oft_weights_def)
  show ?thesis
  proof (cases "gb_init B")
    case True
    have 1: "\<not> \<not> gb_init B" using True by simp
    show ?thesis
      unfolding build_oft_graph_def if_not_P [OF 1]
      apply (rule safe_mono)
       apply (rule safe_bind, rule yields_safe [OF input])
       apply (rule safe_bind, rule yields_safe, erule yields_oft_layer_norm [OF G ws(1)])
       apply (rule safe_bind, rule yields_safe, erule yields_linear [OF G ws(2)])
       apply (rule safe_bind, rule yields_safe, erule node_unary(3) [OF G])
       apply (rule safe_bind, rule yields_safe, rule yields_loop [OF block], assumption, assumption, assumption)
       apply (rule safe_bind, rule yields_safe, erule yields_oft_layer_norm [OF G ws(3)])
       apply (rule safe_bind, rule yields_safe, erule yields_linear [OF G ws(4)])
       apply (rule safe_bind, erule safe_finish [where P = "f32t (gb_ops B) [oc_action_dim c, oc_horizon c, 1, 1]"])
       apply (rule safe_return, simp)
      apply (simp add: oft_tensor_count_def)
      done
  qed (auto simp: build_oft_graph_def safe_fail)
qed

subsection \<open>The inputs and outputs of the diffusion policies\<close>

text \<open>\<open>hidden\<close> the dimensions of the hidden states, \<open>masked\<close> the rows of the mask, \<open>state\<close> the width of the state.\<close>

definition graph_ok ::
  "'t ggml \<Rightarrow> int list \<Rightarrow> (int \<times> int) option \<Rightarrow> int option \<Rightarrow> int \<Rightarrow> int \<Rightarrow> int \<Rightarrow> int \<Rightarrow> int \<Rightarrow> 't policy_graph \<Rightarrow> bool"
where
  "graph_ok G hidden masked state action_dim horizon projection_dim width steps g \<longleftrightarrow>
     f32t G hidden (pg_hidden g) \<and>
     (case masked of None \<Rightarrow> pg_cross_mask g = None
      | Some (tokens, queries) \<Rightarrow> \<exists>m. pg_cross_mask g = Some m \<and> f32t G [tokens, queries, 1, 1] m) \<and>
     (case state of None \<Rightarrow> pg_state g = None | Some d \<Rightarrow> \<exists>t. pg_state g = Some t \<and> f32t G [d, 1, 1, 1] t) \<and>
     f32t G [action_dim, horizon, 1, 1] (pg_noise g) \<and> f32t G [projection_dim, steps, 1, 1] (pg_timestep_projection g) \<and>
     f32t G [width, steps, 1, 1] (pg_action_time g) \<and> f32t G [1, 1, 1, 1] (pg_scalar_one g) \<and>
     f32t G [action_dim, horizon, 1, 1] (pg_output g)"

text \<open>The weights outside the blocks that every diffusion policy has.\<close>

definition has_head :: "'t builder \<Rightarrow> string \<Rightarrow> int \<Rightarrow> int \<Rightarrow> int \<Rightarrow> int \<Rightarrow> int \<Rightarrow> int \<Rightarrow> int \<Rightarrow> bool" where
  "has_head B prefix projection_dim width action_dim velocity_dim mlp future positions \<longleftrightarrow>
     has_linear B (prefix @ ''timestep.input'') projection_dim width \<and>
     has_linear B (prefix @ ''timestep.output'') width width \<and>
     has_linear B (prefix @ ''action.input'') action_dim width \<and>
     has_linear B (prefix @ ''action.time_mix'') (2 * width) width \<and>
     has_linear B (prefix @ ''action.output'') width width \<and>
     has_linear B (prefix @ ''velocity.input'') velocity_dim mlp \<and>
     has_linear B (prefix @ ''velocity.output'') mlp action_dim \<and>
     has_weight B (prefix @ ''future_tokens.weight'') [width, future, 1, 1] \<and>
     has_weight B (prefix @ ''action_position.weight'') [width, positions, 1, 1]"

lemma loaded_head:
  assumes S: "shapes_ok (entries B) (shapes_with_prefix prefix checks)" and W: "weights_stored B"
    and "set [(''timestep.input.weight'', [projection_dim, width]), (''timestep.input.bias'', [width]),
      (''timestep.output.weight'', [width, width]), (''timestep.output.bias'', [width]),
      (''action.input.weight'', [action_dim, width]), (''action.input.bias'', [width]),
      (''action.time_mix.weight'', [2 * width, width]), (''action.time_mix.bias'', [width]),
      (''action.output.weight'', [width, width]), (''action.output.bias'', [width]),
      (''velocity.input.weight'', [velocity_dim, mlp]), (''velocity.input.bias'', [mlp]),
      (''velocity.output.weight'', [mlp, action_dim]), (''velocity.output.bias'', [action_dim]),
      (''future_tokens.weight'', [width, future]), (''action_position.weight'', [width, positions])] \<subseteq> set checks"
    and "0 < projection_dim" "0 < width" "0 < action_dim" "0 < velocity_dim" "0 < mlp" "0 < future" "0 < positions"
  shows "has_head B prefix projection_dim width action_dim velocity_dim mlp future positions"
proof -
  note L = loaded_linear [OF S W]
  have "has_linear B (prefix @ ''timestep.input'') projection_dim width"
    "has_linear B (prefix @ ''timestep.output'') width width"
    "has_linear B (prefix @ ''action.input'') action_dim width"
    "has_linear B (prefix @ ''action.time_mix'') (2 * width) width"
    "has_linear B (prefix @ ''action.output'') width width"
    "has_linear B (prefix @ ''velocity.input'') velocity_dim mlp"
    "has_linear B (prefix @ ''velocity.output'') mlp action_dim"
    by (rule L; use assms(3-) in simp)+
  moreover have "has_weight B (prefix @ ''future_tokens.weight'') [width, future, 1, 1]"
    "has_weight B (prefix @ ''action_position.weight'') [width, positions, 1, 1]"
    by (rule loaded_weight(2) [OF S prefixed W]; use assms(3-) in simp)+
  ultimately show ?thesis by (simp add: has_head_def)
qed

lemma source_ok_Some:
  "f32t (gb_ops B) [kv_dim, c, 1, 1] kv \<Longrightarrow> (\<And>t. m = Some t \<Longrightarrow> f32t (gb_ops B) [c, r, 1, 1] t) \<Longrightarrow> n \<le> r \<Longrightarrow>
     source_ok B D kv_dim n (Some (kv, m))"
  by (auto simp: source_ok_def)

lemma pad_queries_enough:
  assumes "pad_queries n = Some p"
  shows "n \<le> p"
proof -
  have "n + 31 - 31 \<le> (n + 31) div 32 * 32"
    using pos_mod_bound [of 32 "n + 31"] by (simp add: minus_mod_eq_div_mult [symmetric])
  then show ?thesis using assms by (auto simp: pad_queries_def kKQMaskPad_def split: if_splits)
qed

subsection \<open>GR00T\<close>

definition groot_valid :: "groot_policy_config \<Rightarrow> bool" where
  "groot_valid c \<longleftrightarrow> 0 < gc_qwen_hidden_dim c \<and> gc_cross_attention_dim c = gc_qwen_hidden_dim c \<and>
     dit_ok (groot_dit c) \<and> 0 < gc_feed_forward_dim c \<and> 0 < gc_output_dim c \<and> 0 < gc_mlp_hidden_dim c \<and>
     0 < gc_action_dim c \<and> 0 < gc_horizon c \<and> 0 < gc_future_token_count c \<and>
     gc_horizon c \<le> gc_action_position_count c \<and>
     gc_no_state_sequence_length c = gc_future_token_count c + gc_horizon c \<and>
     0 < gc_timestep_projection_dim c \<and> even (gc_timestep_projection_dim c) \<and> even (gc_dit_width c) \<and>
     length (gc_timestep_ids c) = 4"

lemma parse_groot_valid: "parse_groot_metadata g = Some (Inr c) \<Longrightarrow> groot_valid c"
  by (auto simp: parse_groot_metadata_def res_simps require_checks_Inr groot_checks_def int_check_True groot_valid_def
      dit_ok_def groot_dit_def mult.commute)

definition groot_weights :: "'t builder \<Rightarrow> groot_policy_config \<Rightarrow> bool" where
  "groot_weights B c \<longleftrightarrow>
     has_head B groot_prefix (gc_timestep_projection_dim c) (gc_dit_width c) (gc_action_dim c) (gc_output_dim c)
       (gc_mlp_hidden_dim c) (gc_future_token_count c) (gc_action_position_count c) \<and>
     has_linear B (groot_prefix @ ''output.modulation'') (gc_dit_width c) (2 * gc_dit_width c) \<and>
     has_linear B (groot_prefix @ ''output.projection'') (gc_dit_width c) (gc_output_dim c) \<and>
     (\<forall>i < nat (gc_block_count c). has_block B (gc_dit_width c) (block_prefix (groot_prefix @ ''block.'') i)
        (if even i then gc_cross_attention_dim c else gc_dit_width c) (gc_feed_forward_dim c))"

lemma bound_groot_weights:
  assumes "bind_groot_tensors c (entries B) = Some (Inr bound)" "groot_valid c" "weights_stored B"
  shows "groot_weights B c"
proof -
  have "bind_all (groot_tensor_names c)
      ((groot_shapes c, ''StarVLA GR00T non-block tensor has an incompatible ggml shape'') #
       map (\<lambda>block. (groot_block_shapes c block,
           ''StarVLA GR00T transformer block tensor has an incompatible ggml shape''))
         [0..<nat (gc_block_count c)]) (entries B) = Inr bound"
    using assms(1) by (auto simp: bind_groot_tensors_def bind_run_Inr split: if_splits)
  then have checks: "shapes_ok (entries B) (groot_shapes c)"
    "i < nat (gc_block_count c) \<Longrightarrow> shapes_ok (entries B) (groot_block_shapes c i)" for i
    by (auto simp: bind_all_Inr list_all_iff)
  have pos: "0 < gc_dit_width c" "0 < gc_feed_forward_dim c" "0 < gc_cross_attention_dim c"
    "0 < gc_timestep_projection_dim c" "0 < gc_action_dim c" "0 < gc_output_dim c" "0 < gc_mlp_hidden_dim c"
    "0 < gc_future_token_count c" "0 < gc_action_position_count c"
    using assms(2) by (auto simp: groot_valid_def dit_ok_def groot_dit_def)
  note P = checks(1) [unfolded groot_shapes_def Let_def]
  have "has_head B groot_prefix (gc_timestep_projection_dim c) (gc_dit_width c) (gc_action_dim c) (gc_output_dim c)
       (gc_mlp_hidden_dim c) (gc_future_token_count c) (gc_action_position_count c)"
    by (rule loaded_head [OF P assms(3)]; (use pos in simp)?)
  moreover have "has_linear B (groot_prefix @ ''output.modulation'') (gc_dit_width c) (2 * gc_dit_width c)"
    "has_linear B (groot_prefix @ ''output.projection'') (gc_dit_width c) (gc_output_dim c)"
    by (rule loaded_linear [OF P assms(3)]; use pos in simp)+
  moreover have "has_block B (gc_dit_width c) (block_prefix (groot_prefix @ ''block.'') i)
      (if even i then gc_cross_attention_dim c else gc_dit_width c) (gc_feed_forward_dim c)"
    if i: "i < nat (gc_block_count c)" for i
    by (rule loaded_block [OF checks(2) [OF i, unfolded groot_block_shapes_def] assms(3)]) (use pos in auto)
  ultimately show ?thesis by (simp add: groot_weights_def)
qed

lemma yields_groot_output:
  assumes G: "ggml_laws (gb_ops B)" and c: "groot_valid c" and w: "groot_weights B c"
    and one: "f32t (gb_ops B) [1, 1, 1, 1] scalar_one" and hidden: "f32t (gb_ops B) [gc_dit_width c, n, 1, 1] hidden"
    and temb: "f32t (gb_ops B) [gc_dit_width c, 1, 1, 1] temb"
  shows "yields B 13 (f32t (gb_ops B) [gc_output_dim c, n, 1, 1]) (groot_output B c scalar_one temb hidden)"
proof -
  have width: "0 < gc_dit_width c" using c by (simp add: groot_valid_def dit_ok_def groot_dit_def)
  have ws: "has_linear B (groot_prefix @ ''output.modulation'') (gc_dit_width c) (2 * gc_dit_width c)"
    "has_linear B (groot_prefix @ ''output.projection'') (gc_dit_width c) (gc_output_dim c)"
    using w by (auto simp: groot_weights_def)
  show ?thesis
    unfolding groot_output_def Let_def
    apply (rule yields_mono)
     apply (rule yields_bind, rule node_unary(4) [OF G temb])
     apply (rule yields_bind, erule yields_linear [OF G ws(1)])
     apply (rule yields_bind, rule node_view_1d [OF G, where k = 0, unfolded mult_0], assumption, rule width)
      apply (use width in simp)
     apply (rule yields_bind, rule node_view_1d [OF G], assumption, rule width)
      apply (use width in simp)
     apply (rule yields_bind, rule node_unary(1) [OF G hidden])
     apply (rule yields_bind, rule node_elementwise(1) [OF G _ one], assumption, simp)
     apply (rule yields_bind, rule node_elementwise(2) [OF G], assumption, assumption, simp)
     apply (rule yields_bind, rule node_elementwise(1) [OF G], assumption, assumption, simp)
     apply (erule yields_linear [OF G ws(2)])
    apply simp
    done
qed

lemma yields_groot_step:
  assumes G: "ggml_laws (gb_ops B)" and c: "groot_valid c" and w: "groot_weights B c"
    and g: "graph_ok (gb_ops B) [gc_qwen_hidden_dim c, tokens, 1, 1] (Some (tokens, queries)) None (gc_action_dim c)
      (gc_horizon c) (gc_timestep_projection_dim c) (gc_dit_width c) 4 g" "gc_no_state_sequence_length c \<le> queries"
    and future: "f32t (gb_ops B) [gc_dit_width c, gc_future_token_count c, 1, 1] future"
    and position: "f32t (gb_ops B) [gc_dit_width c, gc_horizon c, 1, 1] position"
    and step: "step < 4" and actions: "f32t (gb_ops B) [gc_action_dim c, gc_horizon c, 1, 1] actions"
  shows "yields B (46 + 44 * nat (gc_block_count c)) (f32t (gb_ops B) [gc_action_dim c, gc_horizon c, 1, 1])
    (groot_step B c g future position step actions)"
proof -
  let ?n = "gc_future_token_count c + gc_horizon c"
  have D: "dit_ok (groot_dit c)" and width: "dt_width (groot_dit c) = gc_dit_width c"
    using c by (simp_all add: groot_valid_def groot_dit_def)
  have head: "has_linear B (groot_prefix @ ''timestep.input'') (gc_timestep_projection_dim c) (gc_dit_width c)"
    "has_linear B (groot_prefix @ ''timestep.output'') (gc_dit_width c) (gc_dit_width c)"
    "has_linear B (groot_prefix @ ''action.input'') (gc_action_dim c) (gc_dit_width c)"
    "has_linear B (groot_prefix @ ''action.time_mix'') (2 * gc_dit_width c) (gc_dit_width c)"
    "has_linear B (groot_prefix @ ''action.output'') (gc_dit_width c) (gc_dit_width c)"
    "has_linear B (groot_prefix @ ''velocity.input'') (gc_output_dim c) (gc_mlp_hidden_dim c)"
    "has_linear B (groot_prefix @ ''velocity.output'') (gc_mlp_hidden_dim c) (gc_action_dim c)"
    using w by (auto simp: groot_weights_def has_head_def)
  have inputs: "f32t (gb_ops B) [gc_timestep_projection_dim c, 4, 1, 1] (pg_timestep_projection g)"
    "f32t (gb_ops B) [gc_dit_width c, 4, 1, 1] (pg_action_time g)" "f32t (gb_ops B) [1, 1, 1, 1] (pg_scalar_one g)"
    using g(1) by (simp_all add: graph_ok_def)
  have step4: "int step < 4" using step by simp
  have block: "yields B 44 (f32t (gb_ops B) [gc_dit_width c, ?n, 1, 1])
      (dit_block B (groot_dit c) (block_prefix (groot_prefix @ ''block.'') i) (pg_scalar_one g) temb
        (if even i then Some (pg_hidden g, pg_cross_mask g) else None) x)"
    if temb: "f32t (gb_ops B) [gc_dit_width c, 1, 1, 1] temb" and i: "i \<in> set [0..<nat (gc_block_count c)]"
      and x: "f32t (gb_ops B) [gc_dit_width c, ?n, 1, 1] x" for temb i x
  proof -
    have bw: "has_block B (dt_width (groot_dit c)) (block_prefix (groot_prefix @ ''block.'') i)
        (if even i then gc_cross_attention_dim c else gc_dit_width c) (gc_feed_forward_dim c)"
      using w i by (auto simp: groot_weights_def width)
    have "source_ok B (groot_dit c) (if even i then gc_cross_attention_dim c else gc_dit_width c) ?n
        (if even i then Some (pg_hidden g, pg_cross_mask g) else None)"
    proof (cases "even i")
      case True
      obtain m where m: "pg_cross_mask g = Some m" "f32t (gb_ops B) [tokens, queries, 1, 1] m"
        and h: "f32t (gb_ops B) [gc_cross_attention_dim c, tokens, 1, 1] (pg_hidden g)"
        using g(1) c by (auto simp: graph_ok_def groot_valid_def)
      have "?n \<le> queries" using g(2) c by (simp add: groot_valid_def)
      with True m h show ?thesis by (auto intro!: source_ok_Some)
    qed (simp add: source_ok_def width)
    from yields_dit_block [OF G D bw inputs(3) _ this] temb x width show ?thesis by simp
  qed
  have rows: "int (nat (gc_future_token_count c)) + gc_horizon c \<le> ?n"
    using c by (simp add: groot_valid_def)
  show ?thesis
    unfolding groot_step_def Let_def
    apply (rule yields_mono)
     apply (rule yields_bind, rule yields_time_embedding [OF G head(1,2) inputs(1) step4])
     apply (rule yields_bind, rule yields_action_features [OF G head(3-5) inputs(2) step4 position actions])
     apply (rule yields_bind, rule node_join(3) [OF G future], assumption)
     apply (rule yields_bind, rule yields_loop [OF block], assumption, assumption, assumption, assumption)
     apply (rule yields_bind, erule (1) yields_groot_output [OF G c w inputs(3)])
     apply (erule yields_euler_step [OF G head(6,7) _ rows actions])
    apply simp
    done
qed

definition groot_tensor_count :: "groot_policy_config \<Rightarrow> nat" where
  "groot_tensor_count c = 9 + 4 * (46 + 44 * nat (gc_block_count c))"

definition groot_graph_ok :: "'t ggml \<Rightarrow> groot_policy_config \<Rightarrow> nat \<Rightarrow> 't policy_graph \<Rightarrow> bool" where
  "groot_graph_ok G c token_count g \<longleftrightarrow> (\<exists>queries. pad_queries (gc_no_state_sequence_length c) = Some queries \<and>
     graph_ok G [gc_qwen_hidden_dim c, int token_count, 1, 1] (Some (int token_count, queries)) None (gc_action_dim c)
       (gc_horizon c) (gc_timestep_projection_dim c) (gc_dit_width c) 4 g)"

lemma groot_graph_safe:
  assumes G: "ggml_laws (gb_ops B)" and c: "groot_valid c" and w: "groot_weights B c"
    and pad: "pad_queries (gc_no_state_sequence_length c) = Some queries"
  shows "safe B (groot_tensor_count c) (groot_graph_ok (gb_ops B) c token_count) (build_groot_graph B c token_count)"
proof (cases "token_count_valid token_count \<and> gb_init B")
  case True
  then have ifs: "\<not> \<not> token_count_valid token_count" "\<not> \<not> gb_init B" by simp_all
  have pos: "0 < gc_qwen_hidden_dim c" "0 < int token_count" "0 < queries" "0 < gc_action_dim c" "0 < gc_horizon c"
    "0 < gc_timestep_projection_dim c" "0 < gc_dit_width c" "0 < (4::int)" "0 < (1::int)"
    using c True pad_queries_enough [OF pad]
    by (auto simp: groot_valid_def token_count_valid_def dit_ok_def groot_dit_def)
  have w': "has_weight B (groot_prefix @ ''future_tokens.weight'') [gc_dit_width c, gc_future_token_count c, 1, 1]"
    "has_weight B (groot_prefix @ ''action_position.weight'') [gc_dit_width c, gc_action_position_count c, 1, 1]"
    using w by (auto simp: groot_weights_def has_head_def)
  have horizon: "gc_horizon c \<le> gc_action_position_count c" using c by (simp add: groot_valid_def)
  let ?f = "f32t (gb_ops B)"
  show ?thesis
    unfolding build_groot_graph_def Let_def if_not_P [OF ifs(1)] if_not_P [OF ifs(2)]
    apply (rule safe_mono)
     apply (rule safe_bind [where P = "(=) queries"], rule yields_safe, rule yields_lift [OF pad refl])
     apply (rule safe_bind, rule yields_safe, rule yields_new_input(2) [OF G pos(1,2,9)])
     apply (rule safe_bind [where P = "?f [int token_count, queries, 1, 1]"], rule yields_safe, erule subst,
        rule yields_new_input(2) [OF G pos(2,3,9)])
     apply (rule safe_bind, rule yields_safe, rule yields_new_input(2) [OF G pos(4,5,9)])
     apply (rule safe_bind, rule yields_safe, rule yields_new_input(2) [OF G pos(6,8,9)])
     apply (rule safe_bind, rule yields_safe, rule yields_new_input(2) [OF G pos(7,8,9)])
     apply (rule safe_bind, rule yields_safe, rule yields_new_input(1) [OF G pos(9,9,9)])
     apply (rule safe_bind, rule yields_safe, rule yields_has_weight [OF w'(1)])
     apply (rule safe_bind, rule yields_safe, erule yields_f32_of [OF G])
     apply (rule safe_bind, rule yields_safe, rule yields_position_rows [OF G w'(2) pos(5) horizon])
     apply (rule safe_bind [where P = "?f [gc_action_dim c, gc_horizon c, 1, 1]"], rule yields_safe, rule yields_loop)
       apply (rule yields_groot_step [OF G c w, where tokens = "int token_count" and queries = queries])
           apply (simp add: graph_ok_def)
          apply (rule pad_queries_enough [OF pad])
         apply assumption+
       apply simp
      apply assumption
     apply assumption
     apply (rule safe_bind, erule safe_finish [where P = "?f [gc_action_dim c, gc_horizon c, 1, 1]"])
     apply (rule safe_return)
     apply (simp add: groot_graph_ok_def pad graph_ok_def)
    apply (simp add: groot_tensor_count_def)
    done
qed (auto simp: build_groot_graph_def Let_def safe_fail)

end
