(* ===== verification/GraphShapesPi.thy ===== *)
theory GraphShapesPi
  imports GraphShapes
begin

text \<open>The shapes of the PI and PI-v3 graphs, as in \<open>GraphShapes\<close>.\<close>

subsection \<open>PI\<close>

definition pi_valid :: "pi_policy_config \<Rightarrow> bool" where
  "pi_valid c \<longleftrightarrow> 0 < pc_qwen_hidden_dim c \<and> pc_cross_attention_dim c = pc_qwen_hidden_dim c \<and>
     dit_ok (pi_dit c) \<and> 0 < pc_block_count c \<and> 0 < pc_feed_forward_dim c \<and> 0 < pc_mlp_hidden_dim c \<and>
     0 < pc_state_dim c \<and> 0 < pc_action_dim c \<and> 0 < pc_horizon c \<and> pc_state_token_count c = 1 \<and>
     0 < pc_future_token_count c \<and> pc_horizon c \<le> pc_action_position_count c \<and>
     0 < pc_timestep_projection_dim c \<and> even (pc_timestep_projection_dim c) \<and> even (pc_dit_width c) \<and>
     0 < pc_num_inference_timesteps c \<and> length (pc_timestep_ids c) = nat (pc_num_inference_timesteps c)"

lemma parse_pi_valid: "parse_pi_metadata g = Some (Inr c) \<Longrightarrow> pi_valid c"
  by (auto simp: parse_pi_metadata_def res_simps require_checks_Inr pi_checks_def int_check_True pi_valid_def
      dit_ok_def pi_dit_def mult.commute)

definition pi_weights :: "'t builder \<Rightarrow> pi_policy_config \<Rightarrow> bool" where
  "pi_weights B c \<longleftrightarrow>
     has_head B pi_prefix (pc_timestep_projection_dim c) (pc_dit_width c) (pc_action_dim c) (pc_dit_width c)
       (pc_mlp_hidden_dim c) (pc_future_token_count c) (pc_action_position_count c) \<and>
     has_linear B (pi_prefix @ ''state.input'') (pc_state_dim c) (pc_mlp_hidden_dim c) \<and>
     has_linear B (pi_prefix @ ''state.output'') (pc_mlp_hidden_dim c) (pc_dit_width c) \<and>
     (\<forall>i < nat (pc_block_count c). has_block B (pc_dit_width c) (block_prefix (pi_prefix @ ''block.'') i)
        (pc_cross_attention_dim c) (pc_feed_forward_dim c))"

lemma bound_pi_weights:
  assumes "bind_pi_tensors c (entries B) = Some (Inr bound)" "pi_valid c" "weights_stored B"
  shows "pi_weights B c"
proof -
  have checks: "shapes_ok (entries B) (pi_shapes c)"
    "i < nat (pc_block_count c) \<Longrightarrow> shapes_ok (entries B) (pi_block_shapes c i)" for i
    using assms(1) by (auto simp: bind_pi_tensors_def bind_all_Inr list_all_iff)
  have pos: "0 < pc_dit_width c" "0 < pc_feed_forward_dim c" "0 < pc_cross_attention_dim c" "0 < pc_state_dim c"
    "0 < pc_timestep_projection_dim c" "0 < pc_action_dim c" "0 < pc_mlp_hidden_dim c"
    "0 < pc_future_token_count c" "0 < pc_action_position_count c"
    using assms(2) by (auto simp: pi_valid_def dit_ok_def pi_dit_def)
  note P = checks(1) [unfolded pi_shapes_def Let_def]
  have "has_head B pi_prefix (pc_timestep_projection_dim c) (pc_dit_width c) (pc_action_dim c) (pc_dit_width c)
       (pc_mlp_hidden_dim c) (pc_future_token_count c) (pc_action_position_count c)"
    by (rule loaded_head [OF P assms(3)]; (use pos in simp)?)
  moreover have "has_linear B (pi_prefix @ ''state.input'') (pc_state_dim c) (pc_mlp_hidden_dim c)"
    "has_linear B (pi_prefix @ ''state.output'') (pc_mlp_hidden_dim c) (pc_dit_width c)"
    by (rule loaded_linear [OF P assms(3)]; use pos in simp)+
  moreover have "has_block B (pc_dit_width c) (block_prefix (pi_prefix @ ''block.'') i)
      (pc_cross_attention_dim c) (pc_feed_forward_dim c)"
    if i: "i < nat (pc_block_count c)" for i
    by (rule loaded_block [OF checks(2) [OF i, unfolded pi_block_shapes_def] assms(3)]) (use pos in auto)
  ultimately show ?thesis by (simp add: pi_weights_def)
qed

text \<open>The tokens before the action features, with or without the state token.\<close>

definition pi_lead :: "pi_policy_config \<Rightarrow> bool \<Rightarrow> int" where
  "pi_lead c include_state = (if include_state then 1 else 0) + pc_future_token_count c"

lemma yields_pi_state_features:
  assumes G: "ggml_laws (gb_ops B)" and c: "pi_valid c" and w: "pi_weights B c"
    and t: "f32t (gb_ops B) [pc_state_dim c, 1, 1, 1] t"
  shows "yields B 8 (f32t (gb_ops B) [pc_dit_width c, 1, 1, 1]) (pi_state_features B c t)"
proof -
  have ws: "has_linear B (pi_prefix @ ''state.input'') (pc_state_dim c) (pc_mlp_hidden_dim c)"
    "has_linear B (pi_prefix @ ''state.output'') (pc_mlp_hidden_dim c) (pc_dit_width c)"
    using w by (auto simp: pi_weights_def)
  have width: "0 < pc_dit_width c" using c by (simp add: pi_valid_def dit_ok_def pi_dit_def)
  show ?thesis
    unfolding pi_state_features_def
    apply (rule yields_mono)
     apply (rule yields_bind, rule yields_linear [OF G ws(1) t])
     apply (rule yields_bind, erule node_unary(3) [OF G])
     apply (rule yields_bind, erule yields_linear [OF G ws(2)])
     apply (erule node_layout(2) [OF G]; use width in simp)
    apply simp
    done
qed

lemma yields_pi_step:
  assumes G: "ggml_laws (gb_ops B)" and c: "pi_valid c" and w: "pi_weights B c"
    and g: "graph_ok (gb_ops B) [pc_qwen_hidden_dim c, int token_count, pc_block_count c, 1] None state
      (pc_action_dim c) (pc_horizon c) (pc_timestep_projection_dim c) (pc_dit_width c) (pc_num_inference_timesteps c) g"
    and features: "\<And>f. state_features = Some f \<Longrightarrow> f32t (gb_ops B) [pc_dit_width c, 1, 1, 1] f"
    and skipped: "pi_skipped c (state_features \<noteq> None) = Some skipped"
    and future: "f32t (gb_ops B) [pc_dit_width c, pc_future_token_count c, 1, 1] future"
    and position: "f32t (gb_ops B) [pc_dit_width c, pc_horizon c, 1, 1] position"
    and step: "int step < pc_num_inference_timesteps c" and actions: "f32t (gb_ops B) [pc_action_dim c, pc_horizon c, 1, 1] actions"
  shows "yields B (34 + 45 * nat (pc_block_count c)) (f32t (gb_ops B) [pc_action_dim c, pc_horizon c, 1, 1])
    (pi_step B c g token_count state_features future position step actions)"
proof -
  let ?lead = "pi_lead c (state_features \<noteq> None)"
  let ?n = "?lead + pc_horizon c"
  have D: "dit_ok (pi_dit c)" and width: "dt_width (pi_dit c) = pc_dit_width c"
    using c by (simp_all add: pi_valid_def pi_dit_def)
  have head: "has_linear B (pi_prefix @ ''timestep.input'') (pc_timestep_projection_dim c) (pc_dit_width c)"
    "has_linear B (pi_prefix @ ''timestep.output'') (pc_dit_width c) (pc_dit_width c)"
    "has_linear B (pi_prefix @ ''action.input'') (pc_action_dim c) (pc_dit_width c)"
    "has_linear B (pi_prefix @ ''action.time_mix'') (2 * pc_dit_width c) (pc_dit_width c)"
    "has_linear B (pi_prefix @ ''action.output'') (pc_dit_width c) (pc_dit_width c)"
    "has_linear B (pi_prefix @ ''velocity.input'') (pc_dit_width c) (pc_mlp_hidden_dim c)"
    "has_linear B (pi_prefix @ ''velocity.output'') (pc_mlp_hidden_dim c) (pc_action_dim c)"
    using w by (auto simp: pi_weights_def has_head_def)
  have inputs: "f32t (gb_ops B) [pc_timestep_projection_dim c, pc_num_inference_timesteps c, 1, 1] (pg_timestep_projection g)"
    "f32t (gb_ops B) [pc_dit_width c, pc_num_inference_timesteps c, 1, 1] (pg_action_time g)"
    "f32t (gb_ops B) [1, 1, 1, 1] (pg_scalar_one g)"
    "f32t (gb_ops B) [pc_qwen_hidden_dim c, int token_count, pc_block_count c, 1] (pg_hidden g)"
    using g(1) by (simp_all add: graph_ok_def)
  have lead: "yields B 1 (f32t (gb_ops B) [pc_dit_width c, ?lead, 1, 1])
      (case state_features of None \<Rightarrow> return_build future | Some state \<Rightarrow> node B (gg_concat (gb_ops B) state future 1))"
  proof (cases state_features)
    case None
    then show ?thesis
      using yields_mono [OF yields_return, of "f32t (gb_ops B) [pc_dit_width c, ?lead, 1, 1]" future 1 B] future
      by (simp add: pi_lead_def)
  next
    case (Some f)
    from node_join(3) [OF G features [OF Some] future] Some show ?thesis by (simp add: pi_lead_def)
  qed
  have block: "yields B 45 (f32t (gb_ops B) [pc_dit_width c, ?n, 1, 1]) (pi_block B c g token_count temb i x)"
    if temb: "f32t (gb_ops B) [pc_dit_width c, 1, 1, 1] temb" and i: "i \<in> set [0..<nat (pc_block_count c)]"
      and x: "f32t (gb_ops B) [pc_dit_width c, ?n, 1, 1] x" for temb i x
  proof -
    have bw: "has_block B (dt_width (pi_dit c)) (block_prefix (pi_prefix @ ''block.'') i) (pc_cross_attention_dim c)
        (pc_feed_forward_dim c)"
      using w i by (auto simp: pi_weights_def width)
    have layer: "int i < pc_block_count c" using i by auto
    have "source_ok B (pi_dit c) (pc_cross_attention_dim c) ?n (Some (kv, None))"
      if "f32t (gb_ops B) [pc_qwen_hidden_dim c, int token_count, 1, 1] kv" for kv
      using that c by (auto simp: source_ok_def pi_valid_def)
    from yields_dit_block [OF G D bw inputs(3) _ this] temb x
    have "yields B 44 (f32t (gb_ops B) [pc_dit_width c, ?n, 1, 1]) (dit_block B (pi_dit c)
        (block_prefix (pi_prefix @ ''block.'') i) (pg_scalar_one g) temb (Some (kv, None)) x)"
      if "f32t (gb_ops B) [pc_qwen_hidden_dim c, int token_count, 1, 1] kv" for kv
      using that by (simp add: width)
    from yields_bind [OF yields_layer_view [OF G inputs(4) layer] this] show ?thesis
      by (simp add: pi_block_def)
  qed
  have rows: "int skipped + pc_horizon c \<le> ?n"
    using skipped c by (auto simp: pi_skipped_def pi_lead_def pi_valid_def Let_def split: if_splits)
  show ?thesis
    unfolding pi_step_def
    apply (rule yields_mono)
     apply (rule yields_bind, rule yields_time_embedding [OF G head(1,2) inputs(1) step])
     apply (rule yields_bind, rule yields_action_features [OF G head(3-5) inputs(2) step position actions])
     apply (rule yields_bind, rule lead)
     apply (rule yields_bind, rule node_join(3) [OF G], assumption, assumption)
     apply (rule yields_bind, rule yields_loop [OF block], assumption, assumption, assumption, assumption)
     apply (rule yields_bind [where P = "(=) skipped"], rule yields_lift [OF skipped refl], erule subst)
     apply (erule yields_euler_step [OF G head(6,7) _ rows actions])
    apply simp
    done
qed

definition pi_tensor_count :: "pi_policy_config \<Rightarrow> nat" where
  "pi_tensor_count c = 17 + nat (pc_num_inference_timesteps c) * (34 + 45 * nat (pc_block_count c))"

definition pi_graph_ok :: "'t ggml \<Rightarrow> pi_policy_config \<Rightarrow> nat \<Rightarrow> bool \<Rightarrow> 't policy_graph \<Rightarrow> bool" where
  "pi_graph_ok G c token_count include_state g \<longleftrightarrow>
     graph_ok G [pc_qwen_hidden_dim c, int token_count, pc_block_count c, 1] None
       (if include_state then Some (pc_state_dim c) else None) (pc_action_dim c) (pc_horizon c)
       (pc_timestep_projection_dim c) (pc_dit_width c) (pc_num_inference_timesteps c) g"

lemma pi_graph_safe:
  assumes G: "ggml_laws (gb_ops B)" and c: "pi_valid c" and w: "pi_weights B c"
    and skipped: "pi_skipped c include_state = Some skipped"
  shows "safe B (pi_tensor_count c) (pi_graph_ok (gb_ops B) c token_count include_state)
    (build_pi_graph B c token_count include_state)"
proof (cases "token_count_valid token_count \<and> gb_init B")
  case True
  then have ifs: "\<not> \<not> token_count_valid token_count" "\<not> \<not> gb_init B" by simp_all
  have pos: "0 < pc_qwen_hidden_dim c" "0 < int token_count" "0 < pc_block_count c" "0 < pc_action_dim c" "0 < pc_horizon c"
    "0 < pc_timestep_projection_dim c" "0 < pc_dit_width c" "0 < pc_num_inference_timesteps c" "0 < (1::int)"
    "0 < pc_state_dim c"
    using c True by (auto simp: pi_valid_def token_count_valid_def dit_ok_def pi_dit_def)
  have w': "has_weight B (pi_prefix @ ''future_tokens.weight'') [pc_dit_width c, pc_future_token_count c, 1, 1]"
    "has_weight B (pi_prefix @ ''action_position.weight'') [pc_dit_width c, pc_action_position_count c, 1, 1]"
    using w by (auto simp: pi_weights_def has_head_def)
  have horizon: "pc_horizon c \<le> pc_action_position_count c" using c by (simp add: pi_valid_def)
  let ?f = "f32t (gb_ops B)"
  let ?state = "\<lambda>s. (s \<noteq> None) = include_state \<and> (\<forall>t. s = Some t \<longrightarrow> ?f [pc_state_dim c, 1, 1, 1] t)"
  let ?feat = "\<lambda>s. (s \<noteq> None) = include_state \<and> (\<forall>t. s = Some t \<longrightarrow> ?f [pc_dit_width c, 1, 1, 1] t)"
  have state: "yields B 1 ?state (if include_state
      then bind_build (new_input B msg [pc_state_dim c]) (\<lambda>t. return_build (Some t)) else return_build None)" for msg
  proof (cases include_state)
    case True
    have "yields B (1 + 0) ?state (bind_build (new_input B msg [pc_state_dim c]) (\<lambda>t. return_build (Some t)))"
      by (rule yields_bind, rule yields_new_input(1) [OF G pos(10,9,9)], rule yields_return) (simp add: True)
    with True show ?thesis by simp
  next
    case False
    then show ?thesis using yields_mono [OF yields_return, of ?state None 1 B] by simp
  qed
  have feat: "yields B 8 ?feat (case s of None \<Rightarrow> return_build None
      | Some t \<Rightarrow> bind_build (pi_state_features B c t) (\<lambda>f. return_build (Some f)))" if s: "?state s" for s
  proof (cases s)
    case None
    then show ?thesis using yields_mono [OF yields_return, of ?feat None 8 B] s by simp
  next
    case (Some t)
    have "yields B (8 + 0) ?feat (bind_build (pi_state_features B c t) (\<lambda>f. return_build (Some f)))"
      by (rule yields_bind, rule yields_pi_state_features [OF G c w], use s Some in simp, rule yields_return)
        (use s Some in auto)
    with Some show ?thesis by simp
  qed
  have graph: "graph_ok (gb_ops B) [pc_qwen_hidden_dim c, int token_count, pc_block_count c, 1] None
      (if include_state then Some (pc_state_dim c) else None) (pc_action_dim c) (pc_horizon c)
      (pc_timestep_projection_dim c) (pc_dit_width c) (pc_num_inference_timesteps c)
      \<lparr>pg_hidden = h, pg_cross_mask = None, pg_state = s, pg_noise = noise, pg_timestep_projection = tp,
       pg_action_time = time, pg_scalar_one = one, pg_output = out\<rparr>"
    if "?f [pc_qwen_hidden_dim c, int token_count, pc_block_count c, 1] h" "?state s"
      "?f [pc_action_dim c, pc_horizon c, 1, 1] noise"
      "?f [pc_timestep_projection_dim c, pc_num_inference_timesteps c, 1, 1] tp"
      "?f [pc_dit_width c, pc_num_inference_timesteps c, 1, 1] time" "?f [1, 1, 1, 1] one"
      "?f [pc_action_dim c, pc_horizon c, 1, 1] out" for h s noise tp time one out
    using that by (auto simp: graph_ok_def)
  show ?thesis
    unfolding build_pi_graph_def Let_def if_not_P [OF ifs(1)] if_not_P [OF ifs(2)]
    apply (rule safe_mono)
     apply (rule safe_bind, rule yields_safe, rule yields_new_input(3) [OF G pos(1,2,3)])
     apply (rule safe_bind, rule yields_safe, rule state)
     apply (rule safe_bind, rule yields_safe, rule yields_new_input(2) [OF G pos(4,5,9)])
     apply (rule safe_bind, rule yields_safe, rule yields_new_input(2) [OF G pos(6,8,9)])
     apply (rule safe_bind, rule yields_safe, rule yields_new_input(2) [OF G pos(7,8,9)])
     apply (rule safe_bind, rule yields_safe, rule yields_new_input(1) [OF G pos(9,9,9)])
     apply (rule safe_bind, rule yields_safe, erule feat)
     apply (rule safe_bind, rule yields_safe, rule yields_has_weight [OF w'(1)])
     apply (rule safe_bind, rule yields_safe, erule yields_f32_of [OF G])
     apply (rule safe_bind, rule yields_safe, rule yields_position_rows [OF G w'(2) pos(5) horizon])
     apply (rule safe_bind [where P = "?f [pc_action_dim c, pc_horizon c, 1, 1]"], rule yields_safe, rule yields_loop)
       apply (rule yields_pi_step [OF G c w graph, where skipped = skipped], assumption+)
             apply blast
            apply (simp add: skipped)
           apply assumption+
         apply simp
        apply assumption+
     apply (rule safe_bind, erule safe_finish [where P = "?f [pc_action_dim c, pc_horizon c, 1, 1]"])
     apply (rule safe_return)
     apply (unfold pi_graph_ok_def policy_graph.simps, rule graph, assumption+)
    apply (simp add: pi_tensor_count_def)
    done
qed (auto simp: build_pi_graph_def Let_def safe_fail)

subsection \<open>PI-v3\<close>

definition v3_valid :: "pi_v3_policy_config \<Rightarrow> bool" where
  "v3_valid c \<longleftrightarrow> 0 < vc_qwen_hidden_dim c \<and> dit_ok (v3_dit c) \<and> vc_qwen_layer_count c = vc_block_count c \<and>
     vc_projector_count c = vc_block_count c \<and> 0 < vc_block_count c \<and> 0 < vc_feed_forward_dim c \<and>
     0 < vc_mlp_hidden_dim c \<and> 0 < vc_action_dim c \<and> 0 < vc_horizon c \<and> 0 < vc_future_token_count c \<and>
     vc_horizon c \<le> vc_action_position_count c \<and>
     vc_no_state_sequence_length c = vc_future_token_count c + vc_horizon c \<and>
     0 < vc_timestep_projection_dim c \<and> even (vc_timestep_projection_dim c) \<and> length (vc_timestep_ids c) = 4"

lemma parse_pi_v3_valid:
  assumes "parse_pi_v3_metadata g = Some (Inr c)"
  shows "v3_valid c"
proof -
  obtain c0 ids n where c0: "require_checks (pi_v3_checks c0)
      ''StarVLA PI-v3 metadata has incompatible dimensions'' = Some (Inr ())"
    and ids: "pi_v3_timestep_ids c0 = Some ids"
    and c: "c = c0\<lparr>vc_hidden_tuple_indices := integer_range 1 (vc_qwen_layer_count c0), vc_timestep_ids := ids,
      vc_normalization := n\<rparr>"
    using assms by (auto simp: parse_pi_v3_metadata_def res_simps Option.bind_eq_Some_conv)
  have checks: "list_all (\<lambda>b. b = Some True) (pi_v3_checks c0)" using c0 by (simp add: require_checks_Inr)
  have "length ids = nat (vc_num_inference_timesteps c0)"
    using those_length [OF ids [unfolded pi_v3_timestep_ids_def]] by simp
  with checks c show ?thesis
    by (auto simp: pi_v3_checks_def int_check_True v3_valid_def dit_ok_def v3_dit_def mult.commute kReleasedLayerCount_def)
qed

definition v3_weights :: "'t builder \<Rightarrow> pi_v3_policy_config \<Rightarrow> bool" where
  "v3_weights B c \<longleftrightarrow>
     has_head B pi_v3_prefix (vc_timestep_projection_dim c) (vc_dit_width c) (vc_action_dim c) (vc_dit_width c)
       (vc_mlp_hidden_dim c) (vc_future_token_count c) (vc_action_position_count c) \<and>
     (\<forall>i < nat (vc_block_count c). has_block B (vc_dit_width c) (block_prefix (pi_v3_prefix @ ''block.'') i)
        (vc_dit_width c) (vc_feed_forward_dim c) \<and>
        has_norm B (block_prefix (pi_v3_prefix @ ''projector.'') i @ ''norm'') (vc_qwen_hidden_dim c) \<and>
        has_linear B (block_prefix (pi_v3_prefix @ ''projector.'') i @ ''projection'') (vc_qwen_hidden_dim c) (vc_dit_width c))"

lemma bound_v3_weights:
  assumes "bind_pi_v3_tensors c (entries B) = Some (Inr bound)" "v3_valid c" "weights_stored B"
  shows "v3_weights B c"
proof -
  have "list_all (\<lambda>(checks, _). shapes_ok (entries B) checks)
      ((pi_v3_shapes c, ''StarVLA PI_v3 non-block tensor has an incompatible ggml shape'') #
       map (\<lambda>block. (pi_v3_block_shapes c block,
           ''StarVLA PI_v3 transformer block tensor has an incompatible ggml shape'')) [0..<nat (vc_block_count c)] @
       map (\<lambda>projector. (projector_shapes c projector,
           ''StarVLA PI_v3 projector tensor has an incompatible ggml shape'')) [0..<nat (vc_projector_count c)])"
    using assms(1) by (auto simp: bind_pi_v3_tensors_def bind_run_Inr bind_all_Inr split: if_splits)
  then have "shapes_ok (entries B) (pi_v3_shapes c)"
    "\<forall>i\<in>set [0..<nat (vc_block_count c)]. shapes_ok (entries B) (pi_v3_block_shapes c i)"
    "\<forall>i\<in>set [0..<nat (vc_projector_count c)]. shapes_ok (entries B) (projector_shapes c i)"
    unfolding list_all_iff by (simp_all only: list.set set_append set_map) fastforce+
  then have checks: "shapes_ok (entries B) (pi_v3_shapes c)"
    "i < nat (vc_block_count c) \<Longrightarrow> shapes_ok (entries B) (pi_v3_block_shapes c i)"
    "i < nat (vc_block_count c) \<Longrightarrow> shapes_ok (entries B) (projector_shapes c i)" for i
    using assms(2) by (auto simp: v3_valid_def)
  have pos: "0 < vc_dit_width c" "0 < vc_feed_forward_dim c" "0 < vc_qwen_hidden_dim c"
    "0 < vc_timestep_projection_dim c" "0 < vc_action_dim c" "0 < vc_mlp_hidden_dim c"
    "0 < vc_future_token_count c" "0 < vc_action_position_count c"
    using assms(2) by (auto simp: v3_valid_def dit_ok_def v3_dit_def)
  note P = checks(1) [unfolded pi_v3_shapes_def Let_def]
  have "has_head B pi_v3_prefix (vc_timestep_projection_dim c) (vc_dit_width c) (vc_action_dim c) (vc_dit_width c)
       (vc_mlp_hidden_dim c) (vc_future_token_count c) (vc_action_position_count c)"
    by (rule loaded_head [OF P assms(3)]; (use pos in simp)?)
  moreover have "has_block B (vc_dit_width c) (block_prefix (pi_v3_prefix @ ''block.'') i)
        (vc_dit_width c) (vc_feed_forward_dim c)"
    if i: "i < nat (vc_block_count c)" for i
    by (rule loaded_block [OF checks(2) [OF i, unfolded pi_v3_block_shapes_def] assms(3)]) (use pos in auto)
  moreover have "has_norm B (block_prefix (pi_v3_prefix @ ''projector.'') i @ ''norm'') (vc_qwen_hidden_dim c)"
    "has_linear B (block_prefix (pi_v3_prefix @ ''projector.'') i @ ''projection'') (vc_qwen_hidden_dim c) (vc_dit_width c)"
    if i: "i < nat (vc_block_count c)" for i
    by (rule loaded_norm [OF checks(3) [OF i, unfolded projector_shapes_def] assms(3)]
          loaded_linear [OF checks(3) [OF i, unfolded projector_shapes_def] assms(3)]; use pos in simp)+
  ultimately show ?thesis by (simp add: v3_weights_def)
qed

lemma yields_bf16_roundtrip:
  assumes G: "ggml_laws (gb_ops B)" and t: "stored (gb_ops B) ds t"
  shows "yields B 2 (f32t (gb_ops B) ds) (bf16_roundtrip B t)"
  unfolding bf16_roundtrip_def
  apply (rule yields_mono)
   apply (rule yields_bind, rule node_cast [OF G t])
   apply (rule yields_conseq, rule node_cast [OF G], erule conjunct1, simp add: f32t_def)
  apply simp
  done

lemma stored_dims: "stored G ds t \<and> Q \<Longrightarrow> dims G ds t"
  by (simp add: stored_def)

lemma yields_projector_linear:
  assumes G: "ggml_laws (gb_ops B)" and w: "has_linear B stem k m" and v: "f32t (gb_ops B) [k, n, 1, 1] v"
  shows "yields B 8 (f32t (gb_ops B) [m, n, 1, 1]) (projector_linear B stem v)"
  unfolding projector_linear_def
  apply (rule yields_mono)
   apply (rule yields_bind, rule yields_has_weight, rule conjunct1 [OF w [unfolded has_linear_def]])
   apply (rule yields_bind, rule yields_has_weight, rule conjunct2 [OF w [unfolded has_linear_def]])
   apply (rule yields_bind, rule node_cast [OF G f32t_imp(3) [OF v]])
   apply (rule yields_bind, rule node_cast [OF G], assumption)
   apply (rule yields_bind, rule node_mul_mat [OF G], rule disjI1, erule conjunct1,
      rule stored_dims, assumption)
   apply (rule yields_bind, erule yields_bf16_roundtrip [OF G])
   apply (rule yields_bind, rule node_elementwise(1) [OF G], assumption, assumption, rule can_repeat_rows(1))
   apply (rule yields_bf16_roundtrip [OF G], erule f32t_imp(3))
  apply simp
  done

lemma yields_projected_layer:
  assumes G: "ggml_laws (gb_ops B)" and w: "v3_weights B c" and layer: "layer < nat (vc_block_count c)"
    and t: "f32t (gb_ops B) [vc_qwen_hidden_dim c, int n, layers, 1] t" "int layer < layers"
  shows "yields B 16 (f32t (gb_ops B) [vc_dit_width c, int n, 1, 1]) (projected_layer B c t n layer)"
proof -
  have ws: "has_weight B (block_prefix (pi_v3_prefix @ ''projector.'') layer @ ''norm.weight'') [vc_qwen_hidden_dim c, 1, 1, 1]"
    "has_weight B (block_prefix (pi_v3_prefix @ ''projector.'') layer @ ''norm.bias'') [vc_qwen_hidden_dim c, 1, 1, 1]"
    "has_linear B (block_prefix (pi_v3_prefix @ ''projector.'') layer @ ''projection'') (vc_qwen_hidden_dim c) (vc_dit_width c)"
    using w layer by (auto simp: v3_weights_def has_norm_def)
  show ?thesis
    unfolding projected_layer_def Let_def
    apply (rule yields_mono)
     apply (rule yields_bind, rule yields_layer_view [OF G t])
     apply (rule yields_bind, rule yields_bf16_roundtrip [OF G], erule f32t_imp(3))
     apply (rule yields_bind, erule node_unary(1) [OF G])
     apply (rule yields_bind, rule yields_has_weight [OF ws(1)])
     apply (rule yields_bind, erule yields_f32_of [OF G])
     apply (rule yields_bind, rule node_elementwise(2) [OF G], assumption, assumption, rule can_repeat_rows(1))
     apply (rule yields_bind, rule yields_has_weight [OF ws(2)])
     apply (rule yields_bind, erule yields_f32_of [OF G])
     apply (rule yields_bind, rule node_elementwise(1) [OF G], assumption, assumption, rule can_repeat_rows(1))
     apply (erule yields_projector_linear [OF G ws(3)])
    apply simp
    done
qed

lemma yields_v3_step:
  assumes G: "ggml_laws (gb_ops B)" and c: "v3_valid c" and w: "v3_weights B c"
    and g: "graph_ok (gb_ops B) hidden_dims (Some (int token_count, queries)) None
      (vc_action_dim c) (vc_horizon c) (vc_timestep_projection_dim c) (vc_dit_width c) 4 g"
      "vc_no_state_sequence_length c \<le> queries"
    and projected: "list_all2 (\<lambda>i. f32t (gb_ops B) [vc_dit_width c, int token_count, 1, 1]) [0..<nat (vc_block_count c)] projected"
    and future: "f32t (gb_ops B) [vc_dit_width c, vc_future_token_count c, 1, 1] future"
    and position: "f32t (gb_ops B) [vc_dit_width c, vc_horizon c, 1, 1] position"
    and step: "step < 4" and actions: "f32t (gb_ops B) [vc_action_dim c, vc_horizon c, 1, 1] actions"
  shows "yields B (33 + 44 * nat (vc_block_count c)) (f32t (gb_ops B) [vc_action_dim c, vc_horizon c, 1, 1])
    (v3_step B c g projected future position step actions)"
proof -
  let ?n = "vc_future_token_count c + vc_horizon c"
  have D: "dit_ok (v3_dit c)" and width: "dt_width (v3_dit c) = vc_dit_width c"
    using c by (simp_all add: v3_valid_def v3_dit_def)
  have head: "has_linear B (pi_v3_prefix @ ''timestep.input'') (vc_timestep_projection_dim c) (vc_dit_width c)"
    "has_linear B (pi_v3_prefix @ ''timestep.output'') (vc_dit_width c) (vc_dit_width c)"
    "has_linear B (pi_v3_prefix @ ''action.input'') (vc_action_dim c) (vc_dit_width c)"
    "has_linear B (pi_v3_prefix @ ''action.time_mix'') (2 * vc_dit_width c) (vc_dit_width c)"
    "has_linear B (pi_v3_prefix @ ''action.output'') (vc_dit_width c) (vc_dit_width c)"
    "has_linear B (pi_v3_prefix @ ''velocity.input'') (vc_dit_width c) (vc_mlp_hidden_dim c)"
    "has_linear B (pi_v3_prefix @ ''velocity.output'') (vc_mlp_hidden_dim c) (vc_action_dim c)"
    using w by (auto simp: v3_weights_def has_head_def)
  have inputs: "f32t (gb_ops B) [vc_timestep_projection_dim c, 4, 1, 1] (pg_timestep_projection g)"
    "f32t (gb_ops B) [vc_dit_width c, 4, 1, 1] (pg_action_time g)" "f32t (gb_ops B) [1, 1, 1, 1] (pg_scalar_one g)"
    using g(1) by (simp_all add: graph_ok_def)
  obtain m where m: "pg_cross_mask g = Some m" "f32t (gb_ops B) [int token_count, queries, 1, 1] m"
    using g(1) by (auto simp: graph_ok_def)
  have enough: "?n \<le> queries" using g(2) c by (simp add: v3_valid_def)
  have step4: "int step < 4" using step by simp
  have block: "yields B 44 (f32t (gb_ops B) [vc_dit_width c, ?n, 1, 1]) (v3_block B c g projected temb i x)"
    if temb: "f32t (gb_ops B) [vc_dit_width c, 1, 1, 1] temb" and i: "i \<in> set [0..<nat (vc_block_count c)]"
      and x: "f32t (gb_ops B) [vc_dit_width c, ?n, 1, 1] x" for temb i x
  proof -
    have bw: "has_block B (dt_width (v3_dit c)) (block_prefix (pi_v3_prefix @ ''block.'') i) (vc_dit_width c)
        (vc_feed_forward_dim c)"
      using w i by (auto simp: v3_weights_def width)
    have p: "read_at projected (int i) = Some (projected ! i)"
      "f32t (gb_ops B) [vc_dit_width c, int token_count, 1, 1] (projected ! i)"
      using projected i by (auto simp: list_all2_conv_all_nth read_at_def)
    have "source_ok B (v3_dit c) (vc_dit_width c) ?n (Some (projected ! i, pg_cross_mask g))"
      by (rule source_ok_Some [OF p(2) _ enough]) (use m in auto)
    from yields_dit_block [OF G D bw inputs(3) _ this] temb x
    have "yields B 44 (f32t (gb_ops B) [vc_dit_width c, ?n, 1, 1]) (dit_block B (v3_dit c)
        (block_prefix (pi_v3_prefix @ ''block.'') i) (pg_scalar_one g) temb (Some (projected ! i, pg_cross_mask g)) x)"
      by (simp add: width)
    then have "yields B (0 + 44) (f32t (gb_ops B) [vc_dit_width c, ?n, 1, 1]) (v3_block B c g projected temb i x)"
      unfolding v3_block_def
      by (intro yields_bind [where P = "(=) (projected ! i)"] yields_lift [OF p(1) refl]) (erule subst)
    then show ?thesis by simp
  qed
  have rows: "int (nat (vc_future_token_count c)) + vc_horizon c \<le> ?n"
    using c by (simp add: v3_valid_def)
  show ?thesis
    unfolding v3_step_def
    apply (rule yields_mono)
     apply (rule yields_bind, rule yields_time_embedding [OF G head(1,2) inputs(1) step4])
     apply (rule yields_bind, rule yields_action_features [OF G head(3-5) inputs(2) step4 position actions])
     apply (rule yields_bind, rule node_join(3) [OF G future], assumption)
     apply (rule yields_bind, rule yields_loop [OF block], assumption, assumption, assumption, assumption)
     apply (erule yields_euler_step [OF G head(6,7) _ rows actions])
    apply simp
    done
qed

definition v3_tensor_count :: "pi_v3_policy_config \<Rightarrow> nat" where
  "v3_tensor_count c = 11 + 16 * nat (vc_block_count c) + 4 * (33 + 44 * nat (vc_block_count c))"

definition v3_graph_ok :: "'t ggml \<Rightarrow> pi_v3_policy_config \<Rightarrow> nat \<Rightarrow> 't policy_graph \<Rightarrow> bool" where
  "v3_graph_ok G c token_count g \<longleftrightarrow> (\<exists>queries. pad_queries (vc_no_state_sequence_length c) = Some queries \<and>
     graph_ok G [vc_qwen_hidden_dim c, int token_count, vc_qwen_layer_count c, 1] (Some (int token_count, queries)) None
       (vc_action_dim c) (vc_horizon c) (vc_timestep_projection_dim c) (vc_dit_width c) 4 g)"

lemma v3_graph_safe:
  assumes G: "ggml_laws (gb_ops B)" and c: "v3_valid c" and w: "v3_weights B c"
    and pad: "pad_queries (vc_no_state_sequence_length c) = Some queries"
  shows "safe B (v3_tensor_count c) (v3_graph_ok (gb_ops B) c token_count) (build_pi_v3_graph B c token_count)"
proof (cases "token_count_valid token_count \<and> gb_init B")
  case True
  then have ifs: "\<not> \<not> token_count_valid token_count" "\<not> \<not> gb_init B" by simp_all
  have pos: "0 < vc_qwen_hidden_dim c" "0 < int token_count" "0 < queries" "0 < vc_action_dim c" "0 < vc_horizon c"
    "0 < vc_timestep_projection_dim c" "0 < vc_dit_width c" "0 < (4::int)" "0 < (1::int)" "0 < vc_qwen_layer_count c"
    using c True pad_queries_enough [OF pad]
    by (auto simp: v3_valid_def token_count_valid_def dit_ok_def v3_dit_def)
  have w': "has_weight B (pi_v3_prefix @ ''future_tokens.weight'') [vc_dit_width c, vc_future_token_count c, 1, 1]"
    "has_weight B (pi_v3_prefix @ ''action_position.weight'') [vc_dit_width c, vc_action_position_count c, 1, 1]"
    using w by (auto simp: v3_weights_def has_head_def)
  have horizon: "vc_horizon c \<le> vc_action_position_count c" using c by (simp add: v3_valid_def)
  let ?f = "f32t (gb_ops B)"
  let ?l = "[vc_qwen_hidden_dim c, int token_count, vc_qwen_layer_count c, 1]"
  have projected: "yields B (length [0..<nat (vc_projector_count c)] * 16)
      (list_all2 (\<lambda>i. ?f [vc_dit_width c, int token_count, 1, 1]) [0..<nat (vc_projector_count c)])
      (each_build (projected_layer B c t token_count) [0..<nat (vc_projector_count c)])" if "?f ?l t" for t
    by (rule yields_each, rule yields_projected_layer [OF G w _ that]) (use c in \<open>auto simp: v3_valid_def\<close>)
  have counts: "[0..<nat (vc_projector_count c)] = [0..<nat (vc_block_count c)]" using c by (simp add: v3_valid_def)
  have graph: "graph_ok (gb_ops B) ?l (Some (int token_count, queries)) None (vc_action_dim c) (vc_horizon c)
      (vc_timestep_projection_dim c) (vc_dit_width c) 4
      \<lparr>pg_hidden = h, pg_cross_mask = Some m, pg_state = None, pg_noise = noise, pg_timestep_projection = tp,
       pg_action_time = time, pg_scalar_one = one, pg_output = out\<rparr>"
    if "?f ?l h" "?f [int token_count, queries, 1, 1] m" "?f [vc_action_dim c, vc_horizon c, 1, 1] noise"
      "?f [vc_timestep_projection_dim c, 4, 1, 1] tp" "?f [vc_dit_width c, 4, 1, 1] time" "?f [1, 1, 1, 1] one"
      "?f [vc_action_dim c, vc_horizon c, 1, 1] out" for h m noise tp time one out
    using that by (simp add: graph_ok_def)
  show ?thesis
    unfolding build_pi_v3_graph_def Let_def if_not_P [OF ifs(1)] if_not_P [OF ifs(2)]
    apply (rule safe_mono)
     apply (rule safe_bind [where P = "(=) queries"], rule yields_safe, rule yields_lift [OF pad refl])
     apply (rule safe_bind, rule yields_safe, rule yields_new_input(3) [OF G pos(1,2,10)])
     apply (rule safe_bind [where P = "?f [int token_count, queries, 1, 1]"], rule yields_safe, erule subst,
        rule yields_new_input(2) [OF G pos(2,3,9)])
     apply (rule safe_bind, rule yields_safe, rule yields_new_input(2) [OF G pos(4,5,9)])
     apply (rule safe_bind, rule yields_safe, rule yields_new_input(2) [OF G pos(6,8,9)])
     apply (rule safe_bind, rule yields_safe, rule yields_new_input(2) [OF G pos(7,8,9)])
     apply (rule safe_bind, rule yields_safe, rule yields_new_input(1) [OF G pos(9,9,9)])
     apply (rule safe_bind, rule yields_safe, erule projected)
     apply (rule safe_bind, rule yields_safe, rule yields_has_weight [OF w'(1)])
     apply (rule safe_bind, rule yields_safe, erule yields_f32_of [OF G])
     apply (rule safe_bind, rule yields_safe, rule yields_position_rows [OF G w'(2) pos(5) horizon])
     apply (rule safe_bind, rule yields_safe, rule yields_bf16_roundtrip [OF G f32t_imp(3)], assumption)
     apply (rule safe_bind [where P = "?f [vc_action_dim c, vc_horizon c, 1, 1]"], rule yields_safe, rule yields_loop)
       apply (rule yields_v3_step [OF G c w graph], assumption+)
             apply (rule pad_queries_enough [OF pad])
            apply (simp only: counts)
           apply assumption+
        apply simp
       apply assumption+
     apply (rule safe_bind, erule safe_finish [where P = "?f [vc_action_dim c, vc_horizon c, 1, 1]"])
     apply (rule safe_return)
     apply (unfold v3_graph_ok_def policy_graph.simps, rule exI, rule conjI, rule pad, rule graph, assumption+)
    apply (use c in \<open>simp add: v3_tensor_count_def v3_valid_def\<close>)
    done
qed (auto simp: build_pi_v3_graph_def Let_def safe_fail)

end
