(* ===== verification/PolicyEval.thy ===== *)
theory PolicyEval
  imports GraphShapesPi
begin

text \<open>
  Loading and evaluating the OFT, GR00T, PI and PI-v3 policies: \<open>load\<close>, the sinusoidal tables and
  \<open>evaluate\<close> with its cached graph.  The execution of a graph is the record \<open>executor\<close>: writing an input, computing,
  reading the output (\<open>None\<close> is a failed bounds assertion, or a failed computation), and the functions of
  \<^verbatim>\<open>cmath\<close> the tables use.  A buffer given by pointer and count is a list option, \<open>None\<close> for the null pointer.
\<close>

record ('t, 'm) executor =
  ex_set :: "'t \<Rightarrow> f32 list \<Rightarrow> 'm \<Rightarrow> 'm option"
  ex_compute :: "'t \<Rightarrow> 'm \<Rightarrow> 'm option"
  ex_get :: "'t \<Rightarrow> nat \<Rightarrow> 'm \<Rightarrow> f32 list option"
  ex_exp :: "f32 \<Rightarrow> f32"
  ex_log :: "f32 \<Rightarrow> f32"
  ex_sin :: "f32 \<Rightarrow> f32"
  ex_cos :: "f32 \<Rightarrow> f32"

text \<open>Reads and writes inside a tensor succeed.\<close>

definition executor_laws :: "'t ggml \<Rightarrow> ('t, 'm) executor \<Rightarrow> bool" where
  "executor_laws G X \<longleftrightarrow>
     (\<forall>t ds v m. f32t G ds t \<and> int (length v) \<le> prod_list ds \<longrightarrow> ex_set X t v m \<noteq> None) \<and>
     (\<forall>t ds n m. f32t G ds t \<and> int n \<le> prod_list ds \<longrightarrow> (\<exists>v. ex_get X t n m = Some v \<and> length v = n))"

subsection \<open>Tables\<close>

definition wave_angle :: "('t, 'm) executor \<Rightarrow> int \<Rightarrow> int \<Rightarrow> nat \<Rightarrow> f32" where
  "wave_angle X timestep denominator index =
     f32_mul (f32_of_int timestep)
       (ex_exp X (f32_div (f32_mul (f32_negate (ex_log X (f32_of_int 10000))) (f32_of_int (int index))) (f32_of_int denominator)))"

text \<open>One row: two halves and what is left of the zeros.\<close>

definition wave_row ::
  "('t, 'm) executor \<Rightarrow> (f32 \<Rightarrow> f32) \<Rightarrow> (f32 \<Rightarrow> f32) \<Rightarrow> int \<Rightarrow> int \<Rightarrow> int \<Rightarrow> f32 list"
where
  "wave_row X first second width denominator timestep =
     (let angles = map (wave_angle X timestep denominator) [0..<nat (width div 2)]
      in map first angles @ map second angles @ replicate (nat (width mod 2)) f32_zero)"

definition timestep_projection_table :: "('t, 'm) executor \<Rightarrow> int \<Rightarrow> int list \<Rightarrow> nat \<Rightarrow> f32 list option" where
  "timestep_projection_table X width ids steps =
     map_option (\<lambda>ts. concat (map (wave_row X (ex_cos X) (ex_sin X) width (width div 2 - 1)) ts))
       (those (map (\<lambda>step. read_at ids (int step)) [0..<steps]))"

definition action_time_table :: "('t, 'm) executor \<Rightarrow> int \<Rightarrow> int list \<Rightarrow> nat \<Rightarrow> f32 list option" where
  "action_time_table X width ids steps =
     map_option (\<lambda>ts. concat (map (wave_row X (ex_sin X) (ex_cos X) width (width div 2)) ts))
       (those (map (\<lambda>step. read_at ids (int step)) [0..<steps]))"

lemma length_wave_row: "0 \<le> width \<Longrightarrow> length (wave_row X f g width d t) = nat width"
proof -
  assume "0 \<le> width"
  then have "nat (width div 2) + (nat (width div 2) + nat (width mod 2)) = nat width"
    by (simp flip: nat_add_distrib)
  then show ?thesis by (simp add: wave_row_def Let_def)
qed

lemma tables_defined:
  assumes "0 \<le> width" "steps \<le> length ids"
  shows "\<exists>table. timestep_projection_table X width ids steps = Some table \<and> length table = nat width * steps"
    and "\<exists>table. action_time_table X width ids steps = Some table \<and> length table = nat width * steps"
proof -
  have "those (map (\<lambda>step. read_at ids (int step)) [0..<steps]) = Some (map ((!) ids) [0..<steps])"
    using assms(2) by (simp add: those_Some read_at_def)
  moreover have "length (concat (map (wave_row X f g width d) (map ((!) ids) [0..<steps]))) = nat width * steps" for f g d
    by (subst length_concat_const [where k = "nat width"]) (simp_all add: length_wave_row [OF assms(1)])
  ultimately show "\<exists>table. timestep_projection_table X width ids steps = Some table \<and> length table = nat width * steps"
    and "\<exists>table. action_time_table X width ids steps = Some table \<and> length table = nat width * steps"
    by (simp_all add: timestep_projection_table_def action_time_table_def del: map_map)
qed

subsection \<open>Loading\<close>

text \<open>What \<open>load\<close> gets from outside: the result of the backend, ggml's answers and the files.\<close>

record load_env =
  le_backend :: "unit res"
  le_platform :: platform
  le_open :: "string \<Rightarrow> policy_file option"

record 'c loaded_policy =
  lp_config :: 'c
  lp_timestep_table :: "f32 list"
  lp_action_table :: "f32 list"

text \<open>The common part of the four \<open>load\<close> functions; \<open>name\<close> is the policy's name in the messages.\<close>

definition load_policy_file ::
  "load_env \<Rightarrow> string \<Rightarrow> (gguf \<Rightarrow> 'c run) \<Rightarrow> ('c \<Rightarrow> (string \<Rightarrow> tensor_entry option) \<Rightarrow> tensor_entry list run) \<Rightarrow>
     string \<Rightarrow> 'c run"
where
  "load_policy_file env name parse_metadata bind_tensors path =
     (if path = [] then Some (Inl (''StarVLA '' @ name @ '' policy path is required''))
      else case le_backend env of
        Inl e \<Rightarrow> Some (Inl (''failed to initialize StarVLA '' @ name @ '' backend: '' @ e))
      | Inr _ \<Rightarrow>
          bind_run (fst (gguf_load (le_platform env) parse_metadata bind_tensors (le_open env) (Some path) True)) (\<lambda>loaded.
            if gl_weights loaded = None then Some (Inl (''StarVLA '' @ name @ '' policy GGUF has no tensors''))
            else Some (Inr (gl_config loaded))))"

lemma load_policy_file_Inr:
  assumes "load_policy_file env name parse_metadata bind_tensors path = Some (Inr c)"
  shows "\<exists>f bound. le_open env path = Some f \<and> parse_metadata (pf_gguf f) = Some (Inr c) \<and>
    bind_tensors c (pf_tensor f) = Some (Inr bound)"
proof -
  obtain loaded l w where load: "gguf_load (le_platform env) parse_metadata bind_tensors (le_open env) (Some path) True
      = (Some (Inr loaded), l)" "gl_weights loaded = Some w" "gl_config loaded = c"
    using assms by (auto simp: load_policy_file_def res_simps split: if_splits sum.splits prod.splits)
      (metis prod.collapse)
  then obtain f where f: "le_open env path = Some f" "parse_metadata (pf_gguf f) = Some (Inr c)"
    by (auto simp: gguf_load_def Let_def load_fail_def split: option.splits sum.splits if_splits prod.splits)
  then have "pf_tensor_names f \<noteq> []"
    using load by (cases loaded) (auto simp: gguf_load_def Let_def)
  with load f obtain r l' l'' where "load_tensors (le_platform env) (bind_tensors c) f path l' = (Some (Inr r), l'')"
    by (auto simp: gguf_load_def Let_def split: option.splits sum.splits prod.splits)
  then have "\<exists>bound. bind_tensors c (pf_tensor f) = Some (Inr bound)"
    by (auto simp: load_tensors_def Let_def load_fail_def split: option.splits sum.splits if_splits)
  with f show ?thesis by blast
qed

definition load_oft_policy :: "load_env \<Rightarrow> 't builder \<Rightarrow> string \<Rightarrow> (oft_policy_config \<times> 't oft_graph) run" where
  "load_oft_policy env B path =
     bind_run (load_policy_file env ''OFT'' (\<lambda>g. Some (parse_oft_metadata g)) bind_oft_tensors path) (\<lambda>config.
     bind_run (build_oft_graph (graph_context B ggml_default_graph_size) config 0) (\<lambda>(g, _). Some (Inr (config, g))))"

definition load_groot_policy :: "load_env \<Rightarrow> ('t, 'm) executor \<Rightarrow> string \<Rightarrow> groot_policy_config loaded_policy run" where
  "load_groot_policy env X path =
     bind_run (load_policy_file env ''GR00T'' parse_groot_metadata bind_groot_tensors path) (\<lambda>config.
       Option.bind (timestep_projection_table X (gc_timestep_projection_dim config) (gc_timestep_ids config) 4) (\<lambda>timestep_table.
       Option.bind (action_time_table X (gc_dit_width config) (gc_timestep_ids config) 4) (\<lambda>action_table.
         Some (Inr \<lparr>lp_config = config, lp_timestep_table = timestep_table, lp_action_table = action_table\<rparr>))))"

definition load_pi_policy :: "load_env \<Rightarrow> ('t, 'm) executor \<Rightarrow> string \<Rightarrow> pi_policy_config loaded_policy run" where
  "load_pi_policy env X path =
     bind_run (load_policy_file env ''PI'' parse_pi_metadata bind_pi_tensors path) (\<lambda>config.
       let steps = nat (pc_num_inference_timesteps config) in
       Option.bind (timestep_projection_table X (pc_timestep_projection_dim config) (pc_timestep_ids config) steps)
         (\<lambda>timestep_table.
       Option.bind (action_time_table X (pc_dit_width config) (pc_timestep_ids config) steps) (\<lambda>action_table.
         Some (Inr \<lparr>lp_config = config, lp_timestep_table = timestep_table, lp_action_table = action_table\<rparr>))))"

definition load_pi_v3_policy :: "load_env \<Rightarrow> ('t, 'm) executor \<Rightarrow> string \<Rightarrow> pi_v3_policy_config loaded_policy run" where
  "load_pi_v3_policy env X path =
     bind_run (load_policy_file env ''PI_v3'' parse_pi_v3_metadata bind_pi_v3_tensors path) (\<lambda>config.
       Option.bind (timestep_projection_table X (vc_timestep_projection_dim config) (vc_timestep_ids config) 4) (\<lambda>timestep_table.
       Option.bind (action_time_table X (vc_dit_width config) (vc_timestep_ids config) 4) (\<lambda>action_table.
         Some (Inr \<lparr>lp_config = config, lp_timestep_table = timestep_table, lp_action_table = action_table\<rparr>))))"

subsection \<open>Evaluation\<close>

text \<open>The cached graph with what it was built for, and the memory of the backend.  After a failed
  \<open>build_graph\<close> the token count is 0, so that the next call builds again: the model keeps no graph then.\<close>

record ('t, 'm) policy_state =
  ps_graph :: "('t policy_graph \<times> nat \<times> bool) option"
  ps_memory :: 'm

text \<open>Inputs that are written, and the run from there to the finite output.\<close>

fun set_inputs :: "('t, 'm) executor \<Rightarrow> ('t \<times> f32 list) list \<Rightarrow> 'm \<Rightarrow> 'm option" where
  "set_inputs X [] m = Some m"
| "set_inputs X ((t, v) # rest) m = Option.bind (ex_set X t v m) (set_inputs X rest)"

definition run_graph ::
  "('t, 'm) executor \<Rightarrow> string \<Rightarrow> 't \<Rightarrow> nat \<Rightarrow> ('t \<times> f32 list) list \<Rightarrow> 'm \<Rightarrow> (f32 list res \<times> 'm) option"
where
  "run_graph X compute_msg output output_count inputs m =
     Option.bind (set_inputs X inputs m) (\<lambda>m.
       case ex_compute X output m of
         None \<Rightarrow> Some (Inl compute_msg, m)
       | Some m \<Rightarrow> Option.bind (ex_get X output output_count m) (\<lambda>v. Some (Inr v, m)))"

definition check_finite_output :: "string \<Rightarrow> f32 list \<Rightarrow> f32 list res" where
  "check_finite_output msg v = (if list_ex (\<lambda>x. \<not> f32_finite x) v then Inl msg else Inr v)"

text \<open>The graph for the given number of tokens: the cached one, or a new one.\<close>

definition cached_graph ::
  "('t policy_graph build) \<Rightarrow> nat \<Rightarrow> bool \<Rightarrow> ('t, 'm) policy_state \<Rightarrow> 't policy_graph run"
where
  "cached_graph build_graph token_count uses_state st =
     (case ps_graph st of
        Some (g, n, s) \<Rightarrow>
          if n \<noteq> token_count \<or> s \<noteq> uses_state then map_option (map_sum (\<lambda>e. e) fst) (build_graph 0) else Some (Inr g)
      | None \<Rightarrow> map_option (map_sum (\<lambda>e. e) fst) (build_graph 0))"

text \<open>From the checked inputs to the actions.\<close>

definition evaluate_graph ::
  "('t, 'm) executor \<Rightarrow> string \<Rightarrow> string \<Rightarrow> 't policy_graph build \<Rightarrow> nat \<Rightarrow> bool \<Rightarrow> nat \<Rightarrow>
     ('t policy_graph \<Rightarrow> ('t \<times> f32 list) list option) \<Rightarrow> ('t, 'm) policy_state \<Rightarrow> (f32 list res \<times> ('t, 'm) policy_state) option"
where
  "evaluate_graph X compute_msg finite_msg build_graph token_count uses_state output_count inputs st =
     (case cached_graph build_graph token_count uses_state st of
        None \<Rightarrow> None
      | Some (Inl e) \<Rightarrow> Some (Inl e, st\<lparr>ps_graph := None\<rparr>)
      | Some (Inr g) \<Rightarrow>
          Option.bind (inputs g) (\<lambda>values.
          Option.bind (run_graph X compute_msg (pg_output g) output_count values (ps_memory st)) (\<lambda>(r, m).
            Some (bind_res r (check_finite_output finite_msg),
                  \<lparr>ps_graph = Some (g, token_count, uses_state), ps_memory = m\<rparr>))))"

text \<open>The additive mask: rows of zeros and minus infinities for the queries, minus infinity below.\<close>

definition additive_mask :: "u8 list \<Rightarrow> nat \<Rightarrow> nat \<Rightarrow> f32 list" where
  "additive_mask kq_mask query_count padded_queries =
     concat (map (\<lambda>query. if query < query_count then map (\<lambda>b. if b \<noteq> 0 then f32_zero else f32_minus_inf) kq_mask
       else replicate (length kq_mask) f32_minus_inf) [0..<padded_queries])"

definition mask_inputs ::
  "'c loaded_policy \<Rightarrow> int \<Rightarrow> f32 list \<Rightarrow> u8 list \<Rightarrow> f32 list \<Rightarrow> 't policy_graph \<Rightarrow> ('t \<times> f32 list) list option"
where
  "mask_inputs p query_count hidden kq_mask noise g =
     Option.bind (pad_queries query_count) (\<lambda>padded.
     Option.bind (pg_cross_mask g) (\<lambda>cross_mask.
       Some [(pg_hidden g, hidden), (cross_mask, additive_mask kq_mask (nat query_count) (nat padded)),
         (pg_noise g, noise), (pg_timestep_projection g, lp_timestep_table p), (pg_action_time g, lp_action_table p),
         (pg_scalar_one g, [f32_one])]))"

text \<open>\<open>None\<close> is the null pointer; the first test divides by the width, which is positive.\<close>

definition check_mask_values :: "string \<Rightarrow> string \<Rightarrow> u8 list \<Rightarrow> unit res" where
  "check_mask_values range_msg empty_msg kq_mask =
     (if list_ex (\<lambda>b. b > 1) kq_mask then Inl range_msg
      else if list_all (\<lambda>b. b = 0) kq_mask then Inl empty_msg
      else Inr ())"

definition check_groot_inputs ::
  "groot_policy_config \<Rightarrow> f32 list option \<Rightarrow> u8 list option \<Rightarrow> f32 list option \<Rightarrow> (f32 list \<times> u8 list \<times> f32 list) res"
where
  "check_groot_inputs c hidden kq_mask noise =
     (let shape_msg = ''StarVLA GR00T Qwen conditioning tensor or attention mask has an incompatible shape'' in
      case (hidden, kq_mask, noise) of
        (Some hidden, Some kq_mask, Some noise) \<Rightarrow>
          if length kq_mask = 0 \<or> int (length kq_mask) > INT_MAX \<or>
             length kq_mask > size_max div nat (gc_qwen_hidden_dim c) \<or>
             length hidden \<noteq> length kq_mask * nat (gc_qwen_hidden_dim c) then Inl shape_msg
          else if length noise \<noteq> nat (gc_horizon c) * nat (gc_action_dim c) then
            Inl ''StarVLA GR00T initial-noise tensor has an incompatible shape''
          else if list_ex (\<lambda>x. \<not> f32_finite x) hidden \<or> list_ex (\<lambda>x. \<not> f32_finite x) noise then
            Inl ''StarVLA GR00T conditioning and initial noise must be finite''
          else bind_res (check_mask_values ''StarVLA GR00T attention mask values must be zero or one''
                 ''StarVLA GR00T attention mask must contain at least one valid token'' kq_mask)
                 (\<lambda>_. Inr (hidden, kq_mask, noise))
      | _ \<Rightarrow> Inl shape_msg)"

definition groot_evaluate ::
  "'t builder \<Rightarrow> ('t, 'm) executor \<Rightarrow> groot_policy_config loaded_policy \<Rightarrow> f32 list option \<Rightarrow> u8 list option \<Rightarrow>
     f32 list option \<Rightarrow> ('t, 'm) policy_state \<Rightarrow> (f32 list res \<times> ('t, 'm) policy_state) option"
where
  "groot_evaluate B X p hidden kq_mask noise st =
     (let c = lp_config p in
      case check_groot_inputs c hidden kq_mask noise of
        Inl e \<Rightarrow> Some (Inl e, st)
      | Inr (hidden, kq_mask, noise) \<Rightarrow>
          evaluate_graph X ''StarVLA GR00T graph compute failed'' ''StarVLA GR00T graph produced non-finite actions''
            (build_groot_graph (graph_context B groot_graph_size) c (length kq_mask)) (length kq_mask) False (nat (gc_horizon c) * nat (gc_action_dim c))
            (mask_inputs p (gc_no_state_sequence_length c) hidden kq_mask noise) st)"

definition check_pi_v3_inputs ::
  "pi_v3_policy_config \<Rightarrow> f32 list option \<Rightarrow> u8 list option \<Rightarrow> f32 list option \<Rightarrow> (f32 list \<times> u8 list \<times> f32 list) res"
where
  "check_pi_v3_inputs c hidden kq_mask noise =
     (let shape_msg = ''StarVLA PI_v3 layerwise Qwen conditioning tensor or attention mask has an incompatible shape'';
          hidden_width = nat (vc_qwen_hidden_dim c); layer_count = nat (vc_qwen_layer_count c) in
      case (hidden, kq_mask, noise) of
        (Some hidden, Some kq_mask, Some noise) \<Rightarrow>
          if length kq_mask = 0 \<or> int (length kq_mask) > INT_MAX \<or> length kq_mask > size_max div hidden_width \<or>
             length kq_mask * hidden_width > size_max div layer_count \<or>
             length hidden \<noteq> length kq_mask * hidden_width * layer_count then Inl shape_msg
          else if length noise \<noteq> nat (vc_horizon c) * nat (vc_action_dim c) then
            Inl ''StarVLA PI_v3 initial-noise tensor has an incompatible shape''
          else if list_ex (\<lambda>x. \<not> f32_finite x) hidden \<or> list_ex (\<lambda>x. \<not> f32_finite x) noise then
            Inl ''StarVLA PI_v3 conditioning and initial noise must be finite''
          else bind_res (check_mask_values ''StarVLA PI_v3 attention mask values must be zero or one''
                 ''StarVLA PI_v3 attention mask must contain at least one valid token'' kq_mask)
                 (\<lambda>_. Inr (hidden, kq_mask, noise))
      | _ \<Rightarrow> Inl shape_msg)"

definition pi_v3_evaluate ::
  "'t builder \<Rightarrow> ('t, 'm) executor \<Rightarrow> pi_v3_policy_config loaded_policy \<Rightarrow> f32 list option \<Rightarrow> u8 list option \<Rightarrow>
     f32 list option \<Rightarrow> ('t, 'm) policy_state \<Rightarrow> (f32 list res \<times> ('t, 'm) policy_state) option"
where
  "pi_v3_evaluate B X p hidden kq_mask noise st =
     (let c = lp_config p in
      case check_pi_v3_inputs c hidden kq_mask noise of
        Inl e \<Rightarrow> Some (Inl e, st)
      | Inr (hidden, kq_mask, noise) \<Rightarrow>
          evaluate_graph X ''StarVLA PI_v3 graph compute failed'' ''StarVLA PI_v3 graph produced non-finite actions''
            (build_pi_v3_graph (graph_context B pi_v3_graph_size) c (length kq_mask)) (length kq_mask) False (nat (vc_horizon c) * nat (vc_action_dim c))
            (mask_inputs p (vc_no_state_sequence_length c) hidden kq_mask noise) st)"

text \<open>PI: the state is optional, an empty one counts as omitted; a null pointer may come with a count.\<close>

datatype buffer = Null_buffer nat | Buffer "f32 list"

fun buffer_count :: "buffer \<Rightarrow> nat" where
  "buffer_count (Null_buffer n) = n"
| "buffer_count (Buffer v) = length v"

definition check_pi_state :: "pi_policy_config \<Rightarrow> buffer \<Rightarrow> f32 list option res" where
  "check_pi_state c state =
     (if buffer_count state = 0 then Inr None
      else case state of
        Null_buffer _ \<Rightarrow> Inl ''StarVLA PI state tensor has an incompatible shape''
      | Buffer v \<Rightarrow> if length v \<noteq> nat (pc_state_dim c) then Inl ''StarVLA PI state tensor has an incompatible shape''
          else Inr (Some v))"

definition check_pi_inputs ::
  "pi_policy_config \<Rightarrow> f32 list option \<Rightarrow> buffer \<Rightarrow> f32 list option \<Rightarrow> (f32 list \<times> nat \<times> f32 list option \<times> f32 list) res"
where
  "check_pi_inputs c hidden state noise =
     (let shape_msg = ''StarVLA PI layer-wise Qwen conditioning tensor has an incompatible shape'';
          layer_width = nat (pc_block_count c) * nat (pc_qwen_hidden_dim c) in
      bind_res (need_some shape_msg hidden) (\<lambda>hidden.
        if layer_width = 0 \<or> length hidden = 0 \<or> length hidden mod layer_width \<noteq> 0 then Inl shape_msg
        else if length hidden div layer_width = 0 \<or> int (length hidden div layer_width) > INT_MAX then Inl shape_msg
        else bind_res (check_pi_state c state) (\<lambda>state.
          bind_res (need_some ''StarVLA PI initial-noise tensor has an incompatible shape'' noise) (\<lambda>noise.
            if length noise \<noteq> nat (pc_horizon c) * nat (pc_action_dim c) then
              Inl ''StarVLA PI initial-noise tensor has an incompatible shape''
            else if list_ex (\<lambda>x. \<not> f32_finite x) hidden \<or>
               list_ex (\<lambda>x. \<not> f32_finite x) (case state of None \<Rightarrow> [] | Some v \<Rightarrow> v) \<or> list_ex (\<lambda>x. \<not> f32_finite x) noise then
              Inl ''StarVLA PI conditioning, state, and initial noise must be finite''
            else Inr (hidden, length hidden div layer_width, state, noise)))))"

definition pi_inputs ::
  "pi_policy_config loaded_policy \<Rightarrow> f32 list \<Rightarrow> f32 list option \<Rightarrow> f32 list \<Rightarrow> 't policy_graph \<Rightarrow> ('t \<times> f32 list) list option"
where
  "pi_inputs p hidden state noise g =
     Option.bind (case state of None \<Rightarrow> Some [] | Some s \<Rightarrow> map_option (\<lambda>t. [(t, s)]) (pg_state g)) (\<lambda>state_input.
       Some ([(pg_hidden g, hidden)] @ state_input @
         [(pg_noise g, noise), (pg_timestep_projection g, lp_timestep_table p), (pg_action_time g, lp_action_table p),
          (pg_scalar_one g, [f32_one])]))"

definition pi_evaluate ::
  "'t builder \<Rightarrow> ('t, 'm) executor \<Rightarrow> pi_policy_config loaded_policy \<Rightarrow> f32 list option \<Rightarrow> buffer \<Rightarrow>
     f32 list option \<Rightarrow> ('t, 'm) policy_state \<Rightarrow> (f32 list res \<times> ('t, 'm) policy_state) option"
where
  "pi_evaluate B X p hidden state noise st =
     (let c = lp_config p in
      case check_pi_inputs c hidden state noise of
        Inl e \<Rightarrow> Some (Inl e, st)
      | Inr (hidden, token_count, state, noise) \<Rightarrow>
          evaluate_graph X ''StarVLA PI graph compute failed'' ''StarVLA PI graph produced non-finite actions''
            (build_pi_graph (graph_context B pi_graph_size) c token_count (state \<noteq> None)) token_count (state \<noteq> None)
            (nat (pc_horizon c) * nat (pc_action_dim c)) (pi_inputs p hidden state noise) st)"

definition oft_evaluate ::
  "('t, 'm) executor \<Rightarrow> oft_policy_config \<times> 't oft_graph \<Rightarrow> f32 list option \<Rightarrow> 'm \<Rightarrow> (f32 list res \<times> 'm) option"
where
  "oft_evaluate X p action_queries m =
     (case action_queries of
        None \<Rightarrow> Some (Inl ''StarVLA OFT action-query tensor has an incompatible shape'', m)
      | Some queries \<Rightarrow>
          if length queries \<noteq> nat (oc_horizon (fst p)) * nat (oc_input_dim (fst p)) then
            Some (Inl ''StarVLA OFT action-query tensor has an incompatible shape'', m)
          else run_graph X ''StarVLA OFT graph compute failed'' (og_output (snd p))
            (nat (oc_horizon (fst p)) * nat (oc_action_dim (fst p))) [(og_input (snd p), queries)] m)"

text \<open>The normalised actions back in the units of the robot.\<close>

definition oft_unnormalize :: "oft_policy_config \<times> 't oft_graph \<Rightarrow> f32 list \<Rightarrow> string \<Rightarrow> f32 list run" where
  "oft_unnormalize p normalized_actions key =
     denormalize_actions (oc_normalization (fst p)) key normalized_actions (oc_horizon (fst p)) (oc_action_dim (fst p))"

definition groot_unnormalize :: "groot_policy_config loaded_policy \<Rightarrow> f32 list \<Rightarrow> string \<Rightarrow> f32 list run" where
  "groot_unnormalize p normalized_actions key =
     (let c = lp_config p
      in denormalize_actions (gc_normalization c) key normalized_actions (gc_horizon c) (gc_action_dim c))"

definition pi_unnormalize :: "pi_policy_config loaded_policy \<Rightarrow> f32 list \<Rightarrow> string \<Rightarrow> f32 list run" where
  "pi_unnormalize p normalized_actions key =
     (let c = lp_config p
      in denormalize_actions (pc_normalization c) key normalized_actions (pc_horizon c) (pc_action_dim c))"

definition pi_v3_unnormalize :: "pi_v3_policy_config loaded_policy \<Rightarrow> f32 list \<Rightarrow> string \<Rightarrow> f32 list run" where
  "pi_v3_unnormalize p normalized_actions key =
     (let c = lp_config p
      in denormalize_actions (vc_normalization c) key normalized_actions (vc_horizon c) (vc_action_dim c))"

subsection \<open>Evaluation cannot abort\<close>

text \<open>A policy answers one request after the other, each in the state the last one left.\<close>

fun calls :: "('q \<Rightarrow> 's \<Rightarrow> ('r \<times> 's) option) \<Rightarrow> 'q list \<Rightarrow> 's \<Rightarrow> 'r list option" where
  "calls f [] s = Some []"
| "calls f (q # qs) s = Option.bind (f q s) (\<lambda>(r, s). map_option (\<lambda>rs. r # rs) (calls f qs s))"

lemma calls_invariant:
  assumes "\<And>q s. I s \<Longrightarrow> \<exists>r s'. f q s = Some (r, s') \<and> I s' \<and> P r" and "I s"
  shows "\<exists>rs. calls f qs s = Some rs \<and> length rs = length qs \<and> list_all P rs"
  using assms(2)
proof (induction qs arbitrary: s)
  case (Cons q qs)
  obtain r s' where r: "f q s = Some (r, s')" "I s'" "P r" using assms(1) [OF Cons.prems] by blast
  from Cons.IH [OF r(2)] r show ?case by auto
qed simp

text \<open>The same with the state after each request.\<close>

fun traced :: "('q \<Rightarrow> 's \<Rightarrow> ('r \<times> 's) option) \<Rightarrow> 'q list \<Rightarrow> 's \<Rightarrow> ('r \<times> 's) list option" where
  "traced f [] s = Some []"
| "traced f (q # qs) s = Option.bind (f q s) (\<lambda>(r, s). map_option (\<lambda>rs. (r, s) # rs) (traced f qs s))"

lemma traced_invariant:
  assumes "\<And>q s. I s \<Longrightarrow> \<exists>r s'. f q s = Some (r, s') \<and> I s' \<and> P q (r, s')" and "I s"
  shows "\<exists>rs. traced f qs s = Some rs \<and> list_all2 P qs rs"
  using assms(2)
proof (induction qs arbitrary: s)
  case (Cons q qs)
  obtain r s' where r: "f q s = Some (r, s')" "I s'" "P q (r, s')" using assms(1) [OF Cons.prems] by blast
  from Cons.IH [OF r(2)] r show ?case by auto
qed simp

text \<open>An answer is an error, or so many finite written.\<close>

definition answer_ok :: "int \<Rightarrow> int \<Rightarrow> f32 list res \<Rightarrow> bool" where
  "answer_ok horizon action_dim r \<longleftrightarrow> (case r of Inl _ \<Rightarrow> True
     | Inr v \<Rightarrow> length v = nat horizon * nat action_dim \<and> list_all f32_finite v)"

definition writable :: "'t ggml \<Rightarrow> 't \<times> f32 list \<Rightarrow> bool" where
  "writable G tv \<longleftrightarrow> (\<exists>ds. f32t G ds (fst tv) \<and> int (length (snd tv)) \<le> prod_list ds)"

lemma writableI: "f32t G ds t \<Longrightarrow> int (length v) \<le> prod_list ds \<Longrightarrow> writable G (t, v)"
  by (auto simp: writable_def)

lemma set_inputs_defined:
  "executor_laws G X \<Longrightarrow> list_all (writable G) written \<Longrightarrow> \<exists>m'. set_inputs X written m = Some m'"
proof (induction written arbitrary: m)
  case (Cons tv rest)
  obtain t v where tv: "tv = (t, v)" by (cases tv)
  with Cons.prems obtain m' where "ex_set X t v m = Some m'"
    by (fastforce simp: executor_laws_def writable_def)
  moreover obtain m'' where "set_inputs X rest m' = Some m''" using Cons by auto
  ultimately show ?case using tv by simp
qed simp

lemma run_graph_defined:
  assumes "executor_laws G X" "list_all (writable G) written" "f32t G [a, h, 1, 1] out_t" "count = nat h * nat a"
  shows "\<exists>r m'. run_graph X msg out_t count written m = Some (r, m') \<and> (\<forall>v. r = Inr v \<longrightarrow> length v = count)"
proof -
  obtain m1 where m1: "set_inputs X written m = Some m1" using set_inputs_defined [OF assms(1,2)] by blast
  show ?thesis
  proof (cases "ex_compute X out_t m1")
    case None
    with m1 show ?thesis by (simp add: run_graph_def)
  next
    case (Some m2)
    have "0 < a" "0 < h" using dims_pos [OF f32t_imp(4) [OF assms(3)]] by auto
    then have "int count \<le> prod_list [a, h, 1, 1]" using assms(4) by (simp add: mult.commute)
    then obtain v where "ex_get X out_t count m2 = Some v" "length v = count"
      using assms(1,3) unfolding executor_laws_def by blast
    with m1 Some show ?thesis by (simp add: run_graph_def)
  qed
qed

definition state_ok :: "(nat \<Rightarrow> bool \<Rightarrow> 't policy_graph \<Rightarrow> bool) \<Rightarrow> ('t, 'm) policy_state \<Rightarrow> bool" where
  "state_ok good st \<longleftrightarrow> (\<forall>g n s. ps_graph st = Some (g, n, s) \<longrightarrow> good n s g)"

text \<open>After a call with so many tokens, and with or without a state: the graph it has run was built for these.\<close>

definition ran_fitting_graph ::
  "(nat \<Rightarrow> bool \<Rightarrow> 't policy_graph \<Rightarrow> bool) \<Rightarrow> nat \<Rightarrow> bool \<Rightarrow> 'r res \<Rightarrow> ('t, 'm) policy_state \<Rightarrow> bool"
where
  "ran_fitting_graph good token_count uses_state r st \<longleftrightarrow>
     (case ps_graph st of
        None \<Rightarrow> (case r of Inl _ \<Rightarrow> True | Inr _ \<Rightarrow> False)
      | Some (g, n, s) \<Rightarrow> n = token_count \<and> s = uses_state \<and> good token_count uses_state g)"

lemma safeD:
  assumes "safe B k good build" "k \<le> gb_capacity B"
  shows "\<exists>r. build 0 = Some r \<and> (\<forall>x n'. r = Inr (x, n') \<longrightarrow> good x)"
proof -
  have "0 + k \<le> gb_capacity B" using assms(2) by simp
  with assms(1) show ?thesis unfolding safe_def by blast
qed

lemma cached_graph_safe:
  assumes build: "safe B k (good n s) build" "k \<le> gb_capacity B" and st: "state_ok good st"
  shows "\<exists>r. cached_graph build n s st = Some r \<and> (\<forall>g. r = Inr g \<longrightarrow> good n s g)"
proof -
  obtain r where r: "build 0 = Some r" "\<forall>x n'. r = Inr (x, n') \<longrightarrow> good n s x"
    using safeD [OF build] by blast
  have "\<exists>r'. map_option (map_sum (\<lambda>e. e) fst) (build 0) = Some r' \<and> (\<forall>g. r' = Inr g \<longrightarrow> good n s g)"
    using r by (cases r) (auto split: prod.splits)
  moreover have "good n s g" if "ps_graph st = Some (g, n, s)" for g
    using st that by (simp add: state_ok_def)
  ultimately show ?thesis
    by (auto simp: cached_graph_def split: option.split)
qed

lemma evaluate_graph_safe:
  assumes X: "executor_laws G X" and build: "safe B k (good n s) build" "k \<le> gb_capacity B"
    and st: "state_ok good st"
    and inp: "\<And>g. good n s g \<Longrightarrow> \<exists>written. inputs g = Some written \<and> list_all (writable G) written"
    and out_t: "\<And>g. good n s g \<Longrightarrow> f32t G [a, h, 1, 1] (pg_output g)"
  shows "\<exists>r st'. evaluate_graph X cmsg fmsg build n s (nat h * nat a) inputs st = Some (r, st') \<and>
    state_ok good st' \<and> answer_ok h a r \<and> ran_fitting_graph good n s r st'"
proof -
  obtain c where c: "cached_graph build n s st = Some c" "\<forall>g. c = Inr g \<longrightarrow> good n s g"
    using cached_graph_safe [OF build st] by blast
  show ?thesis
  proof (cases c)
    case (Inl e)
    with c show ?thesis by (simp add: evaluate_graph_def state_ok_def answer_ok_def ran_fitting_graph_def)
  next
    case (Inr g)
    with c(2) have g: "good n s g" by simp
    obtain written where v: "inputs g = Some written" "list_all (writable G) written" using inp [OF g] by blast
    obtain r m' where r: "run_graph X cmsg (pg_output g) (nat h * nat a) written (ps_memory st) = Some (r, m')"
        "\<forall>v. r = Inr v \<longrightarrow> length v = nat h * nat a"
      using run_graph_defined [OF X v(2) out_t [OF g] refl] by blast
    have "answer_ok h a (bind_res r (check_finite_output fmsg))"
      using r(2) by (cases r) (auto simp: answer_ok_def check_finite_output_def list_all_iff list_ex_iff)
    with c v r g Inr show ?thesis by (simp add: evaluate_graph_def state_ok_def ran_fitting_graph_def)
  qed
qed

lemma length_additive_mask: "length (additive_mask kq_mask q padded) = length kq_mask * padded"
  by (simp add: additive_mask_def length_concat_const [where k = "length kq_mask"])

text \<open>The inputs of the policies with a mask are written inside their tensors.\<close>

lemma mask_inputs_writable:
  assumes pad: "pad_queries q = Some queries"
    and g: "graph_ok G hidden_dims (Some (int (length kq_mask), queries)) None a h d w steps g"
    and lens: "int (length hidden) \<le> prod_list hidden_dims" "length noise = nat h * nat a"
      "length (lp_timestep_table p) = nat d * nat steps" "length (lp_action_table p) = nat w * nat steps"
  shows "\<exists>written. mask_inputs p q hidden kq_mask noise g = Some written \<and> list_all (writable G) written"
proof -
  obtain m where m: "pg_cross_mask g = Some m" "f32t G [int (length kq_mask), queries, 1, 1] m"
    and t: "f32t G hidden_dims (pg_hidden g)" "f32t G [a, h, 1, 1] (pg_noise g)"
      "f32t G [d, steps, 1, 1] (pg_timestep_projection g)" "f32t G [w, steps, 1, 1] (pg_action_time g)"
      "f32t G [1, 1, 1, 1] (pg_scalar_one g)"
    using g by (auto simp: graph_ok_def)
  have pos: "0 < queries" "0 < a" "0 < h" "0 < d" "0 < w" "0 < steps"
    using dims_pos [OF f32t_imp(4) [OF m(2)]] dims_pos [OF f32t_imp(4) [OF t(2)]]
      dims_pos [OF f32t_imp(4) [OF t(3)]] dims_pos [OF f32t_imp(4) [OF t(4)]] by auto
  have "writable G (pg_hidden g, hidden)" "writable G (m, additive_mask kq_mask (nat q) (nat queries))"
    "writable G (pg_noise g, noise)" "writable G (pg_timestep_projection g, lp_timestep_table p)"
    "writable G (pg_action_time g, lp_action_table p)" "writable G (pg_scalar_one g, [f32_one])"
    using t m(2) lens pos
    by (auto intro!: writableI simp: length_additive_mask mult.commute)
  with m(1) pad show ?thesis by (simp add: mask_inputs_def)
qed

lemma context_entries [simp]: "entries (graph_context B n) = entries B"
  by (rule ext) (simp add: entries_def)

lemma context_stored: "weights_stored B \<Longrightarrow> weights_stored (graph_context B n)"
  by (simp add: weights_stored_def)

lemma load_policy_config:
  assumes "load_policy_file env name parse_metadata bind_tensors path = Some (Inr c)"
    and "le_open env path = Some f" "entries B = pf_tensor f"
  shows "parse_metadata (pf_gguf f) = Some (Inr c)" "\<exists>bound. bind_tensors c (entries B) = Some (Inr bound)"
  using load_policy_file_Inr [OF assms(1)] assms(2,3) by auto

subsection \<open>GR00T\<close>

text \<open>What a loaded policy is.\<close>

lemma load_groot_policy_ready:
  assumes load: "load_groot_policy env X path = Some (Inr p)" "le_open env path = Some f" "entries B = pf_tensor f"
    and W: "weights_stored B"
  shows "groot_valid (lp_config p)" "groot_weights (graph_context B groot_graph_size) (lp_config p)"
    "length (lp_timestep_table p) = nat (gc_timestep_projection_dim (lp_config p)) * 4"
    "length (lp_action_table p) = nat (gc_dit_width (lp_config p)) * 4"
proof -
  obtain c where file_c: "load_policy_file env ''GR00T'' parse_groot_metadata bind_groot_tensors path = Some (Inr c)"
    and tables: "timestep_projection_table X (gc_timestep_projection_dim c) (gc_timestep_ids c) 4 = Some (lp_timestep_table p)"
      "action_time_table X (gc_dit_width c) (gc_timestep_ids c) 4 = Some (lp_action_table p)" "lp_config p = c"
    using load(1) by (auto simp: load_groot_policy_def bind_run_Inr bind_eq_Some_conv)
  note config = load_policy_config [OF file_c load(2,3)] and stored = context_stored [OF W]
  show v: "groot_valid (lp_config p)" using parse_groot_valid [OF config(1)] tables(3) by simp
  then show "groot_weights (graph_context B groot_graph_size) (lp_config p)" using config(2) bound_groot_weights [of _ "graph_context B groot_graph_size", unfolded context_entries] stored tables(3) by blast
  have "0 \<le> gc_timestep_projection_dim c" "0 \<le> gc_dit_width c" "4 \<le> length (gc_timestep_ids c)"
    using v tables(3) by (auto simp: groot_valid_def dit_ok_def groot_dit_def)
  then show "length (lp_timestep_table p) = nat (gc_timestep_projection_dim (lp_config p)) * 4"
    "length (lp_action_table p) = nat (gc_dit_width (lp_config p)) * 4"
    using tables_defined [of _ 4 "gc_timestep_ids c" X] tables by fastforce+
qed

lemma groot_evaluate_safe:
  assumes G: "ggml_laws (gb_ops B)" and X: "executor_laws (gb_ops B) X"
    and p: "groot_valid c" "groot_weights (graph_context B groot_graph_size) c" "length (lp_timestep_table p) = nat (gc_timestep_projection_dim c) * 4"
      "length (lp_action_table p) = nat (gc_dit_width c) * 4" "lp_config p = c"
    and pad: "pad_queries (gc_no_state_sequence_length c) = Some queries" and capacity: "groot_tensor_count c \<le> groot_graph_size"
    and st: "state_ok (\<lambda>n s. groot_graph_ok (gb_ops B) c n) st"
  shows "\<exists>r st'. groot_evaluate B X p hidden kq_mask noise st = Some (r, st') \<and>
    state_ok (\<lambda>n s. groot_graph_ok (gb_ops B) c n) st' \<and> answer_ok (gc_horizon c) (gc_action_dim c) r"
proof (cases "check_groot_inputs c hidden kq_mask noise")
  case (Inl e)
  with p(5) st show ?thesis by (simp add: groot_evaluate_def answer_ok_def)
next
  case (Inr checked)
  obtain hs ks ns where checked: "checked = (hs, ks, ns)" by (cases checked) auto
  with Inr have lens: "length hs = length ks * nat (gc_qwen_hidden_dim c)" "length ns = nat (gc_horizon c) * nat (gc_action_dim c)"
    by (auto simp: check_groot_inputs_def Let_def res_simps split: option.splits if_splits)
  have cap: "groot_tensor_count c \<le> gb_capacity (graph_context B groot_graph_size)" using capacity by simp
  have "\<exists>r st'. evaluate_graph X ''StarVLA GR00T graph compute failed'' ''StarVLA GR00T graph produced non-finite actions''
      (build_groot_graph (graph_context B groot_graph_size) c (length ks)) (length ks) False (nat (gc_horizon c) * nat (gc_action_dim c))
      (mask_inputs p (gc_no_state_sequence_length c) hs ks ns) st = Some (r, st') \<and>
    state_ok (\<lambda>n s. groot_graph_ok (gb_ops B) c n) st' \<and> answer_ok (gc_horizon c) (gc_action_dim c) r \<and>
    ran_fitting_graph (\<lambda>n s. groot_graph_ok (gb_ops B) c n) (length ks) False r st'"
  proof (rule evaluate_graph_safe [OF X groot_graph_safe [of "graph_context B groot_graph_size", unfolded graph_context_simps, OF G p(1,2) pad]
      cap st])
    fix g assume "groot_graph_ok (gb_ops B) c (length ks) g"
    then have g: "graph_ok (gb_ops B) [gc_qwen_hidden_dim c, int (length ks), 1, 1] (Some (int (length ks), queries)) None
        (gc_action_dim c) (gc_horizon c) (gc_timestep_projection_dim c) (gc_dit_width c) 4 g"
      using pad by (auto simp: groot_graph_ok_def)
    show "\<exists>written. mask_inputs p (gc_no_state_sequence_length c) hs ks ns g = Some written \<and>
        list_all (writable (gb_ops B)) written"
      using p(1) by (intro mask_inputs_writable [OF pad g])
        (simp_all add: lens p mult.commute groot_valid_def)
    show "f32t (gb_ops B) [gc_action_dim c, gc_horizon c, 1, 1] (pg_output g)" using g by (simp add: graph_ok_def)
  qed
  with Inr p(5) checked show ?thesis by (auto simp: groot_evaluate_def)
qed

text \<open>C5. Let ggml keep its documented shapes and reads and writes inside a tensor succeed, and let the GR00T policy be loaded
  from a file whose tensors are the weights, with so few blocks that its tensors fit a context of \<open>kGraphSize\<close>.  Then any
  sequence of evaluate calls, with any conditioning, mask and noise (null pointers, wrong sizes and non-finite values
  included), returns every time: no assertion of the library fails, no tensor is accessed out of its bounds, and
  each answer is an error or horizon times action dimension finite values, whatever graph earlier calls left cached.
\<close>

theorem groot_evaluations_safe:
  assumes "ggml_laws (gb_ops B)" "weights_stored B" "executor_laws (gb_ops B) X"
    and "load_groot_policy env X path = Some (Inr p)" "le_open env path = Some f" "entries B = pf_tensor f"
    and "gc_no_state_sequence_length (lp_config p) + 32 \<le> INT_MAX" "groot_tensor_count (lp_config p) \<le> groot_graph_size"
  shows "\<exists>rs. calls (\<lambda>(hidden, kq_mask, noise). groot_evaluate B X p hidden kq_mask noise) requests
      \<lparr>ps_graph = None, ps_memory = m\<rparr> = Some rs \<and> length rs = length requests \<and>
    list_all (answer_ok (gc_horizon (lp_config p)) (gc_action_dim (lp_config p))) rs"
proof -
  note ready = load_groot_policy_ready [OF assms(4,5,6,2)]
  have "0 \<le> gc_no_state_sequence_length (lp_config p)" using ready(1) by (simp add: groot_valid_def)
  then obtain queries where pad: "pad_queries (gc_no_state_sequence_length (lp_config p)) = Some queries"
    using assms(7) by (simp add: pad_queries_def kKQMaskPad_def fits_sint_def INT_MAX_def)
  show ?thesis
    by (rule calls_invariant [where I = "state_ok (\<lambda>n s. groot_graph_ok (gb_ops B) (lp_config p) n)"])
      (use groot_evaluate_safe [OF assms(1,3) ready refl pad assms(8)] in \<open>auto simp: state_ok_def split: prod.split\<close>)
qed

subsection \<open>PI-v3\<close>

lemma load_pi_v3_policy_ready:
  assumes load: "load_pi_v3_policy env X path = Some (Inr p)" "le_open env path = Some f" "entries B = pf_tensor f"
    and W: "weights_stored B"
  shows "v3_valid (lp_config p)" "v3_weights (graph_context B pi_v3_graph_size) (lp_config p)"
    "length (lp_timestep_table p) = nat (vc_timestep_projection_dim (lp_config p)) * 4"
    "length (lp_action_table p) = nat (vc_dit_width (lp_config p)) * 4"
proof -
  obtain c where file_c: "load_policy_file env ''PI_v3'' parse_pi_v3_metadata bind_pi_v3_tensors path = Some (Inr c)"
    and tables: "timestep_projection_table X (vc_timestep_projection_dim c) (vc_timestep_ids c) 4 = Some (lp_timestep_table p)"
      "action_time_table X (vc_dit_width c) (vc_timestep_ids c) 4 = Some (lp_action_table p)" "lp_config p = c"
    using load(1) by (auto simp: load_pi_v3_policy_def bind_run_Inr bind_eq_Some_conv)
  note config = load_policy_config [OF file_c load(2,3)] and stored = context_stored [OF W]
  show v: "v3_valid (lp_config p)" using parse_pi_v3_valid [OF config(1)] tables(3) by simp
  then show "v3_weights (graph_context B pi_v3_graph_size) (lp_config p)" using config(2) bound_v3_weights [of _ "graph_context B pi_v3_graph_size", unfolded context_entries] stored tables(3) by blast
  have "0 \<le> vc_timestep_projection_dim c" "0 \<le> vc_dit_width c" "4 \<le> length (vc_timestep_ids c)"
    using v tables(3) by (auto simp: v3_valid_def dit_ok_def v3_dit_def)
  then show "length (lp_timestep_table p) = nat (vc_timestep_projection_dim (lp_config p)) * 4"
    "length (lp_action_table p) = nat (vc_dit_width (lp_config p)) * 4"
    using tables_defined [of _ 4 "vc_timestep_ids c" X] tables by fastforce+
qed

lemma pi_v3_evaluate_safe:
  assumes G: "ggml_laws (gb_ops B)" and X: "executor_laws (gb_ops B) X"
    and p: "v3_valid c" "v3_weights (graph_context B pi_v3_graph_size) c" "length (lp_timestep_table p) = nat (vc_timestep_projection_dim c) * 4"
      "length (lp_action_table p) = nat (vc_dit_width c) * 4" "lp_config p = c"
    and pad: "pad_queries (vc_no_state_sequence_length c) = Some queries" and capacity: "v3_tensor_count c \<le> pi_v3_graph_size"
    and st: "state_ok (\<lambda>n s. v3_graph_ok (gb_ops B) c n) st"
  shows "\<exists>r st'. pi_v3_evaluate B X p hidden kq_mask noise st = Some (r, st') \<and>
    state_ok (\<lambda>n s. v3_graph_ok (gb_ops B) c n) st' \<and> answer_ok (vc_horizon c) (vc_action_dim c) r"
proof (cases "check_pi_v3_inputs c hidden kq_mask noise")
  case (Inl e)
  with p(5) st show ?thesis by (simp add: pi_v3_evaluate_def answer_ok_def)
next
  case (Inr checked)
  obtain hs ks ns where checked: "checked = (hs, ks, ns)" by (cases checked) auto
  with Inr have lens: "length hs = length ks * nat (vc_qwen_hidden_dim c) * nat (vc_qwen_layer_count c)"
    "length ns = nat (vc_horizon c) * nat (vc_action_dim c)"
    by (auto simp: check_pi_v3_inputs_def Let_def res_simps split: option.splits if_splits)
  have cap: "v3_tensor_count c \<le> gb_capacity (graph_context B pi_v3_graph_size)" using capacity by simp
  have "\<exists>r st'. evaluate_graph X ''StarVLA PI_v3 graph compute failed'' ''StarVLA PI_v3 graph produced non-finite actions''
      (build_pi_v3_graph (graph_context B pi_v3_graph_size) c (length ks)) (length ks) False (nat (vc_horizon c) * nat (vc_action_dim c))
      (mask_inputs p (vc_no_state_sequence_length c) hs ks ns) st = Some (r, st') \<and>
    state_ok (\<lambda>n s. v3_graph_ok (gb_ops B) c n) st' \<and> answer_ok (vc_horizon c) (vc_action_dim c) r \<and>
    ran_fitting_graph (\<lambda>n s. v3_graph_ok (gb_ops B) c n) (length ks) False r st'"
  proof (rule evaluate_graph_safe [OF X v3_graph_safe [of "graph_context B pi_v3_graph_size", unfolded graph_context_simps, OF G p(1,2) pad]
      cap st])
    fix g assume "v3_graph_ok (gb_ops B) c (length ks) g"
    then have g: "graph_ok (gb_ops B) [vc_qwen_hidden_dim c, int (length ks), vc_qwen_layer_count c, 1]
        (Some (int (length ks), queries)) None
        (vc_action_dim c) (vc_horizon c) (vc_timestep_projection_dim c) (vc_dit_width c) 4 g"
      using pad by (auto simp: v3_graph_ok_def)
    show "\<exists>written. mask_inputs p (vc_no_state_sequence_length c) hs ks ns g = Some written \<and>
        list_all (writable (gb_ops B)) written"
      using p(1) by (intro mask_inputs_writable [OF pad g])
        (simp_all add: lens p mult_ac v3_valid_def)
    show "f32t (gb_ops B) [vc_action_dim c, vc_horizon c, 1, 1] (pg_output g)" using g by (simp add: graph_ok_def)
  qed
  with Inr p(5) checked show ?thesis by (auto simp: pi_v3_evaluate_def)
qed

subsection \<open>PI\<close>

lemma load_pi_policy_ready:
  assumes load: "load_pi_policy env X path = Some (Inr p)" "le_open env path = Some f" "entries B = pf_tensor f"
    and W: "weights_stored B"
  shows "pi_valid (lp_config p)" "pi_weights (graph_context B pi_graph_size) (lp_config p)"
    "length (lp_timestep_table p) = nat (pc_timestep_projection_dim (lp_config p)) * nat (pc_num_inference_timesteps (lp_config p))"
    "length (lp_action_table p) = nat (pc_dit_width (lp_config p)) * nat (pc_num_inference_timesteps (lp_config p))"
proof -
  obtain c where file_c: "load_policy_file env ''PI'' parse_pi_metadata bind_pi_tensors path = Some (Inr c)"
    and tables: "timestep_projection_table X (pc_timestep_projection_dim c) (pc_timestep_ids c)
        (nat (pc_num_inference_timesteps c)) = Some (lp_timestep_table p)"
      "action_time_table X (pc_dit_width c) (pc_timestep_ids c) (nat (pc_num_inference_timesteps c)) = Some (lp_action_table p)"
      "lp_config p = c"
    using load(1) by (auto simp: load_pi_policy_def bind_run_Inr bind_eq_Some_conv Let_def)
  note config = load_policy_config [OF file_c load(2,3)] and stored = context_stored [OF W]
  show v: "pi_valid (lp_config p)" using parse_pi_valid [OF config(1)] tables(3) by simp
  then show "pi_weights (graph_context B pi_graph_size) (lp_config p)" using config(2) bound_pi_weights [of _ "graph_context B pi_graph_size", unfolded context_entries] stored tables(3) by blast
  have "0 \<le> pc_timestep_projection_dim c" "0 \<le> pc_dit_width c"
    "nat (pc_num_inference_timesteps c) \<le> length (pc_timestep_ids c)"
    using v tables(3) by (auto simp: pi_valid_def dit_ok_def pi_dit_def)
  then show "length (lp_timestep_table p) = nat (pc_timestep_projection_dim (lp_config p)) * nat (pc_num_inference_timesteps (lp_config p))"
    "length (lp_action_table p) = nat (pc_dit_width (lp_config p)) * nat (pc_num_inference_timesteps (lp_config p))"
    using tables_defined [of _ "nat (pc_num_inference_timesteps c)" "pc_timestep_ids c" X] tables by fastforce+
qed

lemma pi_inputs_writable:
  assumes g: "graph_ok G hidden_dims None (map_option (\<lambda>v. int (length v)) state) a h d w (int steps) g"
    and lens: "int (length hidden) \<le> prod_list hidden_dims" "length noise = nat h * nat a"
      "length (lp_timestep_table p) = nat d * steps" "length (lp_action_table p) = nat w * steps"
  shows "\<exists>written. pi_inputs p hidden state noise g = Some written \<and> list_all (writable G) written"
proof -
  have t: "f32t G hidden_dims (pg_hidden g)" "f32t G [a, h, 1, 1] (pg_noise g)"
      "f32t G [d, int steps, 1, 1] (pg_timestep_projection g)" "f32t G [w, int steps, 1, 1] (pg_action_time g)"
      "f32t G [1, 1, 1, 1] (pg_scalar_one g)"
    using g by (auto simp: graph_ok_def)
  have pos: "0 < a" "0 < h" "0 < d" "0 < w"
    using dims_pos [OF f32t_imp(4) [OF t(2)]] dims_pos [OF f32t_imp(4) [OF t(3)]] dims_pos [OF f32t_imp(4) [OF t(4)]] by auto
  have "writable G (pg_hidden g, hidden)" "writable G (pg_noise g, noise)"
    "writable G (pg_timestep_projection g, lp_timestep_table p)"
    "writable G (pg_action_time g, lp_action_table p)" "writable G (pg_scalar_one g, [f32_one])"
    using t lens pos by (auto intro!: writableI simp: mult.commute)
  moreover have "\<exists>t. pg_state g = Some t \<and> writable G (t, v)" if "state = Some v" for v
  proof -
    obtain t where "pg_state g = Some t" "f32t G [int (length v), 1, 1, 1] t"
      using g \<open>state = Some v\<close> by (auto simp: graph_ok_def)
    then show ?thesis by (auto intro!: writableI)
  qed
  ultimately show ?thesis by (cases state) (auto simp: pi_inputs_def)
qed

lemma pi_skipped_defined:
  assumes "pi_valid c" "pc_future_token_count c < INT_MAX"
  shows "\<exists>skipped. pi_skipped c include_state = Some skipped"
  using assms by (auto simp: pi_skipped_def pi_valid_def fits_sint_def INT_MAX_def Let_def)

lemma pi_evaluate_safe:
  assumes G: "ggml_laws (gb_ops B)" and X: "executor_laws (gb_ops B) X"
    and p: "pi_valid c" "pi_weights (graph_context B pi_graph_size) c"
      "length (lp_timestep_table p) = nat (pc_timestep_projection_dim c) * nat (pc_num_inference_timesteps c)"
      "length (lp_action_table p) = nat (pc_dit_width c) * nat (pc_num_inference_timesteps c)" "lp_config p = c"
    and future: "pc_future_token_count c < INT_MAX" and capacity: "pi_tensor_count c \<le> pi_graph_size"
    and st: "state_ok (pi_graph_ok (gb_ops B) c) st"
  shows "\<exists>r st'. pi_evaluate B X p hidden state noise st = Some (r, st') \<and>
    state_ok (pi_graph_ok (gb_ops B) c) st' \<and> answer_ok (pc_horizon c) (pc_action_dim c) r \<and>
    (case check_pi_inputs c hidden state noise of
         Inl e \<Rightarrow> r = Inl e
       | Inr (_, token_count, checked_state, _) \<Rightarrow>
           ran_fitting_graph (pi_graph_ok (gb_ops B) c) token_count (checked_state \<noteq> None) r st')"
proof (cases "check_pi_inputs c hidden state noise")
  case (Inl e)
  with p(5) st show ?thesis by (simp add: pi_evaluate_def answer_ok_def)
next
  case (Inr checked)
  obtain hs n ss ns where checked: "checked = (hs, n, ss, ns)" by (cases checked) auto
  with Inr have lens: "length hs mod (nat (pc_block_count c) * nat (pc_qwen_hidden_dim c)) = 0"
      "n = length hs div (nat (pc_block_count c) * nat (pc_qwen_hidden_dim c))"
      "length ns = nat (pc_horizon c) * nat (pc_action_dim c)" "check_pi_state c state = Inr ss"
    by (auto simp: check_pi_inputs_def Let_def res_simps split: if_splits)
  have hidden_len: "length hs = nat (pc_qwen_hidden_dim c) * n * nat (pc_block_count c)"
    using lens(1,2) by (metis add.right_neutral mult_div_mod_eq mult.assoc mult.commute)
  have state_len: "(if ss \<noteq> None then Some (pc_state_dim c) else None) = map_option (\<lambda>v. int (length v)) ss"
    using lens(4) p(1) by (auto simp: check_pi_state_def pi_valid_def split: if_splits buffer.splits)
  obtain skipped where skipped: "pi_skipped c (ss \<noteq> None) = Some skipped" using pi_skipped_defined [OF p(1) future] by blast
  have cap: "pi_tensor_count c \<le> gb_capacity (graph_context B pi_graph_size)" using capacity by simp
  have "\<exists>r st'. evaluate_graph X ''StarVLA PI graph compute failed'' ''StarVLA PI graph produced non-finite actions''
      (build_pi_graph (graph_context B pi_graph_size) c n (ss \<noteq> None)) n (ss \<noteq> None) (nat (pc_horizon c) * nat (pc_action_dim c))
      (pi_inputs p hs ss ns) st = Some (r, st') \<and>
    state_ok (pi_graph_ok (gb_ops B) c) st' \<and> answer_ok (pc_horizon c) (pc_action_dim c) r \<and>
    ran_fitting_graph (pi_graph_ok (gb_ops B) c) n (ss \<noteq> None) r st'"
  proof (rule evaluate_graph_safe [OF X pi_graph_safe [of "graph_context B pi_graph_size", unfolded graph_context_simps, OF G p(1,2) skipped]
      cap st])
    fix g assume g: "pi_graph_ok (gb_ops B) c n (ss \<noteq> None) g"
    have steps: "int (nat (pc_num_inference_timesteps c)) = pc_num_inference_timesteps c" using p(1) by (simp add: pi_valid_def)
    have g': "graph_ok (gb_ops B) [pc_qwen_hidden_dim c, int n, pc_block_count c, 1] None (map_option (\<lambda>v. int (length v)) ss)
        (pc_action_dim c) (pc_horizon c) (pc_timestep_projection_dim c) (pc_dit_width c)
        (int (nat (pc_num_inference_timesteps c))) g"
      using g unfolding pi_graph_ok_def state_len steps .
    show "\<exists>written. pi_inputs p hs ss ns g = Some written \<and> list_all (writable (gb_ops B)) written"
      using p(1) by (intro pi_inputs_writable [OF g']) (simp_all add: hidden_len lens(3) p pi_valid_def)
    show "f32t (gb_ops B) [pc_action_dim c, pc_horizon c, 1, 1] (pg_output g)" using g by (simp add: pi_graph_ok_def graph_ok_def)
  qed
  with Inr p(5) checked show ?thesis by (simp add: pi_evaluate_def)
qed

text \<open>C6. The same for PI, whose state may be omitted.  Let the configuration have fewer than \<open>INT_MAX\<close> future tokens and so
  few blocks and steps that its tensors fit \<open>kGraphSize\<close>.  Then any sequence of
  evaluate calls, with and without a state and with any number of tokens,
  returns an error or horizon times action dimension finite values each time.  A stale graph is never run: after each
  call whose inputs are accepted, the graph that was run is one whose input tensors have exactly the number of tokens of
  this call, and a state exactly when this call has one, whatever graph was cached before; only when it cannot be
  built is there none, and an error.
\<close>

theorem pi_evaluations_safe:
  assumes "ggml_laws (gb_ops B)" "weights_stored B" "executor_laws (gb_ops B) X"
    and "load_pi_policy env X path = Some (Inr p)" "le_open env path = Some f" "entries B = pf_tensor f"
    and "pc_future_token_count (lp_config p) < INT_MAX" "pi_tensor_count (lp_config p) \<le> pi_graph_size"
  shows "\<exists>rs. traced (\<lambda>(hidden, state, noise). pi_evaluate B X p hidden state noise) requests
      \<lparr>ps_graph = None, ps_memory = m\<rparr> = Some rs \<and>
    list_all2 (\<lambda>(hidden, state, noise) (r, st). answer_ok (pc_horizon (lp_config p)) (pc_action_dim (lp_config p)) r \<and>
      (case check_pi_inputs (lp_config p) hidden state noise of
         Inl e \<Rightarrow> r = Inl e
       | Inr (_, token_count, checked_state, _) \<Rightarrow>
           ran_fitting_graph (pi_graph_ok (gb_ops B) (lp_config p)) token_count (checked_state \<noteq> None) r st)) requests rs"
proof -
  note ready = load_pi_policy_ready [OF assms(4,5,6,2)]
  show ?thesis
    by (rule traced_invariant [where I = "state_ok (pi_graph_ok (gb_ops B) (lp_config p))"])
      (use pi_evaluate_safe [OF assms(1,3) ready refl assms(7,8)] in \<open>auto simp: state_ok_def split: prod.split\<close>)
qed

text \<open>PI-v3.\<close>

theorem pi_v3_evaluations_safe:
  assumes "ggml_laws (gb_ops B)" "weights_stored B" "executor_laws (gb_ops B) X"
    and "load_pi_v3_policy env X path = Some (Inr p)" "le_open env path = Some f" "entries B = pf_tensor f"
    and "vc_no_state_sequence_length (lp_config p) + 32 \<le> INT_MAX" "v3_tensor_count (lp_config p) \<le> pi_v3_graph_size"
  shows "\<exists>rs. calls (\<lambda>(hidden, kq_mask, noise). pi_v3_evaluate B X p hidden kq_mask noise) requests
      \<lparr>ps_graph = None, ps_memory = m\<rparr> = Some rs \<and> length rs = length requests \<and>
    list_all (answer_ok (vc_horizon (lp_config p)) (vc_action_dim (lp_config p))) rs"
proof -
  note ready = load_pi_v3_policy_ready [OF assms(4,5,6,2)]
  have "0 \<le> vc_no_state_sequence_length (lp_config p)" using ready(1) by (simp add: v3_valid_def)
  then obtain queries where pad: "pad_queries (vc_no_state_sequence_length (lp_config p)) = Some queries"
    using assms(7) by (simp add: pad_queries_def kKQMaskPad_def fits_sint_def INT_MAX_def)
  show ?thesis
    by (rule calls_invariant [where I = "state_ok (\<lambda>n s. v3_graph_ok (gb_ops B) (lp_config p) n)"])
      (use pi_v3_evaluate_safe [OF assms(1,3) ready refl pad assms(8)] in \<open>auto simp: state_ok_def split: prod.split\<close>)
qed

subsection \<open>OFT\<close>

text \<open>The graph is built by \<open>load\<close>; the answers are not checked to be finite.\<close>

theorem oft_evaluations_safe:
  assumes G: "ggml_laws (gb_ops B)" and W: "weights_stored B" and X: "executor_laws (gb_ops B) X"
    and load: "load_oft_policy env B path = Some (Inr p)" "le_open env path = Some f" "entries B = pf_tensor f"
    and capacity: "oft_tensor_count (fst p) \<le> ggml_default_graph_size"
  shows "\<exists>rs. calls (oft_evaluate X p) requests m = Some rs \<and> length rs = length requests \<and>
    list_all (\<lambda>r. \<forall>v. r = Inr v \<longrightarrow> length v = nat (oc_horizon (fst p)) * nat (oc_action_dim (fst p))) rs"
proof -
  obtain c g n where file_c: "load_policy_file env ''OFT'' (\<lambda>g. Some (parse_oft_metadata g)) bind_oft_tensors path = Some (Inr c)"
    and g: "build_oft_graph (graph_context B ggml_default_graph_size) c 0 = Some (Inr (g, n))" "p = (c, g)"
    using load(1) by (auto simp: load_oft_policy_def bind_run_Inr)
  note config = load_policy_config [OF file_c load(2,3)]
  have c: "oft_valid c" "oft_weights (graph_context B ggml_default_graph_size) c"
    using config bound_oft_weights [of _ "graph_context B ggml_default_graph_size"] context_stored [OF W] parse_oft_valid by auto
  have t: "f32t (gb_ops B) [oc_input_dim c, oc_horizon c, 1, 1] (og_input g)"
    "f32t (gb_ops B) [oc_action_dim c, oc_horizon c, 1, 1] (og_output g)"
    using safeD [OF oft_graph_safe [of "graph_context B ggml_default_graph_size", unfolded graph_context_simps, OF G c]] capacity g by auto
  have "\<exists>r m'. oft_evaluate X p q m = Some (r, m') \<and>
      (\<forall>v. r = Inr v \<longrightarrow> length v = nat (oc_horizon c) * nat (oc_action_dim c))" for q m
  proof (cases "\<exists>v. q = Some v \<and> length v = nat (oc_horizon c) * nat (oc_input_dim c)")
    case True
    then obtain v where v: "q = Some v" "length v = nat (oc_horizon c) * nat (oc_input_dim c)" by blast
    have "writable (gb_ops B) (og_input g, v)"
      using v c(1) by (auto intro: writableI [OF t(1)] simp: oft_valid_def mult.commute)
    then have "list_all (writable (gb_ops B)) [(og_input g, v)]" by simp
    from run_graph_defined [OF X this t(2) refl] v show ?thesis by (simp add: oft_evaluate_def g(2))
  qed (auto simp: oft_evaluate_def g(2) split: option.split)
  then show ?thesis
    using calls_invariant [of "\<lambda>_. True" "oft_evaluate X p"
      "\<lambda>r. \<forall>v. r = Inr v \<longrightarrow> length v = nat (oc_horizon c) * nat (oc_action_dim c)" m requests] g(2) by auto
qed

end
