(* ===== verification/PlainGgml.thy ===== *)
theory PlainGgml
  imports PolicyEval
begin

text \<open>
  A concrete library and concrete policy files, on which the assumptions of the theorems on policies hold: tensors
  that are a type, four dimensions and two flags, and files whose metadata and tensors are the ones the
  policies ask for.
\<close>

subsection \<open>A library of shapes\<close>

datatype plain = Plain (p_type: ggml_type) (p0: int) (p1: int) (p2: int) (p3: int) (p_contiguous: bool) (p_transposed: bool)

definition plain_dims :: "plain \<Rightarrow> int list" where
  "plain_dims t = [p0 t, p1 t, p2 t, p3 t]"

fun plain_of :: "ggml_type \<Rightarrow> int list \<Rightarrow> plain" where
  "plain_of ty [a] = Plain ty a 1 1 1 True False"
| "plain_of ty [a, b] = Plain ty a b 1 1 True False"
| "plain_of ty [a, b, c] = Plain ty a b c 1 True False"
| "plain_of ty (a # b # c # d # _) = Plain ty a b c d True False"
| "plain_of ty [] = Plain ty 1 1 1 1 True False"

text \<open>\<open>ggml_n_dims\<close>.\<close>

definition plain_n_dims :: "plain \<Rightarrow> nat" where
  "plain_n_dims t = (if p3 t > 1 then 4 else if p2 t > 1 then 3 else if p1 t > 1 then 2 else 1)"

definition plain_entry :: "plain \<Rightarrow> tensor_entry" where
  "plain_entry t = \<lparr>te_type = p_type t, te_n_dims = plain_n_dims t,
     te_ne = (\<lambda>i. if i = 0 then p0 t else if i = 1 then p1 t else if i = 2 then p2 t else if i = 3 then p3 t else 1),
     te_nelements = prod_list (plain_dims t), te_nbytes = 4 * nat (prod_list (plain_dims t))\<rparr>"

definition plain_permute :: "plain \<Rightarrow> nat \<Rightarrow> nat \<Rightarrow> nat \<Rightarrow> nat \<Rightarrow> plain option" where
  "plain_permute t a b c d =
     (let at = (\<lambda>i. if a = i then p0 t else if b = i then p1 t else if c = i then p2 t else p3 t)
      in Some (Plain (p_type t) (at 0) (at 1) (at 2) (at 3) False (a \<noteq> 0)))"

definition plain_concat :: "plain \<Rightarrow> plain \<Rightarrow> nat \<Rightarrow> plain option" where
  "plain_concat t u d = Some (plain_of (p_type t) ((plain_dims t)[d := plain_dims t ! d + plain_dims u ! d]))"

definition like :: "plain \<Rightarrow> plain option" where
  "like t = Some (plain_of (p_type t) (plain_dims t))"

definition plain_ggml :: "plain ggml" where
  "plain_ggml = \<lparr>gg_entry = plain_entry, gg_nb = (\<lambda>t i. 4 * nat (prod_list (take i (plain_dims t)))),
     gg_is_contiguous = p_contiguous, gg_is_transposed = p_transposed, gg_new_tensor = (\<lambda>ty ds. Some (plain_of ty ds)),
     gg_cast = (\<lambda>t ty. Some (plain_of ty (plain_dims t))), gg_norm = (\<lambda>t x. like t), gg_mul = (\<lambda>a b. like a),
     gg_add = (\<lambda>a b. like a), gg_mul_mat = (\<lambda>a b. Some (plain_of GGML_TYPE_F32 [p1 a, p1 b, p2 b])),
     gg_relu = like, gg_silu = like, gg_gelu = like, gg_scale = (\<lambda>t x. like t),
     gg_view_1d = (\<lambda>t n offset. Some (plain_of (p_type t) [n])),
     gg_view_2d = (\<lambda>t a n stride offset. Some (plain_of (p_type t) [a, n])),
     gg_reshape = (\<lambda>t ds. Some (plain_of (p_type t) ds)), gg_permute = plain_permute, gg_cont = like,
     gg_cont_2d = (\<lambda>t x y. Some (plain_of (p_type t) [x, y])), gg_soft_max_ext = (\<lambda>t m s b. like t),
     gg_repeat = (\<lambda>t u. Some (plain_of (p_type t) (plain_dims u))), gg_concat = plain_concat\<rparr>"

lemma four: "[0..<4] = [0, Suc 0, 2, 3]"
  by (simp add: upt_rec numeral_2_eq_2 numeral_3_eq_3)

lemma plain_fields:
  "dims plain_ggml ds t \<longleftrightarrow> plain_dims t = ds \<and> list_all (\<lambda>d. d > 0) ds"
  "tensor_type plain_ggml t = p_type t" "gg_is_contiguous plain_ggml t = p_contiguous t"
  "gg_is_transposed plain_ggml t = p_transposed t" "ne plain_ggml t 1 = p1 t"
  by (auto simp: dims_def ne_def tensor_type_def plain_ggml_def plain_entry_def plain_dims_def four)

lemma plain_ops:
  "gg_nb plain_ggml t i = 4 * nat (prod_list (take i (plain_dims t)))"
  "gg_new_tensor plain_ggml ty ds = Some (plain_of ty ds)" "gg_cast plain_ggml t ty = Some (plain_of ty (plain_dims t))"
  "gg_norm plain_ggml t x = like t" "gg_mul plain_ggml t u = like t" "gg_add plain_ggml t u = like t"
  "gg_mul_mat plain_ggml t u = Some (plain_of GGML_TYPE_F32 [p1 t, p1 u, p2 u])"
  "gg_relu plain_ggml t = like t" "gg_silu plain_ggml t = like t" "gg_gelu plain_ggml t = like t"
  "gg_scale plain_ggml t x = like t" "gg_view_1d plain_ggml t n offset = Some (plain_of (p_type t) [n])"
  "gg_view_2d plain_ggml t a n stride offset = Some (plain_of (p_type t) [a, n])"
  "gg_reshape plain_ggml t ds = Some (plain_of (p_type t) ds)" "gg_permute plain_ggml = plain_permute"
  "gg_cont plain_ggml t = like t" "gg_cont_2d plain_ggml t n a = Some (plain_of (p_type t) [n, a])"
  "gg_soft_max_ext plain_ggml t m x y = like t" "gg_repeat plain_ggml t u = Some (plain_of (p_type t) (plain_dims u))"
  "gg_concat plain_ggml = plain_concat"
  by (simp_all add: plain_ggml_def)

lemmas plain_simps = plain_fields plain_ops gives_def f32t_def strided_def rows_def stored_def plain_dims_def like_def
  plain_permute_def plain_concat_def

lemma plain_laws: "ggml_laws plain_ggml"
proof -
  have "law_new plain_ggml" by (simp add: law_new_def plain_simps)
  moreover have "law_strides plain_ggml"
    by (auto simp: law_strides_def plain_simps plain_fields(5) [simplified] numeral_2_eq_2 nat_mult_distrib)
  moreover have "law_cast plain_ggml" by (auto simp: law_cast_def plain_simps)
  moreover have "law_elementwise plain_ggml" by (auto simp: law_elementwise_def plain_simps)
  moreover have "law_mul_mat plain_ggml" by (auto simp: law_mul_mat_def plain_simps)
  moreover have "law_views plain_ggml" by (auto simp: law_views_def plain_simps)
  moreover have "law_layout plain_ggml" by (auto simp: law_layout_def plain_simps)
  moreover have "law_soft_max plain_ggml" by (auto simp: law_soft_max_def plain_simps)
  moreover have "law_join plain_ggml" by (auto simp: law_join_def plain_simps)
  ultimately show ?thesis by (simp add: ggml_laws_def)
qed

text \<open>Execution that writes nothing and reads zeros.\<close>

definition zero_executor :: "(plain, unit) executor" where
  "zero_executor = \<lparr>ex_set = (\<lambda>t v m. Some m), ex_compute = (\<lambda>t m. Some m),
     ex_get = (\<lambda>t n m. Some (replicate n f32_zero)), ex_exp = (\<lambda>x. x), ex_log = (\<lambda>x. x), ex_sin = (\<lambda>x. x),
     ex_cos = (\<lambda>x. x)\<rparr>"

lemma zero_executor_laws: "executor_laws plain_ggml zero_executor"
  by (simp add: executor_laws_def zero_executor_def)

subsection \<open>Files from lists of shapes\<close>

definition plain_weights :: "shape_check list \<Rightarrow> string \<Rightarrow> plain option" where
  "plain_weights checks name = map_option (plain_of GGML_TYPE_F32) (map_of checks name)"

definition plain_builder :: "shape_check list \<Rightarrow> plain builder" where
  "plain_builder checks = \<lparr>gb_ops = plain_ggml, gb_weights = plain_weights checks, gb_capacity = 100000, gb_init = True,
     gb_new_graph = True, gb_alloc = (\<lambda>_. True)\<rparr>"

definition plain_file :: "(string \<times> gguf_value) list \<Rightarrow> shape_check list \<Rightarrow> policy_file" where
  "plain_file metadata checks = \<lparr>pf_gguf = gguf_of metadata, pf_tensor_names = map fst checks,
     pf_tensor = (\<lambda>name. map_option plain_entry (plain_weights checks name)), pf_data_offset = 0,
     pf_tensor_offset = (\<lambda>_. Some 0), pf_content = Some (replicate 1024 0)\<rparr>"

definition plain_env :: "policy_file \<Rightarrow> load_env" where
  "plain_env f = \<lparr>le_backend = Inr (), le_platform = \<lparr>pl_context = True, pl_buffer = True\<rparr>, le_open = (\<lambda>_. Some f)\<rparr>"

lemma plain_builder_laws:
  "ggml_laws (gb_ops (plain_builder checks))" "executor_laws (gb_ops (plain_builder checks)) zero_executor"
  by (simp_all add: plain_builder_def plain_laws zero_executor_laws)

lemma plain_env_opens: "le_open (plain_env f) path = Some f"
  by (simp add: plain_env_def)

text \<open>Vectors and matrices of at most 256 numbers; the last dimension of a matrix is not 1.\<close>

definition small_shape :: "int list \<Rightarrow> bool" where
  "small_shape shape \<longleftrightarrow> (\<exists>a. shape = [a] \<and> 0 < a \<and> a \<le> 16) \<or> (\<exists>a b. shape = [a, b] \<and> 0 < a \<and> a \<le> 16 \<and> 1 < b \<and> b \<le> 16)"

lemma plain_has_shape: "small_shape shape \<Longrightarrow> has_shape (plain_entry (plain_of ty shape)) shape"
  by (auto simp: small_shape_def has_shape_def plain_entry_def plain_n_dims_def)

lemma plain_entries: "entries (plain_builder checks) = pf_tensor (plain_file metadata checks)"
  by (simp add: entries_def plain_builder_def plain_file_def plain_ggml_def fun_eq_iff)

lemma plain_weights_stored:
  assumes "\<forall>(name, shape) \<in> set checks. small_shape shape"
  shows "weights_stored (plain_builder checks)"
  unfolding weights_stored_def
proof (intro allI impI)
  fix name w assume "gb_weights (plain_builder checks) name = Some w"
  then obtain shape where "(name, shape) \<in> set checks" "w = plain_of GGML_TYPE_F32 shape"
    by (auto simp: plain_builder_def plain_weights_def dest: map_of_SomeD)
  with assms show "gg_is_contiguous (gb_ops (plain_builder checks)) w \<and> \<not> gg_is_transposed (gb_ops (plain_builder checks)) w \<and>
      (\<forall>i<4. te_n_dims (gg_entry (gb_ops (plain_builder checks)) w) \<le> i \<longrightarrow> ne (gb_ops (plain_builder checks)) w i = 1)"
    by (auto simp: plain_builder_def plain_fields small_shape_def ne_def plain_ggml_def plain_entry_def plain_n_dims_def
        split: if_splits)
qed

lemma plain_shapes_ok:
  assumes "distinct (map fst checks)" "\<forall>(name, shape) \<in> set checks. small_shape shape" "set part \<subseteq> set checks"
  shows "shapes_ok (pf_tensor (plain_file metadata checks)) part"
proof -
  have "map_of checks name = Some shape \<and> small_shape shape" if "(name, shape) \<in> set part" for name shape
    using assms that by (auto intro!: map_of_is_SomeI)
  then show ?thesis
    by (auto simp: shapes_ok_def list_all_iff plain_file_def plain_weights_def plain_has_shape)
qed

lemma plain_names_bound:
  assumes "set names \<subseteq> fst ` set checks"
  shows "\<exists>bound. map (pf_tensor (plain_file metadata checks)) names = map Some bound"
proof -
  have "\<exists>t. pf_tensor (plain_file metadata checks) name = Some t" if "name \<in> set names" for name
  proof -
    have "map_of checks name \<noteq> None" using assms that by (auto simp: map_of_eq_None_iff)
    then show ?thesis by (auto simp: plain_file_def plain_weights_def)
  qed
  then have "map (pf_tensor (plain_file metadata checks)) names =
      map Some (map (\<lambda>name. the (pf_tensor (plain_file metadata checks) name)) names)" by fastforce
  then show ?thesis by blast
qed

lemma small_bytes:
  assumes "small_shape shape"
  shows "4 * nat (prod_list (plain_dims (plain_of ty shape))) \<le> 1024"
proof -
  have "prod_list (plain_dims (plain_of ty shape)) \<le> 256"
  proof (cases "\<exists>a. shape = [a]")
    case False
    then obtain a b where ab: "shape = [a, b]" "0 < a" "a \<le> 16" "1 < b" "b \<le> 16" using assms by (auto simp: small_shape_def)
    then have "a * b \<le> 16 * 16" by (intro mult_mono) auto
    with ab show ?thesis by (simp add: plain_dims_def)
  qed (use assms in \<open>auto simp: small_shape_def plain_dims_def\<close>)
  then show ?thesis by linarith
qed

text \<open>Reading such a file succeeds when its metadata and its bindings do.\<close>

lemma plain_load:
  assumes checks: "checks \<noteq> []" "\<forall>(name, shape) \<in> set checks. small_shape shape"
    and parse: "parse_metadata (gguf_of metadata) = Some (Inr c)"
    and bind: "\<exists>bound. bind_tensors c (pf_tensor (plain_file metadata checks)) = Some (Inr bound)"
  shows "load_policy_file (plain_env (plain_file metadata checks)) name parse_metadata bind_tensors ''p'' = Some (Inr c)"
proof -
  let ?f = "plain_file metadata checks"
  have read: "\<exists>d. read_one ?f (replicate 1024 0) tensor = Some (Inr d)" if "tensor \<in> set (map fst checks)" for tensor
  proof -
    have "map_of checks tensor \<noteq> None" using that by (simp add: map_of_eq_None_iff)
    then obtain shape where shape: "map_of checks tensor = Some shape" by blast
    then have "small_shape shape" using checks(2) by (auto dest: map_of_SomeD)
    then have "4 * nat (prod_list (plain_dims (plain_of GGML_TYPE_F32 shape))) \<le> 1024" by (rule small_bytes)
    with shape have "read_one ?f (replicate 1024 0) tensor =
        Some (Inr (take (te_nbytes (plain_entry (plain_of GGML_TYPE_F32 shape))) (drop 0 (replicate 1024 0))))"
      by (simp add: read_one_def plain_file_def plain_weights_def plain_entry_def)
    then show ?thesis by blast
  qed
  have "\<exists>data. each_run (read_one ?f (replicate 1024 0)) names = Some (Inr data)" if "set names \<subseteq> set (map fst checks)" for names
    using that
  proof (induction names)
    case (Cons tensor names)
    then obtain d data where "read_one ?f (replicate 1024 0) tensor = Some (Inr d)"
      "each_run (read_one ?f (replicate 1024 0)) names = Some (Inr data)" using read [of tensor] by auto
    then show ?case by (simp add: bind_run_def)
  qed simp
  then obtain data where data: "each_run (read_one ?f (replicate 1024 0)) (map fst checks) = Some (Inr data)" by blast
  obtain bound where bound: "bind_tensors c (pf_tensor ?f) = Some (Inr bound)" using bind by blast
  have present: "missing_tensor ?f = None"
    by (auto simp: missing_tensor_def find_None_iff plain_file_def plain_weights_def map_of_eq_None_iff)
  have "\<exists>l. load_tensors \<lparr>pl_context = True, pl_buffer = True\<rparr> (bind_tensors c) ?f ''p'' (gguf_opened no_locals) =
      (Some (Inr (bound, zip (map fst checks) data)), l)"
    using present data bound by (simp add: load_tensors_def plain_file_def Let_def)
  then obtain l where "load_tensors \<lparr>pl_context = True, pl_buffer = True\<rparr> (bind_tensors c) ?f ''p'' (gguf_opened no_locals) =
      (Some (Inr (bound, zip (map fst checks) data)), l)" by blast
  then show ?thesis
    using checks(1) parse
    by (simp add: load_policy_file_def plain_env_def gguf_load_def plain_file_def Let_def)
qed

end
