(* ===== verification/DemoMetadata.thy ===== *)
theory DemoMetadata
  imports PolicyTensors ModelApi
begin

text \<open>
  Example metadata on which all four policies load: one list of entries, with the framework and the backbone
  architecture as arguments.  Every lookup is a lemma.
\<close>


definition prefixed :: "string \<Rightarrow> (string \<times> 'v) list \<Rightarrow> (string \<times> 'v) list" where
  "prefixed p es = map (\<lambda>(key, v). (p @ key, v)) es"

lemma map_of_prefixed:
  "map_of (prefixed p es) key = (if take (length p) key = p then map_of es (drop (length p) key) else None)"
proof (induction es)
  case (Cons e es)
  obtain k v where e: "e = (k, v)" by (cases e)
  have "key = p @ k \<longleftrightarrow> take (length p) key = p \<and> drop (length p) key = k"
    by (metis append_eq_conv_conj)
  moreover have "prefixed p (e # es) = (p @ k, v) # prefixed p es" by (simp add: prefixed_def e)
  ultimately show ?case using Cons.IH e by simp
qed (simp add: prefixed_def)

text \<open>Dimensions of 2, one block pair (36 blocks for PI-v3), one camera, two continuous action dimensions.\<close>

definition demo_base :: "string \<Rightarrow> string \<Rightarrow> (string \<times> gguf_value) list" where
  "demo_base framework arch = prefixed ''starvla.''
    [(''schema_version'', GI32 1), (''framework'', GStr framework), (''backbone.arch'', GStr arch),
     (''bundle.uuid'', GStr ''u''), (''state.dimension'', GI32 2),
     (''conditioning.hidden_tuple_indices'', GI32s [35, 36])]"

definition demo_component :: "(string \<times> gguf_value) list" where
  "demo_component = prefixed ''starvla.component.''
    [(''text.filename'', GStr ''t.gguf''), (''mmproj.filename'', GStr ''m.gguf'')]"

definition demo_qwen :: "(string \<times> gguf_value) list" where
  "demo_qwen = prefixed ''starvla.qwen.''
    [(''hidden_size'', GI32 2), (''input_embedding_size'', GI32 2), (''vocab_size'', GI32 2),
     (''layer_count'', GI32 36)]"

definition demo_prompt :: "(string \<times> gguf_value) list" where
  "demo_prompt = prefixed ''starvla.prompt.''
    [(''cot_template'', GStr ''{instruction}''), (''action_token'', GStr ''a''),
     (''action_suffix'', GStr '' Please predict the next 1 robot actions: <action>a<action>.''),
     (''cot_enabled'', GBool False), (''state_bins'', GI32 1), (''state_bin_min'', GF32 f32_zero),
     (''state_bin_max'', GF32 f32_one), (''state_clip'', GBool False), (''action_token_id'', GI32 0)]"

definition demo_action :: "(string \<times> gguf_value) list" where
  "demo_action = prefixed ''starvla.action.''
    [(''dimension'', GI32 2), (''horizon'', GI32 1), (''continuous_dimensions'', GI32s [0, 1]),
     (''binary_dimensions'', GI32s [])]"

definition demo_oft :: "(string \<times> gguf_value) list" where
  "demo_oft = prefixed ''starvla.oft.''
    [(''hidden_size'', GI32 2), (''block_count'', GI32 2), (''layer_norm_epsilon'', GF32 f32_one)]"

definition demo_groot :: "(string \<times> gguf_value) list" where
  "demo_groot = prefixed ''starvla.groot.''
    [(''dit_width'', GI32 2), (''block_count'', GI32 2), (''attention_head_count'', GI32 1),
     (''attention_head_dim'', GI32 2), (''cross_attention_dim'', GI32 2), (''feed_forward_dim'', GI32 2),
     (''mlp_hidden_dimension'', GI32 2), (''future_token_count'', GI32 2), (''action_position_count'', GI32 2),
     (''timestep_projection_dim'', GI32 4), (''output_dimension'', GI32 2), (''no_state_sequence_length'', GI32 3),
     (''ada_norm_epsilon'', GF32 f32_one), (''output_norm_epsilon'', GF32 f32_one), (''euler_dt'', GF32 f32_one),
     (''timestep_ids'', GI32s [0, 1, 2, 3])]"

definition demo_pi :: "(string \<times> gguf_value) list" where
  "demo_pi = prefixed ''starvla.pi.''
    [(''dit_width'', GI32 2), (''block_count'', GI32 2), (''attention_head_count'', GI32 1),
     (''attention_head_dim'', GI32 2), (''cross_attention_dim'', GI32 2), (''feed_forward_dim'', GI32 2),
     (''mlp_hidden_dimension'', GI32 2), (''future_token_count'', GI32 2), (''action_position_count'', GI32 2),
     (''timestep_projection_dim'', GI32 4), (''state_token_count'', GI32 1), (''num_inference_timesteps'', GI32 2),
     (''ada_norm_epsilon'', GF32 f32_one), (''euler_dt'', GF32 f32_one), (''timestep_ids'', GI32s [0, 1])]"

definition demo_pi_v3 :: "(string \<times> gguf_value) list" where
  "demo_pi_v3 = prefixed ''starvla.pi_v3.''
    [(''dit_width'', GI32 2), (''block_count'', GI32 36), (''attention_head_count'', GI32 1),
     (''attention_head_dim'', GI32 2), (''cross_attention_dim'', GI32 2), (''feed_forward_dim'', GI32 2),
     (''mlp_hidden_dimension'', GI32 2), (''future_token_count'', GI32 2), (''action_position_count'', GI32 2),
     (''timestep_projection_dim'', GI32 4), (''projector_count'', GI32 36), (''no_state_sequence_length'', GI32 3),
     (''num_timestep_buckets'', GI32 1000), (''num_inference_timesteps'', GI32 4),
     (''ada_norm_epsilon'', GF32 f32_one), (''projector_norm_epsilon'', GF32 f32_one), (''euler_dt'', GF32 f32_one)]"

definition demo_image :: "(string \<times> gguf_value) list" where
  "demo_image = prefixed ''starvla.image.''
    [(''count'', GI32 1), (''names'', GStrs [''cam'']), (''framework_inference_pre_resize_width'', GI32 2),
     (''framework_inference_pre_resize_height'', GI32 2), (''processor_min_pixels'', GI32 1),
     (''processor_max_pixels'', GI32 4), (''patch_size'', GI32 1), (''spatial_merge_size'', GI32 1),
     (''min_token_count'', GI32 1), (''max_token_count'', GI32 4)]"

definition demo_normalization :: "(string \<times> gguf_value) list" where
  "demo_normalization = prefixed ''starvla.normalization.''
    [(''clip_actions'', GBool True), (''binary_threshold'', GF32 f32_half), (''binary_comparison'', GStr ''ge''),
     (''profile_count'', GI32 1), (''profile_keys'', GStrs [''k'']), (''profile.0.key'', GStr ''k''),
     (''profile.0.action_q01'', GF32s [f32_zero, f32_zero]), (''profile.0.action_q99'', GF32s [f32_one, f32_one]),
     (''profile.0.action_mask'', GBools [1, 1])]"

definition demo_metadata :: "string \<Rightarrow> string \<Rightarrow> (string \<times> gguf_value) list" where
  "demo_metadata framework arch = (''general.architecture'', GStr ''starvla-policy'') # demo_component @ demo_qwen @ demo_prompt @ demo_action @ demo_oft @ demo_groot @ demo_pi @ demo_pi_v3 @ demo_image @ demo_normalization @ demo_base framework arch"

lemmas demo_defs = demo_metadata_def demo_base_def demo_component_def demo_qwen_def demo_prompt_def demo_action_def demo_oft_def demo_groot_def demo_pi_def demo_pi_v3_def demo_image_def demo_normalization_def map_of_prefixed map_add_def

lemma demo_base_lookups:
  "map_of (demo_metadata framework arch) ''general.architecture'' = Some (GStr ''starvla-policy'')"
  "map_of (demo_metadata framework arch) ''starvla.schema_version'' = Some (GI32 1)"
  "map_of (demo_metadata framework arch) ''starvla.framework'' = Some (GStr framework)"
  "map_of (demo_metadata framework arch) ''starvla.backbone.arch'' = Some (GStr arch)"
  "map_of (demo_metadata framework arch) ''starvla.bundle.uuid'' = Some (GStr ''u'')"
  "map_of (demo_metadata framework arch) ''starvla.state.dimension'' = Some (GI32 2)"
  "map_of (demo_metadata framework arch) ''starvla.conditioning.hidden_tuple_indices'' = Some (GI32s [35, 36])"
  by (simp_all add: demo_defs)

lemma demo_component_lookups:
  "map_of (demo_metadata framework arch) ''starvla.component.text.filename'' = Some (GStr ''t.gguf'')"
  "map_of (demo_metadata framework arch) ''starvla.component.mmproj.filename'' = Some (GStr ''m.gguf'')"
  by (simp_all add: demo_defs)

lemma demo_qwen_lookups:
  "map_of (demo_metadata framework arch) ''starvla.qwen.hidden_size'' = Some (GI32 2)"
  "map_of (demo_metadata framework arch) ''starvla.qwen.input_embedding_size'' = Some (GI32 2)"
  "map_of (demo_metadata framework arch) ''starvla.qwen.vocab_size'' = Some (GI32 2)"
  "map_of (demo_metadata framework arch) ''starvla.qwen.layer_count'' = Some (GI32 36)"
  by (simp_all add: demo_defs)

lemma demo_prompt_lookups:
  "map_of (demo_metadata framework arch) ''starvla.prompt.cot_template'' = Some (GStr ''{instruction}'')"
  "map_of (demo_metadata framework arch) ''starvla.prompt.action_token'' = Some (GStr ''a'')"
  "map_of (demo_metadata framework arch) ''starvla.prompt.action_suffix'' = Some (GStr '' Please predict the next 1 robot actions: <action>a<action>.'')"
  "map_of (demo_metadata framework arch) ''starvla.prompt.cot_enabled'' = Some (GBool False)"
  "map_of (demo_metadata framework arch) ''starvla.prompt.state_bins'' = Some (GI32 1)"
  "map_of (demo_metadata framework arch) ''starvla.prompt.state_bin_min'' = Some (GF32 f32_zero)"
  "map_of (demo_metadata framework arch) ''starvla.prompt.state_bin_max'' = Some (GF32 f32_one)"
  "map_of (demo_metadata framework arch) ''starvla.prompt.state_clip'' = Some (GBool False)"
  "map_of (demo_metadata framework arch) ''starvla.prompt.action_token_id'' = Some (GI32 0)"
  by (simp_all add: demo_defs)

lemma demo_action_lookups:
  "map_of (demo_metadata framework arch) ''starvla.action.dimension'' = Some (GI32 2)"
  "map_of (demo_metadata framework arch) ''starvla.action.horizon'' = Some (GI32 1)"
  "map_of (demo_metadata framework arch) ''starvla.action.continuous_dimensions'' = Some (GI32s [0, 1])"
  "map_of (demo_metadata framework arch) ''starvla.action.binary_dimensions'' = Some (GI32s [])"
  by (simp_all add: demo_defs)

lemma demo_oft_lookups:
  "map_of (demo_metadata framework arch) ''starvla.oft.hidden_size'' = Some (GI32 2)"
  "map_of (demo_metadata framework arch) ''starvla.oft.block_count'' = Some (GI32 2)"
  "map_of (demo_metadata framework arch) ''starvla.oft.layer_norm_epsilon'' = Some (GF32 f32_one)"
  by (simp_all add: demo_defs)

lemma demo_groot_lookups:
  "map_of (demo_metadata framework arch) ''starvla.groot.dit_width'' = Some (GI32 2)"
  "map_of (demo_metadata framework arch) ''starvla.groot.block_count'' = Some (GI32 2)"
  "map_of (demo_metadata framework arch) ''starvla.groot.attention_head_count'' = Some (GI32 1)"
  "map_of (demo_metadata framework arch) ''starvla.groot.attention_head_dim'' = Some (GI32 2)"
  "map_of (demo_metadata framework arch) ''starvla.groot.cross_attention_dim'' = Some (GI32 2)"
  "map_of (demo_metadata framework arch) ''starvla.groot.feed_forward_dim'' = Some (GI32 2)"
  "map_of (demo_metadata framework arch) ''starvla.groot.mlp_hidden_dimension'' = Some (GI32 2)"
  "map_of (demo_metadata framework arch) ''starvla.groot.future_token_count'' = Some (GI32 2)"
  "map_of (demo_metadata framework arch) ''starvla.groot.action_position_count'' = Some (GI32 2)"
  "map_of (demo_metadata framework arch) ''starvla.groot.timestep_projection_dim'' = Some (GI32 4)"
  "map_of (demo_metadata framework arch) ''starvla.groot.output_dimension'' = Some (GI32 2)"
  "map_of (demo_metadata framework arch) ''starvla.groot.no_state_sequence_length'' = Some (GI32 3)"
  "map_of (demo_metadata framework arch) ''starvla.groot.ada_norm_epsilon'' = Some (GF32 f32_one)"
  "map_of (demo_metadata framework arch) ''starvla.groot.output_norm_epsilon'' = Some (GF32 f32_one)"
  "map_of (demo_metadata framework arch) ''starvla.groot.euler_dt'' = Some (GF32 f32_one)"
  "map_of (demo_metadata framework arch) ''starvla.groot.timestep_ids'' = Some (GI32s [0, 1, 2, 3])"
  by (simp_all add: demo_defs)

lemma demo_pi_lookups:
  "map_of (demo_metadata framework arch) ''starvla.pi.dit_width'' = Some (GI32 2)"
  "map_of (demo_metadata framework arch) ''starvla.pi.block_count'' = Some (GI32 2)"
  "map_of (demo_metadata framework arch) ''starvla.pi.attention_head_count'' = Some (GI32 1)"
  "map_of (demo_metadata framework arch) ''starvla.pi.attention_head_dim'' = Some (GI32 2)"
  "map_of (demo_metadata framework arch) ''starvla.pi.cross_attention_dim'' = Some (GI32 2)"
  "map_of (demo_metadata framework arch) ''starvla.pi.feed_forward_dim'' = Some (GI32 2)"
  "map_of (demo_metadata framework arch) ''starvla.pi.mlp_hidden_dimension'' = Some (GI32 2)"
  "map_of (demo_metadata framework arch) ''starvla.pi.future_token_count'' = Some (GI32 2)"
  "map_of (demo_metadata framework arch) ''starvla.pi.action_position_count'' = Some (GI32 2)"
  "map_of (demo_metadata framework arch) ''starvla.pi.timestep_projection_dim'' = Some (GI32 4)"
  "map_of (demo_metadata framework arch) ''starvla.pi.state_token_count'' = Some (GI32 1)"
  "map_of (demo_metadata framework arch) ''starvla.pi.num_inference_timesteps'' = Some (GI32 2)"
  "map_of (demo_metadata framework arch) ''starvla.pi.ada_norm_epsilon'' = Some (GF32 f32_one)"
  "map_of (demo_metadata framework arch) ''starvla.pi.euler_dt'' = Some (GF32 f32_one)"
  "map_of (demo_metadata framework arch) ''starvla.pi.timestep_ids'' = Some (GI32s [0, 1])"
  by (simp_all add: demo_defs)

lemma demo_pi_v3_lookups:
  "map_of (demo_metadata framework arch) ''starvla.pi_v3.dit_width'' = Some (GI32 2)"
  "map_of (demo_metadata framework arch) ''starvla.pi_v3.block_count'' = Some (GI32 36)"
  "map_of (demo_metadata framework arch) ''starvla.pi_v3.attention_head_count'' = Some (GI32 1)"
  "map_of (demo_metadata framework arch) ''starvla.pi_v3.attention_head_dim'' = Some (GI32 2)"
  "map_of (demo_metadata framework arch) ''starvla.pi_v3.cross_attention_dim'' = Some (GI32 2)"
  "map_of (demo_metadata framework arch) ''starvla.pi_v3.feed_forward_dim'' = Some (GI32 2)"
  "map_of (demo_metadata framework arch) ''starvla.pi_v3.mlp_hidden_dimension'' = Some (GI32 2)"
  "map_of (demo_metadata framework arch) ''starvla.pi_v3.future_token_count'' = Some (GI32 2)"
  "map_of (demo_metadata framework arch) ''starvla.pi_v3.action_position_count'' = Some (GI32 2)"
  "map_of (demo_metadata framework arch) ''starvla.pi_v3.timestep_projection_dim'' = Some (GI32 4)"
  "map_of (demo_metadata framework arch) ''starvla.pi_v3.projector_count'' = Some (GI32 36)"
  "map_of (demo_metadata framework arch) ''starvla.pi_v3.no_state_sequence_length'' = Some (GI32 3)"
  "map_of (demo_metadata framework arch) ''starvla.pi_v3.num_timestep_buckets'' = Some (GI32 1000)"
  "map_of (demo_metadata framework arch) ''starvla.pi_v3.num_inference_timesteps'' = Some (GI32 4)"
  "map_of (demo_metadata framework arch) ''starvla.pi_v3.ada_norm_epsilon'' = Some (GF32 f32_one)"
  "map_of (demo_metadata framework arch) ''starvla.pi_v3.projector_norm_epsilon'' = Some (GF32 f32_one)"
  "map_of (demo_metadata framework arch) ''starvla.pi_v3.euler_dt'' = Some (GF32 f32_one)"
  by (simp_all add: demo_defs)

lemma demo_image_lookups:
  "map_of (demo_metadata framework arch) ''starvla.image.count'' = Some (GI32 1)"
  "map_of (demo_metadata framework arch) ''starvla.image.names'' = Some (GStrs [''cam''])"
  "map_of (demo_metadata framework arch) ''starvla.image.framework_inference_pre_resize_width'' = Some (GI32 2)"
  "map_of (demo_metadata framework arch) ''starvla.image.framework_inference_pre_resize_height'' = Some (GI32 2)"
  "map_of (demo_metadata framework arch) ''starvla.image.processor_min_pixels'' = Some (GI32 1)"
  "map_of (demo_metadata framework arch) ''starvla.image.processor_max_pixels'' = Some (GI32 4)"
  "map_of (demo_metadata framework arch) ''starvla.image.patch_size'' = Some (GI32 1)"
  "map_of (demo_metadata framework arch) ''starvla.image.spatial_merge_size'' = Some (GI32 1)"
  "map_of (demo_metadata framework arch) ''starvla.image.min_token_count'' = Some (GI32 1)"
  "map_of (demo_metadata framework arch) ''starvla.image.max_token_count'' = Some (GI32 4)"
  by (simp_all add: demo_defs)

lemma demo_normalization_lookups:
  "map_of (demo_metadata framework arch) ''starvla.normalization.clip_actions'' = Some (GBool True)"
  "map_of (demo_metadata framework arch) ''starvla.normalization.binary_threshold'' = Some (GF32 f32_half)"
  "map_of (demo_metadata framework arch) ''starvla.normalization.binary_comparison'' = Some (GStr ''ge'')"
  "map_of (demo_metadata framework arch) ''starvla.normalization.profile_count'' = Some (GI32 1)"
  "map_of (demo_metadata framework arch) ''starvla.normalization.profile_keys'' = Some (GStrs [''k''])"
  "map_of (demo_metadata framework arch) ''starvla.normalization.profile.0.key'' = Some (GStr ''k'')"
  "map_of (demo_metadata framework arch) ''starvla.normalization.profile.0.action_q01'' = Some (GF32s [f32_zero, f32_zero])"
  "map_of (demo_metadata framework arch) ''starvla.normalization.profile.0.action_q99'' = Some (GF32s [f32_one, f32_one])"
  "map_of (demo_metadata framework arch) ''starvla.normalization.profile.0.action_mask'' = Some (GBools [1, 1])"
  by (simp_all add: demo_defs)

lemmas demo_lookups = demo_base_lookups demo_component_lookups demo_qwen_lookups demo_prompt_lookups demo_action_lookups demo_oft_lookups demo_groot_lookups demo_pi_lookups demo_pi_v3_lookups demo_image_lookups demo_normalization_lookups

subsection \<open>Reading it\<close>

definition demo :: "string \<Rightarrow> string \<Rightarrow> gguf" where
  "demo framework arch = gguf_of (demo_metadata framework arch)"

lemmas demo_of = require_of [where es = "demo_metadata framework arch" for framework arch, folded demo_def]

definition demo_norm_config :: norm_config where
  "demo_norm_config = \<lparr>nc_default_key = ''k'', nc_clip = True, nc_threshold = f32_half, nc_comparison = ''ge'',
     nc_continuous = [0, 1], nc_binary = [],
     nc_profiles = [\<lparr>np_key = ''k'', np_q01 = [f32_zero, f32_zero], np_q99 = [f32_one, f32_one], np_mask = [1, 1]\<rparr>]\<rparr>"

lemma two_zeros: "replicate 2 0 = [0, 0]"
  by (simp add: numeral_2_eq_2)

lemma demo_norm_valid: "validate_normalization_config demo_norm_config 2 = Inr ()"
  by (simp add: validate_normalization_config_def demo_norm_config_def f32_finite_def f32_eq_def f32_lt_def f32_nan_def
      f32_key_def f32_half_def f32_one_def f32_zero_def fmt_simps upt_rec two_zeros)

lemma demo_norm_read: "require_normalization (demo framework arch) 2 = Inr demo_norm_config"
proof -
  have "read_profile (demo framework arch) [''k''] 0 = Inr (hd (nc_profiles demo_norm_config))"
    by (simp add: read_profile_def profile_key_def nat_to_string_small digit_char_eval demo_of demo_lookups demo_norm_config_def)
  moreover have "demo_norm_config = \<lparr>nc_default_key = ''k'', nc_clip = True, nc_threshold = f32_half, nc_comparison = ''ge'',
     nc_continuous = [0, 1], nc_binary = [], nc_profiles = [hd (nc_profiles demo_norm_config)]\<rparr>"
    by (simp add: demo_norm_config_def)
  ultimately show ?thesis
    using demo_norm_valid by (simp add: require_normalization_def demo_of demo_lookups Let_def)
qed

definition demo_image_config :: image_config where
  "demo_image_config = \<lparr>ic_image_count = 1, ic_image_names = [''cam''], ic_min_pixels = 1, ic_max_pixels = 4,
     ic_patch_size = 1, ic_spatial_merge_size = 1, ic_min_token_count = 1, ic_max_token_count = 4\<rparr>"

lemma demo_image_read: "read_image_config (demo framework arch) = Inr demo_image_config"
  by (simp add: read_image_config_def demo_of demo_lookups demo_image_config_def)

lemma demo_image_valid: "image_config_valid demo_image_config"
  by (simp add: image_config_valid_def demo_image_config_def)

lemma f32_positive_one: "f32_positive f32_one"
  by (simp add: f32_positive_def f32_finite_def f32_lt_def f32_nan_def f32_key_def f32_one_def f32_zero_def fmt_simps)

lemma f32_lt_one: "f32_lt f32_zero f32_one"
  using f32_positive_one by (simp add: f32_positive_def)

end
