(* ===== verification/PolicyExamples.thy ===== *)
theory PolicyExamples
  imports PlainGgml DemoMetadata
begin

text \<open>
  The four policies load from example files: the theorems on their evaluation, with their witnesses.
\<close>

subsection \<open>Names of tensors\<close>

lemma nat_to_string_inject:
  assumes "nat_to_string i @ CHR ''.'' # x = nat_to_string j @ CHR ''.'' # y"
  shows "i = j" "x = y"
proof -
  have run: "takeWhile is_digit (nat_to_string k @ CHR ''.'' # z) = nat_to_string k" for k z
    using nat_to_string_digits [of _ k] by (subst takeWhile_append2) (auto simp: is_digit_def)
  have same: "nat_to_string i = nat_to_string j" using run [of i x] run [of j y] assms by simp
  then show "i = j" by (metis dec_value_nat_to_string)
  from same assms show "x = y" by simp
qed

lemma block_prefix_inject: "block_prefix p i @ x = block_prefix p j @ y \<longleftrightarrow> i = j \<and> x = y"
  using nat_to_string_inject [of i x j y] by (auto simp: block_prefix_def)

text \<open>The names of a stem of blocks are distinct.\<close>

definition block_checks :: "string \<Rightarrow> nat \<Rightarrow> (nat \<Rightarrow> shape_check list) \<Rightarrow> shape_check list" where
  "block_checks stem n checks = concat (map (\<lambda>i. shapes_with_prefix (block_prefix stem i) (checks i)) [0..<n])"

lemma shapes_with_prefix_names: "map fst (shapes_with_prefix p checks) = with_prefix p (map fst checks)"
  by (simp add: shapes_with_prefix_def with_prefix_def case_prod_unfold)

lemma distinct_with_prefix: "distinct (with_prefix p names) \<longleftrightarrow> distinct names"
  by (simp add: with_prefix_def distinct_map inj_on_def)

lemma distinct_block_checks:
  assumes "\<And>i. distinct (map fst (checks i))"
  shows "distinct (map fst (block_checks stem n checks))"
proof (induction n)
  case (Suc n)
  have "fst ` set (block_checks stem n checks) \<inter> fst ` set (shapes_with_prefix (block_prefix stem n) (checks n)) = {}"
    by (auto simp: block_checks_def shapes_with_prefix_def block_prefix_inject)
  moreover have "distinct (map fst (shapes_with_prefix (block_prefix stem n) (checks n)))"
    unfolding shapes_with_prefix_names distinct_with_prefix by (rule assms)
  ultimately show ?case using Suc by (simp add: block_checks_def)
qed (simp add: block_checks_def)

lemma block_checks_starts: "name \<in> fst ` set (block_checks stem n checks) \<Longrightarrow> take (length stem) name = stem"
  by (auto simp: block_checks_def shapes_with_prefix_def block_prefix_def)

lemma block_checks_part: "i < n \<Longrightarrow> set (shapes_with_prefix (block_prefix stem i) (checks i)) \<subseteq> set (block_checks stem n checks)"
  by (auto simp: block_checks_def)

lemma block_checks_small:
  assumes "\<And>i. \<forall>(name, shape) \<in> set (checks i). small_shape shape"
  shows "\<forall>(name, shape) \<in> set (block_checks stem n checks). small_shape shape"
  using assms by (fastforce simp: block_checks_def shapes_with_prefix_def)

lemma block_names:
  assumes "i < n" "map fst (checks i) = names"
  shows "set (with_prefix (block_prefix stem i) names) \<subseteq> fst ` set (block_checks stem n checks)"
proof -
  have "set (with_prefix (block_prefix stem i) names) = fst ` set (shapes_with_prefix (block_prefix stem i) (checks i))"
    unfolding assms(2) [symmetric] shapes_with_prefix_names [symmetric] by simp
  then show ?thesis using block_checks_part [OF assms(1)] by blast
qed

lemma dit_block_shapes_names: "map fst (dit_block_shapes width kv_dim ff_dim) = dit_block_names"
  by (simp add: dit_block_shapes_def dit_block_names_def)

lemma dit_block_names_distinct: "distinct dit_block_names"
  by (simp add: dit_block_names_def)

lemma dit_block_shapes_small: "\<forall>(name, shape) \<in> set (dit_block_shapes 2 2 2). small_shape shape"
  by (simp add: dit_block_shapes_def small_shape_def)

text \<open>Names with a prefix of their own.\<close>

lemma distinct_apart:
  assumes "distinct (map fst xs)" "distinct (map fst ys)"
    and "\<And>name. name \<in> fst ` set xs \<Longrightarrow> take (length p) name \<noteq> p" "\<And>name. name \<in> fst ` set ys \<Longrightarrow> take (length p) name = p"
  shows "distinct (map fst (xs @ ys))"
  using assms by (auto simp: disjoint_iff)

subsection \<open>GR00T\<close>

definition groot_demo :: groot_policy_config where
  "groot_demo = \<lparr>gc_bundle = \<lparr>bc_backbone_arch = ''qwen2_5_vl'', bc_bundle_uuid = ''u'', bc_text_filename = ''t.gguf'',
       bc_mmproj_filename = ''m.gguf''\<rparr>, gc_qwen_hidden_dim = 2, gc_qwen_input_embedding_dim = 2, gc_qwen_vocab_size = 2,
     gc_cot_template = ''{instruction}'', gc_image = demo_image_config, gc_dit_width = 2, gc_block_count = 2,
     gc_attention_head_count = 1, gc_attention_head_dim = 2, gc_cross_attention_dim = 2, gc_feed_forward_dim = 2,
     gc_output_dim = 2, gc_mlp_hidden_dim = 2, gc_action_dim = 2, gc_horizon = 1, gc_future_token_count = 2,
     gc_action_position_count = 2, gc_no_state_sequence_length = 3, gc_timestep_projection_dim = 4,
     gc_ada_norm_epsilon = f32_one, gc_output_norm_epsilon = f32_one, gc_euler_dt = f32_one,
     gc_timestep_ids = [0, 1, 2, 3], gc_normalization = demo_norm_config\<rparr>"

lemma groot_demo_parsed: "parse_groot_metadata (demo ''groot'' ''qwen2_5_vl'') = Some (Inr groot_demo)"
  by (simp add: parse_groot_metadata_def read_groot_config_def read_bundle_def check_schema_def demo_of demo_lookups
      demo_image_read demo_norm_read require_checks_def groot_checks_def int_check_def bind_run_def fits_sint_def f32_positive_one
      demo_image_valid groot_demo_def)

text \<open>Its tensors, all of shapes within 4 x 4.\<close>

definition groot_demo_checks :: "shape_check list" where
  "groot_demo_checks = groot_shapes groot_demo @
     block_checks (groot_prefix @ ''block.'') 2 (\<lambda>block. dit_block_shapes 2 2 2)"

lemma groot_demo_tensors:
  "distinct (map fst groot_demo_checks)" "\<forall>(name, shape) \<in> set groot_demo_checks. small_shape shape"
proof -
  have names: "distinct (map fst (groot_shapes groot_demo))"
    unfolding groot_shapes_def Let_def shapes_with_prefix_names distinct_with_prefix by simp
  have apart: "take (length (groot_prefix @ ''block.'')) name \<noteq> groot_prefix @ ''block.''"
    if "name \<in> fst ` set (groot_shapes groot_demo)" for name
    using that by (auto simp: groot_shapes_def shapes_with_prefix_def groot_prefix_def Let_def)
  have "distinct (map fst (block_checks (groot_prefix @ ''block.'') 2 (\<lambda>block. dit_block_shapes 2 2 2)))"
    by (rule distinct_block_checks) (simp only: dit_block_shapes_names dit_block_names_distinct)
  from distinct_apart [OF names this apart block_checks_starts] show "distinct (map fst groot_demo_checks)"
    by (simp add: groot_demo_checks_def)
  have "\<forall>(name, shape) \<in> set (groot_shapes groot_demo). small_shape shape"
    by (simp add: groot_shapes_def shapes_with_prefix_def small_shape_def groot_demo_def)
  then show "\<forall>(name, shape) \<in> set groot_demo_checks. small_shape shape"
    unfolding groot_demo_checks_def set_append ball_Un by (rule conjI [OF _ block_checks_small [OF dit_block_shapes_small]])
qed

lemma covered:
  assumes "set xs \<subseteq> set (map fst checks)"
  shows "set (with_prefix p xs) \<subseteq> fst ` set (shapes_with_prefix p checks)"
  using assms by (auto simp: with_prefix_def shapes_with_prefix_def image_image case_prod_unfold)

lemma covered_blocks:
  assumes "\<And>i. map fst (checks i) = names"
  shows "set (concat (map (\<lambda>block. with_prefix (block_prefix stem block) names) [0..<n])) \<subseteq>
    fst ` set (block_checks stem n checks)"
  using block_names [of _ n checks names stem] assms by fastforce

lemma covered_parts:
  assumes "set xs \<subseteq> fst ` set outer" "set ys \<subseteq> fst ` set rest" "set zs \<subseteq> fst ` set outer"
  shows "set (xs @ ys @ zs) \<subseteq> fst ` set (outer @ rest)"
  using assms by auto

lemma require_covered:
  assumes "set names \<subseteq> fst ` set checks"
  shows "\<exists>bound. each_res (require_tensor (pf_tensor (plain_file metadata checks))) names = Inr bound"
proof -
  obtain bound where "map (pf_tensor (plain_file metadata checks)) names = map Some bound"
    using plain_names_bound [OF assms] by blast
  then have "bind_all names [] (pf_tensor (plain_file metadata checks)) = Inr bound" by (simp add: bind_all_Inr)
  then show ?thesis by (auto simp: bind_all_def res_simps)
qed

lemma bind_all_covered:
  assumes "distinct (map fst checks)" "\<forall>(name, shape) \<in> set checks. small_shape shape"
    and "set names \<subseteq> fst ` set checks" "\<And>g. g \<in> set groups \<Longrightarrow> set (fst g) \<subseteq> set checks"
  shows "\<exists>bound. bind_all names groups (pf_tensor (plain_file metadata checks)) = Inr bound"
proof -
  obtain bound where bound: "map (pf_tensor (plain_file metadata checks)) names = map Some bound"
    using plain_names_bound [OF assms(3)] by blast
  have "shapes_ok (pf_tensor (plain_file metadata checks)) (fst g)" if "g \<in> set groups" for g
    by (rule plain_shapes_ok [OF assms(1,2) assms(4) [OF that]])
  with bound show ?thesis by (auto simp: bind_all_Inr list_all_iff)
qed

lemma groot_demo_covered: "set (groot_tensor_names groot_demo) \<subseteq> fst ` set groot_demo_checks"
proof -
  have n: "nat (gc_block_count groot_demo) = 2" by (simp add: groot_demo_def)
  show ?thesis
    unfolding groot_tensor_names_def groot_demo_checks_def n
  proof (rule covered_parts [OF _ covered_blocks])
  qed (simp_all add: groot_shapes_def shapes_with_prefix_def with_prefix_def dit_block_shapes_names Let_def)
qed

lemma groot_demo_bound:
  "\<exists>bound. bind_groot_tensors groot_demo (pf_tensor (plain_file metadata groot_demo_checks)) = Some (Inr bound)"
proof -
  let ?t = "pf_tensor (plain_file metadata groot_demo_checks)"
  have blocks: "groot_block_shapes groot_demo block =
      shapes_with_prefix (block_prefix (groot_prefix @ ''block.'') block) (dit_block_shapes 2 2 2)" for block
    by (simp add: groot_block_shapes_def groot_demo_def)
  have n: "nat (gc_block_count groot_demo) = 2" "2 * gc_dit_width groot_demo = 4" by (simp_all add: groot_demo_def)
  have part: "set (fst g) \<subseteq> set groot_demo_checks"
    if "g \<in> set ((groot_shapes groot_demo, a) # map (\<lambda>block. (groot_block_shapes groot_demo block, b)) [0..<2])" for g a b
  proof -
    from that consider "fst g = groot_shapes groot_demo" | block where "block < 2" "fst g = groot_block_shapes groot_demo block"
      by auto
    then show ?thesis
      using block_checks_part [of _ 2 "groot_prefix @ ''block.''" "\<lambda>block. dit_block_shapes 2 2 2"]
      by cases (simp_all add: groot_demo_checks_def blocks le_supI2)
  qed
  obtain bound where bound: "each_res (require_tensor ?t) (groot_tensor_names groot_demo) = Inr bound"
    using require_covered [OF groot_demo_covered] by blast
  have "\<exists>bound. bind_all (groot_tensor_names groot_demo)
      ((groot_shapes groot_demo, a) # map (\<lambda>block. (groot_block_shapes groot_demo block, b)) [0..<2]) ?t = Inr bound" for a b
    by (rule bind_all_covered [OF groot_demo_tensors groot_demo_covered]) (erule part)
  then show ?thesis
    unfolding bind_groot_tensors_def n bound bind_run_def by (simp add: fits_sint_def)
qed

lemma groot_demo_loaded:
  "\<exists>p. load_groot_policy (plain_env (plain_file (demo_metadata ''groot'' ''qwen2_5_vl'') groot_demo_checks)) zero_executor
    ''p'' = Some (Inr p) \<and> lp_config p = groot_demo"
proof -
  have "load_policy_file (plain_env (plain_file (demo_metadata ''groot'' ''qwen2_5_vl'') groot_demo_checks)) ''GR00T''
      parse_groot_metadata bind_groot_tensors ''p'' = Some (Inr groot_demo)"
    by (rule plain_load [where metadata = "demo_metadata ''groot'' ''qwen2_5_vl''" and parse_metadata = parse_groot_metadata
        and bind_tensors = bind_groot_tensors, OF _ groot_demo_tensors(2) groot_demo_parsed [unfolded demo_def] groot_demo_bound])
      (simp add: groot_demo_checks_def groot_shapes_def shapes_with_prefix_def Let_def)
  moreover have "gc_timestep_ids groot_demo = [0, 1, 2, 3]" "gc_timestep_projection_dim groot_demo = 4"
    "gc_dit_width groot_demo = 2" by (simp_all add: groot_demo_def)
  ultimately show ?thesis
    using tables_defined [of 4 4 "[0, 1, 2, 3]" zero_executor] tables_defined [of 2 4 "[0, 1, 2, 3]" zero_executor]
    by (auto simp: load_groot_policy_def bind_run_def)
qed

text \<open>Three calls: a null pointer, the shape of one token with a mask that hides it, and one that is answered.\<close>

definition groot_demo_requests :: "(f32 list option \<times> u8 list option \<times> f32 list option) list" where
  "groot_demo_requests = [(None, None, None), (Some [f32_one, f32_one], Some [0], Some [f32_zero, f32_zero]),
     (Some [f32_one, f32_one], Some [1], Some [f32_zero, f32_zero])]"

theorem groot_evaluations_safe_witness:
  "\<exists>p rs. load_groot_policy (plain_env (plain_file (demo_metadata ''groot'' ''qwen2_5_vl'') groot_demo_checks))
      zero_executor ''p'' = Some (Inr p) \<and>
    calls (\<lambda>(hidden, kq_mask, noise). groot_evaluate (plain_builder groot_demo_checks) zero_executor p hidden kq_mask noise)
      groot_demo_requests \<lparr>ps_graph = None, ps_memory = ()\<rparr> = Some rs \<and> length rs = 3 \<and> list_all (answer_ok 1 2) rs"
proof -
  obtain p where p: "load_groot_policy (plain_env (plain_file (demo_metadata ''groot'' ''qwen2_5_vl'') groot_demo_checks))
      zero_executor ''p'' = Some (Inr p)" "lp_config p = groot_demo" using groot_demo_loaded by blast
  have bounds: "gc_no_state_sequence_length (lp_config p) + 32 \<le> INT_MAX"
    "groot_tensor_count (lp_config p) \<le> groot_graph_size"
    by (simp_all add: p(2) groot_demo_def INT_MAX_def groot_tensor_count_def groot_graph_size_def)
  have dims: "gc_horizon (lp_config p) = 1" "gc_action_dim (lp_config p) = 2" "length groot_demo_requests = 3"
    by (simp_all add: p(2) groot_demo_def groot_demo_requests_def)
  from groot_evaluations_safe [OF plain_builder_laws(1) plain_weights_stored [OF groot_demo_tensors(2)] plain_builder_laws(2)
      p(1) plain_env_opens plain_entries bounds, of groot_demo_requests "()", unfolded dims] p(1)
  show ?thesis by blast
qed

subsection \<open>PI\<close>

definition pi_demo :: pi_policy_config where
  "pi_demo = \<lparr>pc_bundle = \<lparr>bc_backbone_arch = ''qwen2_5_vl'', bc_bundle_uuid = ''u'', bc_text_filename = ''t.gguf'',
       bc_mmproj_filename = ''m.gguf''\<rparr>, pc_qwen_hidden_dim = 2, pc_qwen_input_embedding_dim = 2,
     pc_qwen_layer_count = 36, pc_qwen_vocab_size = 2, pc_cot_template = ''{instruction}'',
     pc_hidden_tuple_indices = [35, 36], pc_image = demo_image_config, pc_pre_resize_width = 2, pc_pre_resize_height = 2,
     pc_dit_width = 2, pc_block_count = 2, pc_attention_head_count = 1, pc_attention_head_dim = 2,
     pc_cross_attention_dim = 2, pc_feed_forward_dim = 2, pc_mlp_hidden_dim = 2, pc_state_dim = 2, pc_action_dim = 2,
     pc_horizon = 1, pc_state_token_count = 1, pc_future_token_count = 2, pc_action_position_count = 2,
     pc_timestep_projection_dim = 4, pc_num_inference_timesteps = 2, pc_ada_norm_epsilon = f32_one,
     pc_euler_dt = f32_one, pc_timestep_ids = [0, 1], pc_normalization = demo_norm_config\<rparr>"

lemma pi_demo_parsed: "parse_pi_metadata (demo ''pi'' ''qwen2_5_vl'') = Some (Inr pi_demo)"
proof -
  have "expected_hidden_tuple_indices 36 2 = Some (Inr [35, 36])"
    by (simp add: expected_hidden_tuple_indices_def fits_sint_def upto_rec1)
  moreover have "nc_clip demo_norm_config" "nc_comparison demo_norm_config = ''ge''" by (simp_all add: demo_norm_config_def)
  ultimately show ?thesis
    using demo_image_valid
    by (simp add: parse_pi_metadata_def read_pi_config_def read_qwen25_bundle_def check_schema_def read_pi_image_def demo_of
        demo_lookups demo_norm_read require_checks_def pi_checks_def int_check_def bind_run_def fits_sint_def
        f32_positive_one demo_image_config_def pi_demo_def)
qed

definition pi_demo_checks :: "shape_check list" where
  "pi_demo_checks = pi_shapes pi_demo @ block_checks (pi_prefix @ ''block.'') 2 (\<lambda>block. dit_block_shapes 2 2 2)"

lemma pi_demo_tensors:
  "distinct (map fst pi_demo_checks)" "\<forall>(name, shape) \<in> set pi_demo_checks. small_shape shape"
proof -
  have names: "distinct (map fst (pi_shapes pi_demo))"
    unfolding pi_shapes_def Let_def shapes_with_prefix_names distinct_with_prefix by simp
  have apart: "take (length (pi_prefix @ ''block.'')) name \<noteq> pi_prefix @ ''block.''"
    if "name \<in> fst ` set (pi_shapes pi_demo)" for name
    using that by (auto simp: pi_shapes_def shapes_with_prefix_def pi_prefix_def Let_def)
  have "distinct (map fst (block_checks (pi_prefix @ ''block.'') 2 (\<lambda>block. dit_block_shapes 2 2 2)))"
    by (rule distinct_block_checks) (simp only: dit_block_shapes_names dit_block_names_distinct)
  from distinct_apart [OF names this apart block_checks_starts] show "distinct (map fst pi_demo_checks)"
    by (simp add: pi_demo_checks_def)
  have "\<forall>(name, shape) \<in> set (pi_shapes pi_demo). small_shape shape"
    by (simp add: pi_shapes_def shapes_with_prefix_def small_shape_def pi_demo_def)
  then show "\<forall>(name, shape) \<in> set pi_demo_checks. small_shape shape"
    unfolding pi_demo_checks_def set_append ball_Un by (rule conjI [OF _ block_checks_small [OF dit_block_shapes_small]])
qed

lemma pi_demo_covered: "set (pi_tensor_names pi_demo) \<subseteq> fst ` set pi_demo_checks"
proof -
  have n: "nat (pc_block_count pi_demo) = 2" by (simp add: pi_demo_def)
  show ?thesis
    unfolding pi_tensor_names_def pi_demo_checks_def n
  proof (rule covered_parts [OF _ covered_blocks])
  qed (simp_all add: pi_shapes_def shapes_with_prefix_def with_prefix_def dit_block_shapes_names Let_def)
qed

lemma pi_demo_bound:
  "\<exists>bound. bind_pi_tensors pi_demo (pf_tensor (plain_file metadata pi_demo_checks)) = Some (Inr bound)"
proof -
  have blocks: "pi_block_shapes pi_demo block =
      shapes_with_prefix (block_prefix (pi_prefix @ ''block.'') block) (dit_block_shapes 2 2 2)" for block
    by (simp add: pi_block_shapes_def pi_demo_def)
  have n: "nat (pc_block_count pi_demo) = 2" by (simp add: pi_demo_def)
  have part: "set (fst g) \<subseteq> set pi_demo_checks"
    if "g \<in> set ((pi_shapes pi_demo, a) # map (\<lambda>block. (pi_block_shapes pi_demo block, b)) [0..<2])" for g a b
  proof -
    from that consider "fst g = pi_shapes pi_demo" | block where "block < 2" "fst g = pi_block_shapes pi_demo block"
      by auto
    then show ?thesis
      using block_checks_part [of _ 2 "pi_prefix @ ''block.''" "\<lambda>block. dit_block_shapes 2 2 2"]
      by cases (simp_all add: pi_demo_checks_def blocks le_supI2)
  qed
  have "\<exists>bound. bind_all (pi_tensor_names pi_demo)
      ((pi_shapes pi_demo, a) # map (\<lambda>block. (pi_block_shapes pi_demo block, b)) [0..<2])
      (pf_tensor (plain_file metadata pi_demo_checks)) = Inr bound" for a b
    by (rule bind_all_covered [OF pi_demo_tensors pi_demo_covered]) (erule part)
  then show ?thesis unfolding bind_pi_tensors_def n by simp
qed

lemma pi_demo_loaded:
  "\<exists>p. load_pi_policy (plain_env (plain_file (demo_metadata ''pi'' ''qwen2_5_vl'') pi_demo_checks)) zero_executor
    ''p'' = Some (Inr p) \<and> lp_config p = pi_demo"
proof -
  have "load_policy_file (plain_env (plain_file (demo_metadata ''pi'' ''qwen2_5_vl'') pi_demo_checks)) ''PI''
      parse_pi_metadata bind_pi_tensors ''p'' = Some (Inr pi_demo)"
    by (rule plain_load [where metadata = "demo_metadata ''pi'' ''qwen2_5_vl''" and parse_metadata = parse_pi_metadata
        and bind_tensors = bind_pi_tensors, OF _ pi_demo_tensors(2) pi_demo_parsed [unfolded demo_def] pi_demo_bound])
      (simp add: pi_demo_checks_def pi_shapes_def shapes_with_prefix_def Let_def)
  moreover have "pc_timestep_ids pi_demo = [0, 1]" "pc_timestep_projection_dim pi_demo = 4" "pc_dit_width pi_demo = 2"
    "nat (pc_num_inference_timesteps pi_demo) = 2" by (simp_all add: pi_demo_def)
  ultimately show ?thesis
    using tables_defined [of 4 2 "[0, 1]" zero_executor] tables_defined [of 2 2 "[0, 1]" zero_executor]
    by (auto simp: load_pi_policy_def bind_run_def)
qed

text \<open>Without a state, with one, with two tokens, and with a state of the wrong size.\<close>

definition pi_demo_requests :: "(f32 list option \<times> buffer \<times> f32 list option) list" where
  "pi_demo_requests =
     (let noise = Some [f32_zero, f32_zero]; token = replicate 4 f32_one
      in [(Some token, Null_buffer 0, noise), (Some token, Buffer [f32_one, f32_zero], noise),
          (Some (token @ token), Null_buffer 0, noise), (Some token, Buffer [f32_one], noise)])"

text \<open>The third call has two tokens, and no graph of one token is run for it.\<close>

lemma pi_demo_check:
  assumes "length hs = 8" "list_all f32_finite hs"
  shows "check_pi_inputs pi_demo (Some hs) (Null_buffer 0) (Some [f32_zero, f32_zero]) = Inr (hs, 2, None, [f32_zero, f32_zero])"
proof -
  have hs: "\<not> list_ex (\<lambda>x. \<not> f32_finite x) hs" using assms(2) by (simp add: list_all_iff list_ex_iff)
  have nonempty: "hs \<noteq> []" using assms(1) by auto
  have zero: "f32_finite f32_zero" by (simp add: f32_finite_def f32_zero_def fmt_simps)
  have sizes: "nat (pc_block_count pi_demo) = 2" "nat (pc_qwen_hidden_dim pi_demo) = 2" "nat (pc_horizon pi_demo) = 1"
    "nat (pc_action_dim pi_demo) = 2" by (simp_all add: pi_demo_def)
  show ?thesis
    unfolding check_pi_inputs_def check_pi_state_def Let_def need_some_def sizes using hs zero nonempty
    by (simp add: assms(1) INT_MAX_def)
qed

lemma pi_demo_third:
  "check_pi_inputs pi_demo (Some (replicate 4 f32_one @ replicate 4 f32_one)) (Null_buffer 0) (Some [f32_zero, f32_zero]) =
    Inr (replicate 4 f32_one @ replicate 4 f32_one, 2, None, [f32_zero, f32_zero])"
proof (rule pi_demo_check)
  have "f32_finite f32_one" by (simp add: f32_finite_def f32_one_def fmt_simps)
  then show "list_all f32_finite (replicate 4 f32_one @ replicate 4 f32_one)" by (simp add: list_all_iff)
qed simp

theorem pi_evaluations_safe_witness:
  "\<exists>p rs. load_pi_policy (plain_env (plain_file (demo_metadata ''pi'' ''qwen2_5_vl'') pi_demo_checks))
      zero_executor ''p'' = Some (Inr p) \<and>
    traced (\<lambda>(hidden, state, noise). pi_evaluate (plain_builder pi_demo_checks) zero_executor p hidden state noise)
      pi_demo_requests \<lparr>ps_graph = None, ps_memory = ()\<rparr> = Some rs \<and> length rs = 4 \<and>
    list_all (answer_ok 1 2 \<circ> fst) rs \<and>
    ran_fitting_graph (pi_graph_ok plain_ggml pi_demo) 2 False (fst (rs ! 2)) (snd (rs ! 2))"
proof -
  obtain p where p: "load_pi_policy (plain_env (plain_file (demo_metadata ''pi'' ''qwen2_5_vl'') pi_demo_checks))
      zero_executor ''p'' = Some (Inr p)" "lp_config p = pi_demo" using pi_demo_loaded by blast
  have bounds: "pc_future_token_count (lp_config p) < INT_MAX"
    "pi_tensor_count (lp_config p) \<le> pi_graph_size"
    by (simp_all add: p(2) pi_demo_def INT_MAX_def pi_tensor_count_def pi_graph_size_def)
  have dims: "pc_horizon pi_demo = 1" "pc_action_dim pi_demo = 2" "gb_ops (plain_builder pi_demo_checks) = plain_ggml"
    by (simp_all add: pi_demo_def plain_builder_def)
  obtain rs where rs: "traced (\<lambda>(hidden, state, noise). pi_evaluate (plain_builder pi_demo_checks) zero_executor p hidden state noise)
      pi_demo_requests \<lparr>ps_graph = None, ps_memory = ()\<rparr> = Some rs"
    and each: "list_all2 (\<lambda>(hidden, state, noise) (r, st). answer_ok 1 2 r \<and>
      (case check_pi_inputs pi_demo hidden state noise of
         Inl e \<Rightarrow> r = Inl e
       | Inr (_, token_count, checked_state, _) \<Rightarrow>
           ran_fitting_graph (pi_graph_ok plain_ggml pi_demo) token_count (checked_state \<noteq> None) r st)) pi_demo_requests rs"
    using pi_evaluations_safe [OF plain_builder_laws(1) plain_weights_stored [OF pi_demo_tensors(2)] plain_builder_laws(2)
      p(1) plain_env_opens plain_entries bounds, of pi_demo_requests "()", unfolded p(2) dims] by blast
  have len: "length pi_demo_requests = 4" and third: "pi_demo_requests ! 2 =
      (Some (replicate 4 f32_one @ replicate 4 f32_one), Null_buffer 0, Some [f32_zero, f32_zero])"
    by (simp_all add: pi_demo_requests_def Let_def)
  from each len have four: "length rs = 4" by (simp add: list_all2_lengthD [symmetric])
  have "answer_ok 1 2 (fst (rs ! i))" if "i < 4" for i
    using list_all2_nthD2 [OF each, of i] that four by (simp add: case_prod_unfold)
  then have "list_all (answer_ok 1 2 \<circ> fst) rs" by (simp add: list_all_length four)
  moreover have "ran_fitting_graph (pi_graph_ok plain_ggml pi_demo) 2 False (fst (rs ! 2)) (snd (rs ! 2))"
    using list_all2_nthD2 [OF each, of 2] four
    unfolding third by (simp add: pi_demo_third case_prod_unfold)
  ultimately show ?thesis using p(1) rs four by blast
qed

end
