(* ===== verification/Backend.thy ===== *)
theory Backend
  imports Prelude
begin

text \<open>
  The choice of compute backends, \<^verbatim>\<open>src/models/ggml_backend.cpp\<close>: at most one accelerated backend before the CPU, the
  buffer types of the model and the scheduler over both.  ggml's devices, backends and schedulers are the record
  \<open>backend_env\<close> of its entry points.
\<close>

datatype device_type = CPU_device | GPU_device | IGPU_device | ACCEL_device | META_device

datatype backend_mode = Mode_cpu | Mode_cuda | Mode_metal

fun backend_mode_name :: "backend_mode \<Rightarrow> string" where
  "backend_mode_name Mode_cuda = ''cuda''"
| "backend_mode_name Mode_metal = ''metal''"
| "backend_mode_name Mode_cpu = ''cpu''"

record ('d, 'b, 'f, 's) backend_env =
  be_devices :: "'d list"
  be_dev_type :: "'d \<Rightarrow> device_type"
  be_reg_name :: "'d \<Rightarrow> string option"
  be_dev_init :: "'d \<Rightarrow> 'b option"
  be_cpu_init :: "'b option"
  be_is_cpu :: "'b \<Rightarrow> bool"
  be_default_buft :: "'b \<Rightarrow> 'f option"
  be_host_buft :: "'b \<Rightarrow> 'f option"
  be_sched_new :: "'b list \<Rightarrow> 'f option list \<Rightarrow> int \<Rightarrow> bool \<Rightarrow> bool \<Rightarrow> 's option"
  be_threads_proc :: "'b \<Rightarrow> bool"
  be_desired :: backend_mode

definition mode_for_device :: "('d, 'b, 'f, 's) backend_env \<Rightarrow> 'd \<Rightarrow> backend_mode res" where
  "mode_for_device env dev =
     (if be_reg_name env dev = Some ''CUDA'' then Inr Mode_cuda
      else if be_reg_name env dev = Some ''Metal'' \<or> be_reg_name env dev = Some ''MTL'' then Inr Mode_metal
      else if be_reg_name env dev = Some ''CPU'' then Inr Mode_cpu
      else if be_reg_name env dev = Some ''BLAS'' then Inr Mode_cpu
      else Inl (''unknown GGML backend registry: '' @
        (case be_reg_name env dev of None \<Rightarrow> ''(null)'' | Some name \<Rightarrow> if name = [] then ''(null)'' else name)))"

text \<open>The loop over the devices: the first accelerated backend of the wanted mode that starts.\<close>

fun find_backend :: "('d, 'b, 'f, 's) backend_env \<Rightarrow> bool \<Rightarrow> 'd list \<Rightarrow> 'b option res" where
  "find_backend env use_accel [] = Inr None"
| "find_backend env use_accel (dev # rest) =
     (if be_dev_type env dev = CPU_device then find_backend env use_accel rest
      else bind_res (mode_for_device env dev) (\<lambda>dev_mode.
        if dev_mode \<noteq> be_desired env then find_backend env use_accel rest
        else if be_dev_type env dev = ACCEL_device \<and> \<not> use_accel then find_backend env use_accel rest
        else case be_dev_init env dev of
          None \<Rightarrow> find_backend env use_accel rest
        | Some backend \<Rightarrow> Inr (Some backend)))"

record 'f buft_policy =
  bp_model_buft :: "'f option"
  bp_runtime_buft :: "'f option"
  bp_host_buft :: "'f option"

record scheduler_config =
  sc_max_nodes :: int
  sc_parallel :: bool
  sc_op_offload :: bool

text \<open>What \<open>load\<close> writes: its reference parameters, the mode of the loader, and the backends it has freed.\<close>

record ('b, 'f, 's) loaded_backends =
  lb_cpu :: "'b option"
  lb_backends :: "'b list"
  lb_scheduler :: "'s option"
  lb_policy :: "'f buft_policy"
  lb_mode :: backend_mode
  lb_freed :: "'b list"

definition no_policy :: "'f buft_policy" where
  "no_policy = \<lparr>bp_model_buft = None, bp_runtime_buft = None, bp_host_buft = None\<rparr>"

definition no_backends :: "('b, 'f, 's) loaded_backends" where
  "no_backends = \<lparr>lb_cpu = None, lb_backends = [], lb_scheduler = None, lb_policy = no_policy, lb_mode = Mode_cpu, lb_freed = []\<rparr>"

definition init_backends ::
  "('d, 'b, 'f, 's) backend_env \<Rightarrow> bool \<Rightarrow> unit res \<times> ('b, 'f, 's) loaded_backends"
where
  "init_backends env use_accel =
     (case find_backend env use_accel (be_devices env) of
        Inl e \<Rightarrow> (Inl e, no_backends)
      | Inr found \<Rightarrow>
          let backends = (case found of None \<Rightarrow> [] | Some b \<Rightarrow> [b]);
              found_mode = (case found of None \<Rightarrow> Mode_cpu | Some b \<Rightarrow> be_desired env)
          in case be_cpu_init env of
            None \<Rightarrow> (Inl ''failed to initialize CPU backend'', no_backends\<lparr>lb_mode := found_mode, lb_freed := backends\<rparr>)
          | Some cpu \<Rightarrow> (Inr (), no_backends\<lparr>lb_cpu := Some cpu, lb_backends := backends @ [cpu], lb_mode := found_mode\<rparr>))"

definition init_buft_policy ::
  "('d, 'b, 'f, 's) backend_env \<Rightarrow> ('b, 'f, 's) loaded_backends \<Rightarrow> 'f buft_policy res"
where
  "init_buft_policy env lb =
     (case lb_cpu lb of
        None \<Rightarrow> Inl ''CPU backend is required for buffer policy''
      | Some cpu \<Rightarrow>
          case be_default_buft env cpu of
            None \<Rightarrow> Inl ''failed to resolve CPU backend buffer type''
          | Some cpu_buft \<Rightarrow>
              if lb_backends lb = [] then Inl ''buffer policy requires at least one backend''
              else let host = (case be_host_buft env (hd (lb_backends lb)) of None \<Rightarrow> cpu_buft | Some h \<Rightarrow> h)
                in if lb_mode lb = Mode_cpu then
                  Inr \<lparr>bp_model_buft = Some cpu_buft, bp_runtime_buft = Some cpu_buft, bp_host_buft = Some host\<rparr>
                else case be_default_buft env (hd (lb_backends lb)) of
                  None \<Rightarrow> Inl ''failed to resolve primary backend buffer type''
                | Some device_buft \<Rightarrow>
                    Inr \<lparr>bp_model_buft = Some device_buft, bp_runtime_buft = Some device_buft, bp_host_buft = Some host\<rparr>)"

definition init_scheduler ::
  "('d, 'b, 'f, 's) backend_env \<Rightarrow> 'b list \<Rightarrow> 'f buft_policy \<Rightarrow> scheduler_config \<Rightarrow> 's res"
where
  "init_scheduler env backends policy config =
     (if backends = [] then Inl ''scheduler requires at least one backend''
      else let sched_bufts = map (\<lambda>backend. if be_is_cpu env backend \<and> bp_host_buft policy \<noteq> None
            then bp_host_buft policy else be_default_buft env backend) backends
        in need_some ''failed to initialize backend scheduler''
          (be_sched_new env backends sched_bufts (sc_max_nodes config) (sc_parallel config) (sc_op_offload config)))"

definition backend_load ::
  "('d, 'b, 'f, 's) backend_env \<Rightarrow> bool \<Rightarrow> scheduler_config \<Rightarrow> unit res \<times> ('b, 'f, 's) loaded_backends"
where
  "backend_load env use_accel config =
     (case init_backends env use_accel of
        (Inl e, lb) \<Rightarrow> (Inl e, lb)
      | (Inr _, lb) \<Rightarrow>
          case init_buft_policy env lb of
            Inl e \<Rightarrow> (Inl e, lb)
          | Inr policy \<Rightarrow>
              let lb = lb\<lparr>lb_policy := policy\<rparr>
              in case init_scheduler env (lb_backends lb) policy config of
                Inl e \<Rightarrow> (Inl e, lb)
              | Inr s \<Rightarrow> (Inr (), lb\<lparr>lb_scheduler := Some s\<rparr>))"

text \<open>The calls that set the number of threads.\<close>

definition set_backend_threads ::
  "('d, 'b, 'f, 's) backend_env \<Rightarrow> 'b option list \<Rightarrow> int \<Rightarrow> ('b \<times> int) list"
where
  "set_backend_threads env backends n_threads =
     (if n_threads \<le> 0 then []
      else map (\<lambda>backend. (backend, n_threads)) (filter (be_threads_proc env) (List.map_filter id backends)))"

subsection \<open>What a loader holds\<close>

text \<open>The backends that a call has started, in order: what it must keep or free.\<close>

definition started :: "('d, 'b, 'f, 's) backend_env \<Rightarrow> bool \<Rightarrow> 'b list" where
  "started env use_accel =
     (case find_backend env use_accel (be_devices env) of
        Inl e \<Rightarrow> []
      | Inr found \<Rightarrow> (case found of None \<Rightarrow> [] | Some b \<Rightarrow> [b]) @ (case be_cpu_init env of None \<Rightarrow> [] | Some cpu \<Rightarrow> [cpu]))"

lemma find_backend_wanted:
  assumes "find_backend env use_accel devs = Inr (Some b)"
  shows "\<exists>dev \<in> set devs. be_dev_init env dev = Some b \<and> mode_for_device env dev = Inr (be_desired env) \<and>
    be_dev_type env dev \<noteq> CPU_device \<and> (be_dev_type env dev = ACCEL_device \<longrightarrow> use_accel)"
  using assms
  by (induction devs) (auto simp: res_simps split: if_splits option.splits)

text \<open>What a load that succeeds has wired together.\<close>

lemma backend_load_Inr:
  assumes "backend_load env use_accel config = (Inr (), lb)"
  shows "\<exists>found cpu policy s. find_backend env use_accel (be_devices env) = Inr found \<and> be_cpu_init env = Some cpu \<and>
    lb_backends lb = (case found of None \<Rightarrow> [] | Some b \<Rightarrow> [b]) @ [cpu] \<and> lb_cpu lb = Some cpu \<and> lb_freed lb = [] \<and>
    lb_mode lb = (case found of None \<Rightarrow> Mode_cpu | Some b \<Rightarrow> be_desired env) \<and> lb_policy lb = policy \<and> lb_scheduler lb = Some s \<and>
    init_buft_policy env (no_backends\<lparr>lb_cpu := Some cpu, lb_backends := (case found of None \<Rightarrow> [] | Some b \<Rightarrow> [b]) @ [cpu],
      lb_mode := (case found of None \<Rightarrow> Mode_cpu | Some b \<Rightarrow> be_desired env)\<rparr>) = Inr policy \<and>
    init_scheduler env ((case found of None \<Rightarrow> [] | Some b \<Rightarrow> [b]) @ [cpu]) policy config = Inr s"
  using assms
  by (auto simp: backend_load_def init_backends_def no_backends_def Let_def split: option.splits sum.splits)

lemma backend_load_bufts:
  assumes "backend_load env use_accel config = (Inr (), lb)"
  shows "bp_model_buft (lb_policy lb) \<noteq> None" "bp_host_buft (lb_policy lb) \<noteq> None"
    "bp_model_buft (lb_policy lb) = be_default_buft env ((if lb_mode lb = Mode_cpu then last else hd) (lb_backends lb))"
    "bp_host_buft (lb_policy lb) = (case be_host_buft env (hd (lb_backends lb)) of
       None \<Rightarrow> be_default_buft env (last (lb_backends lb)) | Some h \<Rightarrow> Some h)"
proof -
  obtain found cpu policy where lb: "lb_backends lb = (case found of None \<Rightarrow> [] | Some b \<Rightarrow> [b]) @ [cpu]"
      "lb_mode lb = (case found of None \<Rightarrow> Mode_cpu | Some b \<Rightarrow> be_desired env)" "lb_policy lb = policy"
    and p: "init_buft_policy env (no_backends\<lparr>lb_cpu := Some cpu, lb_backends := (case found of None \<Rightarrow> [] | Some b \<Rightarrow> [b]) @ [cpu],
      lb_mode := (case found of None \<Rightarrow> Mode_cpu | Some b \<Rightarrow> be_desired env)\<rparr>) = Inr policy"
    using backend_load_Inr [OF assms] by blast
  show "bp_model_buft (lb_policy lb) \<noteq> None" "bp_host_buft (lb_policy lb) \<noteq> None"
    "bp_model_buft (lb_policy lb) = be_default_buft env ((if lb_mode lb = Mode_cpu then last else hd) (lb_backends lb))"
    "bp_host_buft (lb_policy lb) = (case be_host_buft env (hd (lb_backends lb)) of
       None \<Rightarrow> be_default_buft env (last (lb_backends lb)) | Some h \<Rightarrow> Some h)"
    using p unfolding lb by (auto simp: init_buft_policy_def Let_def split: option.splits if_splits)
qed

lemma backend_load_scheduler:
  assumes "backend_load env use_accel config = (Inr (), lb)"
  shows "lb_scheduler lb \<noteq> None \<and> lb_scheduler lb = be_sched_new env (lb_backends lb)
    (map (\<lambda>b. if be_is_cpu env b then bp_host_buft (lb_policy lb) else be_default_buft env b) (lb_backends lb))
    (sc_max_nodes config) (sc_parallel config) (sc_op_offload config)"
proof -
  obtain s where s: "lb_scheduler lb = Some s" "init_scheduler env (lb_backends lb) (lb_policy lb) config = Inr s"
    using backend_load_Inr [OF assms] by auto
  have "be_sched_new env (lb_backends lb)
    (map (\<lambda>b. if be_is_cpu env b then bp_host_buft (lb_policy lb) else be_default_buft env b) (lb_backends lb))
    (sc_max_nodes config) (sc_parallel config) (sc_op_offload config) = Some s"
    using s(2) backend_load_bufts(2) [OF assms]
    by (auto simp: init_scheduler_def Let_def need_some_Inr cong: if_cong split: if_splits)
  with s(1) show ?thesis by simp
qed

lemma backend_load_accelerated:
  assumes "backend_load env use_accel config = (Inr (), lb)" "lb_mode lb \<noteq> Mode_cpu"
  shows "lb_mode lb = be_desired env \<and> (\<exists>dev \<in> set (be_devices env). be_dev_init env dev = Some (hd (lb_backends lb)) \<and>
    mode_for_device env dev = Inr (be_desired env) \<and> (be_dev_type env dev = ACCEL_device \<longrightarrow> use_accel))"
proof -
  obtain found cpu where f: "find_backend env use_accel (be_devices env) = Inr found"
      "lb_backends lb = (case found of None \<Rightarrow> [] | Some b \<Rightarrow> [b]) @ [cpu]"
      "lb_mode lb = (case found of None \<Rightarrow> Mode_cpu | Some b \<Rightarrow> be_desired env)"
    using backend_load_Inr [OF assms(1)] by blast
  then obtain b where b: "found = Some b" using assms(2) by (cases found) auto
  show ?thesis using find_backend_wanted [OF f(1) [unfolded b]] f(2,3) b by auto
qed

lemma backend_load_basics:
  assumes "backend_load env use_accel config = (Inr (), lb)"
  shows "lb_freed lb = [] \<and> lb_backends lb \<noteq> [] \<and> be_cpu_init env = Some (last (lb_backends lb)) \<and>
    lb_cpu lb = Some (last (lb_backends lb)) \<and> length (lb_backends lb) \<le> 2"
  using backend_load_Inr [OF assms] by (auto split: option.splits)

lemma backend_load_started:
  assumes "backend_load env use_accel config = (r, lb)"
  shows "lb_backends lb @ lb_freed lb = started env use_accel"
proof (cases "find_backend env use_accel (be_devices env)")
  case (Inl e)
  with assms show ?thesis by (auto simp: backend_load_def init_backends_def started_def no_backends_def)
next
  case (Inr found)
  with assms show ?thesis
    by (auto simp: backend_load_def init_backends_def started_def no_backends_def Let_def split: option.splits sum.splits)
qed

text \<open>C38. Every backend a load starts is either handed to the caller or freed, also when the load fails; when it
  succeeds the CPU backend is the last one, at most one accelerated backend is before it, and that one belongs to a
  device of the mode the program was built for, which is then the mode of the loader and owns the model's buffers.
  The host buffers are those of the first backend, or the CPU's when it has none; the scheduler is the one ggml makes
  for these backends in this order, with the host buffer type for the CPU backends and its own for every other, and with
  the sizes and flags of the configuration.\<close>

theorem backends_owned:
  assumes "backend_load env use_accel config = (r, lb)"
  shows "lb_backends lb @ lb_freed lb = started env use_accel \<and>
    (r = Inr () \<longrightarrow> lb_freed lb = [] \<and> lb_scheduler lb \<noteq> None \<and> lb_backends lb \<noteq> [] \<and>
      be_cpu_init env = Some (last (lb_backends lb)) \<and> lb_cpu lb = Some (last (lb_backends lb)) \<and>
      length (lb_backends lb) \<le> 2 \<and> bp_model_buft (lb_policy lb) \<noteq> None \<and> bp_host_buft (lb_policy lb) \<noteq> None \<and>
      (lb_mode lb \<noteq> Mode_cpu \<longrightarrow> bp_model_buft (lb_policy lb) = be_default_buft env (hd (lb_backends lb)) \<and>
        lb_mode lb = be_desired env \<and>
        (\<exists>dev \<in> set (be_devices env). be_dev_init env dev = Some (hd (lb_backends lb)) \<and>
          mode_for_device env dev = Inr (be_desired env) \<and> (be_dev_type env dev = ACCEL_device \<longrightarrow> use_accel))) \<and>
      bp_model_buft (lb_policy lb) = be_default_buft env ((if lb_mode lb = Mode_cpu then last else hd) (lb_backends lb)) \<and>
      bp_host_buft (lb_policy lb) = (case be_host_buft env (hd (lb_backends lb)) of
          None \<Rightarrow> be_default_buft env (last (lb_backends lb)) | Some h \<Rightarrow> Some h) \<and>
      lb_scheduler lb = be_sched_new env (lb_backends lb)
        (map (\<lambda>b. if be_is_cpu env b then bp_host_buft (lb_policy lb) else be_default_buft env b) (lb_backends lb))
        (sc_max_nodes config) (sc_parallel config) (sc_op_offload config))"
proof (cases "r = Inr ()")
  case True
  with assms have ok: "backend_load env use_accel config = (Inr (), lb)" by simp
  have "lb_mode lb \<noteq> Mode_cpu \<Longrightarrow> bp_model_buft (lb_policy lb) = be_default_buft env (hd (lb_backends lb))"
    using backend_load_bufts(3) [OF ok] by simp
  with backend_load_basics [OF ok] backend_load_started [OF assms] backend_load_scheduler [OF ok] backend_load_bufts [OF ok]
    backend_load_accelerated [OF ok]
  show ?thesis by blast
next
  case False
  with backend_load_started [OF assms] show ?thesis by simp
qed

text \<open>A machine with a CUDA device, number 1, and the CPU, number 0.\<close>

definition cuda_env :: "(nat, nat, nat, unit) backend_env" where
  "cuda_env = \<lparr>be_devices = [0, 1], be_dev_type = (\<lambda>d. if d = 0 then CPU_device else GPU_device),
     be_reg_name = (\<lambda>d. Some (if d = 0 then ''CPU'' else ''CUDA'')), be_dev_init = Some, be_cpu_init = Some 0,
     be_is_cpu = (\<lambda>b. b = 0), be_default_buft = Some, be_host_buft = (\<lambda>_. None),
     be_sched_new = (\<lambda>_ _ _ _ _. Some ()), be_threads_proc = (\<lambda>_. True), be_desired = Mode_cuda\<rparr>"

theorem backends_owned_witness:
  "\<exists>lb. backend_load cuda_env False \<lparr>sc_max_nodes = 4096, sc_parallel = False, sc_op_offload = True\<rparr> = (Inr (), lb) \<and>
     lb_backends lb = [1, 0] \<and> lb_mode lb = Mode_cuda \<and> bp_model_buft (lb_policy lb) = Some 1"
proof -
  let ?load = "backend_load cuda_env False \<lparr>sc_max_nodes = 4096, sc_parallel = False, sc_op_offload = True\<rparr>"
  have "fst ?load = Inr ()" and mode: "lb_mode (snd ?load) = Mode_cuda"
    by (simp_all add: backend_load_def init_backends_def cuda_env_def mode_for_device_def no_backends_def Let_def
        init_buft_policy_def init_scheduler_def)
  then obtain lb where run: "?load = (Inr (), lb)" by (cases ?load) auto
  have started: "started cuda_env False = [1, 0]" by (simp add: started_def cuda_env_def mode_for_device_def)
  have "lb_backends lb = [1, 0] \<and> bp_model_buft (lb_policy lb) = be_default_buft cuda_env 1"
    using backends_owned [OF run] mode run by (auto simp: started)
  with mode run show ?thesis by (simp add: cuda_env_def)
qed

end
