(* ===== verification/QwenSources.thy ===== *)
theory QwenSources
  imports ModelApi Prompts Normalization ImagePreprocess
begin

text \<open>
  The exposed helpers of \<^verbatim>\<open>src/models/starvla/qwen3vl_bridge.cpp\<close>: the pairing of text model and projector, the tensor
  that holds a hidden state, and the choice of the next token.
\<close>

subsection \<open>Architectures\<close>

datatype qwen_architecture = qwen_unknown | qwen2_5_vl | qwen3_vl

definition qwen_vl_resolve_architecture :: "string \<Rightarrow> string \<Rightarrow> qwen_architecture res" where
  "qwen_vl_resolve_architecture text_architecture projector_type =
     (if text_architecture = ''qwen2vl'' \<and> projector_type = ''qwen2.5vl_merger'' then Inr qwen2_5_vl
      else if text_architecture = ''qwen3vl'' \<and> projector_type = ''qwen3vl_merger'' then Inr qwen3_vl
      else if text_architecture \<noteq> ''qwen2vl'' \<and> text_architecture \<noteq> ''qwen3vl'' then
        Inl (''unsupported Qwen-VL text architecture: '' @ text_architecture)
      else if projector_type \<noteq> ''qwen2.5vl_merger'' \<and> projector_type \<noteq> ''qwen3vl_merger'' then
        Inl (''unsupported Qwen-VL projector type: '' @ projector_type)
      else Inl ''Qwen-VL text and mmproj architectures do not match'')"

fun qwen_vl_architecture_name :: "qwen_architecture \<Rightarrow> string" where
  "qwen_vl_architecture_name qwen2_5_vl = ''qwen2.5-vl''"
| "qwen_vl_architecture_name qwen3_vl = ''qwen3-vl''"
| "qwen_vl_architecture_name qwen_unknown = ''unknown''"

definition qwen_vl_is_final_norm_tensor_name :: "string \<Rightarrow> bool" where
  "qwen_vl_is_final_norm_tensor_name name \<longleftrightarrow> name = ''result_norm'' \<or> name = ''result_embd_pooled''"

subsection \<open>Where a hidden state comes from\<close>

datatype source_kind = decoder_output | deepstack_output | final_norm

definition qwen_vl_hidden_state_source :: "qwen_architecture \<Rightarrow> int \<Rightarrow> int \<Rightarrow> int \<Rightarrow> (source_kind \<times> int) res" where
  "qwen_vl_hidden_state_source architecture decoder_layer_count deepstack_layer_count hidden_tuple_index =
     (if decoder_layer_count \<le> 0 \<or> hidden_tuple_index \<le> 0 \<or> hidden_tuple_index > decoder_layer_count then
        Inl ''Qwen-VL hidden-state tuple index is out of range''
      else case architecture of
        qwen2_5_vl \<Rightarrow>
          if deepstack_layer_count \<noteq> 0 then Inl ''Qwen2.5-VL hidden-state profile cannot contain DeepStack''
          else if hidden_tuple_index = decoder_layer_count then Inr (final_norm, - 1)
          else Inr (decoder_output, hidden_tuple_index - 1)
      | qwen3_vl \<Rightarrow>
          if deepstack_layer_count \<le> 0 \<or> deepstack_layer_count > decoder_layer_count then
            Inl ''Qwen3-VL DeepStack layer count is incompatible with the model''
          else Inr (if hidden_tuple_index \<le> deepstack_layer_count then deepstack_output else decoder_output,
                 hidden_tuple_index - 1)
      | qwen_unknown \<Rightarrow> Inl ''Qwen-VL hidden-state architecture is unknown'')"

lemma hidden_state_source_layer:
  assumes "qwen_vl_hidden_state_source a n d i = Inr (kind, layer)"
  shows "kind = final_norm \<and> layer = - 1 \<and> i = n \<or> kind \<noteq> final_norm \<and> layer = i - 1 \<and> 0 \<le> layer \<and> layer < n"
  using assms by (cases a) (auto simp: qwen_vl_hidden_state_source_def split: if_splits)

text \<open>Different indices have different sources.\<close>

lemma hidden_state_source_inject:
  assumes "qwen_vl_hidden_state_source a n d i = Inr s" "qwen_vl_hidden_state_source a n d j = Inr s"
  shows "i = j"
  using assms hidden_state_source_layer [of a n d i "fst s" "snd s"] hidden_state_source_layer [of a n d j "fst s" "snd s"]
  by auto

subsection \<open>The next token\<close>

text \<open>The row of logits is a pointer to as many numbers as the vocabulary has entries.\<close>

definition mark_repeated :: "nat \<Rightarrow> int list \<Rightarrow> bool list res" where
  "mark_repeated vocab_size full_sequence =
     fold (\<lambda>v r. bind_res r (\<lambda>repeated.
         if v < 0 \<or> nat v \<ge> vocab_size then Inl ''Qwen-VL generated sequence contains an out-of-vocabulary token''
         else Inr (repeated[nat v := True])))
       full_sequence (Inr (replicate vocab_size False))"

definition penalize :: "f32 \<Rightarrow> bool \<Rightarrow> f32 \<Rightarrow> f32" where
  "penalize penalty repeated score =
     (if repeated then (if f32_lt score f32_zero then f32_mul score penalty else f32_div score penalty) else score)"

text \<open>The loop over the vocabulary; \<open>best\<close> is the best score and its token so far.\<close>

fun argmax_loop :: "(nat \<Rightarrow> f32) \<Rightarrow> bool list \<Rightarrow> f32 \<Rightarrow> nat list \<Rightarrow> (f32 \<times> nat) option \<Rightarrow> (f32 \<times> nat) option res" where
  "argmax_loop logits repeated penalty [] best = Inr best"
| "argmax_loop logits repeated penalty (index # rest) best =
     (if f32_nan (logits index) then Inl ''Qwen-VL generation logits contain NaN''
      else let score = penalize penalty (repeated ! index) (logits index)
        in argmax_loop logits repeated penalty rest
             (case best of None \<Rightarrow> Some (score, index)
              | Some (b, t) \<Rightarrow> if f32_lt b score then Some (score, index) else best))"

definition qwen_vl_select_repetition_penalized_top1 ::
  "(nat \<Rightarrow> f32) option \<Rightarrow> nat \<Rightarrow> int list \<Rightarrow> f32 \<Rightarrow> nat res"
where
  "qwen_vl_select_repetition_penalized_top1 logits vocab_size full_sequence repetition_penalty =
     (case logits of
        None \<Rightarrow> Inl ''Qwen-VL generation selector received an invalid contract''
      | Some logits \<Rightarrow>
          if vocab_size = 0 \<or> int vocab_size > INT_MAX \<or> \<not> f32_finite repetition_penalty \<or>
             f32_le repetition_penalty f32_zero then Inl ''Qwen-VL generation selector received an invalid contract''
          else bind_res (mark_repeated vocab_size full_sequence) (\<lambda>repeated.
            bind_res (argmax_loop logits repeated repetition_penalty [0..<vocab_size] None) (\<lambda>best.
              case best of None \<Rightarrow> Inl ''Qwen-VL generation selector did not produce a token''
              | Some (_, token) \<Rightarrow> Inr token)))"

lemma mark_repeated_exact:
  "mark_repeated n vs = (if \<forall>v \<in> set vs. 0 \<le> v \<and> v < int n then Inr (map (\<lambda>i. int i \<in> set vs) [0..<n])
     else Inl ''Qwen-VL generated sequence contains an out-of-vocabulary token'')"
proof (induction vs rule: rev_induct)
  case Nil
  have "replicate n False = map (\<lambda>i. False) [0..<n]" by (simp add: map_replicate_const)
  then show ?case by (simp add: mark_repeated_def)
next
  case (snoc v vs)
  have step: "mark_repeated n (vs @ [v]) = bind_res (mark_repeated n vs) (\<lambda>repeated.
         if v < 0 \<or> nat v \<ge> n then Inl ''Qwen-VL generated sequence contains an out-of-vocabulary token''
         else Inr (repeated[nat v := True]))"
    by (simp add: mark_repeated_def)
  have "(map (\<lambda>i. int i \<in> set vs) [0..<n])[nat v := True] = map (\<lambda>i. int i \<in> insert v (set vs)) [0..<n]"
    if "0 \<le> v" "v < int n"
    by (rule nth_equalityI) (use that in \<open>auto simp: nth_list_update\<close>)
  then show ?case unfolding step snoc.IH by (auto simp: nat_le_iff)
qed

definition penalized_score :: "(nat \<Rightarrow> f32) \<Rightarrow> int list \<Rightarrow> f32 \<Rightarrow> nat \<Rightarrow> f32" where
  "penalized_score logits sequence penalty i = penalize penalty (int i \<in> set sequence) (logits i)"

lemma f32_lt_trans: "f32_lt a b \<Longrightarrow> f32_lt b c \<Longrightarrow> f32_lt a c"
  by (auto simp: f32_lt_def)

lemma f32_lt_le_trans: "f32_lt a b \<Longrightarrow> f32_le b c \<Longrightarrow> f32_lt a c"
  by (auto simp: f32_lt_def f32_le_def)

text \<open>What the loop keeps: the best is the first of the greatest so far.\<close>

definition first_greatest :: "(nat \<Rightarrow> f32) \<Rightarrow> nat \<Rightarrow> nat \<Rightarrow> bool" where
  "first_greatest score n t \<longleftrightarrow> t < n \<and> (\<forall>j<n. \<not> f32_lt (score t) (score j)) \<and> (\<forall>j<t. \<not> f32_le (score t) (score j))"

lemma argmax_loop_greatest:
  assumes "argmax_loop logits repeated penalty [m..<n] best = Inr r" "m \<le> n"
    and "score = (\<lambda>i. penalize penalty (repeated ! i) (logits i))"
    and "case best of None \<Rightarrow> m = 0 | Some (b, t) \<Rightarrow> b = score t \<and> first_greatest score m t"
  shows "case r of None \<Rightarrow> n = 0 | Some (b, t) \<Rightarrow> first_greatest score n t"
  using assms
proof (induction "n - m" arbitrary: m best)
  case 0
  then show ?case by (auto split: option.splits)
next
  case (Suc k)
  then have m: "m < n" "[m..<n] = m # [Suc m..<n]" by (simp_all add: upt_conv_Cons)
  let ?best = "case best of None \<Rightarrow> Some (score m, m) | Some (b, t) \<Rightarrow> if f32_lt b (score m) then Some (score m, m) else best"
  have rec: "argmax_loop logits repeated penalty [Suc m..<n] ?best = Inr r"
    using Suc.prems(1) unfolding m(2) Suc.prems(3) by (simp add: Let_def split: if_splits)
  have irrefl: "\<not> f32_lt x x" for x by (simp add: f32_lt_def)
  have next_best: "case ?best of None \<Rightarrow> Suc m = 0 | Some (b, t) \<Rightarrow> b = score t \<and> first_greatest score (Suc m) t"
  proof (cases best)
    case None
    with Suc.prems(4) show ?thesis by (simp add: first_greatest_def irrefl)
  next
    case (Some bt)
    obtain b t where bt: "bt = (b, t)" by (cases bt)
    with Some Suc.prems(4) have t: "b = score t" "first_greatest score m t" by auto
    show ?thesis
    proof (cases "f32_lt b (score m)")
      case True
      have "\<not> f32_lt (score m) (score j)" "\<not> f32_le (score m) (score j)" if "j < m" for j
        using t True that f32_lt_trans [of b "score m" "score j"] f32_lt_le_trans [of b "score m" "score j"]
        by (auto simp: first_greatest_def)
      then have "first_greatest score (Suc m) m" by (auto simp: first_greatest_def less_Suc_eq irrefl)
      with True Some bt show ?thesis by simp
    next
      case False
      then have "first_greatest score (Suc m) t" using t by (auto simp: first_greatest_def less_Suc_eq)
      with False Some bt t show ?thesis by simp
    qed
  qed
  show ?case by (rule Suc.hyps(1) [OF _ rec _ Suc.prems(3) next_best]) (use Suc.hyps(2) m in auto)
qed

lemma select_top1_in_vocabulary:
  assumes "qwen_vl_select_repetition_penalized_top1 (Some logits) n sequence penalty = Inr t"
  shows "t < n" "first_greatest (penalized_score logits sequence penalty) n t" "\<forall>v \<in> set sequence. 0 \<le> v \<and> v < int n"
proof -
  obtain repeated b where r: "mark_repeated n sequence = Inr repeated"
    and loop: "argmax_loop logits repeated penalty [0..<n] None = Inr (Some (b, t))" and n: "0 < n"
    using assms by (auto simp: qwen_vl_select_repetition_penalized_top1_def res_simps split: if_splits option.splits)
  show vs: "\<forall>v \<in> set sequence. 0 \<le> v \<and> v < int n" using r by (auto simp: mark_repeated_exact split: if_splits)
  then have rep: "repeated = map (\<lambda>i. int i \<in> set sequence) [0..<n]" using r by (simp add: mark_repeated_exact)
  have "first_greatest (\<lambda>i. penalize penalty (repeated ! i) (logits i)) n t"
    using argmax_loop_greatest [OF loop _ refl] by auto
  then show "first_greatest (penalized_score logits sequence penalty) n t"
    by (auto simp: first_greatest_def penalized_score_def rep)
  then show "t < n" by (simp add: first_greatest_def)
qed

text \<open>The token chosen for generation is the first of those with the greatest score, where the score of a
  token that already occurs is divided by the repetition penalty, or multiplied by it when it is negative; and a
  choice is made exactly when the contract holds, no logit is a NaN and the sequence is in the vocabulary.\<close>

theorem selected_token_first_greatest:
  "(\<forall>t. qwen_vl_select_repetition_penalized_top1 (Some logits) n sequence penalty = Inr t \<longrightarrow>
      first_greatest (penalized_score logits sequence penalty) n t) \<and>
   (is_ok (qwen_vl_select_repetition_penalized_top1 (Some logits) n sequence penalty) \<longleftrightarrow>
      0 < n \<and> int n \<le> INT_MAX \<and> f32_finite penalty \<and> \<not> f32_le penalty f32_zero \<and>
      (\<forall>v \<in> set sequence. 0 \<le> v \<and> v < int n) \<and> (\<forall>i<n. \<not> f32_nan (logits i)))"
proof -
  have loop: "is_ok (argmax_loop logits repeated penalty is best) \<longleftrightarrow> (\<forall>i \<in> set is. \<not> f32_nan (logits i))"
    for repeated "is" best
    by (induction "is" arbitrary: best) (auto simp: Let_def)
  have found: "argmax_loop logits repeated penalty [0..<n] None = Inr best \<Longrightarrow> 0 < n \<Longrightarrow> best \<noteq> None" for repeated best
    using argmax_loop_greatest [of logits repeated penalty 0 n None best] by (cases best) auto
  have "is_ok (qwen_vl_select_repetition_penalized_top1 (Some logits) n sequence penalty) \<longleftrightarrow>
      0 < n \<and> int n \<le> INT_MAX \<and> f32_finite penalty \<and> \<not> f32_le penalty f32_zero \<and>
      (\<forall>v \<in> set sequence. 0 \<le> v \<and> v < int n) \<and> (\<forall>i<n. \<not> f32_nan (logits i))"
  proof (cases "0 < n \<and> int n \<le> INT_MAX \<and> f32_finite penalty \<and> \<not> f32_le penalty f32_zero \<and>
      (\<forall>v \<in> set sequence. 0 \<le> v \<and> v < int n)")
    case True
    let ?r = "map (\<lambda>i. int i \<in> set sequence) [0..<n]"
    show ?thesis
      using True loop [of ?r "[0..<n]" None] found [of ?r]
      by (cases "argmax_loop logits ?r penalty [0..<n] None")
        (fastforce simp: qwen_vl_select_repetition_penalized_top1_def mark_repeated_exact split: option.splits)+
  next
    case False
    then show ?thesis
      by (auto simp: qwen_vl_select_repetition_penalized_top1_def mark_repeated_exact)
  qed
  then show ?thesis using select_top1_in_vocabulary(2) by blast
qed

theorem selected_token_first_greatest_witness:
  "qwen_vl_select_repetition_penalized_top1 (Some (\<lambda>i. if i = 1 then f32_one else f32_zero)) 3 [0] f32_one = Inr 1 \<and>
    first_greatest (penalized_score (\<lambda>i. if i = 1 then f32_one else f32_zero) [0] f32_one) 3 1"
proof -
  have three: "[0..<3] = [0, Suc 0, 2]" by (simp add: upt_rec numeral_2_eq_2 numeral_3_eq_3)
  have "f32_div f32_zero f32_one = f32_zero" by (simp add: ieee_eval)
  then have "qwen_vl_select_repetition_penalized_top1 (Some (\<lambda>i. if i = 1 then f32_one else f32_zero)) 3 [0] f32_one = Inr 1"
    by (simp add: qwen_vl_select_repetition_penalized_top1_def mark_repeated_exact three penalize_def Let_def INT_MAX_def)
      (simp add: f32_finite_def f32_le_def f32_lt_def f32_nan_def f32_key_def f32_one_def f32_zero_def fmt_simps)
  with selected_token_first_greatest [of "\<lambda>i. if i = 1 then f32_one else f32_zero" 3 "[0]" f32_one] show ?thesis by blast
qed

end
