(* ===== verification/QwenCapture.thy ===== *)
theory QwenCapture
  imports QwenSources Backend
begin

text \<open>
  The capture of hidden states, \<^verbatim>\<open>src/models/starvla/qwen3vl_bridge.cpp\<close>, in the build without CUDA kernels.

  llama.cpp calls back while it evaluates a graph: once to ask whether a node is wanted, and once after a wanted node
  has been computed.  A decode is therefore a tree that branches on the answers, and \<open>run_decode\<close> answers with the
  code's callback.  Conversions between the small float formats are ggml's and are parameters.
\<close>

subsection \<open>The tensors a decode shows\<close>

text \<open>\<open>nd_device\<close> is \<open>None\<close> when the node has no operation, no buffer or no device.\<close>

record node_info =
  nd_name :: string
  nd_ne :: "int list"
  nd_contiguous :: bool
  nd_device :: "device_type option"

datatype tensor_values = F32_values "nat \<Rightarrow> f32" | F16_values "nat \<Rightarrow> u16" | BF16_values "nat \<Rightarrow> u16" | Other_values string

record conversions =
  fp32_to_bf16 :: "f32 \<Rightarrow> u16"
  bf16_to_fp32 :: "u16 \<Rightarrow> f32"
  fp16_to_fp32 :: "u16 \<Rightarrow> f32"

definition bf16_round :: "conversions \<Rightarrow> f32 \<Rightarrow> f32" where
  "bf16_round cv x = bf16_to_fp32 cv (fp32_to_bf16 cv x)"

datatype 's decode_run =
    Decoded int 's
  | Asked node_info "bool \<Rightarrow> 's decode_run"
  | Computed node_info tensor_values "bool \<Rightarrow> tensor_values \<Rightarrow> 's decode_run"

subsection \<open>State of a capture\<close>

record backend_placement =
  accelerator_compute :: bool
  cpu_compute :: bool

record layer_capture =
  lc_enabled :: bool
  lc_bf16_boundaries :: bool
  lc_expected_deepstack :: nat
  lc_token_count :: nat
  lc_hidden_size :: nat
  lc_layer_to_slot :: "int list"
  lc_deepstack_to_slot :: "int list"
  lc_result_norm_slot :: int
  lc_values :: "f32 list"
  lc_seen :: "bool list"
  lc_rounded_layers :: "bool list"
  lc_rounded_deepstack :: "bool list"
  lc_error :: string

definition new_capture :: layer_capture where
  "new_capture = \<lparr>lc_enabled = False, lc_bf16_boundaries = False, lc_expected_deepstack = 0, lc_token_count = 0,
     lc_hidden_size = 0, lc_layer_to_slot = [], lc_deepstack_to_slot = [], lc_result_norm_slot = - 1, lc_values = [],
     lc_seen = [], lc_rounded_layers = [], lc_rounded_deepstack = [], lc_error = []\<rparr>"

definition disable_capture :: "layer_capture \<Rightarrow> layer_capture" where
  "disable_capture c = c\<lparr>lc_enabled := False, lc_token_count := 0, lc_hidden_size := 0, lc_layer_to_slot := [],
     lc_deepstack_to_slot := [], lc_result_norm_slot := - 1, lc_values := [], lc_seen := [], lc_rounded_layers := [],
     lc_rounded_deepstack := [], lc_error := []\<rparr>"

definition begin_layer_boundary_tracking :: "layer_capture \<Rightarrow> nat \<Rightarrow> layer_capture" where
  "begin_layer_boundary_tracking c layer_count =
     (if \<not> lc_bf16_boundaries c then c\<lparr>lc_rounded_layers := [], lc_rounded_deepstack := []\<rparr>
      else c\<lparr>lc_rounded_layers := replicate layer_count False,
        lc_rounded_deepstack := replicate (lc_expected_deepstack c) False\<rparr>)"

definition validate_layer_boundary_tracking :: "layer_capture \<Rightarrow> unit res" where
  "validate_layer_boundary_tracking c =
     (if \<not> lc_bf16_boundaries c then Inr ()
      else if length (lc_rounded_layers c) \<noteq> length (lc_layer_to_slot c) \<or>
        length (lc_rounded_deepstack c) \<noteq> lc_expected_deepstack c \<or>
        list_ex Not (lc_rounded_layers c) \<or> list_ex Not (lc_rounded_deepstack c)
      then Inl (''Qwen3-VL BF16 residual-boundary roundtrip did not observe '' @
        ''every expected l_out/deepstack_out exactly once'')
      else Inr ())"

definition observe_backend_placement :: "node_info \<Rightarrow> bool \<Rightarrow> backend_placement \<Rightarrow> backend_placement" where
  "observe_backend_placement node ask p =
     (if \<not> ask then p
      else case nd_device node of
        None \<Rightarrow> p
      | Some GPU_device \<Rightarrow> p\<lparr>accelerator_compute := True\<rparr>
      | Some IGPU_device \<Rightarrow> p\<lparr>accelerator_compute := True\<rparr>
      | Some ACCEL_device \<Rightarrow> p\<lparr>accelerator_compute := True\<rparr>
      | Some CPU_device \<Rightarrow> p\<lparr>cpu_compute := True\<rparr>
      | Some META_device \<Rightarrow> p)"

subsection \<open>Names of the outputs\<close>

text \<open>\<open>std::strtol\<close> in base 10: the value and the unread characters, all of them when there is no number; \<open>None\<close> when
  the number is out of range.\<close>

definition c_space :: "char \<Rightarrow> bool" where
  "c_space c \<longleftrightarrow> c = CHR '' '' \<or> (9 \<le> (of_char c :: nat) \<and> (of_char c :: nat) \<le> 13)"

definition strtol10 :: "string \<Rightarrow> (int \<times> string) option" where
  "strtol10 s =
     (case (case dropWhile c_space s of
              [] \<Rightarrow> (1, [])
            | c # cs \<Rightarrow> if c = CHR ''-'' then (- 1, cs) else if c = CHR ''+'' then (1, cs) else (1, c # cs)) of
        (sign, body) \<Rightarrow>
          if takeWhile is_digit body = [] then Some (0, s)
          else let v = sign * int (dec_value 0 (takeWhile is_digit body))
            in if signed_range 64 v then Some (v, dropWhile is_digit body) else None)"

definition indexed_output_index :: "string \<Rightarrow> string \<Rightarrow> int" where
  "indexed_output_index name prefix =
     (if take (length prefix) name \<noteq> prefix then - 1
      else let number = drop (length prefix) name
        in if number = [] then - 1
        else case strtol10 number of
          None \<Rightarrow> - 1
        | Some (parsed, rest) \<Rightarrow>
            if rest = number \<or> rest \<noteq> [] \<or> parsed < 0 \<or> parsed > INT_MAX then - 1 else parsed)"

subsection \<open>The callback\<close>

text \<open>What the callback wants of a node: the slot it fills or \<open>- 1\<close>, its layer numbers, and whether it is a residual
  boundary that has to be rounded.\<close>

record target =
  tg_slot :: int
  tg_layer :: int
  tg_deepstack :: int
  tg_round_layer :: bool
  tg_round_deepstack :: bool

definition capture_target :: "layer_capture \<Rightarrow> string \<Rightarrow> target" where
  "capture_target c name =
     (let deepstack_layer = indexed_output_index name ''deepstack_out-'';
          layer = indexed_output_index name ''l_out-'';
          valid_deepstack_layer = deepstack_layer \<ge> 0 \<and> nat deepstack_layer < length (lc_deepstack_to_slot c);
          valid_layer = layer \<ge> 0 \<and> nat layer < length (lc_layer_to_slot c)
      in \<lparr>tg_slot =
            (if valid_deepstack_layer then lc_deepstack_to_slot c ! nat deepstack_layer
             else if valid_layer then lc_layer_to_slot c ! nat layer
             else if qwen_vl_is_final_norm_tensor_name name then lc_result_norm_slot c else - 1),
          tg_layer = layer, tg_deepstack = deepstack_layer,
          tg_round_layer = (lc_bf16_boundaries c \<and> valid_layer),
          tg_round_deepstack = (lc_bf16_boundaries c \<and> valid_deepstack_layer \<and>
            nat deepstack_layer < lc_expected_deepstack c)\<rparr>)"

definition wanted :: "layer_capture \<Rightarrow> string \<Rightarrow> bool" where
  "wanted c name \<longleftrightarrow>
     (let t = capture_target c name in lc_enabled c \<and> \<not> (tg_slot t < 0 \<and> \<not> tg_round_layer t \<and> \<not> tg_round_deepstack t))"

definition check_slot :: "layer_capture \<Rightarrow> target \<Rightarrow> unit res" where
  "check_slot c t =
     (if tg_slot t \<ge> 0 \<and> nat (tg_slot t) \<ge> length (lc_seen c) then Inl ''Qwen3-VL layer-capture slot is out of range''
      else if tg_slot t \<ge> 0 \<and> lc_seen c ! nat (tg_slot t) then
        Inl ''Qwen3-VL emitted a requested hidden-state output more than once''
      else if tg_round_layer t \<and> (nat (tg_layer t) \<ge> length (lc_rounded_layers c) \<or>
          lc_rounded_layers c ! nat (tg_layer t)) then
        Inl ''Qwen3-VL l_out BF16 roundtrip index is invalid or repeated''
      else if tg_round_deepstack t \<and> (nat (tg_deepstack t) \<ge> length (lc_rounded_deepstack c) \<or>
          lc_rounded_deepstack c ! nat (tg_deepstack t)) then
        Inl ''Qwen3-VL deepstack_out BF16 roundtrip index is invalid or repeated''
      else Inr ())"

definition check_range :: "layer_capture \<Rightarrow> node_info \<Rightarrow> target \<Rightarrow> nat res" where
  "check_range c node t =
     (if \<not> nd_contiguous node \<or> nd_ne node \<noteq> [signed_take_bit 63 (int (lc_hidden_size c)),
          signed_take_bit 63 (int (lc_token_count c)), 1, 1] then
        Inl ''Qwen3-VL hidden-state output has an incompatible shape or layout''
      else if lc_hidden_size c = 0 \<or> lc_token_count c > size_max div lc_hidden_size c then
        Inl ''Qwen3-VL hidden-state capture size overflow''
      else let count = lc_token_count c * lc_hidden_size c
        in if count > size_max div 4 \<or>
            (tg_slot t \<ge> 0 \<and> (count = 0 \<or> nat (tg_slot t) \<ge> length (lc_values c) div count)) then
          Inl ''Qwen3-VL hidden-state capture byte range is invalid''
        else Inr count)"

text \<open>The values as the later layers and the capture see them.\<close>

definition rounded_values :: "conversions \<Rightarrow> target \<Rightarrow> nat \<Rightarrow> tensor_values \<Rightarrow> f32 list res" where
  "rounded_values cv t count v =
     (case v of
        F32_values x \<Rightarrow> Inr (map (\<lambda>i. bf16_round cv (x i)) [0..<count])
      | F16_values x \<Rightarrow>
          if tg_round_layer t \<or> tg_round_deepstack t then
            Inl ''Qwen3-VL BF16 residual-boundary roundtrip requires F32 tensors''
          else Inr (map (\<lambda>i. bf16_round cv (fp16_to_fp32 cv (x i))) [0..<count])
      | BF16_values x \<Rightarrow>
          if tg_round_layer t \<or> tg_round_deepstack t then
            Inl ''Qwen3-VL BF16 residual-boundary roundtrip requires F32 tensors''
          else Inr (map (\<lambda>i. bf16_to_fp32 cv (x i)) [0..<count])
      | Other_values type_name \<Rightarrow> Inl (''unsupported Qwen3-VL hidden-state output type: '' @ type_name))"

definition mark_rounded :: "target \<Rightarrow> layer_capture \<Rightarrow> layer_capture" where
  "mark_rounded t c =
     (if tg_round_layer t then c\<lparr>lc_rounded_layers := (lc_rounded_layers c)[nat (tg_layer t) := True]\<rparr>
      else if tg_round_deepstack t then c\<lparr>lc_rounded_deepstack := (lc_rounded_deepstack c)[nat (tg_deepstack t) := True]\<rparr>
      else c)"

definition store_slot :: "target \<Rightarrow> nat \<Rightarrow> f32 list \<Rightarrow> layer_capture \<Rightarrow> layer_capture" where
  "store_slot t count rounded c =
     (if tg_slot t \<ge> 0 then
        c\<lparr>lc_values := take (nat (tg_slot t) * count) (lc_values c) @ rounded @
            drop (nat (tg_slot t) * count + count) (lc_values c),
          lc_seen := (lc_seen c)[nat (tg_slot t) := True]\<rparr>
      else c)"

text \<open>The element count and the rounded values of a wanted node, or the message.\<close>

definition captured_values ::
  "conversions \<Rightarrow> layer_capture \<Rightarrow> node_info \<Rightarrow> tensor_values \<Rightarrow> (nat \<times> f32 list) res"
where
  "captured_values cv c node v =
     (let t = capture_target c (nd_name node)
      in bind_res (check_slot c t) (\<lambda>_. bind_res (check_range c node t) (\<lambda>count.
           bind_res (rounded_values cv t count v) (\<lambda>rounded. Inr (count, rounded)))))"

text \<open>The call after a node has been computed: the answer, the values the tensor has afterwards, and the new capture.\<close>

definition capture_node ::
  "conversions \<Rightarrow> node_info \<Rightarrow> tensor_values \<Rightarrow> layer_capture \<Rightarrow> bool \<times> tensor_values \<times> layer_capture"
where
  "capture_node cv node v c =
     (let t = capture_target c (nd_name node)
      in if \<not> wanted c (nd_name node) then (False, v, c)
      else case captured_values cv c node v of
        Inl e \<Rightarrow> (False, v, c\<lparr>lc_error := e\<rparr>)
      | Inr (count, rounded) \<Rightarrow>
          (True,
           if tg_round_layer t \<or> tg_round_deepstack t then
             (case v of F32_values x \<Rightarrow> F32_values (\<lambda>i. if i < count then rounded ! i else x i) | _ \<Rightarrow> v)
           else v,
           store_slot t count rounded (mark_rounded t c)))"

text \<open>\<open>observe_text_and_capture_layers\<close> on either kind of call, and a decode that is run against it.\<close>

type_synonym observer = "backend_placement \<times> layer_capture"

definition observe_ask :: "node_info \<Rightarrow> observer \<Rightarrow> bool \<times> observer" where
  "observe_ask node s =
     (case s of (p, c) \<Rightarrow> (wanted c (nd_name node), observe_backend_placement node True p, c))"

definition observe_computed ::
  "conversions \<Rightarrow> node_info \<Rightarrow> tensor_values \<Rightarrow> observer \<Rightarrow> bool \<times> tensor_values \<times> observer"
where
  "observe_computed cv node v s =
     (case s of (p, c) \<Rightarrow> case capture_node cv node v c of (continue, v', c') \<Rightarrow>
        (continue, v', observe_backend_placement node False p, c'))"

primrec run_decode :: "conversions \<Rightarrow> 's decode_run \<Rightarrow> observer \<Rightarrow> int \<times> 's \<times> observer" where
  "run_decode cv (Decoded result ctx) s = (result, ctx, s)"
| "run_decode cv (Asked node k) s = (case observe_ask node s of (answer, s') \<Rightarrow> run_decode cv (k answer) s')"
| "run_decode cv (Computed node v k) s =
     (case observe_computed cv node v s of (answer, v', s') \<Rightarrow> run_decode cv (k answer v') s')"

text \<open>The nodes a decode hands over after computing them, in order: what the promises below speak of.\<close>

primrec computed_nodes :: "conversions \<Rightarrow> 's decode_run \<Rightarrow> observer \<Rightarrow> (node_info \<times> tensor_values) list" where
  "computed_nodes cv (Decoded result ctx) s = []"
| "computed_nodes cv (Asked node k) s =
     (case observe_ask node s of (answer, s') \<Rightarrow> computed_nodes cv (k answer) s')"
| "computed_nodes cv (Computed node v k) s =
     (case observe_computed cv node v s of (answer, v', s') \<Rightarrow> (node, v) # computed_nodes cv (k answer v') s')"

subsection \<open>Names and numbers\<close>

lemma takeWhile_digits_whole: "list_all is_digit ds \<Longrightarrow> takeWhile is_digit ds = ds \<and> dropWhile is_digit ds = []"
  by (simp add: list_all_iff)

lemma digit_not_special: "is_digit c \<Longrightarrow> \<not> c_space c \<and> c \<noteq> CHR ''-'' \<and> c \<noteq> CHR ''+''"
  by (auto simp: is_digit_def c_space_def)

lemma strtol10_nat: "int n \<le> INT_MAX \<Longrightarrow> strtol10 (nat_to_string n) = Some (int n, [])"
proof -
  assume n: "int n \<le> INT_MAX"
  obtain c cs where ds: "nat_to_string n = c # cs" using nat_to_string_nonempty [of n] by (cases "nat_to_string n") auto
  have digits: "list_all is_digit (c # cs)" using nat_to_string_digits [of _ n] by (simp add: ds list_all_iff)
  moreover have "signed_range 64 (int n)" using n by (simp add: signed_range_def INT_MAX_def)
  moreover have "dec_value 0 (c # cs) = n" using dec_value_nat_to_string [of n] ds by simp
  moreover have "dropWhile c_space (c # cs) = c # cs" "c \<noteq> CHR ''-''" "c \<noteq> CHR ''+''"
    using digits digit_not_special [of c] by simp_all
  moreover have "takeWhile is_digit (c # cs) = c # cs" "dropWhile is_digit (c # cs) = []"
    using takeWhile_digits_whole [OF digits] by simp_all
  ultimately show ?thesis by (simp add: strtol10_def ds Let_def
      del: dec_value.simps takeWhile.simps dropWhile.simps takeWhile_eq_all_conv dropWhile_eq_Nil_conv)
qed

text \<open>The name llama.cpp gives to the output of a layer is read back as the number of the layer.\<close>

lemma indexed_output_name: "int n \<le> INT_MAX \<Longrightarrow> indexed_output_index (prefix @ nat_to_string n) prefix = int n"
  using nat_to_string_nonempty [of n] by (auto simp: indexed_output_index_def strtol10_nat INT_MAX_def)

lemma indexed_output_prefix: "indexed_output_index name prefix \<noteq> - 1 \<Longrightarrow> take (length prefix) name = prefix"
  by (auto simp: indexed_output_index_def split: if_splits)

lemma indexed_output_range: "- 1 \<le> indexed_output_index name prefix"
  by (auto simp: indexed_output_index_def Let_def split: option.splits)

text \<open>Whether a node is the source of a hidden state.\<close>

fun emits :: "source_kind \<times> int \<Rightarrow> string \<Rightarrow> bool" where
  "emits (deepstack_output, layer) name = (0 \<le> layer \<and> indexed_output_index name ''deepstack_out-'' = layer)"
| "emits (decoder_output, layer) name = (0 \<le> layer \<and> indexed_output_index name ''l_out-'' = layer)"
| "emits (final_norm, layer) name = qwen_vl_is_final_norm_tensor_name name"

text \<open>No name belongs to two kinds of source.\<close>

lemma name_kinds_disjoint:
  "indexed_output_index name ''deepstack_out-'' \<noteq> - 1 \<Longrightarrow>
     indexed_output_index name ''l_out-'' = - 1 \<and> \<not> qwen_vl_is_final_norm_tensor_name name"
  "indexed_output_index name ''l_out-'' \<noteq> - 1 \<Longrightarrow>
     indexed_output_index name ''deepstack_out-'' = - 1 \<and> \<not> qwen_vl_is_final_norm_tensor_name name"
  "qwen_vl_is_final_norm_tensor_name name \<Longrightarrow>
     indexed_output_index name ''deepstack_out-'' = - 1 \<and> indexed_output_index name ''l_out-'' = - 1"
proof -
  have d: "indexed_output_index name ''deepstack_out-'' \<noteq> - 1 \<Longrightarrow> name \<noteq> [] \<and> hd name = CHR ''d''"
    using indexed_output_prefix [of name "''deepstack_out-''"] by (cases name) auto
  have l: "indexed_output_index name ''l_out-'' \<noteq> - 1 \<Longrightarrow> name \<noteq> [] \<and> hd name = CHR ''l''"
    using indexed_output_prefix [of name "''l_out-''"] by (cases name) auto
  have r: "qwen_vl_is_final_norm_tensor_name name \<Longrightarrow> hd name = CHR ''r''"
    by (auto simp: qwen_vl_is_final_norm_tensor_name_def)
  show "indexed_output_index name ''deepstack_out-'' \<noteq> - 1 \<Longrightarrow>
      indexed_output_index name ''l_out-'' = - 1 \<and> \<not> qwen_vl_is_final_norm_tensor_name name"
    "indexed_output_index name ''l_out-'' \<noteq> - 1 \<Longrightarrow>
      indexed_output_index name ''deepstack_out-'' = - 1 \<and> \<not> qwen_vl_is_final_norm_tensor_name name"
    "qwen_vl_is_final_norm_tensor_name name \<Longrightarrow>
      indexed_output_index name ''deepstack_out-'' = - 1 \<and> indexed_output_index name ''l_out-'' = - 1"
    using d l r by fastforce+
qed

lemma emits_inject:
  assumes "emits s name" "emits s' name" "fst s \<noteq> final_norm"
  shows "s = s'"
proof -
  define d where "d = indexed_output_index name ''deepstack_out-''"
  define l where "l = indexed_output_index name ''l_out-''"
  define r where "r \<longleftrightarrow> qwen_vl_is_final_norm_tensor_name name"
  have disjoint: "d \<noteq> - 1 \<Longrightarrow> l = - 1" "d \<noteq> - 1 \<Longrightarrow> \<not> r" "l \<noteq> - 1 \<Longrightarrow> \<not> r"
    unfolding d_def l_def r_def using name_kinds_disjoint [of name] by metis+
  have emits: "emits (k, i) name \<longleftrightarrow>
      (case k of deepstack_output \<Rightarrow> 0 \<le> i \<and> d = i | decoder_output \<Rightarrow> 0 \<le> i \<and> l = i | final_norm \<Rightarrow> r)" for k i
    by (cases k) (simp_all add: d_def l_def r_def)
  obtain k i k' i' where s: "s = (k, i)" "s' = (k', i')" by (cases s; cases s')
  show ?thesis using assms unfolding s emits using disjoint by (cases k; cases k') auto
qed

lemma emits_canonical:
  "int n \<le> INT_MAX \<Longrightarrow> emits (decoder_output, int n) (''l_out-'' @ nat_to_string n)"
  "int n \<le> INT_MAX \<Longrightarrow> emits (deepstack_output, int n) (''deepstack_out-'' @ nat_to_string n)"
  "emits (final_norm, - 1) ''result_norm''"
  using indexed_output_name [of n "''l_out-''"] indexed_output_name [of n "''deepstack_out-''"]
  by (simp_all add: qwen_vl_is_final_norm_tensor_name_def)

subsection \<open>What a run of callbacks captures\<close>

definition capture_step :: "conversions \<Rightarrow> layer_capture \<Rightarrow> node_info \<times> tensor_values \<Rightarrow> layer_capture" where
  "capture_step cv c nv = snd (snd (capture_node cv (fst nv) (snd nv) c))"

lemma run_decode_captures:
  "run_decode cv r s = (result, ctx, s') \<Longrightarrow> snd s' = foldl (capture_step cv) (snd s) (computed_nodes cv r s)"
proof (induction r arbitrary: s)
  case (Computed node v k)
  obtain answer v' s1 where o: "observe_computed cv node v s = (answer, v', s1)" by (cases "observe_computed cv node v s")
  then have "snd s1 = capture_step cv (snd s) (node, v)"
    by (auto simp: observe_computed_def capture_step_def split: prod.splits)
  moreover have "snd s' = foldl (capture_step cv) (snd s1) (computed_nodes cv (k answer v') s1)"
    by (rule Computed.IH) (use Computed.prems o in \<open>auto simp del: split_paired_All\<close>)
  ultimately show ?case by (simp add: o)
next
  case (Asked node k)
  obtain answer s1 where o: "observe_ask node s = (answer, s1)" by (cases "observe_ask node s")
  moreover from this have "snd s1 = snd s" by (auto simp: observe_ask_def split: prod.splits)
  moreover have "snd s' = foldl (capture_step cv) (snd s1) (computed_nodes cv (k answer) s1)"
    by (rule Asked.IH) (use Asked.prems o in auto)
  ultimately show ?case by simp
qed simp

text \<open>The callback leaves the request itself alone.\<close>

definition same_request :: "layer_capture \<Rightarrow> layer_capture \<Rightarrow> bool" where
  "same_request c c' \<longleftrightarrow> lc_enabled c' = lc_enabled c \<and> lc_bf16_boundaries c' = lc_bf16_boundaries c \<and>
     lc_expected_deepstack c' = lc_expected_deepstack c \<and> lc_token_count c' = lc_token_count c \<and>
     lc_hidden_size c' = lc_hidden_size c \<and> lc_layer_to_slot c' = lc_layer_to_slot c \<and>
     lc_deepstack_to_slot c' = lc_deepstack_to_slot c \<and> lc_result_norm_slot c' = lc_result_norm_slot c \<and>
     length (lc_seen c') = length (lc_seen c) \<and> length (lc_rounded_layers c') = length (lc_rounded_layers c) \<and>
     length (lc_rounded_deepstack c') = length (lc_rounded_deepstack c)"

lemma same_request_refl [simp]: "same_request c c" by (simp add: same_request_def)

lemma same_request_target:
  assumes "same_request c c'"
  shows "capture_target c' = capture_target c" "wanted c' = wanted c"
proof -
  show t: "capture_target c' = capture_target c"
    by (rule ext) (use assms in \<open>simp only: capture_target_def same_request_def\<close>)
  show "wanted c' = wanted c"
    by (rule ext) (use assms in \<open>simp only: wanted_def t same_request_def\<close>)
qed

lemma capture_step_request: "same_request c (capture_step cv c nv)"
  by (auto simp: capture_step_def capture_node_def Let_def same_request_def store_slot_def mark_rounded_def
      split: sum.splits)

lemma capture_steps_request: "same_request c (foldl (capture_step cv) c ns)"
proof (induction ns rule: rev_induct)
  case (snoc nv ns)
  then show ?case using capture_step_request [of "foldl (capture_step cv) c ns" cv nv]
    by (simp add: same_request_def)
qed simp

text \<open>Errors stay.\<close>

lemma capture_step_eq:
  "capture_step cv c (node, v) =
     (if \<not> wanted c (nd_name node) then c
      else case captured_values cv c node v of Inl e \<Rightarrow> c\<lparr>lc_error := e\<rparr>
      | Inr (count, rounded) \<Rightarrow> store_slot (capture_target c (nd_name node)) count rounded
          (mark_rounded (capture_target c (nd_name node)) c))"
  by (simp add: capture_step_def capture_node_def Let_def split: sum.splits)

lemma captured_values_message: "captured_values cv c node v \<noteq> Inl []"
proof -
  have "check_slot c t \<noteq> Inl []" for t by (auto simp: check_slot_def)
  moreover have "check_range c node t \<noteq> Inl []" for t by (auto simp: check_range_def Let_def)
  moreover have "rounded_values cv t count v \<noteq> Inl []" for t count
    by (auto simp: rounded_values_def split: tensor_values.splits)
  ultimately show ?thesis by (auto simp: captured_values_def Let_def bind_res_def split: sum.splits)
qed

lemma stores_keep_error [simp]: "lc_error (store_slot t count rounded c) = lc_error c" "lc_error (mark_rounded t c) = lc_error c"
  by (simp_all add: store_slot_def mark_rounded_def)

lemma capture_step_no_error:
  assumes "lc_error (capture_step cv c (node, v)) = []"
  shows "lc_error c = [] \<and> (wanted c (nd_name node) \<longrightarrow> (\<exists>count rounded.
      check_slot c (capture_target c (nd_name node)) = Inr () \<and>
      check_range c node (capture_target c (nd_name node)) = Inr count \<and>
      rounded_values cv (capture_target c (nd_name node)) count v = Inr rounded \<and>
      capture_step cv c (node, v) = store_slot (capture_target c (nd_name node)) count rounded
        (mark_rounded (capture_target c (nd_name node)) c)))"
proof (cases "wanted c (nd_name node)")
  case True
  then obtain count rounded where r: "captured_values cv c node v = Inr (count, rounded)"
    using assms captured_values_message [of cv c node v]
    by (cases "captured_values cv c node v") (auto simp: capture_step_eq)
  with True assms show ?thesis
    by (auto simp: capture_step_eq captured_values_def Let_def res_simps)
next
  case False
  with assms show ?thesis by (simp add: capture_step_eq)
qed

subsection \<open>Blocks of a buffer\<close>

definition block :: "nat \<Rightarrow> nat \<Rightarrow> 'a list \<Rightarrow> 'a list" where
  "block n i vs = take n (drop (i * n) vs)"

definition put_block :: "nat \<Rightarrow> nat \<Rightarrow> 'a list \<Rightarrow> 'a list \<Rightarrow> 'a list" where
  "put_block n i xs vs = take (i * n) vs @ xs @ drop (i * n + n) vs"

lemma block_end: "i < m \<Longrightarrow> i * n + n \<le> m * (n :: nat)"
  using mult_le_mono1 [of "Suc i" m n] by simp

lemma length_block: "length vs = m * n \<Longrightarrow> i < m \<Longrightarrow> length (block n i vs) = n"
  using block_end [of i m n] by (simp add: block_def)

lemma length_put_block: "length vs = m * n \<Longrightarrow> i < m \<Longrightarrow> length xs = n \<Longrightarrow> length (put_block n i xs vs) = m * n"
  using block_end [of i m n] by (simp add: put_block_def)

lemma block_put_block:
  assumes "length vs = m * n" "i < m" "length xs = n"
  shows "block n i (put_block n i xs vs) = xs"
  using assms block_end [of i m n] by (simp add: block_def put_block_def)

lemma block_put_other:
  assumes "length vs = m * n" "i < m" "j < m" "j \<noteq> i" "length xs = n"
  shows "block n j (put_block n i xs vs) = block n j vs"
proof (rule nth_equalityI)
  show "length (block n j (put_block n i xs vs)) = length (block n j vs)"
    using assms length_put_block [of vs m n i xs] length_block [of vs m n j] length_block [of "put_block n i xs vs" m n j]
    by simp
  fix k assume "k < length (block n j (put_block n i xs vs))"
  then have k: "k < n" by (simp add: block_def)
  have low: "j * n + k < i * n" if "j < i" using block_end [OF that, of n] k by simp
  have high: "i * n + n \<le> j * n + k" if "i < j" using block_end [OF that, of n] by simp
  have bounds: "i * n + n \<le> m * n" "j * n + n \<le> m * n" using assms block_end by blast+
  have "put_block n i xs vs ! (j * n + k) = vs ! (j * n + k)"
    using assms(1,4,5) low high bounds k
    by (cases "j < i") (auto simp: put_block_def nth_append min_def)
  then show "block n j (put_block n i xs vs) ! k = block n j vs ! k"
    using bounds assms length_put_block [of vs m n i xs] k by (simp add: block_def)
qed

subsection \<open>The invariant of a capture\<close>

definition capture_count :: "layer_capture \<Rightarrow> nat" where
  "capture_count c = lc_token_count c * lc_hidden_size c"

definition fills :: "layer_capture \<Rightarrow> nat \<Rightarrow> node_info \<times> tensor_values \<Rightarrow> bool" where
  "fills c i nv \<longleftrightarrow> tg_slot (capture_target c (nd_name (fst nv))) = int i"

definition rounds_layer :: "layer_capture \<Rightarrow> nat \<Rightarrow> node_info \<times> tensor_values \<Rightarrow> bool" where
  "rounds_layer c l nv \<longleftrightarrow>
     (let t = capture_target c (nd_name (fst nv)) in tg_round_layer t \<and> tg_layer t = int l)"

definition rounds_deepstack :: "layer_capture \<Rightarrow> nat \<Rightarrow> node_info \<times> tensor_values \<Rightarrow> bool" where
  "rounds_deepstack c l nv \<longleftrightarrow>
     (let t = capture_target c (nd_name (fst nv)) in tg_round_deepstack t \<and> tg_deepstack t = int l)"

definition slot_captured ::
  "conversions \<Rightarrow> layer_capture \<Rightarrow> (node_info \<times> tensor_values) list \<Rightarrow> nat \<Rightarrow> f32 list \<Rightarrow> bool"
where
  "slot_captured cv c ns i xs \<longleftrightarrow> (\<exists>node v. filter (fills c i) ns = [(node, v)] \<and>
     rounded_values cv (capture_target c (nd_name node)) (capture_count c) v = Inr xs)"

definition capture_invariant ::
  "conversions \<Rightarrow> layer_capture \<Rightarrow> (node_info \<times> tensor_values) list \<Rightarrow> layer_capture \<Rightarrow> bool"
where
  "capture_invariant cv c0 ns c \<longleftrightarrow>
     length (lc_values c) = length (lc_seen c0) * capture_count c0 \<and>
     (\<forall>i<length (lc_seen c0). if lc_seen c ! i then slot_captured cv c0 ns i (block (capture_count c0) i (lc_values c))
        else filter (fills c0 i) ns = []) \<and>
     (\<forall>l<length (lc_rounded_layers c0).
        length (filter (rounds_layer c0 l) ns) = (if lc_rounded_layers c ! l then 1 else 0)) \<and>
     (\<forall>l<length (lc_rounded_deepstack c0).
        length (filter (rounds_deepstack c0 l) ns) = (if lc_rounded_deepstack c ! l then 1 else 0))"

lemma rounded_values_length: "rounded_values cv t n v = Inr xs \<Longrightarrow> length xs = n"
  by (auto simp: rounded_values_def split: tensor_values.splits if_splits)

lemma target_round_kinds: "\<not> (tg_round_layer (capture_target c name) \<and> tg_round_deepstack (capture_target c name))"
proof -
  have "\<not> (0 \<le> indexed_output_index name ''l_out-'' \<and> 0 \<le> indexed_output_index name ''deepstack_out-'')"
    using name_kinds_disjoint(1) [of name] by fastforce
  then show ?thesis by (auto simp: capture_target_def Let_def simp del: One_nat_def)
qed

lemma mark_rounded_keeps [simp]:
  "lc_values (mark_rounded t c) = lc_values c" "lc_seen (mark_rounded t c) = lc_seen c"
  by (simp_all add: mark_rounded_def)

lemma store_slot_parts:
  "lc_values (store_slot t n xs c) = (if tg_slot t \<ge> 0 then put_block n (nat (tg_slot t)) xs (lc_values c) else lc_values c)"
  "lc_seen (store_slot t n xs c) = (if tg_slot t \<ge> 0 then (lc_seen c)[nat (tg_slot t) := True] else lc_seen c)"
  "lc_rounded_layers (store_slot t n xs c) = lc_rounded_layers c"
  "lc_rounded_deepstack (store_slot t n xs c) = lc_rounded_deepstack c"
  by (simp_all add: store_slot_def put_block_def)

lemma mark_rounded_parts:
  "lc_rounded_layers (mark_rounded t c) =
     (if tg_round_layer t then (lc_rounded_layers c)[nat (tg_layer t) := True] else lc_rounded_layers c)"
  "\<not> (tg_round_layer t \<and> tg_round_deepstack t) \<Longrightarrow> lc_rounded_deepstack (mark_rounded t c) =
     (if tg_round_deepstack t then (lc_rounded_deepstack c)[nat (tg_deepstack t) := True] else lc_rounded_deepstack c)"
  by (auto simp: mark_rounded_def)

lemma target_layers_nonneg:
  "tg_round_layer (capture_target c name) \<Longrightarrow> 0 \<le> tg_layer (capture_target c name)"
  "tg_round_deepstack (capture_target c name) \<Longrightarrow> 0 \<le> tg_deepstack (capture_target c name)"
  by (simp_all add: capture_target_def Let_def)

text \<open>Counting a mark: the list is set at one index, and the events grow by one for that index.\<close>

lemma count_mark:
  assumes "\<forall>l<length marks. length (filter (P l) ns) = (if marks ! l then 1 else (0::nat))"
    and "\<And>l. P l nv \<longleftrightarrow> hit \<and> k = l" "hit \<Longrightarrow> k < length marks \<and> \<not> marks ! k" "l < length marks"
  shows "length (filter (P l) (ns @ [nv])) = (if (if hit then marks[k := True] else marks) ! l then 1 else 0)"
  using assms by (auto simp: nth_list_update)

lemma capture_invariant_step:
  assumes inv: "capture_invariant cv c0 ns c" and same: "same_request c0 c" and "lc_enabled c0"
    and step: "lc_error (capture_step cv c (node, v)) = []"
  shows "capture_invariant cv c0 (ns @ [(node, v)]) (capture_step cv c (node, v))"
proof -
  let ?t = "capture_target c0 (nd_name node)" and ?c' = "capture_step cv c (node, v)" and ?n = "capture_count c0"
  have t: "capture_target c = capture_target c0" "wanted c = wanted c0" using same_request_target [OF same] by auto
  have len: "length (lc_seen c) = length (lc_seen c0)" "length (lc_rounded_layers c) = length (lc_rounded_layers c0)"
    "length (lc_rounded_deepstack c) = length (lc_rounded_deepstack c0)" using same by (simp_all add: same_request_def)
  have I: "length (lc_values c) = length (lc_seen c0) * ?n"
    "\<And>i. i < length (lc_seen c0) \<Longrightarrow> if lc_seen c ! i then slot_captured cv c0 ns i (block ?n i (lc_values c))
        else filter (fills c0 i) ns = []"
    "\<forall>l<length (lc_rounded_layers c0). length (filter (rounds_layer c0 l) ns) = (if lc_rounded_layers c ! l then 1 else 0)"
    "\<forall>l<length (lc_rounded_deepstack c0).
        length (filter (rounds_deepstack c0 l) ns) = (if lc_rounded_deepstack c ! l then 1 else 0)"
    using inv by (auto simp: capture_invariant_def)
  show ?thesis
  proof (cases "wanted c0 (nd_name node)")
    case False
    then have none: "\<not> fills c0 i (node, v)" "\<not> rounds_layer c0 i (node, v)" "\<not> rounds_deepstack c0 i (node, v)" for i
      using \<open>lc_enabled c0\<close> by (auto simp: wanted_def Let_def fills_def rounds_layer_def rounds_deepstack_def)
    have "?c' = c" using False by (simp add: capture_step_eq t)
    moreover have "slot_captured cv c0 (ns @ [(node, v)]) = slot_captured cv c0 ns"
      using none by (simp add: slot_captured_def fun_eq_iff)
    ultimately show ?thesis using inv none by (simp add: capture_invariant_def)
  next
    case True
    then obtain count xs where checks: "check_slot c ?t = Inr ()" "check_range c node ?t = Inr count"
        "rounded_values cv ?t count v = Inr xs" and c': "?c' = store_slot ?t count xs (mark_rounded ?t c)"
      using capture_step_no_error [OF step] unfolding t by blast
    have n: "count = ?n" using checks(2) same
      by (auto simp: check_range_def Let_def capture_count_def same_request_def split: if_splits)
    have xs: "length xs = ?n" using rounded_values_length [OF checks(3)] n by simp
    have slot: "nat (tg_slot ?t) < length (lc_seen c0)" "\<not> lc_seen c ! nat (tg_slot ?t)" if "0 \<le> tg_slot ?t"
      using checks(1) that len by (auto simp: check_slot_def split: if_splits)
    have layer: "nat (tg_layer ?t) < length (lc_rounded_layers c) \<and> \<not> lc_rounded_layers c ! nat (tg_layer ?t)"
      if "tg_round_layer ?t" using checks(1) that by (auto simp: check_slot_def split: if_splits)
    have deep: "nat (tg_deepstack ?t) < length (lc_rounded_deepstack c) \<and> \<not> lc_rounded_deepstack c ! nat (tg_deepstack ?t)"
      if "tg_round_deepstack ?t" using checks(1) that by (auto simp: check_slot_def split: if_splits)
    have values_len: "length (lc_values ?c') = length (lc_seen c0) * ?n"
      using I(1) slot(1) xs length_put_block [OF I(1)] by (simp add: c' store_slot_parts n)
    have slots: "if lc_seen ?c' ! i then slot_captured cv c0 (ns @ [(node, v)]) i (block ?n i (lc_values ?c'))
        else filter (fills c0 i) (ns @ [(node, v)]) = []" if i: "i < length (lc_seen c0)" for i
    proof (cases "tg_slot ?t = int i")
      case True
      then have "filter (fills c0 i) ns = []" "fills c0 i (node, v)" using I(2) [OF i] slot by (simp_all add: fills_def)
      with True checks(3) show ?thesis using I(1) i xs len
        by (simp add: c' store_slot_parts n block_put_block [OF I(1)] slot_captured_def)
    next
      case False
      then have "\<not> fills c0 i (node, v)" by (simp add: fills_def)
      moreover have "lc_seen ?c' ! i = lc_seen c ! i" using False by (auto simp: c' store_slot_parts)
      moreover have "block ?n i (lc_values ?c') = block ?n i (lc_values c)"
        using block_put_other [OF I(1) _ i _ xs, of "nat (tg_slot ?t)"] slot(1) False by (simp add: c' store_slot_parts n)
      ultimately show ?thesis using I(2) [OF i] by (cases "lc_seen c ! i") (simp_all add: slot_captured_def)
    qed
    have kinds: "\<not> (tg_round_layer ?t \<and> tg_round_deepstack ?t)" by (rule target_round_kinds)
    have rl: "rounds_layer c0 l (node, v) \<longleftrightarrow> tg_round_layer ?t \<and> nat (tg_layer ?t) = l" for l
      using target_layers_nonneg(1) [of c0 "nd_name node"] by (auto simp: rounds_layer_def Let_def)
    have rd: "rounds_deepstack c0 l (node, v) \<longleftrightarrow> tg_round_deepstack ?t \<and> nat (tg_deepstack ?t) = l" for l
      using target_layers_nonneg(2) [of c0 "nd_name node"] by (auto simp: rounds_deepstack_def Let_def)
    have "length (filter (rounds_layer c0 l) (ns @ [(node, v)])) = (if lc_rounded_layers ?c' ! l then 1 else 0)"
      if "l < length (lc_rounded_layers c0)" for l
      unfolding c' store_slot_parts mark_rounded_parts
      by (rule count_mark) (use I(3) rl layer that len in auto)
    moreover have "length (filter (rounds_deepstack c0 l) (ns @ [(node, v)])) = (if lc_rounded_deepstack ?c' ! l then 1 else 0)"
      if "l < length (lc_rounded_deepstack c0)" for l
      unfolding c' store_slot_parts mark_rounded_parts(2) [OF kinds]
      by (rule count_mark) (use I(4) rd deep that len in auto)
    ultimately show ?thesis using values_len slots unfolding capture_invariant_def by blast
  qed
qed

lemma capture_invariant_run:
  assumes "lc_enabled c0" "lc_values c0 = replicate (length (lc_seen c0) * capture_count c0) x"
    "list_all Not (lc_seen c0)" "list_all Not (lc_rounded_layers c0)" "list_all Not (lc_rounded_deepstack c0)"
    "lc_error (foldl (capture_step cv) c0 ns) = []"
  shows "capture_invariant cv c0 ns (foldl (capture_step cv) c0 ns)"
  using assms(6)
proof (induction ns rule: rev_induct)
  case Nil
  then show ?case using assms(2-5) by (simp add: capture_invariant_def list_all_length)
next
  case (snoc nv ns)
  obtain node v where nv: "nv = (node, v)" by (cases nv)
  let ?c = "foldl (capture_step cv) c0 ns"
  have step: "lc_error (capture_step cv ?c (node, v)) = []" using snoc.prems by (simp add: nv)
  with capture_step_no_error [OF step] snoc.IH have "capture_invariant cv c0 ns ?c" by blast
  then show ?case
    using capture_invariant_step [OF _ capture_steps_request assms(1) step] by (simp add: nv)
qed

end
