(* ===== verification/QwenPrompt.thy ===== *)
theory QwenPrompt
  imports QwenCapture PolicyGguf
begin

text \<open>
  From images and an instruction to one embedding batch: chat template, image packing, tokenisation and the merged
  buffers of \<^verbatim>\<open>src/models/starvla/qwen3vl_bridge.cpp\<close>.  llama.cpp and its multimodal library are the records \<open>vocab\<close>,
  \<open>text_model\<close> and \<open>qwen_lib\<close> of their entry points; \<open>'s\<close> is the rest of the state of a text context and \<open>'v\<close> that of a
  vision context.
\<close>

subsection \<open>The libraries\<close>

text \<open>\<open>llama_tokenize\<close>: text, its size, the capacity of the buffer (0 without one) and the parsing of special tokens, to
  the returned count and the tokens written.\<close>

record vocab =
  vo_n_tokens :: int
  vo_tokenize :: "string \<Rightarrow> int \<Rightarrow> nat \<Rightarrow> bool \<Rightarrow> int \<times> int list"

text \<open>The table of token embeddings; its values are read at byte offsets.\<close>

datatype table_values = F32_table "nat \<Rightarrow> f32" | F16_table "nat \<Rightarrow> u16" | BF16_table "nat \<Rightarrow> u16" | Other_table string

record embedding_table =
  et_ne0 :: int
  et_ne1 :: int
  et_nb1 :: nat
  et_contiguous :: bool
  et_buffer :: bool
  et_values :: table_values

record text_model =
  tm_meta :: "string \<Rightarrow> string option"
  tm_n_embd_out :: int
  tm_n_embd_inp :: int
  tm_n_layer :: int
  tm_dev_layer :: "nat \<Rightarrow> device_type option"
  tm_dev_output :: "device_type option"
  tm_vocab :: "vocab option"
  tm_chat_template :: "string option"
  tm_token_embd :: "embedding_table option"

record decoder_pos =
  dp_t :: u32
  dp_x :: u32
  dp_y :: u32
  dp_z :: u32

record image_tokens =
  it_n_tokens :: nat
  it_decoder_pos :: "int \<Rightarrow> nat \<Rightarrow> decoder_pos"

datatype chunk_type = Text_chunk | Image_chunk | Audio_chunk

record input_chunk =
  ck_type :: chunk_type
  ck_n_tokens :: nat
  ck_n_pos :: int
  ck_text :: "int list option"
  ck_image :: "image_tokens option"

record llama_batch =
  ba_n_tokens :: int
  ba_token :: "int list option"
  ba_embd :: "f32 list option"
  ba_pos :: "int list"
  ba_n_seq_id :: "int list"
  ba_seq_id :: "int list list"
  ba_logits :: "int list"

text \<open>\<open>ql_encode\<close> also lists the devices of the nodes its evaluation asks about.\<close>

record ('s, 'v, 'b) qwen_lib =
  ql_conv :: conversions
  ql_apply_template :: "string \<Rightarrow> (string \<times> string) list \<Rightarrow> bool \<Rightarrow> nat \<Rightarrow> int \<times> string"
  ql_marker :: "string option"
  ql_bitmap :: "u32 \<Rightarrow> u32 \<Rightarrow> u8 list \<Rightarrow> 'b option"
  ql_chunks_init :: bool
  ql_tokenize :: "string \<Rightarrow> 'b list \<Rightarrow> 'v \<Rightarrow> int \<times> input_chunk list \<times> 'v"
  ql_use_mrope :: "'v \<Rightarrow> bool"
  ql_encode :: "input_chunk \<Rightarrow> 'v \<Rightarrow> int \<times> node_info list \<times> 'v"
  ql_output_embd :: "'v \<Rightarrow> (nat \<Rightarrow> f32) option"
  ql_decode :: "llama_batch \<Rightarrow> bool \<Rightarrow> 's \<Rightarrow> 's decode_run"
  ql_synchronize :: "'s \<Rightarrow> 's"
  ql_memory_clear :: "'s \<Rightarrow> 's"
  ql_logits :: "'s \<Rightarrow> (nat \<Rightarrow> f32) option"

subsection \<open>Settings\<close>

record qwen_bridge_config =
  qb_text_path :: string
  qb_mmproj_path :: string
  qb_bundle_uuid :: string
  qb_hidden_size :: int
  qb_input_embedding_size :: int
  qb_vocab_size :: int
  qb_action_token :: string
  qb_action_token_id :: int
  qb_expected_image_count :: int
  qb_image_min_tokens :: int
  qb_image_max_tokens :: int
  qb_image_spatial_merge_size :: int
  qb_n_ctx :: int
  qb_n_batch :: int
  qb_n_threads :: int
  qb_verbosity :: int
  qb_flash_text_attention :: bool
  qb_bf16_residual_layer_boundaries :: bool
  qb_disable_text_backend_native_graphs :: bool
  qb_disable_vision_backend_native_graphs :: bool

subsection \<open>Conversions of the sources\<close>

text \<open>\<open>static_cast\<close> to \<open>size_t\<close>, \<open>int32_t\<close> and \<open>int64_t\<close>, and the text a C function sees.\<close>

definition c_str :: "string \<Rightarrow> string" where "c_str s = takeWhile (\<lambda>c. c \<noteq> CHR 0x00) s"

lemma size_cast_id: "0 \<le> i \<Longrightarrow> i \<le> INT_MAX \<Longrightarrow> size_cast i = nat i"
  by (simp add: size_cast_def INT_MAX_def)

lemma signed_take_bit_small: "0 \<le> i \<Longrightarrow> i < 2 ^ n \<Longrightarrow> signed_take_bit n i = (i :: int)"
  by (simp add: signed_take_bit_int_eq_self_iff)

lemma to_int_id: "0 \<le> i \<Longrightarrow> i \<le> INT_MAX \<Longrightarrow> to_int32 i = i" "0 \<le> i \<Longrightarrow> i \<le> INT64_MAX \<Longrightarrow> to_int64 i = i"
  by (simp_all add: to_int32_def to_int64_def INT_MAX_def INT64_MAX_def signed_take_bit_small)

subsection \<open>Metadata and text\<close>

definition model_metadata :: "text_model \<Rightarrow> string \<Rightarrow> string res" where
  "model_metadata m key =
     (case tm_meta m key of
        None \<Rightarrow> Inl (''missing or oversized Qwen GGUF metadata: '' @ key)
      | Some v \<Rightarrow> if length v \<ge> 256 then Inl (''missing or oversized Qwen GGUF metadata: '' @ key) else Inr v)"

definition gguf_string_metadata :: "(string \<Rightarrow> gguf option) \<Rightarrow> string \<Rightarrow> string \<Rightarrow> string res" where
  "gguf_string_metadata open_file path key =
     (case open_file path of
        None \<Rightarrow> Inl (''failed to read GGUF metadata: '' @ path)
      | Some g \<Rightarrow>
          let index = gguf_find_key g key
          in if index < 0 \<or> gguf_get_kv_type g index \<noteq> GGUF_TYPE_STRING then
            Inl (''missing GGUF string metadata '' @ key @ '': '' @ path)
          else Inr (gguf_get_val_str g index))"

text \<open>The negation of a count of \<open>INT32_MIN\<close> overflows: \<open>None\<close>.\<close>

definition tokenize :: "vocab \<Rightarrow> string \<Rightarrow> bool \<Rightarrow> int list option" where
  "tokenize v s parse_special =
     (let size = to_int32 (int (length s));
          required = - fst (vo_tokenize v s size 0 parse_special)
      in if \<not> fits_sint 32 required then None
      else if required \<le> 0 then Some []
      else let (count, written) = vo_tokenize v s size (nat required) parse_special
        in if count \<noteq> required then Some []
        else Some (map (\<lambda>i. if i < length written then written ! i else 0) [0..<nat required]))"

definition apply_chat_template ::
  "('s, 'v, 'b) qwen_lib \<Rightarrow> text_model \<Rightarrow> qwen_architecture \<Rightarrow> string \<Rightarrow> string res"
where
  "apply_chat_template lib m architecture content =
     (case tm_chat_template m of
        None \<Rightarrow> Inl ''Qwen text GGUF has no default chat template''
      | Some chat_template \<Rightarrow>
          if chat_template = [] then Inl ''Qwen text GGUF has no default chat template''
          else let messages = [(''system'', ''You are a helpful assistant.''), (''user'', c_str content)];
              used = drop (if architecture = qwen2_5_vl then 0 else 1) messages;
              required = fst (ql_apply_template lib chat_template used True 0)
            in if required < 0 then Inl ''failed to size the Qwen chat-template output''
            else let buffer_size = nat required + 1
              in if buffer_size > nat INT_MAX then Inl ''Qwen chat-template output is too large''
              else let (written, out_text) = ql_apply_template lib chat_template used True buffer_size
                in if written \<noteq> required then Inl ''failed to apply the Qwen chat template''
                else Inr (take (nat written) (out_text @ replicate buffer_size (CHR 0x00))))"

subsection \<open>Images\<close>

record qwen_image =
  qi_data :: "u8 list option"
  qi_width :: int
  qi_height :: int
  qi_channels :: int
  qi_stride :: int

record packed_layout =
  pl_row_bytes :: nat
  pl_stride_bytes :: nat
  pl_packed_bytes :: nat

definition validate_image :: "qwen_image \<Rightarrow> packed_layout res" where
  "validate_image img =
     (if qi_data img = None \<or> qi_channels img \<noteq> 3 \<or> qi_width img \<le> 0 \<or> qi_height img \<le> 0 then
        Inl ''Qwen3-VL bridge requires a non-empty RGB image''
      else let width = nat (qi_width img); height = nat (qi_height img)
        in if width > size_max div 3 then Inl ''Qwen3-VL image row size overflow''
        else let row_bytes = width * 3
          in if qi_stride img < 0 \<or> (qi_stride img > 0 \<and> nat (qi_stride img) < row_bytes) then
            Inl ''Qwen3-VL image stride is smaller than a packed RGB row''
          else let stride_bytes = (if qi_stride img > 0 then nat (qi_stride img) else row_bytes)
            in if height > size_max div row_bytes \<or>
                (height > 1 \<and> height - 1 > (size_max - row_bytes) div stride_bytes) then
              Inl ''Qwen3-VL image buffer size overflow''
            else Inr \<lparr>pl_row_bytes = row_bytes, pl_stride_bytes = stride_bytes, pl_packed_bytes = height * row_bytes\<rparr>)"

text \<open>A row outside the buffer of the image: \<open>None\<close>.\<close>

definition image_row :: "u8 list \<Rightarrow> packed_layout \<Rightarrow> nat \<Rightarrow> u8 list option" where
  "image_row data layout row =
     (if row * pl_stride_bytes layout + pl_row_bytes layout \<le> length data
      then Some (take (pl_row_bytes layout) (drop (row * pl_stride_bytes layout) data)) else None)"

definition pack_image :: "qwen_image \<Rightarrow> packed_layout \<Rightarrow> u8 list option" where
  "pack_image img layout =
     (case qi_data img of None \<Rightarrow> None
      | Some data \<Rightarrow> map_option concat (those (map (image_row data layout) [0..<nat (qi_height img)])))"

definition make_bitmap :: "('s, 'v, 'b) qwen_lib \<Rightarrow> qwen_image \<Rightarrow> 'b run" where
  "make_bitmap lib img =
     bind_run (Some (validate_image img)) (\<lambda>layout.
       case pack_image img layout of
         None \<Rightarrow> None
       | Some packed \<Rightarrow>
           (case ql_bitmap lib (word_of_int (qi_width img)) (word_of_int (qi_height img)) packed of
              None \<Rightarrow> Some (Inl ''failed to create a Qwen3-VL image bitmap'')
            | Some bitmap \<Rightarrow> Some (Inr bitmap)))"

definition tokenize_multimodal_prompt ::
  "('s, 'v, 'b) qwen_lib \<Rightarrow> qwen_architecture \<Rightarrow> text_model \<Rightarrow> qwen_image list \<Rightarrow> string \<Rightarrow> 'v \<Rightarrow>
     input_chunk list run \<times> 'v"
where
  "tokenize_multimodal_prompt lib architecture m images instruction vision =
     (case each_run (make_bitmap lib) images of
        None \<Rightarrow> (None, vision)
      | Some (Inl e) \<Rightarrow> (Some (Inl e), vision)
      | Some (Inr bitmaps) \<Rightarrow>
          (case apply_chat_template lib m architecture
              (build_qwen_media_content (length images) instruction (ql_marker lib)) of
             Inl e \<Rightarrow> (Some (Inl e), vision)
           | Inr formatted \<Rightarrow>
               if \<not> ql_chunks_init lib then
                 (Some (Inl ''failed to allocate Qwen3-VL multimodal input chunks''), vision)
               else (case ql_tokenize lib (c_str formatted) bitmaps vision of
                 (tokenize_result, chunks, vision') \<Rightarrow>
                   if tokenize_result \<noteq> 0 then
                     (Some (Inl ''failed to tokenize the Qwen3-VL multimodal prompt''), vision')
                   else (Some (Inr chunks), vision'))))"

end
