(* ===== verification/QwenBatch.thy ===== *)
theory QwenBatch
  imports QwenPrompt
begin

text \<open>
  The merged embedding batch of \<^verbatim>\<open>src/models/starvla/qwen3vl_bridge.cpp\<close>: text rows from the embedding table, image
  rows from the vision encoder, the four axes of positions, and the token view that generation starts from.
\<close>

subsection \<open>Operations that may fail and change a state\<close>

type_synonym ('a, 'i) act = "'i \<Rightarrow> 'a run \<times> 'i"

named_theorems act_simps \<open>inversion of operations with a state\<close>

definition act_return :: "'a \<Rightarrow> ('a, 'i) act" where "act_return x s = (Some (Inr x), s)"
definition act_fail :: "string \<Rightarrow> ('a, 'i) act" where "act_fail e s = (Some (Inl e), s)"
definition act_run :: "'a run \<Rightarrow> ('a, 'i) act" where "act_run r s = (r, s)"
definition act_modify :: "('i \<Rightarrow> 'i) \<Rightarrow> (unit, 'i) act" where "act_modify f s = (Some (Inr ()), f s)"

definition bind_act :: "('a, 'i) act \<Rightarrow> ('a \<Rightarrow> ('b, 'i) act) \<Rightarrow> ('b, 'i) act" where
  "bind_act m k s =
     (case m s of (None, s') \<Rightarrow> (None, s') | (Some (Inl e), s') \<Rightarrow> (Some (Inl e), s') | (Some (Inr x), s') \<Rightarrow> k x s')"

lemma act_basic [simp]:
  "act_return x s = (Some (Inr x), s)" "act_fail e s = (Some (Inl e), s)" "act_run r s = (r, s)"
  "act_modify f s = (Some (Inr ()), f s)"
  by (simp_all add: act_return_def act_fail_def act_run_def act_modify_def)

lemma bind_act_Inr [act_simps]:
  "bind_act m k s = (Some (Inr y), s') \<longleftrightarrow> (\<exists>x s1. m s = (Some (Inr x), s1) \<and> k x s1 = (Some (Inr y), s'))"
  by (auto simp: bind_act_def split: prod.splits option.splits sum.splits)

lemma bind_act_basic [simp]:
  "bind_act (act_return x) k s = k x s" "bind_act (act_fail e) k s = (Some (Inl e), s)"
  "bind_act (act_modify f) k s = k () (f s)"
  by (simp_all add: bind_act_def)

text \<open>A property of the state that every part keeps is kept by the whole.\<close>

definition keeps :: "('i \<Rightarrow> bool) \<Rightarrow> ('a, 'i) act \<Rightarrow> bool" where
  "keeps P m \<longleftrightarrow> (\<forall>s. P s \<longrightarrow> P (snd (m s)))"

lemma keeps_basic [simp, intro]:
  "keeps P (act_return x)" "keeps P (act_fail e)" "keeps P (act_run r)" "(\<And>s. P s \<Longrightarrow> P (f s)) \<Longrightarrow> keeps P (act_modify f)"
  by (simp_all add: keeps_def)

lemma keeps_bind [intro]: "keeps P m \<Longrightarrow> (\<And>x. keeps P (k x)) \<Longrightarrow> keeps P (bind_act m k)"
  by (auto simp: keeps_def bind_act_def split: option.splits sum.splits prod.splits)

lemma keeps_if [intro]: "keeps P m \<Longrightarrow> keeps P m' \<Longrightarrow> keeps P (if b then m else m')"
  by simp

lemma keepsD: "keeps P m \<Longrightarrow> m s = (r, s') \<Longrightarrow> P s \<Longrightarrow> P s'"
  by (metis keeps_def snd_conv)

subsection \<open>Embedding rows\<close>

definition copy_token_embedding :: "conversions \<Rightarrow> embedding_table option \<Rightarrow> int \<Rightarrow> nat \<Rightarrow> f32 list res" where
  "copy_token_embedding cv table token hidden_size =
     (case table of
        None \<Rightarrow> Inl ''Qwen3-VL token embedding table is incompatible''
      | Some t \<Rightarrow>
          if token < 0 \<or> et_ne0 t \<noteq> to_int64 (int hidden_size) \<or> token \<ge> et_ne1 t \<or> \<not> et_contiguous t \<or> \<not> et_buffer t then
            Inl ''Qwen3-VL token embedding table is incompatible''
          else if et_nb1 t = 0 \<or> nat token > size_max div et_nb1 t then
            Inl ''Qwen3-VL token embedding row offset overflow''
          else let row_offset = nat token * et_nb1 t
            in (case et_values t of
                  F32_table x \<Rightarrow> Inr (map (\<lambda>i. x (row_offset + 4 * i)) [0..<hidden_size])
                | F16_table x \<Rightarrow> Inr (map (\<lambda>i. fp16_to_fp32 cv (x (row_offset + 2 * i))) [0..<hidden_size])
                | BF16_table x \<Rightarrow> Inr (map (\<lambda>i. bf16_to_fp32 cv (x (row_offset + 2 * i))) [0..<hidden_size])
                | Other_table type_name \<Rightarrow> Inl (''unsupported Qwen3-VL token embedding type: '' @ type_name)))"

lemma copy_token_embedding_length: "copy_token_embedding cv t token n = Inr row \<Longrightarrow> length row = n"
  by (auto simp: copy_token_embedding_def Let_def split: option.splits table_values.splits if_splits)

subsection \<open>The batch\<close>

text \<open>One token of the batch: its row, its id (\<open>- 1\<close> for an image) and its position on the four axes.\<close>

record batch_token =
  bt_row :: "f32 list"
  bt_id :: int
  bt_pos :: "int \<times> int \<times> int \<times> int"

record prepared_batch =
  pb_token_count :: nat
  pb_position_count :: int
  pb_embeddings :: "f32 list"
  pb_positions :: "int list"
  pb_outputs :: "int list"
  pb_token_ids :: "int list"

text \<open>\<open>PreparedMultimodalBatch::view\<close>; every token belongs to sequence 0.\<close>

definition batch_view :: "prepared_batch \<Rightarrow> llama_batch" where
  "batch_view b = \<lparr>ba_n_tokens = to_int32 (int (pb_token_count b)), ba_token = None, ba_embd = Some (pb_embeddings b),
     ba_pos = pb_positions b, ba_n_seq_id = replicate (pb_token_count b) 1,
     ba_seq_id = replicate (pb_token_count b) [0], ba_logits = pb_outputs b\<rparr>"

fun count_chunk_tokens :: "input_chunk list \<Rightarrow> nat \<Rightarrow> nat res" where
  "count_chunk_tokens [] token_count = Inr token_count"
| "count_chunk_tokens (chunk # rest) token_count =
     (if ck_n_tokens chunk = 0 \<or> ck_n_tokens chunk > size_max - token_count then
        Inl ''Qwen3-VL multimodal chunk has an invalid token count''
      else count_chunk_tokens rest (token_count + ck_n_tokens chunk))"

definition text_chunk_tokens ::
  "conversions \<Rightarrow> embedding_table option \<Rightarrow> nat \<Rightarrow> nat \<Rightarrow> int \<Rightarrow> input_chunk \<Rightarrow> batch_token list res"
where
  "text_chunk_tokens cv table hidden_size input_size position_offset chunk =
     (case ck_text chunk of
        None \<Rightarrow> Inl ''Qwen3-VL text chunk contract is incompatible''
      | Some tokens \<Rightarrow>
          if length tokens \<noteq> ck_n_tokens chunk \<or> ck_n_pos chunk \<noteq> to_int32 (int (ck_n_tokens chunk)) then
            Inl ''Qwen3-VL text chunk contract is incompatible''
          else each_res (\<lambda>local_index.
              bind_res (copy_token_embedding cv table (tokens ! local_index) hidden_size) (\<lambda>row.
                let position = position_offset + to_int32 (int local_index)
                in Inr \<lparr>bt_row = row @ replicate (input_size - hidden_size) f32_zero, bt_id = tokens ! local_index,
                  bt_pos = (position, position, position, 0)\<rparr>))
            [0..<ck_n_tokens chunk])"

definition image_batch_token ::
  "conversions \<Rightarrow> nat \<Rightarrow> image_tokens \<Rightarrow> int \<Rightarrow> (nat \<Rightarrow> f32) \<Rightarrow> nat \<Rightarrow> batch_token"
where
  "image_batch_token cv input_size grid position_offset embd local_index =
     (let position = it_decoder_pos grid position_offset local_index
      in \<lparr>bt_row = map (\<lambda>j. bf16_round cv (embd (local_index * input_size + j))) [0..<input_size], bt_id = - 1,
           bt_pos = (sint (dp_t position), sint (dp_y position), sint (dp_x position), sint (dp_z position))\<rparr>)"

definition image_chunk_tokens ::
  "('s, 'v, 'b) qwen_lib \<Rightarrow> nat \<Rightarrow> int \<Rightarrow> input_chunk \<Rightarrow> (batch_token list, 'v \<times> backend_placement) act"
where
  "image_chunk_tokens lib input_size position_offset chunk st =
     (case ck_image chunk of
        None \<Rightarrow> act_fail ''Qwen3-VL image chunk contract is incompatible'' st
      | Some grid \<Rightarrow>
          if it_n_tokens grid \<noteq> ck_n_tokens chunk then act_fail ''Qwen3-VL image chunk contract is incompatible'' st
          else case st of (vision, placement) \<Rightarrow>
            case ql_encode lib chunk vision of (status, asked, vision') \<Rightarrow>
              let st' = (vision', fold (\<lambda>node. observe_backend_placement node True) asked placement)
              in if status \<noteq> 0 then act_fail ''failed to encode a Qwen3-VL image chunk'' st'
              else case ql_output_embd lib vision' of
                None \<Rightarrow> act_fail ''Qwen3-VL image encoder returned no embeddings'' st'
              | Some embd \<Rightarrow> act_return
                  (map (image_batch_token (ql_conv lib) input_size grid position_offset embd) [0..<ck_n_tokens chunk]) st')"

definition chunk_tokens ::
  "('s, 'v, 'b) qwen_lib \<Rightarrow> embedding_table option \<Rightarrow> nat \<Rightarrow> nat \<Rightarrow> int \<Rightarrow> input_chunk \<Rightarrow>
     (batch_token list, 'v \<times> backend_placement) act"
where
  "chunk_tokens lib table hidden_size input_size position_offset chunk =
     (if ck_n_pos chunk \<le> 0 \<or> position_offset > INT_MAX - ck_n_pos chunk then
        act_fail ''Qwen3-VL multimodal positions overflow''
      else case ck_type chunk of
        Text_chunk \<Rightarrow> act_run (Some (text_chunk_tokens (ql_conv lib) table hidden_size input_size position_offset chunk))
      | Image_chunk \<Rightarrow> image_chunk_tokens lib input_size position_offset chunk
      | Audio_chunk \<Rightarrow> act_fail ''Qwen3-VL prompt contains an unsupported media chunk'')"

fun fill_batch ::
  "('s, 'v, 'b) qwen_lib \<Rightarrow> embedding_table option \<Rightarrow> nat \<Rightarrow> nat \<Rightarrow> input_chunk list \<Rightarrow> int \<Rightarrow>
     (batch_token list \<times> int, 'v \<times> backend_placement) act"
where
  "fill_batch lib table hidden_size input_size [] position_offset = act_return ([], position_offset)"
| "fill_batch lib table hidden_size input_size (chunk # rest) position_offset =
     bind_act (chunk_tokens lib table hidden_size input_size position_offset chunk) (\<lambda>tokens.
       bind_act (fill_batch lib table hidden_size input_size rest (position_offset + ck_n_pos chunk)) (\<lambda>(others, end).
         act_return (tokens @ others, end)))"

definition lay_out :: "nat \<Rightarrow> batch_token list \<Rightarrow> int \<Rightarrow> prepared_batch" where
  "lay_out token_count tokens position_count =
     \<lparr>pb_token_count = token_count, pb_position_count = position_count, pb_embeddings = concat (map bt_row tokens),
      pb_positions = map (fst \<circ> bt_pos) tokens @ map (fst \<circ> snd \<circ> bt_pos) tokens @
        map (fst \<circ> snd \<circ> snd \<circ> bt_pos) tokens @ map (snd \<circ> snd \<circ> snd \<circ> bt_pos) tokens,
      pb_outputs = replicate token_count 0, pb_token_ids = map bt_id tokens\<rparr>"

definition prepare_multimodal_batch ::
  "('s, 'v, 'b) qwen_lib \<Rightarrow> qwen_bridge_config \<Rightarrow> text_model \<Rightarrow> input_chunk list \<Rightarrow>
     (prepared_batch, 'v \<times> backend_placement) act"
where
  "prepare_multimodal_batch lib cfg m chunks st =
     (if \<not> ql_use_mrope lib (fst st) then act_fail ''Qwen3-VL single-batch decode requires M-RoPE components'' st
      else bind_act (act_run (Some (count_chunk_tokens chunks 0))) (\<lambda>token_count.
        if token_count = 0 \<or> token_count > nat INT_MAX then
          act_fail ''Qwen3-VL multimodal prompt token count is invalid''
        else let hidden_size = size_cast (qb_hidden_size cfg); input_size = size_cast (qb_input_embedding_size cfg)
          in if hidden_size = 0 \<or> input_size \<noteq> size_cast (tm_n_embd_inp m) \<or> input_size < hidden_size \<or>
              token_count > size_max div input_size then
            act_fail ''Qwen3-VL input embedding dimensions are incompatible''
          else if token_count > size_max div 4 then act_fail ''Qwen3-VL M-RoPE position buffer size overflow''
          else bind_act (fill_batch lib (tm_token_embd m) hidden_size input_size chunks 0) (\<lambda>(tokens, position_count).
            if length tokens \<noteq> token_count then act_fail ''Qwen3-VL prepared batch token count mismatch''
            else act_return (lay_out token_count tokens position_count))) st)"

subsection \<open>The token view\<close>

definition grid_extent :: "image_tokens \<Rightarrow> (nat \<times> nat) res" where
  "grid_extent grid =
     fold (\<lambda>token r. bind_res r (\<lambda>(max_x, max_y).
         let position = it_decoder_pos grid 0 token
         in if dp_t position \<noteq> 0 \<or> dp_z position \<noteq> 0 then
           Inl ''Qwen3-VL image token grid does not use the expected M-RoPE layout''
         else Inr (max max_x (unat (dp_x position)), max max_y (unat (dp_y position)))))
       [0..<it_n_tokens grid] (Inr (0, 0))"

definition image_grid :: "qwen_bridge_config \<Rightarrow> input_chunk \<Rightarrow> int list res" where
  "image_grid cfg chunk =
     (case ck_image chunk of
        None \<Rightarrow> Inl ''Qwen3-VL image chunk has no token grid''
      | Some grid \<Rightarrow> bind_res (grid_extent grid) (\<lambda>(max_x, max_y).
          let merged_width = max_x + 1; merged_height = max_y + 1; merge = size_cast (qb_image_spatial_merge_size cfg)
          in if merged_width > nat INT64_MAX div merge \<or> merged_height > nat INT64_MAX div merge \<or>
              merged_width > size_max div merged_height \<or> merged_width * merged_height \<noteq> it_n_tokens grid then
            Inl ''Qwen3-VL image token grid is incompatible''
          else Inr [1, int (merged_height * merge), int (merged_width * merge)]))"

definition export_prepared_inputs ::
  "qwen_bridge_config \<Rightarrow> vocab \<Rightarrow> input_chunk list \<Rightarrow> prepared_batch \<Rightarrow> (int list \<times> u8 list \<times> int list) run"
where
  "export_prepared_inputs cfg v chunks prepared =
     (case tokenize v ''<|image_pad|>'' True of
        None \<Rightarrow> None
      | Some image_pad_tokens \<Rightarrow> Some (
          if length image_pad_tokens \<noteq> 1 then
            Inl ''Qwen3-VL vocabulary does not expose a unique <|image_pad|> token''
          else if qb_image_spatial_merge_size cfg \<le> 0 then Inl ''Qwen3-VL image spatial merge size is invalid''
          else let input_ids = map (\<lambda>token. if token < 0 then hd image_pad_tokens else token) (pb_token_ids prepared);
              images = filter (\<lambda>chunk. ck_type chunk = Image_chunk) chunks
            in bind_res (each_res (image_grid cfg) images) (\<lambda>grids.
              if length grids \<noteq> size_cast (qb_expected_image_count cfg) then
                Inl ''Qwen3-VL image grid count does not match the policy''
              else Inr (input_ids, replicate (pb_token_count prepared) 1, concat grids))))"

subsection \<open>What a prepared batch holds\<close>

text \<open>The token ids of a chunk, \<open>- 1\<close> for the tokens of an image.\<close>

definition chunk_ids :: "input_chunk \<Rightarrow> int list" where
  "chunk_ids c = (case ck_type c of Text_chunk \<Rightarrow> (case ck_text c of None \<Rightarrow> [] | Some ts \<Rightarrow> ts)
     | _ \<Rightarrow> replicate (ck_n_tokens c) (- 1))"

lemma count_chunk_tokens_Inr: "count_chunk_tokens cs k = Inr n \<Longrightarrow> n = k + sum_list (map ck_n_tokens cs)"
proof (induction cs arbitrary: k)
  case (Cons c cs)
  then have "count_chunk_tokens cs (k + ck_n_tokens c) = Inr n" by (simp split: if_splits)
  from Cons.IH [OF this] show ?case by simp
qed simp

lemma nat_le_INT_MAX: "n \<le> nat INT_MAX \<longleftrightarrow> int n \<le> INT_MAX"
  by (simp add: INT_MAX_def nat_le_iff)

text \<open>What the token \<open>j\<close> of a chunk at position \<open>p\<close> is: for a text chunk the row of its id in the embedding table, padded
  with zeros, at the position \<open>p + j\<close> on three axes; for an image chunk the row \<open>j\<close> of what the encoder returns for this
  chunk, rounded to BF16, at the place of the token in the grid. Encoding moves the state of the encoder on.\<close>

definition encoded :: "('s, 'v, 'b) qwen_lib \<Rightarrow> input_chunk \<Rightarrow> 'v \<Rightarrow> 'v" where
  "encoded lib c v = (if ck_type c = Image_chunk then snd (snd (ql_encode lib c v)) else v)"

definition chunk_token ::
  "('s, 'v, 'b) qwen_lib \<Rightarrow> embedding_table option \<Rightarrow> nat \<Rightarrow> nat \<Rightarrow> 'v \<Rightarrow> int \<Rightarrow> input_chunk \<Rightarrow> nat \<Rightarrow> batch_token \<Rightarrow> bool"
where
  "chunk_token lib table h n v p c j t =
     (case ck_type c of
        Text_chunk \<Rightarrow> \<exists>tokens row. ck_text c = Some tokens \<and> length tokens = ck_n_tokens c \<and>
          copy_token_embedding (ql_conv lib) table (tokens ! j) h = Inr row \<and> bt_row t = row @ replicate (n - h) f32_zero \<and>
          bt_id t = tokens ! j \<and> bt_pos t = (p + int j, p + int j, p + int j, 0)
      | Image_chunk \<Rightarrow> \<exists>grid embd. ck_image c = Some grid \<and> it_n_tokens grid = ck_n_tokens c \<and>
          fst (ql_encode lib c v) = 0 \<and> ql_output_embd lib (encoded lib c v) = Some embd \<and>
          bt_row t = map (\<lambda>i. bf16_round (ql_conv lib) (embd (j * n + i))) [0..<n] \<and> bt_id t = - 1 \<and>
          bt_pos t = (sint (dp_t (it_decoder_pos grid p j)), sint (dp_y (it_decoder_pos grid p j)),
            sint (dp_x (it_decoder_pos grid p j)), sint (dp_z (it_decoder_pos grid p j)))
      | Audio_chunk \<Rightarrow> False)"

text \<open>What one chunk, or several from position \<open>p\<close> to position \<open>e\<close>, contribute.\<close>

definition tokens_fit :: "nat \<Rightarrow> int \<Rightarrow> int \<Rightarrow> batch_token list \<Rightarrow> bool" where
  "tokens_fit n p e ts \<longleftrightarrow> (\<forall>t \<in> set ts. length (bt_row t) = n \<and> - 1 \<le> bt_id t \<and>
     (0 \<le> bt_id t \<longrightarrow> (\<exists>i. p \<le> i \<and> i < e \<and> bt_pos t = (i, i, i, 0))))"

lemma tokens_fit_append: "tokens_fit n p q xs \<Longrightarrow> tokens_fit n q e ys \<Longrightarrow> p \<le> q \<Longrightarrow> q \<le> e \<Longrightarrow> tokens_fit n p e (xs @ ys)"
  unfolding tokens_fit_def by (fastforce dest: order_trans less_le_trans)

lemma text_chunk_tokens_Inr:
  assumes "text_chunk_tokens cv table h n p c = Inr ts" "h \<le> n" "ck_n_tokens c \<le> nat INT_MAX"
  shows "length ts = ck_n_tokens c" "tokens_fit n p (p + ck_n_pos c) ts"
    "ck_text c = Some (map bt_id ts)"
proof -
  obtain tokens where c: "ck_text c = Some tokens" "length tokens = ck_n_tokens c" "ck_n_pos c = to_int32 (int (ck_n_tokens c))"
    and each: "list_all2 (\<lambda>i t. bind_res (copy_token_embedding cv table (tokens ! i) h) (\<lambda>row.
        let position = p + to_int32 (int i) in Inr \<lparr>bt_row = row @ replicate (n - h) f32_zero, bt_id = tokens ! i,
          bt_pos = (position, position, position, 0)\<rparr>) = Inr t) [0..<ck_n_tokens c] ts"
    using assms(1) by (auto simp: text_chunk_tokens_def each_res_Inr split: option.splits if_splits)
  show len: "length ts = ck_n_tokens c" using list_all2_lengthD [OF each] by simp
  have pos: "ck_n_pos c = int (ck_n_tokens c)" using assms(3) c(3) by (simp add: to_int_id nat_le_INT_MAX)
  have t: "bt_id (ts ! i) = tokens ! i \<and> 0 \<le> tokens ! i \<and> bt_pos (ts ! i) = (p + int i, p + int i, p + int i, 0) \<and>
      length (bt_row (ts ! i)) = n" if "i < length ts" for i
  proof -
    have "bind_res (copy_token_embedding cv table (tokens ! i) h) (\<lambda>row.
        let position = p + to_int32 (int i) in Inr \<lparr>bt_row = row @ replicate (n - h) f32_zero, bt_id = tokens ! i,
          bt_pos = (position, position, position, 0)\<rparr>) = Inr (ts ! i)"
      using each that len by (simp add: list_all2_upt)
    then obtain row where row: "copy_token_embedding cv table (tokens ! i) h = Inr row"
      and eq: "ts ! i = \<lparr>bt_row = row @ replicate (n - h) f32_zero, bt_id = tokens ! i,
        bt_pos = (p + to_int32 (int i), p + to_int32 (int i), p + to_int32 (int i), 0)\<rparr>"
      by (auto simp: Let_def res_simps)
    have "0 \<le> tokens ! i" using row by (auto simp: copy_token_embedding_def split: option.splits if_splits)
    moreover have "to_int32 (int i) = int i" using that len assms(3) by (simp add: to_int_id nat_le_INT_MAX)
    moreover have "length row = h" using copy_token_embedding_length [OF row] .
    ultimately show ?thesis using assms(2) by (simp add: eq)
  qed
  show "tokens_fit n p (p + ck_n_pos c) ts"
    unfolding tokens_fit_def
  proof
    fix x assume "x \<in> set ts"
    then obtain i where "i < length ts" "x = ts ! i" by (auto simp: in_set_conv_nth)
    then show "length (bt_row x) = n \<and> - 1 \<le> bt_id x \<and>
        (0 \<le> bt_id x \<longrightarrow> (\<exists>i. p \<le> i \<and> i < p + ck_n_pos c \<and> bt_pos x = (i, i, i, 0)))"
      using t [of i] pos len by auto
  qed
  show "ck_text c = Some (map bt_id ts)"
    using c(1,2) len t by (auto intro!: nth_equalityI)
qed

lemma chunk_tokens_Inr:
  assumes "chunk_tokens lib table h n p c st = (Some (Inr ts), st')" "h \<le> n" "ck_n_tokens c \<le> nat INT_MAX"
  shows "length ts = ck_n_tokens c" "tokens_fit n p (p + ck_n_pos c) ts" "map bt_id ts = chunk_ids c"
    "0 < ck_n_pos c" "p + ck_n_pos c \<le> INT_MAX"
proof -
  have pos: "0 < ck_n_pos c" "p + ck_n_pos c \<le> INT_MAX" using assms(1) by (auto simp: chunk_tokens_def split: if_splits)
  then show "0 < ck_n_pos c" "p + ck_n_pos c \<le> INT_MAX" by simp_all
  have "length ts = ck_n_tokens c \<and> tokens_fit n p (p + ck_n_pos c) ts \<and> map bt_id ts = chunk_ids c"
  proof (cases "ck_type c")
    case Text_chunk
    then have "text_chunk_tokens (ql_conv lib) table h n p c = Inr ts"
      using assms(1) by (auto simp: chunk_tokens_def split: if_splits)
    from text_chunk_tokens_Inr [OF this assms(2,3)] Text_chunk show ?thesis by (simp add: chunk_ids_def)
  next
    case Image_chunk
    then have "image_chunk_tokens lib n p c st = (Some (Inr ts), st')"
      using assms(1) by (auto simp: chunk_tokens_def split: if_splits)
    then obtain grid embd where ts: "ts = map (image_batch_token (ql_conv lib) n grid p embd) [0..<ck_n_tokens c]"
      by (auto simp: image_chunk_tokens_def Let_def split: option.splits if_splits prod.splits)
    have "map bt_id ts = replicate (ck_n_tokens c) (- 1)"
      by (rule nth_equalityI) (simp_all add: ts image_batch_token_def Let_def)
    moreover have "tokens_fit n p (p + ck_n_pos c) ts" by (auto simp: tokens_fit_def ts image_batch_token_def Let_def)
    ultimately show ?thesis using Image_chunk by (simp add: ts chunk_ids_def)
  next
    case Audio_chunk
    then show ?thesis using assms(1) by (auto simp: chunk_tokens_def split: if_splits)
  qed
  then show "length ts = ck_n_tokens c" "tokens_fit n p (p + ck_n_pos c) ts" "map bt_id ts = chunk_ids c" by simp_all
qed

lemma fill_batch_Inr:
  assumes "fill_batch lib table h n cs p st = (Some (Inr (ts, e)), st')" "h \<le> n" "sum_list (map ck_n_tokens cs) \<le> nat INT_MAX"
    "p \<le> INT_MAX"
  shows "length ts = sum_list (map ck_n_tokens cs) \<and> tokens_fit n p e ts \<and> map bt_id ts = concat (map chunk_ids cs) \<and>
    e = p + sum_list (map ck_n_pos cs) \<and> p \<le> e \<and> e \<le> INT_MAX"
  using assms(1,3,4)
proof (induction cs arbitrary: p ts st)
  case Nil
  then show ?case by (simp add: tokens_fit_def)
next
  case (Cons c cs)
  obtain xs ys s1 where c: "chunk_tokens lib table h n p c st = (Some (Inr xs), s1)"
    and r: "fill_batch lib table h n cs (p + ck_n_pos c) s1 = (Some (Inr (ys, e)), st')" and ts: "ts = xs @ ys"
    using Cons.prems(1) by (auto simp: act_simps)
  have small: "ck_n_tokens c \<le> nat INT_MAX" "sum_list (map ck_n_tokens cs) \<le> nat INT_MAX" using Cons.prems(2) by simp_all
  note C = chunk_tokens_Inr [OF c assms(2) small(1)]
  note R = Cons.IH [OF r small(2) C(5)]
  have "tokens_fit n p e ts" unfolding ts
    by (rule tokens_fit_append [OF C(2)]) (use C(4) R in auto)
  then show ?case using C R by (simp add: ts add.assoc)
qed

lemma chunk_tokens_each:
  assumes "chunk_tokens lib table h n p c st = (Some (Inr ts), st')" "ck_n_tokens c \<le> nat INT_MAX" "j < ck_n_tokens c"
  shows "chunk_token lib table h n (fst st) p c j (ts ! j)" "fst st' = encoded lib c (fst st)"
proof -
  have "chunk_token lib table h n (fst st) p c j (ts ! j) \<and> fst st' = encoded lib c (fst st)"
  proof (cases "ck_type c")
    case Text_chunk
    then have t: "text_chunk_tokens (ql_conv lib) table h n p c = Inr ts" and st: "st' = st"
      using assms(1) by (auto simp: chunk_tokens_def split: if_splits)
    obtain tokens where c: "ck_text c = Some tokens" "length tokens = ck_n_tokens c"
      and each: "list_all2 (\<lambda>i t. bind_res (copy_token_embedding (ql_conv lib) table (tokens ! i) h) (\<lambda>row.
          let position = p + to_int32 (int i) in Inr \<lparr>bt_row = row @ replicate (n - h) f32_zero, bt_id = tokens ! i,
            bt_pos = (position, position, position, 0)\<rparr>) = Inr t) [0..<ck_n_tokens c] ts"
      using t by (auto simp: text_chunk_tokens_def each_res_Inr split: option.splits if_splits)
    have "to_int32 (int j) = int j" using assms(2,3) by (simp add: to_int_id nat_le_INT_MAX)
    moreover have "j < length ts" using list_all2_lengthD [OF each] assms(3) by simp
    ultimately obtain row where "copy_token_embedding (ql_conv lib) table (tokens ! j) h = Inr row"
      "ts ! j = \<lparr>bt_row = row @ replicate (n - h) f32_zero, bt_id = tokens ! j, bt_pos = (p + int j, p + int j, p + int j, 0)\<rparr>"
      using each assms(3) by (auto simp: list_all2_upt res_simps Let_def)
    with c Text_chunk st show ?thesis by (auto simp: chunk_token_def encoded_def)
  next
    case Image_chunk
    then have "image_chunk_tokens lib n p c st = (Some (Inr ts), st')"
      using assms(1) by (auto simp: chunk_tokens_def split: if_splits)
    then obtain grid embd where "ck_image c = Some grid" "it_n_tokens grid = ck_n_tokens c" "fst (ql_encode lib c (fst st)) = 0"
        "ql_output_embd lib (encoded lib c (fst st)) = Some embd" "fst st' = encoded lib c (fst st)"
        "ts = map (image_batch_token (ql_conv lib) n grid p embd) [0..<ck_n_tokens c]"
      using Image_chunk
      by (auto simp: image_chunk_tokens_def encoded_def Let_def split: option.splits if_splits prod.splits)
    then show ?thesis using Image_chunk assms(3) by (simp add: chunk_token_def image_batch_token_def Let_def)
  next
    case Audio_chunk
    then show ?thesis using assms(1) by (auto simp: chunk_tokens_def split: if_splits)
  qed
  then show "chunk_token lib table h n (fst st) p c j (ts ! j)" "fst st' = encoded lib c (fst st)" by simp_all
qed

lemma count_chunk_tokens_pos: "count_chunk_tokens cs k = Inr n \<Longrightarrow> c \<in> set cs \<Longrightarrow> 0 < ck_n_tokens c"
  by (induction cs arbitrary: k) (auto split: if_splits)

lemma fill_batch_each:
  assumes "fill_batch lib table h n cs p st = (Some (Inr (ts, e)), st')" "h \<le> n" "sum_list (map ck_n_tokens cs) \<le> nat INT_MAX"
    "\<forall>c \<in> set cs. 0 < ck_n_tokens c" "k < length cs" "j < ck_n_tokens (cs ! k)"
  shows "chunk_token lib table h n (fold (encoded lib) (take k cs) (fst st)) (p + sum_list (map ck_n_pos (take k cs))) (cs ! k) j
    (ts ! (sum_list (map ck_n_tokens (take k cs)) + j))"
  using assms(1,3-)
proof (induction cs arbitrary: p ts st k)
  case (Cons c cs)
  obtain xs ys s1 where c: "chunk_tokens lib table h n p c st = (Some (Inr xs), s1)"
    and r: "fill_batch lib table h n cs (p + ck_n_pos c) s1 = (Some (Inr (ys, e)), st')" and ts: "ts = xs @ ys"
    using Cons.prems(1) by (auto simp: act_simps)
  have small: "ck_n_tokens c \<le> nat INT_MAX" "sum_list (map ck_n_tokens cs) \<le> nat INT_MAX" using Cons.prems(2) by simp_all
  note len = chunk_tokens_Inr(1) [OF c assms(2) small(1)]
  show ?case
  proof (cases k)
    case 0
    then show ?thesis using chunk_tokens_each(1) [OF c small(1)] Cons.prems(5) len by (simp add: ts nth_append)
  next
    case (Suc i)
    have "fst s1 = encoded lib c (fst st)" using chunk_tokens_each(2) [OF c small(1), where j = 0] Cons.prems(3) by simp
    moreover have "chunk_token lib table h n (fold (encoded lib) (take i cs) (fst s1))
        (p + ck_n_pos c + sum_list (map ck_n_pos (take i cs))) (cs ! i) j (ys ! (sum_list (map ck_n_tokens (take i cs)) + j))"
      using Cons.IH [OF r small(2)] Cons.prems(3-) Suc by simp
    ultimately show ?thesis using Suc len by (simp add: ts nth_append add.assoc)
  qed
qed simp

lemma prepare_fill:
  assumes "prepare_multimodal_batch lib cfg m chunks st = (Some (Inr b), st')"
  shows "\<exists>tokens e. fill_batch lib (tm_token_embd m) (size_cast (qb_hidden_size cfg)) (size_cast (qb_input_embedding_size cfg))
      chunks 0 st = (Some (Inr (tokens, e)), st') \<and> b = lay_out (length tokens) tokens e \<and>
    (\<forall>c \<in> set chunks. 0 < ck_n_tokens c)"
proof -
  obtain vision placement where st: "st = (vision, placement)" by (cases st)
  obtain n tokens e where n: "count_chunk_tokens chunks 0 = Inr n"
    and "fill_batch lib (tm_token_embd m) (size_cast (qb_hidden_size cfg)) (size_cast (qb_input_embedding_size cfg))
      chunks 0 st = (Some (Inr (tokens, e)), st')" "length tokens = n" "b = lay_out n tokens e"
    using assms by (auto simp: st prepare_multimodal_batch_def act_simps Let_def split: if_splits)
  then show ?thesis using count_chunk_tokens_pos [OF n] by blast
qed

lemma prepare_Inr:
  assumes "prepare_multimodal_batch lib cfg m chunks st = (Some (Inr b), st')"
  shows "\<exists>tokens. b = lay_out (length tokens) tokens (sum_list (map ck_n_pos chunks)) \<and> 0 < length tokens \<and>
    length tokens = sum_list (map ck_n_tokens chunks) \<and> int (length tokens) \<le> INT_MAX \<and>
    map bt_id tokens = concat (map chunk_ids chunks) \<and> 0 \<le> sum_list (map ck_n_pos chunks) \<and>
    sum_list (map ck_n_pos chunks) \<le> INT_MAX \<and> size_cast (qb_hidden_size cfg) \<le> size_cast (qb_input_embedding_size cfg) \<and>
    0 < size_cast (qb_hidden_size cfg) \<and> length tokens \<le> size_max div size_cast (qb_input_embedding_size cfg) \<and>
    tokens_fit (size_cast (qb_input_embedding_size cfg)) 0 (sum_list (map ck_n_pos chunks)) tokens"
proof -
  let ?h = "size_cast (qb_hidden_size cfg)" and ?n = "size_cast (qb_input_embedding_size cfg)"
  obtain vision placement where st: "st = (vision, placement)" by (cases st)
  obtain n tokens e where n: "count_chunk_tokens chunks 0 = Inr n" "n \<noteq> 0" "n \<le> nat INT_MAX" "?h \<noteq> 0" "?h \<le> ?n"
      "n \<le> size_max div ?n"
    and fill: "fill_batch lib (tm_token_embd m) ?h ?n chunks 0 st = (Some (Inr (tokens, e)), st')"
    and b: "length tokens = n" "b = lay_out n tokens e"
    using assms by (auto simp: st prepare_multimodal_batch_def act_simps Let_def split: if_splits)
  have sum: "n = sum_list (map ck_n_tokens chunks)" using count_chunk_tokens_Inr [OF n(1)] by simp
  with n(3) have "sum_list (map ck_n_tokens chunks) \<le> nat INT_MAX" by simp
  then have F: "length tokens = n" "map bt_id tokens = concat (map chunk_ids chunks)" "e = sum_list (map ck_n_pos chunks)"
      "tokens_fit ?n 0 e tokens" "0 \<le> e" "e \<le> INT_MAX"
    using fill_batch_Inr [OF fill n(5)] unfolding sum [symmetric] by (auto simp: INT_MAX_def)
  show ?thesis
    using n F b(2) unfolding F(3) [symmetric] sum [symmetric] by (intro exI [of _ tokens]) (simp add: nat_le_INT_MAX)
qed

lemma batch_sizes:
  assumes "tokens_fit n p e tokens" "int (length tokens) \<le> INT_MAX"
  shows "length (pb_embeddings (lay_out (length tokens) tokens e)) = length tokens * n"
    "length (pb_positions (lay_out (length tokens) tokens e)) = 4 * length tokens"
    "ba_n_tokens (batch_view (lay_out (length tokens) tokens e)) = int (length tokens)"
  using assms length_concat_const [of tokens bt_row n]
  by (simp_all add: lay_out_def tokens_fit_def batch_view_def to_int_id mult.commute)

lemma batch_positions:
  "g < length tokens \<Longrightarrow> bt_pos (tokens ! g) = (i, j, k, l) \<Longrightarrow>
    map (\<lambda>axis. pb_positions (lay_out (length tokens) tokens e) ! (axis * length tokens + g)) [0, 1, 2, 3] = [i, j, k, l]"
  by (simp add: lay_out_def nth_append)

lemma take_drop_concat:
  "(\<And>x. x \<in> set xs \<Longrightarrow> length (f x) = n) \<Longrightarrow> g < length xs \<Longrightarrow> take n (drop (g * n) (concat (map f xs))) = f (xs ! g)"
proof (induction xs arbitrary: g)
  case (Cons x xs)
  then show ?case by (cases g) (simp_all add: add.commute)
qed simp

text \<open>Token \<open>j\<close> of chunk \<open>k\<close> is the token at index \<open>token_start chunks k + j\<close> of the batch.\<close>

definition token_start :: "input_chunk list \<Rightarrow> nat \<Rightarrow> nat" where
  "token_start chunks k = sum_list (map ck_n_tokens (take k chunks))"

definition position_start :: "input_chunk list \<Rightarrow> nat \<Rightarrow> int" where
  "position_start chunks k = sum_list (map ck_n_pos (take k chunks))"

lemma token_start_less:
  assumes "k < length chunks" "j < ck_n_tokens (chunks ! k)"
  shows "token_start chunks k + j < sum_list (map ck_n_tokens chunks)"
proof -
  have "sum_list (map ck_n_tokens chunks) =
      sum_list (map ck_n_tokens (take k chunks)) + (ck_n_tokens (chunks ! k) + sum_list (map ck_n_tokens (drop (Suc k) chunks)))"
    by (subst id_take_nth_drop [OF assms(1)]) simp
  then show ?thesis using assms(2) by (simp add: token_start_def)
qed

text \<open>The token at index \<open>g\<close> of a batch, read from its buffers.\<close>

definition token_at :: "nat \<Rightarrow> prepared_batch \<Rightarrow> nat \<Rightarrow> batch_token" where
  "token_at n b g =
     \<lparr>bt_row = take n (drop (g * n) (pb_embeddings b)), bt_id = pb_token_ids b ! g,
      bt_pos = (pb_positions b ! g, pb_positions b ! (pb_token_count b + g), pb_positions b ! (2 * pb_token_count b + g),
        pb_positions b ! (3 * pb_token_count b + g))\<rparr>"

lemma token_at_lay_out:
  assumes "tokens_fit n p e' tokens" "g < length tokens"
  shows "token_at n (lay_out (length tokens) tokens e) g = tokens ! g"
  using assms take_drop_concat [of tokens bt_row n g]
  by (cases "tokens ! g") (simp add: token_at_def lay_out_def tokens_fit_def nth_append)

lemma prepare_token:
  assumes "prepare_multimodal_batch lib cfg m chunks st = (Some (Inr b), st')" "k < length chunks" "j < ck_n_tokens (chunks ! k)"
  shows "token_start chunks k + j < pb_token_count b \<and>
    chunk_token lib (tm_token_embd m) (size_cast (qb_hidden_size cfg)) (size_cast (qb_input_embedding_size cfg))
      (fold (encoded lib) (take k chunks) (fst st)) (position_start chunks k) (chunks ! k) j
      (token_at (size_cast (qb_input_embedding_size cfg)) b (token_start chunks k + j))"
proof -
  let ?n = "size_cast (qb_input_embedding_size cfg)"
  obtain ts where ts: "b = lay_out (length ts) ts (sum_list (map ck_n_pos chunks))"
      "length ts = sum_list (map ck_n_tokens chunks)" "int (length ts) \<le> INT_MAX"
      "size_cast (qb_hidden_size cfg) \<le> ?n" "tokens_fit ?n 0 (sum_list (map ck_n_pos chunks)) ts"
    using prepare_Inr [OF assms(1)] by blast
  obtain tokens e where fill: "fill_batch lib (tm_token_embd m) (size_cast (qb_hidden_size cfg)) ?n chunks 0 st =
      (Some (Inr (tokens, e)), st')" and b: "b = lay_out (length tokens) tokens e" and pos: "\<forall>c \<in> set chunks. 0 < ck_n_tokens c"
    using prepare_fill [OF assms(1)] by blast
  have small: "sum_list (map ck_n_tokens chunks) \<le> nat INT_MAX" using ts(2,3) by (simp add: nat_le_INT_MAX)
  have F: "length tokens = sum_list (map ck_n_tokens chunks)" "tokens_fit ?n 0 e tokens"
    using fill_batch_Inr [OF fill ts(4) small] by (auto simp: INT_MAX_def)
  have g: "token_start chunks k + j < length tokens" using token_start_less [OF assms(2,3)] F(1) by simp
  moreover have "token_at ?n b (token_start chunks k + j) = tokens ! (token_start chunks k + j)"
    unfolding b by (rule token_at_lay_out [OF F(2) g])
  ultimately show ?thesis
    using fill_batch_each [OF fill ts(4) small pos assms(2,3)]
    by (simp add: token_start_def position_start_def) (simp add: b lay_out_def)
qed

text \<open>C14. A prepared prompt holds one row, id and position per token of its chunks, in their order: token \<open>j\<close> of chunk \<open>k\<close>
  stands at index \<open>token_start chunks k + j\<close>, and there the embedding buffer holds the row of that very token (the row of
  its id in the embedding table padded with zeros, or row \<open>j\<close> of what the encoder returns for that image rounded to BF16)
  and the four axes of the position buffer hold its position counted from the positions of the chunks before it. The ids
  are those of the text chunks with -1 for every image token, the buffers have the sizes the decoder reads, the positions
  advance by what the chunks announce without leaving the range of an int, and a text token lies before the position that
  generation continues from.\<close>

theorem prepared_batch_exact:
  assumes "prepare_multimodal_batch lib cfg m chunks st = (Some (Inr b), st')"
  shows "pb_token_ids b = concat (map chunk_ids chunks) \<and> length (pb_token_ids b) = pb_token_count b \<and>
    pb_token_count b = sum_list (map ck_n_tokens chunks) \<and> 0 < pb_token_count b \<and>
    length (pb_embeddings b) = pb_token_count b * size_cast (qb_input_embedding_size cfg) \<and>
    length (pb_positions b) = 4 * pb_token_count b \<and> ba_n_tokens (batch_view b) = int (pb_token_count b) \<and>
    pb_position_count b = sum_list (map ck_n_pos chunks) \<and> pb_position_count b \<le> INT_MAX \<and>
    (\<forall>g<pb_token_count b. - 1 \<le> pb_token_ids b ! g \<and> (0 \<le> pb_token_ids b ! g \<longrightarrow>
      (\<exists>i. 0 \<le> i \<and> i < pb_position_count b \<and>
        map (\<lambda>axis. pb_positions b ! (axis * pb_token_count b + g)) [0, 1, 2, 3] = [i, i, i, 0]))) \<and>
    (\<forall>k<length chunks. \<forall>j<ck_n_tokens (chunks ! k). token_start chunks k + j < pb_token_count b \<and>
      chunk_token lib (tm_token_embd m) (size_cast (qb_hidden_size cfg)) (size_cast (qb_input_embedding_size cfg))
        (fold (encoded lib) (take k chunks) (fst st)) (position_start chunks k) (chunks ! k) j
        (token_at (size_cast (qb_input_embedding_size cfg)) b (token_start chunks k + j)))"
proof -
  let ?e = "sum_list (map ck_n_pos chunks)"
  obtain tokens where b: "b = lay_out (length tokens) tokens ?e"
    and T: "0 < length tokens" "length tokens = sum_list (map ck_n_tokens chunks)" "int (length tokens) \<le> INT_MAX"
      "map bt_id tokens = concat (map chunk_ids chunks)" "?e \<le> INT_MAX"
      "tokens_fit (size_cast (qb_input_embedding_size cfg)) 0 ?e tokens"
    using prepare_Inr [OF assms] by blast
  have parts: "pb_token_ids b = map bt_id tokens" "pb_token_count b = length tokens" "pb_position_count b = ?e"
    by (simp_all add: b lay_out_def)
  have "- 1 \<le> pb_token_ids b ! g \<and> (0 \<le> pb_token_ids b ! g \<longrightarrow> (\<exists>i. 0 \<le> i \<and> i < ?e \<and>
        map (\<lambda>axis. pb_positions b ! (axis * length tokens + g)) [0, 1, 2, 3] = [i, i, i, 0]))" if "g < length tokens" for g
  proof -
    have "tokens ! g \<in> set tokens" using that by simp
    with T(6) have t: "- 1 \<le> bt_id (tokens ! g)"
      "0 \<le> bt_id (tokens ! g) \<Longrightarrow> \<exists>i. 0 \<le> i \<and> i < ?e \<and> bt_pos (tokens ! g) = (i, i, i, 0)"
      by (auto simp: tokens_fit_def)
    have "map (\<lambda>axis. pb_positions b ! (axis * length tokens + g)) [0, 1, 2, 3] = [i, i, i, 0]"
      if "bt_pos (tokens ! g) = (i, i, i, 0)" for i
      unfolding b by (rule batch_positions [OF \<open>g < length tokens\<close> that])
    with t that show ?thesis unfolding parts by (metis nth_map)
  qed
  moreover have "length (concat (map chunk_ids chunks)) = length tokens" unfolding T(4) [symmetric] by simp
  ultimately show ?thesis using T batch_sizes [OF T(6,3)] prepare_token [OF assms] unfolding parts by (simp add: b)
qed

end
