(* ===== verification/QwenBridge.thy ===== *)
theory QwenBridge
  imports QwenBatch
begin

text \<open>
  \<open>Qwen3VLBridge\<close> of \<^verbatim>\<open>src/models/starvla/qwen3vl_bridge.cpp\<close>: loading and checking the text and vision models, the
  three extractions of hidden states, generation, and what every operation restores.  An operation is a function of
  the state of the bridge that returns its result and the new state; \<open>None\<close> marks undefined behaviour.  A bridge that
  \<open>load\<close> returned always owns its \<open>Impl\<close>.
\<close>

subsection \<open>State\<close>

text \<open>\<open>cx_embeddings\<close> is what \<open>llama_set_embeddings\<close> sets; the rest of a text context is the library's \<open>cx_state\<close>.\<close>

record 's text_context =
  cx_n_ctx :: nat
  cx_n_batch :: nat
  cx_n_ubatch :: nat
  cx_embeddings :: bool
  cx_state :: 's

record ('s, 'v) qwen_impl =
  im_config :: qwen_bridge_config
  im_architecture :: qwen_architecture
  im_deepstack :: nat
  im_model :: "text_model option"
  im_context :: "'s text_context option"
  im_vision :: "'v option"
  im_vocab :: "vocab option"
  im_backend_initialized :: bool
  im_text_placement :: backend_placement
  im_vision_placement :: backend_placement
  im_capture :: layer_capture
  im_backend_name :: string

definition no_placement :: backend_placement where
  "no_placement = \<lparr>accelerator_compute = False, cpu_compute = False\<rparr>"

definition new_impl :: "qwen_bridge_config \<Rightarrow> ('s, 'v) qwen_impl" where
  "new_impl cfg = \<lparr>im_config = cfg, im_architecture = qwen_unknown, im_deepstack = 0, im_model = None, im_context = None,
     im_vision = None, im_vocab = None, im_backend_initialized = False, im_text_placement = no_placement,
     im_vision_placement = no_placement, im_capture = new_capture, im_backend_name = ''unknown''\<rparr>"

text \<open>What the destructor gives back, in order.\<close>

datatype handle = Vision_handle | Context_handle | Model_handle | Backend_handle

definition destroy_impl :: "('s, 'v) qwen_impl \<Rightarrow> handle list" where
  "destroy_impl im = (if im_vision im \<noteq> None then [Vision_handle] else []) @
     (if im_context im \<noteq> None then [Context_handle] else []) @ (if im_model im \<noteq> None then [Model_handle] else []) @
     (if im_backend_initialized im then [Backend_handle] else [])"

text \<open>The backend the program was compiled for.\<close>

datatype compiled_backend = Compiled_cuda | Compiled_metal | Compiled_cpu

fun compiled_backend_name :: "compiled_backend \<Rightarrow> string" where
  "compiled_backend_name Compiled_cuda = ''cuda''"
| "compiled_backend_name Compiled_metal = ''metal''"
| "compiled_backend_name Compiled_cpu = ''cpu''"

definition refresh_backend_name :: "compiled_backend \<Rightarrow> ('s, 'v) qwen_impl \<Rightarrow> ('s, 'v) qwen_impl" where
  "refresh_backend_name built im =
     (let t = im_text_placement im; v = im_vision_placement im;
          accelerator = (accelerator_compute t \<and> accelerator_compute v);
          cpu = (cpu_compute t \<or> cpu_compute v)
      in im\<lparr>im_backend_name :=
           (if accelerator \<and> \<not> cpu then compiled_backend_name built
            else if \<not> accelerator_compute t \<and> \<not> accelerator_compute v \<and> cpu_compute t \<and> cpu_compute v then ''cpu''
            else if accelerator_compute t \<or> accelerator_compute v then ''mixed''
            else ''unknown'')\<rparr>)"

subsection \<open>Loading\<close>

record context_params =
  cp_n_ctx :: nat
  cp_n_batch :: nat
  cp_n_ubatch :: nat
  cp_n_threads :: int
  cp_n_threads_batch :: int
  cp_pooling_none :: bool
  cp_embeddings :: bool
  cp_bf16_cache :: bool
  cp_flash_attention :: bool

record vision_params =
  vp_use_gpu :: bool
  vp_print_timings :: bool
  vp_n_threads :: int
  vp_image_min_tokens :: int
  vp_image_max_tokens :: int

text \<open>The entry points that open files and create models and contexts.\<close>

record ('s, 'v) qwen_loader =
  ld_gguf :: "string \<Rightarrow> gguf option"
  ld_model :: "string \<Rightarrow> text_model option"
  ld_context :: "text_model \<Rightarrow> context_params \<Rightarrow> 's text_context option"
  ld_vision :: "string \<Rightarrow> text_model \<Rightarrow> vision_params \<Rightarrow> 'v option"
  ld_text_graphs :: "bool \<Rightarrow> 's \<Rightarrow> 's"
  ld_vision_graphs :: "bool \<Rightarrow> 'v \<Rightarrow> 'v"

definition bridge_config_complete :: "qwen_bridge_config \<Rightarrow> bool" where
  "bridge_config_complete cfg \<longleftrightarrow>
     \<not> (qb_text_path cfg = [] \<or> qb_mmproj_path cfg = [] \<or> qb_bundle_uuid cfg = [] \<or> qb_hidden_size cfg \<le> 0 \<or>
        qb_input_embedding_size cfg \<le> 0 \<or> qb_vocab_size cfg \<le> 0 \<or>
        \<not> (if qb_action_token cfg = [] then qb_action_token_id cfg = - 1 else qb_action_token_id cfg \<ge> 0) \<or>
        qb_expected_image_count cfg \<le> 0 \<or> qb_image_min_tokens cfg \<le> 0 \<or>
        qb_image_max_tokens cfg < qb_image_min_tokens cfg \<or> qb_image_spatial_merge_size cfg \<le> 0 \<or>
        qb_n_ctx cfg \<le> 0 \<or> qb_n_batch cfg \<le> 0)"

definition place_device :: "device_type \<Rightarrow> backend_placement \<Rightarrow> backend_placement" where
  "place_device d p =
     (case d of CPU_device \<Rightarrow> p\<lparr>cpu_compute := True\<rparr> | META_device \<Rightarrow> p | _ \<Rightarrow> p\<lparr>accelerator_compute := True\<rparr>)"

fun place_layers :: "device_type option list \<Rightarrow> backend_placement \<Rightarrow> backend_placement res" where
  "place_layers [] p = Inr p"
| "place_layers (None # ds) p = Inl ''Qwen3-VL text layer has no assigned backend device''"
| "place_layers (Some d # ds) p = place_layers ds (place_device d p)"

definition load_text_model ::
  "('s, 'v) qwen_loader \<Rightarrow> qwen_bridge_config \<Rightarrow> string \<Rightarrow> (text_model \<times> vocab, ('s, 'v) qwen_impl) act"
where
  "load_text_model ld cfg projector_type =
     bind_act (act_modify (\<lambda>im. im\<lparr>im_backend_initialized := True, im_model := ld_model ld (qb_text_path cfg)\<rparr>)) (\<lambda>_.
     case ld_model ld (qb_text_path cfg) of
       None \<Rightarrow> act_fail (''failed to load Qwen3-VL text GGUF: '' @ qb_text_path cfg)
     | Some m \<Rightarrow>
       bind_act (act_run (Some (model_metadata m ''general.source.uuid''))) (\<lambda>uuid.
       if uuid \<noteq> qb_bundle_uuid cfg then act_fail ''Qwen3-VL text bundle UUID does not match the policy''
       else bind_act (act_run (Some (bind_res (model_metadata m ''general.architecture'')
           (\<lambda>name. qwen_vl_resolve_architecture name projector_type)))) (\<lambda>architecture.
       bind_act (act_modify (\<lambda>im. im\<lparr>im_architecture := architecture\<rparr>)) (\<lambda>_.
       if tm_n_embd_out m \<noteq> qb_hidden_size cfg \<or> tm_n_embd_inp m \<noteq> qb_input_embedding_size cfg then
         act_fail ''Qwen3-VL text embedding dimensions do not match the policy''
       else if qb_input_embedding_size cfg mod qb_hidden_size cfg \<noteq> 0 then
         act_fail ''Qwen-VL input embedding width is not an integral hidden-state layout''
       else let deepstack_layer_count = qb_input_embedding_size cfg div qb_hidden_size cfg - 1
         in if (architecture = qwen2_5_vl \<and> deepstack_layer_count \<noteq> 0) \<or>
             (architecture = qwen3_vl \<and> (deepstack_layer_count \<le> 0 \<or> deepstack_layer_count > tm_n_layer m)) then
           act_fail ''Qwen-VL input embedding layout does not match the detected architecture''
         else bind_act (act_modify (\<lambda>im. im\<lparr>im_deepstack := nat deepstack_layer_count\<rparr>)) (\<lambda>_.
         bind_act (act_run (Some (place_layers (map (tm_dev_layer m) [0..<nat (tm_n_layer m)]) no_placement))) (\<lambda>placement.
         bind_act (act_modify (\<lambda>im. im\<lparr>im_text_placement :=
             (case tm_dev_output m of None \<Rightarrow> placement | Some d \<Rightarrow> place_device d placement), im_vocab := tm_vocab m\<rparr>)) (\<lambda>_.
         case tm_vocab m of
           None \<Rightarrow> act_fail ''Qwen3-VL text GGUF has no vocabulary''
         | Some v \<Rightarrow>
             if vo_n_tokens v \<noteq> qb_vocab_size cfg then
               act_fail ''Qwen3-VL text vocabulary size does not match the policy''
             else if qb_action_token cfg = [] then act_return (m, v)
             else (case tokenize v (qb_action_token cfg) True of
                 None \<Rightarrow> act_run None
               | Some action_tokens \<Rightarrow>
                   if length action_tokens \<noteq> 1 \<or> hd action_tokens \<noteq> qb_action_token_id cfg then
                     act_fail ''Qwen3-VL action token mapping does not match the policy metadata''
                   else act_return (m, v)))))))))"

definition text_context_params :: "qwen_bridge_config \<Rightarrow> context_params" where
  "text_context_params cfg = \<lparr>cp_n_ctx = nat (qb_n_ctx cfg), cp_n_batch = nat (qb_n_batch cfg),
     cp_n_ubatch = nat (qb_n_batch cfg), cp_n_threads = qb_n_threads cfg, cp_n_threads_batch = qb_n_threads cfg,
     cp_pooling_none = True, cp_embeddings = False, cp_bf16_cache = True,
     cp_flash_attention = qb_flash_text_attention cfg\<rparr>"

definition init_text_context ::
  "('s, 'v) qwen_loader \<Rightarrow> qwen_bridge_config \<Rightarrow> text_model \<Rightarrow> (unit, ('s, 'v) qwen_impl) act"
where
  "init_text_context ld cfg m =
     bind_act (act_modify (\<lambda>im. im\<lparr>im_capture := (im_capture im)\<lparr>
         lc_bf16_boundaries := qb_bf16_residual_layer_boundaries cfg,
         lc_expected_deepstack := (if qb_bf16_residual_layer_boundaries cfg then im_deepstack im
           else lc_expected_deepstack (im_capture im))\<rparr>,
         im_context := ld_context ld m (text_context_params cfg)\<rparr>)) (\<lambda>_.
     case ld_context ld m (text_context_params cfg) of
       None \<Rightarrow> act_fail ''failed to create Qwen3-VL text context''
     | Some cx \<Rightarrow>
       bind_act (act_modify (\<lambda>im. if qb_disable_text_backend_native_graphs cfg
           then im\<lparr>im_context := Some (cx\<lparr>cx_state := ld_text_graphs ld False (cx_state cx)\<rparr>)\<rparr> else im)) (\<lambda>_.
       if cx_n_batch cx \<noteq> nat (qb_n_batch cfg) \<or> cx_n_ubatch cx \<noteq> nat (qb_n_batch cfg) then
         act_fail ''Qwen3-VL text context did not preserve the requested batch/ubatch contract''
       else act_return ()))"

definition init_vision ::
  "('s, 'v) qwen_loader \<Rightarrow> qwen_bridge_config \<Rightarrow> text_model \<Rightarrow> (unit, ('s, 'v) qwen_impl) act"
where
  "init_vision ld cfg m =
     (let vision = ld_vision ld (qb_mmproj_path cfg) m \<lparr>vp_use_gpu = True, vp_print_timings = (qb_verbosity cfg \<ge> 1),
          vp_n_threads = qb_n_threads cfg, vp_image_min_tokens = qb_image_min_tokens cfg,
          vp_image_max_tokens = qb_image_max_tokens cfg\<rparr>
      in bind_act (act_modify (\<lambda>im. im\<lparr>im_vision := vision\<rparr>)) (\<lambda>_.
        case vision of
          None \<Rightarrow> act_fail (''failed to load Qwen3-VL mmproj GGUF: '' @ qb_mmproj_path cfg)
        | Some v \<Rightarrow> act_modify (\<lambda>im. if qb_disable_vision_backend_native_graphs cfg
            then im\<lparr>im_vision := Some (ld_vision_graphs ld False v)\<rparr> else im)))"

text \<open>The result and, when loading fails, the handles that are given back.\<close>

definition load_steps ::
  "('s, 'v) qwen_loader \<Rightarrow> compiled_backend \<Rightarrow> qwen_bridge_config \<Rightarrow> (unit, ('s, 'v) qwen_impl) act"
where
  "load_steps ld built cfg =
     bind_act (act_run (Some (gguf_string_metadata (ld_gguf ld) (qb_mmproj_path cfg) ''general.source.uuid''))) (\<lambda>uuid.
     if uuid \<noteq> qb_bundle_uuid cfg then act_fail ''Qwen3-VL mmproj bundle UUID does not match the policy''
     else bind_act (act_run (Some (gguf_string_metadata (ld_gguf ld) (qb_mmproj_path cfg) ''clip.projector_type'')))
       (\<lambda>projector_type.
         bind_act (load_text_model ld cfg projector_type) (\<lambda>(m, v).
         bind_act (init_text_context ld cfg m) (\<lambda>_.
         bind_act (init_vision ld cfg m) (\<lambda>_.
         act_modify (refresh_backend_name built))))))"

definition qwen_bridge_load ::
  "('s, 'v) qwen_loader \<Rightarrow> compiled_backend \<Rightarrow> qwen_bridge_config \<Rightarrow> ('s, 'v) qwen_impl run \<times> handle list"
where
  "qwen_bridge_load ld built cfg =
     (if \<not> bridge_config_complete cfg then (Some (Inl ''Qwen3-VL bridge configuration is incomplete''), [])
      else case load_steps ld built cfg (new_impl cfg) of
        (None, im) \<Rightarrow> (None, [])
      | (Some (Inl e), im) \<Rightarrow> (Some (Inl e), destroy_impl im)
      | (Some (Inr _), im) \<Rightarrow> (Some (Inr im), []))"

end
