(* ===== verification/QwenOps.thy ===== *)
theory QwenOps
  imports QwenBridge
begin

text \<open>
  The public operations of \<open>Qwen3VLBridge\<close>: what each does with the text context, the vision context and the layer
  capture, its error handler included.
\<close>

subsection \<open>Calls on the contexts\<close>

definition on_context :: "('s text_context \<Rightarrow> 's text_context) \<Rightarrow> ('s, 'v) qwen_impl \<Rightarrow> ('s, 'v) qwen_impl" where
  "on_context f im = im\<lparr>im_context := map_option f (im_context im)\<rparr>"

definition synchronize :: "('s, 'v, 'b) qwen_lib \<Rightarrow> ('s, 'v) qwen_impl \<Rightarrow> ('s, 'v) qwen_impl" where
  "synchronize lib = on_context (\<lambda>cx. cx\<lparr>cx_state := ql_synchronize lib (cx_state cx)\<rparr>)"

definition memory_clear :: "('s, 'v, 'b) qwen_lib \<Rightarrow> ('s, 'v) qwen_impl \<Rightarrow> ('s, 'v) qwen_impl" where
  "memory_clear lib = on_context (\<lambda>cx. cx\<lparr>cx_state := ql_memory_clear lib (cx_state cx)\<rparr>)"

definition set_embeddings :: "bool \<Rightarrow> ('s, 'v) qwen_impl \<Rightarrow> ('s, 'v) qwen_impl" where
  "set_embeddings b = on_context (\<lambda>cx. cx\<lparr>cx_embeddings := b\<rparr>)"

definition on_capture :: "(layer_capture \<Rightarrow> layer_capture) \<Rightarrow> ('s, 'v) qwen_impl \<Rightarrow> ('s, 'v) qwen_impl" where
  "on_capture f im = im\<lparr>im_capture := f (im_capture im)\<rparr>"

definition decode_and_synchronize :: "('s, 'v, 'b) qwen_lib \<Rightarrow> llama_batch \<Rightarrow> (int, ('s, 'v) qwen_impl) act" where
  "decode_and_synchronize lib batch im =
     (case im_context im of
        None \<Rightarrow> (None, im)
      | Some cx \<Rightarrow>
          case run_decode (ql_conv lib) (ql_decode lib batch (cx_embeddings cx) (cx_state cx))
              (im_text_placement im, im_capture im) of
            (result, s', p', c') \<Rightarrow>
              (Some (Inr result), im\<lparr>im_context := Some (cx\<lparr>cx_state := ql_synchronize lib s'\<rparr>),
                 im_text_placement := p', im_capture := c'\<rparr>))"

text \<open>The four steps shared by every error handler and \<open>reset\<close>.\<close>

definition restore :: "('s, 'v, 'b) qwen_lib \<Rightarrow> ('s, 'v) qwen_impl \<Rightarrow> ('s, 'v) qwen_impl" where
  "restore lib im = memory_clear lib (set_embeddings False (on_capture disable_capture (synchronize lib im)))"

definition attempt :: "('s, 'v, 'b) qwen_lib \<Rightarrow> ('a, ('s, 'v) qwen_impl) act \<Rightarrow> ('a, ('s, 'v) qwen_impl) act" where
  "attempt lib m im = (case m im of (Some (Inl e), im') \<Rightarrow> (Some (Inl e), restore lib im') | r \<Rightarrow> r)"

definition on_vision :: "('a, 'v \<times> backend_placement) act \<Rightarrow> ('a, ('s, 'v) qwen_impl) act" where
  "on_vision f im =
     (case im_vision im of
        None \<Rightarrow> (None, im)
      | Some v \<Rightarrow> case f (v, im_vision_placement im) of
          (r, v', p') \<Rightarrow> (r, im\<lparr>im_vision := Some v', im_vision_placement := p'\<rparr>))"

definition with_placement :: "('v \<Rightarrow> 'a run \<times> 'v) \<Rightarrow> ('a, 'v \<times> backend_placement) act" where
  "with_placement f st = (case f (fst st) of (r, v') \<Rightarrow> (r, v', snd st))"

definition prompt_batch ::
  "('s, 'v, 'b) qwen_lib \<Rightarrow> qwen_bridge_config \<Rightarrow> qwen_architecture \<Rightarrow> text_model \<Rightarrow> qwen_image list \<Rightarrow> string \<Rightarrow>
     (input_chunk list \<times> prepared_batch, ('s, 'v) qwen_impl) act"
where
  "prompt_batch lib cfg architecture m images instruction =
     on_vision (bind_act (with_placement (tokenize_multimodal_prompt lib architecture m images instruction)) (\<lambda>chunks.
       bind_act (prepare_multimodal_batch lib cfg m chunks) (\<lambda>prepared. act_return (chunks, prepared))))"

subsection \<open>One evaluation with a capture\<close>

definition check_batch :: "'s text_context \<Rightarrow> prepared_batch \<Rightarrow> unit res" where
  "check_batch cx prepared =
     (if pb_token_count prepared > cx_n_batch cx then
        Inl ''Qwen3-VL multimodal prompt exceeds n_batch; increase --n-batch for single-batch decode''
      else if pb_token_count prepared > cx_n_ctx cx \<or> pb_position_count prepared > to_int32 (int (cx_n_ctx cx)) then
        Inl ''Qwen3-VL multimodal prompt exceeds n_ctx''
      else Inr ())"

definition arm_capture ::
  "nat \<Rightarrow> nat \<Rightarrow> int list \<Rightarrow> int list \<Rightarrow> int \<Rightarrow> nat \<Rightarrow> nat \<Rightarrow> layer_capture \<Rightarrow> layer_capture"
where
  "arm_capture token_count hidden_size layer_to_slot deepstack_to_slot result_norm_slot slots layer_count c =
     (let c1 = c\<lparr>lc_enabled := False, lc_token_count := token_count, lc_hidden_size := hidden_size,
            lc_layer_to_slot := layer_to_slot, lc_deepstack_to_slot := deepstack_to_slot,
            lc_result_norm_slot := result_norm_slot, lc_values := replicate (slots * token_count * hidden_size) f32_zero,
            lc_seen := replicate slots False\<rparr>
      in (begin_layer_boundary_tracking c1 layer_count)\<lparr>lc_error := [], lc_enabled := True\<rparr>)"

text \<open>The request for the last hidden state.\<close>

definition final_request :: "qwen_architecture \<Rightarrow> nat \<Rightarrow> int list \<times> int list \<times> int" where
  "final_request architecture layer_count =
     (let unset = replicate layer_count (- 1)
      in if architecture = qwen2_5_vl then (unset, unset, 0) else (unset[layer_count - 1 := 0], unset, - 1))"

text \<open>From \<open>llama_memory_clear\<close> to the checks after the decode; the caller inspects \<open>seen\<close>.\<close>

definition evaluate_captured ::
  "('s, 'v, 'b) qwen_lib \<Rightarrow> prepared_batch \<Rightarrow> (layer_capture, ('s, 'v) qwen_impl) act"
where
  "evaluate_captured lib prepared =
     bind_act (act_modify (set_embeddings True \<circ> memory_clear lib)) (\<lambda>_.
     bind_act (decode_and_synchronize lib
         (batch_view (prepared\<lparr>pb_outputs := replicate (pb_token_count prepared) 1\<rparr>))) (\<lambda>decode_result.
     bind_act (act_modify (on_capture (\<lambda>c. c\<lparr>lc_enabled := False\<rparr>))) (\<lambda>_.
     if decode_result \<noteq> 0 then act_fail ''failed to evaluate the Qwen3-VL multimodal batch''
     else (\<lambda>im. if lc_error (im_capture im) \<noteq> [] then act_fail (lc_error (im_capture im)) im
       else bind_act (act_run (Some (validate_layer_boundary_tracking (im_capture im))))
         (\<lambda>_. act_return (im_capture im)) im))))"

definition finish_extraction :: "compiled_backend \<Rightarrow> ('s, 'v) qwen_impl \<Rightarrow> ('s, 'v) qwen_impl" where
  "finish_extraction built im = refresh_backend_name built (set_embeddings False (on_capture disable_capture im))"

text \<open>The parts of an initialised bridge.\<close>

definition bridge_parts :: "('s, 'v) qwen_impl \<Rightarrow> (text_model \<times> 's text_context \<times> vocab) option" where
  "bridge_parts im =
     (case (im_model im, im_context im, im_vision im, im_vocab im) of
        (Some m, Some cx, Some _, Some v) \<Rightarrow> Some (m, cx, v)
      | _ \<Rightarrow> None)"

subsection \<open>Extractions\<close>

definition capture_final_state ::
  "('s, 'v, 'b) qwen_lib \<Rightarrow> qwen_bridge_config \<Rightarrow> qwen_architecture \<Rightarrow> text_model \<Rightarrow> prepared_batch \<Rightarrow>
     (f32 list, ('s, 'v) qwen_impl) act"
where
  "capture_final_state lib cfg architecture m prepared =
     (if tm_n_layer m \<le> 0 then act_fail ''Qwen3-VL model has no decoder layers''
      else case final_request architecture (nat (tm_n_layer m)) of
        (layer_to_slot, deepstack_to_slot, result_norm_slot) \<Rightarrow>
          bind_act (act_modify (on_capture (arm_capture (pb_token_count prepared) (size_cast (qb_hidden_size cfg))
              layer_to_slot deepstack_to_slot result_norm_slot 1 (nat (tm_n_layer m))))) (\<lambda>_.
          bind_act (evaluate_captured lib prepared) (\<lambda>capture.
          if length (lc_seen capture) \<noteq> 1 \<or> \<not> hd (lc_seen capture) then
            act_fail ''Qwen-VL did not expose the final conditioning output''
          else act_return (lc_values capture))))"

definition extract_token_embeddings ::
  "('s, 'v, 'b) qwen_lib \<Rightarrow> compiled_backend \<Rightarrow> qwen_image list \<Rightarrow> string \<Rightarrow> int \<Rightarrow> nat \<Rightarrow>
     (f32 list, ('s, 'v) qwen_impl) act"
where
  "extract_token_embeddings lib built images instruction token_id token_count im =
     (let cfg = im_config im
      in case bridge_parts im of
        None \<Rightarrow> act_fail ''Qwen3-VL bridge is not initialized'' im
      | Some (m, cx, v) \<Rightarrow>
          if qb_action_token cfg = [] \<or> qb_action_token_id cfg < 0 then
            act_fail ''Qwen3-VL bridge was configured without an action token'' im
          else if length images \<noteq> size_cast (qb_expected_image_count cfg) then
            act_fail ''Qwen3-VL image count does not match the policy'' im
          else if token_count = 0 then act_fail ''Qwen3-VL requested token embedding count must be positive'' im
          else if token_id \<noteq> qb_action_token_id cfg then
            act_fail ''Qwen3-VL requested token ID does not match the policy'' im
          else attempt lib
            (bind_act (prompt_batch lib cfg (im_architecture im) m images instruction) (\<lambda>(chunks, prepared).
              let matches = token_positions (pb_token_ids prepared) token_id
              in if length matches < token_count then
                act_fail ''Qwen3-VL prompt contains fewer target tokens than requested''
              else bind_act (act_run (Some (check_batch cx prepared))) (\<lambda>_.
                bind_act (capture_final_state lib cfg (im_architecture im) m prepared) (\<lambda>states.
                bind_act (act_modify (finish_extraction built)) (\<lambda>_.
                  act_return (concat (map (\<lambda>p. block (size_cast (qb_hidden_size cfg)) p states)
                    (drop (length matches - token_count) matches)))))))) im)"

definition extract_full_hidden_states ::
  "('s, 'v, 'b) qwen_lib \<Rightarrow> compiled_backend \<Rightarrow> qwen_image list \<Rightarrow> string \<Rightarrow>
     (f32 list \<times> u8 list, ('s, 'v) qwen_impl) act"
where
  "extract_full_hidden_states lib built images instruction im =
     (let cfg = im_config im
      in case bridge_parts im of
        None \<Rightarrow> act_fail ''Qwen3-VL bridge is not initialized'' im
      | Some (m, cx, v) \<Rightarrow>
          if length images \<noteq> size_cast (qb_expected_image_count cfg) then
            act_fail ''Qwen3-VL image count does not match the policy'' im
          else attempt lib
            (bind_act (prompt_batch lib cfg (im_architecture im) m images instruction) (\<lambda>(chunks, prepared).
              bind_act (act_run (Some (check_batch cx prepared))) (\<lambda>_.
              if pb_token_count prepared > size_max div size_cast (qb_hidden_size cfg) then
                act_fail ''Qwen3-VL hidden-state buffer size overflow''
              else bind_act (capture_final_state lib cfg (im_architecture im) m prepared) (\<lambda>states.
                bind_act (act_modify (finish_extraction built)) (\<lambda>_.
                  act_return (states, replicate (pb_token_count prepared) 1)))))) im)"

text \<open>The slots of the requested layers: layer to slot, DeepStack layer to slot, and the slot of the final norm.\<close>

type_synonym slot_maps = "int list \<times> int list \<times> int"

fun place_slots :: "qwen_architecture \<Rightarrow> int \<Rightarrow> int \<Rightarrow> int list \<Rightarrow> nat \<Rightarrow> slot_maps \<Rightarrow> slot_maps res" where
  "place_slots architecture layers deepstack [] slot maps = Inr maps"
| "place_slots architecture layers deepstack (tuple_index # rest) slot (l2s, d2s, norm) =
     bind_res (qwen_vl_hidden_state_source architecture layers deepstack tuple_index) (\<lambda>(kind, layer).
       if kind = final_norm then
         (if norm \<ge> 0 then Inl ''Qwen-VL hidden-state tuple indices must be unique''
          else place_slots architecture layers deepstack rest (slot + 1) (l2s, d2s, int slot))
       else if layer < 0 \<or> layer \<ge> layers then Inl ''Qwen-VL hidden-state source layer is out of range''
       else let target = (if kind = deepstack_output then d2s else l2s)
         in if target ! nat layer \<ge> 0 then Inl ''Qwen-VL hidden-state tuple indices must be unique''
         else place_slots architecture layers deepstack rest (slot + 1)
           (if kind = deepstack_output then (l2s, d2s[nat layer := int slot], norm)
            else (l2s[nat layer := int slot], d2s, norm)))"

definition extract_layer_hidden_states ::
  "('s, 'v, 'b) qwen_lib \<Rightarrow> compiled_backend \<Rightarrow> qwen_image list \<Rightarrow> string \<Rightarrow> int list \<Rightarrow>
     (f32 list \<times> u8 list, ('s, 'v) qwen_impl) act"
where
  "extract_layer_hidden_states lib built images instruction hidden_tuple_indices im =
     (let cfg = im_config im
      in case bridge_parts im of
        None \<Rightarrow> act_fail ''Qwen3-VL bridge is not initialized'' im
      | Some (m, cx, v) \<Rightarrow>
          let layers = tm_n_layer m; requested_layers = length hidden_tuple_indices;
            unset = replicate (nat layers) (- 1)
          in if length images \<noteq> size_cast (qb_expected_image_count cfg) then
            act_fail ''Qwen3-VL image count does not match the policy'' im
          else if hidden_tuple_indices = [] \<or> layers \<le> 0 \<or> requested_layers > nat layers then
            act_fail ''Qwen3-VL requested hidden-state layer set is incompatible with the model'' im
          else if im_deepstack im > nat INT_MAX then
            act_fail ''Qwen-VL DeepStack layer count exceeds the supported range'' im
          else case place_slots (im_architecture im) layers (int (im_deepstack im)) hidden_tuple_indices 0
              (unset, unset, - 1) of
            Inl e \<Rightarrow> act_fail e im
          | Inr (layer_to_slot, deepstack_to_slot, result_norm_slot) \<Rightarrow> attempt lib
            (bind_act (prompt_batch lib cfg (im_architecture im) m images instruction) (\<lambda>(chunks, prepared).
              bind_act (act_run (Some (check_batch cx prepared))) (\<lambda>_.
              let hidden_size = size_cast (qb_hidden_size cfg); token_count = pb_token_count prepared
              in if token_count > size_max div hidden_size \<or> token_count * hidden_size > size_max div requested_layers then
                act_fail ''Qwen3-VL layerwise hidden-state buffer size overflow''
              else bind_act (act_modify (on_capture (arm_capture token_count hidden_size layer_to_slot
                  deepstack_to_slot result_norm_slot requested_layers (nat layers)))) (\<lambda>_.
                bind_act (evaluate_captured lib prepared) (\<lambda>capture.
                if list_ex Not (lc_seen capture) then
                  act_fail ''Qwen3-VL did not expose every requested hidden-state output''
                else bind_act (act_modify (finish_extraction built)) (\<lambda>_.
                  act_return (lc_values capture, replicate token_count 1))))))) im)"

subsection \<open>Generation\<close>

record generation_config =
  gn_max_length :: nat
  gn_eos_token_ids :: "int list"
  gn_top_k :: int
  gn_repetition_penalty :: f32

record generation_result =
  gr_prompt_token_count :: nat
  gr_full_sequence :: "int list"
  gr_continuation :: "int list"

fun mark_eos :: "int \<Rightarrow> int list \<Rightarrow> bool list \<Rightarrow> bool list res" where
  "mark_eos vocab_size [] seen = Inr seen"
| "mark_eos vocab_size (eos # rest) seen =
     (if eos < 0 \<or> eos \<ge> vocab_size \<or> seen ! nat eos then Inl ''Qwen-VL generation EOS token set is invalid''
      else mark_eos vocab_size rest (seen[nat eos := True]))"

definition token_batch :: "int \<Rightarrow> int \<Rightarrow> llama_batch" where
  "token_batch token position = \<lparr>ba_n_tokens = 1, ba_token = Some [token], ba_embd = None, ba_pos = [position],
     ba_n_seq_id = [1], ba_seq_id = [[0]], ba_logits = [1]\<rparr>"

definition read_logits :: "('s, 'v, 'b) qwen_lib \<Rightarrow> ('s, 'v) qwen_impl \<Rightarrow> (nat \<Rightarrow> f32) option" where
  "read_logits lib im = (case im_context im of None \<Rightarrow> None | Some cx \<Rightarrow> ql_logits lib (cx_state cx))"

function generate_loop ::
  "('s, 'v, 'b) qwen_lib \<Rightarrow> nat \<Rightarrow> nat \<Rightarrow> f32 \<Rightarrow> bool list \<Rightarrow> int \<Rightarrow> int list \<Rightarrow> int list \<Rightarrow>
     (int list \<times> int list, ('s, 'v) qwen_impl) act"
where
  "generate_loop lib vocab_size max_length penalty eos_seen position_count full continuation im =
     (if \<not> length full < max_length then act_return (full, continuation) im
      else case qwen_vl_select_repetition_penalized_top1 (read_logits lib im) vocab_size full penalty of
        Inl e \<Rightarrow> act_fail e im
      | Inr chosen \<Rightarrow>
          let full' = full @ [int chosen]; continuation' = continuation @ [int chosen]
          in if eos_seen ! chosen \<or> length full' = max_length then act_return (full', continuation') im
          else let generation_index = length continuation' - 1
            in if generation_index > size_cast (INT_MAX - position_count) then
              act_fail ''Qwen-VL autoregressive M-RoPE position overflow'' im
            else case decode_and_synchronize lib
                (token_batch (int chosen) (position_count + to_int32 (int generation_index))) im of
              (None, im') \<Rightarrow> (None, im')
            | (Some (Inl e), im') \<Rightarrow> (Some (Inl e), im')
            | (Some (Inr result), im') \<Rightarrow>
                if result \<noteq> 0 then act_fail ''failed to evaluate an incremental Qwen-VL generation token'' im'
                else generate_loop lib vocab_size max_length penalty eos_seen position_count full' continuation' im')"
  by pat_completeness auto
termination
  by (relation "measure (\<lambda>(lib, vocab_size, max_length, penalty, eos_seen, position_count, full, continuation, im).
    max_length - length full)") auto

declare generate_loop.simps [simp del]

definition generate_autoregressive ::
  "('s, 'v, 'b) qwen_lib \<Rightarrow> compiled_backend \<Rightarrow> qwen_image list \<Rightarrow> string \<Rightarrow> generation_config \<Rightarrow>
     (generation_result, ('s, 'v) qwen_impl) act"
where
  "generate_autoregressive lib built images instruction gn im =
     (let cfg = im_config im; max_length = gn_max_length gn
      in case bridge_parts im of
        None \<Rightarrow> act_fail ''Qwen-VL bridge is not initialized'' im
      | Some (m, cx, v) \<Rightarrow>
          if length images \<noteq> size_cast (qb_expected_image_count cfg) then
            act_fail ''Qwen-VL image count does not match the policy'' im
          else if max_length = 0 \<or> max_length > cx_n_ctx cx \<or> max_length > nat INT_MAX \<or> gn_top_k gn \<noteq> 1 \<or>
              gn_eos_token_ids gn = [] \<or> \<not> f32_finite (gn_repetition_penalty gn) \<or>
              f32_le (gn_repetition_penalty gn) f32_zero then
            act_fail ''Qwen-VL autoregressive generation configuration is incompatible'' im
          else case mark_eos (qb_vocab_size cfg) (gn_eos_token_ids gn) (replicate (size_cast (qb_vocab_size cfg)) False) of
            Inl e \<Rightarrow> act_fail e im
          | Inr eos_seen \<Rightarrow> attempt lib
            (bind_act (prompt_batch lib cfg (im_architecture im) m images instruction) (\<lambda>(chunks, prepared).
              let token_count = pb_token_count prepared
              in if token_count > cx_n_batch cx then
                act_fail ''Qwen-VL multimodal prompt exceeds n_batch; increase --n-batch''
              else if token_count > max_length \<or> token_count > cx_n_ctx cx \<or>
                  pb_position_count prepared > to_int32 (int (cx_n_ctx cx)) then
                act_fail ''Qwen-VL multimodal prompt exceeds the FAST max_length/n_ctx contract''
              else bind_act (act_run (export_prepared_inputs cfg v chunks prepared)) (\<lambda>(input_ids, mask, grid).
                if length input_ids \<noteq> token_count then
                  act_fail ''Qwen-VL multimodal prompt token export is inconsistent''
                else if list_ex (\<lambda>i. i < 0 \<or> i \<ge> qb_vocab_size cfg) input_ids then
                  act_fail ''Qwen-VL multimodal prompt contains an out-of-vocabulary token''
                else if token_count = max_length then
                  bind_act (act_modify (refresh_backend_name built)) (\<lambda>_.
                    act_return \<lparr>gr_prompt_token_count = token_count, gr_full_sequence = input_ids, gr_continuation = []\<rparr>)
                else bind_act (act_modify (memory_clear lib \<circ> set_embeddings False \<circ> on_capture disable_capture)) (\<lambda>_.
                  bind_act (decode_and_synchronize lib
                      (batch_view (prepared\<lparr>pb_outputs := (replicate token_count 0)[token_count - 1 := 1]\<rparr>))) (\<lambda>result.
                  if result \<noteq> 0 then act_fail ''failed to evaluate the Qwen-VL autoregressive prompt''
                  else bind_act (generate_loop lib (size_cast (qb_vocab_size cfg)) max_length (gn_repetition_penalty gn)
                      eos_seen (pb_position_count prepared) input_ids []) (\<lambda>(full, continuation).
                    bind_act (act_modify (refresh_backend_name built \<circ> memory_clear lib)) (\<lambda>_.
                      act_return \<lparr>gr_prompt_token_count = token_count, gr_full_sequence = full,
                        gr_continuation = continuation\<rparr>))))))) im)"

subsection \<open>The other members\<close>

definition qwen_bridge_reset :: "('s, 'v, 'b) qwen_lib \<Rightarrow> ('s, 'v) qwen_impl \<Rightarrow> ('s, 'v) qwen_impl" where
  "qwen_bridge_reset lib im = (if im_context im \<noteq> None then restore lib im else im)"

definition qwen_bridge_backend_name :: "compiled_backend \<Rightarrow> ('s, 'v) qwen_impl \<Rightarrow> string \<times> ('s, 'v) qwen_impl" where
  "qwen_bridge_backend_name built im =
     (im_backend_name (refresh_backend_name built im), refresh_backend_name built im)"

end
