(* ===== verification/QwenStates.thy ===== *)
theory QwenStates
  imports QwenOps
begin

text \<open>
  What the operations of the bridge return: the captured hidden states are those of the nodes that carry them, the rows
  of the action tokens are the right ones, and generation is bounded and stays in the vocabulary.
\<close>

subsection \<open>Frames\<close>

lemma block_concat:
  assumes "\<And>x. x \<in> set xs \<Longrightarrow> length (f x) = n" "j < length xs"
  shows "block n j (concat (map f xs)) = f (xs ! j)"
  using assms
proof (induction xs arbitrary: j)
  case (Cons x xs)
  then show ?case
  proof (cases j)
    case 0
    then show ?thesis using Cons.prems(1) [of x] by (simp add: block_def)
  next
    case (Suc i)
    have "block n (Suc i) (f x @ concat (map f xs)) = block n i (concat (map f xs))"
      using Cons.prems(1) [of x] by (simp add: block_def)
    with Suc Cons show ?thesis by simp
  qed
qed simp

lemma on_context_keeps [simp]:
  "im_config (on_context f im) = im_config im" "im_architecture (on_context f im) = im_architecture im"
  "im_deepstack (on_context f im) = im_deepstack im" "im_model (on_context f im) = im_model im"
  "im_vision (on_context f im) = im_vision im" "im_vocab (on_context f im) = im_vocab im"
  "im_text_placement (on_context f im) = im_text_placement im" "im_capture (on_context f im) = im_capture im"
  "im_context (on_context f im) = map_option f (im_context im)"
  by (simp_all add: on_context_def)

lemma on_capture_keeps [simp]:
  "im_config (on_capture g im) = im_config im" "im_architecture (on_capture g im) = im_architecture im"
  "im_deepstack (on_capture g im) = im_deepstack im" "im_model (on_capture g im) = im_model im"
  "im_vision (on_capture g im) = im_vision im" "im_vocab (on_capture g im) = im_vocab im"
  "im_text_placement (on_capture g im) = im_text_placement im" "im_context (on_capture g im) = im_context im"
  "im_capture (on_capture g im) = g (im_capture im)"
  by (simp_all add: on_capture_def)

lemma refresh_keeps [simp]:
  "im_config (refresh_backend_name built im) = im_config im"
  "im_architecture (refresh_backend_name built im) = im_architecture im"
  "im_deepstack (refresh_backend_name built im) = im_deepstack im" "im_model (refresh_backend_name built im) = im_model im"
  "im_vision (refresh_backend_name built im) = im_vision im" "im_vocab (refresh_backend_name built im) = im_vocab im"
  "im_context (refresh_backend_name built im) = im_context im" "im_capture (refresh_backend_name built im) = im_capture im"
  by (simp_all add: refresh_backend_name_def Let_def)

lemmas context_calls = memory_clear_def set_embeddings_def synchronize_def

text \<open>What no operation changes: the settings, the models and the sizes of the contexts.\<close>

definition same_bridge :: "('s, 'v) qwen_impl \<Rightarrow> ('s, 'v) qwen_impl \<Rightarrow> bool" where
  "same_bridge im im' \<longleftrightarrow> im_config im' = im_config im \<and> im_architecture im' = im_architecture im \<and>
     im_deepstack im' = im_deepstack im \<and> im_model im' = im_model im \<and> im_vocab im' = im_vocab im \<and>
     (im_vision im' = None \<longleftrightarrow> im_vision im = None) \<and>
     lc_bf16_boundaries (im_capture im') = lc_bf16_boundaries (im_capture im) \<and>
     lc_expected_deepstack (im_capture im') = lc_expected_deepstack (im_capture im) \<and>
     map_option (\<lambda>cx. (cx_n_ctx cx, cx_n_batch cx)) (im_context im') =
     map_option (\<lambda>cx. (cx_n_ctx cx, cx_n_batch cx)) (im_context im)"

lemma same_bridge_refl [simp]: "same_bridge im im" by (simp add: same_bridge_def)

lemma same_bridge_trans: "same_bridge a b \<Longrightarrow> same_bridge b c \<Longrightarrow> same_bridge a c"
  by (simp add: same_bridge_def)

text \<open>The prompt is prepared on the vision side only.\<close>

lemma prompt_batch_frame:
  assumes "prompt_batch lib cfg a m images instruction im = (r, im')"
  shows "im_capture im' = im_capture im" "im_context im' = im_context im" "im_text_placement im' = im_text_placement im"
    "same_bridge im im'"
  using assms by (auto simp: prompt_batch_def on_vision_def same_bridge_def split: option.splits prod.splits)

lemma prompt_batch_Inr:
  assumes "prompt_batch lib cfg a m images instruction im = (Some (Inr (chunks, prepared)), im')"
  obtains st st' where "prepare_multimodal_batch lib cfg m chunks st = (Some (Inr prepared), st')"
  using assms by (fastforce simp: prompt_batch_def on_vision_def act_simps split: option.splits prod.splits)

lemma decode_Some:
  assumes "decode_and_synchronize lib batch im = (r, im')" "im_context im = Some cx"
  obtains result s' p' c' where
    "run_decode (ql_conv lib) (ql_decode lib batch (cx_embeddings cx) (cx_state cx)) (im_text_placement im, im_capture im) =
      (result, s', p', c')" "r = Some (Inr result)"
    "im' = im\<lparr>im_context := Some (cx\<lparr>cx_state := ql_synchronize lib s'\<rparr>), im_text_placement := p', im_capture := c'\<rparr>"
  using assms by (auto simp: decode_and_synchronize_def split: prod.splits)

subsection \<open>One evaluation\<close>

text \<open>The nodes that the decode of a prepared prompt computes for the capture.\<close>

definition prompt_nodes ::
  "('s, 'v, 'b) qwen_lib \<Rightarrow> 's text_context \<Rightarrow> prepared_batch \<Rightarrow> observer \<Rightarrow> (node_info \<times> tensor_values) list"
where
  "prompt_nodes lib cx prepared = computed_nodes (ql_conv lib)
     (ql_decode lib (batch_view (prepared\<lparr>pb_outputs := replicate (pb_token_count prepared) 1\<rparr>)) True
       (ql_memory_clear lib (cx_state cx)))"

lemma evaluate_captured_Inr:
  assumes "evaluate_captured lib prepared im = (Some (Inr c), im')" "im_context im = Some cx"
  shows "c = (foldl (capture_step (ql_conv lib)) (im_capture im)
      (prompt_nodes lib cx prepared (im_text_placement im, im_capture im)))\<lparr>lc_enabled := False\<rparr> \<and>
    lc_error c = [] \<and> validate_layer_boundary_tracking c = Inr ()"
proof -
  let ?im = "set_embeddings True (memory_clear lib im)"
  let ?cx = "cx\<lparr>cx_state := ql_memory_clear lib (cx_state cx), cx_embeddings := True\<rparr>"
  let ?batch = "batch_view (prepared\<lparr>pb_outputs := replicate (pb_token_count prepared) 1\<rparr>)"
  have cx: "im_context ?im = Some ?cx" "im_capture ?im = im_capture im" "im_text_placement ?im = im_text_placement im"
    using assms(2) by (simp_all add: context_calls)
  obtain result im1 where d: "decode_and_synchronize lib ?batch ?im = (Some (Inr result), im1)"
    and rest: "lc_error (im_capture im1) = []" "c = (im_capture im1)\<lparr>lc_enabled := False\<rparr>"
      "validate_layer_boundary_tracking c = Inr ()"
    using assms(1) by (auto simp: evaluate_captured_def act_simps split: if_splits)
  obtain result' s' p' c' where "run_decode (ql_conv lib) (ql_decode lib ?batch True (ql_memory_clear lib (cx_state cx)))
      (im_text_placement im, im_capture im) = (result', s', p', c')" "im_capture im1 = c'"
    using d cx by (auto elim!: decode_Some)
  from run_decode_captures [OF this(1)] this(2) rest show ?thesis by (simp add: prompt_nodes_def)
qed

text \<open>The rounded data of a node.\<close>

fun bf16_data :: "conversions \<Rightarrow> nat \<Rightarrow> tensor_values \<Rightarrow> f32 list" where
  "bf16_data cv n (F32_values x) = map (\<lambda>i. bf16_round cv (x i)) [0..<n]"
| "bf16_data cv n (F16_values x) = map (\<lambda>i. bf16_round cv (fp16_to_fp32 cv (x i))) [0..<n]"
| "bf16_data cv n (BF16_values x) = map (\<lambda>i. bf16_to_fp32 cv (x i)) [0..<n]"
| "bf16_data cv n (Other_values type_name) = []"

lemma rounded_values_data: "rounded_values cv t n v = Inr xs \<Longrightarrow> xs = bf16_data cv n v"
  by (cases v) (auto simp: rounded_values_def split: if_splits)

text \<open>The slot of a request holds the rounded data of the one node that emits its source.\<close>

definition holds_source ::
  "conversions \<Rightarrow> (node_info \<times> tensor_values) list \<Rightarrow> source_kind \<times> int \<Rightarrow> nat \<Rightarrow> f32 list \<Rightarrow> bool"
where
  "holds_source cv nodes source n xs \<longleftrightarrow>
     (\<exists>node v. filter (\<lambda>nv. emits source (nd_name (fst nv))) nodes = [(node, v)] \<and> xs = bf16_data cv n v)"

text \<open>The maps of a request place exactly the sources of a list.\<close>

definition maps_place :: "nat \<Rightarrow> (source_kind \<times> int) list \<Rightarrow> slot_maps \<Rightarrow> bool" where
  "maps_place n sources maps \<longleftrightarrow>
     (case maps of (l2s, d2s, norm) \<Rightarrow>
        length l2s = n \<and> length d2s = n \<and>
        (\<forall>l<n. - 1 \<le> l2s ! l \<and> (\<forall>i. l2s ! l = int i \<longleftrightarrow> i < length sources \<and> sources ! i = (decoder_output, int l))) \<and>
        (\<forall>l<n. - 1 \<le> d2s ! l \<and> (\<forall>i. d2s ! l = int i \<longleftrightarrow> i < length sources \<and> sources ! i = (deepstack_output, int l))) \<and>
        - 1 \<le> norm \<and> (\<forall>i. norm = int i \<longleftrightarrow> i < length sources \<and> sources ! i = (final_norm, - 1)) \<and>
        (\<forall>s \<in> set sources. fst s = final_norm \<and> snd s = - 1 \<or> fst s \<noteq> final_norm \<and> 0 \<le> snd s \<and> snd s < int n))"

lemma fills_source:
  assumes "maps_place n sources (lc_layer_to_slot c, lc_deepstack_to_slot c, lc_result_norm_slot c)" "i < length sources"
  shows "fills c i nv \<longleftrightarrow> emits (sources ! i) (nd_name (fst nv))"
proof -
  let ?name = "nd_name (fst nv)"
  define d where "d = indexed_output_index ?name ''deepstack_out-''"
  define l where "l = indexed_output_index ?name ''l_out-''"
  define r where "r \<longleftrightarrow> qwen_vl_is_final_norm_tensor_name ?name"
  have disjoint: "d \<noteq> - 1 \<Longrightarrow> l = - 1" "d \<noteq> - 1 \<Longrightarrow> \<not> r" "l \<noteq> - 1 \<Longrightarrow> \<not> r" "- 1 \<le> d" "- 1 \<le> l"
    unfolding d_def l_def r_def using name_kinds_disjoint [of ?name] indexed_output_range [of ?name] by metis+
  have emits: "emits s ?name \<longleftrightarrow> (case fst s of deepstack_output \<Rightarrow> 0 \<le> snd s \<and> d = snd s
      | decoder_output \<Rightarrow> 0 \<le> snd s \<and> l = snd s | final_norm \<Rightarrow> r)" for s
    by (cases s; cases "fst s") (simp_all add: d_def l_def r_def)
  have slot: "tg_slot (capture_target c ?name) =
      (if 0 \<le> d \<and> nat d < n then lc_deepstack_to_slot c ! nat d else if 0 \<le> l \<and> nat l < n then lc_layer_to_slot c ! nat l
       else if r then lc_result_norm_slot c else - 1)"
    using assms(1) by (simp add: capture_target_def Let_def d_def l_def r_def maps_place_def)
  have shape: "fst (sources ! i) = final_norm \<and> snd (sources ! i) = - 1 \<or>
      fst (sources ! i) \<noteq> final_norm \<and> 0 \<le> snd (sources ! i) \<and> snd (sources ! i) < int n"
    using assms nth_mem [OF assms(2)] by (auto simp: maps_place_def)
  obtain k j where s: "sources ! i = (k, j)" by (cases "sources ! i")
  have M: "\<And>l i. l < n \<Longrightarrow> lc_layer_to_slot c ! l = int i \<longleftrightarrow> i < length sources \<and> sources ! i = (decoder_output, int l)"
    "\<And>l i. l < n \<Longrightarrow> lc_deepstack_to_slot c ! l = int i \<longleftrightarrow> i < length sources \<and> sources ! i = (deepstack_output, int l)"
    "\<And>i. lc_result_norm_slot c = int i \<longleftrightarrow> i < length sources \<and> sources ! i = (final_norm, - 1)"
    using assms(1) by (auto simp: maps_place_def)
  show ?thesis
    unfolding fills_def slot emits using M assms(2) s shape disjoint by (cases k) auto
qed

lemma hidden_state_source_shape:
  assumes "qwen_vl_hidden_state_source a n d i = Inr (kind, layer)" "int (nat n) = n"
  shows "kind = final_norm \<and> layer = - 1 \<or> kind \<noteq> final_norm \<and> 0 \<le> layer \<and> layer < int (nat n)"
  using hidden_state_source_layer [OF assms(1)] assms(2) by auto

text \<open>One more source in a list, and its slot in the maps.\<close>

lemma maps_place_extend:
  assumes "maps_place n sources (l2s, d2s, norm)" "kind = final_norm \<and> layer = - 1 \<or> kind \<noteq> final_norm \<and> 0 \<le> layer \<and> layer < int n"
    "kind = final_norm \<Longrightarrow> \<not> 0 \<le> norm" "kind = decoder_output \<Longrightarrow> \<not> 0 \<le> l2s ! nat layer"
    "kind = deepstack_output \<Longrightarrow> \<not> 0 \<le> d2s ! nat layer"
  shows "maps_place n (sources @ [(kind, layer)])
    (if kind = decoder_output then l2s[nat layer := int (length sources)] else l2s,
     if kind = deepstack_output then d2s[nat layer := int (length sources)] else d2s,
     if kind = final_norm then int (length sources) else norm)"
proof -
  let ?ss = "sources @ [(kind, layer)]"
  have M: "length l2s = n" "length d2s = n" "- 1 \<le> norm"
    "\<And>l. l < n \<Longrightarrow> - 1 \<le> l2s ! l" "\<And>l. l < n \<Longrightarrow> - 1 \<le> d2s ! l"
    "\<And>l i. l < n \<Longrightarrow> l2s ! l = int i \<longleftrightarrow> i < length sources \<and> sources ! i = (decoder_output, int l)"
    "\<And>l i. l < n \<Longrightarrow> d2s ! l = int i \<longleftrightarrow> i < length sources \<and> sources ! i = (deepstack_output, int l)"
    "\<And>i. norm = int i \<longleftrightarrow> i < length sources \<and> sources ! i = (final_norm, - 1)"
    "\<forall>s \<in> set sources. fst s = final_norm \<and> snd s = - 1 \<or> fst s \<noteq> final_norm \<and> 0 \<le> snd s \<and> snd s < int n"
    using assms(1) by (auto simp: maps_place_def)
  have ext: "i < length ?ss \<and> ?ss ! i = s \<longleftrightarrow> (i < length sources \<and> sources ! i = s) \<or> (i = length sources \<and> (kind, layer) = s)"
    for i s by (auto simp: nth_append less_Suc_eq)
  have free: "\<not> (i < length sources \<and> sources ! i = (kind, layer))" for i
    using M(6) [of "nat layer" i] M(7) [of "nat layer" i] M(8) [of i] assms(2-5) nat_less_iff [of layer n] by (cases kind) auto
  show ?thesis
    unfolding maps_place_def prod.case ext
    using M assms(2) free by (cases kind) (auto simp: nth_list_update split: if_splits)
qed

lemma place_slots_Inr:
  assumes "place_slots a layers d idxs (length sources) maps = Inr maps'" "maps_place (nat layers) sources maps" "0 < layers"
  shows "\<exists>new. list_all2 (\<lambda>i s. qwen_vl_hidden_state_source a layers d i = Inr s) idxs new \<and>
    maps_place (nat layers) (sources @ new) maps'"
  using assms(1,2)
proof (induction idxs arbitrary: sources maps)
  case Nil
  then show ?case by simp
next
  case (Cons i idxs)
  obtain l2s d2s norm where maps: "maps = (l2s, d2s, norm)" by (cases maps)
  obtain kind layer where src: "qwen_vl_hidden_state_source a layers d i = Inr (kind, layer)"
    using Cons.prems(1) by (auto simp: maps res_simps)
  have shape: "kind = final_norm \<and> layer = - 1 \<or> kind \<noteq> final_norm \<and> 0 \<le> layer \<and> layer < int (nat layers)"
    by (rule hidden_state_source_shape [OF src]) (use assms(3) in simp)
  let ?maps = "(if kind = decoder_output then l2s[nat layer := int (length sources)] else l2s,
     if kind = deepstack_output then d2s[nat layer := int (length sources)] else d2s,
     if kind = final_norm then int (length sources) else norm)"
  have rec: "place_slots a layers d idxs (length (sources @ [(kind, layer)])) ?maps = Inr maps'"
    and free: "kind = final_norm \<Longrightarrow> \<not> 0 \<le> norm" "kind = decoder_output \<Longrightarrow> \<not> 0 \<le> l2s ! nat layer"
      "kind = deepstack_output \<Longrightarrow> \<not> 0 \<le> d2s ! nat layer"
    using Cons.prems(1) src by (cases kind; auto simp: maps Let_def split: if_splits)+
  have "maps_place (nat layers) (sources @ [(kind, layer)]) ?maps"
    using maps_place_extend [OF Cons.prems(2) [unfolded maps] shape free] .
  from Cons.IH [OF rec this] obtain new where
    "list_all2 (\<lambda>i s. qwen_vl_hidden_state_source a layers d i = Inr s) idxs new"
    "maps_place (nat layers) (sources @ (kind, layer) # new) maps'" by auto
  with src show ?case by (intro exI [of _ "(kind, layer) # new"]) simp
qed

lemma place_slots_start:
  assumes "place_slots a layers d idxs 0 (replicate (nat layers) (- 1), replicate (nat layers) (- 1), - 1) = Inr maps" "0 < layers"
  shows "\<exists>sources. list_all2 (\<lambda>i s. qwen_vl_hidden_state_source a layers d i = Inr s) idxs sources \<and>
    maps_place (nat layers) sources maps"
proof -
  have "maps_place (nat layers) [] (replicate (nat layers) (- 1), replicate (nat layers) (- 1), - 1)"
    by (simp add: maps_place_def)
  from place_slots_Inr [of a layers d idxs "[]", OF _ this assms(2)] assms(1) show ?thesis by simp
qed

lemma rounds_layer_source:
  assumes "lc_bf16_boundaries c" "l < length (lc_layer_to_slot c)"
  shows "rounds_layer c l nv \<longleftrightarrow> emits (decoder_output, int l) (nd_name (fst nv))"
  using assms by (auto simp: rounds_layer_def capture_target_def Let_def)

lemma rounds_deepstack_source:
  assumes "lc_bf16_boundaries c" "l < length (lc_deepstack_to_slot c)" "l < lc_expected_deepstack c"
  shows "rounds_deepstack c l nv \<longleftrightarrow> emits (deepstack_output, int l) (nd_name (fst nv))"
  using assms by (auto simp: rounds_deepstack_def capture_target_def Let_def)

text \<open>An evaluation that fills every slot.\<close>

lemma arm_capture_parts:
  assumes a: "a = arm_capture t h l2s d2s norm slots n c"
  shows "lc_enabled a" "lc_values a = replicate (length (lc_seen a) * capture_count a) f32_zero" "list_all Not (lc_seen a)"
    "list_all Not (lc_rounded_layers a)" "list_all Not (lc_rounded_deepstack a)" "length (lc_seen a) = slots"
    "capture_count a = t * h" "lc_layer_to_slot a = l2s" "lc_deepstack_to_slot a = d2s" "lc_result_norm_slot a = norm"
    "lc_bf16_boundaries a = lc_bf16_boundaries c" "lc_expected_deepstack a = lc_expected_deepstack c"
    "length (lc_rounded_layers a) = (if lc_bf16_boundaries c then n else 0)"
    "length (lc_rounded_deepstack a) = (if lc_bf16_boundaries c then lc_expected_deepstack c else 0)"
  by (simp_all add: a arm_capture_def begin_layer_boundary_tracking_def capture_count_def Let_def list_all_length mult.assoc)

lemma evaluate_fills:
  assumes "evaluate_captured lib prepared im = (Some (Inr c), im')" "im_context im = Some cx"
    and "im_capture im = arm_capture t h l2s d2s norm slots n c0" "list_all id (lc_seen c)"
    and "maps_place n sources (l2s, d2s, norm)" "length sources = slots"
  shows "length (lc_values c) = slots * (t * h) \<and>
    (\<forall>i < slots. holds_source (ql_conv lib) (prompt_nodes lib cx prepared (im_text_placement im, im_capture im))
      (sources ! i) (t * h) (block (t * h) i (lc_values c))) \<and>
    (lc_bf16_boundaries c0 \<longrightarrow> (\<forall>l<n. length (filter (\<lambda>nv. emits (decoder_output, int l) (nd_name (fst nv)))
      (prompt_nodes lib cx prepared (im_text_placement im, im_capture im))) = 1))"
proof -
  let ?nodes = "prompt_nodes lib cx prepared (im_text_placement im, im_capture im)"
  let ?a = "im_capture im" and ?f = "foldl (capture_step (ql_conv lib)) (im_capture im) ?nodes"
  have c: "c = ?f\<lparr>lc_enabled := False\<rparr>" "lc_error ?f = []" "validate_layer_boundary_tracking c = Inr ()"
    using evaluate_captured_Inr [OF assms(1,2)] by auto
  note A = arm_capture_parts [OF assms(3)]
  have same: "same_request ?a ?f" by (rule capture_steps_request)
  have inv: "capture_invariant (ql_conv lib) ?a ?nodes ?f"
    by (rule capture_invariant_run [OF A(1-5) c(2)])
  have seen: "lc_seen ?f ! i" if "i < slots" for i
    using assms(4) that same A(6) by (auto simp: c(1) list_all_length same_request_def)
  have "holds_source (ql_conv lib) ?nodes (sources ! i) (t * h) (block (t * h) i (lc_values c))" if i: "i < slots" for i
  proof -
    have "if lc_seen ?f ! i then slot_captured (ql_conv lib) ?a ?nodes i (block (capture_count ?a) i (lc_values ?f))
        else filter (fills ?a i) ?nodes = []"
      using inv i A(6) unfolding capture_invariant_def by blast
    then have "slot_captured (ql_conv lib) ?a ?nodes i (block (t * h) i (lc_values ?f))"
      by (simp only: seen [OF i] A(7) if_True)
    then obtain node v where "filter (fills ?a i) ?nodes = [(node, v)]"
        "rounded_values (ql_conv lib) (capture_target ?a (nd_name node)) (t * h) v = Inr (block (t * h) i (lc_values ?f))"
      using A(7) by (auto simp: slot_captured_def)
    moreover have "fills ?a i = (\<lambda>nv. emits (sources ! i) (nd_name (fst nv)))"
      using fills_source [of n sources ?a i] assms(5,6) i A(8-10) by (auto simp: fun_eq_iff)
    ultimately show ?thesis using rounded_values_data by (fastforce simp: holds_source_def c(1))
  qed
  moreover have "length (filter (\<lambda>nv. emits (decoder_output, int l) (nd_name (fst nv))) ?nodes) = 1"
    if b: "lc_bf16_boundaries c0" and l: "l < n" for l
  proof -
    have rounded: "lc_rounded_layers ?f ! l"
      using c(3) same b l A(11,13) by (auto simp: validate_layer_boundary_tracking_def c(1) same_request_def list_ex_length
          split: if_splits)
    have "l < length (lc_layer_to_slot ?a)" using assms(5) l A(8) by (simp add: maps_place_def)
    then have "rounds_layer ?a l = (\<lambda>nv. emits (decoder_output, int l) (nd_name (fst nv)))"
      using rounds_layer_source [of ?a l] b A(11) by (simp only: fun_eq_iff) blast
    moreover have "length (filter (rounds_layer ?a l) ?nodes) = (if lc_rounded_layers ?f ! l then 1 else 0)"
      using inv b l A(13) unfolding capture_invariant_def by simp
    ultimately show ?thesis using rounded by simp
  qed
  moreover have "length (lc_values c) = slots * (t * h)" using inv A(6,7) by (simp add: c(1) capture_invariant_def)
  ultimately show ?thesis by blast
qed

subsection \<open>Requested layers\<close>

lemma prepare_count:
  assumes "prepare_multimodal_batch lib cfg m chunks st = (Some (Inr b), st')"
  shows "0 < pb_token_count b" "length (pb_token_ids b) = pb_token_count b" "pb_token_ids b = concat (map chunk_ids chunks)"
proof -
  obtain tokens where "b = lay_out (length tokens) tokens (sum_list (map ck_n_pos chunks))" "0 < length tokens"
      "map bt_id tokens = concat (map chunk_ids chunks)"
    using prepare_Inr [OF assms] by blast
  then show "0 < pb_token_count b" "length (pb_token_ids b) = pb_token_count b" "pb_token_ids b = concat (map chunk_ids chunks)"
    unfolding lay_out_def by (metis prepared_batch.select_convs(1,6) length_map)+
qed

lemma attempt_Inr: "attempt lib m im = (Some (Inr x), im') \<longleftrightarrow> m im = (Some (Inr x), im')"
  by (auto simp: attempt_def split: prod.splits option.splits sum.splits)

text \<open>C4. Hidden states that are returned for a list of tuple indices hold, layer after layer in the order of the
  request, the BF16-rounded values of the one node of the evaluation that carries the requested state, for every token
  of the prompt; and where residual boundaries are rounded, the evaluation showed the output of every decoder layer
  exactly once.\<close>

theorem layer_states_exact:
  assumes "extract_layer_hidden_states lib built images instruction indices im = (Some (Inr (states, attention)), im')"
  shows "\<exists>m cx v chunks prepared armed. bridge_parts im = Some (m, cx, v) \<and>
    fst (prompt_batch lib (im_config im) (im_architecture im) m images instruction im) = Some (Inr (chunks, prepared)) \<and>
    (let nodes = prompt_nodes lib cx prepared (im_text_placement im, armed); n = length attention * size_cast (qb_hidden_size (im_config im))
     in pb_token_count prepared = length attention \<and> 0 < length attention \<and> attention = replicate (length attention) 1 \<and>
       length states = length indices * n \<and>
       (\<forall>i<length indices. \<exists>source. qwen_vl_hidden_state_source (im_architecture im) (tm_n_layer m)
           (int (im_deepstack im)) (indices ! i) = Inr source \<and>
         holds_source (ql_conv lib) nodes source n (block n i states)) \<and>
       (lc_bf16_boundaries (im_capture im) \<longrightarrow> (\<forall>l<nat (tm_n_layer m).
         length (filter (\<lambda>nv. emits (decoder_output, int l) (nd_name (fst nv))) nodes) = 1)))"
proof -
  let ?cfg = "im_config im"
  obtain m cx v where parts: "bridge_parts im = Some (m, cx, v)"
    using assms by (cases "bridge_parts im") (auto simp: extract_layer_hidden_states_def)
  let ?h = "size_cast (qb_hidden_size ?cfg)" and ?unset = "replicate (nat (tm_n_layer m)) (- 1)"
  obtain l2s d2s norm chunks prepared im1 im2 c where layers: "0 < tm_n_layer m"
    and maps: "place_slots (im_architecture im) (tm_n_layer m) (int (im_deepstack im)) indices 0 (?unset, ?unset, - 1) =
      Inr (l2s, d2s, norm)"
    and prompt: "prompt_batch lib ?cfg (im_architecture im) m images instruction im = (Some (Inr (chunks, prepared)), im1)"
    and eval: "evaluate_captured lib prepared (on_capture (arm_capture (pb_token_count prepared) ?h l2s d2s norm
      (length indices) (nat (tm_n_layer m))) im1) = (Some (Inr c), im2)"
    and seen: "\<not> list_ex Not (lc_seen c)" and states: "states = lc_values c" "attention = replicate (pb_token_count prepared) 1"
    using assms by (auto simp: extract_layer_hidden_states_def parts Let_def attempt_Inr act_simps
        split: if_splits sum.splits prod.splits)
  obtain sources where src: "list_all2 (\<lambda>i s. qwen_vl_hidden_state_source (im_architecture im) (tm_n_layer m)
      (int (im_deepstack im)) i = Inr s) indices sources" and place: "maps_place (nat (tm_n_layer m)) sources (l2s, d2s, norm)"
    using place_slots_start [OF maps layers] by blast
  note F = prompt_batch_frame [OF prompt]
  have "im_context im = Some cx" using parts by (auto simp: bridge_parts_def split: option.splits)
  then have cx: "im_context (on_capture g im1) = Some cx" for g by (simp add: F)
  have all: "list_all id (lc_seen c)" using seen by (auto simp: list_all_iff list_ex_iff)
  have pos: "0 < pb_token_count prepared"
    using prompt by (elim prompt_batch_Inr) (rule prepare_count(1))
  let ?armed = "arm_capture (pb_token_count prepared) ?h l2s d2s norm (length indices) (nat (tm_n_layer m)) (im_capture im)"
  have armed: "im_capture (on_capture (arm_capture (pb_token_count prepared) ?h l2s d2s norm (length indices)
      (nat (tm_n_layer m))) im1) = ?armed" by (simp add: F)
  have E: "length (lc_values c) = length indices * (pb_token_count prepared * ?h) \<and>
    (\<forall>i<length indices. holds_source (ql_conv lib) (prompt_nodes lib cx prepared (im_text_placement im1, ?armed))
      (sources ! i) (pb_token_count prepared * ?h) (block (pb_token_count prepared * ?h) i (lc_values c))) \<and>
    (lc_bf16_boundaries (im_capture im) \<longrightarrow> (\<forall>l<nat (tm_n_layer m).
      length (filter (\<lambda>nv. emits (decoder_output, int l) (nd_name (fst nv)))
        (prompt_nodes lib cx prepared (im_text_placement im1, ?armed))) = 1))"
    using evaluate_fills [OF eval cx armed all place] list_all2_lengthD [OF src] by (simp add: F on_capture_def)
  have srcs: "qwen_vl_hidden_state_source (im_architecture im) (tm_n_layer m) (int (im_deepstack im)) (indices ! i) =
      Inr (sources ! i)" if "i < length indices" for i
    using src that by (simp add: list_all2_conv_all_nth)
  have len: "length attention = pb_token_count prepared" by (simp add: states)
  show ?thesis
    unfolding Let_def
    by (intro exI [of _ m] exI [of _ cx] exI [of _ v] exI [of _ chunks] exI [of _ prepared] exI [of _ ?armed])
      (use parts E srcs pos len states prompt in \<open>simp add: len F\<close>)
qed

subsection \<open>The last hidden state\<close>

definition final_source :: "qwen_architecture \<Rightarrow> int \<Rightarrow> source_kind \<times> int" where
  "final_source architecture layers = (if architecture = qwen2_5_vl then (final_norm, - 1) else (decoder_output, layers - 1))"

lemma final_request_place: "0 < layers \<Longrightarrow> maps_place (nat layers) [final_source a layers] (final_request a (nat layers))"
  by (auto simp: maps_place_def final_source_def final_request_def Let_def nth_list_update split: if_splits)

text \<open>The capture that is armed for the last hidden state.\<close>

definition final_armed :: "qwen_bridge_config \<Rightarrow> qwen_architecture \<Rightarrow> text_model \<Rightarrow> prepared_batch \<Rightarrow> layer_capture \<Rightarrow> layer_capture"
where
  "final_armed cfg a m prepared =
     (case final_request a (nat (tm_n_layer m)) of (l2s, d2s, norm) \<Rightarrow>
        arm_capture (pb_token_count prepared) (size_cast (qb_hidden_size cfg)) l2s d2s norm 1 (nat (tm_n_layer m)))"

lemma capture_final_state_Inr:
  assumes "capture_final_state lib cfg a m prepared im = (Some (Inr states), im')" "im_context im = Some cx"
  shows "length states = pb_token_count prepared * size_cast (qb_hidden_size cfg) \<and>
    holds_source (ql_conv lib) (prompt_nodes lib cx prepared (im_text_placement im, final_armed cfg a m prepared (im_capture im)))
      (final_source a (tm_n_layer m)) (pb_token_count prepared * size_cast (qb_hidden_size cfg)) states"
proof -
  let ?h = "size_cast (qb_hidden_size cfg)"
  obtain l2s d2s norm where maps: "final_request a (nat (tm_n_layer m)) = (l2s, d2s, norm)"
    by (cases "final_request a (nat (tm_n_layer m))")
  let ?arm = "arm_capture (pb_token_count prepared) ?h l2s d2s norm 1 (nat (tm_n_layer m))"
  obtain c where layers: "0 < tm_n_layer m" and eval: "evaluate_captured lib prepared (on_capture ?arm im) = (Some (Inr c), im')"
    and seen: "length (lc_seen c) = 1" "hd (lc_seen c)" and states: "states = lc_values c"
    using assms(1) by (auto simp: capture_final_state_def maps act_simps split: if_splits)
  have all: "list_all id (lc_seen c)" using seen by (cases "lc_seen c") auto
  have cx: "im_context (on_capture ?arm im) = Some cx" using assms(2) by simp
  have armed: "im_capture (on_capture ?arm im) = ?arm (im_capture im)" by simp
  have place: "maps_place (nat (tm_n_layer m)) [final_source a (tm_n_layer m)] (l2s, d2s, norm)"
    using final_request_place [OF layers] maps by metis
  have "block (pb_token_count prepared * ?h) 0 states = states" if "length states = pb_token_count prepared * ?h"
    using that by (simp add: block_def)
  with evaluate_fills [OF eval cx armed all place] states show ?thesis
    by (auto simp: final_armed_def maps on_capture_def)
qed

text \<open>C9. The embeddings returned for the action tokens are rows of the last hidden state of the prompt: the prepared batch
  is the one of these images and this instruction, its ids are those of the chunks of the prompt, the state is the
  BF16-rounded value of the one node of its evaluation that carries it, and row j of the result is the row of the j-th of
  the last occurrences of the token among those ids.\<close>

theorem token_states_exact:
  assumes "extract_token_embeddings lib built images instruction token count im = (Some (Inr rows), im')"
  shows "\<exists>m cx v chunks prepared states. bridge_parts im = Some (m, cx, v) \<and>
    fst (prompt_batch lib (im_config im) (im_architecture im) m images instruction im) = Some (Inr (chunks, prepared)) \<and>
    (let h = size_cast (qb_hidden_size (im_config im)); ids = concat (map chunk_ids chunks); ps = token_positions ids token
     in pb_token_ids prepared = ids \<and> pb_token_count prepared = length ids \<and>
       holds_source (ql_conv lib) (prompt_nodes lib cx prepared (im_text_placement im,
           final_armed (im_config im) (im_architecture im) m prepared (im_capture im)))
         (final_source (im_architecture im) (tm_n_layer m)) (length ids * h) states \<and>
       0 < count \<and> count \<le> length ps \<and> length rows = count * h \<and>
       (\<forall>j<count. block h j rows = block h (ps ! (length ps - count + j)) states))"
proof -
  let ?cfg = "im_config im" and ?h = "size_cast (qb_hidden_size (im_config im))"
  obtain m cx v where parts: "bridge_parts im = Some (m, cx, v)"
    using assms by (cases "bridge_parts im") (auto simp: extract_token_embeddings_def)
  obtain chunks prepared im1 states im2
    where prompt: "prompt_batch lib ?cfg (im_architecture im) m images instruction im = (Some (Inr (chunks, prepared)), im1)"
    and final: "capture_final_state lib ?cfg (im_architecture im) m prepared im1 = (Some (Inr states), im2)"
    and pos: "0 < count" "count \<le> length (token_positions (pb_token_ids prepared) token)"
    and rows: "rows = concat (map (\<lambda>p. block ?h p states) (drop (length (token_positions (pb_token_ids prepared) token) - count)
      (token_positions (pb_token_ids prepared) token)))"
    using assms by (auto simp: extract_token_embeddings_def parts Let_def attempt_Inr act_simps split: if_splits)
  note F = prompt_batch_frame [OF prompt]
  have cx: "im_context im1 = Some cx" using parts by (auto simp: F bridge_parts_def split: option.splits)
  from capture_final_state_Inr [OF final cx] have len: "length states = pb_token_count prepared * ?h"
    and holds: "holds_source (ql_conv lib) (prompt_nodes lib cx prepared (im_text_placement im,
        final_armed ?cfg (im_architecture im) m prepared (im_capture im)))
      (final_source (im_architecture im) (tm_n_layer m)) (pb_token_count prepared * ?h) states" by (simp_all add: F)
  let ?ps = "token_positions (pb_token_ids prepared) token"
  let ?last = "drop (length ?ps - count) ?ps"
  obtain st st' where prep: "prepare_multimodal_batch lib ?cfg m chunks st = (Some (Inr prepared), st')"
    by (rule prompt_batch_Inr [OF prompt])
  have ids: "length (pb_token_ids prepared) = pb_token_count prepared" "pb_token_ids prepared = concat (map chunk_ids chunks)"
    using prepare_count(2,3) [OF prep] .
  have row: "length (block ?h p states) = ?h" if "p \<in> set ?last" for p
  proof -
    have "p < pb_token_count prepared" using in_set_dropD [OF that] ids(1) by (auto simp: token_positions_def)
    then show ?thesis by (rule length_block [OF len])
  qed
  have last: "length ?last = count" using pos by simp
  have "length rows = count * ?h" unfolding rows using length_concat_const [of ?last "\<lambda>p. block ?h p states" ?h] row last
    by (simp add: mult.commute)
  moreover have "block ?h j rows = block ?h (?ps ! (length ?ps - count + j)) states" if "j < count" for j
  proof -
    have "block ?h j (concat (map (\<lambda>p. block ?h p states) ?last)) = block ?h (?last ! j) states"
      by (rule block_concat) (use row last that in auto)
    then show ?thesis using pos that by (simp add: rows)
  qed
  ultimately show ?thesis using parts holds pos prompt ids(1)
    by (intro exI [of _ m] exI [of _ cx] exI [of _ v] exI [of _ chunks] exI [of _ prepared] exI [of _ states])
      (simp add: Let_def flip: ids(2))
qed

subsection \<open>Generation\<close>

lemma mark_eos_Inr:
  "mark_eos n es seen = Inr seen' \<Longrightarrow> length seen = nat n \<Longrightarrow>
     length seen' = nat n \<and> (\<forall>k<nat n. seen' ! k \<longleftrightarrow> seen ! k \<or> int k \<in> set es)"
proof (induction es arbitrary: seen)
  case (Cons e es)
  then have "0 \<le> e" "e < n" and rec: "mark_eos n es (seen[nat e := True]) = Inr seen'" by (auto split: if_splits)
  with Cons.IH [OF rec] Cons.prems(2) show ?case by (auto simp: nth_list_update)
qed simp

definition in_vocab :: "nat \<Rightarrow> int list \<Rightarrow> bool" where
  "in_vocab n ts \<longleftrightarrow> (\<forall>t \<in> set ts. 0 \<le> t \<and> t < int n)"

text \<open>How a generation may end: the new tokens stop at the first end token or at the length limit.\<close>

definition generated :: "nat \<Rightarrow> int set \<Rightarrow> nat \<Rightarrow> int list \<Rightarrow> bool" where
  "generated max_length ends n new \<longleftrightarrow>
     n + length new \<le> max_length \<and> (\<forall>t \<in> set (butlast new). t \<notin> ends) \<and>
     (n + length new = max_length \<or> new \<noteq> [] \<and> last new \<in> ends)"

lemma generate_loop_Inr:
  assumes "generate_loop lib n max_length penalty eos_seen p full new im = (Some (Inr (full', new')), im')"
    "full = prompt @ new" "length full \<le> max_length" "in_vocab n full" "\<forall>t \<in> set new. t \<notin> ends"
    "\<And>k. k < n \<Longrightarrow> eos_seen ! k \<longleftrightarrow> int k \<in> ends"
  shows "full' = prompt @ new' \<and> in_vocab n full' \<and> generated max_length ends (length prompt) new'"
  using assms(1-5)
proof (induction "max_length - length full" arbitrary: full new im rule: less_induct)
  case less
  show ?case
  proof (cases "length full < max_length")
    case False
    then have "full' = full" "new' = new" using less.prems(1) by (auto simp: generate_loop.simps)
    with False less.prems show ?thesis by (auto simp: generated_def dest: in_set_butlastD)
  next
    case True
    then obtain chosen where chosen:
        "qwen_vl_select_repetition_penalized_top1 (read_logits lib im) n full penalty = Inr chosen"
      using less.prems(1)
      by (cases "qwen_vl_select_repetition_penalized_top1 (read_logits lib im) n full penalty")
        (auto simp: generate_loop.simps)
    then obtain logits where "read_logits lib im = Some logits"
      by (cases "read_logits lib im") (auto simp: qwen_vl_select_repetition_penalized_top1_def)
    with chosen have bound: "chosen < n" using select_top1_in_vocabulary(1) by fastforce
    let ?full = "full @ [int chosen]" and ?new = "new @ [int chosen]"
    have vocab: "in_vocab n ?full" using less.prems(4) bound by (auto simp: in_vocab_def)
    show ?thesis
    proof (cases "eos_seen ! chosen \<or> length ?full = max_length")
      case stop: True
      then have "full' = ?full" "new' = ?new" using less.prems(1) True chosen by (auto simp: generate_loop.simps Let_def)
      with stop assms(6) [OF bound] vocab less.prems True show ?thesis by (auto simp: generated_def)
    next
      case go: False
      let ?batch = "token_batch (int chosen) (p + to_int32 (int (length ?new - 1)))"
      obtain result im1 where "decode_and_synchronize lib ?batch im = (Some (Inr result), im1)"
        and rec: "generate_loop lib n max_length penalty eos_seen p ?full ?new im1 = (Some (Inr (full', new')), im')"
        using less.prems(1) True chosen go
        by (subst (asm) generate_loop.simps) (auto simp: Let_def split: if_splits prod.splits option.splits sum.splits)
      show ?thesis
        by (rule less.hyps [OF _ rec]) (use True go less.prems vocab assms(6) [OF bound] in auto)
    qed
  qed
qed

lemma export_ids:
  assumes "export_prepared_inputs cfg v chunks prepared = Some (Inr (ids, attention, grid))"
  shows "\<exists>pad. tokenize v ''<|image_pad|>'' True = Some [pad] \<and>
    ids = map (\<lambda>token. if token < 0 then pad else token) (pb_token_ids prepared)"
proof -
  obtain pads where t: "tokenize v ''<|image_pad|>'' True = Some pads" "length pads = 1"
      "ids = map (\<lambda>token. if token < 0 then hd pads else token) (pb_token_ids prepared)"
    using assms by (auto simp: export_prepared_inputs_def res_simps Let_def split: option.splits if_splits)
  then show ?thesis by (cases pads) auto
qed

text \<open>What a generation that succeeds has done: exported the ids of the prompt, and, where there is room, run the loop.\<close>

lemma generate_Inr:
  assumes "generate_autoregressive lib built images instruction gn im = (Some (Inr r), im')" "bridge_parts im = Some (m, cx, v)"
  shows "\<exists>eos_seen chunks prepared im1 ids attention grid.
    mark_eos (qb_vocab_size (im_config im)) (gn_eos_token_ids gn) (replicate (size_cast (qb_vocab_size (im_config im))) False) =
      Inr eos_seen \<and>
    prompt_batch lib (im_config im) (im_architecture im) m images instruction im = (Some (Inr (chunks, prepared)), im1) \<and>
    export_prepared_inputs (im_config im) v chunks prepared = Some (Inr (ids, attention, grid)) \<and>
    pb_token_count prepared \<le> gn_max_length gn \<and> length ids = pb_token_count prepared \<and>
    \<not> list_ex (\<lambda>i. i < 0 \<or> i \<ge> qb_vocab_size (im_config im)) ids \<and> gr_prompt_token_count r = pb_token_count prepared \<and>
    (gr_full_sequence r = ids \<and> gr_continuation r = [] \<and> pb_token_count prepared = gn_max_length gn \<or>
     (\<exists>im2 im3. generate_loop lib (size_cast (qb_vocab_size (im_config im))) (gn_max_length gn) (gn_repetition_penalty gn)
        eos_seen (pb_position_count prepared) ids [] im2 = (Some (Inr (gr_full_sequence r, gr_continuation r)), im3)))"
proof -
  obtain eos_seen where eos: "mark_eos (qb_vocab_size (im_config im)) (gn_eos_token_ids gn)
      (replicate (size_cast (qb_vocab_size (im_config im))) False) = Inr eos_seen"
    using assms
    by (cases "mark_eos (qb_vocab_size (im_config im)) (gn_eos_token_ids gn)
        (replicate (size_cast (qb_vocab_size (im_config im))) False)")
      (auto simp: generate_autoregressive_def Let_def split: if_splits)
  show ?thesis
    using assms
    by (auto simp: generate_autoregressive_def eos Let_def attempt_Inr act_simps split: if_splits) blast
qed

lemma exported_in_vocab:
  assumes "\<not> list_ex (\<lambda>i. i < 0 \<or> i \<ge> n) ids" "0 < length ids" "n \<le> INT_MAX"
  shows "size_cast n = nat n" "in_vocab (size_cast n) ids"
proof -
  have "0 < n" using assms(1,2) by (cases ids) auto
  then show "size_cast n = nat n" "in_vocab (size_cast n) ids"
    using assms(1,3) by (auto simp: size_cast_id in_vocab_def list_ex_iff)
qed

text \<open>C10. A generation that succeeds continues the prompt of these images and this instruction: it returns the ids of the
  prepared prompt, with the id of the image padding in the place of every image token, followed by the new tokens, all in
  the vocabulary and at most max_length of them; no new token but the last is an end token, and the generation ended
  because the last one is, or because the length is max_length.\<close>

theorem generation_exact:
  assumes "generate_autoregressive lib built images instruction gn im = (Some (Inr r), im')"
    and "qb_vocab_size (im_config im) \<le> INT_MAX"
  shows "\<exists>m cx v chunks prepared pad prompt. bridge_parts im = Some (m, cx, v) \<and>
    fst (prompt_batch lib (im_config im) (im_architecture im) m images instruction im) = Some (Inr (chunks, prepared)) \<and>
    tokenize v ''<|image_pad|>'' True = Some [pad] \<and>
    prompt = map (\<lambda>token. if token < 0 then pad else token) (concat (map chunk_ids chunks)) \<and>
    gr_prompt_token_count r = length prompt \<and> 0 < length prompt \<and>
    gr_full_sequence r = prompt @ gr_continuation r \<and> in_vocab (size_cast (qb_vocab_size (im_config im))) (gr_full_sequence r) \<and>
    generated (gn_max_length gn) (set (gn_eos_token_ids gn)) (length prompt) (gr_continuation r)"
proof -
  let ?cfg = "im_config im" and ?n = "size_cast (qb_vocab_size (im_config im))" and ?ends = "set (gn_eos_token_ids gn)"
  obtain m cx v where parts: "bridge_parts im = Some (m, cx, v)"
    using assms(1) by (cases "bridge_parts im") (auto simp: generate_autoregressive_def)
  obtain eos_seen chunks prepared im1 ids attention grid
    where eos: "mark_eos (qb_vocab_size ?cfg) (gn_eos_token_ids gn) (replicate ?n False) = Inr eos_seen"
    and prompt: "prompt_batch lib ?cfg (im_architecture im) m images instruction im = (Some (Inr (chunks, prepared)), im1)"
    and export: "export_prepared_inputs ?cfg v chunks prepared = Some (Inr (ids, attention, grid))"
    and len: "pb_token_count prepared \<le> gn_max_length gn" "length ids = pb_token_count prepared"
      "gr_prompt_token_count r = pb_token_count prepared"
    and range: "\<not> list_ex (\<lambda>i. i < 0 \<or> i \<ge> qb_vocab_size ?cfg) ids"
    and result: "gr_full_sequence r = ids \<and> gr_continuation r = [] \<and> pb_token_count prepared = gn_max_length gn \<or>
      (\<exists>im2 im3. generate_loop lib ?n (gn_max_length gn) (gn_repetition_penalty gn) eos_seen (pb_position_count prepared) ids []
        im2 = (Some (Inr (gr_full_sequence r, gr_continuation r)), im3))"
    using generate_Inr [OF assms(1) parts] by blast
  obtain st st' where prep: "prepare_multimodal_batch lib ?cfg m chunks st = (Some (Inr prepared), st')"
    by (rule prompt_batch_Inr [OF prompt])
  have ids: "0 < length ids" using prepare_count(1) [OF prep] len by simp
  obtain pad where pad: "tokenize v ''<|image_pad|>'' True = Some [pad]"
      "ids = map (\<lambda>token. if token < 0 then pad else token) (concat (map chunk_ids chunks))"
    using export_ids [OF export] prepare_count(3) [OF prep] by auto
  note n = exported_in_vocab [OF range ids assms(2)]
  have ends: "eos_seen ! k \<longleftrightarrow> int k \<in> ?ends" if "k < ?n" for k
    using mark_eos_Inr [OF eos] that n(1) by simp
  have "gr_full_sequence r = ids @ gr_continuation r \<and> in_vocab ?n (gr_full_sequence r) \<and>
      generated (gn_max_length gn) ?ends (length ids) (gr_continuation r)"
    using result
  proof
    assume "\<exists>im2 im3. generate_loop lib ?n (gn_max_length gn) (gn_repetition_penalty gn) eos_seen (pb_position_count prepared)
      ids [] im2 = (Some (Inr (gr_full_sequence r, gr_continuation r)), im3)"
    then show ?thesis using generate_loop_Inr [OF _ _ _ n(2) _ ends] len by fastforce
  qed (use n(2) len in \<open>simp add: generated_def\<close>)
  moreover have "fst (prompt_batch lib ?cfg (im_architecture im) m images instruction im) = Some (Inr (chunks, prepared))"
    "gr_prompt_token_count r = length ids"
    by (simp_all add: prompt len)
  ultimately show ?thesis using parts pad ids by blast
qed

end
