(* ===== verification/QwenLifecycle.thy ===== *)
theory QwenLifecycle
  imports QwenStates
begin

text \<open>
  A bridge over its life: loading, then any sequence of operations.  Between operations the capture is disarmed and the
  text context computes no embeddings, so a later decode neither calls into stale buffers nor returns other outputs.
\<close>

definition bridge_idle :: "('s, 'v) qwen_impl \<Rightarrow> bool" where
  "bridge_idle im \<longleftrightarrow> \<not> lc_enabled (im_capture im) \<and> (\<forall>cx. im_context im = Some cx \<longrightarrow> \<not> cx_embeddings cx)"

lemma restore_idle: "bridge_idle (restore lib im)" "same_bridge im (restore lib im)"
  by (auto simp: restore_def bridge_idle_def context_calls disable_capture_def same_bridge_def option.map_comp comp_def)

lemma finish_idle: "bridge_idle (finish_extraction built im)" "same_bridge im (finish_extraction built im)"
  by (auto simp: finish_extraction_def bridge_idle_def context_calls disable_capture_def same_bridge_def option.map_comp comp_def)

lemma decode_frame:
  assumes "decode_and_synchronize lib batch im = (r, im')"
  shows "same_bridge im im'"
    "map_option cx_embeddings (im_context im') = map_option cx_embeddings (im_context im)"
    "lc_enabled (im_capture im') = lc_enabled (im_capture im)"
proof -
  have "same_bridge im im' \<and> map_option cx_embeddings (im_context im') = map_option cx_embeddings (im_context im) \<and>
    lc_enabled (im_capture im') = lc_enabled (im_capture im)"
  proof (cases "im_context im")
    case None
    then show ?thesis using assms by (auto simp: decode_and_synchronize_def)
  next
    case (Some cx)
    obtain result s' p' c' where d:
        "run_decode (ql_conv lib) (ql_decode lib batch (cx_embeddings cx) (cx_state cx)) (im_text_placement im, im_capture im) =
          (result, s', p', c')"
      and im': "im' = im\<lparr>im_context := Some (cx\<lparr>cx_state := ql_synchronize lib s'\<rparr>), im_text_placement := p', im_capture := c'\<rparr>"
      by (rule decode_Some [OF assms Some])
    have "same_request (im_capture im) c'"
      using run_decode_captures [OF d] capture_steps_request by simp
    then show ?thesis using Some by (simp add: im' same_bridge_def same_request_def)
  qed
  then show "same_bridge im im'" "map_option cx_embeddings (im_context im') = map_option cx_embeddings (im_context im)"
    "lc_enabled (im_capture im') = lc_enabled (im_capture im)" by simp_all
qed

lemma decode_idle: "decode_and_synchronize lib batch im = (r, im') \<Longrightarrow> bridge_idle im \<Longrightarrow> bridge_idle im'"
  using decode_frame(2,3) [of lib batch im r im'] by (cases "im_context im") (auto simp: bridge_idle_def)

lemma prompt_batch_idle: "prompt_batch lib cfg a m images instruction im = (r, im') \<Longrightarrow> bridge_idle im \<Longrightarrow> bridge_idle im'"
  using prompt_batch_frame(1,2) [of lib cfg a m images instruction im r im'] by (simp add: bridge_idle_def)

lemma generate_loop_idle:
  "generate_loop lib n mx penalty eos p full new im = (r, im') \<Longrightarrow>
     same_bridge im im' \<and> (bridge_idle im \<longrightarrow> bridge_idle im')"
proof (induction lib n mx penalty eos p full new im arbitrary: r im' rule: generate_loop.induct)
  case (1 lib n mx penalty eos p full new im)
  show ?case
  proof (cases "\<exists>chosen. length full < mx \<and>
      qwen_vl_select_repetition_penalized_top1 (read_logits lib im) n full penalty = Inr chosen \<and>
      \<not> (eos ! chosen \<or> Suc (length full) = mx) \<and> \<not> length new > size_cast (INT_MAX - p)")
    case False
    then have "im' = im" using "1.prems"
      by (subst (asm) generate_loop.simps) (auto simp: Let_def split: if_splits sum.splits)
    then show ?thesis by simp
  next
    case True
    then obtain chosen where c: "length full < mx"
        "qwen_vl_select_repetition_penalized_top1 (read_logits lib im) n full penalty = Inr chosen"
        "\<not> (eos ! chosen \<or> length (full @ [int chosen]) = mx)"
        "\<not> length (new @ [int chosen]) - 1 > size_cast (INT_MAX - p)" by auto
    let ?batch = "token_batch (int chosen) (p + to_int32 (int (length (new @ [int chosen]) - 1)))"
    obtain d im1 where d: "decode_and_synchronize lib ?batch im = (d, im1)" by (cases "decode_and_synchronize lib ?batch im")
    note D = decode_frame(1) [OF d] decode_idle [OF d]
    have "im' = im1 \<or> (\<exists>result. d = Some (Inr result) \<and> result = 0 \<and>
        generate_loop lib n mx penalty eos p (full @ [int chosen]) (new @ [int chosen]) im1 = (r, im'))"
      using "1.prems" c d by (subst (asm) generate_loop.simps) (auto simp: Let_def split: if_splits option.splits sum.splits)
    then show ?thesis
    proof
      assume "im' = im1"
      with D show ?thesis by simp
    next
      assume "\<exists>result. d = Some (Inr result) \<and> result = 0 \<and>
        generate_loop lib n mx penalty eos p (full @ [int chosen]) (new @ [int chosen]) im1 = (r, im')"
      then have dd: "d = Some (Inr 0)"
        and rec: "generate_loop lib n mx penalty eos p (full @ [int chosen]) (new @ [int chosen]) im1 = (r, im')" by auto
      have "same_bridge im1 im' \<and> (bridge_idle im1 \<longrightarrow> bridge_idle im')"
        by (rule "1.IH" [OF _ c(2) refl refl c(3) refl c(4) d [symmetric] dd refl _ rec]) (use c(1) in auto)
      with D same_bridge_trans show ?thesis by blast
    qed
  qed
qed

subsection \<open>Every operation\<close>

text \<open>What never changes.\<close>

lemma keeps_same_modify: "(\<And>s. same_bridge s (f s)) \<Longrightarrow> keeps (same_bridge im0) (act_modify f)"
  by (auto intro: same_bridge_trans)

lemma context_calls_same [simp]:
  "same_bridge im (set_embeddings b im)" "same_bridge im (memory_clear lib im)" "same_bridge im (synchronize lib im)"
  by (simp_all add: context_calls same_bridge_def option.map_comp comp_def)

lemma capture_calls_same [simp]:
  "same_bridge im (on_capture (arm_capture t h l2s d2s norm slots n) im)" "same_bridge im (on_capture disable_capture im)"
  "same_bridge im (on_capture (\<lambda>c. c\<lparr>lc_enabled := False\<rparr>) im)" "same_bridge im (refresh_backend_name built im)"
  by (simp_all add: same_bridge_def disable_capture_def arm_capture_def begin_layer_boundary_tracking_def Let_def)

lemma keeps_same_prompt: "keeps (same_bridge im0) (prompt_batch lib cfg a m images instruction)"
  unfolding keeps_def using prompt_batch_frame(4) same_bridge_trans by (metis prod.collapse)

lemma keeps_same_decode: "keeps (same_bridge im0) (decode_and_synchronize lib batch)"
  unfolding keeps_def using decode_frame(1) same_bridge_trans by (metis prod.collapse)

lemma keeps_same_loop: "keeps (same_bridge im0) (generate_loop lib n mx penalty eos p full new)"
  unfolding keeps_def using generate_loop_idle same_bridge_trans by (metis prod.collapse)

lemma keeps_same_evaluate: "keeps (same_bridge im0) (evaluate_captured lib prepared)"
  unfolding evaluate_captured_def
proof (intro keeps_bind keeps_same_decode)
  show "keeps (same_bridge im0) (act_modify (set_embeddings True \<circ> memory_clear lib))"
    by (rule keeps_same_modify) (metis context_calls_same(1,2) comp_apply same_bridge_trans)
  show "keeps (same_bridge im0) (act_modify (on_capture (\<lambda>c. c\<lparr>lc_enabled := False\<rparr>)))"
    by (rule keeps_same_modify) simp
  fix x z :: unit and y :: int
  show "keeps (same_bridge im0) (if y \<noteq> 0 then act_fail ''failed to evaluate the Qwen3-VL multimodal batch''
      else (\<lambda>im. if lc_error (im_capture im) \<noteq> [] then act_fail (lc_error (im_capture im)) im
       else bind_act (act_run (Some (validate_layer_boundary_tracking (im_capture im))))
         (\<lambda>_. act_return (im_capture im)) im))"
    by (auto simp: keeps_def bind_act_def split: sum.splits)
qed

lemma keeps_same_final: "keeps (same_bridge im0) (capture_final_state lib cfg a m prepared)"
  unfolding capture_final_state_def
  by (auto intro!: keeps_bind keeps_same_evaluate keeps_same_modify simp: split_beta)

lemma finish_same: "keeps (same_bridge im0) (act_modify (finish_extraction built))"
  by (rule keeps_same_modify) (rule finish_idle)

lemma attempt_same:
  assumes "keeps (same_bridge im) m"
  shows "same_bridge im (snd (attempt lib m im))"
proof -
  obtain r s where m: "m im = (r, s)" by (cases "m im")
  then have "same_bridge im s" using keepsD [OF assms m] by simp
  then show ?thesis using same_bridge_trans restore_idle(2)
    by (auto simp: attempt_def m split: option.splits sum.splits) blast
qed

lemmas same_rules = keeps_bind keeps_same_prompt keeps_same_decode keeps_same_loop keeps_same_evaluate keeps_same_final
  finish_same keeps_same_modify

lemma extract_token_same: "same_bridge im (snd (extract_token_embeddings lib built images instruction t n im))"
  by (auto simp: extract_token_embeddings_def Let_def split_beta split: option.splits intro!: attempt_same same_rules)

lemma extract_full_same: "same_bridge im (snd (extract_full_hidden_states lib built images instruction im))"
  by (auto simp: extract_full_hidden_states_def Let_def split_beta split: option.splits intro!: attempt_same same_rules)

lemma extract_layer_same: "same_bridge im (snd (extract_layer_hidden_states lib built images instruction indices im))"
  by (auto simp: extract_layer_hidden_states_def Let_def split_beta split: option.splits sum.splits
      intro!: attempt_same same_rules)

lemma generate_calls_same:
  "same_bridge im ((memory_clear lib \<circ> set_embeddings False \<circ> on_capture disable_capture) im)"
  "same_bridge im ((refresh_backend_name built \<circ> memory_clear lib) im)"
  by (metis comp_apply context_calls_same(1,2) capture_calls_same(2,4) same_bridge_trans)+

lemma generate_same: "same_bridge im (snd (generate_autoregressive lib built images instruction gn im))"
  by (auto simp: generate_autoregressive_def Let_def split_beta split: option.splits sum.splits simp del: comp_apply
      intro!: attempt_same same_rules generate_calls_same)

text \<open>An operation that fails restores the bridge; one that succeeds has disarmed it itself.\<close>

lemma attempt_idle:
  assumes "attempt lib m im = (Some r, im')" "\<And>x s. m im = (Some (Inr x), s) \<Longrightarrow> bridge_idle s"
  shows "bridge_idle im'"
proof (cases r)
  case (Inl e)
  then show ?thesis using assms(1) restore_idle(1) by (auto simp: attempt_def split: prod.splits option.splits sum.splits)
next
  case (Inr x)
  then show ?thesis using assms by (simp add: attempt_Inr)
qed

lemma extract_token_idle:
  "bridge_idle im \<Longrightarrow> extract_token_embeddings lib built images instruction t n im = (Some r, im') \<Longrightarrow> bridge_idle im'"
  unfolding extract_token_embeddings_def
  by (auto simp: Let_def act_simps finish_idle split: option.splits if_splits elim!: attempt_idle)

lemma extract_full_idle:
  "bridge_idle im \<Longrightarrow> extract_full_hidden_states lib built images instruction im = (Some r, im') \<Longrightarrow> bridge_idle im'"
  unfolding extract_full_hidden_states_def
  by (auto simp: Let_def act_simps finish_idle split: option.splits if_splits elim!: attempt_idle)

lemma extract_layer_idle:
  "bridge_idle im \<Longrightarrow> extract_layer_hidden_states lib built images instruction indices im = (Some r, im') \<Longrightarrow> bridge_idle im'"
  unfolding extract_layer_hidden_states_def
  by (auto simp: Let_def act_simps finish_idle split: option.splits if_splits sum.splits elim!: attempt_idle)

lemma idle_calls:
  "bridge_idle (memory_clear lib im) = bridge_idle im" "bridge_idle (refresh_backend_name built im) = bridge_idle im"
  "bridge_idle (memory_clear lib (set_embeddings False (on_capture disable_capture im)))"
  by (auto simp: bridge_idle_def context_calls disable_capture_def)

lemma generate_idle:
  assumes "bridge_idle im" "generate_autoregressive lib built images instruction gn im = (Some r, im')"
  shows "bridge_idle im'"
  using assms unfolding generate_autoregressive_def
  by (auto simp: Let_def act_simps idle_calls split: option.splits if_splits sum.splits elim!: attempt_idle)
    (metis prompt_batch_idle, metis decode_idle generate_loop_idle idle_calls(3))

subsection \<open>A loaded bridge\<close>

definition bridge_loaded :: "qwen_bridge_config \<Rightarrow> ('s, 'v) qwen_impl \<Rightarrow> bool" where
  "bridge_loaded cfg im \<longleftrightarrow> im_config im = cfg \<and> bridge_config_complete cfg \<and>
     (\<exists>m cx v. bridge_parts im = Some (m, cx, v) \<and>
       tm_n_embd_out m = qb_hidden_size cfg \<and> tm_n_embd_inp m = qb_input_embedding_size cfg \<and>
       vo_n_tokens v = qb_vocab_size cfg \<and> cx_n_batch cx = nat (qb_n_batch cfg) \<and>
       qb_input_embedding_size cfg = (int (im_deepstack im) + 1) * qb_hidden_size cfg \<and>
       (im_architecture im = qwen2_5_vl \<and> im_deepstack im = 0 \<or>
        im_architecture im = qwen3_vl \<and> 0 < im_deepstack im \<and> int (im_deepstack im) \<le> tm_n_layer m)) \<and>
     lc_bf16_boundaries (im_capture im) = qb_bf16_residual_layer_boundaries cfg"

lemma resolve_known: "qwen_vl_resolve_architecture t p = Inr a \<Longrightarrow> a \<noteq> qwen_unknown"
  by (auto simp: qwen_vl_resolve_architecture_def split: if_splits)

lemma load_text_model_Inr:
  assumes "load_text_model ld cfg projector im = (Some (Inr (m, v)), im')" "bridge_config_complete cfg"
  shows "\<exists>a d p. im' = im\<lparr>im_backend_initialized := True, im_model := Some m, im_architecture := a, im_deepstack := d,
      im_text_placement := p, im_vocab := Some v\<rparr> \<and> tm_n_embd_out m = qb_hidden_size cfg \<and>
    tm_n_embd_inp m = qb_input_embedding_size cfg \<and> vo_n_tokens v = qb_vocab_size cfg \<and>
    qb_input_embedding_size cfg = (int d + 1) * qb_hidden_size cfg \<and>
    (a = qwen2_5_vl \<and> d = 0 \<or> a = qwen3_vl \<and> 0 < d \<and> int d \<le> tm_n_layer m)"
proof -
  let ?q = "qb_input_embedding_size cfg div qb_hidden_size cfg - 1"
  obtain a p where im': "im' = im\<lparr>im_backend_initialized := True, im_model := Some m, im_architecture := a,
      im_deepstack := nat ?q, im_text_placement := p, im_vocab := Some v\<rparr>"
    and a: "a \<noteq> qwen_unknown" "\<not> (a = qwen2_5_vl \<and> ?q \<noteq> 0)" "\<not> (a = qwen3_vl \<and> (?q \<le> 0 \<or> ?q > tm_n_layer m))"
    and m: "tm_n_embd_out m = qb_hidden_size cfg" "tm_n_embd_inp m = qb_input_embedding_size cfg"
      "vo_n_tokens v = qb_vocab_size cfg" "qb_input_embedding_size cfg mod qb_hidden_size cfg = 0"
    using assms(1) by (auto simp: load_text_model_def act_simps Let_def res_simps split: option.splits if_splits
        dest!: resolve_known)
  have "0 \<le> ?q" using a by (cases a) auto
  moreover have "qb_input_embedding_size cfg = (?q + 1) * qb_hidden_size cfg"
    using m(4) by (metis add.right_neutral diff_add_cancel div_mult_mod_eq)
  ultimately show ?thesis using im' a m
    by (intro exI [of _ a] exI [of _ "nat ?q"] exI [of _ p]) (cases a; simp)
qed

lemma load_gives_loaded:
  assumes "qwen_bridge_load ld built cfg = (Some (Inr im), freed)"
    and "\<And>m p cx. ld_context ld m p = Some cx \<Longrightarrow> cx_embeddings cx = cp_embeddings p"
  shows "bridge_loaded cfg im \<and> bridge_idle im"
proof -
  obtain projector m v im1 im2 im3 where complete: "bridge_config_complete cfg"
    and text_model: "load_text_model ld cfg projector (new_impl cfg) = (Some (Inr (m, v)), im1)"
    and context_: "init_text_context ld cfg m im1 = (Some (Inr ()), im2)"
    and vision: "init_vision ld cfg m im2 = (Some (Inr ()), im3)" and im: "im = refresh_backend_name built im3"
    using assms(1)
    by (auto simp: qwen_bridge_load_def load_steps_def act_simps split: if_splits prod.splits option.splits sum.splits)
  obtain a d p where im1: "im1 = (new_impl cfg)\<lparr>im_backend_initialized := True, im_model := Some m, im_architecture := a,
      im_deepstack := d, im_text_placement := p, im_vocab := Some v\<rparr>"
    and facts: "tm_n_embd_out m = qb_hidden_size cfg" "tm_n_embd_inp m = qb_input_embedding_size cfg"
      "vo_n_tokens v = qb_vocab_size cfg" "qb_input_embedding_size cfg = (int d + 1) * qb_hidden_size cfg"
      "a = qwen2_5_vl \<and> d = 0 \<or> a = qwen3_vl \<and> 0 < d \<and> int d \<le> tm_n_layer m"
    using load_text_model_Inr [OF text_model complete] by blast
  obtain cx where cx: "cx_embeddings cx = False" "cx_n_batch cx = nat (qb_n_batch cfg)"
    and im2: "im_context im2 = Some cx" "im_config im2 = cfg" "im_model im2 = Some m" "im_vocab im2 = Some v"
      "im_deepstack im2 = d" "im_architecture im2 = a" "\<not> lc_enabled (im_capture im2)"
      "lc_bf16_boundaries (im_capture im2) = qb_bf16_residual_layer_boundaries cfg"
    using context_ assms(2)
    by (fastforce simp: init_text_context_def act_simps im1 new_impl_def new_capture_def text_context_params_def
        split: option.splits if_splits)
  obtain vs where im3: "im_vision im3 = Some vs" "im_context im3 = Some cx" "im_config im3 = cfg" "im_model im3 = Some m"
      "im_vocab im3 = Some v" "im_deepstack im3 = d" "im_architecture im3 = a" "im_capture im3 = im_capture im2"
    using vision im2 by (auto simp: init_vision_def act_simps Let_def split: option.splits if_splits)
  have "bridge_parts im = Some (m, cx, v)" by (simp add: bridge_parts_def im im3)
  then show ?thesis using facts cx complete im2 im3 by (simp add: bridge_loaded_def bridge_idle_def im)
qed

lemma same_bridge_loaded: "same_bridge im im' \<Longrightarrow> bridge_loaded cfg im \<Longrightarrow> bridge_loaded cfg im'"
  by (cases "im_context im"; cases "im_context im'"; cases "im_vision im"; cases "im_vision im'")
    (auto simp: same_bridge_def bridge_loaded_def bridge_parts_def split: option.splits)

subsection \<open>Reachable bridges\<close>

inductive bridge_step ::
  "('s, 'v, 'b) qwen_lib \<Rightarrow> compiled_backend \<Rightarrow> ('s, 'v) qwen_impl \<Rightarrow> ('s, 'v) qwen_impl \<Rightarrow> bool" for lib built
where
  token_step: "extract_token_embeddings lib built images instruction t n im = (Some r, im') \<Longrightarrow> bridge_step lib built im im'"
| full_step: "extract_full_hidden_states lib built images instruction im = (Some r', im') \<Longrightarrow> bridge_step lib built im im'"
| layer_step: "extract_layer_hidden_states lib built images instruction indices im = (Some r', im') \<Longrightarrow>
    bridge_step lib built im im'"
| generate_step: "generate_autoregressive lib built images instruction gn im = (Some g, im') \<Longrightarrow> bridge_step lib built im im'"
| reset_step: "bridge_step lib built im (qwen_bridge_reset lib im)"
| name_step: "bridge_step lib built im (snd (qwen_bridge_backend_name built im))"

inductive bridge_reachable ::
  "('s, 'v) qwen_loader \<Rightarrow> ('s, 'v, 'b) qwen_lib \<Rightarrow> compiled_backend \<Rightarrow> qwen_bridge_config \<Rightarrow> ('s, 'v) qwen_impl \<Rightarrow> bool"
  for ld lib built cfg
where
  loaded: "qwen_bridge_load ld built cfg = (Some (Inr im), freed) \<Longrightarrow> bridge_reachable ld lib built cfg im"
| step: "bridge_reachable ld lib built cfg im \<Longrightarrow> bridge_step lib built im im' \<Longrightarrow> bridge_reachable ld lib built cfg im'"

lemma bridge_step_same: "bridge_step lib built im im' \<Longrightarrow> same_bridge im im'"
proof (induction rule: bridge_step.induct)
  case (reset_step im)
  then show ?case by (simp add: qwen_bridge_reset_def restore_idle)
next
  case (name_step im)
  then show ?case by (simp add: qwen_bridge_backend_name_def)
qed (metis extract_token_same extract_full_same extract_layer_same generate_same snd_conv)+

lemma bridge_step_idle: "bridge_step lib built im im' \<Longrightarrow> bridge_idle im \<Longrightarrow> bridge_idle im'"
proof (induction rule: bridge_step.induct)
  case (reset_step im)
  then show ?case by (simp add: qwen_bridge_reset_def restore_idle)
next
  case (name_step im)
  then show ?case by (simp add: qwen_bridge_backend_name_def idle_calls)
qed (auto intro: extract_token_idle extract_full_idle extract_layer_idle generate_idle)

text \<open>C8. Whatever operations a loaded bridge has run, with whatever errors, it is idle between them: no capture is
  armed and the text context computes no embeddings; and it still has the models, sizes and architecture that loading
  checked against the policy.\<close>

theorem bridge_always_idle:
  assumes "bridge_reachable ld lib built cfg im"
    and "\<And>m p cx. ld_context ld m p = Some cx \<Longrightarrow> cx_embeddings cx = cp_embeddings p"
  shows "bridge_idle im \<and> bridge_loaded cfg im"
  using assms(1)
proof (induction rule: bridge_reachable.induct)
  case (loaded im freed)
  have "bridge_loaded cfg im \<and> bridge_idle im" by (rule load_gives_loaded [OF loaded]) (rule assms(2))
  then show ?case by simp
next
  case (step im im')
  then show ?case using bridge_step_same bridge_step_idle same_bridge_loaded by blast
qed

end
