(* ===== verification/StarVLAEngine.thy ===== *)
theory StarVLAEngine
  imports QwenLifecycle PolicyEval FastPolicy
begin

text \<open>
  \<^verbatim>\<open>src/models/starvla/starvla_engine.cpp\<close>: the engine that joins a policy, the Qwen-VL bridge, the image
  preprocessing and the prompts; \<open>load\<close>, \<open>predict\<close> and \<open>reset\<close>.  The files, the clock, the random numbers and the
  libraries are the record \<open>starvla_world\<close>.  Of an engine's five policy pointers exactly one is set: a datatype.
\<close>

subsection \<open>Variants\<close>

datatype starvla_variant =
    qwen3_oft | qwen3_groot | qwen3_pi_v3 | qwen25_oft | qwen25_groot | qwen25_pi | qwen25_fast

fun starvla_variant_name :: "starvla_variant \<Rightarrow> string" where
  "starvla_variant_name qwen3_oft = ''qwen3_oft''"
| "starvla_variant_name qwen3_groot = ''qwen3_groot''"
| "starvla_variant_name qwen3_pi_v3 = ''qwen3_pi_v3''"
| "starvla_variant_name qwen25_oft = ''qwen25_oft''"
| "starvla_variant_name qwen25_groot = ''qwen25_groot''"
| "starvla_variant_name qwen25_pi = ''qwen25_pi''"
| "starvla_variant_name qwen25_fast = ''qwen25_fast''"

fun starvla_variant_framework :: "starvla_variant \<Rightarrow> string" where
  "starvla_variant_framework qwen3_oft = ''oft''"
| "starvla_variant_framework qwen25_oft = ''oft''"
| "starvla_variant_framework qwen3_groot = ''groot''"
| "starvla_variant_framework qwen25_groot = ''groot''"
| "starvla_variant_framework qwen3_pi_v3 = ''pi_v3''"
| "starvla_variant_framework qwen25_pi = ''pi''"
| "starvla_variant_framework qwen25_fast = ''fast''"

definition starvla_variant_from_metadata :: "string \<Rightarrow> string \<Rightarrow> starvla_variant option" where
  "starvla_variant_from_metadata framework backbone =
     (if backbone = ''qwen3_vl'' then
        (if framework = ''oft'' then Some qwen3_oft
         else if framework = ''groot'' then Some qwen3_groot
         else if framework = ''pi_v3'' then Some qwen3_pi_v3
         else None)
      else if backbone = ''qwen2_5_vl'' then
        (if framework = ''oft'' then Some qwen25_oft
         else if framework = ''groot'' then Some qwen25_groot
         else if framework = ''pi'' then Some qwen25_pi
         else if framework = ''fast'' then Some qwen25_fast
         else None)
      else None)"

definition is_oft :: "starvla_variant \<Rightarrow> bool" where "is_oft v \<longleftrightarrow> v = qwen3_oft \<or> v = qwen25_oft"
definition is_groot :: "starvla_variant \<Rightarrow> bool" where "is_groot v \<longleftrightarrow> v = qwen3_groot \<or> v = qwen25_groot"

subsection \<open>Paths\<close>

text \<open>\<open>std::filesystem::path\<close> on POSIX: components between slashes.\<close>

definition path_filename :: "string \<Rightarrow> string" where
  "path_filename p = rev (takeWhile (\<lambda>c. c \<noteq> CHR ''/'') (rev p))"

definition path_has_root :: "string \<Rightarrow> bool" where "path_has_root p \<longleftrightarrow> p \<noteq> [] \<and> hd p = CHR ''/''"
definition path_has_parent :: "string \<Rightarrow> bool" where "path_has_parent p \<longleftrightarrow> CHR ''/'' \<in> set p"

definition is_plain_basename :: "string \<Rightarrow> bool" where
  "is_plain_basename v \<longleftrightarrow>
     \<not> (v = [] \<or> CHR 0x00 \<in> set v) \<and>
     \<not> path_has_root v \<and> \<not> path_has_parent v \<and> path_filename v = v \<and> v \<noteq> ''.'' \<and> v \<noteq> ''..''"

text \<open>What the file system answers: whether a path is a regular file, with the text of the error if the query failed,
  and whether two paths are one file (false when the query fails).\<close>

record file_queries =
  fq_regular :: "string \<Rightarrow> bool \<times> string option"
  fq_equivalent :: "string \<Rightarrow> string \<Rightarrow> bool"

definition require_regular_file :: "file_queries \<Rightarrow> string \<Rightarrow> string \<Rightarrow> unit res" where
  "require_regular_file fq path label =
     (case fq_regular fq path of (regular, status_error) \<Rightarrow>
        if \<not> regular then
          Inl (''StarVLA '' @ label @ '' is not a regular file: '' @ path @
            (case status_error of None \<Rightarrow> [] | Some msg \<Rightarrow> '' ('' @ msg @ '')''))
        else Inr ())"

definition resolve_component_path :: "file_queries \<Rightarrow> string \<Rightarrow> string \<Rightarrow> string \<Rightarrow> string res" where
  "resolve_component_path fq metadata_filename component_path label =
     (if \<not> is_plain_basename metadata_filename then
        Inl (''StarVLA policy '' @ label @ '' filename must be a plain basename: '' @ metadata_filename)
      else if component_path = [] \<or> CHR 0x00 \<in> set component_path then
        Inl (''StarVLA '' @ label @ '' path is required and must not contain an embedded NUL'')
      else if path_filename component_path \<noteq> metadata_filename then
        Inl (''StarVLA '' @ label @ '' basename must match policy metadata '' @ [CHR 0x27] @ metadata_filename @
          [CHR 0x27] @ '': '' @ component_path)
      else bind_res (require_regular_file fq component_path label) (\<lambda>_. Inr component_path))"

definition read_policy_variant :: "(string \<Rightarrow> policy_file option) \<Rightarrow> string \<Rightarrow> starvla_variant res" where
  "read_policy_variant open_file path =
     (case open_file path of
        None \<Rightarrow> Inl ''failed to read StarVLA policy GGUF metadata''
      | Some f \<Rightarrow>
          let g = pf_gguf f;
            read_string = (\<lambda>key. let index = to_int32 (gguf_find_key g key)
              in if index < 0 \<or> gguf_get_kv_type g index \<noteq> GGUF_TYPE_STRING then
                Inl (''missing StarVLA policy metadata: '' @ key) else Inr (gguf_get_val_str g index))
          in bind_res (read_string ''starvla.framework'') (\<lambda>framework.
             bind_res (read_string ''starvla.backbone.arch'') (\<lambda>backbone.
               need_some (''unsupported StarVLA variant: '' @ backbone @ ''/'' @ framework)
                 (starvla_variant_from_metadata framework backbone))))"

subsection \<open>Observations and images\<close>

definition check_image :: "string \<Rightarrow> string list \<Rightarrow> nat \<times> model_image \<Rightarrow> unit run" where
  "check_image label image_names entry =
     (case entry of (i, img) \<Rightarrow>
        let named = label @ '' image '' @ [CHR 0x27] @ mi_name img @ [CHR 0x27]
        in if i \<ge> length image_names then None
        else Some (
          if mi_name img \<noteq> image_names ! i then
            Inl (label @ '' image '' @ nat_to_string i @ '' must be named '' @ [CHR 0x27] @ image_names ! i @ [CHR 0x27])
          else if mi_data img = None \<or> mi_width img \<le> 0 \<or> mi_height img \<le> 0 then
            Inl (named @ '' has invalid data or dimensions'')
          else if mi_channels img \<noteq> 3 then Inl (named @ '' must use interleaved RGB channels'')
          else if mi_width img > INT_MAX div mi_channels img then Inl (named @ '' row size overflows'')
          else if mi_stride img < 0 \<or> (mi_stride img \<noteq> 0 \<and> mi_stride img < mi_width img * mi_channels img) then
            Inl (named @ '' stride is smaller than a packed RGB row'')
          else Inr ()))"

definition validate_observation ::
  "observation \<Rightarrow> int \<Rightarrow> string list \<Rightarrow> bool \<Rightarrow> string \<Rightarrow> unit run"
where
  "validate_observation obs image_count image_names state_supported framework =
     (let label = ''StarVLA '' @ framework
      in if length (ob_images obs) \<noteq> size_cast image_count then
        Some (Inl (label @ '' requires exactly '' @ int_to_string image_count @ '' image(s) in policy order''))
      else if ob_task obs = [] then Some (Inl (label @ '' task must not be empty''))
      else if CHR 0x00 \<in> set (ob_task obs) then Some (Inl (label @ '' task contains an embedded NUL''))
      else if \<not> state_supported \<and> ob_state obs \<noteq> [] then
        Some (Inl (label @ '' released checkpoint does not support state input''))
      else if list_ex (\<lambda>x. \<not> f32_finite x) (ob_state obs) then
        Some (Inl (label @ '' state must contain only finite values''))
      else bind_run (each_run (check_image label image_names) (List.enumerate 0 (ob_images obs))) (\<lambda>_. Some (Inr ())))"

text \<open>What the vision side gets of one preprocessed image.\<close>

definition image_view :: "string \<Rightarrow> image_config \<Rightarrow> u8 list \<times> int \<times> int \<times> int \<Rightarrow> qwen_image run" where
  "image_view grid_msg ic processed =
     (case processed of (bytes, target_width, target_height, image_token_count) \<Rightarrow>
        if target_width * target_height * 3 \<noteq> int (length bytes) \<or> image_token_count < ic_min_token_count ic \<or>
           image_token_count > ic_max_token_count ic then Some (Inl grid_msg)
        else if \<not> fits_sint 32 (target_width * 3) then None
        else Some (Inr \<lparr>qi_data = Some bytes, qi_width = target_width, qi_height = target_height, qi_channels = 3,
               qi_stride = target_width * 3\<rparr>))"

definition prepare_qwen_image :: "image_config \<Rightarrow> string \<Rightarrow> model_image \<Rightarrow> qwen_image run" where
  "prepare_qwen_image ic framework img =
     bind_run (fail_with (\<lambda>e. ''failed to preprocess StarVLA '' @ framework @ '' image '' @ [CHR 0x27] @ mi_name img @
         [CHR 0x27] @ '': '' @ e)
       (preprocess_qwen3vl_rgb (mi_data img) (mi_width img) (mi_height img) (mi_channels img) (mi_stride img)
         (ic_patch_size ic) (ic_spatial_merge_size ic) (ic_min_pixels ic) (ic_max_pixels ic)))
       (image_view (''StarVLA '' @ framework @ '' image preprocessor returned an incompatible dynamic grid'') ic)"

definition prepare_qwen_images :: "image_config \<Rightarrow> string \<Rightarrow> observation \<Rightarrow> qwen_image list run" where
  "prepare_qwen_images ic framework obs = each_run (prepare_qwen_image ic framework) (ob_images obs)"

definition prepare_pi_qwen_image :: "pi_policy_config \<Rightarrow> model_image \<Rightarrow> qwen_image run" where
  "prepare_pi_qwen_image c img =
     (let ic = pc_image c; w = pc_pre_resize_width c; h = pc_pre_resize_height c
      in bind_run (fail_with (\<lambda>e. ''failed to pre-resize StarVLA PI image '' @ [CHR 0x27] @ mi_name img @ [CHR 0x27] @
           '': '' @ e)
         (resize_torchvision_bicubic_aa_rgb (mi_data img) (mi_width img) (mi_height img) (mi_stride img) w h)) (\<lambda>resized.
       if \<not> fits_sint 32 (w * 3) then None
       else bind_run (fail_with (\<lambda>e. ''failed to preprocess StarVLA PI image '' @ [CHR 0x27] @ mi_name img @ [CHR 0x27] @
             '': '' @ e)
           (preprocess_qwen3vl_rgb (Some resized) w h 3 (w * 3) (ic_patch_size ic) (ic_spatial_merge_size ic)
             (ic_min_pixels ic) (ic_max_pixels ic)))
         (image_view ''StarVLA PI image preprocessor returned an incompatible dynamic grid'' ic)))"

definition prepare_pi_qwen_images :: "pi_policy_config \<Rightarrow> observation \<Rightarrow> qwen_image list run" where
  "prepare_pi_qwen_images c obs = each_run (prepare_pi_qwen_image c) (ob_images obs)"

subsection \<open>The engine\<close>

datatype ('t, 'm) engine_policy =
    Oft_policy "oft_policy_config \<times> 't oft_graph" 'm
  | Groot_policy "groot_policy_config loaded_policy" "('t, 'm) policy_state"
  | Pi_policy "pi_policy_config loaded_policy" "('t, 'm) policy_state"
  | Pi_v3_policy "pi_v3_policy_config loaded_policy" "('t, 'm) policy_state"
  | Fast_policy fast_policy

record ('t, 'm, 's, 'v, 'r) engine =
  en_variant :: starvla_variant
  en_profile_key :: string
  en_normalization :: norm_config
  en_rng :: 'r
  en_qwen :: "('s, 'v) qwen_impl"
  en_policy :: "('t, 'm) engine_policy"

record engine_config =
  ec_policy_path :: string
  ec_text_path :: string
  ec_mmproj_path :: string
  ec_n_threads :: int
  ec_n_ctx :: int
  ec_n_batch :: int
  ec_noise_seed :: int
  ec_verbosity :: int

datatype stage = Image_preprocess | Prompt_stage | Qwen_stage | Policy_stage | Unnormalize_stage | Total_stage

text \<open>\<open>sw_normals\<close> draws so many normal numbers; \<open>sw_elapsed\<close> is what the clock measures for the stages of a prediction.\<close>

record ('t, 'm, 's, 'v, 'b, 'r) starvla_world =
  sw_files :: file_queries
  sw_env :: load_env
  sw_builder :: "'t builder"
  sw_executor :: "('t, 'm) executor"
  sw_memory :: 'm
  sw_cosine :: "f64 \<Rightarrow> f64"
  sw_loader :: "('s, 'v) qwen_loader"
  sw_lib :: "('s, 'v, 'b) qwen_lib"
  sw_built :: compiled_backend
  sw_seed :: "nat \<Rightarrow> 'r"
  sw_random :: 'r
  sw_normals :: "nat \<Rightarrow> 'r \<Rightarrow> f32 list \<times> 'r"
  sw_elapsed :: "stage \<Rightarrow> f64"

text \<open>What the engine reads of any policy.\<close>

record components =
  co_bundle :: bundle_config
  co_hidden :: int
  co_input_embedding :: int
  co_vocab :: int
  co_image :: image_config
  co_normalization :: norm_config

fun policy_components :: "('t, 'm) engine_policy \<Rightarrow> components" where
  "policy_components (Oft_policy p m) = (let c = fst p in \<lparr>co_bundle = oc_bundle c, co_hidden = oc_input_dim c,
     co_input_embedding = oc_input_embedding_dim c, co_vocab = oc_vocab_size c, co_image = oc_image c,
     co_normalization = oc_normalization c\<rparr>)"
| "policy_components (Groot_policy p st) = (let c = lp_config p in \<lparr>co_bundle = gc_bundle c, co_hidden = gc_qwen_hidden_dim c,
     co_input_embedding = gc_qwen_input_embedding_dim c, co_vocab = gc_qwen_vocab_size c, co_image = gc_image c,
     co_normalization = gc_normalization c\<rparr>)"
| "policy_components (Pi_policy p st) = (let c = lp_config p in \<lparr>co_bundle = pc_bundle c, co_hidden = pc_qwen_hidden_dim c,
     co_input_embedding = pc_qwen_input_embedding_dim c, co_vocab = pc_qwen_vocab_size c, co_image = pc_image c,
     co_normalization = pc_normalization c\<rparr>)"
| "policy_components (Pi_v3_policy p st) = (let c = lp_config p in \<lparr>co_bundle = vc_bundle c, co_hidden = vc_qwen_hidden_dim c,
     co_input_embedding = vc_qwen_input_embedding_dim c, co_vocab = vc_qwen_vocab_size c, co_image = vc_image c,
     co_normalization = vc_normalization c\<rparr>)"
| "policy_components (Fast_policy p) = (let c = po_config p in \<lparr>co_bundle = fp_bundle c, co_hidden = fp_qwen_hidden_dim c,
     co_input_embedding = fp_qwen_input_embedding_dim c, co_vocab = fp_qwen_vocab_size c, co_image = fp_image c,
     co_normalization = fp_normalization c\<rparr>)"

subsection \<open>Loading\<close>

definition load_engine_policy ::
  "('t, 'm, 's, 'v, 'b, 'r) starvla_world \<Rightarrow> engine_config \<Rightarrow> starvla_variant \<Rightarrow> ('t, 'm) engine_policy run"
where
  "load_engine_policy w cfg variant =
     (let env = sw_env w; path = ec_policy_path cfg; fresh = \<lparr>ps_graph = None, ps_memory = sw_memory w\<rparr>
      in if is_oft variant then
        bind_run (fail_with (\<lambda>e. ''failed to load StarVLA OFT policy: '' @ e) (load_oft_policy env (sw_builder w) path))
          (\<lambda>p. Some (Inr (Oft_policy p (sw_memory w))))
      else if is_groot variant then
        bind_run (fail_with (\<lambda>e. ''failed to load StarVLA GR00T policy: '' @ e) (load_groot_policy env (sw_executor w) path))
          (\<lambda>p. Some (Inr (Groot_policy p fresh)))
      else if variant = qwen25_pi then
        bind_run (fail_with (\<lambda>e. ''failed to load StarVLA PI policy: '' @ e) (load_pi_policy env (sw_executor w) path))
          (\<lambda>p. Some (Inr (Pi_policy p fresh)))
      else if variant = qwen3_pi_v3 then
        bind_run (fail_with (\<lambda>e. ''failed to load StarVLA PI_v3 policy: '' @ e) (load_pi_v3_policy env (sw_executor w) path))
          (\<lambda>p. Some (Inr (Pi_v3_policy p fresh)))
      else
        bind_run (fail_with (\<lambda>e. ''failed to load StarVLA FAST policy: '' @ e) (load_fast_policy (le_open env) path))
          (\<lambda>p. if ec_n_ctx cfg < to_int32 (int (fp_max_length (po_config p))) then
              Some (Inl (''StarVLA FAST --n-ctx must be at least max_length='' @ nat_to_string (fp_max_length (po_config p))))
            else Some (Inr (Fast_policy p))))"

definition kDefaultThreadCount :: int where "kDefaultThreadCount = 4"

definition bridge_config_of :: "engine_config \<Rightarrow> starvla_variant \<Rightarrow> ('t, 'm) engine_policy \<Rightarrow> qwen_bridge_config" where
  "bridge_config_of cfg variant policy =
     (let co = policy_components policy; ic = co_image co;
        action = (case policy of Oft_policy p _ \<Rightarrow> (op_action_token (oc_prompt (fst p)), oc_action_token_id (fst p)) | _ \<Rightarrow> ([], - 1))
      in \<lparr>qb_text_path = ec_text_path cfg, qb_mmproj_path = ec_mmproj_path cfg, qb_bundle_uuid = bc_bundle_uuid (co_bundle co),
        qb_hidden_size = co_hidden co, qb_input_embedding_size = co_input_embedding co, qb_vocab_size = co_vocab co,
        qb_action_token = fst action, qb_action_token_id = snd action,
        qb_expected_image_count = ic_image_count ic, qb_image_min_tokens = ic_min_token_count ic,
        qb_image_max_tokens = ic_max_token_count ic, qb_image_spatial_merge_size = ic_spatial_merge_size ic,
        qb_n_ctx = ec_n_ctx cfg, qb_n_batch = ec_n_batch cfg,
        qb_n_threads = (if ec_n_threads cfg > 0 then ec_n_threads cfg else kDefaultThreadCount),
        qb_verbosity = ec_verbosity cfg, qb_flash_text_attention = (is_oft variant \<or> variant = qwen25_pi),
        qb_bf16_residual_layer_boundaries = is_groot variant, qb_disable_text_backend_native_graphs = True,
        qb_disable_vision_backend_native_graphs = True\<rparr>)"

definition start_rng :: "('t, 'm, 's, 'v, 'b, 'r) starvla_world \<Rightarrow> engine_config \<Rightarrow> 'r" where
  "start_rng w cfg = (if ec_noise_seed cfg \<ge> 0 then sw_seed w (nat (ec_noise_seed cfg)) else sw_random w)"

text \<open>A default-constructed generator has the documented seed 5489.\<close>

definition engine_load ::
  "('t, 'm, 's, 'v, 'b, 'r) starvla_world \<Rightarrow> engine_config \<Rightarrow> ('t, 'm, 's, 'v, 'r) engine run"
where
  "engine_load w cfg =
     (let fq = sw_files w; path = ec_policy_path cfg
      in if path = [] \<or> CHR 0x00 \<in> set path then
        Some (Inl ''StarVLA policy path is required and must not contain an embedded NUL'')
      else if ec_n_ctx cfg \<le> 0 \<or> ec_n_batch cfg \<le> 0 \<or> ec_n_threads cfg < 0 then
        Some (Inl ''StarVLA n_ctx/n_batch must be positive and n_threads must be non-negative'')
      else bind_run (Some (require_regular_file fq path ''policy GGUF'')) (\<lambda>_.
        bind_run (Some (read_policy_variant (le_open (sw_env w)) path)) (\<lambda>variant.
        bind_run (load_engine_policy w cfg variant) (\<lambda>policy.
        let co = policy_components policy in
        bind_run (Some (resolve_component_path fq (bc_text_filename (co_bundle co)) (ec_text_path cfg) ''text GGUF'')) (\<lambda>text_path.
        bind_run (Some (resolve_component_path fq (bc_mmproj_filename (co_bundle co)) (ec_mmproj_path cfg) ''mmproj GGUF''))
          (\<lambda>mmproj_path.
        if fq_equivalent fq path text_path \<or> fq_equivalent fq path mmproj_path \<or> fq_equivalent fq text_path mmproj_path then
          Some (Inl ''StarVLA policy, text, and mmproj GGUF paths must identify three distinct files'')
        else bind_run (fail_with (\<lambda>e. ''failed to select StarVLA '' @ starvla_variant_framework variant @
              '' normalization profile: '' @ e) (resolve_normalization_profile (co_normalization co) [])) (\<lambda>profile.
        if co_input_embedding co \<le> 0 then Some (Inl ''StarVLA Qwen-VL input embedding size is invalid'')
        else bind_run (fail_with (\<lambda>e. ''failed to load StarVLA Qwen-VL components: '' @ e)
            (fst (qwen_bridge_load (sw_loader w) (sw_built w) (bridge_config_of cfg variant policy)))) (\<lambda>qwen.
        if im_architecture qwen \<noteq> (if bc_backbone_arch (co_bundle co) = ''qwen2_5_vl'' then qwen2_5_vl else qwen3_vl) then
          Some (Inl ''StarVLA policy backbone metadata does not match the Qwen-VL components'')
        else Some (Inr \<lparr>en_variant = variant, en_profile_key = np_key profile, en_normalization = co_normalization co,
            en_rng = (if is_oft variant \<or> variant = qwen25_fast then sw_seed w 5489 else start_rng w cfg),
            en_qwen = qwen, en_policy = policy\<rparr>)))))))))"

subsection \<open>Prediction\<close>

record engine_result =
  er_actions :: "f32 list"
  er_chunk_size :: int
  er_action_dim :: int
  er_timings :: "stage \<Rightarrow> f64"

definition on_qwen ::
  "('a, ('s, 'v) qwen_impl) act \<Rightarrow> ('a, ('t, 'm, 's, 'v, 'r) engine) act"
where
  "on_qwen f en = (case f (en_qwen en) of (r, q) \<Rightarrow> (r, en\<lparr>en_qwen := q\<rparr>))"

definition failing :: "string \<Rightarrow> ('a, 'i) act \<Rightarrow> ('a, 'i) act" where
  "failing msg m s = (case m s of (r, s') \<Rightarrow> (fail_with (\<lambda>e. msg @ e) r, s'))"

definition run_policy ::
  "('st \<Rightarrow> ('t, 'm) engine_policy) \<Rightarrow> (f32 list res \<times> 'st) option \<Rightarrow> (f32 list, ('t, 'm, 's, 'v, 'r) engine) act"
where
  "run_policy back r en = (case r of None \<Rightarrow> (None, en) | Some (x, st') \<Rightarrow> (Some x, en\<lparr>en_policy := back st'\<rparr>))"

definition make_noise ::
  "('t, 'm, 's, 'v, 'b, 'r) starvla_world \<Rightarrow> observation \<Rightarrow> nat \<Rightarrow> (f32 list, ('t, 'm, 's, 'v, 'r) engine) act"
where
  "make_noise w obs count en =
     (if ob_noise obs \<noteq> [] then
        (if length (ob_noise obs) \<noteq> count \<or> list_ex (\<lambda>x. \<not> f32_finite x) (ob_noise obs) then
           act_fail ''initial noise has an incompatible shape or non-finite value'' en
         else act_return (ob_noise obs) en)
      else case sw_normals w count (en_rng en) of
        (drawn, rng) \<Rightarrow> act_return (map (bf16_round (ql_conv (sw_lib w))) drawn) (en\<lparr>en_rng := rng\<rparr>))"

text \<open>The last checks, and the result with its timings.\<close>

definition finish_prediction ::
  "('t, 'm, 's, 'v, 'b, 'r) starvla_world \<Rightarrow> string \<Rightarrow> int \<Rightarrow> int \<Rightarrow> f32 list \<Rightarrow>
     (engine_result, ('t, 'm, 's, 'v, 'r) engine) act"
where
  "finish_prediction w name horizon action_dim actions =
     (if length actions \<noteq> size_cast (horizon * action_dim) \<or> list_ex (\<lambda>x. \<not> f32_finite x) actions then
        act_fail (''StarVLA '' @ name @ '' returned an incompatible or non-finite action tensor'')
      else act_return \<lparr>er_actions = actions, er_chunk_size = horizon, er_action_dim = action_dim, er_timings = sw_elapsed w\<rparr>)"

definition predict_fast ::
  "('t, 'm, 's, 'v, 'b, 'r) starvla_world \<Rightarrow> fast_policy \<Rightarrow> observation \<Rightarrow> string \<Rightarrow>
     (engine_result, ('t, 'm, 's, 'v, 'r) engine) act"
where
  "predict_fast w p obs key =
     (let c = po_config p; ic = fp_image c; expected_actions = size_cast (fp_horizon c * fp_action_dim c)
      in if ob_noise obs \<noteq> [] then act_fail ''StarVLA FAST does not use diffusion noise''
      else bind_act (act_run (validate_observation obs (ic_image_count ic) (ic_image_names ic) False ''FAST'')) (\<lambda>_.
        bind_act (act_run (prepare_qwen_images ic ''FAST'' obs)) (\<lambda>qwen_images.
        bind_act (failing ''failed to build the StarVLA FAST prompt: ''
            (act_run (build_fast_instruction (fp_cot_template c) (ob_task obs)))) (\<lambda>instruction.
        bind_act (failing ''StarVLA FAST Qwen2.5-VL generation failed: ''
            (on_qwen (generate_autoregressive (sw_lib w) (sw_built w) qwen_images instruction
              \<lparr>gn_max_length = fp_max_length c, gn_eos_token_ids = fp_eos_token_ids c, gn_top_k = fp_top_k c,
                gn_repetition_penalty = fp_repetition_penalty c\<rparr>))) (\<lambda>generated.
        if gr_prompt_token_count generated = 0 \<or>
            length (gr_full_sequence generated) < gr_prompt_token_count generated \<or>
            length (gr_full_sequence generated) > fp_max_length c then
          act_fail ''StarVLA FAST Qwen2.5-VL returned an incompatible generated sequence''
        else bind_act (failing ''StarVLA FAST codec decode failed: ''
            (act_run (Some (decode_generated (sw_cosine w) p (gr_full_sequence generated))))) (\<lambda>normalized_actions.
          bind_act (failing ''StarVLA FAST action unnormalization failed: ''
              (act_run (unnormalize_fast p normalized_actions key))) (\<lambda>actions.
          if length normalized_actions \<noteq> expected_actions then
            act_fail ''StarVLA FAST returned an incompatible or non-finite action tensor''
          else finish_prediction w ''FAST'' (fp_horizon c) (fp_action_dim c) actions)))))))"

definition predict_pi ::
  "('t, 'm, 's, 'v, 'b, 'r) starvla_world \<Rightarrow> pi_policy_config loaded_policy \<Rightarrow> ('t, 'm) policy_state \<Rightarrow> observation \<Rightarrow>
     string \<Rightarrow> (engine_result, ('t, 'm, 's, 'v, 'r) engine) act"
where
  "predict_pi w p st obs key =
     (let c = lp_config p; ic = pc_image c
      in bind_act (act_run (validate_observation obs (ic_image_count ic) (ic_image_names ic) True ''PI'')) (\<lambda>_.
        if ob_state obs \<noteq> [] \<and> length (ob_state obs) \<noteq> size_cast (pc_state_dim c) then
          act_fail (''StarVLA PI accepts either no state or exactly '' @ int_to_string (pc_state_dim c) @ '' state values'')
        else bind_act (act_run (prepare_pi_qwen_images c obs)) (\<lambda>qwen_images.
        bind_act (failing ''failed to build the StarVLA PI prompt: ''
            (act_run (build_pi_v3_instruction (pc_cot_template c) (ob_task obs)))) (\<lambda>instruction.
        bind_act (failing ''StarVLA PI Qwen2.5-VL inference failed: ''
            (on_qwen (extract_layer_hidden_states (sw_lib w) (sw_built w) qwen_images instruction
              (pc_hidden_tuple_indices c)))) (\<lambda>(hidden_states, attention_mask).
        if attention_mask = [] \<or>
            length hidden_states \<noteq>
              size_cast (pc_block_count c) * length attention_mask * size_cast (pc_qwen_hidden_dim c) mod 2 ^ 64 then
          act_fail ''StarVLA PI Qwen2.5-VL returned an incompatible layerwise conditioning shape''
        else bind_act (make_noise w obs (size_cast (pc_horizon c * pc_action_dim c))) (\<lambda>noise.
          bind_act (failing ''StarVLA PI policy inference failed: ''
              (run_policy (Pi_policy p) (pi_evaluate (sw_builder w) (sw_executor w) p (Some hidden_states)
                (if ob_state obs = [] then Null_buffer 0 else Buffer (ob_state obs)) (Some noise) st)))
            (\<lambda>normalized_actions.
          bind_act (failing ''StarVLA PI action unnormalization failed: ''
              (act_run (pi_unnormalize p normalized_actions key)))
            (finish_prediction w ''PI'' (pc_horizon c) (pc_action_dim c)))))))))"

definition predict_pi_v3 ::
  "('t, 'm, 's, 'v, 'b, 'r) starvla_world \<Rightarrow> pi_v3_policy_config loaded_policy \<Rightarrow> ('t, 'm) policy_state \<Rightarrow> observation \<Rightarrow>
     string \<Rightarrow> (engine_result, ('t, 'm, 's, 'v, 'r) engine) act"
where
  "predict_pi_v3 w p st obs key =
     (let c = lp_config p; ic = vc_image c
      in bind_act (act_run (validate_observation obs (ic_image_count ic) (ic_image_names ic) False ''PI_v3'')) (\<lambda>_.
        bind_act (act_run (prepare_qwen_images ic ''PI_v3'' obs)) (\<lambda>qwen_images.
        bind_act (failing ''failed to build the StarVLA PI_v3 prompt: ''
            (act_run (build_pi_v3_instruction (vc_cot_template c) (ob_task obs)))) (\<lambda>instruction.
        bind_act (failing ''StarVLA PI_v3 Qwen3-VL inference failed: ''
            (on_qwen (extract_layer_hidden_states (sw_lib w) (sw_built w) qwen_images instruction
              (vc_hidden_tuple_indices c)))) (\<lambda>(hidden_states, attention_mask).
        if attention_mask = [] \<or>
            length hidden_states \<noteq>
              size_cast (vc_qwen_layer_count c) * length attention_mask * size_cast (vc_qwen_hidden_dim c) mod 2 ^ 64 then
          act_fail ''StarVLA PI_v3 Qwen3-VL returned an incompatible layerwise conditioning shape''
        else bind_act (make_noise w obs (size_cast (vc_horizon c * vc_action_dim c))) (\<lambda>noise.
          bind_act (failing ''StarVLA PI_v3 policy inference failed: ''
              (run_policy (Pi_v3_policy p) (pi_v3_evaluate (sw_builder w) (sw_executor w) p (Some hidden_states)
                (Some attention_mask) (Some noise) st)))
            (\<lambda>normalized_actions.
          bind_act (failing ''StarVLA PI_v3 action unnormalization failed: ''
              (act_run (pi_v3_unnormalize p normalized_actions key)))
            (finish_prediction w ''PI_v3'' (vc_horizon c) (vc_action_dim c)))))))))"

definition predict_groot ::
  "('t, 'm, 's, 'v, 'b, 'r) starvla_world \<Rightarrow> groot_policy_config loaded_policy \<Rightarrow> ('t, 'm) policy_state \<Rightarrow> observation \<Rightarrow>
     string \<Rightarrow> (engine_result, ('t, 'm, 's, 'v, 'r) engine) act"
where
  "predict_groot w p st obs key =
     (let c = lp_config p; ic = gc_image c; hidden_dim = size_cast (gc_qwen_hidden_dim c)
      in bind_act (act_run (validate_observation obs (ic_image_count ic) (ic_image_names ic) False ''GR00T'')) (\<lambda>_.
        bind_act (act_run (prepare_qwen_images ic ''GR00T'' obs)) (\<lambda>qwen_images.
        bind_act (failing ''failed to build the StarVLA GR00T prompt: ''
            (act_run (build_groot_instruction (gc_cot_template c) (ob_task obs)))) (\<lambda>instruction.
        bind_act (failing ''StarVLA GR00T Qwen3-VL inference failed: ''
            (on_qwen (extract_full_hidden_states (sw_lib w) (sw_built w) qwen_images instruction)))
          (\<lambda>(hidden_states, attention_mask).
        if hidden_states = [] \<or> length hidden_states mod hidden_dim \<noteq> 0 \<or>
            length hidden_states div hidden_dim \<noteq> length attention_mask then
          act_fail ''StarVLA GR00T Qwen3-VL returned an incompatible conditioning shape''
        else bind_act (make_noise w obs (size_cast (gc_horizon c * gc_action_dim c))) (\<lambda>noise.
          bind_act (failing ''StarVLA GR00T policy inference failed: ''
              (run_policy (Groot_policy p) (groot_evaluate (sw_builder w) (sw_executor w) p (Some hidden_states)
                (Some attention_mask) (Some noise) st)))
            (\<lambda>normalized_actions.
          bind_act (failing ''StarVLA GR00T action unnormalization failed: ''
              (act_run (groot_unnormalize p normalized_actions key)))
            (finish_prediction w ''GR00T'' (gc_horizon c) (gc_action_dim c)))))))))"

definition predict_oft ::
  "('t, 'm, 's, 'v, 'b, 'r) starvla_world \<Rightarrow> oft_policy_config \<times> 't oft_graph \<Rightarrow> 'm \<Rightarrow> observation \<Rightarrow> string \<Rightarrow>
     (engine_result, ('t, 'm, 's, 'v, 'r) engine) act"
where
  "predict_oft w p memory obs key =
     (let c = fst p; ic = oc_image c
      in if ob_noise obs \<noteq> [] then act_fail ''StarVLA OFT does not use diffusion noise''
      else bind_act (act_run (validate_observation obs (ic_image_count ic) (ic_image_names ic) True ''OFT'')) (\<lambda>_.
        bind_act (act_run (prepare_qwen_images ic ''OFT'' obs)) (\<lambda>qwen_images.
        bind_act (failing ''failed to build the StarVLA OFT prompt: ''
            (act_run (build_oft_instruction (oc_prompt c) (ob_task obs) (ob_state obs)))) (\<lambda>instruction.
        bind_act (failing ''StarVLA OFT Qwen3-VL inference failed: ''
            (on_qwen (extract_token_embeddings (sw_lib w) (sw_built w) qwen_images instruction (oc_action_token_id c)
              (size_cast (oc_horizon c))))) (\<lambda>action_queries.
        if length action_queries \<noteq> size_cast (oc_horizon c * oc_input_dim c) then
          act_fail ''StarVLA OFT Qwen3-VL returned an incompatible action-query shape''
        else bind_act (failing ''StarVLA OFT policy inference failed: ''
            (run_policy (Oft_policy p) (oft_evaluate (sw_executor w) p (Some action_queries) memory)))
          (\<lambda>normalized_actions.
          bind_act (failing ''StarVLA OFT action unnormalization failed: ''
              (act_run (oft_unnormalize p normalized_actions key))) (\<lambda>actions.
          if length actions \<noteq> size_cast (oc_horizon c * oc_action_dim c) then
            act_fail ''StarVLA OFT returned an incompatible action tensor shape''
          else if list_ex (\<lambda>x. \<not> f32_finite x) actions then
            act_fail ''StarVLA OFT returned a non-finite unnormalized action''
          else finish_prediction w ''OFT'' (oc_horizon c) (oc_action_dim c) actions)))))))"

definition engine_predict ::
  "('t, 'm, 's, 'v, 'b, 'r) starvla_world \<Rightarrow> observation \<Rightarrow> (engine_result, ('t, 'm, 's, 'v, 'r) engine) act"
where
  "engine_predict w obs en =
     bind_act (failing ''failed to select StarVLA normalization profile: ''
         (act_run (resolve_normalization_profile (en_normalization en) (en_profile_key en)))) (\<lambda>profile.
       case en_policy en of
         Fast_policy p \<Rightarrow> predict_fast w p obs (np_key profile)
       | Pi_policy p st \<Rightarrow> predict_pi w p st obs (np_key profile)
       | Pi_v3_policy p st \<Rightarrow> predict_pi_v3 w p st obs (np_key profile)
       | Groot_policy p st \<Rightarrow> predict_groot w p st obs (np_key profile)
       | Oft_policy p m \<Rightarrow> predict_oft w p m obs (np_key profile)) en"

definition engine_reset ::
  "('t, 'm, 's, 'v, 'b, 'r) starvla_world \<Rightarrow> ('t, 'm, 's, 'v, 'r) engine \<Rightarrow> ('t, 'm, 's, 'v, 'r) engine"
where
  "engine_reset w en = en\<lparr>en_qwen := qwen_bridge_reset (sw_lib w) (en_qwen en)\<rparr>"

end
