(* ===== verification/StarVLAModel.thy ===== *)
theory StarVLAModel
  imports StarVLAEngine
begin

text \<open>
  \<^verbatim>\<open>src/models/starvla/starvla_model.cpp\<close>: the StarVLA engine behind the interface of a model, and what holds of every
  prediction and over the life of an engine.
\<close>

subsection \<open>The model\<close>

definition stage_metrics :: "(string \<times> stage) list" where
  "stage_metrics = [(''image_preprocess_ms'', Image_preprocess), (''prompt_ms'', Prompt_stage), (''qwen3vl_ms'', Qwen_stage),
     (''policy_ms'', Policy_stage), (''unnormalize_ms'', Unnormalize_stage), (''model_total_ms'', Total_stage)]"

definition starvla_model_type :: "('t, 'm, 's, 'v, 'r) engine \<Rightarrow> string" where
  "starvla_model_type en = ''starvla''"

definition starvla_model_predict ::
  "('t, 'm, 's, 'v, 'b, 'r) starvla_world \<Rightarrow> observation \<Rightarrow> (model_result, ('t, 'm, 's, 'v, 'r) engine) act"
where
  "starvla_model_predict w obs =
     bind_act (engine_predict w obs) (\<lambda>r.
       act_return \<lparr>mr_actions = er_actions r, mr_chunk_size = er_chunk_size r, mr_action_dim = er_action_dim r,
         mr_metrics = map (\<lambda>(name, stage). \<lparr>mm_name = name, mm_value = er_timings r stage\<rparr>) stage_metrics\<rparr>)"

definition starvla_model_reset ::
  "('t, 'm, 's, 'v, 'b, 'r) starvla_world \<Rightarrow> ('t, 'm, 's, 'v, 'r) engine \<Rightarrow> ('t, 'm, 's, 'v, 'r) engine"
where
  "starvla_model_reset w en = engine_reset w en"

definition make_starvla_model ::
  "('t, 'm, 's, 'v, 'b, 'r) starvla_world \<Rightarrow> model_args \<Rightarrow> ('t, 'm, 's, 'v, 'r) engine run"
where
  "make_starvla_model w args =
     (if \<not> is_starvla_model_type (ma_type args) then
        Some (Inl (''model type '' @ [CHR 0x27] @ model_type_name (ma_type args) @ [CHR 0x27] @ '' is not a StarVLA model type''))
      else if ma_noise_mode args \<noteq> 0 then
        Some (Inl ''StarVLA does not support SmolVLA --noise-mode debug-sin; use Gaussian noise and --noise-seed'')
      else engine_load w \<lparr>ec_policy_path = ma_policy_path args, ec_text_path = ma_llm_path args,
        ec_mmproj_path = ma_mmproj_path args, ec_n_threads = ma_threads args, ec_n_ctx = ma_n_ctx args,
        ec_n_batch = ma_n_batch args, ec_noise_seed = ma_noise_seed args, ec_verbosity = ma_verbosity args\<rparr>)"

subsection \<open>Frames\<close>

lemma failing_Inr [act_simps]: "failing msg m s = (Some (Inr x), s') \<longleftrightarrow> m s = (Some (Inr x), s')"
  by (auto simp: failing_def res_simps split: prod.splits)

lemma on_qwen_Inr [act_simps]:
  "on_qwen f en = (Some (Inr x), en') \<longleftrightarrow> (\<exists>q. f (en_qwen en) = (Some (Inr x), q) \<and> en' = en\<lparr>en_qwen := q\<rparr>)"
  by (auto simp: on_qwen_def split: prod.splits)

lemma run_policy_Inr [act_simps]:
  "run_policy back r en = (Some (Inr x), en') \<longleftrightarrow> (\<exists>st. r = Some (Inr x, st) \<and> en' = en\<lparr>en_policy := back st\<rparr>)"
  by (auto simp: run_policy_def split: option.splits)

lemma keeps_failing [intro]: "keeps P m \<Longrightarrow> keeps P (failing msg m)"
  by (auto simp: keeps_def failing_def split: prod.splits)

text \<open>The kind of policy, its settings and the bridge behind an engine.\<close>

fun policy_shape :: "('t, 'm) engine_policy \<Rightarrow> int \<times> int" where
  "policy_shape (Oft_policy p m) = (oc_horizon (fst p), oc_action_dim (fst p))"
| "policy_shape (Groot_policy p st) = (gc_horizon (lp_config p), gc_action_dim (lp_config p))"
| "policy_shape (Pi_policy p st) = (pc_horizon (lp_config p), pc_action_dim (lp_config p))"
| "policy_shape (Pi_v3_policy p st) = (vc_horizon (lp_config p), vc_action_dim (lp_config p))"
| "policy_shape (Fast_policy p) = (fp_horizon (po_config p), fp_action_dim (po_config p))"

text \<open>Two policies that differ at most in what evaluations leave behind.\<close>

fun same_policy :: "('t, 'm) engine_policy \<Rightarrow> ('t, 'm) engine_policy \<Rightarrow> bool" where
  "same_policy (Oft_policy p m) (Oft_policy p' m') = (p = p')"
| "same_policy (Groot_policy p st) (Groot_policy p' st') = (p = p')"
| "same_policy (Pi_policy p st) (Pi_policy p' st') = (p = p')"
| "same_policy (Pi_v3_policy p st) (Pi_v3_policy p' st') = (p = p')"
| "same_policy (Fast_policy p) (Fast_policy p') = (p = p')"
| "same_policy _ _ = False"

lemma same_policy_refl [simp]: "same_policy p p" by (cases p) auto

lemma same_policy_shape: "same_policy p p' \<Longrightarrow> policy_shape p' = policy_shape p \<and> policy_components p' = policy_components p"
  by (cases p; cases p') (auto simp: Let_def)

lemma same_policy_trans: "same_policy p q \<Longrightarrow> same_policy q r \<Longrightarrow> same_policy p r"
  by (cases p; cases q; cases r) auto

definition same_engine :: "('t, 'm, 's, 'v, 'r) engine \<Rightarrow> ('t, 'm, 's, 'v, 'r) engine \<Rightarrow> bool" where
  "same_engine en en' \<longleftrightarrow> en_variant en' = en_variant en \<and> en_profile_key en' = en_profile_key en \<and>
     en_normalization en' = en_normalization en \<and> same_bridge (en_qwen en) (en_qwen en') \<and>
     same_policy (en_policy en) (en_policy en')"

lemma same_engine_refl [simp]: "same_engine en en" by (simp add: same_engine_def)

lemma same_engine_trans: "same_engine a b \<Longrightarrow> same_engine b c \<Longrightarrow> same_engine a c"
  using same_bridge_trans same_policy_trans by (auto simp: same_engine_def)

lemma keeps_on_qwen:
  assumes "\<And>q. same_bridge q (snd (f q))"
  shows "keeps (same_engine en) (on_qwen f)"
proof -
  have "same_engine s (snd (on_qwen f s))" for s
    using assms [of "en_qwen s"] by (auto simp: on_qwen_def same_engine_def split: prod.splits)
  then show ?thesis using same_engine_trans by (auto simp: keeps_def)
qed

lemma keeps_noise: "keeps (same_engine en) (make_noise w obs count)"
  by (auto simp: keeps_def make_noise_def same_engine_def split: prod.splits)

lemma keeps_run_policy: "(\<And>st. same_policy (en_policy en) (back st)) \<Longrightarrow> keeps (same_engine en) (run_policy back r)"
  by (auto simp: keeps_def run_policy_def same_engine_def split: option.splits)

lemma keeps_finish: "keeps P (finish_prediction w name h a actions)"
  by (auto simp: finish_prediction_def)

lemmas engine_rules = keeps_bind keeps_failing keeps_on_qwen keeps_noise keeps_run_policy keeps_finish
  extract_token_same extract_full_same extract_layer_same generate_same

lemma keeps_policy:
  "keeps (same_engine en) (case en_policy en of
         Fast_policy p \<Rightarrow> predict_fast w p obs key
       | Pi_policy p st \<Rightarrow> predict_pi w p st obs key
       | Pi_v3_policy p st \<Rightarrow> predict_pi_v3 w p st obs key
       | Groot_policy p st \<Rightarrow> predict_groot w p st obs key
       | Oft_policy p m \<Rightarrow> predict_oft w p m obs key)"
  by (cases "en_policy en")
    (auto simp: predict_fast_def predict_pi_def predict_pi_v3_def predict_groot_def predict_oft_def Let_def split_beta
      intro!: engine_rules)

lemma engine_predict_same: "same_engine en (snd (engine_predict w obs en))"
proof -
  have "keeps (same_engine en) (bind_act (failing msg (act_run r)) (\<lambda>profile. case en_policy en of
         Fast_policy p \<Rightarrow> predict_fast w p obs (np_key profile)
       | Pi_policy p st \<Rightarrow> predict_pi w p st obs (np_key profile)
       | Pi_v3_policy p st \<Rightarrow> predict_pi_v3 w p st obs (np_key profile)
       | Groot_policy p st \<Rightarrow> predict_groot w p st obs (np_key profile)
       | Oft_policy p m \<Rightarrow> predict_oft w p m obs (np_key profile)))" for msg and r :: "norm_profile run"
    by (intro keeps_bind keeps_failing keeps_policy) simp
  then show ?thesis by (simp add: engine_predict_def keeps_def)
qed

subsection \<open>Results\<close>

lemma finish_prediction_Inr:
  "finish_prediction w name h a actions en = (Some (Inr r), en') \<Longrightarrow>
     er_chunk_size r = h \<and> er_action_dim r = a \<and> length (er_actions r) = size_cast (h * a) \<and> list_all f32_finite (er_actions r)"
  by (auto simp: finish_prediction_def list_all_iff list_ex_iff split: if_splits)

text \<open>An action that ends with the checks of a result of this shape.\<close>

definition shaped :: "int \<times> int \<Rightarrow> engine_result \<Rightarrow> bool" where
  "shaped d r \<longleftrightarrow> (er_chunk_size r, er_action_dim r) = d \<and>
     length (er_actions r) = size_cast (er_chunk_size r * er_action_dim r) \<and> list_all f32_finite (er_actions r)"

definition ends_in :: "('a \<Rightarrow> bool) \<Rightarrow> ('a, 'i) act \<Rightarrow> bool" where
  "ends_in P m \<longleftrightarrow> (\<forall>s r s'. m s = (Some (Inr r), s') \<longrightarrow> P r)"

lemma ends_bind: "(\<And>x. ends_in P (k x)) \<Longrightarrow> ends_in P (bind_act m k)"
  by (auto simp: ends_in_def act_simps)

lemma ends_fail: "ends_in P (act_fail e)"
  by (simp add: ends_in_def act_simps)

lemma ends_finish: "ends_in (shaped (h, a)) (finish_prediction w name h a actions)"
  by (auto simp: ends_in_def shaped_def dest!: finish_prediction_Inr)

lemma ends_policy:
  "ends_in (shaped (policy_shape policy)) (case policy of
         Fast_policy p \<Rightarrow> predict_fast w p obs key
       | Pi_policy p st \<Rightarrow> predict_pi w p st obs key
       | Pi_v3_policy p st \<Rightarrow> predict_pi_v3 w p st obs key
       | Groot_policy p st \<Rightarrow> predict_groot w p st obs key
       | Oft_policy p m \<Rightarrow> predict_oft w p m obs key)"
  by (cases policy)
    (auto simp: predict_fast_def predict_pi_def predict_pi_v3_def predict_groot_def predict_oft_def Let_def split_beta
      intro!: ends_bind ends_fail ends_finish)

lemma engine_predict_Inr:
  assumes "engine_predict w obs en = (Some (Inr r), en')"
  shows "shaped (policy_shape (en_policy en)) r"
proof -
  obtain x :: norm_profile and s where "(case en_policy en of
         Fast_policy p \<Rightarrow> predict_fast w p obs (np_key x)
       | Pi_policy p st \<Rightarrow> predict_pi w p st obs (np_key x)
       | Pi_v3_policy p st \<Rightarrow> predict_pi_v3 w p st obs (np_key x)
       | Groot_policy p st \<Rightarrow> predict_groot w p st obs (np_key x)
       | Oft_policy p m \<Rightarrow> predict_oft w p m obs (np_key x)) s = (Some (Inr r), en')"
    using assms unfolding engine_predict_def by (auto simp: act_simps)
  then show ?thesis using ends_policy [of "en_policy en" w obs "np_key x"] unfolding ends_in_def by blast
qed

text \<open>C2. A StarVLA prediction that succeeds announces the horizon and the action dimension of the loaded policy as chunk
  size and action dimension, returns exactly horizon times dimension values, all of them finite, and names every
  metric: it has the shape the callers of a model rely on.\<close>

theorem starvla_prediction_shaped:
  assumes "starvla_model_predict w obs en = (Some (Inr r), en')" "policy_shape (en_policy en) = (h, a)"
    and "0 < h" "h \<le> INT_MAX" "0 < a" "a \<le> INT_MAX"
  shows "mr_chunk_size r = h \<and> mr_action_dim r = a \<and> length (mr_actions r) = nat h * nat a \<and>
    list_all f32_finite (mr_actions r) \<and> result_shaped r"
proof -
  obtain x where x: "engine_predict w obs en = (Some (Inr x), en')"
    and r: "r = \<lparr>mr_actions = er_actions x, mr_chunk_size = er_chunk_size x, mr_action_dim = er_action_dim x,
         mr_metrics = map (\<lambda>(name, stage). \<lparr>mm_name = name, mm_value = er_timings x stage\<rparr>) stage_metrics\<rparr>"
    using assms(1) by (auto simp: starvla_model_predict_def act_simps)
  have "h * a \<le> INT_MAX * INT_MAX" using assms(3-6) by (intro mult_mono) auto
  moreover have "0 \<le> h * a" using assms by simp
  ultimately have "size_cast (h * a) = nat (h * a)" by (simp add: size_cast_def INT_MAX_def)
  moreover have "list_all (\<lambda>m. mm_name m \<noteq> []) (mr_metrics r)" by (simp add: r stage_metrics_def)
  ultimately show ?thesis
    using engine_predict_Inr [OF x] assms(2-6) by (simp add: r shaped_def result_shaped_def nat_mult_distrib)
qed

subsection \<open>The life of an engine\<close>

text \<open>A property of the state that holds after every outcome short of undefined behaviour.\<close>

definition leaves :: "('i \<Rightarrow> bool) \<Rightarrow> ('a, 'i) act \<Rightarrow> bool" where
  "leaves P m \<longleftrightarrow> (\<forall>s r s'. P s \<longrightarrow> m s = (Some r, s') \<longrightarrow> P s')"

lemma leaves_basic [simp, intro]:
  "leaves P (act_return x)" "leaves P (act_fail e)" "leaves P (act_run r)"
  by (simp_all add: leaves_def)

lemma leaves_bind [intro]:
  assumes "leaves P m" "\<And>x. leaves P (k x)"
  shows "leaves P (bind_act m k)"
proof -
  have "P s'" if "P s" "bind_act m k s = (Some r, s')" for s r s'
  proof (cases "m s")
    case (Pair x t)
    show ?thesis
    proof (cases x)
      case None
      with Pair that show ?thesis by (simp add: bind_act_def)
    next
      case (Some y)
      with Pair that assms(1) have "P t" by (auto simp: leaves_def)
      with Pair Some that assms(2) show ?thesis
        by (cases y) (auto simp: bind_act_def leaves_def)
    qed
  qed
  then show ?thesis by (auto simp: leaves_def)
qed

lemma leaves_if [intro]: "leaves P m \<Longrightarrow> leaves P m' \<Longrightarrow> leaves P (if b then m else m')"
  by simp

lemma leaves_failing [intro]:
  assumes "leaves P m"
  shows "leaves P (failing msg m)"
proof -
  have "P s'" if "P s" "failing msg m s = (Some r, s')" for s r s'
  proof (cases "m s")
    case (Pair x t)
    with that have "x \<noteq> None" "t = s'" by (cases x; auto simp: failing_def fail_with_def)+
    with Pair that(1) assms show ?thesis by (auto simp: leaves_def)
  qed
  then show ?thesis by (auto simp: leaves_def)
qed

definition engine_idle :: "('t, 'm, 's, 'v, 'r) engine \<Rightarrow> bool" where
  "engine_idle en \<longleftrightarrow> bridge_idle (en_qwen en)"

lemma leaves_on_qwen: "leaves bridge_idle f \<Longrightarrow> leaves engine_idle (on_qwen f)"
  by (auto simp: leaves_def on_qwen_def engine_idle_def split: prod.splits)

lemma leaves_noise: "leaves engine_idle (make_noise w obs count)"
proof -
  have "en_qwen (snd (make_noise w obs count en)) = en_qwen en" for en
    unfolding make_noise_def act_fail_def act_return_def by (cases "sw_normals w count (en_rng en)") simp
  then have "engine_idle (snd (make_noise w obs count en)) = engine_idle en" for en
    by (simp add: engine_idle_def)
  then show ?thesis unfolding leaves_def by (metis snd_conv)
qed

lemma leaves_policy: "leaves engine_idle (run_policy back r)"
  by (auto simp: leaves_def engine_idle_def run_policy_def split: option.splits)

lemma leaves_finish: "leaves engine_idle (finish_prediction w name h a actions)"
  by (simp add: finish_prediction_def)

lemmas leaves_others = leaves_noise leaves_policy leaves_finish

lemma leaves_operations:
  "leaves bridge_idle (extract_token_embeddings lib built images instruction t n)"
  "leaves bridge_idle (extract_full_hidden_states lib built images instruction)"
  "leaves bridge_idle (extract_layer_hidden_states lib built images instruction indices)"
  "leaves bridge_idle (generate_autoregressive lib built images instruction gn)"
  unfolding leaves_def
  by (intro allI impI; erule (1) extract_token_idle extract_full_idle extract_layer_idle generate_idle)+

lemma engine_predict_idle:
  assumes "engine_predict w obs en = (Some r, en')" "engine_idle en"
  shows "engine_idle en'"
proof -
  have "leaves engine_idle (bind_act (failing msg (act_run profile)) (\<lambda>profile. case policy of
         Fast_policy p \<Rightarrow> predict_fast w p obs (np_key profile)
       | Pi_policy p st \<Rightarrow> predict_pi w p st obs (np_key profile)
       | Pi_v3_policy p st \<Rightarrow> predict_pi_v3 w p st obs (np_key profile)
       | Groot_policy p st \<Rightarrow> predict_groot w p st obs (np_key profile)
       | Oft_policy p m \<Rightarrow> predict_oft w p m obs (np_key profile)))" for msg and profile :: "norm_profile run" and policy
    by (cases policy)
      (auto simp: predict_fast_def predict_pi_def predict_pi_v3_def predict_groot_def predict_oft_def Let_def split_beta
        intro!: leaves_bind leaves_failing leaves_on_qwen leaves_others leaves_operations)
  with assms show ?thesis unfolding engine_predict_def leaves_def by blast
qed

definition variant_matches :: "starvla_variant \<Rightarrow> ('t, 'm) engine_policy \<Rightarrow> bool" where
  "variant_matches v policy \<longleftrightarrow> (case policy of Oft_policy _ _ \<Rightarrow> is_oft v | Groot_policy _ _ \<Rightarrow> is_groot v
     | Pi_policy _ _ \<Rightarrow> v = qwen25_pi | Pi_v3_policy _ _ \<Rightarrow> v = qwen3_pi_v3 | Fast_policy _ \<Rightarrow> v = qwen25_fast)"

inductive engine_reachable ::
  "('t, 'm, 's, 'v, 'b, 'r) starvla_world \<Rightarrow> engine_config \<Rightarrow> ('t, 'm, 's, 'v, 'r) engine \<Rightarrow> bool" for w cfg
where
  engine_loaded: "engine_load w cfg = Some (Inr en) \<Longrightarrow> engine_reachable w cfg en"
| engine_predicted: "engine_reachable w cfg en \<Longrightarrow> engine_predict w obs en = (Some r, en') \<Longrightarrow> engine_reachable w cfg en'"
| engine_was_reset: "engine_reachable w cfg en \<Longrightarrow> engine_reachable w cfg (engine_reset w en)"

definition engine_consistent :: "engine_config \<Rightarrow> ('t, 'm, 's, 'v, 'r) engine \<Rightarrow> bool" where
  "engine_consistent cfg en \<longleftrightarrow> variant_matches (en_variant en) (en_policy en) \<and>
     en_normalization en = co_normalization (policy_components (en_policy en)) \<and>
     bridge_loaded (bridge_config_of cfg (en_variant en) (en_policy en)) (en_qwen en) \<and>
     (im_architecture (en_qwen en) = qwen2_5_vl \<longleftrightarrow> bc_backbone_arch (co_bundle (policy_components (en_policy en))) = ''qwen2_5_vl'')"

lemma load_engine_policy_matches:
  "load_engine_policy w cfg v = Some (Inr policy) \<Longrightarrow> variant_matches v policy"
  by (cases v) (auto simp: load_engine_policy_def Let_def res_simps is_oft_def is_groot_def variant_matches_def split: if_splits)

lemma engine_load_consistent:
  assumes "engine_load w cfg = Some (Inr en)"
    and "\<And>m p cx. ld_context (sw_loader w) m p = Some cx \<Longrightarrow> cx_embeddings cx = cp_embeddings p"
  shows "engine_consistent cfg en \<and> engine_idle en"
proof -
  let ?co = "policy_components (en_policy en)"
  obtain freed where policy: "load_engine_policy w cfg (en_variant en) = Some (Inr (en_policy en))"
    and qwen: "qwen_bridge_load (sw_loader w) (sw_built w) (bridge_config_of cfg (en_variant en) (en_policy en)) =
      (Some (Inr (en_qwen en)), freed)"
    and arch: "im_architecture (en_qwen en) = (if bc_backbone_arch (co_bundle ?co) = ''qwen2_5_vl'' then qwen2_5_vl else qwen3_vl)"
    and norm: "en_normalization en = co_normalization ?co"
    using assms(1)
    by (auto simp: engine_load_def Let_def res_simps split: if_splits) (metis prod.collapse)+
  have "bridge_loaded (bridge_config_of cfg (en_variant en) (en_policy en)) (en_qwen en) \<and> bridge_idle (en_qwen en)"
    by (rule load_gives_loaded [OF qwen]) (rule assms(2))
  with load_engine_policy_matches [OF policy] arch norm show ?thesis
    by (auto simp: engine_consistent_def engine_idle_def split: if_splits)
qed

lemma same_policy_config: "same_policy p p' \<Longrightarrow> bridge_config_of cfg v p' = bridge_config_of cfg v p \<and>
    variant_matches v p' = variant_matches v p"
  by (cases p; cases p') (auto simp: bridge_config_of_def variant_matches_def Let_def)

lemma same_engine_consistent:
  assumes "same_engine en en'" "engine_consistent cfg en"
  shows "engine_consistent cfg en'"
  using assms same_policy_config [of "en_policy en" "en_policy en'" cfg] same_policy_shape [of "en_policy en" "en_policy en'"]
    same_bridge_loaded [of "en_qwen en" "en_qwen en'"]
  by (auto simp: same_engine_def engine_consistent_def same_bridge_def)

text \<open>C7. Whatever observations an engine has been asked about, with whatever outcome, and however often it was reset: the
  policy is of the kind its variant names, the bridge has the sizes, vocabulary and architecture of that policy, and
  between predictions no capture is armed and the text context computes no embeddings.\<close>

theorem engine_always_consistent:
  assumes "engine_reachable w cfg en"
    and "\<And>m p cx. ld_context (sw_loader w) m p = Some cx \<Longrightarrow> cx_embeddings cx = cp_embeddings p"
  shows "engine_consistent cfg en \<and> bridge_idle (en_qwen en)"
proof -
  from assms(1) have "engine_consistent cfg en \<and> engine_idle en"
  proof (induction rule: engine_reachable.induct)
    case (engine_loaded en)
    show ?case by (rule engine_load_consistent [OF engine_loaded]) (rule assms(2))
  next
    case (engine_predicted en obs r en')
    then show ?case
      using same_engine_consistent [OF _ conjunct1 [OF engine_predicted.IH]] engine_predict_same [of en w obs]
        engine_predict_idle [OF engine_predicted.hyps(2)] by simp
  next
    case (engine_was_reset en)
    then have "same_engine en (engine_reset w en)" "engine_idle (engine_reset w en)"
      by (simp_all add: engine_reset_def same_engine_def engine_idle_def qwen_bridge_reset_def restore_idle)
    with engine_was_reset.IH same_engine_consistent show ?case by blast
  qed
  then show ?thesis by (simp add: engine_idle_def)
qed

end
