(* ===== verification/QwenExamples.thy ===== *)
theory QwenExamples
  imports QwenLifecycle
begin

text \<open>
  A small bridge: one decoder layer of width 1, a vocabulary of 3, prompts of one text token and one image token.  It
  shows that the promises of the bridge speak of runs that exist.
\<close>

definition demo_bridge_config :: qwen_bridge_config where
  "demo_bridge_config = \<lparr>qb_text_path = ''t'', qb_mmproj_path = ''p'', qb_bundle_uuid = ''u'', qb_hidden_size = 1,
     qb_input_embedding_size = 1, qb_vocab_size = 3, qb_action_token = ''a'', qb_action_token_id = 2,
     qb_expected_image_count = 1, qb_image_min_tokens = 1, qb_image_max_tokens = 1, qb_image_spatial_merge_size = 1,
     qb_n_ctx = 8, qb_n_batch = 8, qb_n_threads = 1, qb_verbosity = 0, qb_flash_text_attention = False,
     qb_bf16_residual_layer_boundaries = False, qb_disable_text_backend_native_graphs = False,
     qb_disable_vision_backend_native_graphs = False\<rparr>"

definition demo_vocab :: vocab where
  "demo_vocab = \<lparr>vo_n_tokens = 3, vo_tokenize = (\<lambda>s size capacity special.
     if capacity = 0 then (- 1, []) else (1, [if s = ''a'' then 2 else 1]))\<rparr>"

definition demo_text_model :: text_model where
  "demo_text_model = \<lparr>tm_meta = (\<lambda>key. if key = ''general.architecture'' then Some ''qwen2vl'' else Some ''u''),
     tm_n_embd_out = 1, tm_n_embd_inp = 1, tm_n_layer = 1, tm_dev_layer = (\<lambda>_. Some CPU_device), tm_dev_output = None,
     tm_vocab = Some demo_vocab, tm_chat_template = Some ''x'',
     tm_token_embd = Some \<lparr>et_ne0 = 1, et_ne1 = 3, et_nb1 = 4, et_contiguous = True, et_buffer = True,
       et_values = F32_table (\<lambda>_. f32_one)\<rparr>\<rparr>"

definition demo_grid :: image_tokens where
  "demo_grid = \<lparr>it_n_tokens = 1, it_decoder_pos = (\<lambda>_ _. \<lparr>dp_t = 0, dp_x = 0, dp_y = 0, dp_z = 0\<rparr>)\<rparr>"

definition demo_chunks :: "input_chunk list" where
  "demo_chunks = [\<lparr>ck_type = Text_chunk, ck_n_tokens = 1, ck_n_pos = 1, ck_text = Some [2], ck_image = None\<rparr>,
     \<lparr>ck_type = Image_chunk, ck_n_tokens = 1, ck_n_pos = 1, ck_text = None, ck_image = Some demo_grid\<rparr>]"

definition demo_norm_node :: node_info where
  "demo_norm_node = \<lparr>nd_name = ''result_norm'', nd_ne = [1, 2, 1, 1], nd_contiguous = True, nd_device = Some CPU_device\<rparr>"

definition demo_lib :: "(unit, unit, unit) qwen_lib" where
  "demo_lib = \<lparr>ql_conv = \<lparr>fp32_to_bf16 = (\<lambda>x. ucast (drop_bit 16 x)), bf16_to_fp32 = (\<lambda>x. push_bit 16 (ucast x)),
       fp16_to_fp32 = (\<lambda>_. f32_zero)\<rparr>,
     ql_apply_template = (\<lambda>_ _ _ _. (1, ''y'')), ql_marker = Some ''m'', ql_bitmap = (\<lambda>_ _ _. Some ()), ql_chunks_init = True,
     ql_tokenize = (\<lambda>_ _ _. (0, demo_chunks, ())), ql_use_mrope = (\<lambda>_. True), ql_encode = (\<lambda>_ _. (0, [], ())),
     ql_output_embd = (\<lambda>_. Some (\<lambda>_. f32_one)),
     ql_decode = (\<lambda>batch embeddings _. if embeddings
       then Asked demo_norm_node (\<lambda>_. Computed demo_norm_node (F32_values (\<lambda>_. f32_one)) (\<lambda>_ _. Decoded 0 ()))
       else Decoded 0 ()),
     ql_synchronize = (\<lambda>_. ()), ql_memory_clear = (\<lambda>_. ()),
     ql_logits = (\<lambda>_. Some (\<lambda>i. if i = 0 then f32_one else f32_zero))\<rparr>"

definition demo_loader :: "(unit, unit) qwen_loader" where
  "demo_loader = \<lparr>ld_gguf = (\<lambda>_. Some \<lparr>gguf_find_key = (\<lambda>key. if key = ''clip.projector_type'' then 1 else 0),
       gguf_get_kv_type = (\<lambda>_. GGUF_TYPE_STRING),
       gguf_get_val_str = (\<lambda>i. if i = 1 then ''qwen2.5vl_merger'' else ''u''),
       gguf_get_val_i32 = (\<lambda>_. 0), gguf_get_val_u32 = (\<lambda>_. 0), gguf_get_val_f32 = (\<lambda>_. f32_zero), gguf_get_val_bool = (\<lambda>_. False),
       gguf_get_arr_type = (\<lambda>_. GGUF_TYPE_STRING), gguf_get_arr_n = (\<lambda>_. 0), gguf_get_arr_str = (\<lambda>_ _. []),
       gguf_arr_data_i32 = (\<lambda>_. None), gguf_arr_data_f32 = (\<lambda>_. None), gguf_arr_data_u8 = (\<lambda>_. None)\<rparr>),
     ld_model = (\<lambda>_. Some demo_text_model),
     ld_context = (\<lambda>_ p. Some \<lparr>cx_n_ctx = cp_n_ctx p, cx_n_batch = cp_n_batch p, cx_n_ubatch = cp_n_ubatch p,
       cx_embeddings = cp_embeddings p, cx_state = ()\<rparr>),
     ld_vision = (\<lambda>_ _ _. Some ()), ld_text_graphs = (\<lambda>_ _. ()), ld_vision_graphs = (\<lambda>_ _. ())\<rparr>"

definition demo_picture :: qwen_image where
  "demo_picture = \<lparr>qi_data = Some [1, 2, 3], qi_width = 1, qi_height = 1, qi_channels = 3, qi_stride = 3\<rparr>"

lemmas demo_bridge_defs = demo_bridge_config_def demo_vocab_def demo_text_model_def demo_lib_def demo_loader_def demo_picture_def

definition demo_impl :: "(unit, unit) qwen_impl" where
  "demo_impl = (new_impl demo_bridge_config)\<lparr>im_backend_initialized := True, im_model := Some demo_text_model,
     im_architecture := qwen2_5_vl, im_text_placement := \<lparr>accelerator_compute = False, cpu_compute = True\<rparr>,
     im_vocab := Some demo_vocab, im_context := Some \<lparr>cx_n_ctx = 8, cx_n_batch = 8, cx_n_ubatch = 8,
       cx_embeddings = False, cx_state = ()\<rparr>, im_vision := Some ()\<rparr>"

lemma demo_load: "qwen_bridge_load demo_loader Compiled_cpu demo_bridge_config = (Some (Inr demo_impl), [])"
proof -
  have complete: "bridge_config_complete demo_bridge_config" by (simp add: bridge_config_complete_def demo_bridge_config_def)
  have steps: "load_steps demo_loader Compiled_cpu demo_bridge_config (new_impl demo_bridge_config) = (Some (Inr ()), demo_impl)"
    by (simp add: load_steps_def gguf_string_metadata_def load_text_model_def init_text_context_def init_vision_def
        bind_act_def demo_bridge_defs model_metadata_def qwen_vl_resolve_architecture_def place_device_def tokenize_def
        text_context_params_def refresh_backend_name_def demo_impl_def new_impl_def new_capture_def no_placement_def
        to_int32_def fits_sint_def Let_def)
  show ?thesis by (simp add: qwen_bridge_load_def complete steps)
qed

subsection \<open>The prompt\<close>

definition demo_prepared :: prepared_batch where
  "demo_prepared = \<lparr>pb_token_count = 2, pb_position_count = 2, pb_embeddings = [f32_one, f32_one],
     pb_positions = [0, 0, 0, 0, 0, 0, 0, 0], pb_outputs = [0, 0], pb_token_ids = [2, - 1]\<rparr>"

lemma demo_rounding: "bf16_round (ql_conv demo_lib) f32_one = f32_one"
  by (simp add: bf16_round_def demo_lib_def f32_one_def)

lemma demo_prepare:
  "prepare_multimodal_batch demo_lib demo_bridge_config demo_text_model demo_chunks ((), p) = (Some (Inr demo_prepared), (), p)"
proof -
  have sizes: "size_cast 1 = 1" "to_int32 1 = 1" "to_int32 0 = 0" "to_int64 1 = 1" by (simp_all add: size_cast_def to_int32_def to_int64_def)
  have one: "[0..<1] = [0]" by simp
  have conv: "bf16_round (ql_conv demo_lib) (case ql_output_embd demo_lib () of Some x \<Rightarrow> x i) = f32_one" for i
    using demo_rounding by (simp add: demo_lib_def)
  have step: "fill_batch demo_lib (tm_token_embd demo_text_model) 1 1 demo_chunks 0 ((), p) =
      (Some (Inr ([\<lparr>bt_row = [f32_one], bt_id = 2, bt_pos = (0, 0, 0, 0)\<rparr>, \<lparr>bt_row = [f32_one], bt_id = - 1, bt_pos = (0, 0, 0, 0)\<rparr>], 2)), (), p)"
    using demo_rounding
    by (simp add: demo_chunks_def bind_act_def chunk_tokens_def text_chunk_tokens_def image_chunk_tokens_def
        image_batch_token_def copy_token_embedding_def demo_text_model_def demo_grid_def sizes INT_MAX_def size_max_def Let_def)
      (simp add: demo_lib_def bind_act_def image_batch_token_def Let_def)
  have "count_chunk_tokens demo_chunks 0 = Inr 2" by (simp add: demo_chunks_def size_max_def)
  moreover have "lay_out 2 [\<lparr>bt_row = [f32_one], bt_id = 2, bt_pos = (0, 0, 0, 0)\<rparr>,
      \<lparr>bt_row = [f32_one], bt_id = - 1, bt_pos = (0, 0, 0, 0)\<rparr>] 2 = demo_prepared"
    by (simp add: lay_out_def demo_prepared_def two_items)
  moreover have "ql_use_mrope demo_lib ()" "tm_n_embd_inp demo_text_model = 1" "qb_hidden_size demo_bridge_config = 1"
    "qb_input_embedding_size demo_bridge_config = 1"
    by (simp_all add: demo_lib_def demo_text_model_def demo_bridge_config_def)
  ultimately show ?thesis
    using step by (simp add: prepare_multimodal_batch_def bind_act_def sizes INT_MAX_def size_max_def Let_def)
qed

text \<open>The witness of the batch promise.\<close>

theorem prepared_batch_exact_witness:
  "pb_token_ids demo_prepared = concat (map chunk_ids demo_chunks) \<and> pb_position_count demo_prepared = 2 \<and>
   chunk_token demo_lib (tm_token_embd demo_text_model) 1 1 () 1 (demo_chunks ! 1) 0 (token_at 1 demo_prepared 1)"
proof -
  have chunk: "1 < length demo_chunks" "0 < ck_n_tokens (demo_chunks ! 1)" by (simp_all add: demo_chunks_def)
  have sizes: "size_cast (qb_hidden_size demo_bridge_config) = 1" "size_cast (qb_input_embedding_size demo_bridge_config) = 1"
    "token_start demo_chunks 1 + 0 = 1" "position_start demo_chunks 1 = 1"
    by (simp_all add: demo_bridge_config_def size_cast_def token_start_def position_start_def demo_chunks_def)
  have each: "\<forall>k<length demo_chunks. \<forall>j<ck_n_tokens (demo_chunks ! k). token_start demo_chunks k + j < pb_token_count demo_prepared \<and>
      chunk_token demo_lib (tm_token_embd demo_text_model) (size_cast (qb_hidden_size demo_bridge_config))
        (size_cast (qb_input_embedding_size demo_bridge_config)) (fold (encoded demo_lib) (take k demo_chunks) (fst ((), no_placement)))
        (position_start demo_chunks k) (demo_chunks ! k) j
        (token_at (size_cast (qb_input_embedding_size demo_bridge_config)) demo_prepared (token_start demo_chunks k + j))"
    and ids: "pb_token_ids demo_prepared = concat (map chunk_ids demo_chunks)"
    using prepared_batch_exact [OF demo_prepare [of no_placement]] by blast+
  have "chunk_token demo_lib (tm_token_embd demo_text_model) 1 1 (fold (encoded demo_lib) (take 1 demo_chunks) (fst ((), no_placement))) 1
      (demo_chunks ! 1) 0 (token_at 1 demo_prepared 1)"
    using each [rule_format, OF chunk] unfolding sizes by (rule conjunct2)
  with ids show ?thesis by (simp add: demo_prepared_def)
qed

lemma demo_prompt:
  "prompt_batch demo_lib demo_bridge_config qwen2_5_vl demo_text_model [demo_picture] instruction demo_impl =
    (Some (Inr (demo_chunks, demo_prepared)), demo_impl)"
proof -
  have pack: "pack_image demo_picture \<lparr>pl_row_bytes = 3, pl_stride_bytes = 3, pl_packed_bytes = 3\<rparr> = Some [1, 2, 3]"
    by (simp add: pack_image_def demo_picture_def image_row_def)
  have valid: "validate_image demo_picture = Inr \<lparr>pl_row_bytes = 3, pl_stride_bytes = 3, pl_packed_bytes = 3\<rparr>"
    by (simp add: validate_image_def demo_picture_def size_max_def)
  have tokens: "tokenize_multimodal_prompt demo_lib qwen2_5_vl demo_text_model [demo_picture] instruction () =
      (Some (Inr demo_chunks), ())"
    by (simp add: tokenize_multimodal_prompt_def make_bitmap_def valid pack apply_chat_template_def demo_lib_def
        demo_text_model_def Let_def INT_MAX_def)
  show ?thesis
    using demo_prepare
    by (simp add: prompt_batch_def on_vision_def bind_act_def with_placement_def demo_impl_def new_impl_def tokens)
qed

subsection \<open>The extractions\<close>

definition demo_armed :: layer_capture where
  "demo_armed = new_capture\<lparr>lc_enabled := True, lc_token_count := 2, lc_hidden_size := 1, lc_layer_to_slot := [- 1],
     lc_deepstack_to_slot := [- 1], lc_result_norm_slot := 0, lc_values := [0, 0], lc_seen := [False]\<rparr>"

lemma demo_arm: "arm_capture 2 1 [- 1] [- 1] 0 1 1 new_capture = demo_armed"
  by (simp add: arm_capture_def begin_layer_boundary_tracking_def demo_armed_def new_capture_def f32_zero_def two_items)

definition demo_captured :: layer_capture where
  "demo_captured = demo_armed\<lparr>lc_values := [f32_one, f32_one], lc_seen := [True]\<rparr>"

lemma demo_target: "capture_target demo_armed ''result_norm'' =
   \<lparr>tg_slot = 0, tg_layer = - 1, tg_deepstack = - 1, tg_round_layer = False, tg_round_deepstack = False\<rparr>"
  by (simp add: capture_target_def indexed_output_index_def qwen_vl_is_final_norm_tensor_name_def demo_armed_def new_capture_def
      Let_def)

lemma demo_wanted: "wanted demo_armed ''result_norm''"
  by (simp add: wanted_def demo_target) (simp add: demo_armed_def)

lemma demo_capture_node:
  "capture_node (ql_conv demo_lib) demo_norm_node (F32_values (\<lambda>_. f32_one)) demo_armed =
    (True, F32_values (\<lambda>_. f32_one), demo_captured)"
proof -
  have sizes: "signed_take_bit 63 (1 :: int) = 1" "signed_take_bit 63 (2 :: int) = 2" by simp_all
  have parts: "lc_seen demo_armed = [False]" "lc_hidden_size demo_armed = 1" "lc_token_count demo_armed = 2"
    "lc_values demo_armed = [0, 0]" by (simp_all add: demo_armed_def)
  have "captured_values (ql_conv demo_lib) demo_armed demo_norm_node (F32_values (\<lambda>_. f32_one)) = Inr (2, [f32_one, f32_one])"
    by (simp add: captured_values_def demo_norm_node_def demo_target check_slot_def check_range_def rounded_values_def parts sizes
        size_max_def demo_rounding two_items)
  then show ?thesis
    by (simp add: capture_node_def demo_norm_node_def demo_wanted demo_target store_slot_def mark_rounded_def demo_captured_def
        parts)
qed

lemma demo_decode:
  "im_context im = Some \<lparr>cx_n_ctx = 8, cx_n_batch = 8, cx_n_ubatch = 8, cx_embeddings = True, cx_state = ()\<rparr> \<Longrightarrow>
   im_capture im = demo_armed \<Longrightarrow> decode_and_synchronize demo_lib batch im =
    (Some (Inr 0), im\<lparr>im_text_placement := (im_text_placement im)\<lparr>cpu_compute := True\<rparr>, im_capture := demo_captured\<rparr>)"
  using demo_capture_node demo_wanted
  by (simp add: decode_and_synchronize_def demo_lib_def observe_ask_def observe_computed_def observe_backend_placement_def
      demo_norm_node_def)

definition demo_idle :: "(unit, unit) qwen_impl" where
  "demo_idle = demo_impl\<lparr>im_capture := disable_capture demo_captured\<rparr>"

lemma demo_evaluate:
  "evaluate_captured demo_lib demo_prepared (on_capture (\<lambda>_. demo_armed) demo_impl) =
    (Some (Inr (demo_captured\<lparr>lc_enabled := False\<rparr>)),
     demo_impl\<lparr>im_context := Some \<lparr>cx_n_ctx = 8, cx_n_batch = 8, cx_n_ubatch = 8, cx_embeddings = True, cx_state = ()\<rparr>,
       im_capture := demo_captured\<lparr>lc_enabled := False\<rparr>\<rparr>)"
proof -
  have "lc_error demo_captured = []" "\<not> lc_bf16_boundaries demo_captured"
    by (simp_all add: demo_captured_def demo_armed_def new_capture_def)
  then show ?thesis
    by (simp add: evaluate_captured_def bind_act_def demo_decode context_calls on_context_def on_capture_def
        demo_impl_def new_impl_def validate_layer_boundary_tracking_def)
qed

lemma demo_parts:
  "bridge_parts demo_impl = Some (demo_text_model, \<lparr>cx_n_ctx = 8, cx_n_batch = 8, cx_n_ubatch = 8, cx_embeddings = False,
     cx_state = ()\<rparr>, demo_vocab)" "im_config demo_impl = demo_bridge_config" "im_architecture demo_impl = qwen2_5_vl"
  "im_deepstack demo_impl = 0" "im_capture demo_impl = new_capture"
  by (simp_all add: bridge_parts_def demo_impl_def new_impl_def)

lemma demo_sizes:
  "tm_n_layer demo_text_model = 1" "qb_hidden_size demo_bridge_config = 1" "qb_vocab_size demo_bridge_config = 3"
  "qb_expected_image_count demo_bridge_config = 1" "qb_action_token demo_bridge_config = ''a''"
  "qb_action_token_id demo_bridge_config = 2" "qb_image_spatial_merge_size demo_bridge_config = 1"
  "pb_token_count demo_prepared = 2" "pb_position_count demo_prepared = 2" "pb_token_ids demo_prepared = [2, - 1]"
  "size_cast 1 = 1" "size_cast 3 = 3" "to_int32 8 = 8"
  by (simp_all add: demo_text_model_def demo_bridge_config_def demo_prepared_def size_cast_def to_int32_def)

lemma demo_captured_parts: "lc_seen demo_captured = [True]" "lc_values demo_captured = [f32_one, f32_one]"
  by (simp_all add: demo_captured_def)

lemma demo_armed_impl: "on_capture (arm_capture 2 (Suc 0) [- 1] [- 1] 0 (Suc 0) (Suc 0)) demo_impl = on_capture (\<lambda>_. demo_armed) demo_impl"
  using demo_arm by (simp add: on_capture_def demo_parts)

lemma demo_layers:
  "\<exists>im'. extract_layer_hidden_states demo_lib Compiled_cpu [demo_picture] [] [1] demo_impl =
    (Some (Inr ([f32_one, f32_one], [1, 1])), im')"
proof -
  have slots: "place_slots qwen2_5_vl 1 0 [1] 0 ([- 1], [- 1], - 1) = Inr ([- 1], [- 1], 0)"
    by (simp add: qwen_vl_hidden_state_source_def)
  show ?thesis
    using slots demo_evaluate
    by (simp add: extract_layer_hidden_states_def demo_parts demo_sizes attempt_def bind_act_def demo_prompt check_batch_def
        size_max_def demo_armed_impl demo_captured_parts two_items)
qed

theorem layer_states_exact_witness:
  "\<exists>states im'. extract_layer_hidden_states demo_lib Compiled_cpu [demo_picture] [] [1] demo_impl =
    (Some (Inr (states, [1, 1])), im') \<and> length states = 2"
proof -
  obtain im' where run: "extract_layer_hidden_states demo_lib Compiled_cpu [demo_picture] [] [1] demo_impl =
    (Some (Inr ([f32_one, f32_one], [1, 1])), im')" using demo_layers by blast
  have "length [f32_one, f32_one] = length [1 :: int] * (length [1, 1 :: u8] * size_cast (qb_hidden_size (im_config demo_impl)))"
    using layer_states_exact [OF run] by (auto simp: Let_def)
  with run show ?thesis by auto
qed

lemma demo_final_state:
  "\<exists>im'. capture_final_state demo_lib demo_bridge_config qwen2_5_vl demo_text_model demo_prepared demo_impl =
    (Some (Inr [f32_one, f32_one]), im')"
  using demo_evaluate
  by (simp add: capture_final_state_def final_request_def demo_sizes Let_def bind_act_def demo_armed_impl demo_captured_parts)

lemma demo_tokens:
  "\<exists>im'. extract_token_embeddings demo_lib Compiled_cpu [demo_picture] instruction 2 1 demo_impl = (Some (Inr [f32_one]), im')"
proof -
  have "token_positions [2, - 1] 2 = [0]" by (simp add: token_positions_def upt_rec)
  moreover obtain im1 where "capture_final_state demo_lib demo_bridge_config qwen2_5_vl demo_text_model demo_prepared demo_impl =
    (Some (Inr [f32_one, f32_one]), im1)" using demo_final_state by blast
  ultimately show ?thesis
    by (simp add: extract_token_embeddings_def demo_parts demo_sizes attempt_def bind_act_def demo_prompt check_batch_def block_def)
qed

theorem token_states_exact_witness:
  "\<exists>rows im'. extract_token_embeddings demo_lib Compiled_cpu [demo_picture] [] 2 1 demo_impl = (Some (Inr rows), im') \<and>
    length rows = 1 \<and> fst (prompt_batch demo_lib demo_bridge_config qwen2_5_vl demo_text_model [demo_picture] [] demo_impl) =
      Some (Inr (demo_chunks, demo_prepared)) \<and> token_positions (concat (map chunk_ids demo_chunks)) 2 \<noteq> []"
proof -
  obtain im' where run: "extract_token_embeddings demo_lib Compiled_cpu [demo_picture] [] 2 1 demo_impl = (Some (Inr [f32_one]), im')"
    using demo_tokens by blast
  have "length [f32_one] = 1 * size_cast (qb_hidden_size (im_config demo_impl)) \<and>
      token_positions (concat (map chunk_ids demo_chunks)) 2 \<noteq> []"
    using token_states_exact [OF run] by (auto simp: Let_def demo_parts demo_prompt)
  with run demo_prompt show ?thesis by auto
qed

subsection \<open>Generation\<close>

lemma demo_export:
  "export_prepared_inputs demo_bridge_config demo_vocab demo_chunks demo_prepared = Some (Inr ([2, 1], [1, 1], [1, 1, 1]))"
proof -
  have pad: "tokenize demo_vocab ''<|image_pad|>'' True = Some [1]"
    by (simp add: tokenize_def demo_vocab_def fits_sint_def)
  have grid: "image_grid demo_bridge_config \<lparr>ck_type = Image_chunk, ck_n_tokens = 1, ck_n_pos = 1, ck_text = None,
      ck_image = Some demo_grid\<rparr> = Inr [1, 1, 1]"
    by (simp add: image_grid_def grid_extent_def demo_grid_def demo_sizes INT64_MAX_def size_max_def)
  show ?thesis
    using grid by (simp add: export_prepared_inputs_def pad demo_sizes demo_chunks_def two_items)
qed

definition demo_generation :: generation_config where
  "demo_generation = \<lparr>gn_max_length = 4, gn_eos_token_ids = [0], gn_top_k = 1, gn_repetition_penalty = f32_one\<rparr>"

lemma demo_choice:
  "qwen_vl_select_repetition_penalized_top1 (Some (\<lambda>i. if i = 0 then f32_one else f32_zero)) 3 [2, 1] f32_one = Inr 0"
proof -
  have three: "[0..<3] = [0, Suc 0, 2]" by (simp add: upt_rec numeral_2_eq_2 numeral_3_eq_3)
  have "f32_div f32_zero f32_one = f32_zero" by (simp add: ieee_eval)
  then show ?thesis
    by (simp add: qwen_vl_select_repetition_penalized_top1_def mark_repeated_exact three penalize_def Let_def INT_MAX_def)
      (simp add: f32_finite_def f32_le_def f32_lt_def f32_nan_def f32_key_def f32_one_def f32_zero_def fmt_simps)
qed

lemma demo_text_decode:
  "im_context im = Some \<lparr>cx_n_ctx = 8, cx_n_batch = 8, cx_n_ubatch = 8, cx_embeddings = False, cx_state = ()\<rparr> \<Longrightarrow>
   decode_and_synchronize demo_lib batch im = (Some (Inr 0), im)"
  by (simp add: decode_and_synchronize_def demo_lib_def)

lemma demo_generate:
  "\<exists>im'. generate_autoregressive demo_lib Compiled_cpu [demo_picture] [] demo_generation demo_impl =
    (Some (Inr \<lparr>gr_prompt_token_count = 2, gr_full_sequence = [2, 1, 0], gr_continuation = [0]\<rparr>), im')"
proof -
  let ?im = "memory_clear demo_lib (set_embeddings False (on_capture disable_capture demo_impl))"
  have cx: "im_context ?im = Some \<lparr>cx_n_ctx = 8, cx_n_batch = 8, cx_n_ubatch = 8, cx_embeddings = False, cx_state = ()\<rparr>"
    by (simp add: context_calls demo_impl_def new_impl_def)
  have eos: "mark_eos 3 [0] (replicate 3 False) = Inr [True, False, False]" by (simp add: numeral_3_eq_3)
  have loop: "generate_loop demo_lib 3 4 f32_one [True, False, False] 2 [2, 1] [] ?im = (Some (Inr ([2, 1, 0], [0])), ?im)"
    using demo_choice cx by (subst generate_loop.simps) (simp add: read_logits_def demo_lib_def)
  have penalty: "f32_finite f32_one" "\<not> f32_le f32_one f32_zero" by (simp_all add: ieee_eval)
  show ?thesis
    using eos loop demo_export penalty demo_text_decode [OF cx]
    by (simp add: generate_autoregressive_def demo_parts demo_sizes demo_generation_def attempt_def bind_act_def demo_prompt
        INT_MAX_def Let_def comp_def)
qed

theorem generation_exact_witness:
  "\<exists>r im'. generate_autoregressive demo_lib Compiled_cpu [demo_picture] [] demo_generation demo_impl = (Some (Inr r), im') \<and>
    generated 4 {0} (gr_prompt_token_count r) (gr_continuation r) \<and>
    (\<exists>pad. gr_full_sequence r = [2, pad] @ gr_continuation r)"
proof -
  obtain r im' where run: "generate_autoregressive demo_lib Compiled_cpu [demo_picture] [] demo_generation demo_impl =
      (Some (Inr r), im')" using demo_generate by blast
  have "qb_vocab_size (im_config demo_impl) \<le> INT_MAX" by (simp add: demo_parts demo_sizes INT_MAX_def)
  from generation_exact [OF run this] run show ?thesis
    by (auto simp: demo_generation_def demo_parts demo_prompt) (simp_all add: demo_chunks_def chunk_ids_def)
qed

subsection \<open>A life\<close>

theorem bridge_always_idle_witness:
  "bridge_reachable demo_loader demo_lib Compiled_cpu demo_bridge_config (qwen_bridge_reset demo_lib demo_impl) \<and>
   bridge_idle (qwen_bridge_reset demo_lib demo_impl)"
proof -
  have reachable: "bridge_reachable demo_loader demo_lib Compiled_cpu demo_bridge_config (qwen_bridge_reset demo_lib demo_impl)"
    by (rule bridge_reachable.step [OF bridge_reachable.loaded [OF demo_load] reset_step])
  have "bridge_idle (qwen_bridge_reset demo_lib demo_impl) \<and>
      bridge_loaded demo_bridge_config (qwen_bridge_reset demo_lib demo_impl)"
    by (rule bridge_always_idle [OF reachable]) (auto simp: demo_loader_def)
  with reachable show ?thesis by blast
qed

end
