(* ===== verification/StarVLAExamples.thy ===== *)
theory StarVLAExamples
  imports StarVLAModel QwenExamples
begin

text \<open>
  A FAST engine that loads from the small policy file and the small bridge, and an OFT engine that answers an
  observation: the promises of the engine speak of runs that exist.
\<close>

subsection \<open>Loading\<close>

definition wide_vocab :: vocab where "wide_vocab = demo_vocab\<lparr>vo_n_tokens := 200\<rparr>"
definition wide_model :: text_model where "wide_model = demo_text_model\<lparr>tm_vocab := Some wide_vocab\<rparr>"

definition demo_world :: "(unit, unit, unit, unit, unit, unit) starvla_world" where
  "demo_world = \<lparr>sw_files = \<lparr>fq_regular = (\<lambda>_. (True, None)), fq_equivalent = (\<lambda>_ _. False)\<rparr>,
     sw_env = \<lparr>le_backend = Inr (), le_platform = \<lparr>pl_context = True, pl_buffer = True\<rparr>, le_open = (\<lambda>_. Some small_file)\<rparr>,
     sw_builder = undefined,
     sw_executor = \<lparr>ex_set = (\<lambda>_ _. Some), ex_compute = (\<lambda>_. Some), ex_get = (\<lambda>_ n _. Some (replicate n f32_one)),
       ex_exp = id, ex_log = id, ex_sin = id, ex_cos = id\<rparr>,
     sw_memory = (), sw_cosine = id, sw_loader = demo_loader\<lparr>ld_model := (\<lambda>_. Some wide_model)\<rparr>, sw_lib = demo_lib,
     sw_built = Compiled_cpu, sw_seed = (\<lambda>_. ()), sw_random = (), sw_normals = (\<lambda>n _. (replicate n f32_one, ())),
     sw_elapsed = (\<lambda>_. f64_one)\<rparr>"

definition demo_engine_config :: engine_config where
  "demo_engine_config = \<lparr>ec_policy_path = ''p'', ec_text_path = ''t.gguf'', ec_mmproj_path = ''m.gguf'', ec_n_threads = 1,
     ec_n_ctx = 8, ec_n_batch = 8, ec_noise_seed = 7, ec_verbosity = 0\<rparr>"

definition fast_demo_image :: image_config where
  "fast_demo_image = \<lparr>ic_image_count = 1, ic_image_names = [''cam''], ic_min_pixels = 1, ic_max_pixels = 4, ic_patch_size = 1,
     ic_spatial_merge_size = 1, ic_min_token_count = 1, ic_max_token_count = 4\<rparr>"

definition fast_demo :: fast_policy_config where
  "fast_demo = \<lparr>fp_bundle = small_bundle, fp_qwen_hidden_dim = 1, fp_qwen_input_embedding_dim = 1, fp_qwen_vocab_size = 200,
     fp_qwen_layer_count = 1, fp_cot_template = ''{instruction}'', fp_action_dim = 1, fp_horizon = 1, fp_image = fast_demo_image,
     fp_max_length = 8, fp_eos_token_ids = [0], fp_top_k = 1, fp_repetition_penalty = f32_one, fp_normalization = small_norm\<rparr>"

lemma fast_demo_loaded:
  "load_fast_policy (\<lambda>_. Some small_file) ''p'' = Some (Inr \<lparr>po_config = fast_demo, po_codec = sample_codec\<rparr>)"
proof -
  have positive: "f32_positive f32_one"
    by (simp add: f32_positive_def f32_finite_def f32_lt_def f32_nan_def f32_key_def f32_one_def f32_zero_def fmt_simps)
  obtain unread where read: "read_fast_config (gguf_of small_fast) = Inr (fast_demo\<lparr>fp_normalization := unread\<rparr>, 8)"
    by (simp add: read_fast_config_def small_bundle_read small_image_read require_of small_lookups fast_demo_def
        fast_demo_image_def size_cast_def)
  have "fast_dimensions_valid (fast_demo\<lparr>fp_normalization := unread\<rparr>) 8"
    using positive by (simp add: fast_dimensions_valid_def image_config_valid_def fast_demo_def fast_demo_image_def)
  with read have "parse_fast_metadata (gguf_of small_fast) = Some (Inr (fast_demo, small_runtime))"
    by (simp add: parse_fast_metadata_def small_runtime_read small_norm_read fast_codec_valid_def small_runtime_def
        sample_config_def size_to_int_def fits_sint_def fast_demo_def)
  moreover have "pf_gguf small_file = gguf_of small_fast" by (simp add: small_file_def)
  ultimately show ?thesis by (simp add: load_fast_policy_def small_codec_read)
qed

definition fast_engine_policy :: "(unit, unit) engine_policy" where
  "fast_engine_policy = Fast_policy \<lparr>po_config = fast_demo, po_codec = sample_codec\<rparr>"

abbreviation "fast_bridge_config \<equiv> bridge_config_of demo_engine_config qwen25_fast fast_engine_policy"

lemma fast_bridge_complete: "bridge_config_complete fast_bridge_config"
  by (simp add: bridge_config_complete_def bridge_config_of_def fast_engine_policy_def fast_demo_def fast_demo_image_def
      demo_engine_config_def small_bundle_def Let_def)

lemma fast_bridge_loaded:
  "\<exists>q. qwen_bridge_load (sw_loader demo_world) Compiled_cpu fast_bridge_config = (Some (Inr q), []) \<and>
    im_architecture q = qwen2_5_vl"
proof -
  let ?ld = "sw_loader demo_world"
  have "\<exists>q. load_steps ?ld Compiled_cpu fast_bridge_config (new_impl fast_bridge_config) = (Some (Inr ()), q) \<and>
      im_architecture q = qwen2_5_vl"
    by (simp add: load_steps_def gguf_string_metadata_def load_text_model_def init_text_context_def init_vision_def
        bind_act_def demo_bridge_defs model_metadata_def qwen_vl_resolve_architecture_def place_device_def
        text_context_params_def refresh_backend_name_def new_impl_def new_capture_def no_placement_def
        wide_model_def wide_vocab_def demo_world_def bridge_config_of_def fast_engine_policy_def fast_demo_def
        fast_demo_image_def demo_engine_config_def small_bundle_def to_int32_def fits_sint_def Let_def)
  then show ?thesis by (auto simp: qwen_bridge_load_def fast_bridge_complete)
qed

lemma position_within: "map_of es key = Some v \<Longrightarrow> 0 \<le> i \<Longrightarrow> position_of key es i < i + int (length es)"
proof (induction es arbitrary: i)
  case (Cons e es)
  then show ?case using Cons.IH [of "i + 1"] by (cases "fst e = key") (auto simp: algebra_simps)
qed simp

lemma key_index:
  assumes "map_of es key = Some (GStr s)" "length es < 100"
  shows "\<not> to_int32 (gguf_find_key (gguf_of es) key) < 0"
    "gguf_get_kv_type (gguf_of es) (to_int32 (gguf_find_key (gguf_of es) key)) = GGUF_TYPE_STRING"
    "gguf_get_val_str (gguf_of es) (to_int32 (gguf_find_key (gguf_of es) key)) = s"
proof -
  define i where "i = position_of key es 0"
  have i: "0 \<le> i" "i < 100" "snd (es ! nat i) = GStr s"
    using position_within [OF assms(1), of 0] position_of_found [OF assms(1), of 0] assms(2) by (auto simp: i_def)
  have "to_int32 i = i" using i(1,2) by (simp add: to_int32_def signed_take_bit_int_eq_self)
  moreover have "gguf_find_key (gguf_of es) key = i" by (simp add: gguf_of_def i_def Let_def)
  ultimately show "\<not> to_int32 (gguf_find_key (gguf_of es) key) < 0"
    "gguf_get_kv_type (gguf_of es) (to_int32 (gguf_find_key (gguf_of es) key)) = GGUF_TYPE_STRING"
    "gguf_get_val_str (gguf_of es) (to_int32 (gguf_find_key (gguf_of es) key)) = s"
    using i by (simp_all add: gguf_of_def Let_def)
qed

lemma small_fast_length: "length small_fast < 100"
  by (simp add: small_fast_def small_image_def small_normalization_def)

lemma demo_variant: "read_policy_variant (\<lambda>_. Some small_file) ''p'' = Inr qwen25_fast"
  using key_index [OF small_lookups(3) small_fast_length] key_index [OF small_lookups(4) small_fast_length]
  by (simp add: read_policy_variant_def small_file_def starvla_variant_from_metadata_def need_some_def Let_def)

lemma demo_engine_loaded: "\<exists>en. engine_load demo_world demo_engine_config = Some (Inr en)"
proof -
  obtain q where q: "qwen_bridge_load (sw_loader demo_world) Compiled_cpu fast_bridge_config = (Some (Inr q), [])"
    "im_architecture q = qwen2_5_vl" using fast_bridge_loaded by blast
  have policy: "load_engine_policy demo_world demo_engine_config qwen25_fast = Some (Inr fast_engine_policy)"
    by (simp add: load_engine_policy_def is_oft_def is_groot_def demo_world_def demo_engine_config_def fast_demo_loaded
        fast_engine_policy_def fast_demo_def to_int32_def Let_def)
  have components: "co_bundle (policy_components fast_engine_policy) = small_bundle"
    "co_input_embedding (policy_components fast_engine_policy) = 1" "co_normalization (policy_components fast_engine_policy) = small_norm"
    by (simp_all add: fast_engine_policy_def fast_demo_def Let_def)
  have profile: "resolve_normalization_profile small_norm [] = Some (Inr (hd (nc_profiles small_norm)))"
    by (simp add: resolve_default small_norm_def find_profile_def)
  have plain: "is_plain_basename ''t.gguf''" "is_plain_basename ''m.gguf''"
    by (simp_all add: is_plain_basename_def path_has_root_def path_has_parent_def path_filename_def)
  then have paths: "resolve_component_path (sw_files demo_world) ''t.gguf'' ''t.gguf'' ''text GGUF'' = Inr ''t.gguf''"
    "resolve_component_path (sw_files demo_world) ''m.gguf'' ''m.gguf'' ''mmproj GGUF'' = Inr ''m.gguf''"
    by (simp_all add: resolve_component_path_def path_filename_def require_regular_file_def demo_world_def)
  have world: "le_open (sw_env demo_world) = (\<lambda>_. Some small_file)" "sw_built demo_world = Compiled_cpu"
    "fq_regular (sw_files demo_world) x = (True, None)" "fq_equivalent (sw_files demo_world) x y = False" for x y
    by (simp_all add: demo_world_def)
  have cfg: "ec_policy_path demo_engine_config = ''p''" "ec_n_ctx demo_engine_config = 8" "ec_n_batch demo_engine_config = 8"
    "ec_n_threads demo_engine_config = 1" "ec_text_path demo_engine_config = ''t.gguf''"
    "ec_mmproj_path demo_engine_config = ''m.gguf''"
    by (simp_all add: demo_engine_config_def)
  have files_of: "bc_text_filename small_bundle = ''t.gguf''" "bc_mmproj_filename small_bundle = ''m.gguf''"
    "bc_backbone_arch small_bundle = ''qwen2_5_vl''" by (simp_all add: small_bundle_def)
  show ?thesis
    by (simp add: engine_load_def world cfg require_regular_file_def demo_variant policy components paths profile q files_of Let_def)
qed

lemma embeddings: "ld_context (sw_loader demo_world) m p = Some cx \<Longrightarrow> cx_embeddings cx = cp_embeddings p"
  unfolding demo_world_def demo_loader_def by simp (metis text_context.select_convs(4))

theorem engine_always_consistent_witness:
  "\<exists>en. engine_reachable demo_world demo_engine_config (engine_reset demo_world en) \<and>
     engine_consistent demo_engine_config (engine_reset demo_world en) \<and> bridge_idle (en_qwen (engine_reset demo_world en))"
proof -
  obtain en where "engine_load demo_world demo_engine_config = Some (Inr en)" using demo_engine_loaded by blast
  then have reachable: "engine_reachable demo_world demo_engine_config (engine_reset demo_world en)"
    by (rule engine_was_reset [OF engine_loaded])
  have "engine_consistent demo_engine_config (engine_reset demo_world en) \<and> bridge_idle (en_qwen (engine_reset demo_world en))"
    using embeddings by (rule engine_always_consistent [OF reachable])
  with reachable show ?thesis by blast
qed

subsection \<open>Prediction\<close>

definition oft_demo_profile :: norm_profile where
  "oft_demo_profile = \<lparr>np_key = ''k'', np_q01 = [f32_zero], np_q99 = [f32_one], np_mask = [0]\<rparr>"

definition oft_demo_config :: oft_policy_config where
  "oft_demo_config = \<lparr>oc_bundle = small_bundle, oc_input_dim = 1, oc_input_embedding_dim = 1, oc_vocab_size = 3,
     oc_hidden_dim = 1, oc_block_count = 1, oc_action_dim = 1, oc_horizon = 1, oc_layer_norm_epsilon = f32_one,
     oc_prompt = \<lparr>op_horizon = 1, op_action_token = ''a'',
       op_action_suffix = '' Please predict the next 1 robot actions: <action>a<action>.'', op_cot_enabled = False,
       op_cot_template = [], op_state_bins = 1, op_state_bin_min = f32_zero, op_state_bin_max = f32_one, op_state_clip = False\<rparr>,
     oc_action_token_id = 2, oc_image = fast_demo_image, oc_normalization = small_norm\<lparr>nc_continuous := [], nc_binary := [0], nc_profiles := [oft_demo_profile]\<rparr>\<rparr>"

definition oft_engine :: "(unit, unit, unit, unit, unit) engine" where
  "oft_engine = \<lparr>en_variant = qwen25_oft, en_profile_key = ''k'', en_normalization = oc_normalization oft_demo_config,
     en_rng = (), en_qwen = demo_impl, en_policy = Oft_policy (oft_demo_config, \<lparr>og_input = (), og_output = ()\<rparr>) ()\<rparr>"

definition demo_observation :: observation where
  "demo_observation = \<lparr>ob_images = [\<lparr>mi_name = ''cam'', mi_data = Some [1, 2, 3], mi_width = 1, mi_height = 1,
     mi_channels = 3, mi_stride = 0\<rparr>], ob_state = [], ob_noise = [], ob_task = ''go''\<rparr>"

lemma demo_observation_valid: "validate_observation demo_observation 1 [''cam''] True ''OFT'' = Some (Inr ())"
  by (simp add: validate_observation_def demo_observation_def check_image_def size_cast_def INT_MAX_def Let_def)

lemma demo_images: "prepare_qwen_images fast_demo_image ''OFT'' demo_observation = Some (Inr [demo_picture])"
proof -
  have dimensions: "qwen3vl_smart_resize_dimensions 1 1 1 1 4 = Some (Inr (1, 1))"
    by (simp add: qwen3vl_smart_resize_dimensions_def smart_sides_def mul64_def round_div_ties_to_even_def
        INT_MAX_def INT64_MAX_def ieee_eval)
  have "resize_rgb (Some [1, 2, 3]) 1 1 0 1 1 False = Some (Inr [1, 2, 3])"
    by (simp add: resize_rgb_def validate_resize_def INT_MAX_def pack_source_def source_row_def row_stride_def resize_pass_def)
  then have "preprocess_qwen3vl_rgb (Some [1, 2, 3]) 1 1 3 0 1 1 1 4 = Some (Inr ([1, 2, 3], 1, 1, 1))"
    by (simp add: preprocess_qwen3vl_rgb_def dimensions resize_torchvision_bicubic_aa_rgb_def INT_MAX_def)
  then show ?thesis
    by (simp add: prepare_qwen_images_def prepare_qwen_image_def demo_observation_def fast_demo_image_def image_view_def
        demo_picture_def fits_sint_def)
qed

lemma demo_instruction:
  "build_oft_instruction (oc_prompt oft_demo_config) ''go'' [] =
     Some (Inr ''go Please predict the next 1 robot actions: <action>a<action>.'')"
proof -
  have "validate_oft_prompt_config (oc_prompt oft_demo_config) = Inr ()"
    by (simp add: validate_oft_prompt_config_def oft_demo_config_def expected_suffix_def repeat_def
        int_to_string_def nat_to_string_small digit_char_eval f32_finite_def f32_le_def f32_lt_def f32_nan_def f32_key_def
        f32_one_def f32_zero_def fmt_simps)
  then show ?thesis
    by (simp add: build_oft_instruction_def has_sub_def find_at_def kMtmdMediaMarker_def state_part_def oft_demo_config_def)
qed

lemma demo_denormalized:
  "denormalize_actions (oc_normalization oft_demo_config) ''k'' [f32_one] 1 1 = Some (Inr [f32_one])"
proof -
  have "validate_normalization_config (oc_normalization oft_demo_config) 1 = Inr ()"
    by (simp add: validate_normalization_config_def oft_demo_config_def small_norm_def oft_demo_profile_def f32_finite_def f32_eq_def f32_lt_def
        f32_nan_def f32_key_def f32_half_def f32_one_def f32_zero_def fmt_simps)
  moreover have "resolve_normalization_profile (oc_normalization oft_demo_config) ''k'' = Some (Inr oft_demo_profile)"
    by (simp add: resolve_key find_profile_def oft_demo_config_def small_norm_def oft_demo_profile_def)
  moreover have "denormalize_one (oc_normalization oft_demo_config) oft_demo_profile [f32_one] 1 (0, 0) = Inr f32_one"
    by (simp add: denormalize_one_def denormalize_value_def oft_demo_config_def small_norm_def oft_demo_profile_def f32_clamp_def f32_finite_def
        f32_le_def f32_lt_def f32_nan_def f32_key_def f32_half_def f32_one_def f32_minus_one_def fmt_simps Let_def)
  ultimately show ?thesis by (simp add: denormalize_actions_def)
qed

lemma demo_prediction: "\<exists>r en'. starvla_model_predict demo_world demo_observation oft_engine = (Some (Inr r), en')"
proof -
  have profile: "resolve_normalization_profile (en_normalization oft_engine) (en_profile_key oft_engine) =
      Some (Inr oft_demo_profile)" "np_key oft_demo_profile = ''k''"
    by (simp_all add: oft_engine_def resolve_key find_profile_def oft_demo_config_def small_norm_def oft_demo_profile_def)
  have lib: "sw_lib demo_world = demo_lib" "sw_built demo_world = Compiled_cpu" by (simp_all add: demo_world_def)
  obtain q where q: "extract_token_embeddings demo_lib Compiled_cpu [demo_picture]
      ''go Please predict the next 1 robot actions: <action>a<action>.'' 2 1 demo_impl = (Some (Inr [f32_one]), q)"
    using demo_tokens by blast
  have policy: "en_policy oft_engine = Oft_policy (oft_demo_config, \<lparr>og_input = (), og_output = ()\<rparr>) ()"
    "en_qwen oft_engine = demo_impl" by (simp_all add: oft_engine_def)
  have parts: "oc_image oft_demo_config = fast_demo_image" "ic_image_count fast_demo_image = 1"
    "ic_image_names fast_demo_image = [''cam'']" "oc_action_token_id oft_demo_config = 2" "oc_horizon oft_demo_config = 1"
    "oc_input_dim oft_demo_config = 1" "oc_action_dim oft_demo_config = 1" "ob_noise demo_observation = []"
    "ob_state demo_observation = []" "ob_task demo_observation = ''go''" "size_cast 1 = 1"
    by (simp_all add: oft_demo_config_def fast_demo_image_def demo_observation_def size_cast_def)
  have evaluated: "oft_evaluate (sw_executor demo_world) (oft_demo_config, \<lparr>og_input = (), og_output = ()\<rparr>) (Some [f32_one]) () =
      Some (Inr [f32_one], ())"
    by (simp add: oft_evaluate_def parts run_graph_def demo_world_def)
  have one: "f32_finite f32_one" by (simp add: f32_finite_def f32_one_def fmt_simps)
  show ?thesis
    by (simp add: starvla_model_predict_def engine_predict_def bind_act_def failing_def profile policy predict_oft_def parts
        demo_observation_valid demo_images demo_instruction on_qwen_def lib q [unfolded One_nat_def] evaluated run_policy_def oft_unnormalize_def
        demo_denormalized finish_prediction_def one Let_def)
qed

theorem starvla_prediction_shaped_witness:
  "\<exists>r en'. starvla_model_predict demo_world demo_observation oft_engine = (Some (Inr r), en') \<and>
     length (mr_actions r) = 1 \<and> result_shaped r"
proof -
  obtain r en' where run: "starvla_model_predict demo_world demo_observation oft_engine = (Some (Inr r), en')"
    using demo_prediction by blast
  have "policy_shape (en_policy oft_engine) = (1, 1)" by (simp add: oft_engine_def oft_demo_config_def)
  from starvla_prediction_shaped [OF run this] show ?thesis using run by (auto simp: INT_MAX_def)
qed

end
