(* ===== verification/Pi0Types.thy ===== *)
theory Pi0Types
  imports GgufLoader Backend
begin

text \<open>
  The configuration of the Pi0 model (\<^verbatim>\<open>src/models/pi0/types.h\<close>) and its metadata readers
  (\<^verbatim>\<open>src/models/pi0/load.cpp\<close>).  A key that is absent leaves a setting as it is; a key of another type is
  an error.  An error is the first line the code writes to the error log before it returns \<open>false\<close>.
\<close>

subsection \<open>Configuration\<close>

record pi0_component_runtime_config =
  rc_backend :: string
  rc_data_type :: string
  rc_n_threads :: int

record pi0_component_config =
  cc_role :: string
  cc_architecture :: string
  cc_tensor_prefix :: string
  cc_runtime :: pi0_component_runtime_config

record pi0_vision_config =
  v0_component :: pi0_component_config
  v0_width :: int
  v0_patch_height :: int
  v0_patch_width :: int
  v0_layers :: int
  v0_heads :: int
  v0_norm_epsilon :: f32

record pi0_llm_config =
  l0_component :: pi0_component_config
  l0_width :: int
  l0_q_out :: int
  l0_kv_out :: int
  l0_mlp_width :: int
  l0_layers :: int

record pi0_action_config =
  a0_component :: pi0_component_config
  a0_width :: int
  a0_expert_width :: int
  a0_expert_q_out :: int
  a0_expert_kv_out :: int
  a0_expert_mlp_width :: int
  a0_expert_layers :: int

record pi0_config =
  p0_vision :: pi0_vision_config
  p0_mmproj :: pi0_component_config
  p0_llm :: pi0_llm_config
  p0_tokenizer :: pi0_component_config
  p0_action :: pi0_action_config
  p0_state :: pi0_component_config

record pi0_common_config =
  c0_model_type :: string
  c0_image_width :: int
  c0_image_height :: int
  c0_state_dim :: int
  c0_action_dim :: int
  c0_action_horizon :: int
  c0_max_token_len :: int
  c0_image_keys :: "string list"
  c0_state_mean :: "f32 list"
  c0_state_std :: "f32 list"
  c0_action_mean :: "f32 list"
  c0_action_std :: "f32 list"

record pi0_model_config =
  m0_component_role :: string
  m0_common :: pi0_common_config
  m0_pi0 :: pi0_config

text \<open>The initialisers of the members.\<close>

definition default_runtime_config :: pi0_component_runtime_config where
  "default_runtime_config = \<lparr>rc_backend = ''inherit'', rc_data_type = ''preserve'', rc_n_threads = 0\<rparr>"

definition default_component :: "string \<Rightarrow> string \<Rightarrow> string \<Rightarrow> pi0_component_config" where
  "default_component role architecture tensor_prefix =
     \<lparr>cc_role = role, cc_architecture = architecture, cc_tensor_prefix = tensor_prefix, cc_runtime = default_runtime_config\<rparr>"

definition default_pi0 :: pi0_config where
  "default_pi0 =
     \<lparr>p0_vision = \<lparr>v0_component = default_component ''vit'' ''pi0-vit'' ''pi0.vit.'', v0_width = 0, v0_patch_height = 0,
        v0_patch_width = 0, v0_layers = 0, v0_heads = 0, v0_norm_epsilon = f32_zero\<rparr>,
      p0_mmproj = default_component ''mmproj'' ''pi0-mmproj'' ''pi0.merger.'',
      p0_llm = \<lparr>l0_component = default_component ''llm'' ''gemma'' ''pi0.llm.'', l0_width = 0, l0_q_out = 0, l0_kv_out = 0,
        l0_mlp_width = 0, l0_layers = 0\<rparr>,
      p0_tokenizer = default_component ''tokenizer'' ''sentencepiece'' [],
      p0_action = \<lparr>a0_component = default_component ''action_decoder'' ''pi0-action-decoder'' ''pi0.action_decoder.'',
        a0_width = 0, a0_expert_width = 0, a0_expert_q_out = 0, a0_expert_kv_out = 0, a0_expert_mlp_width = 0,
        a0_expert_layers = 0\<rparr>,
      p0_state = default_component ''state'' ''pi0-state-proj'' ''pi0.action_decoder.state_proj.''\<rparr>"

definition default_common :: pi0_common_config where
  "default_common = \<lparr>c0_model_type = [], c0_image_width = 224, c0_image_height = 224, c0_state_dim = 0,
     c0_action_dim = 0, c0_action_horizon = 0, c0_max_token_len = 250, c0_image_keys = [], c0_state_mean = [],
     c0_state_std = [], c0_action_mean = [], c0_action_std = []\<rparr>"

definition default_model_config :: pi0_model_config where
  "default_model_config = \<lparr>m0_component_role = [], m0_common = default_common, m0_pi0 = default_pi0\<rparr>"

definition starts_with :: "string \<Rightarrow> string \<Rightarrow> bool" where
  "starts_with v prefix \<longleftrightarrow> length prefix \<le> length v \<and> take (length prefix) v = prefix"

subsection \<open>Readers\<close>

text \<open>\<open>out\<close> is the setting before the call.\<close>

definition gguf_string :: "gguf \<Rightarrow> string \<Rightarrow> string \<Rightarrow> string res" where
  "gguf_string g key out =
     (let idx = gguf_find_key g key in
      if idx < 0 then Inr out
      else if gguf_get_kv_type g idx \<noteq> GGUF_TYPE_STRING then Inl (''invalid GGUF string metadata type: '' @ key)
      else Inr (gguf_get_val_str g idx))"

definition gguf_i32 :: "gguf \<Rightarrow> string \<Rightarrow> int \<Rightarrow> int res" where
  "gguf_i32 g key out =
     (let idx = gguf_find_key g key in
      if idx < 0 then Inr out
      else if gguf_get_kv_type g idx = GGUF_TYPE_INT32 then Inr (gguf_get_val_i32 g idx)
      else if gguf_get_kv_type g idx = GGUF_TYPE_UINT32 then Inr (sint (gguf_get_val_u32 g idx))
      else Inl (''invalid GGUF integer metadata type: '' @ key))"

definition gguf_f32 :: "gguf \<Rightarrow> string \<Rightarrow> f32 \<Rightarrow> f32 res" where
  "gguf_f32 g key out =
     (let idx = gguf_find_key g key in
      if idx < 0 then Inr out
      else if gguf_get_kv_type g idx \<noteq> GGUF_TYPE_FLOAT32 then Inl (''invalid GGUF f32 metadata type: '' @ key)
      else Inr (gguf_get_val_f32 g idx))"

definition gguf_string_array :: "gguf \<Rightarrow> string \<Rightarrow> string list \<Rightarrow> string list res" where
  "gguf_string_array g key out =
     (let idx = gguf_find_key g key in
      if idx < 0 then Inr out
      else if gguf_get_kv_type g idx \<noteq> GGUF_TYPE_ARRAY \<or> gguf_get_arr_type g idx \<noteq> GGUF_TYPE_STRING then
        Inl (''invalid GGUF string-array metadata type: '' @ key)
      else Inr (map (gguf_get_arr_str g idx) [0..<gguf_get_arr_n g idx]))"

definition gguf_f32_array :: "gguf \<Rightarrow> string \<Rightarrow> f32 list \<Rightarrow> f32 list res" where
  "gguf_f32_array g key out =
     (let idx = gguf_find_key g key in
      if idx < 0 then Inr out
      else if gguf_get_kv_type g idx \<noteq> GGUF_TYPE_ARRAY \<or> gguf_get_arr_type g idx \<noteq> GGUF_TYPE_FLOAT32 then
        Inl (''invalid GGUF f32-array metadata type: '' @ key)
      else let count = gguf_get_arr_n g idx in
        case gguf_arr_data_f32 g idx of
          None \<Rightarrow> if count \<noteq> 0 then Inl (''missing GGUF array data: '' @ key) else Inr []
        | Some data \<Rightarrow> Inr (map data [0..<count]))"

definition parse_component_metadata :: "gguf \<Rightarrow> string \<Rightarrow> pi0_component_config \<Rightarrow> pi0_component_config res" where
  "parse_component_metadata g prefix c =
     bind_res (gguf_string g (prefix @ ''architecture'') (cc_architecture c)) (\<lambda>architecture.
     bind_res (gguf_string g (prefix @ ''prefix'') (cc_tensor_prefix c)) (\<lambda>tensor_prefix.
     bind_res (gguf_string g (prefix @ ''backend'') (rc_backend (cc_runtime c))) (\<lambda>backend.
     bind_res (gguf_string g (prefix @ ''dtype'') (rc_data_type (cc_runtime c))) (\<lambda>data_type.
     bind_res (gguf_i32 g (prefix @ ''n_threads'') (rc_n_threads (cc_runtime c))) (\<lambda>n_threads.
       Inr (c\<lparr>cc_architecture := architecture, cc_tensor_prefix := tensor_prefix,
         cc_runtime := \<lparr>rc_backend = backend, rc_data_type = data_type, rc_n_threads = n_threads\<rparr>\<rparr>))))))"

definition parse_common_metadata :: "gguf \<Rightarrow> pi0_model_config \<Rightarrow> pi0_model_config res" where
  "parse_common_metadata g config =
     (let c = m0_common config in
      bind_res (gguf_string g ''pi0.model_type'' (c0_model_type c)) (\<lambda>model_type.
      bind_res (gguf_string g ''pi0.component.role'' (m0_component_role config)) (\<lambda>role.
      bind_res (gguf_i32 g ''pi0.image_width'' (c0_image_width c)) (\<lambda>image_width.
      bind_res (gguf_i32 g ''pi0.image_height'' (c0_image_height c)) (\<lambda>image_height.
      bind_res (gguf_i32 g ''pi0.state_dim'' (c0_state_dim c)) (\<lambda>state_dim.
      bind_res (gguf_i32 g ''pi0.action_dim'' (c0_action_dim c)) (\<lambda>action_dim.
      bind_res (gguf_i32 g ''pi0.action_horizon'' (c0_action_horizon c)) (\<lambda>action_horizon.
      bind_res (gguf_i32 g ''pi0.max_token_len'' (c0_max_token_len c)) (\<lambda>max_token_len.
      bind_res (gguf_string_array g ''pi0.image_keys'' (c0_image_keys c)) (\<lambda>image_keys.
      bind_res (gguf_f32_array g ''pi0.state_mean'' (c0_state_mean c)) (\<lambda>state_mean.
      bind_res (gguf_f32_array g ''pi0.state_std'' (c0_state_std c)) (\<lambda>state_std.
      bind_res (gguf_f32_array g ''pi0.action_mean'' (c0_action_mean c)) (\<lambda>action_mean.
      bind_res (gguf_f32_array g ''pi0.action_std'' (c0_action_std c)) (\<lambda>action_std.
        Inr (config\<lparr>m0_component_role := role,
          m0_common := \<lparr>c0_model_type = model_type, c0_image_width = image_width, c0_image_height = image_height,
            c0_state_dim = state_dim, c0_action_dim = action_dim, c0_action_horizon = action_horizon,
            c0_max_token_len = max_token_len, c0_image_keys = image_keys, c0_state_mean = state_mean,
            c0_state_std = state_std, c0_action_mean = action_mean, c0_action_std = action_std\<rparr>\<rparr>)))))))))))))))"

text \<open>Mean and deviation are absent, or both have the given length.\<close>

definition statistics_match :: "f32 list \<Rightarrow> f32 list \<Rightarrow> int \<Rightarrow> bool" where
  "statistics_match mean std dim \<longleftrightarrow>
     \<not> ((mean \<noteq> [] \<or> std \<noteq> []) \<and> (length mean \<noteq> nat dim \<or> length std \<noteq> nat dim))"

definition validate_common_metadata :: "pi0_model_config \<Rightarrow> unit res" where
  "validate_common_metadata config =
     (let c = m0_common config in
      if c0_action_dim c \<le> 0 \<or> c0_action_horizon c \<le> 0 then
        Inl ''model config requires positive action_dim and action_horizon''
      else if c0_state_dim c < 0 then Inl ''state_dim must be non-negative''
      else if \<not> statistics_match (c0_state_mean c) (c0_state_std c) (c0_state_dim c) then
        Inl ''state_mean and state_std must both match state_dim''
      else if \<not> statistics_match (c0_action_mean c) (c0_action_std c) (c0_action_dim c) then
        Inl ''action_mean and action_std must both match action_dim''
      else Inr ())"

definition parse_vision_metadata :: "gguf \<Rightarrow> pi0_vision_config \<Rightarrow> pi0_vision_config res" where
  "parse_vision_metadata g v =
     bind_res (gguf_i32 g ''pi0.vit.width'' (v0_width v)) (\<lambda>width.
     bind_res (gguf_i32 g ''pi0.vit.patch_height'' (v0_patch_height v)) (\<lambda>patch_height.
     bind_res (gguf_i32 g ''pi0.vit.patch_width'' (v0_patch_width v)) (\<lambda>patch_width.
     bind_res (gguf_i32 g ''pi0.vit.layers'' (v0_layers v)) (\<lambda>layers.
     bind_res (gguf_i32 g ''pi0.vit.heads'' (v0_heads v)) (\<lambda>heads.
       Inr (v\<lparr>v0_width := width, v0_patch_height := patch_height, v0_patch_width := patch_width, v0_layers := layers,
         v0_heads := heads\<rparr>))))))"

definition parse_llm_metadata :: "gguf \<Rightarrow> pi0_llm_config \<Rightarrow> pi0_llm_config res" where
  "parse_llm_metadata g l =
     bind_res (gguf_i32 g ''pi0.llm.width'' (l0_width l)) (\<lambda>width.
     bind_res (gguf_i32 g ''pi0.llm.q_out'' (l0_q_out l)) (\<lambda>q_out.
     bind_res (gguf_i32 g ''pi0.llm.kv_out'' (l0_kv_out l)) (\<lambda>kv_out.
     bind_res (gguf_i32 g ''pi0.llm.mlp_width'' (l0_mlp_width l)) (\<lambda>mlp_width.
     bind_res (gguf_i32 g ''pi0.llm.layers'' (l0_layers l)) (\<lambda>layers.
       Inr (l\<lparr>l0_width := width, l0_q_out := q_out, l0_kv_out := kv_out, l0_mlp_width := mlp_width,
         l0_layers := layers\<rparr>))))))"

definition parse_action_metadata :: "gguf \<Rightarrow> pi0_action_config \<Rightarrow> pi0_action_config res" where
  "parse_action_metadata g a =
     bind_res (gguf_i32 g ''pi0.action_decoder.expert_width'' (a0_expert_width a)) (\<lambda>expert_width.
     bind_res (gguf_i32 g ''pi0.action_decoder.q_out'' (a0_expert_q_out a)) (\<lambda>q_out.
     bind_res (gguf_i32 g ''pi0.action_decoder.kv_out'' (a0_expert_kv_out a)) (\<lambda>kv_out.
     bind_res (gguf_i32 g ''pi0.action_decoder.mlp_width'' (a0_expert_mlp_width a)) (\<lambda>mlp_width.
     bind_res (gguf_i32 g ''pi0.action_decoder.layers'' (a0_expert_layers a)) (\<lambda>layers.
       Inr (a\<lparr>a0_expert_width := expert_width, a0_expert_q_out := q_out, a0_expert_kv_out := kv_out,
         a0_expert_mlp_width := mlp_width, a0_expert_layers := layers\<rparr>))))))"

definition parse_pi0_gguf_metadata :: "gguf \<Rightarrow> pi0_model_config \<Rightarrow> pi0_model_config res" where
  "parse_pi0_gguf_metadata g config =
     bind_res (parse_common_metadata g config) (\<lambda>config.
     (let pi0 = m0_pi0 config; vision = p0_vision pi0; llm = p0_llm pi0; action = p0_action pi0 in
      bind_res (parse_component_metadata g ''pi0.component.vit.'' (v0_component vision)) (\<lambda>vit_component.
      bind_res (parse_component_metadata g ''pi0.component.llm.'' (l0_component llm)) (\<lambda>llm_component.
      bind_res (parse_component_metadata g ''pi0.component.mmproj.'' (p0_mmproj pi0)) (\<lambda>mmproj.
      bind_res (parse_component_metadata g ''pi0.component.tokenizer.'' (p0_tokenizer pi0)) (\<lambda>tokenizer.
      bind_res (parse_component_metadata g ''pi0.component.action_decoder.'' (a0_component action)) (\<lambda>action_component.
      bind_res (parse_component_metadata g ''pi0.component.state.'' (p0_state pi0)) (\<lambda>state.
      bind_res (gguf_i32 g ''pi0.action_decoder.width'' (a0_width action)) (\<lambda>action_width.
      bind_res (parse_vision_metadata g (vision\<lparr>v0_component := vit_component\<rparr>)) (\<lambda>vision.
      bind_res (parse_llm_metadata g (llm\<lparr>l0_component := llm_component\<rparr>)) (\<lambda>llm.
      bind_res (parse_action_metadata g (action\<lparr>a0_component := action_component, a0_width := action_width\<rparr>)) (\<lambda>action.
      bind_res (gguf_f32 g ''pi0.vit.norm_epsilon'' (v0_norm_epsilon vision)) (\<lambda>norm_epsilon.
      let config = config\<lparr>m0_pi0 := \<lparr>p0_vision = vision\<lparr>v0_norm_epsilon := norm_epsilon\<rparr>, p0_mmproj = mmproj,
            p0_llm = llm, p0_tokenizer = tokenizer, p0_action = action, p0_state = state\<rparr>\<rparr>
      in bind_res (validate_common_metadata config) (\<lambda>_. Inr config))))))))))))))"

lemma bind_res_InrE: "bind_res m k = Inr y \<Longrightarrow> (\<And>x. m = Inr x \<Longrightarrow> k x = Inr y \<Longrightarrow> P) \<Longrightarrow> P"
  by (auto simp: res_simps)

lemma parse_pi0_valid: "parse_pi0_gguf_metadata g config = Inr c \<Longrightarrow> validate_common_metadata c = Inr ()"
  unfolding parse_pi0_gguf_metadata_def Let_def by (elim bind_res_InrE) simp

subsection \<open>Names of tensors\<close>

definition component_name :: "string \<Rightarrow> string \<Rightarrow> string" where
  "component_name prefix suffix =
     (if suffix = [] then prefix
      else if prefix = [] \<or> last prefix = CHR ''.'' then prefix @ suffix
      else prefix @ ''.'' @ suffix)"

definition pi0_action_decoder_tensor :: "pi0_model_config \<Rightarrow> string \<Rightarrow> string" where
  "pi0_action_decoder_tensor config suffix = component_name (cc_tensor_prefix (a0_component (p0_action (m0_pi0 config)))) suffix"

definition pi0_action_decoder_layer_prefix :: "pi0_model_config \<Rightarrow> nat \<Rightarrow> string" where
  "pi0_action_decoder_layer_prefix config layer = pi0_action_decoder_tensor config (''layers.'' @ nat_to_string layer @ ''.'')"

definition pi0_state_tensor :: "pi0_model_config \<Rightarrow> string \<Rightarrow> string" where
  "pi0_state_tensor config suffix = component_name (cc_tensor_prefix (p0_state (m0_pi0 config))) suffix"

definition pi0_llm_tensor :: "pi0_model_config \<Rightarrow> string \<Rightarrow> string" where
  "pi0_llm_tensor config suffix = component_name (cc_tensor_prefix (l0_component (p0_llm (m0_pi0 config)))) suffix"

definition pi0_llm_layer_prefix :: "pi0_model_config \<Rightarrow> nat \<Rightarrow> string" where
  "pi0_llm_layer_prefix config layer = pi0_llm_tensor config (''layers.'' @ nat_to_string layer @ ''.'')"

definition pi0_lm_head :: "pi0_model_config \<Rightarrow> string" where
  "pi0_lm_head config = pi0_llm_tensor config ''lm_head.weight''"

definition pi0_merger_tensor :: "pi0_model_config \<Rightarrow> string \<Rightarrow> string" where
  "pi0_merger_tensor config suffix = component_name (cc_tensor_prefix (p0_mmproj (m0_pi0 config))) suffix"

definition pi0_vit_tensor :: "pi0_model_config \<Rightarrow> string \<Rightarrow> string" where
  "pi0_vit_tensor config suffix = component_name (cc_tensor_prefix (v0_component (p0_vision (m0_pi0 config)))) suffix"

definition pi0_vit_layer_prefix :: "pi0_model_config \<Rightarrow> nat \<Rightarrow> string" where
  "pi0_vit_layer_prefix config layer = pi0_vit_tensor config (''encoder.layers.'' @ nat_to_string layer @ ''.'')"

text \<open>The prefix of a layer is the prefix of the layers, continued.\<close>

lemma component_name_append: "s \<noteq> [] \<Longrightarrow> component_name prefix (s @ t) = component_name prefix s @ t"
  by (simp add: component_name_def)

lemma layer_prefixes:
  "pi0_action_decoder_layer_prefix config layer = pi0_action_decoder_tensor config ''layers.'' @ nat_to_string layer @ ''.''"
  "pi0_llm_layer_prefix config layer = pi0_llm_tensor config ''layers.'' @ nat_to_string layer @ ''.''"
  unfolding pi0_action_decoder_layer_prefix_def pi0_action_decoder_tensor_def pi0_llm_layer_prefix_def pi0_llm_tensor_def
  by (rule component_name_append, simp)+

end
