(* ===== verification/Pi0Load.thy ===== *)
theory Pi0Load
  imports Pi0Types PolicyTensors "HOL-Library.Signed_Division"
begin

text \<open>
  Loading the six files of a Pi0 model (\<^verbatim>\<open>src/models/pi0/load.cpp\<close>, \<^verbatim>\<open>component_runtime.cpp\<close> for the backends):
  the metadata of every file is read and compared, the files are loaded through \<open>GgufLoader\<close>, and the shapes
  of their tensors are checked.  The answers of the file system, gguf and ggml are the record \<open>pi0_env\<close>.
\<close>

record ('d, 'b, 'f, 's) pi0_env =
  pe_readable :: "string \<Rightarrow> bool"
  pe_open :: "string \<Rightarrow> policy_file option"
  pe_platform :: "string \<Rightarrow> platform"
  pe_is_quantized :: "ggml_type \<Rightarrow> bool"
  pe_backend :: "string \<Rightarrow> ('d, 'b, 'f, 's) backend_env"

record pi0_component_paths =
  pp_vit :: string
  pp_mmproj :: string
  pp_llm :: string
  pp_tokenizer :: string
  pp_state :: string
  pp_action_decoder :: string

subsection \<open>Shapes\<close>

type_synonym tensor_table = "string \<Rightarrow> tensor_entry option"

definition entry_is :: "tensor_table \<Rightarrow> string \<Rightarrow> (tensor_entry \<Rightarrow> bool) \<Rightarrow> bool" where
  "entry_is ctx name P \<longleftrightarrow> (case ctx name of None \<Rightarrow> False | Some t \<Rightarrow> P t)"

definition has_transformer_stack ::
  "tensor_table \<Rightarrow> string \<Rightarrow> string \<Rightarrow> int \<Rightarrow> int \<Rightarrow> int \<Rightarrow> int \<Rightarrow> int \<Rightarrow> bool"
where
  "has_transformer_stack ctx final_norm_scale_name layers_prefix layers width q_out kv_out mlp \<longleftrightarrow>
     shapes_ok ctx [(final_norm_scale_name, [width])] \<and>
     list_all (\<lambda>layer. shapes_ok ctx (shapes_with_prefix (layers_prefix @ nat_to_string layer @ ''.'')
       [(''input_layernorm.scale'', [width]), (''post_attention_layernorm.scale'', [width]),
        (''self_attn.q_proj.weight'', [width, q_out]), (''self_attn.k_proj.weight'', [width, kv_out]),
        (''self_attn.v_proj.weight'', [width, kv_out]), (''self_attn.o_proj.weight'', [q_out, width]),
        (''mlp.gate_proj.weight'', [width, mlp]), (''mlp.up_proj.weight'', [width, mlp]),
        (''mlp.down_proj.weight'', [mlp, width])])) [0..<nat layers]"

definition has_valid_pi0_action_projection_tensors :: "pi0_model_config \<Rightarrow> tensor_table \<Rightarrow> bool" where
  "has_valid_pi0_action_projection_tensors config ctx \<longleftrightarrow>
     (let at = (\<lambda>suffix. ctx (pi0_action_decoder_tensor config suffix)) in
      case (at ''action_in_proj.weight'', at ''action_in_proj.bias'', at ''action_time_mlp_in.weight'',
            at ''action_time_mlp_in.bias'', at ''action_time_mlp_out.weight'', at ''action_time_mlp_out.bias'',
            at ''action_out_proj.weight'', at ''action_out_proj.bias'') of
        (Some in_w, Some in_b, Some time_in_w, Some time_in_b, Some time_out_w, Some time_out_b, Some out_w, Some out_b) \<Rightarrow>
          let action_dim = c0_action_dim (m0_common config); width = te_ne in_w 1 in
          te_n_dims in_w = 2 \<and> te_ne in_w 0 = action_dim \<and> te_n_dims in_b = 1 \<and>
          te_ne in_b 0 = width \<and> te_n_dims time_in_w = 2 \<and> te_ne time_in_w 0 = 2 * width \<and>
          te_ne time_in_w 1 = width \<and> te_n_dims time_in_b = 1 \<and> te_ne time_in_b 0 = width \<and>
          te_n_dims time_out_w = 2 \<and> te_ne time_out_w 0 = width \<and> te_ne time_out_w 1 = width \<and>
          te_n_dims time_out_b = 1 \<and> te_ne time_out_b 0 = width \<and> te_n_dims out_w = 2 \<and> te_ne out_w 0 = width \<and>
          te_ne out_w 1 = action_dim \<and> te_n_dims out_b = 1 \<and> te_ne out_b 0 = action_dim
      | _ \<Rightarrow> False)"

definition has_valid_pi0_merger_tensors :: "pi0_model_config \<Rightarrow> tensor_table \<Rightarrow> bool" where
  "has_valid_pi0_merger_tensors config ctx \<longleftrightarrow>
     (let vision_width = v0_width (p0_vision (m0_pi0 config)); llm_width = l0_width (p0_llm (m0_pi0 config)) in
      case (ctx (pi0_merger_tensor config ''weight''), ctx (pi0_merger_tensor config ''bias'')) of
        (Some w, Some b) \<Rightarrow>
          \<not> (vision_width \<le> 0 \<or> llm_width \<le> 0 \<or> te_n_dims w \<noteq> 2 \<or> te_n_dims b \<noteq> 1) \<and>
          te_ne w 0 = vision_width \<and> te_ne w 1 = llm_width \<and> te_ne b 0 = llm_width
      | _ \<Rightarrow> False)"

text \<open>Only the first and the last layer are checked, and only these eight of their tensors.\<close>

definition has_valid_pi0_vit_tensors :: "pi0_model_config \<Rightarrow> tensor_table \<Rightarrow> bool" where
  "has_valid_pi0_vit_tensors config ctx \<longleftrightarrow>
     (let v = p0_vision (m0_pi0 config); width = v0_width v; patch_h = v0_patch_height v; patch_w = v0_patch_width v;
          patches = (c0_image_width (m0_common config) sdiv patch_w) * (c0_image_height (m0_common config) sdiv patch_h) in
      \<not> (v0_layers v \<le> 0 \<or> width \<le> 0 \<or> patch_h \<le> 0 \<or> patch_w \<le> 0 \<or> v0_heads v \<le> 0 \<or> f32_le (v0_norm_epsilon v) f32_zero) \<and>
      shapes_ok ctx
        [(pi0_vit_tensor config ''embeddings.patch_embedding.weight'', [patch_w, patch_h, 3, width]),
         (pi0_vit_tensor config ''embeddings.patch_embedding.bias'', [width]),
         (pi0_vit_tensor config ''embeddings.position_embedding.weight'', [width, patches]),
         (pi0_vit_tensor config ''post_layernorm.weight'', [width]), (pi0_vit_tensor config ''post_layernorm.bias'', [width])] \<and>
      list_all (\<lambda>layer. shapes_ok ctx (shapes_with_prefix (pi0_vit_layer_prefix config layer)
        [(''layer_norm1.weight'', [width]), (''layer_norm1.bias'', [width]), (''self_attn.q_proj.weight'', [width, width]),
         (''self_attn.q_proj.bias'', [width]), (''self_attn.out_proj.weight'', [width, width]),
         (''self_attn.out_proj.bias'', [width]), (''layer_norm2.weight'', [width]), (''layer_norm2.bias'', [width])]))
        [0, nat (v0_layers v - 1)])"

definition has_valid_pi0_action_expert_tensors :: "pi0_model_config \<Rightarrow> tensor_table \<Rightarrow> bool" where
  "has_valid_pi0_action_expert_tensors config ctx \<longleftrightarrow>
     (let a = p0_action (m0_pi0 config) in
      \<not> (a0_expert_layers a \<le> 0 \<or> a0_expert_width a \<le> 0 \<or> a0_expert_q_out a \<le> 0 \<or> a0_expert_kv_out a \<le> 0 \<or>
         a0_expert_mlp_width a \<le> 0) \<and>
      has_transformer_stack ctx (pi0_action_decoder_tensor config ''norm.scale'')
        (pi0_action_decoder_tensor config ''layers.'') (a0_expert_layers a) (a0_expert_width a) (a0_expert_q_out a)
        (a0_expert_kv_out a) (a0_expert_mlp_width a))"

definition has_valid_pi0_language_tensors :: "pi0_model_config \<Rightarrow> tensor_table \<Rightarrow> bool" where
  "has_valid_pi0_language_tensors config ctx \<longleftrightarrow>
     (let l = p0_llm (m0_pi0 config) in
      \<not> (l0_layers l \<le> 0 \<or> l0_width l \<le> 0 \<or> l0_q_out l \<le> 0 \<or> l0_kv_out l \<le> 0 \<or> l0_mlp_width l \<le> 0) \<and>
      entry_is ctx (pi0_lm_head config) (\<lambda>t. te_n_dims t = 2 \<and> te_ne t 0 = l0_width l \<and> te_ne t 1 > 0) \<and>
      has_transformer_stack ctx (pi0_llm_tensor config ''norm.scale'') (pi0_llm_tensor config ''layers.'') (l0_layers l)
        (l0_width l) (l0_q_out l) (l0_kv_out l) (l0_mlp_width l))"

subsection \<open>Loading one file\<close>

text \<open>A loaded component: its tensors by name (none without a data context), and their data.\<close>

record pi0_loaded =
  ld_tensors :: tensor_table
  ld_data :: "(string \<times> u8 list) list"

text \<open>The three pointers are freed one by one, then all are cleared.\<close>

definition free_pi0_loaded_component :: "handles \<Rightarrow> resource event list \<Rightarrow> handles \<times> resource event list" where
  "free_pi0_loaded_component h log =
     (let log = free_handle (hd_model_buffer h) log;
          log = free_handle (hd_ctx_data h) log;
          log = free_handle (hd_gguf h) log
      in (no_handles, log))"

text \<open>The handles of a Pi0 load: every file is opened once for its metadata, all but one again for their tensors.\<close>

datatype pi0_pass = Metadata_pass | Tensor_pass

type_synonym pi0_handle = "pi0_pass \<times> string \<times> resource"

definition tagged :: "pi0_pass \<Rightarrow> string \<Rightarrow> resource event list \<Rightarrow> pi0_handle event list" where
  "tagged pass role log = map (map_event (\<lambda>r. (pass, role, r))) log"

definition is_component_dtype :: "string \<Rightarrow> bool" where
  "is_component_dtype v \<longleftrightarrow> v = ''preserve'' \<or> v = ''fp32'' \<or> v = ''f16'' \<or> v = ''bf16''"

definition should_load_pi0_tensor :: "pi0_model_config \<Rightarrow> string \<Rightarrow> bool" where
  "should_load_pi0_tensor config name \<longleftrightarrow>
     (let pi0 = m0_pi0 config in
      starts_with name (cc_tensor_prefix (a0_component (p0_action pi0))) \<or>
      starts_with name (cc_tensor_prefix (p0_state pi0)) \<or> starts_with name (cc_tensor_prefix (p0_mmproj pi0)) \<or>
      starts_with name (cc_tensor_prefix (v0_component (p0_vision pi0))) \<or>
      starts_with name (cc_tensor_prefix (l0_component (p0_llm pi0))))"

definition pi0_bind_tensors ::
  "(ggml_type \<Rightarrow> bool) \<Rightarrow> string list \<Rightarrow> pi0_model_config \<Rightarrow> tensor_table \<Rightarrow> unit run"
where
  "pi0_bind_tensors is_quantized names config tensors =
     Some (case List.find (\<lambda>name. should_load_pi0_tensor config name \<and>
         entry_is tensors name (\<lambda>t. te_type t \<notin> {GGML_TYPE_F32, GGML_TYPE_F16, GGML_TYPE_BF16} \<and> \<not> is_quantized (te_type t))) names of
       Some name \<Rightarrow> Inl (''unsupported pi0 tensor type: '' @ name)
     | None \<Rightarrow> Inr ())"

text \<open>The checks both passes over a file share.\<close>

definition check_role :: "string \<Rightarrow> pi0_model_config \<Rightarrow> unit res" where
  "check_role role c =
     (if c0_model_type (m0_common c) \<noteq> ''pi0'' then
        Inl (''unsupported pi0 component model_type: '' @ c0_model_type (m0_common c))
      else if m0_component_role c \<noteq> role then
        Inl (''pi0 component role mismatch: expected '' @ role @ '', got '' @
          (if m0_component_role c = [] then ''<missing>'' else m0_component_role c))
      else Inr ())"

definition require_path :: "('d, 'b, 'f, 's) pi0_env \<Rightarrow> string \<Rightarrow> string \<Rightarrow> unit res" where
  "require_path env path role =
     (if path = [] then Inl (''missing pi0 component path: '' @ role)
      else if \<not> pe_readable env path then Inl (''failed to open pi0 component '' @ role @ '': '' @ path)
      else Inr ())"

text \<open>The metadata and the context of the tensors are freed whatever the parser says.\<close>

definition read_component_metadata ::
  "('d, 'b, 'f, 's) pi0_env \<Rightarrow> string \<Rightarrow> string \<Rightarrow> pi0_model_config res \<times> resource event list"
where
  "read_component_metadata env path role =
     (case pe_open env path of
        None \<Rightarrow> (Inl (''failed to load pi0 component metadata: '' @ path), [])
      | Some f \<Rightarrow>
          let log = [Acquired Meta_context, Acquired Gguf_context];
              ok = parse_pi0_gguf_metadata (pf_gguf f) default_model_config;
              log = log @ [Freed Meta_context];
              log = log @ [Freed Gguf_context]
          in (bind_res ok (\<lambda>c. bind_res (check_role role c) (\<lambda>_. Inr c)), log))"

definition merge_pi0_role_config :: "pi0_model_config \<Rightarrow> pi0_model_config \<Rightarrow> string \<Rightarrow> pi0_model_config" where
  "merge_pi0_role_config base current role =
     (let src = m0_pi0 current; dst = m0_pi0 base in
      base\<lparr>m0_pi0 :=
        (if role = ''vit'' then dst\<lparr>p0_vision := p0_vision src\<rparr>
         else if role = ''mmproj'' then dst\<lparr>p0_mmproj := p0_mmproj src\<rparr>
         else if role = ''llm'' then dst\<lparr>p0_llm := p0_llm src\<rparr>
         else if role = ''tokenizer'' then dst\<lparr>p0_tokenizer := p0_tokenizer src\<rparr>
         else if role = ''state'' then dst\<lparr>p0_state := p0_state src\<rparr>
         else if role = ''action_decoder'' then dst\<lparr>p0_action := p0_action src\<rparr>
         else dst)\<rparr>)"

text \<open>The comparison of float vectors: a NaN differs from itself, the two zeros are equal.\<close>

definition same_floats :: "f32 list \<Rightarrow> f32 list \<Rightarrow> bool" where
  "same_floats xs ys \<longleftrightarrow> list_all2 f32_eq xs ys"

definition same_common :: "pi0_common_config \<Rightarrow> pi0_common_config \<Rightarrow> bool" where
  "same_common a b \<longleftrightarrow>
     c0_model_type a = c0_model_type b \<and> c0_image_width a = c0_image_width b \<and> c0_image_height a = c0_image_height b \<and>
     c0_state_dim a = c0_state_dim b \<and> c0_action_dim a = c0_action_dim b \<and> c0_action_horizon a = c0_action_horizon b \<and>
     c0_max_token_len a = c0_max_token_len b \<and> c0_image_keys a = c0_image_keys b \<and>
     same_floats (c0_state_mean a) (c0_state_mean b) \<and> same_floats (c0_state_std a) (c0_state_std b) \<and>
     same_floats (c0_action_mean a) (c0_action_mean b) \<and> same_floats (c0_action_std a) (c0_action_std b)"

text \<open>\<open>None\<close> is a configuration that no file has filled yet.\<close>

definition merge_component_config ::
  "('d, 'b, 'f, 's) pi0_env \<Rightarrow> string \<Rightarrow> string \<Rightarrow> pi0_model_config option \<Rightarrow>
     pi0_model_config res \<times> pi0_handle event list"
where
  "merge_component_config env path role config =
     (case require_path env path role of
        Inl e \<Rightarrow> (Inl e, [])
      | Inr _ \<Rightarrow>
          (case read_component_metadata env path role of (r, log) \<Rightarrow>
             (bind_res r (\<lambda>component_config.
                case config of
                  None \<Rightarrow> Inr (merge_pi0_role_config component_config component_config role)
                | Some config \<Rightarrow>
                    if \<not> same_common (m0_common config) (m0_common component_config) then
                      Inl (''pi0 component config mismatch: '' @ role)
                    else Inr (merge_pi0_role_config config component_config role)),
              tagged Metadata_pass role log)))"

text \<open>The roles in the order of the calls, with their paths.\<close>

definition role_paths :: "pi0_component_paths \<Rightarrow> (string \<times> string) list" where
  "role_paths paths = [(''vit'', pp_vit paths), (''mmproj'', pp_mmproj paths), (''llm'', pp_llm paths),
     (''tokenizer'', pp_tokenizer paths), (''state'', pp_state paths), (''action_decoder'', pp_action_decoder paths)]"

fun merge_all ::
  "('d, 'b, 'f, 's) pi0_env \<Rightarrow> (string \<times> string) list \<Rightarrow> pi0_model_config option \<Rightarrow>
     pi0_model_config option res \<times> pi0_handle event list"
where
  "merge_all env [] config = (Inr config, [])"
| "merge_all env ((role, path) # rest) config =
     (case merge_component_config env path role config of
        (Inl e, log) \<Rightarrow> (Inl e, log)
      | (Inr c, log) \<Rightarrow> (case merge_all env rest (Some c) of (r, log') \<Rightarrow> (r, log @ log')))"

definition validate_pi0_component_dtypes :: "pi0_model_config \<Rightarrow> unit res" where
  "validate_pi0_component_dtypes config =
     (let pi0 = m0_pi0 config in
      bind_res (each_res (\<lambda>(role, c). if is_component_dtype (rc_data_type (cc_runtime c)) then Inr ()
          else Inl (''unsupported pi0 component dtype for '' @ role @ '': '' @ rc_data_type (cc_runtime c)))
        [(''vit'', v0_component (p0_vision pi0)), (''mmproj'', p0_mmproj pi0), (''llm'', l0_component (p0_llm pi0)),
         (''state'', p0_state pi0), (''action_decoder'', a0_component (p0_action pi0))]) (\<lambda>_. Inr ()))"

text \<open>The result, \<open>out_component\<close> after the call, and the log.\<close>

definition load_component_tensors ::
  "('d, 'b, 'f, 's) pi0_env \<Rightarrow> string \<Rightarrow> string \<Rightarrow> bool \<Rightarrow> pi0_loaded run \<times> handles \<times> resource event list"
where
  "load_component_tensors env path role has_buft =
     (let names = (case pe_open env path of None \<Rightarrow> [] | Some f \<Rightarrow> pf_tensor_names f);
          tensors = (case pe_open env path of None \<Rightarrow> (\<lambda>_. None) | Some f \<Rightarrow> pf_tensor f)
      in case gguf_load (pe_platform env role) (\<lambda>g. Some (parse_pi0_gguf_metadata g default_model_config))
           (pi0_bind_tensors (pe_is_quantized env) names) (pe_open env) (Some path) has_buft of
        (None, l) \<Rightarrow> (None, no_handles, lv_log l)
      | (Some (Inl e), l) \<Rightarrow> (Some (Inl e), no_handles, lv_log l)
      | (Some (Inr r), l) \<Rightarrow>
          (case check_role role (gl_config r) of
             Inl e \<Rightarrow> (case free_pi0_loaded_component (gl_handles r) (lv_log l) of (h, log) \<Rightarrow> (Some (Inl e), h, log))
           | Inr _ \<Rightarrow> (Some (Inr (case gl_weights r of
                 None \<Rightarrow> \<lparr>ld_tensors = (\<lambda>_. None), ld_data = []\<rparr>
               | Some (_, data) \<Rightarrow> \<lparr>ld_tensors = tensors, ld_data = data\<rparr>)), gl_handles r, lv_log l)))"

subsection \<open>Backends of the components\<close>

definition component_backend_config :: "int \<Rightarrow> pi0_component_config \<Rightarrow> int res" where
  "component_backend_config base_threads component =
     (if rc_backend (cc_runtime component) \<notin> {''inherit'', ''cpu'', ''cuda'', ''accel''} then
        Inl (''unsupported pi0 component backend: '' @ rc_backend (cc_runtime component))
      else Inr (if rc_n_threads (cc_runtime component) > 0 then rc_n_threads (cc_runtime component) else base_threads))"

record ('b, 'f, 's) pi0_runtime =
  pr_backends :: "('b, 'f, 's) loaded_backends"
  pr_n_threads :: int

text \<open>\<open>GGML_DEFAULT_GRAPH_SIZE\<close> is 2048; offloading stays at its default.\<close>

definition pi0_init_component_runtime ::
  "('d, 'b, 'f, 's) backend_env \<Rightarrow> int \<Rightarrow> pi0_component_config \<Rightarrow> string \<Rightarrow> ('b, 'f, 's) pi0_runtime res"
where
  "pi0_init_component_runtime env base_threads component label =
     bind_res (component_backend_config base_threads component) (\<lambda>n_threads.
       case backend_load env True \<lparr>sc_max_nodes = 2048, sc_parallel = False, sc_op_offload = True\<rparr> of
         (Inl e, _) \<Rightarrow> Inl (''failed to initialize pi0 '' @ label @ '' backend: '' @ e)
       | (Inr _, lb) \<Rightarrow> Inr \<lparr>pr_backends = lb, pr_n_threads = n_threads\<rparr>)"

definition component_list :: "pi0_model_config \<Rightarrow> (string \<times> pi0_component_config) list" where
  "component_list config =
     (let pi0 = m0_pi0 config in
      [(''vit'', v0_component (p0_vision pi0)), (''mmproj'', p0_mmproj pi0), (''llm'', l0_component (p0_llm pi0)),
       (''state'', p0_state pi0), (''action_decoder'', a0_component (p0_action pi0))])"

definition init_pi0_component_backends ::
  "('d, 'b, 'f, 's) pi0_env \<Rightarrow> pi0_model_config \<Rightarrow> int \<Rightarrow> ('b, 'f, 's) pi0_runtime list res"
where
  "init_pi0_component_backends env config base_threads =
     each_res (\<lambda>(label, component). pi0_init_component_runtime (pe_backend env label) base_threads component label)
       (component_list config)"

subsection \<open>All components\<close>

definition validate_pi0_model_config :: "pi0_model_config \<Rightarrow> (string \<Rightarrow> tensor_table) \<Rightarrow> unit res" where
  "validate_pi0_model_config config ctx =
     (let pi0 = m0_pi0 config; v = p0_vision pi0; state_dim = c0_state_dim (m0_common config); width = a0_width (p0_action pi0) in
      if \<not> has_valid_pi0_merger_tensors config (ctx ''mmproj'') then
        Inl ''pi0 merger tensors must use ggml ne order [vision_width, language_width]''
      else if state_dim > 0 \<and>
        \<not> entry_is (ctx ''state'') (pi0_state_tensor config ''weight'') (\<lambda>w. entry_is (ctx ''state'') (pi0_state_tensor config ''bias'')
            (\<lambda>b. te_n_dims w = 2 \<and> te_ne w 0 = state_dim \<and> te_n_dims b = 1 \<and> te_ne b 0 = te_ne w 1 \<and>
               \<not> (width > 0 \<and> te_ne w 1 \<noteq> width))) then
        Inl ''pi0 state component requires state_proj tensors with ggml ne order [state_dim, action_width]''
      else if \<not> has_valid_pi0_action_projection_tensors config (ctx ''action_decoder'') then
        Inl ''pi0 model requires pi0 action decoder projection tensors''
      else if \<not> (v0_layers v > 0 \<and> v0_width v > 0 \<and> v0_patch_height v > 0 \<and> v0_patch_width v > 0 \<and> v0_heads v > 0 \<and>
          f32_lt f32_zero (v0_norm_epsilon v) \<and> l0_layers (p0_llm pi0) > 0 \<and> a0_expert_layers (p0_action pi0) > 0 \<and>
          has_valid_pi0_vit_tensors config (ctx ''vit'') \<and> has_valid_pi0_merger_tensors config (ctx ''mmproj'') \<and>
          has_valid_pi0_language_tensors config (ctx ''llm'') \<and>
          has_valid_pi0_action_expert_tensors config (ctx ''action_decoder'')) then
        Inl ''pi0 component model requires full vit, mmproj, llm, and action decoder weights''
      else Inr ())"

text \<open>The files are loaded one after the other into the members of a local variable: the handles of each member that
  a call has written, and the log.\<close>

fun load_all ::
  "(string \<times> string \<times> bool \<Rightarrow> pi0_loaded run \<times> handles \<times> resource event list) \<Rightarrow> (string \<times> string \<times> bool) list \<Rightarrow>
     (string \<times> pi0_loaded) list \<Rightarrow> (string \<times> handles) list \<Rightarrow> pi0_handle event list \<Rightarrow>
     (string \<times> pi0_loaded) list run \<times> (string \<times> handles) list \<times> pi0_handle event list"
where
  "load_all load [] loaded members log = (Some (Inr loaded), members, log)"
| "load_all load (x # rest) loaded members log =
     (case load x of
        (None, h, l) \<Rightarrow> (None, members @ [(fst x, h)], log @ tagged Tensor_pass (fst x) l)
      | (Some (Inl e), h, l) \<Rightarrow> (Some (Inl e), members @ [(fst x, h)], log @ tagged Tensor_pass (fst x) l)
      | (Some (Inr c), h, l) \<Rightarrow>
          load_all load rest (loaded @ [(fst x, c)]) (members @ [(fst x, h)]) (log @ tagged Tensor_pass (fst x) l))"

text \<open>The destructors of the members, in the reverse order of the members.\<close>

fun destroy_components :: "(string \<times> handles) list \<Rightarrow> pi0_handle event list" where
  "destroy_components [] = []"
| "destroy_components ((role, h) # members) =
     destroy_components members @ tagged Tensor_pass role (snd (free_pi0_loaded_component h []))"

text \<open>The move assignment of one member: the handles of both sides afterwards, and the log.\<close>

definition move_component :: "handles \<Rightarrow> handles \<Rightarrow> handles \<times> handles \<times> resource event list" where
  "move_component target other = (case free_pi0_loaded_component target [] of (_, log) \<Rightarrow> (other, no_handles, log))"

text \<open>The members are moved in their order; then the source is destroyed.\<close>

definition move_components ::
  "(string \<times> handles) list \<Rightarrow> (string \<times> handles) list \<Rightarrow> (string \<times> handles) list \<times> pi0_handle event list"
where
  "move_components targets members =
     (let moved = map (\<lambda>((_, target), (role, other)). (role, move_component target other)) (zip targets members)
      in (map (\<lambda>(role, (target, _)). (role, target)) moved,
          concat (map (\<lambda>(role, (_, _, log)). tagged Tensor_pass role log) moved) @
          destroy_components (map (\<lambda>(role, (_, other, _)). (role, other)) moved)))"

definition tensors_of :: "(string \<times> pi0_loaded) list \<Rightarrow> string \<Rightarrow> tensor_table" where
  "tensors_of loaded role = (case map_of loaded role of None \<Rightarrow> (\<lambda>_. None) | Some c \<Rightarrow> ld_tensors c)"

record ('b, 'f, 's) pi0_components =
  pk_runtimes :: "(string \<times> ('b, 'f, 's) pi0_runtime) list"
  pk_loaded :: "(string \<times> pi0_loaded) list"

definition model_buft :: "('b, 'f, 's) pi0_runtime \<Rightarrow> bool" where
  "model_buft rt \<longleftrightarrow> bp_model_buft (lb_policy (pr_backends rt)) \<noteq> None"

text \<open>\<open>bufts\<close> says which components have a buffer type for the model.\<close>

definition component_loads :: "pi0_component_paths \<Rightarrow> bool list \<Rightarrow> (string \<times> string \<times> bool) list" where
  "component_loads paths bufts =
     [(''vit'', pp_vit paths, bufts ! 0), (''mmproj'', pp_mmproj paths, bufts ! 1),
      (''llm'', pp_llm paths, bufts ! 2), (''state'', pp_state paths, bufts ! 3),
      (''action_decoder'', pp_action_decoder paths, bufts ! 4)]"

definition component_roles :: "string list" where
  "component_roles = [''vit'', ''mmproj'', ''llm'', ''state'', ''action_decoder'']"

text \<open>The result, the handles that \<open>out_components\<close> owns afterwards, and the log; the caller passes empty components.\<close>

definition load_pi0_components ::
  "('d, 'b, 'f, 's) pi0_env \<Rightarrow> pi0_component_paths \<Rightarrow> int \<Rightarrow>
     (pi0_model_config \<times> ('b, 'f, 's) pi0_components) run \<times> (string \<times> handles) list \<times> pi0_handle event list"
where
  "load_pi0_components env paths base_threads =
     (case merge_all env (role_paths paths) None of
        (Inl e, log) \<Rightarrow> (Some (Inl e), [], log)
      | (Inr None, log) \<Rightarrow> (None, [], log)
      | (Inr (Some config), log) \<Rightarrow>
          let config = config\<lparr>m0_component_role := []\<rparr> in
          case bind_res (validate_pi0_component_dtypes config) (\<lambda>_. init_pi0_component_backends env config base_threads) of
            Inl e \<Rightarrow> (Some (Inl e), [], log)
          | Inr runtimes \<Rightarrow>
              (case load_all (\<lambda>(role, path, has_buft). load_component_tensors env path role has_buft)
                 (component_loads paths (map model_buft runtimes)) [] [] log of
                 (None, members, log) \<Rightarrow> (None, members, log)
               | (Some (Inl e), members, log) \<Rightarrow> (Some (Inl e), [], log @ destroy_components members)
               | (Some (Inr loaded), members, log) \<Rightarrow>
                   (case validate_pi0_model_config config (tensors_of loaded) of
                      Inl e \<Rightarrow> (Some (Inl e), [], log @ destroy_components members)
                    | Inr _ \<Rightarrow>
                        (case move_components (map (\<lambda>role. (role, no_handles)) component_roles) members of
                           (owned, moves) \<Rightarrow>
                             (Some (Inr (config, \<lparr>pk_runtimes = zip (map fst (component_list config)) runtimes,
                                pk_loaded = loaded\<rparr>)), owned, log @ moves)))))"

end
