(* ===== verification/Pi0Gemma.thy ===== *)
theory Pi0Gemma
  imports Pi0Load GraphShapes QwenBatch
begin

text \<open>
  What the graphs of a Pi0 model share: the operations of ggml they use beside those of \<open>GgmlGraph\<close>, with the
  shapes ggml documents for them; the weights by component (\<^verbatim>\<open>src/models/pi0/weights.cpp\<close>) and their checks
  (\<^verbatim>\<open>pi0_context.h\<close>); and the parts of a Gemma layer, which \<^verbatim>\<open>vlm.cpp\<close> and \<^verbatim>\<open>action.cpp\<close> both build.
\<close>

subsection \<open>More of the library\<close>

text \<open>\<open>px_rope\<close> is \<open>ggml_rope_ext\<close> with the constants of the sources, which are the same everywhere; \<open>px_flash_attn\<close>
  is \<open>ggml_flash_attn_ext\<close> without bias and soft cap, at single precision.\<close>

record 't pi0_ops =
  px_name :: "'t \<Rightarrow> string"
  px_row_size :: "ggml_type \<Rightarrow> int \<Rightarrow> nat"
  px_rms_norm :: "'t \<Rightarrow> f32 \<Rightarrow> 't option"
  px_rope :: "'t \<Rightarrow> 't \<Rightarrow> int \<Rightarrow> 't option"
  px_flash_attn :: "'t \<Rightarrow> 't \<Rightarrow> 't \<Rightarrow> 't option \<Rightarrow> f32 \<Rightarrow> 't option"
  px_conv_2d :: "'t \<Rightarrow> 't \<Rightarrow> int \<Rightarrow> int \<Rightarrow> 't option"
  px_get_rows :: "'t \<Rightarrow> 't \<Rightarrow> 't option"
  px_cont_3d :: "'t \<Rightarrow> int \<Rightarrow> int \<Rightarrow> int \<Rightarrow> 't option"

definition pad4 :: "int list \<Rightarrow> int list" where
  "pad4 ds = ds @ replicate (4 - length ds) 1"

definition law_rms_norm :: "'t ggml \<Rightarrow> 't pi0_ops \<Rightarrow> bool" where
  "law_rms_norm G P \<longleftrightarrow> (\<forall>t ds x. f32t G ds t \<longrightarrow> gives (f32t G ds) (px_rms_norm P t x))"

definition law_rope :: "'t ggml \<Rightarrow> 't pi0_ops \<Rightarrow> bool" where
  "law_rope G P \<longleftrightarrow> (\<forall>t pos d h n. f32t G [d, h, n, 1] t \<and> stored G [n, 1, 1, 1] pos \<and> tensor_type G pos = GGML_TYPE_I32 \<longrightarrow>
     gives (f32t G [d, h, n, 1]) (px_rope P t pos d))"

definition law_flash_attn :: "'t ggml \<Rightarrow> 't pi0_ops \<Rightarrow> bool" where
  "law_flash_attn G P \<longleftrightarrow>
     (\<forall>q k v d h hk n kv b s. rows G [d, n, h, b] q \<and> rows G [d, kv, hk, b] k \<and> rows G [d, kv, hk, b] v \<and> h mod hk = 0 \<longrightarrow>
        gives (f32t G [d, h, n, b]) (px_flash_attn P q k v None s) \<and>
        (\<forall>m. stored G [kv, n, 1, 1] m \<and> tensor_type G m = GGML_TYPE_F16 \<longrightarrow>
           gives (f32t G [d, h, n, b]) (px_flash_attn P q k v (Some m) s)))"

definition law_conv_2d :: "'t ggml \<Rightarrow> 't pi0_ops \<Rightarrow> bool" where
  "law_conv_2d G P \<longleftrightarrow>
     (\<forall>w t kx ky c m x y n. stored G [kx, ky, c, m] w \<and> f32t G [x * kx, y * ky, c, n] t \<and> 0 < x \<and> 0 < y \<longrightarrow>
        gives (f32t G [x, y, m, n]) (px_conv_2d P w t kx ky))"

definition law_get_rows :: "'t ggml \<Rightarrow> 't pi0_ops \<Rightarrow> bool" where
  "law_get_rows G P \<longleftrightarrow>
     (\<forall>t ids a b n. stored G [a, b, 1, 1] t \<and> stored G [n, 1, 1, 1] ids \<and> tensor_type G ids = GGML_TYPE_I32 \<longrightarrow>
        gives (f32t G [a, n, 1, 1]) (px_get_rows P t ids))"

text \<open>Layout operations on any number of dimensions, and the inputs of other types.\<close>

definition law_reshape :: "'t ggml \<Rightarrow> bool" where
  "law_reshape G \<longleftrightarrow>
     (\<forall>t ds ds'. f32t G ds t \<and> length ds' \<le> 4 \<and> list_all (\<lambda>d. 0 < d) ds' \<and> prod_list ds' = prod_list ds \<longrightarrow>
        gives (f32t G (pad4 ds')) (gg_reshape G t ds'))"

definition law_permute :: "'t ggml \<Rightarrow> bool" where
  "law_permute G \<longleftrightarrow>
     (\<forall>t a b c d. f32t G [a, b, c, d] t \<longrightarrow> gives (rows G [a, c, b, d]) (gg_permute G t 0 2 1 3) \<and>
        gives (strided G [b, a, c, d]) (gg_permute G t 1 0 2 3))"

definition law_cont_3d :: "'t ggml \<Rightarrow> 't pi0_ops \<Rightarrow> bool" where
  "law_cont_3d G P \<longleftrightarrow>
     (\<forall>t ds x y z. strided G ds t \<and> 0 < x \<and> 0 < y \<and> 0 < z \<and> x * y * z = prod_list ds \<longrightarrow>
        gives (f32t G [x, y, z, 1]) (px_cont_3d P t x y z))"

definition law_row_size :: "'t ggml \<Rightarrow> 't pi0_ops \<Rightarrow> bool" where
  "law_row_size G P \<longleftrightarrow> (\<forall>t ds. f32t G ds t \<longrightarrow> gg_nb G t 1 = px_row_size P GGML_TYPE_F32 (hd ds) \<and> gg_nb G t 1 = nat (hd ds) * 4)"

definition law_concat_2 :: "'t ggml \<Rightarrow> bool" where
  "law_concat_2 G \<longleftrightarrow>
     (\<forall>t u a b m n. f32t G [a, b, m, 1] t \<and> f32t G [a, b, n, 1] u \<longrightarrow> gives (f32t G [a, b, m + n, 1]) (gg_concat G t u 2))"

definition law_inputs :: "'t ggml \<Rightarrow> bool" where
  "law_inputs G \<longleftrightarrow>
     (\<forall>a. 0 < a \<longrightarrow> gives (\<lambda>t. stored G [a, 1, 1, 1] t \<and> tensor_type G t = GGML_TYPE_I32) (gg_new_tensor G GGML_TYPE_I32 [a])) \<and>
     (\<forall>a b. 0 < a \<and> 0 < b \<longrightarrow>
        gives (\<lambda>t. stored G [a, b, 1, 1] t \<and> tensor_type G t = GGML_TYPE_F16) (gg_new_tensor G GGML_TYPE_F16 [a, b, 1])) \<and>
     (\<forall>a b c d. 0 < a \<and> 0 < b \<and> 0 < c \<and> 0 < d \<longrightarrow> gives (f32t G [a, b, c, d]) (gg_new_tensor G GGML_TYPE_F32 [a, b, c, d]))"

text \<open>A matrix is applied to every row of a batch.\<close>

definition law_broadcast :: "'t ggml \<Rightarrow> bool" where
  "law_broadcast G \<longleftrightarrow>
     (\<forall>a t k m n h. stored G [k, m, 1, 1] a \<and> dims G [k, n, h, 1] t \<longrightarrow> gives (f32t G [m, n, h, 1]) (gg_mul_mat G a t))"

definition pi0_laws :: "'t ggml \<Rightarrow> 't pi0_ops \<Rightarrow> bool" where
  "pi0_laws G P \<longleftrightarrow> ggml_laws G \<and> law_rms_norm G P \<and> law_rope G P \<and> law_flash_attn G P \<and> law_conv_2d G P \<and>
     law_get_rows G P \<and> law_reshape G \<and> law_permute G \<and> law_cont_3d G P \<and> law_row_size G P \<and> law_concat_2 G \<and>
     law_inputs G \<and> law_broadcast G"

subsection \<open>Weights\<close>

record 't transformer_layer =
  tw_input_norm_scale :: "'t option"
  tw_post_norm_scale :: "'t option"
  tw_q :: "'t option"
  tw_k :: "'t option"
  tw_v :: "'t option"
  tw_out :: "'t option"
  tw_gate :: "'t option"
  tw_up :: "'t option"
  tw_down :: "'t option"

record 't vision_layer =
  vw_norm1_w :: "'t option"
  vw_norm1_b :: "'t option"
  vw_q_w :: "'t option"
  vw_q_b :: "'t option"
  vw_k_w :: "'t option"
  vw_k_b :: "'t option"
  vw_v_w :: "'t option"
  vw_v_b :: "'t option"
  vw_out_w :: "'t option"
  vw_out_b :: "'t option"
  vw_norm2_w :: "'t option"
  vw_norm2_b :: "'t option"
  vw_fc1_w :: "'t option"
  vw_fc1_b :: "'t option"
  vw_fc2_w :: "'t option"
  vw_fc2_b :: "'t option"

record 't pi0_weights =
  w0_state_w :: "'t option"
  w0_state_b :: "'t option"
  w0_action_in_w :: "'t option"
  w0_action_in_b :: "'t option"
  w0_action_time_in_w :: "'t option"
  w0_action_time_in_b :: "'t option"
  w0_action_time_out_w :: "'t option"
  w0_action_time_out_b :: "'t option"
  w0_action_out_w :: "'t option"
  w0_action_out_b :: "'t option"
  w0_action_norm_scale :: "'t option"
  w0_action_layers :: "'t transformer_layer list"
  w0_llm_norm_scale :: "'t option"
  w0_lm_head :: "'t option"
  w0_llm_layers :: "'t transformer_layer list"
  w0_merger_w :: "'t option"
  w0_merger_b :: "'t option"
  w0_vit_patch_w :: "'t option"
  w0_vit_patch_b :: "'t option"
  w0_vit_pos :: "'t option"
  w0_vit_post_norm_w :: "'t option"
  w0_vit_post_norm_b :: "'t option"
  w0_vit_layers :: "'t vision_layer list"

text \<open>A context without tensors, or none, finds nothing.\<close>

definition build_transformer_layer :: "(string \<Rightarrow> 't option) \<Rightarrow> string \<Rightarrow> 't transformer_layer" where
  "build_transformer_layer ctx prefix =
     \<lparr>tw_input_norm_scale = ctx (prefix @ ''input_layernorm.scale''),
      tw_post_norm_scale = ctx (prefix @ ''post_attention_layernorm.scale''),
      tw_q = ctx (prefix @ ''self_attn.q_proj.weight''), tw_k = ctx (prefix @ ''self_attn.k_proj.weight''),
      tw_v = ctx (prefix @ ''self_attn.v_proj.weight''), tw_out = ctx (prefix @ ''self_attn.o_proj.weight''),
      tw_gate = ctx (prefix @ ''mlp.gate_proj.weight''), tw_up = ctx (prefix @ ''mlp.up_proj.weight''),
      tw_down = ctx (prefix @ ''mlp.down_proj.weight'')\<rparr>"

definition build_vision_layer :: "(string \<Rightarrow> 't option) \<Rightarrow> string \<Rightarrow> 't vision_layer" where
  "build_vision_layer vit prefix =
     \<lparr>vw_norm1_w = vit (prefix @ ''layer_norm1.weight''), vw_norm1_b = vit (prefix @ ''layer_norm1.bias''),
      vw_q_w = vit (prefix @ ''self_attn.q_proj.weight''), vw_q_b = vit (prefix @ ''self_attn.q_proj.bias''),
      vw_k_w = vit (prefix @ ''self_attn.k_proj.weight''), vw_k_b = vit (prefix @ ''self_attn.k_proj.bias''),
      vw_v_w = vit (prefix @ ''self_attn.v_proj.weight''), vw_v_b = vit (prefix @ ''self_attn.v_proj.bias''),
      vw_out_w = vit (prefix @ ''self_attn.out_proj.weight''), vw_out_b = vit (prefix @ ''self_attn.out_proj.bias''),
      vw_norm2_w = vit (prefix @ ''layer_norm2.weight''), vw_norm2_b = vit (prefix @ ''layer_norm2.bias''),
      vw_fc1_w = vit (prefix @ ''mlp.fc1.weight''), vw_fc1_b = vit (prefix @ ''mlp.fc1.bias''),
      vw_fc2_w = vit (prefix @ ''mlp.fc2.weight''), vw_fc2_b = vit (prefix @ ''mlp.fc2.bias'')\<rparr>"

definition build_pi0_weights :: "pi0_model_config \<Rightarrow> (string \<Rightarrow> string \<Rightarrow> 't option) \<Rightarrow> 't pi0_weights" where
  "build_pi0_weights config ctx =
     (let action = (\<lambda>suffix. ctx ''action_decoder'' (pi0_action_decoder_tensor config suffix));
          vit = (\<lambda>suffix. ctx ''vit'' (pi0_vit_tensor config suffix)); pi0 = m0_pi0 config
      in \<lparr>w0_state_w = ctx ''state'' (pi0_state_tensor config ''weight''), w0_state_b = ctx ''state'' (pi0_state_tensor config ''bias''),
       w0_action_in_w = action ''action_in_proj.weight'', w0_action_in_b = action ''action_in_proj.bias'',
       w0_action_time_in_w = action ''action_time_mlp_in.weight'', w0_action_time_in_b = action ''action_time_mlp_in.bias'',
       w0_action_time_out_w = action ''action_time_mlp_out.weight'', w0_action_time_out_b = action ''action_time_mlp_out.bias'',
       w0_action_out_w = action ''action_out_proj.weight'', w0_action_out_b = action ''action_out_proj.bias'',
       w0_action_norm_scale = action ''norm.scale'',
       w0_action_layers = map (\<lambda>layer. build_transformer_layer (ctx ''action_decoder'') (pi0_action_decoder_layer_prefix config layer))
         [0..<nat (a0_expert_layers (p0_action pi0))],
       w0_llm_norm_scale = ctx ''llm'' (pi0_llm_tensor config ''norm.scale''), w0_lm_head = ctx ''llm'' (pi0_lm_head config),
       w0_llm_layers = map (\<lambda>layer. build_transformer_layer (ctx ''llm'') (pi0_llm_layer_prefix config layer))
         [0..<nat (l0_layers (p0_llm pi0))],
       w0_merger_w = ctx ''mmproj'' (pi0_merger_tensor config ''weight''), w0_merger_b = ctx ''mmproj'' (pi0_merger_tensor config ''bias''),
       w0_vit_patch_w = vit ''embeddings.patch_embedding.weight'', w0_vit_patch_b = vit ''embeddings.patch_embedding.bias'',
       w0_vit_pos = vit ''embeddings.position_embedding.weight'', w0_vit_post_norm_w = vit ''post_layernorm.weight'',
       w0_vit_post_norm_b = vit ''post_layernorm.bias'',
       w0_vit_layers = map (\<lambda>layer. build_vision_layer (ctx ''vit'') (pi0_vit_layer_prefix config layer))
         [0..<nat (v0_layers (p0_vision pi0))]\<rparr>)"

subsection \<open>Checked weights\<close>

definition pi0_tensor_name :: "'t pi0_ops \<Rightarrow> 't option \<Rightarrow> string" where
  "pi0_tensor_name P t = (case t of None \<Rightarrow> ''<unknown>'' | Some t \<Rightarrow> px_name P t)"

definition pi0_tensor :: "'t option \<Rightarrow> string \<Rightarrow> 't option build" where
  "pi0_tensor t name = (if t = None then fail_build (''missing pi0 tensor: '' @ name) else return_build t)"

definition pi0_weight :: "'t builder \<Rightarrow> 't pi0_ops \<Rightarrow> 't option \<Rightarrow> nat \<Rightarrow> 't build" where
  "pi0_weight B P t rank =
     (case t of None \<Rightarrow> fail_build (''pi0 weight has incompatible rank: '' @ pi0_tensor_name P t)
      | Some w \<Rightarrow> if te_n_dims (gg_entry (gb_ops B) w) \<noteq> rank then
            fail_build (''pi0 weight has incompatible rank: '' @ pi0_tensor_name P t)
          else return_build w)"

definition pi0_typed_weight :: "'t builder \<Rightarrow> 't pi0_ops \<Rightarrow> 't option \<Rightarrow> nat \<Rightarrow> ggml_type \<Rightarrow> 't build" where
  "pi0_typed_weight B P t rank required_type =
     bind_build (pi0_weight B P t rank) (\<lambda>w.
       if tensor_type (gb_ops B) w \<noteq> required_type then
         fail_build (''pi0 weight has incompatible type: '' @ pi0_tensor_name P t)
       else return_build w)"

definition pi0_f32_weight :: "'t builder \<Rightarrow> 't pi0_ops \<Rightarrow> 't option \<Rightarrow> nat \<Rightarrow> 't build" where
  "pi0_f32_weight B P t rank = bind_build (pi0_weight B P t rank) (f32_of B)"

definition pi0_project :: "'t builder \<Rightarrow> 't pi0_ops \<Rightarrow> 't option \<Rightarrow> 't \<Rightarrow> 't build" where
  "pi0_project B P w x = bind_build (pi0_weight B P w 2) (\<lambda>w. node B (gg_mul_mat (gb_ops B) w x))"

definition pi0_linear :: "'t builder \<Rightarrow> 't pi0_ops \<Rightarrow> 't option \<Rightarrow> 't option \<Rightarrow> 't \<Rightarrow> 't build" where
  "pi0_linear B P w b x =
     bind_build (pi0_project B P w x) (\<lambda>y.
     bind_build (pi0_f32_weight B P b 1) (\<lambda>b. node B (gg_add (gb_ops B) y b)))"

subsection \<open>A Gemma layer\<close>

text \<open>\<open>1.0e-6f\<close>.\<close>

definition rms_epsilon :: f32 where "rms_epsilon = 0x358637BD"

record gemma_dims =
  gd_q_out :: int
  gd_kv_out :: int
  gd_head_dim :: int
  gd_heads :: int
  gd_kv_heads :: int
  gd_tokens :: int

definition gemma_norm :: "'t builder \<Rightarrow> 't pi0_ops \<Rightarrow> 't \<Rightarrow> 't \<Rightarrow> 't build" where
  "gemma_norm B P hidden scale =
     bind_build (node B (px_rms_norm P hidden rms_epsilon)) (\<lambda>normed. node B (gg_mul (gb_ops B) normed scale))"

text \<open>One of query, key and value, cut into heads.\<close>

definition gemma_heads :: "'t builder \<Rightarrow> 't pi0_ops \<Rightarrow> gemma_dims \<Rightarrow> 't option \<Rightarrow> int \<Rightarrow> int \<Rightarrow> 't \<Rightarrow> 't build" where
  "gemma_heads B P D w width heads normed =
     bind_build (pi0_project B P w normed) (\<lambda>x.
     bind_build (node B (gg_cont_2d (gb_ops B) x width (gd_tokens D))) (\<lambda>x.
       node B (gg_reshape (gb_ops B) x [gd_head_dim D, heads, gd_tokens D])))"

definition gemma_qkv ::
  "'t builder \<Rightarrow> 't pi0_ops \<Rightarrow> gemma_dims \<Rightarrow> 't transformer_layer \<Rightarrow> 't \<Rightarrow> 't \<Rightarrow> ('t \<times> 't \<times> 't) build"
where
  "gemma_qkv B P D L pos normed =
     bind_build (gemma_heads B P D (tw_q L) (gd_q_out D) (gd_heads D) normed) (\<lambda>q.
     bind_build (gemma_heads B P D (tw_k L) (gd_kv_out D) (gd_kv_heads D) normed) (\<lambda>k.
     bind_build (gemma_heads B P D (tw_v L) (gd_kv_out D) (gd_kv_heads D) normed) (\<lambda>v.
     bind_build (node B (px_rope P q pos (gd_head_dim D))) (\<lambda>q_rot.
     bind_build (node B (px_rope P k pos (gd_head_dim D))) (\<lambda>k_rot.
       return_build (q_rot, k_rot, v))))))"

definition head_scale :: "int \<Rightarrow> f32" where
  "head_scale head_dim = f32_div f32_one (f32_sqrt (f32_of_int head_dim))"

definition gemma_attend ::
  "'t builder \<Rightarrow> 't pi0_ops \<Rightarrow> gemma_dims \<Rightarrow> 't transformer_layer \<Rightarrow> 't \<Rightarrow> 't \<Rightarrow> 't \<Rightarrow> 't option \<Rightarrow> 't \<Rightarrow> 't build"
where
  "gemma_attend B P D L q_rot k_all v_all kq_mask hidden =
     (let G = gb_ops B in
      bind_build (node B (gg_permute G q_rot 0 2 1 3)) (\<lambda>q_perm.
      bind_build (node B (gg_permute G k_all 0 2 1 3)) (\<lambda>k_perm.
      bind_build (node B (gg_permute G v_all 0 2 1 3)) (\<lambda>v_perm.
      bind_build (node B (px_flash_attn P q_perm k_perm v_perm kq_mask (head_scale (gd_head_dim D)))) (\<lambda>attn.
      bind_build (node B (gg_reshape G attn [gd_head_dim D * gd_heads D, gd_tokens D])) (\<lambda>attn.
      bind_build (pi0_project B P (tw_out L) attn) (\<lambda>attn_out. node B (gg_add G hidden attn_out))))))))"

definition gemma_feed_forward ::
  "'t builder \<Rightarrow> 't pi0_ops \<Rightarrow> 't transformer_layer \<Rightarrow> 't \<Rightarrow> 't \<Rightarrow> 't build"
where
  "gemma_feed_forward B P L post_scale first_residual =
     (let G = gb_ops B in
      bind_build (gemma_norm B P first_residual post_scale) (\<lambda>post_norm.
      bind_build (pi0_project B P (tw_gate L) post_norm) (\<lambda>gate.
      bind_build (node B (gg_gelu G gate)) (\<lambda>gate.
      bind_build (pi0_project B P (tw_up L) post_norm) (\<lambda>up.
      bind_build (node B (gg_mul G gate up)) (\<lambda>gated.
      bind_build (pi0_project B P (tw_down L) gated) (\<lambda>mlp_out. node B (gg_add G first_residual mlp_out))))))))"

definition layer_missing :: "'t transformer_layer \<Rightarrow> bool" where
  "layer_missing L \<longleftrightarrow> tw_q L = None \<or> tw_k L = None \<or> tw_v L = None \<or> tw_out L = None \<or> tw_gate L = None \<or>
     tw_up L = None \<or> tw_down L = None"

definition norms_missing :: "'t transformer_layer \<Rightarrow> bool" where
  "norms_missing L \<longleftrightarrow> tw_input_norm_scale L = None \<or> tw_post_norm_scale L = None"

subsection \<open>Shapes\<close>

text \<open>A tensor of a file with the given shape: contiguous, of this rank.\<close>

definition has_tensor :: "'t ggml \<Rightarrow> 't option \<Rightarrow> int list \<Rightarrow> bool" where
  "has_tensor G w shape \<longleftrightarrow> (\<exists>t. w = Some t \<and> stored G (pad4 shape) t \<and> te_n_dims (gg_entry G t) = length shape)"

lemma pad4_simps [simp]:
  "pad4 [a] = [a, 1, 1, 1]" "pad4 [a, b] = [a, b, 1, 1]" "pad4 [a, b, c] = [a, b, c, 1]" "pad4 [a, b, c, d] = [a, b, c, d]"
  by (simp_all add: pad4_def numeral_eq_Suc)

lemma has_tensor_Some: "has_tensor G w shape \<Longrightarrow> w \<noteq> None"
  by (auto simp: has_tensor_def)

lemma pi0_laws_ggml: "pi0_laws G P \<Longrightarrow> ggml_laws G"
  by (simp add: pi0_laws_def)

lemma yields_pi0_weight:
  "has_tensor (gb_ops B) w shape \<Longrightarrow> length shape = rank \<Longrightarrow> yields B 0 (stored (gb_ops B) (pad4 shape)) (pi0_weight B P w rank)"
  by (auto simp: has_tensor_def pi0_weight_def intro: yields_return)

lemma yields_pi0_f32_weight:
  assumes "pi0_laws (gb_ops B) P" "has_tensor (gb_ops B) w shape" "length shape = rank"
  shows "yields B 1 (f32t (gb_ops B) (pad4 shape)) (pi0_f32_weight B P w rank)"
proof -
  have "yields B (0 + 1) (f32t (gb_ops B) (pad4 shape)) (pi0_f32_weight B P w rank)"
    unfolding pi0_f32_weight_def
    by (rule yields_bind [OF yields_pi0_weight [OF assms(2,3)] yields_f32_of [OF pi0_laws_ggml [OF assms(1)]]])
  then show ?thesis by simp
qed

lemma yields_pi0_project:
  assumes "pi0_laws (gb_ops B) P" "has_tensor (gb_ops B) w [k, m]" "f32t (gb_ops B) [k, n, h, 1] x"
  shows "yields B 1 (f32t (gb_ops B) [m, n, h, 1]) (pi0_project B P w x)"
proof -
  have mm: "yields B 1 (f32t (gb_ops B) [m, n, h, 1]) (node B (gg_mul_mat (gb_ops B) t x))"
    if "stored (gb_ops B) (pad4 [k, m]) t" for t
  proof (rule yields_node)
    have "stored (gb_ops B) [k, m, 1, 1] t \<and> dims (gb_ops B) [k, n, h, 1] x" using that f32t_imp(4) [OF assms(3)] by simp
    then show "gives (f32t (gb_ops B) [m, n, h, 1]) (gg_mul_mat (gb_ops B) t x)"
      using assms(1) unfolding pi0_laws_def law_broadcast_def by blast
  qed
  have "yields B (0 + 1) (f32t (gb_ops B) [m, n, h, 1]) (pi0_project B P w x)"
    unfolding pi0_project_def by (rule yields_bind [OF yields_pi0_weight [OF assms(2)] mm]) simp
  then show ?thesis by simp
qed

lemma yields_pi0_linear:
  assumes G: "pi0_laws (gb_ops B) P" and w: "has_tensor (gb_ops B) w [k, m]" "has_tensor (gb_ops B) b [m]"
    and x: "f32t (gb_ops B) [k, n, h, 1] x"
  shows "yields B 3 (f32t (gb_ops B) [m, n, h, 1]) (pi0_linear B P w b x)"
  unfolding pi0_linear_def
  apply (rule yields_mono)
   apply (rule yields_bind, rule yields_pi0_project [OF G w(1) x])
   apply (rule yields_bind, rule yields_pi0_f32_weight [OF G w(2)], simp)
   apply (rule node_elementwise(1) [OF pi0_laws_ggml [OF G]], assumption, assumption, simp add: can_repeat_def)
  apply simp
  done

lemma yields_gemma_norm:
  assumes G: "pi0_laws (gb_ops B) P" and x: "f32t (gb_ops B) [k, n, 1, 1] x" and s: "f32t (gb_ops B) [k, 1, 1, 1] s"
  shows "yields B 2 (f32t (gb_ops B) [k, n, 1, 1]) (gemma_norm B P x s)"
proof -
  have "law_rms_norm (gb_ops B) P" using G by (simp add: pi0_laws_def)
  then have "yields B 1 (f32t (gb_ops B) [k, n, 1, 1]) (node B (px_rms_norm P x rms_epsilon))"
    using x unfolding law_rms_norm_def by (blast intro: yields_node)
  then have "yields B (1 + 1) (f32t (gb_ops B) [k, n, 1, 1]) (gemma_norm B P x s)"
    unfolding gemma_norm_def
    by (rule yields_bind) (rule node_elementwise(2) [OF pi0_laws_ggml [OF G] _ s], assumption, simp add: can_repeat_def)
  then show ?thesis by (simp only: one_add_one)
qed

lemma node_reshape:
  assumes "pi0_laws (gb_ops B) P" "f32t (gb_ops B) ds t" "length ds' \<le> 4" "list_all (\<lambda>d. 0 < d) ds'" "prod_list ds' = prod_list ds"
  shows "yields B 1 (f32t (gb_ops B) (pad4 ds')) (node B (gg_reshape (gb_ops B) t ds'))"
proof (rule yields_node)
  have "law_reshape (gb_ops B)" using assms(1) by (simp add: pi0_laws_def)
  then show "gives (f32t (gb_ops B) (pad4 ds')) (gg_reshape (gb_ops B) t ds')"
    using assms(2-) by (simp add: law_reshape_def)
qed

lemma node_permutes:
  assumes "pi0_laws (gb_ops B) P" "f32t (gb_ops B) [a, b, c, d] t"
  shows "yields B 1 (rows (gb_ops B) [a, c, b, d]) (node B (gg_permute (gb_ops B) t 0 2 1 3))"
    and "yields B 1 (strided (gb_ops B) [b, a, c, d]) (node B (gg_permute (gb_ops B) t 1 0 2 3))"
proof -
  have "law_permute (gb_ops B)" using assms(1) by (simp add: pi0_laws_def)
  then have "gives (rows (gb_ops B) [a, c, b, d]) (gg_permute (gb_ops B) t 0 2 1 3)"
    "gives (strided (gb_ops B) [b, a, c, d]) (gg_permute (gb_ops B) t 1 0 2 3)"
    using assms(2) unfolding law_permute_def by blast+
  then show "yields B 1 (rows (gb_ops B) [a, c, b, d]) (node B (gg_permute (gb_ops B) t 0 2 1 3))"
    and "yields B 1 (strided (gb_ops B) [b, a, c, d]) (node B (gg_permute (gb_ops B) t 1 0 2 3))"
    by (auto intro: yields_node simp del: One_nat_def)
qed

lemma node_cont_3d:
  assumes "pi0_laws (gb_ops B) P" "strided (gb_ops B) ds t" "0 < x" "0 < y" "0 < z" "x * y * z = prod_list ds"
  shows "yields B 1 (f32t (gb_ops B) [x, y, z, 1]) (node B (px_cont_3d P t x y z))"
proof (rule yields_node)
  have "law_cont_3d (gb_ops B) P" using assms(1) by (simp add: pi0_laws_def)
  then show "gives (f32t (gb_ops B) [x, y, z, 1]) (px_cont_3d P t x y z)"
    using assms(2-) by (simp add: law_cont_3d_def)
qed

lemma node_concat_2:
  assumes "pi0_laws (gb_ops B) P" "f32t (gb_ops B) [a, b, m, 1] t" "f32t (gb_ops B) [a, b, n, 1] u"
  shows "yields B 1 (f32t (gb_ops B) [a, b, m + n, 1]) (node B (gg_concat (gb_ops B) t u 2))"
proof (rule yields_node)
  have "law_concat_2 (gb_ops B)" using assms(1) by (simp add: pi0_laws_def)
  then show "gives (f32t (gb_ops B) [a, b, m + n, 1]) (gg_concat (gb_ops B) t u 2)"
    using assms(2-) unfolding law_concat_2_def by blast
qed

lemma node_flash_attn:
  assumes "pi0_laws (gb_ops B) P" "rows (gb_ops B) [d, n, h, b] q" "rows (gb_ops B) [d, kv, hk, b] k"
    "rows (gb_ops B) [d, kv, hk, b] v" "h mod hk = 0"
    "\<And>t. m = Some t \<Longrightarrow> stored (gb_ops B) [kv, n, 1, 1] t \<and> tensor_type (gb_ops B) t = GGML_TYPE_F16"
  shows "yields B 1 (f32t (gb_ops B) [d, h, n, b]) (node B (px_flash_attn P q k v m s))"
proof (rule yields_node)
  have "law_flash_attn (gb_ops B) P" using assms(1) by (simp add: pi0_laws_def)
  then have "gives (f32t (gb_ops B) [d, h, n, b]) (px_flash_attn P q k v None s) \<and>
      (\<forall>m. stored (gb_ops B) [kv, n, 1, 1] m \<and> tensor_type (gb_ops B) m = GGML_TYPE_F16 \<longrightarrow>
        gives (f32t (gb_ops B) [d, h, n, b]) (px_flash_attn P q k v (Some m) s))"
    using conjI [OF assms(2) conjI [OF assms(3) conjI [OF assms(4) assms(5)]]] unfolding law_flash_attn_def by metis
  then show "gives (f32t (gb_ops B) [d, h, n, b]) (px_flash_attn P q k v m s)"
    using assms(6) by (cases m) auto
qed

lemma node_rope:
  assumes "pi0_laws (gb_ops B) P" "f32t (gb_ops B) [d, h, n, 1] t" "stored (gb_ops B) [n, 1, 1, 1] pos"
    "tensor_type (gb_ops B) pos = GGML_TYPE_I32"
  shows "yields B 1 (f32t (gb_ops B) [d, h, n, 1]) (node B (px_rope P t pos d))"
proof (rule yields_node)
  have "law_rope (gb_ops B) P" using assms(1) by (simp add: pi0_laws_def)
  then show "gives (f32t (gb_ops B) [d, h, n, 1]) (px_rope P t pos d)"
    using assms(2-) unfolding law_rope_def by blast
qed

text \<open>The dimensions of the heads fit the projections.\<close>

definition gemma_fits :: "gemma_dims \<Rightarrow> bool" where
  "gemma_fits D \<longleftrightarrow> 0 < gd_q_out D \<and> 0 < gd_kv_out D \<and> 0 < gd_head_dim D \<and> 0 < gd_heads D \<and> 0 < gd_kv_heads D \<and> 0 < gd_tokens D \<and>
     gd_q_out D = gd_heads D * gd_head_dim D \<and> gd_kv_out D = gd_kv_heads D * gd_head_dim D \<and> gd_heads D mod gd_kv_heads D = 0"

definition has_layer :: "'t ggml \<Rightarrow> int \<Rightarrow> int \<Rightarrow> int \<Rightarrow> int \<Rightarrow> 't transformer_layer \<Rightarrow> bool" where
  "has_layer G width q_out kv_out mlp L \<longleftrightarrow>
     has_tensor G (tw_input_norm_scale L) [width] \<and> has_tensor G (tw_post_norm_scale L) [width] \<and>
     has_tensor G (tw_q L) [width, q_out] \<and> has_tensor G (tw_k L) [width, kv_out] \<and> has_tensor G (tw_v L) [width, kv_out] \<and>
     has_tensor G (tw_out L) [q_out, width] \<and> has_tensor G (tw_gate L) [width, mlp] \<and> has_tensor G (tw_up L) [width, mlp] \<and>
     has_tensor G (tw_down L) [mlp, width]"

lemma has_layer_complete: "has_layer G width q_out kv_out mlp L \<Longrightarrow> \<not> layer_missing L \<and> \<not> norms_missing L"
  by (auto simp: has_layer_def layer_missing_def norms_missing_def dest: has_tensor_Some)

lemma yields_gemma_heads:
  assumes G: "pi0_laws (gb_ops B) P" and w: "has_tensor (gb_ops B) w [k, width]"
    and x: "f32t (gb_ops B) [k, gd_tokens D, 1, 1] x" and pos: "0 < gd_head_dim D" "0 < heads" "0 < gd_tokens D"
    and fits: "width = heads * gd_head_dim D"
  shows "yields B 3 (f32t (gb_ops B) [gd_head_dim D, heads, gd_tokens D, 1]) (gemma_heads B P D w width heads x)"
proof -
  have width: "0 < width" using pos fits by simp
  have "yields B (1 + (1 + 1)) (f32t (gb_ops B) (pad4 [gd_head_dim D, heads, gd_tokens D])) (gemma_heads B P D w width heads x)"
    unfolding gemma_heads_def
    apply (rule yields_bind, rule yields_pi0_project [OF G w x])
    apply (rule yields_bind, rule node_layout(6) [OF pi0_laws_ggml [OF G]], erule f32t_imp(1), rule width, rule pos(3), simp)
    apply (rule node_reshape [OF G], assumption, simp, use pos fits in simp, use fits in simp)
    done
  then show ?thesis by (simp add: numeral_3_eq_3)
qed

lemma yields_gemma_qkv:
  assumes G: "pi0_laws (gb_ops B) P" and L: "has_layer (gb_ops B) width (gd_q_out D) (gd_kv_out D) mlp L" and D: "gemma_fits D"
    and pos: "stored (gb_ops B) [gd_tokens D, 1, 1, 1] pos" "tensor_type (gb_ops B) pos = GGML_TYPE_I32"
    and x: "f32t (gb_ops B) [width, gd_tokens D, 1, 1] x"
  shows "yields B 11 (\<lambda>(q, k, v). f32t (gb_ops B) [gd_head_dim D, gd_heads D, gd_tokens D, 1] q \<and>
      f32t (gb_ops B) [gd_head_dim D, gd_kv_heads D, gd_tokens D, 1] k \<and>
      f32t (gb_ops B) [gd_head_dim D, gd_kv_heads D, gd_tokens D, 1] v) (gemma_qkv B P D L pos x)"
proof -
  note d = D [unfolded gemma_fits_def] and l = L [unfolded has_layer_def]
  show ?thesis
    unfolding gemma_qkv_def
    apply (rule yields_mono)
     apply (rule yields_bind, rule yields_gemma_heads [OF G _ x], use l d in simp_all)
     apply (rule yields_bind, rule yields_gemma_heads [OF G _ x], use l d in simp_all)
     apply (rule yields_bind, rule yields_gemma_heads [OF G _ x], use l d in simp_all)
     apply (rule yields_bind, rule node_rope [OF G _ pos], assumption)
     apply (rule yields_bind, rule node_rope [OF G _ pos], assumption)
     apply (rule yields_return, simp)
    apply simp
    done
qed

lemma yields_gemma_attend:
  assumes G: "pi0_laws (gb_ops B) P" and L: "has_layer (gb_ops B) width (gd_q_out D) (gd_kv_out D) mlp L" and D: "gemma_fits D"
    and q: "f32t (gb_ops B) [gd_head_dim D, gd_heads D, gd_tokens D, 1] q"
    and kv: "f32t (gb_ops B) [gd_head_dim D, gd_kv_heads D, kv, 1] k" "f32t (gb_ops B) [gd_head_dim D, gd_kv_heads D, kv, 1] v"
    and m: "\<And>t. m = Some t \<Longrightarrow> stored (gb_ops B) [kv, gd_tokens D, 1, 1] t \<and> tensor_type (gb_ops B) t = GGML_TYPE_F16"
    and x: "f32t (gb_ops B) [width, gd_tokens D, 1, 1] x"
  shows "yields B 7 (f32t (gb_ops B) [width, gd_tokens D, 1, 1]) (gemma_attend B P D L q k v m x)"
proof -
  note d = D [unfolded gemma_fits_def] and l = L [unfolded has_layer_def]
  have out: "has_tensor (gb_ops B) (tw_out L) [gd_head_dim D * gd_heads D, width]" using l d by (simp add: mult.commute)
  have flash: "yields B 1 (f32t (gb_ops B) [gd_head_dim D, gd_heads D, gd_tokens D, 1]) (node B (px_flash_attn P q' k' v' m s))"
    if "rows (gb_ops B) [gd_head_dim D, gd_tokens D, gd_heads D, 1] q'" "rows (gb_ops B) [gd_head_dim D, kv, gd_kv_heads D, 1] k'"
      "rows (gb_ops B) [gd_head_dim D, kv, gd_kv_heads D, 1] v'" for q' k' v' s
    by (rule node_flash_attn [OF G that]) (use d m in auto)
  have cut: "yields B 1 (f32t (gb_ops B) (pad4 [gd_head_dim D * gd_heads D, gd_tokens D]))
      (node B (gg_reshape (gb_ops B) t [gd_head_dim D * gd_heads D, gd_tokens D]))"
    if "f32t (gb_ops B) [gd_head_dim D, gd_heads D, gd_tokens D, 1] t" for t
    by (rule node_reshape [OF G that]) (use d in simp_all)
  show ?thesis
    unfolding gemma_attend_def Let_def
    apply (rule yields_mono)
     apply (rule yields_bind, rule node_permutes(1) [OF G q])
     apply (rule yields_bind, rule node_permutes(1) [OF G kv(1)])
     apply (rule yields_bind, rule node_permutes(1) [OF G kv(2)])
     apply (rule yields_bind, rule flash, assumption, assumption, assumption)
     apply (rule yields_bind, erule cut)
     apply (rule yields_bind, rule yields_pi0_project [OF G out], simp)
     apply (rule node_elementwise(1) [OF pi0_laws_ggml [OF G] x], assumption, simp add: can_repeat_def)
    apply simp
    done
qed

lemma yields_gemma_feed_forward:
  assumes G: "pi0_laws (gb_ops B) P" and L: "has_layer (gb_ops B) width q_out kv_out mlp L"
    and s: "f32t (gb_ops B) [width, 1, 1, 1] s" and x: "f32t (gb_ops B) [width, n, 1, 1] x"
  shows "yields B 8 (f32t (gb_ops B) [width, n, 1, 1]) (gemma_feed_forward B P L s x)"
proof -
  note l = L [unfolded has_layer_def]
  show ?thesis
    unfolding gemma_feed_forward_def Let_def
    apply (rule yields_mono)
     apply (rule yields_bind, rule yields_gemma_norm [OF G x s])
     apply (rule yields_bind, rule yields_pi0_project [OF G], use l in blast, assumption)
     apply (rule yields_bind, rule node_unary(5) [OF pi0_laws_ggml [OF G]], assumption)
     apply (rule yields_bind, rule yields_pi0_project [OF G], use l in blast, assumption)
     apply (rule yields_bind, rule node_elementwise(2) [OF pi0_laws_ggml [OF G]], assumption, assumption, simp add: can_repeat_def)
     apply (rule yields_bind, rule yields_pi0_project [OF G], use l in blast, assumption)
     apply (rule node_elementwise(1) [OF pi0_laws_ggml [OF G] x], assumption, simp add: can_repeat_def)
    apply simp
    done
qed

end
