(* ===== verification/Pi0Preprocess.thy ===== *)
theory Pi0Preprocess
  imports Pi0Types ImagePreprocess Prompts "HOL-Library.Multiset" "HOL-Library.Signed_Division"
begin

text \<open>
  \<^verbatim>\<open>src/models/pi0/preprocess.cpp\<close>: the checks of an observation, the normalisation of the state, and the bilinear
  resize of every camera image, padded to the size of the model.  \<open>None\<close> is undefined behaviour: an overflow, a float that
  does not fit an \<open>int\<close>, an access outside a buffer.  A pointer that may be null is an option.
\<close>

record pi0_raw_image =
  r0_name :: "string option"
  r0_data :: "u8 list option"
  r0_width :: int
  r0_height :: int
  r0_channels :: int
  r0_stride_bytes :: int

record pi0_raw_observation =
  r0_images :: "pi0_raw_image list"
  r0_state :: "f32 list option"
  r0_prompt :: "string option"
  r0_prompt_tokens :: "int list option"
  r0_noise :: "f32 list option"

record pi0_image_tensor =
  t0_name :: string
  t0_width :: int
  t0_height :: int
  t0_channels :: int
  t0_data :: "f32 list"

record pi0_observation =
  o0_images :: "pi0_image_tensor list"
  o0_state :: "f32 list"
  o0_prompt :: string
  o0_prompt_tokens :: "int list"
  o0_noise :: "f32 list"

subsection \<open>Resizing\<close>

record resize_coord =
  rz_lo :: int
  rz_hi :: int
  rz_lo_weight :: f32
  rz_hi_weight :: f32

definition f32_max :: "f32 \<Rightarrow> f32 \<Rightarrow> f32" where "f32_max a b = (if f32_lt a b then b else a)"
definition f32_min :: "f32 \<Rightarrow> f32 \<Rightarrow> f32" where "f32_min a b = (if f32_lt b a then b else a)"

definition f32_to_int :: "f32 \<Rightarrow> int option" where "f32_to_int x = f64_to_sint 32 (f64_of_f32 x)"
definition f32_floor_int :: "f32 \<Rightarrow> int option" where "f32_floor_int x = f64_floor_sint 32 (f64_of_f32 x)"

definition resize_coord_at :: "int \<Rightarrow> int \<Rightarrow> nat \<Rightarrow> resize_coord option" where
  "resize_coord_at src_size dst_size i =
     (let src = f32_sub (f32_div (f32_mul (f32_add (f32_of_int (int i)) f32_half) (f32_of_int src_size)) (f32_of_int dst_size)) f32_half;
          src = f32_max f32_zero (f32_min src (f32_of_int (src_size - 1)))
      in map_option (\<lambda>lo. let hi_weight = f32_sub src (f32_of_int lo) in
           \<lparr>rz_lo = lo, rz_hi = min (lo + 1) (src_size - 1), rz_lo_weight = f32_sub f32_one hi_weight,
            rz_hi_weight = hi_weight\<rparr>) (f32_floor_int src))"

definition build_resize_coords :: "int \<Rightarrow> int \<Rightarrow> resize_coord list option" where
  "build_resize_coords src_size dst_size = those (map (resize_coord_at src_size dst_size) [0..<nat dst_size])"

definition normalize_u8 :: "f32 \<Rightarrow> f32" where
  "normalize_u8 v = f32_sub (f32_mul v (f32_div (f32_of_int 2) (f32_of_int 255))) f32_one"

text \<open>One channel of an output pixel; \<open>channel\<close> is clamped to the channels of the image.\<close>

definition sample_channel ::
  "u8 list \<Rightarrow> int \<Rightarrow> int \<Rightarrow> resize_coord \<Rightarrow> resize_coord \<Rightarrow> int \<Rightarrow> f32 option"
where
  "sample_channel data stride channels xc yc channel =
     (let at = (\<lambda>y x. map_option (\<lambda>b. f32_of_int (uint b)) (read_at data (y * stride + x * channels + min channel (channels - 1))));
          row = (\<lambda>y. Option.bind (at y (rz_lo xc)) (\<lambda>a. map_option (\<lambda>b.
            f32_add (f32_mul a (rz_lo_weight xc)) (f32_mul b (rz_hi_weight xc))) (at y (rz_hi xc))))
      in Option.bind (row (rz_lo yc)) (\<lambda>above. map_option (\<lambda>below.
           normalize_u8 (f32_add (f32_mul above (rz_lo_weight yc)) (f32_mul below (rz_hi_weight yc)))) (row (rz_hi yc))))"

definition write_pixel :: "nat \<Rightarrow> f32 \<Rightarrow> f32 \<Rightarrow> f32 \<Rightarrow> f32 list \<Rightarrow> f32 list option" where
  "write_pixel index r g b data =
     (if index + 2 < length data then Some (data[index := r, index + 1 := g, index + 2 := b]) else None)"

fun each_pixel :: "('p \<Rightarrow> f32 list \<Rightarrow> f32 list option) \<Rightarrow> 'p list \<Rightarrow> f32 list \<Rightarrow> f32 list option" where
  "each_pixel f [] data = Some data"
| "each_pixel f (p # ps) data = Option.bind (f p data) (each_pixel f ps)"

definition resize_pixel ::
  "u8 list \<Rightarrow> pi0_raw_image \<Rightarrow> int \<Rightarrow> int \<Rightarrow> int \<Rightarrow> resize_coord list \<Rightarrow> resize_coord list \<Rightarrow> nat \<times> nat \<Rightarrow> f32 list \<Rightarrow> f32 list option"
where
  "resize_pixel bytes view width pad_x0 pad_y0 x_coords y_coords p data =
     (let (ry, rx) = p; sample = sample_channel bytes (r0_stride_bytes view) (r0_channels view) (x_coords ! rx) (y_coords ! ry);
          index = (size_cast (pad_y0 + int ry) * size_cast width + size_cast (pad_x0 + int rx)) * 3 mod 2 ^ 64
      in Option.bind (sample 0) (\<lambda>r. Option.bind (sample 1) (\<lambda>g. Option.bind (sample 2) (\<lambda>b. write_pixel index r g b data))))"

definition resized_size :: "int \<Rightarrow> f32 \<Rightarrow> int option" where
  "resized_size extent ratio = map_option (max 1) (f32_to_int (f32_div (f32_of_int extent) ratio))"

definition resize_image :: "pi0_common_config \<Rightarrow> string \<Rightarrow> u8 list \<Rightarrow> pi0_raw_image \<Rightarrow> pi0_image_tensor option" where
  "resize_image c name bytes view =
     (let width = c0_image_width c; height = c0_image_height c;
          empty = replicate (size_cast width * size_cast height * 3 mod 2 ^ 64) f32_minus_one;
          ratio = f32_max (f32_div (f32_of_int (r0_width view)) (f32_of_int width))
            (f32_div (f32_of_int (r0_height view)) (f32_of_int height))
      in Option.bind (resized_size (r0_width view) ratio) (\<lambda>resized_width.
         Option.bind (resized_size (r0_height view) ratio) (\<lambda>resized_height.
           if \<not> fits_sint 32 (width - resized_width) \<or> \<not> fits_sint 32 (height - resized_height) then None
           else Option.bind (build_resize_coords (r0_width view) resized_width) (\<lambda>x_coords.
             Option.bind (build_resize_coords (r0_height view) resized_height) (\<lambda>y_coords.
             map_option (\<lambda>data. \<lparr>t0_name = name, t0_width = width, t0_height = height, t0_channels = 3, t0_data = data\<rparr>)
               (each_pixel (resize_pixel bytes view width ((width - resized_width) sdiv 2) ((height - resized_height) sdiv 2)
                    x_coords y_coords)
                 (List.product [0..<nat resized_height] [0..<nat resized_width]) empty))))))"

subsection \<open>Cameras\<close>

definition is_empty_camera_key :: "string \<Rightarrow> bool" where
  "is_empty_camera_key key \<longleftrightarrow> has_sub key ''.empty_camera_''"

fun find_real_image_key :: "nat \<Rightarrow> string list \<Rightarrow> string \<Rightarrow> nat option" where
  "find_real_image_key i [] name = None"
| "find_real_image_key i (key # keys) name =
     (if \<not> is_empty_camera_key key \<and> key = name then Some i else find_real_image_key (i + 1) keys name)"

text \<open>The loop over the images: a slot per key, \<open>None\<close> while the key has not been seen.\<close>

definition place_image ::
  "pi0_common_config \<Rightarrow> pi0_raw_image \<Rightarrow> pi0_image_tensor option list \<Rightarrow> pi0_image_tensor option list run"
where
  "place_image c view slots =
     (case (r0_name view, r0_data view) of
        (Some name, Some bytes) \<Rightarrow>
          (case find_real_image_key 0 (c0_image_keys c) name of
             None \<Rightarrow> Some (Inl (''observation has unknown image view: '' @ name))
           | Some key_index \<Rightarrow>
               if slots ! key_index \<noteq> None then Some (Inl (''observation has duplicate image view: '' @ name))
               else if r0_width view \<le> 0 \<or> r0_height view \<le> 0 \<or> r0_channels view \<le> 0 \<or> r0_channels view > 4 then
                 Some (Inl ''image view has invalid dimensions'')
               else if \<not> fits_sint 32 (r0_width view * r0_channels view) then None
               else if r0_stride_bytes view < r0_width view * r0_channels view then Some (Inl ''image stride is too small'')
               else map_option (\<lambda>tensor. Inr (slots[key_index := Some tensor])) (resize_image c name bytes view))
      | _ \<Rightarrow> Some (Inl ''image view has null name or data''))"

fun place_images ::
  "pi0_common_config \<Rightarrow> pi0_raw_image list \<Rightarrow> pi0_image_tensor option list \<Rightarrow> pi0_image_tensor option list run"
where
  "place_images c [] slots = Some (Inr slots)"
| "place_images c (view # images) slots = bind_run (place_image c view slots) (place_images c images)"

fun collect_images :: "(string \<times> pi0_image_tensor option) list \<Rightarrow> pi0_image_tensor list res" where
  "collect_images [] = Inr []"
| "collect_images ((key, slot) # rest) =
     (if is_empty_camera_key key then collect_images rest
      else bind_res (need_some (''observation missing required image view: '' @ key) slot) (\<lambda>t.
           bind_res (collect_images rest) (\<lambda>ts. Inr (t # ts))))"

subsection \<open>The observation\<close>

definition preprocess_state :: "pi0_common_config \<Rightarrow> f32 list option \<Rightarrow> f32 list res" where
  "preprocess_state c raw_state =
     (if c0_state_dim c \<le> 0 then Inr []
      else let dim = nat (c0_state_dim c) in
        bind_res (need_some ''observation state is required'' raw_state) (\<lambda>values.
        if length values > dim then Inl ''observation state dimension exceeds model state_dim''
        else let state = values @ replicate (dim - length values) f32_zero in
          if length (c0_state_mean c) = dim \<or> length (c0_state_std c) = dim then
            if length (c0_state_mean c) \<noteq> dim \<or> length (c0_state_std c) \<noteq> dim then
              Inl ''state_mean and state_std must both match state_dim''
            else if list_ex (\<lambda>std. f32_eq std f32_zero) (c0_state_std c) then Inl ''state_std contains zero''
            else Inr (map2 (\<lambda>v (mean, std). f32_div (f32_sub v mean) std) state (zip (c0_state_mean c) (c0_state_std c)))
          else Inr state))"

definition preprocess_tokens :: "int list option \<Rightarrow> int list res" where
  "preprocess_tokens tokens =
     (case tokens of None \<Rightarrow> Inr []
      | Some ts \<Rightarrow> if list_ex (\<lambda>token. token < 0) ts then Inl ''prompt token id must be non-negative'' else Inr ts)"

definition preprocess_noise :: "pi0_common_config \<Rightarrow> f32 list option \<Rightarrow> f32 list res" where
  "preprocess_noise c noise =
     (case noise of None \<Rightarrow> Inr []
      | Some ns \<Rightarrow> if ns \<noteq> [] \<and> length ns \<noteq> size_cast (c0_action_horizon c) * size_cast (c0_action_dim c) mod 2 ^ 64 then
            Inl ''observation noise dimension mismatch''
          else Inr ns)"

definition validate_and_preprocess_pi0 :: "pi0_model_config \<Rightarrow> pi0_raw_observation \<Rightarrow> pi0_observation run" where
  "validate_and_preprocess_pi0 config raw =
     (let c = m0_common config; keys = c0_image_keys c in
      bind_run (Some (preprocess_state c (r0_state raw))) (\<lambda>state.
      bind_run (Some (preprocess_tokens (r0_prompt_tokens raw))) (\<lambda>tokens.
      bind_run (Some (preprocess_noise c (r0_noise raw))) (\<lambda>noise.
        if keys = [] then Some (Inl ''model config has no image_keys'')
        else bind_run (place_images c (r0_images raw) (replicate (length keys) None)) (\<lambda>slots.
          bind_run (Some (collect_images (zip keys slots))) (\<lambda>images.
            Some (Inr \<lparr>o0_images = images, o0_state = state, o0_prompt = (case r0_prompt raw of None \<Rightarrow> [] | Some p \<Rightarrow> p),
              o0_prompt_tokens = tokens, o0_noise = noise\<rparr>)))))))"

subsection \<open>Shapes\<close>

lemma each_pixel_length:
  assumes "each_pixel f ps data = Some data'" "\<And>p d d'. f p d = Some d' \<Longrightarrow> length d' = length d"
  shows "length data' = length data"
  using assms(1)
proof (induction ps arbitrary: data)
  case (Cons p ps)
  then obtain d where "f p data = Some d" "each_pixel f ps d = Some data'" by (auto simp: Option.bind_eq_Some_conv)
  then show ?case using Cons.IH assms(2) by fastforce
qed simp

lemma resize_image_shape:
  assumes "resize_image c name bytes view = Some t"
  shows "t0_name t = name \<and> t0_width t = c0_image_width c \<and> t0_height t = c0_image_height c \<and> t0_channels t = 3 \<and>
    length (t0_data t) = size_cast (c0_image_width c) * size_cast (c0_image_height c) * 3 mod 2 ^ 64"
proof -
  have pixel: "length d' = length d" if "resize_pixel bytes view width px py xs ys p d = Some d'" for width px py xs ys p d d'
    using that by (auto simp: resize_pixel_def write_pixel_def Let_def Option.bind_eq_Some_conv split: prod.splits if_splits)
  obtain px py xs ys ps data where "each_pixel (resize_pixel bytes view (c0_image_width c) px py xs ys) ps
      (replicate (size_cast (c0_image_width c) * size_cast (c0_image_height c) * 3 mod 2 ^ 64) f32_minus_one) = Some data"
    and t: "t = \<lparr>t0_name = name, t0_width = c0_image_width c, t0_height = c0_image_height c, t0_channels = 3, t0_data = data\<rparr>"
    using assms unfolding resize_image_def Let_def Option.bind_eq_Some_conv map_option_eq_Some
    by (auto simp: Option.bind_eq_Some_conv split: if_splits)
  from each_pixel_length [OF this(1) pixel] t show ?thesis by simp
qed

lemma find_real_image_key_Some:
  "find_real_image_key i keys name = Some k \<Longrightarrow>
     i \<le> k \<and> k - i < length keys \<and> keys ! (k - i) = name \<and> \<not> is_empty_camera_key name"
proof (induction i keys name rule: find_real_image_key.induct)
  case (2 i key keys name)
  show ?case
  proof (cases "\<not> is_empty_camera_key key \<and> key = name")
    case False
    with 2 have "i + 1 \<le> k \<and> k - (i + 1) < length keys \<and> keys ! (k - (i + 1)) = name \<and> \<not> is_empty_camera_key name" by auto
    moreover from this have "i + 1 \<le> k" by blast
    then have "k - i = Suc (k - (i + 1))" by simp
    ultimately show ?thesis by simp
  qed (use 2(2) in auto)
qed simp

text \<open>What a slot holds: the image of its key.\<close>

definition slot_of :: "pi0_common_config \<Rightarrow> pi0_raw_image list \<Rightarrow> string \<Rightarrow> pi0_image_tensor option \<Rightarrow> bool" where
  "slot_of c images key slot \<longleftrightarrow> slot = None \<or> (\<exists>t. slot = Some t \<and> t0_name t = key \<and> \<not> is_empty_camera_key key \<and>
     (\<exists>view bytes. view \<in> set images \<and> r0_name view = Some key \<and> r0_data view = Some bytes \<and>
        resize_image c key bytes view = Some t))"

definition placed_names :: "pi0_image_tensor option list \<Rightarrow> string option multiset" where
  "placed_names slots = image_mset (map_option t0_name) (filter_mset (\<lambda>s. s \<noteq> None) (mset slots))"

lemma place_image_Inr:
  assumes "place_image c view slots = Some (Inr slots')" "view \<in> set images"
    "list_all2 (slot_of c images) (c0_image_keys c) slots"
  shows "list_all2 (slot_of c images) (c0_image_keys c) slots' \<and> placed_names slots' = add_mset (r0_name view) (placed_names slots)"
proof -
  obtain name bytes k t where view: "r0_name view = Some name" "r0_data view = Some bytes"
    and k: "find_real_image_key 0 (c0_image_keys c) name = Some k" and free: "slots ! k = None"
    and t: "resize_image c name bytes view = Some t" and slots': "slots' = slots[k := Some t]"
    using assms(1) by (auto simp: place_image_def split: option.splits if_splits)
  from find_real_image_key_Some [OF k] have at: "k < length (c0_image_keys c)" "c0_image_keys c ! k = name"
    "\<not> is_empty_camera_key name" by auto
  from assms(3) have len: "length slots = length (c0_image_keys c)" by (simp add: list_all2_lengthD)
  have t_name: "t0_name t = name" using resize_image_shape [OF t] by blast
  have "slot_of c images name (Some t)"
    unfolding slot_of_def using at t view assms(2) t_name by blast
  then have "list_all2 (slot_of c images) (c0_image_keys c) slots'"
    using assms(3) at by (auto simp: slots' list_all2_conv_all_nth nth_list_update)
  moreover have "None \<in># mset slots" using free at(1) len by (metis nth_mem set_mset_mset)
  then have "filter_mset (\<lambda>s. s \<noteq> None) (mset slots - {#None#}) = filter_mset (\<lambda>s. s \<noteq> None) (mset slots)"
    by simp
  then have "placed_names slots' = add_mset (r0_name view) (placed_names slots)"
    using at(1) len free by (simp add: placed_names_def slots' mset_update t_name view)
  ultimately show ?thesis by blast
qed

lemma place_images_Inr:
  assumes "place_images c rest slots = Some (Inr slots')" "set rest \<subseteq> set images"
    "list_all2 (slot_of c images) (c0_image_keys c) slots"
  shows "list_all2 (slot_of c images) (c0_image_keys c) slots' \<and>
    placed_names slots' = mset (map r0_name rest) + placed_names slots"
  using assms
proof (induction rest arbitrary: slots)
  case (Cons view rest)
  then obtain slots1 where one: "place_image c view slots = Some (Inr slots1)"
    "place_images c rest slots1 = Some (Inr slots')" by (auto simp: res_simps)
  from place_image_Inr [OF one(1) _ Cons.prems(3)] Cons.prems(2)
  have "list_all2 (slot_of c images) (c0_image_keys c) slots1" "placed_names slots1 = add_mset (r0_name view) (placed_names slots)"
    by auto
  with Cons.IH [OF one(2)] Cons.prems(2) show ?case by simp
qed simp

lemma collect_images_Inr:
  assumes "collect_images (zip keys slots) = Inr ts" "list_all2 (slot_of c images) keys slots"
  shows "map t0_name ts = filter (\<lambda>k. \<not> is_empty_camera_key k) keys \<and> placed_names slots = mset (map (Some \<circ> t0_name) ts) \<and>
    (\<forall>t \<in> set ts. slot_of c images (t0_name t) (Some t))"
  using assms(2,1)
proof (induction arbitrary: ts rule: list_all2_induct)
  case Nil
  then show ?case by (simp add: placed_names_def)
next
  case (Cons key keys slot slots)
  show ?case
  proof (cases "is_empty_camera_key key")
    case True
    with Cons have "slot = None" by (auto simp: slot_of_def)
    with True Cons show ?thesis by (simp add: placed_names_def)
  next
    case False
    with Cons.prems obtain t ts' where t: "slot = Some t" "collect_images (zip keys slots) = Inr ts'" "ts = t # ts'"
      by (auto simp: res_simps)
    with Cons.hyps(1) have "t0_name t = key" by (auto simp: slot_of_def)
    with t Cons.IH [OF t(2)] Cons.hyps(1) False show ?thesis by (simp add: placed_names_def)
  qed
qed

lemma preprocess_state_Inr:
  assumes "preprocess_state c raw_state = Inr state"
  shows "length state = nat (c0_state_dim c)"
  using assms by (auto simp: preprocess_state_def Let_def res_simps split: if_splits)

subsection \<open>Property\<close>

lemma pi0_observation_parts:
  assumes "validate_and_preprocess_pi0 config raw = Some (Inr obs)"
  shows "map t0_name (o0_images obs) = filter (\<lambda>k. \<not> is_empty_camera_key k) (c0_image_keys (m0_common config)) \<and>
    mset (map r0_name (r0_images raw)) = mset (map (Some \<circ> t0_name) (o0_images obs)) \<and>
    (\<forall>t \<in> set (o0_images obs).
       (\<exists>view bytes. view \<in> set (r0_images raw) \<and> r0_name view = Some (t0_name t) \<and> r0_data view = Some bytes \<and>
          resize_image (m0_common config) (t0_name t) bytes view = Some t) \<and>
       t0_width t = c0_image_width (m0_common config) \<and> t0_height t = c0_image_height (m0_common config) \<and> t0_channels t = 3 \<and>
       length (t0_data t) = size_cast (t0_width t) * size_cast (t0_height t) * 3 mod 2 ^ 64) \<and>
    length (o0_state obs) = nat (c0_state_dim (m0_common config)) \<and> list_all (\<lambda>token. 0 \<le> token) (o0_prompt_tokens obs)"
proof -
  let ?c = "m0_common config"
  obtain slots where placed: "place_images ?c (r0_images raw) (replicate (length (c0_image_keys ?c)) None) = Some (Inr slots)"
    and collected: "collect_images (zip (c0_image_keys ?c) slots) = Inr (o0_images obs)"
    and state: "preprocess_state ?c (r0_state raw) = Inr (o0_state obs)"
    and tokens: "preprocess_tokens (r0_prompt_tokens raw) = Inr (o0_prompt_tokens obs)"
    using assms by (auto simp: validate_and_preprocess_pi0_def Let_def res_simps split: if_splits)
  have "list_all2 (slot_of ?c (r0_images raw)) (c0_image_keys ?c) (replicate (length (c0_image_keys ?c)) None)"
    by (simp add: list_all2_conv_all_nth slot_of_def)
  from place_images_Inr [OF placed subset_refl this]
  have slots: "list_all2 (slot_of ?c (r0_images raw)) (c0_image_keys ?c) slots"
    "placed_names slots = mset (map r0_name (r0_images raw))" by (auto simp: placed_names_def)
  note parts = collect_images_Inr [OF collected slots(1)]
  have "(\<exists>view bytes. view \<in> set (r0_images raw) \<and> r0_name view = Some (t0_name t) \<and> r0_data view = Some bytes \<and>
          resize_image ?c (t0_name t) bytes view = Some t) \<and>
       t0_width t = c0_image_width ?c \<and> t0_height t = c0_image_height ?c \<and> t0_channels t = 3 \<and>
       length (t0_data t) = size_cast (t0_width t) * size_cast (t0_height t) * 3 mod 2 ^ 64" if "t \<in> set (o0_images obs)" for t
  proof -
    from parts that obtain view bytes where i: "view \<in> set (r0_images raw)" "r0_name view = Some (t0_name t)"
      "r0_data view = Some bytes" "resize_image ?c (t0_name t) bytes view = Some t"
      by (auto simp: slot_of_def)
    with resize_image_shape [OF i(4)] show ?thesis by metis
  qed
  moreover have "list_all (\<lambda>token. 0 \<le> token) (o0_prompt_tokens obs)"
    using tokens by (auto simp: preprocess_tokens_def list_all_iff list_ex_iff not_less split: option.splits if_splits)
  ultimately show ?thesis using parts slots(2) preprocess_state_Inr [OF state] by metis
qed

text \<open>The entry of the state vector for the input \<open>values\<close>: padded with zeros, then normalised when the model has
  statistics.\<close>

definition state_entry :: "pi0_common_config \<Rightarrow> f32 list \<Rightarrow> nat \<Rightarrow> f32" where
  "state_entry c values i =
     (let v = (if i < length values then values ! i else f32_zero) in
      if length (c0_state_mean c) = nat (c0_state_dim c)
      then f32_div (f32_sub v (c0_state_mean c ! i)) (c0_state_std c ! i) else v)"

lemma preprocess_state_entries:
  assumes "preprocess_state c raw_state = Inr state" "0 < c0_state_dim c"
  shows "\<exists>values. raw_state = Some values \<and> length values \<le> nat (c0_state_dim c) \<and>
    (\<forall>i < nat (c0_state_dim c). state ! i = state_entry c values i)"
proof -
  let ?dim = "nat (c0_state_dim c)"
  obtain vs where sent: "raw_state = Some vs" "length vs \<le> ?dim"
    using assms by (auto simp: preprocess_state_def Let_def res_simps split: if_splits)
  define padded where "padded = vs @ replicate (?dim - length vs) f32_zero"
  have at: "padded ! i = (if i < length vs then vs ! i else f32_zero)" "length padded = ?dim" if "i < ?dim" for i
    using that sent(2) by (auto simp: padded_def nth_append)
  show ?thesis
  proof (cases "length (c0_state_mean c) = ?dim")
    case True
    then have "length (c0_state_std c) = ?dim"
      "state = map2 (\<lambda>v (mean, std). f32_div (f32_sub v mean) std) padded (zip (c0_state_mean c) (c0_state_std c))"
      using assms sent by (auto simp: preprocess_state_def padded_def Let_def split: if_splits)
    with True at sent show ?thesis by (auto simp: state_entry_def Let_def)
  next
    case False
    then have "state = padded" using assms sent by (auto simp: preprocess_state_def padded_def Let_def split: if_splits)
    with False at sent show ?thesis by (auto simp: state_entry_def Let_def)
  qed
qed

text \<open>C40. A Pi0 observation that passes has exactly one image for every camera of the model that is not an empty one, in
  the order of the model: the images sent are these cameras and no others, none twice; each is the resized image of its
  name, as large as the model asks for.  The state has the dimension of the model: the values sent, then zeros, each
  minus its mean and divided by its deviation when the model has both for every entry, which are then not zero; no value
  is cut off.  The prompt, its tokens and the noise are the ones sent, no token is negative, and noise has a value for
  every step and action.\<close>

theorem pi0_observation_exact:
  assumes "validate_and_preprocess_pi0 config raw = Some (Inr obs)"
  shows "map t0_name (o0_images obs) = filter (\<lambda>k. \<not> is_empty_camera_key k) (c0_image_keys (m0_common config)) \<and>
    mset (map r0_name (r0_images raw)) = mset (map (Some \<circ> t0_name) (o0_images obs)) \<and>
    (\<forall>t \<in> set (o0_images obs).
       (\<exists>view bytes. view \<in> set (r0_images raw) \<and> r0_name view = Some (t0_name t) \<and> r0_data view = Some bytes \<and>
          resize_image (m0_common config) (t0_name t) bytes view = Some t) \<and>
       t0_width t = c0_image_width (m0_common config) \<and> t0_height t = c0_image_height (m0_common config) \<and> t0_channels t = 3 \<and>
       length (t0_data t) = size_cast (t0_width t) * size_cast (t0_height t) * 3 mod 2 ^ 64) \<and>
    length (o0_state obs) = nat (c0_state_dim (m0_common config)) \<and> list_all (\<lambda>token. 0 \<le> token) (o0_prompt_tokens obs) \<and>
    (0 < c0_state_dim (m0_common config) \<longrightarrow>
       (\<exists>values. r0_state raw = Some values \<and> length values \<le> nat (c0_state_dim (m0_common config)) \<and>
          (\<forall>i < nat (c0_state_dim (m0_common config)). o0_state obs ! i = state_entry (m0_common config) values i))) \<and>
    (length (c0_state_mean (m0_common config)) = nat (c0_state_dim (m0_common config)) \<longrightarrow>
       0 < c0_state_dim (m0_common config) \<longrightarrow>
       length (c0_state_std (m0_common config)) = nat (c0_state_dim (m0_common config)) \<and>
       list_all (\<lambda>std. \<not> f32_eq std f32_zero) (c0_state_std (m0_common config))) \<and>
    o0_prompt obs = (case r0_prompt raw of None \<Rightarrow> [] | Some prompt \<Rightarrow> prompt) \<and>
    o0_prompt_tokens obs = (case r0_prompt_tokens raw of None \<Rightarrow> [] | Some tokens \<Rightarrow> tokens) \<and>
    o0_noise obs = (case r0_noise raw of None \<Rightarrow> [] | Some noise \<Rightarrow> noise) \<and>
    (o0_noise obs \<noteq> [] \<longrightarrow> length (o0_noise obs) =
       size_cast (c0_action_horizon (m0_common config)) * size_cast (c0_action_dim (m0_common config)) mod 2 ^ 64)"
proof -
  let ?c = "m0_common config"
  have state: "preprocess_state ?c (r0_state raw) = Inr (o0_state obs)"
    and tokens: "preprocess_tokens (r0_prompt_tokens raw) = Inr (o0_prompt_tokens obs)"
    and noise: "preprocess_noise ?c (r0_noise raw) = Inr (o0_noise obs)"
    and prompt: "o0_prompt obs = (case r0_prompt raw of None \<Rightarrow> [] | Some prompt \<Rightarrow> prompt)"
    using assms by (auto simp: validate_and_preprocess_pi0_def Let_def res_simps split: if_splits)
  have "length (c0_state_std ?c) = nat (c0_state_dim ?c) \<and> list_all (\<lambda>std. \<not> f32_eq std f32_zero) (c0_state_std ?c)"
    if "length (c0_state_mean ?c) = nat (c0_state_dim ?c)" "0 < c0_state_dim ?c"
    using state that by (auto simp: preprocess_state_def Let_def res_simps list_all_iff list_ex_iff split: if_splits)
  moreover have "o0_prompt_tokens obs = (case r0_prompt_tokens raw of None \<Rightarrow> [] | Some tokens \<Rightarrow> tokens)"
    using tokens by (auto simp: preprocess_tokens_def split: option.splits if_splits)
  moreover have "o0_noise obs = (case r0_noise raw of None \<Rightarrow> [] | Some noise \<Rightarrow> noise)"
    "o0_noise obs \<noteq> [] \<longrightarrow> length (o0_noise obs) = size_cast (c0_action_horizon ?c) * size_cast (c0_action_dim ?c) mod 2 ^ 64"
    using noise by (auto simp: preprocess_noise_def split: option.splits if_splits)
  ultimately show ?thesis
    using pi0_observation_parts [OF assms] preprocess_state_entries [OF state] prompt by blast
qed

text \<open>One camera of one pixel, an empty camera and a state of one value that the model pads to two.\<close>

definition one_camera :: pi0_model_config where
  "one_camera = default_model_config\<lparr>m0_common := default_common\<lparr>c0_image_width := 1, c0_image_height := 1, c0_state_dim := 2,
     c0_action_dim := 1, c0_action_horizon := 1, c0_image_keys := [''a'', ''b.empty_camera_0'']\<rparr>\<rparr>"

definition one_view :: pi0_raw_observation where
  "one_view = \<lparr>r0_images = [\<lparr>r0_name = Some ''a'', r0_data = Some [255, 0, 255], r0_width = 1, r0_height = 1, r0_channels = 3,
     r0_stride_bytes = 3\<rparr>], r0_state = Some [f32_one], r0_prompt = Some ''t'', r0_prompt_tokens = None, r0_noise = None\<rparr>"

lemma one_pixel_floats:
  "f32_of_int 1 = f32_one" "f32_of_int 0 = f32_zero" "f32_add f32_zero f32_half = f32_half" "f32_mul f32_half f32_one = f32_half"
  "f32_div f32_half f32_one = f32_half" "f32_sub f32_half f32_half = f32_zero" "f32_sub f32_zero f32_zero = f32_zero"
  "f32_sub f32_one f32_zero = f32_one" "f32_div f32_one f32_one = f32_one" "f64_of_f32 f32_zero = f64_zero"
  "f64_of_f32 f32_one = f64_one" "f64_floor_sint 32 f64_zero = Some 0" "f64_to_sint 32 f64_one = Some 1"
  by (simp_all add: ieee_eval f32_of_int_def)

lemma one_pixel_coords: "build_resize_coords 1 1 = Some [\<lparr>rz_lo = 0, rz_hi = 0, rz_lo_weight = f32_one, rz_hi_weight = f32_zero\<rparr>]"
  by (simp add: build_resize_coords_def resize_coord_at_def f32_max_def f32_min_def f32_floor_int_def one_pixel_floats Let_def)

lemma one_pixel_size: "resized_size 1 (f32_max (f32_div (f32_of_int 1) (f32_of_int 1)) (f32_div (f32_of_int 1) (f32_of_int 1))) = Some 1"
  by (simp add: resized_size_def f32_max_def f32_to_int_def one_pixel_floats)

lemma one_camera_resized: "\<exists>t. resize_image (m0_common one_camera) ''a'' [255, 0, 255] (hd (r0_images one_view)) = Some t"
  by (simp add: resize_image_def one_camera_def one_view_def Let_def one_pixel_size one_pixel_coords fits_sint_def size_cast_def
      resize_pixel_def sample_channel_def read_at_def write_pixel_def default_common_def signed_divide_int_def)

lemma one_camera_keys: "is_empty_camera_key ''b.empty_camera_0''" "\<not> is_empty_camera_key ''a''"
  by code_simp+

theorem pi0_observation_exact_witness:
  "\<exists>obs. validate_and_preprocess_pi0 one_camera one_view = Some (Inr obs) \<and> map t0_name (o0_images obs) = [''a''] \<and>
     o0_state obs = [f32_one, f32_zero]"
proof -
  obtain t where t: "resize_image (m0_common one_camera) ''a'' [255, 0, 255] (hd (r0_images one_view)) = Some t"
    using one_camera_resized by blast
  have "place_images (m0_common one_camera) (r0_images one_view) [None, None] = Some (Inr [Some t, None])"
    using t by (simp add: place_image_def one_view_def one_camera_def one_camera_keys fits_sint_def default_common_def)
  then have "case validate_and_preprocess_pi0 one_camera one_view of Some (Inr obs) \<Rightarrow> True | _ \<Rightarrow> False"
    by (simp add: validate_and_preprocess_pi0_def one_camera_def one_view_def default_common_def preprocess_state_def
        preprocess_tokens_def preprocess_noise_def one_camera_keys numeral_2_eq_2)
  then obtain obs where obs: "validate_and_preprocess_pi0 one_camera one_view = Some (Inr obs)"
    by (auto split: option.splits sum.splits)
  have "filter (\<lambda>k. \<not> is_empty_camera_key k) (c0_image_keys (m0_common one_camera)) = [''a'']"
    by (simp add: one_camera_def one_camera_keys)
  note exact = pi0_observation_exact [OF obs]
  have names: "map t0_name (o0_images obs) = filter (\<lambda>k. \<not> is_empty_camera_key k) (c0_image_keys (m0_common one_camera))"
    using exact by (elim conjE)
  have length: "length (o0_state obs) = nat (c0_state_dim (m0_common one_camera))"
    using exact by (elim conjE)
  have state: "0 < c0_state_dim (m0_common one_camera) \<longrightarrow>
       (\<exists>values. r0_state one_view = Some values \<and> length values \<le> nat (c0_state_dim (m0_common one_camera)) \<and>
          (\<forall>i < nat (c0_state_dim (m0_common one_camera)). o0_state obs ! i = state_entry (m0_common one_camera) values i))"
    using exact by (elim conjE)
  have c: "c0_state_dim (m0_common one_camera) = 2" "c0_state_mean (m0_common one_camera) = []" "r0_state one_view = Some [f32_one]"
    by (simp_all add: one_camera_def default_common_def one_view_def)
  have "\<forall>i < 2. o0_state obs ! i = [f32_one, f32_zero] ! i"
    using state by (auto simp: c state_entry_def less_2_cases_iff)
  with length have "o0_state obs = [f32_one, f32_zero]" by (intro nth_equalityI) (simp_all add: c)
  with obs names \<open>filter (\<lambda>k. \<not> is_empty_camera_key k) (c0_image_keys (m0_common one_camera)) = [''a'']\<close>
  show ?thesis by simp
qed

end
