(* ===== verification/Pi0Runtime.thy ===== *)
theory Pi0Runtime
  imports Pi0Gemma Pi0Preprocess
begin

text \<open>
  The run-time state of a Pi0 model (\<^verbatim>\<open>src/models/pi0/pi0_context.h\<close>) and the tensors that outlive a graph
  (\<^verbatim>\<open>component_runtime.cpp\<close>).  The device is the record \<open>pi0_device\<close>: graph contexts by component, writing, computing
  and reading (\<open>None\<close> is an assertion inside ggml; of \<open>dw_compute\<close>, a status that is not success), the tokenizer, the
  functions of \<^verbatim>\<open>cmath\<close> and the random numbers.
\<close>

datatype 't allocation = No_context | No_tensor | No_buffer | Allocated 't

record ('t, 'm, 'r) pi0_device =
  dw_builder :: "string \<Rightarrow> 't builder"
  dw_ops :: "'t pi0_ops"
  dw_alloc_graph :: "'t list \<Rightarrow> bool"
  dw_set_f32 :: "'t \<Rightarrow> f32 list \<Rightarrow> 'm \<Rightarrow> 'm option"
  dw_set_i32 :: "'t \<Rightarrow> int list \<Rightarrow> 'm \<Rightarrow> 'm option"
  dw_set_f16 :: "'t \<Rightarrow> u16 list \<Rightarrow> 'm \<Rightarrow> 'm option"
  dw_to_f16 :: "f32 \<Rightarrow> u16"
  dw_compute :: "'t list \<Rightarrow> 'm \<Rightarrow> 'm option"
  dw_get_f32 :: "'t \<Rightarrow> nat \<Rightarrow> 'm \<Rightarrow> f32 list option"
  dw_copy :: "'t \<Rightarrow> 't \<Rightarrow> 'm \<Rightarrow> 'm option"
  dw_persist :: "int list \<Rightarrow> 'm \<Rightarrow> 't allocation \<times> 'm"
  dw_tokenize :: "string \<Rightarrow> int \<Rightarrow> int \<times> int list"
  dw_sin :: "f32 \<Rightarrow> f32"
  dw_cos :: "f32 \<Rightarrow> f32"
  dw_pow :: "f32 \<Rightarrow> f32 \<Rightarrow> f32"
  dw_normals :: "nat \<Rightarrow> 'r \<Rightarrow> f32 list \<times> 'r"

text \<open>What does not change after loading: the configuration, the weights, which components have a scheduler, and whether
  the tokenizer has a vocabulary.\<close>

record 't pi0_model =
  md_config :: pi0_model_config
  md_weights :: "'t pi0_weights"
  md_sched :: "string \<Rightarrow> bool"
  md_vocab :: bool

text \<open>\<open>Pi0PrefixKvRuntime\<close>, the tensors in \<open>persistent_allocations\<close> of the language model, the memory of the device,
  the random numbers and the buffer of the last actions.\<close>

record ('t, 'm, 'r) pi0_state =
  st_token_count :: nat
  st_k_layers :: "'t option list"
  st_v_layers :: "'t option list"
  st_vision :: "'t option"
  st_prompt :: "'t option"
  st_allocated :: "'t list"
  st_memory :: 'm
  st_rng :: 'r
  st_actions :: "f32 list"

definition kv_reset :: "('t, 'm, 'r) pi0_state \<Rightarrow> ('t, 'm, 'r) pi0_state" where
  "kv_reset s = s\<lparr>st_token_count := 0\<rparr>"

definition device_ggml :: "('t, 'm, 'r) pi0_device \<Rightarrow> 't ggml" where
  "device_ggml d = gb_ops (dw_builder d ''llm'')"

text \<open>The graphs of a component have room for \<open>GGML_DEFAULT_GRAPH_SIZE\<close> nodes; their contexts are larger.\<close>

definition device_builder :: "('t, 'm, 'r) pi0_device \<Rightarrow> string \<Rightarrow> 't builder" where
  "device_builder d role = graph_context (dw_builder d role) ggml_default_graph_size"

lemma device_capacity: "gb_capacity (device_builder d role) = ggml_default_graph_size"
  by (simp add: device_builder_def)

subsection \<open>Graphs\<close>

definition graph_act :: "'t builder \<Rightarrow> 'a build \<Rightarrow> ('a, 's) act" where
  "graph_act B m =
     (if \<not> gb_init B then act_fail ''failed to initialize pi0 ggml graph context''
      else act_run (map_option (map_sum (\<lambda>e. e) fst) (m 0)))"

definition alloc_act :: "('t, 'm, 'r) pi0_device \<Rightarrow> 't list \<Rightarrow> string \<Rightarrow> (unit, 's) act" where
  "alloc_act d outputs_list msg = (if dw_alloc_graph d outputs_list then act_return () else act_fail msg)"

definition memory_act :: "('m \<Rightarrow> 'm option) \<Rightarrow> (unit, ('t, 'm, 'r) pi0_state) act" where
  "memory_act f s = (case f (st_memory s) of None \<Rightarrow> (None, s) | Some m \<Rightarrow> (Some (Inr ()), s\<lparr>st_memory := m\<rparr>))"

definition compute_act :: "('t, 'm, 'r) pi0_device \<Rightarrow> 't list \<Rightarrow> string \<Rightarrow> (unit, ('t, 'm, 'r) pi0_state) act" where
  "compute_act d outputs_list msg s =
     (case dw_compute d outputs_list (st_memory s) of
        None \<Rightarrow> (Some (Inl msg), s) | Some m \<Rightarrow> (Some (Inr ()), s\<lparr>st_memory := m\<rparr>))"

definition read_act :: "('t, 'm, 'r) pi0_device \<Rightarrow> 't \<Rightarrow> nat \<Rightarrow> (f32 list, ('t, 'm, 'r) pi0_state) act" where
  "read_act d t n s = (map_option Inr (dw_get_f32 d t n (st_memory s)), s)"

subsection \<open>A linear layer on host data\<close>

text \<open>\<open>pi0_linear_batch\<close> with the weights of the state projection; without \<open>silu\<close>, as it is called.\<close>

definition pi0_linear_batch ::
  "('t, 'm, 'r) pi0_device \<Rightarrow> 't builder \<Rightarrow> 't option \<Rightarrow> 't option \<Rightarrow> f32 list \<Rightarrow> int \<Rightarrow> string \<Rightarrow>
     (f32 list, ('t, 'm, 'r) pi0_state) act"
where
  "pi0_linear_batch d B w b input batch label =
     (let G = gb_ops B in
      case (w, b) of
        (Some tw, Some tb) \<Rightarrow>
          if te_n_dims (gg_entry G tw) \<noteq> 2 \<or> te_n_dims (gg_entry G tb) \<noteq> 1 then
            act_fail ''pi0 linear expects rank-2 weight and rank-1 bias''
          else if ne G tw 0 \<le> 0 \<or> ne G tw 1 \<le> 0 \<or> batch \<le> 0 \<or> ne G tb 0 \<noteq> ne G tw 1 \<or>
              length input \<noteq> nat batch * nat (ne G tw 0) then
            act_fail ''pi0 linear input has incompatible shape''
          else
            bind_act (graph_act B
              (bind_build (node B (gg_new_tensor G GGML_TYPE_F32 [ne G tw 0, batch])) (\<lambda>x.
               bind_build (pi0_linear B (dw_ops d) w b x) (\<lambda>y. return_build (x, y))))) (\<lambda>(x, y).
            bind_act (alloc_act d [y] ''pi0 linear graph allocation failed'') (\<lambda>_.
            bind_act (memory_act (dw_set_f32 d x input)) (\<lambda>_.
            bind_act (compute_act d [y] label) (\<lambda>_.
              read_act d y (nat batch * nat (ne G tw 1))))))
      | _ \<Rightarrow> act_fail ''pi0 linear expects rank-2 weight and rank-1 bias'')"

subsection \<open>Persistent tensors\<close>

definition persistent_tensor_matches :: "'t ggml \<Rightarrow> 't option \<Rightarrow> nat \<Rightarrow> int \<Rightarrow> int \<Rightarrow> int \<Rightarrow> bool" where
  "persistent_tensor_matches G t n_dims ne0 ne1 ne2 \<longleftrightarrow>
     (case t of None \<Rightarrow> False
      | Some t \<Rightarrow> tensor_type G t = GGML_TYPE_F32 \<and> te_n_dims (gg_entry G t) = n_dims \<and> ne G t 0 = ne0 \<and> ne G t 1 = ne1 \<and>
          ne G t 2 = ne2)"

text \<open>\<open>store\<close> writes the slot.\<close>

definition persistent_f32 ::
  "('t, 'm, 'r) pi0_device \<Rightarrow> 't pi0_model \<Rightarrow> 't option \<Rightarrow> ('t \<Rightarrow> ('t, 'm, 'r) pi0_state \<Rightarrow> ('t, 'm, 'r) pi0_state) \<Rightarrow>
     nat \<Rightarrow> int \<Rightarrow> int \<Rightarrow> int \<Rightarrow> ('t, ('t, 'm, 'r) pi0_state) act"
where
  "persistent_f32 d M slot store n_dims ne0 ne1 ne2 s =
     (if \<not> md_sched M ''llm'' then act_fail ''pi0 component runtime scheduler is not initialized'' s
      else if persistent_tensor_matches (device_ggml d) slot n_dims ne0 ne1 ne2 then act_return (the slot) s
      else case dw_persist d (take n_dims [ne0, ne1, ne2]) (st_memory s) of
        (No_context, m) \<Rightarrow> act_fail ''failed to initialize pi0 persistent tensor context'' (s\<lparr>st_memory := m\<rparr>)
      | (No_tensor, m) \<Rightarrow> act_fail ''failed to allocate pi0 persistent tensor metadata'' (s\<lparr>st_memory := m\<rparr>)
      | (No_buffer, m) \<Rightarrow> act_fail ''failed to allocate pi0 persistent runtime buffer'' (s\<lparr>st_memory := m\<rparr>)
      | (Allocated t, m) \<Rightarrow> act_return t (store t (s\<lparr>st_memory := m, st_allocated := st_allocated s @ [t]\<rparr>)))"

definition pi0_persist_backend_f32 ::
  "('t, 'm, 'r) pi0_device \<Rightarrow> 't pi0_model \<Rightarrow> 't option \<Rightarrow> ('t \<Rightarrow> ('t, 'm, 'r) pi0_state \<Rightarrow> ('t, 'm, 'r) pi0_state) \<Rightarrow>
     't \<Rightarrow> nat \<Rightarrow> int \<Rightarrow> int \<Rightarrow> int \<Rightarrow> ('t, ('t, 'm, 'r) pi0_state) act"
where
  "pi0_persist_backend_f32 d M slot store source n_dims ne0 ne1 ne2 =
     bind_act (persistent_f32 d M slot store n_dims ne0 ne1 ne2) (\<lambda>t.
     bind_act (memory_act (dw_copy d source t)) (\<lambda>_. act_return t))"

definition pi0_persist_host_f32_2d ::
  "('t, 'm, 'r) pi0_device \<Rightarrow> 't pi0_model \<Rightarrow> 't option \<Rightarrow> ('t \<Rightarrow> ('t, 'm, 'r) pi0_state \<Rightarrow> ('t, 'm, 'r) pi0_state) \<Rightarrow>
     f32 list option \<Rightarrow> int \<Rightarrow> int \<Rightarrow> ('t, ('t, 'm, 'r) pi0_state) act"
where
  "pi0_persist_host_f32_2d d M slot store source ne0 ne1 =
     (if source = None \<and> ne0 * ne1 > 0 then act_fail ''pi0 persistent tensor upload requires source data''
      else bind_act (persistent_f32 d M slot store 2 ne0 ne1 1) (\<lambda>t.
        bind_act (case source of
            None \<Rightarrow> act_return ()
          | Some v \<Rightarrow> if length v < nat ne0 * nat ne1 then act_run None
              else memory_act (dw_set_f32 d t (take (nat ne0 * nat ne1) v))) (\<lambda>_. act_return t)))"

subsection \<open>What the sources rely on\<close>

definition device_set_f32 :: "('t, 'm, 'r) pi0_device \<Rightarrow> bool" where
  "device_set_f32 d \<longleftrightarrow>
     (\<forall>t ds v m. f32t (device_ggml d) ds t \<and> int (length v) \<le> prod_list ds \<longrightarrow> (\<exists>m'. dw_set_f32 d t v m = Some m'))"

definition device_set_i32 :: "('t, 'm, 'r) pi0_device \<Rightarrow> bool" where
  "device_set_i32 d \<longleftrightarrow>
     (\<forall>t a v m. stored (device_ggml d) [a, 1, 1, 1] t \<and> tensor_type (device_ggml d) t = GGML_TYPE_I32 \<and> int (length v) \<le> a \<longrightarrow>
        (\<exists>m'. dw_set_i32 d t v m = Some m'))"

definition device_set_f16 :: "('t, 'm, 'r) pi0_device \<Rightarrow> bool" where
  "device_set_f16 d \<longleftrightarrow>
     (\<forall>t a b v m. stored (device_ggml d) [a, b, 1, 1] t \<and> tensor_type (device_ggml d) t = GGML_TYPE_F16 \<and>
        int (length v) \<le> a * b \<longrightarrow> (\<exists>m'. dw_set_f16 d t v m = Some m'))"

definition device_get_f32 :: "('t, 'm, 'r) pi0_device \<Rightarrow> bool" where
  "device_get_f32 d \<longleftrightarrow>
     (\<forall>t ds n m. f32t (device_ggml d) ds t \<and> int n \<le> prod_list ds \<longrightarrow> (\<exists>v. dw_get_f32 d t n m = Some v \<and> length v = n))"

definition device_copy :: "('t, 'm, 'r) pi0_device \<Rightarrow> bool" where
  "device_copy d \<longleftrightarrow>
     (\<forall>t u ds m. f32t (device_ggml d) ds t \<and> f32t (device_ggml d) ds u \<longrightarrow> (\<exists>m'. dw_copy d t u m = Some m'))"

definition device_persist :: "('t, 'm, 'r) pi0_device \<Rightarrow> bool" where
  "device_persist d \<longleftrightarrow>
     (\<forall>ds m t m'. dw_persist d ds m = (Allocated t, m') \<and> list_all (\<lambda>a. 0 < a) ds \<longrightarrow> f32t (device_ggml d) (pad4 ds) t)"

text \<open>\<open>llama_tokenize\<close> returns the least \<open>int32_t\<close> only when the number of tokens does not fit.\<close>

definition device_tokenize :: "('t, 'm, 'r) pi0_device \<Rightarrow> bool" where
  "device_tokenize d \<longleftrightarrow> (\<forall>s. - (2 ^ 31) < fst (dw_tokenize d s 0))"

definition device_laws :: "('t, 'm, 'r) pi0_device \<Rightarrow> bool" where
  "device_laws d \<longleftrightarrow>
     pi0_laws (device_ggml d) (dw_ops d) \<and> (\<forall>role. gb_ops (dw_builder d role) = device_ggml d) \<and> device_set_f32 d \<and>
     device_set_i32 d \<and> device_set_f16 d \<and> device_get_f32 d \<and> device_copy d \<and> device_persist d \<and> device_tokenize d \<and>
     (\<forall>n r. length (fst (dw_normals d n r)) = n)"

subsection \<open>Operations that return\<close>

text \<open>From a state with \<open>P\<close> the operation returns: with an error and \<open>J\<close>, or with a value and \<open>Q\<close>.\<close>

definition act_ok :: "('s \<Rightarrow> bool) \<Rightarrow> ('s \<Rightarrow> bool) \<Rightarrow> ('a, 's) act \<Rightarrow> ('a \<Rightarrow> 's \<Rightarrow> bool) \<Rightarrow> bool" where
  "act_ok J P m Q \<longleftrightarrow>
     (\<forall>s. P s \<longrightarrow> (\<exists>e s'. m s = (Some (Inl e), s') \<and> J s') \<or> (\<exists>x s'. m s = (Some (Inr x), s') \<and> Q x s'))"

named_theorems act_rules \<open>operations that return\<close>

lemma act_ok_return: "(\<And>s. P s \<Longrightarrow> Q x s) \<Longrightarrow> act_ok J P (act_return x) Q"
  by (simp add: act_ok_def)

lemma act_ok_fail: "(\<And>s. P s \<Longrightarrow> J s) \<Longrightarrow> act_ok J P (act_fail e) Q"
  by (simp add: act_ok_def)

lemma act_ok_modify: "(\<And>s. P s \<Longrightarrow> Q () (f s)) \<Longrightarrow> act_ok J P (act_modify f) Q"
  by (simp add: act_ok_def)

lemma act_ok_bind:
  assumes "act_ok J P m Q" "\<And>x. act_ok J (Q x) (k x) R"
  shows "act_ok J P (bind_act m k) R"
  unfolding act_ok_def
proof (intro allI impI)
  fix s assume "P s"
  with assms(1) consider e s' where "m s = (Some (Inl e), s')" "J s'" | x s' where "m s = (Some (Inr x), s')" "Q x s'"
    unfolding act_ok_def by blast
  then show "(\<exists>e s'. bind_act m k s = (Some (Inl e), s') \<and> J s') \<or> (\<exists>x s'. bind_act m k s = (Some (Inr x), s') \<and> R x s')"
  proof cases
    case 2
    with assms(2) [of x] show ?thesis unfolding act_ok_def by (simp add: bind_act_def)
  qed (simp add: bind_act_def)
qed

lemma act_ok_weaken:
  "act_ok J P m Q \<Longrightarrow> (\<And>s. P' s \<Longrightarrow> P s) \<Longrightarrow> (\<And>x s. Q x s \<Longrightarrow> Q' x s) \<Longrightarrow> act_ok J P' m Q'"
  unfolding act_ok_def by blast

lemma act_ok_if: "(b \<Longrightarrow> act_ok J P m Q) \<Longrightarrow> (\<not> b \<Longrightarrow> act_ok J P m' Q) \<Longrightarrow> act_ok J P (if b then m else m') Q"
  by simp

text \<open>A state whose memory alone has changed.\<close>

definition memory_blind :: "(('t, 'm, 'r) pi0_state \<Rightarrow> bool) \<Rightarrow> bool" where
  "memory_blind P \<longleftrightarrow> (\<forall>s m. P s \<longrightarrow> P (s\<lparr>st_memory := m\<rparr>))"

lemma act_ok_graph:
  assumes "safe B k Q m" "k \<le> gb_capacity B" "\<And>s. P s \<Longrightarrow> J s"
  shows "act_ok J P (graph_act B m) (\<lambda>x s. P s \<and> Q x)"
proof -
  obtain r where r: "m 0 = Some r" "\<forall>x n'. r = Inr (x, n') \<longrightarrow> Q x"
    using assms(1,2) unfolding safe_def by (metis add_0)
  show ?thesis
  proof (cases r)
    case (Inl e)
    then show ?thesis using r assms(3) by (simp add: graph_act_def act_ok_def)
  next
    case (Inr xn)
    then show ?thesis using r assms(3) by (cases xn) (simp add: graph_act_def act_ok_def)
  qed
qed

lemma act_ok_alloc: "(\<And>s. P s \<Longrightarrow> J s) \<Longrightarrow> act_ok J P (alloc_act d ts msg) (\<lambda>_. P)"
  by (simp add: act_ok_def alloc_act_def)

lemma act_ok_memory: "memory_blind P \<Longrightarrow> (\<And>m. \<exists>m'. f m = Some m') \<Longrightarrow> act_ok J P (memory_act f) (\<lambda>_. P)"
  unfolding act_ok_def memory_act_def memory_blind_def by (metis option.simps(5))

lemma act_ok_compute: "memory_blind P \<Longrightarrow> (\<And>s. P s \<Longrightarrow> J s) \<Longrightarrow> act_ok J P (compute_act d ts msg) (\<lambda>_. P)"
  by (fastforce simp: act_ok_def compute_act_def memory_blind_def split: option.splits)

lemma act_ok_read:
  assumes "device_laws d" "f32t (device_ggml d) ds t" "int n \<le> prod_list ds"
  shows "act_ok J P (read_act d t n) (\<lambda>v s. P s \<and> length v = n)"
proof -
  have "\<exists>v. dw_get_f32 d t n m = Some v \<and> length v = n" for m
    using assms unfolding device_laws_def device_get_f32_def by blast
  then show ?thesis unfolding act_ok_def read_act_def by fastforce
qed

lemma device_sets:
  assumes "device_laws d"
  shows "f32t (device_ggml d) ds t \<Longrightarrow> int (length v) \<le> prod_list ds \<Longrightarrow> \<exists>m'. dw_set_f32 d t v m = Some m'"
    and "stored (device_ggml d) [a, 1, 1, 1] t \<Longrightarrow> tensor_type (device_ggml d) t = GGML_TYPE_I32 \<Longrightarrow> int (length is) \<le> a \<Longrightarrow>
      \<exists>m'. dw_set_i32 d t is m = Some m'"
    and "stored (device_ggml d) [a, b, 1, 1] t \<Longrightarrow> tensor_type (device_ggml d) t = GGML_TYPE_F16 \<Longrightarrow>
      int (length hs) \<le> a * b \<Longrightarrow> \<exists>m'. dw_set_f16 d t hs m = Some m'"
    and "f32t (device_ggml d) ds t \<Longrightarrow> f32t (device_ggml d) ds u \<Longrightarrow> \<exists>m'. dw_copy d t u m = Some m'"
proof -
  have L: "device_set_f32 d" "device_set_i32 d" "device_set_f16 d" "device_copy d" using assms by (simp_all add: device_laws_def)
  show "\<exists>m'. dw_set_f32 d t v m = Some m'" if "f32t (device_ggml d) ds t" "int (length v) \<le> prod_list ds"
    using L(1) that unfolding device_set_f32_def by blast
  show "\<exists>m'. dw_set_i32 d t is m = Some m'"
    if "stored (device_ggml d) [a, 1, 1, 1] t" "tensor_type (device_ggml d) t = GGML_TYPE_I32" "int (length is) \<le> a"
    using L(2) that unfolding device_set_i32_def by blast
  show "\<exists>m'. dw_set_f16 d t hs m = Some m'"
    if "stored (device_ggml d) [a, b, 1, 1] t" "tensor_type (device_ggml d) t = GGML_TYPE_F16" "int (length hs) \<le> a * b"
    using L(3) that unfolding device_set_f16_def by blast
  show "\<exists>m'. dw_copy d t u m = Some m'" if "f32t (device_ggml d) ds t" "f32t (device_ggml d) ds u"
    using L(4) that unfolding device_copy_def by blast
qed

lemma device_ops:
  assumes "device_laws d"
  shows "pi0_laws (device_ggml d) (dw_ops d)" "gb_ops (device_builder d role) = device_ggml d"
  using assms by (simp_all add: device_laws_def device_builder_def Let_def)

text \<open>A tensor as a file holds it; its dimensions beyond \<open>ggml_n_dims\<close> are 1.\<close>

definition file_tensor :: "'t ggml \<Rightarrow> 't \<Rightarrow> bool" where
  "file_tensor G t \<longleftrightarrow> gg_is_contiguous G t \<and> \<not> gg_is_transposed G t \<and> (\<forall>i<4. te_n_dims (gg_entry G t) \<le> i \<longrightarrow> ne G t i = 1)"

lemma file_tensor_shape:
  assumes "file_tensor G t" "te_n_dims (gg_entry G t) = length ds" "length ds \<le> 4" "\<And>i. i < length ds \<Longrightarrow> ne G t i = ds ! i"
    "list_all (\<lambda>x. 0 < x) ds"
  shows "has_tensor G (Some t) ds"
proof -
  have "map (ne G t) [0..<4] = pad4 ds"
  proof (rule nth_equalityI)
    show "length (map (ne G t) [0..<4]) = length (pad4 ds)" using assms(3) by (simp add: pad4_def)
    show "map (ne G t) [0..<4] ! i = pad4 ds ! i" if "i < length (map (ne G t) [0..<4])" for i
      using that assms(1-4) by (auto simp: pad4_def nth_append file_tensor_def)
  qed
  moreover have "list_all (\<lambda>x. 0 < x) (pad4 ds)" using assms(5) by (auto simp: pad4_def list_all_iff)
  ultimately show ?thesis using assms(1,2) by (simp add: has_tensor_def stored_def dims_def file_tensor_def)
qed

lemma pi0_linear_batch_ok:
  assumes d: "device_laws d" and cap: "4 \<le> gb_capacity (device_builder d role)"
    and w: "\<And>t. w = Some t \<Longrightarrow> file_tensor (device_ggml d) t"
    and b: "\<And>t. b = Some t \<Longrightarrow> file_tensor (device_ggml d) t"
    and P: "memory_blind P" "\<And>s. P s \<Longrightarrow> J s"
  shows "act_ok J P (pi0_linear_batch d (device_builder d role) w b input batch label)
    (\<lambda>v s. P s \<and> (\<exists>t. w = Some t \<and> length v = nat batch * nat (ne (device_ggml d) t 1)))"
proof -
  let ?G = "device_ggml d" and ?B = "device_builder d role"
  note G = device_ops [OF d]
  have L: "pi0_laws (gb_ops ?B) (dw_ops d)" using G by simp
  have good: "act_ok J P
            (bind_act (graph_act ?B
              (bind_build (node ?B (gg_new_tensor ?G GGML_TYPE_F32 [ne ?G tw 0, batch])) (\<lambda>x.
               bind_build (pi0_linear ?B (dw_ops d) w b x) (\<lambda>y. return_build (x, y))))) (\<lambda>(x, y).
            bind_act (alloc_act d [y] ''pi0 linear graph allocation failed'') (\<lambda>_.
            bind_act (memory_act (dw_set_f32 d x input)) (\<lambda>_.
            bind_act (compute_act d [y] label) (\<lambda>_.
              read_act d y (nat batch * nat (ne ?G tw 1)))))))
      (\<lambda>v s. P s \<and> (\<exists>t. w = Some t \<and> length v = nat batch * nat (ne ?G t 1)))"
    if t: "w = Some tw" "b = Some tb" "te_n_dims (gg_entry ?G tw) = 2" "te_n_dims (gg_entry ?G tb) = 1"
      "0 < ne ?G tw 0" "0 < ne ?G tw 1" "0 < batch" "ne ?G tb 0 = ne ?G tw 1" "length input = nat batch * nat (ne ?G tw 0)" for tw tb
  proof -
    have W: "has_tensor ?G w [ne ?G tw 0, ne ?G tw 1]" "has_tensor ?G b [ne ?G tw 1]"
      unfolding t(1,2) by (rule file_tensor_shape [OF w [OF t(1)]], use t in \<open>auto simp: less_Suc_eq nth_Cons'\<close>)
        (rule file_tensor_shape [OF b [OF t(2)]], use t in \<open>auto simp: less_Suc_eq nth_Cons'\<close>)
    have new: "yields ?B 1 (f32t ?G [ne ?G tw 0, batch, 1, 1]) (node ?B (gg_new_tensor ?G GGML_TYPE_F32 [ne ?G tw 0, batch]))"
    proof (rule yields_node)
      have "law_new ?G" using pi0_laws_ggml [OF G(1)] by (simp add: ggml_laws_def)
      moreover have "0 < ne ?G tw 0 \<and> 0 < batch \<and> 0 < (1::int)" using t by simp
      ultimately show "gives (f32t ?G [ne ?G tw 0, batch, 1, 1]) (gg_new_tensor ?G GGML_TYPE_F32 [ne ?G tw 0, batch])"
        unfolding law_new_def by blast
    qed
    let ?Q = "\<lambda>(x, y). f32t ?G [ne ?G tw 0, batch, 1, 1] x \<and> f32t ?G [ne ?G tw 1, batch, 1, 1] y"
    have "yields ?B (1 + (3 + 0)) ?Q
       (bind_build (node ?B (gg_new_tensor ?G GGML_TYPE_F32 [ne ?G tw 0, batch])) (\<lambda>x.
        bind_build (pi0_linear ?B (dw_ops d) w b x) (\<lambda>y. return_build (x, y))))"
      apply (rule yields_bind [OF new])
      apply (rule yields_bind [OF yields_pi0_linear [OF L, unfolded G(2), OF W]], assumption)
      apply (rule yields_return, simp)
      done
    then have built: "safe ?B 4 ?Q
       (bind_build (node ?B (gg_new_tensor ?G GGML_TYPE_F32 [ne ?G tw 0, batch])) (\<lambda>x.
        bind_build (pi0_linear ?B (dw_ops d) w b x) (\<lambda>y. return_build (x, y))))"
      by (simp add: yields_safe)
    have run: "act_ok J (\<lambda>s. P s \<and> ?Q xy)
       (case xy of (x, y) \<Rightarrow> bind_act (alloc_act d [y] ''pi0 linear graph allocation failed'') (\<lambda>_.
        bind_act (memory_act (dw_set_f32 d x input)) (\<lambda>_.
        bind_act (compute_act d [y] label) (\<lambda>_. read_act d y (nat batch * nat (ne ?G tw 1))))))
       (\<lambda>v s. P s \<and> (\<exists>t. w = Some t \<and> length v = nat batch * nat (ne ?G t 1)))" for xy
    proof (cases xy)
      case (Pair x y)
      show ?thesis
      proof (cases "?Q xy")
        case True
        with Pair have shapes: "f32t ?G [ne ?G tw 0, batch, 1, 1] x" "f32t ?G [ne ?G tw 1, batch, 1, 1] y" by auto
        have set: "\<exists>m'. dw_set_f32 d x input m = Some m'" for m
          by (rule device_sets(1) [OF d shapes(1)]) (use t in simp)
        have read: "act_ok J P (read_act d y (nat batch * nat (ne ?G tw 1))) (\<lambda>v s. P s \<and> length v = nat batch * nat (ne ?G tw 1))"
          by (rule act_ok_read [OF d shapes(2)]) (use t in simp)
        have "act_ok J P (bind_act (alloc_act d [y] ''pi0 linear graph allocation failed'') (\<lambda>_.
          bind_act (memory_act (dw_set_f32 d x input)) (\<lambda>_.
          bind_act (compute_act d [y] label) (\<lambda>_. read_act d y (nat batch * nat (ne ?G tw 1))))))
          (\<lambda>v s. P s \<and> length v = nat batch * nat (ne ?G tw 1))"
          by (rule act_ok_bind [OF act_ok_alloc [OF P(2)] act_ok_bind [OF act_ok_memory [OF P(1) set]
            act_ok_bind [OF act_ok_compute [OF P] read]]])
        then show ?thesis unfolding Pair prod.case by (rule act_ok_weaken) (use t(1) in auto)
      qed (simp add: act_ok_def)
    qed
    show ?thesis by (rule act_ok_bind [OF act_ok_graph [OF built cap P(2)] run])
  qed
  show ?thesis
  proof (cases "w = None \<or> b = None")
    case True
    then show ?thesis by (auto simp: pi0_linear_batch_def Let_def P(2) intro!: act_ok_fail split: option.split)
  next
    case False
    then obtain tw tb where wb: "w = Some tw" "b = Some tb" by auto
    show ?thesis
      unfolding pi0_linear_batch_def Let_def G(2)
      apply (simp only: wb prod.case option.case)
      apply (rule act_ok_if, rule act_ok_fail, erule P(2))
      apply (rule act_ok_if, rule act_ok_fail, erule P(2))
      apply (rule good [OF wb, unfolded wb], use wb in \<open>simp_all add: not_le del: One_nat_def\<close>)
      done
  qed
qed

end
