(* ===== verification/Pi0Action.thy ===== *)
theory Pi0Action
  imports Pi0Runtime
begin

text \<open>
  The action expert of Pi0 (\<^verbatim>\<open>src/models/pi0/action.cpp\<close>): the projection of the state, the graph of the velocity, which is
  built once for a prediction, the Euler steps from noise to actions, and the scaling of the actions.
\<close>

subsection \<open>The embedding of the time\<close>

definition posemb_min_period :: f32 where "posemb_min_period = 0x3B83126F"
definition posemb_max_period :: f32 where "posemb_max_period = 0x40800000"
definition f32_two :: f32 where "f32_two = 0x40000000"
definition f32_pi :: f32 where "f32_pi = 0x40490FDB"

definition posemb_angle :: "('t, 'm, 'r) pi0_device \<Rightarrow> f32 \<Rightarrow> nat \<Rightarrow> nat \<Rightarrow> f32" where
  "posemb_angle d time half i =
     (let fraction = (if half = 1 then f32_zero else f32_div (f32_of_int (int i)) (f32_of_int (int (half - 1))));
          period = f32_mul posemb_min_period (dw_pow d (f32_div posemb_max_period posemb_min_period) fraction)
      in f32_mul (f32_mul (f32_div time period) f32_two) f32_pi)"

definition fill_posemb_sincos :: "('t, 'm, 'r) pi0_device \<Rightarrow> f32 \<Rightarrow> nat \<Rightarrow> f32 list" where
  "fill_posemb_sincos d time width =
     (let half = width div 2; angles = map (posemb_angle d time half) [0..<half]
      in map (dw_sin d) angles @ map (dw_cos d) angles @ replicate (width - 2 * half) f32_zero)"

subsection \<open>The state projection\<close>

definition pi0_state_context :: "('t, 'm, 'r) pi0_device \<Rightarrow> 't pi0_model \<Rightarrow> f32 list \<Rightarrow> (f32 list, ('t, 'm, 'r) pi0_state) act" where
  "pi0_state_context d M state =
     (let w = md_weights M in
      if w0_state_w w = None \<or> w0_state_b w = None then act_return []
      else pi0_linear_batch d (device_builder d ''state'') (w0_state_w w) (w0_state_b w) state 1
        ''ggml pi0 state projection graph compute failed'')"

subsection \<open>Sizes of the graph\<close>

record action_shape =
  ax_width :: int
  ax_dims :: gemma_dims
  ax_batch :: int
  ax_action_dim :: int
  ax_prefix :: nat
  ax_kv_tokens :: int
  ax_has_state :: bool

text \<open>\<open>has_prefix_kv\<close>: without enough cached layers the prefix is ignored.\<close>

definition usable_prefix :: "('t, 'm, 'r) pi0_state \<Rightarrow> nat \<Rightarrow> nat" where
  "usable_prefix s layers =
     (if st_token_count s > 0 \<and> length (st_k_layers s) \<ge> layers \<and> length (st_v_layers s) \<ge> layers
      then st_token_count s else 0)"

definition action_incomplete :: "'t pi0_model \<Rightarrow> bool" where
  "action_incomplete M \<longleftrightarrow>
     (let a = p0_action (m0_pi0 (md_config M)); w = md_weights M in
      w0_action_in_w w = None \<or> a0_expert_layers a \<le> 0 \<or> a0_expert_width a \<le> 0 \<or> a0_expert_q_out a \<le> 0 \<or>
      a0_expert_kv_out a \<le> 0 \<or> w0_action_layers w = [] \<or> tw_q (hd (w0_action_layers w)) = None \<or>
      tw_k (hd (w0_action_layers w)) = None \<or> tw_gate (hd (w0_action_layers w)) = None)"

text \<open>\<open>init_shape\<close>; the sums of \<open>int\<close>s may overflow.\<close>

definition init_shape :: "'t pi0_model \<Rightarrow> ('t, 'm, 'r) pi0_state \<Rightarrow> f32 list \<Rightarrow> action_shape run" where
  "init_shape M s state_context =
     (let a = p0_action (m0_pi0 (md_config M)); c = m0_common (md_config M);
          q_out = a0_expert_q_out a; head_dim = a0_expert_kv_out a; batch = c0_action_horizon c;
          has_state = state_context \<noteq> []; suffix = batch + (if has_state then 1 else 0);
          prefix = usable_prefix s (nat (a0_expert_layers a)); kv_tokens = suffix + int prefix
      in if action_incomplete M then Some (Inl ''pi0 action expert requires fused ggml graph execution'')
         else if q_out mod head_dim \<noteq> 0 then Some (Inl ''pi0 action expert Q/KV widths are incompatible'')
         else if \<not> fits_sint 32 suffix \<or> \<not> fits_sint 32 kv_tokens then None
         else if suffix \<le> 0 \<or> batch \<le> 0 \<or> c0_action_dim c \<le> 0 \<or> a0_expert_mlp_width a \<le> 0 \<or> q_out div head_dim \<le> 0 \<or>
             has_state \<and> length state_context \<noteq> nat (a0_expert_width a) then
           Some (Inl ''pi0 action expert fused graph input has incompatible shape'')
         else Some (Inr \<lparr>ax_width = a0_expert_width a,
           ax_dims = \<lparr>gd_q_out = q_out, gd_kv_out = head_dim, gd_head_dim = head_dim, gd_heads = q_out div head_dim,
             gd_kv_heads = 1, gd_tokens = suffix\<rparr>,
           ax_batch = batch, ax_action_dim = c0_action_dim c, ax_prefix = prefix, ax_kv_tokens = kv_tokens,
           ax_has_state = has_state\<rparr>))"

definition pos_host :: "action_shape \<Rightarrow> int list" where
  "pos_host S = map (\<lambda>i. int (ax_prefix S) + int i) [0..<nat (gd_tokens (ax_dims S))]"

text \<open>The state attends to the prefix and to itself only; the actions attend to everything.\<close>

definition attention_mask :: "action_shape \<Rightarrow> f32 list" where
  "attention_mask S =
     (let kv = nat (ax_kv_tokens S); hidden = kv - (ax_prefix S + 1)
      in replicate (kv - hidden) f32_zero @ replicate hidden f32_minus_inf @
         replicate ((nat (gd_tokens (ax_dims S)) - 1) * kv) f32_zero)"

subsection \<open>The graph\<close>

definition prefix_fits :: "'t ggml \<Rightarrow> action_shape \<Rightarrow> 't option \<Rightarrow> bool" where
  "prefix_fits G S t \<longleftrightarrow>
     (case t of None \<Rightarrow> False
      | Some t \<Rightarrow> ne G t 0 = gd_head_dim (ax_dims S) \<and> ne G t 1 = gd_kv_heads (ax_dims S) \<and> ne G t 2 = int (ax_prefix S))"

text \<open>Keys and values of the prefix come before those of the suffix.\<close>

definition join_prefix ::
  "'t builder \<Rightarrow> action_shape \<Rightarrow> ('t, 'm, 'r) pi0_state \<Rightarrow> nat \<Rightarrow> 't \<Rightarrow> 't \<Rightarrow> ('t \<times> 't) build"
where
  "join_prefix B S s layer k_rot v =
     (if ax_prefix S = 0 then return_build (k_rot, v)
      else let prefix_k = st_k_layers s ! layer; prefix_v = st_v_layers s ! layer in
        if \<not> prefix_fits (gb_ops B) S prefix_k \<or> \<not> prefix_fits (gb_ops B) S prefix_v then
          fail_build ''pi0 action expert fused graph prefix KV has incompatible shape''
        else bind_build (node B (gg_concat (gb_ops B) (the prefix_k) k_rot 2)) (\<lambda>k_all.
          bind_build (node B (gg_concat (gb_ops B) (the prefix_v) v 2)) (\<lambda>v_all. return_build (k_all, v_all))))"

definition action_layer ::
  "'t builder \<Rightarrow> 't pi0_ops \<Rightarrow> action_shape \<Rightarrow> 't pi0_model \<Rightarrow> ('t, 'm, 'r) pi0_state \<Rightarrow> 't option \<Rightarrow> 't \<Rightarrow> nat \<Rightarrow> 't \<Rightarrow> 't build"
where
  "action_layer B P S M s kq_mask pos layer hidden =
     (let L = w0_action_layers (md_weights M) ! layer in
      if layer_missing L then fail_build ''missing pi0 action expert fused graph tensor''
      else if norms_missing L then fail_build ''missing pi0 action expert norm scale tensor''
      else
        bind_build (pi0_f32_weight B P (tw_input_norm_scale L) 1) (\<lambda>input_scale.
        bind_build (pi0_f32_weight B P (tw_post_norm_scale L) 1) (\<lambda>post_scale.
        bind_build (gemma_norm B P hidden input_scale) (\<lambda>normed.
        bind_build (gemma_qkv B P (ax_dims S) L pos normed) (\<lambda>(q_rot, k_rot, v).
        bind_build (join_prefix B S s layer k_rot v) (\<lambda>(k_all, v_all).
        bind_build (gemma_attend B P (ax_dims S) L q_rot k_all v_all kq_mask hidden) (\<lambda>first_residual.
          gemma_feed_forward B P L post_scale first_residual)))))))"

definition action_projections_missing :: "'t pi0_weights \<Rightarrow> bool" where
  "action_projections_missing w \<longleftrightarrow> w0_action_in_w w = None \<or> w0_action_in_b w = None \<or> w0_action_time_in_w w = None \<or>
     w0_action_time_in_b w = None \<or> w0_action_time_out_w w = None \<or> w0_action_time_out_b w = None \<or>
     w0_action_out_w w = None \<or> w0_action_out_b w = None"

text \<open>The tokens of the noisy actions, mixed with the time.\<close>

definition action_tokens :: "'t builder \<Rightarrow> 't pi0_ops \<Rightarrow> 't pi0_weights \<Rightarrow> 't \<Rightarrow> 't \<Rightarrow> 't build" where
  "action_tokens B P w action_input time_input =
     bind_build (pi0_linear B P (w0_action_in_w w) (w0_action_in_b w) action_input) (\<lambda>tokens.
     bind_build (node B (gg_concat (gb_ops B) tokens time_input 0)) (\<lambda>action_time.
     bind_build (pi0_linear B P (w0_action_time_in_w w) (w0_action_time_in_b w) action_time) (\<lambda>time_hidden.
     bind_build (node B (gg_silu (gb_ops B) time_hidden)) (\<lambda>time_hidden.
       pi0_linear B P (w0_action_time_out_w w) (w0_action_time_out_b w) time_hidden))))"

record 't velocity_graph =
  vg_shape :: action_shape
  vg_action_input :: 't
  vg_time_input :: 't
  vg_pos :: 't
  vg_mask :: "'t option"
  vg_state_token :: "'t option"
  vg_y :: 't

definition optional_node :: "'t builder \<Rightarrow> bool \<Rightarrow> 't option \<Rightarrow> 't option build" where
  "optional_node B b t = (if b then bind_build (node B t) (\<lambda>t. return_build (Some t)) else return_build None)"

definition with_state_token :: "'t builder \<Rightarrow> 't option \<Rightarrow> 't \<Rightarrow> 't build" where
  "with_state_token B state_token hidden =
     (case state_token of None \<Rightarrow> return_build hidden | Some t \<Rightarrow> node B (gg_concat (gb_ops B) t hidden 1))"

definition build_action_graph ::
  "'t builder \<Rightarrow> 't pi0_ops \<Rightarrow> 't pi0_model \<Rightarrow> ('t, 'm, 'r) pi0_state \<Rightarrow> action_shape \<Rightarrow> 't velocity_graph build"
where
  "build_action_graph B P M s S =
     (let G = gb_ops B; w = md_weights M; D = ax_dims S in
      if action_projections_missing w then fail_build ''missing pi0 action projection tensors''
      else
        bind_build (node B (gg_new_tensor G GGML_TYPE_F32 [ax_action_dim S, ax_batch S])) (\<lambda>action_input.
        bind_build (node B (gg_new_tensor G GGML_TYPE_F32 [ax_width S, ax_batch S])) (\<lambda>time_input.
        bind_build (node B (gg_new_tensor G GGML_TYPE_I32 [gd_tokens D])) (\<lambda>pos.
        bind_build (optional_node B (ax_has_state S) (gg_new_tensor G GGML_TYPE_F16 [ax_kv_tokens S, gd_tokens D, 1])) (\<lambda>kq_mask.
        bind_build (action_tokens B P w action_input time_input) (\<lambda>hidden.
        bind_build (optional_node B (ax_has_state S) (gg_new_tensor G GGML_TYPE_F32 [ax_width S, 1])) (\<lambda>state_token.
        bind_build (with_state_token B state_token hidden) (\<lambda>hidden.
        bind_build (loop_build (action_layer B P S M s kq_mask pos)
          [0..<nat (a0_expert_layers (p0_action (m0_pi0 (md_config M))))] hidden) (\<lambda>hidden.
        if w0_action_norm_scale w = None then fail_build ''missing pi0 action expert final norm scale tensor''
        else
        bind_build (pi0_f32_weight B P (w0_action_norm_scale w) 1) (\<lambda>final_scale.
        bind_build (gemma_norm B P hidden final_scale) (\<lambda>hidden.
        bind_build (node B (gg_view_2d G hidden (ax_width S) (ax_batch S) (gg_nb G hidden 1)
          (if gd_tokens D = ax_batch S then 0 else nat (ax_width S) * 4))) (\<lambda>output_tokens.
        bind_build (pi0_linear B P (w0_action_out_w w) (w0_action_out_b w) output_tokens) (\<lambda>y.
          return_build \<lparr>vg_shape = S, vg_action_input = action_input, vg_time_input = time_input, vg_pos = pos,
            vg_mask = kq_mask, vg_state_token = state_token, vg_y = y\<rparr>)))))))))))))"

text \<open>The constructor: sizes, graph, allocation, and the inputs that do not change from step to step.\<close>

definition optional_set ::
  "('t \<Rightarrow> 'v \<Rightarrow> 'm \<Rightarrow> 'm option) \<Rightarrow> 't option \<Rightarrow> 'v \<Rightarrow> (unit, ('t, 'm, 'r) pi0_state) act"
where
  "optional_set set_value t v = (case t of None \<Rightarrow> act_return () | Some t \<Rightarrow> memory_act (set_value t v))"

text \<open>\<open>s0\<close> is the state when the graph is built.\<close>

definition velocity_graph_at ::
  "('t, 'm, 'r) pi0_device \<Rightarrow> 't pi0_model \<Rightarrow> f32 list \<Rightarrow> ('t, 'm, 'r) pi0_state \<Rightarrow> ('t velocity_graph, ('t, 'm, 'r) pi0_state) act"
where
  "velocity_graph_at d M state_context s0 =
     (let B = device_builder d ''action_decoder'' in
      bind_act (graph_act B (bind_build (\<lambda>n. map_option (map_sum (\<lambda>e. e) (\<lambda>S. (S, n))) (init_shape M s0 state_context))
        (build_action_graph B (dw_ops d) M s0))) (\<lambda>g.
      bind_act (alloc_act d [vg_y g] ''pi0 action decoder graph allocation failed'') (\<lambda>_.
      bind_act (memory_act (dw_set_i32 d (vg_pos g) (pos_host (vg_shape g)))) (\<lambda>_.
      bind_act (optional_set (dw_set_f16 d) (vg_mask g) (map (dw_to_f16 d) (attention_mask (vg_shape g)))) (\<lambda>_.
      bind_act (optional_set (dw_set_f32 d) (vg_state_token g) state_context) (\<lambda>_. act_return g))))))"

definition new_velocity_graph ::
  "('t, 'm, 'r) pi0_device \<Rightarrow> 't pi0_model \<Rightarrow> f32 list \<Rightarrow> ('t velocity_graph, ('t, 'm, 'r) pi0_state) act"
where
  "new_velocity_graph d M state_context = (\<lambda>s. velocity_graph_at d M state_context s s)"

definition time_batch :: "('t, 'm, 'r) pi0_device \<Rightarrow> action_shape \<Rightarrow> f32 \<Rightarrow> f32 list" where
  "time_batch d S time = concat (replicate (nat (ax_batch S)) (fill_posemb_sincos d time (nat (ax_width S))))"

definition eval_velocity ::
  "('t, 'm, 'r) pi0_device \<Rightarrow> 't velocity_graph \<Rightarrow> f32 \<Rightarrow> f32 list \<Rightarrow> (f32 list, ('t, 'm, 'r) pi0_state) act"
where
  "eval_velocity d g time actions =
     (let S = vg_shape g; n = nat (ax_batch S) * nat (ax_action_dim S) in
      if length actions \<noteq> n then act_fail ''pi0 action expert fused graph input has incompatible shape''
      else
        bind_act (memory_act (dw_set_f32 d (vg_action_input g) actions)) (\<lambda>_.
        bind_act (memory_act (dw_set_f32 d (vg_time_input g) (time_batch d S time))) (\<lambda>_.
        bind_act (compute_act d [vg_y g] ''ggml action decoder fused graph compute failed'') (\<lambda>_.
          read_act d (vg_y g) n))))"

subsection \<open>From noise to actions\<close>

text \<open>The actions are stepped in the buffer of the context.\<close>

fun euler_steps ::
  "(f32 \<Rightarrow> f32 list \<Rightarrow> (f32 list, ('t, 'm, 'r) pi0_state) act) \<Rightarrow> nat \<Rightarrow> f32 \<Rightarrow> nat \<Rightarrow> f32 \<Rightarrow> f32 list \<Rightarrow>
     (f32 list, ('t, 'm, 'r) pi0_state) act"
where
  "euler_steps velocity n dt 0 time x = act_return x"
| "euler_steps velocity n dt (Suc i) time x =
     bind_act (velocity time x) (\<lambda>v.
       if length v \<noteq> n then act_fail ''pi0 action velocity has incompatible shape''
       else let y = map2 (\<lambda>a b. f32_add a (f32_mul dt b)) x v in
         bind_act (act_modify (\<lambda>s. s\<lparr>st_actions := y\<rparr>)) (\<lambda>_. euler_steps velocity n dt i (f32_add time dt) y))"

definition initial_actions ::
  "('t, 'm, 'r) pi0_device \<Rightarrow> f32 list option \<Rightarrow> nat \<Rightarrow> (f32 list, ('t, 'm, 'r) pi0_state) act"
where
  "initial_actions d initial_noise n s =
     (case initial_noise of
        Some noise \<Rightarrow> if length noise = n then act_return noise (s\<lparr>st_actions := noise\<rparr>)
          else (let (x, r) = dw_normals d n (st_rng s) in act_return x (s\<lparr>st_rng := r, st_actions := x\<rparr>))
      | None \<Rightarrow> (let (x, r) = dw_normals d n (st_rng s) in act_return x (s\<lparr>st_rng := r, st_actions := x\<rparr>)))"

definition sample_flow_euler ::
  "('t, 'm, 'r) pi0_device \<Rightarrow> int \<Rightarrow> int \<Rightarrow> int \<Rightarrow> f32 list option \<Rightarrow>
     (f32 \<Rightarrow> f32 list \<Rightarrow> (f32 list, ('t, 'm, 'r) pi0_state) act) \<Rightarrow> (f32 list, ('t, 'm, 'r) pi0_state) act"
where
  "sample_flow_euler d steps horizon action_dim initial_noise velocity =
     (let n_steps = max 1 steps; n = nat horizon * nat action_dim in
      bind_act (initial_actions d initial_noise n) (\<lambda>x.
        euler_steps velocity n (f32_div f32_minus_one (f32_of_int n_steps)) (nat n_steps) f32_one x))"

definition pi0_denormalize_actions :: "pi0_common_config \<Rightarrow> f32 list \<Rightarrow> f32 list" where
  "pi0_denormalize_actions c actions =
     (let n = nat (c0_action_dim c) in
      if length (c0_action_mean c) \<noteq> n \<or> length (c0_action_std c) \<noteq> n then actions
      else map (\<lambda>(i, a). f32_add (f32_mul a (c0_action_std c ! (i mod n))) (c0_action_mean c ! (i mod n)))
        (zip [0..<length actions] actions))"

definition pi0_sample_actions ::
  "('t, 'm, 'r) pi0_device \<Rightarrow> 't pi0_model \<Rightarrow> int \<Rightarrow> f32 list \<Rightarrow> f32 list \<Rightarrow> (unit, ('t, 'm, 'r) pi0_state) act"
where
  "pi0_sample_actions d M flow_steps state_context initial_noise =
     (let c = m0_common (md_config M) in
      bind_act (new_velocity_graph d M state_context) (\<lambda>g.
      bind_act (sample_flow_euler d flow_steps (c0_action_horizon c) (c0_action_dim c)
        (if initial_noise = [] then None else Some initial_noise) (eval_velocity d g)) (\<lambda>x.
        act_modify (\<lambda>s. s\<lparr>st_actions := pi0_denormalize_actions c x\<rparr>))))"

end
