(* ===== verification/Pi0ActionProps.thy ===== *)
theory Pi0ActionProps
  imports Pi0Action
begin

text \<open>
  The action expert returns on every input: the shapes of its graph, and what a sampled chunk of actions is.
\<close>

subsection \<open>Building with errors\<close>

lemma safe_if: "(b \<Longrightarrow> safe B k P m) \<Longrightarrow> (\<not> b \<Longrightarrow> safe B k P m') \<Longrightarrow> safe B k P (if b then m else m')"
  by simp

lemma safe_loop:
  assumes "\<And>i x. i \<in> set is \<Longrightarrow> P x \<Longrightarrow> safe B k P (f i x)" and "P x"
  shows "safe B (length is * k) P (loop_build f is x)"
  using assms
proof (induction "is" arbitrary: x)
  case Nil
  then show ?case by (simp add: safe_return)
next
  case (Cons i "is")
  have "safe B (k + length is * k) P (bind_build (f i x) (loop_build f is))"
    by (rule safe_bind [where P = P]) (use Cons in auto)
  then show ?case by simp
qed

lemma safe_conseq: "safe B k P m \<Longrightarrow> (\<And>x. P x \<Longrightarrow> Q x) \<Longrightarrow> safe B k Q m"
  unfolding safe_def by blast

text \<open>A step that yields a tensor, and the rest.\<close>

lemma safe_then: "yields B k P m \<Longrightarrow> (\<And>x. P x \<Longrightarrow> safe B l Q (f x)) \<Longrightarrow> safe B (k + l) Q (bind_build m f)"
  by (rule safe_bind [OF yields_safe])

lemma safe_then_last: "yields B k P m \<Longrightarrow> (\<And>x. P x \<Longrightarrow> Q x) \<Longrightarrow> safe B k Q m"
  by (rule safe_conseq [OF yields_safe])

subsection \<open>Sizes and weights\<close>

definition action_weights_fit :: "'t ggml \<Rightarrow> 't pi0_model \<Rightarrow> bool" where
  "action_weights_fit G M \<longleftrightarrow>
     (let w = md_weights M; a = p0_action (m0_pi0 (md_config M)); width = a0_expert_width a; dim = c0_action_dim (m0_common (md_config M)) in
      has_tensor G (w0_action_in_w w) [dim, width] \<and> has_tensor G (w0_action_in_b w) [width] \<and>
      has_tensor G (w0_action_time_in_w w) [2 * width, width] \<and> has_tensor G (w0_action_time_in_b w) [width] \<and>
      has_tensor G (w0_action_time_out_w w) [width, width] \<and> has_tensor G (w0_action_time_out_b w) [width] \<and>
      has_tensor G (w0_action_out_w w) [width, dim] \<and> has_tensor G (w0_action_out_b w) [dim] \<and>
      has_tensor G (w0_action_norm_scale w) [width] \<and> length (w0_action_layers w) = nat (a0_expert_layers a) \<and>
      list_all (has_layer G width (a0_expert_q_out a) (a0_expert_kv_out a) (a0_expert_mlp_width a)) (w0_action_layers w))"

text \<open>The cached tensors are single-precision tensors of at most three dimensions.\<close>

definition cached :: "'t ggml \<Rightarrow> 't \<Rightarrow> bool" where
  "cached G t \<longleftrightarrow> (\<exists>a b c. f32t G [a, b, c, 1] t)"

lemma cached_sizes: "cached G t \<Longrightarrow> f32t G [ne G t 0, ne G t 1, ne G t 2, 1] t"
  unfolding cached_def using dims_ne [OF f32t_imp(4)] by metis

definition cache_ok :: "'t ggml \<Rightarrow> ('t, 'm, 'r) pi0_state \<Rightarrow> bool" where
  "cache_ok G s \<longleftrightarrow>
     (\<forall>t. Some t \<in> set (st_k_layers s) \<union> set (st_v_layers s) \<union> {st_vision s, st_prompt s} \<longrightarrow> cached G t)"

lemma cache_ok_blind: "memory_blind (cache_ok G)"
  by (simp add: memory_blind_def cache_ok_def)

definition shape_fits :: "'t pi0_model \<Rightarrow> ('t, 'm, 'r) pi0_state \<Rightarrow> action_shape \<Rightarrow> bool" where
  "shape_fits M s S \<longleftrightarrow>
     (let a = p0_action (m0_pi0 (md_config M)); c = m0_common (md_config M); D = ax_dims S; layers = nat (a0_expert_layers a) in
      gemma_fits D \<and> gd_q_out D = a0_expert_q_out a \<and> gd_kv_out D = a0_expert_kv_out a \<and> ax_width S = a0_expert_width a \<and>
      0 < ax_width S \<and> ax_batch S = c0_action_horizon c \<and> 0 < ax_batch S \<and> ax_action_dim S = c0_action_dim c \<and>
      0 < ax_action_dim S \<and> gd_tokens D = ax_batch S + (if ax_has_state S then 1 else 0) \<and>
      ax_kv_tokens S = gd_tokens D + int (ax_prefix S) \<and>
      (0 < ax_prefix S \<longrightarrow> layers \<le> length (st_k_layers s) \<and> layers \<le> length (st_v_layers s)))"

lemma guard_Inr:
  "(if b then Some (Inl e) else m) = Some (Inr x) \<longleftrightarrow> \<not> b \<and> m = Some (Inr x)"
  "(if b then None else m) = Some (Inr x) \<longleftrightarrow> \<not> b \<and> m = Some (Inr x)"
  by simp_all

lemma usable_prefix_layers:
  "0 < usable_prefix s n \<Longrightarrow> n \<le> length (st_k_layers s) \<and> n \<le> length (st_v_layers s)"
  by (simp add: usable_prefix_def split: if_splits)

lemma init_shape_Inr:
  assumes "init_shape M s state_context = Some (Inr S)"
  shows "\<not> action_incomplete M" "gd_q_out (ax_dims S) mod gd_kv_out (ax_dims S) = 0"
    and "S = \<lparr>ax_width = a0_expert_width (p0_action (m0_pi0 (md_config M))),
       ax_dims = \<lparr>gd_q_out = a0_expert_q_out (p0_action (m0_pi0 (md_config M))),
         gd_kv_out = a0_expert_kv_out (p0_action (m0_pi0 (md_config M))),
         gd_head_dim = a0_expert_kv_out (p0_action (m0_pi0 (md_config M))),
         gd_heads = a0_expert_q_out (p0_action (m0_pi0 (md_config M))) div a0_expert_kv_out (p0_action (m0_pi0 (md_config M))),
         gd_kv_heads = 1, gd_tokens = c0_action_horizon (m0_common (md_config M)) + (if state_context \<noteq> [] then 1 else 0)\<rparr>,
       ax_batch = c0_action_horizon (m0_common (md_config M)), ax_action_dim = c0_action_dim (m0_common (md_config M)),
       ax_prefix = usable_prefix s (nat (a0_expert_layers (p0_action (m0_pi0 (md_config M))))),
       ax_kv_tokens = c0_action_horizon (m0_common (md_config M)) + (if state_context \<noteq> [] then 1 else 0) +
         int (usable_prefix s (nat (a0_expert_layers (p0_action (m0_pi0 (md_config M)))))),
       ax_has_state = (state_context \<noteq> [])\<rparr>"
    and "0 < gd_tokens (ax_dims S)" "0 < ax_batch S" "0 < ax_action_dim S" "0 < gd_heads (ax_dims S)"
    and "state_context \<noteq> [] \<Longrightarrow> length state_context = nat (ax_width S)"
  using assms unfolding init_shape_def Let_def guard_Inr de_Morgan_disj not_le
  by (simp_all only: option.inject sum.inject) auto

lemma init_shape_fits:
  assumes "init_shape M s state_context = Some (Inr S)"
  shows "shape_fits M s S" and "ax_has_state S \<longleftrightarrow> state_context \<noteq> []"
    and "state_context \<noteq> [] \<Longrightarrow> length state_context = nat (ax_width S)"
proof -
  note parts = init_shape_Inr [OF assms]
  have "gd_heads (ax_dims S) = gd_q_out (ax_dims S) div gd_kv_out (ax_dims S)" by (simp add: parts(3))
  with parts(2) have "gd_q_out (ax_dims S) = gd_heads (ax_dims S) * gd_kv_out (ax_dims S)" by auto
  moreover have "0 < a0_expert_width (p0_action (m0_pi0 (md_config M)))" "0 < a0_expert_q_out (p0_action (m0_pi0 (md_config M)))"
    "0 < a0_expert_kv_out (p0_action (m0_pi0 (md_config M)))"
    using parts(1) by (simp_all add: action_incomplete_def Let_def)
  moreover have "gd_q_out (ax_dims S) = a0_expert_q_out (p0_action (m0_pi0 (md_config M)))"
    "gd_kv_out (ax_dims S) = a0_expert_kv_out (p0_action (m0_pi0 (md_config M)))" "gd_head_dim (ax_dims S) = gd_kv_out (ax_dims S)"
    "gd_kv_heads (ax_dims S) = 1" "gd_tokens (ax_dims S) = ax_batch S + (if ax_has_state S then 1 else 0)"
    "ax_width S = a0_expert_width (p0_action (m0_pi0 (md_config M)))" "ax_batch S = c0_action_horizon (m0_common (md_config M))"
    "ax_action_dim S = c0_action_dim (m0_common (md_config M))" "ax_kv_tokens S = gd_tokens (ax_dims S) + int (ax_prefix S)"
    "ax_prefix S = usable_prefix s (nat (a0_expert_layers (p0_action (m0_pi0 (md_config M)))))"
    by (simp_all add: parts(3))
  ultimately show "shape_fits M s S"
    using parts(4-7) usable_prefix_layers [of s "nat (a0_expert_layers (p0_action (m0_pi0 (md_config M))))"]
    unfolding shape_fits_def gemma_fits_def Let_def by simp
  show "ax_has_state S \<longleftrightarrow> state_context \<noteq> []" by (simp add: parts(3))
  show "state_context \<noteq> [] \<Longrightarrow> length state_context = nat (ax_width S)" by (rule parts(8))
qed

text \<open>When \<open>int\<close> does not overflow, the sizes are computed.\<close>

lemma init_shape_returns:
  assumes "c0_action_horizon (m0_common (md_config M)) + 1 + int (st_token_count s) < 2 ^ 31"
    and "- (2 ^ 31) \<le> c0_action_horizon (m0_common (md_config M))"
  shows "init_shape M s state_context \<noteq> None"
  using assms by (auto simp: init_shape_def Let_def fits_sint_def usable_prefix_def)

subsection \<open>The graph\<close>

lemma join_prefix_safe:
  assumes G: "pi0_laws (gb_ops B) P" and S: "shape_fits M s S" and c: "cache_ok (gb_ops B) s"
    and layer: "layer < nat (a0_expert_layers (p0_action (m0_pi0 (md_config M))))"
    and kv: "f32t (gb_ops B) [gd_head_dim (ax_dims S), gd_kv_heads (ax_dims S), gd_tokens (ax_dims S), 1] k"
      "f32t (gb_ops B) [gd_head_dim (ax_dims S), gd_kv_heads (ax_dims S), gd_tokens (ax_dims S), 1] v"
  shows "safe B 2 (\<lambda>(k, v). f32t (gb_ops B) [gd_head_dim (ax_dims S), gd_kv_heads (ax_dims S), ax_kv_tokens S, 1] k \<and>
      f32t (gb_ops B) [gd_head_dim (ax_dims S), gd_kv_heads (ax_dims S), ax_kv_tokens S, 1] v) (join_prefix B S s layer k v)"
proof (cases "ax_prefix S = 0")
  case True
  then have "safe B 0 (\<lambda>(k, v). f32t (gb_ops B) [gd_head_dim (ax_dims S), gd_kv_heads (ax_dims S), ax_kv_tokens S, 1] k \<and>
      f32t (gb_ops B) [gd_head_dim (ax_dims S), gd_kv_heads (ax_dims S), ax_kv_tokens S, 1] v) (join_prefix B S s layer k v)"
    using S kv unfolding join_prefix_def by (auto simp: shape_fits_def Let_def intro!: safe_return)
  then show ?thesis by (rule safe_mono) simp
next
  case False
  let ?pk = "st_k_layers s ! layer" and ?pv = "st_v_layers s ! layer"
  show ?thesis
  proof (cases "prefix_fits (gb_ops B) S ?pk \<and> prefix_fits (gb_ops B) S ?pv")
    case True
    then obtain tk tv where t: "?pk = Some tk" "?pv = Some tv" by (auto simp: prefix_fits_def split: option.splits)
    have "layer < length (st_k_layers s)" "layer < length (st_v_layers s)"
      using S False layer by (auto simp: shape_fits_def Let_def)
    then have "cached (gb_ops B) tk" "cached (gb_ops B) tv" using c t by (auto simp: cache_ok_def) (metis nth_mem)+
    then have shapes: "f32t (gb_ops B) [gd_head_dim (ax_dims S), gd_kv_heads (ax_dims S), int (ax_prefix S), 1] tk"
      "f32t (gb_ops B) [gd_head_dim (ax_dims S), gd_kv_heads (ax_dims S), int (ax_prefix S), 1] tv"
      using True cached_sizes [of "gb_ops B" tk] cached_sizes [of "gb_ops B" tv] by (simp_all add: t prefix_fits_def)
    have sum: "ax_kv_tokens S = int (ax_prefix S) + gd_tokens (ax_dims S)" using S by (simp add: shape_fits_def Let_def)
    show ?thesis
      unfolding join_prefix_def Let_def
      using False True apply (simp only: if_False not_not simp_thms t option.sel)
      apply (rule safe_mono)
       apply (rule safe_then, rule node_concat_2 [OF G shapes(1) kv(1)])
       apply (rule safe_then, rule node_concat_2 [OF G shapes(2) kv(2)])
       apply (rule safe_return, simp add: sum)
      apply simp
      done
  qed (use False in \<open>auto simp: join_prefix_def Let_def intro: safe_fail\<close>)
qed

lemma action_layer_safe:
  assumes G: "pi0_laws (gb_ops B) P" and S: "shape_fits M s S" and c: "cache_ok (gb_ops B) s"
    and w: "action_weights_fit (gb_ops B) M" and layer: "layer < nat (a0_expert_layers (p0_action (m0_pi0 (md_config M))))"
    and pos: "stored (gb_ops B) [gd_tokens (ax_dims S), 1, 1, 1] pos" "tensor_type (gb_ops B) pos = GGML_TYPE_I32"
    and m: "\<And>t. m = Some t \<Longrightarrow> stored (gb_ops B) [ax_kv_tokens S, gd_tokens (ax_dims S), 1, 1] t \<and> tensor_type (gb_ops B) t = GGML_TYPE_F16"
    and x: "f32t (gb_ops B) [ax_width S, gd_tokens (ax_dims S), 1, 1] x"
  shows "safe B 32 (f32t (gb_ops B) [ax_width S, gd_tokens (ax_dims S), 1, 1]) (action_layer B P S M s m pos layer x)"
proof -
  let ?a = "p0_action (m0_pi0 (md_config M))"
  define L where "L = w0_action_layers (md_weights M) ! layer"
  have D: "gemma_fits (ax_dims S)" and eqs: "gd_q_out (ax_dims S) = a0_expert_q_out ?a" "gd_kv_out (ax_dims S) = a0_expert_kv_out ?a"
    "ax_width S = a0_expert_width ?a" using S by (simp_all add: shape_fits_def Let_def)
  have L: "has_layer (gb_ops B) (ax_width S) (gd_q_out (ax_dims S)) (gd_kv_out (ax_dims S)) (a0_expert_mlp_width ?a) L"
    using w layer by (simp add: action_weights_fit_def Let_def list_all_length L_def eqs)
  note present = has_layer_complete [OF L]
  have norms: "has_tensor (gb_ops B) (tw_input_norm_scale L) [ax_width S]" "has_tensor (gb_ops B) (tw_post_norm_scale L) [ax_width S]"
    using L by (simp_all add: has_layer_def)
  have scale: "yields B 1 (f32t (gb_ops B) [ax_width S, 1, 1, 1]) (pi0_f32_weight B P (tw_input_norm_scale L) 1)"
    "yields B 1 (f32t (gb_ops B) [ax_width S, 1, 1, 1]) (pi0_f32_weight B P (tw_post_norm_scale L) 1)"
    by (rule yields_pi0_f32_weight [OF G norms(1), unfolded pad4_simps], simp)
      (rule yields_pi0_f32_weight [OF G norms(2), unfolded pad4_simps], simp)
  show ?thesis
    unfolding action_layer_def Let_def L_def [symmetric]
    using present apply (simp only: if_False simp_thms)
    apply (rule safe_mono)
     apply (rule safe_then, rule scale(1))
     apply (rule safe_then, rule scale(2))
     apply (rule safe_then, rule yields_gemma_norm [OF G x], assumption)
     apply (rule safe_then, rule yields_gemma_qkv [OF G L D pos], assumption)
     apply (simp only: split_beta)
     apply (rule safe_bind, rule join_prefix_safe [OF G S c layer], blast, blast)
     apply (simp only: split_beta)
     apply (rule safe_then, rule yields_gemma_attend [OF G L D], blast, blast, blast, erule m, rule x)
     apply (rule safe_then_last, rule yields_gemma_feed_forward [OF G L], assumption, assumption, assumption)
    apply simp
    done
qed


lemma action_tokens_yields:
  assumes G: "pi0_laws (gb_ops B) P" and S: "shape_fits M s S" and w: "action_weights_fit (gb_ops B) M"
    and x: "f32t (gb_ops B) [ax_action_dim S, ax_batch S, 1, 1] x" and t: "f32t (gb_ops B) [ax_width S, ax_batch S, 1, 1] t"
  shows "yields B 11 (f32t (gb_ops B) [ax_width S, ax_batch S, 1, 1]) (action_tokens B P (md_weights M) x t)"
proof -
  let ?w = "md_weights M"
  have ws: "has_tensor (gb_ops B) (w0_action_in_w ?w) [ax_action_dim S, ax_width S]" "has_tensor (gb_ops B) (w0_action_in_b ?w) [ax_width S]"
    "has_tensor (gb_ops B) (w0_action_time_in_w ?w) [ax_width S + ax_width S, ax_width S]" "has_tensor (gb_ops B) (w0_action_time_in_b ?w) [ax_width S]"
    "has_tensor (gb_ops B) (w0_action_time_out_w ?w) [ax_width S, ax_width S]" "has_tensor (gb_ops B) (w0_action_time_out_b ?w) [ax_width S]"
    using w S by (simp_all add: action_weights_fit_def shape_fits_def Let_def)
  show ?thesis
    unfolding action_tokens_def
    apply (rule yields_mono)
     apply (rule yields_bind, rule yields_pi0_linear [OF G ws(1,2) x])
     apply (rule yields_bind, rule node_join(2) [OF pi0_laws_ggml [OF G] _ t], assumption)
     apply (rule yields_bind, rule yields_pi0_linear [OF G ws(3,4)], assumption)
     apply (rule yields_bind, rule node_unary(4) [OF pi0_laws_ggml [OF G]], assumption)
     apply (rule yields_pi0_linear [OF G ws(5,6)], assumption)
    apply simp
    done
qed

lemma node_inputs:
  assumes "pi0_laws (gb_ops B) P" "0 < a" "0 < b"
  shows "yields B 1 (\<lambda>t. stored (gb_ops B) [a, 1, 1, 1] t \<and> tensor_type (gb_ops B) t = GGML_TYPE_I32)
      (node B (gg_new_tensor (gb_ops B) GGML_TYPE_I32 [a]))"
    and "yields B 1 (\<lambda>t. stored (gb_ops B) [a, b, 1, 1] t \<and> tensor_type (gb_ops B) t = GGML_TYPE_F16)
      (node B (gg_new_tensor (gb_ops B) GGML_TYPE_F16 [a, b, 1]))"
    and "yields B 1 (f32t (gb_ops B) [a, b, 1, 1]) (node B (gg_new_tensor (gb_ops B) GGML_TYPE_F32 [a, b]))"
proof -
  have i: "law_inputs (gb_ops B)" "law_new (gb_ops B)" using assms(1) by (simp_all add: pi0_laws_def ggml_laws_def)
  show "yields B 1 (\<lambda>t. stored (gb_ops B) [a, 1, 1, 1] t \<and> tensor_type (gb_ops B) t = GGML_TYPE_I32)
      (node B (gg_new_tensor (gb_ops B) GGML_TYPE_I32 [a]))"
    by (rule yields_node) (use i(1) assms(2) in \<open>simp add: law_inputs_def\<close>)
  show "yields B 1 (\<lambda>t. stored (gb_ops B) [a, b, 1, 1] t \<and> tensor_type (gb_ops B) t = GGML_TYPE_F16)
      (node B (gg_new_tensor (gb_ops B) GGML_TYPE_F16 [a, b, 1]))"
    by (rule yields_node) (use i(1) assms(2,3) in \<open>simp add: law_inputs_def\<close>)
  show "yields B 1 (f32t (gb_ops B) [a, b, 1, 1]) (node B (gg_new_tensor (gb_ops B) GGML_TYPE_F32 [a, b]))"
    by (rule yields_node) (use i(2) assms(2,3) zero_less_one [where 'a = int] in \<open>unfold law_new_def, blast\<close>)
qed

lemma yields_optional_node:
  assumes "b \<Longrightarrow> yields B 1 P (node B t)"
  shows "yields B 1 (\<lambda>r. (r \<noteq> None \<longleftrightarrow> b) \<and> (\<forall>t. r = Some t \<longrightarrow> P t)) (optional_node B b t)"
proof (cases b)
  case True
  have "yields B (1 + 0) (\<lambda>r. (r \<noteq> None \<longleftrightarrow> b) \<and> (\<forall>t. r = Some t \<longrightarrow> P t)) (bind_build (node B t) (\<lambda>t. return_build (Some t)))"
    by (rule yields_bind [OF assms [OF True]]) (rule yields_return, simp add: True)
  with True show ?thesis by (simp add: optional_node_def)
next
  case False
  have "yields B 0 (\<lambda>r. (r \<noteq> None \<longleftrightarrow> b) \<and> (\<forall>t. r = Some t \<longrightarrow> P t)) (return_build None)"
    by (rule yields_return) (simp add: False)
  then have "yields B 1 (\<lambda>r. (r \<noteq> None \<longleftrightarrow> b) \<and> (\<forall>t. r = Some t \<longrightarrow> P t)) (return_build None)"
    by (rule yields_mono) simp
  then show ?thesis by (simp add: optional_node_def False)
qed

text \<open>What the graph of a prediction has.\<close>

definition graph_fits :: "'t ggml \<Rightarrow> action_shape \<Rightarrow> 't velocity_graph \<Rightarrow> bool" where
  "graph_fits G S g \<longleftrightarrow>
     vg_shape g = S \<and> f32t G [ax_action_dim S, ax_batch S, 1, 1] (vg_action_input g) \<and>
     f32t G [ax_width S, ax_batch S, 1, 1] (vg_time_input g) \<and>
     stored G [gd_tokens (ax_dims S), 1, 1, 1] (vg_pos g) \<and> tensor_type G (vg_pos g) = GGML_TYPE_I32 \<and>
     (\<forall>t. vg_mask g = Some t \<longrightarrow> stored G [ax_kv_tokens S, gd_tokens (ax_dims S), 1, 1] t \<and> tensor_type G t = GGML_TYPE_F16) \<and>
     (\<forall>t. vg_state_token g = Some t \<longrightarrow> f32t G [ax_width S, 1, 1, 1] t) \<and> (vg_state_token g \<noteq> None \<longrightarrow> ax_has_state S) \<and>
     f32t G [ax_action_dim S, ax_batch S, 1, 1] (vg_y g)"

lemma yields_with_state_token:
  assumes "pi0_laws (gb_ops B) P" "(r \<noteq> None \<longleftrightarrow> b) \<and> (\<forall>t. r = Some t \<longrightarrow> f32t (gb_ops B) [k, 1, 1, 1] t)"
    "f32t (gb_ops B) [k, n, 1, 1] x"
  shows "yields B 1 (f32t (gb_ops B) [k, n + (if b then 1 else 0), 1, 1]) (with_state_token B r x)"
proof (cases r)
  case None
  then have "yields B 0 (f32t (gb_ops B) [k, n + (if b then 1 else 0), 1, 1]) (with_state_token B r x)"
    using assms(2,3) by (auto simp: with_state_token_def intro: yields_return)
  then show ?thesis by (rule yields_mono) simp
next
  case (Some t)
  then have "yields B 1 (f32t (gb_ops B) [k, 1 + n, 1, 1]) (node B (gg_concat (gb_ops B) t x 1))"
    using assms(2) by (intro node_join(3) [OF pi0_laws_ggml [OF assms(1)] _ assms(3)]) simp
  then show ?thesis using Some assms(2) by (simp add: with_state_token_def add.commute)
qed

lemma yields_output_tokens:
  assumes G: "pi0_laws (gb_ops B) P" and S: "shape_fits M s S" and x: "f32t (gb_ops B) [ax_width S, gd_tokens (ax_dims S), 1, 1] x"
  shows "yields B 1 (f32t (gb_ops B) [ax_width S, ax_batch S, 1, 1])
    (node B (gg_view_2d (gb_ops B) x (ax_width S) (ax_batch S) (gg_nb (gb_ops B) x 1)
      (if gd_tokens (ax_dims S) = ax_batch S then 0 else nat (ax_width S) * 4)))"
proof -
  let ?r = "if gd_tokens (ax_dims S) = ax_batch S then 0 else 1 :: nat"
  have "law_row_size (gb_ops B) P" using G by (simp add: pi0_laws_def)
  then have nb: "gg_nb (gb_ops B) x 1 = nat (ax_width S) * 4" using x unfolding law_row_size_def by fastforce
  have v: "yields B 1 (\<lambda>v. stored (gb_ops B) [ax_width S, ax_batch S, 1, 1] v \<and> tensor_type (gb_ops B) v = tensor_type (gb_ops B) x)
      (node B (gg_view_2d (gb_ops B) x (ax_width S) (ax_batch S) (gg_nb (gb_ops B) x 1) (?r * gg_nb (gb_ops B) x 1)))"
    by (rule node_view_2d [OF pi0_laws_ggml [OF G] f32t_imp(3) [OF x]]) (use S in \<open>simp_all add: shape_fits_def Let_def\<close>)
  have offset: "?r * gg_nb (gb_ops B) x 1 = (if gd_tokens (ax_dims S) = ax_batch S then 0 else nat (ax_width S) * 4)"
    unfolding nb by simp
  show ?thesis
    by (rule yields_conseq [OF v [unfolded offset]]) (use f32t_imp(6) [OF x] in \<open>simp add: f32t_def\<close>)
qed

lemma build_action_graph_safe:
  assumes G: "pi0_laws (gb_ops B) P" and S: "shape_fits M s S" and c: "cache_ok (gb_ops B) s"
    and w: "action_weights_fit (gb_ops B) M"
  shows "safe B (24 + 32 * nat (a0_expert_layers (p0_action (m0_pi0 (md_config M))))) (graph_fits (gb_ops B) S)
    (build_action_graph B P M s S)"
proof -
  let ?w = "md_weights M" and ?layers = "[0..<nat (a0_expert_layers (p0_action (m0_pi0 (md_config M))))]"
  have pos: "0 < ax_action_dim S" "0 < ax_batch S" "0 < ax_width S" "0 < gd_tokens (ax_dims S)" "0 < ax_kv_tokens S"
    using S by (auto simp: shape_fits_def gemma_fits_def Let_def)
  have tokens: "gd_tokens (ax_dims S) = ax_batch S + (if ax_has_state S then 1 else 0)" using S by (simp add: shape_fits_def Let_def)
  have ws: "has_tensor (gb_ops B) (w0_action_norm_scale ?w) [ax_width S]" "has_tensor (gb_ops B) (w0_action_out_w ?w) [ax_width S, ax_action_dim S]"
    "has_tensor (gb_ops B) (w0_action_out_b ?w) [ax_action_dim S]"
    using w S by (simp_all add: action_weights_fit_def shape_fits_def Let_def)
  have present: "\<not> action_projections_missing ?w" "w0_action_norm_scale ?w \<noteq> None"
    using w by (auto simp: action_weights_fit_def action_projections_missing_def Let_def dest: has_tensor_Some)
  have scale: "yields B 1 (f32t (gb_ops B) [ax_width S, 1, 1, 1]) (pi0_f32_weight B P (w0_action_norm_scale ?w) 1)"
    by (rule yields_pi0_f32_weight [OF G ws(1), unfolded pad4_simps]) simp
  have layers: "safe B (length ?layers * 32) (f32t (gb_ops B) [ax_width S, gd_tokens (ax_dims S), 1, 1])
      (loop_build (action_layer B P S M s m p) ?layers x)"
    if "stored (gb_ops B) [gd_tokens (ax_dims S), 1, 1, 1] p \<and> tensor_type (gb_ops B) p = GGML_TYPE_I32"
      "(m \<noteq> None \<longleftrightarrow> ax_has_state S) \<and> (\<forall>t. m = Some t \<longrightarrow>
         stored (gb_ops B) [ax_kv_tokens S, gd_tokens (ax_dims S), 1, 1] t \<and> tensor_type (gb_ops B) t = GGML_TYPE_F16)"
      "f32t (gb_ops B) [ax_width S, ax_batch S + (if ax_has_state S then 1 else 0), 1, 1] x" for p m x
    by (rule safe_loop, rule action_layer_safe [OF G S c w]) (use that tokens in auto)
  note inputs = node_inputs(3) [OF G pos(1,2)] node_inputs(3) [OF G pos(3,2)] node_inputs(1) [OF G pos(4,4)]
    yields_optional_node [OF node_inputs(2) [OF G pos(5,4)]] yields_optional_node [OF node_inputs(3) [OF G pos(3) zero_less_one]]
  show ?thesis
    unfolding build_action_graph_def Let_def
    using present apply (simp only: if_False simp_thms)
    apply (rule safe_mono)
     apply (rule safe_then, rule inputs(1))
     apply (rule safe_then, rule inputs(2))
     apply (rule safe_then, rule inputs(3))
     apply (rule safe_then, rule inputs(4))
     apply (rule safe_then, rule action_tokens_yields [OF G S w], assumption, assumption)
     apply (rule safe_then, rule inputs(5))
     apply (rule safe_then, rule yields_with_state_token [OF G], assumption, assumption)
     apply (rule safe_bind, rule layers, assumption, assumption, assumption)
     apply (rule safe_then, rule scale)
     apply (rule safe_then, rule yields_gemma_norm [OF G], assumption, assumption)
     apply (rule safe_then, rule yields_output_tokens [OF G S], assumption)
     apply (rule safe_then, rule yields_pi0_linear [OF G ws(2,3)], assumption)
     apply (rule safe_return, simp add: graph_fits_def)
    apply simp
    done
qed

end
