(* ===== verification/Pi0Sampling.thy ===== *)
theory Pi0Sampling
  imports Pi0ActionProps
begin

text \<open>
  Sampling actions returns: either with an error, or with a full chunk of actions in the buffer of the context.
\<close>

text \<open>Between operations: the cache is well formed, and the tokens of a graph can be counted in an \<open>int\<close>.\<close>

definition pi0_ok :: "('t, 'm, 'r) pi0_device \<Rightarrow> 't pi0_model \<Rightarrow> ('t, 'm, 'r) pi0_state \<Rightarrow> bool" where
  "pi0_ok d M s \<longleftrightarrow> cache_ok (device_ggml d) s \<and> c0_action_horizon (m0_common (md_config M)) + 1 + int (st_token_count s) < 2 ^ 31"

lemma pi0_ok_updates [simp]:
  "pi0_ok d M (s\<lparr>st_memory := m\<rparr>) = pi0_ok d M s" "pi0_ok d M (s\<lparr>st_rng := r\<rparr>) = pi0_ok d M s"
  "pi0_ok d M (s\<lparr>st_actions := x\<rparr>) = pi0_ok d M s"
  by (simp_all add: pi0_ok_def cache_ok_def)

lemma pi0_ok_blind: "memory_blind (pi0_ok d M)"
  by (simp add: memory_blind_def)

lemma act_ok_at: "(\<And>s. P s \<Longrightarrow> act_ok J P (F s) Q) \<Longrightarrow> act_ok J P (\<lambda>s. F s s) Q"
  unfolding act_ok_def by blast

lemma act_ok_pre: "(\<And>s. P s \<Longrightarrow> b) \<Longrightarrow> (b \<Longrightarrow> act_ok J P m Q) \<Longrightarrow> act_ok J P m Q"
  unfolding act_ok_def by blast

lemma act_ok_facts: "(b \<Longrightarrow> act_ok J P m Q) \<Longrightarrow> act_ok J (\<lambda>s. P s \<and> b) m Q"
  unfolding act_ok_def by blast

lemma act_ok_optional_set:
  assumes "memory_blind P" "\<And>u m. t = Some u \<Longrightarrow> \<exists>m'. set_value u v m = Some m'"
  shows "act_ok J P (optional_set set_value t v) (\<lambda>_. P)"
proof (cases t)
  case None
  then show ?thesis by (simp add: optional_set_def act_ok_return)
next
  case (Some u)
  then show ?thesis using act_ok_memory [OF assms(1), of "set_value u v"] assms(2) by (simp add: optional_set_def)
qed

lemma length_attention_mask:
  assumes "shape_fits M s S"
  shows "int (length (attention_mask S)) \<le> ax_kv_tokens S * gd_tokens (ax_dims S)"
proof -
  have pos: "0 < gd_tokens (ax_dims S)" "0 < ax_kv_tokens S" using assms by (auto simp: shape_fits_def gemma_fits_def Let_def)
  have "length (attention_mask S) = nat (ax_kv_tokens S) + (nat (gd_tokens (ax_dims S)) - 1) * nat (ax_kv_tokens S)"
    by (simp add: attention_mask_def Let_def)
  also have "\<dots> = nat (gd_tokens (ax_dims S)) * nat (ax_kv_tokens S)"
    using pos by (cases "nat (gd_tokens (ax_dims S))") auto
  finally show ?thesis using pos by (simp add: mult.commute)
qed

lemma length_pos_host: "int (length (pos_host S)) \<le> max 0 (gd_tokens (ax_dims S))"
  by (simp add: pos_host_def)

lemma length_posemb: "length (fill_posemb_sincos d time width) = width"
  by (simp add: fill_posemb_sincos_def Let_def)

lemma length_time_batch: "length (time_batch d S time) = nat (ax_batch S) * nat (ax_width S)"
  by (simp add: time_batch_def length_concat length_posemb sum_list_replicate)

subsection \<open>The graph of a prediction\<close>

definition action_capacity :: "'t pi0_model \<Rightarrow> bool" where
  "action_capacity M \<longleftrightarrow>
     24 + 32 * nat (a0_expert_layers (p0_action (m0_pi0 (md_config M)))) \<le> ggml_default_graph_size"

lemma action_capacity_room:
  "action_capacity M \<longleftrightarrow>
     24 + 32 * nat (a0_expert_layers (p0_action (m0_pi0 (md_config M)))) \<le> gb_capacity (device_builder d ''action_decoder'')"
  by (simp add: action_capacity_def device_capacity)

definition horizon_fits :: "'t pi0_model \<Rightarrow> bool" where
  "horizon_fits M \<longleftrightarrow> - (2 ^ 31) \<le> c0_action_horizon (m0_common (md_config M))"

lemma velocity_build_safe:
  assumes d: "device_laws d" and w: "action_weights_fit (device_ggml d) M" and h: "horizon_fits M" and s: "pi0_ok d M s"
  shows "safe (device_builder d ''action_decoder'') (24 + 32 * nat (a0_expert_layers (p0_action (m0_pi0 (md_config M)))))
    (\<lambda>g. \<exists>S. graph_fits (device_ggml d) S g \<and> shape_fits M s S \<and>
       (state_context \<noteq> [] \<longrightarrow> length state_context = nat (ax_width S)) \<and> (ax_has_state S \<longleftrightarrow> state_context \<noteq> []))
    (bind_build (\<lambda>n. map_option (map_sum (\<lambda>e. e) (\<lambda>S. (S, n))) (init_shape M s state_context))
      (build_action_graph (device_builder d ''action_decoder'') (dw_ops d) M s))"
    (is "safe ?B ?k ?Q (bind_build ?init ?build)")
proof -
  note G = device_ops [OF d]
  obtain r where r: "init_shape M s state_context = Some r"
    using s h init_shape_returns [of M s state_context] by (auto simp: pi0_ok_def horizon_fits_def)
  have "safe ?B 0 (\<lambda>S. init_shape M s state_context = Some (Inr S)) ?init"
    by (cases r) (auto simp: safe_def r)
  moreover have "safe ?B ?k ?Q (?build S)" if init: "init_shape M s state_context = Some (Inr S)" for S
  proof -
    have "safe ?B ?k (graph_fits (gb_ops ?B) S) (?build S)"
      by (rule build_action_graph_safe) (use G init_shape_fits(1) [OF init] s w in \<open>simp_all add: pi0_ok_def\<close>)
    then show ?thesis by (rule safe_conseq) (use G init_shape_fits [OF init] in auto)
  qed
  ultimately have "safe ?B (0 + ?k) ?Q (bind_build ?init ?build)" by (rule safe_bind)
  then show ?thesis by simp
qed

lemma velocity_graph_ok:
  assumes d: "device_laws d" and w: "action_weights_fit (device_ggml d) M" and cap: "action_capacity M" and h: "horizon_fits M"
  shows "act_ok (pi0_ok d M) (pi0_ok d M) (new_velocity_graph d M state_context)
    (\<lambda>g s. pi0_ok d M s \<and> (\<exists>S. graph_fits (device_ggml d) S g \<and> ax_batch S = c0_action_horizon (m0_common (md_config M)) \<and>
       ax_action_dim S = c0_action_dim (m0_common (md_config M)) \<and> 0 < ax_width S \<and> 0 < ax_batch S \<and> 0 < ax_action_dim S))"
    (is "act_ok ?J ?J _ ?R")
  unfolding new_velocity_graph_def
proof (rule act_ok_at [where F = "velocity_graph_at d M state_context"])
  fix s assume s: "?J s"
  let ?G = "device_ggml d"
  let ?Q = "\<lambda>g. \<exists>S. graph_fits ?G S g \<and> shape_fits M s S \<and>
       (state_context \<noteq> [] \<longrightarrow> length state_context = nat (ax_width S)) \<and> (ax_has_state S \<longleftrightarrow> state_context \<noteq> [])"
  note build = velocity_build_safe [OF d w h s, of state_context]
  have rest: "act_ok ?J (\<lambda>s. ?J s \<and> ?Q g)
     (bind_act (alloc_act d [vg_y g] ''pi0 action decoder graph allocation failed'') (\<lambda>_.
      bind_act (memory_act (dw_set_i32 d (vg_pos g) (pos_host (vg_shape g)))) (\<lambda>_.
      bind_act (optional_set (dw_set_f16 d) (vg_mask g) (map (dw_to_f16 d) (attention_mask (vg_shape g)))) (\<lambda>_.
      bind_act (optional_set (dw_set_f32 d) (vg_state_token g) state_context) (\<lambda>_. act_return g))))) ?R" for g
  proof (rule act_ok_facts)
    assume "?Q g"
    then obtain S where g: "graph_fits ?G S g" and S: "shape_fits M s S" and sc: "state_context \<noteq> [] \<longrightarrow> length state_context = nat (ax_width S)"
      "ax_has_state S \<longleftrightarrow> state_context \<noteq> []" by blast
    have vs: "vg_shape g = S" using g by (simp add: graph_fits_def)
    have pos: "0 < gd_tokens (ax_dims S)" "0 < ax_width S" using S by (simp_all add: shape_fits_def gemma_fits_def Let_def)
    have set_pos: "\<exists>m'. dw_set_i32 d (vg_pos g) (pos_host (vg_shape g)) m = Some m'" for m
      using g length_pos_host [of S] pos unfolding vs by (intro device_sets(2) [OF d]) (auto simp: graph_fits_def)
    have set_mask: "\<exists>m'. dw_set_f16 d u (map (dw_to_f16 d) (attention_mask (vg_shape g))) m = Some m'" if "vg_mask g = Some u" for u m
      using g that length_attention_mask [OF S] unfolding vs by (intro device_sets(3) [OF d]) (auto simp: graph_fits_def)
    have set_state: "\<exists>m'. dw_set_f32 d u state_context m = Some m'" if "vg_state_token g = Some u" for u m
    proof (rule device_sets(1) [OF d])
      show "f32t ?G [ax_width S, 1, 1, 1] u" using g that by (simp add: graph_fits_def)
      show "int (length state_context) \<le> prod_list [ax_width S, 1, 1, 1]" using g that sc pos by (auto simp: graph_fits_def)
    qed
    have fin: "act_ok ?J ?J (act_return g) ?R"
      by (rule act_ok_return) (use g S in \<open>auto simp: shape_fits_def Let_def\<close>)
    note opt = act_ok_optional_set [OF pi0_ok_blind]
    show "act_ok ?J ?J
     (bind_act (alloc_act d [vg_y g] ''pi0 action decoder graph allocation failed'') (\<lambda>_.
      bind_act (memory_act (dw_set_i32 d (vg_pos g) (pos_host (vg_shape g)))) (\<lambda>_.
      bind_act (optional_set (dw_set_f16 d) (vg_mask g) (map (dw_to_f16 d) (attention_mask (vg_shape g)))) (\<lambda>_.
      bind_act (optional_set (dw_set_f32 d) (vg_state_token g) state_context) (\<lambda>_. act_return g))))) ?R"
      apply (rule act_ok_bind [OF act_ok_alloc], assumption)
      apply (rule act_ok_bind [OF act_ok_memory [OF pi0_ok_blind set_pos]])
      apply (rule act_ok_bind [OF opt], erule set_mask)
      apply (rule act_ok_bind [OF opt], erule set_state)
      apply (rule fin)
      done
  qed
  show "act_ok ?J ?J (velocity_graph_at d M state_context s) ?R"
    unfolding velocity_graph_at_def Let_def
    by (rule act_ok_bind [OF act_ok_graph [OF build] rest]) (use cap in \<open>simp_all add: action_capacity_room [of M d]\<close>)
qed

subsection \<open>Sampling\<close>

lemma eval_velocity_ok:
  assumes d: "device_laws d" and g: "graph_fits (device_ggml d) S g" and pos: "0 < ax_width S" "0 < ax_batch S" "0 < ax_action_dim S"
  shows "act_ok (pi0_ok d M) (pi0_ok d M) (eval_velocity d g time x)
    (\<lambda>v s. pi0_ok d M s \<and> length v = nat (ax_batch S) * nat (ax_action_dim S))"
proof -
  have vs: "vg_shape g = S" and shapes: "f32t (device_ggml d) [ax_action_dim S, ax_batch S, 1, 1] (vg_action_input g)"
    "f32t (device_ggml d) [ax_width S, ax_batch S, 1, 1] (vg_time_input g)" "f32t (device_ggml d) [ax_action_dim S, ax_batch S, 1, 1] (vg_y g)"
    using g by (simp_all add: graph_fits_def)
  have set_x: "\<exists>m'. dw_set_f32 d (vg_action_input g) x m = Some m'" if "length x = nat (ax_batch S) * nat (ax_action_dim S)" for m
    by (rule device_sets(1) [OF d shapes(1)]) (use that pos in simp)
  have set_t: "\<exists>m'. dw_set_f32 d (vg_time_input g) (time_batch d S time) m = Some m'" for m
    by (rule device_sets(1) [OF d shapes(2)]) (use pos in \<open>simp add: length_time_batch\<close>)
  have read: "act_ok (pi0_ok d M) (pi0_ok d M) (read_act d (vg_y g) (nat (ax_batch S) * nat (ax_action_dim S)))
      (\<lambda>v s. pi0_ok d M s \<and> length v = nat (ax_batch S) * nat (ax_action_dim S))"
    by (rule act_ok_read [OF d shapes(3)]) (use pos in simp)
  show ?thesis
    unfolding eval_velocity_def Let_def vs
    apply (rule act_ok_if, rule act_ok_fail, assumption)
    apply (rule act_ok_bind [OF act_ok_memory [OF pi0_ok_blind set_x]], simp)
    apply (rule act_ok_bind [OF act_ok_memory [OF pi0_ok_blind set_t]])
    apply (rule act_ok_bind [OF act_ok_compute [OF pi0_ok_blind]], assumption)
    apply (rule read)
    done
qed

lemma euler_steps_ok:
  assumes "\<And>t x. act_ok J P (velocity t x) (\<lambda>v s. P s \<and> length v = n)" and "\<And>s x. P s \<Longrightarrow> P (s\<lparr>st_actions := x\<rparr>)" "\<And>s. P s \<Longrightarrow> J s"
  shows "length x = n \<Longrightarrow> act_ok J P (euler_steps velocity n dt i t x) (\<lambda>y s. P s \<and> length y = n)"
proof (induction i arbitrary: t x)
  case 0
  then show ?case unfolding euler_steps.simps by (intro act_ok_return) simp
next
  case (Suc i)
  have next_step: "act_ok J P (if length v \<noteq> n then act_fail ''pi0 action velocity has incompatible shape''
       else let y = map2 (\<lambda>a b. f32_add a (f32_mul dt b)) x v in
         bind_act (act_modify (\<lambda>s. s\<lparr>st_actions := y\<rparr>)) (\<lambda>_. euler_steps velocity n dt i (f32_add t dt) y))
       (\<lambda>y s. P s \<and> length y = n)" if "length v = n" for v
    using that Suc.prems unfolding Let_def
    by (simp, intro act_ok_bind [OF act_ok_modify Suc.IH]) (use assms(2) in simp_all)
  show ?case
    unfolding euler_steps.simps by (rule act_ok_bind [OF assms(1)], rule act_ok_facts, erule next_step)
qed

lemma initial_actions_ok:
  assumes "device_laws d"
  shows "act_ok J (pi0_ok d M) (initial_actions d noise n) (\<lambda>x s. pi0_ok d M s \<and> length x = n)"
proof -
  have "\<forall>r. length (fst (dw_normals d n r)) = n" using assms by (simp add: device_laws_def)
  then show ?thesis by (auto simp: act_ok_def initial_actions_def split: option.splits prod.splits) (metis fst_conv)+
qed

lemma length_denormalize: "length (pi0_denormalize_actions c x) = length x"
  by (simp add: pi0_denormalize_actions_def Let_def)

lemma pi0_sample_actions_ok:
  assumes d: "device_laws d" and w: "action_weights_fit (device_ggml d) M" and cap: "action_capacity M" and h: "horizon_fits M"
  shows "act_ok (pi0_ok d M) (pi0_ok d M) (pi0_sample_actions d M steps state_context noise)
    (\<lambda>_ s. pi0_ok d M s \<and>
       length (st_actions s) = nat (c0_action_horizon (m0_common (md_config M))) * nat (c0_action_dim (m0_common (md_config M))))"
proof -
  let ?J = "pi0_ok d M" and ?c = "m0_common (md_config M)"
  let ?n = "nat (c0_action_horizon ?c) * nat (c0_action_dim ?c)"
  have sample: "act_ok ?J ?J (sample_flow_euler d steps (c0_action_horizon ?c) (c0_action_dim ?c) ns (eval_velocity d g))
      (\<lambda>x s. ?J s \<and> length x = ?n)"
    if "\<exists>S. graph_fits (device_ggml d) S g \<and> ax_batch S = c0_action_horizon ?c \<and> ax_action_dim S = c0_action_dim ?c \<and>
      0 < ax_width S \<and> 0 < ax_batch S \<and> 0 < ax_action_dim S" for g ns
  proof -
    from that obtain S where g: "graph_fits (device_ggml d) S g" "ax_batch S = c0_action_horizon ?c" "ax_action_dim S = c0_action_dim ?c"
      "0 < ax_width S" "0 < ax_batch S" "0 < ax_action_dim S" by blast
    note eval = eval_velocity_ok [OF d g(1,4-6), of M, unfolded g(2,3)]
    show ?thesis
      unfolding sample_flow_euler_def Let_def
      by (rule act_ok_bind [OF initial_actions_ok [OF d]], rule act_ok_facts, rule euler_steps_ok [OF eval]) simp_all
  qed
  show ?thesis
    unfolding pi0_sample_actions_def Let_def
    apply (rule act_ok_bind [OF velocity_graph_ok [OF d w cap h]], rule act_ok_facts)
    apply (rule act_ok_bind [OF sample], assumption, rule act_ok_facts)
    apply (rule act_ok_modify, simp add: length_denormalize)
    done
qed

end
