(* ===== verification/Pi0Vlm.thy ===== *)
theory Pi0Vlm
  imports Pi0Sampling QwenCapture
begin

text \<open>
  The prefix of a prediction (\<^verbatim>\<open>src/models/pi0/vlm.cpp\<close>): the tokenizer, the embedding of the prompt, the vision
  encoder over all images at once, and the language model over both, whose keys and values stay in the cache.
\<close>

subsection \<open>The prompt\<close>

definition clean_prompt :: "string \<Rightarrow> string" where
  "clean_prompt prompt =
     map (\<lambda>ch. if ch = CHR ''_'' \<or> ch = CHR 0x0A then CHR '' '' else ch)
       (rev (dropWhile c_space (rev (dropWhile c_space prompt))))"

text \<open>\<open>llama_tokenize\<close> gets the size of its buffer; the buffer is sized by a first call.\<close>

definition resized :: "nat \<Rightarrow> 'a \<Rightarrow> 'a list \<Rightarrow> 'a list" where
  "resized n x xs = take n xs @ replicate (n - length xs) x"

definition tokenize_with_vocab :: "('t, 'm, 'r) pi0_device \<Rightarrow> string \<Rightarrow> int list option run" where
  "tokenize_with_vocab d s =
     (let count = fst (dw_tokenize d s 0) in
      if count = - (2 ^ 31) then None
      else if \<bar>count\<bar> \<le> 0 then Some (Inr (Some []))
      else let (written, tokens) = dw_tokenize d s \<bar>count\<bar> in
        if written < 0 then Some (Inr None) else Some (Inr (Some (resized (nat written) 0 tokens))))"

definition tokenize_prompt :: "('t, 'm, 'r) pi0_device \<Rightarrow> 't pi0_model \<Rightarrow> string \<Rightarrow> int list option run" where
  "tokenize_prompt d M prompt =
     (let max_tokens = c0_max_token_len (m0_common (md_config M)) in
      if \<not> md_vocab M \<or> max_tokens \<le> 0 then Some (Inr None)
      else bind_run (tokenize_with_vocab d (clean_prompt prompt @ [CHR 0x0A])) (\<lambda>tokens.
        Some (Inr (map_option (\<lambda>ts. if to_int32 (int (length ts)) > max_tokens then take (nat max_tokens) ts else ts) tokens))))"

definition has_text_embeddings :: "'t ggml \<Rightarrow> 't pi0_model \<Rightarrow> bool" where
  "has_text_embeddings G M \<longleftrightarrow>
     (case w0_lm_head (md_weights M) of None \<Rightarrow> False
      | Some t \<Rightarrow> te_n_dims (gg_entry G t) = 2 \<and> ne G t 0 = l0_width (p0_llm (m0_pi0 (md_config M))) \<and> ne G t 1 > 0)"

definition embedding_graph :: "'t builder \<Rightarrow> 't pi0_ops \<Rightarrow> 't option \<Rightarrow> int \<Rightarrow> int \<Rightarrow> ('t \<times> 't) build" where
  "embedding_graph B P embeddings width n =
     bind_build (node B (gg_new_tensor (gb_ops B) GGML_TYPE_I32 [n])) (\<lambda>ids.
     bind_build (pi0_weight B P embeddings 2) (\<lambda>w.
     bind_build (node B (px_get_rows P w ids)) (\<lambda>rows.
     bind_build (node B (gg_scale (gb_ops B) rows (f32_sqrt (f32_of_int width)))) (\<lambda>y. return_build (ids, y)))))"

text \<open>The result is the embeddings and the number of tokens.\<close>

definition pi0_embed_prompt_tokens ::
  "('t, 'm, 'r) pi0_device \<Rightarrow> 't pi0_model \<Rightarrow> int list \<Rightarrow> (f32 list \<times> nat, ('t, 'm, 'r) pi0_state) act"
where
  "pi0_embed_prompt_tokens d M tokens =
     (let G = device_ggml d; embeddings = w0_lm_head (md_weights M); width = l0_width (p0_llm (m0_pi0 (md_config M)));
          count = min (length tokens) (size_cast (c0_max_token_len (m0_common (md_config M)))); token_ids = take count tokens
      in if tokens = [] then act_return ([], 0)
         else if \<not> has_text_embeddings G M then act_fail ''missing pi0 LLM token embedding tensor''
         else if list_ex (\<lambda>token. token < 0 \<or> token \<ge> ne G (the embeddings) 1) token_ids then
           act_fail ''pi0 prompt token id is outside the embedding vocabulary''
         else
           bind_act (graph_act (device_builder d ''llm'') (embedding_graph (device_builder d ''llm'') (dw_ops d) embeddings width (int count))) (\<lambda>(ids, y).
           bind_act (alloc_act d [y] ''pi0 prompt embedding graph allocation failed'') (\<lambda>_.
           bind_act (memory_act (dw_set_i32 d ids token_ids)) (\<lambda>_.
           bind_act (compute_act d [y] ''ggml pi0 prompt embedding lookup failed'') (\<lambda>_.
           bind_act (read_act d y (count * nat width)) (\<lambda>out. act_return (out, count)))))))"

definition pi0_embed_prompt ::
  "('t, 'm, 'r) pi0_device \<Rightarrow> 't pi0_model \<Rightarrow> string \<Rightarrow> (f32 list \<times> nat, ('t, 'm, 'r) pi0_state) act"
where
  "pi0_embed_prompt d M prompt =
     (if prompt = [] then act_return ([], 0)
      else if \<not> has_text_embeddings (device_ggml d) M then act_fail ''missing pi0 LLM token embedding tensor''
      else bind_act (act_run (tokenize_prompt d M prompt)) (\<lambda>tokens.
        case tokens of
          Some ts \<Rightarrow> pi0_embed_prompt_tokens d M ts
        | None \<Rightarrow> act_fail ''pi0 prompt text requires a llama.cpp tokenizer sidecar or explicit prompt token ids''))"

subsection \<open>The vision encoder\<close>

text \<open>One image: the three planes of its pixels.\<close>

definition planar_image :: "pi0_image_tensor \<Rightarrow> f32 list" where
  "planar_image t =
     concat (map (\<lambda>channel. map (\<lambda>pixel. t0_data t ! (pixel * 3 + channel)) [0..<nat (t0_height t) * nat (t0_width t)]) [0..<3])"

definition images_hwc_to_planar_batch :: "pi0_image_tensor list \<Rightarrow> f32 list" where
  "images_hwc_to_planar_batch imgs = concat (map planar_image imgs)"

definition pi0_has_vision_encoder :: "'t pi0_model \<Rightarrow> bool" where
  "pi0_has_vision_encoder M \<longleftrightarrow>
     (let v = p0_vision (m0_pi0 (md_config M)); w = md_weights M in
      v0_width v > 0 \<and> v0_layers v > 0 \<and> v0_heads v > 0 \<and> f32_lt f32_zero (v0_norm_epsilon v) \<and>
      w0_vit_patch_w w \<noteq> None \<and> w0_vit_patch_b w \<noteq> None \<and> w0_vit_pos w \<noteq> None \<and> w0_vit_post_norm_w w \<noteq> None \<and>
      w0_vit_post_norm_b w \<noteq> None)"

definition check_vision :: "'t pi0_model \<Rightarrow> pi0_image_tensor list \<Rightarrow> unit res" where
  "check_vision M imgs =
     (let v = p0_vision (m0_pi0 (md_config M)); first = hd imgs in
      if v0_width v \<le> 0 \<or> v0_layers v \<le> 0 \<or> v0_patch_height v \<le> 0 \<or> v0_patch_width v \<le> 0 \<or> v0_heads v \<le> 0 \<or>
          v0_width v mod v0_heads v \<noteq> 0 \<or> f32_le (v0_norm_epsilon v) f32_zero then
        Inl ''pi0 ViT metadata has incompatible dimensions''
      else if t0_width first \<le> 0 \<or> t0_height first \<le> 0 \<or> t0_channels first \<noteq> 3 \<or> t0_width first mod v0_patch_width v \<noteq> 0 \<or>
          t0_height first mod v0_patch_height v \<noteq> 0 then
        Inl ''pi0 ViT image has incompatible shape''
      else bind_res (each_res (\<lambda>t.
          if t0_width t \<le> 0 \<or> t0_height t \<le> 0 \<or> t0_channels t \<noteq> 3 \<or> t0_width t \<noteq> t0_width first \<or> t0_height t \<noteq> t0_height first then
            Inl ''pi0 ViT image has incompatible shape''
          else if length (t0_data t) \<noteq> size_cast (t0_width first) * size_cast (t0_height first) * 3 mod 2 ^ 64 then
            Inl ''pi0 ViT image data size mismatch''
          else Inr ()) imgs) (\<lambda>_. Inr ()))"

definition vit_norm :: "'t builder \<Rightarrow> 't pi0_ops \<Rightarrow> f32 \<Rightarrow> 't option \<Rightarrow> 't option \<Rightarrow> 't \<Rightarrow> 't build" where
  "vit_norm B P epsilon w b x =
     (let G = gb_ops B in
      bind_build (node B (gg_norm G x epsilon)) (\<lambda>y.
      bind_build (pi0_f32_weight B P w 1) (\<lambda>w.
      bind_build (node B (gg_mul G y w)) (\<lambda>y.
      bind_build (pi0_f32_weight B P b 1) (\<lambda>b. node B (gg_add G y b))))))"

definition named_norm ::
  "'t builder \<Rightarrow> 't pi0_ops \<Rightarrow> f32 \<Rightarrow> 't option \<Rightarrow> string \<Rightarrow> 't option \<Rightarrow> string \<Rightarrow> 't \<Rightarrow> 't build"
where
  "named_norm B P epsilon w w_name b b_name x =
     bind_build (pi0_tensor w w_name) (\<lambda>w. bind_build (pi0_tensor b b_name) (\<lambda>b. vit_norm B P epsilon w b x))"

definition named_linear :: "'t builder \<Rightarrow> 't pi0_ops \<Rightarrow> 't option \<Rightarrow> 't option \<Rightarrow> string \<Rightarrow> 't \<Rightarrow> 't build" where
  "named_linear B P w b name x =
     bind_build (pi0_tensor w (''ViT '' @ name @ ''.weight'')) (\<lambda>w.
     bind_build (pi0_tensor b (''ViT '' @ name @ ''.bias'')) (\<lambda>b. pi0_linear B P w b x))"

record vit_dims =
  vd_width :: int
  vd_heads :: int
  vd_head_dim :: int
  vd_patch_w :: int
  vd_patch_h :: int
  vd_patches :: int
  vd_image_w :: int
  vd_image_h :: int
  vd_batch :: int
  vd_epsilon :: f32

definition vit_attention :: "'t builder \<Rightarrow> 't pi0_ops \<Rightarrow> vit_dims \<Rightarrow> 't \<Rightarrow> 't \<Rightarrow> 't \<Rightarrow> 't build" where
  "vit_attention B P D q k v =
     (let G = gb_ops B in
      bind_build (node B (gg_permute G q 0 2 1 3)) (\<lambda>q_perm.
      bind_build (node B (gg_permute G k 0 2 1 3)) (\<lambda>k_perm.
      bind_build (node B (gg_permute G v 0 2 1 3)) (\<lambda>v_perm.
      bind_build (node B (px_flash_attn P q_perm k_perm v_perm None (head_scale (vd_head_dim D)))) (\<lambda>y.
        node B (gg_reshape G y [vd_width D, vd_patches D, vd_batch D]))))))"

definition vit_layer :: "'t builder \<Rightarrow> 't pi0_ops \<Rightarrow> vit_dims \<Rightarrow> 't pi0_weights \<Rightarrow> nat \<Rightarrow> 't \<Rightarrow> 't build" where
  "vit_layer B P D w layer residual =
     (let G = gb_ops B; L = w0_vit_layers w ! layer;
          cut = (\<lambda>x. node B (gg_reshape G x [vd_head_dim D, vd_heads D, vd_patches D, vd_batch D]))
      in bind_build (named_norm B P (vd_epsilon D) (vw_norm1_w L) ''ViT layer_norm1.weight'' (vw_norm1_b L) ''ViT layer_norm1.bias'' residual) (\<lambda>cur.
         bind_build (named_linear B P (vw_q_w L) (vw_q_b L) ''q_proj'' cur) (\<lambda>q.
         bind_build (named_linear B P (vw_k_w L) (vw_k_b L) ''k_proj'' cur) (\<lambda>k.
         bind_build (named_linear B P (vw_v_w L) (vw_v_b L) ''v_proj'' cur) (\<lambda>v.
         bind_build (cut q) (\<lambda>q. bind_build (cut k) (\<lambda>k. bind_build (cut v) (\<lambda>v.
         bind_build (vit_attention B P D q k v) (\<lambda>cur.
         bind_build (named_linear B P (vw_out_w L) (vw_out_b L) ''out_proj'' cur) (\<lambda>cur.
         bind_build (node B (gg_add G residual cur)) (\<lambda>hidden.
         bind_build (named_norm B P (vd_epsilon D) (vw_norm2_w L) ''ViT layer_norm2.weight'' (vw_norm2_b L) ''ViT layer_norm2.bias'' hidden) (\<lambda>cur.
         bind_build (named_linear B P (vw_fc1_w L) (vw_fc1_b L) ''fc1'' cur) (\<lambda>cur.
         bind_build (node B (gg_gelu G cur)) (\<lambda>cur.
         bind_build (named_linear B P (vw_fc2_w L) (vw_fc2_b L) ''fc2'' cur) (\<lambda>cur.
           node B (gg_add G hidden cur))))))))))))))))"

text \<open>Images to patches to tokens.\<close>

definition patch_embedding :: "'t builder \<Rightarrow> 't pi0_ops \<Rightarrow> vit_dims \<Rightarrow> 't pi0_weights \<Rightarrow> 't \<Rightarrow> 't build" where
  "patch_embedding B P D w input =
     (let G = gb_ops B in
      bind_build (pi0_weight B P (w0_vit_patch_w w) 4) (\<lambda>patch.
      bind_build (node B (px_conv_2d P patch input (vd_patch_w D) (vd_patch_h D))) (\<lambda>hidden.
      bind_build (node B (gg_reshape G hidden [vd_patches D, vd_width D, vd_batch D, 1])) (\<lambda>hidden.
      bind_build (node B (gg_permute G hidden 1 0 2 3)) (\<lambda>hidden.
      bind_build (node B (px_cont_3d P hidden (vd_width D) (vd_patches D) (vd_batch D))) (\<lambda>hidden.
      bind_build (pi0_f32_weight B P (w0_vit_patch_b w) 1) (\<lambda>bias.
      bind_build (node B (gg_add G hidden bias)) (\<lambda>hidden.
      bind_build (pi0_typed_weight B P (w0_vit_pos w) 2 GGML_TYPE_F32) (\<lambda>position. node B (gg_add G hidden position))))))))))"

definition merger_incompatible :: "'t ggml \<Rightarrow> int \<Rightarrow> 't \<Rightarrow> 't \<Rightarrow> bool" where
  "merger_incompatible G width w b \<longleftrightarrow>
     te_n_dims (gg_entry G w) \<noteq> 2 \<or> ne G w 0 \<noteq> width \<or> te_n_dims (gg_entry G b) \<noteq> 1 \<or> ne G b 0 \<noteq> ne G w 1"

definition vision_graph :: "'t builder \<Rightarrow> 't pi0_ops \<Rightarrow> vit_dims \<Rightarrow> 't pi0_weights \<Rightarrow> nat \<Rightarrow> ('t \<times> 't) build" where
  "vision_graph B P D w layers =
     (let G = gb_ops B in
      bind_build (node B (gg_new_tensor G GGML_TYPE_F32 [vd_image_w D, vd_image_h D, 3, vd_batch D])) (\<lambda>input.
      bind_build (patch_embedding B P D w input) (\<lambda>hidden.
      bind_build (loop_build (vit_layer B P D w) [0..<layers] hidden) (\<lambda>hidden.
      bind_build (named_norm B P (vd_epsilon D) (w0_vit_post_norm_w w) ''post_layernorm.weight'' (w0_vit_post_norm_b w) ''post_layernorm.bias'' hidden) (\<lambda>hidden.
      bind_build (node B (gg_reshape G hidden [vd_width D, vd_batch D * vd_patches D])) (\<lambda>tokens.
        case (w0_merger_w w, w0_merger_b w) of
          (Some mw, Some mb) \<Rightarrow>
            if merger_incompatible G (vd_width D) mw mb then fail_build ''pi0 vision projector has incompatible shape''
            else bind_build (pi0_linear B P (w0_merger_w w) (w0_merger_b w) tokens) (\<lambda>y. return_build (input, y))
        | _ \<Rightarrow> fail_build ''missing pi0 vision projector tensors''))))))"

definition vit_dims_of :: "'t pi0_model \<Rightarrow> pi0_image_tensor list \<Rightarrow> vit_dims" where
  "vit_dims_of M imgs =
     (let v = p0_vision (m0_pi0 (md_config M)); first = hd imgs in
      \<lparr>vd_width = v0_width v, vd_heads = v0_heads v, vd_head_dim = v0_width v div v0_heads v, vd_patch_w = v0_patch_width v,
       vd_patch_h = v0_patch_height v,
       vd_patches = (t0_width first div v0_patch_width v) * (t0_height first div v0_patch_height v),
       vd_image_w = t0_width first, vd_image_h = t0_height first, vd_batch = int (length imgs), vd_epsilon = v0_norm_epsilon v\<rparr>)"

text \<open>The embeddings stay on the device, in a tensor of the language model.  The result is the tensor and the number of
  its tokens.\<close>

definition pi0_encode_vision_prefix ::
  "('t, 'm, 'r) pi0_device \<Rightarrow> 't pi0_model \<Rightarrow> pi0_image_tensor list \<Rightarrow> ('t option \<times> int, ('t, 'm, 'r) pi0_state) act"
where
  "pi0_encode_vision_prefix d M imgs =
     (let w = md_weights M; D = vit_dims_of M imgs; count = vd_batch D * vd_patches D; B = device_builder d ''vit'' in
      if \<not> pi0_has_vision_encoder M \<or> imgs = [] then act_return (None, 0)
      else bind_act (act_run (Some (check_vision M imgs))) (\<lambda>_.
        bind_act (graph_act B (vision_graph B (dw_ops d) D w (nat (v0_layers (p0_vision (m0_pi0 (md_config M))))))) (\<lambda>(input, y).
        bind_act (alloc_act d [y] ''pi0 ViT graph allocation failed'') (\<lambda>_.
        bind_act (memory_act (dw_set_f32 d input (images_hwc_to_planar_batch imgs))) (\<lambda>_.
        bind_act (compute_act d [y] ''ggml pi0 ViT graph compute failed'') (\<lambda>_.
        bind_act (\<lambda>s. pi0_persist_backend_f32 d M (st_vision s) (\<lambda>t s. s\<lparr>st_vision := Some t\<rparr>) y 2
          (ne (gb_ops B) (the (w0_merger_w w)) 1) count 1 s) (\<lambda>t. act_return (Some t, to_int32 count))))))))"

end
