(* ===== verification/Pi0VlmProps.thy ===== *)
theory Pi0VlmProps
  imports Pi0Vlm
begin

text \<open>
  The prompt and the vision encoder return on every input: the shapes of their graphs, and what stays on the device.
\<close>

subsection \<open>Persistent tensors\<close>

lemma persistent_matches:
  assumes "persistent_tensor_matches G slot n a b c" "\<And>t. slot = Some t \<Longrightarrow> cached G t"
  obtains t where "slot = Some t" "f32t G [a, b, c, 1] t"
proof -
  from assms(1) obtain t where t: "slot = Some t" "ne G t 0 = a" "ne G t 1 = b" "ne G t 2 = c"
    by (auto simp: persistent_tensor_matches_def split: option.splits)
  with cached_sizes [OF assms(2) [OF t(1)]] that show thesis by simp
qed

lemma persistent_f32_ok:
  assumes d: "device_laws d" and ds: "pad4 (take n [a, b, c]) = [a, b, c, 1]" "0 < a" "0 < b" "0 < c"
    and slot: "\<And>s t. P s \<Longrightarrow> slot s = Some t \<Longrightarrow> cached (device_ggml d) t"
    and store: "\<And>s t m ts. P s \<Longrightarrow> f32t (device_ggml d) [a, b, c, 1] t \<Longrightarrow> P (store t (s\<lparr>st_memory := m, st_allocated := ts\<rparr>))"
    and J: "\<And>s. P s \<Longrightarrow> J s" "memory_blind J"
  shows "act_ok J P (\<lambda>s. persistent_f32 d M (slot s) store n a b c s) (\<lambda>t s. P s \<and> f32t (device_ggml d) [a, b, c, 1] t)"
  unfolding act_ok_def
proof (intro allI impI)
  fix s assume s: "P s"
  let ?r = "persistent_f32 d M (slot s) store n a b c s"
  let ?ok = "(\<exists>e s'. ?r = (Some (Inl e), s') \<and> J s') \<or> (\<exists>t s'. ?r = (Some (Inr t), s') \<and> P s' \<and> f32t (device_ggml d) [a, b, c, 1] t)"
  have Jm: "J (s\<lparr>st_memory := m\<rparr>)" for m using J s by (auto simp: memory_blind_def)
  show ?ok
  proof (cases "md_sched M ''llm''")
    case False
    then show ?thesis using J(1) [OF s] by (simp add: persistent_f32_def)
  next
    case sched: True
    show ?thesis
    proof (cases "persistent_tensor_matches (device_ggml d) (slot s) n a b c")
      case True
      obtain t where "slot s = Some t" "f32t (device_ggml d) [a, b, c, 1] t"
        by (rule persistent_matches [OF True slot [OF s]])
      then show ?thesis using sched True s by (simp add: persistent_f32_def)
    next
      case False
      obtain r m where r: "dw_persist d (take n [a, b, c]) (st_memory s) = (r, m)" by (cases rule: prod.exhaust)
      show ?thesis
      proof (cases r)
        case (Allocated t)
        have "device_persist d" using d by (simp add: device_laws_def)
        moreover have "list_all (\<lambda>x. 0 < x) (take n [a, b, c])" using ds(2-) by (auto simp: list_all_iff dest: in_set_takeD)
        ultimately have "f32t (device_ggml d) [a, b, c, 1] t"
          using r ds(1) unfolding device_persist_def Allocated by metis
        then show ?thesis using sched False r Allocated store [OF s] by (simp add: persistent_f32_def)
      qed (use sched False r Jm in \<open>simp_all add: persistent_f32_def\<close>)
    qed
  qed
qed

lemma persist_backend_ok:
  assumes d: "device_laws d" and ds: "pad4 (take n [a, b, c]) = [a, b, c, 1]" "0 < a" "0 < b" "0 < c"
    and slot: "\<And>s t. P s \<Longrightarrow> slot s = Some t \<Longrightarrow> cached (device_ggml d) t"
    and store: "\<And>s t m ts. P s \<Longrightarrow> f32t (device_ggml d) [a, b, c, 1] t \<Longrightarrow> P (store t (s\<lparr>st_memory := m, st_allocated := ts\<rparr>))"
    and J: "\<And>s. P s \<Longrightarrow> J s" "memory_blind J" and P: "memory_blind P"
    and y: "f32t (device_ggml d) [a, b, c, 1] y"
  shows "act_ok J P (\<lambda>s. pi0_persist_backend_f32 d M (slot s) store y n a b c s)
    (\<lambda>t s. P s \<and> f32t (device_ggml d) [a, b, c, 1] t)"
proof -
  let ?Q = "\<lambda>t. f32t (device_ggml d) [a, b, c, 1] t"
  have copy: "act_ok J (\<lambda>s. P s \<and> ?Q t) (bind_act (memory_act (dw_copy d y t)) (\<lambda>_. act_return t)) (\<lambda>t s. P s \<and> ?Q t)" for t
  proof (rule act_ok_facts)
    assume t: "?Q t"
    have "\<exists>m'. dw_copy d y t m = Some m'" for m by (rule device_sets(4) [OF d y t])
    then show "act_ok J P (bind_act (memory_act (dw_copy d y t)) (\<lambda>_. act_return t)) (\<lambda>t s. P s \<and> ?Q t)"
      by (rule act_ok_bind [OF act_ok_memory [OF P] act_ok_return]) (use t in simp)
  qed
  have "(\<lambda>s. pi0_persist_backend_f32 d M (slot s) store y n a b c s) =
      bind_act (\<lambda>s. persistent_f32 d M (slot s) store n a b c s) (\<lambda>t. bind_act (memory_act (dw_copy d y t)) (\<lambda>_. act_return t))"
    by (simp add: pi0_persist_backend_f32_def bind_act_def fun_eq_iff)
  with act_ok_bind [OF persistent_f32_ok [where slot = slot and store = store and P = P and J = J, OF d ds slot store J] copy] show ?thesis by simp
qed

lemma persist_host_ok:
  assumes d: "device_laws d" and ds: "0 < a" "0 < b" and v: "length v = nat a * nat b"
    and slot: "\<And>s t. P s \<Longrightarrow> slot s = Some t \<Longrightarrow> cached (device_ggml d) t"
    and store: "\<And>s t m ts. P s \<Longrightarrow> f32t (device_ggml d) [a, b, 1, 1] t \<Longrightarrow> P (store t (s\<lparr>st_memory := m, st_allocated := ts\<rparr>))"
    and J: "\<And>s. P s \<Longrightarrow> J s" "memory_blind J" and P: "memory_blind P"
  shows "act_ok J P (\<lambda>s. pi0_persist_host_f32_2d d M (slot s) store (Some v) a b s)
    (\<lambda>t s. P s \<and> f32t (device_ggml d) [a, b, 1, 1] t)"
proof -
  let ?Q = "\<lambda>t. f32t (device_ggml d) [a, b, 1, 1] t"
  have set: "act_ok J (\<lambda>s. P s \<and> ?Q t) (bind_act (memory_act (dw_set_f32 d t v)) (\<lambda>_. act_return t)) (\<lambda>t s. P s \<and> ?Q t)" for t
  proof (rule act_ok_facts)
    assume t: "?Q t"
    have "\<exists>m'. dw_set_f32 d t v m = Some m'" for m by (rule device_sets(1) [OF d t]) (use v ds in simp)
    then show "act_ok J P (bind_act (memory_act (dw_set_f32 d t v)) (\<lambda>_. act_return t)) (\<lambda>t s. P s \<and> ?Q t)"
      by (rule act_ok_bind [OF act_ok_memory [OF P] act_ok_return]) (use t in simp)
  qed
  have eq: "(\<lambda>s. pi0_persist_host_f32_2d d M (slot s) store (Some v) a b s) =
      bind_act (\<lambda>s. persistent_f32 d M (slot s) store 2 a b 1 s) (\<lambda>t. bind_act (memory_act (dw_set_f32 d t v)) (\<lambda>_. act_return t))"
    by (simp add: pi0_persist_host_f32_2d_def bind_act_def fun_eq_iff v)
  have two: "pad4 (take 2 [a, b, 1]) = [a, b, 1, 1]" by (simp add: numeral_2_eq_2 pad4_def numeral_eq_Suc)
  show ?thesis unfolding eq
    by (rule act_ok_bind [OF persistent_f32_ok [where slot = slot and store = store and P = P and J = J, OF d two ds zero_less_one slot store J] set])
qed

subsection \<open>The prompt\<close>

lemma tokenize_prompt_returns:
  assumes "device_laws d"
  obtains tokens where "tokenize_prompt d M prompt = Some (Inr tokens)"
    "\<And>ts. tokens = Some ts \<Longrightarrow> 0 < c0_max_token_len (m0_common (md_config M))"
proof -
  have "- (2 ^ 31) < fst (dw_tokenize d s 0)" for s using assms by (simp add: device_laws_def device_tokenize_def)
  then have "fst (dw_tokenize d s 0) \<noteq> - (2 ^ 31)" for s by (metis less_irrefl)
  then have "\<exists>tokens. tokenize_with_vocab d s = Some (Inr tokens)" for s
    by (auto simp: tokenize_with_vocab_def Let_def split: prod.splits)
  then obtain tokens where tokens: "tokenize_with_vocab d (clean_prompt prompt @ [CHR 0x0A]) = Some (Inr tokens)" by blast
  show thesis
  proof (cases "md_vocab M \<and> 0 < c0_max_token_len (m0_common (md_config M))")
    case True
    then show thesis using that tokens by (simp add: tokenize_prompt_def Let_def bind_run_def)
  qed (use that in \<open>auto simp: tokenize_prompt_def Let_def\<close>)
qed

definition text_weights_fit :: "'t ggml \<Rightarrow> 't pi0_model \<Rightarrow> bool" where
  "text_weights_fit G M \<longleftrightarrow> (\<exists>vocab. has_tensor G (w0_lm_head (md_weights M)) [l0_width (p0_llm (m0_pi0 (md_config M))), vocab])"

lemma embedding_graph_yields:
  assumes G: "pi0_laws (gb_ops B) P" and w: "has_tensor (gb_ops B) w [width, vocab]" and n: "0 < n"
  shows "yields B 3 (\<lambda>(ids, y). stored (gb_ops B) [n, 1, 1, 1] ids \<and> tensor_type (gb_ops B) ids = GGML_TYPE_I32 \<and>
      f32t (gb_ops B) [width, n, 1, 1] y) (embedding_graph B P w width n)"
proof -
  have rows: "yields B 1 (f32t (gb_ops B) [width, n, 1, 1]) (node B (px_get_rows P t ids))"
    if "stored (gb_ops B) (pad4 [width, vocab]) t" "stored (gb_ops B) [n, 1, 1, 1] ids \<and> tensor_type (gb_ops B) ids = GGML_TYPE_I32" for t ids
  proof (rule yields_node)
    have "law_get_rows (gb_ops B) P" using G by (simp add: pi0_laws_def)
    then show "gives (f32t (gb_ops B) [width, n, 1, 1]) (px_get_rows P t ids)" using that unfolding law_get_rows_def pad4_simps by blast
  qed
  show ?thesis
    unfolding embedding_graph_def
    apply (rule yields_mono)
     apply (rule yields_bind, rule node_inputs(1) [OF G n n])
     apply (rule yields_bind, rule yields_pi0_weight [OF w], simp)
     apply (rule yields_bind, rule rows, assumption, assumption)
     apply (rule yields_bind, rule node_unary(2) [OF pi0_laws_ggml [OF G]], assumption)
     apply (rule yields_return, simp)
    apply simp
    done
qed

lemma size_cast_bounds: "0 < m \<Longrightarrow> m < 2 ^ 31 \<Longrightarrow> int (size_cast m) = m"
  by (simp add: size_cast_def)

lemma embed_tokens_ok:
  assumes d: "device_laws d" and w: "text_weights_fit (device_ggml d) M" and cap: "3 \<le> gb_capacity (device_builder d ''llm'')"
    and P: "memory_blind P" "\<And>s. P s \<Longrightarrow> J s"
    and max_len: "0 < c0_max_token_len (m0_common (md_config M))" "c0_max_token_len (m0_common (md_config M)) < 2 ^ 31"
  shows "act_ok J P (pi0_embed_prompt_tokens d M tokens)
    (\<lambda>(v, n) s. P s \<and> length v = n * nat (l0_width (p0_llm (m0_pi0 (md_config M)))) \<and> int n \<le> c0_max_token_len (m0_common (md_config M)))"
    (is "act_ok J P _ ?Q")
proof (cases "tokens = []")
  case True
  then show ?thesis using max_len by (simp add: pi0_embed_prompt_tokens_def Let_def) (rule act_ok_return, simp)
next
  case False
  let ?width = "l0_width (p0_llm (m0_pi0 (md_config M)))" and ?w = "w0_lm_head (md_weights M)" and ?G = "device_ggml d"
  define n where "n = min (length tokens) (size_cast (c0_max_token_len (m0_common (md_config M))))"
  note G = device_ops [OF d]
  have L: "pi0_laws (gb_ops (device_builder d ''llm'')) (dw_ops d)" using G by simp
  obtain vocab where vocab: "has_tensor ?G ?w [?width, vocab]" using w by (auto simp: text_weights_fit_def)
  have n: "0 < int n" "int n \<le> c0_max_token_len (m0_common (md_config M))" "length (take n tokens) = n"
    using size_cast_bounds [OF max_len] max_len False by (auto simp: n_def)
  have graph: "safe (device_builder d ''llm'') 3 (\<lambda>(ids, y). stored ?G [int n, 1, 1, 1] ids \<and> tensor_type ?G ids = GGML_TYPE_I32 \<and>
      f32t ?G [?width, int n, 1, 1] y) (embedding_graph (device_builder d ''llm'') (dw_ops d) ?w ?width (int n))"
    using embedding_graph_yields [OF L _ n(1), unfolded G(2), OF vocab] by (rule yields_safe)
  have rest: "act_ok J (\<lambda>s. P s \<and> (case x of (ids, y) \<Rightarrow> stored ?G [int n, 1, 1, 1] ids \<and> tensor_type ?G ids = GGML_TYPE_I32 \<and>
      f32t ?G [?width, int n, 1, 1] y))
     (case x of (ids, y) \<Rightarrow>
       bind_act (alloc_act d [y] ''pi0 prompt embedding graph allocation failed'') (\<lambda>_.
       bind_act (memory_act (dw_set_i32 d ids (take n tokens))) (\<lambda>_.
       bind_act (compute_act d [y] ''ggml pi0 prompt embedding lookup failed'') (\<lambda>_.
       bind_act (read_act d y (n * nat ?width)) (\<lambda>out. act_return (out, n)))))) ?Q" for x
  proof (cases x)
    case (Pair ids y)
    show ?thesis
      unfolding Pair prod.case
    proof (rule act_ok_facts)
      assume shapes: "stored ?G [int n, 1, 1, 1] ids \<and> tensor_type ?G ids = GGML_TYPE_I32 \<and> f32t ?G [?width, int n, 1, 1] y"
      then have pos: "0 < ?width" using dims_pos [OF f32t_imp(4)] by fastforce
      have set: "\<exists>m'. dw_set_i32 d ids (take n tokens) m = Some m'" for m
        by (rule device_sets(2) [OF d]) (use shapes n(3) in auto)
      have read: "act_ok J P (read_act d y (n * nat ?width)) (\<lambda>v s. P s \<and> length v = n * nat ?width)"
        by (rule act_ok_read [OF d]) (use shapes pos in auto)
      show "act_ok J P (bind_act (alloc_act d [y] ''pi0 prompt embedding graph allocation failed'') (\<lambda>_.
         bind_act (memory_act (dw_set_i32 d ids (take n tokens))) (\<lambda>_.
         bind_act (compute_act d [y] ''ggml pi0 prompt embedding lookup failed'') (\<lambda>_.
         bind_act (read_act d y (n * nat ?width)) (\<lambda>out. act_return (out, n)))))) ?Q"
        by (rule act_ok_bind [OF act_ok_alloc [OF P(2)] act_ok_bind [OF act_ok_memory [OF P(1) set]
          act_ok_bind [OF act_ok_compute [OF P] act_ok_bind [OF read act_ok_return]]]]) (use n in simp_all)
    qed
  qed
  show ?thesis
    unfolding pi0_embed_prompt_tokens_def Let_def n_def [symmetric]
    using False apply (simp only: if_False)
    apply (rule act_ok_if, rule act_ok_fail, erule P(2))
    apply (rule act_ok_if, rule act_ok_fail, erule P(2))
    apply (rule act_ok_bind [OF act_ok_graph [OF graph cap P(2)] rest], assumption)
    done
qed

lemma embed_prompt_ok:
  assumes d: "device_laws d" and w: "text_weights_fit (device_ggml d) M" and cap: "3 \<le> gb_capacity (device_builder d ''llm'')"
    and P: "memory_blind P" "\<And>s. P s \<Longrightarrow> J s" and max_len: "c0_max_token_len (m0_common (md_config M)) < 2 ^ 31"
  shows "act_ok J P (pi0_embed_prompt d M prompt)
    (\<lambda>(v, n) s. P s \<and> length v = n * nat (l0_width (p0_llm (m0_pi0 (md_config M)))) \<and>
       int n \<le> max 0 (c0_max_token_len (m0_common (md_config M))))" (is "act_ok J P _ ?Q")
proof (cases "prompt = [] \<or> \<not> has_text_embeddings (device_ggml d) M")
  case True
  then show ?thesis unfolding pi0_embed_prompt_def
    by (cases "prompt = []") (simp_all, rule act_ok_return, simp, rule act_ok_fail, rule P(2))
next
  case False
  obtain tokens where tokens: "tokenize_prompt d M prompt = Some (Inr tokens)"
    "\<And>ts. tokens = Some ts \<Longrightarrow> 0 < c0_max_token_len (m0_common (md_config M))" using tokenize_prompt_returns [OF d] by metis
  have eq: "pi0_embed_prompt d M prompt = (case tokens of Some ts \<Rightarrow> pi0_embed_prompt_tokens d M ts
      | None \<Rightarrow> act_fail ''pi0 prompt text requires a llama.cpp tokenizer sidecar or explicit prompt token ids'')"
    using False tokens(1) by (simp add: pi0_embed_prompt_def bind_act_def fun_eq_iff)
  show ?thesis
  proof (cases tokens)
    case None
    then show ?thesis unfolding eq by (simp add: act_ok_fail P(2))
  next
    case (Some ts)
    have "act_ok J P (pi0_embed_prompt_tokens d M ts) ?Q"
      by (rule act_ok_weaken [OF embed_tokens_ok [OF d w cap P tokens(2) [OF Some] max_len]]) auto
    then show ?thesis unfolding eq Some by simp
  qed
qed

end
