(* ===== verification/Pi0VisionProps.thy ===== *)
theory Pi0VisionProps
  imports Pi0VlmProps
begin

text \<open>
  The shapes of the vision graph: a batch of images becomes one row of tokens, as wide as the language model.
\<close>

definition has_vision_layer :: "'t ggml \<Rightarrow> int \<Rightarrow> 't vision_layer \<Rightarrow> bool" where
  "has_vision_layer G width L \<longleftrightarrow>
     has_tensor G (vw_norm1_w L) [width] \<and> has_tensor G (vw_norm1_b L) [width] \<and>
     has_tensor G (vw_q_w L) [width, width] \<and> has_tensor G (vw_q_b L) [width] \<and>
     has_tensor G (vw_k_w L) [width, width] \<and> has_tensor G (vw_k_b L) [width] \<and>
     has_tensor G (vw_v_w L) [width, width] \<and> has_tensor G (vw_v_b L) [width] \<and>
     has_tensor G (vw_out_w L) [width, width] \<and> has_tensor G (vw_out_b L) [width] \<and>
     has_tensor G (vw_norm2_w L) [width] \<and> has_tensor G (vw_norm2_b L) [width] \<and>
     (\<exists>mlp. has_tensor G (vw_fc1_w L) [width, mlp] \<and> has_tensor G (vw_fc1_b L) [mlp] \<and>
       has_tensor G (vw_fc2_w L) [mlp, width] \<and> has_tensor G (vw_fc2_b L) [width])"

definition patch_count :: "'t pi0_model \<Rightarrow> int" where
  "patch_count M =
     (let v = p0_vision (m0_pi0 (md_config M)); c = m0_common (md_config M) in
      (c0_image_width c sdiv v0_patch_width v) * (c0_image_height c sdiv v0_patch_height v))"

definition vision_weights_fit :: "'t ggml \<Rightarrow> 't pi0_model \<Rightarrow> bool" where
  "vision_weights_fit G M \<longleftrightarrow>
     (let w = md_weights M; v = p0_vision (m0_pi0 (md_config M)); width = v0_width v; l = p0_llm (m0_pi0 (md_config M)) in
      has_tensor G (w0_vit_patch_w w) [v0_patch_width v, v0_patch_height v, 3, width] \<and> has_tensor G (w0_vit_patch_b w) [width] \<and>
      has_tensor G (w0_vit_pos w) [width, patch_count M] \<and> has_tensor G (w0_vit_post_norm_w w) [width] \<and>
      has_tensor G (w0_vit_post_norm_b w) [width] \<and> has_tensor G (w0_merger_w w) [width, l0_width l] \<and>
      has_tensor G (w0_merger_b w) [l0_width l] \<and> length (w0_vit_layers w) = nat (v0_layers v) \<and>
      list_all (has_vision_layer G width) (w0_vit_layers w))"

text \<open>The sizes after the checks.\<close>

definition vit_fits :: "vit_dims \<Rightarrow> bool" where
  "vit_fits D \<longleftrightarrow> 0 < vd_width D \<and> 0 < vd_heads D \<and> 0 < vd_head_dim D \<and> vd_width D = vd_heads D * vd_head_dim D \<and> 0 < vd_patches D \<and>
     0 < vd_batch D \<and> 0 < vd_patch_w D \<and> 0 < vd_patch_h D \<and>
     (\<exists>x y. 0 < x \<and> 0 < y \<and> vd_image_w D = x * vd_patch_w D \<and> vd_image_h D = y * vd_patch_h D \<and> vd_patches D = x * y)"

lemma pi0_tensor_present: "w \<noteq> None \<Longrightarrow> bind_build (pi0_tensor w name) f = f w"
  by (cases w) (simp_all add: pi0_tensor_def bind_build_def return_build_def bind_run_def fun_eq_iff)

lemma named_steps:
  assumes G: "pi0_laws (gb_ops B) P" and x: "f32t (gb_ops B) [k, n, h, 1] x"
  shows "has_tensor (gb_ops B) w [k] \<Longrightarrow> has_tensor (gb_ops B) b [k] \<Longrightarrow>
      yields B 5 (f32t (gb_ops B) [k, n, h, 1]) (named_norm B P e w wn b bn x)"
    and "has_tensor (gb_ops B) w [k, m] \<Longrightarrow> has_tensor (gb_ops B) b [m] \<Longrightarrow>
      yields B 3 (f32t (gb_ops B) [m, n, h, 1]) (named_linear B P w b name x)"
proof -
  show "yields B 5 (f32t (gb_ops B) [k, n, h, 1]) (named_norm B P e w wn b bn x)"
    if w: "has_tensor (gb_ops B) w [k]" "has_tensor (gb_ops B) b [k]"
  proof -
    have scale: "yields B 1 (f32t (gb_ops B) [k, 1, 1, 1]) (pi0_f32_weight B P w 1)"
      "yields B 1 (f32t (gb_ops B) [k, 1, 1, 1]) (pi0_f32_weight B P b 1)"
      by (rule yields_pi0_f32_weight [OF G w(1), unfolded pad4_simps], simp)
        (rule yields_pi0_f32_weight [OF G w(2), unfolded pad4_simps], simp)
    have "yields B 5 (f32t (gb_ops B) [k, n, h, 1]) (vit_norm B P e w b x)"
      unfolding vit_norm_def Let_def
      apply (rule yields_mono)
       apply (rule yields_bind, rule node_unary(1) [OF pi0_laws_ggml [OF G] x])
       apply (rule yields_bind, rule scale(1))
       apply (rule yields_bind, rule node_elementwise(2) [OF pi0_laws_ggml [OF G]], assumption, assumption, simp add: can_repeat_def)
       apply (rule yields_bind, rule scale(2))
       apply (rule node_elementwise(1) [OF pi0_laws_ggml [OF G]], assumption, assumption, simp add: can_repeat_def)
      apply simp
      done
    then show ?thesis by (simp only: named_norm_def pi0_tensor_present [OF has_tensor_Some [OF w(1)]] pi0_tensor_present [OF has_tensor_Some [OF w(2)]])
  qed
  show "yields B 3 (f32t (gb_ops B) [m, n, h, 1]) (named_linear B P w b name x)"
    if w: "has_tensor (gb_ops B) w [k, m]" "has_tensor (gb_ops B) b [m]"
    using yields_pi0_linear [OF G w x] by (simp only: named_linear_def pi0_tensor_present [OF has_tensor_Some [OF w(1)]] pi0_tensor_present [OF has_tensor_Some [OF w(2)]])
qed

lemma vit_attention_yields:
  assumes G: "pi0_laws (gb_ops B) P" and D: "vit_fits D"
    and x: "f32t (gb_ops B) [vd_head_dim D, vd_heads D, vd_patches D, vd_batch D] q"
      "f32t (gb_ops B) [vd_head_dim D, vd_heads D, vd_patches D, vd_batch D] k"
      "f32t (gb_ops B) [vd_head_dim D, vd_heads D, vd_patches D, vd_batch D] v"
  shows "yields B 5 (f32t (gb_ops B) [vd_width D, vd_patches D, vd_batch D, 1]) (vit_attention B P D q k v)"
proof -
  have flash: "yields B 1 (f32t (gb_ops B) [vd_head_dim D, vd_heads D, vd_patches D, vd_batch D]) (node B (px_flash_attn P q' k' v' None s))"
    if "rows (gb_ops B) [vd_head_dim D, vd_patches D, vd_heads D, vd_batch D] q'" "rows (gb_ops B) [vd_head_dim D, vd_patches D, vd_heads D, vd_batch D] k'"
      "rows (gb_ops B) [vd_head_dim D, vd_patches D, vd_heads D, vd_batch D] v'" for q' k' v' s
    by (rule node_flash_attn [OF G that]) simp_all
  have cut: "yields B 1 (f32t (gb_ops B) (pad4 [vd_width D, vd_patches D, vd_batch D]))
      (node B (gg_reshape (gb_ops B) t [vd_width D, vd_patches D, vd_batch D]))"
    if "f32t (gb_ops B) [vd_head_dim D, vd_heads D, vd_patches D, vd_batch D] t" for t
    by (rule node_reshape [OF G that]) (use D in \<open>simp_all add: vit_fits_def\<close>)
  have "yields B 5 (f32t (gb_ops B) (pad4 [vd_width D, vd_patches D, vd_batch D])) (vit_attention B P D q k v)"
    unfolding vit_attention_def Let_def
    apply (rule yields_mono)
     apply (rule yields_bind, rule node_permutes(1) [OF G x(1)])
     apply (rule yields_bind, rule node_permutes(1) [OF G x(2)])
     apply (rule yields_bind, rule node_permutes(1) [OF G x(3)])
     apply (rule yields_bind, rule flash, assumption, assumption, assumption)
     apply (erule cut)
    apply simp
    done
  then show ?thesis by simp
qed

lemma vit_layer_yields:
  assumes G: "pi0_laws (gb_ops B) P" and D: "vit_fits D" and L: "has_vision_layer (gb_ops B) (vd_width D) (w0_vit_layers w ! layer)"
    and x: "f32t (gb_ops B) [vd_width D, vd_patches D, vd_batch D, 1] x"
  shows "yields B 39 (f32t (gb_ops B) [vd_width D, vd_patches D, vd_batch D, 1]) (vit_layer B P D w layer x)"
proof -
  let ?L = "w0_vit_layers w ! layer"
  note l = L [unfolded has_vision_layer_def]
  obtain mlp where mlp: "has_tensor (gb_ops B) (vw_fc1_w ?L) [vd_width D, mlp]" "has_tensor (gb_ops B) (vw_fc1_b ?L) [mlp]"
    "has_tensor (gb_ops B) (vw_fc2_w ?L) [mlp, vd_width D]" "has_tensor (gb_ops B) (vw_fc2_b ?L) [vd_width D]" using l by blast
  have cut: "yields B 1 (f32t (gb_ops B) [vd_head_dim D, vd_heads D, vd_patches D, vd_batch D])
      (node B (gg_reshape (gb_ops B) t [vd_head_dim D, vd_heads D, vd_patches D, vd_batch D]))"
    if "f32t (gb_ops B) [vd_width D, vd_patches D, vd_batch D, 1] t" for t
    by (rule node_reshape [OF G that, of "[vd_head_dim D, vd_heads D, vd_patches D, vd_batch D]", unfolded pad4_simps])
      (use D in \<open>simp_all add: vit_fits_def\<close>)
  note norm = named_steps(1) [OF G] and linear = named_steps(2) [OF G]
  note add = node_elementwise(1) [OF pi0_laws_ggml [OF G]]
  show ?thesis
    unfolding vit_layer_def Let_def
    apply (rule yields_mono)
     apply (rule yields_bind, rule norm [OF x], use l in blast, use l in blast)
     apply (rule yields_bind, rule linear, assumption, use l in blast, use l in blast)
     apply (rule yields_bind, rule linear, assumption, use l in blast, use l in blast)
     apply (rule yields_bind, rule linear, assumption, use l in blast, use l in blast)
     apply (rule yields_bind, rule cut, assumption)
     apply (rule yields_bind, rule cut, assumption)
     apply (rule yields_bind, rule cut, assumption)
     apply (rule yields_bind, rule vit_attention_yields [OF G D], assumption, assumption, assumption)
     apply (rule yields_bind, rule linear, assumption, use l in blast, use l in blast)
     apply (rule yields_bind, rule add [OF x], assumption, simp add: can_repeat_def)
     apply (rule yields_bind, rule norm, assumption, use l in blast, use l in blast)
     apply (rule yields_bind, rule linear, assumption, rule mlp, rule mlp)
     apply (rule yields_bind, rule node_unary(5) [OF pi0_laws_ggml [OF G]], assumption)
     apply (rule yields_bind, rule linear, assumption, rule mlp, rule mlp)
     apply (rule add, assumption, assumption, simp add: can_repeat_def)
    apply simp
    done
qed

lemma patch_embedding_safe:
  assumes G: "pi0_laws (gb_ops B) P" and D: "vit_fits D"
    and w: "has_tensor (gb_ops B) (w0_vit_patch_w w) [vd_patch_w D, vd_patch_h D, 3, vd_width D]"
      "has_tensor (gb_ops B) (w0_vit_patch_b w) [vd_width D]" "has_tensor (gb_ops B) (w0_vit_pos w) [vd_width D, vd_patches D]"
    and x: "f32t (gb_ops B) [vd_image_w D, vd_image_h D, 3, vd_batch D] x"
  shows "safe B 7 (f32t (gb_ops B) [vd_width D, vd_patches D, vd_batch D, 1]) (patch_embedding B P D w x)"
proof -
  from D obtain px py where p: "0 < px" "0 < py" "vd_image_w D = px * vd_patch_w D" "vd_image_h D = py * vd_patch_h D" "vd_patches D = px * py"
    by (auto simp: vit_fits_def)
  have pos: "0 < vd_width D" "0 < vd_patches D" "0 < vd_batch D" using D by (simp_all add: vit_fits_def)
  have conv: "yields B 1 (f32t (gb_ops B) [px, py, vd_width D, vd_batch D]) (node B (px_conv_2d P t x (vd_patch_w D) (vd_patch_h D)))"
    if "stored (gb_ops B) (pad4 [vd_patch_w D, vd_patch_h D, 3, vd_width D]) t" for t
  proof (rule yields_node)
    have "law_conv_2d (gb_ops B) P" using G by (simp add: pi0_laws_def)
    then show "gives (f32t (gb_ops B) [px, py, vd_width D, vd_batch D]) (px_conv_2d P t x (vd_patch_w D) (vd_patch_h D))"
      using that x p unfolding law_conv_2d_def pad4_simps by metis
  qed
  have cut: "yields B 1 (f32t (gb_ops B) [vd_patches D, vd_width D, vd_batch D, 1])
      (node B (gg_reshape (gb_ops B) t [vd_patches D, vd_width D, vd_batch D, 1]))"
    if "f32t (gb_ops B) [px, py, vd_width D, vd_batch D] t" for t
    by (rule node_reshape [OF G that, of "[vd_patches D, vd_width D, vd_batch D, 1]", unfolded pad4_simps]) (use pos p in simp_all)
  have turned: "yields B 1 (f32t (gb_ops B) [vd_width D, vd_patches D, vd_batch D, 1]) (node B (px_cont_3d P t (vd_width D) (vd_patches D) (vd_batch D)))"
    if "strided (gb_ops B) [vd_width D, vd_patches D, vd_batch D, 1] t" for t
    by (rule node_cont_3d [OF G that pos]) simp
  have position: "safe B 0 (f32t (gb_ops B) [vd_width D, vd_patches D, 1, 1]) (pi0_typed_weight B P (w0_vit_pos w) 2 GGML_TYPE_F32)"
    using w(3) by (auto simp: pi0_typed_weight_def pi0_weight_def has_tensor_def bind_build_def return_build_def bind_run_def
        safe_def fail_build_def f32t_def)
  note add = node_elementwise(1) [OF pi0_laws_ggml [OF G]]
  show ?thesis
    unfolding patch_embedding_def Let_def
    apply (rule safe_mono)
     apply (rule safe_then, rule yields_pi0_weight [OF w(1)], simp)
     apply (rule safe_then, rule conv, assumption)
     apply (rule safe_then, rule cut, assumption)
     apply (rule safe_then, rule node_permutes(2) [OF G], assumption)
     apply (rule safe_then, rule turned, assumption)
     apply (rule safe_then, rule yields_pi0_f32_weight [OF G w(2), unfolded pad4_simps], simp)
     apply (rule safe_then, rule add, assumption, assumption, simp add: can_repeat_def)
     apply (rule safe_bind, rule position)
     apply (rule yields_safe, rule add, assumption, assumption, simp add: can_repeat_def)
    apply simp
    done
qed

lemma vision_graph_safe:
  assumes G: "pi0_laws (gb_ops B) P" and D: "vit_fits D" "vd_width D = v0_width (p0_vision (m0_pi0 (md_config M)))"
      "vd_patch_w D = v0_patch_width (p0_vision (m0_pi0 (md_config M)))" "vd_patch_h D = v0_patch_height (p0_vision (m0_pi0 (md_config M)))"
      "vd_patches D = patch_count M"
    and w: "vision_weights_fit (gb_ops B) M"
  shows "safe B (18 + 39 * nat (v0_layers (p0_vision (m0_pi0 (md_config M)))))
    (\<lambda>(x, y). f32t (gb_ops B) [vd_image_w D, vd_image_h D, 3, vd_batch D] x \<and>
       f32t (gb_ops B) [l0_width (p0_llm (m0_pi0 (md_config M))), vd_batch D * vd_patches D, 1, 1] y)
    (vision_graph B P D (md_weights M) (nat (v0_layers (p0_vision (m0_pi0 (md_config M))))))"
proof -
  let ?w = "md_weights M" and ?layers = "[0..<nat (v0_layers (p0_vision (m0_pi0 (md_config M))))]" and ?width = "l0_width (p0_llm (m0_pi0 (md_config M)))"
  note ws = w [unfolded vision_weights_fit_def Let_def D(2-5) [symmetric]]
  have pos: "0 < vd_width D" "0 < vd_patches D" "0 < vd_batch D" "0 < vd_image_w D" "0 < vd_image_h D" "0 < (3::int)"
    using D(1) by (auto simp: vit_fits_def)
  have input: "yields B 1 (f32t (gb_ops B) [vd_image_w D, vd_image_h D, 3, vd_batch D])
      (node B (gg_new_tensor (gb_ops B) GGML_TYPE_F32 [vd_image_w D, vd_image_h D, 3, vd_batch D]))"
  proof (rule yields_node)
    have "law_inputs (gb_ops B)" using G by (simp add: pi0_laws_def)
    then show "gives (f32t (gb_ops B) [vd_image_w D, vd_image_h D, 3, vd_batch D])
        (gg_new_tensor (gb_ops B) GGML_TYPE_F32 [vd_image_w D, vd_image_h D, 3, vd_batch D])"
      using pos unfolding law_inputs_def by blast
  qed
  have layers: "safe B (length ?layers * 39) (f32t (gb_ops B) [vd_width D, vd_patches D, vd_batch D, 1]) (loop_build (vit_layer B P D ?w) ?layers x)"
    if "f32t (gb_ops B) [vd_width D, vd_patches D, vd_batch D, 1] x" for x
    by (rule safe_loop [OF yields_safe [OF vit_layer_yields [OF G D(1)]] that]) (use ws in \<open>auto simp: list_all_length\<close>)
  have flat: "yields B 1 (f32t (gb_ops B) [vd_width D, vd_batch D * vd_patches D, 1, 1]) (node B (gg_reshape (gb_ops B) t [vd_width D, vd_batch D * vd_patches D]))"
    if "f32t (gb_ops B) [vd_width D, vd_patches D, vd_batch D, 1] t" for t
    by (rule node_reshape [OF G that, of "[vd_width D, vd_batch D * vd_patches D]", unfolded pad4_simps]) (use pos in simp_all)
  from ws obtain mw mb where m: "w0_merger_w ?w = Some mw" "w0_merger_b ?w = Some mb" by (auto dest!: has_tensor_Some)
  have merger: "\<not> merger_incompatible (gb_ops B) (vd_width D) mw mb"
    using ws by (auto simp: has_tensor_def m merger_incompatible_def stored_def dest!: dims_ne)
  show ?thesis
    unfolding vision_graph_def Let_def
    apply (rule safe_mono)
     apply (rule safe_then, rule input)
     apply (rule safe_bind, rule patch_embedding_safe [OF G D(1)], use ws in blast, use ws in blast, use ws in blast, assumption)
     apply (rule safe_bind, rule layers, assumption)
     apply (rule safe_then, rule named_steps(1) [OF G], assumption, use ws in blast, use ws in blast)
     apply (rule safe_then, rule flat, assumption)
    using merger apply (simp only: m prod.case option.case if_False)
     apply (rule safe_then, rule yields_pi0_linear [OF G], use ws m in auto)[1]
     apply (rule safe_return, simp)
    apply simp
    done
qed

end
