(* ===== verification/Pi0Prefix.thy ===== *)
theory Pi0Prefix
  imports Pi0Vlm
begin

text \<open>
  The language model over the prefix (\<^verbatim>\<open>src/models/pi0/vlm.cpp\<close>): one graph for all layers, whose keys and values are
  copied into tensors that outlive it, and \<open>pi0_prefill_prefix\<close>, which joins the vision and the prompt embeddings.
\<close>

definition pi0_has_language_layer :: "'t pi0_model \<Rightarrow> int \<Rightarrow> bool" where
  "pi0_has_language_layer M layer \<longleftrightarrow>
     (let layers = w0_llm_layers (md_weights M) in
      layer \<ge> 0 \<and> nat layer < length layers \<and> tw_gate (layers ! nat layer) \<noteq> None \<and> tw_q (layers ! nat layer) \<noteq> None)"

definition pi0_has_merger :: "'t pi0_model \<Rightarrow> bool" where
  "pi0_has_merger M \<longleftrightarrow> w0_merger_w (md_weights M) \<noteq> None \<and> w0_merger_b (md_weights M) \<noteq> None"

definition pi0_has_vision_prefix :: "'t pi0_model \<Rightarrow> bool" where
  "pi0_has_vision_prefix M \<longleftrightarrow> pi0_has_vision_encoder M \<and> pi0_has_merger M"

definition pi0_has_language_prefix :: "'t pi0_model \<Rightarrow> bool" where
  "pi0_has_language_prefix M \<longleftrightarrow>
     (let l = p0_llm (m0_pi0 (md_config M)) in
      l0_layers l > 0 \<and> l0_width l > 0 \<and> l0_q_out l > 0 \<and> l0_kv_out l > 0 \<and> pi0_has_language_layer M 0)"

subsection \<open>The graph\<close>

text \<open>Embeddings on the device: the tensor and its number of tokens, which is 0 when there is none.\<close>

definition runtime_embeddings_fit :: "'t ggml \<Rightarrow> int \<Rightarrow> 't option \<Rightarrow> int \<Rightarrow> bool" where
  "runtime_embeddings_fit G width t n \<longleftrightarrow>
     n = 0 \<or> (case t of None \<Rightarrow> False
       | Some t \<Rightarrow> te_n_dims (gg_entry G t) = 2 \<and> tensor_type G t = GGML_TYPE_F32 \<and> ne G t 0 = width \<and> ne G t 1 = n)"

definition view_embeddings :: "'t builder \<Rightarrow> 't pi0_ops \<Rightarrow> int \<Rightarrow> 't option \<Rightarrow> int \<Rightarrow> 't option build" where
  "view_embeddings B P width t n =
     (if n > 0 then bind_build (node B (gg_view_2d (gb_ops B) (the t) width n (px_row_size P (tensor_type (gb_ops B) (the t)) width) 0))
        (\<lambda>v. return_build (Some v))
      else return_build None)"

definition append_hidden :: "'t builder \<Rightarrow> 't option \<Rightarrow> 't option \<Rightarrow> 't option build" where
  "append_hidden B hidden v =
     (case (hidden, v) of
        (Some h, Some v) \<Rightarrow> bind_build (node B (gg_concat (gb_ops B) h v 1)) (\<lambda>t. return_build (Some t))
      | (Some h, None) \<Rightarrow> return_build (Some h)
      | (None, v) \<Rightarrow> return_build v)"

record 't prefill =
  pl_hidden :: 't
  pl_keys :: "'t list"
  pl_values :: "'t list"

definition prefill_layer ::
  "'t builder \<Rightarrow> 't pi0_ops \<Rightarrow> gemma_dims \<Rightarrow> 't pi0_weights \<Rightarrow> 't \<Rightarrow> nat \<Rightarrow> 't prefill \<Rightarrow> 't prefill build"
where
  "prefill_layer B P D w pos layer p =
     (let L = w0_llm_layers w ! layer; hidden = pl_hidden p in
      if layer_missing L then fail_build ''missing pi0 language prefix fused prefill tensor''
      else if norms_missing L then fail_build ''missing pi0 language prefix norm scale tensor''
      else
        bind_build (pi0_f32_weight B P (tw_input_norm_scale L) 1) (\<lambda>input_scale.
        bind_build (pi0_f32_weight B P (tw_post_norm_scale L) 1) (\<lambda>post_scale.
        bind_build (gemma_norm B P hidden input_scale) (\<lambda>normed.
        bind_build (gemma_qkv B P D L pos normed) (\<lambda>(q_rot, k_rot, v).
        bind_build (gemma_attend B P D L q_rot k_rot v None hidden) (\<lambda>first_residual.
        bind_build (gemma_feed_forward B P L post_scale first_residual) (\<lambda>hidden.
        bind_build (node B (px_cont_3d P k_rot (gd_head_dim D) (gd_kv_heads D) (gd_tokens D))) (\<lambda>k_out.
        bind_build (node B (px_cont_3d P v (gd_head_dim D) (gd_kv_heads D) (gd_tokens D))) (\<lambda>v_out.
          return_build \<lparr>pl_hidden = hidden, pl_keys = pl_keys p @ [k_out], pl_values = pl_values p @ [v_out]\<rparr>)))))))))"

record 't prefill_graph =
  pg0_host :: "'t option"
  pg0_pos :: 't
  pg0_y :: "'t option"
  pg0_keys :: "'t list"
  pg0_values :: "'t list"

definition graph_outputs :: "'t prefill_graph \<Rightarrow> 't list" where
  "graph_outputs g =
     (case pg0_y g of None \<Rightarrow> [] | Some y \<Rightarrow> [y]) @ concat (map (\<lambda>(k, v). [k, v]) (zip (pg0_keys g) (pg0_values g)))"

definition final_output :: "'t builder \<Rightarrow> 't pi0_ops \<Rightarrow> 't pi0_weights \<Rightarrow> bool \<Rightarrow> 't \<Rightarrow> 't option build" where
  "final_output B P w need_output hidden =
     (if \<not> need_output then return_build None
      else if w0_llm_norm_scale w = None then fail_build ''missing pi0 language prefix final norm scale tensor''
      else bind_build (pi0_f32_weight B P (w0_llm_norm_scale w) 1) (\<lambda>final_scale.
        bind_build (gemma_norm B P hidden final_scale) (\<lambda>y. return_build (Some y))))"

text \<open>The prefix comes first, then the suffix, then the tokens of the host.\<close>

definition language_graph ::
  "'t builder \<Rightarrow> 't pi0_ops \<Rightarrow> gemma_dims \<Rightarrow> 't pi0_weights \<Rightarrow> int \<Rightarrow> nat \<Rightarrow> 't option \<times> int \<Rightarrow> 't option \<times> int \<Rightarrow> int \<Rightarrow> bool \<Rightarrow>
     't prefill_graph build"
where
  "language_graph B P D w width layers prefix suffix host_count need_output =
     (let G = gb_ops B in
      bind_build (optional_node B (host_count > 0) (gg_new_tensor G GGML_TYPE_F32 [width, host_count])) (\<lambda>host.
      bind_build (view_embeddings B P width (fst prefix) (snd prefix)) (\<lambda>first.
      bind_build (view_embeddings B P width (fst suffix) (snd suffix)) (\<lambda>second.
      bind_build (append_hidden B first second) (\<lambda>hidden.
      bind_build (append_hidden B hidden host) (\<lambda>hidden.
      bind_build (node B (gg_new_tensor G GGML_TYPE_I32 [gd_tokens D])) (\<lambda>pos.
        case hidden of
          None \<Rightarrow> (\<lambda>_. None)
        | Some hidden \<Rightarrow>
            bind_build (loop_build (prefill_layer B P D w pos) [0..<layers] \<lparr>pl_hidden = hidden, pl_keys = [], pl_values = []\<rparr>) (\<lambda>p.
            bind_build (final_output B P w need_output (pl_hidden p)) (\<lambda>y.
              return_build \<lparr>pg0_host = host, pg0_pos = pos, pg0_y = y, pg0_keys = pl_keys p, pg0_values = pl_values p\<rparr>)))))))))"

subsection \<open>The cache\<close>

text \<open>The slots of a layer, written after the copy.\<close>

definition persist_layer ::
  "('t, 'm, 'r) pi0_device \<Rightarrow> 't pi0_model \<Rightarrow> gemma_dims \<Rightarrow> 't prefill_graph \<Rightarrow> nat \<Rightarrow> (unit, ('t, 'm, 'r) pi0_state) act"
where
  "persist_layer d M D g layer =
     bind_act (\<lambda>s. pi0_persist_backend_f32 d M (st_k_layers s ! layer) (\<lambda>t s. s\<lparr>st_k_layers := (st_k_layers s)[layer := Some t]\<rparr>)
       (pg0_keys g ! layer) 3 (gd_head_dim D) (gd_kv_heads D) (gd_tokens D) s) (\<lambda>_.
     bind_act (\<lambda>s. pi0_persist_backend_f32 d M (st_v_layers s ! layer) (\<lambda>t s. s\<lparr>st_v_layers := (st_v_layers s)[layer := Some t]\<rparr>)
       (pg0_values g ! layer) 3 (gd_head_dim D) (gd_kv_heads D) (gd_tokens D) s) (\<lambda>_. act_return ()))"

fun each_layer :: "(nat \<Rightarrow> (unit, 's) act) \<Rightarrow> nat list \<Rightarrow> (unit, 's) act" where
  "each_layer f [] = act_return ()"
| "each_layer f (i # is) = bind_act (f i) (\<lambda>_. each_layer f is)"

definition resize_cache :: "nat \<Rightarrow> ('t, 'm, 'r) pi0_state \<Rightarrow> ('t, 'm, 'r) pi0_state" where
  "resize_cache layers s =
     s\<lparr>st_k_layers := resized layers None (st_k_layers s), st_v_layers := resized layers None (st_v_layers s)\<rparr>"

definition language_input_bad ::
  "pi0_llm_config \<Rightarrow> f32 list \<Rightarrow> int list \<Rightarrow> gemma_dims \<Rightarrow> int \<Rightarrow> int \<Rightarrow> bool"
where
  "language_input_bad l tokens positions D prefix_count suffix_count \<longleftrightarrow>
     (let host_count = gd_tokens D - prefix_count - suffix_count in
      gd_tokens D \<le> 0 \<or> l0_width l \<le> 0 \<or> l0_q_out l \<le> 0 \<or> l0_kv_out l \<le> 0 \<or> l0_mlp_width l \<le> 0 \<or> l0_layers l \<le> 0 \<or>
      prefix_count < 0 \<or> suffix_count < 0 \<or> host_count < 0 \<or> gd_heads D \<le> 0 \<or> gd_kv_heads D \<le> 0 \<or> gd_head_dim D \<le> 0 \<or>
      l0_q_out l \<noteq> gd_heads D * gd_head_dim D \<or> l0_kv_out l \<noteq> gd_kv_heads D * gd_head_dim D \<or>
      length tokens \<noteq> size_cast host_count * size_cast (l0_width l) mod 2 ^ 64 \<or> length positions \<noteq> size_cast (gd_tokens D))"

definition pi0_prefill_language_prefix_layers_batch ::
  "('t, 'm, 'r) pi0_device \<Rightarrow> 't pi0_model \<Rightarrow> f32 list \<Rightarrow> int list \<Rightarrow> gemma_dims \<Rightarrow> bool \<Rightarrow> 't option \<times> int \<Rightarrow> 't option \<times> int \<Rightarrow>
     (f32 list, ('t, 'm, 'r) pi0_state) act"
where
  "pi0_prefill_language_prefix_layers_batch d M tokens positions D need_output prefix suffix =
     (let G = device_ggml d; B = device_builder d ''llm''; l = p0_llm (m0_pi0 (md_config M)); width = l0_width l;
          layers = nat (l0_layers l); host_count = gd_tokens D - snd prefix - snd suffix
      in if language_input_bad l tokens positions D (snd prefix) (snd suffix) then
           act_fail ''language prefix fused prefill input has incompatible shape''
         else if \<not> runtime_embeddings_fit G width (fst prefix) (snd prefix) \<or> \<not> runtime_embeddings_fit G width (fst suffix) (snd suffix) then
           act_fail ''language prefix runtime embeddings have incompatible shape''
         else
           bind_act (graph_act B (language_graph B (dw_ops d) D (md_weights M) width layers prefix suffix host_count need_output)) (\<lambda>g.
           bind_act (alloc_act d (graph_outputs g)
             ''pi0 language prefix graph allocation failed'') (\<lambda>_.
           bind_act (optional_set (dw_set_f32 d) (pg0_host g) tokens) (\<lambda>_.
           bind_act (memory_act (dw_set_i32 d (pg0_pos g) positions)) (\<lambda>_.
           bind_act (compute_act d (graph_outputs g)
             ''ggml language prefix fused prefill graph compute failed'') (\<lambda>_.
           bind_act (case pg0_y g of None \<Rightarrow> act_return [] | Some y \<Rightarrow> read_act d y (nat (gd_tokens D) * nat width)) (\<lambda>out.
           bind_act (act_modify (resize_cache layers)) (\<lambda>_.
           bind_act (each_layer (persist_layer d M D g) [0..<layers]) (\<lambda>_. act_return out)))))))))"

subsection \<open>The prefix\<close>

definition pi0_prefill_prefix_from_runtime_embeddings ::
  "('t, 'm, 'r) pi0_device \<Rightarrow> 't pi0_model \<Rightarrow> 't option \<Rightarrow> int \<Rightarrow> f32 list \<Rightarrow> nat \<Rightarrow> (unit, ('t, 'm, 'r) pi0_state) act"
where
  "pi0_prefill_prefix_from_runtime_embeddings d M embeddings runtime_count host_embeddings host_count =
     (let G = device_ggml d; l = p0_llm (m0_pi0 (md_config M)); width = l0_width l; n = runtime_count + int host_count;
          D = \<lparr>gd_q_out = l0_q_out l, gd_kv_out = l0_kv_out l, gd_head_dim = l0_kv_out l, gd_heads = l0_q_out l div l0_kv_out l,
            gd_kv_heads = l0_kv_out l div l0_kv_out l, gd_tokens = n\<rparr>
      in if \<not> fits_sint 32 n then act_run None
         else if n \<le> 0 then act_return ()
         else if \<not> pi0_has_language_prefix M \<or> width \<le> 0 \<or> l0_kv_out l \<le> 0 \<or> l0_q_out l mod l0_kv_out l \<noteq> 0 \<or> runtime_count < 0 \<or>
             length host_embeddings \<noteq> host_count * nat width \<or>
             runtime_count > 0 \<and> \<not> runtime_embeddings_fit G width embeddings runtime_count then
           act_fail ''pi0 prefix runtime embeddings have incompatible shape''
         else
           bind_act (if host_count > 0
             then bind_act (\<lambda>s. pi0_persist_host_f32_2d d M (st_prompt s) (\<lambda>t s. s\<lparr>st_prompt := Some t\<rparr>) (Some host_embeddings) width
               (int host_count) s) (\<lambda>t. act_return (Some t))
             else act_return None) (\<lambda>prompt.
           bind_act (pi0_prefill_language_prefix_layers_batch d M [] (map int [0..<nat n]) D False (embeddings, runtime_count)
             (prompt, int host_count)) (\<lambda>_.
             act_modify (\<lambda>s. s\<lparr>st_token_count := nat n\<rparr>))))"

definition pi0_prefill_prefix ::
  "('t, 'm, 'r) pi0_device \<Rightarrow> 't pi0_model \<Rightarrow> pi0_observation \<Rightarrow> (unit, ('t, 'm, 'r) pi0_state) act"
where
  "pi0_prefill_prefix d M obs =
     bind_act (act_modify kv_reset) (\<lambda>_.
       if pi0_has_vision_prefix M \<and> pi0_has_language_prefix M \<and> o0_images obs \<noteq> [] then
         bind_act (pi0_encode_vision_prefix d M (o0_images obs)) (\<lambda>(vision, vision_tokens).
         bind_act (if o0_prompt_tokens obs \<noteq> [] then pi0_embed_prompt_tokens d M (o0_prompt_tokens obs)
           else pi0_embed_prompt d M (o0_prompt obs)) (\<lambda>(prompt_embeddings, prompt_tokens).
           pi0_prefill_prefix_from_runtime_embeddings d M vision vision_tokens prompt_embeddings prompt_tokens))
       else act_return ())"

end
