(* ===== verification/Pi0PrefixProps.thy ===== *)
theory Pi0PrefixProps
  imports Pi0VisionProps Pi0Prefix
begin

text \<open>
  Prefilling returns on every observation that was preprocessed, and leaves a cache that the action expert can use.
\<close>

subsection \<open>The vision encoder\<close>

definition images_fit :: "'t pi0_model \<Rightarrow> pi0_image_tensor list \<Rightarrow> bool" where
  "images_fit M imgs \<longleftrightarrow>
     (\<forall>t \<in> set imgs. t0_width t = c0_image_width (m0_common (md_config M)) \<and> t0_height t = c0_image_height (m0_common (md_config M)))"

lemma each_res_all: "each_res f xs = Inr ys \<Longrightarrow> x \<in> set xs \<Longrightarrow> \<exists>y. f x = Inr y"
  by (induction xs arbitrary: ys) (auto simp: res_simps)

lemma sdiv_pos: "0 < a \<Longrightarrow> 0 < b \<Longrightarrow> (a :: int) sdiv b = a div b"
  by (simp add: signed_divide_int_def)

lemma check_vision_fits:
  assumes "check_vision M imgs = Inr ()" "imgs \<noteq> []" "images_fit M imgs"
  shows "vit_fits (vit_dims_of M imgs)" "vd_patches (vit_dims_of M imgs) = patch_count M"
    and "\<forall>t \<in> set imgs. nat (t0_height t) * nat (t0_width t) * 3 =
      nat (vd_image_w (vit_dims_of M imgs)) * nat (vd_image_h (vit_dims_of M imgs)) * 3"
proof -
  let ?v = "p0_vision (m0_pi0 (md_config M))" and ?first = "hd imgs"
  have first: "?first \<in> set imgs" using assms(2) by simp
  from assms(1) have ok: "0 < v0_width ?v" "0 < v0_patch_height ?v" "0 < v0_patch_width ?v" "0 < v0_heads ?v" "v0_width ?v mod v0_heads ?v = 0"
    "0 < t0_width ?first" "0 < t0_height ?first" "t0_width ?first mod v0_patch_width ?v = 0" "t0_height ?first mod v0_patch_height ?v = 0"
    by (simp_all add: check_vision_def Let_def not_le split: if_splits)
  have pos: "0 < v0_width ?v div v0_heads ?v" "0 < t0_width ?first div v0_patch_width ?v" "0 < t0_height ?first div v0_patch_height ?v"
    using ok by (auto simp: pos_imp_zdiv_pos_iff zdvd_imp_le dvd_eq_mod_eq_0 [symmetric])
  have "\<exists>x y. 0 < x \<and> 0 < y \<and> t0_width ?first = x * v0_patch_width ?v \<and> t0_height ?first = y * v0_patch_height ?v \<and>
      (t0_width ?first div v0_patch_width ?v) * (t0_height ?first div v0_patch_height ?v) = x * y"
    by (rule exI [of _ "t0_width ?first div v0_patch_width ?v"], rule exI [of _ "t0_height ?first div v0_patch_height ?v"])
      (use ok pos in auto)
  then show "vit_fits (vit_dims_of M imgs)"
    unfolding vit_fits_def vit_dims_of_def Let_def using ok pos assms(2) by (auto simp: mult_pos_pos)
  have same: "t0_width t = c0_image_width (m0_common (md_config M)) \<and> t0_height t = c0_image_height (m0_common (md_config M))"
    if "t \<in> set imgs" for t using assms(3) that by (simp add: images_fit_def)
  then show "vd_patches (vit_dims_of M imgs) = patch_count M"
    using same [OF first] ok sdiv_pos by (simp add: vit_dims_of_def patch_count_def Let_def)
  show "\<forall>t \<in> set imgs. nat (t0_height t) * nat (t0_width t) * 3 =
      nat (vd_image_w (vit_dims_of M imgs)) * nat (vd_image_h (vit_dims_of M imgs)) * 3"
    using same same [OF first] by (simp add: vit_dims_of_def Let_def)
qed

lemma length_planar:
  assumes "\<forall>t \<in> set imgs. nat (t0_height t) * nat (t0_width t) * 3 = n"
  shows "length (images_hwc_to_planar_batch imgs) = length imgs * n"
  using assms by (induction imgs) (simp_all add: images_hwc_to_planar_batch_def planar_image_def length_concat sum_list_triv o_def numeral_3_eq_3)

definition vision_capacity :: "'t pi0_model \<Rightarrow> bool" where
  "vision_capacity M \<longleftrightarrow> 18 + 39 * nat (v0_layers (p0_vision (m0_pi0 (md_config M)))) \<le> ggml_default_graph_size"

lemma vision_capacity_room:
  "vision_capacity M \<longleftrightarrow> 18 + 39 * nat (v0_layers (p0_vision (m0_pi0 (md_config M)))) \<le> gb_capacity (device_builder d ''vit'')"
  by (simp add: vision_capacity_def device_capacity)

text \<open>The tensors of the cache can be replaced.\<close>

lemma pi0_ok_cached:
  assumes "pi0_ok d M s"
  shows "st_vision s = Some t \<Longrightarrow> cached (device_ggml d) t" "st_prompt s = Some t \<Longrightarrow> cached (device_ggml d) t"
    "i < length (st_k_layers s) \<Longrightarrow> st_k_layers s ! i = Some t \<Longrightarrow> cached (device_ggml d) t"
    "i < length (st_v_layers s) \<Longrightarrow> st_v_layers s ! i = Some t \<Longrightarrow> cached (device_ggml d) t"
  using assms nth_mem [of i "st_k_layers s"] nth_mem [of i "st_v_layers s"] by (auto simp: pi0_ok_def cache_ok_def)

lemma pi0_ok_store:
  assumes "pi0_ok d M s" "cached (device_ggml d) t"
  shows "pi0_ok d M (s\<lparr>st_memory := m, st_allocated := ts, st_vision := Some t\<rparr>)"
    "pi0_ok d M (s\<lparr>st_memory := m, st_allocated := ts, st_prompt := Some t\<rparr>)"
    "pi0_ok d M (s\<lparr>st_memory := m, st_allocated := ts, st_k_layers := (st_k_layers s)[i := Some t]\<rparr>)"
    "pi0_ok d M (s\<lparr>st_memory := m, st_allocated := ts, st_v_layers := (st_v_layers s)[i := Some t]\<rparr>)"
  using assms set_update_subset_insert [of "st_k_layers s" i "Some t"] set_update_subset_insert [of "st_v_layers s" i "Some t"]
  by (auto simp: pi0_ok_def cache_ok_def)

lemma f32t_cached: "f32t G [a, b, c, 1] t \<Longrightarrow> cached G t"
  by (auto simp: cached_def)

lemma encode_vision_ok:
  assumes d: "device_laws d" and w: "vision_weights_fit (device_ggml d) M" and cap: "vision_capacity M"
    and imgs: "imgs \<noteq> []" "images_fit M imgs" "pi0_has_vision_encoder M" "int (length imgs) * patch_count M < 2 ^ 31"
  shows "act_ok (pi0_ok d M) (pi0_ok d M) (pi0_encode_vision_prefix d M imgs)
    (\<lambda>(t, n) s. pi0_ok d M s \<and> n = int (length imgs) * patch_count M \<and> 0 < n \<and>
       (\<exists>u. t = Some u \<and> f32t (device_ggml d) [l0_width (p0_llm (m0_pi0 (md_config M))), n, 1, 1] u))"
    (is "act_ok ?J ?J _ ?Q")
proof (cases "check_vision M imgs")
  case (Inl e)
  then have "pi0_encode_vision_prefix d M imgs = act_fail e"
    using imgs by (simp add: pi0_encode_vision_prefix_def Let_def bind_act_def fun_eq_iff)
  then show ?thesis by (simp only: act_ok_fail)
next
  case (Inr u)
  let ?D = "vit_dims_of M imgs" and ?G = "device_ggml d" and ?B = "device_builder d ''vit''" and ?w = "md_weights M"
  let ?width = "l0_width (p0_llm (m0_pi0 (md_config M)))" and ?n = "vd_batch ?D * vd_patches ?D"
  have checked: "check_vision M imgs = Inr ()" using Inr by simp
  note D = check_vision_fits [OF checked imgs(1,2)]
  note G = device_ops [OF d]
  have L: "pi0_laws (gb_ops ?B) (dw_ops d)" using G by simp
  have n: "?n = int (length imgs) * patch_count M" using D(2) by (simp add: vit_dims_of_def Let_def)
  have pos: "0 < ?n" using D(1) by (simp add: vit_fits_def)
  have int32: "to_int32 ?n = ?n" using pos n imgs(4) by (simp add: to_int32_def signed_take_bit_int_eq_self)
  have graph: "safe ?B (18 + 39 * nat (v0_layers (p0_vision (m0_pi0 (md_config M)))))
    (\<lambda>(x, y). f32t ?G [vd_image_w ?D, vd_image_h ?D, 3, vd_batch ?D] x \<and> f32t ?G [?width, ?n, 1, 1] y)
    (vision_graph ?B (dw_ops d) ?D ?w (nat (v0_layers (p0_vision (m0_pi0 (md_config M))))))"
    using vision_graph_safe [OF L D(1) _ _ _ D(2), unfolded G(2), OF _ _ _ w] by (simp add: vit_dims_of_def Let_def)
  have ow: "ne ?G (the (w0_merger_w ?w)) 1 = ?width" "0 < ?width"
  proof -
    have "has_tensor ?G (w0_merger_w ?w) [v0_width (p0_vision (m0_pi0 (md_config M))), ?width]"
      using w by (simp add: vision_weights_fit_def Let_def)
    then obtain t where t: "w0_merger_w ?w = Some t" "dims ?G [v0_width (p0_vision (m0_pi0 (md_config M))), ?width, 1, 1] t"
      by (auto simp: has_tensor_def stored_def)
    show "ne ?G (the (w0_merger_w ?w)) 1 = ?width" "0 < ?width" using dims_ne [OF t(2)] dims_pos [OF t(2)] t(1) by simp_all
  qed
  have two: "pad4 (take 2 [?width, ?n, 1]) = [?width, ?n, 1, 1]" by (simp add: numeral_2_eq_2 pad4_def numeral_eq_Suc)
  have rest: "act_ok ?J (\<lambda>s. ?J s \<and> (case xy of (x, y) \<Rightarrow> f32t ?G [vd_image_w ?D, vd_image_h ?D, 3, vd_batch ?D] x \<and> f32t ?G [?width, ?n, 1, 1] y))
     (case xy of (input, y) \<Rightarrow>
        bind_act (alloc_act d [y] ''pi0 ViT graph allocation failed'') (\<lambda>_.
        bind_act (memory_act (dw_set_f32 d input (images_hwc_to_planar_batch imgs))) (\<lambda>_.
        bind_act (compute_act d [y] ''ggml pi0 ViT graph compute failed'') (\<lambda>_.
        bind_act (\<lambda>s. pi0_persist_backend_f32 d M (st_vision s) (\<lambda>t s. s\<lparr>st_vision := Some t\<rparr>) y 2
          (ne ?G (the (w0_merger_w ?w)) 1) ?n 1 s) (\<lambda>t. act_return (Some t, to_int32 ?n)))))) ?Q" for xy
  proof (cases xy)
    case (Pair x y)
    show ?thesis
      unfolding Pair prod.case
    proof (rule act_ok_facts)
      assume shapes: "f32t ?G [vd_image_w ?D, vd_image_h ?D, 3, vd_batch ?D] x \<and> f32t ?G [?width, ?n, 1, 1] y"
      have "int (length (images_hwc_to_planar_batch imgs)) \<le> prod_list [vd_image_w ?D, vd_image_h ?D, 3, vd_batch ?D]"
        using dims_pos [OF f32t_imp(4) [OF conjunct1 [OF shapes]]] by (simp add: length_planar [OF D(3)]) (simp add: vit_dims_of_def Let_def)
      then have set: "\<exists>m'. dw_set_f32 d x (images_hwc_to_planar_batch imgs) m = Some m'" for m
        using device_sets(1) [OF d conjunct1 [OF shapes]] by blast
      have persist: "act_ok ?J ?J (\<lambda>s. pi0_persist_backend_f32 d M (st_vision s) (\<lambda>t s. s\<lparr>st_vision := Some t\<rparr>) y 2
          (ne ?G (the (w0_merger_w ?w)) 1) ?n 1 s) (\<lambda>t s. ?J s \<and> f32t ?G [?width, ?n, 1, 1] t)"
        unfolding ow(1)
        by (rule persist_backend_ok [where slot = st_vision, OF d two ow(2) pos zero_less_one])
          (auto intro: pi0_ok_cached pi0_ok_store(1) [OF _ f32t_cached] pi0_ok_blind simp: shapes)
      show "act_ok ?J ?J (bind_act (alloc_act d [y] ''pi0 ViT graph allocation failed'') (\<lambda>_.
        bind_act (memory_act (dw_set_f32 d x (images_hwc_to_planar_batch imgs))) (\<lambda>_.
        bind_act (compute_act d [y] ''ggml pi0 ViT graph compute failed'') (\<lambda>_.
        bind_act (\<lambda>s. pi0_persist_backend_f32 d M (st_vision s) (\<lambda>t s. s\<lparr>st_vision := Some t\<rparr>) y 2
          (ne ?G (the (w0_merger_w ?w)) 1) ?n 1 s) (\<lambda>t. act_return (Some t, to_int32 ?n)))))) ?Q"
        by (rule act_ok_bind [OF act_ok_alloc act_ok_bind [OF act_ok_memory [OF pi0_ok_blind set]
          act_ok_bind [OF act_ok_compute [OF pi0_ok_blind] act_ok_bind [OF persist act_ok_return]]]]) (use int32 n pos in simp_all)
    qed
  qed
  have "pi0_encode_vision_prefix d M imgs =
      bind_act (graph_act ?B (vision_graph ?B (dw_ops d) ?D ?w (nat (v0_layers (p0_vision (m0_pi0 (md_config M))))))) (\<lambda>(input, y).
        bind_act (alloc_act d [y] ''pi0 ViT graph allocation failed'') (\<lambda>_.
        bind_act (memory_act (dw_set_f32 d input (images_hwc_to_planar_batch imgs))) (\<lambda>_.
        bind_act (compute_act d [y] ''ggml pi0 ViT graph compute failed'') (\<lambda>_.
        bind_act (\<lambda>s. pi0_persist_backend_f32 d M (st_vision s) (\<lambda>t s. s\<lparr>st_vision := Some t\<rparr>) y 2
          (ne ?G (the (w0_merger_w ?w)) 1) ?n 1 s) (\<lambda>t. act_return (Some t, to_int32 ?n))))))"
    using imgs Inr by (simp add: pi0_encode_vision_prefix_def Let_def bind_act_def [of "act_run (Some (Inr _))"] G(2) fun_eq_iff)
  then show ?thesis
    using act_ok_bind [OF act_ok_graph [OF graph cap [unfolded vision_capacity_room [of M d]]] rest] by simp
qed

end
