(* ===== verification/Pi0PrefillProps.thy ===== *)
theory Pi0PrefillProps
  imports Pi0PrefixProps
begin

text \<open>
  The language model over the prefix: its graph, the cache it leaves, and the whole prefill.
\<close>

subsection \<open>The graph\<close>

definition llm_weights_fit :: "'t ggml \<Rightarrow> 't pi0_model \<Rightarrow> bool" where
  "llm_weights_fit G M \<longleftrightarrow>
     (let l = p0_llm (m0_pi0 (md_config M)); layers = w0_llm_layers (md_weights M) in
      length layers = nat (l0_layers l) \<and> list_all (has_layer G (l0_width l) (l0_q_out l) (l0_kv_out l) (l0_mlp_width l)) layers)"

lemma safe_loop_from:
  assumes "\<And>i x. m \<le> i \<Longrightarrow> i < n \<Longrightarrow> P i x \<Longrightarrow> safe B k (P (Suc i)) (f i x)"
  shows "m \<le> n \<Longrightarrow> P m x \<Longrightarrow> safe B ((n - m) * k) (P n) (loop_build f [m..<n] x)"
  using assms
proof (induction "n - m" arbitrary: m x)
  case 0
  then show ?case by (simp add: safe_return)
next
  case (Suc j)
  then have m: "m < n" by simp
  have "safe B (k + (n - Suc m) * k) (P n) (bind_build (f m x) (loop_build f [Suc m..<n]))"
    by (rule safe_bind [where P = "P (Suc m)"]) (use Suc m in auto)
  moreover have "k + (n - Suc m) * k = (n - m) * k" using m by (metis Suc_diff_Suc mult_Suc)
  ultimately show ?case using m by (simp add: upt_conv_Cons)
qed

definition prefill_ok :: "'t ggml \<Rightarrow> gemma_dims \<Rightarrow> int \<Rightarrow> nat \<Rightarrow> 't prefill \<Rightarrow> bool" where
  "prefill_ok G D width n p \<longleftrightarrow>
     f32t G [width, gd_tokens D, 1, 1] (pl_hidden p) \<and> length (pl_keys p) = n \<and> length (pl_values p) = n \<and>
     list_all (f32t G [gd_head_dim D, gd_kv_heads D, gd_tokens D, 1]) (pl_keys p @ pl_values p)"

lemma prefill_layer_safe:
  assumes G: "pi0_laws (gb_ops B) P" and D: "gemma_fits D" and L: "has_layer (gb_ops B) width (gd_q_out D) (gd_kv_out D) mlp (w0_llm_layers w ! layer)"
    and pos: "stored (gb_ops B) [gd_tokens D, 1, 1, 1] pos" "tensor_type (gb_ops B) pos = GGML_TYPE_I32"
    and p: "prefill_ok (gb_ops B) D width n p"
  shows "safe B 32 (prefill_ok (gb_ops B) D width (Suc n)) (prefill_layer B P D w pos layer p)"
proof -
  let ?L = "w0_llm_layers w ! layer"
  note present = has_layer_complete [OF L]
  have norms: "has_tensor (gb_ops B) (tw_input_norm_scale ?L) [width]" "has_tensor (gb_ops B) (tw_post_norm_scale ?L) [width]"
    using L by (simp_all add: has_layer_def)
  have scale: "yields B 1 (f32t (gb_ops B) [width, 1, 1, 1]) (pi0_f32_weight B P (tw_input_norm_scale ?L) 1)"
    "yields B 1 (f32t (gb_ops B) [width, 1, 1, 1]) (pi0_f32_weight B P (tw_post_norm_scale ?L) 1)"
    by (rule yields_pi0_f32_weight [OF G norms(1), unfolded pad4_simps], simp)
      (rule yields_pi0_f32_weight [OF G norms(2), unfolded pad4_simps], simp)
  have hidden: "f32t (gb_ops B) [width, gd_tokens D, 1, 1] (pl_hidden p)" using p by (simp add: prefill_ok_def)
  have copy: "yields B 1 (f32t (gb_ops B) [gd_head_dim D, gd_kv_heads D, gd_tokens D, 1])
      (node B (px_cont_3d P t (gd_head_dim D) (gd_kv_heads D) (gd_tokens D)))"
    if "f32t (gb_ops B) [gd_head_dim D, gd_kv_heads D, gd_tokens D, 1] t" for t
    by (rule node_cont_3d [OF G f32t_imp(1) [OF that]]) (use D in \<open>simp_all add: gemma_fits_def\<close>)
  show ?thesis
    unfolding prefill_layer_def Let_def
    using present apply (simp only: if_False simp_thms)
    apply (rule safe_mono)
     apply (rule safe_then, rule scale(1))
     apply (rule safe_then, rule scale(2))
     apply (rule safe_then, rule yields_gemma_norm [OF G hidden], assumption)
     apply (rule safe_then, rule yields_gemma_qkv [OF G L D pos], assumption)
     apply (simp only: split_beta)
     apply (rule safe_then, rule yields_gemma_attend [OF G L D], blast, blast, blast, simp, rule hidden)
     apply (rule safe_then, rule yields_gemma_feed_forward [OF G L], assumption, assumption)
     apply (rule safe_then, rule copy, blast)
     apply (rule safe_then, rule copy, blast)
     apply (rule safe_return, use p in \<open>simp add: prefill_ok_def\<close>)
    apply simp
    done
qed

lemma view_embeddings_yields:
  assumes G: "pi0_laws (gb_ops B) P" and t: "0 < n \<Longrightarrow> \<exists>u. t = Some u \<and> f32t (gb_ops B) [width, n, 1, 1] u"
  shows "yields B 1 (\<lambda>r. (r \<noteq> None \<longleftrightarrow> 0 < n) \<and> (\<forall>v. r = Some v \<longrightarrow> f32t (gb_ops B) [width, n, 1, 1] v)) (view_embeddings B P width t n)"
proof (cases "0 < n")
  case True
  then obtain u where u: "t = Some u" "f32t (gb_ops B) [width, n, 1, 1] u" using t by blast
  have "law_row_size (gb_ops B) P" using G by (simp add: pi0_laws_def)
  then have nb: "px_row_size P (tensor_type (gb_ops B) u) width = gg_nb (gb_ops B) u 1"
    using u(2) f32t_imp(6) [OF u(2)] unfolding law_row_size_def by (metis list.sel(1))
  have "yields B (1 + 0) (\<lambda>r. (r \<noteq> None \<longleftrightarrow> 0 < n) \<and> (\<forall>v. r = Some v \<longrightarrow> f32t (gb_ops B) [width, n, 1, 1] v))
      (bind_build (node B (gg_view_2d (gb_ops B) u width n (gg_nb (gb_ops B) u 1) (0 * gg_nb (gb_ops B) u 1))) (\<lambda>v. return_build (Some v)))"
    by (rule yields_bind [OF node_view_2d [OF pi0_laws_ggml [OF G] f32t_imp(3) [OF u(2)] True]], simp)
      (rule yields_return, use True f32t_imp(6) [OF u(2)] in \<open>simp add: f32t_def\<close>)
  then show ?thesis using True by (simp add: view_embeddings_def u(1) nb)
next
  case False
  have "yields B 0 (\<lambda>r. (r \<noteq> None \<longleftrightarrow> 0 < n) \<and> (\<forall>v. r = Some v \<longrightarrow> f32t (gb_ops B) [width, n, 1, 1] v)) (return_build None)"
    by (rule yields_return) (use False in simp)
  then have "yields B 1 (\<lambda>r. (r \<noteq> None \<longleftrightarrow> 0 < n) \<and> (\<forall>v. r = Some v \<longrightarrow> f32t (gb_ops B) [width, n, 1, 1] v)) (return_build None)"
    by (rule yields_mono) simp
  then show ?thesis using False by (simp add: view_embeddings_def)
qed

lemma append_hidden_yields:
  assumes G: "pi0_laws (gb_ops B) P" and h: "f32t (gb_ops B) [width, m, 1, 1] h" and "0 \<le> n"
    and v: "(v \<noteq> None \<longleftrightarrow> 0 < n) \<and> (\<forall>t. v = Some t \<longrightarrow> f32t (gb_ops B) [width, n, 1, 1] t)"
  shows "yields B 1 (\<lambda>r. \<exists>t. r = Some t \<and> f32t (gb_ops B) [width, m + n, 1, 1] t) (append_hidden B (Some h) v)"
proof (cases v)
  case None
  then have "n = 0" using v \<open>0 \<le> n\<close> by simp
  have "yields B 0 (\<lambda>r. \<exists>t. r = Some t \<and> f32t (gb_ops B) [width, m + n, 1, 1] t) (return_build (Some h))"
    by (rule yields_return) (use h \<open>n = 0\<close> in simp)
  then show ?thesis unfolding None append_hidden_def prod.case option.case by (rule yields_mono) simp
next
  case (Some t)
  then have t: "f32t (gb_ops B) [width, n, 1, 1] t" using v by simp
  have "yields B (1 + 0) (\<lambda>r. \<exists>t. r = Some t \<and> f32t (gb_ops B) [width, m + n, 1, 1] t)
      (bind_build (node B (gg_concat (gb_ops B) h t 1)) (\<lambda>t. return_build (Some t)))"
    by (rule yields_bind [OF node_join(3) [OF pi0_laws_ggml [OF G] h t]]) (rule yields_return, simp)
  then show ?thesis by (simp add: Some append_hidden_def)
qed

text \<open>What the graph leaves to be copied.\<close>

definition language_fits :: "'t ggml \<Rightarrow> gemma_dims \<Rightarrow> nat \<Rightarrow> 't prefill_graph \<Rightarrow> bool" where
  "language_fits G D layers g \<longleftrightarrow>
     pg0_host g = None \<and> pg0_y g = None \<and> stored G [gd_tokens D, 1, 1, 1] (pg0_pos g) \<and> tensor_type G (pg0_pos g) = GGML_TYPE_I32 \<and>
     length (pg0_keys g) = layers \<and> length (pg0_values g) = layers \<and>
     list_all (f32t G [gd_head_dim D, gd_kv_heads D, gd_tokens D, 1]) (pg0_keys g @ pg0_values g)"

lemma language_graph_safe:
  assumes G: "pi0_laws (gb_ops B) P" and D: "gemma_fits D" and n: "gd_tokens D = m + n" "0 < m" "0 \<le> n"
    and L: "\<And>i. i < layers \<Longrightarrow> has_layer (gb_ops B) width (gd_q_out D) (gd_kv_out D) mlp (w0_llm_layers w ! i)"
    and t: "f32t (gb_ops B) [width, m, 1, 1] t" and u: "0 < n \<Longrightarrow> \<exists>v. u = Some v \<and> f32t (gb_ops B) [width, n, 1, 1] v"
  shows "safe B (4 + 32 * layers) (language_fits (gb_ops B) D layers) (language_graph B P D w width layers (Some t, m) (u, n) 0 False)"
proof -
  have pos: "0 < gd_tokens D" using D by (simp add: gemma_fits_def)
  have none: "yields B 0 (\<lambda>r. r = None) (optional_node B (0 < (0::int)) x)" for x
    by (simp add: optional_node_def yields_return)
  have first: "yields B 1 (\<lambda>r. \<exists>v. r = Some v \<and> f32t (gb_ops B) [width, m, 1, 1] v) (view_embeddings B P width (Some t) m)"
    by (rule yields_conseq [OF view_embeddings_yields [OF G, of m "Some t" width]]) (use n t in auto)
  note second = view_embeddings_yields [OF G, of n u width, OF u]
  have last: "yields B 0 (\<lambda>r. r = Some h) (append_hidden B (Some h) None)" for h
    by (simp add: append_hidden_def yields_return)
  have layers_ok: "safe B (layers * 32) (prefill_ok (gb_ops B) D width layers)
      (loop_build (prefill_layer B P D w pos) [0..<layers] \<lparr>pl_hidden = h, pl_keys = [], pl_values = []\<rparr>)"
    if p: "stored (gb_ops B) [gd_tokens D, 1, 1, 1] pos \<and> tensor_type (gb_ops B) pos = GGML_TYPE_I32"
      and h: "f32t (gb_ops B) [width, gd_tokens D, 1, 1] h" for pos h
  proof -
    have "safe B ((layers - 0) * 32) (prefill_ok (gb_ops B) D width layers)
      (loop_build (prefill_layer B P D w pos) [0..<layers] \<lparr>pl_hidden = h, pl_keys = [], pl_values = []\<rparr>)"
      by (rule safe_loop_from [where P = "prefill_ok (gb_ops B) D width"], rule prefill_layer_safe [OF G D L])
        (use p h in \<open>auto simp: prefill_ok_def\<close>)
    then show ?thesis by simp
  qed
  have rest: "safe B (layers * 32) (language_fits (gb_ops B) D layers)
      (bind_build (loop_build (prefill_layer B P D w pos) [0..<layers] \<lparr>pl_hidden = h, pl_keys = [], pl_values = []\<rparr>) (\<lambda>p.
        bind_build (final_output B P w False (pl_hidden p)) (\<lambda>y.
          return_build \<lparr>pg0_host = None, pg0_pos = pos, pg0_y = y, pg0_keys = pl_keys p, pg0_values = pl_values p\<rparr>)))"
    if "stored (gb_ops B) [gd_tokens D, 1, 1, 1] pos \<and> tensor_type (gb_ops B) pos = GGML_TYPE_I32"
      "f32t (gb_ops B) [width, gd_tokens D, 1, 1] h" for pos h
    apply (rule safe_mono)
     apply (rule safe_bind, rule layers_ok [OF that])
     apply (rule safe_bind [where P = "\<lambda>y. y = None" and k = 0], simp add: final_output_def safe_return)
     apply (rule safe_return, use that in \<open>simp add: language_fits_def prefill_ok_def\<close>)
    apply simp
    done
  show ?thesis
    unfolding language_graph_def Let_def fst_conv snd_conv
    apply (rule safe_mono)
     apply (rule safe_then, rule none)
     apply (rule safe_then, rule first)
     apply (rule safe_then, rule second, assumption)
     apply (elim exE conjE, hypsubst)
     apply (rule safe_then, rule append_hidden_yields [OF G _ n(3)], assumption, blast)
     apply (elim exE conjE, hypsubst)
     apply (rule safe_then, rule last)
     apply (rule safe_then, rule node_inputs(1) [OF G pos pos])
     apply (hypsubst, simp only: option.case)
     apply (rule rest, blast, simp add: n)
    apply simp
    done
qed

subsection \<open>The cache\<close>

definition cache_sized :: "('t, 'm, 'r) pi0_device \<Rightarrow> 't pi0_model \<Rightarrow> nat \<Rightarrow> ('t, 'm, 'r) pi0_state \<Rightarrow> bool" where
  "cache_sized d M layers s \<longleftrightarrow> pi0_ok d M s \<and> length (st_k_layers s) = layers \<and> length (st_v_layers s) = layers"

lemma cache_sized_blind: "memory_blind (cache_sized d M layers)"
  by (simp add: memory_blind_def cache_sized_def)

lemma persist_layer_ok:
  assumes d: "device_laws d" and g: "language_fits (device_ggml d) D layers g" and D: "gemma_fits D" and i: "i < layers"
  shows "act_ok (pi0_ok d M) (cache_sized d M layers) (persist_layer d M D g i) (\<lambda>_. cache_sized d M layers)"
proof -
  let ?P = "cache_sized d M layers"
  have three: "pad4 (take 3 [gd_head_dim D, gd_kv_heads D, gd_tokens D]) = [gd_head_dim D, gd_kv_heads D, gd_tokens D, 1]"
    by (simp add: numeral_3_eq_3 pad4_def numeral_eq_Suc)
  have pos: "0 < gd_head_dim D" "0 < gd_kv_heads D" "0 < gd_tokens D" using D by (simp_all add: gemma_fits_def)
  have kv: "f32t (device_ggml d) [gd_head_dim D, gd_kv_heads D, gd_tokens D, 1] (pg0_keys g ! i)"
    "f32t (device_ggml d) [gd_head_dim D, gd_kv_heads D, gd_tokens D, 1] (pg0_values g ! i)"
    using g i by (auto simp: language_fits_def list_all_iff)
  have ok: "cache_sized d M layers s \<Longrightarrow> pi0_ok d M s" for s by (simp add: cache_sized_def)
  have k: "act_ok (pi0_ok d M) ?P (\<lambda>s. pi0_persist_backend_f32 d M (st_k_layers s ! i) (\<lambda>t s. s\<lparr>st_k_layers := (st_k_layers s)[i := Some t]\<rparr>)
       (pg0_keys g ! i) 3 (gd_head_dim D) (gd_kv_heads D) (gd_tokens D) s)
     (\<lambda>t s. ?P s \<and> f32t (device_ggml d) [gd_head_dim D, gd_kv_heads D, gd_tokens D, 1] t)"
    by (rule persist_backend_ok [where slot = "\<lambda>s. st_k_layers s ! i", OF d three pos _ _ ok pi0_ok_blind cache_sized_blind kv(1)])
      (use i in \<open>auto simp: cache_sized_def intro: pi0_ok_cached(3) pi0_ok_store(3) [OF _ f32t_cached]\<close>)
  have v: "act_ok (pi0_ok d M) ?P (\<lambda>s. pi0_persist_backend_f32 d M (st_v_layers s ! i) (\<lambda>t s. s\<lparr>st_v_layers := (st_v_layers s)[i := Some t]\<rparr>)
       (pg0_values g ! i) 3 (gd_head_dim D) (gd_kv_heads D) (gd_tokens D) s)
     (\<lambda>t s. ?P s \<and> f32t (device_ggml d) [gd_head_dim D, gd_kv_heads D, gd_tokens D, 1] t)"
    by (rule persist_backend_ok [where slot = "\<lambda>s. st_v_layers s ! i", OF d three pos _ _ ok pi0_ok_blind cache_sized_blind kv(2)])
      (use i in \<open>auto simp: cache_sized_def intro: pi0_ok_cached(4) pi0_ok_store(4) [OF _ f32t_cached]\<close>)
  show ?thesis
    unfolding persist_layer_def
    by (rule act_ok_bind [OF k], rule act_ok_facts, rule act_ok_bind [OF v], rule act_ok_facts, rule act_ok_return)
qed

lemma each_layer_ok: "(\<And>i. i \<in> set is \<Longrightarrow> act_ok J P (f i) (\<lambda>_. P)) \<Longrightarrow> act_ok J P (each_layer f is) (\<lambda>_. P)"
proof (induction "is")
  case Nil
  then show ?case unfolding each_layer.simps by (intro act_ok_return)
next
  case (Cons i "is")
  show ?case unfolding each_layer.simps by (rule act_ok_bind [OF Cons.prems Cons.IH]) (use Cons.prems in auto)
qed

lemma resize_cache_ok: "pi0_ok d M s \<Longrightarrow> cache_sized d M layers (resize_cache layers s)"
  by (auto simp: cache_sized_def pi0_ok_def cache_ok_def resize_cache_def resized_def dest: in_set_takeD)

definition llm_capacity :: "'t pi0_model \<Rightarrow> bool" where
  "llm_capacity M \<longleftrightarrow> 4 + 32 * nat (l0_layers (p0_llm (m0_pi0 (md_config M)))) \<le> ggml_default_graph_size"

lemma llm_capacity_room:
  "llm_capacity M \<longleftrightarrow> 4 + 32 * nat (l0_layers (p0_llm (m0_pi0 (md_config M)))) \<le> gb_capacity (device_builder d ''llm'')"
  by (simp add: llm_capacity_def device_capacity)

lemma prefill_language_ok:
  assumes d: "device_laws d" and w: "llm_weights_fit (device_ggml d) M" and cap: "llm_capacity M"
    and D: "gd_tokens D = m + n" "0 < m" "0 \<le> n" "gd_heads D mod gd_kv_heads D = 0"
      "gd_q_out D = l0_q_out (p0_llm (m0_pi0 (md_config M)))" "gd_kv_out D = l0_kv_out (p0_llm (m0_pi0 (md_config M)))"
    and t: "f32t (device_ggml d) [l0_width (p0_llm (m0_pi0 (md_config M))), m, 1, 1] t"
    and u: "0 < n \<Longrightarrow> \<exists>v. u = Some v \<and> f32t (device_ggml d) [l0_width (p0_llm (m0_pi0 (md_config M))), n, 1, 1] v"
  shows "act_ok (pi0_ok d M) (pi0_ok d M) (pi0_prefill_language_prefix_layers_batch d M [] (map int [0..<nat (m + n)]) D False (Some t, m) (u, n))
    (\<lambda>_. pi0_ok d M)" (is "act_ok ?J ?J ?m _")
proof -
  let ?l = "p0_llm (m0_pi0 (md_config M))" and ?B = "device_builder d ''llm''" and ?G = "device_ggml d"
  note G = device_ops [OF d]
  have L: "pi0_laws (gb_ops ?B) (dw_ops d)" using G by simp
  let ?fits = "language_fits ?G D (nat (l0_layers ?l))"
  let ?bad = "language_input_bad ?l [] (map int [0..<nat (m + n)]) D m n"
  have zero: "gd_tokens D - m - n = 0" using D(1) by simp
  have rest: "act_ok ?J (\<lambda>s. ?J s \<and> ?fits g)
     (bind_act (alloc_act d (graph_outputs g) ''pi0 language prefix graph allocation failed'') (\<lambda>_.
      bind_act (optional_set (dw_set_f32 d) (pg0_host g) []) (\<lambda>_.
      bind_act (memory_act (dw_set_i32 d (pg0_pos g) (map int [0..<nat (m + n)]))) (\<lambda>_.
      bind_act (compute_act d (graph_outputs g) ''ggml language prefix fused prefill graph compute failed'') (\<lambda>_.
      bind_act (case pg0_y g of None \<Rightarrow> act_return [] | Some y \<Rightarrow> read_act d y (nat (gd_tokens D) * nat (l0_width ?l))) (\<lambda>out.
      bind_act (act_modify (resize_cache (nat (l0_layers ?l)))) (\<lambda>_.
      bind_act (each_layer (persist_layer d M D g) [0..<nat (l0_layers ?l)]) (\<lambda>_. act_return out)))))))) (\<lambda>_. ?J)"
    if D': "gemma_fits D" for g
  proof (rule act_ok_facts)
    assume g: "?fits g"
    have set: "\<exists>x. dw_set_i32 d (pg0_pos g) (map int [0..<nat (m + n)]) y = Some x" for y
      by (rule device_sets(2) [OF d]) (use g D in \<open>auto simp: language_fits_def\<close>)
    have y: "pg0_y g = None" "pg0_host g = None" using g by (simp_all add: language_fits_def)
    have persist: "act_ok ?J (cache_sized d M (nat (l0_layers ?l))) (each_layer (persist_layer d M D g) [0..<nat (l0_layers ?l)])
        (\<lambda>_. cache_sized d M (nat (l0_layers ?l)))"
      by (rule each_layer_ok) (use persist_layer_ok [OF d g D'] in simp)
    show "act_ok ?J ?J
     (bind_act (alloc_act d (graph_outputs g) ''pi0 language prefix graph allocation failed'') (\<lambda>_.
      bind_act (optional_set (dw_set_f32 d) (pg0_host g) []) (\<lambda>_.
      bind_act (memory_act (dw_set_i32 d (pg0_pos g) (map int [0..<nat (m + n)]))) (\<lambda>_.
      bind_act (compute_act d (graph_outputs g) ''ggml language prefix fused prefill graph compute failed'') (\<lambda>_.
      bind_act (case pg0_y g of None \<Rightarrow> act_return [] | Some y \<Rightarrow> read_act d y (nat (gd_tokens D) * nat (l0_width ?l))) (\<lambda>out.
      bind_act (act_modify (resize_cache (nat (l0_layers ?l)))) (\<lambda>_.
      bind_act (each_layer (persist_layer d M D g) [0..<nat (l0_layers ?l)]) (\<lambda>_. act_return out)))))))) (\<lambda>_. ?J)"
      apply (rule act_ok_bind [OF act_ok_alloc], assumption)
      apply (rule act_ok_bind [OF act_ok_optional_set [OF pi0_ok_blind]], simp add: y)
      apply (rule act_ok_bind [OF act_ok_memory [OF pi0_ok_blind set]])
      apply (rule act_ok_bind [OF act_ok_compute [OF pi0_ok_blind]], assumption)
      apply (rule act_ok_bind [where Q = "\<lambda>_. ?J"], simp add: y act_ok_return)
      apply (rule act_ok_bind [OF act_ok_modify [where Q = "\<lambda>_. cache_sized d M (nat (l0_layers ?l))"]], erule resize_cache_ok)
      apply (rule act_ok_bind [OF persist])
      apply (rule act_ok_return, simp add: cache_sized_def)
      done
  qed
  have "act_ok ?J ?J (bind_act (graph_act ?B (language_graph ?B (dw_ops d) D (md_weights M) (l0_width ?l) (nat (l0_layers ?l)) (Some t, m) (u, n) 0 False)) (\<lambda>g.
      bind_act (alloc_act d (graph_outputs g) ''pi0 language prefix graph allocation failed'') (\<lambda>_.
      bind_act (optional_set (dw_set_f32 d) (pg0_host g) []) (\<lambda>_.
      bind_act (memory_act (dw_set_i32 d (pg0_pos g) (map int [0..<nat (m + n)]))) (\<lambda>_.
      bind_act (compute_act d (graph_outputs g) ''ggml language prefix fused prefill graph compute failed'') (\<lambda>_.
      bind_act (case pg0_y g of None \<Rightarrow> act_return [] | Some y \<Rightarrow> read_act d y (nat (gd_tokens D) * nat (l0_width ?l))) (\<lambda>out.
      bind_act (act_modify (resize_cache (nat (l0_layers ?l)))) (\<lambda>_.
      bind_act (each_layer (persist_layer d M D g) [0..<nat (l0_layers ?l)]) (\<lambda>_. act_return out))))))))) (\<lambda>_. ?J)"
    if good: "\<not> ?bad"
  proof -
    have D': "gemma_fits D" using good D by (simp add: language_input_bad_def gemma_fits_def Let_def not_le)
    have layers: "has_layer (gb_ops ?B) (l0_width ?l) (gd_q_out D) (gd_kv_out D) (l0_mlp_width ?l) (w0_llm_layers (md_weights M) ! i)"
      if "i < nat (l0_layers ?l)" for i
      using w that by (simp add: llm_weights_fit_def Let_def list_all_length D G(2))
    have graph: "safe ?B (4 + 32 * nat (l0_layers ?l)) ?fits
        (language_graph ?B (dw_ops d) D (md_weights M) (l0_width ?l) (nat (l0_layers ?l)) (Some t, m) (u, n) 0 False)"
      using language_graph_safe [OF L D' D(1-3) layers, unfolded G(2), OF _ t u] by simp
    show ?thesis
      by (rule act_ok_bind [OF act_ok_graph [OF graph cap [unfolded llm_capacity_room [of M d]]] rest [OF D']])
  qed
  then show ?thesis
    unfolding pi0_prefill_language_prefix_layers_batch_def Let_def fst_conv snd_conv zero
    by (intro act_ok_if act_ok_fail) simp_all
qed

end
