(* ===== verification/Pi0Prefill.thy ===== *)
theory Pi0Prefill
  imports Pi0PrefillProps
begin

text \<open>
  The whole prefill of an observation returns and keeps the cache well formed.
\<close>

lemma prefix_from_embeddings_ok:
  assumes d: "device_laws d" and w: "llm_weights_fit (device_ggml d) M" and cap: "llm_capacity M"
    and t: "f32t (device_ggml d) [l0_width (p0_llm (m0_pi0 (md_config M))), m, 1, 1] t" "0 < m"
    and v: "length v = h * nat (l0_width (p0_llm (m0_pi0 (md_config M))))"
    and bound: "c0_action_horizon (m0_common (md_config M)) + 1 + m + int h < 2 ^ 31" "0 < c0_action_horizon (m0_common (md_config M))"
  shows "act_ok (pi0_ok d M) (pi0_ok d M) (pi0_prefill_prefix_from_runtime_embeddings d M (Some t) m v h) (\<lambda>_. pi0_ok d M)"
    (is "act_ok ?J ?J _ _")
proof -
  let ?l = "p0_llm (m0_pi0 (md_config M))" and ?n = "m + int h" and ?G = "device_ggml d"
  define D where "D = \<lparr>gd_q_out = l0_q_out ?l, gd_kv_out = l0_kv_out ?l, gd_head_dim = l0_kv_out ?l, gd_heads = l0_q_out ?l div l0_kv_out ?l,
            gd_kv_heads = l0_kv_out ?l div l0_kv_out ?l, gd_tokens = ?n\<rparr>"
  have width: "0 < l0_width ?l" using dims_pos [OF f32t_imp(4) [OF t(1)]] by simp
  let ?prompt_ok = "\<lambda>p. 0 < int h \<longrightarrow> (\<exists>u. p = Some u \<and> f32t ?G [l0_width ?l, int h, 1, 1] u)"
  have prompt: "act_ok ?J ?J (if h > 0
             then bind_act (\<lambda>s. pi0_persist_host_f32_2d d M (st_prompt s) (\<lambda>t s. s\<lparr>st_prompt := Some t\<rparr>) (Some v) (l0_width ?l)
               (int h) s) (\<lambda>t. act_return (Some t))
             else act_return None) (\<lambda>p s. ?J s \<and> ?prompt_ok p)"
  proof (rule act_ok_if)
    assume h: "h > 0"
    have host: "act_ok ?J ?J (\<lambda>s. pi0_persist_host_f32_2d d M (st_prompt s) (\<lambda>t s. s\<lparr>st_prompt := Some t\<rparr>) (Some v) (l0_width ?l) (int h) s)
        (\<lambda>t s. ?J s \<and> f32t ?G [l0_width ?l, int h, 1, 1] t)"
      by (rule persist_host_ok [where slot = st_prompt, OF d width])
        (use h v in \<open>auto intro: pi0_ok_cached pi0_ok_store(2) [OF _ f32t_cached] pi0_ok_blind simp: mult.commute\<close>)
    show "act_ok ?J ?J (bind_act (\<lambda>s. pi0_persist_host_f32_2d d M (st_prompt s) (\<lambda>t s. s\<lparr>st_prompt := Some t\<rparr>) (Some v) (l0_width ?l)
               (int h) s) (\<lambda>t. act_return (Some t))) (\<lambda>p s. ?J s \<and> ?prompt_ok p)"
      by (rule act_ok_bind [OF host act_ok_return]) simp
  next
    assume "\<not> h > 0"
    then show "act_ok ?J ?J (act_return None) (\<lambda>p s. ?J s \<and> ?prompt_ok p)" by (intro act_ok_return) simp
  qed
  have rest: "act_ok ?J (\<lambda>s. ?J s \<and> ?prompt_ok p) (bind_act (pi0_prefill_language_prefix_layers_batch d M [] (map int [0..<nat ?n]) D False (Some t, m)
             (p, int h)) (\<lambda>_. act_modify (\<lambda>s. s\<lparr>st_token_count := nat ?n\<rparr>))) (\<lambda>_. ?J)" if kv: "0 < l0_kv_out ?l" for p
  proof (rule act_ok_facts)
    assume p: "?prompt_ok p"
    have lang: "act_ok ?J ?J (pi0_prefill_language_prefix_layers_batch d M [] (map int [0..<nat ?n]) D False (Some t, m) (p, int h)) (\<lambda>_. ?J)"
      by (rule prefill_language_ok [OF d w cap _ t(2) _ _ _ _ t(1)]) (use p kv in \<open>simp_all add: D_def\<close>)
    show "act_ok ?J ?J (bind_act (pi0_prefill_language_prefix_layers_batch d M [] (map int [0..<nat ?n]) D False (Some t, m)
             (p, int h)) (\<lambda>_. act_modify (\<lambda>s. s\<lparr>st_token_count := nat ?n\<rparr>))) (\<lambda>_. ?J)"
      by (rule act_ok_bind [OF lang act_ok_modify]) (use bound t(2) in \<open>auto simp: pi0_ok_def cache_ok_def\<close>)
  qed
  have fits: "fits_sint 32 ?n" "\<not> ?n \<le> 0" using bound t(2) by (simp_all add: fits_sint_def)
  show ?thesis
    unfolding pi0_prefill_prefix_from_runtime_embeddings_def Let_def D_def [symmetric]
    apply (simp only: fits if_False not_True_eq_False)
    apply (rule act_ok_if, rule act_ok_fail, assumption)
    apply (rule act_ok_bind [OF prompt rest], simp)
    done
qed

definition counts_fit :: "'t pi0_model \<Rightarrow> bool" where
  "counts_fit M \<longleftrightarrow>
     (let c = m0_common (md_config M) in
      0 < c0_action_horizon c \<and>
      c0_action_horizon c + 1 + int (length (c0_image_keys c)) * patch_count M + max 0 (c0_max_token_len c) < 2 ^ 31)"

definition obs_fits :: "'t pi0_model \<Rightarrow> pi0_observation \<Rightarrow> bool" where
  "obs_fits M obs \<longleftrightarrow> images_fit M (o0_images obs) \<and> length (o0_images obs) \<le> length (c0_image_keys (m0_common (md_config M))) \<and>
     o0_prompt_tokens obs = []"

lemma pi0_prefill_prefix_ok:
  assumes d: "device_laws d" and w: "vision_weights_fit (device_ggml d) M" "text_weights_fit (device_ggml d) M" "llm_weights_fit (device_ggml d) M"
    and cap: "vision_capacity M" "llm_capacity M" and counts: "counts_fit M" and obs: "obs_fits M obs"
  shows "act_ok (pi0_ok d M) (pi0_ok d M) (pi0_prefill_prefix d M obs) (\<lambda>_. pi0_ok d M)" (is "act_ok ?J ?J _ _")
proof -
  let ?c = "m0_common (md_config M)" and ?G = "device_ggml d"
  have reset: "act_ok ?J ?J (act_modify kv_reset) (\<lambda>_. ?J)"
    by (rule act_ok_modify) (auto simp: pi0_ok_def cache_ok_def kv_reset_def)
  have patches: "0 < patch_count M"
  proof -
    have "has_tensor ?G (w0_vit_pos (md_weights M)) [v0_width (p0_vision (m0_pi0 (md_config M))), patch_count M]"
      using w(1) by (simp add: vision_weights_fit_def Let_def)
    then obtain t where "dims ?G [v0_width (p0_vision (m0_pi0 (md_config M))), patch_count M, 1, 1] t" by (auto simp: has_tensor_def stored_def)
    from dims_pos [OF this] show ?thesis by simp
  qed
  have images: "int (length (o0_images obs)) * patch_count M \<le> int (length (c0_image_keys ?c)) * patch_count M"
    using obs patches by (simp add: obs_fits_def)
  note C = counts [unfolded counts_fit_def Let_def]
  have max_len: "c0_max_token_len ?c < 2 ^ 31" and few: "int (length (o0_images obs)) * patch_count M < 2 ^ 31"
  proof -
    have "0 \<le> int (length (c0_image_keys ?c)) * patch_count M" using patches by simp
    with C images show "c0_max_token_len ?c < 2 ^ 31" "int (length (o0_images obs)) * patch_count M < 2 ^ 31" by linarith+
  qed
  have three: "3 \<le> gb_capacity (device_builder d ''llm'')" by (simp add: device_capacity ggml_default_graph_size_def)
  have embed: "act_ok ?J ?J (pi0_embed_prompt d M (o0_prompt obs))
    (\<lambda>x s. ?J s \<and> length (fst x) = snd x * nat (l0_width (p0_llm (m0_pi0 (md_config M)))) \<and> int (snd x) \<le> max 0 (c0_max_token_len ?c))"
    by (rule act_ok_weaken [OF embed_prompt_ok [OF d w(2) three pi0_ok_blind _ max_len]]) auto
  have whole: "act_ok ?J ?J (bind_act (pi0_encode_vision_prefix d M (o0_images obs)) (\<lambda>(vision, vision_tokens).
         bind_act (pi0_embed_prompt d M (o0_prompt obs)) (\<lambda>(prompt_embeddings, prompt_tokens).
           pi0_prefill_prefix_from_runtime_embeddings d M vision vision_tokens prompt_embeddings prompt_tokens))) (\<lambda>_. ?J)"
    if go: "pi0_has_vision_prefix M" "o0_images obs \<noteq> []"
  proof -
    have encoder: "pi0_has_vision_encoder M" using go(1) by (simp add: pi0_has_vision_prefix_def)
    have vision: "act_ok ?J ?J (pi0_encode_vision_prefix d M (o0_images obs))
      (\<lambda>x s. ?J s \<and> (snd x = int (length (o0_images obs)) * patch_count M \<and> 0 < snd x \<and>
        (\<exists>u. fst x = Some u \<and> f32t ?G [l0_width (p0_llm (m0_pi0 (md_config M))), snd x, 1, 1] u)))"
      by (rule act_ok_weaken [OF encode_vision_ok [OF d w(1) cap(1) go(2) _ encoder few]]) (use obs in \<open>auto simp: obs_fits_def\<close>)
    show ?thesis
      unfolding split_beta
    proof (rule act_ok_bind [OF vision act_ok_facts])
      fix x assume x: "snd x = int (length (o0_images obs)) * patch_count M \<and> 0 < snd x \<and>
        (\<exists>u. fst x = Some u \<and> f32t ?G [l0_width (p0_llm (m0_pi0 (md_config M))), snd x, 1, 1] u)"
      then obtain u where u: "fst x = Some u" "f32t ?G [l0_width (p0_llm (m0_pi0 (md_config M))), snd x, 1, 1] u" by blast
      show "act_ok ?J ?J (bind_act (pi0_embed_prompt d M (o0_prompt obs)) (\<lambda>y.
           pi0_prefill_prefix_from_runtime_embeddings d M (fst x) (snd x) (fst y) (snd y))) (\<lambda>_. ?J)"
      proof (rule act_ok_bind [OF embed act_ok_facts])
        fix y :: "f32 list \<times> nat" assume y: "length (fst y) = snd y * nat (l0_width (p0_llm (m0_pi0 (md_config M)))) \<and> int (snd y) \<le> max 0 (c0_max_token_len ?c)"
        show "act_ok ?J ?J (pi0_prefill_prefix_from_runtime_embeddings d M (fst x) (snd x) (fst y) (snd y)) (\<lambda>_. ?J)"
          unfolding u(1)
          by (rule prefix_from_embeddings_ok [OF d w(3) cap(2) u(2)]) (use x y C images in \<open>simp_all\<close>)
      qed
    qed
  qed
  have tokens: "o0_prompt_tokens obs = []" using obs by (simp add: obs_fits_def)
  have rest: "act_ok ?J ?J (if pi0_has_vision_prefix M \<and> pi0_has_language_prefix M \<and> o0_images obs \<noteq> [] then
         bind_act (pi0_encode_vision_prefix d M (o0_images obs)) (\<lambda>(vision, vision_tokens).
         bind_act (pi0_embed_prompt d M (o0_prompt obs)) (\<lambda>(prompt_embeddings, prompt_tokens).
           pi0_prefill_prefix_from_runtime_embeddings d M vision vision_tokens prompt_embeddings prompt_tokens))
       else act_return ()) (\<lambda>_. ?J)"
    by (rule act_ok_if, rule whole, blast, blast, rule act_ok_return)
  show ?thesis
    unfolding pi0_prefill_prefix_def tokens
    using act_ok_bind [OF reset rest] by (simp only: simp_thms if_False)
qed

end
