(* ===== verification/Pi0LoadProps.thy ===== *)
theory Pi0LoadProps
  imports Pi0Load
begin

text \<open>
  What holds after the files of a Pi0 model have been loaded, and after loading has failed.
\<close>

subsection \<open>What loading establishes\<close>






lemma merged_common [simp]: "m0_common (merge_pi0_role_config base current role) = m0_common base"
  by (simp add: merge_pi0_role_config_def Let_def)



subsection \<open>Handles\<close>

lemma held_tagged:
  assumes "held hs log = Some hs'" "\<And>r. (pass, role, r) \<notin> ctx"
  shows "held ((\<lambda>r. (pass, role, r)) ` hs \<union> ctx) (tagged pass role log) = Some ((\<lambda>r. (pass, role, r)) ` hs' \<union> ctx)"
  using assms(1)
proof (induction hs log rule: held.induct)
  case (2 hs r log)
  then have "held (insert (pass, role, r) ((\<lambda>r. (pass, role, r)) ` hs \<union> ctx)) (tagged pass role log) =
      Some ((\<lambda>r. (pass, role, r)) ` hs' \<union> ctx)" by (simp add: tagged_def split: if_splits)
  with 2 assms(2) show ?case by (auto simp: tagged_def split: if_splits)
next
  case (3 hs r log)
  have "(\<lambda>r. (pass, role, r)) ` hs \<union> ctx - {(pass, role, r)} = (\<lambda>r. (pass, role, r)) ` (hs - {r}) \<union> ctx"
    using assms(2) by auto
  with 3 show ?case by (auto simp: tagged_def split: if_splits)
qed (simp_all add: tagged_def)

text \<open>Each pointer is null or holds the resource of its kind.\<close>

definition own_kinds :: "handles \<Rightarrow> bool" where
  "own_kinds h \<longleftrightarrow> set_option (hd_gguf h) \<subseteq> {Gguf_context} \<and> set_option (hd_ctx_data h) \<subseteq> {Data_context} \<and>
     set_option (hd_model_buffer h) \<subseteq> {Model_buffer}"

lemma own_kinds_null [simp]: "own_kinds no_handles" "handle_set no_handles = {}"
  by (simp_all add: own_kinds_def no_handles_def handle_set_def)

lemma freed_handles:
  assumes "own_kinds h"
  shows "fst (free_pi0_loaded_component h log) = no_handles"
    "held {} log = Some (handle_set h) \<Longrightarrow> held {} (snd (free_pi0_loaded_component h log)) = Some {}"
  using assms
  by (cases "hd_gguf h"; cases "hd_ctx_data h"; cases "hd_model_buffer h";
      auto simp: free_pi0_loaded_component_def own_kinds_def handle_set_def held_append Let_def insert_Diff_if)+

lemma free_component_held:
  "own_kinds h \<Longrightarrow> held (handle_set h) (snd (free_pi0_loaded_component h [])) = Some {}"
  by (cases "hd_gguf h"; cases "hd_ctx_data h"; cases "hd_model_buffer h")
    (auto simp: free_pi0_loaded_component_def own_kinds_def handle_set_def insert_Diff_if)

text \<open>What the members of the components hold together.\<close>

definition member_set :: "(string \<times> handles) list \<Rightarrow> pi0_handle set" where
  "member_set members = (\<Union>(role, h) \<in> set members. (\<lambda>r. (Tensor_pass, role, r)) ` handle_set h)"

lemma member_set_simps [simp]:
  "member_set [] = {}" "member_set ((role, h) # members) = (\<lambda>r. (Tensor_pass, role, r)) ` handle_set h \<union> member_set members"
  "member_set (members @ members') = member_set members \<union> member_set members'"
  by (auto simp: member_set_def)

lemma member_set_role: "role \<notin> fst ` set members \<Longrightarrow> (Tensor_pass, role, r) \<notin> member_set members"
  by (force simp: member_set_def)

lemma destroy_held:
  assumes "distinct (map fst members)" "list_all (own_kinds \<circ> snd) members"
    and "\<And>role r. role \<in> fst ` set members \<Longrightarrow> (Tensor_pass, role, r) \<notin> ctx"
  shows "held (member_set members \<union> ctx) (destroy_components members) = Some ctx"
  using assms
proof (induction members arbitrary: ctx)
  case (Cons m members)
  obtain role h where m: "m = (role, h)" by (cases m)
  let ?own = "(\<lambda>r. (Tensor_pass, role, r)) ` handle_set h"
  have "held (member_set members \<union> (?own \<union> ctx)) (destroy_components members) = Some (?own \<union> ctx)"
    using Cons.prems by (intro Cons.IH) (auto simp: m)
  moreover have "held (?own \<union> ctx) (tagged Tensor_pass role (snd (free_pi0_loaded_component h []))) = Some ctx"
    using held_tagged [OF free_component_held [of h], of Tensor_pass role ctx] Cons.prems by (simp add: m)
  ultimately show ?case by (simp add: m held_append Un_ac)
qed simp

lemma load_component_live:
  "case load_component_tensors env path role has_buft of
     (None, h, log) \<Rightarrow> True
   | (Some (Inl e), h, log) \<Rightarrow> h = no_handles \<and> held {} log = Some {}
   | (Some (Inr c), h, log) \<Rightarrow> own_kinds h \<and> hd_gguf h = Some Gguf_context \<and> held {} log = Some (handle_set h)"
proof -
  let ?names = "case pe_open env path of None \<Rightarrow> [] | Some f \<Rightarrow> pf_tensor_names f"
  obtain r l where run: "gguf_load (pe_platform env role) (\<lambda>g. Some (parse_pi0_gguf_metadata g default_model_config))
      (pi0_bind_tensors (pe_is_quantized env) ?names) (pe_open env) (Some path) has_buft = (r, l)" by fastforce
  note live = gguf_load_live [of "pe_platform env role" "\<lambda>g. Some (parse_pi0_gguf_metadata g default_model_config)"
      "pi0_bind_tensors (pe_is_quantized env) ?names" "pe_open env" "Some path" has_buft, unfolded run]
  show ?thesis
  proof (cases r rule: read_all_cases)
    case (3 out)
    then have own: "own_kinds (gl_handles out)" "hd_gguf (gl_handles out) = Some Gguf_context"
      "held {} (lv_log l) = Some (handle_set (gl_handles out))" using live by (auto simp: own_kinds_def)
    obtain h log where freed: "free_pi0_loaded_component (gl_handles out) (lv_log l) = (h, log)" by fastforce
    then have "h = no_handles" "held {} log = Some {}" using freed_handles [OF own(1), of "lv_log l"] own(3) by simp_all
    then show ?thesis
      using own by (cases "check_role role (gl_config out)") (simp_all add: load_component_tensors_def Let_def run 3 freed)
  qed (use live in \<open>auto simp: load_component_tensors_def Let_def run\<close>)
qed



text \<open>The state of the members between two files: distinct roles, own handles, and nothing else held.\<close>

definition members_hold :: "(string \<times> handles) list \<Rightarrow> pi0_handle event list \<Rightarrow> bool" where
  "members_hold members log \<longleftrightarrow> distinct (map fst members) \<and> list_all (own_kinds \<circ> snd) members \<and>
     held {} log = Some (member_set members)"

lemma members_hold_next:
  assumes "members_hold members log" "role \<notin> fst ` set members" "own_kinds h" "held {} l = Some (handle_set h)"
  shows "members_hold (members @ [(role, h)]) (log @ tagged Tensor_pass role l)"
proof -
  have "held (member_set members) (tagged Tensor_pass role l) =
      Some ((\<lambda>r. (Tensor_pass, role, r)) ` handle_set h \<union> member_set members)"
    using held_tagged [OF assms(4), of Tensor_pass role "member_set members"] member_set_role [OF assms(2)] by simp
  then show ?thesis using assms by (auto simp: members_hold_def held_append Un_commute)
qed

lemma load_all_held:
  assumes "load_all load xs loaded members log = (r, members', log')" "r \<noteq> None" "members_hold members log"
    and "distinct (map fst members @ map fst xs)"
    and "\<And>x. x \<in> set xs \<Longrightarrow> (case load x of (None, h, log) \<Rightarrow> True
      | (Some (Inl e), h, log) \<Rightarrow> h = no_handles \<and> held {} log = Some {}
      | (Some (Inr c), h, log) \<Rightarrow> own_kinds h \<and> hd_gguf h = Some Gguf_context \<and> held {} log = Some (handle_set h))"
  shows "members_hold members' log' \<and> (\<forall>all. r = Some (Inr all) \<longrightarrow> map fst members' = map fst members @ map fst xs \<and>
    (list_all (\<lambda>m. hd_gguf (snd m) = Some Gguf_context) members \<longrightarrow>
     list_all (\<lambda>m. hd_gguf (snd m) = Some Gguf_context) members'))"
  using assms
proof (induction xs arbitrary: loaded members log)
  case (Cons x xs)
  obtain q h l where x: "load x = (q, h, l)" by (cases "load x")
  have role: "fst x \<notin> fst ` set members" using Cons.prems(4) by auto
  note holds = Cons.prems(5) [of x, unfolded x]
  show ?case
  proof (cases q rule: read_all_cases)
    case 1
    then show ?thesis using Cons.prems(1,2) by (simp add: x)
  next
    case (2 e)
    then show ?thesis
      using members_hold_next [OF Cons.prems(3) role, of h l] holds Cons.prems(1) by (auto simp: x)
  next
    case (3 c)
    then have h: "own_kinds h" "hd_gguf h = Some Gguf_context" "held {} l = Some (handle_set h)" using holds by auto
    have run: "load_all load xs (loaded @ [(fst x, c)]) (members @ [(fst x, h)]) (log @ tagged Tensor_pass (fst x) l) = (r, members', log')"
      using Cons.prems(1) by (simp add: x 3)
    show ?thesis
      using Cons.IH [OF run Cons.prems(2) members_hold_next [OF Cons.prems(3) role h(1,3)]] Cons.prems(4,5) h(2) by auto
  qed
qed auto

lemma destroy_null: "list_all (\<lambda>m. snd m = no_handles) members \<Longrightarrow> destroy_components members = []"
  by (induction members rule: destroy_components.induct)
    (simp_all add: free_pi0_loaded_component_def no_handles_def tagged_def)

lemma move_to_null:
  assumes "length targets = length members" "list_all (\<lambda>m. snd m = no_handles) targets"
  shows "move_components targets members = (members, [])"
proof -
  have move: "move_component no_handles other = (other, no_handles, [])" for other
    by (simp add: move_component_def free_pi0_loaded_component_def no_handles_def)
  have "map (\<lambda>((_, target), role, other). (role, move_component target other)) (zip targets members) =
      map (\<lambda>(role, other). (role, other, no_handles, [])) members"
    using assms by (induction targets members rule: list_induct2) (auto simp: move)
  then show ?thesis
    by (auto simp: move_components_def comp_def case_prod_unfold tagged_def list_all_iff intro!: destroy_null)
qed

lemma read_metadata_held: "held {} (snd (read_component_metadata env path role)) = Some {}"
  by (simp add: read_component_metadata_def Let_def insert_Diff_if split: option.splits)

lemma merge_component_held: "held {} (snd (merge_component_config env path role config)) = Some {}"
  using held_tagged [OF read_metadata_held [of env path role], of Metadata_pass role "{}"]
  by (cases "read_component_metadata env path role") (simp add: merge_component_config_def split: sum.splits)

lemma merge_all_held: "held {} (snd (merge_all env xs config)) = Some {}"
proof (induction env xs config rule: merge_all.induct)
  case (2 env role path rest config)
  then show ?case
    using merge_component_held [of env path role config] by (auto simp: held_append split: sum.splits prod.splits)
qed simp

lemma component_load_roles:
  "map fst (component_loads paths bufts) = [''vit'', ''mmproj'', ''llm'', ''state'', ''action_decoder'']"
  by (simp add: component_loads_def)

subsection \<open>Properties\<close>



text \<open>C39. Loading a Pi0 model leaks nothing and frees nothing twice.  Over all its passes, the metadata pass of each of the
  six files and the tensor pass of five, every handle is released at most once and only while it is held; after an
  error, wherever it came up, nothing is held; after a success exactly the handles of the five components are held,
  each of them with its metadata.\<close>

theorem pi0_load_frees:
  "case load_pi0_components env paths base_threads of
     (None, _) \<Rightarrow> True
   | (Some (Inl e), owned, log) \<Rightarrow> owned = [] \<and> held {} log = Some {}
   | (Some (Inr (config, components)), owned, log) \<Rightarrow> held {} log = Some (member_set owned) \<and>
       map fst owned = component_roles \<and> list_all (\<lambda>m. hd_gguf (snd m) = Some Gguf_context) owned"
proof -
  let ?load = "\<lambda>(role, path, has_buft). load_component_tensors env path role has_buft"
  obtain merged log where merge: "merge_all env (role_paths paths) None = (merged, log)" by fastforce
  have log: "members_hold [] log"
    using merge_all_held [of env "role_paths paths" None] by (simp add: merge members_hold_def)
  have frees: "held {} (log' @ destroy_components members) = Some {}" if "members_hold members log'" for members log'
    using that destroy_held [of members "{}"] by (simp add: members_hold_def held_append)
  have live: "case ?load x of (None, h, log) \<Rightarrow> True
      | (Some (Inl e), h, log) \<Rightarrow> h = no_handles \<and> held {} log = Some {}
      | (Some (Inr c), h, log) \<Rightarrow> own_kinds h \<and> hd_gguf h = Some Gguf_context \<and> held {} log = Some (handle_set h)" for x
  proof -
    obtain role path has_buft where x: "x = (role, path, has_buft)" by (cases x)
    show ?thesis using load_component_live [of env path role has_buft] by (simp only: x prod.case)
  qed
  have loads: "members_hold members log' \<and> (\<forall>all. r = Some (Inr all) \<longrightarrow>
      map fst members = component_roles \<and> list_all (\<lambda>m. hd_gguf (snd m) = Some Gguf_context) members)"
    if "load_all ?load (component_loads paths bufts) [] [] log = (r, members, log')" "r \<noteq> None" for bufts r members log'
    using load_all_held [OF that(1,2) log _ live] by (simp add: component_load_roles component_roles_def)
  have moved: "move_components (map (\<lambda>role. (role, no_handles)) component_roles) members = (members, [])"
    if "map fst members = component_roles" for members
    using that by (intro move_to_null) (metis length_map, simp add: list_all_iff)
  have empty: "held {} log = Some {}" using log by (simp add: members_hold_def)
  have holds: "held {} log' = Some (member_set members)" if "members_hold members log'" for members log'
    using that by (simp add: members_hold_def)
  show ?thesis
    using empty
    by (auto simp: load_pi0_components_def merge Let_def frees holds moved dest!: loads split: sum.splits option.splits prod.splits)
qed

end
