(* ===== verification/Pi0Model.thy ===== *)
theory Pi0Model
  imports Pi0Prefill Pi0LoadProps ModelApi
begin

text \<open>
  The Pi0 engine (\<^verbatim>\<open>src/models/pi0/pi0_engine.cpp\<close>) and the model around it (\<^verbatim>\<open>pi0_model.cpp\<close>).  The C interface
  writes its errors to a log and returns an empty result; the model turns that into one error text.
\<close>

subsection \<open>The engine\<close>

text \<open>What the tokenizer file is for llama.cpp.\<close>

datatype tokenizer_file = Unreadable | Without_vocabulary | With_vocabulary

text \<open>The files and backends, the device with its tensors by component and name, and its memory after loading; the
  tokenizer files; the generator from a seed, and a random seed; what the clock measures.\<close>

record ('d, 'b, 'f, 's, 't, 'm, 'r) pi0_world =
  pw_env :: "('d, 'b, 'f, 's) pi0_env"
  pw_device :: "('t, 'm, 'r) pi0_device"
  pw_tensor :: "string \<Rightarrow> string \<Rightarrow> 't option"
  pw_memory :: 'm
  pw_tokenizer :: "string \<Rightarrow> tokenizer_file"
  pw_seed :: "u32 \<Rightarrow> 'r"
  pw_random :: u32
  pw_elapsed :: "string \<Rightarrow> f64"

record pi0_params =
  q0_paths :: pi0_component_paths
  q0_n_threads :: int
  q0_noise_seed :: int
  q0_verbosity :: int

definition pi0_default_params :: pi0_params where
  "pi0_default_params = \<lparr>q0_paths = \<lparr>pp_vit = [], pp_mmproj = [], pp_llm = [], pp_tokenizer = [], pp_state = [],
     pp_action_decoder = []\<rparr>, q0_n_threads = 0, q0_noise_seed = - 1, q0_verbosity = 1\<rparr>"

definition seed_from_params :: "('d, 'b, 'f, 's, 't, 'm, 'r) pi0_world \<Rightarrow> pi0_params \<Rightarrow> u32" where
  "seed_from_params w params = (if q0_noise_seed params \<ge> 0 then word_of_int (q0_noise_seed params) else pw_random w)"

text \<open>The constructor of \<open>Pi0Tokenizer\<close>.\<close>

definition new_tokenizer :: "('d, 'b, 'f, 's, 't, 'm, 'r) pi0_world \<Rightarrow> string \<Rightarrow> bool res" where
  "new_tokenizer w path =
     (if path = [] then Inl ''missing pi0 tokenizer GGUF path''
      else case pw_tokenizer w path of
        Unreadable \<Rightarrow> Inl (''failed to load pi0 tokenizer GGUF: '' @ path)
      | Without_vocabulary \<Rightarrow> Inl (''pi0 tokenizer GGUF is missing llama vocabulary: '' @ path)
      | With_vocabulary \<Rightarrow> Inr True)"

definition has_scheduler :: "('b, 'f, 's) pi0_components \<Rightarrow> string \<Rightarrow> bool" where
  "has_scheduler components role \<longleftrightarrow>
     (case map_of (pk_runtimes components) role of None \<Rightarrow> False | Some rt \<Rightarrow> lb_scheduler (pr_backends rt) \<noteq> None)"

text \<open>\<open>pi0_context\<close>: the model, the number of steps, and the state.\<close>

record ('t, 'm, 'r) pi0_context =
  x0_model :: "'t pi0_model"
  x0_flow_steps :: int
  x0_state :: "('t, 'm, 'r) pi0_state"

definition new_context ::
  "('d, 'b, 'f, 's, 't, 'm, 'r) pi0_world \<Rightarrow> pi0_model_config \<Rightarrow> ('b, 'f, 's) pi0_components \<Rightarrow> bool \<Rightarrow> u32 \<Rightarrow> ('t, 'm, 'r) pi0_context"
where
  "new_context w config components vocab seed =
     \<lparr>x0_model = \<lparr>md_config = config, md_weights = build_pi0_weights config (pw_tensor w), md_sched = has_scheduler components,
        md_vocab = vocab\<rparr>,
      x0_flow_steps = 10,
      x0_state = \<lparr>st_token_count = 0, st_k_layers = [], st_v_layers = [], st_vision = None, st_prompt = None, st_allocated = [],
        st_memory = pw_memory w, st_rng = pw_seed w seed, st_actions = []\<rparr>\<rparr>"

text \<open>\<open>pi0_init\<close>: \<open>Inr None\<close> is the null pointer, whatever the error.\<close>

definition pi0_init :: "('d, 'b, 'f, 's, 't, 'm, 'r) pi0_world \<Rightarrow> pi0_params \<Rightarrow> ('t, 'm, 'r) pi0_context option option" where
  "pi0_init w params =
     (case load_pi0_components (pw_env w) (q0_paths params) (q0_n_threads params) of
        (None, _) \<Rightarrow> None
      | (Some (Inl e), _) \<Rightarrow> Some None
      | (Some (Inr (config, components)), _) \<Rightarrow>
          (case new_tokenizer w (pp_tokenizer (q0_paths params)) of
             Inl e \<Rightarrow> Some None
           | Inr vocab \<Rightarrow> Some (Some (new_context w config components vocab (seed_from_params w params)))))"

record pi0_result =
  u0_actions :: "f32 list option"
  u0_chunk_size :: int
  u0_action_dim :: int

definition empty_result :: pi0_result where
  "empty_result = \<lparr>u0_actions = None, u0_chunk_size = 0, u0_action_dim = 0\<rparr>"

text \<open>What happens inside the \<open>try\<close> block.\<close>

definition predict_observation ::
  "('t, 'm, 'r) pi0_device \<Rightarrow> 't pi0_model \<Rightarrow> int \<Rightarrow> pi0_observation \<Rightarrow> (unit, ('t, 'm, 'r) pi0_state) act"
where
  "predict_observation d M flow_steps obs =
     bind_act (pi0_prefill_prefix d M obs) (\<lambda>_.
     bind_act (pi0_state_context d M (o0_state obs)) (\<lambda>state_context.
       pi0_sample_actions d M flow_steps state_context (o0_noise obs)))"

definition with_state ::
  "('a run \<times> ('t, 'm, 'r) pi0_state) \<Rightarrow> ('t, 'm, 'r) pi0_context \<Rightarrow> 'a run \<times> ('t, 'm, 'r) pi0_context"
where
  "with_state r ctx = (fst r, ctx\<lparr>x0_state := snd r\<rparr>)"

definition raw_observation :: "model_image list \<Rightarrow> f32 list option \<Rightarrow> string \<Rightarrow> pi0_raw_observation" where
  "raw_observation imgs state task =
     \<lparr>r0_images = map (\<lambda>i. \<lparr>r0_name = Some (c_str (mi_name i)), r0_data = mi_data i, r0_width = mi_width i,
        r0_height = mi_height i, r0_channels = mi_channels i, r0_stride_bytes = mi_stride i\<rparr>) imgs,
      r0_state = state, r0_prompt = Some (c_str task), r0_prompt_tokens = None, r0_noise = None\<rparr>"

text \<open>A result is written only when the \<open>try\<close> block ends.\<close>

definition pi0_predict_raw_rgb ::
  "('t, 'm, 'r) pi0_device \<Rightarrow> model_image list \<Rightarrow> f32 list option \<Rightarrow> string \<Rightarrow> ('t, 'm, 'r) pi0_context \<Rightarrow>
     pi0_result option \<times> ('t, 'm, 'r) pi0_context"
where
  "pi0_predict_raw_rgb d imgs state task ctx =
     (let M = x0_model ctx; c = m0_common (md_config M) in
      case validate_and_preprocess_pi0 (md_config M) (raw_observation imgs state task) of
        None \<Rightarrow> (None, ctx)
      | Some (Inl e) \<Rightarrow> (Some empty_result, ctx)
      | Some (Inr obs) \<Rightarrow>
          (case with_state (predict_observation d M (x0_flow_steps ctx) obs (x0_state ctx)) ctx of
             (None, ctx) \<Rightarrow> (None, ctx)
           | (Some (Inl e), ctx) \<Rightarrow> (Some empty_result, ctx)
           | (Some (Inr _), ctx) \<Rightarrow>
               (Some \<lparr>u0_actions = (if st_actions (x0_state ctx) = [] then None else Some (st_actions (x0_state ctx))),
                 u0_chunk_size = c0_action_horizon c, u0_action_dim = c0_action_dim c\<rparr>, ctx)))"

definition pi0_reset :: "('t, 'm, 'r) pi0_context \<Rightarrow> ('t, 'm, 'r) pi0_context" where
  "pi0_reset ctx = ctx\<lparr>x0_state := kv_reset (x0_state ctx)\<rparr>"

subsection \<open>The model\<close>

definition validate_options :: "model_args \<Rightarrow> unit res" where
  "validate_options args =
     (if ma_vit_path args = [] then Inl ''Pi0 vit_path is required''
      else if ma_mmproj_path args = [] then Inl ''Pi0 mmproj_path is required''
      else if ma_llm_path args = [] then Inl ''Pi0 llm_path is required''
      else if ma_tokenizer_path args = [] then Inl ''Pi0 tokenizer_path is required''
      else if ma_state_path args = [] then Inl ''Pi0 state_path is required''
      else if ma_action_decoder_path args = [] then Inl ''Pi0 action_decoder_path is required''
      else Inr ())"

text \<open>The constructor; the object is its context, which may be null.\<close>

definition params_of :: "model_args \<Rightarrow> pi0_params" where
  "params_of args = pi0_default_params\<lparr>q0_paths := \<lparr>pp_vit = c_str (ma_vit_path args), pp_mmproj = c_str (ma_mmproj_path args),
       pp_llm = c_str (ma_llm_path args), pp_tokenizer = c_str (ma_tokenizer_path args), pp_state = c_str (ma_state_path args),
       pp_action_decoder = c_str (ma_action_decoder_path args)\<rparr>,
     q0_n_threads := ma_threads args, q0_noise_seed := ma_noise_seed args, q0_verbosity := ma_verbosity args\<rparr>"

definition new_pi0_model :: "('d, 'b, 'f, 's, 't, 'm, 'r) pi0_world \<Rightarrow> model_args \<Rightarrow> ('t, 'm, 'r) pi0_context option option" where
  "new_pi0_model w args = pi0_init w (params_of args)"

definition is_ready :: "('t, 'm, 'r) pi0_context option \<Rightarrow> bool" where
  "is_ready ctx \<longleftrightarrow> ctx \<noteq> None"

definition make_pi0_model :: "('d, 'b, 'f, 's, 't, 'm, 'r) pi0_world \<Rightarrow> model_args \<Rightarrow> ('t, 'm, 'r) pi0_context option run" where
  "make_pi0_model w args =
     (case validate_options args of
        Inl e \<Rightarrow> Some (Inl e)
      | Inr _ \<Rightarrow>
          (case new_pi0_model w args of
             None \<Rightarrow> None
           | Some model \<Rightarrow> if \<not> is_ready model then Some (Inl ''failed to initialize Pi0 model'') else Some (Inr model)))"

definition pi0_model_type :: "('t, 'm, 'r) pi0_context option \<Rightarrow> string" where
  "pi0_model_type ctx = ''pi0''"

definition pi0_metrics :: "(string \<times> string) list" where
  "pi0_metrics = [(''preprocess_ms'', ''preprocess''), (''prefix_ms'', ''prefix''), (''state_ms'', ''state''),
     (''denoise_ms'', ''denoise''), (''output_ms'', ''output''), (''model_total_ms'', ''total'')]"

fun check_views :: "model_image list \<Rightarrow> unit res" where
  "check_views [] = Inr ()"
| "check_views (i # is) =
     (if mi_name i = [] then Inl ''Pi0 image name is required''
      else if mi_data i = None then Inl ''Pi0 image data is null''
      else check_views is)"

text \<open>Copying the actions reads as many values as the sizes announce.\<close>

definition pi0_model_predict ::
  "('d, 'b, 'f, 's, 't, 'm, 'r) pi0_world \<Rightarrow> observation \<Rightarrow> (model_result, ('t, 'm, 'r) pi0_context option) act"
where
  "pi0_model_predict w obs model =
     (case model of
        None \<Rightarrow> (Some (Inl ''Pi0 model is not initialized''), model)
      | Some ctx \<Rightarrow>
          if ob_noise obs \<noteq> [] then (Some (Inl ''Pi0 does not accept explicit initial noise''), model)
          else if ob_images obs = [] then (Some (Inl ''Pi0 requires at least one image''), model)
          else case check_views (ob_images obs) of
            Inl e \<Rightarrow> (Some (Inl e), model)
          | Inr _ \<Rightarrow>
              (case pi0_predict_raw_rgb (pw_device w) (ob_images obs) (if ob_state obs = [] then None else Some (ob_state obs))
                  (ob_task obs) ctx of
                 (None, ctx) \<Rightarrow> (None, Some ctx)
               | (Some result, ctx) \<Rightarrow>
                   (case u0_actions result of
                      None \<Rightarrow> (Some (Inl ''pi0_predict_raw_rgb failed''), Some ctx)
                    | Some actions \<Rightarrow>
                        let n = size_cast (u0_chunk_size result) * size_cast (u0_action_dim result) mod 2 ^ 64 in
                        if length actions < n then (None, Some ctx)
                        else (Some (Inr \<lparr>mr_actions = take n actions, mr_chunk_size = u0_chunk_size result,
                            mr_action_dim = u0_action_dim result,
                            mr_metrics = map (\<lambda>(name, stage). \<lparr>mm_name = name, mm_value = pw_elapsed w stage\<rparr>) pi0_metrics\<rparr>),
                          Some ctx))))"

definition pi0_model_reset :: "('t, 'm, 'r) pi0_context option \<Rightarrow> ('t, 'm, 'r) pi0_context option" where
  "pi0_model_reset model = map_option pi0_reset model"

subsection \<open>What a prediction needs\<close>

text \<open>The tensors the graphs read have the shapes of the configuration.\<close>

definition state_weights_fit :: "'t ggml \<Rightarrow> 't pi0_model \<Rightarrow> bool" where
  "state_weights_fit G M \<longleftrightarrow>
     (\<forall>t. Some t \<in> {w0_state_w (md_weights M), w0_state_b (md_weights M)} \<longrightarrow> file_tensor G t)"

definition weights_fit :: "'t ggml \<Rightarrow> 't pi0_model \<Rightarrow> bool" where
  "weights_fit G M \<longleftrightarrow> action_weights_fit G M \<and> vision_weights_fit G M \<and> text_weights_fit G M \<and> llm_weights_fit G M \<and>
     state_weights_fit G M"

definition capacity_fits :: "'t pi0_model \<Rightarrow> bool" where
  "capacity_fits M \<longleftrightarrow> action_capacity M \<and> vision_capacity M \<and> llm_capacity M"

lemma pi0_state_context_ok:
  assumes d: "device_laws d" and cap: "capacity_fits M" and w: "state_weights_fit (device_ggml d) M"
  shows "act_ok (pi0_ok d M) (pi0_ok d M) (pi0_state_context d M state) (\<lambda>_. pi0_ok d M)"
  unfolding pi0_state_context_def Let_def
proof (rule act_ok_if)
  show "act_ok (pi0_ok d M) (pi0_ok d M) (act_return []) (\<lambda>_. pi0_ok d M)" by (rule act_ok_return)
  have four: "4 \<le> gb_capacity (device_builder d ''state'')" by (simp add: device_capacity ggml_default_graph_size_def)
  show "act_ok (pi0_ok d M) (pi0_ok d M) (pi0_linear_batch d (device_builder d ''state'') (w0_state_w (md_weights M)) (w0_state_b (md_weights M))
     state 1 ''ggml pi0 state projection graph compute failed'') (\<lambda>_. pi0_ok d M)"
    by (rule act_ok_weaken [OF pi0_linear_batch_ok [OF d four _ _ pi0_ok_blind]]) (use w in \<open>auto simp: state_weights_fit_def\<close>)
qed

lemma predict_observation_ok:
  assumes d: "device_laws d" and w: "weights_fit (device_ggml d) M" and cap: "capacity_fits M" and counts: "counts_fit M"
    and obs: "obs_fits M obs"
  shows "act_ok (pi0_ok d M) (pi0_ok d M) (predict_observation d M steps obs)
    (\<lambda>_ s. pi0_ok d M s \<and>
       length (st_actions s) = nat (c0_action_horizon (m0_common (md_config M))) * nat (c0_action_dim (m0_common (md_config M))))"
proof -
  note ws = w [unfolded weights_fit_def] and caps = cap [unfolded capacity_fits_def]
  have h: "horizon_fits M" using counts by (simp add: counts_fit_def horizon_fits_def Let_def)
  show ?thesis
    unfolding predict_observation_def
    by (rule act_ok_bind [OF pi0_prefill_prefix_ok [OF d _ _ _ _ _ counts obs]
      act_ok_bind [OF pi0_state_context_ok [OF d cap] pi0_sample_actions_ok [OF d _ _ h]]]) (use ws caps in blast)+
qed

end
