(* ===== verification/Pi0Life.thy ===== *)
theory Pi0Life
  imports Pi0Model
begin

text \<open>
  The life of a Pi0 model: what loading gives to the graphs, and what holds of every call from then on.
\<close>

subsection \<open>A loaded model fits its graphs\<close>















subsection \<open>Calls\<close>









subsection \<open>A life\<close>









end
