(* ===== verification/Pi0Fresh.thy ===== *)
theory Pi0Fresh
  imports Pi0Prefix
begin

text \<open>
  No prediction of a Pi0 model uses the prefix of an earlier observation: what each step of the prefill does to the cache,
  whatever the device answers.
\<close>

text \<open>An operation that leaves the number of cached tokens alone, on every path.\<close>

definition keeps_count :: "('a, ('t, 'm, 'r) pi0_state) act \<Rightarrow> bool" where
  "keeps_count m \<longleftrightarrow> (\<forall>s. st_token_count (snd (m s)) = st_token_count s)"

lemma keeps_count_simps [simp]:
  "keeps_count (act_return x)" "keeps_count (act_fail e)" "keeps_count (act_run r)" "keeps_count (memory_act f)"
  "keeps_count (compute_act d ts msg)" "keeps_count (read_act d t n)" "keeps_count (alloc_act d ts msg)" "keeps_count (graph_act B b)"
  by (simp_all add: keeps_count_def act_run_def memory_act_def compute_act_def read_act_def alloc_act_def graph_act_def split: option.splits)

lemma keeps_count_bind [intro]: "keeps_count m \<Longrightarrow> (\<And>x. keeps_count (k x)) \<Longrightarrow> keeps_count (bind_act m k)"
  by (auto simp: keeps_count_def bind_act_def split: prod.splits option.splits sum.splits) (metis snd_conv)+

lemma keeps_count_if [intro]: "(b \<Longrightarrow> keeps_count m) \<Longrightarrow> (\<not> b \<Longrightarrow> keeps_count m') \<Longrightarrow> keeps_count (if b then m else m')"
  by simp

lemma keeps_count_pair: "(\<And>x y. keeps_count (f x y)) \<Longrightarrow> keeps_count (case p of (x, y) \<Rightarrow> f x y)"
  by (cases p) simp

lemma keeps_count_option: "keeps_count m \<Longrightarrow> (\<And>x. keeps_count (f x)) \<Longrightarrow> keeps_count (case t of None \<Rightarrow> m | Some x \<Rightarrow> f x)"
  by (cases t) simp_all

subsection \<open>Tensors and embeddings\<close>

lemma keeps_count_persistent:
  assumes "\<And>t s. st_token_count (store t s) = st_token_count s"
  shows "keeps_count (persistent_f32 d M slot store n ne0 ne1 ne2)" "keeps_count (pi0_persist_backend_f32 d M slot store source n ne0 ne1 ne2)"
    "keeps_count (pi0_persist_host_f32_2d d M slot store v ne0 ne1)"
proof -
  show p: "keeps_count (persistent_f32 d M slot store n ne0 ne1 ne2)" for n ne0 ne1 ne2
    by (auto simp: keeps_count_def persistent_f32_def assms split: allocation.splits prod.splits)
  show "keeps_count (pi0_persist_backend_f32 d M slot store source n ne0 ne1 ne2)"
    unfolding pi0_persist_backend_f32_def by (intro keeps_count_bind p keeps_count_simps)
  show "keeps_count (pi0_persist_host_f32_2d d M slot store v ne0 ne1)"
    unfolding pi0_persist_host_f32_2d_def by (intro keeps_count_if keeps_count_bind keeps_count_option p keeps_count_simps)
qed

lemma keeps_count_slot:
  assumes "\<And>t s. st_token_count (store t s) = st_token_count s"
  shows "keeps_count (\<lambda>s. pi0_persist_backend_f32 d M (slot s) store source n ne0 ne1 ne2 s)"
    "keeps_count (\<lambda>s. pi0_persist_host_f32_2d d M (slot s) store v ne0 ne1 s)"
  using keeps_count_persistent(2,3) [OF assms] by (auto simp: keeps_count_def)

lemma keeps_count_embed_tokens: "keeps_count (pi0_embed_prompt_tokens d M tokens)"
  unfolding pi0_embed_prompt_tokens_def Let_def by (intro keeps_count_if keeps_count_bind keeps_count_pair keeps_count_simps)

lemma keeps_count_embed: "keeps_count (pi0_embed_prompt d M prompt)"
  unfolding pi0_embed_prompt_def by (intro keeps_count_if keeps_count_bind keeps_count_option keeps_count_embed_tokens keeps_count_simps)

lemma keeps_count_vision: "keeps_count (pi0_encode_vision_prefix d M imgs)"
  unfolding pi0_encode_vision_prefix_def Let_def
  by (intro keeps_count_if keeps_count_bind keeps_count_pair keeps_count_slot keeps_count_simps) simp_all

subsection \<open>The layers\<close>

lemma keeps_count_each: "(\<And>i. keeps_count (f i)) \<Longrightarrow> keeps_count (each_layer f is)"
  by (induction "is") auto

lemma keeps_count_persist_layer: "keeps_count (persist_layer d M D g layer)"
  unfolding persist_layer_def by (intro keeps_count_bind keeps_count_slot keeps_count_simps) simp_all

lemma keeps_count_language: "keeps_count (pi0_prefill_language_prefix_layers_batch d M tokens positions D need_output prefix suffix)"
proof -
  have resize: "keeps_count (act_modify (resize_cache n))" for n by (simp add: keeps_count_def resize_cache_def)
  have input: "keeps_count (optional_set f t v)" for f t v by (cases t) (simp_all add: optional_set_def)
  have read: "keeps_count (case t of None \<Rightarrow> act_return [] | Some y \<Rightarrow> read_act d y n)" for t n by (cases t) simp_all
  show ?thesis
    unfolding pi0_prefill_language_prefix_layers_batch_def Let_def
    by (intro keeps_count_if keeps_count_bind keeps_count_each keeps_count_persist_layer resize input read keeps_count_simps)
qed

text \<open>What holds once an operation has succeeded.\<close>

definition settles :: "('a, 's) act \<Rightarrow> ('s \<Rightarrow> bool) \<Rightarrow> ('s \<Rightarrow> bool) \<Rightarrow> bool" where
  "settles m P Q \<longleftrightarrow> (\<forall>s x s'. P s \<and> m s = (Some (Inr x), s') \<longrightarrow> Q s')"

lemma settles_bind: "settles m P Q \<Longrightarrow> (\<And>x. settles (k x) Q R) \<Longrightarrow> settles (bind_act m k) P R"
  unfolding settles_def bind_act_def by (fastforce split: prod.splits option.splits sum.splits)

lemma settles_last: "(\<And>x. settles (k x) (\<lambda>_. True) R) \<Longrightarrow> settles (bind_act m k) P R"
  by (rule settles_bind [where Q = "\<lambda>_. True"]) (simp_all add: settles_def)

lemma settles_if: "(b \<Longrightarrow> settles m P Q) \<Longrightarrow> (\<not> b \<Longrightarrow> settles m' P Q) \<Longrightarrow> settles (if b then m else m') P Q"
  by simp

lemma settles_fail: "settles (act_fail e) P Q"
  by (simp add: settles_def)

text \<open>The first \<open>n\<close> of the cached layers are there, of exactly \<open>layers\<close>.\<close>

definition layers_there :: "nat \<Rightarrow> nat \<Rightarrow> ('t, 'm, 'r) pi0_state \<Rightarrow> bool" where
  "layers_there layers n s \<longleftrightarrow> length (st_k_layers s) = layers \<and> length (st_v_layers s) = layers \<and>
     (\<forall>i<n. st_k_layers s ! i \<noteq> None \<and> st_v_layers s ! i \<noteq> None)"

lemma persisted_slot:
  assumes "persistent_f32 d M slot store n ne0 ne1 ne2 s = (Some (Inr t), s')"
  shows "slot = Some t \<and> s' = s \<or> (\<exists>m. s' = store t (s\<lparr>st_memory := m, st_allocated := st_allocated s @ [t]\<rparr>))"
  using assms by (auto simp: persistent_f32_def persistent_tensor_matches_def split: if_splits allocation.splits prod.splits option.splits)

lemma persisted_slot_backend:
  assumes "pi0_persist_backend_f32 d M slot store source n ne0 ne1 ne2 s = (Some (Inr t), s')"
  shows "(slot = Some t \<and> (\<exists>m. s' = s\<lparr>st_memory := m\<rparr>)) \<or> (\<exists>m m'. s' = store t (s\<lparr>st_memory := m, st_allocated := st_allocated s @ [t]\<rparr>)\<lparr>st_memory := m'\<rparr>)"
  using assms persisted_slot [of d M slot store n ne0 ne1 ne2 s]
  by (auto simp: pi0_persist_backend_f32_def bind_act_def memory_act_def split: prod.splits option.splits sum.splits)

lemma settles_layer:
  assumes i: "i < layers"
  shows "settles (persist_layer d M D g i) (layers_there layers i) (layers_there layers (Suc i))"
proof -
  let ?key = "\<lambda>s. layers_there layers i s \<and> st_k_layers s ! i \<noteq> None"
  have k: "settles (\<lambda>s. pi0_persist_backend_f32 d M (st_k_layers s ! i) (\<lambda>t s. s\<lparr>st_k_layers := (st_k_layers s)[i := Some t]\<rparr>) source n a b c s)
      (layers_there layers i) ?key" for source n a b c
    unfolding settles_def using i by (auto dest!: persisted_slot_backend simp: layers_there_def nth_list_update)
  have v: "settles (\<lambda>s. pi0_persist_backend_f32 d M (st_v_layers s ! i) (\<lambda>t s. s\<lparr>st_v_layers := (st_v_layers s)[i := Some t]\<rparr>) source n a b c s)
      ?key (layers_there layers (Suc i))" for source n a b c
    unfolding settles_def using i by (auto dest!: persisted_slot_backend simp: layers_there_def nth_list_update less_Suc_eq)
  show ?thesis
    unfolding persist_layer_def by (rule settles_bind [OF k settles_bind [OF v]]) (simp add: settles_def)
qed

lemma settles_each:
  assumes "n \<le> layers"
  shows "settles (each_layer (persist_layer d M D g) [n..<layers]) (layers_there layers n) (layers_there layers layers)"
  using assms
proof (induction "layers - n" arbitrary: n)
  case (Suc k)
  then have n: "n < layers" "k = layers - Suc n" "Suc n \<le> layers" by simp_all
  show ?case
    using settles_bind [OF settles_layer [OF n(1)] Suc.hyps(1) [OF n(2,3)]] n(1) by (simp add: upt_conv_Cons)
qed (simp add: settles_def)

lemma settles_language:
  "settles (pi0_prefill_language_prefix_layers_batch d M tokens positions D need_output prefix suffix) (\<lambda>_. True)
     (layers_there (nat (l0_layers (p0_llm (m0_pi0 (md_config M))))) (nat (l0_layers (p0_llm (m0_pi0 (md_config M))))))"
    (is "settles _ _ (layers_there ?n ?n)")
proof -
  have resize: "settles (act_modify (resize_cache ?n)) (\<lambda>_. True) (layers_there ?n 0)"
    by (auto simp: settles_def layers_there_def resize_cache_def resized_def)
  have result: "settles (act_return out) (layers_there ?n ?n) (layers_there ?n ?n)" for out by (simp add: settles_def)
  show ?thesis
    unfolding pi0_prefill_language_prefix_layers_batch_def Let_def
    by (rule settles_if, rule settles_fail, rule settles_if, rule settles_fail)
      (rule settles_last settles_bind [OF resize settles_bind [OF settles_each [OF le0] result]])+
qed

subsection \<open>Property\<close>

text \<open>The state after a prefill that has cleared the cache: without an answer nothing is claimed; an error settles no token; a
  success settles no token, or all layers of the language model.\<close>

definition prefix_fresh :: "'t pi0_model \<Rightarrow> unit run \<times> ('t, 'm, 'r) pi0_state \<Rightarrow> bool" where
  "prefix_fresh M rs \<longleftrightarrow>
     (case rs of
        (None, s) \<Rightarrow> True
      | (Some (Inl e), s) \<Rightarrow> st_token_count s = 0
      | (Some (Inr _), s) \<Rightarrow> st_token_count s = 0 \<or>
          layers_there (nat (l0_layers (p0_llm (m0_pi0 (md_config M))))) (nat (l0_layers (p0_llm (m0_pi0 (md_config M))))) s)"

lemma fresh_bind:
  assumes "keeps_count m" "\<And>x s. st_token_count s = 0 \<Longrightarrow> prefix_fresh M (k x s)" "st_token_count s = 0"
  shows "prefix_fresh M (bind_act m k s)"
proof -
  obtain r s' where m: "m s = (r, s')" by (cases "m s")
  then have "st_token_count s' = 0" using assms(1,3) by (metis keeps_count_def snd_conv)
  with m assms(2) show ?thesis by (cases r rule: option.exhaust) (auto simp: bind_act_def prefix_fresh_def split: sum.split)
qed

lemma fresh_return: "st_token_count s = 0 \<Longrightarrow> prefix_fresh M (act_return () s)"
  "st_token_count s = 0 \<Longrightarrow> prefix_fresh M (act_fail e s)" "prefix_fresh M (act_run None s)"
  by (simp_all add: prefix_fresh_def)

lemma fresh_if:
  "(b \<Longrightarrow> prefix_fresh M (m s)) \<Longrightarrow> (\<not> b \<Longrightarrow> prefix_fresh M (m' s)) \<Longrightarrow> prefix_fresh M ((if b then m else m') s)"
  by simp

lemma fresh_from_embeddings:
  assumes "st_token_count s = 0"
  shows "prefix_fresh M (pi0_prefill_prefix_from_runtime_embeddings d M embeddings n v h s)"
proof -
  let ?n = "nat (l0_layers (p0_llm (m0_pi0 (md_config M))))"
  have last: "prefix_fresh M (bind_act (pi0_prefill_language_prefix_layers_batch d M [] positions D False prefix suffix)
      (\<lambda>_. act_modify (\<lambda>s. s\<lparr>st_token_count := k\<rparr>)) s)" if s: "st_token_count s = 0" for positions D prefix suffix k s
  proof -
    let ?m = "pi0_prefill_language_prefix_layers_batch d M [] positions D False prefix suffix"
    obtain r s' where m: "?m s = (r, s')" by (cases "?m s")
    have "st_token_count s' = 0" using keeps_count_language m s by (metis keeps_count_def snd_conv)
    moreover have "layers_there ?n ?n s'" if "r = Some (Inr x)" for x
      using settles_language m that unfolding settles_def by blast
    ultimately show ?thesis
      using m by (auto simp: bind_act_def prefix_fresh_def layers_there_def split: option.splits sum.splits)
  qed
  have prompt: "keeps_count (if h > 0
      then bind_act (\<lambda>s. pi0_persist_host_f32_2d d M (st_prompt s) (\<lambda>t s. s\<lparr>st_prompt := Some t\<rparr>) (Some v) w (int h) s) (\<lambda>t. act_return (Some t))
      else act_return None)" for w
    by (intro keeps_count_if keeps_count_bind keeps_count_slot keeps_count_simps) simp
  show ?thesis
    unfolding pi0_prefill_prefix_from_runtime_embeddings_def Let_def
    by (rule fresh_if, rule fresh_return(3), rule fresh_if, rule fresh_return(1) [OF assms], rule fresh_if, rule fresh_return(2) [OF assms],
      rule fresh_bind [OF prompt _ assms], rule last)
qed

text \<open>A prediction never samples with the prefix of an earlier observation: whatever the cache held and whatever the device
  answers, after a prefill that fails the cache counts no token, and after one that succeeds it counts none or holds keys and
  values for every layer of the language model.\<close>

theorem pi0_prefix_fresh: "prefix_fresh M (pi0_prefill_prefix d M obs s)"
proof -
  have reset: "st_token_count (kv_reset s) = 0" by (simp add: kv_reset_def)
  have tokens: "keeps_count (if o0_prompt_tokens obs \<noteq> [] then pi0_embed_prompt_tokens d M (o0_prompt_tokens obs)
      else pi0_embed_prompt d M (o0_prompt obs))"
    by (intro keeps_count_if keeps_count_embed_tokens keeps_count_embed)
  have rest: "prefix_fresh M (bind_act (pi0_encode_vision_prefix d M (o0_images obs)) (\<lambda>(vision, vision_tokens).
         bind_act (if o0_prompt_tokens obs \<noteq> [] then pi0_embed_prompt_tokens d M (o0_prompt_tokens obs)
           else pi0_embed_prompt d M (o0_prompt obs)) (\<lambda>(prompt_embeddings, prompt_tokens).
           pi0_prefill_prefix_from_runtime_embeddings d M vision vision_tokens prompt_embeddings prompt_tokens)) (kv_reset s))"
  proof (rule fresh_bind [OF keeps_count_vision _ reset])
    fix x s assume s: "st_token_count (s :: ('a, 'b, 'c) pi0_state) = 0"
    show "prefix_fresh M ((case x of (vision, vision_tokens) \<Rightarrow>
         bind_act (if o0_prompt_tokens obs \<noteq> [] then pi0_embed_prompt_tokens d M (o0_prompt_tokens obs)
           else pi0_embed_prompt d M (o0_prompt obs)) (\<lambda>(prompt_embeddings, prompt_tokens).
           pi0_prefill_prefix_from_runtime_embeddings d M vision vision_tokens prompt_embeddings prompt_tokens)) s)"
      unfolding case_prod_beta by (rule fresh_bind [OF tokens fresh_from_embeddings s])
  qed
  show ?thesis
    unfolding pi0_prefill_prefix_def using rest fresh_return(1) [OF reset] by (simp add: bind_act_def)
qed

end
