(* ===== verification/PlainPi0.thy ===== *)
theory PlainPi0
  imports Pi0Life PlainGgml DemoMetadata
begin

text \<open>
  A concrete device and the six files of a small Pi0 model, on which the assumptions of the theorems on that model hold.
\<close>

subsection \<open>A device of shapes\<close>

definition plain_f32 :: "int list \<Rightarrow> plain" where
  "plain_f32 = plain_of GGML_TYPE_F32"

definition plain_pi0_ops :: "plain pi0_ops" where
  "plain_pi0_ops = \<lparr>px_name = (\<lambda>_. ''t''), px_row_size = (\<lambda>_ n. nat n * 4), px_rms_norm = (\<lambda>t x. like t),
     px_rope = (\<lambda>t pos d. like t), px_flash_attn = (\<lambda>q k v m s. Some (plain_f32 [p0 q, p2 q, p1 q, p3 q])),
     px_conv_2d = (\<lambda>w t kx ky. Some (plain_f32 [p0 t div kx, p1 t div ky, p3 w, p3 t])),
     px_get_rows = (\<lambda>t ids. Some (plain_f32 [p0 t, p0 ids])), px_cont_3d = (\<lambda>t x y z. Some (plain_f32 [x, y, z]))\<rparr>"

lemma plain_pi0_op_simps:
  "px_row_size plain_pi0_ops ty n = nat n * 4" "px_rms_norm plain_pi0_ops t x = like t" "px_rope plain_pi0_ops t pos d = like t"
  "px_flash_attn plain_pi0_ops q k v m s = Some (plain_f32 [p0 q, p2 q, p1 q, p3 q])"
  "px_conv_2d plain_pi0_ops w t kx ky = Some (plain_f32 [p0 t div kx, p1 t div ky, p3 w, p3 t])"
  "px_get_rows plain_pi0_ops t ids = Some (plain_f32 [p0 t, p0 ids])" "px_cont_3d plain_pi0_ops t a b c = Some (plain_f32 [a, b, c])"
  by (simp_all add: plain_pi0_ops_def)

lemmas plain_pi0_simps = plain_simps plain_pi0_op_simps plain_f32_def

lemma up_to_four: "length (xs :: int list) \<le> 4 \<Longrightarrow>
    xs = [] \<or> (\<exists>a. xs = [a]) \<or> (\<exists>a b. xs = [a, b]) \<or> (\<exists>a b c. xs = [a, b, c]) \<or> (\<exists>a b c d. xs = [a, b, c, d])"
  by (cases xs; cases "tl xs"; cases "tl (tl xs)"; cases "tl (tl (tl xs))"; cases "tl (tl (tl (tl xs)))") auto

lemma plain_of_pad4: "list_all (\<lambda>d. 0 < d) ds \<Longrightarrow> length ds \<le> 4 \<Longrightarrow> f32t plain_ggml (pad4 ds) (plain_f32 ds)"
  by (drule up_to_four) (auto simp: plain_pi0_simps pad4_def numeral_eq_Suc)

lemma plain_pi0_laws: "pi0_laws plain_ggml plain_pi0_ops"
proof -
  have "law_rms_norm plain_ggml plain_pi0_ops" by (auto simp: law_rms_norm_def plain_pi0_simps)
  moreover have "law_rope plain_ggml plain_pi0_ops" by (auto simp: law_rope_def plain_pi0_simps)
  moreover have "law_flash_attn plain_ggml plain_pi0_ops" by (auto simp: law_flash_attn_def plain_pi0_simps)
  moreover have "law_conv_2d plain_ggml plain_pi0_ops" by (auto simp: law_conv_2d_def plain_pi0_simps zero_less_mult_iff)
  moreover have "law_get_rows plain_ggml plain_pi0_ops" by (auto simp: law_get_rows_def plain_pi0_simps)
  moreover have "law_reshape plain_ggml"
    using plain_of_pad4 by (auto simp: law_reshape_def plain_fields plain_ops gives_def f32t_def plain_f32_def)
  moreover have "law_permute plain_ggml" by (auto simp: law_permute_def plain_pi0_simps)
  moreover have "law_cont_3d plain_ggml plain_pi0_ops" by (auto simp: law_cont_3d_def plain_pi0_simps)
  moreover have "law_row_size plain_ggml plain_pi0_ops" by (auto simp: law_row_size_def plain_pi0_simps)
  moreover have "law_concat_2 plain_ggml" by (auto simp: law_concat_2_def plain_pi0_simps)
  moreover have "law_inputs plain_ggml" by (auto simp: law_inputs_def plain_pi0_simps)
  moreover have "law_broadcast plain_ggml" by (auto simp: law_broadcast_def plain_pi0_simps)
  ultimately show ?thesis by (simp add: pi0_laws_def plain_laws)
qed

text \<open>Every role has the same builder, the memory is empty, every tensor reads as zeros, and every text is one token, twice
  for the vocabulary of two.\<close>

definition plain_device :: "(plain, unit, unit) pi0_device" where
  "plain_device = \<lparr>dw_builder = (\<lambda>_. plain_builder []), dw_ops = plain_pi0_ops, dw_alloc_graph = (\<lambda>_. True),
     dw_set_f32 = (\<lambda>_ _ m. Some m), dw_set_i32 = (\<lambda>_ _ m. Some m), dw_set_f16 = (\<lambda>_ _ m. Some m), dw_to_f16 = (\<lambda>_. 0),
     dw_compute = (\<lambda>_ m. Some m), dw_get_f32 = (\<lambda>_ n m. Some (replicate n f32_zero)), dw_copy = (\<lambda>_ _ m. Some m),
     dw_persist = (\<lambda>ds m. (if list_all (\<lambda>d. 0 < d) ds \<and> length ds \<le> 4 then Allocated (plain_f32 ds) else No_tensor, m)),
     dw_tokenize = (\<lambda>s n. if n < 2 then (- 2, []) else (2, [0, 1])), dw_sin = (\<lambda>x. x), dw_cos = (\<lambda>x. x), dw_pow = (\<lambda>x y. x),
     dw_normals = (\<lambda>n r. (replicate n f32_zero, r))\<rparr>"

lemma plain_device_ggml: "device_ggml plain_device = plain_ggml" "gb_ops (device_builder plain_device role) = plain_ggml"
  "dw_ops plain_device = plain_pi0_ops"
  by (simp_all add: device_ggml_def device_builder_def plain_device_def plain_builder_def)

lemma plain_device_laws: "device_laws plain_device"
proof -
  have "device_set_f32 plain_device" "device_set_i32 plain_device" "device_set_f16 plain_device" "device_get_f32 plain_device"
    "device_copy plain_device" "device_tokenize plain_device"
    by (simp_all add: device_set_f32_def device_set_i32_def device_set_f16_def device_get_f32_def device_copy_def device_tokenize_def
        plain_device_def)
  moreover have "device_persist plain_device"
    using plain_of_pad4 by (auto simp: device_persist_def plain_device_ggml) (auto simp: plain_device_def split: if_splits)
  ultimately show ?thesis
    by (simp add: device_laws_def plain_device_ggml plain_pi0_laws) (simp add: plain_device_def plain_builder_def)
qed

text \<open>Weights of files are stored as the files hold them.\<close>

definition file_shape :: "int list \<Rightarrow> bool" where
  "file_shape shape \<longleftrightarrow> list_all (\<lambda>d. 0 < d) shape \<and> shape \<noteq> [] \<and> length shape \<le> 4 \<and> (1 < length shape \<longrightarrow> 1 < last shape) \<and>
     prod_list shape \<le> 256"

lemma plain_file_shape:
  assumes "file_shape shape"
  shows "has_shape (plain_entry (plain_f32 shape)) shape" "file_tensor plain_ggml (plain_f32 shape)"
    "te_nbytes (plain_entry (plain_f32 shape)) \<le> 1024"
proof -
  have shapes: "(\<exists>a. shape = [a]) \<or> (\<exists>a b. shape = [a, b]) \<or> (\<exists>a b c. shape = [a, b, c]) \<or> (\<exists>a b c d. shape = [a, b, c, d])"
    using assms up_to_four [of shape] by (auto simp: file_shape_def)
  then show "has_shape (plain_entry (plain_f32 shape)) shape"
    using assms by (auto simp: file_shape_def has_shape_def plain_entry_def plain_n_dims_def plain_f32_def)
  show "file_tensor plain_ggml (plain_f32 shape)"
    using shapes assms by (auto simp: file_tensor_def file_shape_def plain_f32_def plain_fields ne_def plain_ggml_def plain_entry_def
        plain_n_dims_def split: if_splits)
  show "te_nbytes (plain_entry (plain_f32 shape)) \<le> 1024"
    using shapes assms by (auto simp: file_shape_def plain_f32_def plain_entry_def plain_dims_def)
qed

end
