(* ===== verification/Pi0Mask.thy ===== *)
theory Pi0Mask
  imports Pi0Action
begin

text \<open>
  What the tokens of the action expert attend to.
\<close>

text \<open>The query in row \<open>r\<close> is denied the key in column \<open>k\<close>.\<close>

definition denied :: "action_shape \<Rightarrow> nat \<Rightarrow> nat \<Rightarrow> bool" where
  "denied S r k \<longleftrightarrow> attention_mask S ! (r * nat (ax_kv_tokens S) + k) = f32_minus_inf"

lemma mask_entry:
  assumes "k < nat (ax_kv_tokens S)" "r < nat (gd_tokens (ax_dims S))" "ax_prefix S < nat (ax_kv_tokens S)"
  shows "attention_mask S ! (r * nat (ax_kv_tokens S) + k) = (if r = 0 \<and> ax_prefix S < k then f32_minus_inf else f32_zero)"
proof -
  let ?kv = "nat (ax_kv_tokens S)"
  obtain m where m: "m = ax_prefix S + 1" "m \<le> ?kv" using assms(3) by simp
  have mask: "attention_mask S = replicate m f32_zero @ replicate (?kv - m) f32_minus_inf @ replicate ((nat (gd_tokens (ax_dims S)) - 1) * ?kv) f32_zero"
    using m by (simp add: attention_mask_def Let_def del: replicate_Suc)
  show ?thesis
  proof (cases r)
    case 0
    have "ax_prefix S < k \<longleftrightarrow> m \<le> k" using m(1) by auto
    then show ?thesis using assms(1) m(2) 0 by (auto simp: mask nth_append)
  next
    case (Suc q)
    have "(q + 1) * ?kv \<le> (nat (gd_tokens (ax_dims S)) - 1) * ?kv" using assms(2) Suc by (intro mult_right_mono) auto
    then have "q * ?kv + k < (nat (gd_tokens (ax_dims S)) - 1) * ?kv" using assms(1) by simp
    moreover have "Suc q * ?kv + k = ?kv + (q * ?kv + k)" by simp
    ultimately show ?thesis
      using nth_append_length_plus [of "replicate m f32_zero @ replicate (?kv - m) f32_minus_inf"
          "replicate ((nat (gd_tokens (ax_dims S)) - 1) * ?kv) f32_zero" "q * ?kv + k"] m(2) Suc by (simp add: mask add.assoc)
  qed
qed

text \<open>C35. In the action expert the token of the state attends to the cached prefix and to itself, and to none of the actions; each
  token of an action attends to the prefix, the state and all actions.  The mask has one entry for each query and key.\<close>

theorem pi0_mask_exact:
  assumes "init_shape M s state_context = Some (Inr S)" "state_context \<noteq> []"
  shows "length (attention_mask S) = nat (gd_tokens (ax_dims S)) * nat (ax_kv_tokens S) \<and>
    ax_prefix S = usable_prefix s (nat (a0_expert_layers (p0_action (m0_pi0 (md_config M))))) \<and>
    nat (gd_tokens (ax_dims S)) = 1 + nat (c0_action_horizon (m0_common (md_config M))) \<and>
    nat (ax_kv_tokens S) = ax_prefix S + nat (gd_tokens (ax_dims S)) \<and>
    (\<forall>r k. r < nat (gd_tokens (ax_dims S)) \<and> k < nat (ax_kv_tokens S) \<longrightarrow> denied S r k = (r = 0 \<and> ax_prefix S < k))"
proof -
  have S: "gd_tokens (ax_dims S) = c0_action_horizon (m0_common (md_config M)) + 1" "0 < c0_action_horizon (m0_common (md_config M))"
    "ax_kv_tokens S = gd_tokens (ax_dims S) + int (ax_prefix S)"
    "ax_prefix S = usable_prefix s (nat (a0_expert_layers (p0_action (m0_pi0 (md_config M)))))"
    using assms unfolding init_shape_def Let_def by (auto split: if_splits)
  let ?kv = "nat (ax_kv_tokens S)" and ?n = "nat (gd_tokens (ax_dims S))"
  have kv: "?kv = ax_prefix S + ?n" "0 < ?n" using S by auto
  have "length (attention_mask S) = ?kv + (?n - 1) * ?kv" using kv by (simp add: attention_mask_def Let_def)
  also have "\<dots> = ?n * ?kv" using kv(2) by (cases ?n) simp_all
  finally have "length (attention_mask S) = ?n * ?kv" .
  moreover have "f32_zero \<noteq> f32_minus_inf" by (simp add: f32_zero_def f32_minus_inf_def)
  ultimately show ?thesis
    using S kv mask_entry [of _ S] nat_add_distrib [of "c0_action_horizon (m0_common (md_config M))" 1] by (auto simp: denied_def split: if_splits)
qed

end
