(* ===== verification/Pi0Examples.thy ===== *)
theory Pi0Examples
  imports PlainPi0 Pi0Mask
begin

text \<open>
  The six files of a small Pi0 model, from their metadata to a model that predicts: the theorems on loading and on the
  life of a Pi0 model, at this model.
\<close>

subsection \<open>Metadata\<close>










definition pi0_parsed_common :: pi0_common_config where
  "pi0_parsed_common = default_common\<lparr>c0_model_type := ''pi0'', c0_image_width := 2, c0_image_height := 1, c0_state_dim := 2,
     c0_action_dim := 2, c0_action_horizon := 1, c0_image_keys := [''cam'']\<rparr>"

definition pi0_parsed_pi0 :: pi0_config where
  "pi0_parsed_pi0 = default_pi0\<lparr>
     p0_vision := (p0_vision default_pi0)\<lparr>v0_width := 2, v0_patch_height := 1, v0_patch_width := 1, v0_layers := 1, v0_heads := 1,
       v0_norm_epsilon := f32_one\<rparr>,
     p0_llm := (p0_llm default_pi0)\<lparr>l0_width := 2, l0_q_out := 2, l0_kv_out := 2, l0_mlp_width := 2, l0_layers := 1\<rparr>,
     p0_action := (p0_action default_pi0)\<lparr>a0_expert_width := 2, a0_expert_q_out := 2, a0_expert_kv_out := 2,
       a0_expert_mlp_width := 2, a0_expert_layers := 1\<rparr>\<rparr>"

definition pi0_parsed :: "string \<Rightarrow> pi0_model_config" where
  "pi0_parsed role = \<lparr>m0_component_role = role, m0_common = pi0_parsed_common, m0_pi0 = pi0_parsed_pi0\<rparr>"


subsection \<open>Files\<close>

text \<open>A layer of a transformer.\<close>

definition pi0_stack_checks :: "shape_check list" where
  "pi0_stack_checks = [(''input_layernorm.scale'', [2]), (''post_attention_layernorm.scale'', [2]), (''self_attn.q_proj.weight'', [2, 2]),
     (''self_attn.k_proj.weight'', [2, 2]), (''self_attn.v_proj.weight'', [2, 2]), (''self_attn.o_proj.weight'', [2, 2]),
     (''mlp.gate_proj.weight'', [2, 2]), (''mlp.up_proj.weight'', [2, 2]), (''mlp.down_proj.weight'', [2, 2])]"

definition pi0_vit_checks :: "shape_check list" where
  "pi0_vit_checks = prefixed ''embeddings.'' [(''patch_embedding.weight'', [1, 1, 3, 2]), (''patch_embedding.bias'', [2]),
       (''position_embedding.weight'', [2, 2])] @
     [(''post_layernorm.weight'', [2]), (''post_layernorm.bias'', [2])] @
     prefixed ''encoder.layers.0.'' [(''layer_norm1.weight'', [2]), (''layer_norm1.bias'', [2]), (''self_attn.q_proj.weight'', [2, 2]),
       (''self_attn.q_proj.bias'', [2]), (''self_attn.k_proj.weight'', [2, 2]), (''self_attn.k_proj.bias'', [2]),
       (''self_attn.v_proj.weight'', [2, 2]), (''self_attn.v_proj.bias'', [2]), (''self_attn.out_proj.weight'', [2, 2]),
       (''self_attn.out_proj.bias'', [2]), (''layer_norm2.weight'', [2]), (''layer_norm2.bias'', [2]), (''mlp.fc1.weight'', [2, 2]),
       (''mlp.fc1.bias'', [2]), (''mlp.fc2.weight'', [2, 2]), (''mlp.fc2.bias'', [2])]"

definition pi0_checks :: "shape_check list" where
  "pi0_checks = prefixed ''pi0.vit.'' pi0_vit_checks @
     prefixed ''pi0.merger.'' [(''weight'', [2, 2]), (''bias'', [2])] @
     prefixed ''pi0.llm.'' ([(''norm.scale'', [2]), (''lm_head.weight'', [2, 2])] @ prefixed ''layers.0.'' pi0_stack_checks) @
     prefixed ''pi0.action_decoder.'' (prefixed ''state_proj.'' [(''weight'', [2, 2]), (''bias'', [2])] @
       [(''action_in_proj.weight'', [2, 2]), (''action_in_proj.bias'', [2]), (''action_time_mlp_in.weight'', [4, 2]),
        (''action_time_mlp_in.bias'', [2]), (''action_time_mlp_out.weight'', [2, 2]), (''action_time_mlp_out.bias'', [2]),
        (''action_out_proj.weight'', [2, 2]), (''action_out_proj.bias'', [2]), (''norm.scale'', [2])] @
       prefixed ''layers.0.'' pi0_stack_checks)"

lemmas pi0_check_defs = pi0_checks_def pi0_vit_checks_def pi0_stack_checks_def map_of_prefixed map_add_def








subsection \<open>Loading\<close>










text \<open>The shapes that loading asks for.\<close>

lemma pi0_check_lookups:
  "map_of pi0_checks ''pi0.merger.weight'' = Some [2, 2]" "map_of pi0_checks ''pi0.merger.bias'' = Some [2]"
  "map_of pi0_checks ''pi0.action_decoder.state_proj.weight'' = Some [2, 2]" "map_of pi0_checks ''pi0.action_decoder.state_proj.bias'' = Some [2]"
  "map_of pi0_checks ''pi0.action_decoder.action_in_proj.weight'' = Some [2, 2]" "map_of pi0_checks ''pi0.action_decoder.action_in_proj.bias'' = Some [2]"
  "map_of pi0_checks ''pi0.action_decoder.action_time_mlp_in.weight'' = Some [4, 2]" "map_of pi0_checks ''pi0.action_decoder.action_time_mlp_in.bias'' = Some [2]"
  "map_of pi0_checks ''pi0.action_decoder.action_time_mlp_out.weight'' = Some [2, 2]" "map_of pi0_checks ''pi0.action_decoder.action_time_mlp_out.bias'' = Some [2]"
  "map_of pi0_checks ''pi0.action_decoder.action_out_proj.weight'' = Some [2, 2]" "map_of pi0_checks ''pi0.action_decoder.action_out_proj.bias'' = Some [2]"
  "map_of pi0_checks ''pi0.action_decoder.norm.scale'' = Some [2]"
  "map_of pi0_checks ''pi0.llm.norm.scale'' = Some [2]" "map_of pi0_checks ''pi0.llm.lm_head.weight'' = Some [2, 2]"
  "map_of pi0_checks ''pi0.vit.embeddings.patch_embedding.weight'' = Some [1, 1, 3, 2]" "map_of pi0_checks ''pi0.vit.embeddings.patch_embedding.bias'' = Some [2]"
  "map_of pi0_checks ''pi0.vit.embeddings.position_embedding.weight'' = Some [2, 2]"
  "map_of pi0_checks ''pi0.vit.post_layernorm.weight'' = Some [2]" "map_of pi0_checks ''pi0.vit.post_layernorm.bias'' = Some [2]"
  by (simp_all add: pi0_check_defs)




lemmas pi0_name_defs = pi0_merger_tensor_def pi0_state_tensor_def pi0_action_decoder_tensor_def pi0_llm_tensor_def pi0_vit_tensor_def
  pi0_lm_head_def component_name_def pi0_vit_layer_prefix_def pi0_llm_layer_prefix_def pi0_action_decoder_layer_prefix_def
  nat_to_string_small digit_char_eval pi0_parsed_def pi0_parsed_pi0_def default_pi0_def default_component_def pi0_parsed_common_def












subsection \<open>A model that predicts\<close>

definition pi0_example_tensor :: "string \<Rightarrow> string \<Rightarrow> plain option" where
  "pi0_example_tensor role name =
     (if role \<in> {''vit'', ''mmproj'', ''llm'', ''state'', ''action_decoder''} then map_option plain_f32 (map_of pi0_checks name) else None)"



















text \<open>Two cached tokens, then the state and one action.\<close>

theorem pi0_mask_exact_witness:
  "\<exists>M s S. init_shape M (s :: (plain, unit, unit) pi0_state) [f32_one, f32_zero] = Some (Inr S) \<and> ax_prefix S = 2 \<and> denied S 0 3 \<and> \<not> denied S 0 2 \<and> \<not> denied S 1 3"
proof -
  let ?M = "\<lparr>md_config = pi0_parsed [], md_weights = build_pi0_weights (pi0_parsed []) pi0_example_tensor, md_sched = (\<lambda>_. True), md_vocab = True\<rparr>"
  let ?s = "\<lparr>st_token_count = 2, st_k_layers = [None], st_v_layers = [None], st_vision = None, st_prompt = None, st_allocated = [],
     st_memory = (), st_rng = (), st_actions = []\<rparr> :: (plain, unit, unit) pi0_state"
  have prefix: "pi0_action_decoder_layer_prefix (pi0_parsed []) 0 = ''pi0.action_decoder.layers.0.''"
    "pi0_action_decoder_tensor (pi0_parsed []) ''action_in_proj.weight'' = ''pi0.action_decoder.action_in_proj.weight''"
    by (simp_all add: pi0_name_defs)
  have stack: "map_of pi0_checks ''pi0.action_decoder.layers.0.self_attn.q_proj.weight'' = Some [2, 2]"
    "map_of pi0_checks ''pi0.action_decoder.layers.0.self_attn.k_proj.weight'' = Some [2, 2]"
    "map_of pi0_checks ''pi0.action_decoder.layers.0.mlp.gate_proj.weight'' = Some [2, 2]"
    by (simp_all add: pi0_check_defs)
  have sizes: "a0_expert_layers (p0_action (m0_pi0 (pi0_parsed []))) = 1" "a0_expert_width (p0_action (m0_pi0 (pi0_parsed []))) = 2"
    "a0_expert_q_out (p0_action (m0_pi0 (pi0_parsed []))) = 2" "a0_expert_kv_out (p0_action (m0_pi0 (pi0_parsed []))) = 2"
    "a0_expert_mlp_width (p0_action (m0_pi0 (pi0_parsed []))) = 2" "c0_action_horizon (m0_common (pi0_parsed [])) = 1"
    "c0_action_dim (m0_common (pi0_parsed [])) = 2"
    by (simp_all add: pi0_parsed_def pi0_parsed_pi0_def default_pi0_def pi0_parsed_common_def)
  have ready: "\<not> action_incomplete ?M"
    by (simp add: action_incomplete_def sizes build_pi0_weights_def build_transformer_layer_def prefix Let_def pi0_example_tensor_def
        pi0_check_lookups stack)
  obtain S where S: "init_shape ?M ?s [f32_one, f32_zero] = Some (Inr S)" "ax_prefix S = 2" "gd_tokens (ax_dims S) = 2" "ax_kv_tokens S = 4"
    using ready by (simp add: init_shape_def sizes usable_prefix_def fits_sint_def Let_def)
  from pi0_mask_exact [OF S(1)] S have "denied S 0 3" "\<not> denied S 0 2" "\<not> denied S 1 3" by auto
  with S show ?thesis by blast
qed

end
