(* ===== verification/Spec2Isabelle.thy ===== *)
theory Spec2Isabelle
  imports Prelude Ieee Protocol Sockets ModelApi Session Client ServerMain ModelCli Utf8 FastCodec Normalization Prompts
    ImagePreprocess PolicyGguf FastPolicy PolicyConfigs GgufLoader PolicyTensors PolicyExamples Backend StarVLAExamples Pi0Life
    Pi0Fresh Pi0Examples
begin

text \<open>
  A verification library for robot.cpp, the C++ inference runtime for robot policies.

  \<^bold>\<open>The program.\<close>  A client (\<^verbatim>\<open>robot_client/cpp\<close>) sends an observation over TCP to a server
  (\<^verbatim>\<open>robot_server\<close>), which asks a model (\<^verbatim>\<open>src/models\<close>) for a chunk of robot actions and sends them back;
  \<^verbatim>\<open>src/model-cli.cpp\<close> asks a model directly.  The StarVLA model preprocesses the images, builds a prompt, runs a
  Qwen-VL model of llama.cpp to obtain hidden states or tokens, turns them into normalised actions with one of
  five policies, and scales the actions back.

  \<^bold>\<open>Theories and sources.\<close>
  \<^item> \<open>Prelude\<close>, \<open>Ieee\<close>: machine integers, results with messages, undefined behaviour as \<open>None\<close>; binary32 and binary64
    as bit patterns with executable comparison and arithmetic.
  \<^item> \<open>Protocol\<close> (\<^verbatim>\<open>robot_server/protocol.cpp\<close>), \<open>Sockets\<close> (\<^verbatim>\<open>socket.cpp\<close>), \<open>Session\<close> (\<^verbatim>\<open>session.cpp\<close>,
    \<^verbatim>\<open>model_adapter.cpp\<close>), \<open>ServerMain\<close> (\<^verbatim>\<open>model-server.cpp\<close>), \<open>Client\<close> (\<^verbatim>\<open>model_client.cpp\<close>).
  \<^item> \<open>ModelApi\<close> (\<^verbatim>\<open>model.h\<close>, \<^verbatim>\<open>model_type.cpp\<close>, \<^verbatim>\<open>model_factory.cpp\<close>, \<^verbatim>\<open>argument_parse.h\<close>), \<open>ModelCli\<close>
    (\<^verbatim>\<open>model-cli.cpp\<close>).
  \<^item> \<open>Utf8\<close>, \<open>FastCodec\<close> (\<^verbatim>\<open>starvla/fast_codec.cpp\<close>), \<open>Normalization\<close> (\<^verbatim>\<open>normalization.cpp\<close>), \<open>Prompts\<close>
    (\<^verbatim>\<open>oft_prompt.cpp\<close>, \<^verbatim>\<open>groot_prompt.cpp\<close>), \<open>ImagePreprocess\<close> (\<^verbatim>\<open>oft_image_preprocess.cpp\<close>).
  \<^item> \<open>PolicyGguf\<close> (\<^verbatim>\<open>policy_gguf.h\<close>), \<open>GgufLoader\<close> (\<^verbatim>\<open>gguf_loader.cpp\<close>), \<open>Backend\<close> (\<^verbatim>\<open>ggml_backend.cpp\<close>),
    \<open>PolicyConfigs\<close> and \<open>PolicyTensors\<close> (metadata and tensors of the four transformer policies), \<open>FastPolicy\<close>
    (\<^verbatim>\<open>fast_policy.cpp\<close>).
  \<^item> \<open>GgmlGraph\<close>, \<open>DitGraph\<close>, \<open>PolicyGraphs\<close>: the \<open>build_graph\<close> of the policies, operation by operation, over ggml as a
    record of functions; \<open>GraphShapes\<close>, \<open>GraphShapesPi\<close>: the shapes of these graphs; \<open>PolicyEval\<close>: load, the graph
    cache, evaluate and unnormalize.  \<open>PlainGgml\<close>, \<open>DemoMetadata\<close>, \<open>PolicyExamples\<close>: a concrete library and files.
  \<^item> \<open>QwenSources\<close>, \<open>QwenCapture\<close>, \<open>QwenPrompt\<close>, \<open>QwenBatch\<close>, \<open>QwenBridge\<close>, \<open>QwenOps\<close> (\<^verbatim>\<open>qwen3vl_bridge.cpp\<close>): the
    capture of hidden states in the evaluation callback, prompts and batches, loading, and the public operations;
    \<open>QwenStates\<close> and \<open>QwenLifecycle\<close>: their promises; \<open>QwenExamples\<close>.
  \<^item> \<open>StarVLAEngine\<close> (\<^verbatim>\<open>starvla_engine.cpp\<close>), \<open>StarVLAModel\<close> (\<^verbatim>\<open>starvla_model.cpp\<close>), \<open>StarVLAExamples\<close>.
  \<^item> The Pi0 model (\<^verbatim>\<open>src/models/pi0\<close>): \<open>Pi0Types\<close> and \<open>Pi0Load\<close> (\<^verbatim>\<open>types.h\<close>, \<^verbatim>\<open>load.cpp\<close>, the backends of
    \<^verbatim>\<open>component_runtime.cpp\<close>), \<open>Pi0Preprocess\<close> (\<^verbatim>\<open>preprocess.cpp\<close>), \<open>Pi0Gemma\<close> (\<^verbatim>\<open>weights.cpp\<close> and the transformer layer
    of \<^verbatim>\<open>action.cpp\<close> and \<^verbatim>\<open>vlm.cpp\<close>), \<open>Pi0Runtime\<close> (\<^verbatim>\<open>pi0_context.h\<close>, tensors that outlive a graph), \<open>Pi0Action\<close>
    (\<^verbatim>\<open>action.cpp\<close>), \<open>Pi0Vlm\<close> and \<open>Pi0Prefix\<close> (\<^verbatim>\<open>vlm.cpp\<close>), \<open>Pi0Model\<close> (\<^verbatim>\<open>pi0_engine.cpp\<close>, \<^verbatim>\<open>pi0_model.cpp\<close>);
    \<open>Pi0LoadProps\<close>, \<open>Pi0ActionProps\<close>, \<open>Pi0Sampling\<close>, \<open>Pi0VlmProps\<close>, \<open>Pi0VisionProps\<close>, \<open>Pi0PrefixProps\<close>,
    \<open>Pi0PrefillProps\<close>, \<open>Pi0Prefill\<close>: what loading establishes and why no graph is refused by ggml; \<open>Pi0Life\<close>: a model
    from loading through any sequence of calls; \<open>Pi0Mask\<close> and \<open>Pi0Fresh\<close>: the attention mask and the age of the cached
    prefix; \<open>PlainPi0\<close>, \<open>Pi0Examples\<close>: a concrete device and six files.

  \<^bold>\<open>Conventions.\<close>  A C++ function \<open>bool f(..., std::string \& error)\<close>, or one that throws, is a function into
  \<open>string + 'a\<close>; where the code could run into undefined behaviour, an assertion or an endless loop, the result is an
  option of that (\<open>'a run\<close>) and \<open>None\<close> says so.  Strings and buffers are lists of bytes, pointers that may be null are
  options, \<open>int\<close> is \<open>int\<close> with every overflow a \<open>None\<close> or guarded as in the code, sizes are \<open>nat\<close> with the
  wrap-around written out.  Methods that change an object take and return it: \<open>('a, 's) act\<close> is a state monad with
  errors, whose state survives an error as it does in the code.

  What owns a resource is modelled pointer by pointer: the loaders and \<open>cleanup\<close> keep the local handles and a log of what is
  acquired and freed, and \<open>held\<close> reads from the log what is held, or that something was freed that was not.

  \<^bold>\<open>What the theorems show.\<close>  The codecs accept exactly what they produce; the session answers every request once and
  in order, ends with the answered shutdown request and never holds its lock afterwards; a client request carries the
  observation byte for byte; a prediction through client, wire and server is the prediction of the model.  Resizing
  never reads outside a buffer when its filter tables are in range.  Graphs of loaded policies that fit the graph context
  respect every shape condition of ggml and a stale graph is never run, so a sequence of evaluations always returns, with
  errors or with finite actions of the right shape.  The batch made of a prompt holds the row, id and position of every
  token; the hidden states handed to a policy are the nodes the architecture designates in the evaluation of that batch,
  each seen once; tokens generated continue the ids of the prompt, stay in the vocabulary and stop at the first end token.
  Whatever is asked of a bridge or an engine, in whatever order and with whatever errors, no capture stays armed and the
  configuration stays the one that loading checked.  A prediction that succeeds has the shape callers rely on.  A Pi0 model
  that loads has read six files that agree; loading frees what it took on every error, and nothing twice; its tensors
  have the shapes its graphs need, so that every sequence of predictions and resets returns, whatever the errors in
  between.

  \<^bold>\<open>Bounds.\<close>  Recursions are structural or have a measure; \<open>resolve_normalization_profile\<close> and the replacement loop of
  the prompts may not return and are partial, with theorems on when they do; the accept loop of the server takes the list
  of connections it will see.  The graphs of the policies are built in a context of \<open>kGraphSize\<close> tensors
  (\<open>groot_graph_size\<close>, \<open>pi_graph_size\<close>, \<open>pi_v3_graph_size\<close>), those of Pi0 with the default graph size of ggml
  (\<open>ggml_default_graph_size\<close>); loading does not bound the number of blocks, so the theorems ask for the number of tensors of
  the configuration to stay below, which the examples show for their files.

  \<^bold>\<open>Parameters.\<close>  ggml, gguf, llama.cpp, mtmd, the operating system, the clock, the random numbers, \<open>exp\<close>, \<open>sin\<close> and the
  like are arguments: records of functions with the documented laws as named hypotheses, all satisfied by the concrete
  instances of the example theories.

  \<^bold>\<open>Not modelled.\<close>  Log output and the release of C++ objects whose destructors only free memory; the CUDA branches of the
  capture (device code behind \<open>ROBOTCPP_STARVLA_CUDA\<close>, no source for the host); allocation failure; the socket code for
  Windows.  The model of \<^verbatim>\<open>src/models/smolvla\<close>, an engine of its own, is left to a
  later extension.  Tests, the Python client, evaluation scripts, converters and vendored libraries are not part of the
  program's C++ core.
\<close>

subsection \<open>Client and server together\<close>

text \<open>C1. A remote prediction is the prediction of the model: when the client's request reaches the
  server and the server's output reaches the client, however the network cuts the two streams,
  the client gets the model's actions with their chunk size and dimension, and the model has
  been asked exactly once, on the observation the client was given.\<close>

theorem remote_prediction:
  assumes connected: "tcp_connect pton (cl_host cl) (cl_port cl) (nt_os nt) = (Inr fd, st)"
    and request: "make_predict_request obs = Some (Inr req)" "encode_predict_request req = Inr payload"
      "length payload \<le> 268435456"
    and server: "tx_reliable (se_conn s)" "\<not> se_locked s" "\<not> se_shutdown s" "cn_tx (se_conn s) = []"
      "handle_client ops s = (out, s')"
    and model: "se_model s = Some m" "mod_predict ops (adapt_request req) m = (Inr result, m')"
      "result_shaped result" "result_fits result"
    and network: "tx_reliable (nt_conn nt)" "cn_tx (nt_conn nt) = []"
      "incoming (se_conn s) = frame (message_header op_predict (cl_next_id cl) status_ok payload) payload"
      "incoming (nt_conn nt) = cn_tx (se_conn s')" "length (cn_tx (se_conn s')) \<le> 268435456"
  shows "\<exists>response nt'. client_predict pton obs cl nt = Some (Inr response, cl\<lparr>cl_next_id := cl_next_id cl + 1\<rparr>, nt') \<and>
    cn_tx (nt_conn nt') = incoming (se_conn s) \<and> se_model s' = Some m' \<and>
    cr_actions response = mr_actions result \<and> int (unat (cr_chunk_size response)) = mr_chunk_size result \<and>
    int (unat (cr_action_dim response)) = mr_action_dim result"
proof -
  have "list_all image_ok (rq_images req)" "representable req"
    using request(2) make_predict_request_ok(3) [OF request(1)]
    by (auto simp: encode_request_iff request_ok_def image_ok_iff list_all_iff)
  then have dec: "decode_predict_request payload = Inr req"
    using request(2) by (simp add: decode_request_iff encode_request_iff)
  let ?h = "message_header op_predict (cl_next_id cl) status_ok payload"
  have "hd_op ?h = op_predict" "hd_request_id ?h = cl_next_id cl"
    by (simp_all add: message_header_def)
  with handle_client_one_prediction [OF server(1-3) network(3) valid_message_iff [OF request(3)] _ dec model server(5)]
  obtain a b c where m': "se_model s' = Some m'" and tx: "cn_tx (se_conn s') =
    (let body = response_wire (served_response result a b c)
     in frame (message_header op_predict (cl_next_id cl) status_ok body) body)"
    using server(4) by auto
  define body where "body = response_wire (served_response result a b c)"
  have inc: "incoming (nt_conn nt) = frame (message_header op_predict (cl_next_id cl) status_ok body) body @ []"
    and len: "length body \<le> 268435456"
    using network(4,5) tx by (simp_all add: body_def Let_def frame_def)
  from exchange_reply [OF network(1) inc len] obtain c' where
    ex: "exchange op_predict (cl_next_id cl) payload (nt_conn nt)
      = (Inr (message_header op_predict (cl_next_id cl) status_ok body, body), c')"
    and sent: "cn_tx c' = frame ?h payload"
    using network(2) by fastforce
  have "call pton op_predict payload cl nt = (Inr body, cl\<lparr>cl_next_id := cl_next_id cl + 1\<rparr>,
      nt\<lparr>nt_os := close fd st, nt_conn := c'\<rparr>)"
    by (simp add: call_def startup_def connected ex check_response_ok)
  moreover have "decode_predict_response body = Inr (served_response result a b c)"
    using served_response_ok [OF model(3,4)] by (simp add: decode_response_iff body_def)
  ultimately have "client_predict pton obs cl nt = Some (Inr (client_response_of (served_response result a b c)),
      cl\<lparr>cl_next_id := cl_next_id cl + 1\<rparr>, nt\<lparr>nt_os := close fd st, nt_conn := c'\<rparr>)"
    by (simp add: client_predict_def request)
  moreover have "int (unat (word_of_int (mr_chunk_size result) :: u32)) = mr_chunk_size result"
    "int (unat (word_of_int (mr_action_dim result) :: u32)) = mr_action_dim result"
    using model(3,4) by (simp_all add: unat_word_of_int_u32 result_shaped_def result_fits_def)
  ultimately show ?thesis
    using m' sent network(3) by (simp add: client_response_of_def served_response_def)
qed

text \<open>A server that has answered one request, and the network of the client that sent it.\<close>

definition sample_payload :: "u8 list" where
  "sample_payload = request_wire sample_client_request"

definition sample_server :: "nat session" where
  "sample_server = sample_session [Chunk (frame (message_header op_predict 1 status_ok sample_payload) sample_payload)]"

definition sample_net :: net where
  "sample_net = \<lparr>nt_os = \<lparr>os_fds = [], os_errno = [], os_script = [Sys_ok 3, Sys_ok 0], os_peer = (None, 0), os_trace = []\<rparr>,
     nt_conn = \<lparr>cn_rx = [Chunk (cn_tx (se_conn (snd (handle_client sample_model sample_server))))], cn_tx = [],
       cn_tx_script = [], cn_errno = []\<rparr>\<rparr>"

theorem remote_prediction_witness:
  "\<exists>response nt'. client_predict (\<lambda>_. Some 0) sample_observation (new_client ''127.0.0.1'' 5555) sample_net
     = Some (Inr response, \<lparr>cl_host = ''127.0.0.1'', cl_port = 5555, cl_next_id = 2\<rparr>, nt') \<and> cr_actions response = [f32_one]"
proof -
  let ?cl = "new_client ''127.0.0.1'' 5555" and ?s = sample_server
  let ?result = "\<lparr>mr_actions = [f32_one], mr_chunk_size = 1, mr_action_dim = 1, mr_metrics = []\<rparr>"
  let ?h = "message_header op_predict 1 status_ok sample_payload"
  obtain out s' where run: "handle_client sample_model ?s = (out, s')" by force
  obtain fd st where tcp: "tcp_connect (\<lambda>_. Some 0) (cl_host ?cl) (cl_port ?cl) (nt_os sample_net) = (Inr fd, st)"
    by (simp add: tcp_connect_def os_simps sample_net_def)
  have ok: "request_ok sample_client_request" "representable sample_client_request"
    by (simp_all add: request_ok_def representable_def sample_client_request_def image_ok_iff f32_finite_def
        f32_one_def fmt_simps)
  then have enc: "encode_predict_request sample_client_request = Inr sample_payload"
    and dec: "decode_predict_request sample_payload = Inr sample_client_request"
    by (simp_all add: encode_request_iff decode_request_iff sample_payload_def)
  have len: "length sample_payload \<le> 268435456"
    by (simp add: sample_payload_def request_wire_def sample_client_request_def put_request_counts_def put_bytes
        meta_wire_def meta_of_def image_meta_wire_def put_image_meta_def image_body_wire_def put_image_body_def)
  have "frame ?h sample_payload \<noteq> []"
    by (simp add: frame_def flip: length_greater_0_conv)
  then have inc: "incoming (se_conn ?s) = frame ?h sample_payload"
    by (simp add: sample_server_def sample_session_def incoming_def)
  have s: "tx_reliable (se_conn ?s)" "\<not> se_locked ?s" "\<not> se_shutdown ?s" "cn_tx (se_conn ?s) = []" "se_model ?s = Some 0"
    "hd_op ?h = op_predict"
    by (simp_all add: sample_server_def sample_session_def tx_reliable_def message_header_def)
  have model: "mod_predict sample_model (adapt_request sample_client_request) 0 = (Inr ?result, 1)"
    "result_shaped ?result" "result_fits ?result"
    by (simp_all add: sample_model_def result_shaped_def result_fits_def)
  obtain a b c where tx: "cn_tx (se_conn s') = (let body = response_wire (served_response ?result a b c)
       in frame (message_header op_predict (hd_request_id ?h) status_ok body) body)"
    using handle_client_one_prediction [OF s(1-3) inc valid_message_iff [OF len] s(6) dec s(5) model run] s(4) by auto
  have "0 < length (cn_tx (se_conn s'))" "length (cn_tx (se_conn s')) \<le> 268435456"
    by (simp_all add: tx Let_def frame_def response_wire_def served_response_def metric_wire_bytes)
  then have net: "incoming (nt_conn sample_net) = cn_tx (se_conn s')" "length (cn_tx (se_conn s')) \<le> 268435456"
    "tx_reliable (nt_conn sample_net)" "cn_tx (nt_conn sample_net) = []"
    by (simp_all add: sample_net_def incoming_def run tx_reliable_def)
  have "incoming (se_conn ?s) = frame (message_header op_predict (cl_next_id ?cl) status_ok sample_payload) sample_payload"
    using inc by (simp add: new_client_def)
  from remote_prediction [OF tcp sample_client_request_made enc len s(1-4) run s(5) model net(3,4) this net(1,2)]
  show ?thesis by (auto simp: new_client_def)
qed

end
